(* ===== verification/Prelude.thy ===== *)
theory Prelude
  imports "HOL-Library.Word"
begin

text \<open>
  Shared vocabulary of the development: the machine types, the result type of the modelled C
  functions, memory reads and writes with their bounds, big-endian halves of 16-bit words and the
  rewrite rules the component theories use.

  A C function that can fail returns a value of \<^typ>\<open>'a + 'b\<close>: \<open>Inr\<close> carries what it returns, and
  \<open>Inl\<close> an error. \<open>Fail\<close> is the negative return code of the source. \<open>Fault\<close> marks an access outside
  the memory object a pointer refers to, which C leaves undefined. The two are kept apart, so that
  "never returns \<open>Fault\<close>" is the memory-safety statement.

  A constant source pointer is the list of bytes from the position it points to up to the end of its
  memory object: pointer arithmetic \<open>data + k\<close> is \<open>drop k data\<close>. A destination buffer is the whole
  object together with a position. The lengths the source keeps in a \<open>uint16_t\<close> are natural numbers
  below 65536, with \<open>mod 65536\<close> written where an assignment may wrap.
\<close>

unbundle bit_operations_syntax

type_synonym u8 = "8 word"
type_synonym u16 = "16 word"
type_synonym u64 = "64 word"

named_theorems codec_defs \<open>definitions of the message readers and writers\<close>
named_theorems gen_simps \<open>effect of the writers on a partly written buffer\<close>
named_theorems safe_intros \<open>no access outside a memory object\<close>

section \<open>Results\<close>

datatype cerr = Fail | Fault | Abort

type_synonym 'a cres = "cerr + 'a"

fun cbind :: "'a cres \<Rightarrow> ('a \<Rightarrow> 'b cres) \<Rightarrow> 'b cres" where
  "cbind (Inl e) f = Inl e"
| "cbind (Inr x) f = f x"

lemma cbind_eq_Inr: "cbind r f = Inr y \<longleftrightarrow> (\<exists>x. r = Inr x \<and> f x = Inr y)"
  by (cases r) auto

lemma cbind_eq_Inl: "cbind r f = Inl e \<longleftrightarrow> r = Inl e \<or> (\<exists>x. r = Inr x \<and> f x = Inl e)"
  by (cases r) auto

lemma cbind_if [simp]: "cbind (if b then r else s) f = (if b then cbind r f else cbind s f)"
  by simp

lemma cbind_assoc: "cbind (cbind r f) g = cbind r (\<lambda>x. cbind (f x) g)"
  by (cases r) auto

lemma cbind_cong [fundef_cong]:
  "r = s \<Longrightarrow> (\<And>x. s = Inr x \<Longrightarrow> f x = g x) \<Longrightarrow> cbind r f = cbind s g"
  by (cases s) auto

definition safe :: "'a cres \<Rightarrow> bool" where
  "safe r \<longleftrightarrow> r \<noteq> Inl Fault"

lemma safe_Inr [simp, safe_intros]: "safe (Inr x)"
  by (simp add: safe_def)

lemma safe_Fail [simp, safe_intros]: "safe (Inl Fail)"
  by (simp add: safe_def)

lemma safe_Abort [simp, safe_intros]: "safe (Inl Abort)"
  by (simp add: safe_def)

lemma not_safe_Fault [simp]: "\<not> safe (Inl Fault)"
  by (simp add: safe_def)

lemma safe_cbind [safe_intros]:
  "safe r \<Longrightarrow> (\<And>x. r = Inr x \<Longrightarrow> safe (f x)) \<Longrightarrow> safe (cbind r f)"
  by (cases r) (auto simp: safe_def)

lemma safe_if [safe_intros]: "(b \<Longrightarrow> safe r) \<Longrightarrow> (\<not> b \<Longrightarrow> safe s) \<Longrightarrow> safe (if b then r else s)"
  by simp

lemma safe_case_prod [safe_intros]:
  "(\<And>a b. x = (a, b) \<Longrightarrow> safe (f a b)) \<Longrightarrow> safe (case x of (a, b) \<Rightarrow> f a b)"
  by (cases x) simp

section \<open>Memory\<close>

definition rd :: "u8 list \<Rightarrow> nat \<Rightarrow> u8 cres" where
  "rd p i = (if i < length p then Inr (p ! i) else Inl Fault)"

definition rds :: "u8 list \<Rightarrow> nat \<Rightarrow> u8 list cres" where
  "rds p n = (if n \<le> length p then Inr (take n p) else Inl Fault)"

definition wr_bytes :: "u8 list \<Rightarrow> nat \<Rightarrow> u8 list \<Rightarrow> u8 list cres" where
  "wr_bytes dst pos bs =
     (if pos + length bs \<le> length dst
      then Inr (take pos dst @ bs @ drop (pos + length bs) dst)
      else Inl Fault)"

text \<open>The same for arrays of other element types.\<close>

definition rd_arr :: "'a list \<Rightarrow> nat \<Rightarrow> 'a cres" where
  "rd_arr a i = (if i < length a then Inr (a ! i) else Inl Fault)"

definition wr_arr :: "'a list \<Rightarrow> nat \<Rightarrow> 'a \<Rightarrow> 'a list cres" where
  "wr_arr a i v = (if i < length a then Inr (a[i := v]) else Inl Fault)"

lemma rd_arr_in [simp]: "i < length a \<Longrightarrow> rd_arr a i = Inr (a ! i)"
  by (simp add: rd_arr_def)

lemma wr_arr_in [simp]: "i < length a \<Longrightarrow> wr_arr a i v = Inr (a[i := v])"
  by (simp add: wr_arr_def)

lemma rd_Cons_0 [simp]: "rd (x # xs) 0 = Inr x"
  by (simp add: rd_def)

lemma rd_Cons_Suc [simp]: "rd (x # xs) (Suc i) = rd xs i"
  by (simp add: rd_def)

lemma rd_Cons_numeral [simp]: "rd (x # xs) (numeral k) = rd xs (pred_numeral k)"
  by (simp add: rd_def numeral_eq_Suc)

lemma rd_Nil [simp]: "rd [] i = Inl Fault"
  by (simp add: rd_def)

lemma rd_one [simp]: "rd (x # xs) 1 = rd xs 0"
  by (simp add: rd_def)

lemma safe_rd [safe_intros]: "i < length p \<Longrightarrow> safe (rd p i)"
  by (simp add: rd_def)

lemma safe_rds [safe_intros]: "n \<le> length p \<Longrightarrow> safe (rds p n)"
  by (simp add: rds_def)

lemma rds_append [simp]: "rds (xs @ ys) (length xs) = Inr xs"
  by (simp add: rds_def)

lemma rd_drop [simp]: "rd (drop k p) i = rd p (k + i)"
  by (auto simp: rd_def)

definition patched :: "u8 list \<Rightarrow> u8 list \<Rightarrow> u8 list" where
  "patched dst ps = ps @ drop (length ps) dst"

lemma patched_Nil [simp]: "patched dst [] = dst"
  by (simp add: patched_def)

lemma length_patched: "length ps \<le> length dst \<Longrightarrow> length (patched dst ps) = length dst"
  by (simp add: patched_def)

lemma take_patched: "take (length ps) (patched dst ps) = ps"
  by (simp add: patched_def)

lemma wr_bytes_patched [simp]:
  assumes "length ps + length bs \<le> length dst"
  shows "wr_bytes (patched dst ps) (length ps) bs = Inr (patched dst (ps @ bs))"
  using assms by (simp add: wr_bytes_def patched_def add.commute)

lemma wr_bytes_0 [simp]: "length bs \<le> length dst \<Longrightarrow> wr_bytes dst 0 bs = Inr (patched dst bs)"
  by (simp add: wr_bytes_def patched_def)

lemma patched_patched [simp]:
  "length ps \<le> length qs \<Longrightarrow> patched (patched dst ps) qs = patched dst qs"
  by (simp add: patched_def)

text \<open>The C string at the start of an object.\<close>

definition c_string :: "u8 list \<Rightarrow> u8 list" where
  "c_string p = takeWhile (\<lambda>c. c \<noteq> 0) p"

lemma c_string_patched [simp]: "c_string (patched dst (c_string bs @ [0])) = c_string bs"
  by (simp add: c_string_def patched_def takeWhile_append)

lemma c_string_Nil [simp]: "c_string [] = []"
  by (simp add: c_string_def)

lemma length_c_string_le: "length (c_string p) \<le> length p"
  by (simp add: c_string_def length_takeWhile_le)

lemma length_c_string_less: "0 \<in> set p \<Longrightarrow> length (c_string p) < length p"
  unfolding c_string_def by (induction p) auto

lemma length_wr_bytes: "wr_bytes dst pos bs = Inr dst' \<Longrightarrow> length dst' = length dst"
  by (auto simp: wr_bytes_def split: if_splits)

lemma safe_wr_bytes [safe_intros]: "pos + length bs \<le> length dst \<Longrightarrow> safe (wr_bytes dst pos bs)"
  by (simp add: wr_bytes_def)

text \<open>\<open>strlen\<close> and \<open>strcmp\<close> read behind an array that holds no terminator.\<close>

definition c_strlen :: "u8 list \<Rightarrow> nat cres" where
  "c_strlen str = (if 0 \<in> set str then Inr (length (c_string str)) else Inl Fault)"

text \<open>\<open>strcmp(a, b) == 0\<close> reads up to the first difference or the common end.\<close>

fun c_streq :: "u8 list \<Rightarrow> u8 list \<Rightarrow> bool cres" where
  "c_streq (a # as) (b # bs) =
     (if a \<noteq> b then Inr False else if a = 0 then Inr True else c_streq as bs)"
| "c_streq _ _ = Inl Fault"

section \<open>Big-endian 16-bit fields\<close>

definition hi8 :: "u16 \<Rightarrow> u8" where
  "hi8 w = ucast (drop_bit 8 w)"

definition lo8 :: "u16 \<Rightarrow> u8" where
  "lo8 w = ucast w"

definition be16 :: "u8 \<Rightarrow> u8 \<Rightarrow> u16" where
  "be16 a b = push_bit 8 (ucast a) OR ucast b"

lemma be16_hi_lo [simp]: "be16 (hi8 w) (lo8 w) = w"
  by (rule bit_eqI) (auto simp: be16_def hi8_def lo8_def bit_simps)

lemma hi8_be16 [simp]: "hi8 (be16 a b) = a"
  by (rule bit_eqI) (auto simp: be16_def hi8_def bit_simps dest: bit_imp_le_length)

lemma lo8_be16 [simp]: "lo8 (be16 a b) = b"
  by (rule bit_eqI) (auto simp: be16_def lo8_def bit_simps dest: bit_imp_le_length)

lemma be16_eq_iff: "be16 a b = w \<longleftrightarrow> a = hi8 w \<and> b = lo8 w"
  by auto

text \<open>The value an \<open>int\<close> difference has once it is stored in a \<open>uint16_t\<close>.\<close>

definition u16_sub :: "nat \<Rightarrow> nat \<Rightarrow> nat" where
  "u16_sub a b = nat ((int a - int b) mod 65536)"

lemma u16_sub_le [simp]: "b \<le> a \<Longrightarrow> a < 65536 \<Longrightarrow> u16_sub a b = a - b"
  by (simp add: u16_sub_def nat_diff_distrib)

lemma u16_lt: "unat (w :: u16) < 65536"
  using unsigned_less [of w] by simp

lemma u8_lt: "unat (w :: u8) < 256"
  using unsigned_less [of w] by simp

lemma u8_le: "unat (w :: u8) \<le> 255"
  using u8_lt [of w] by simp

lemma uint_u8: "uint (w :: u8) \<in> {0..255}"
proof -
  have "int (unat w) < int 256"
    using u8_lt [of w] by (simp only: of_nat_less_iff)
  then show ?thesis by simp
qed

lemma unat_u16_of_nat: "n < 65536 \<Longrightarrow> unat (of_nat n :: u16) = n"
  by (simp add: unat_of_nat)

lemma unat_u8_of_nat: "n < 256 \<Longrightarrow> unat (of_nat n :: u8) = n"
  by (simp add: unat_of_nat)

end
