(* ===== verification/Call_Monad.thy ===== *)
theory Call_Monad
  imports Prelude
begin

text \<open>
  Calls on an object with the world behind it, as the client and the gateway make them. A call is a
  function from the state to a result and the new state, or to the reason why there is none: a memory
  access outside an object, a failed assertion, or the fuel of the model. The error codes of the source
  are results like any other.

  The triple \<open>hoare P m Q\<close> says that from a state with \<open>P\<close> the call makes no access outside its memory, and
  that a result it returns satisfies \<open>Q\<close> together with the new state. Most calls keep a predicate of the
  state, \<open>maintains P m\<close>; these facts are collected under this name and applied backwards through a call.
  What is known of a result is a fact about \<open>gives P m x\<close>, "from a state with \<open>P\<close> the call can return
  \<open>x\<close>", which the rule for sequences hands on. The \<open>run\<close> rules execute a call from a given state.
\<close>

section \<open>Calls\<close>

datatype stopped = Memory_Fault | Assertion | Out_Of_Fuel

definition cl_return :: "'a \<Rightarrow> 's \<Rightarrow> stopped + 'a \<times> 's" where
  "cl_return x s = Inr (x, s)"

definition cl_stop :: "stopped \<Rightarrow> 's \<Rightarrow> stopped + 'a \<times> 's" where
  "cl_stop e s = Inl e"

definition cl_bind ::
  "('s \<Rightarrow> stopped + 'a \<times> 's) \<Rightarrow> ('a \<Rightarrow> 's \<Rightarrow> stopped + 'b \<times> 's) \<Rightarrow> 's \<Rightarrow> stopped + 'b \<times> 's" where
  "cl_bind m f s = (case m s of Inl e \<Rightarrow> Inl e | Inr (x, s') \<Rightarrow> f x s')"

text \<open>A call of a reader or writer: its negative return code is \<open>None\<close>.\<close>

definition cl_call :: "'a cres \<Rightarrow> 's \<Rightarrow> stopped + 'a option \<times> 's" where
  "cl_call r s =
     (case r of Inr x \<Rightarrow> Inr (Some x, s) | Inl Fail \<Rightarrow> Inr (None, s)
      | Inl Fault \<Rightarrow> Inl Memory_Fault | Inl Abort \<Rightarrow> Inl Assertion)"

text \<open>A memory access or a call that has no negative return code.\<close>

definition cl_mem :: "'a cres \<Rightarrow> 's \<Rightarrow> stopped + 'a \<times> 's" where
  "cl_mem r s =
     (case r of Inr x \<Rightarrow> Inr (x, s) | Inl Abort \<Rightarrow> Inl Assertion | Inl _ \<Rightarrow> Inl Memory_Fault)"

lemma cl_bind_return [simp]: "cl_bind (cl_return x) f = f x"
  by (rule ext) (simp add: cl_bind_def cl_return_def)

lemma cl_bind_stop [simp]: "cl_bind (cl_stop e) f = cl_stop e"
  by (rule ext) (simp add: cl_bind_def cl_stop_def)

lemma cl_bind_assoc: "cl_bind (cl_bind m f) g = cl_bind m (\<lambda>x. cl_bind (f x) g)"
  by (rule ext) (auto simp: cl_bind_def split: sum.splits)

lemma cl_bind_if: "cl_bind (if b then m else m') f = (if b then cl_bind m f else cl_bind m' f)"
  by simp

lemma cl_call_simps [simp]:
  "cl_call (Inr x) = cl_return (Some x)" "cl_call (Inl Fail) = cl_return None"
  "cl_call (Inl Fault) = cl_stop Memory_Fault" "cl_call (Inl Abort) = cl_stop Assertion"
  by (auto simp: cl_call_def cl_return_def cl_stop_def)

lemma cl_mem_simps [simp]:
  "cl_mem (Inr x) = cl_return x" "cl_mem (Inl Fault) = cl_stop Memory_Fault"
  by (auto simp: cl_mem_def cl_return_def cl_stop_def)

text \<open>The state has two parts: the object and the world.\<close>

definition cl_get :: "('c \<Rightarrow> 'a) \<Rightarrow> 'c \<times> 'w \<Rightarrow> stopped + 'a \<times> 'c \<times> 'w" where
  "cl_get f s = Inr (f (fst s), s)"

definition cl_put :: "('c \<Rightarrow> 'c) \<Rightarrow> 'c \<times> 'w \<Rightarrow> stopped + unit \<times> 'c \<times> 'w" where
  "cl_put f s = Inr ((), f (fst s), snd s)"

definition cl_world :: "('w \<Rightarrow> 'a \<times> 'w) \<Rightarrow> 'c \<times> 'w \<Rightarrow> stopped + 'a \<times> 'c \<times> 'w" where
  "cl_world f s = (let (x, w) = f (snd s) in Inr (x, fst s, w))"

named_theorems maintains \<open>calls that keep the invariant\<close>

section \<open>Triples\<close>

definition hoare :: "('s \<Rightarrow> bool) \<Rightarrow> ('s \<Rightarrow> stopped + 'a \<times> 's) \<Rightarrow> ('a \<Rightarrow> 's \<Rightarrow> bool) \<Rightarrow> bool" where
  "hoare P m Q \<longleftrightarrow>
     (\<forall>s. P s \<longrightarrow> (case m s of Inl e \<Rightarrow> e \<noteq> Memory_Fault | Inr (x, s') \<Rightarrow> Q x s'))"

lemma hoare_return: "(\<And>s. P s \<Longrightarrow> Q x s) \<Longrightarrow> hoare P (cl_return x) Q"
  by (simp add: hoare_def cl_return_def)

lemma hoare_bind:
  "hoare P m R \<Longrightarrow> (\<And>x. hoare (R x) (f x) Q) \<Longrightarrow> hoare P (cl_bind m f) Q"
  by (fastforce simp: hoare_def cl_bind_def split: sum.splits)

lemma hoare_mono:
  "hoare P' m Q' \<Longrightarrow> (\<And>s. P s \<Longrightarrow> P' s) \<Longrightarrow> (\<And>x s. Q' x s \<Longrightarrow> Q x s) \<Longrightarrow> hoare P m Q"
  by (fastforce simp: hoare_def split: sum.splits)

lemma hoare_if:
  "(b \<Longrightarrow> hoare P m Q) \<Longrightarrow> (\<not> b \<Longrightarrow> hoare P m' Q) \<Longrightarrow> hoare P (if b then m else m') Q"
  by simp

text \<open>What is read from the client is known from then on.\<close>

lemma hoare_get:
  "(\<And>s. P s \<Longrightarrow> hoare (\<lambda>s'. s' = s) (g (f (fst s))) Q) \<Longrightarrow> hoare P (cl_bind (cl_get f) g) Q"
  by (simp add: hoare_def cl_bind_def cl_get_def)

lemma hoare_put: "(\<And>c w. P (c, w) \<Longrightarrow> Q () (f c, w)) \<Longrightarrow> hoare P (cl_put f) Q"
  by (simp add: hoare_def cl_put_def)

lemma hoare_from: "hoare P m Q \<Longrightarrow> P s \<Longrightarrow> hoare (\<lambda>s'. s' = s) m Q"
  by (simp add: hoare_def)

lemma hoare_result: "hoare P m Q \<Longrightarrow> P s \<Longrightarrow> m s = Inr (x, s') \<Longrightarrow> Q x s'"
  by (auto simp: hoare_def split: sum.splits)

lemma hoare_safe: "hoare P m Q \<Longrightarrow> P s \<Longrightarrow> m s \<noteq> Inl Memory_Fault"
  by (auto simp: hoare_def split: sum.splits)

definition maintains :: "('s \<Rightarrow> bool) \<Rightarrow> ('s \<Rightarrow> stopped + 'a \<times> 's) \<Rightarrow> bool" where
  "maintains P m \<longleftrightarrow> hoare P m (\<lambda>_. P)"

definition gives :: "('s \<Rightarrow> bool) \<Rightarrow> ('s \<Rightarrow> stopped + 'a \<times> 's) \<Rightarrow> 'a \<Rightarrow> bool" where
  "gives P m x \<longleftrightarrow> (\<exists>s s'. P s \<and> m s = Inr (x, s'))"

lemma keeps_return [maintains]: "maintains P (cl_return x)"
  by (simp add: maintains_def hoare_return)

lemma keeps_bind [maintains]:
  "maintains P m \<Longrightarrow> (\<And>x. gives P m x \<Longrightarrow> maintains P (f x)) \<Longrightarrow> maintains P (cl_bind m f)"
  unfolding maintains_def by (rule hoare_bind [where R = "\<lambda>x s. P s \<and> gives P m x"])
    (auto simp: hoare_def gives_def split: sum.splits)

lemma keeps_if [maintains]:
  "(b \<Longrightarrow> maintains P m) \<Longrightarrow> (\<not> b \<Longrightarrow> maintains P m') \<Longrightarrow> maintains P (if b then m else m')"
  by simp

lemma keeps_prod [maintains]:
  "(\<And>a b. x = (a, b) \<Longrightarrow> maintains P (f a b)) \<Longrightarrow> maintains P (case x of (a, b) \<Rightarrow> f a b)"
  by (cases x) simp

lemma keeps_option [maintains]:
  "(x = None \<Longrightarrow> maintains P m) \<Longrightarrow> (\<And>y. x = Some y \<Longrightarrow> maintains P (f y))
   \<Longrightarrow> maintains P (case x of None \<Rightarrow> m | Some y \<Rightarrow> f y)"
  by (cases x) simp_all

lemma keeps_stop [maintains]: "e \<noteq> Memory_Fault \<Longrightarrow> maintains P (cl_stop e)"
  by (simp add: maintains_def hoare_def cl_stop_def)

lemma keeps_get [maintains]: "maintains P (cl_get f)"
  by (simp add: maintains_def hoare_def cl_get_def)

lemma keeps_call: "safe r \<Longrightarrow> maintains P (cl_call r)"
proof (cases r)
  case (Inl e)
  then show "safe r \<Longrightarrow> ?thesis"
    by (cases e) (auto intro: maintains)
qed (auto intro: maintains)

lemma keeps_world: "(\<And>s w. P s \<Longrightarrow> P (fst s, w)) \<Longrightarrow> maintains P (cl_world f)"
  by (auto simp: maintains_def hoare_def cl_world_def split: prod.splits)

lemma keeps_put: "(\<And>c w. P (c, w) \<Longrightarrow> P (f c, w)) \<Longrightarrow> maintains P (cl_put f)"
  by (simp add: maintains_def hoare_put)

text \<open>From a triple to the call on a state.\<close>

lemma keeps_safe: "maintains P m \<Longrightarrow> P s \<Longrightarrow> m s \<noteq> Inl Memory_Fault"
  by (auto simp: maintains_def hoare_def split: sum.splits)

lemma keeps_state: "maintains P m \<Longrightarrow> P s \<Longrightarrow> m s = Inr (x, s') \<Longrightarrow> P s'"
  unfolding maintains_def by (drule hoare_result)

lemma keeps_hoare: "maintains P m \<Longrightarrow> (\<And>x s. gives P m x \<Longrightarrow> P s \<Longrightarrow> Q x s) \<Longrightarrow> hoare P m Q"
proof -
  assume k: "maintains P m" and q: "\<And>x s. gives P m x \<Longrightarrow> P s \<Longrightarrow> Q x s"
  have "Q x s'" if "P s" "m s = Inr (x, s')" for s x s'
    using q [of x s'] keeps_state [OF k that] that by (auto simp: gives_def)
  then show ?thesis
    using keeps_safe [OF k] by (auto simp: hoare_def split: sum.splits)
qed

text \<open>Keeping a predicate for the first part of a call, and then something else.\<close>

lemma hoare_keeps_bind:
  assumes "maintains P m" "\<And>x. gives P m x \<Longrightarrow> hoare P (f x) Q"
  shows "hoare P (cl_bind m f) Q"
proof (rule hoare_bind)
  show "hoare P m (\<lambda>x s. gives P m x \<and> P s)"
    by (rule keeps_hoare [OF assms(1)]) simp
  show "hoare (\<lambda>s. gives P m x \<and> P s) (f x) Q" for x
    using assms(2) [of x] by (auto simp: hoare_def)
qed

lemma hoare_prod:
  "(\<And>a b. x = (a, b) \<Longrightarrow> hoare P (f a b) Q) \<Longrightarrow> hoare P (case x of (a, b) \<Rightarrow> f a b) Q"
  by (cases x) simp

lemma hoare_option:
  "(x = None \<Longrightarrow> hoare P m Q) \<Longrightarrow> (\<And>y. x = Some y \<Longrightarrow> hoare P (f y) Q)
   \<Longrightarrow> hoare P (case x of None \<Rightarrow> m | Some y \<Rightarrow> f y) Q"
  by (cases x) simp_all

lemma hoare_put_return:
  "(\<And>c w. P (c, w) \<Longrightarrow> Q x (f c, w)) \<Longrightarrow> hoare P (cl_bind (cl_put f) (\<lambda>_. cl_return x)) Q"
  by (rule hoare_bind [OF hoare_put hoare_return])

lemmas hoare_intros = hoare_put_return hoare_keeps_bind hoare_prod hoare_option hoare_if hoare_return

lemma gives_return [dest!]: "gives P (cl_return x) y \<Longrightarrow> y = x"
  by (simp add: gives_def cl_return_def)

lemma gives_stop [simp]: "\<not> gives P (cl_stop e) y"
  by (simp add: gives_def cl_stop_def)

lemma gives_bind:
  "gives P (cl_bind m f) y \<Longrightarrow> maintains P m \<Longrightarrow> \<exists>x. gives P m x \<and> gives P (f x) y"
proof -
  assume "gives P (cl_bind m f) y" "maintains P m"
  then obtain s s' where y: "P s" "cl_bind m f s = Inr (y, s')"
    by (auto simp: gives_def)
  then obtain x t where x: "m s = Inr (x, t)" "f x t = Inr (y, s')"
    by (auto simp: cl_bind_def split: sum.splits)
  then have "P t"
    using keeps_state [OF \<open>maintains P m\<close> y(1)] by blast
  then show ?thesis
    using x y(1) unfolding gives_def by blast
qed

lemma gives_mem [dest!]: "gives P (cl_mem r) x \<Longrightarrow> r = Inr x"
  by (cases r) (auto simp: gives_def cl_mem_def cl_return_def split: cerr.split_asm)

lemma gives_call: "gives P (cl_call r) x \<Longrightarrow> r = (case x of None \<Rightarrow> Inl Fail | Some y \<Rightarrow> Inr y)"
  by (cases r; cases "projl r") (auto simp: gives_def cl_call_def cl_return_def)

lemma gives_call_Some [dest!]: "gives P (cl_call r) (Some y) \<Longrightarrow> r = Inr y"
  by (drule gives_call) simp

lemma gives_get: "gives P (cl_get f) x \<Longrightarrow> \<exists>s. P s \<and> x = f (fst s)"
  by (auto simp: gives_def cl_get_def)

section \<open>Running a call\<close>

lemma run_bind: "m s = Inr (x, s') \<Longrightarrow> cl_bind m f s = f x s'"
  by (simp add: cl_bind_def)

lemma run_bind_stop: "m s = Inl e \<Longrightarrow> cl_bind m f s = Inl e"
  by (simp add: cl_bind_def)

lemma run_get: "cl_bind (cl_get f) g s = g (f (fst s)) s"
  by (simp add: cl_bind_def cl_get_def)

lemma run_put: "cl_bind (cl_put f) g s = g () (f (fst s), snd s)"
  by (simp add: cl_bind_def cl_put_def)

lemma run_return: "cl_return x s = Inr (x, s)"
  by (simp add: cl_return_def)

lemma run_last_put: "cl_put f s = Inr ((), f (fst s), snd s)"
  by (simp add: cl_put_def)

lemma run_last_get: "cl_get f s = Inr (f (fst s), s)"
  by (simp add: cl_get_def)

lemma run_stop: "cl_stop e s = Inl e"
  by (simp add: cl_stop_def)

lemmas run_rules = run_get run_put run_return run_last_put run_last_get run_stop

end
