(* ===== verification/Parser_Core.thy ===== *)
theory Parser_Core
  imports Prelude
begin

text \<open>
  Model of \<open>src/parser/MqttSnMessageParser.h\<close> and \<open>src/parser/MqttSnMessageParser.c\<close>: the message
  types and return codes, the header readers, the field readers and writers every message of the
  MQTT-SN codec is composed of, and the generic encapsulation routines.

  Readers take the source pointer (the rest of its memory object), the length of the whole message and
  the number of bytes parsed so far, and return what they wrote to their output parameters together
  with the new count. Writers take the destination object, the position written to, the length of the
  destination and the count of used bytes, and return the C return code, the object and the new count.
  What a reader or writer leaves behind when it fails is not modelled, since every caller gives up on
  a negative return code; \<open>parse_header\<close> is the exception, because one caller uses the header it
  leaves behind.
\<close>

unbundle bit_operations_syntax

section \<open>Message types and return codes\<close>

datatype MQTT_SN_MESSAGE_TYPE =
    ANY_MESSAGE_TYPE | RESERVED_INVALID | ADVERTISE | SEARCHGW | GWINFO | RESERVED_03 | CONNECT
  | CONNACK | WILLTOPICREQ | WILLTOPIC | WILLMSGREQ | WILLMSG | REGISTER | REGACK | PUBLISH | PUBACK
  | PUBCOMP | PUBREC | PUBREL | RESERVED_11 | SUBSCRIBE | SUBACK | UNSUBSCRIBE | UNSUBACK | PINGREQ
  | PINGRESP | DISCONNECT | RESERVED_19 | WILLTOPICUPD | WILLTOPICRESP | WILLMSGUPD | WILLMSGRESP
  | RESERVED_1E | RESERVED_FD | ENCAPSULATED_MESSAGE | RESERVED_FF

fun message_type_code :: "MQTT_SN_MESSAGE_TYPE \<Rightarrow> int" where
  "message_type_code ANY_MESSAGE_TYPE = -2"
| "message_type_code RESERVED_INVALID = -1"
| "message_type_code ADVERTISE = 0x00"
| "message_type_code SEARCHGW = 0x01"
| "message_type_code GWINFO = 0x02"
| "message_type_code RESERVED_03 = 0x03"
| "message_type_code CONNECT = 0x04"
| "message_type_code CONNACK = 0x05"
| "message_type_code WILLTOPICREQ = 0x06"
| "message_type_code WILLTOPIC = 0x07"
| "message_type_code WILLMSGREQ = 0x08"
| "message_type_code WILLMSG = 0x09"
| "message_type_code REGISTER = 0x0A"
| "message_type_code REGACK = 0x0B"
| "message_type_code PUBLISH = 0x0C"
| "message_type_code PUBACK = 0x0D"
| "message_type_code PUBCOMP = 0x0E"
| "message_type_code PUBREC = 0x0F"
| "message_type_code PUBREL = 0x10"
| "message_type_code RESERVED_11 = 0x11"
| "message_type_code SUBSCRIBE = 0x12"
| "message_type_code SUBACK = 0x13"
| "message_type_code UNSUBSCRIBE = 0x14"
| "message_type_code UNSUBACK = 0x15"
| "message_type_code PINGREQ = 0x16"
| "message_type_code PINGRESP = 0x17"
| "message_type_code DISCONNECT = 0x18"
| "message_type_code RESERVED_19 = 0x19"
| "message_type_code WILLTOPICUPD = 0x1A"
| "message_type_code WILLTOPICRESP = 0x1B"
| "message_type_code WILLMSGUPD = 0x1C"
| "message_type_code WILLMSGRESP = 0x1D"
| "message_type_code RESERVED_1E = 0x1E"
| "message_type_code RESERVED_FD = 0xFD"
| "message_type_code ENCAPSULATED_MESSAGE = 0xFE"
| "message_type_code RESERVED_FF = 0xFF"

definition MQTT_SN_MESSAGE_TYPE_RESERVED :: "int \<Rightarrow> bool" where
  "MQTT_SN_MESSAGE_TYPE_RESERVED c \<longleftrightarrow>
     c = 0x03 \<or> c = 0x11 \<or> c = 0x19 \<or> (c \<ge> 0x1E \<and> c \<le> 0xFD) \<or> c = 0xFF"

definition all_message_types :: "MQTT_SN_MESSAGE_TYPE list" where
  "all_message_types =
     [ANY_MESSAGE_TYPE, RESERVED_INVALID, ADVERTISE, SEARCHGW, GWINFO, RESERVED_03, CONNECT,
      CONNACK, WILLTOPICREQ, WILLTOPIC, WILLMSGREQ, WILLMSG, REGISTER, REGACK, PUBLISH, PUBACK,
      PUBCOMP, PUBREC, PUBREL, RESERVED_11, SUBSCRIBE, SUBACK, UNSUBSCRIBE, UNSUBACK, PINGREQ,
      PINGRESP, DISCONNECT, RESERVED_19, WILLTOPICUPD, WILLTOPICRESP, WILLMSGUPD, WILLMSGRESP,
      RESERVED_1E, RESERVED_FD, ENCAPSULATED_MESSAGE, RESERVED_FF]"

text \<open>The cast of a byte to the enumeration; every byte that is not reserved has an enumerator.\<close>

definition cast_message_type :: "u8 \<Rightarrow> MQTT_SN_MESSAGE_TYPE" where
  "cast_message_type c =
     (case find (\<lambda>t. message_type_code t = uint c) all_message_types of
        Some t \<Rightarrow> t | None \<Rightarrow> RESERVED_INVALID)"

datatype MQTT_SN_RETURN_CODE =
    RETURN_CODE_ANY | RETURN_CODE_RESERVED_INVALID | RETURN_CODE_ACCEPTED
  | RETURN_CODE_REJECTED_CONGESTION | RETURN_CODE_REJECTED_INVALID_TOPIC_ID
  | RETURN_CODE_REJCETED_NOT_SUPPORTED | RETURN_CODE_RESERVED_04 | RETURN_CODE_RESERVED_FF

fun return_code_code :: "MQTT_SN_RETURN_CODE \<Rightarrow> int" where
  "return_code_code RETURN_CODE_ANY = -2"
| "return_code_code RETURN_CODE_RESERVED_INVALID = -1"
| "return_code_code RETURN_CODE_ACCEPTED = 0x00"
| "return_code_code RETURN_CODE_REJECTED_CONGESTION = 0x01"
| "return_code_code RETURN_CODE_REJECTED_INVALID_TOPIC_ID = 0x02"
| "return_code_code RETURN_CODE_REJCETED_NOT_SUPPORTED = 0x03"
| "return_code_code RETURN_CODE_RESERVED_04 = 0x04"
| "return_code_code RETURN_CODE_RESERVED_FF = 0xFF"

definition MQTT_SN_RETURN_CODE_VALID :: "int \<Rightarrow> bool" where
  "MQTT_SN_RETURN_CODE_VALID c \<longleftrightarrow> c \<ge> 0x00 \<and> c \<le> 0x03"

definition MQTT_SN_RETURN_CODE_RESERVED :: "int \<Rightarrow> bool" where
  "MQTT_SN_RETURN_CODE_RESERVED c \<longleftrightarrow> c \<ge> 0x04 \<and> c \<le> 0xFF"

section \<open>The message header\<close>

record ParsedMqttSnHeader =
  h_indicator :: u8
  h_length :: nat
  h_msg_type :: MQTT_SN_MESSAGE_TYPE
  h_payload :: "u8 list option"

text \<open>The initialiser \<open>{0}\<close> of the source; the enumerator with value 0 is \<open>ADVERTISE\<close>.\<close>

definition empty_header :: ParsedMqttSnHeader where
  "empty_header =
     \<lparr>h_indicator = 0, h_length = 0, h_msg_type = ADVERTISE, h_payload = None\<rparr>"

definition MQTT_SN_HEADER_LENGTH :: "u8 \<Rightarrow> nat" where
  "MQTT_SN_HEADER_LENGTH indicator = (if indicator \<noteq> 0 then 4 else 2)"

definition device_address_size :: nat where
  "device_address_size = 6"

definition MQTT_SN_ENCAPSULATED_MESSAGE_HEADER_LENGTH :: "u8 \<Rightarrow> nat" where
  "MQTT_SN_ENCAPSULATED_MESSAGE_HEADER_LENGTH indicator =
     MQTT_SN_HEADER_LENGTH indicator + 1 + device_address_size"

definition get_message_length :: "u8 list \<Rightarrow> nat cres" where
  "get_message_length data =
     cbind (rd data 0) (\<lambda>i.
       if i = 1
       then cbind (rd data 1) (\<lambda>a. cbind (rd data 2) (\<lambda>b. Inr (unat (be16 a b))))
       else Inr (unat i))"

definition is_three_bytes_header :: "u8 list \<Rightarrow> u8 cres" where
  "is_three_bytes_header data = cbind (rd data 0) (\<lambda>i. Inr (if i = 1 then 1 else 0))"

definition is_valid_three_bytes_header :: "u8 list \<Rightarrow> nat \<Rightarrow> bool cres" where
  "is_valid_three_bytes_header data data_len =
     cbind (rd data 0) (\<lambda>i.
       if i = 1 \<and> data_len > 2
       then cbind (rd data 1) (\<lambda>a. cbind (rd data 2) (\<lambda>b. Inr (unat (be16 a b) = data_len)))
       else Inr False)"

definition get_mqtt_sn_message_type :: "u8 list \<Rightarrow> MQTT_SN_MESSAGE_TYPE cres" where
  "get_mqtt_sn_message_type data =
     cbind (is_three_bytes_header data) (\<lambda>three.
     cbind (if three \<noteq> 0 then rd data 3 else rd data 1) (\<lambda>type.
       if MQTT_SN_MESSAGE_TYPE_RESERVED (uint type) then Inr RESERVED_INVALID
       else Inr (cast_message_type type)))"

text \<open>
  \<open>parse_header\<close> returns its return code, the header as it leaves it and the count of parsed bytes,
  on failure too.
\<close>

definition parse_header ::
  "ParsedMqttSnHeader \<Rightarrow> MQTT_SN_MESSAGE_TYPE \<Rightarrow> u8 list \<Rightarrow> nat \<Rightarrow> nat
   \<Rightarrow> (int \<times> ParsedMqttSnHeader \<times> nat) cres" where
  "parse_header h msg_type data data_len parsed_bytes =
     (if data_len < 2 then Inr (-1, h, parsed_bytes + data_len)
      else
        cbind (is_three_bytes_header data) (\<lambda>three.
        cbind (if three \<noteq> 0 then is_valid_three_bytes_header data data_len else Inr True) (\<lambda>valid.
        if \<not> valid then Inr (-1, h, MQTT_SN_HEADER_LENGTH three)
        else
          cbind (get_message_length data) (\<lambda>len.
          let h = h\<lparr>h_length := len\<rparr> in
          if len \<noteq> data_len \<and> msg_type \<noteq> ENCAPSULATED_MESSAGE
          then Inr (-1, h, MQTT_SN_HEADER_LENGTH three)
          else
            cbind (get_mqtt_sn_message_type data) (\<lambda>type.
            let h = h\<lparr>h_indicator := three, h_msg_type := type\<rparr>;
                parsed_bytes = MQTT_SN_HEADER_LENGTH three in
            if type = RESERVED_INVALID then Inr (-1, h, parsed_bytes)
            else if msg_type \<noteq> ANY_MESSAGE_TYPE \<and> type \<noteq> msg_type then Inr (-1, h, parsed_bytes)
            else if type = RESERVED_INVALID \<or> MQTT_SN_MESSAGE_TYPE_RESERVED (message_type_code type)
            then Inr (-1, h, parsed_bytes)
            else Inr (int parsed_bytes, h, parsed_bytes))))))"

text \<open>The pattern \<open>if (parse_header(...) < 0) return -1\<close> of its callers.\<close>

definition parse_header_ok ::
  "MQTT_SN_MESSAGE_TYPE \<Rightarrow> u8 list \<Rightarrow> nat \<Rightarrow> nat \<Rightarrow> (ParsedMqttSnHeader \<times> nat) cres" where
  "parse_header_ok msg_type data data_len parsed_bytes =
     cbind (parse_header empty_header msg_type data data_len parsed_bytes) (\<lambda>(rc, h, pb).
       if rc < 0 then Inl Fail else Inr (h, pb))"

section \<open>Writing the header and the fields\<close>

definition generate_mqtt_sn_header ::
  "u8 list \<Rightarrow> nat \<Rightarrow> nat \<Rightarrow> nat \<Rightarrow> nat \<Rightarrow> MQTT_SN_MESSAGE_TYPE \<Rightarrow> (int \<times> u8 list \<times> nat) cres" where
  "generate_mqtt_sn_header dst pos dst_len gen_bytes msg_len msg_type =
     (if dst_len < msg_len then Inl Fail
      else if msg_len > 255
      then
        let gen_bytes = gen_bytes + 4 in
        if dst_len < gen_bytes then Inl Fail
        else
          cbind (wr_bytes dst pos [1, hi8 (of_nat msg_len), lo8 (of_nat msg_len),
                                   of_int (message_type_code msg_type)]) (\<lambda>dst.
          Inr (0, dst, gen_bytes))
      else
        let gen_bytes = gen_bytes + 2 in
        if dst_len < gen_bytes then Inl Fail
        else
          cbind (wr_bytes dst pos [of_nat msg_len, of_int (message_type_code msg_type)]) (\<lambda>dst.
          Inr (int gen_bytes, dst, gen_bytes)))"

definition generate_mqtt_sn_return_code ::
  "u8 list \<Rightarrow> nat \<Rightarrow> nat \<Rightarrow> MQTT_SN_RETURN_CODE \<Rightarrow> nat \<Rightarrow> (int \<times> u8 list \<times> nat) cres" where
  "generate_mqtt_sn_return_code dst pos dst_len return_code used_bytes =
     (let used_bytes = used_bytes + 1 in
      if dst_len < used_bytes then Inl Fail
      else if \<not> MQTT_SN_RETURN_CODE_VALID (return_code_code return_code) then Inl Fail
      else if MQTT_SN_RETURN_CODE_RESERVED (return_code_code return_code) then Inl Fail
      else
        cbind (wr_bytes dst pos [of_int (return_code_code return_code)]) (\<lambda>dst.
        Inr (int used_bytes, dst, used_bytes)))"

text \<open>
  The flag macros or their bits into the byte that is already at the destination. The \<open>dup\<close> branches
  are the ones of the source: a non-zero argument sets the first-time value 0, zero sets the
  retransmitted bit. \<open>qos\<close> is an \<open>int8_t\<close>.
\<close>

definition generate_flags ::
  "u8 list \<Rightarrow> nat \<Rightarrow> nat \<Rightarrow> u8 \<Rightarrow> int \<Rightarrow> u8 \<Rightarrow> u8 \<Rightarrow> u8 \<Rightarrow> u8 \<Rightarrow> nat
   \<Rightarrow> (int \<times> u8 list \<times> nat) cres" where
  "generate_flags dst pos dst_len dup qos retain will clean_session topic_id_type used_bytes =
     (let used_bytes = used_bytes + 1 in
      if dst_len < used_bytes then Inl Fail
      else
        cbind (rd dst pos) (\<lambda>flags.
        let flags = (if dup \<noteq> 0 then push_bit 7 0 OR flags else push_bit 7 1 OR flags) in
        cbind (if qos \<noteq> 0
               then if qos = -1 then Inr (push_bit 5 3 OR flags)
                    else if qos = 0 then Inr (push_bit 5 0 OR flags)
                    else if qos = 1 then Inr (push_bit 5 1 OR flags)
                    else if qos = 2 then Inr (push_bit 5 2 OR flags)
                    else Inl Fail
               else Inr flags) (\<lambda>flags.
        let flags = (if retain \<noteq> 0 then push_bit 4 1 OR flags else flags);
            flags = (if will \<noteq> 0 then push_bit 3 1 OR flags else flags);
            flags = (if clean_session \<noteq> 0 then push_bit 2 1 OR flags else flags) in
        cbind (if topic_id_type = 0x00 then Inr (push_bit 0 0 OR flags)
               else if topic_id_type = 0x01 then Inr (push_bit 0 1 OR flags)
               else if topic_id_type = 0x02 then Inr (push_bit 0 2 OR flags)
               else if topic_id_type = 0x03 then Inr (push_bit 0 3 OR flags)
               else Inl Fail) (\<lambda>flags.
        cbind (wr_bytes dst pos [flags]) (\<lambda>dst.
        Inr (int used_bytes, dst, used_bytes))))))"

definition generate_mqtt_sn_uint8 ::
  "u8 list \<Rightarrow> nat \<Rightarrow> nat \<Rightarrow> u8 \<Rightarrow> nat \<Rightarrow> (int \<times> u8 list \<times> nat) cres" where
  "generate_mqtt_sn_uint8 dst pos dst_len value used_bytes =
     (let used_bytes = used_bytes + 1 in
      if used_bytes > dst_len then Inl Fail
      else cbind (wr_bytes dst pos [value]) (\<lambda>dst. Inr (int used_bytes, dst, used_bytes)))"

definition generate_mqtt_sn_uint16 ::
  "u8 list \<Rightarrow> nat \<Rightarrow> nat \<Rightarrow> u16 \<Rightarrow> nat \<Rightarrow> (int \<times> u8 list \<times> nat) cres" where
  "generate_mqtt_sn_uint16 dst pos dst_len value used_bytes =
     (let used_bytes = used_bytes + 2 in
      if used_bytes > dst_len then Inl Fail
      else
        cbind (wr_bytes dst pos [hi8 value, lo8 value]) (\<lambda>dst.
        Inr (int used_bytes, dst, used_bytes)))"

definition generate_duration ::
  "u8 list \<Rightarrow> nat \<Rightarrow> nat \<Rightarrow> u16 \<Rightarrow> nat \<Rightarrow> (int \<times> u8 list \<times> nat) cres" where
  "generate_duration dst pos dst_len duration used_bytes =
     (let used_bytes = used_bytes + 2 in
      if dst_len < used_bytes then Inl Fail
      else
        cbind (wr_bytes dst pos [hi8 duration, lo8 duration]) (\<lambda>dst.
        Inr (int used_bytes, dst, used_bytes)))"

definition generate_topic_id ::
  "u8 list \<Rightarrow> nat \<Rightarrow> nat \<Rightarrow> u16 \<Rightarrow> nat \<Rightarrow> (int \<times> u8 list \<times> nat) cres" where
  "generate_topic_id dst pos dst_len topic_id used_bytes =
     (let used_bytes = used_bytes + 2 in
      if dst_len < used_bytes then Inl Fail
      else
        cbind (wr_bytes dst pos [hi8 topic_id, lo8 topic_id]) (\<lambda>dst.
        Inr (int used_bytes, dst, used_bytes)))"

definition generate_msg_id ::
  "u8 list \<Rightarrow> nat \<Rightarrow> nat \<Rightarrow> u16 \<Rightarrow> nat \<Rightarrow> (int \<times> u8 list \<times> nat) cres" where
  "generate_msg_id dst pos dst_len msg_id used_bytes =
     (let used_bytes = used_bytes + 2 in
      if dst_len < used_bytes then Inl Fail
      else
        cbind (wr_bytes dst pos [hi8 msg_id, lo8 msg_id]) (\<lambda>dst.
        Inr (int used_bytes, dst, used_bytes)))"

definition generate_data ::
  "u8 list \<Rightarrow> nat \<Rightarrow> nat \<Rightarrow> u8 list \<Rightarrow> nat \<Rightarrow> nat \<Rightarrow> (int \<times> u8 list \<times> nat) cres" where
  "generate_data dst pos dst_len data data_len used_bytes =
     (let used_bytes = used_bytes + data_len in
      if dst_len < used_bytes then Inl Fail
      else
        cbind (rds data data_len) (\<lambda>bs.
        cbind (wr_bytes dst pos bs) (\<lambda>dst.
        Inr (int used_bytes, dst, used_bytes))))"

definition generate_string ::
  "u8 list \<Rightarrow> nat \<Rightarrow> nat \<Rightarrow> u8 list \<Rightarrow> nat \<Rightarrow> nat \<Rightarrow> (int \<times> u8 list \<times> nat) cres" where
  "generate_string dst pos dst_len str str_len used_bytes =
     generate_data dst pos dst_len str str_len used_bytes"

definition generate_mqtt_sn_uint8_array ::
  "u8 list \<Rightarrow> nat \<Rightarrow> nat \<Rightarrow> nat \<Rightarrow> u8 list \<Rightarrow> nat \<Rightarrow> (int \<times> u8 list \<times> nat) cres" where
  "generate_mqtt_sn_uint8_array dst pos dst_len gen_bytes src src_len =
     (let gen_bytes = gen_bytes + src_len in
      if dst_len < gen_bytes then Inl Fail
      else
        cbind (rds src src_len) (\<lambda>bs.
        cbind (wr_bytes dst pos bs) (\<lambda>dst. Inr (0, dst, gen_bytes))))"

definition generate_mqtt_sn_device_address ::
  "u8 list \<Rightarrow> nat \<Rightarrow> nat \<Rightarrow> nat \<Rightarrow> u8 list \<Rightarrow> nat \<Rightarrow> (int \<times> u8 list \<times> nat) cres" where
  "generate_mqtt_sn_device_address dst pos dst_len used_bytes address address_len =
     generate_mqtt_sn_uint8_array dst pos dst_len used_bytes address address_len"

section \<open>Reading the fields\<close>

definition parse_mqtt_sn_uint8_byte :: "u8 list \<Rightarrow> nat \<Rightarrow> nat \<Rightarrow> (u8 \<times> nat) cres" where
  "parse_mqtt_sn_uint8_byte src_pos src_len parsed_bytes =
     (let parsed_bytes = parsed_bytes + 1 in
      if parsed_bytes > src_len then Inl Fail
      else cbind (rd src_pos 0) (\<lambda>v. Inr (v, parsed_bytes)))"

definition parse_mqtt_sn_uint16_byte :: "u8 list \<Rightarrow> nat \<Rightarrow> nat \<Rightarrow> (u16 \<times> nat) cres" where
  "parse_mqtt_sn_uint16_byte src_pos src_len parsed_bytes =
     (let parsed_bytes = parsed_bytes + 2 in
      if parsed_bytes > src_len then Inl Fail
      else cbind (rd src_pos 0) (\<lambda>a. cbind (rd src_pos 1) (\<lambda>b. Inr (be16 a b, parsed_bytes))))"

text \<open>
  The buffer readers return the destination object as they leave it, the length they store and the
  count. \<open>strncat\<close> onto the empty string copies up to \<open>n\<close> bytes that are not NUL and always appends
  a NUL.
\<close>

definition strncat_empty :: "u8 list \<Rightarrow> u8 list \<Rightarrow> nat \<Rightarrow> u8 list cres" where
  "strncat_empty dst src n =
     (let str = takeWhile (\<lambda>c. c \<noteq> 0) (take n src) in
      if n \<le> length src \<or> 0 \<in> set src then wr_bytes dst 0 (str @ [0]) else Inl Fault)"

definition parse_mqtt_sn_char_until_end_byte ::
  "u8 list \<Rightarrow> nat \<Rightarrow> nat \<Rightarrow> u8 list \<Rightarrow> nat \<Rightarrow> (u8 list \<times> nat \<times> nat) cres" where
  "parse_mqtt_sn_char_until_end_byte src_pos src_len parsed_bytes dst_c_buf dst_c_buf_max_length =
     (let n = u16_sub src_len parsed_bytes;
          parsed_bytes = parsed_bytes + n in
      if n > dst_c_buf_max_length then Inl Fail
      else if n > 0
      then
        cbind (wr_bytes dst_c_buf 0 [0]) (\<lambda>dst_c_buf.
        cbind (strncat_empty dst_c_buf src_pos n) (\<lambda>dst_c_buf.
        Inr (dst_c_buf, n, parsed_bytes)))
      else Inr (dst_c_buf, n, parsed_bytes))"

definition parse_mqtt_sn_uint8_until_end_byte ::
  "u8 list \<Rightarrow> nat \<Rightarrow> nat \<Rightarrow> u8 list \<Rightarrow> nat \<Rightarrow> (u8 list \<times> nat \<times> nat) cres" where
  "parse_mqtt_sn_uint8_until_end_byte src_pos src_len parsed_bytes u8_buf u8_buf_max_length =
     (let n = u16_sub src_len parsed_bytes;
          parsed_bytes = parsed_bytes + n in
      if n > u8_buf_max_length then Inl Fail
      else if n > 0
      then
        cbind (rds src_pos n) (\<lambda>bs.
        cbind (wr_bytes u8_buf 0 bs) (\<lambda>u8_buf. Inr (u8_buf, n, parsed_bytes)))
      else Inr (u8_buf, n, parsed_bytes))"

text \<open>The pointer version returns the source pointer itself.\<close>

definition parse_mqtt_sn_uint8_until_end_byte_ptr ::
  "u8 list \<Rightarrow> nat \<Rightarrow> nat \<Rightarrow> (u8 list \<times> nat \<times> nat) cres" where
  "parse_mqtt_sn_uint8_until_end_byte_ptr src_pos src_len parsed_bytes =
     (if src_len < parsed_bytes then Inl Fail
      else
        let n = u16_sub src_len parsed_bytes in
        Inr (src_pos, n, parsed_bytes + n))"

definition parse_mqtt_sn_uint8_array_byte ::
  "u8 list \<Rightarrow> nat \<Rightarrow> nat \<Rightarrow> nat \<Rightarrow> u8 list \<Rightarrow> nat \<Rightarrow> (u8 list \<times> nat \<times> nat) cres" where
  "parse_mqtt_sn_uint8_array_byte src_pos src_len parsed_bytes to_parse_bytes u8_buf
       u8_buf_max_length =
     (if src_len < parsed_bytes + to_parse_bytes then Inl Fail
      else if to_parse_bytes > u8_buf_max_length then Inl Fail
      else
        cbind (rds src_pos to_parse_bytes) (\<lambda>bs.
        cbind (wr_bytes u8_buf 0 bs) (\<lambda>u8_buf.
        Inr (u8_buf, to_parse_bytes, parsed_bytes + to_parse_bytes))))"

definition parse_mqtt_sn_device_address ::
  "u8 list \<Rightarrow> nat \<Rightarrow> nat \<Rightarrow> u8 list \<Rightarrow> (u8 list \<times> nat \<times> nat) cres" where
  "parse_mqtt_sn_device_address src_pos src_len parsed_bytes dst_add =
     parse_mqtt_sn_uint8_array_byte src_pos src_len parsed_bytes device_address_size dst_add
       device_address_size"

definition parse_mqtt_sn_device_address_until_end ::
  "u8 list \<Rightarrow> nat \<Rightarrow> nat \<Rightarrow> u8 list \<Rightarrow> (u8 list \<times> nat \<times> nat) cres" where
  "parse_mqtt_sn_device_address_until_end src_pos src_len parsed_bytes dst_add =
     parse_mqtt_sn_uint8_until_end_byte src_pos src_len parsed_bytes dst_add device_address_size"

text \<open>The maximum length of the client id is a \<open>uint8_t\<close> parameter.\<close>

definition parse_mqtt_sn_client_id_byte ::
  "u8 list \<Rightarrow> nat \<Rightarrow> nat \<Rightarrow> u8 list \<Rightarrow> nat \<Rightarrow> (u8 list \<times> nat \<times> nat) cres" where
  "parse_mqtt_sn_client_id_byte src_pos src_len parsed_bytes dst_client_id
       dst_client_id_max_length =
     parse_mqtt_sn_char_until_end_byte src_pos src_len parsed_bytes dst_client_id
       (dst_client_id_max_length mod 256)"

definition parse_mqtt_sn_return_code_byte ::
  "u8 list \<Rightarrow> nat \<Rightarrow> nat \<Rightarrow> (MQTT_SN_RETURN_CODE \<times> nat) cres" where
  "parse_mqtt_sn_return_code_byte src_pos src_len parsed_bytes =
     cbind (parse_mqtt_sn_uint8_byte src_pos src_len parsed_bytes) (\<lambda>(tmp_return_code, parsed_bytes).
     if \<not> MQTT_SN_RETURN_CODE_VALID (uint tmp_return_code) then Inl Fail
     else if MQTT_SN_RETURN_CODE_RESERVED (uint tmp_return_code) then Inl Fail
     else if uint tmp_return_code = return_code_code RETURN_CODE_ACCEPTED
     then Inr (RETURN_CODE_ACCEPTED, parsed_bytes)
     else if uint tmp_return_code = return_code_code RETURN_CODE_REJECTED_CONGESTION
     then Inr (RETURN_CODE_REJECTED_CONGESTION, parsed_bytes)
     else if uint tmp_return_code = return_code_code RETURN_CODE_REJECTED_INVALID_TOPIC_ID
     then Inr (RETURN_CODE_REJECTED_INVALID_TOPIC_ID, parsed_bytes)
     else if uint tmp_return_code = return_code_code RETURN_CODE_REJCETED_NOT_SUPPORTED
     then Inr (RETURN_CODE_REJCETED_NOT_SUPPORTED, parsed_bytes)
     else Inl Fail)"

text \<open>
  \<open>parse_mqtt_sn_flags\<close> takes a pointer per flag, which may be \<open>NULL\<close>. Only the \<open>qos\<close> and the
  \<open>topic_id_type\<close> pointers change what it accepts, so their presence is an argument; all six values
  are returned, and a caller uses those it asked for.
\<close>

record mqtt_sn_flags =
  f_dup :: u8
  f_qos :: int
  f_retain :: u8
  f_will :: u8
  f_clean_session :: u8
  f_topic_id_type :: u8

definition GET_MQTT_SN_QOS_FLAG :: "u8 \<Rightarrow> u8" where
  "GET_MQTT_SN_QOS_FLAG flags = drop_bit 5 (flags AND 0x60)"

definition GET_MQTT_SN_RETAIN_FLAG :: "u8 \<Rightarrow> u8" where
  "GET_MQTT_SN_RETAIN_FLAG flags =
     (if drop_bit 4 (flags AND 0x10) = 2 then - 1 else drop_bit 4 (flags AND 0x10))"

definition parse_mqtt_sn_flags ::
  "u8 list \<Rightarrow> nat \<Rightarrow> nat \<Rightarrow> bool \<Rightarrow> bool \<Rightarrow> (mqtt_sn_flags \<times> nat) cres" where
  "parse_mqtt_sn_flags src_pos src_len parsed_bytes has_qos has_topic_id_type =
     (let parsed_bytes = parsed_bytes + 1 in
      if parsed_bytes > src_len then Inl Fail
      else
        cbind (rd src_pos 0) (\<lambda>flags.
        let qos = uint (GET_MQTT_SN_QOS_FLAG flags);
            topic_id_type = drop_bit 0 (flags AND 0x03) in
        if has_qos \<and> (qos < -1 \<or> qos > 2) then Inl Fail
        else if \<not> has_qos \<and> qos \<noteq> 0 then Inl Fail
        else if has_topic_id_type \<and> topic_id_type = 0x03 then Inl Fail
        else
          Inr (\<lparr>f_dup = drop_bit 7 (flags AND 0x80), f_qos = qos,
                f_retain = GET_MQTT_SN_RETAIN_FLAG flags,
                f_will = drop_bit 3 (flags AND 0x08),
                f_clean_session = drop_bit 2 (flags AND 0x04),
                f_topic_id_type = topic_id_type\<rparr>, parsed_bytes)))"

end
