(* ===== verification/Wire_Format.thy ===== *)
theory Wire_Format
  imports Parser_Core
begin

text \<open>
  What the message theories share: the bytes of a header, the effect of the field writers on a buffer
  whose first bytes are already written, what the header reader accepts, the absence of accesses
  outside the message, and the two contracts of a message format. \<open>wire_format\<close> relates the writer, the
  reader and the bytes of a message; \<open>strict_wire_format\<close> adds that the reader accepts nothing else.
\<close>

unbundle bit_operations_syntax

section \<open>Header bytes\<close>

definition wire_type :: "MQTT_SN_MESSAGE_TYPE \<Rightarrow> bool" where
  "wire_type t \<longleftrightarrow> 0 \<le> message_type_code t \<and> \<not> MQTT_SN_MESSAGE_TYPE_RESERVED (message_type_code t)"

definition type_byte :: "MQTT_SN_MESSAGE_TYPE \<Rightarrow> u8" where
  "type_byte t = of_int (message_type_code t)"

definition header_size :: "nat \<Rightarrow> nat" where
  "header_size n = (if n > 255 then 4 else 2)"

definition header_wire :: "nat \<Rightarrow> MQTT_SN_MESSAGE_TYPE \<Rightarrow> u8 list" where
  "header_wire n t =
     (if n > 255 then [1, hi8 (of_nat n), lo8 (of_nat n), type_byte t] else [of_nat n, type_byte t])"

lemma length_header_wire [simp]: "length (header_wire n t) = header_size n"
  by (simp add: header_wire_def header_size_def)

lemma header_wire_short: "n \<le> 255 \<Longrightarrow> header_wire n t = [of_nat n, type_byte t]"
  by (simp add: header_wire_def)

lemma header_wire_long:
  "255 < n \<Longrightarrow> header_wire n t = [1, hi8 (of_nat n), lo8 (of_nat n), type_byte t]"
  by (simp add: header_wire_def)

lemma uint_type_byte: "wire_type t \<Longrightarrow> uint (type_byte t) = message_type_code t"
  by (cases t) (simp_all add: wire_type_def type_byte_def MQTT_SN_MESSAGE_TYPE_RESERVED_def)

lemma wire_type_simps [simp]:
  "wire_type ADVERTISE"
  "wire_type SEARCHGW"
  "wire_type GWINFO"
  "wire_type CONNECT"
  "wire_type CONNACK"
  "wire_type WILLTOPICREQ"
  "wire_type WILLTOPIC"
  "wire_type WILLMSGREQ"
  "wire_type WILLMSG"
  "wire_type REGISTER"
  "wire_type REGACK"
  "wire_type PUBLISH"
  "wire_type PUBACK"
  "wire_type PUBCOMP"
  "wire_type PUBREC"
  "wire_type PUBREL"
  "wire_type SUBSCRIBE"
  "wire_type SUBACK"
  "wire_type UNSUBSCRIBE"
  "wire_type UNSUBACK"
  "wire_type PINGREQ"
  "wire_type PINGRESP"
  "wire_type DISCONNECT"
  "wire_type WILLTOPICUPD"
  "wire_type WILLTOPICRESP"
  "wire_type WILLMSGUPD"
  "wire_type WILLMSGRESP"
  "wire_type ENCAPSULATED_MESSAGE"
  by (simp_all add: wire_type_def MQTT_SN_MESSAGE_TYPE_RESERVED_def)

lemma drop_header_wire [simp]: "drop (header_size n) (header_wire n t @ xs) = xs"
  by (metis append_eq_conv_conj length_header_wire)

lemma drop_header_wire_more [simp]:
  "drop (header_size n + k) (header_wire n t @ xs) = drop k xs"
  by (metis drop_drop drop_header_wire add.commute)

lemma drop_header_wire_Suc [simp]:
  "drop (Suc (header_size n)) (header_wire n t @ xs) = drop 1 xs"
  "drop (Suc (Suc (Suc (header_size n)))) (header_wire n t @ xs) = drop 3 xs"
  using drop_header_wire_more [of n 1 t xs] drop_header_wire_more [of n 3 t xs]
  by (simp_all add: numeral_eq_Suc del: drop_append drop_header_wire_more)

text \<open>
  The length of a message of \<open>base + k\<close> bytes with a short header; with a long header it has two bytes
  more.
\<close>

definition var_total :: "nat \<Rightarrow> nat \<Rightarrow> nat" where
  "var_total base k = (if base + k > 255 then base + 2 + k else base + k)"

lemma var_total_header: "2 \<le> base \<Longrightarrow> var_total base k = header_size (var_total base k) + (base - 2) + k"
  by (simp add: var_total_def header_size_def)

lemma header_size_simps [simp]:
  "n \<le> 255 \<Longrightarrow> header_size n = 2" "255 < n \<Longrightarrow> header_size n = 4"
  by (simp_all add: header_size_def)

lemma cast_type_byte: "wire_type t \<Longrightarrow> cast_message_type (type_byte t) = t"
  by (cases t) (simp_all add: cast_message_type_def uint_type_byte all_message_types_def
      wire_type_def MQTT_SN_MESSAGE_TYPE_RESERVED_def)

lemma non_reserved_codes:
  fixes i :: int
  assumes "\<not> MQTT_SN_MESSAGE_TYPE_RESERVED i" "i \<in> {0..255}"
  shows "i \<in> {0, 1, 2, 4, 5, 6, 7, 8, 9, 10, 11, 12, 13, 14, 15, 16, 18, 19, 20, 21, 22, 23, 24,
    26, 27, 28, 29, 254}"
proof -
  have "i < 30 \<or> i = 254" "0 \<le> i" "i \<noteq> 3" "i \<noteq> 17" "i \<noteq> 25"
    using assms by (auto simp: MQTT_SN_MESSAGE_TYPE_RESERVED_def)
  then show ?thesis by simp presburger
qed

lemma cast_not_reserved:
  assumes "\<not> MQTT_SN_MESSAGE_TYPE_RESERVED (uint c)"
  shows "wire_type (cast_message_type c) \<and> type_byte (cast_message_type c) = c"
proof -
  have "uint c \<in> {0, 1, 2, 4, 5, 6, 7, 8, 9, 10, 11, 12, 13, 14, 15, 16, 18, 19, 20, 21, 22,
      23, 24, 26, 27, 28, 29, 254}"
    using assms non_reserved_codes [of "uint c"] uint_u8 [of c] by blast
  moreover have "type_byte t = c" if "message_type_code t = uint c" for t
    by (simp add: type_byte_def that)
  ultimately show ?thesis
    by (auto simp: cast_message_type_def all_message_types_def wire_type_def
        MQTT_SN_MESSAGE_TYPE_RESERVED_def)
qed

section \<open>Writers on a partly written buffer\<close>

lemma gen_header [gen_simps]:
  assumes "dst_len \<le> length dst"
  shows "generate_mqtt_sn_header dst 0 dst_len 0 n t =
    (if n \<le> dst_len \<and> header_size n \<le> dst_len
     then Inr (if n > 255 then 0 else 2, patched dst (header_wire n t), header_size n)
     else Inl Fail)"
  using assms
  by (simp add: generate_mqtt_sn_header_def header_size_def header_wire_def type_byte_def Let_def)

lemma gen_header_at [gen_simps]:
  assumes "dst_len \<le> length dst" "pos = length ps" "used = length ps"
  shows "generate_mqtt_sn_header (patched dst ps) pos dst_len used n t =
    (if n \<le> dst_len \<and> length ps + header_size n \<le> dst_len
     then Inr (if n > 255 then 0 else int (length ps + 2), patched dst (ps @ header_wire n t),
               length ps + header_size n)
     else Inl Fail)"
  using assms wr_bytes_patched [of ps "header_wire n t" dst]
  by (simp add: generate_mqtt_sn_header_def header_size_def header_wire_def type_byte_def Let_def)

lemma gen_uint8 [gen_simps]:
  assumes "dst_len \<le> length dst" "pos = length ps" "used = length ps"
  shows "generate_mqtt_sn_uint8 (patched dst ps) pos dst_len v used =
    (if length ps + 1 \<le> dst_len
     then Inr (int (length ps + 1), patched dst (ps @ [v]), length ps + 1) else Inl Fail)"
  using assms by (simp add: generate_mqtt_sn_uint8_def Let_def)

lemma gen_uint16 [gen_simps]:
  assumes "dst_len \<le> length dst" "pos = length ps" "used = length ps"
  shows "generate_mqtt_sn_uint16 (patched dst ps) pos dst_len v used =
    (if length ps + 2 \<le> dst_len
     then Inr (int (length ps + 2), patched dst (ps @ [hi8 v, lo8 v]), length ps + 2)
     else Inl Fail)"
  using assms by (simp add: generate_mqtt_sn_uint16_def Let_def)

lemma gen_duration [gen_simps]: "generate_duration = generate_mqtt_sn_uint16"
  by (intro ext) (simp add: generate_duration_def generate_mqtt_sn_uint16_def Let_def not_le)

lemma gen_topic_id [gen_simps]: "generate_topic_id = generate_mqtt_sn_uint16"
  by (intro ext) (simp add: generate_topic_id_def generate_mqtt_sn_uint16_def Let_def not_le)

lemma gen_msg_id [gen_simps]: "generate_msg_id = generate_mqtt_sn_uint16"
  by (intro ext) (simp add: generate_msg_id_def generate_mqtt_sn_uint16_def Let_def not_le)

lemma gen_data [gen_simps]:
  assumes "dst_len \<le> length dst" "pos = length ps" "used = length ps" "n \<le> length data"
  shows "generate_data (patched dst ps) pos dst_len data n used =
    (if length ps + n \<le> dst_len
     then Inr (int (length ps + n), patched dst (ps @ take n data), length ps + n)
     else Inl Fail)"
  using assms by (simp add: generate_data_def rds_def Let_def)

lemma gen_string [gen_simps]: "generate_string = generate_data"
  by (intro ext) (simp add: generate_string_def)

lemma gen_uint8_array [gen_simps]:
  assumes "dst_len \<le> length dst" "pos = length ps" "used = length ps" "n \<le> length data"
  shows "generate_mqtt_sn_uint8_array (patched dst ps) pos dst_len used data n =
    (if length ps + n \<le> dst_len
     then Inr (0, patched dst (ps @ take n data), length ps + n)
     else Inl Fail)"
  using assms by (simp add: generate_mqtt_sn_uint8_array_def rds_def Let_def)

lemma gen_device_address [gen_simps]: "generate_mqtt_sn_device_address = generate_mqtt_sn_uint8_array"
  by (intro ext) (simp add: generate_mqtt_sn_device_address_def)

definition wire_return_code :: "MQTT_SN_RETURN_CODE \<Rightarrow> bool" where
  "wire_return_code r \<longleftrightarrow> MQTT_SN_RETURN_CODE_VALID (return_code_code r)"

definition return_code_byte :: "MQTT_SN_RETURN_CODE \<Rightarrow> u8" where
  "return_code_byte r = of_int (return_code_code r)"

lemma gen_return_code [gen_simps]:
  assumes "dst_len \<le> length dst" "pos = length ps" "used = length ps"
  shows "generate_mqtt_sn_return_code (patched dst ps) pos dst_len r used =
    (if length ps + 1 \<le> dst_len \<and> wire_return_code r
     then Inr (int (length ps + 1), patched dst (ps @ [return_code_byte r]), length ps + 1)
     else Inl Fail)"
  using assms by (auto simp: generate_mqtt_sn_return_code_def Let_def wire_return_code_def
      return_code_byte_def MQTT_SN_RETURN_CODE_VALID_def MQTT_SN_RETURN_CODE_RESERVED_def)

text \<open>The flag byte as a function of the byte that was there before.\<close>

definition wire_flags :: "int \<Rightarrow> u8 \<Rightarrow> bool" where
  "wire_flags qos tid \<longleftrightarrow> qos \<in> {-1, 0, 1, 2} \<and> tid \<in> {0, 1, 2, 3}"

definition flag_byte :: "u8 \<Rightarrow> u8 \<Rightarrow> int \<Rightarrow> u8 \<Rightarrow> u8 \<Rightarrow> u8 \<Rightarrow> u8 \<Rightarrow> u8" where
  "flag_byte old dup qos retain will clean tid =
     tid OR ((if clean \<noteq> 0 then 0x04 else 0) OR ((if will \<noteq> 0 then 0x08 else 0) OR
     ((if retain \<noteq> 0 then 0x10 else 0) OR
     ((if qos = -1 then 0x60 else if qos = 1 then 0x20 else if qos = 2 then 0x40 else 0) OR
     ((if dup \<noteq> 0 then 0 else 0x80) OR old)))))"

lemma rd_patched: "length ps < length dst \<Longrightarrow> rd (patched dst ps) (length ps) = Inr (dst ! length ps)"
  by (simp add: rd_def patched_def nth_append)

lemma gen_flags [gen_simps]:
  assumes "dst_len \<le> length dst" "pos = length ps" "used = length ps"
  shows "generate_flags (patched dst ps) pos dst_len dup qos retain will clean tid used =
    (if length ps + 1 \<le> dst_len \<and> wire_flags qos tid
     then Inr (int (length ps + 1),
               patched dst (ps @ [flag_byte (dst ! length ps) dup qos retain will clean tid]),
               length ps + 1)
     else Inl Fail)"
  using assms
  by (auto simp: generate_flags_def Let_def rd_patched wire_flags_def flag_byte_def)

section \<open>Reading the header\<close>

lemma unat_be16_of_nat: "n < 65536 \<Longrightarrow> unat (be16 (hi8 (of_nat n)) (lo8 (of_nat n))) = n"
  by (simp add: unat_u16_of_nat)

lemma of_nat_u8_not_one: "2 \<le> n \<Longrightarrow> n \<le> 255 \<Longrightarrow> (of_nat n :: u8) \<noteq> 1"
  using unat_u8_of_nat [of n] by auto

lemmas header_defs = parse_header_def is_three_bytes_header_def is_valid_three_bytes_header_def
  get_message_length_def get_mqtt_sn_message_type_def MQTT_SN_HEADER_LENGTH_def

definition plain_header :: "nat \<Rightarrow> MQTT_SN_MESSAGE_TYPE \<Rightarrow> ParsedMqttSnHeader" where
  "plain_header n t =
     \<lparr>h_indicator = (if n > 255 then 1 else 0), h_length = n, h_msg_type = t, h_payload = None\<rparr>"

lemma plain_header_sel [simp]:
  "h_indicator (plain_header n t) = (if n > 255 then 1 else 0)"
  "h_length (plain_header n t) = n"
  "h_msg_type (plain_header n t) = t"
  by (simp_all add: plain_header_def)

lemma wire_type_not_special:
  "wire_type t \<Longrightarrow> t \<noteq> RESERVED_INVALID \<and> t \<noteq> ANY_MESSAGE_TYPE
     \<and> \<not> MQTT_SN_MESSAGE_TYPE_RESERVED (message_type_code t)"
  by (auto simp: wire_type_def)

lemma parse_header_ok_wire:
  assumes "wire_type t" "2 \<le> n" "n < 65536"
  shows "parse_header_ok mt (header_wire n t @ rest) n pb =
    (if mt = ANY_MESSAGE_TYPE \<or> mt = t then Inr (plain_header n t, header_size n) else Inl Fail)"
proof (cases "n > 255")
  case True
  then show ?thesis
    using assms wire_type_not_special [OF assms(1)]
    by (auto simp: parse_header_ok_def header_defs header_wire_def unat_u16_of_nat uint_type_byte
        cast_type_byte Let_def plain_header_def header_size_def empty_header_def)
next
  case False
  then show ?thesis
    using assms wire_type_not_special [OF assms(1)] of_nat_u8_not_one [of n]
    by (auto simp: parse_header_ok_def header_defs header_wire_def unat_u8_of_nat uint_type_byte
        cast_type_byte Let_def plain_header_def header_size_def empty_header_def)
qed

text \<open>What an accepted header looks like.\<close>

lemma rd_eq_Inr: "rd p i = Inr x \<longleftrightarrow> i < length p \<and> p ! i = x"
  by (auto simp: rd_def)

lemma parse_header_ok_accepts:
  assumes "parse_header_ok mt data n pb = Inr (h, pb')" "mt \<noteq> ENCAPSULATED_MESSAGE"
    "mt \<noteq> ANY_MESSAGE_TYPE"
  shows "h_length h = n \<and> h_msg_type h = mt \<and> 2 \<le> n \<and> wire_type mt \<and>
    ((h_indicator h = 0 \<and> pb' = 2 \<and> n \<le> 255 \<and> n < 256 \<and>
       (\<exists>rest. data = of_nat n # type_byte mt # rest)) \<or>
     (h_indicator h = 1 \<and> pb' = 4 \<and> 3 \<le> n \<and> n < 65536 \<and>
       (\<exists>rest. data = 1 # hi8 (of_nat n) # lo8 (of_nat n) # type_byte mt # rest)))"
proof (cases "data \<noteq> [] \<and> data ! 0 = 1")
  case True
  then obtain data' where data: "data = 1 # data'"
    by (cases data) auto
  show ?thesis
    using assms unfolding data
    by (auto simp: parse_header_ok_def header_defs cbind_eq_Inr rd_eq_Inr Let_def u16_lt
        neq_Nil_conv Suc_less_eq2 less_Suc_eq_0_disj
        dest!: cast_not_reserved split: if_splits)
next
  case False
  then show ?thesis
    using assms
    by (cases data)
      (auto simp: parse_header_ok_def header_defs cbind_eq_Inr rd_eq_Inr Let_def u8_lt u8_le
        neq_Nil_conv Suc_less_eq2 less_Suc_eq_0_disj less_Suc_eq_le
        dest!: cast_not_reserved split: if_splits)
qed

lemma unat_u16_eq_3: "unat (w :: u16) = 3 \<longleftrightarrow> w = 3"
  by (simp add: word_unat_eq_iff)

lemma unat_be16_eq_3: "unat (be16 a b) = 3 \<longleftrightarrow> a = 0 \<and> b = 3"
  unfolding unat_u16_eq_3 be16_eq_iff by (simp add: hi8_def lo8_def)

lemma parse_header_fault_iff:
  assumes "n \<le> length data"
  shows "parse_header h mt data n pb = Inl Fault \<longleftrightarrow> n = 3 \<and> data = [1, 0, 3]"
proof (cases "n < 2")
  case True
  then show ?thesis by (simp add: parse_header_def)
next
  case False
  then obtain a b rest where data: "data = a # b # rest"
    using assms by (cases data rule: remdups_adj.cases) auto
  consider "a \<noteq> 1" | "a = 1" "rest = []" | c where "a = 1" "rest = [c]"
    | c d rest' where "a = 1" "rest = c # d # rest'"
    by (cases rest rule: remdups_adj.cases) auto
  then show ?thesis
  proof cases
    case 3
    then have "unat (be16 b c) = n \<longleftrightarrow> b = 0 \<and> c = 3" if "2 < n"
      using assms data that unat_be16_eq_3 [of b c] by auto
    moreover have "unat (be16 0 3) = 3"
      by (simp add: unat_be16_eq_3)
    ultimately show ?thesis
      using False assms data 3
      by (auto simp: header_defs cbind_eq_Inl cbind_eq_Inr Let_def split: if_splits)
  qed (use False assms data in
      \<open>auto simp: header_defs cbind_eq_Inl cbind_eq_Inr Let_def split: if_splits\<close>)
qed

lemma safe_parse_header [safe_intros]:
  "n \<le> length data \<Longrightarrow> data \<noteq> [1, 0, 3] \<Longrightarrow> safe (parse_header h mt data n pb)"
  by (simp add: safe_def parse_header_fault_iff)

lemma safe_parse_header_ok [safe_intros]:
  "n \<le> length data \<Longrightarrow> data \<noteq> [1, 0, 3] \<Longrightarrow> safe (parse_header_ok mt data n pb)"
  unfolding parse_header_ok_def by (intro safe_intros) auto

section \<open>Reading the fields\<close>

lemma read_uint8 [simp]:
  "parse_mqtt_sn_uint8_byte (a # rest) n pb = (if pb + 1 \<le> n then Inr (a, pb + 1) else Inl Fail)"
  by (simp add: parse_mqtt_sn_uint8_byte_def Let_def)

lemma read_uint16 [simp]:
  "parse_mqtt_sn_uint16_byte (a # b # rest) n pb =
     (if pb + 2 \<le> n then Inr (be16 a b, pb + 2) else Inl Fail)"
  by (simp add: parse_mqtt_sn_uint16_byte_def Let_def)

lemma uint_return_code_byte:
  "wire_return_code r \<Longrightarrow> uint (return_code_byte r) = return_code_code r"
  by (cases r) (simp_all add: wire_return_code_def MQTT_SN_RETURN_CODE_VALID_def return_code_byte_def)

lemma read_return_code [simp]:
  assumes "wire_return_code r"
  shows "parse_mqtt_sn_return_code_byte (return_code_byte r # rest) n pb =
     (if pb + 1 \<le> n then Inr (r, pb + 1) else Inl Fail)"
  using assms by (cases r) (simp_all add: parse_mqtt_sn_return_code_byte_def uint_return_code_byte
      wire_return_code_def MQTT_SN_RETURN_CODE_VALID_def MQTT_SN_RETURN_CODE_RESERVED_def)

lemma read_return_code_accepts:
  assumes "parse_mqtt_sn_return_code_byte p n pb = Inr (r, pb')"
  shows "pb' = pb + 1 \<and> pb' \<le> n \<and> wire_return_code r \<and> (\<exists>rest. p = return_code_byte r # rest)"
proof -
  from assms obtain c rest where p: "p = c # rest" "pb' = pb + 1" "pb' \<le> n"
    and r: "wire_return_code r" "uint c = return_code_code r"
    by (cases p)
      (auto simp: parse_mqtt_sn_return_code_byte_def parse_mqtt_sn_uint8_byte_def cbind_eq_Inr
        wire_return_code_def MQTT_SN_RETURN_CODE_VALID_def Let_def split: if_splits)
  then have "c = return_code_byte r"
    by (metis return_code_byte_def word_of_int_uint)
  with p r show ?thesis by blast
qed

lemma read_uint8_accepts:
  "parse_mqtt_sn_uint8_byte p n pb = Inr (v, pb') \<longleftrightarrow>
     pb' = pb + 1 \<and> pb' \<le> n \<and> (\<exists>rest. p = v # rest)"
  by (cases p) (auto simp: parse_mqtt_sn_uint8_byte_def Let_def split: if_splits)

lemma read_uint16_accepts:
  "parse_mqtt_sn_uint16_byte p n pb = Inr (v, pb') \<longleftrightarrow>
     pb' = pb + 2 \<and> pb' \<le> n \<and> (\<exists>rest. p = hi8 v # lo8 v # rest)"
  by (cases p rule: remdups_adj.cases)
    (auto simp: parse_mqtt_sn_uint16_byte_def Let_def be16_eq_iff split: if_splits)

lemma safe_read_uint8 [safe_intros]:
  "n \<le> length data \<Longrightarrow> safe (parse_mqtt_sn_uint8_byte (drop pb data) n pb)"
  unfolding parse_mqtt_sn_uint8_byte_def Let_def by (intro safe_intros) auto

lemma safe_read_uint16 [safe_intros]:
  "n \<le> length data \<Longrightarrow> safe (parse_mqtt_sn_uint16_byte (drop pb data) n pb)"
  unfolding parse_mqtt_sn_uint16_byte_def Let_def by (intro safe_intros) auto

lemma safe_read_return_code [safe_intros]:
  "n \<le> length data \<Longrightarrow> safe (parse_mqtt_sn_return_code_byte (drop pb data) n pb)"
  unfolding parse_mqtt_sn_return_code_byte_def by (intro safe_intros) auto

lemma safe_read_flags [safe_intros]:
  "n \<le> length data \<Longrightarrow> safe (parse_mqtt_sn_flags (drop pb data) n pb q t)"
  unfolding parse_mqtt_sn_flags_def Let_def by (intro safe_intros) auto

lemma safe_read_device_address [safe_intros]:
  "n \<le> length data \<Longrightarrow> length add = device_address_size
     \<Longrightarrow> safe (parse_mqtt_sn_device_address (drop pb data) n pb add)"
  unfolding parse_mqtt_sn_device_address_def parse_mqtt_sn_uint8_array_byte_def
  by (intro safe_intros) (auto simp: rds_def split: if_splits)

lemma read_chars:
  assumes "n = pb + length bs" "n < 65536" "length bs \<le> cap"
    "bs = [] \<or> length (c_string bs) < length buf"
  shows "parse_mqtt_sn_char_until_end_byte (bs @ rest) n pb buf cap =
    Inr (if bs = [] then buf else patched buf (c_string bs @ [0]), length bs, n)"
  using assms
  by (auto simp: parse_mqtt_sn_char_until_end_byte_def Let_def strncat_empty_def
      c_string_def length_patched)

lemma read_bytes:
  assumes "n = pb + length bs" "n < 65536" "length bs \<le> cap" "length bs \<le> length buf"
  shows "parse_mqtt_sn_uint8_until_end_byte (bs @ rest) n pb buf cap =
    Inr (patched buf bs, length bs, n)"
  using assms by (auto simp: parse_mqtt_sn_uint8_until_end_byte_def Let_def)

lemma safe_read_chars [safe_intros]:
  assumes "n \<le> length data" "n < 65536" "pb \<le> n" "n - pb < length buf \<or> cap < length buf"
  shows "safe (parse_mqtt_sn_char_until_end_byte (drop pb data) n pb buf cap)"
proof (cases "n - pb \<le> cap \<and> n - pb \<noteq> 0")
  case True
  have "drop pb data = take (n - pb) (drop pb data) @ drop n data"
    using assms(3) append_take_drop_id [of "n - pb" "drop pb data"] by simp
  moreover have "parse_mqtt_sn_char_until_end_byte (take (n - pb) (drop pb data) @ drop n data) n pb
      buf cap \<noteq> Inl Fault"
    using assms True length_c_string_le [of "take (n - pb) (drop pb data)"]
    by (subst read_chars) auto
  ultimately show ?thesis
    by (simp add: safe_def)
next
  case False
  then show ?thesis
    using assms by (auto simp: parse_mqtt_sn_char_until_end_byte_def Let_def)
qed

lemma safe_read_bytes [safe_intros]:
  assumes "n \<le> length data" "n < 65536" "pb \<le> n" "cap \<le> length buf"
  shows "safe (parse_mqtt_sn_uint8_until_end_byte (drop pb data) n pb buf cap)"
  using assms
  by (auto simp: parse_mqtt_sn_uint8_until_end_byte_def Let_def rds_def)

lemma safe_read_bytes_ptr [safe_intros]:
  "safe (parse_mqtt_sn_uint8_until_end_byte_ptr p n pb)"
  by (simp add: parse_mqtt_sn_uint8_until_end_byte_ptr_def Let_def)

text \<open>How far a successful read has come.\<close>

lemma header_progress:
  assumes "parse_header_ok mt data n pb = Inr (h, pb')" "mt \<noteq> ENCAPSULATED_MESSAGE"
    "mt \<noteq> ANY_MESSAGE_TYPE"
  shows "h_length h = n \<and> 2 \<le> n \<and> n < 65536 \<and> 2 \<le> pb' \<and> pb' \<le> 4 \<and> pb' \<le> n + 1"
  using parse_header_ok_accepts [OF assms] by auto

lemma read_progress:
  "parse_mqtt_sn_uint8_byte p n pb = Inr (v, pb') \<Longrightarrow> pb' = pb + 1 \<and> pb' \<le> n"
  "parse_mqtt_sn_uint16_byte p n pb = Inr (w, pb') \<Longrightarrow> pb' = pb + 2 \<and> pb' \<le> n"
  "parse_mqtt_sn_flags p n pb q t = Inr (f, pb') \<Longrightarrow> pb' = pb + 1 \<and> pb' \<le> n"
  by (auto simp: parse_mqtt_sn_uint8_byte_def parse_mqtt_sn_uint16_byte_def parse_mqtt_sn_flags_def
      Let_def cbind_eq_Inr split: if_splits)

text \<open>The flags of a flag byte written to a cleared byte; the duplicate bit comes back inverted.\<close>

definition bool_bit :: "bool \<Rightarrow> u8" where
  "bool_bit b = (if b then 1 else 0)"

lemma if_AND: "(if b then x else y) AND m = (if b then x AND m else y AND (m :: u8))"
  by simp

lemma flag_byte_masks:
  assumes "wire_flags qos tid"
  shows "flag_byte 0 dup qos retain will clean tid AND 0x80 = (if dup \<noteq> 0 then 0 else 0x80)"
    and "flag_byte 0 dup qos retain will clean tid AND 0x60 =
      (if qos = -1 then 0x60 else if qos = 1 then 0x20 else if qos = 2 then 0x40 else 0)"
    and "flag_byte 0 dup qos retain will clean tid AND 0x10 = (if retain \<noteq> 0 then 0x10 else 0)"
    and "flag_byte 0 dup qos retain will clean tid AND 0x08 = (if will \<noteq> 0 then 0x08 else 0)"
    and "flag_byte 0 dup qos retain will clean tid AND 0x04 = (if clean \<noteq> 0 then 0x04 else 0)"
    and "flag_byte 0 dup qos retain will clean tid AND 0x03 = tid"
proof -
  have tid: "tid AND 0x80 = 0" "tid AND 0x60 = 0" "tid AND 0x10 = 0" "tid AND 0x08 = 0"
    "tid AND 0x04 = 0" "tid AND 0x03 = tid"
    using assms by (auto simp: wire_flags_def)
  show "flag_byte 0 dup qos retain will clean tid AND 0x80 = (if dup \<noteq> 0 then 0 else 0x80)"
    "flag_byte 0 dup qos retain will clean tid AND 0x60 =
      (if qos = -1 then 0x60 else if qos = 1 then 0x20 else if qos = 2 then 0x40 else 0)"
    "flag_byte 0 dup qos retain will clean tid AND 0x10 = (if retain \<noteq> 0 then 0x10 else 0)"
    "flag_byte 0 dup qos retain will clean tid AND 0x08 = (if will \<noteq> 0 then 0x08 else 0)"
    "flag_byte 0 dup qos retain will clean tid AND 0x04 = (if clean \<noteq> 0 then 0x04 else 0)"
    "flag_byte 0 dup qos retain will clean tid AND 0x03 = tid"
    by (simp_all add: flag_byte_def bit.conj_disj_distrib2 if_AND tid del: if_split)
qed

lemma read_flags_byte:
  "parse_mqtt_sn_flags (fb # rest) n pb has_qos has_tid =
    (if pb + 1 \<le> n
        \<and> (if has_qos then \<not> uint (GET_MQTT_SN_QOS_FLAG fb) < -1 \<and> uint (GET_MQTT_SN_QOS_FLAG fb) \<le> 2
           else uint (GET_MQTT_SN_QOS_FLAG fb) = 0)
        \<and> (has_tid \<longrightarrow> fb AND 0x03 \<noteq> 3)
     then Inr (\<lparr>f_dup = drop_bit 7 (fb AND 0x80), f_qos = uint (GET_MQTT_SN_QOS_FLAG fb),
                f_retain = GET_MQTT_SN_RETAIN_FLAG fb, f_will = drop_bit 3 (fb AND 0x08),
                f_clean_session = drop_bit 2 (fb AND 0x04), f_topic_id_type = fb AND 0x03\<rparr>, pb + 1)
     else Inl Fail)"
  by (auto simp: parse_mqtt_sn_flags_def Let_def)

lemma read_flags:
  assumes "wire_flags qos tid"
  shows "parse_mqtt_sn_flags (flag_byte 0 dup qos retain will clean tid # rest) n pb has_qos has_tid =
    (if pb + 1 \<le> n \<and> (if has_qos then qos \<noteq> -1 else qos = 0) \<and> (has_tid \<longrightarrow> tid \<noteq> 3)
     then Inr (\<lparr>f_dup = bool_bit (dup = 0), f_qos = qos mod 4, f_retain = bool_bit (retain \<noteq> 0),
                f_will = bool_bit (will \<noteq> 0), f_clean_session = bool_bit (clean \<noteq> 0),
                f_topic_id_type = tid\<rparr>, pb + 1)
     else Inl Fail)"
proof -
  let ?fb = "flag_byte 0 dup qos retain will clean tid"
  have q: "uint (GET_MQTT_SN_QOS_FLAG ?fb) = qos mod 4"
    using assms by (auto simp: GET_MQTT_SN_QOS_FLAG_def flag_byte_masks wire_flags_def)
  have r: "GET_MQTT_SN_RETAIN_FLAG ?fb = bool_bit (retain \<noteq> 0)"
    using assms by (simp add: GET_MQTT_SN_RETAIN_FLAG_def flag_byte_masks bool_bit_def)
  have b: "drop_bit 7 (?fb AND 0x80) = bool_bit (dup = 0)"
    "drop_bit 3 (?fb AND 0x08) = bool_bit (will \<noteq> 0)"
    "drop_bit 2 (?fb AND 0x04) = bool_bit (clean \<noteq> 0)"
    using assms by (simp_all add: flag_byte_masks bool_bit_def)
  have m: "qos mod 4 \<le> 2 \<longleftrightarrow> qos \<noteq> -1" "qos mod 4 = 0 \<longleftrightarrow> qos = 0" "\<not> qos mod 4 < -1"
    using assms by (auto simp: wire_flags_def)
  show ?thesis
    unfolding read_flags_byte q r b flag_byte_masks(6) [OF assms]
    using m by (simp cong: if_cong)
qed

text \<open>A destination that takes every name or payload of a message.\<close>

definition name_buffer :: "u8 list" where
  "name_buffer = replicate 65536 0"

lemma length_name_buffer: "length name_buffer = 65536"
  by (simp only: name_buffer_def length_replicate)

section \<open>Contracts of a message format\<close>

text \<open>
  \<open>wire m\<close> are the bytes of message \<open>m\<close>; \<open>wf m\<close> says that \<open>m\<close> is a value of the C types (lengths fit
  their fields and their objects), \<open>valid m\<close> that the writer accepts it, \<open>readable m\<close> that the reader
  does; \<open>ready dst\<close> is what the writer expects of the destination object, \<open>prep dst n\<close> what it makes of
  the object before it writes the message, and \<open>view m\<close> what the reader makes of the message.
\<close>

definition untouched :: "u8 list \<Rightarrow> nat \<Rightarrow> u8 list" where
  "untouched dst n = dst"

definition cleared :: "u8 list \<Rightarrow> nat \<Rightarrow> u8 list" where
  "cleared dst n = replicate n 0 @ drop n dst"

lemma length_untouched [simp]: "length (untouched dst n) = length dst"
  by (simp add: untouched_def)

lemma length_cleared [simp]: "n \<le> length dst \<Longrightarrow> length (cleared dst n) = length dst"
  by (simp add: cleared_def)

lemma patched_untouched [simp]: "patched (untouched dst n) ps = patched dst ps"
  by (simp add: untouched_def)

locale wire_format =
  fixes wire :: "'m \<Rightarrow> u8 list"
    and wf :: "'m \<Rightarrow> bool"
    and valid :: "'m \<Rightarrow> bool"
    and readable :: "'m \<Rightarrow> bool"
    and ready :: "u8 list \<Rightarrow> bool"
    and prep :: "u8 list \<Rightarrow> nat \<Rightarrow> u8 list"
    and gen :: "u8 list \<Rightarrow> nat \<Rightarrow> 'm \<Rightarrow> u8 list cres"
    and view :: "'m \<Rightarrow> 'v"
    and parse :: "u8 list \<Rightarrow> nat \<Rightarrow> 'v cres"
  assumes gen_wire:
    "wf m \<Longrightarrow> dst_len \<le> length dst \<Longrightarrow> dst_len < 65536 \<Longrightarrow> ready dst \<Longrightarrow>
     gen dst dst_len m =
       (if valid m \<and> length (wire m) \<le> dst_len then Inr (patched (prep dst dst_len) (wire m)) else Inl Fail)"
    and length_prep: "dst_len \<le> length dst \<Longrightarrow> length (prep dst dst_len) = length dst"
    and parse_wire:
    "wf m \<Longrightarrow> valid m \<Longrightarrow> readable m \<Longrightarrow> length (wire m) < 65536 \<Longrightarrow>
     parse (wire m @ rest) (length (wire m)) = Inr (view m)"
begin

lemma roundtrip:
  assumes "wf m" "dst_len \<le> length dst" "dst_len < 65536" "ready dst" "readable m"
    and "gen dst dst_len m = Inr dst'"
  shows "length (wire m) \<le> dst_len \<and> parse dst' (length (wire m)) = Inr (view m)"
  using assms parse_wire [of m] by (auto simp: gen_wire patched_def split: if_splits)

lemma gen_frame:
  assumes "wf m" "dst_len \<le> length dst" "dst_len < 65536" "ready dst"
    and "gen dst dst_len m = Inr dst'"
  shows "length dst' = length dst \<and> take (length (wire m)) dst' = wire m
    \<and> drop (length (wire m)) dst' = drop (length (wire m)) (prep dst dst_len)"
  using assms by (auto simp: gen_wire patched_def length_prep split: if_splits)

lemma gen_safe:
  assumes "wf m" "dst_len \<le> length dst" "dst_len < 65536" "ready dst"
  shows "safe (gen dst dst_len m)"
  using assms by (simp add: gen_wire)

lemma gen_total:
  assumes "wf m" "dst_len \<le> length dst" "dst_len < 65536" "ready dst"
    and "valid m" "length (wire m) \<le> dst_len"
  shows "gen dst dst_len m = Inr (patched (prep dst dst_len) (wire m))"
  using assms by (simp add: gen_wire)

lemma wire_determines_view:
  assumes "wf m" "valid m" "readable m" "wf m'" "valid m'" "readable m'"
    and "length (wire m) < 65536" "wire m = wire m'"
  shows "view m = view m'"
  using assms parse_wire [of m "[]"] parse_wire [of m' "[]"] by simp

end

text \<open>A reader that accepts the bytes of the format's messages and nothing else.\<close>

locale strict_wire_format = wire_format +
  assumes parse_sound:
    "n \<le> length data \<Longrightarrow> n < 65536 \<Longrightarrow> parse data n = Inr v \<Longrightarrow>
     \<exists>m. wf m \<and> valid m \<and> readable m \<and> view m = v \<and> take n data = wire m"
    and view_inj:
    "wf m \<Longrightarrow> wf m' \<Longrightarrow> valid m \<Longrightarrow> valid m' \<Longrightarrow> readable m \<Longrightarrow> readable m' \<Longrightarrow>
     view m = view m' \<Longrightarrow> wire m = wire m'"
begin

lemma parse_iff:
  assumes "n \<le> length data" "n < 65536"
  shows "parse data n = Inr v \<longleftrightarrow>
    (\<exists>m. wf m \<and> valid m \<and> readable m \<and> view m = v \<and> take n data = wire m)" (is "_ \<longleftrightarrow> ?r")
proof
  assume "parse data n = Inr v"
  then show ?r
    by (rule parse_sound [OF assms])
next
  assume ?r
  then obtain m where m: "wf m" "valid m" "readable m" "view m = v" "take n data = wire m"
    by blast
  have "data = wire m @ drop n data" "n = length (wire m)"
    using append_take_drop_id [of n data] m(5) length_take [of n data] assms(1) by simp_all
  then show "parse data n = Inr v"
    using parse_wire [of m "drop n data"] m assms(2) by simp
qed

lemma canonical:
  assumes "n \<le> length data" "n < 65536" "parse data n = Inr v"
    and "n' \<le> length data'" "n' < 65536" "parse data' n' = Inr v"
  shows "take n data = take n' data'"
  using parse_sound [OF assms(1-3)] parse_sound [OF assms(4-6)] view_inj by metis

lemma reencode:
  assumes "n \<le> length data" "n < 65536" "parse data n = Inr v"
    and "n \<le> dst_len" "dst_len \<le> length dst" "dst_len < 65536" "ready dst"
  shows "\<exists>m. view m = v \<and> gen dst dst_len m = Inr (patched (prep dst dst_len) (take n data))"
proof -
  obtain m where m: "wf m" "valid m" "readable m" "view m = v" "take n data = wire m"
    using parse_sound [OF assms(1-3)] by blast
  have "length (wire m) \<le> dst_len"
    using m(5) [symmetric] assms(4) by simp
  then show ?thesis
    using m assms gen_total [of m dst_len dst] by auto
qed

end

lemma map_sum_fst_eq_Inr:
  "map_sum id fst r = Inr v \<longleftrightarrow> (\<exists>x. r = Inr (v, x))"
  by (cases r) auto

lemma map_sum_if [simp]:
  "map_sum f g (if b then r else s) = (if b then map_sum f g r else map_sum f g s)"
  by simp

end
