(* ===== verification/Encapsulation.thy ===== *)
theory Encapsulation
  imports Wire_Format
begin

text \<open>
  Forwarder encapsulation: \<open>src/parser/MqttSnForwarderEncapsulationMessage.c\<close> and the older routines for
  the same frame in \<open>src/parser/MqttSnMessageParser.c\<close> (the tolerant reader, \<open>parse_encapsulation_message\<close>,
  \<open>generate_encapsulation_message\<close>) with \<open>add_dup_flag_to_mqtt_sn_message\<close>. The readers and writers of
  chains of encapsulation headers are modelled loop by loop.
\<close>

unbundle bit_operations_syntax

section \<open>The tolerant reader\<close>

lemma parse_header_progress:
  assumes "parse_header h mt data n pb = Inr (rc, h', pb')" "\<not> rc < 0"
  shows "data \<noteq> [] \<and> pb' = MQTT_SN_HEADER_LENGTH (h_indicator h') \<and> 2 \<le> pb'"
  using assms
  by (cases data)
    (auto simp: parse_header_def is_three_bytes_header_def MQTT_SN_HEADER_LENGTH_def cbind_eq_Inr Let_def
      split: if_splits)

function parse_message_tolerant ::
  "ParsedMqttSnHeader \<Rightarrow> MQTT_SN_MESSAGE_TYPE \<Rightarrow> u8 list \<Rightarrow> nat \<Rightarrow> ParsedMqttSnHeader cres" where
  "parse_message_tolerant h msg_type data data_len =
     cbind (parse_header h msg_type data data_len 0) (\<lambda>(rc, h, parsed_bytes).
     if rc < 0 then Inl Fail
     else
       let payload_offset = MQTT_SN_HEADER_LENGTH (h_indicator h) in
       if h_msg_type h = ENCAPSULATED_MESSAGE
       then
         cbind (parse_message_tolerant empty_header ANY_MESSAGE_TYPE (drop payload_offset data)
                  (u16_sub data_len payload_offset)) (\<lambda>_.
         Inr (h\<lparr>h_payload := Some (drop payload_offset data)\<rparr>))
       else Inr (h\<lparr>h_payload := Some (drop payload_offset data)\<rparr>))"
  by pat_completeness auto
termination
  by (relation "measure (\<lambda>(_, _, data, _). length data)") (auto dest: parse_header_progress)

declare parse_message_tolerant.simps [simp del]

definition header_parse_connect :: "ParsedMqttSnHeader \<Rightarrow> u8 list \<Rightarrow> nat \<Rightarrow> ParsedMqttSnHeader cres" where
  "header_parse_connect h data data_len = parse_message_tolerant h CONNECT data data_len"

definition parse_encapsulation :: "ParsedMqttSnHeader \<Rightarrow> u8 list \<Rightarrow> nat \<Rightarrow> ParsedMqttSnHeader cres" where
  "parse_encapsulation h data data_len = parse_message_tolerant h ENCAPSULATED_MESSAGE data data_len"

section \<open>The older encapsulation routines\<close>

definition parse_encapsulation_header ::
  "ParsedMqttSnHeader \<Rightarrow> u8 list \<Rightarrow> nat \<Rightarrow> nat \<Rightarrow> (ParsedMqttSnHeader \<times> nat) cres" where
  "parse_encapsulation_header h data data_len read_bytes =
     (if data_len < 2 then Inl Fail
      else
        cbind (is_three_bytes_header data) (\<lambda>three.
        cbind (get_message_length data) (\<lambda>len.
        cbind (get_mqtt_sn_message_type data) (\<lambda>type.
        if type \<noteq> ENCAPSULATED_MESSAGE then Inl Fail
        else if len < MQTT_SN_ENCAPSULATED_MESSAGE_HEADER_LENGTH three then Inl Fail
        else if len \<noteq> data_len then Inl Fail
        else
          Inr (h\<lparr>h_indicator := three, h_length := len, h_msg_type := type,
                 h_payload := Some (drop (MQTT_SN_HEADER_LENGTH three) data)\<rparr>,
               read_bytes + MQTT_SN_ENCAPSULATED_MESSAGE_HEADER_LENGTH three)))))"

text \<open>
  The size check of the source compares the first byte of the destination, not the length, with the
  maximum.
\<close>

definition parse_encapsulation_message ::
  "u8 list \<Rightarrow> nat \<Rightarrow> u8 list \<Rightarrow> nat \<Rightarrow> (u8 \<times> u8 list \<times> u8 list \<times> nat \<times> nat) cres" where
  "parse_encapsulation_message mqtt_sn_message max_mqtt_sn_message_len data data_len =
     cbind (parse_encapsulation_header empty_header data data_len 0) (\<lambda>(h, read_bytes).
     let payload = (case h_payload h of Some p \<Rightarrow> p | None \<Rightarrow> []) in
     cbind (rd payload 0) (\<lambda>crtl.
     if crtl \<ge> 1 then Inl Fail
     else
       cbind (rds (drop 1 payload) device_address_size) (\<lambda>wireless_node_id.
       let mqtt_sn_message_len = u16_sub data_len read_bytes in
       cbind (rd mqtt_sn_message 0) (\<lambda>first.
       if unat first > max_mqtt_sn_message_len then Inl Fail
       else
         cbind (rds (drop read_bytes data) mqtt_sn_message_len) (\<lambda>bs.
         cbind (wr_bytes mqtt_sn_message 0 bs) (\<lambda>mqtt_sn_message.
         Inr (crtl, wireless_node_id, mqtt_sn_message, mqtt_sn_message_len,
              read_bytes + mqtt_sn_message_len)))))))"

definition generate_encapsulation_header ::
  "u8 list \<Rightarrow> nat \<Rightarrow> nat \<Rightarrow> u8 \<Rightarrow> u8 list \<Rightarrow> nat \<Rightarrow> (int \<times> u8 list \<times> nat) cres" where
  "generate_encapsulation_header dst pos dst_len broadcast address used_bytes =
     (let used_bytes = used_bytes + 1 in
      if used_bytes > dst_len then Inl Fail
      else if broadcast > 1 then Inl Fail
      else
        cbind (wr_bytes dst pos [broadcast]) (\<lambda>dst.
        let used_bytes = used_bytes + device_address_size in
        if used_bytes > dst_len then Inl Fail
        else
          cbind (rds address device_address_size) (\<lambda>bs.
          cbind (wr_bytes dst (pos + 1) bs) (\<lambda>dst. Inr (0, dst, used_bytes)))))"

text \<open>Each of the three calls is taken to have failed when its return code is not 0.\<close>

definition generate_encapsulation_message ::
  "u8 list \<Rightarrow> nat \<Rightarrow> u8 \<Rightarrow> u8 list \<Rightarrow> u8 list \<Rightarrow> nat \<Rightarrow> (u8 list \<times> nat) cres" where
  "generate_encapsulation_message dst dst_len broadcast address data data_len =
     (let indicator = (if data_len + MQTT_SN_HEADER_LENGTH 0 > 255 then 1 else 0);
          msg_len = (data_len + MQTT_SN_ENCAPSULATED_MESSAGE_HEADER_LENGTH indicator) mod 65536 in
      cbind (generate_mqtt_sn_header dst 0 dst_len 0 msg_len ENCAPSULATED_MESSAGE)
        (\<lambda>(rc, dst, used_bytes).
      if rc \<noteq> 0 then Inl Fail
      else
        cbind (generate_encapsulation_header dst used_bytes dst_len broadcast address used_bytes)
          (\<lambda>(rc, dst, used_bytes).
        if rc \<noteq> 0 then Inl Fail
        else
          cbind (generate_data dst used_bytes dst_len data data_len used_bytes)
            (\<lambda>(rc, dst, used_bytes).
          if rc \<noteq> 0 then Inl Fail else Inr (dst, used_bytes)))))"

definition add_dup_flag_to_mqtt_sn_message :: "u8 list \<Rightarrow> nat \<Rightarrow> u8 list cres" where
  "add_dup_flag_to_mqtt_sn_message msg_data msg_data_length =
     cbind (parse_header_ok ANY_MESSAGE_TYPE msg_data msg_data_length 0) (\<lambda>(h, parsed_bytes).
     if h_msg_type h = PUBLISH \<or> h_msg_type h = SUBSCRIBE
     then
       cbind (rd msg_data parsed_bytes) (\<lambda>flags.
       wr_bytes msg_data parsed_bytes [push_bit 7 1 OR flags])
     else Inr msg_data)"

lemma gen_encapsulation_header [gen_simps]:
  assumes "dst_len \<le> length dst" "device_address_size \<le> length address" "pos = length ps"
    "used = length ps"
  shows "generate_encapsulation_header (patched dst ps) pos dst_len broadcast address used =
    (if length ps + 7 \<le> dst_len \<and> broadcast \<le> 1
     then Inr (0, patched dst (ps @ broadcast # take 6 address), length ps + 7) else Inl Fail)"
  using assms wr_bytes_patched [of "ps @ [broadcast]" "take 6 address" dst]
  by (auto simp: generate_encapsulation_header_def device_address_size_def Let_def rds_def)

text \<open>The writer of the older routines never succeeds, although it has the frame in the buffer.\<close>

lemma generate_encapsulation_message_never:
  assumes "dst_len \<le> length dst" "data_len \<le> length data" "device_address_size \<le> length address"
  shows "generate_encapsulation_message dst dst_len broadcast address data data_len = Inl Fail"
  using assms
  by (simp add: generate_encapsulation_message_def gen_simps Let_def device_address_size_def)

text \<open>
  The tolerant reader looks for the inner message behind the header, where the control byte is, so it
  rejects every encapsulated message that is not a broadcast.
\<close>

lemma parse_header_any_not_zero:
  assumes "parse_header h ANY_MESSAGE_TYPE data n pb = Inr (rc, h', pb')" "\<not> rc < 0"
  shows "data \<noteq> [] \<and> data ! 0 \<noteq> 0"
  using assms
  by (cases data)
    (auto simp: parse_header_def is_three_bytes_header_def get_message_length_def
      MQTT_SN_HEADER_LENGTH_def cbind_eq_Inr Let_def split: if_splits)

lemma parse_message_tolerant_any_not_zero:
  assumes "parse_message_tolerant h ANY_MESSAGE_TYPE data n = Inr h'"
  shows "data \<noteq> [] \<and> data ! 0 \<noteq> 0"
  using assms
  by (subst (asm) parse_message_tolerant.simps)
    (auto simp: cbind_eq_Inr split: if_splits dest: parse_header_any_not_zero)

lemma parse_encapsulation_needs_ctrl:
  assumes "parse_encapsulation h data data_len = Inr h'" "h_msg_type h' = ENCAPSULATED_MESSAGE"
  shows "data ! MQTT_SN_HEADER_LENGTH (h_indicator h') \<noteq> 0"
  using assms unfolding parse_encapsulation_def
  by (subst (asm) parse_message_tolerant.simps)
    (auto simp: cbind_eq_Inr Let_def split: if_splits dest!: parse_message_tolerant_any_not_zero)

section \<open>Forwarder encapsulation frames\<close>

record ParsedMqttSnEncapsulationMessageHeader =
  eh_radius :: u8
  eh_wireless_node_id :: "u8 list"

record ParseMqttSnEncapsulationMessage =
  em_radius :: u8
  em_wireless_node_id :: "u8 list"
  em_mqtt_sn_message :: "u8 list"
  em_mqtt_sn_message_len :: nat

definition MQTT_SN_MESSAGE_FORWARDER_ENCAPSULATION_MIN_LENGTH :: nat where
  [codec_defs]: "MQTT_SN_MESSAGE_FORWARDER_ENCAPSULATION_MIN_LENGTH = 2 + 1 + device_address_size + 0"

definition MQTT_SN_MESSAGE_FORWARDER_ENCAPSULATION_WO_MSG_MAX_LENGTH :: nat where
  [codec_defs]: "MQTT_SN_MESSAGE_FORWARDER_ENCAPSULATION_WO_MSG_MAX_LENGTH = 4 + 1 + device_address_size"

definition MQTT_SN_MAXIMUM_MESSAGE_DATA_LENGTH :: nat where
  "MQTT_SN_MAXIMUM_MESSAGE_DATA_LENGTH = 1024"

definition parse_forwarder_encapsulation_header ::
  "u8 list \<Rightarrow> nat \<Rightarrow> nat \<Rightarrow> (ParsedMqttSnHeader \<times> nat) cres" where
  [codec_defs]: "parse_forwarder_encapsulation_header data data_len parsed_bytes =
     cbind (parse_header_ok ENCAPSULATED_MESSAGE data data_len parsed_bytes) (\<lambda>(h, parsed_bytes).
     if h_length h < MQTT_SN_MESSAGE_FORWARDER_ENCAPSULATION_MIN_LENGTH then Inl Fail
     else Inr (h, parsed_bytes))"

definition parse_forwarder_encapsulation_ctrl :: "u8 list \<Rightarrow> nat \<Rightarrow> nat \<Rightarrow> (u8 \<times> nat) cres" where
  [codec_defs]: "parse_forwarder_encapsulation_ctrl src_pos src_len parsed_bytes =
     cbind (parse_mqtt_sn_uint8_byte src_pos src_len parsed_bytes) (\<lambda>(radius, parsed_bytes).
     if radius > 1 then Inl Fail else Inr (radius, parsed_bytes))"

definition parse_forwarder_encapsulation_wireless_node_id ::
  "u8 list \<Rightarrow> nat \<Rightarrow> nat \<Rightarrow> u8 list \<Rightarrow> (u8 list \<times> nat) cres" where
  [codec_defs]: "parse_forwarder_encapsulation_wireless_node_id src_pos src_len parsed_bytes
       wireless_node_id =
     cbind (parse_mqtt_sn_device_address src_pos src_len parsed_bytes wireless_node_id)
       (\<lambda>(wireless_node_id, wireless_node_id_length, parsed_bytes).
     if wireless_node_id_length \<noteq> device_address_size then Inl Fail
     else Inr (wireless_node_id, parsed_bytes))"

definition parse_forwarder_encapsulation_mqtt_sn_message ::
  "u8 list \<Rightarrow> nat \<Rightarrow> nat \<Rightarrow> nat \<Rightarrow> u8 list \<Rightarrow> nat \<Rightarrow> (u8 list \<times> nat \<times> nat) cres" where
  [codec_defs]: "parse_forwarder_encapsulation_mqtt_sn_message src_pos src_len parsed_bytes
       mqtt_sn_message_to_parse_length mqtt_sn_message mqtt_sn_message_max_length =
     parse_mqtt_sn_uint8_array_byte src_pos src_len parsed_bytes mqtt_sn_message_to_parse_length
       mqtt_sn_message mqtt_sn_message_max_length"

definition parse_forwarder_encapsulation_byte ::
  "u8 list \<Rightarrow> u8 list \<Rightarrow> nat \<Rightarrow> u8 list \<Rightarrow> nat \<Rightarrow> (u8 \<times> u8 list \<times> u8 list \<times> nat \<times> nat) cres" where
  [codec_defs]: "parse_forwarder_encapsulation_byte wireless_node_id mqtt_sn_message
       max_mqtt_sn_message_len data data_len =
     cbind (parse_forwarder_encapsulation_header data data_len 0) (\<lambda>(h, parsed_bytes).
     cbind (parse_forwarder_encapsulation_ctrl (drop parsed_bytes data) data_len parsed_bytes)
       (\<lambda>(radius, parsed_bytes).
     cbind (parse_forwarder_encapsulation_wireless_node_id (drop parsed_bytes data) data_len
              parsed_bytes wireless_node_id)
       (\<lambda>(wireless_node_id, parsed_bytes).
     cbind (parse_forwarder_encapsulation_mqtt_sn_message (drop parsed_bytes data) data_len
              parsed_bytes (u16_sub data_len parsed_bytes) mqtt_sn_message max_mqtt_sn_message_len)
       (\<lambda>(mqtt_sn_message, mqtt_sn_message_len, parsed_bytes).
     Inr (radius, wireless_node_id, mqtt_sn_message, mqtt_sn_message_len, parsed_bytes)))))"

definition parse_forwarder_encapsulation ::
  "ParseMqttSnEncapsulationMessage \<Rightarrow> u8 list \<Rightarrow> nat \<Rightarrow> (ParseMqttSnEncapsulationMessage \<times> nat) cres" where
  [codec_defs]: "parse_forwarder_encapsulation m data data_len =
     cbind (parse_forwarder_encapsulation_byte (em_wireless_node_id m) (em_mqtt_sn_message m)
              MQTT_SN_MAXIMUM_MESSAGE_DATA_LENGTH data data_len)
       (\<lambda>(radius, wireless_node_id, mqtt_sn_message, mqtt_sn_message_len, rc).
     Inr (\<lparr>em_radius = radius, em_wireless_node_id = wireless_node_id,
           em_mqtt_sn_message = mqtt_sn_message,
           em_mqtt_sn_message_len = mqtt_sn_message_len\<rparr>, rc))"

definition parse_forwarder_encapsulation_message_header ::
  "ParsedMqttSnEncapsulationMessageHeader \<Rightarrow> u8 list \<Rightarrow> nat
   \<Rightarrow> (ParsedMqttSnEncapsulationMessageHeader \<times> nat) cres" where
  [codec_defs]: "parse_forwarder_encapsulation_message_header eh data data_len =
     cbind (parse_forwarder_encapsulation_header data data_len 0) (\<lambda>(h, parsed_bytes).
     cbind (parse_forwarder_encapsulation_ctrl (drop parsed_bytes data) data_len parsed_bytes)
       (\<lambda>(radius, parsed_bytes).
     cbind (parse_forwarder_encapsulation_wireless_node_id (drop parsed_bytes data) data_len
              parsed_bytes (eh_wireless_node_id eh))
       (\<lambda>(wireless_node_id, parsed_bytes).
     Inr (\<lparr>eh_radius = radius, eh_wireless_node_id = wireless_node_id\<rparr>, parsed_bytes))))"

definition generate_forwarder_encapsulation_header ::
  "u8 list \<Rightarrow> nat \<Rightarrow> nat \<Rightarrow> nat \<Rightarrow> nat \<Rightarrow> (int \<times> u8 list \<times> nat) cres" where
  "generate_forwarder_encapsulation_header dst pos dst_len gen_bytes mqtt_sn_message_length =
     (let message_length = MQTT_SN_MESSAGE_FORWARDER_ENCAPSULATION_MIN_LENGTH in
      if MQTT_SN_MESSAGE_FORWARDER_ENCAPSULATION_MIN_LENGTH + mqtt_sn_message_length > 255
         \<and> MQTT_SN_MESSAGE_FORWARDER_ENCAPSULATION_WO_MSG_MAX_LENGTH + mqtt_sn_message_length > 65535
      then Inl Fail
      else generate_mqtt_sn_header dst pos dst_len gen_bytes message_length ENCAPSULATED_MESSAGE)"

definition generate_forwarder_encapsulation_ctrl ::
  "u8 list \<Rightarrow> nat \<Rightarrow> nat \<Rightarrow> nat \<Rightarrow> u8 \<Rightarrow> (int \<times> u8 list \<times> nat) cres" where
  "generate_forwarder_encapsulation_ctrl dst pos dst_len gen_bytes radius =
     (if radius > 1 then Inl Fail else generate_mqtt_sn_uint8 dst pos dst_len radius gen_bytes)"

definition generate_forwarder_encapsulation_wireless_node_id ::
  "u8 list \<Rightarrow> nat \<Rightarrow> nat \<Rightarrow> nat \<Rightarrow> u8 list \<Rightarrow> (int \<times> u8 list \<times> nat) cres" where
  "generate_forwarder_encapsulation_wireless_node_id dst pos dst_len gen_bytes wireless_node_id =
     generate_mqtt_sn_device_address dst pos dst_len gen_bytes wireless_node_id device_address_size"

definition generate_forwarder_encapsulation_mqtt_sn_message ::
  "u8 list \<Rightarrow> nat \<Rightarrow> nat \<Rightarrow> nat \<Rightarrow> u8 list \<Rightarrow> nat \<Rightarrow> (int \<times> u8 list \<times> nat) cres" where
  "generate_forwarder_encapsulation_mqtt_sn_message dst pos dst_len gen_bytes mqtt_sn_message
       mqtt_sn_message_length =
     generate_mqtt_sn_uint8_array dst pos dst_len gen_bytes mqtt_sn_message mqtt_sn_message_length"

definition generate_forwarder_encapsulation_byte ::
  "u8 list \<Rightarrow> nat \<Rightarrow> u8 \<Rightarrow> u8 list \<Rightarrow> u8 list \<Rightarrow> nat \<Rightarrow> (u8 list \<times> nat) cres" where
  "generate_forwarder_encapsulation_byte dst dst_len radius wireless_node_id mqtt_sn_message
       mqtt_sn_message_length =
     cbind (generate_forwarder_encapsulation_header dst 0 dst_len 0 mqtt_sn_message_length)
       (\<lambda>(_, dst, gen_bytes).
     cbind (generate_forwarder_encapsulation_ctrl dst gen_bytes dst_len gen_bytes radius)
       (\<lambda>(_, dst, gen_bytes).
     cbind (generate_forwarder_encapsulation_wireless_node_id dst gen_bytes dst_len gen_bytes
              wireless_node_id)
       (\<lambda>(_, dst, gen_bytes).
     cbind (generate_forwarder_encapsulation_mqtt_sn_message dst gen_bytes dst_len gen_bytes
              mqtt_sn_message mqtt_sn_message_length)
       (\<lambda>(_, dst, gen_bytes). Inr (dst, gen_bytes)))))"

text \<open>
  The header of a frame always says nine bytes; the message behind it is not counted, and the reader
  of the header accepts the difference for this type only.
\<close>

lemma parse_header_ok_encapsulated:
  assumes "2 \<le> n"
  shows "parse_header_ok ENCAPSULATED_MESSAGE (9 # type_byte ENCAPSULATED_MESSAGE # rest) n pb =
    Inr (plain_header 9 ENCAPSULATED_MESSAGE, 2)"
  using assms
  by (simp add: parse_header_ok_def header_defs Let_def uint_type_byte cast_type_byte
      MQTT_SN_MESSAGE_TYPE_RESERVED_def plain_header_def empty_header_def)

lemma gen_forwarder_encapsulation_header [gen_simps]:
  assumes "dst_len \<le> length dst" "pos = length ps" "used = length ps"
  shows "generate_forwarder_encapsulation_header (patched dst ps) pos dst_len used k =
    (if k \<le> 65524 \<and> 9 \<le> dst_len \<and> length ps + 2 \<le> dst_len
     then Inr (int (length ps + 2), patched dst (ps @ [9, type_byte ENCAPSULATED_MESSAGE]),
               length ps + 2)
     else Inl Fail)"
  using assms
  by (auto simp: generate_forwarder_encapsulation_header_def gen_simps codec_defs Let_def
      device_address_size_def header_wire_def)

lemma gen_forwarder_encapsulation_ctrl [gen_simps]:
  assumes "dst_len \<le> length dst" "pos = length ps" "used = length ps"
  shows "generate_forwarder_encapsulation_ctrl (patched dst ps) pos dst_len used radius =
    (if radius \<le> 1 \<and> length ps + 1 \<le> dst_len
     then Inr (int (length ps + 1), patched dst (ps @ [radius]), length ps + 1) else Inl Fail)"
  using assms by (auto simp: generate_forwarder_encapsulation_ctrl_def gen_simps)

lemma gen_forwarder_encapsulation_wireless_node_id [gen_simps]:
  assumes "dst_len \<le> length dst" "pos = length ps" "used = length ps" "length node = 6"
  shows "generate_forwarder_encapsulation_wireless_node_id (patched dst ps) pos dst_len used node =
    (if length ps + 6 \<le> dst_len then Inr (0, patched dst (ps @ node), length ps + 6) else Inl Fail)"
  using assms
  by (simp add: generate_forwarder_encapsulation_wireless_node_id_def gen_simps device_address_size_def)

lemma gen_forwarder_encapsulation_mqtt_sn_message [gen_simps]:
  "generate_forwarder_encapsulation_mqtt_sn_message = generate_mqtt_sn_uint8_array"
  by (intro ext) (simp add: generate_forwarder_encapsulation_mqtt_sn_message_def)

text \<open>The first part of a frame, and the frame of a message.\<close>

definition frame_head :: "u8 \<Rightarrow> u8 list \<Rightarrow> u8 list" where
  "frame_head radius node = [9, type_byte ENCAPSULATED_MESSAGE, radius] @ node"

definition frame_wire :: "ParseMqttSnEncapsulationMessage \<Rightarrow> u8 list" where
  "frame_wire m = frame_head (em_radius m) (em_wireless_node_id m)
     @ take (em_mqtt_sn_message_len m) (em_mqtt_sn_message m)"

definition frame_wf :: "ParseMqttSnEncapsulationMessage \<Rightarrow> bool" where
  "frame_wf m \<longleftrightarrow> length (em_wireless_node_id m) = device_address_size
     \<and> em_mqtt_sn_message_len m \<le> length (em_mqtt_sn_message m)"

definition frame_valid :: "ParseMqttSnEncapsulationMessage \<Rightarrow> bool" where
  "frame_valid m \<longleftrightarrow> em_radius m \<le> 1 \<and> em_mqtt_sn_message_len m \<le> 65524"

definition frame_readable :: "ParseMqttSnEncapsulationMessage \<Rightarrow> bool" where
  "frame_readable m \<longleftrightarrow> em_mqtt_sn_message_len m \<le> MQTT_SN_MAXIMUM_MESSAGE_DATA_LENGTH"

definition frame_view :: "ParseMqttSnEncapsulationMessage \<Rightarrow> u8 \<times> u8 list \<times> u8 list" where
  "frame_view m = (em_radius m, em_wireless_node_id m,
     take (em_mqtt_sn_message_len m) (em_mqtt_sn_message m))"

lemma length_frame_wire: "frame_wf m \<Longrightarrow> length (frame_wire m) = 9 + em_mqtt_sn_message_len m"
  by (simp add: frame_wire_def frame_head_def frame_wf_def device_address_size_def)

lemma generate_forwarder_encapsulation_eq:
  assumes "frame_wf m" "dst_len \<le> length dst"
  shows "generate_forwarder_encapsulation_byte dst dst_len (em_radius m) (em_wireless_node_id m)
      (em_mqtt_sn_message m) (em_mqtt_sn_message_len m) =
    (if frame_valid m \<and> 9 + em_mqtt_sn_message_len m \<le> dst_len
     then Inr (patched dst (frame_wire m), 9 + em_mqtt_sn_message_len m) else Inl Fail)"
  using assms gen_forwarder_encapsulation_header [of dst_len dst 0 "[]" 0 "em_mqtt_sn_message_len m"]
  by (auto simp: generate_forwarder_encapsulation_byte_def gen_simps frame_wire_def frame_head_def
      frame_wf_def frame_valid_def device_address_size_def)

lemma parse_frame_head:
  assumes "radius \<le> 1" "length node = 6" "9 \<le> n" "length (eh_wireless_node_id eh) = 6"
  shows "parse_forwarder_encapsulation_message_header eh (frame_head radius node @ rest) n =
    Inr (\<lparr>eh_radius = radius, eh_wireless_node_id = node\<rparr>, 9)"
  using assms
  by (simp add: codec_defs frame_head_def parse_header_ok_encapsulated device_address_size_def
      parse_mqtt_sn_device_address_def parse_mqtt_sn_uint8_array_byte_def patched_def rds_def not_less)

lemma parse_forwarder_encapsulation_frame:
  assumes "frame_wf m" "frame_valid m" "frame_readable m"
    "length (em_wireless_node_id b) = device_address_size"
    "length (em_mqtt_sn_message b) = MQTT_SN_MAXIMUM_MESSAGE_DATA_LENGTH"
  shows "parse_forwarder_encapsulation b (frame_wire m @ rest) (9 + em_mqtt_sn_message_len m) =
    Inr (m\<lparr>em_mqtt_sn_message := patched (em_mqtt_sn_message b)
           (take (em_mqtt_sn_message_len m) (em_mqtt_sn_message m))\<rparr>, 9 + em_mqtt_sn_message_len m)"
  using assms
  by (simp add: codec_defs frame_wire_def frame_head_def parse_header_ok_encapsulated frame_wf_def
      frame_valid_def frame_readable_def device_address_size_def parse_mqtt_sn_device_address_def
      parse_mqtt_sn_uint8_array_byte_def rds_def not_less patched_def [of "em_wireless_node_id b"])

definition message_buffer :: "u8 list" where
  "message_buffer = replicate MQTT_SN_MAXIMUM_MESSAGE_DATA_LENGTH 0"

lemma length_message_buffer: "length message_buffer = MQTT_SN_MAXIMUM_MESSAGE_DATA_LENGTH"
  by (simp only: message_buffer_def length_replicate)

definition read_frame :: "u8 list \<Rightarrow> nat \<Rightarrow> (u8 \<times> u8 list \<times> u8 list) cres" where
  "read_frame data n = map_sum id (\<lambda>(m, _). frame_view m)
     (parse_forwarder_encapsulation
        \<lparr>em_radius = 0, em_wireless_node_id = replicate device_address_size 0,
         em_mqtt_sn_message = message_buffer, em_mqtt_sn_message_len = 0\<rparr> data n)"

lemma read_frame_wire:
  assumes "frame_wf m" "frame_valid m" "frame_readable m"
  shows "read_frame (frame_wire m @ rest) (9 + em_mqtt_sn_message_len m) = Inr (frame_view m)"
proof -
  have "take (em_mqtt_sn_message_len m) (patched b (take (em_mqtt_sn_message_len m) (em_mqtt_sn_message m)))
      = take (em_mqtt_sn_message_len m) (em_mqtt_sn_message m)" for b
    using assms(1) by (simp add: patched_def frame_wf_def)
  then show ?thesis
    using parse_forwarder_encapsulation_frame [OF assms, of "\<lparr>em_radius = 0,
        em_wireless_node_id = replicate device_address_size 0,
        em_mqtt_sn_message = message_buffer, em_mqtt_sn_message_len = 0\<rparr>" rest]
    by (simp add: read_frame_def frame_view_def length_message_buffer)
qed

interpretation frame: wire_format frame_wire frame_wf frame_valid frame_readable "\<lambda>_. True"
  untouched
  "\<lambda>dst n m. map_sum id fst (generate_forwarder_encapsulation_byte dst n (em_radius m)
     (em_wireless_node_id m) (em_mqtt_sn_message m) (em_mqtt_sn_message_len m))"
  frame_view read_frame
  by unfold_locales (simp_all add: generate_forwarder_encapsulation_eq length_frame_wire read_frame_wire)

lemma parse_forwarder_header_Inr:
  assumes "parse_forwarder_encapsulation_message_header eh data n = Inr (eh', rc)"
  shows "9 \<le> rc \<and> rc \<le> n \<and> rc \<le> length data"
proof -
  from assms obtain h pb pb' pb'' len where
    "pb \<ge> 2" "pb' = pb + 1" "parse_mqtt_sn_device_address (drop pb' data) n pb' (eh_wireless_node_id eh)
      = Inr (eh_wireless_node_id eh', len, pb'')" "rc = pb''"
    unfolding parse_forwarder_encapsulation_message_header_def
    by (auto simp: cbind_eq_Inr parse_forwarder_encapsulation_header_def parse_header_ok_def
        parse_forwarder_encapsulation_ctrl_def parse_forwarder_encapsulation_wireless_node_id_def
        split: if_splits dest!: parse_header_progress read_progress)
  then show ?thesis
    by (auto simp: parse_mqtt_sn_device_address_def parse_mqtt_sn_uint8_array_byte_def cbind_eq_Inr
        rds_def device_address_size_def split: if_splits)
qed

lemma safe_read_message [safe_intros]:
  "n \<le> length data \<Longrightarrow> cap \<le> length buf
     \<Longrightarrow> safe (parse_mqtt_sn_uint8_array_byte (drop pb data) n pb k buf cap)"
  unfolding parse_mqtt_sn_uint8_array_byte_def
  by (intro safe_intros) (auto simp: rds_def split: if_splits)

lemma safe_parse_forwarder_encapsulation:
  assumes "n \<le> length data" "data \<noteq> [1, 0, 3]"
    "length (em_wireless_node_id m) = device_address_size"
    "length (em_mqtt_sn_message m) = MQTT_SN_MAXIMUM_MESSAGE_DATA_LENGTH"
  shows "safe (parse_forwarder_encapsulation m data n)"
  using assms unfolding codec_defs by (intro safe_intros) simp_all

lemma safe_parse_forwarder_header:
  assumes "n \<le> length data" "data \<noteq> [1, 0, 3]"
    "length (eh_wireless_node_id eh) = device_address_size"
  shows "safe (parse_forwarder_encapsulation_message_header eh data n)"
  using assms unfolding codec_defs by (intro safe_intros)

section \<open>Chains of encapsulation headers\<close>

text \<open>
  The reading loop, with the number of iterations left; it stops at the first header that does not
  parse and fails when one more header is found than the arrays take.
\<close>

fun parse_headers_loop ::
  "nat \<Rightarrow> u8 list \<Rightarrow> nat \<Rightarrow> u8 list \<Rightarrow> u8 list list \<Rightarrow> nat \<Rightarrow> nat
   \<Rightarrow> (u8 list \<times> u8 list list \<times> nat \<times> nat) cres" where
  "parse_headers_loop 0 data data_len radiuses addresses forwarders_len parsed_bytes =
     Inr (radiuses, addresses, forwarders_len, parsed_bytes)"
| "parse_headers_loop (Suc left) data data_len radiuses addresses forwarders_len parsed_bytes =
     (case parse_forwarder_encapsulation_message_header
             \<lparr>eh_radius = 0, eh_wireless_node_id = replicate device_address_size 0\<rparr>
             (drop parsed_bytes data) (u16_sub data_len parsed_bytes) of
        Inl Fail \<Rightarrow> Inr (radiuses, addresses, forwarders_len, parsed_bytes)
      | Inl e \<Rightarrow> Inl e
      | Inr (h, parse_rc) \<Rightarrow>
          if left = 0 then Inl Fail
          else
            cbind (wr_arr radiuses forwarders_len (eh_radius h)) (\<lambda>radiuses.
            cbind (wr_arr addresses forwarders_len (eh_wireless_node_id h)) (\<lambda>addresses.
            parse_headers_loop left data data_len radiuses addresses ((forwarders_len + 1) mod 65536)
              (parsed_bytes + parse_rc))))"

text \<open>The loop that turns the order of both arrays around in place, from index \<open>i\<close> on.\<close>

function reverse_loop :: "nat \<Rightarrow> nat \<Rightarrow> 'a list \<Rightarrow> 'b list \<Rightarrow> ('a list \<times> 'b list) cres" where
  "reverse_loop i len radiuses addresses =
     (if i < len div 2
      then
        cbind (rd_arr addresses (len - 1 - i)) (\<lambda>tmp_addr.
        cbind (rd_arr radiuses (len - 1 - i)) (\<lambda>tmp_radius.
        cbind (cbind (rd_arr addresses i) (wr_arr addresses (len - 1 - i))) (\<lambda>addresses.
        cbind (cbind (rd_arr radiuses i) (wr_arr radiuses (len - 1 - i))) (\<lambda>radiuses.
        cbind (wr_arr addresses i tmp_addr) (\<lambda>addresses.
        cbind (wr_arr radiuses i tmp_radius) (\<lambda>radiuses.
        reverse_loop (i + 1) len radiuses addresses))))))
      else Inr (radiuses, addresses))"
  by pat_completeness auto
termination
  by (relation "measure (\<lambda>(i, len, _, _). len - i)") auto

declare reverse_loop.simps [simp del]

definition parse_multiple_forwarder_encapsulation_headers_byte ::
  "u8 list \<Rightarrow> u8 list list \<Rightarrow> nat \<Rightarrow> u8 list \<Rightarrow> u8 list \<Rightarrow> nat
   \<Rightarrow> (u8 list \<times> u8 list list \<times> nat \<times> u8 list \<times> nat) cres" where
  "parse_multiple_forwarder_encapsulation_headers_byte radiuses forwarder_addresses
       forwarders_max_len first_forwarder_address data data_len =
     (if \<not> (forwarders_max_len > 0) \<or> \<not> (forwarders_max_len < 8000) then Inl Abort
      else
        cbind (parse_headers_loop (forwarders_max_len + 1) data data_len radiuses forwarder_addresses
                 0 0) (\<lambda>(radiuses, forwarder_addresses, forwarders_len, parsed_bytes).
        if forwarders_len = 0 then Inl Fail
        else
          cbind (reverse_loop 0 forwarders_len radiuses forwarder_addresses)
            (\<lambda>(radiuses, forwarder_addresses).
          cbind (rd_arr forwarder_addresses 0) (\<lambda>wireless_node_id.
          cbind (wr_arr forwarder_addresses 0 first_forwarder_address) (\<lambda>forwarder_addresses.
          Inr (radiuses, forwarder_addresses, forwarders_len, wireless_node_id, parsed_bytes))))))"

text \<open>The in-place loop reverses the first \<open>len\<close> elements.\<close>

definition mirror :: "nat \<Rightarrow> nat \<Rightarrow> 'a list \<Rightarrow> 'a list" where
  "mirror i len a =
     map (\<lambda>j. if i \<le> j \<and> j < len - i then a ! (len - 1 - j) else a ! j) [0..<length a]"

lemma mirror_rev: "len \<le> length a \<Longrightarrow> mirror 0 len a = rev (take len a) @ drop len a"
  by (rule nth_equalityI) (auto simp: mirror_def rev_nth nth_append)

lemma mirror_done: "i = len div 2 \<Longrightarrow> mirror i len a = a"
proof (rule nth_equalityI)
  fix j
  assume i: "i = len div 2" and j: "j < length (mirror i len a)"
  have "len - 1 - j = j" if "i \<le> j" "j < len - i"
    using i that by linarith
  then show "mirror i len a ! j = a ! j"
    using j by (auto simp: mirror_def)
qed (simp add: mirror_def)

lemma mirror_length [simp]: "length (mirror i len a) = length a"
  by (simp add: mirror_def)

lemma mirror_nth:
  "j < length a \<Longrightarrow> mirror i len a ! j = (if i \<le> j \<and> j < len - i then a ! (len - 1 - j) else a ! j)"
  by (simp add: mirror_def)

lemma mirror_step:
  assumes "i < len div 2" "len \<le> length a"
  shows "mirror (i + 1) len (a[len - 1 - i := a ! i, i := a ! (len - 1 - i)]) = mirror i len a"
    (is "mirror _ _ ?b = _")
proof (rule nth_equalityI)
  fix j
  assume "j < length (mirror (i + 1) len ?b)"
  then have j: "j < length a" by simp
  have i: "i < length a" "len - 1 - i < length a" "i < len - 1 - i \<or> i = len - 1 - i" "Suc i \<le> len - i"
    "len - 1 - (len - 1 - i) = i"
    using assms by linarith+
  have b: "?b ! k = (if k = i then a ! (len - 1 - i) else if k = len - 1 - i then a ! i else a ! k)" for k
    using i by (cases "k = i"; cases "k = len - 1 - i") auto
  consider "j = i" | "j = len - 1 - i" "j \<noteq> i" | "Suc i \<le> j" "j < len - Suc i" | "\<not> (i \<le> j \<and> j < len - i)"
    by linarith
  then show "mirror (i + 1) len ?b ! j = mirror i len a ! j"
  proof cases
    case 2
    then have "len - 1 - i < len - i" "i \<le> len - 1 - i"
      using i by linarith+
    then show ?thesis
      using 2 i j by (auto simp: mirror_nth b)
  next
    case 3
    then have "len - 1 - j \<noteq> i" "len - 1 - j \<noteq> len - 1 - i" "i \<le> j" "j < len - i"
      using i by linarith+
    then show ?thesis
      using 3 j by (simp add: mirror_nth b)
  next
    case 4
    then have "j \<noteq> i" "j \<noteq> len - 1 - i" "\<not> (Suc i \<le> j \<and> j < len - Suc i)"
      using i by linarith+
    then show ?thesis
      using 4 j by (auto simp: mirror_nth b)
  qed (use i j in \<open>simp_all add: mirror_nth b\<close>)
qed simp

lemma reverse_loop_mirror:
  assumes "i \<le> len div 2" "len \<le> length radiuses" "len \<le> length addresses"
  shows "reverse_loop i len radiuses addresses = Inr (mirror i len radiuses, mirror i len addresses)"
  using assms
proof (induction i len radiuses addresses rule: reverse_loop.induct)
  case (1 i len radiuses addresses)
  show ?case
  proof (cases "i < len div 2")
    case True
    then have i: "i < length radiuses" "len - 1 - i < length radiuses" "i < length addresses"
      "len - 1 - i < length addresses"
      using 1 by linarith+
    show ?thesis
      using True i 1 mirror_step [OF True, of radiuses] mirror_step [OF True, of addresses]
      by (subst reverse_loop.simps) (simp add: wr_arr_def)
  next
    case False
    then show ?thesis
      using 1 by (subst reverse_loop.simps) (simp add: mirror_done)
  qed
qed

text \<open>
  The writer first generates every header at the start of the destination to learn the lengths, then
  generates them again behind each other, outermost first. \<open>enc_lengths\<close> holds the entries of the
  variable-length array written so far.
\<close>

fun generate_lengths_loop ::
  "nat \<Rightarrow> nat \<Rightarrow> u8 list \<Rightarrow> nat \<Rightarrow> u8 list \<Rightarrow> u8 list list \<Rightarrow> u8 list \<Rightarrow> nat \<Rightarrow> nat list
   \<Rightarrow> (u8 list \<times> nat list) cres" where
  "generate_lengths_loop 0 i dst dst_len radiuses addresses wireless_node_id message_length enc_lengths =
     Inr (dst, enc_lengths)"
| "generate_lengths_loop (Suc left) i dst dst_len radiuses addresses wireless_node_id message_length
       enc_lengths =
     cbind (if i = 0 then Inr wireless_node_id else rd_arr addresses i) (\<lambda>forwarder_address.
     cbind (rd_arr radiuses i) (\<lambda>forwarder_radius.
     cbind (if i = 0 then Inr message_length else rd_arr enc_lengths (i - 1)) (\<lambda>current_length.
     cbind (generate_forwarder_encapsulation_header dst 0 dst_len 0 current_length)
       (\<lambda>(_, dst, gen_bytes).
     cbind (generate_forwarder_encapsulation_ctrl dst gen_bytes dst_len gen_bytes forwarder_radius)
       (\<lambda>(_, dst, gen_bytes).
     cbind (generate_forwarder_encapsulation_wireless_node_id dst gen_bytes dst_len gen_bytes
              forwarder_address)
       (\<lambda>(_, dst, gen_bytes).
     generate_lengths_loop left (i + 1) dst dst_len radiuses addresses wireless_node_id message_length
       (enc_lengths @ [(current_length + gen_bytes) mod 65536])))))))"

fun generate_headers_loop ::
  "nat \<Rightarrow> u8 list \<Rightarrow> nat \<Rightarrow> u8 list \<Rightarrow> u8 list list \<Rightarrow> u8 list \<Rightarrow> nat \<Rightarrow> nat list \<Rightarrow> nat
   \<Rightarrow> (u8 list \<times> nat) cres" where
  "generate_headers_loop 0 dst dst_len radiuses addresses wireless_node_id message_length enc_lengths
       gen_bytes = Inr (dst, gen_bytes)"
| "generate_headers_loop (Suc forwarder_index) dst dst_len radiuses addresses wireless_node_id
       message_length enc_lengths gen_bytes =
     cbind (if forwarder_index = 0 then Inr wireless_node_id else rd_arr addresses forwarder_index)
       (\<lambda>forwarder_address.
     cbind (rd_arr radiuses forwarder_index) (\<lambda>forwarder_radius.
     cbind (if forwarder_index = 0 then Inr message_length
            else rd_arr enc_lengths (forwarder_index - 1)) (\<lambda>current_length.
     cbind (generate_forwarder_encapsulation_header dst gen_bytes dst_len gen_bytes current_length)
       (\<lambda>(_, dst, gen_bytes).
     cbind (generate_forwarder_encapsulation_ctrl dst gen_bytes dst_len gen_bytes forwarder_radius)
       (\<lambda>(_, dst, gen_bytes).
     cbind (generate_forwarder_encapsulation_wireless_node_id dst gen_bytes dst_len gen_bytes
              forwarder_address)
       (\<lambda>(_, dst, gen_bytes).
     generate_headers_loop forwarder_index dst dst_len radiuses addresses wireless_node_id
       message_length enc_lengths gen_bytes))))))"

definition generate_multiple_forwarder_encapsulation_headers_byte ::
  "u8 list \<Rightarrow> nat \<Rightarrow> u8 list \<Rightarrow> u8 list list \<Rightarrow> nat \<Rightarrow> u8 list \<Rightarrow> u8 list \<Rightarrow> nat
   \<Rightarrow> (u8 list \<times> nat) cres" where
  "generate_multiple_forwarder_encapsulation_headers_byte dst dst_len radiuses forwarder_addresses
       forwarders_len wireless_node_id mqtt_sn_message mqtt_sn_message_length =
     (if forwarders_len = 0 then Inl Abort
      else
        cbind (generate_lengths_loop forwarders_len 0 dst dst_len radiuses forwarder_addresses
                 wireless_node_id mqtt_sn_message_length []) (\<lambda>(dst, enc_lengths).
        cbind (generate_headers_loop forwarders_len dst dst_len radiuses forwarder_addresses
                 wireless_node_id mqtt_sn_message_length enc_lengths 0) (\<lambda>(dst, gen_bytes).
        cbind (generate_forwarder_encapsulation_mqtt_sn_message dst gen_bytes dst_len gen_bytes
                 mqtt_sn_message mqtt_sn_message_length) (\<lambda>(_, dst, gen_bytes).
        cbind (rd_arr enc_lengths (forwarders_len - 1)) (\<lambda>last_length.
        if gen_bytes \<noteq> last_length then Inl Abort else Inr (dst, gen_bytes))))))"

text \<open>The bytes of a chain, outermost header first.\<close>

definition chain_wire :: "(u8 \<times> u8 list) list \<Rightarrow> u8 list" where
  "chain_wire hs = concat (map (\<lambda>(radius, node). frame_head radius node) hs)"

definition chain_wf :: "(u8 \<times> u8 list) list \<Rightarrow> bool" where
  "chain_wf hs \<longleftrightarrow> (\<forall>(radius, node) \<in> set hs. radius \<le> 1 \<and> length node = 6)"

lemma chain_wire_simps [simp]:
  "chain_wire [] = []" "chain_wire ((r, a) # hs) = frame_head r a @ chain_wire hs"
  by (simp_all add: chain_wire_def)

lemma chain_wf_simps [simp]:
  "chain_wf []" "chain_wf ((r, a) # hs) \<longleftrightarrow> r \<le> 1 \<and> length a = 6 \<and> chain_wf hs"
  by (auto simp: chain_wf_def)

lemma length_frame_head [simp]: "length (frame_head r a) = 3 + length a"
  by (simp add: frame_head_def)

lemma length_chain_wire: "chain_wf hs \<Longrightarrow> length (chain_wire hs) = 9 * length hs"
  by (induction hs) auto

definition store_at :: "'a list \<Rightarrow> nat \<Rightarrow> 'a list \<Rightarrow> 'a list" where
  "store_at a l xs = take l a @ xs @ drop (l + length xs) a"

lemma store_at_Nil [simp]: "store_at a l [] = a"
  by (simp add: store_at_def)

lemma store_at_Cons: "l < length a \<Longrightarrow> store_at (a[l := x]) (Suc l) xs = store_at a l (x # xs)"
  by (simp add: store_at_def take_Suc_conv_app_nth drop_update_cancel)

lemma length_store_at: "l + length xs \<le> length a \<Longrightarrow> length (store_at a l xs) = length a"
  by (simp add: store_at_def)

lemma parse_headers_loop_chain:
  assumes "chain_wf hs" "drop pb data = chain_wire hs @ msg" "data_len = pb + 9 * length hs + len"
    "data_len < 65536" "length hs < left"
    "l + length hs \<le> length radiuses" "l + length hs \<le> length addresses" "l + length hs < 65536"
    "\<And>eh. parse_forwarder_encapsulation_message_header eh msg len = Inl Fail"
  shows "parse_headers_loop left data data_len radiuses addresses l pb =
    Inr (store_at radiuses l (map fst hs), store_at addresses l (map snd hs), l + length hs,
         pb + 9 * length hs)"
  using assms
proof (induction hs arbitrary: left pb radiuses addresses l)
  case Nil
  then show ?case
    by (cases left) simp_all
next
  case (Cons h hs)
  obtain r a where h: "h = (r, a)" by fastforce
  obtain left' where left: "left = Suc left'" "left' \<noteq> 0"
    using Cons.prems(5) by (cases left) auto
  have fr: "drop pb data = frame_head r a @ (chain_wire hs @ msg)"
    using Cons.prems(2) by (simp add: h)
  have "drop (pb + 9) data = drop 9 (drop pb data)"
    by (simp add: add.commute)
  then have "drop (pb + 9) data = chain_wire hs @ msg"
    unfolding fr using Cons.prems(1) by (simp add: h)
  with fr show ?case
    using Cons.prems Cons.IH [of "pb + 9" left' "l + 1" "radiuses[l := r]" "addresses[l := a]"]
    by (simp add: h left parse_frame_head device_address_size_def store_at_Cons)
qed

text \<open>
  Reading a chain of \<open>n\<close> headers gives the radiuses and addresses innermost first; the innermost address
  is the node, and its place in the array is taken by the address of the first forwarder.
\<close>

lemma parse_multiple_chain:
  assumes "chain_wf hs" "hs \<noteq> []" "length hs \<le> max_len" "max_len < 8000"
    "length radiuses = max_len" "length addresses = max_len"
    "data = chain_wire hs @ msg" "data_len = 9 * length hs + len" "data_len < 65536"
    "\<And>eh. parse_forwarder_encapsulation_message_header eh msg len = Inl Fail"
  shows "parse_multiple_forwarder_encapsulation_headers_byte radiuses addresses max_len first data
      data_len =
    Inr (rev (map fst hs) @ drop (length hs) radiuses,
         (rev (map snd hs) @ drop (length hs) addresses)[0 := first], length hs,
         snd (last hs), 9 * length hs)"
proof -
  have loop: "parse_headers_loop (max_len + 1) data data_len radiuses addresses 0 0 =
      Inr (store_at radiuses 0 (map fst hs), store_at addresses 0 (map snd hs), length hs, 9 * length hs)"
    using assms parse_headers_loop_chain [of hs 0 data msg data_len len "max_len + 1" 0 radiuses addresses]
    by simp
  have m: "mirror 0 (length hs) (store_at radiuses 0 (map fst hs)) = rev (map fst hs) @ drop (length hs) radiuses"
    "mirror 0 (length hs) (store_at addresses 0 (map snd hs)) = rev (map snd hs) @ drop (length hs) addresses"
    using assms(3,5,6) by (simp_all add: mirror_rev length_store_at) (simp_all add: store_at_def)
  have hd: "(rev (map snd hs) @ drop (length hs) addresses) ! 0 = snd (last hs)"
    using assms(2) by (simp add: nth_append rev_nth last_conv_nth)
  have "0 < max_len"
    using assms(2,3) by (cases hs) auto
  then show ?thesis
    using assms(2-6) loop m hd
    by (simp add: parse_multiple_forwarder_encapsulation_headers_byte_def reverse_loop_mirror
        length_store_at wr_arr_def del: list_update_append parse_headers_loop.simps)
qed

lemma generate_lengths_loop_eq:
  assumes "left + i = n" "n \<le> length radiuses" "n \<le> length addresses" "length wireless_node_id = 6"
    "\<forall>j < n. radiuses ! j \<le> 1 \<and> length (addresses ! j) = 6" "k + 9 * n \<le> 65533"
    "9 \<le> dst_len" "dst_len \<le> length dst" "length q \<le> 9"
    "lens = map (\<lambda>j. k + 9 * (j + 1)) [0..<i]"
  shows "\<exists>q'. length q' \<le> 9 \<and> generate_lengths_loop left i (patched dst q) dst_len radiuses addresses
      wireless_node_id k lens = Inr (patched dst q', map (\<lambda>j. k + 9 * (j + 1)) [0..<n])"
  using assms
proof (induction left arbitrary: i q lens)
  case 0
  then show ?case by auto
next
  case (Suc left)
  let ?a = "if i = 0 then wireless_node_id else addresses ! i"
  have i: "i < n" "radiuses ! i \<le> 1" "length ?a = 6"
    using Suc.prems by auto
  have cur: "(if i = 0 then Inr k else rd_arr lens (i - 1)) = Inr (k + 9 * i)"
    using Suc.prems(10) by (cases i) (simp_all add: nth_append)
  have len: "length (patched dst q) = length dst"
    using Suc.prems by (simp add: length_patched)
  obtain q' where q': "length q' \<le> 9" "generate_lengths_loop left (i + 1)
      (patched dst (frame_head (radiuses ! i) ?a)) dst_len radiuses addresses wireless_node_id k
      (lens @ [k + 9 * (i + 1)]) = Inr (patched dst q', map (\<lambda>j. k + 9 * (j + 1)) [0..<n])"
    using Suc.IH [of "i + 1" "frame_head (radiuses ! i) ?a" "lens @ [k + 9 * (i + 1)]"] Suc.prems i
    by auto
  define d where "d = patched dst q"
  define addr where "addr = ?a"
  define c where "c = k + 9 * i"
  have addr: "(if i = 0 then Inr wireless_node_id else rd_arr addresses i) = Inr addr"
    "rd_arr radiuses i = Inr (radiuses ! i)" "length addr = 6" "length d = length dst"
    using Suc.prems i len by (auto simp: addr_def d_def)
  have c: "(c + 9) mod 65536 = c + 9" "k + 9 * (i + 1) = c + 9" "c \<le> 65524"
    using Suc.prems i by (auto simp: c_def)
  have head: "generate_forwarder_encapsulation_header d 0 dst_len 0 c =
      Inr (2, patched d [9, type_byte ENCAPSULATED_MESSAGE], 2)"
    using Suc.prems c addr
      gen_forwarder_encapsulation_header [of dst_len d 0 "[]" 0 c] by simp
  have pp: "patched d (frame_head (radiuses ! i) addr) = patched dst (frame_head (radiuses ! i) addr)"
    using Suc.prems(9) addr(3) by (simp add: d_def)
  have "generate_lengths_loop (Suc left) i d dst_len radiuses addresses
      wireless_node_id k lens = generate_lengths_loop left (i + 1)
      (patched dst (frame_head (radiuses ! i) addr)) dst_len radiuses addresses wireless_node_id k
      (lens @ [k + 9 * (i + 1)])"
    unfolding generate_lengths_loop.simps(2) addr(1,2) cur c_def [symmetric] c(2) pp [symmetric]
    using Suc.prems(7,8) i(2) addr(3,4) c(1)
    by (simp add: head gen_simps frame_head_def)
  then show ?case
    using q' by (auto simp: d_def addr_def)
qed

lemma generate_headers_loop_eq:
  assumes "n \<le> length radiuses" "n \<le> length addresses" "length wireless_node_id = 6"
    "\<forall>j < n. radiuses ! j \<le> 1 \<and> length (addresses ! j) = 6" "k + 9 * n \<le> 65533"
    "length ps + 9 * left \<le> dst_len" "9 \<le> dst_len" "dst_len \<le> length dst" "left \<le> n"
    "zs = zip radiuses (addresses[0 := wireless_node_id])"
  shows "generate_headers_loop left (patched dst ps) dst_len radiuses addresses wireless_node_id k
      (map (\<lambda>j. k + 9 * (j + 1)) [0..<n]) (length ps) =
    Inr (patched dst (ps @ chain_wire (rev (take left zs))), length ps + 9 * left)"
  using assms
proof (induction left arbitrary: ps)
  case 0
  then show ?case by simp
next
  case (Suc left)
  define addr where "addr = (if left = 0 then wireless_node_id else addresses ! left)"
  define c where "c = k + 9 * left"
  have addr: "(if left = 0 then Inr wireless_node_id else rd_arr addresses left) = Inr addr"
    "rd_arr radiuses left = Inr (radiuses ! left)" "length addr = 6" "radiuses ! left \<le> 1"
    using Suc.prems by (auto simp: addr_def)
  have cur: "(if left = 0 then Inr k else rd_arr (map (\<lambda>j. k + 9 * (j + 1)) [0..<n]) (left - 1)) = Inr c"
    using Suc.prems(9) by (cases left) (auto simp: c_def)
  have c: "c \<le> 65524"
    using Suc.prems by (auto simp: c_def)
  have ne: "0 < length addresses"
    using Suc.prems(2,9) by linarith
  have nth: "addresses[0 := wireless_node_id] ! left = addr"
    using ne by (cases left) (simp_all add: addr_def)
  have "left < length zs" "zs ! left = (radiuses ! left, addr)"
    unfolding Suc.prems(10) using Suc.prems(1,2,9) nth by simp_all
  then have zs: "rev (take (Suc left) zs) = (radiuses ! left, addr) # rev (take left zs)"
    by (simp add: take_Suc_conv_app_nth)
  have IH: "generate_headers_loop left (patched dst (ps @ frame_head (radiuses ! left) addr)) dst_len
      radiuses addresses wireless_node_id k (map (\<lambda>j. k + 9 * (j + 1)) [0..<n]) (length ps + 9) =
    Inr (patched dst ((ps @ frame_head (radiuses ! left) addr) @ chain_wire (rev (take left zs))),
         length ps + 9 + 9 * left)"
    using Suc.IH [of "ps @ frame_head (radiuses ! left) addr"] Suc.prems addr(3) by simp
  have "generate_headers_loop (Suc left) (patched dst ps) dst_len radiuses addresses wireless_node_id k
      (map (\<lambda>j. k + 9 * (j + 1)) [0..<n]) (length ps) =
    generate_headers_loop left (patched dst (ps @ frame_head (radiuses ! left) addr)) dst_len
      radiuses addresses wireless_node_id k (map (\<lambda>j. k + 9 * (j + 1)) [0..<n]) (length ps + 9)"
    unfolding generate_headers_loop.simps(2) addr(1,2) cur
    using Suc.prems(6,7,8) addr(3,4) c
    by (simp add: gen_simps frame_head_def add.commute del: upt_Suc)
  then show ?case
    unfolding zs IH by simp
qed

text \<open>The writer's result: the chain, outermost header first, and the message behind it.\<close>

lemma generate_multiple_prefix:
  assumes "0 < n" "n \<le> length radiuses" "n \<le> length addresses" "length wireless_node_id = 6"
    "\<forall>j < n. radiuses ! j \<le> 1 \<and> length (addresses ! j) = 6" "k \<le> length msg"
    "9 * n + k \<le> dst_len" "dst_len \<le> length dst" "9 * n + k \<le> 65533"
  shows "generate_multiple_forwarder_encapsulation_headers_byte dst dst_len radiuses addresses n
      wireless_node_id msg k =
    Inr (patched dst (chain_wire (rev (take n (zip radiuses (addresses[0 := wireless_node_id])))) @ take k msg),
         9 * n + k)"
proof -
  let ?zs = "zip radiuses (addresses[0 := wireless_node_id])"
  let ?lens = "map (\<lambda>j. k + 9 * (j + 1)) [0..<n]"
  obtain q where q: "length q \<le> 9" "generate_lengths_loop n 0 dst dst_len radiuses addresses
      wireless_node_id k [] = Inr (patched dst q, ?lens)"
    using generate_lengths_loop_eq [of n 0 n radiuses addresses wireless_node_id k dst_len dst "[]" "[]"]
      assms by auto
  have wf: "chain_wf (rev (take n ?zs))"
  proof -
    have "length (addresses[0 := wireless_node_id] ! i) = 6" if "i < n" for i
      using assms(3-5) that by (cases addresses; cases i) auto
    then show ?thesis
      using assms(2,3,5) by (auto simp: chain_wf_def in_set_conv_nth)
  qed
  have lz: "length (take n ?zs) = n"
    using assms by simp
  have "generate_headers_loop n (patched dst q) dst_len radiuses addresses wireless_node_id k ?lens 0 =
      Inr (patched (patched dst q) (chain_wire (rev (take n ?zs))), 9 * n)"
    using generate_headers_loop_eq [of n radiuses addresses wireless_node_id k "[]" n dst_len
        "patched dst q" ?zs] assms q(1) by (simp add: length_patched)
  moreover have len: "length (chain_wire (rev (take n ?zs))) = 9 * n"
    using length_chain_wire [OF wf] lz by simp
  moreover have "patched (patched dst q) (chain_wire (rev (take n ?zs))) = patched dst (chain_wire (rev (take n ?zs)))"
    using q(1) len assms(1) by simp
  ultimately show ?thesis
    using assms q(2)
    by (simp add: generate_multiple_forwarder_encapsulation_headers_byte_def gen_simps)
qed

lemma generate_multiple_eq:
  assumes "0 < n" "length radiuses = n" "length addresses = n" "length wireless_node_id = 6"
    "\<forall>j < n. radiuses ! j \<le> 1 \<and> length (addresses ! j) = 6" "k \<le> length msg"
    "9 * n + k \<le> dst_len" "dst_len \<le> length dst" "9 * n + k \<le> 65533"
  shows "generate_multiple_forwarder_encapsulation_headers_byte dst dst_len radiuses addresses n
      wireless_node_id msg k =
    Inr (patched dst (chain_wire (rev (zip radiuses (addresses[0 := wireless_node_id]))) @ take k msg),
         9 * n + k)"
  using generate_multiple_prefix [OF assms(1) _ _ assms(4-9)] assms(2,3) by simp

end
