(* ===== verification/Ring_Buffer.thy ===== *)
theory Ring_Buffer
  imports Encapsulation
begin

text \<open>
  Message data (\<open>src/platform/MqttSnMessageData.h\<close>, \<open>.c\<close>) and the message queue of the forwarder
  (\<open>src/ringbuffer/MqttSnFixedSizeRingBuffer.h\<close>, \<open>.c\<close>). The counters are \<open>uint32_t\<close>, so their additions
  are taken modulo \<open>2 ^ 32\<close>; an access outside the array of items is \<open>Fault\<close>. The abstraction
  \<open>contents\<close> reads a ring as the list of its messages, oldest first, and the locale
  \<open>message_queue\<close> states the contract of a bounded queue that the ring fulfils.
\<close>

section \<open>Message data\<close>

record MqttSnMessageData =
  md_create_time_s :: u64
  md_create_time_ms :: u64
  md_from :: "u8 list"
  md_to :: "u8 list"
  md_data_length :: nat
  md_signal_strength :: u8
  md_data :: "u8 list"

text \<open>The initialiser \<open>{0}\<close> of the source.\<close>

definition zero_message :: MqttSnMessageData where
  "zero_message =
     \<lparr>md_create_time_s = 0, md_create_time_ms = 0, md_from = replicate device_address_size 0,
      md_to = replicate device_address_size 0, md_data_length = 0, md_signal_strength = 0,
      md_data = message_buffer\<rparr>"

text \<open>
  The clock is \<open>get_timestamp_ms\<close>: its return code, the two values it stores, and the world behind it.
\<close>

definition add_mqtt_sn_message_timestamp ::
  "('w \<Rightarrow> (int \<times> u64 \<times> u64) \<times> 'w) \<Rightarrow> MqttSnMessageData \<Rightarrow> 'w \<Rightarrow> int \<times> MqttSnMessageData \<times> 'w" where
  "add_mqtt_sn_message_timestamp clock_ms m w =
     (let ((rc, s, ms), w) = clock_ms w;
          m = m\<lparr>md_create_time_s := s, md_create_time_ms := ms\<rparr>
      in (if rc < 0 then -1 else 0, m, w))"

definition reuse_mqtt_sn_message_data ::
  "('w \<Rightarrow> (int \<times> u64 \<times> u64) \<times> 'w) \<Rightarrow> MqttSnMessageData \<Rightarrow> 'w \<Rightarrow> int \<times> MqttSnMessageData \<times> 'w" where
  "reuse_mqtt_sn_message_data clock_ms m w =
     (let (rc, m, w) = add_mqtt_sn_message_timestamp clock_ms m w
      in if rc < 0 then (-1, m, w)
         else (0, m\<lparr>md_from := md_to m, md_to := md_from m, md_data_length := 0,
                    md_data := message_buffer\<rparr>, w))"

text \<open>The shape of the C object: two addresses, a \<open>uint16_t\<close> length and an array of 1024 bytes.\<close>

definition message_shape :: "MqttSnMessageData \<Rightarrow> bool" where
  "message_shape m \<longleftrightarrow>
     length (md_from m) = device_address_size \<and> length (md_to m) = device_address_size \<and>
     length (md_data m) = MQTT_SN_MAXIMUM_MESSAGE_DATA_LENGTH \<and> md_data_length m < 65536"

lemma message_shape_zero [simp]: "message_shape zero_message"
  by (simp add: message_shape_def zero_message_def length_message_buffer)

lemma timestamp_shape:
  "add_mqtt_sn_message_timestamp clock_ms m w = (rc, m', w') \<Longrightarrow>
     md_from m' = md_from m \<and> md_to m' = md_to m \<and> md_data_length m' = md_data_length m
     \<and> md_data m' = md_data m \<and> md_signal_strength m' = md_signal_strength m"
  by (auto simp: add_mqtt_sn_message_timestamp_def Let_def split: prod.splits)

lemma reuse_message_shape:
  "message_shape m \<Longrightarrow> reuse_mqtt_sn_message_data clock_ms m w = (rc, m', w') \<Longrightarrow> message_shape m'"
  by (auto simp: reuse_mqtt_sn_message_data_def message_shape_def Let_def length_message_buffer
      split: prod.splits if_splits dest: timestamp_shape)

section \<open>The ring buffer\<close>

definition CMQTTSNFORWARDER_MQTTSNFIXEDSIZERINGBUFFER_MAXLEN :: nat where
  "CMQTTSNFORWARDER_MQTTSNFIXEDSIZERINGBUFFER_MAXLEN = 100"

record MqttSnFixedSizeRingBuffer =
  rb_head :: nat
  rb_tail :: nat
  rb_maxlen :: nat
  rb_item_count :: nat
  rb_items :: "MqttSnMessageData list"

definition u32_add :: "nat \<Rightarrow> nat \<Rightarrow> nat" where
  "u32_add a b = (a + b) mod 2 ^ 32"

lemma u32_add_small [simp]: "a + b < 2 ^ 32 \<Longrightarrow> u32_add a b = a + b"
  by (simp add: u32_add_def)

definition MqttSnFixedSizeRingBufferInit :: "MqttSnFixedSizeRingBuffer" where
  "MqttSnFixedSizeRingBufferInit =
     \<lparr>rb_head = 0, rb_tail = 0, rb_maxlen = CMQTTSNFORWARDER_MQTTSNFIXEDSIZERINGBUFFER_MAXLEN,
      rb_item_count = 0,
      rb_items = replicate CMQTTSNFORWARDER_MQTTSNFIXEDSIZERINGBUFFER_MAXLEN zero_message\<rparr>"

definition isEmpty :: "MqttSnFixedSizeRingBuffer \<Rightarrow> bool" where
  "isEmpty queue \<longleftrightarrow> rb_item_count queue = 0"

definition isFull :: "MqttSnFixedSizeRingBuffer \<Rightarrow> bool" where
  "isFull queue \<longleftrightarrow> rb_item_count queue = rb_maxlen queue"

definition put ::
  "MqttSnFixedSizeRingBuffer \<Rightarrow> MqttSnMessageData \<Rightarrow> (int \<times> MqttSnFixedSizeRingBuffer) cres" where
  "put queue messageData =
     (let next = u32_add (rb_head queue) 1;
          next = (if next \<ge> rb_maxlen queue then 0 else next)
      in if isFull queue then Inr (-1, queue)
         else
           cbind (wr_arr (rb_items queue) (rb_head queue) messageData) (\<lambda>items.
           Inr (0, queue\<lparr>rb_items := items, rb_head := next,
                         rb_item_count := u32_add (rb_item_count queue) 1\<rparr>)))"

text \<open>\<open>pop\<close> leaves the message it was given alone when the queue is empty.\<close>

definition pop ::
  "MqttSnFixedSizeRingBuffer \<Rightarrow> MqttSnMessageData
   \<Rightarrow> (int \<times> MqttSnFixedSizeRingBuffer \<times> MqttSnMessageData) cres" where
  "pop queue messageData =
     (if isEmpty queue then Inr (-1, queue, messageData)
      else
        let next = u32_add (rb_tail queue) 1;
            next = (if next \<ge> rb_maxlen queue then 0 else next)
        in cbind (rd_arr (rb_items queue) (rb_tail queue)) (\<lambda>m.
           Inr (0, queue\<lparr>rb_tail := next, rb_item_count := rb_item_count queue - 1\<rparr>, m)))"

text \<open>The pointers that \<open>back\<close>, \<open>front\<close> and \<open>getBack\<close> return, as indices into the items.\<close>

definition ring_back :: "MqttSnFixedSizeRingBuffer \<Rightarrow> nat option" where
  "ring_back queue = (if isEmpty queue then None else Some (rb_tail queue))"

definition front :: "MqttSnFixedSizeRingBuffer \<Rightarrow> nat option" where
  "front queue = (if isEmpty queue then None else Some (rb_head queue))"

definition getBack :: "MqttSnFixedSizeRingBuffer \<Rightarrow> nat \<Rightarrow> nat option" where
  "getBack queue pos =
     (if isEmpty queue then None
      else if rb_item_count queue < pos then None
      else
        let access_pos = u32_add (rb_tail queue) pos;
            access_pos = (if access_pos \<ge> rb_maxlen queue then access_pos - rb_maxlen queue
                          else access_pos)
        in Some access_pos)"

section \<open>The ring as a queue\<close>

definition ring_inv :: "MqttSnFixedSizeRingBuffer \<Rightarrow> bool" where
  "ring_inv q \<longleftrightarrow>
     0 < rb_maxlen q \<and> rb_maxlen q \<le> CMQTTSNFORWARDER_MQTTSNFIXEDSIZERINGBUFFER_MAXLEN \<and>
     length (rb_items q) = CMQTTSNFORWARDER_MQTTSNFIXEDSIZERINGBUFFER_MAXLEN \<and>
     rb_tail q < rb_maxlen q \<and> rb_item_count q \<le> rb_maxlen q \<and>
     rb_head q = (rb_tail q + rb_item_count q) mod rb_maxlen q"

definition contents :: "MqttSnFixedSizeRingBuffer \<Rightarrow> MqttSnMessageData list" where
  "contents q = map (\<lambda>i. rb_items q ! ((rb_tail q + i) mod rb_maxlen q)) [0..<rb_item_count q]"

lemma length_contents [simp]: "length (contents q) = rb_item_count q"
  by (simp add: contents_def)

lemma isEmpty_contents: "isEmpty q \<longleftrightarrow> contents q = []"
  by (simp add: isEmpty_def flip: length_0_conv)

lemma ring_inv_init [simp]: "ring_inv MqttSnFixedSizeRingBufferInit"
  by (simp add: ring_inv_def MqttSnFixedSizeRingBufferInit_def
      CMQTTSNFORWARDER_MQTTSNFIXEDSIZERINGBUFFER_MAXLEN_def)

lemma contents_init [simp]: "contents MqttSnFixedSizeRingBufferInit = []"
  by (simp add: contents_def MqttSnFixedSizeRingBufferInit_def)

lemma ring_slots_differ:
  fixes t c i n :: nat
  assumes "i < c" "c < n"
  shows "(t + c) mod n \<noteq> (t + i) mod n"
proof
  assume "(t + c) mod n = (t + i) mod n"
  then have "n dvd t + c - (t + i)"
    using assms by (simp add: mod_eq_dvd_iff_nat)
  then show False
    using assms by (auto dest!: dvd_imp_le)
qed

text \<open>\<open>put\<close> appends to the contents.\<close>

lemma put_full: "isFull q \<Longrightarrow> put q m = Inr (-1, q)"
  by (simp add: put_def)

lemma put_appends:
  assumes inv: "ring_inv q" and room: "\<not> isFull q"
  shows "\<exists>q'. put q m = Inr (0, q') \<and> ring_inv q' \<and> contents q' = contents q @ [m]
    \<and> rb_maxlen q' = rb_maxlen q"
proof -
  note d = ring_inv_def CMQTTSNFORWARDER_MQTTSNFIXEDSIZERINGBUFFER_MAXLEN_def
  let ?n = "rb_maxlen q" and ?c = "rb_item_count q" and ?t = "rb_tail q" and ?h = "rb_head q"
  have c: "?c < ?n"
    using inv room by (simp add: isFull_def d)
  have h: "?h < ?n" "?h < length (rb_items q)" "?n \<le> 100"
    using inv c mod_less_divisor [of ?n "?t + ?c"] unfolding d by linarith+
  let ?q = "q\<lparr>rb_items := (rb_items q)[?h := m], rb_head := (?h + 1) mod ?n, rb_item_count := ?c + 1\<rparr>"
  have eq: "put q m = Inr (0, ?q)"
    using room h c by (cases "Suc ?h = ?n") (simp_all add: put_def Let_def)
  have "contents ?q = contents q @ [m]"
  proof (rule nth_equalityI)
    fix i assume "i < length (contents ?q)"
    then consider "i < ?c" | "i = ?c" by (auto simp: less_Suc_eq)
    then show "contents ?q ! i = (contents q @ [m]) ! i"
    proof cases
      case 1
      then show ?thesis
        using inv h ring_slots_differ [OF 1 c, of ?t]
        by (simp add: contents_def d nth_append nth_list_update del: upt_Suc)
    next
      case 2
      then show ?thesis
        using inv h by (simp add: contents_def d nth_append del: upt_Suc)
    qed
  qed simp
  moreover have "ring_inv ?q"
    using inv c by (simp add: d mod_simps)
  ultimately show ?thesis using eq by auto
qed

text \<open>\<open>pop\<close> takes the oldest message off the contents.\<close>

lemma pop_empty: "isEmpty q \<Longrightarrow> pop q m = Inr (-1, q, m)"
  by (simp add: pop_def)

lemma pop_takes:
  assumes inv: "ring_inv q" and some: "\<not> isEmpty q"
  shows "\<exists>q' x. pop q m = Inr (0, q', x) \<and> ring_inv q' \<and> contents q = x # contents q'
    \<and> rb_maxlen q' = rb_maxlen q"
proof -
  note d = ring_inv_def CMQTTSNFORWARDER_MQTTSNFIXEDSIZERINGBUFFER_MAXLEN_def
  let ?n = "rb_maxlen q" and ?c = "rb_item_count q" and ?t = "rb_tail q"
  obtain k where k: "?c = Suc k"
    using some by (cases ?c) (auto simp: isEmpty_def)
  have t: "?t < ?n" "?t < length (rb_items q)" "?n \<le> 100"
    using inv by (auto simp: d)
  let ?q = "q\<lparr>rb_tail := (?t + 1) mod ?n, rb_item_count := k\<rparr>"
  have eq: "pop q m = Inr (0, ?q, rb_items q ! ?t)"
    using some t k by (cases "Suc ?t = ?n") (simp_all add: pop_def Let_def)
  have "contents q = rb_items q ! ?t # contents ?q"
    using t k by (auto simp: contents_def upt_rec [of 0] map_Suc_upt [symmetric] mod_simps
        simp del: upt_Suc)
  moreover have "ring_inv ?q"
    using inv k by (simp add: d mod_simps)
  ultimately show ?thesis using eq by auto
qed

section \<open>The contract of a bounded queue\<close>

locale message_queue =
  fixes inv :: "'q \<Rightarrow> bool" and items :: "'q \<Rightarrow> 'm list" and room :: "'q \<Rightarrow> nat"
    and enq :: "'q \<Rightarrow> 'm \<Rightarrow> (int \<times> 'q) cres" and deq :: "'q \<Rightarrow> 'm \<Rightarrow> (int \<times> 'q \<times> 'm) cres"
  assumes bounded: "inv q \<Longrightarrow> length (items q) \<le> room q"
    and enq_room: "inv q \<Longrightarrow> length (items q) < room q \<Longrightarrow>
      \<exists>q'. enq q m = Inr (0, q') \<and> inv q' \<and> items q' = items q @ [m] \<and> room q' = room q"
    and enq_full: "inv q \<Longrightarrow> length (items q) = room q \<Longrightarrow> enq q m = Inr (-1, q)"
    and deq_some: "inv q \<Longrightarrow> items q \<noteq> [] \<Longrightarrow>
      \<exists>q' x. deq q m = Inr (0, q', x) \<and> inv q' \<and> items q = x # items q' \<and> room q' = room q"
    and deq_none: "inv q \<Longrightarrow> items q = [] \<Longrightarrow> deq q m = Inr (-1, q, m)"
begin

fun enq_all :: "'q \<Rightarrow> 'm list \<Rightarrow> 'q cres" where
  "enq_all q [] = Inr q"
| "enq_all q (m # ms) = cbind (enq q m) (\<lambda>(rc, q'). if rc < 0 then Inl Fail else enq_all q' ms)"

fun deq_n :: "'q \<Rightarrow> 'm \<Rightarrow> nat \<Rightarrow> ('m list \<times> 'q) cres" where
  "deq_n q d 0 = Inr ([], q)"
| "deq_n q d (Suc n) = cbind (deq q d) (\<lambda>(rc, q', x).
     if rc < 0 then Inl Fail else cbind (deq_n q' d n) (\<lambda>(xs, q''). Inr (x # xs, q'')))"

lemma enq_total: "inv q \<Longrightarrow> \<exists>rc q'. enq q m = Inr (rc, q') \<and> inv q' \<and> room q' = room q"
  using enq_room [of q m] enq_full [of q m] bounded [of q]
  by (cases "length (items q) < room q") auto

lemma deq_total: "inv q \<Longrightarrow> \<exists>rc q' x. deq q m = Inr (rc, q', x) \<and> inv q' \<and> room q' = room q"
  using deq_some [of q m] deq_none [of q m] by (cases "items q = []") auto

lemma enq_all_appends:
  "inv q \<Longrightarrow> length (items q) + length ms \<le> room q \<Longrightarrow>
     \<exists>q'. enq_all q ms = Inr q' \<and> inv q' \<and> items q' = items q @ ms \<and> room q' = room q"
proof (induction ms arbitrary: q)
  case Nil
  then show ?case by simp
next
  case (Cons m ms)
  then obtain q' where q': "enq q m = Inr (0, q')" "inv q'" "items q' = items q @ [m]" "room q' = room q"
    using enq_room [of q m] by auto
  then show ?case
    using Cons.IH [of q'] Cons.prems by simp
qed

lemma deq_n_takes:
  "inv q \<Longrightarrow> n \<le> length (items q) \<Longrightarrow>
     \<exists>q'. deq_n q d n = Inr (take n (items q), q') \<and> inv q' \<and> items q' = drop n (items q) \<and> room q' = room q"
proof (induction n arbitrary: q)
  case 0
  then show ?case by simp
next
  case (Suc n)
  then obtain q' x where q': "deq q d = Inr (0, q', x)" "inv q'" "items q = x # items q'" "room q' = room q"
    using deq_some [of q d] by fastforce
  then show ?case
    using Suc.IH [of q'] Suc.prems by auto
qed

text \<open>What goes into an empty queue comes out of it in the same order.\<close>

lemma fifo:
  assumes "inv q" "items q = []" "length ms \<le> room q"
  shows "\<exists>q' q''. enq_all q ms = Inr q' \<and> deq_n q' d (length ms) = Inr (ms, q'') \<and> inv q'' \<and> items q'' = []"
proof -
  obtain q' where q': "enq_all q ms = Inr q'" "inv q'" "items q' = ms" "room q' = room q"
    using enq_all_appends [of q ms] assms by auto
  then show ?thesis
    using deq_n_takes [of q' "length ms" d] by auto
qed

end

interpretation ring: message_queue ring_inv contents rb_maxlen put pop
proof
  show "ring_inv q \<Longrightarrow> length (contents q) \<le> rb_maxlen q" for q
    by (simp add: ring_inv_def)
  show "ring_inv q \<Longrightarrow> length (contents q) = rb_maxlen q \<Longrightarrow> put q m = Inr (-1, q)" for q m
    by (simp add: put_full isFull_def)
  show "ring_inv q \<Longrightarrow> contents q = [] \<Longrightarrow> pop q m = Inr (-1, q, m)" for q m
    by (simp add: pop_empty isEmpty_contents)
qed (simp_all add: put_appends isFull_def pop_takes isEmpty_contents)

text \<open>
  \<open>back\<close> points at the oldest message and \<open>getBack\<close> counts from it. \<open>front\<close> does not point at the
  newest message but at the slot the next \<open>put\<close> writes.
\<close>

lemma back_oldest:
  "ring_inv q \<Longrightarrow> contents q = m # ms \<Longrightarrow> \<exists>i. ring_back q = Some i \<and> i < length (rb_items q) \<and> rb_items q ! i = m"
  by (auto simp: ring_back_def isEmpty_contents ring_inv_def contents_def upt_rec [of 0] split: if_splits
      simp del: upt_Suc)

lemma getBack_nth:
  assumes "ring_inv q" "pos < length (contents q)"
  shows "\<exists>i. getBack q pos = Some i \<and> i < length (rb_items q) \<and> rb_items q ! i = contents q ! pos"
proof -
  have "(if rb_tail q + pos \<ge> rb_maxlen q then rb_tail q + pos - rb_maxlen q else rb_tail q + pos)
      = (rb_tail q + pos) mod rb_maxlen q"
    using assms by (auto simp: ring_inv_def mod_if)
  moreover have "(rb_tail q + pos) mod rb_maxlen q < 100"
    using assms(1) mod_less_divisor [of "rb_maxlen q" "rb_tail q + pos"]
    unfolding ring_inv_def CMQTTSNFORWARDER_MQTTSNFIXEDSIZERINGBUFFER_MAXLEN_def by linarith
  ultimately show ?thesis
    using assms by (simp add: getBack_def isEmpty_def ring_inv_def Let_def contents_def
        CMQTTSNFORWARDER_MQTTSNFIXEDSIZERINGBUFFER_MAXLEN_def)
qed

lemma front_next_slot:
  assumes "ring_inv q" "\<not> isEmpty q" "\<not> isFull q"
  shows "\<exists>i q'. front q = Some i \<and> put q m = Inr (0, q') \<and> rb_items q' ! i = m \<and> contents q' = contents q @ [m]"
  using assms put_appends [of q m]
  by (auto simp: front_def put_def Let_def cbind_eq_Inr wr_arr_def split: if_splits)


lemma init_not_full [simp]: "\<not> isFull MqttSnFixedSizeRingBufferInit"
  by (simp add: isFull_def MqttSnFixedSizeRingBufferInit_def
      CMQTTSNFORWARDER_MQTTSNFIXEDSIZERINGBUFFER_MAXLEN_def)

lemma init_counters [simp]:
  "0 < rb_maxlen MqttSnFixedSizeRingBufferInit" "rb_item_count MqttSnFixedSizeRingBufferInit = 0"
  by (simp_all add: MqttSnFixedSizeRingBufferInit_def CMQTTSNFORWARDER_MQTTSNFIXEDSIZERINGBUFFER_MAXLEN_def)

lemma put_first:
  "\<exists>q. put MqttSnFixedSizeRingBufferInit m = Inr (0, q) \<and> ring_inv q \<and> contents q = [m]"
  using put_appends [OF ring_inv_init init_not_full, of m] by auto

end
