(* ===== verification/Net_Interface.thy ===== *)
theory Net_Interface
  imports Ring_Buffer "HOL-Library.Multiset"
begin

text \<open>
  The two network interfaces of the forwarder, \<open>src/network/MqttSnGatewayNetworkInterface.c\<close> and
  \<open>src/network/MqttSnClientNetworkInterface.c\<close>: their status, the function pointers a network driver
  fills in, and the operations that move messages between the driver and a queue. A driver (UDP, TCP,
  a serial line) is a parameter: functions on the world \<open>'w\<close> behind the context pointer. The field of
  the initialisation routine records whether the pointer is set. The locale \<open>network_interface\<close> states
  what the operations promise; it is interpreted on the client and on the gateway interface.
\<close>

text \<open>
  A send takes the addresses, the data array, the count of bytes, the signal strength and the timeout.
  A receive is given the objects it writes to (addresses, data array, signal strength) and returns them.
\<close>

type_synonym 'w net_clock = "'w \<Rightarrow> (int \<times> u64 \<times> u64) \<times> 'w"
type_synonym 'w net_call = "'w \<Rightarrow> int \<times> 'w"
type_synonym 'w net_send =
  "u8 list \<Rightarrow> u8 list \<Rightarrow> u8 list \<Rightarrow> nat \<Rightarrow> u8 \<Rightarrow> int \<Rightarrow> 'w \<Rightarrow> int \<times> 'w"
type_synonym rx = "u8 list \<times> u8 list \<times> u8 list \<times> u8"
type_synonym 'w net_receive = "rx \<Rightarrow> nat \<Rightarrow> int \<Rightarrow> 'w \<Rightarrow> int \<times> rx \<times> 'w"

section \<open>The gateway network\<close>

text \<open>\<open>src/network/MqttSnGatewayNetworkInterface.h\<close> and \<open>.c\<close>.\<close>

datatype MQTT_SN_GATEWAY_NETWORK_INTERFACE_STATUS =
    MQTT_SN_GATEWAY_NETWORK_INTERFACE_STATUS_DEINITIALIZED
  | MQTT_SN_GATEWAY_NETWORK_INTERFACE_STATUS_INITIALIZED
  | MQTT_SN_GATEWAY_NETWORK_INTERFACE_STATUS_DISCONNECTED
  | MQTT_SN_GATEWAY_NETWORK_INTERFACE_STATUS_CONNECTED

fun gn_status_code :: "MQTT_SN_GATEWAY_NETWORK_INTERFACE_STATUS \<Rightarrow> int" where
  "gn_status_code MQTT_SN_GATEWAY_NETWORK_INTERFACE_STATUS_DEINITIALIZED = 0"
| "gn_status_code MQTT_SN_GATEWAY_NETWORK_INTERFACE_STATUS_INITIALIZED = 1"
| "gn_status_code MQTT_SN_GATEWAY_NETWORK_INTERFACE_STATUS_DISCONNECTED = 2"
| "gn_status_code MQTT_SN_GATEWAY_NETWORK_INTERFACE_STATUS_CONNECTED = 3"

record 'w MqttSnGatewayNetworkInterface =
  gn_status :: MQTT_SN_GATEWAY_NETWORK_INTERFACE_STATUS
  gn_max_data_length :: nat
  gn_network_address :: "u8 list option"
  gn_broadcast_address :: "u8 list option"
  gn_initialize :: bool
  gn_deinitialize :: "'w net_call option"
  gn_connect :: "'w net_call option"
  gn_disconnect :: "'w net_call option"
  gn_send :: "'w net_send option"
  gn_receive :: "'w net_receive option"

definition GatewayNetworkInitialize ::
  "'w MqttSnGatewayNetworkInterface \<Rightarrow> nat \<Rightarrow> u8 list option \<Rightarrow> u8 list option \<Rightarrow> u8 list option
   \<Rightarrow> ('w MqttSnGatewayNetworkInterface \<Rightarrow> 'w \<Rightarrow> int \<times> 'w MqttSnGatewayNetworkInterface \<times> 'w) option
   \<Rightarrow> 'w \<Rightarrow> int \<times> 'w MqttSnGatewayNetworkInterface \<times> 'w" where
  "GatewayNetworkInitialize n max_data_length mqtt_sn_gateway_address gateway_network_address
       gateway_network_broadcast_address gateway_network_init w =
     (if \<not> (gn_status n = MQTT_SN_GATEWAY_NETWORK_INTERFACE_STATUS_DEINITIALIZED
           \<or> gn_status n = MQTT_SN_GATEWAY_NETWORK_INTERFACE_STATUS_INITIALIZED)
      then (-1, n, w)
      else case gateway_network_init of
        None \<Rightarrow> (-1, n, w)
      | Some init \<Rightarrow>
          let n = n\<lparr>gn_status := MQTT_SN_GATEWAY_NETWORK_INTERFACE_STATUS_DEINITIALIZED,
                    gn_max_data_length := max_data_length,
                    gn_network_address := gateway_network_address,
                    gn_broadcast_address := gateway_network_broadcast_address,
                    gn_initialize := True\<rparr>;
              (rc, n, w) = init n w
          in if rc = 0
             then if \<not> gn_initialize n \<or> gn_deinitialize n = None \<or> gn_connect n = None
                     \<or> gn_disconnect n = None \<or> gn_send n = None \<or> gn_receive n = None
                  then (-1, n, w)
                  else (0, n\<lparr>gn_status := MQTT_SN_GATEWAY_NETWORK_INTERFACE_STATUS_INITIALIZED\<rparr>, w)
             else (-1, n\<lparr>gn_status := MQTT_SN_GATEWAY_NETWORK_INTERFACE_STATUS_DEINITIALIZED\<rparr>, w))"

definition GatewayNetworkDeinitialize ::
  "'w MqttSnGatewayNetworkInterface \<Rightarrow> 'w \<Rightarrow> int \<times> 'w MqttSnGatewayNetworkInterface \<times> 'w" where
  "GatewayNetworkDeinitialize n w =
     (if \<not> (gn_status n = MQTT_SN_GATEWAY_NETWORK_INTERFACE_STATUS_DISCONNECTED
           \<or> gn_status n = MQTT_SN_GATEWAY_NETWORK_INTERFACE_STATUS_DEINITIALIZED)
      then (-1, n, w)
      else case gn_deinitialize n of
        None \<Rightarrow> (-1, n, w)
      | Some deinitialize \<Rightarrow>
          let n = n\<lparr>gn_status := MQTT_SN_GATEWAY_NETWORK_INTERFACE_STATUS_DEINITIALIZED\<rparr>;
              (rc, w) = deinitialize w
          in (if rc < 0 then -1 else 0, n, w))"

definition GatewayNetworkConnect ::
  "'w MqttSnGatewayNetworkInterface \<Rightarrow> 'w \<Rightarrow> int \<times> 'w MqttSnGatewayNetworkInterface \<times> 'w" where
  "GatewayNetworkConnect n w =
     (if \<not> (gn_status n = MQTT_SN_GATEWAY_NETWORK_INTERFACE_STATUS_INITIALIZED
           \<or> gn_status n = MQTT_SN_GATEWAY_NETWORK_INTERFACE_STATUS_CONNECTED)
      then (-1, n, w)
      else case gn_connect n of
        None \<Rightarrow> (-1, n, w)
      | Some connect \<Rightarrow>
          let (rc, w) = connect w
          in if rc < 0
             then (-1, n\<lparr>gn_status := MQTT_SN_GATEWAY_NETWORK_INTERFACE_STATUS_DISCONNECTED\<rparr>, w)
             else (0, n\<lparr>gn_status := MQTT_SN_GATEWAY_NETWORK_INTERFACE_STATUS_CONNECTED\<rparr>, w))"

definition GatewayNetworkDisconnect ::
  "'w MqttSnGatewayNetworkInterface \<Rightarrow> 'w \<Rightarrow> int \<times> 'w MqttSnGatewayNetworkInterface \<times> 'w" where
  "GatewayNetworkDisconnect n w =
     (if \<not> (gn_status n = MQTT_SN_GATEWAY_NETWORK_INTERFACE_STATUS_CONNECTED
           \<or> gn_status n = MQTT_SN_GATEWAY_NETWORK_INTERFACE_STATUS_DISCONNECTED)
      then (-1, n, w)
      else case gn_disconnect n of
        None \<Rightarrow> (-1, n, w)
      | Some disconnect \<Rightarrow>
          let (_, w) = disconnect w
          in (0, n\<lparr>gn_status := MQTT_SN_GATEWAY_NETWORK_INTERFACE_STATUS_DISCONNECTED\<rparr>, w))"

definition GatewayNetworkSend ::
  "'w MqttSnGatewayNetworkInterface \<Rightarrow> MqttSnFixedSizeRingBuffer \<Rightarrow> int \<Rightarrow> 'w
   \<Rightarrow> (int \<times> 'w MqttSnGatewayNetworkInterface \<times> MqttSnFixedSizeRingBuffer \<times> 'w) cres" where
  "GatewayNetworkSend n sendBuffer timeout_ms w =
     (if gn_status n \<noteq> MQTT_SN_GATEWAY_NETWORK_INTERFACE_STATUS_CONNECTED
      then Inr (-1, n, sendBuffer, w)
      else case gn_send n of
        None \<Rightarrow> Inr (-1, n, sendBuffer, w)
      | Some send \<Rightarrow>
          cbind (pop sendBuffer zero_message) (\<lambda>(rc, sendBuffer, msg).
          if rc < 0 then Inr (0, n, sendBuffer, w)
          else
            let (send_rc, w) = send (md_from msg) (md_to msg) (md_data msg) (md_data_length msg)
                                 (md_signal_strength msg) timeout_ms w;
                n = (if send_rc < 0
                     then n\<lparr>gn_status := MQTT_SN_GATEWAY_NETWORK_INTERFACE_STATUS_DISCONNECTED\<rparr>
                     else n)
            in cbind (if int (md_data_length msg) \<noteq> send_rc then put sendBuffer msg
                      else Inr (0, sendBuffer)) (\<lambda>(rc, sendBuffer).
               if rc < 0 then Inr (-1, n, sendBuffer, w)
               else if gn_status n \<noteq> MQTT_SN_GATEWAY_NETWORK_INTERFACE_STATUS_CONNECTED
               then Inr (-1, n, sendBuffer, w)
               else Inr (send_rc, n, sendBuffer, w))))"

definition GatewayNetworkReceive ::
  "'w net_clock \<Rightarrow> 'w MqttSnGatewayNetworkInterface \<Rightarrow> MqttSnFixedSizeRingBuffer \<Rightarrow> int \<Rightarrow> 'w
   \<Rightarrow> (int \<times> 'w MqttSnGatewayNetworkInterface \<times> MqttSnFixedSizeRingBuffer \<times> 'w) cres" where
  "GatewayNetworkReceive clock_ms n receiveBuffer timeout_ms w =
     (if gn_status n \<noteq> MQTT_SN_GATEWAY_NETWORK_INTERFACE_STATUS_CONNECTED
      then Inr (-1, n, receiveBuffer, w)
      else case gn_receive n of
        None \<Rightarrow> Inr (-1, n, receiveBuffer, w)
      | Some receive \<Rightarrow>
          if isFull receiveBuffer then Inr (0, n, receiveBuffer, w)
          else
            let (receive_rc, (from, to, data, signal_strength), w) =
                  receive (md_from zero_message, md_to zero_message, md_data zero_message,
                           md_signal_strength zero_message) (gn_max_data_length n) timeout_ms w;
                n = (if receive_rc < 0
                     then n\<lparr>gn_status := MQTT_SN_GATEWAY_NETWORK_INTERFACE_STATUS_DISCONNECTED\<rparr>
                     else n);
                msg = zero_message\<lparr>md_from := from, md_to := to, md_data := data,
                        md_signal_strength := signal_strength,
                        md_data_length := nat (receive_rc mod 65536)\<rparr>;
                rc = (if gn_status n \<noteq> MQTT_SN_GATEWAY_NETWORK_INTERFACE_STATUS_CONNECTED then -1
                      else receive_rc)
            in if md_data_length msg > 0
               then
                 let (time_rc, msg, w) = add_mqtt_sn_message_timestamp clock_ms msg w
                 in if time_rc \<noteq> 0 then Inr (-1, n, receiveBuffer, w)
                    else cbind (put receiveBuffer msg) (\<lambda>(_, receiveBuffer).
                         Inr (rc, n, receiveBuffer, w))
               else Inr (rc, n, receiveBuffer, w))"

definition GatewayNetworkSendTo ::
  "'w MqttSnGatewayNetworkInterface \<Rightarrow> u8 list \<Rightarrow> u8 list \<Rightarrow> u8 list \<Rightarrow> nat \<Rightarrow> u8 \<Rightarrow> int \<Rightarrow> 'w
   \<Rightarrow> int \<times> 'w MqttSnGatewayNetworkInterface \<times> 'w" where
  "GatewayNetworkSendTo n from to data data_length signal_strength timeout_ms w =
     (if gn_status n \<noteq> MQTT_SN_GATEWAY_NETWORK_INTERFACE_STATUS_CONNECTED then (-1, n, w)
      else case gn_send n of
        None \<Rightarrow> (-1, n, w)
      | Some send \<Rightarrow>
          let (send_rc, w) = send from to data data_length signal_strength timeout_ms w
          in if send_rc < 0
             then (-1, n\<lparr>gn_status := MQTT_SN_GATEWAY_NETWORK_INTERFACE_STATUS_DISCONNECTED\<rparr>, w)
             else (send_rc, n, w))"

definition GatewayNetworkReceiveFom ::
  "'w MqttSnGatewayNetworkInterface \<Rightarrow> rx \<Rightarrow> nat \<Rightarrow> int \<Rightarrow> 'w
   \<Rightarrow> int \<times> 'w MqttSnGatewayNetworkInterface \<times> rx \<times> 'w" where
  "GatewayNetworkReceiveFom n rx max_data_length timeout_ms w =
     (if gn_status n \<noteq> MQTT_SN_GATEWAY_NETWORK_INTERFACE_STATUS_CONNECTED then (-1, n, rx, w)
      else case gn_receive n of
        None \<Rightarrow> (-1, n, rx, w)
      | Some receive \<Rightarrow>
          let (receive_rc, rx, w) = receive rx max_data_length timeout_ms w
          in if receive_rc < 0
             then (-1, n\<lparr>gn_status := MQTT_SN_GATEWAY_NETWORK_INTERFACE_STATUS_DISCONNECTED\<rparr>, rx, w)
             else (receive_rc, n, rx, w))"

section \<open>The client network\<close>

text \<open>\<open>src/network/MqttSnClientNetworkInterface.h\<close> and \<open>.c\<close>.\<close>

datatype MQTT_SN_CLIENT_NETWORK_INTERFACE_STATUS =
    MQTT_SN_CLIENT_NETWORK_INTERFACE_STATUS_DEINITIALIZED
  | MQTT_SN_CLIENT_NETWORK_INTERFACE_STATUS_INITIALIZED
  | MQTT_SN_CLIENT_NETWORK_INTERFACE_STATUS_DISCONNECTED
  | MQTT_SN_CLIENT_NETWORK_INTERFACE_STATUS_CONNECTED

fun cn_status_code :: "MQTT_SN_CLIENT_NETWORK_INTERFACE_STATUS \<Rightarrow> int" where
  "cn_status_code MQTT_SN_CLIENT_NETWORK_INTERFACE_STATUS_DEINITIALIZED = 0"
| "cn_status_code MQTT_SN_CLIENT_NETWORK_INTERFACE_STATUS_INITIALIZED = 1"
| "cn_status_code MQTT_SN_CLIENT_NETWORK_INTERFACE_STATUS_DISCONNECTED = 2"
| "cn_status_code MQTT_SN_CLIENT_NETWORK_INTERFACE_STATUS_CONNECTED = 3"

record 'w MqttSnClientNetworkInterface =
  cn_status :: MQTT_SN_CLIENT_NETWORK_INTERFACE_STATUS
  cn_max_data_length :: nat
  cn_network_address :: "u8 list option"
  cn_mqtt_sn_gateway_address :: "u8 list option"
  cn_broadcast_address :: "u8 list option"
  cn_initialize :: bool
  cn_deinitialize :: "'w net_call option"
  cn_connect :: "'w net_call option"
  cn_disconnect :: "'w net_call option"
  cn_send :: "'w net_send option"
  cn_receive :: "'w net_receive option"

definition ClientNetworkInitialize ::
  "'w MqttSnClientNetworkInterface \<Rightarrow> nat \<Rightarrow> u8 list option \<Rightarrow> u8 list option \<Rightarrow> u8 list option
   \<Rightarrow> ('w MqttSnClientNetworkInterface \<Rightarrow> 'w \<Rightarrow> int \<times> 'w MqttSnClientNetworkInterface \<times> 'w) option
   \<Rightarrow> 'w \<Rightarrow> int \<times> 'w MqttSnClientNetworkInterface \<times> 'w" where
  "ClientNetworkInitialize n max_data_length mqtt_sn_gateway_address client_network_address
       client_network_broadcast_address client_network_init w =
     (if \<not> (cn_status n = MQTT_SN_CLIENT_NETWORK_INTERFACE_STATUS_DEINITIALIZED
           \<or> cn_status n = MQTT_SN_CLIENT_NETWORK_INTERFACE_STATUS_INITIALIZED)
      then (-1, n, w)
      else case client_network_init of
        None \<Rightarrow> (-1, n, w)
      | Some init \<Rightarrow>
          let n = n\<lparr>cn_status := MQTT_SN_CLIENT_NETWORK_INTERFACE_STATUS_DEINITIALIZED,
                    cn_max_data_length := max_data_length,
                    cn_network_address := client_network_address,
                    cn_mqtt_sn_gateway_address := mqtt_sn_gateway_address,
                    cn_broadcast_address := client_network_broadcast_address,
                    cn_initialize := True\<rparr>;
              (rc, n, w) = init n w
          in if rc = 0
             then if \<not> cn_initialize n \<or> cn_deinitialize n = None \<or> cn_connect n = None
                     \<or> cn_disconnect n = None \<or> cn_send n = None \<or> cn_receive n = None
                  then (-1, n, w)
                  else (0, n\<lparr>cn_status := MQTT_SN_CLIENT_NETWORK_INTERFACE_STATUS_INITIALIZED\<rparr>, w)
             else (-1, n\<lparr>cn_status := MQTT_SN_CLIENT_NETWORK_INTERFACE_STATUS_DEINITIALIZED\<rparr>, w))"

definition ClientNetworkDeinitialize ::
  "'w MqttSnClientNetworkInterface \<Rightarrow> 'w \<Rightarrow> int \<times> 'w MqttSnClientNetworkInterface \<times> 'w" where
  "ClientNetworkDeinitialize n w =
     (if \<not> (cn_status n = MQTT_SN_CLIENT_NETWORK_INTERFACE_STATUS_DISCONNECTED
           \<or> cn_status n = MQTT_SN_CLIENT_NETWORK_INTERFACE_STATUS_DEINITIALIZED)
      then (-1, n, w)
      else case cn_deinitialize n of
        None \<Rightarrow> (-1, n, w)
      | Some deinitialize \<Rightarrow>
          let n = n\<lparr>cn_status := MQTT_SN_CLIENT_NETWORK_INTERFACE_STATUS_DEINITIALIZED\<rparr>;
              (rc, w) = deinitialize w
          in (if rc < 0 then -1 else 0, n, w))"

definition ClientNetworkConnect ::
  "'w MqttSnClientNetworkInterface \<Rightarrow> 'w \<Rightarrow> int \<times> 'w MqttSnClientNetworkInterface \<times> 'w" where
  "ClientNetworkConnect n w =
     (if \<not> (cn_status n = MQTT_SN_CLIENT_NETWORK_INTERFACE_STATUS_INITIALIZED
           \<or> cn_status n = MQTT_SN_CLIENT_NETWORK_INTERFACE_STATUS_CONNECTED)
      then (-1, n, w)
      else case cn_connect n of
        None \<Rightarrow> (-1, n, w)
      | Some connect \<Rightarrow>
          let (rc, w) = connect w
          in if rc < 0
             then (-1, n\<lparr>cn_status := MQTT_SN_CLIENT_NETWORK_INTERFACE_STATUS_DISCONNECTED\<rparr>, w)
             else (0, n\<lparr>cn_status := MQTT_SN_CLIENT_NETWORK_INTERFACE_STATUS_CONNECTED\<rparr>, w))"

definition ClientNetworkDisconnect ::
  "'w MqttSnClientNetworkInterface \<Rightarrow> 'w \<Rightarrow> int \<times> 'w MqttSnClientNetworkInterface \<times> 'w" where
  "ClientNetworkDisconnect n w =
     (if \<not> (cn_status n = MQTT_SN_CLIENT_NETWORK_INTERFACE_STATUS_CONNECTED
           \<or> cn_status n = MQTT_SN_CLIENT_NETWORK_INTERFACE_STATUS_DISCONNECTED)
      then (-1, n, w)
      else case cn_disconnect n of
        None \<Rightarrow> (-1, n, w)
      | Some disconnect \<Rightarrow>
          let (_, w) = disconnect w
          in (0, n\<lparr>cn_status := MQTT_SN_CLIENT_NETWORK_INTERFACE_STATUS_DISCONNECTED\<rparr>, w))"

definition ClientNetworkSend ::
  "'w MqttSnClientNetworkInterface \<Rightarrow> MqttSnFixedSizeRingBuffer \<Rightarrow> int \<Rightarrow> 'w
   \<Rightarrow> (int \<times> 'w MqttSnClientNetworkInterface \<times> MqttSnFixedSizeRingBuffer \<times> 'w) cres" where
  "ClientNetworkSend n sendBuffer timeout_ms w =
     (if cn_status n \<noteq> MQTT_SN_CLIENT_NETWORK_INTERFACE_STATUS_CONNECTED
      then Inr (-1, n, sendBuffer, w)
      else case cn_send n of
        None \<Rightarrow> Inr (-1, n, sendBuffer, w)
      | Some send \<Rightarrow>
          cbind (pop sendBuffer zero_message) (\<lambda>(rc, sendBuffer, msg).
          if rc < 0 then Inr (0, n, sendBuffer, w)
          else
            let (send_rc, w) = send (md_from msg) (md_to msg) (md_data msg) (md_data_length msg)
                                 (md_signal_strength msg) timeout_ms w;
                n = (if send_rc < 0
                     then n\<lparr>cn_status := MQTT_SN_CLIENT_NETWORK_INTERFACE_STATUS_DISCONNECTED\<rparr>
                     else n)
            in cbind (if int (md_data_length msg) \<noteq> send_rc then put sendBuffer msg
                      else Inr (0, sendBuffer)) (\<lambda>(rc, sendBuffer).
               if rc < 0 then Inr (-1, n, sendBuffer, w)
               else if cn_status n \<noteq> MQTT_SN_CLIENT_NETWORK_INTERFACE_STATUS_CONNECTED
               then Inr (-1, n, sendBuffer, w)
               else Inr (0, n, sendBuffer, w))))"

definition ClientNetworkReceive ::
  "'w net_clock \<Rightarrow> 'w MqttSnClientNetworkInterface \<Rightarrow> MqttSnFixedSizeRingBuffer \<Rightarrow> int \<Rightarrow> 'w
   \<Rightarrow> (int \<times> 'w MqttSnClientNetworkInterface \<times> MqttSnFixedSizeRingBuffer \<times> 'w) cres" where
  "ClientNetworkReceive clock_ms n receiveBuffer timeout_ms w =
     (if cn_status n \<noteq> MQTT_SN_CLIENT_NETWORK_INTERFACE_STATUS_CONNECTED
      then Inr (-1, n, receiveBuffer, w)
      else case cn_receive n of
        None \<Rightarrow> Inr (-1, n, receiveBuffer, w)
      | Some receive \<Rightarrow>
          if isFull receiveBuffer then Inr (0, n, receiveBuffer, w)
          else
            let (receive_rc, (from, to, data, signal_strength), w) =
                  receive (md_from zero_message, md_to zero_message, md_data zero_message,
                           md_signal_strength zero_message) (cn_max_data_length n) timeout_ms w;
                n = (if receive_rc < 0
                     then n\<lparr>cn_status := MQTT_SN_CLIENT_NETWORK_INTERFACE_STATUS_DISCONNECTED\<rparr>
                     else n);
                msg = zero_message\<lparr>md_from := from, md_to := to, md_data := data,
                        md_signal_strength := signal_strength,
                        md_data_length := nat (receive_rc mod 65536)\<rparr>;
                rc = (if cn_status n \<noteq> MQTT_SN_CLIENT_NETWORK_INTERFACE_STATUS_CONNECTED then -1
                      else 0)
            in if md_data_length msg > 0
               then
                 let (time_rc, msg, w) = add_mqtt_sn_message_timestamp clock_ms msg w
                 in if time_rc \<noteq> 0 then Inr (-1, n, receiveBuffer, w)
                    else cbind (put receiveBuffer msg) (\<lambda>(_, receiveBuffer).
                         Inr (rc, n, receiveBuffer, w))
               else Inr (rc, n, receiveBuffer, w))"


section \<open>What the operations promise\<close>

text \<open>The message a receive puts into the queue: what the driver wrote, and the time it came in.\<close>

definition received_message :: "rx \<Rightarrow> int \<Rightarrow> u64 \<Rightarrow> u64 \<Rightarrow> MqttSnMessageData" where
  "received_message rx receive_rc s ms =
     (case rx of (from, to, data, signal_strength) \<Rightarrow>
        \<lparr>md_create_time_s = s, md_create_time_ms = ms, md_from = from, md_to = to,
         md_data_length = nat (receive_rc mod 65536), md_signal_strength = signal_strength,
         md_data = data\<rparr>)"

lemma stamped_message:
  "zero_message\<lparr>md_from := f, md_to := t, md_data := d, md_signal_strength := g, md_data_length := k,
     md_create_time_s := s, md_create_time_ms := ms\<rparr>
   = \<lparr>md_create_time_s = s, md_create_time_ms = ms, md_from = f, md_to = t, md_data_length = k,
      md_signal_strength = g, md_data = d\<rparr>"
  by (simp add: zero_message_def)

definition empty_rx :: rx where
  "empty_rx = (md_from zero_message, md_to zero_message, md_data zero_message,
     md_signal_strength zero_message)"

locale network_interface =
  fixes can_send :: "'n \<Rightarrow> bool" and can_receive :: "'n \<Rightarrow> bool"
    and reply :: "'n \<Rightarrow> MqttSnMessageData \<Rightarrow> int \<Rightarrow> 'w \<Rightarrow> int \<times> 'w"
    and arrival :: "'n \<Rightarrow> int \<Rightarrow> 'w \<Rightarrow> int \<times> rx \<times> 'w"
    and send :: "'n \<Rightarrow> MqttSnFixedSizeRingBuffer \<Rightarrow> int \<Rightarrow> 'w
      \<Rightarrow> (int \<times> 'n \<times> MqttSnFixedSizeRingBuffer \<times> 'w) cres"
    and receive :: "'w net_clock \<Rightarrow> 'n \<Rightarrow> MqttSnFixedSizeRingBuffer \<Rightarrow> int \<Rightarrow> 'w
      \<Rightarrow> (int \<times> 'n \<times> MqttSnFixedSizeRingBuffer \<times> 'w) cres"
  assumes send_down: "\<not> can_send n \<Longrightarrow> send n q t w = Inr (-1, n, q, w)"
    and send_idle: "can_send n \<Longrightarrow> contents q = [] \<Longrightarrow> send n q t w = Inr (0, n, q, w)"
    and send_step: "can_send n \<Longrightarrow> ring_inv q \<Longrightarrow> contents q = m # ms \<Longrightarrow> reply n m t w = (r, w') \<Longrightarrow>
      \<exists>rc n' q'. send n q t w = Inr (rc, n', q', w') \<and> ring_inv q' \<and> rb_maxlen q' = rb_maxlen q
        \<and> contents q' = (if r = int (md_data_length m) then ms else ms @ [m])
        \<and> (if r < 0 then rc = -1 \<and> \<not> can_send n' \<and> \<not> can_receive n' else 0 \<le> rc \<and> n' = n)"
    and receive_down: "\<not> can_receive n \<Longrightarrow> receive clk n q t w = Inr (-1, n, q, w)"
    and receive_full: "can_receive n \<Longrightarrow> isFull q \<Longrightarrow> receive clk n q t w = Inr (0, n, q, w)"
    and receive_step: "can_receive n \<Longrightarrow> ring_inv q \<Longrightarrow> \<not> isFull q \<Longrightarrow> arrival n t w = (r, rx, w1) \<Longrightarrow>
      clk w1 = ((trc, ts, tms), w2) \<Longrightarrow>
      \<exists>rc n' q' w'. receive clk n q t w = Inr (rc, n', q', w') \<and> ring_inv q' \<and> rb_maxlen q' = rb_maxlen q
        \<and> contents q' = (if r mod 65536 = 0 \<or> trc < 0 then contents q
                         else contents q @ [received_message rx r ts tms])
        \<and> (if r < 0 then rc = -1 \<and> \<not> can_send n' \<and> \<not> can_receive n' else (0 \<le> trc \<longrightarrow> 0 \<le> rc) \<and> n' = n)
        \<and> w' = (if r mod 65536 = 0 then w1 else w2)"
begin

lemma send_total:
  assumes "ring_inv q"
  shows "\<exists>rc n' q' w'. send n q t w = Inr (rc, n', q', w') \<and> ring_inv q' \<and> rb_maxlen q' = rb_maxlen q
    \<and> mset (contents q') \<subseteq># mset (contents q) \<and> (rc < 0 \<longrightarrow> \<not> can_send n') \<and> (0 \<le> rc \<longrightarrow> n' = n)"
proof (cases "contents q")
  case Nil
  then show ?thesis
    using send_down [of n q t w] send_idle [of n q t w] assms by (cases "can_send n") auto
next
  case (Cons m ms)
  obtain r w' where r: "reply n m t w = (r, w')" by fastforce
  show ?thesis
  proof (cases "can_send n")
    case True
    then show ?thesis
      using send_step [OF True assms Cons r] Cons
      by (auto split: if_splits intro: exI [of _ w'])
  qed (use send_down [of n q t w] assms in auto)
qed

lemma receive_total:
  assumes "ring_inv q"
  shows "\<exists>rc n' q' w'. receive clk n q t w = Inr (rc, n', q', w') \<and> ring_inv q' \<and> rb_maxlen q' = rb_maxlen q
    \<and> (contents q' = contents q \<or> (\<exists>r rx w1 ts tms. can_receive n \<and> arrival n t w = (r, rx, w1) \<and> r mod 65536 \<noteq> 0
         \<and> contents q' = contents q @ [received_message rx r ts tms]))"
proof -
  obtain r rx w1 where a: "arrival n t w = (r, rx, w1)" by (metis prod.exhaust)
  obtain trc ts tms w2 where c: "clk w1 = ((trc, ts, tms), w2)" by (metis prod.exhaust)
  consider "\<not> can_receive n" | "can_receive n" "isFull q" | "can_receive n" "\<not> isFull q" by blast
  then show ?thesis
  proof cases
    case 3
    then obtain rc n' q' w' where x: "receive clk n q t w = Inr (rc, n', q', w')" "ring_inv q'"
      "rb_maxlen q' = rb_maxlen q" "contents q' = (if r mod 65536 = 0 \<or> trc < 0 then contents q
         else contents q @ [received_message rx r ts tms])"
      using receive_step [where clk = clk, OF 3(1) assms 3(2) a c] by blast
    then show ?thesis
      using 3(1) a by (intro exI [of _ rc] exI [of _ n'] exI [of _ q'] exI [of _ w']) auto
  qed (use receive_down [of n clk q t w] receive_full [of n q clk t w] assms in auto)
qed

text \<open>Repeated sends, as the loop of the forwarder makes them.\<close>

fun sends :: "nat \<Rightarrow> 'n \<Rightarrow> MqttSnFixedSizeRingBuffer \<Rightarrow> int \<Rightarrow> 'w
    \<Rightarrow> ('n \<times> MqttSnFixedSizeRingBuffer \<times> 'w) cres" where
  "sends 0 n q t w = Inr (n, q, w)"
| "sends (Suc k) n q t w = cbind (send n q t w) (\<lambda>(_, n, q, w). sends k n q t w)"

definition accepts_all :: "'n \<Rightarrow> bool" where
  "accepts_all n \<longleftrightarrow> (\<forall>m t w. fst (reply n m t w) = int (md_data_length m))"

lemma sends_in_order:
  assumes "can_send n" "accepts_all n" "ring_inv q" "k \<le> length (contents q)"
  shows "\<exists>q'. sends k n q t w = Inr (n, q', fold (\<lambda>m w. snd (reply n m t w)) (take k (contents q)) w)
    \<and> ring_inv q' \<and> contents q' = drop k (contents q)"
  using assms(3,4)
proof (induction k arbitrary: q w)
  case 0
  then show ?case by simp
next
  case (Suc k)
  then obtain m ms where m: "contents q = m # ms"
    by (cases "contents q") auto
  have "reply n m t w = (int (md_data_length m), snd (reply n m t w))"
    using assms(2) by (auto simp: accepts_all_def prod_eq_iff)
  from send_step [OF assms(1) Suc.prems(1) m this]
  obtain rc q' where "send n q t w = Inr (rc, n, q', snd (reply n m t w))" "ring_inv q'" "contents q' = ms"
    by auto
  then show ?case
    using Suc.IH [of q'] Suc.prems m by simp
qed

lemma sends_conserve:
  assumes "ring_inv q"
  shows "\<exists>n' q' w'. sends k n q t w = Inr (n', q', w') \<and> ring_inv q'
    \<and> mset (contents q') \<subseteq># mset (contents q)"
  using assms
proof (induction k arbitrary: n q w)
  case 0
  then show ?case by simp
next
  case (Suc k)
  obtain rc n1 q1 w1 where s: "send n q t w = Inr (rc, n1, q1, w1)" "ring_inv q1"
    "mset (contents q1) \<subseteq># mset (contents q)"
    using send_total [OF Suc.prems, of n t w] by blast
  then show ?case
    using Suc.IH [of q1 n1 w1] by (auto intro: subset_mset.order_trans)
qed

text \<open>A driver that is down hands nothing over: the queue keeps every message.\<close>

lemma sends_down: "\<not> can_send n \<Longrightarrow> sends k n q t w = Inr (n, q, w)"
  by (induction k) (simp_all add: send_down)

end

definition gateway_can_send :: "'w MqttSnGatewayNetworkInterface \<Rightarrow> bool" where
  "gateway_can_send n \<longleftrightarrow> gn_status n = MQTT_SN_GATEWAY_NETWORK_INTERFACE_STATUS_CONNECTED \<and> gn_send n \<noteq> None"

definition gateway_can_receive :: "'w MqttSnGatewayNetworkInterface \<Rightarrow> bool" where
  "gateway_can_receive n \<longleftrightarrow>
     gn_status n = MQTT_SN_GATEWAY_NETWORK_INTERFACE_STATUS_CONNECTED \<and> gn_receive n \<noteq> None"

definition gateway_reply :: "'w MqttSnGatewayNetworkInterface \<Rightarrow> MqttSnMessageData \<Rightarrow> int \<Rightarrow> 'w \<Rightarrow> int \<times> 'w" where
  "gateway_reply n m t w = the (gn_send n) (md_from m) (md_to m) (md_data m) (md_data_length m)
     (md_signal_strength m) t w"

definition gateway_arrival :: "'w MqttSnGatewayNetworkInterface \<Rightarrow> int \<Rightarrow> 'w \<Rightarrow> int \<times> rx \<times> 'w" where
  "gateway_arrival n t w = the (gn_receive n) empty_rx (gn_max_data_length n) t w"

lemma gateway_send_step:
  assumes n: "gateway_can_send n" and q: "ring_inv q" "contents q = m # ms" and r: "gateway_reply n m t w = (r, w')"
  shows "\<exists>rc n' q'. GatewayNetworkSend n q t w = Inr (rc, n', q', w') \<and> ring_inv q' \<and> rb_maxlen q' = rb_maxlen q
    \<and> contents q' = (if r = int (md_data_length m) then ms else ms @ [m])
    \<and> (if r < 0 then rc = -1 \<and> \<not> gateway_can_send n' \<and> \<not> gateway_can_receive n' else 0 \<le> rc \<and> n' = n)"
proof -
  obtain q1 where q1: "pop q zero_message = Inr (0, q1, m)" "ring_inv q1" "contents q1 = ms"
    "rb_maxlen q1 = rb_maxlen q"
    using ring.deq_some [OF q(1), of zero_message] q(2) by auto
  have "length (contents q1) < rb_maxlen q1"
    using ring.bounded [OF q(1)] q1(3,4) q(2) by simp
  then obtain q2 where q2: "put q1 m = Inr (0, q2)" "ring_inv q2" "contents q2 = ms @ [m]"
    "rb_maxlen q2 = rb_maxlen q"
    using ring.enq_room [OF q1(2), of m] q1(3,4) by auto
  obtain send where send: "gn_send n = Some send"
    "send (md_from m) (md_to m) (md_data m) (md_data_length m) (md_signal_strength m) t w = (r, w')"
    using n r by (auto simp: gateway_can_send_def gateway_reply_def)
  show ?thesis
    using n send q1 q2
    by (auto simp: GatewayNetworkSend_def gateway_can_send_def gateway_can_receive_def Let_def)
qed

lemma gateway_receive_step:
  assumes n: "gateway_can_receive n" and q: "ring_inv q" "\<not> isFull q"
    and a: "gateway_arrival n t w = (r, rx, w1)" "clk w1 = ((trc, ts, tms), w2)"
  shows "\<exists>rc n' q' w'. GatewayNetworkReceive clk n q t w = Inr (rc, n', q', w') \<and> ring_inv q'
    \<and> rb_maxlen q' = rb_maxlen q
    \<and> contents q' = (if r mod 65536 = 0 \<or> trc < 0 then contents q
                     else contents q @ [received_message rx r ts tms])
    \<and> (if r < 0 then rc = -1 \<and> \<not> gateway_can_send n' \<and> \<not> gateway_can_receive n' else (0 \<le> trc \<longrightarrow> 0 \<le> rc) \<and> n' = n)
    \<and> w' = (if r mod 65536 = 0 then w1 else w2)"
proof -
  obtain q2 where q2: "put q (received_message rx r ts tms) = Inr (0, q2)" "ring_inv q2"
    "contents q2 = contents q @ [received_message rx r ts tms]" "rb_maxlen q2 = rb_maxlen q"
    using put_appends [OF q] by blast
  obtain receive where receive: "gn_receive n = Some receive"
    "receive empty_rx (gn_max_data_length n) t w = (r, rx, w1)"
    using n a by (auto simp: gateway_can_receive_def gateway_arrival_def)
  have pos: "0 < nat (r mod 65536) \<longleftrightarrow> r mod 65536 \<noteq> 0"
    using pos_mod_sign [of 65536 r] by linarith
  obtain f t' d g where rx: "rx = (f, t', d, g)" by (cases rx) auto
  show ?thesis
    using n receive q q2 a(2) unfolding rx
    by (auto simp: GatewayNetworkReceive_def gateway_can_send_def gateway_can_receive_def Let_def pos
        add_mqtt_sn_message_timestamp_def received_message_def stamped_message empty_rx_def [symmetric])
qed

interpretation gateway_net: network_interface gateway_can_send gateway_can_receive gateway_reply gateway_arrival
  GatewayNetworkSend GatewayNetworkReceive
proof
  show "\<not> gateway_can_send n \<Longrightarrow> GatewayNetworkSend n q t w = Inr (-1, n, q, w)"
    for n :: "'a MqttSnGatewayNetworkInterface" and q t w
    by (auto simp: gateway_can_send_def GatewayNetworkSend_def split: option.split)
  show "gateway_can_send n \<Longrightarrow> contents q = [] \<Longrightarrow> GatewayNetworkSend n q t w = Inr (0, n, q, w)"
    for n :: "'a MqttSnGatewayNetworkInterface" and q t w
    by (auto simp: gateway_can_send_def GatewayNetworkSend_def pop_empty isEmpty_contents)
  show "\<not> gateway_can_receive n \<Longrightarrow> GatewayNetworkReceive clk n q t w = Inr (-1, n, q, w)"
    for n :: "'a MqttSnGatewayNetworkInterface" and clk q t w
    by (auto simp: gateway_can_receive_def GatewayNetworkReceive_def split: option.split)
  show "gateway_can_receive n \<Longrightarrow> isFull q \<Longrightarrow> GatewayNetworkReceive clk n q t w = Inr (0, n, q, w)"
    for n :: "'a MqttSnGatewayNetworkInterface" and clk q t w
    by (auto simp: gateway_can_receive_def GatewayNetworkReceive_def)
qed (fact gateway_send_step gateway_receive_step)+

definition client_can_send :: "'w MqttSnClientNetworkInterface \<Rightarrow> bool" where
  "client_can_send n \<longleftrightarrow> cn_status n = MQTT_SN_CLIENT_NETWORK_INTERFACE_STATUS_CONNECTED \<and> cn_send n \<noteq> None"

definition client_can_receive :: "'w MqttSnClientNetworkInterface \<Rightarrow> bool" where
  "client_can_receive n \<longleftrightarrow>
     cn_status n = MQTT_SN_CLIENT_NETWORK_INTERFACE_STATUS_CONNECTED \<and> cn_receive n \<noteq> None"

definition client_reply :: "'w MqttSnClientNetworkInterface \<Rightarrow> MqttSnMessageData \<Rightarrow> int \<Rightarrow> 'w \<Rightarrow> int \<times> 'w" where
  "client_reply n m t w = the (cn_send n) (md_from m) (md_to m) (md_data m) (md_data_length m)
     (md_signal_strength m) t w"

definition client_arrival :: "'w MqttSnClientNetworkInterface \<Rightarrow> int \<Rightarrow> 'w \<Rightarrow> int \<times> rx \<times> 'w" where
  "client_arrival n t w = the (cn_receive n) empty_rx (cn_max_data_length n) t w"

lemma client_send_step:
  assumes n: "client_can_send n" and q: "ring_inv q" "contents q = m # ms" and r: "client_reply n m t w = (r, w')"
  shows "\<exists>rc n' q'. ClientNetworkSend n q t w = Inr (rc, n', q', w') \<and> ring_inv q' \<and> rb_maxlen q' = rb_maxlen q
    \<and> contents q' = (if r = int (md_data_length m) then ms else ms @ [m])
    \<and> (if r < 0 then rc = -1 \<and> \<not> client_can_send n' \<and> \<not> client_can_receive n' else 0 \<le> rc \<and> n' = n)"
proof -
  obtain q1 where q1: "pop q zero_message = Inr (0, q1, m)" "ring_inv q1" "contents q1 = ms"
    "rb_maxlen q1 = rb_maxlen q"
    using ring.deq_some [OF q(1), of zero_message] q(2) by auto
  have "length (contents q1) < rb_maxlen q1"
    using ring.bounded [OF q(1)] q1(3,4) q(2) by simp
  then obtain q2 where q2: "put q1 m = Inr (0, q2)" "ring_inv q2" "contents q2 = ms @ [m]"
    "rb_maxlen q2 = rb_maxlen q"
    using ring.enq_room [OF q1(2), of m] q1(3,4) by auto
  obtain send where send: "cn_send n = Some send"
    "send (md_from m) (md_to m) (md_data m) (md_data_length m) (md_signal_strength m) t w = (r, w')"
    using n r by (auto simp: client_can_send_def client_reply_def)
  show ?thesis
    using n send q1 q2
    by (auto simp: ClientNetworkSend_def client_can_send_def client_can_receive_def Let_def)
qed

lemma client_receive_step:
  assumes n: "client_can_receive n" and q: "ring_inv q" "\<not> isFull q"
    and a: "client_arrival n t w = (r, rx, w1)" "clk w1 = ((trc, ts, tms), w2)"
  shows "\<exists>rc n' q' w'. ClientNetworkReceive clk n q t w = Inr (rc, n', q', w') \<and> ring_inv q'
    \<and> rb_maxlen q' = rb_maxlen q
    \<and> contents q' = (if r mod 65536 = 0 \<or> trc < 0 then contents q
                     else contents q @ [received_message rx r ts tms])
    \<and> (if r < 0 then rc = -1 \<and> \<not> client_can_send n' \<and> \<not> client_can_receive n' else (0 \<le> trc \<longrightarrow> 0 \<le> rc) \<and> n' = n)
    \<and> w' = (if r mod 65536 = 0 then w1 else w2)"
proof -
  obtain q2 where q2: "put q (received_message rx r ts tms) = Inr (0, q2)" "ring_inv q2"
    "contents q2 = contents q @ [received_message rx r ts tms]" "rb_maxlen q2 = rb_maxlen q"
    using put_appends [OF q] by blast
  obtain receive where receive: "cn_receive n = Some receive"
    "receive empty_rx (cn_max_data_length n) t w = (r, rx, w1)"
    using n a by (auto simp: client_can_receive_def client_arrival_def)
  have pos: "0 < nat (r mod 65536) \<longleftrightarrow> r mod 65536 \<noteq> 0"
    using pos_mod_sign [of 65536 r] by linarith
  obtain f t' d g where rx: "rx = (f, t', d, g)" by (cases rx) auto
  show ?thesis
    using n receive q q2 a(2) unfolding rx
    by (auto simp: ClientNetworkReceive_def client_can_send_def client_can_receive_def Let_def pos
        add_mqtt_sn_message_timestamp_def received_message_def stamped_message empty_rx_def [symmetric])
qed

interpretation client_net: network_interface client_can_send client_can_receive client_reply client_arrival
  ClientNetworkSend ClientNetworkReceive
proof
  show "\<not> client_can_send n \<Longrightarrow> ClientNetworkSend n q t w = Inr (-1, n, q, w)"
    for n :: "'a MqttSnClientNetworkInterface" and q t w
    by (auto simp: client_can_send_def ClientNetworkSend_def split: option.split)
  show "client_can_send n \<Longrightarrow> contents q = [] \<Longrightarrow> ClientNetworkSend n q t w = Inr (0, n, q, w)"
    for n :: "'a MqttSnClientNetworkInterface" and q t w
    by (auto simp: client_can_send_def ClientNetworkSend_def pop_empty isEmpty_contents)
  show "\<not> client_can_receive n \<Longrightarrow> ClientNetworkReceive clk n q t w = Inr (-1, n, q, w)"
    for n :: "'a MqttSnClientNetworkInterface" and clk q t w
    by (auto simp: client_can_receive_def ClientNetworkReceive_def split: option.split)
  show "client_can_receive n \<Longrightarrow> isFull q \<Longrightarrow> ClientNetworkReceive clk n q t w = Inr (0, n, q, w)"
    for n :: "'a MqttSnClientNetworkInterface" and clk q t w
    by (auto simp: client_can_receive_def ClientNetworkReceive_def)
qed (fact client_send_step client_receive_step)+

end
