(* ===== verification/Msg_Discovery.thy ===== *)
theory Msg_Discovery
  imports Wire_Format
begin

text \<open>
  The gateway discovery messages: \<open>src/parser/MqttSnAdvertiseMessage.c\<close>, \<open>MqttSnSearchGwMessage.c\<close> and
  \<open>MqttSnGwInfoMessage.c\<close> with their headers, each function by its name, and for each message its bytes
  and the interpretation of the message-format contract on its writer and reader.
\<close>

section \<open>ADVERTISE\<close>

record MqttSnAdvertise =
  adv_gwId :: u8
  adv_duration :: u16

definition MQTT_SN_MESSAGE_ADVERTISE_LENGTH :: nat where
  [codec_defs]: "MQTT_SN_MESSAGE_ADVERTISE_LENGTH = 5"

definition parse_advertise_header :: "u8 list \<Rightarrow> nat \<Rightarrow> nat \<Rightarrow> (ParsedMqttSnHeader \<times> nat) cres" where
  [codec_defs]: "parse_advertise_header data data_len parsed_bytes =
     cbind (parse_header_ok ADVERTISE data data_len parsed_bytes) (\<lambda>(h, parsed_bytes).
     if h_length h \<noteq> MQTT_SN_MESSAGE_ADVERTISE_LENGTH then Inl Fail else Inr (h, parsed_bytes))"

definition parse_advertise_gw_id_byte :: "u8 list \<Rightarrow> nat \<Rightarrow> nat \<Rightarrow> (u8 \<times> nat) cres" where
  [codec_defs]: "parse_advertise_gw_id_byte src_pos src_len parsed_bytes =
     parse_mqtt_sn_uint8_byte src_pos src_len parsed_bytes"

definition parse_advertise_duration_byte :: "u8 list \<Rightarrow> nat \<Rightarrow> nat \<Rightarrow> (u16 \<times> nat) cres" where
  [codec_defs]: "parse_advertise_duration_byte src_pos src_len parsed_bytes =
     parse_mqtt_sn_uint16_byte src_pos src_len parsed_bytes"

definition parse_advertise_byte :: "u8 list \<Rightarrow> nat \<Rightarrow> (u8 \<times> u16 \<times> nat) cres" where
  [codec_defs]: "parse_advertise_byte data data_len =
     cbind (parse_advertise_header data data_len 0) (\<lambda>(h, parsed_bytes).
     cbind (parse_advertise_gw_id_byte (drop parsed_bytes data) data_len parsed_bytes)
       (\<lambda>(gw_id, parsed_bytes).
     cbind (parse_advertise_duration_byte (drop parsed_bytes data) data_len parsed_bytes)
       (\<lambda>(duration, parsed_bytes). Inr (gw_id, duration, parsed_bytes))))"

definition parse_advertise :: "u8 list \<Rightarrow> nat \<Rightarrow> (MqttSnAdvertise \<times> nat) cres" where
  [codec_defs]: "parse_advertise data data_len =
     cbind (parse_advertise_byte data data_len) (\<lambda>(gw_id, duration, rc).
     Inr (\<lparr>adv_gwId = gw_id, adv_duration = duration\<rparr>, rc))"

definition generate_advertise_header :: "u8 list \<Rightarrow> nat \<Rightarrow> nat \<Rightarrow> nat \<Rightarrow> (int \<times> u8 list \<times> nat) cres" where
  [codec_defs]: "generate_advertise_header dst pos dst_len used_bytes =
     generate_mqtt_sn_header dst pos dst_len used_bytes MQTT_SN_MESSAGE_ADVERTISE_LENGTH ADVERTISE"

definition generate_advertise_gw_id ::
  "u8 list \<Rightarrow> nat \<Rightarrow> nat \<Rightarrow> u8 \<Rightarrow> nat \<Rightarrow> (int \<times> u8 list \<times> nat) cres" where
  [codec_defs]: "generate_advertise_gw_id dst pos dst_len gw_id used_bytes =
     generate_mqtt_sn_uint8 dst pos dst_len gw_id used_bytes"

definition generate_advertise_duration ::
  "u8 list \<Rightarrow> nat \<Rightarrow> nat \<Rightarrow> u16 \<Rightarrow> nat \<Rightarrow> (int \<times> u8 list \<times> nat) cres" where
  [codec_defs]: "generate_advertise_duration dst pos dst_len duration used_bytes =
     generate_mqtt_sn_uint16 dst pos dst_len duration used_bytes"

definition generate_advertise_message ::
  "u8 list \<Rightarrow> nat \<Rightarrow> u8 \<Rightarrow> u16 \<Rightarrow> (u8 list \<times> nat) cres" where
  [codec_defs]: "generate_advertise_message dst dst_len gw_id duration =
     cbind (generate_advertise_header dst 0 dst_len 0) (\<lambda>(_, dst, used_bytes).
     cbind (generate_advertise_gw_id dst used_bytes dst_len gw_id used_bytes)
       (\<lambda>(_, dst, used_bytes).
     cbind (generate_advertise_duration dst used_bytes dst_len duration used_bytes)
       (\<lambda>(_, dst, used_bytes). Inr (dst, used_bytes))))"

definition advertise_wire :: "MqttSnAdvertise \<Rightarrow> u8 list" where
  "advertise_wire m =
     header_wire 5 ADVERTISE @ [adv_gwId m, hi8 (adv_duration m), lo8 (adv_duration m)]"

lemma generate_advertise_eq:
  assumes "dst_len \<le> length dst"
  shows "generate_advertise_message dst dst_len (adv_gwId m) (adv_duration m) =
    (if 5 \<le> dst_len then Inr (patched dst (advertise_wire m), 5) else Inl Fail)"
  using assms by (simp add: codec_defs gen_simps advertise_wire_def header_size_def)

lemma length_advertise_wire [simp]: "length (advertise_wire m) = 5"
  by (simp add: advertise_wire_def header_size_def)

lemma parse_advertise_wire: "parse_advertise (advertise_wire m @ rest) 5 = Inr (m, 5)"
  by (simp add: codec_defs advertise_wire_def parse_header_ok_wire del: header_size_simps)
     (simp add: header_size_def)

lemma parse_advertise_accepts:
  assumes "parse_advertise data n = Inr (m, rc)" "n \<le> length data"
  shows "n = 5 \<and> rc = 5 \<and> take n data = advertise_wire m"
  using assms
  by (auto simp: codec_defs cbind_eq_Inr read_uint8_accepts read_uint16_accepts advertise_wire_def
      header_wire_def split: if_splits dest!: parse_header_ok_accepts)

interpretation advertise: strict_wire_format advertise_wire "\<lambda>_. True" "\<lambda>_. True" "\<lambda>_. True" "\<lambda>_. True"
  untouched "\<lambda>dst n m. map_sum id fst (generate_advertise_message dst n (adv_gwId m) (adv_duration m))"
  "\<lambda>m. m" "\<lambda>data n. map_sum id fst (parse_advertise data n)"
  by unfold_locales (use parse_advertise_accepts in
    \<open>force simp: generate_advertise_eq parse_advertise_wire map_sum_fst_eq_Inr\<close>)+

lemma safe_parse_advertise:
  "n \<le> length data \<Longrightarrow> data \<noteq> [1, 0, 3] \<Longrightarrow> safe (parse_advertise data n)"
  unfolding codec_defs by (intro safe_intros)

section \<open>SEARCHGW\<close>

record MqttSnSearchGw =
  sgw_radius :: u8

definition MQTT_SN_MESSAGE_SEARCHGW_LENGTH :: nat where
  [codec_defs]: "MQTT_SN_MESSAGE_SEARCHGW_LENGTH = 3"

definition parse_searchgw_header :: "u8 list \<Rightarrow> nat \<Rightarrow> nat \<Rightarrow> (ParsedMqttSnHeader \<times> nat) cres" where
  [codec_defs]: "parse_searchgw_header data data_len parsed_bytes =
     cbind (parse_header_ok SEARCHGW data data_len parsed_bytes) (\<lambda>(h, parsed_bytes).
     if h_length h \<noteq> MQTT_SN_MESSAGE_SEARCHGW_LENGTH then Inl Fail else Inr (h, parsed_bytes))"

definition parse_searchgw_radius_byte :: "u8 list \<Rightarrow> nat \<Rightarrow> nat \<Rightarrow> (u8 \<times> nat) cres" where
  [codec_defs]: "parse_searchgw_radius_byte src_pos src_len parsed_bytes =
     parse_mqtt_sn_uint8_byte src_pos src_len parsed_bytes"

definition parse_searchgw_message_byte :: "u8 list \<Rightarrow> nat \<Rightarrow> (u8 \<times> nat) cres" where
  [codec_defs]: "parse_searchgw_message_byte data data_len =
     cbind (parse_searchgw_header data data_len 0) (\<lambda>(h, parsed_bytes).
     cbind (parse_searchgw_radius_byte (drop parsed_bytes data) data_len parsed_bytes)
       (\<lambda>(radius, parsed_bytes). Inr (radius, parsed_bytes)))"

definition parse_searchgw :: "u8 list \<Rightarrow> nat \<Rightarrow> (MqttSnSearchGw \<times> nat) cres" where
  [codec_defs]: "parse_searchgw data data_len =
     cbind (parse_searchgw_message_byte data data_len) (\<lambda>(radius, rc).
     Inr (\<lparr>sgw_radius = radius\<rparr>, rc))"

definition generate_searchgw_header :: "u8 list \<Rightarrow> nat \<Rightarrow> nat \<Rightarrow> nat \<Rightarrow> (int \<times> u8 list \<times> nat) cres" where
  [codec_defs]: "generate_searchgw_header dst pos dst_len used_bytes =
     generate_mqtt_sn_header dst pos dst_len used_bytes MQTT_SN_MESSAGE_SEARCHGW_LENGTH SEARCHGW"

definition generate_searchgw_radius ::
  "u8 list \<Rightarrow> nat \<Rightarrow> nat \<Rightarrow> nat \<Rightarrow> u8 \<Rightarrow> (int \<times> u8 list \<times> nat) cres" where
  [codec_defs]: "generate_searchgw_radius dst pos dst_len used_bytes radius =
     (let used_bytes = used_bytes + 1 in
      if used_bytes > dst_len then Inl Fail
      else cbind (wr_bytes dst pos [radius]) (\<lambda>dst. Inr (int used_bytes, dst, used_bytes)))"

definition generate_searchgw_message :: "u8 list \<Rightarrow> nat \<Rightarrow> u8 \<Rightarrow> (u8 list \<times> nat) cres" where
  [codec_defs]: "generate_searchgw_message dst dst_len radius =
     cbind (generate_searchgw_header dst 0 dst_len 0) (\<lambda>(_, dst, used_bytes).
     cbind (generate_searchgw_radius dst used_bytes dst_len used_bytes radius)
       (\<lambda>(_, dst, used_bytes). Inr (dst, used_bytes)))"

definition searchgw_wire :: "MqttSnSearchGw \<Rightarrow> u8 list" where
  "searchgw_wire m = header_wire 3 SEARCHGW @ [sgw_radius m]"

lemma length_searchgw_wire [simp]: "length (searchgw_wire m) = 3"
  by (simp add: searchgw_wire_def)

lemma generate_searchgw_eq:
  assumes "dst_len \<le> length dst"
  shows "generate_searchgw_message dst dst_len (sgw_radius m) =
    (if 3 \<le> dst_len then Inr (patched dst (searchgw_wire m), 3) else Inl Fail)"
  using assms wr_bytes_patched [of "header_wire 3 SEARCHGW" "[sgw_radius m]" dst]
  by (simp add: codec_defs gen_simps searchgw_wire_def)

lemma parse_searchgw_wire: "parse_searchgw (searchgw_wire m @ rest) 3 = Inr (m, 3)"
  by (simp add: codec_defs searchgw_wire_def parse_header_ok_wire del: header_size_simps) simp

lemma parse_searchgw_accepts:
  assumes "parse_searchgw data n = Inr (m, rc)" "n \<le> length data"
  shows "n = 3 \<and> rc = 3 \<and> take n data = searchgw_wire m"
  using assms
  by (auto simp: codec_defs cbind_eq_Inr read_uint8_accepts searchgw_wire_def header_wire_def
      split: if_splits dest!: parse_header_ok_accepts)

interpretation searchgw: strict_wire_format searchgw_wire "\<lambda>_. True" "\<lambda>_. True" "\<lambda>_. True" "\<lambda>_. True"
  untouched "\<lambda>dst n m. map_sum id fst (generate_searchgw_message dst n (sgw_radius m))"
  "\<lambda>m. m" "\<lambda>data n. map_sum id fst (parse_searchgw data n)"
  by unfold_locales (use parse_searchgw_accepts in
    \<open>force simp: generate_searchgw_eq parse_searchgw_wire map_sum_fst_eq_Inr\<close>)+

lemma safe_parse_searchgw:
  "n \<le> length data \<Longrightarrow> data \<noteq> [1, 0, 3] \<Longrightarrow> safe (parse_searchgw data n)"
  unfolding codec_defs by (intro safe_intros)

section \<open>GWINFO\<close>

record MqttSnGwInfo =
  gwi_gwId :: u8
  gwi_gwAdd :: "u8 list"
  gwi_gwAddLen :: nat

definition MQTT_SN_MESSAGE_GWINFO_WO_GWADD_LENGTH :: nat where
  [codec_defs]: "MQTT_SN_MESSAGE_GWINFO_WO_GWADD_LENGTH = 3"

definition MQTT_SN_MESSAGE_GWINFO_W_GWADD_MAX_LENGTH :: nat where
  [codec_defs]: "MQTT_SN_MESSAGE_GWINFO_W_GWADD_MAX_LENGTH =
     MQTT_SN_MESSAGE_GWINFO_WO_GWADD_LENGTH + device_address_size"

definition parse_gwinfo_header :: "u8 list \<Rightarrow> nat \<Rightarrow> nat \<Rightarrow> (ParsedMqttSnHeader \<times> nat) cres" where
  [codec_defs]: "parse_gwinfo_header data data_len parsed_bytes =
     cbind (parse_header_ok GWINFO data data_len parsed_bytes) (\<lambda>(h, parsed_bytes).
     if h_length h < MQTT_SN_MESSAGE_GWINFO_WO_GWADD_LENGTH then Inl Fail
     else if h_length h > MQTT_SN_MESSAGE_GWINFO_W_GWADD_MAX_LENGTH then Inl Fail
     else Inr (h, parsed_bytes))"

definition parse_gwinfo_gw_id :: "u8 list \<Rightarrow> nat \<Rightarrow> nat \<Rightarrow> (u8 \<times> nat) cres" where
  [codec_defs]: "parse_gwinfo_gw_id src_pos src_len parsed_bytes =
     parse_mqtt_sn_uint8_byte src_pos src_len parsed_bytes"

definition parse_gwinfo_gw_add ::
  "u8 list \<Rightarrow> nat \<Rightarrow> nat \<Rightarrow> u8 list \<Rightarrow> (u8 list \<times> nat \<times> nat) cres" where
  [codec_defs]: "parse_gwinfo_gw_add src_pos src_len parsed_bytes gw_add =
     parse_mqtt_sn_device_address src_pos src_len parsed_bytes gw_add"

definition parse_gwinfo_gateway_message_byte :: "u8 list \<Rightarrow> nat \<Rightarrow> (u8 \<times> nat) cres" where
  [codec_defs]: "parse_gwinfo_gateway_message_byte data data_len =
     cbind (parse_gwinfo_header data data_len 0) (\<lambda>(h, parsed_bytes).
     parse_gwinfo_gw_id (drop parsed_bytes data) data_len parsed_bytes)"

definition parse_gwinfo_client_message_byte ::
  "u8 list \<Rightarrow> u8 list \<Rightarrow> nat \<Rightarrow> (u8 \<times> u8 list \<times> nat \<times> nat) cres" where
  [codec_defs]: "parse_gwinfo_client_message_byte gw_add data data_len =
     cbind (parse_gwinfo_gateway_message_byte data data_len) (\<lambda>(gw_id, parsed_bytes).
     if parsed_bytes = data_len then Inr (gw_id, gw_add, 0, parsed_bytes)
     else
       cbind (parse_gwinfo_gw_add (drop parsed_bytes data) data_len parsed_bytes gw_add)
         (\<lambda>(gw_add, gw_add_len, parsed_bytes). Inr (gw_id, gw_add, gw_add_len, parsed_bytes)))"

definition parse_gwinfo_message_byte ::
  "u8 list \<Rightarrow> u8 list \<Rightarrow> nat \<Rightarrow> (u8 \<times> u8 list \<times> nat \<times> nat) cres" where
  [codec_defs]: "parse_gwinfo_message_byte gw_add data data_len =
     parse_gwinfo_client_message_byte gw_add data data_len"

definition parse_gwinfo :: "MqttSnGwInfo \<Rightarrow> u8 list \<Rightarrow> nat \<Rightarrow> (MqttSnGwInfo \<times> nat) cres" where
  [codec_defs]: "parse_gwinfo gw_info data data_len =
     cbind (parse_gwinfo_message_byte (gwi_gwAdd gw_info) data data_len)
       (\<lambda>(gw_id, gw_add, gw_add_len, rc).
     Inr (\<lparr>gwi_gwId = gw_id, gwi_gwAdd = gw_add, gwi_gwAddLen = gw_add_len\<rparr>, rc))"

definition generate_gwinfo_header ::
  "u8 list \<Rightarrow> nat \<Rightarrow> nat \<Rightarrow> nat \<Rightarrow> nat \<Rightarrow> (int \<times> u8 list \<times> nat) cres" where
  [codec_defs]: "generate_gwinfo_header dst pos dst_len gw_add_len used_bytes =
     (let total_length = (MQTT_SN_MESSAGE_GWINFO_WO_GWADD_LENGTH + gw_add_len) mod 65536 in
      if dst_len < total_length then Inl Fail
      else generate_mqtt_sn_header dst pos dst_len used_bytes total_length GWINFO)"

definition generate_gwinfo_radius ::
  "u8 list \<Rightarrow> nat \<Rightarrow> nat \<Rightarrow> u8 \<Rightarrow> nat \<Rightarrow> (int \<times> u8 list \<times> nat) cres" where
  [codec_defs]: "generate_gwinfo_radius dst pos dst_len gw_id used_bytes =
     generate_mqtt_sn_uint8 dst pos dst_len gw_id used_bytes"

definition generate_gwinfo_gw_add ::
  "u8 list \<Rightarrow> nat \<Rightarrow> nat \<Rightarrow> u8 list \<Rightarrow> nat \<Rightarrow> nat \<Rightarrow> (int \<times> u8 list \<times> nat) cres" where
  [codec_defs]: "generate_gwinfo_gw_add dst pos dst_len gw_add gw_add_len used_bytes =
     generate_mqtt_sn_device_address dst pos dst_len used_bytes gw_add gw_add_len"

text \<open>The gateway form returns the used bytes, the client form returns 0.\<close>

definition generate_gwinfo_gateway_message :: "u8 list \<Rightarrow> nat \<Rightarrow> u8 \<Rightarrow> (u8 list \<times> nat) cres" where
  [codec_defs]: "generate_gwinfo_gateway_message dst dst_len gw_id =
     cbind (generate_gwinfo_header dst 0 dst_len 0 0) (\<lambda>(_, dst, used_bytes).
     cbind (generate_gwinfo_radius dst used_bytes dst_len gw_id used_bytes)
       (\<lambda>(_, dst, used_bytes). Inr (dst, used_bytes)))"

definition generate_gwinfo_client_message ::
  "u8 list \<Rightarrow> nat \<Rightarrow> u8 \<Rightarrow> u8 list \<Rightarrow> nat \<Rightarrow> (u8 list \<times> nat) cres" where
  [codec_defs]: "generate_gwinfo_client_message dst dst_len gw_id gw_add gw_add_len =
     cbind (generate_gwinfo_header dst 0 dst_len gw_add_len 0) (\<lambda>(_, dst, used_bytes).
     cbind (generate_gwinfo_radius dst used_bytes dst_len gw_id used_bytes)
       (\<lambda>(_, dst, used_bytes).
     cbind (generate_gwinfo_gw_add dst used_bytes dst_len gw_add gw_add_len used_bytes)
       (\<lambda>(_, dst, used_bytes). Inr (dst, 0))))"

definition generate_gwinfo_message ::
  "u8 list \<Rightarrow> nat \<Rightarrow> u8 \<Rightarrow> u8 list option \<Rightarrow> nat \<Rightarrow> (u8 list \<times> nat) cres" where
  [codec_defs]: "generate_gwinfo_message dst dst_len gw_id gw_add gw_add_len =
     (case gw_add of
        None \<Rightarrow> generate_gwinfo_gateway_message dst dst_len gw_id
      | Some add \<Rightarrow>
          if gw_add_len = 0 then generate_gwinfo_gateway_message dst dst_len gw_id
          else generate_gwinfo_client_message dst dst_len gw_id add gw_add_len)"

definition gwinfo_wire :: "MqttSnGwInfo \<Rightarrow> u8 list" where
  "gwinfo_wire m =
     header_wire (3 + gwi_gwAddLen m) GWINFO @ [gwi_gwId m] @ take (gwi_gwAddLen m) (gwi_gwAdd m)"

definition gwinfo_wf :: "MqttSnGwInfo \<Rightarrow> bool" where
  "gwinfo_wf m \<longleftrightarrow> length (gwi_gwAdd m) = device_address_size \<and> gwi_gwAddLen m \<le> device_address_size"

definition gwinfo_view :: "MqttSnGwInfo \<Rightarrow> u8 \<times> u8 list" where
  "gwinfo_view m = (gwi_gwId m, take (gwi_gwAddLen m) (gwi_gwAdd m))"

lemma length_gwinfo_wire: "gwinfo_wf m \<Longrightarrow> length (gwinfo_wire m) = 3 + gwi_gwAddLen m"
  by (simp add: gwinfo_wire_def gwinfo_wf_def device_address_size_def)

lemma generate_gwinfo_eq:
  assumes "dst_len \<le> length dst" "gwinfo_wf m"
  shows "generate_gwinfo_message dst dst_len (gwi_gwId m) (Some (gwi_gwAdd m)) (gwi_gwAddLen m) =
    (if 3 + gwi_gwAddLen m \<le> dst_len
     then Inr (patched dst (gwinfo_wire m), if gwi_gwAddLen m = 0 then 3 else 0) else Inl Fail)"
  using assms
  by (auto simp: codec_defs gen_simps gwinfo_wire_def gwinfo_wf_def device_address_size_def)

lemmas gwinfo_simps = codec_defs gwinfo_wire_def gwinfo_wf_def gwinfo_view_def
  parse_header_ok_wire device_address_size_def parse_mqtt_sn_device_address_def
  parse_mqtt_sn_uint8_array_byte_def rds_def

lemma parse_gwinfo_wire:
  assumes "gwinfo_wf m" "gwi_gwAddLen m = 0 \<or> gwi_gwAddLen m = 6"
    "length (gwi_gwAdd g) = device_address_size"
  shows "\<exists>g'. parse_gwinfo g (gwinfo_wire m @ rest) (3 + gwi_gwAddLen m) = Inr (g', 3 + gwi_gwAddLen m)
    \<and> gwinfo_wf g' \<and> gwinfo_view g' = gwinfo_view m"
  using assms(2)
proof
  assume "gwi_gwAddLen m = 0"
  with assms show ?thesis by (simp add: gwinfo_simps)
next
  assume "gwi_gwAddLen m = 6"
  with assms show ?thesis by (simp add: gwinfo_simps patched_def)
qed

definition parse_gwinfo_fresh :: "u8 list \<Rightarrow> nat \<Rightarrow> (u8 \<times> u8 list) cres" where
  "parse_gwinfo_fresh data n =
     map_sum id (\<lambda>(g, rc). gwinfo_view g)
       (parse_gwinfo \<lparr>gwi_gwId = 0, gwi_gwAdd = replicate device_address_size 0, gwi_gwAddLen = 0\<rparr>
          data n)"

lemma parse_gwinfo_fresh_wire:
  assumes "gwinfo_wf m" "gwi_gwAddLen m = 0 \<or> gwi_gwAddLen m = 6"
  shows "parse_gwinfo_fresh (gwinfo_wire m @ rest) (3 + gwi_gwAddLen m) = Inr (gwinfo_view m)"
  using parse_gwinfo_wire [OF assms, of "\<lparr>gwi_gwId = 0, gwi_gwAdd = replicate device_address_size 0,
    gwi_gwAddLen = 0\<rparr>" rest] assms(1)
  by (auto simp: parse_gwinfo_fresh_def)

text \<open>
  The reader also accepts the three-octet length form for a message this short, so GWINFO does not
  have the strict contract.
\<close>

interpretation gwinfo: wire_format gwinfo_wire gwinfo_wf "\<lambda>_. True"
  "\<lambda>m. gwi_gwAddLen m = 0 \<or> gwi_gwAddLen m = 6" "\<lambda>_. True"
  untouched "\<lambda>dst n m. map_sum id fst
     (generate_gwinfo_message dst n (gwi_gwId m) (Some (gwi_gwAdd m)) (gwi_gwAddLen m))"
  gwinfo_view parse_gwinfo_fresh
  by unfold_locales (simp_all add: generate_gwinfo_eq length_gwinfo_wire parse_gwinfo_fresh_wire)

lemma safe_parse_gwinfo:
  assumes "n \<le> length data" "data \<noteq> [1, 0, 3]" "length (gwi_gwAdd g) = device_address_size"
  shows "safe (parse_gwinfo g data n)"
  using assms unfolding codec_defs by (intro safe_intros)

end
