(* ===== verification/Discovered_Gw.thy ===== *)
theory Discovered_Gw
  imports Ring_Buffer Msg_Discovery
begin

text \<open>
  The list of discovered gateways: \<open>src/common/discoveredgw/MqttSnClientDiscoveredGateway.c\<close> and the
  tolerance of \<open>src/common/timeout/MqttSnClientTimeout.c\<close>. Each loop of the source is a function of its
  own, an access outside the array of 255 gateways or through a null pointer is \<open>Fault\<close>. The abstract
  view \<open>entries\<close> is the used part of the array; an update refines the list function \<open>discover\<close>.
\<close>

section \<open>The tolerance\<close>

text \<open>
  The product and the quotient are exact in a \<open>double\<close> for a \<open>uint16_t\<close> and a percentage, and the
  conversion to \<open>uint64_t\<close> truncates.
\<close>

definition get_tolerance_timeout :: "u16 \<Rightarrow> u16 \<Rightarrow> nat \<Rightarrow> nat \<Rightarrow> u64" where
  "get_tolerance_timeout timeout low_threshold_s low_percentage high_percentage =
     (if timeout \<le> low_threshold_s
      then of_nat (unat timeout) + of_nat (unat timeout * low_percentage div 100)
      else of_nat (unat timeout) + of_nat (unat timeout * high_percentage div 100))"

section \<open>The list\<close>

datatype MqttSnDiscoveredGatewayState =
    MqttSnDiscoveredGatewayStateInactive | MqttSnDiscoveredGatewayStateActive

record MqttSnDiscoveredGateway =
  dg_gw_id :: u8
  dg_duration :: u16
  dg_network_address :: "u8 list"
  dg_signal_strength :: u8
  dg_state :: MqttSnDiscoveredGatewayState
  dg_last_message_s :: u64

definition MQTT_SN_FIND_GATEWAY_CLIENT_DISCOVERED_GATEWAY_LIST_LENGTH :: nat where
  "MQTT_SN_FIND_GATEWAY_CLIENT_DISCOVERED_GATEWAY_LIST_LENGTH = 255"

record MqttSnDiscoveredGatewayList =
  dl_gateways :: "MqttSnDiscoveredGateway list"
  dl_max_len :: nat
  dl_current_len :: nat

text \<open>A gateway after \<open>memset\<close> to zero.\<close>

definition zero_gateway :: MqttSnDiscoveredGateway where
  "zero_gateway =
     \<lparr>dg_gw_id = 0, dg_duration = 0, dg_network_address = replicate device_address_size 0,
      dg_signal_strength = 0, dg_state = MqttSnDiscoveredGatewayStateInactive, dg_last_message_s = 0\<rparr>"

definition deref :: "'a option \<Rightarrow> 'a cres" where
  "deref p = (case p of None \<Rightarrow> Inl Fault | Some x \<Rightarrow> Inr x)"

definition MqttSnDiscoveredGatewayListInit :: MqttSnDiscoveredGatewayList where
  "MqttSnDiscoveredGatewayListInit =
     \<lparr>dl_gateways = replicate MQTT_SN_FIND_GATEWAY_CLIENT_DISCOVERED_GATEWAY_LIST_LENGTH zero_gateway,
      dl_max_len = MQTT_SN_FIND_GATEWAY_CLIENT_DISCOVERED_GATEWAY_LIST_LENGTH,
      dl_current_len = 0\<rparr>"

definition expired :: "u64 \<Rightarrow> MqttSnDiscoveredGateway \<Rightarrow> bool" where
  "expired current_time_s g \<longleftrightarrow>
     current_time_s - dg_last_message_s g > get_tolerance_timeout (dg_duration g) 60 50 10"

function update_states_loop ::
  "u64 \<Rightarrow> nat \<Rightarrow> nat \<Rightarrow> MqttSnDiscoveredGateway list \<Rightarrow> MqttSnDiscoveredGateway list cres" where
  "update_states_loop current_time_s current_len i gateways =
     (if i < current_len
      then
        cbind (rd_arr gateways i) (\<lambda>g.
        cbind (if expired current_time_s g
               then wr_arr gateways i (g\<lparr>dg_state := MqttSnDiscoveredGatewayStateInactive\<rparr>)
               else Inr gateways) (\<lambda>gateways.
        update_states_loop current_time_s current_len (i + 1) gateways))
      else Inr gateways)"
  by pat_completeness auto
termination
  by (relation "measure (\<lambda>(_, n, i, _). n - i)") auto

declare update_states_loop.simps [simp del]

definition MqttSnDiscoveredGatewayListUpdateStates ::
  "MqttSnDiscoveredGatewayList \<Rightarrow> u64 \<Rightarrow> MqttSnDiscoveredGatewayList cres" where
  "MqttSnDiscoveredGatewayListUpdateStates l current_time_s =
     cbind (update_states_loop current_time_s (dl_current_len l) 0 (dl_gateways l)) (\<lambda>gateways.
     Inr (l\<lparr>dl_gateways := gateways\<rparr>))"

text \<open>The inner loops of the removal: shift the gateways down, clear the unused slots.\<close>

function shift_loop :: "nat \<Rightarrow> nat \<Rightarrow> 'a list \<Rightarrow> 'a list cres" where
  "shift_loop current_len j gateways =
     (if j + 1 < current_len
      then
        cbind (rd_arr gateways (j + 1)) (\<lambda>g.
        cbind (wr_arr gateways j g) (\<lambda>gateways.
        shift_loop current_len (j + 1) gateways))
      else Inr gateways)"
  by pat_completeness auto
termination
  by (relation "measure (\<lambda>(n, j, _). n - j)") auto

declare shift_loop.simps [simp del]

text \<open>\<open>n\<close> counts the slots from \<open>max_len - 1\<close> down to \<open>current_len\<close> that are left.\<close>

fun clear_loop :: "nat \<Rightarrow> nat \<Rightarrow> MqttSnDiscoveredGateway list \<Rightarrow> MqttSnDiscoveredGateway list cres" where
  "clear_loop current_len 0 gateways = Inr gateways"
| "clear_loop current_len (Suc n) gateways =
     cbind (wr_arr gateways (current_len + n) zero_gateway) (\<lambda>gateways.
     clear_loop current_len n gateways)"

function remove_inactive_loop ::
  "nat \<Rightarrow> MqttSnDiscoveredGatewayList \<Rightarrow> MqttSnDiscoveredGatewayList cres" where
  "remove_inactive_loop i l =
     (if i < dl_current_len l
      then
        cbind (rd_arr (dl_gateways l) i) (\<lambda>g.
        if dg_state g = MqttSnDiscoveredGatewayStateInactive \<and> dg_last_message_s g > 0
        then
          cbind (wr_arr (dl_gateways l) i zero_gateway) (\<lambda>gateways.
          cbind (shift_loop (dl_current_len l) i gateways) (\<lambda>gateways.
          cbind (if dl_max_len l > 0
                 then clear_loop (dl_current_len l - 1) (dl_max_len l - (dl_current_len l - 1)) gateways
                 else Inr gateways) (\<lambda>gateways.
          remove_inactive_loop i
            (l\<lparr>dl_gateways := gateways, dl_current_len := dl_current_len l - 1\<rparr>))))
        else remove_inactive_loop (i + 1) l)
      else Inr l)"
  by pat_completeness auto
termination
  by (relation "measure (\<lambda>(i, l). dl_current_len l - i)") auto

declare remove_inactive_loop.simps [simp del]

definition MqttSnDiscoveredGatewayListRemoveInactive ::
  "MqttSnDiscoveredGatewayList \<Rightarrow> MqttSnDiscoveredGatewayList cres" where
  "MqttSnDiscoveredGatewayListRemoveInactive l = remove_inactive_loop 0 l"

text \<open>The first loop of the update; it returns whether it has updated a gateway.\<close>

function update_loop ::
  "u8 list option \<Rightarrow> u8 \<Rightarrow> MqttSnAdvertise option \<Rightarrow> MqttSnGwInfo option \<Rightarrow> u64
   \<Rightarrow> nat \<Rightarrow> MqttSnDiscoveredGatewayList \<Rightarrow> (bool \<times> MqttSnDiscoveredGatewayList) cres" where
  "update_loop from signal_strength advertise gw_info current_time_s i l =
     (if i < dl_current_len l
      then
        cbind (rd_arr (dl_gateways l) i) (\<lambda>g.
        if advertise \<noteq> None \<and> dg_gw_id g = adv_gwId (the advertise)
        then
          cbind (deref from) (\<lambda>addr.
          cbind (wr_arr (dl_gateways l) i
                   (g\<lparr>dg_network_address := addr, dg_duration := adv_duration (the advertise),
                      dg_signal_strength := signal_strength,
                      dg_state := MqttSnDiscoveredGatewayStateActive,
                      dg_last_message_s := current_time_s\<rparr>)) (\<lambda>gateways.
          Inr (True, l\<lparr>dl_gateways := gateways\<rparr>)))
        else if gw_info \<noteq> None \<and> dg_gw_id g = gwi_gwId (the gw_info)
        then
          cbind (deref from) (\<lambda>addr.
          cbind (wr_arr (dl_gateways l) i
                   (g\<lparr>dg_network_address := addr, dg_signal_strength := signal_strength,
                      dg_state := MqttSnDiscoveredGatewayStateActive,
                      dg_last_message_s := current_time_s\<rparr>)) (\<lambda>gateways.
          Inr (True, l\<lparr>dl_gateways := gateways\<rparr>)))
        else update_loop from signal_strength advertise gw_info current_time_s (i + 1) l)
      else Inr (False, l))"
  by pat_completeness auto
termination
  by (relation "measure (\<lambda>(_, _, _, _, _, i, l). dl_current_len l - i)") auto

declare update_loop.simps [simp del]

text \<open>
  Writing a new gateway into the slot \<open>i\<close>; the flag says whether the source returns here.
\<close>

definition fill_slot ::
  "MqttSnDiscoveredGatewayList \<Rightarrow> nat \<Rightarrow> u8 \<Rightarrow> u16 \<Rightarrow> u8 list option \<Rightarrow> u8 \<Rightarrow> u64
   \<Rightarrow> (bool \<times> MqttSnDiscoveredGatewayList) cres" where
  "fill_slot l i gw_id duration from signal_strength current_time_s =
     cbind (deref from) (\<lambda>addr.
     cbind (wr_arr (dl_gateways l) i
              \<lparr>dg_gw_id = gw_id, dg_duration = duration, dg_network_address = addr,
               dg_signal_strength = signal_strength, dg_state = MqttSnDiscoveredGatewayStateActive,
               dg_last_message_s = current_time_s\<rparr>) (\<lambda>gateways.
     if i + 1 \<ge> dl_current_len l
     then Inr (True, l\<lparr>dl_gateways := gateways, dl_current_len := (dl_current_len l + 1) mod 256\<rparr>)
     else Inr (False, l\<lparr>dl_gateways := gateways\<rparr>)))"

function insert_loop ::
  "u8 list option \<Rightarrow> u8 \<Rightarrow> MqttSnAdvertise option \<Rightarrow> MqttSnGwInfo option \<Rightarrow> u64
   \<Rightarrow> nat \<Rightarrow> nat \<Rightarrow> MqttSnDiscoveredGatewayList \<Rightarrow> MqttSnDiscoveredGatewayList cres" where
  "insert_loop from signal_strength advertise gw_info current_time_s max_len i l =
     (if i < max_len
      then
        cbind (rd_arr (dl_gateways l) i) (\<lambda>g.
        if dg_state g = MqttSnDiscoveredGatewayStateInactive
        then
          cbind (case advertise of
                   None \<Rightarrow> Inr (False, l)
                 | Some a \<Rightarrow> fill_slot l i (adv_gwId a) (adv_duration a) from signal_strength
                              current_time_s) (\<lambda>(done_a, l).
          if done_a then Inr l
          else
            cbind (case gw_info of
                     None \<Rightarrow> Inr (False, l)
                   | Some b \<Rightarrow> fill_slot l i (gwi_gwId b) 0 from signal_strength current_time_s)
              (\<lambda>(done_b, l).
            if done_b then Inr l
            else insert_loop from signal_strength advertise gw_info current_time_s max_len (i + 1) l))
        else insert_loop from signal_strength advertise gw_info current_time_s max_len (i + 1) l)
      else Inr l)"
  by pat_completeness auto
termination
  by (relation "measure (\<lambda>(_, _, _, _, _, n, i, _). n - i)") auto

declare insert_loop.simps [simp del]

definition MqttSnDiscoveredGatewayListUpdate ::
  "MqttSnDiscoveredGatewayList \<Rightarrow> u8 list option \<Rightarrow> u8 \<Rightarrow> MqttSnAdvertise option
   \<Rightarrow> MqttSnGwInfo option \<Rightarrow> u64 \<Rightarrow> MqttSnDiscoveredGatewayList cres" where
  "MqttSnDiscoveredGatewayListUpdate l from signal_strength advertise gw_info current_time_s =
     cbind (MqttSnDiscoveredGatewayListUpdateStates l current_time_s) (\<lambda>l.
     cbind (MqttSnDiscoveredGatewayListRemoveInactive l) (\<lambda>l.
     cbind (update_loop from signal_strength advertise gw_info current_time_s 0 l) (\<lambda>(updated, l).
     if updated then Inr l
     else if dl_current_len l = dl_max_len l then Inr l
     else insert_loop from signal_strength advertise gw_info current_time_s (dl_max_len l) 0 l)))"

text \<open>\<open>gw_id\<close> is an \<open>int32_t\<close>; a negative value stands for any gateway.\<close>

function exists_loop ::
  "u8 list option \<Rightarrow> int \<Rightarrow> nat \<Rightarrow> MqttSnDiscoveredGatewayList \<Rightarrow> bool cres" where
  "exists_loop address gw_id i l =
     (if i < dl_current_len l
      then
        cbind (rd_arr (dl_gateways l) i) (\<lambda>g.
        if address \<noteq> None \<and> gw_id > 0
        then if dg_network_address g = the address \<and> dg_gw_id g = of_int gw_id then Inr True
             else exists_loop address gw_id (i + 1) l
        else if address \<noteq> None \<and> gw_id < 0
        then if dg_network_address g = the address then Inr True
             else exists_loop address gw_id (i + 1) l
        else if gw_id > 0
        then if dg_gw_id g = of_int gw_id then Inr True
             else exists_loop address gw_id (i + 1) l
        else exists_loop address gw_id (i + 1) l)
      else Inr False)"
  by pat_completeness auto
termination
  by (relation "measure (\<lambda>(_, _, i, l). dl_current_len l - i)") auto

declare exists_loop.simps [simp del]

definition MqttSnDiscoveredGatewayListExists ::
  "MqttSnDiscoveredGatewayList \<Rightarrow> u8 list option \<Rightarrow> int \<Rightarrow> bool cres" where
  "MqttSnDiscoveredGatewayListExists l address gw_id =
     (if address = None \<and> gw_id < 0 then Inr False else exists_loop address gw_id 0 l)"

section \<open>The abstract list\<close>

definition entries :: "MqttSnDiscoveredGatewayList \<Rightarrow> MqttSnDiscoveredGateway list" where
  "entries l = take (dl_current_len l) (dl_gateways l)"

definition gw_list_of :: "MqttSnDiscoveredGateway list \<Rightarrow> MqttSnDiscoveredGatewayList" where
  "gw_list_of es =
     \<lparr>dl_gateways = es @ replicate (MQTT_SN_FIND_GATEWAY_CLIENT_DISCOVERED_GATEWAY_LIST_LENGTH - length es)
                          zero_gateway,
      dl_max_len = MQTT_SN_FIND_GATEWAY_CLIENT_DISCOVERED_GATEWAY_LIST_LENGTH,
      dl_current_len = length es\<rparr>"

text \<open>The used slots come first, and the others are cleared.\<close>

definition gw_list_inv :: "MqttSnDiscoveredGatewayList \<Rightarrow> bool" where
  "gw_list_inv l \<longleftrightarrow>
     length (entries l) \<le> MQTT_SN_FIND_GATEWAY_CLIENT_DISCOVERED_GATEWAY_LIST_LENGTH
     \<and> l = gw_list_of (entries l)"

lemma entries_gw_list_of [simp]: "entries (gw_list_of es) = es"
  by (simp add: entries_def gw_list_of_def)

lemma gw_list_inv_of [simp]:
  "gw_list_inv (gw_list_of es) \<longleftrightarrow>
     length es \<le> MQTT_SN_FIND_GATEWAY_CLIENT_DISCOVERED_GATEWAY_LIST_LENGTH"
  by (simp add: gw_list_inv_def)

lemma gw_list_init: "MqttSnDiscoveredGatewayListInit = gw_list_of []"
  by (simp add: MqttSnDiscoveredGatewayListInit_def gw_list_of_def)

lemma gw_list_cur [simp]: "dl_current_len (gw_list_of es) = length es"
  by (simp add: gw_list_of_def)

definition expire :: "u64 \<Rightarrow> MqttSnDiscoveredGateway \<Rightarrow> MqttSnDiscoveredGateway" where
  "expire t g = (if expired t g then g\<lparr>dg_state := MqttSnDiscoveredGatewayStateInactive\<rparr> else g)"

definition live :: "MqttSnDiscoveredGateway \<Rightarrow> bool" where
  "live g \<longleftrightarrow> \<not> (dg_state g = MqttSnDiscoveredGatewayStateInactive \<and> dg_last_message_s g > 0)"

lemma update_states_loop_map:
  "update_states_loop t (length pre + length es) (length pre) (pre @ es @ rest)
   = Inr (pre @ map (expire t) es @ rest)"
proof (induction es arbitrary: pre)
  case Nil
  then show ?case by (simp add: update_states_loop.simps)
next
  case (Cons g es)
  then show ?case
    using Cons.IH [of "pre @ [expire t g]"]
    by (subst update_states_loop.simps, cases "expired t g")
      (simp_all add: expire_def [of t g] list_update_append)
qed

lemma update_states_eq:
  "MqttSnDiscoveredGatewayListUpdateStates (gw_list_of es) t = Inr (gw_list_of (map (expire t) es))"
  using update_states_loop_map [of t "[]" es]
  by (simp add: MqttSnDiscoveredGatewayListUpdateStates_def gw_list_of_def)

lemma shift_loop_eq:
  "shift_loop (length pre + 1 + length es) (length pre) (pre @ x # es @ rest)
   = Inr (pre @ es @ last (x # es) # rest)"
proof (induction es arbitrary: pre x)
  case Nil
  then show ?case by (simp add: shift_loop.simps)
next
  case (Cons y es)
  then show ?case
    using Cons.IH [of "pre @ [y]" y]
    by (subst shift_loop.simps) (simp add: list_update_append nth_append)
qed

lemma clear_loop_eq:
  "c + n \<le> length gws \<Longrightarrow>
     clear_loop c n gws = Inr (take c gws @ replicate n zero_gateway @ drop (c + n) gws)"
proof (induction n arbitrary: gws)
  case 0
  then show ?case by simp
next
  case (Suc n)
  then have "take c (gws[c + n := zero_gateway]) @ replicate n zero_gateway @ drop (c + n) (gws[c + n := zero_gateway])
      = take c gws @ replicate (Suc n) zero_gateway @ drop (c + Suc n) gws"
    by (simp add: Cons_nth_drop_Suc [symmetric, of "c + n"] replicate_app_Cons_same)
  then show ?case
    using Suc by simp
qed

lemma remove_inactive_loop_eq:
  assumes "length pre + length es \<le> MQTT_SN_FIND_GATEWAY_CLIENT_DISCOVERED_GATEWAY_LIST_LENGTH"
  shows "remove_inactive_loop (length pre) (gw_list_of (pre @ es)) = Inr (gw_list_of (pre @ filter live es))"
  using assms
proof (induction es arbitrary: pre)
  case Nil
  then show ?case by (simp add: remove_inactive_loop.simps)
next
  case (Cons g es)
  let ?N = MQTT_SN_FIND_GATEWAY_CLIENT_DISCOVERED_GATEWAY_LIST_LENGTH
  let ?z = "\<lambda>n. replicate n zero_gateway"
  have g: "rd_arr (dl_gateways (gw_list_of (pre @ g # es))) (length pre) = Inr g"
    by (simp add: gw_list_of_def)
  show ?case
  proof (cases "live g")
    case True
    then have f: "filter live (g # es) = g # filter live es"
      by simp
    show ?thesis
      unfolding f using Cons.IH [of "pre @ [g]"] Cons.prems g True [unfolded live_def]
      by (subst remove_inactive_loop.simps, cases "dg_state g") simp_all
  next
    case False
    let ?n = "length pre + length es" and ?rest = "replicate (?N - (length pre + length es) - 1) zero_gateway"
    have len: "?n + (?N - ?n) = ?N" "length ?rest = ?N - ?n - 1" "0 < ?N"
      using Cons.prems by auto
    have 1: "wr_arr (dl_gateways (gw_list_of (pre @ g # es))) (length pre) zero_gateway
        = Inr (pre @ zero_gateway # es @ ?rest)"
      by (simp add: gw_list_of_def list_update_append)
    have 2: "shift_loop (Suc ?n) (length pre) (pre @ zero_gateway # es @ ?rest)
        = Inr (pre @ es @ last (zero_gateway # es) # ?rest)"
      using shift_loop_eq [of pre es zero_gateway ?rest] by simp
    have 3: "clear_loop ?n (?N - ?n) (pre @ es @ last (zero_gateway # es) # ?rest)
        = Inr (pre @ es @ ?z (?N - ?n))"
      using Cons.prems by (subst clear_loop_eq) (auto simp: len)
    have "remove_inactive_loop (length pre) (gw_list_of (pre @ g # es))
        = remove_inactive_loop (length pre) (gw_list_of (pre @ es))"
      using False [unfolded live_def] g 1 2 3 len(3)
      by (subst remove_inactive_loop.simps) (simp add: gw_list_of_def)
    then show ?thesis
      using Cons.IH [of pre] Cons.prems False by simp
  qed
qed

lemma remove_inactive_eq:
  "length es \<le> MQTT_SN_FIND_GATEWAY_CLIENT_DISCOVERED_GATEWAY_LIST_LENGTH \<Longrightarrow>
     MqttSnDiscoveredGatewayListRemoveInactive (gw_list_of es) = Inr (gw_list_of (filter live es))"
  using remove_inactive_loop_eq [of "[]" es]
  by (simp add: MqttSnDiscoveredGatewayListRemoveInactive_def)

section \<open>An update refines a list function\<close>

definition discover_match ::
  "MqttSnAdvertise option \<Rightarrow> MqttSnGwInfo option \<Rightarrow> MqttSnDiscoveredGateway \<Rightarrow> bool" where
  "discover_match advertise gw_info g \<longleftrightarrow>
     advertise \<noteq> None \<and> dg_gw_id g = adv_gwId (the advertise)
     \<or> gw_info \<noteq> None \<and> dg_gw_id g = gwi_gwId (the gw_info)"

definition refresh_entry ::
  "u8 list \<Rightarrow> u8 \<Rightarrow> MqttSnAdvertise option \<Rightarrow> u64 \<Rightarrow> MqttSnDiscoveredGateway \<Rightarrow> MqttSnDiscoveredGateway"
  where
  "refresh_entry from signal_strength advertise t g =
     (if advertise \<noteq> None \<and> dg_gw_id g = adv_gwId (the advertise)
      then g\<lparr>dg_network_address := from, dg_duration := adv_duration (the advertise),
             dg_signal_strength := signal_strength, dg_state := MqttSnDiscoveredGatewayStateActive,
             dg_last_message_s := t\<rparr>
      else g\<lparr>dg_network_address := from, dg_signal_strength := signal_strength,
             dg_state := MqttSnDiscoveredGatewayStateActive, dg_last_message_s := t\<rparr>)"

fun map_first :: "('a \<Rightarrow> bool) \<Rightarrow> ('a \<Rightarrow> 'a) \<Rightarrow> 'a list \<Rightarrow> 'a list" where
  "map_first p f [] = []"
| "map_first p f (x # xs) = (if p x then f x # xs else x # map_first p f xs)"

definition new_entry ::
  "u8 list \<Rightarrow> u8 \<Rightarrow> MqttSnAdvertise option \<Rightarrow> MqttSnGwInfo option \<Rightarrow> u64
   \<Rightarrow> MqttSnDiscoveredGateway list" where
  "new_entry from signal_strength advertise gw_info t =
     (case advertise of
        Some a \<Rightarrow> [\<lparr>dg_gw_id = adv_gwId a, dg_duration = adv_duration a, dg_network_address = from,
                   dg_signal_strength = signal_strength, dg_state = MqttSnDiscoveredGatewayStateActive,
                   dg_last_message_s = t\<rparr>]
      | None \<Rightarrow> (case gw_info of
          Some b \<Rightarrow> [\<lparr>dg_gw_id = gwi_gwId b, dg_duration = 0, dg_network_address = from,
                     dg_signal_strength = signal_strength, dg_state = MqttSnDiscoveredGatewayStateActive,
                     dg_last_message_s = t\<rparr>]
        | None \<Rightarrow> []))"

definition discover ::
  "u8 list \<Rightarrow> u8 \<Rightarrow> MqttSnAdvertise option \<Rightarrow> MqttSnGwInfo option \<Rightarrow> u64
   \<Rightarrow> MqttSnDiscoveredGateway list \<Rightarrow> MqttSnDiscoveredGateway list" where
  "discover from signal_strength advertise gw_info t es =
     (let es = filter live (map (expire t) es)
      in if \<exists>g \<in> set es. discover_match advertise gw_info g
         then map_first (discover_match advertise gw_info)
                (refresh_entry from signal_strength advertise t) es
         else if length es = MQTT_SN_FIND_GATEWAY_CLIENT_DISCOVERED_GATEWAY_LIST_LENGTH then es
         else es @ new_entry from signal_strength advertise gw_info t)"

lemma update_loop_eq:
  assumes "from = None \<longrightarrow> advertise = None \<and> gw_info = None"
  shows "update_loop from sig advertise gw_info t (length pre) (gw_list_of (pre @ es)) =
    Inr (\<exists>g \<in> set es. discover_match advertise gw_info g,
         gw_list_of (pre @ map_first (discover_match advertise gw_info)
           (refresh_entry (the from) sig advertise t) es))"
proof (induction es arbitrary: pre)
  case Nil
  then show ?case by (simp add: update_loop.simps)
next
  case (Cons g es)
  have g: "rd_arr (dl_gateways (gw_list_of (pre @ g # es))) (length pre) = Inr g"
    by (simp add: gw_list_of_def)
  have w: "wr_arr (dl_gateways (gw_list_of (pre @ g # es))) (length pre) x
      = Inr (dl_gateways (gw_list_of (pre @ x # es)))" for x
    by (simp add: gw_list_of_def list_update_append)
  have u: "gw_list_of (pre @ g # es)\<lparr>dl_gateways := dl_gateways (gw_list_of (pre @ x # es))\<rparr>
      = gw_list_of (pre @ x # es)" for x
    by (simp add: gw_list_of_def)
  show ?case
  proof (cases "discover_match advertise gw_info g")
    case True
    then show ?thesis
      using assms g w u
      by (subst update_loop.simps)
        (auto simp: discover_match_def refresh_entry_def deref_def split: option.splits)
  next
    case False
    then have "update_loop from sig advertise gw_info t (length pre) (gw_list_of (pre @ g # es))
      = update_loop from sig advertise gw_info t (length (pre @ [g])) (gw_list_of ((pre @ [g]) @ es))"
      using g by (subst update_loop.simps) (auto simp: discover_match_def)
    then show ?thesis
      using Cons.IH [of "pre @ [g]"] False by simp
  qed
qed

lemma insert_loop_none:
  "j \<le> k \<Longrightarrow> k \<le> length (dl_gateways l) \<Longrightarrow> insert_loop from sig None None t k (k - j) l = Inr l"
proof (induction j)
  case 0
  then show ?case by (simp add: insert_loop.simps)
next
  case (Suc j)
  then have "Suc (k - Suc j) = k - j" by simp
  then show ?case
    using Suc by (subst insert_loop.simps) (simp add: cbind_if)
qed

lemma insert_loop_skip:
  assumes "j \<le> length es" "length es \<le> k" "k \<le> length (dl_gateways (gw_list_of es))"
    "\<forall>g \<in> set es. dg_state g = MqttSnDiscoveredGatewayStateActive"
  shows "insert_loop from sig advertise gw_info t k (length es - j) (gw_list_of es)
    = insert_loop from sig advertise gw_info t k (length es) (gw_list_of es)"
  using assms(1)
proof (induction j)
  case 0
  then show ?case by simp
next
  case (Suc j)
  let ?i = "length es - Suc j"
  have i: "?i < length es" "?i < k" "Suc ?i = length es - j"
    using Suc.prems assms(2) by auto
  then have "dl_gateways (gw_list_of es) ! ?i = es ! ?i" "es ! ?i \<in> set es"
    by (simp_all add: gw_list_of_def nth_append)
  then have "insert_loop from sig advertise gw_info t k ?i (gw_list_of es)
    = insert_loop from sig advertise gw_info t k (Suc ?i) (gw_list_of es)"
    using i assms(3,4) by (subst insert_loop.simps) simp
  then show ?case
    using Suc i by simp
qed

lemma insert_loop_appends:
  assumes "from = None \<longrightarrow> advertise = None \<and> gw_info = None"
    "length es < MQTT_SN_FIND_GATEWAY_CLIENT_DISCOVERED_GATEWAY_LIST_LENGTH"
    "\<forall>g \<in> set es. dg_state g = MqttSnDiscoveredGatewayStateActive"
  shows "insert_loop from sig advertise gw_info t
      MQTT_SN_FIND_GATEWAY_CLIENT_DISCOVERED_GATEWAY_LIST_LENGTH 0 (gw_list_of es)
    = Inr (gw_list_of (es @ new_entry (the from) sig advertise gw_info t))"
proof (cases "advertise = None \<and> gw_info = None")
  case True
  then show ?thesis
    using insert_loop_none [of MQTT_SN_FIND_GATEWAY_CLIENT_DISCOVERED_GATEWAY_LIST_LENGTH
        MQTT_SN_FIND_GATEWAY_CLIENT_DISCOVERED_GATEWAY_LIST_LENGTH "gw_list_of es" "from" sig t] assms(2)
    by (simp add: new_entry_def gw_list_of_def)
next
  case False
  let ?N = MQTT_SN_FIND_GATEWAY_CLIENT_DISCOVERED_GATEWAY_LIST_LENGTH
  obtain addr where addr: "from = Some addr"
    using assms(1) False by (cases "from") auto
  obtain m where m: "?N - length es = Suc m"
    using assms(2) by (metis Suc_diff_Suc)
  have slot: "rd_arr (dl_gateways (gw_list_of es)) (length es) = Inr zero_gateway"
    using assms(2) by (simp add: gw_list_of_def nth_append)
  have wr: "wr_arr (dl_gateways (gw_list_of es)) (length es) x = Inr (dl_gateways (gw_list_of (es @ [x])))" for x
    using m by (simp add: gw_list_of_def list_update_append wr_arr_def Suc_diff_Suc [symmetric])
  have up: "gw_list_of es\<lparr>dl_gateways := dl_gateways (gw_list_of (es @ [x])),
        dl_current_len := Suc (length es) mod 256\<rparr> = gw_list_of (es @ [x])" for x
    using assms(2) by (simp add: gw_list_of_def MQTT_SN_FIND_GATEWAY_CLIENT_DISCOVERED_GATEWAY_LIST_LENGTH_def)
  have "insert_loop from sig advertise gw_info t ?N 0 (gw_list_of es)
      = insert_loop from sig advertise gw_info t ?N (length es) (gw_list_of es)"
    using insert_loop_skip [of "length es" es ?N] assms(2,3) by (simp add: gw_list_of_def)
  also have "\<dots> = Inr (gw_list_of (es @ new_entry addr sig advertise gw_info t))"
    using False assms(2) addr slot wr up
    by (subst insert_loop.simps)
      (auto simp: new_entry_def fill_slot_def deref_def zero_gateway_def split: option.splits)
  finally show ?thesis
    using addr by simp
qed

definition timed :: "MqttSnDiscoveredGateway list \<Rightarrow> bool" where
  "timed es \<longleftrightarrow> (\<forall>g \<in> set es. 0 < dg_last_message_s g)"

lemma swept_active:
  "timed es \<Longrightarrow> g \<in> set (filter live (map (expire t) es)) \<Longrightarrow>
     dg_state g = MqttSnDiscoveredGatewayStateActive"
  by (cases "dg_state g") (auto simp: timed_def live_def expire_def split: if_splits)

theorem update_refines_discover:
  assumes "from = None \<longrightarrow> advertise = None \<and> gw_info = None" "timed es"
    "length es \<le> MQTT_SN_FIND_GATEWAY_CLIENT_DISCOVERED_GATEWAY_LIST_LENGTH"
  shows "MqttSnDiscoveredGatewayListUpdate (gw_list_of es) from sig advertise gw_info t
    = Inr (gw_list_of (discover (the from) sig advertise gw_info t es))"
proof -
  define fs where "fs = filter live (map (expire t) es)"
  have len: "length fs \<le> MQTT_SN_FIND_GATEWAY_CLIENT_DISCOVERED_GATEWAY_LIST_LENGTH"
    unfolding fs_def by (rule order_trans [OF length_filter_le]) (simp add: assms(3))
  have rem: "MqttSnDiscoveredGatewayListRemoveInactive (gw_list_of (map (expire t) es)) = Inr (gw_list_of fs)"
    unfolding fs_def using assms(3) by (intro remove_inactive_eq) simp
  have active: "\<forall>g \<in> set fs. dg_state g = MqttSnDiscoveredGatewayStateActive"
    unfolding fs_def using swept_active [OF assms(2)] by blast
  have upd: "update_loop from sig advertise gw_info t 0 (gw_list_of fs) =
    Inr (\<exists>g \<in> set fs. discover_match advertise gw_info g,
         gw_list_of (map_first (discover_match advertise gw_info) (refresh_entry (the from) sig advertise t) fs))"
    using update_loop_eq [OF assms(1), of sig t "[]" fs] by simp
  have max: "dl_max_len (gw_list_of fs) = MQTT_SN_FIND_GATEWAY_CLIENT_DISCOVERED_GATEWAY_LIST_LENGTH"
    by (simp add: gw_list_of_def)
  have sweep: "MqttSnDiscoveredGatewayListUpdate (gw_list_of es) from sig advertise gw_info t =
      (if \<exists>g \<in> set fs. discover_match advertise gw_info g
       then Inr (gw_list_of (map_first (discover_match advertise gw_info) (refresh_entry (the from) sig advertise t) fs))
       else let gs = map_first (discover_match advertise gw_info) (refresh_entry (the from) sig advertise t) fs in
         if dl_current_len (gw_list_of gs) = dl_max_len (gw_list_of gs) then Inr (gw_list_of gs)
         else insert_loop from sig advertise gw_info t (dl_max_len (gw_list_of gs)) 0 (gw_list_of gs))"
    by (simp add: MqttSnDiscoveredGatewayListUpdate_def update_states_eq rem upd Let_def)
  show ?thesis
  proof (cases "\<exists>g \<in> set fs. discover_match advertise gw_info g")
    case True
    then show ?thesis
      unfolding sweep discover_def Let_def fs_def [symmetric] by simp
  next
    case False
    then have "map_first (discover_match advertise gw_info) f fs = fs" for f
      by (induction fs) auto
    then show ?thesis
      unfolding sweep discover_def Let_def fs_def [symmetric]
      using False insert_loop_appends [OF assms(1) _ active] len max by simp
  qed
qed

section \<open>What an update guarantees\<close>

lemma sweep_ids: "set (map dg_gw_id (filter live (map (expire t) es))) \<subseteq> set (map dg_gw_id es)"
  by (auto simp: expire_def)

lemma sweep_distinct:
  "distinct (map dg_gw_id es) \<Longrightarrow> distinct (map dg_gw_id (filter live (map (expire t) es)))"
proof (induction es)
  case (Cons g es)
  then show ?case
    using sweep_ids [of t es] by (auto simp: expire_def)
qed simp

lemma map_first_ids:
  "map dg_gw_id (map_first p (refresh_entry from sig advertise t) es) = map dg_gw_id es"
  by (induction es) (auto simp: refresh_entry_def)

lemma length_map_first [simp]: "length (map_first p f es) = length es"
  by (induction es) auto

lemma set_map_first: "g \<in> set (map_first p f es) \<Longrightarrow> g \<in> set es \<or> (\<exists>x \<in> set es. p x \<and> g = f x)"
  by (induction es) (auto split: if_splits)

lemma map_first_hits: "x \<in> set es \<Longrightarrow> p x \<Longrightarrow> \<exists>y \<in> set es. p y \<and> f y \<in> set (map_first p f es)"
  by (induction es) auto

lemma length_discover:
  "length es \<le> MQTT_SN_FIND_GATEWAY_CLIENT_DISCOVERED_GATEWAY_LIST_LENGTH \<Longrightarrow>
     length (discover from sig advertise gw_info t es)
     \<le> MQTT_SN_FIND_GATEWAY_CLIENT_DISCOVERED_GATEWAY_LIST_LENGTH"
  using order_trans [OF length_filter_le [of live "map (expire t) es"],
      of MQTT_SN_FIND_GATEWAY_CLIENT_DISCOVERED_GATEWAY_LIST_LENGTH]
  by (auto simp: discover_def Let_def new_entry_def split: option.splits simp del: filter_map)

text \<open>Where the entries of an updated list come from.\<close>

lemma discover_entry:
  assumes "g \<in> set (discover from sig advertise gw_info t es)"
  shows "g \<in> set (filter live (map (expire t) es))
    \<or> dg_last_message_s g = t \<and> dg_state g = MqttSnDiscoveredGatewayStateActive \<and> dg_network_address g = from"
  using assms
  by (auto simp: discover_def Let_def new_entry_def refresh_entry_def split: if_splits option.splits
      simp del: filter_map dest!: set_map_first)

lemma timed_discover: "timed es \<Longrightarrow> 0 < t \<Longrightarrow> timed (discover from sig advertise gw_info t es)"
  unfolding timed_def
  by (auto dest!: discover_entry) (auto simp: expire_def)

lemma discover_fresh:
  assumes "timed es" "g \<in> set (discover from sig advertise gw_info t es)"
  shows "dg_state g = MqttSnDiscoveredGatewayStateActive \<and> \<not> expired t g"
  using discover_entry [OF assms(2)]
proof
  assume g: "g \<in> set (filter live (map (expire t) es))"
  then obtain h where h: "h \<in> set es" "g = expire t h" "live g"
    by auto
  then have "\<not> expired t h"
    using assms(1) by (auto simp: timed_def live_def expire_def)
  then show ?thesis
    using swept_active [OF assms(1) g] h(2) by (simp add: expire_def)
qed (simp add: expired_def)

lemma discover_distinct:
  assumes "distinct (map dg_gw_id es)"
  shows "distinct (map dg_gw_id (discover from sig advertise gw_info t es))"
proof -
  define fs where "fs = filter live (map (expire t) es)"
  have "distinct (map dg_gw_id fs)"
    unfolding fs_def by (rule sweep_distinct [OF assms])
  then show ?thesis
    unfolding discover_def Let_def fs_def [symmetric]
    by (auto simp: map_first_ids new_entry_def discover_match_def split: option.splits)
qed

lemma discover_records:
  assumes "advertise = Some a \<or> advertise = None \<and> gw_info = Some b"
    and "length es < MQTT_SN_FIND_GATEWAY_CLIENT_DISCOVERED_GATEWAY_LIST_LENGTH"
  shows "\<exists>g \<in> set (discover from sig advertise gw_info t es).
    discover_match advertise gw_info g \<and> dg_network_address g = from \<and> dg_last_message_s g = t"
proof -
  define fs where "fs = filter live (map (expire t) es)"
  have len: "length fs < MQTT_SN_FIND_GATEWAY_CLIENT_DISCOVERED_GATEWAY_LIST_LENGTH"
    unfolding fs_def by (rule order.strict_trans1 [OF length_filter_le]) (simp add: assms(2))
  show ?thesis
  proof (cases "\<exists>g \<in> set fs. discover_match advertise gw_info g")
    case True
    then obtain y where y: "discover_match advertise gw_info y"
      "refresh_entry from sig advertise t y
       \<in> set (map_first (discover_match advertise gw_info) (refresh_entry from sig advertise t) fs)"
      using map_first_hits [of _ fs "discover_match advertise gw_info"] by blast
    have "discover_match advertise gw_info (refresh_entry from sig advertise t y)"
      "dg_network_address (refresh_entry from sig advertise t y) = from"
      "dg_last_message_s (refresh_entry from sig advertise t y) = t"
      using y(1) by (auto simp: discover_match_def refresh_entry_def)
    then show ?thesis
      unfolding discover_def Let_def fs_def [symmetric] using True y(2) by auto
  next
    case False
    then show ?thesis
      unfolding discover_def Let_def fs_def [symmetric]
      using len assms(1) by (auto simp: new_entry_def discover_match_def)
  qed
qed

lemma exists_loop_eq:
  "exists_loop address gw_id (length pre) (gw_list_of (pre @ es)) =
     Inr (\<exists>g \<in> set es.
       (address \<noteq> None \<and> gw_id > 0 \<and> dg_network_address g = the address \<and> dg_gw_id g = of_int gw_id)
       \<or> (address \<noteq> None \<and> gw_id < 0 \<and> dg_network_address g = the address)
       \<or> (address = None \<and> gw_id > 0 \<and> dg_gw_id g = of_int gw_id))"
proof (induction es arbitrary: pre)
  case Nil
  then show ?case by (simp add: exists_loop.simps)
next
  case (Cons g es)
  have g: "rd_arr (dl_gateways (gw_list_of (pre @ g # es))) (length pre) = Inr g"
    by (simp add: gw_list_of_def)
  show ?case
    using Cons.IH [of "pre @ [g]"] g by (subst exists_loop.simps) auto
qed

lemma exists_any_eq:
  "MqttSnDiscoveredGatewayListExists (gw_list_of es) (Some address) (-1)
   = Inr (address \<in> set (map dg_network_address es))"
  using exists_loop_eq [of "Some address" "-1" "[]" es]
  by (auto simp: MqttSnDiscoveredGatewayListExists_def)

lemma exists_zero_eq:
  "MqttSnDiscoveredGatewayListExists (gw_list_of es) address 0 = Inr False"
  using exists_loop_eq [of address 0 "[]" es]
  by (simp add: MqttSnDiscoveredGatewayListExists_def)

end
