(* ===== verification/Forwarder_State.thy ===== *)
theory Forwarder_State
  imports Net_Interface Discovered_Gw
begin

text \<open>
  The state of the forwarder (\<open>src/forwarder/MqttSnForwarder.h\<close>), the platform services it uses, and its
  access lists (the second half of \<open>src/forwarder/MqttSnForwarder.c\<close>): white and black lists of gateway
  ids, of gateway addresses and of client addresses. The locale \<open>access_list\<close> states what such a list
  promises and is interpreted on the lists of the forwarder.
\<close>

section \<open>The platform\<close>

text \<open>
  What the forwarder takes from the platform: the clock in milliseconds, and the results of the two
  logging calls it checks. All of them act on the world behind the drivers.
\<close>

record 'w platform =
  pf_clock_ms :: "'w \<Rightarrow> (int \<times> u64) \<times> 'w"
  pf_log_gateway_message :: "MqttSnMessageData \<Rightarrow> 'w \<Rightarrow> int \<times> 'w"
  pf_log_status :: "'w \<Rightarrow> int \<times> 'w"

definition get_timestamp_s :: "'w platform \<Rightarrow> 'w \<Rightarrow> (int \<times> u64) \<times> 'w" where
  "get_timestamp_s pf w =
     (let ((rc, ms), w) = pf_clock_ms pf w
      in if rc < 0 then ((-1, ms), w) else ((0, ms div 1000), w))"

definition get_timestamp_ms :: "'w platform \<Rightarrow> 'w \<Rightarrow> (int \<times> u64 \<times> u64) \<times> 'w" where
  "get_timestamp_ms pf w =
     (let ((rc, ms), w) = pf_clock_ms pf w
      in if rc < 0 then ((-1, 0, ms), w)
         else ((0, ms div 1000, ms - ms div 1000 * 1000), w))"

section \<open>The state\<close>

record 'w MqttSnForwarder =
  f_discovered_gw_list :: MqttSnDiscoveredGatewayList
  f_disconnected :: bool
  f_mqtt_sn_gateway_address :: "u8 list"
  f_pin_connection :: bool
  f_clientNetwork :: "'w MqttSnClientNetworkInterface"
  f_gatewayNetwork :: "'w MqttSnGatewayNetworkInterface"
  f_clientNetworkReceiveBuffer :: MqttSnFixedSizeRingBuffer
  f_clientNetworkSendBuffer :: MqttSnFixedSizeRingBuffer
  f_gatewayNetworkReceiveBuffer :: MqttSnFixedSizeRingBuffer
  f_gatewayNetworkSendBuffer :: MqttSnFixedSizeRingBuffer
  f_clientNetworkSendTimeout :: int
  f_clientNetworkReceiveTimeout :: int
  f_gatewayNetworkSendTimeout :: int
  f_gatewayNetworkReceiveTimeout :: int
  f_gn_gw_id_whitelist :: "u8 list"
  f_gn_gw_id_whitelist_len :: nat
  f_gn_addr_whitelist :: "u8 list list"
  f_gn_addr_whitelist_len :: nat
  f_gn_gw_id_blacklist :: "u8 list"
  f_gn_gw_id_blacklist_len :: nat
  f_gn_addr_blacklist :: "u8 list list"
  f_gn_addr_blacklist_len :: nat
  f_cn_addr_whitelist :: "u8 list list"
  f_cn_addr_whitelist_len :: nat
  f_cn_addr_blacklist :: "u8 list list"
  f_cn_addr_blacklist_len :: nat

section \<open>The loops of the access lists\<close>

definition ACCESS_LIST_LENGTH :: nat where
  "ACCESS_LIST_LENGTH = 5"

text \<open>The search both \<open>Add\<close> and \<open>Contains\<close> make.\<close>

function search_loop :: "'a list \<Rightarrow> nat \<Rightarrow> 'a \<Rightarrow> nat \<Rightarrow> bool cres" where
  "search_loop items len x i =
     (if i < len
      then cbind (rd_arr items i) (\<lambda>y. if y = x then Inr True else search_loop items len x (i + 1))
      else Inr False)"
  by pat_completeness auto
termination
  by (relation "measure (\<lambda>(_, n, _, i). n - i)") auto

declare search_loop.simps [simp del]

text \<open>\<open>full_rc\<close> is what the source returns when the list takes no more entries.\<close>

definition add_entry :: "int \<Rightarrow> 'a list \<Rightarrow> nat \<Rightarrow> 'a \<Rightarrow> (int \<times> 'a list \<times> nat) cres" where
  "add_entry full_rc items len x =
     (if len + 1 \<ge> ACCESS_LIST_LENGTH then Inr (full_rc, items, len)
      else
        cbind (search_loop items len x 0) (\<lambda>found.
        if found then Inr (0, items, len)
        else
          cbind (wr_arr items len x) (\<lambda>items.
          Inr (0, items, (len + 1) mod 65536))))"

function zero_loop :: "'a \<Rightarrow> 'a list \<Rightarrow> nat \<Rightarrow> nat \<Rightarrow> 'a list cres" where
  "zero_loop z items len i =
     (if i < len then cbind (wr_arr items i z) (\<lambda>items. zero_loop z items len (i + 1)) else Inr items)"
  by pat_completeness auto
termination
  by (relation "measure (\<lambda>(_, _, n, i). n - i)") auto

declare zero_loop.simps [simp del]

definition zero_address :: "u8 list" where
  "zero_address = replicate device_address_size 0"

section \<open>The lists of the gateway network\<close>

definition MqttSnForwarderAddGatewayNetworkWhitelistGwId ::
  "'w MqttSnForwarder \<Rightarrow> u8 \<Rightarrow> (int \<times> 'w MqttSnForwarder) cres" where
  "MqttSnForwarderAddGatewayNetworkWhitelistGwId f gw_id =
     cbind (add_entry (-1) (f_gn_gw_id_whitelist f) (f_gn_gw_id_whitelist_len f) gw_id)
       (\<lambda>(rc, items, len).
     Inr (rc, f\<lparr>f_gn_gw_id_whitelist := items, f_gn_gw_id_whitelist_len := len\<rparr>))"

definition MqttSnForwarderClearGatewayNetworkWhitelistGwId ::
  "'w MqttSnForwarder \<Rightarrow> 'w MqttSnForwarder cres" where
  "MqttSnForwarderClearGatewayNetworkWhitelistGwId f =
     cbind (zero_loop 0 (f_gn_gw_id_whitelist f) (f_gn_gw_id_whitelist_len f) 0) (\<lambda>items.
     Inr (f\<lparr>f_gn_gw_id_whitelist := items, f_gn_gw_id_whitelist_len := 0\<rparr>))"

definition MqttSnForwarderContainsGatewayNetworkWhitelistGwId ::
  "'w MqttSnForwarder \<Rightarrow> u8 \<Rightarrow> int cres" where
  "MqttSnForwarderContainsGatewayNetworkWhitelistGwId f gw_id =
     cbind (search_loop (f_gn_gw_id_whitelist f) (f_gn_gw_id_whitelist_len f) gw_id 0) (\<lambda>found.
     Inr (if found then 1 else 0))"

definition MqttSnForwarderAddGatewayNetworkWhitelistAddr ::
  "'w MqttSnForwarder \<Rightarrow> u8 list \<Rightarrow> (int \<times> 'w MqttSnForwarder) cres" where
  "MqttSnForwarderAddGatewayNetworkWhitelistAddr f address =
     cbind (add_entry (-1) (f_gn_addr_whitelist f) (f_gn_addr_whitelist_len f) address)
       (\<lambda>(rc, items, len).
     Inr (rc, f\<lparr>f_gn_addr_whitelist := items, f_gn_addr_whitelist_len := len\<rparr>))"

definition MqttSnForwarderClearGatewayNetworkWhitelistAddr ::
  "'w MqttSnForwarder \<Rightarrow> 'w MqttSnForwarder cres" where
  "MqttSnForwarderClearGatewayNetworkWhitelistAddr f =
     cbind (zero_loop zero_address (f_gn_addr_whitelist f) (f_gn_addr_whitelist_len f) 0) (\<lambda>items.
     Inr (f\<lparr>f_gn_addr_whitelist := items, f_gn_addr_whitelist_len := 0\<rparr>))"

definition MqttSnForwarderContainsGatewayNetworkWhitelistAddr ::
  "'w MqttSnForwarder \<Rightarrow> u8 list \<Rightarrow> int cres" where
  "MqttSnForwarderContainsGatewayNetworkWhitelistAddr f address =
     cbind (search_loop (f_gn_addr_whitelist f) (f_gn_addr_whitelist_len f) address 0) (\<lambda>found.
     Inr (if found then 1 else 0))"

definition MqttSnForwarderAddGatewayNetworkBlacklistGwId ::
  "'w MqttSnForwarder \<Rightarrow> u8 \<Rightarrow> (int \<times> 'w MqttSnForwarder) cres" where
  "MqttSnForwarderAddGatewayNetworkBlacklistGwId f gw_id =
     cbind (add_entry (-1) (f_gn_gw_id_blacklist f) (f_gn_gw_id_blacklist_len f) gw_id)
       (\<lambda>(rc, items, len).
     Inr (rc, f\<lparr>f_gn_gw_id_blacklist := items, f_gn_gw_id_blacklist_len := len\<rparr>))"

definition MqttSnForwarderClearGatewayNetworkBlacklistGwId ::
  "'w MqttSnForwarder \<Rightarrow> 'w MqttSnForwarder cres" where
  "MqttSnForwarderClearGatewayNetworkBlacklistGwId f =
     cbind (zero_loop 0 (f_gn_gw_id_blacklist f) (f_gn_gw_id_blacklist_len f) 0) (\<lambda>items.
     Inr (f\<lparr>f_gn_gw_id_blacklist := items, f_gn_gw_id_blacklist_len := 0\<rparr>))"

text \<open>This one returns 0 for an id it has found, too.\<close>

definition MqttSnForwarderContainsGatewayNetworkBlacklistGwId ::
  "'w MqttSnForwarder \<Rightarrow> u8 \<Rightarrow> int cres" where
  "MqttSnForwarderContainsGatewayNetworkBlacklistGwId f gw_id =
     cbind (search_loop (f_gn_gw_id_blacklist f) (f_gn_gw_id_blacklist_len f) gw_id 0) (\<lambda>found.
     Inr (if found then 0 else 0))"

definition MqttSnForwarderAddGatewayNetworkBlacklistAddr ::
  "'w MqttSnForwarder \<Rightarrow> u8 list \<Rightarrow> (int \<times> 'w MqttSnForwarder) cres" where
  "MqttSnForwarderAddGatewayNetworkBlacklistAddr f address =
     cbind (add_entry 0 (f_gn_addr_blacklist f) (f_gn_addr_blacklist_len f) address)
       (\<lambda>(rc, items, len).
     Inr (rc, f\<lparr>f_gn_addr_blacklist := items, f_gn_addr_blacklist_len := len\<rparr>))"

definition MqttSnForwarderClearGatewayNetworkBlacklistAddr ::
  "'w MqttSnForwarder \<Rightarrow> 'w MqttSnForwarder cres" where
  "MqttSnForwarderClearGatewayNetworkBlacklistAddr f =
     cbind (zero_loop zero_address (f_gn_addr_blacklist f) (f_gn_addr_blacklist_len f) 0) (\<lambda>items.
     Inr (f\<lparr>f_gn_addr_blacklist := items, f_gn_addr_blacklist_len := 0\<rparr>))"

definition MqttSnForwarderContainsGatewayNetworkBlacklistAddr ::
  "'w MqttSnForwarder \<Rightarrow> u8 list \<Rightarrow> int cres" where
  "MqttSnForwarderContainsGatewayNetworkBlacklistAddr f address =
     cbind (search_loop (f_gn_addr_blacklist f) (f_gn_addr_blacklist_len f) address 0) (\<lambda>found.
     Inr (if found then 1 else 0))"

section \<open>The lists of the client network\<close>

definition MqttSnForwarderAddClientNetworkWhitelistAddr ::
  "'w MqttSnForwarder \<Rightarrow> u8 list \<Rightarrow> (int \<times> 'w MqttSnForwarder) cres" where
  "MqttSnForwarderAddClientNetworkWhitelistAddr f address =
     cbind (add_entry 0 (f_cn_addr_whitelist f) (f_cn_addr_whitelist_len f) address)
       (\<lambda>(rc, items, len).
     Inr (rc, f\<lparr>f_cn_addr_whitelist := items, f_cn_addr_whitelist_len := len\<rparr>))"

definition MqttSnForwarderClearClientNetworkWhitelistAddr ::
  "'w MqttSnForwarder \<Rightarrow> 'w MqttSnForwarder cres" where
  "MqttSnForwarderClearClientNetworkWhitelistAddr f =
     cbind (zero_loop zero_address (f_cn_addr_whitelist f) (f_cn_addr_whitelist_len f) 0) (\<lambda>items.
     Inr (f\<lparr>f_cn_addr_whitelist := items, f_cn_addr_whitelist_len := 0\<rparr>))"

definition MqttSnForwarderContainsClientNetworkWhitelistAddr ::
  "'w MqttSnForwarder \<Rightarrow> u8 list \<Rightarrow> int cres" where
  "MqttSnForwarderContainsClientNetworkWhitelistAddr f address =
     cbind (search_loop (f_cn_addr_whitelist f) (f_cn_addr_whitelist_len f) address 0) (\<lambda>found.
     Inr (if found then 1 else 0))"

definition MqttSnForwarderAddClientNetworkBlacklistAddr ::
  "'w MqttSnForwarder \<Rightarrow> u8 list \<Rightarrow> (int \<times> 'w MqttSnForwarder) cres" where
  "MqttSnForwarderAddClientNetworkBlacklistAddr f address =
     cbind (add_entry 0 (f_cn_addr_blacklist f) (f_cn_addr_blacklist_len f) address)
       (\<lambda>(rc, items, len).
     Inr (rc, f\<lparr>f_cn_addr_blacklist := items, f_cn_addr_blacklist_len := len\<rparr>))"

definition MqttSnForwarderClearClientNetworkBlacklistAddr ::
  "'w MqttSnForwarder \<Rightarrow> 'w MqttSnForwarder cres" where
  "MqttSnForwarderClearClientNetworkBlacklistAddr f =
     cbind (zero_loop zero_address (f_cn_addr_blacklist f) (f_cn_addr_blacklist_len f) 0) (\<lambda>items.
     Inr (f\<lparr>f_cn_addr_blacklist := items, f_cn_addr_blacklist_len := 0\<rparr>))"

definition MqttSnForwarderContainsClientNetworkBlacklistAddr ::
  "'w MqttSnForwarder \<Rightarrow> u8 list \<Rightarrow> int cres" where
  "MqttSnForwarderContainsClientNetworkBlacklistAddr f address =
     cbind (search_loop (f_cn_addr_blacklist f) (f_cn_addr_blacklist_len f) address 0) (\<lambda>found.
     Inr (if found then 1 else 0))"

section \<open>What a list promises\<close>

definition list_inv :: "'a list \<Rightarrow> nat \<Rightarrow> bool" where
  "list_inv items len \<longleftrightarrow> length items = ACCESS_LIST_LENGTH \<and> len < ACCESS_LIST_LENGTH
     \<and> distinct (take len items)"

lemma search_loop_eq:
  "len \<le> length items \<Longrightarrow> i \<le> len \<Longrightarrow> search_loop items len x i = Inr (x \<in> set (drop i (take len items)))"
proof (induction items len x i rule: search_loop.induct)
  case (1 items len x i)
  show ?case
  proof (cases "i < len")
    case True
    then have "drop i (take len items) = items ! i # drop (Suc i) (take len items)"
      using 1(2) by (simp add: Cons_nth_drop_Suc [symmetric])
    then show ?thesis
      using 1 True by (subst search_loop.simps) auto
  qed (use 1 in \<open>simp add: search_loop.simps\<close>)
qed

lemma search_eq [simp]:
  "list_inv items len \<Longrightarrow> search_loop items len x 0 = Inr (x \<in> set (take len items))"
  by (simp add: search_loop_eq list_inv_def)

lemma zero_loop_length: "len \<le> length items \<Longrightarrow> \<exists>items'. zero_loop z items len i = Inr items' \<and> length items' = length items"
  by (induction z items len i rule: zero_loop.induct) (subst zero_loop.simps, auto)

lemma add_entry_full: "len + 1 \<ge> ACCESS_LIST_LENGTH \<Longrightarrow> add_entry full_rc items len x = Inr (full_rc, items, len)"
  by (simp add: add_entry_def)

lemma add_entry_room:
  assumes "list_inv items len" "len + 1 < ACCESS_LIST_LENGTH"
  shows "\<exists>items' len'. add_entry full_rc items len x = Inr (0, items', len') \<and> list_inv items' len'
    \<and> take len' items' = (if x \<in> set (take len items) then take len items else take len items @ [x])"
  using assms
  by (auto simp: add_entry_def list_inv_def take_Suc_conv_app_nth search_loop_eq ACCESS_LIST_LENGTH_def)

locale access_list =
  fixes inv :: "'f \<Rightarrow> bool" and members :: "'f \<Rightarrow> 'a list"
    and add :: "'f \<Rightarrow> 'a \<Rightarrow> (int \<times> 'f) cres" and clear :: "'f \<Rightarrow> 'f cres" and full_rc :: int
  assumes bound: "inv f \<Longrightarrow> length (members f) < ACCESS_LIST_LENGTH"
    and set_like: "inv f \<Longrightarrow> distinct (members f)"
    and add_full: "inv f \<Longrightarrow> length (members f) + 1 \<ge> ACCESS_LIST_LENGTH \<Longrightarrow> add f x = Inr (full_rc, f)"
    and add_room: "inv f \<Longrightarrow> length (members f) + 1 < ACCESS_LIST_LENGTH \<Longrightarrow>
      \<exists>f'. add f x = Inr (0, f') \<and> inv f'
        \<and> members f' = (if x \<in> set (members f) then members f else members f @ [x])"
    and clear_empty: "inv f \<Longrightarrow> \<exists>f'. clear f = Inr f' \<and> inv f' \<and> members f' = []"
begin

lemma add_keeps: "inv f \<Longrightarrow> \<exists>rc f'. add f x = Inr (rc, f') \<and> inv f' \<and> set (members f) \<subseteq> set (members f')"
  using add_full [of f x] add_room [of f x] by (cases "length (members f) + 1 < ACCESS_LIST_LENGTH") auto

fun add_all :: "'f \<Rightarrow> 'a list \<Rightarrow> 'f cres" where
  "add_all f [] = Inr f"
| "add_all f (x # xs) = cbind (add f x) (\<lambda>(_, f'). add_all f' xs)"

lemma add_all_keeps:
  "inv f \<Longrightarrow> \<exists>f'. add_all f xs = Inr f' \<and> inv f' \<and> set (members f) \<subseteq> set (members f')"
proof (induction xs arbitrary: f)
  case (Cons x xs)
  obtain rc f1 where f1: "add f x = Inr (rc, f1)" "inv f1" "set (members f) \<subseteq> set (members f1)"
    using add_keeps [OF Cons.prems, of x] by blast
  then show ?case
    using Cons.IH [of f1] by auto
qed simp

text \<open>A list of five takes four entries: the fifth and all later ones are dropped.\<close>

lemma add_all_at_most_four:
  assumes "inv f"
  shows "\<exists>f'. add_all f xs = Inr f' \<and> length (members f') \<le> 4"
  using add_all_keeps [OF assms, of xs] bound unfolding ACCESS_LIST_LENGTH_def by fastforce

end

section \<open>The lists of the forwarder keep the promise\<close>

interpretation gn_gw_id_whitelist: access_list "\<lambda>f. list_inv (f_gn_gw_id_whitelist f) (f_gn_gw_id_whitelist_len f)"
  "\<lambda>f. take (f_gn_gw_id_whitelist_len f) (f_gn_gw_id_whitelist f)" MqttSnForwarderAddGatewayNetworkWhitelistGwId MqttSnForwarderClearGatewayNetworkWhitelistGwId "-1"
proof
  fix f :: "'a MqttSnForwarder" and x
  assume inv: "list_inv (f_gn_gw_id_whitelist f) (f_gn_gw_id_whitelist_len f)"
  show "length (take (f_gn_gw_id_whitelist_len f) (f_gn_gw_id_whitelist f)) < ACCESS_LIST_LENGTH"
    "distinct (take (f_gn_gw_id_whitelist_len f) (f_gn_gw_id_whitelist f))"
    using inv by (simp_all add: list_inv_def)
  show "length (take (f_gn_gw_id_whitelist_len f) (f_gn_gw_id_whitelist f)) + 1 \<ge> ACCESS_LIST_LENGTH \<Longrightarrow> MqttSnForwarderAddGatewayNetworkWhitelistGwId f x = Inr (-1, f)"
    using inv by (simp add: MqttSnForwarderAddGatewayNetworkWhitelistGwId_def add_entry_full list_inv_def)
  show "length (take (f_gn_gw_id_whitelist_len f) (f_gn_gw_id_whitelist f)) + 1 < ACCESS_LIST_LENGTH \<Longrightarrow>
      \<exists>f'. MqttSnForwarderAddGatewayNetworkWhitelistGwId f x = Inr (0, f') \<and> list_inv (f_gn_gw_id_whitelist f') (f_gn_gw_id_whitelist_len f')
        \<and> take (f_gn_gw_id_whitelist_len f') (f_gn_gw_id_whitelist f')
          = (if x \<in> set (take (f_gn_gw_id_whitelist_len f) (f_gn_gw_id_whitelist f)) then take (f_gn_gw_id_whitelist_len f) (f_gn_gw_id_whitelist f)
             else take (f_gn_gw_id_whitelist_len f) (f_gn_gw_id_whitelist f) @ [x])"
    using inv add_entry_room [OF inv, of "-1" x] by (auto simp: MqttSnForwarderAddGatewayNetworkWhitelistGwId_def list_inv_def)
  show "\<exists>f'. MqttSnForwarderClearGatewayNetworkWhitelistGwId f = Inr f' \<and> list_inv (f_gn_gw_id_whitelist f') (f_gn_gw_id_whitelist_len f') \<and> take (f_gn_gw_id_whitelist_len f') (f_gn_gw_id_whitelist f') = []"
    using inv zero_loop_length [of "f_gn_gw_id_whitelist_len f" "f_gn_gw_id_whitelist f" "0" 0]
    by (auto simp: MqttSnForwarderClearGatewayNetworkWhitelistGwId_def list_inv_def ACCESS_LIST_LENGTH_def)
qed

interpretation gn_addr_whitelist: access_list "\<lambda>f. list_inv (f_gn_addr_whitelist f) (f_gn_addr_whitelist_len f)"
  "\<lambda>f. take (f_gn_addr_whitelist_len f) (f_gn_addr_whitelist f)" MqttSnForwarderAddGatewayNetworkWhitelistAddr MqttSnForwarderClearGatewayNetworkWhitelistAddr "-1"
proof
  fix f :: "'a MqttSnForwarder" and x
  assume inv: "list_inv (f_gn_addr_whitelist f) (f_gn_addr_whitelist_len f)"
  show "length (take (f_gn_addr_whitelist_len f) (f_gn_addr_whitelist f)) < ACCESS_LIST_LENGTH"
    "distinct (take (f_gn_addr_whitelist_len f) (f_gn_addr_whitelist f))"
    using inv by (simp_all add: list_inv_def)
  show "length (take (f_gn_addr_whitelist_len f) (f_gn_addr_whitelist f)) + 1 \<ge> ACCESS_LIST_LENGTH \<Longrightarrow> MqttSnForwarderAddGatewayNetworkWhitelistAddr f x = Inr (-1, f)"
    using inv by (simp add: MqttSnForwarderAddGatewayNetworkWhitelistAddr_def add_entry_full list_inv_def)
  show "length (take (f_gn_addr_whitelist_len f) (f_gn_addr_whitelist f)) + 1 < ACCESS_LIST_LENGTH \<Longrightarrow>
      \<exists>f'. MqttSnForwarderAddGatewayNetworkWhitelistAddr f x = Inr (0, f') \<and> list_inv (f_gn_addr_whitelist f') (f_gn_addr_whitelist_len f')
        \<and> take (f_gn_addr_whitelist_len f') (f_gn_addr_whitelist f')
          = (if x \<in> set (take (f_gn_addr_whitelist_len f) (f_gn_addr_whitelist f)) then take (f_gn_addr_whitelist_len f) (f_gn_addr_whitelist f)
             else take (f_gn_addr_whitelist_len f) (f_gn_addr_whitelist f) @ [x])"
    using inv add_entry_room [OF inv, of "-1" x] by (auto simp: MqttSnForwarderAddGatewayNetworkWhitelistAddr_def list_inv_def)
  show "\<exists>f'. MqttSnForwarderClearGatewayNetworkWhitelistAddr f = Inr f' \<and> list_inv (f_gn_addr_whitelist f') (f_gn_addr_whitelist_len f') \<and> take (f_gn_addr_whitelist_len f') (f_gn_addr_whitelist f') = []"
    using inv zero_loop_length [of "f_gn_addr_whitelist_len f" "f_gn_addr_whitelist f" "zero_address" 0]
    by (auto simp: MqttSnForwarderClearGatewayNetworkWhitelistAddr_def list_inv_def ACCESS_LIST_LENGTH_def)
qed

interpretation gn_gw_id_blacklist: access_list "\<lambda>f. list_inv (f_gn_gw_id_blacklist f) (f_gn_gw_id_blacklist_len f)"
  "\<lambda>f. take (f_gn_gw_id_blacklist_len f) (f_gn_gw_id_blacklist f)" MqttSnForwarderAddGatewayNetworkBlacklistGwId MqttSnForwarderClearGatewayNetworkBlacklistGwId "-1"
proof
  fix f :: "'a MqttSnForwarder" and x
  assume inv: "list_inv (f_gn_gw_id_blacklist f) (f_gn_gw_id_blacklist_len f)"
  show "length (take (f_gn_gw_id_blacklist_len f) (f_gn_gw_id_blacklist f)) < ACCESS_LIST_LENGTH"
    "distinct (take (f_gn_gw_id_blacklist_len f) (f_gn_gw_id_blacklist f))"
    using inv by (simp_all add: list_inv_def)
  show "length (take (f_gn_gw_id_blacklist_len f) (f_gn_gw_id_blacklist f)) + 1 \<ge> ACCESS_LIST_LENGTH \<Longrightarrow> MqttSnForwarderAddGatewayNetworkBlacklistGwId f x = Inr (-1, f)"
    using inv by (simp add: MqttSnForwarderAddGatewayNetworkBlacklistGwId_def add_entry_full list_inv_def)
  show "length (take (f_gn_gw_id_blacklist_len f) (f_gn_gw_id_blacklist f)) + 1 < ACCESS_LIST_LENGTH \<Longrightarrow>
      \<exists>f'. MqttSnForwarderAddGatewayNetworkBlacklistGwId f x = Inr (0, f') \<and> list_inv (f_gn_gw_id_blacklist f') (f_gn_gw_id_blacklist_len f')
        \<and> take (f_gn_gw_id_blacklist_len f') (f_gn_gw_id_blacklist f')
          = (if x \<in> set (take (f_gn_gw_id_blacklist_len f) (f_gn_gw_id_blacklist f)) then take (f_gn_gw_id_blacklist_len f) (f_gn_gw_id_blacklist f)
             else take (f_gn_gw_id_blacklist_len f) (f_gn_gw_id_blacklist f) @ [x])"
    using inv add_entry_room [OF inv, of "-1" x] by (auto simp: MqttSnForwarderAddGatewayNetworkBlacklistGwId_def list_inv_def)
  show "\<exists>f'. MqttSnForwarderClearGatewayNetworkBlacklistGwId f = Inr f' \<and> list_inv (f_gn_gw_id_blacklist f') (f_gn_gw_id_blacklist_len f') \<and> take (f_gn_gw_id_blacklist_len f') (f_gn_gw_id_blacklist f') = []"
    using inv zero_loop_length [of "f_gn_gw_id_blacklist_len f" "f_gn_gw_id_blacklist f" "0" 0]
    by (auto simp: MqttSnForwarderClearGatewayNetworkBlacklistGwId_def list_inv_def ACCESS_LIST_LENGTH_def)
qed

interpretation gn_addr_blacklist: access_list "\<lambda>f. list_inv (f_gn_addr_blacklist f) (f_gn_addr_blacklist_len f)"
  "\<lambda>f. take (f_gn_addr_blacklist_len f) (f_gn_addr_blacklist f)" MqttSnForwarderAddGatewayNetworkBlacklistAddr MqttSnForwarderClearGatewayNetworkBlacklistAddr "0"
proof
  fix f :: "'a MqttSnForwarder" and x
  assume inv: "list_inv (f_gn_addr_blacklist f) (f_gn_addr_blacklist_len f)"
  show "length (take (f_gn_addr_blacklist_len f) (f_gn_addr_blacklist f)) < ACCESS_LIST_LENGTH"
    "distinct (take (f_gn_addr_blacklist_len f) (f_gn_addr_blacklist f))"
    using inv by (simp_all add: list_inv_def)
  show "length (take (f_gn_addr_blacklist_len f) (f_gn_addr_blacklist f)) + 1 \<ge> ACCESS_LIST_LENGTH \<Longrightarrow> MqttSnForwarderAddGatewayNetworkBlacklistAddr f x = Inr (0, f)"
    using inv by (simp add: MqttSnForwarderAddGatewayNetworkBlacklistAddr_def add_entry_full list_inv_def)
  show "length (take (f_gn_addr_blacklist_len f) (f_gn_addr_blacklist f)) + 1 < ACCESS_LIST_LENGTH \<Longrightarrow>
      \<exists>f'. MqttSnForwarderAddGatewayNetworkBlacklistAddr f x = Inr (0, f') \<and> list_inv (f_gn_addr_blacklist f') (f_gn_addr_blacklist_len f')
        \<and> take (f_gn_addr_blacklist_len f') (f_gn_addr_blacklist f')
          = (if x \<in> set (take (f_gn_addr_blacklist_len f) (f_gn_addr_blacklist f)) then take (f_gn_addr_blacklist_len f) (f_gn_addr_blacklist f)
             else take (f_gn_addr_blacklist_len f) (f_gn_addr_blacklist f) @ [x])"
    using inv add_entry_room [OF inv, of "0" x] by (auto simp: MqttSnForwarderAddGatewayNetworkBlacklistAddr_def list_inv_def)
  show "\<exists>f'. MqttSnForwarderClearGatewayNetworkBlacklistAddr f = Inr f' \<and> list_inv (f_gn_addr_blacklist f') (f_gn_addr_blacklist_len f') \<and> take (f_gn_addr_blacklist_len f') (f_gn_addr_blacklist f') = []"
    using inv zero_loop_length [of "f_gn_addr_blacklist_len f" "f_gn_addr_blacklist f" "zero_address" 0]
    by (auto simp: MqttSnForwarderClearGatewayNetworkBlacklistAddr_def list_inv_def ACCESS_LIST_LENGTH_def)
qed

interpretation cn_addr_whitelist: access_list "\<lambda>f. list_inv (f_cn_addr_whitelist f) (f_cn_addr_whitelist_len f)"
  "\<lambda>f. take (f_cn_addr_whitelist_len f) (f_cn_addr_whitelist f)" MqttSnForwarderAddClientNetworkWhitelistAddr MqttSnForwarderClearClientNetworkWhitelistAddr "0"
proof
  fix f :: "'a MqttSnForwarder" and x
  assume inv: "list_inv (f_cn_addr_whitelist f) (f_cn_addr_whitelist_len f)"
  show "length (take (f_cn_addr_whitelist_len f) (f_cn_addr_whitelist f)) < ACCESS_LIST_LENGTH"
    "distinct (take (f_cn_addr_whitelist_len f) (f_cn_addr_whitelist f))"
    using inv by (simp_all add: list_inv_def)
  show "length (take (f_cn_addr_whitelist_len f) (f_cn_addr_whitelist f)) + 1 \<ge> ACCESS_LIST_LENGTH \<Longrightarrow> MqttSnForwarderAddClientNetworkWhitelistAddr f x = Inr (0, f)"
    using inv by (simp add: MqttSnForwarderAddClientNetworkWhitelistAddr_def add_entry_full list_inv_def)
  show "length (take (f_cn_addr_whitelist_len f) (f_cn_addr_whitelist f)) + 1 < ACCESS_LIST_LENGTH \<Longrightarrow>
      \<exists>f'. MqttSnForwarderAddClientNetworkWhitelistAddr f x = Inr (0, f') \<and> list_inv (f_cn_addr_whitelist f') (f_cn_addr_whitelist_len f')
        \<and> take (f_cn_addr_whitelist_len f') (f_cn_addr_whitelist f')
          = (if x \<in> set (take (f_cn_addr_whitelist_len f) (f_cn_addr_whitelist f)) then take (f_cn_addr_whitelist_len f) (f_cn_addr_whitelist f)
             else take (f_cn_addr_whitelist_len f) (f_cn_addr_whitelist f) @ [x])"
    using inv add_entry_room [OF inv, of "0" x] by (auto simp: MqttSnForwarderAddClientNetworkWhitelistAddr_def list_inv_def)
  show "\<exists>f'. MqttSnForwarderClearClientNetworkWhitelistAddr f = Inr f' \<and> list_inv (f_cn_addr_whitelist f') (f_cn_addr_whitelist_len f') \<and> take (f_cn_addr_whitelist_len f') (f_cn_addr_whitelist f') = []"
    using inv zero_loop_length [of "f_cn_addr_whitelist_len f" "f_cn_addr_whitelist f" "zero_address" 0]
    by (auto simp: MqttSnForwarderClearClientNetworkWhitelistAddr_def list_inv_def ACCESS_LIST_LENGTH_def)
qed

interpretation cn_addr_blacklist: access_list "\<lambda>f. list_inv (f_cn_addr_blacklist f) (f_cn_addr_blacklist_len f)"
  "\<lambda>f. take (f_cn_addr_blacklist_len f) (f_cn_addr_blacklist f)" MqttSnForwarderAddClientNetworkBlacklistAddr MqttSnForwarderClearClientNetworkBlacklistAddr "0"
proof
  fix f :: "'a MqttSnForwarder" and x
  assume inv: "list_inv (f_cn_addr_blacklist f) (f_cn_addr_blacklist_len f)"
  show "length (take (f_cn_addr_blacklist_len f) (f_cn_addr_blacklist f)) < ACCESS_LIST_LENGTH"
    "distinct (take (f_cn_addr_blacklist_len f) (f_cn_addr_blacklist f))"
    using inv by (simp_all add: list_inv_def)
  show "length (take (f_cn_addr_blacklist_len f) (f_cn_addr_blacklist f)) + 1 \<ge> ACCESS_LIST_LENGTH \<Longrightarrow> MqttSnForwarderAddClientNetworkBlacklistAddr f x = Inr (0, f)"
    using inv by (simp add: MqttSnForwarderAddClientNetworkBlacklistAddr_def add_entry_full list_inv_def)
  show "length (take (f_cn_addr_blacklist_len f) (f_cn_addr_blacklist f)) + 1 < ACCESS_LIST_LENGTH \<Longrightarrow>
      \<exists>f'. MqttSnForwarderAddClientNetworkBlacklistAddr f x = Inr (0, f') \<and> list_inv (f_cn_addr_blacklist f') (f_cn_addr_blacklist_len f')
        \<and> take (f_cn_addr_blacklist_len f') (f_cn_addr_blacklist f')
          = (if x \<in> set (take (f_cn_addr_blacklist_len f) (f_cn_addr_blacklist f)) then take (f_cn_addr_blacklist_len f) (f_cn_addr_blacklist f)
             else take (f_cn_addr_blacklist_len f) (f_cn_addr_blacklist f) @ [x])"
    using inv add_entry_room [OF inv, of "0" x] by (auto simp: MqttSnForwarderAddClientNetworkBlacklistAddr_def list_inv_def)
  show "\<exists>f'. MqttSnForwarderClearClientNetworkBlacklistAddr f = Inr f' \<and> list_inv (f_cn_addr_blacklist f') (f_cn_addr_blacklist_len f') \<and> take (f_cn_addr_blacklist_len f') (f_cn_addr_blacklist f') = []"
    using inv zero_loop_length [of "f_cn_addr_blacklist_len f" "f_cn_addr_blacklist f" "zero_address" 0]
    by (auto simp: MqttSnForwarderClearClientNetworkBlacklistAddr_def list_inv_def ACCESS_LIST_LENGTH_def)
qed

end
