(* ===== verification/Msg_Connection.thy ===== *)
theory Msg_Connection
  imports Wire_Format
begin

text \<open>
  The connection messages: \<open>src/parser/MqttSnConnectMessage.c\<close>, \<open>MqttSnConnackMessage.c\<close>,
  \<open>MqttSnDisconnectMessage.c\<close>, \<open>MqttSnPingReqMessage.c\<close> and \<open>MqttSnPingRespMessage.c\<close> with their headers.
  Several readers of these files assign \<open>parsed_bytes = (parse_..._header(...) < 0)\<close>, because the
  comparison binds stronger than the assignment; the model continues with the count 0 there, as the
  code does.
\<close>

section \<open>CONNECT\<close>

record ParsedMqttSnConnect =
  con_will :: u8
  con_clean_session :: u8
  con_protocol_id :: u8
  con_duration :: u16
  con_client_id :: "u8 list"
  con_client_id_length :: nat

definition MQTT_SN_MESSAGE_CONNECT_WO_CLIENTID_LENGTH :: nat where
  [codec_defs]: "MQTT_SN_MESSAGE_CONNECT_WO_CLIENTID_LENGTH = 2 + 1 + 1 + 2"

definition MQTT_SN_CLIENTID_MIN_LENGTH :: nat where
  [codec_defs]: "MQTT_SN_CLIENTID_MIN_LENGTH = 1 + 1"

definition MQTT_SN_CLIENTID_MAX_LENGTH :: nat where
  [codec_defs]: "MQTT_SN_CLIENTID_MAX_LENGTH = 23 + 1"

definition MQTT_SN_MESSAGE_CONNECT_MIN_LENGTH :: nat where
  [codec_defs]: "MQTT_SN_MESSAGE_CONNECT_MIN_LENGTH =
     MQTT_SN_MESSAGE_CONNECT_WO_CLIENTID_LENGTH + MQTT_SN_CLIENTID_MIN_LENGTH"

definition MQTT_SN_MESSAGE_CONNECT_MAX_LENGTH :: nat where
  [codec_defs]: "MQTT_SN_MESSAGE_CONNECT_MAX_LENGTH =
     MQTT_SN_MESSAGE_CONNECT_WO_CLIENTID_LENGTH + MQTT_SN_CLIENTID_MAX_LENGTH"

definition parse_connect_header :: "u8 list \<Rightarrow> nat \<Rightarrow> nat \<Rightarrow> (ParsedMqttSnHeader \<times> nat) cres" where
  [codec_defs]: "parse_connect_header data data_len parsed_bytes =
     cbind (parse_header_ok CONNECT data data_len parsed_bytes) (\<lambda>(h, parsed_bytes).
     if h_length h < MQTT_SN_MESSAGE_CONNECT_MIN_LENGTH then Inl Fail
     else if h_length h > MQTT_SN_MESSAGE_CONNECT_MAX_LENGTH then Inl Fail
     else Inr (h, parsed_bytes))"

definition parse_connect_flags :: "u8 list \<Rightarrow> nat \<Rightarrow> nat \<Rightarrow> (u8 \<times> u8 \<times> nat) cres" where
  [codec_defs]: "parse_connect_flags src_pos src_len parsed_bytes =
     cbind (parse_mqtt_sn_flags src_pos src_len parsed_bytes False False) (\<lambda>(f, parsed_bytes).
     Inr (f_will f, f_clean_session f, parsed_bytes))"

definition parse_connect_protocol_id :: "u8 list \<Rightarrow> nat \<Rightarrow> nat \<Rightarrow> (u8 \<times> nat) cres" where
  [codec_defs]: "parse_connect_protocol_id src_pos src_len parsed_bytes =
     parse_mqtt_sn_uint8_byte src_pos src_len parsed_bytes"

definition parse_connect_duration :: "u8 list \<Rightarrow> nat \<Rightarrow> nat \<Rightarrow> (u16 \<times> nat) cres" where
  [codec_defs]: "parse_connect_duration src_pos src_len parsed_bytes =
     parse_mqtt_sn_uint16_byte src_pos src_len parsed_bytes"

definition parse_connect_client_id ::
  "u8 list \<Rightarrow> nat \<Rightarrow> nat \<Rightarrow> u8 list \<Rightarrow> nat \<Rightarrow> (u8 list \<times> nat \<times> nat) cres" where
  [codec_defs]: "parse_connect_client_id src_pos src_len parsed_bytes client_id client_id_max_length =
     (let client_id_max_length =
        (if client_id_max_length > MQTT_SN_CLIENTID_MAX_LENGTH then MQTT_SN_CLIENTID_MAX_LENGTH
         else client_id_max_length) in
      parse_mqtt_sn_client_id_byte src_pos src_len parsed_bytes client_id client_id_max_length)"

definition parse_connect_message_byte ::
  "u8 list \<Rightarrow> nat \<Rightarrow> u8 list \<Rightarrow> nat \<Rightarrow> (u8 \<times> u8 \<times> u8 \<times> u16 \<times> u8 list \<times> nat \<times> nat) cres" where
  [codec_defs]: "parse_connect_message_byte client_id client_id_max_length data data_len =
     cbind (parse_connect_header data data_len 0) (\<lambda>(h, parsed_bytes).
     cbind (parse_connect_flags (drop parsed_bytes data) data_len parsed_bytes)
       (\<lambda>(will, clean_session, parsed_bytes).
     cbind (parse_connect_protocol_id (drop parsed_bytes data) data_len parsed_bytes)
       (\<lambda>(protocol_id, parsed_bytes).
     cbind (parse_connect_duration (drop parsed_bytes data) data_len parsed_bytes)
       (\<lambda>(duration, parsed_bytes).
     cbind (parse_connect_client_id (drop parsed_bytes data) data_len parsed_bytes client_id
              client_id_max_length)
       (\<lambda>(client_id, client_id_length, parsed_bytes).
     Inr (will, clean_session, protocol_id, duration, client_id, client_id_length, parsed_bytes))))))"

definition parse_connect ::
  "ParsedMqttSnConnect \<Rightarrow> u8 list \<Rightarrow> nat \<Rightarrow> (ParsedMqttSnConnect \<times> nat) cres" where
  [codec_defs]: "parse_connect mqtt_sn_connect data data_len =
     cbind (parse_connect_message_byte (con_client_id mqtt_sn_connect) MQTT_SN_CLIENTID_MAX_LENGTH
              data data_len)
       (\<lambda>(will, clean_session, protocol_id, duration, client_id, client_id_length, rc).
     Inr (\<lparr>con_will = will, con_clean_session = clean_session, con_protocol_id = protocol_id,
           con_duration = duration, con_client_id = client_id,
           con_client_id_length = client_id_length\<rparr>, rc))"

definition generate_client_id ::
  "u8 list \<Rightarrow> nat \<Rightarrow> nat \<Rightarrow> u8 list \<Rightarrow> nat \<Rightarrow> nat \<Rightarrow> (int \<times> u8 list \<times> nat) cres" where
  [codec_defs]: "generate_client_id dst pos dst_len client_id client_id_length used_bytes =
     (let used_bytes = used_bytes + client_id_length in
      if dst_len < used_bytes then Inl Fail
      else
        cbind (rds client_id client_id_length) (\<lambda>bs.
        cbind (wr_bytes dst pos bs) (\<lambda>dst. Inr (int used_bytes, dst, used_bytes))))"

definition generate_protocol_id ::
  "u8 list \<Rightarrow> nat \<Rightarrow> nat \<Rightarrow> u8 \<Rightarrow> nat \<Rightarrow> (int \<times> u8 list \<times> nat) cres" where
  [codec_defs]: "generate_protocol_id dst pos dst_len protocol_id used_bytes =
     (let used_bytes = used_bytes + 1 in
      if dst_len < used_bytes then Inl Fail
      else cbind (wr_bytes dst pos [protocol_id]) (\<lambda>dst. Inr (int used_bytes, dst, used_bytes)))"

definition generate_connect_header ::
  "u8 list \<Rightarrow> nat \<Rightarrow> nat \<Rightarrow> u8 list \<Rightarrow> nat \<Rightarrow> nat \<Rightarrow> (int \<times> u8 list \<times> nat) cres" where
  [codec_defs]: "generate_connect_header dst pos dst_len client_id client_id_length used_bytes =
     (if client_id_length > MQTT_SN_CLIENTID_MAX_LENGTH then Inl Fail
      else
        cbind (if client_id_length = MQTT_SN_CLIENTID_MAX_LENGTH
               then cbind (rd client_id client_id_length) (\<lambda>c. Inr (c \<noteq> 0))
               else Inr False) (\<lambda>too_long.
        if too_long then Inl Fail
        else
          let total_length =
            (MQTT_SN_MESSAGE_CONNECT_WO_CLIENTID_LENGTH + client_id_length) mod 65536 in
          if total_length > MQTT_SN_MESSAGE_CONNECT_MAX_LENGTH then Inl Fail
          else if dst_len < total_length then Inl Fail
          else generate_mqtt_sn_header dst pos dst_len used_bytes total_length CONNECT))"

definition generate_connect ::
  "u8 list \<Rightarrow> nat \<Rightarrow> u8 \<Rightarrow> u8 \<Rightarrow> u8 \<Rightarrow> u16 \<Rightarrow> u8 list \<Rightarrow> nat \<Rightarrow> (u8 list \<times> nat) cres" where
  [codec_defs]: "generate_connect dst dst_len will clean_session protocol_id duration client_id
       client_id_length =
     cbind (generate_connect_header dst 0 dst_len client_id client_id_length 0)
       (\<lambda>(_, dst, used_bytes).
     cbind (generate_flags dst used_bytes dst_len 0 0 0 will clean_session 0 used_bytes)
       (\<lambda>(_, dst, used_bytes).
     cbind (generate_protocol_id dst used_bytes dst_len protocol_id used_bytes)
       (\<lambda>(_, dst, used_bytes).
     cbind (generate_duration dst used_bytes dst_len duration used_bytes)
       (\<lambda>(_, dst, used_bytes).
     cbind (generate_client_id dst used_bytes dst_len client_id client_id_length used_bytes)
       (\<lambda>(_, dst, used_bytes). Inr (dst, used_bytes))))))"

text \<open>
  The scan for the end of a client id, with the \<open>uint8_t\<close> counter of the source bounded by 24.
\<close>

function client_id_scan :: "u8 list \<Rightarrow> nat \<Rightarrow> nat cres" where
  "client_id_scan client_id i =
     (if i < MQTT_SN_CLIENTID_MAX_LENGTH
      then cbind (rd client_id i) (\<lambda>c. if c = 0 then Inr i else client_id_scan client_id (i + 1))
      else Inr i)"
  by pat_completeness auto
termination
  by (relation "measure (\<lambda>(_, i). MQTT_SN_CLIENTID_MAX_LENGTH - i)") auto

declare client_id_scan.simps [simp del]

definition get_client_id_length :: "u8 list \<Rightarrow> nat cres" where
  "get_client_id_length client_id =
     cbind (client_id_scan client_id 0) (\<lambda>client_id_len.
     if client_id_len < MQTT_SN_CLIENTID_MIN_LENGTH then Inl Fail
     else
       cbind (if client_id_len = MQTT_SN_CLIENTID_MAX_LENGTH
              then cbind (rd client_id client_id_len) (\<lambda>c. Inr (c \<noteq> 0))
              else Inr False) (\<lambda>too_long.
       if too_long then Inl Fail else Inr client_id_len))"

definition connect_wire :: "ParsedMqttSnConnect \<Rightarrow> u8 list" where
  "connect_wire m =
     header_wire (6 + con_client_id_length m) CONNECT
     @ [flag_byte 0 0 0 0 (con_will m) (con_clean_session m) 0, con_protocol_id m,
        hi8 (con_duration m), lo8 (con_duration m)]
     @ take (con_client_id_length m) (con_client_id m)"

definition connect_wf :: "ParsedMqttSnConnect \<Rightarrow> bool" where
  "connect_wf m \<longleftrightarrow> con_client_id_length m < length (con_client_id m)
     \<and> con_client_id_length m < 65536"

definition connect_valid :: "ParsedMqttSnConnect \<Rightarrow> bool" where
  "connect_valid m \<longleftrightarrow> con_client_id_length m < 24
     \<or> con_client_id_length m = 24 \<and> con_client_id m ! 24 = 0"

definition cleared_at :: "nat \<Rightarrow> u8 list \<Rightarrow> bool" where
  "cleared_at i dst \<longleftrightarrow> (i < length dst \<longrightarrow> dst ! i = 0)"

lemma length_connect_wire:
  "connect_wf m \<Longrightarrow> connect_valid m \<Longrightarrow> length (connect_wire m) = 6 + con_client_id_length m"
  by (auto simp: connect_wire_def connect_wf_def connect_valid_def)

lemma gen_client_id [gen_simps]: "generate_client_id = generate_data"
  by (intro ext) (simp add: generate_client_id_def generate_data_def)

lemma gen_protocol_id [gen_simps]: "generate_protocol_id = generate_mqtt_sn_uint8"
  by (intro ext) (simp add: generate_protocol_id_def generate_mqtt_sn_uint8_def Let_def not_le)

lemma generate_connect_eq:
  assumes "connect_wf m" "dst_len \<le> length dst" "cleared_at 2 dst"
  shows "generate_connect dst dst_len (con_will m) (con_clean_session m) (con_protocol_id m)
      (con_duration m) (con_client_id m) (con_client_id_length m) =
    (if connect_valid m \<and> 6 + con_client_id_length m \<le> dst_len
     then Inr (patched dst (connect_wire m), 6 + con_client_id_length m) else Inl Fail)"
  using assms
  by (auto simp: generate_connect_def generate_connect_header_def gen_simps connect_wire_def
      connect_wf_def connect_valid_def rd_def wire_flags_def MQTT_SN_CLIENTID_MAX_LENGTH_def
      MQTT_SN_MESSAGE_CONNECT_MAX_LENGTH_def MQTT_SN_MESSAGE_CONNECT_WO_CLIENTID_LENGTH_def
      Let_def cleared_at_def)

definition connect_readable :: "ParsedMqttSnConnect \<Rightarrow> bool" where
  "connect_readable m \<longleftrightarrow> 2 \<le> con_client_id_length m
     \<and> (con_client_id_length m = 24 \<longrightarrow> 0 \<in> set (take 24 (con_client_id m)))"

definition connect_view :: "ParsedMqttSnConnect \<Rightarrow> u8 \<times> u8 \<times> u8 \<times> u16 \<times> u8 list \<times> nat" where
  "connect_view m = (bool_bit (con_will m \<noteq> 0), bool_bit (con_clean_session m \<noteq> 0),
     con_protocol_id m, con_duration m,
     c_string (take (con_client_id_length m) (con_client_id m)), con_client_id_length m)"

definition empty_connect :: ParsedMqttSnConnect where
  "empty_connect = \<lparr>con_will = 0, con_clean_session = 0, con_protocol_id = 0, con_duration = 0,
     con_client_id = replicate 24 0, con_client_id_length = 0\<rparr>"

definition read_connect :: "u8 list \<Rightarrow> nat \<Rightarrow> (u8 \<times> u8 \<times> u8 \<times> u16 \<times> u8 list \<times> nat) cres" where
  "read_connect data n =
     map_sum id (\<lambda>(m, _). (con_will m, con_clean_session m, con_protocol_id m, con_duration m,
                            c_string (con_client_id m), con_client_id_length m))
       (parse_connect empty_connect data n)"

lemma parse_connect_wire:
  assumes "connect_wf m" "connect_valid m" "connect_readable m"
  shows "parse_connect empty_connect (connect_wire m @ rest) (6 + con_client_id_length m) =
    Inr (\<lparr>con_will = bool_bit (con_will m \<noteq> 0), con_clean_session = bool_bit (con_clean_session m \<noteq> 0),
          con_protocol_id = con_protocol_id m, con_duration = con_duration m,
          con_client_id = patched (replicate 24 0)
            (c_string (take (con_client_id_length m) (con_client_id m)) @ [0]),
          con_client_id_length = con_client_id_length m\<rparr>, 6 + con_client_id_length m)"
proof -
  let ?n = "con_client_id_length m"
  let ?id = "take ?n (con_client_id m)"
  have n: "2 \<le> ?n" "?n \<le> 24" "length ?id = ?n" "?id \<noteq> []"
    using assms by (auto simp: connect_wf_def connect_valid_def connect_readable_def)
  have "length (c_string ?id) < 24"
  proof (cases "?n = 24")
    case True
    then show ?thesis
      using assms length_c_string_less [of ?id] n by (simp add: connect_readable_def)
  next
    case False
    then show ?thesis
      using n length_c_string_le [of ?id] by simp
  qed
  then have chars: "parse_mqtt_sn_char_until_end_byte (?id @ rest) (6 + ?n) 6 (replicate 24 0) 24 =
      Inr (patched (replicate 24 0) (c_string ?id @ [0]), ?n, 6 + ?n)"
    using n by (subst read_chars) auto
  have 4: "drop 4 (header_wire (6 + ?n) CONNECT) = []" "drop 5 (header_wire (6 + ?n) CONNECT) = []"
    "drop 3 (header_wire (6 + ?n) CONNECT) = []" "drop 6 (header_wire (6 + ?n) CONNECT) = []"
    using n by simp_all
  show ?thesis
    using n
    by (simp add: codec_defs connect_wire_def parse_header_ok_wire read_flags wire_flags_def
        parse_mqtt_sn_client_id_byte_def chars empty_connect_def 4)
qed

text \<open>
  The identifier of 24 characters, which the writer accepts: its terminator has no place in the array of
  the reader.
\<close>

lemma parse_connect_overruns:
  assumes "connect_wf m" "con_client_id_length m = 24" "0 \<notin> set (take 24 (con_client_id m))"
  shows "parse_connect empty_connect (connect_wire m @ rest) 30 = Inl Fault"
proof -
  let ?id = "take 24 (con_client_id m)"
  have n: "length ?id = 24"
    using assms(1,2) by (simp add: connect_wf_def)
  have "takeWhile (\<lambda>c. c \<noteq> 0) ?id = ?id"
    using assms(3) by (subst takeWhile_eq_all_conv) metis
  then have "length (takeWhile (\<lambda>c. c \<noteq> 0) ?id) = 24"
    using n by (rule ssubst)
  then have chars: "parse_mqtt_sn_char_until_end_byte (?id @ rest) 30 6 (replicate 24 0) 24 = Inl Fault"
    using n by (simp add: parse_mqtt_sn_char_until_end_byte_def u16_sub_def strncat_empty_def Let_def wr_bytes_def)
  have 4: "drop 4 (header_wire 30 CONNECT) = []" "drop 5 (header_wire 30 CONNECT) = []"
    "drop 3 (header_wire 30 CONNECT) = []" "drop 6 (header_wire 30 CONNECT) = []"
    by simp_all
  show ?thesis
    using assms(2) n
    by (simp add: codec_defs connect_wire_def parse_header_ok_wire read_flags wire_flags_def
        parse_mqtt_sn_client_id_byte_def chars empty_connect_def 4)
qed

interpretation connect: wire_format connect_wire connect_wf connect_valid connect_readable
  "cleared_at 2"
  untouched "\<lambda>dst n m. map_sum id fst (generate_connect dst n (con_will m) (con_clean_session m)
     (con_protocol_id m) (con_duration m) (con_client_id m) (con_client_id_length m))"
  connect_view read_connect
  by unfold_locales
    (simp_all add: generate_connect_eq length_connect_wire read_connect_def parse_connect_wire
      connect_view_def)

lemma safe_parse_connect:
  assumes "n \<le> length data" "data \<noteq> [1, 0, 3]" "length (con_client_id m) = 24" "n \<noteq> 30"
  shows "safe (parse_connect m data n)"
  using assms unfolding codec_defs
  by (intro safe_intros)
    (auto simp: parse_mqtt_sn_client_id_byte_def cbind_eq_Inr split: if_splits
      dest!: read_progress header_progress intro!: safe_intros)

section \<open>CONNACK\<close>

definition MQTT_SN_MESSAGE_CONNACK_LENGTH :: nat where
  [codec_defs]: "MQTT_SN_MESSAGE_CONNACK_LENGTH = 3"

definition parse_connack_header :: "u8 list \<Rightarrow> nat \<Rightarrow> nat \<Rightarrow> (ParsedMqttSnHeader \<times> nat) cres" where
  [codec_defs]: "parse_connack_header data data_len parsed_bytes =
     cbind (parse_header_ok CONNACK data data_len parsed_bytes) (\<lambda>(h, parsed_bytes).
     if h_length h \<noteq> MQTT_SN_MESSAGE_CONNACK_LENGTH then Inl Fail else Inr (h, parsed_bytes))"

definition parse_connack_return_code_byte ::
  "u8 list \<Rightarrow> nat \<Rightarrow> nat \<Rightarrow> (MQTT_SN_RETURN_CODE \<times> nat) cres" where
  [codec_defs]: "parse_connack_return_code_byte src_pos src_len parsed_bytes =
     parse_mqtt_sn_return_code_byte src_pos src_len parsed_bytes"

definition parse_connack_byte :: "u8 list \<Rightarrow> nat \<Rightarrow> (MQTT_SN_RETURN_CODE \<times> nat) cres" where
  [codec_defs]: "parse_connack_byte data data_len =
     cbind (parse_connack_header data data_len 0) (\<lambda>(h, parsed_bytes).
     cbind (parse_connack_return_code_byte (drop parsed_bytes data) data_len parsed_bytes)
       (\<lambda>(return_code, parsed_bytes). Inr (return_code, 0)))"

definition parse_connack :: "u8 list \<Rightarrow> nat \<Rightarrow> (MQTT_SN_RETURN_CODE \<times> nat) cres" where
  [codec_defs]: "parse_connack data data_len = parse_connack_byte data data_len"

definition generate_connack_header :: "u8 list \<Rightarrow> nat \<Rightarrow> nat \<Rightarrow> nat \<Rightarrow> (int \<times> u8 list \<times> nat) cres" where
  [codec_defs]: "generate_connack_header dst pos dst_len used_bytes =
     generate_mqtt_sn_header dst pos dst_len used_bytes MQTT_SN_MESSAGE_CONNACK_LENGTH CONNACK"

definition generate_connack_return_code ::
  "u8 list \<Rightarrow> nat \<Rightarrow> nat \<Rightarrow> MQTT_SN_RETURN_CODE \<Rightarrow> nat \<Rightarrow> (int \<times> u8 list \<times> nat) cres" where
  [codec_defs]: "generate_connack_return_code dst pos dst_len return_code used_bytes =
     generate_mqtt_sn_return_code dst pos dst_len return_code used_bytes"

definition generate_connack ::
  "u8 list \<Rightarrow> nat \<Rightarrow> MQTT_SN_RETURN_CODE \<Rightarrow> (u8 list \<times> nat) cres" where
  [codec_defs]: "generate_connack dst dst_len return_code =
     cbind (generate_connack_header dst 0 dst_len 0) (\<lambda>(_, dst, used_bytes).
     cbind (generate_connack_return_code dst used_bytes dst_len return_code used_bytes)
       (\<lambda>(_, dst, used_bytes). Inr (dst, used_bytes)))"

definition connack_wire :: "MQTT_SN_RETURN_CODE \<Rightarrow> u8 list" where
  "connack_wire r = header_wire 3 CONNACK @ [return_code_byte r]"

lemma length_connack_wire [simp]: "length (connack_wire r) = 3"
  by (simp add: connack_wire_def)

lemma generate_connack_eq:
  assumes "dst_len \<le> length dst"
  shows "generate_connack dst dst_len r =
    (if wire_return_code r \<and> 3 \<le> dst_len then Inr (patched dst (connack_wire r), 3) else Inl Fail)"
  using assms by (simp add: codec_defs gen_simps connack_wire_def)

lemma parse_connack_wire:
  "wire_return_code r \<Longrightarrow> parse_connack (connack_wire r @ rest) 3 = Inr (r, 0)"
  by (simp add: codec_defs connack_wire_def parse_header_ok_wire del: header_size_simps) simp

lemma parse_connack_accepts:
  assumes "parse_connack data n = Inr (r, rc)" "n \<le> length data"
  shows "n = 3 \<and> wire_return_code r \<and> take n data = connack_wire r"
  using assms
  by (auto simp: codec_defs cbind_eq_Inr connack_wire_def header_wire_def
      split: if_splits dest!: parse_header_ok_accepts read_return_code_accepts)

interpretation connack: strict_wire_format connack_wire "\<lambda>_. True" wire_return_code "\<lambda>_. True"
  "\<lambda>_. True" untouched "\<lambda>dst n r. map_sum id fst (generate_connack dst n r)"
  "\<lambda>r. r" "\<lambda>data n. map_sum id fst (parse_connack data n)"
  by unfold_locales (use parse_connack_accepts in
    \<open>force simp: generate_connack_eq parse_connack_wire map_sum_fst_eq_Inr\<close>)+

lemma safe_parse_connack:
  "n \<le> length data \<Longrightarrow> data \<noteq> [1, 0, 3] \<Longrightarrow> safe (parse_connack data n)"
  unfolding codec_defs by (intro safe_intros)

section \<open>DISCONNECT\<close>

definition MQTT_SN_MESSAGE_DISCONNECT_WO_DURATION_LENGTH :: nat where
  [codec_defs]: "MQTT_SN_MESSAGE_DISCONNECT_WO_DURATION_LENGTH = 2"

definition MQTT_SN_MESSAGE_DISCONNECT_W_DURATION_LENGTH :: nat where
  [codec_defs]: "MQTT_SN_MESSAGE_DISCONNECT_W_DURATION_LENGTH = 2 + 2"

definition parse_disconnect_header :: "u8 list \<Rightarrow> nat \<Rightarrow> nat \<Rightarrow> (ParsedMqttSnHeader \<times> nat) cres" where
  [codec_defs]: "parse_disconnect_header data data_len parsed_bytes =
     cbind (parse_header_ok DISCONNECT data data_len parsed_bytes) (\<lambda>(h, parsed_bytes).
     if h_length h < MQTT_SN_MESSAGE_DISCONNECT_WO_DURATION_LENGTH then Inl Fail
     else if h_length h > MQTT_SN_MESSAGE_DISCONNECT_W_DURATION_LENGTH then Inl Fail
     else Inr (h, parsed_bytes))"

definition parse_disconnect_internal_duration :: "u8 list \<Rightarrow> nat \<Rightarrow> nat \<Rightarrow> (u16 \<times> nat) cres" where
  [codec_defs]: "parse_disconnect_internal_duration src_pos src_len parsed_bytes =
     parse_mqtt_sn_uint16_byte src_pos src_len parsed_bytes"

definition parse_disconnect_duration :: "u8 list \<Rightarrow> nat \<Rightarrow> (u16 \<times> nat) cres" where
  [codec_defs]: "parse_disconnect_duration data data_len =
     cbind (parse_disconnect_header data data_len 0) (\<lambda>_.
     let parsed_bytes = 0 in
     parse_disconnect_internal_duration (drop parsed_bytes data) data_len parsed_bytes)"

definition parse_disconnect_bytes :: "u8 list \<Rightarrow> nat \<Rightarrow> nat cres" where
  [codec_defs]: "parse_disconnect_bytes data data_len =
     cbind (parse_disconnect_header data data_len 0) (\<lambda>_. Inr 0)"

definition generate_disconnect_header :: "u8 list \<Rightarrow> nat \<Rightarrow> nat \<Rightarrow> nat \<Rightarrow> (int \<times> u8 list \<times> nat) cres" where
  [codec_defs]: "generate_disconnect_header dst pos dst_len used_bytes =
     generate_mqtt_sn_header dst pos dst_len used_bytes
       MQTT_SN_MESSAGE_DISCONNECT_WO_DURATION_LENGTH DISCONNECT"

definition generate_disconnect_message :: "u8 list \<Rightarrow> nat \<Rightarrow> (u8 list \<times> nat) cres" where
  [codec_defs]: "generate_disconnect_message dst dst_len =
     cbind (generate_disconnect_header dst 0 dst_len 0) (\<lambda>(_, dst, used_bytes).
     Inr (dst, used_bytes))"

definition generate_disconnect_add_duration ::
  "u8 list \<Rightarrow> nat \<Rightarrow> nat \<Rightarrow> u16 \<Rightarrow> nat \<Rightarrow> (int \<times> u8 list \<times> nat) cres" where
  [codec_defs]: "generate_disconnect_add_duration dst pos dst_len duration used_bytes =
     generate_mqtt_sn_uint16 dst pos dst_len duration used_bytes"

definition generate_disconnect_header_with_duration ::
  "u8 list \<Rightarrow> nat \<Rightarrow> nat \<Rightarrow> nat \<Rightarrow> (int \<times> u8 list \<times> nat) cres" where
  [codec_defs]: "generate_disconnect_header_with_duration dst pos dst_len used_bytes =
     generate_mqtt_sn_header dst pos dst_len used_bytes
       MQTT_SN_MESSAGE_DISCONNECT_W_DURATION_LENGTH DISCONNECT"

definition generate_disconnect_duration :: "u8 list \<Rightarrow> nat \<Rightarrow> u16 \<Rightarrow> (u8 list \<times> nat) cres" where
  [codec_defs]: "generate_disconnect_duration dst dst_len duration =
     cbind (generate_disconnect_header_with_duration dst 0 dst_len 0) (\<lambda>(_, dst, used_bytes).
     cbind (generate_disconnect_add_duration dst used_bytes dst_len duration used_bytes)
       (\<lambda>(_, dst, used_bytes). Inr (dst, used_bytes)))"

text \<open>A DISCONNECT with or without its optional duration.\<close>

definition disconnect_wire :: "u16 option \<Rightarrow> u8 list" where
  "disconnect_wire d =
     (case d of None \<Rightarrow> header_wire 2 DISCONNECT
      | Some w \<Rightarrow> header_wire 4 DISCONNECT @ [hi8 w, lo8 w])"

definition write_disconnect :: "u8 list \<Rightarrow> nat \<Rightarrow> u16 option \<Rightarrow> (u8 list \<times> nat) cres" where
  "write_disconnect dst dst_len d =
     (case d of None \<Rightarrow> generate_disconnect_message dst dst_len
      | Some w \<Rightarrow> generate_disconnect_duration dst dst_len w)"

lemma length_disconnect_wire: "length (disconnect_wire d) = (case d of None \<Rightarrow> 2 | Some _ \<Rightarrow> 4)"
  by (simp add: disconnect_wire_def split: option.split)

lemma write_disconnect_eq:
  assumes "dst_len \<le> length dst"
  shows "write_disconnect dst dst_len d =
    (if length (disconnect_wire d) \<le> dst_len
     then Inr (patched dst (disconnect_wire d), length (disconnect_wire d)) else Inl Fail)"
  using assms
  by (cases d) (simp_all add: codec_defs gen_simps disconnect_wire_def write_disconnect_def)

lemma parse_disconnect_bytes_wire:
  "parse_disconnect_bytes (disconnect_wire d @ rest) (length (disconnect_wire d)) = Inr 0"
  by (cases d)
    (simp_all add: codec_defs disconnect_wire_def parse_header_ok_wire
      parse_header_ok_wire [where n = 2, simplified] )

interpretation disconnect: wire_format disconnect_wire "\<lambda>_. True" "\<lambda>_. True" "\<lambda>_. True" "\<lambda>_. True"
  untouched "\<lambda>dst n d. map_sum id fst (write_disconnect dst n d)" "\<lambda>_. 0" parse_disconnect_bytes
  by unfold_locales (simp_all add: write_disconnect_eq parse_disconnect_bytes_wire)

text \<open>The duration reader starts at offset 0, so it returns the length and the type byte.\<close>

lemma parse_disconnect_duration_eq:
  assumes "parse_disconnect_duration data n = Inr (w, rc)"
  shows "rc = 2 \<and> w = be16 (data ! 0) (data ! 1)"
  using assms
  by (auto simp: codec_defs Let_def cbind_eq_Inr read_uint16_accepts split: if_splits)

lemma safe_parse_disconnect:
  assumes "n \<le> length data" "data \<noteq> [1, 0, 3]"
  shows "safe (parse_disconnect_duration data n)" "safe (parse_disconnect_bytes data n)"
proof -
  have "safe (parse_mqtt_sn_uint16_byte (drop 0 data) n 0)"
    using assms(1) by (rule safe_read_uint16)
  then show "safe (parse_disconnect_duration data n)"
    using assms unfolding codec_defs Let_def by (intro safe_intros) auto
  show "safe (parse_disconnect_bytes data n)"
    using assms unfolding codec_defs by (intro safe_intros)
qed

section \<open>PINGREQ and PINGRESP\<close>

definition MQTT_SN_MESSAGE_PINGREQ_MIN_LENGTH :: nat where
  [codec_defs]: "MQTT_SN_MESSAGE_PINGREQ_MIN_LENGTH = 2"

definition MQTT_SN_MESSAGE_PINGREQ_WO_CLIENTID_LENGTH :: nat where
  [codec_defs]: "MQTT_SN_MESSAGE_PINGREQ_WO_CLIENTID_LENGTH = 2"

definition MQTT_SN_MESSAGE_PINGREQ_W_CLIENTID_MAX_LENGTH :: nat where
  [codec_defs]: "MQTT_SN_MESSAGE_PINGREQ_W_CLIENTID_MAX_LENGTH =
     MQTT_SN_MESSAGE_PINGREQ_WO_CLIENTID_LENGTH + MQTT_SN_CLIENTID_MAX_LENGTH"

definition MQTT_SN_MESSAGE_PINGRESP_LENGTH :: nat where
  [codec_defs]: "MQTT_SN_MESSAGE_PINGRESP_LENGTH = 2"

definition parse_ping_req_header_w_client_id ::
  "u8 list \<Rightarrow> nat \<Rightarrow> nat \<Rightarrow> (ParsedMqttSnHeader \<times> nat) cres" where
  [codec_defs]: "parse_ping_req_header_w_client_id data data_len parsed_bytes =
     cbind (parse_header_ok PINGREQ data data_len parsed_bytes) (\<lambda>(h, parsed_bytes).
     if h_length h < MQTT_SN_MESSAGE_PINGREQ_MIN_LENGTH then Inl Fail
     else if h_length h > MQTT_SN_MESSAGE_PINGREQ_W_CLIENTID_MAX_LENGTH then Inl Fail
     else Inr (h, parsed_bytes))"

definition parse_ping_req_client_id ::
  "u8 list \<Rightarrow> nat \<Rightarrow> nat \<Rightarrow> u8 list \<Rightarrow> nat \<Rightarrow> (u8 list \<times> nat \<times> nat) cres" where
  [codec_defs]: "parse_ping_req_client_id src_pos src_len parsed_bytes client_id client_id_max_length =
     (let client_id_max_length =
        (if client_id_max_length > MQTT_SN_CLIENTID_MAX_LENGTH then MQTT_SN_CLIENTID_MAX_LENGTH
         else client_id_max_length) in
      parse_mqtt_sn_client_id_byte src_pos src_len parsed_bytes client_id client_id_max_length)"

definition parse_ping_req_w_client_id_byte ::
  "u8 list \<Rightarrow> nat \<Rightarrow> u8 list \<Rightarrow> nat \<Rightarrow> (u8 list \<times> nat \<times> nat) cres" where
  [codec_defs]: "parse_ping_req_w_client_id_byte client_id client_id_max_length data data_len =
     cbind (parse_ping_req_header_w_client_id data data_len 0) (\<lambda>_.
     let parsed_bytes = 0 in
     parse_ping_req_client_id (drop parsed_bytes data) data_len parsed_bytes client_id
       client_id_max_length)"

definition parse_ping_req_header :: "u8 list \<Rightarrow> nat \<Rightarrow> nat \<Rightarrow> (ParsedMqttSnHeader \<times> nat) cres" where
  [codec_defs]: "parse_ping_req_header data data_len parsed_bytes =
     cbind (parse_header_ok PINGREQ data data_len parsed_bytes) (\<lambda>(h, parsed_bytes).
     if h_length h \<noteq> MQTT_SN_MESSAGE_PINGREQ_MIN_LENGTH then Inl Fail else Inr (h, parsed_bytes))"

definition parse_ping_req_byte :: "u8 list \<Rightarrow> nat \<Rightarrow> nat cres" where
  [codec_defs]: "parse_ping_req_byte data data_len =
     cbind (parse_ping_req_header data data_len 0) (\<lambda>_. let parsed_bytes = 0 in Inr parsed_bytes)"

definition generate_ping_req_header :: "u8 list \<Rightarrow> nat \<Rightarrow> nat \<Rightarrow> nat \<Rightarrow> (int \<times> u8 list \<times> nat) cres" where
  [codec_defs]: "generate_ping_req_header dst pos dst_len used_bytes =
     generate_mqtt_sn_header dst pos dst_len used_bytes
       MQTT_SN_MESSAGE_PINGREQ_WO_CLIENTID_LENGTH PINGREQ"

definition generate_ping_req :: "u8 list \<Rightarrow> nat \<Rightarrow> (u8 list \<times> nat) cres" where
  [codec_defs]: "generate_ping_req dst dst_len =
     cbind (generate_ping_req_header dst 0 dst_len 0) (\<lambda>(_, dst, used_bytes).
     Inr (dst, used_bytes))"

definition generate_ping_req_header_w_client_id ::
  "u8 list \<Rightarrow> nat \<Rightarrow> nat \<Rightarrow> u8 list \<Rightarrow> nat \<Rightarrow> nat \<Rightarrow> (int \<times> u8 list \<times> nat) cres" where
  [codec_defs]: "generate_ping_req_header_w_client_id dst pos dst_len client_id client_id_length
       used_bytes =
     (if client_id_length > MQTT_SN_CLIENTID_MAX_LENGTH then Inl Fail
      else
        cbind (if client_id_length = MQTT_SN_CLIENTID_MAX_LENGTH
               then cbind (rd client_id client_id_length) (\<lambda>c. Inr (c \<noteq> 0))
               else Inr False) (\<lambda>too_long.
        if too_long then Inl Fail
        else
          let total_length =
            (MQTT_SN_MESSAGE_PINGREQ_WO_CLIENTID_LENGTH + client_id_length) mod 65536 in
          if total_length > MQTT_SN_MESSAGE_PINGREQ_W_CLIENTID_MAX_LENGTH then Inl Fail
          else if dst_len < total_length then Inl Fail
          else generate_mqtt_sn_header dst pos dst_len used_bytes total_length PINGREQ))"

definition generate_ping_req_w_client_id_client_id ::
  "u8 list \<Rightarrow> nat \<Rightarrow> nat \<Rightarrow> u8 list \<Rightarrow> nat \<Rightarrow> nat \<Rightarrow> (int \<times> u8 list \<times> nat) cres" where
  [codec_defs]: "generate_ping_req_w_client_id_client_id dst pos dst_len client_id client_id_length
       used_bytes =
     (let used_bytes = used_bytes + client_id_length in
      if dst_len < used_bytes then Inl Fail
      else
        cbind (rds client_id client_id_length) (\<lambda>bs.
        cbind (wr_bytes dst pos bs) (\<lambda>dst. Inr (int used_bytes, dst, used_bytes))))"

text \<open>The destination length is a \<open>uint64_t\<close> here and is cut to 16 bits by the calls.\<close>

definition generate_ping_req_w_client_id ::
  "u8 list \<Rightarrow> nat \<Rightarrow> u8 list \<Rightarrow> nat \<Rightarrow> (u8 list \<times> nat) cres" where
  [codec_defs]: "generate_ping_req_w_client_id dst dst_len client_id client_id_length =
     cbind (generate_ping_req_header_w_client_id dst 0 (dst_len mod 65536) client_id
              client_id_length 0) (\<lambda>(_, dst, used_bytes).
     cbind (generate_ping_req_w_client_id_client_id dst used_bytes (dst_len mod 65536) client_id
              client_id_length used_bytes) (\<lambda>(_, dst, used_bytes). Inr (dst, used_bytes)))"

definition parse_ping_resp_byte :: "u8 list \<Rightarrow> nat \<Rightarrow> nat cres" where
  [codec_defs]: "parse_ping_resp_byte data data_len =
     cbind (parse_header_ok PINGRESP data data_len 0) (\<lambda>(h, parsed_bytes).
     if h_length h \<noteq> MQTT_SN_MESSAGE_PINGRESP_LENGTH then Inl Fail else Inr parsed_bytes)"

definition generate_ping_resp :: "u8 list \<Rightarrow> nat \<Rightarrow> (u8 list \<times> nat) cres" where
  [codec_defs]: "generate_ping_resp dst dst_len =
     cbind (generate_mqtt_sn_header dst 0 dst_len 0 MQTT_SN_MESSAGE_PINGRESP_LENGTH PINGRESP)
       (\<lambda>(_, dst, used_bytes). Inr (dst, used_bytes))"

text \<open>The messages that are a header only.\<close>

definition bare_wire :: "MQTT_SN_MESSAGE_TYPE \<Rightarrow> unit \<Rightarrow> u8 list" where
  "bare_wire t _ = header_wire 2 t"

lemma length_bare_wire [simp]: "length (bare_wire t u) = 2"
  by (simp add: bare_wire_def)

lemma parse_header_ok_bare:
  assumes "mt \<noteq> ENCAPSULATED_MESSAGE" "mt \<noteq> ANY_MESSAGE_TYPE" "n \<le> length data"
    "parse_header_ok mt data n pb = Inr (h, pb')" "h_length h = 2"
  shows "n = 2 \<and> take n data = bare_wire mt ()"
  using parse_header_ok_accepts [OF assms(4,1,2)] assms(5)
  by (auto simp: bare_wire_def header_wire_def)

lemma parse_bare_wire:
  "wire_type t \<Longrightarrow> parse_header_ok t (header_wire 2 t @ rest) 2 0 = Inr (plain_header 2 t, 2)"
  using parse_header_ok_wire [of t 2 t rest 0] by simp

lemmas ping_simps = bare_wire_def codec_defs gen_simps parse_bare_wire Let_def

interpretation pingreq: strict_wire_format "bare_wire PINGREQ" "\<lambda>_. True" "\<lambda>_. True" "\<lambda>_. True"
  "\<lambda>_. True" untouched "\<lambda>dst n _. map_sum id fst (generate_ping_req dst n)"
  "\<lambda>_. 0" parse_ping_req_byte
proof unfold_locales
  fix n data and v :: nat
  assume n: "n \<le> length data" and v: "parse_ping_req_byte data n = Inr v"
  then obtain h pb where "parse_header_ok PINGREQ data n 0 = Inr (h, pb)" "h_length h = 2" "v = 0"
    by (auto simp: codec_defs Let_def cbind_eq_Inr split: if_splits)
  then show "\<exists>m. True \<and> True \<and> True \<and> 0 = v \<and> take n data = bare_wire PINGREQ m"
    using parse_header_ok_bare [OF _ _ n, of PINGREQ 0 h pb] by auto
qed (auto simp: ping_simps)

interpretation pingresp: strict_wire_format "bare_wire PINGRESP" "\<lambda>_. True" "\<lambda>_. True" "\<lambda>_. True"
  "\<lambda>_. True" untouched "\<lambda>dst n _. map_sum id fst (generate_ping_resp dst n)"
  "\<lambda>_. 2" parse_ping_resp_byte
proof unfold_locales
  fix n data and v :: nat
  assume n: "n \<le> length data" and v: "parse_ping_resp_byte data n = Inr v"
  then obtain h where "parse_header_ok PINGRESP data n 0 = Inr (h, v)" "h_length h = 2"
    by (auto simp: codec_defs cbind_eq_Inr split: if_splits)
  then show "\<exists>m. True \<and> True \<and> True \<and> 2 = v \<and> take n data = bare_wire PINGRESP m"
    using parse_header_ok_bare [OF _ _ n, of PINGRESP 0 h v]
      parse_header_ok_accepts [of PINGRESP data n 0 h v] by auto
qed (auto simp: ping_simps)

definition pingreq_id_wire :: "u8 list \<Rightarrow> nat \<Rightarrow> u8 list" where
  "pingreq_id_wire client_id len = header_wire (2 + len) PINGREQ @ take len client_id"

lemma generate_ping_req_w_client_id_eq:
  assumes "len < length client_id" "dst_len \<le> length dst" "dst_len < 65536"
  shows "generate_ping_req_w_client_id dst dst_len client_id len =
    (if (len < 24 \<or> len = 24 \<and> client_id ! 24 = 0) \<and> 2 + len \<le> dst_len
     then Inr (patched dst (pingreq_id_wire client_id len), 2 + len) else Inl Fail)"
proof -
  have "generate_ping_req_w_client_id_client_id = generate_data"
    by (intro ext) (simp add: generate_ping_req_w_client_id_client_id_def generate_data_def)
  then show ?thesis
    using assms
    by (auto simp: generate_ping_req_w_client_id_def generate_ping_req_header_w_client_id_def gen_simps
        pingreq_id_wire_def rd_def MQTT_SN_CLIENTID_MAX_LENGTH_def
        MQTT_SN_MESSAGE_PINGREQ_W_CLIENTID_MAX_LENGTH_def
        MQTT_SN_MESSAGE_PINGREQ_WO_CLIENTID_LENGTH_def Let_def)
qed

text \<open>The reader starts at offset 0, so what it takes for the client id begins with the header.\<close>

lemma parse_ping_req_w_client_id_wire:
  assumes "0 < len" "len \<le> 21" "len < length client_id" "length buf = 24"
  shows "parse_ping_req_w_client_id_byte buf 24 (pingreq_id_wire client_id len @ rest) (2 + len) =
    Inr (patched buf (c_string (pingreq_id_wire client_id len) @ [0]), 2 + len, 2 + len)"
proof -
  let ?w = "pingreq_id_wire client_id len"
  have w: "length ?w = 2 + len"
    using assms by (simp add: pingreq_id_wire_def)
  then have "?w \<noteq> []" "length (c_string ?w) < 24"
    using assms length_c_string_le [of ?w] by auto
  then have "parse_mqtt_sn_char_until_end_byte (?w @ rest) (2 + len) 0 buf 24 =
      Inr (patched buf (c_string ?w @ [0]), 2 + len, 2 + len)"
    using assms w by (subst read_chars) auto
  moreover have "parse_header_ok PINGREQ (?w @ rest) (2 + len) 0 = Inr (plain_header (2 + len) PINGREQ, 2)"
    using assms parse_header_ok_wire [of PINGREQ "2 + len" PINGREQ "take len client_id @ rest" 0]
    by (simp add: pingreq_id_wire_def)
  ultimately show ?thesis
    using assms by (simp add: codec_defs Let_def parse_mqtt_sn_client_id_byte_def)
qed

end
