(* ===== verification/Msg_Publish.thy ===== *)
theory Msg_Publish
  imports Wire_Format
begin

text \<open>
  The publication and registration messages: \<open>src/parser/MqttSnPublishMessage.c\<close>,
  \<open>MqttSnPubackMessage.c\<close>, \<open>MqttSnPubrecPubrelPubcompMessage.c\<close>, \<open>MqttSnRegisterMessage.c\<close> and
  \<open>MqttSnRegAckMessage.c\<close> with their headers.
\<close>

section \<open>PUBLISH\<close>

definition MQTT_SN_MESSAGE_PUBLISH_MIN_LENGTH :: nat where
  [codec_defs]: "MQTT_SN_MESSAGE_PUBLISH_MIN_LENGTH = 2 + 1 + 2 + 2 + 0"

definition MQTT_SN_MESSAGE_PUBLISH_WO_DATA_MAX_LENGTH :: nat where
  [codec_defs]: "MQTT_SN_MESSAGE_PUBLISH_WO_DATA_MAX_LENGTH = 4 + 1 + 2 + 2"

text \<open>The payload pointer of \<open>MqttSnPublish\<close> is the rest of the object it points into.\<close>

record MqttSnPublish =
  pub_dup :: u8
  pub_qos :: int
  pub_retain :: u8
  pub_topic_id_type :: u8
  pub_topic_id :: u16
  pub_msg_id :: u16
  pub_payload :: "u8 list"
  pub_payload_length :: nat

definition parse_publish_header :: "u8 list \<Rightarrow> nat \<Rightarrow> nat \<Rightarrow> (ParsedMqttSnHeader \<times> nat) cres" where
  [codec_defs]: "parse_publish_header src src_len parsed_bytes =
     cbind (parse_header_ok PUBLISH src src_len parsed_bytes) (\<lambda>(h, parsed_bytes).
     if h_length h < MQTT_SN_MESSAGE_PUBLISH_MIN_LENGTH then Inl Fail else Inr (h, parsed_bytes))"

definition parse_publish_flags ::
  "u8 list \<Rightarrow> nat \<Rightarrow> nat \<Rightarrow> (u8 \<times> int \<times> u8 \<times> u8 \<times> nat) cres" where
  [codec_defs]: "parse_publish_flags src_pos src_len parsed_bytes =
     cbind (parse_mqtt_sn_flags src_pos src_len parsed_bytes True True) (\<lambda>(f, parsed_bytes).
     Inr (f_dup f, f_qos f, f_retain f, f_topic_id_type f, parsed_bytes))"

definition parse_publish_topic_id :: "u8 list \<Rightarrow> nat \<Rightarrow> nat \<Rightarrow> int \<Rightarrow> (u16 \<times> nat) cres" where
  [codec_defs]: "parse_publish_topic_id src_pos src_len parsed_bytes qos =
     cbind (parse_mqtt_sn_uint16_byte src_pos src_len parsed_bytes) (\<lambda>(topic_id, parsed_bytes).
     if qos < 0 \<and> topic_id \<noteq> 0 then Inl Fail else Inr (topic_id, parsed_bytes))"

definition parse_publish_msg_id :: "u8 list \<Rightarrow> nat \<Rightarrow> nat \<Rightarrow> (u16 \<times> nat) cres" where
  [codec_defs]: "parse_publish_msg_id src_pos src_len parsed_bytes =
     parse_mqtt_sn_uint16_byte src_pos src_len parsed_bytes"

definition parse_publish_data ::
  "u8 list \<Rightarrow> nat \<Rightarrow> nat \<Rightarrow> u8 list \<Rightarrow> nat \<Rightarrow> (u8 list \<times> nat \<times> nat) cres" where
  [codec_defs]: "parse_publish_data src_pos src_len parsed_bytes data data_max_length =
     parse_mqtt_sn_uint8_until_end_byte src_pos src_len parsed_bytes data data_max_length"

definition parse_publish_byte ::
  "u8 list \<Rightarrow> nat \<Rightarrow> u8 list \<Rightarrow> nat \<Rightarrow> (MqttSnPublish \<times> nat) cres" where
  [codec_defs]: "parse_publish_byte payload payload_max_length data data_len =
     cbind (parse_publish_header data data_len 0) (\<lambda>(h, parsed_bytes).
     cbind (parse_publish_flags (drop parsed_bytes data) data_len parsed_bytes)
       (\<lambda>(dup, qos, retain, topic_id_type, parsed_bytes).
     cbind (parse_publish_topic_id (drop parsed_bytes data) data_len parsed_bytes qos)
       (\<lambda>(topic_id, parsed_bytes).
     cbind (parse_publish_msg_id (drop parsed_bytes data) data_len parsed_bytes)
       (\<lambda>(msg_id, parsed_bytes).
     cbind (parse_publish_data (drop parsed_bytes data) data_len parsed_bytes payload
              payload_max_length)
       (\<lambda>(payload, payload_length, parsed_bytes).
     Inr (\<lparr>pub_dup = dup, pub_qos = qos, pub_retain = retain, pub_topic_id_type = topic_id_type,
           pub_topic_id = topic_id, pub_msg_id = msg_id, pub_payload = payload,
           pub_payload_length = payload_length\<rparr>, parsed_bytes))))))"

definition parse_publish_payload_ptr ::
  "u8 list \<Rightarrow> nat \<Rightarrow> nat \<Rightarrow> (u8 list \<times> nat \<times> nat) cres" where
  [codec_defs]: "parse_publish_payload_ptr src_pos src_len parsed_bytes =
     parse_mqtt_sn_uint8_until_end_byte_ptr src_pos src_len parsed_bytes"

definition parse_publish_byte_payload_ptr :: "u8 list \<Rightarrow> nat \<Rightarrow> (MqttSnPublish \<times> nat) cres" where
  [codec_defs]: "parse_publish_byte_payload_ptr data data_len =
     cbind (parse_publish_header data data_len 0) (\<lambda>(h, parsed_bytes).
     cbind (parse_publish_flags (drop parsed_bytes data) data_len parsed_bytes)
       (\<lambda>(dup, qos, retain, topic_id_type, parsed_bytes).
     cbind (parse_publish_topic_id (drop parsed_bytes data) data_len parsed_bytes qos)
       (\<lambda>(topic_id, parsed_bytes).
     cbind (parse_publish_msg_id (drop parsed_bytes data) data_len parsed_bytes)
       (\<lambda>(msg_id, parsed_bytes).
     cbind (parse_publish_payload_ptr (drop parsed_bytes data) data_len parsed_bytes)
       (\<lambda>(payload, payload_length, parsed_bytes).
     Inr (\<lparr>pub_dup = dup, pub_qos = qos, pub_retain = retain, pub_topic_id_type = topic_id_type,
           pub_topic_id = topic_id, pub_msg_id = msg_id, pub_payload = payload,
           pub_payload_length = payload_length\<rparr>, parsed_bytes))))))"

definition parse_publish :: "u8 list \<Rightarrow> nat \<Rightarrow> (MqttSnPublish \<times> nat) cres" where
  [codec_defs]: "parse_publish data data_len = parse_publish_byte_payload_ptr data data_len"

definition get_publish_msg_len :: "nat \<Rightarrow> int" where
  "get_publish_msg_len data_len =
     (if data_len > 65535 - MQTT_SN_MESSAGE_PUBLISH_WO_DATA_MAX_LENGTH then -1
      else
        let total_length = (MQTT_SN_MESSAGE_PUBLISH_MIN_LENGTH + data_len) mod 65536 in
        if total_length > 255
        then int ((MQTT_SN_MESSAGE_PUBLISH_WO_DATA_MAX_LENGTH + data_len) mod 65536)
        else int total_length)"

definition generate_publish_header ::
  "u8 list \<Rightarrow> nat \<Rightarrow> nat \<Rightarrow> nat \<Rightarrow> nat \<Rightarrow> (int \<times> u8 list \<times> nat) cres" where
  "generate_publish_header dst pos dst_len data_len used_bytes =
     (let total_length = get_publish_msg_len data_len in
      if total_length < 0 \<or> int dst_len < total_length then Inl Fail
      else generate_mqtt_sn_header dst pos dst_len used_bytes (nat total_length) PUBLISH)"

text \<open>The topic id is a \<open>uint32_t\<close> parameter, cut to 16 bits by the call of its writer.\<close>

definition generate_publish ::
  "u8 list \<Rightarrow> nat \<Rightarrow> u8 \<Rightarrow> int \<Rightarrow> u8 \<Rightarrow> u8 \<Rightarrow> 32 word \<Rightarrow> u16 \<Rightarrow> u8 list \<Rightarrow> nat
   \<Rightarrow> (u8 list \<times> nat) cres" where
  "generate_publish dst dst_len dup qos retain topic_id_type topic_id msg_id data data_len =
     cbind (wr_bytes dst 0 (replicate dst_len 0)) (\<lambda>dst.
     cbind (generate_publish_header dst 0 dst_len data_len 0) (\<lambda>(_, dst, used_bytes).
     cbind (generate_flags dst used_bytes dst_len dup qos retain 0 0 topic_id_type used_bytes)
       (\<lambda>(_, dst, used_bytes).
     cbind (generate_topic_id dst used_bytes dst_len (ucast topic_id) used_bytes)
       (\<lambda>(_, dst, used_bytes).
     cbind (generate_msg_id dst used_bytes dst_len msg_id used_bytes)
       (\<lambda>(_, dst, used_bytes).
     cbind (generate_data dst used_bytes dst_len data data_len used_bytes)
       (\<lambda>(_, dst, used_bytes). Inr (dst, used_bytes)))))))"


text \<open>The length of a PUBLISH for a payload of \<open>k\<close> bytes.\<close>

definition publish_total :: "nat \<Rightarrow> nat" where
  "publish_total k = (if 7 + k > 255 then 9 + k else 7 + k)"

lemma get_publish_msg_len_eq:
  "get_publish_msg_len k = (if k \<le> 65526 then int (publish_total k) else -1)"
  by (auto simp: get_publish_msg_len_def publish_total_def Let_def
      MQTT_SN_MESSAGE_PUBLISH_MIN_LENGTH_def MQTT_SN_MESSAGE_PUBLISH_WO_DATA_MAX_LENGTH_def)

lemma publish_total_header: "publish_total k = header_size (publish_total k) + 5 + k"
  by (simp add: publish_total_def)

lemma header_size_le_publish_total: "header_size (publish_total k) \<le> publish_total k"
  by (simp add: publish_total_def)

definition publish_wire :: "MqttSnPublish \<Rightarrow> u8 list" where
  "publish_wire m =
     header_wire (publish_total (pub_payload_length m)) PUBLISH
     @ [flag_byte 0 (pub_dup m) (pub_qos m) (pub_retain m) 0 0 (pub_topic_id_type m),
        hi8 (pub_topic_id m), lo8 (pub_topic_id m), hi8 (pub_msg_id m), lo8 (pub_msg_id m)]
     @ take (pub_payload_length m) (pub_payload m)"

definition publish_wf :: "MqttSnPublish \<Rightarrow> bool" where
  "publish_wf m \<longleftrightarrow> pub_payload_length m \<le> length (pub_payload m)"

definition publish_valid :: "MqttSnPublish \<Rightarrow> bool" where
  "publish_valid m \<longleftrightarrow> wire_flags (pub_qos m) (pub_topic_id_type m) \<and> pub_payload_length m \<le> 65526"

definition publish_readable :: "MqttSnPublish \<Rightarrow> bool" where
  "publish_readable m \<longleftrightarrow> pub_qos m \<noteq> -1 \<and> pub_topic_id_type m \<noteq> 3"

lemma length_publish_wire:
  "publish_wf m \<Longrightarrow> length (publish_wire m) = publish_total (pub_payload_length m)"
  using publish_total_header [of "pub_payload_length m"]
  by (simp add: publish_wire_def publish_wf_def)

lemma memset_cleared [simp]: "patched dst (replicate n 0) = cleared dst n"
  by (simp add: patched_def cleared_def)

lemma cleared_nth: "i < n \<Longrightarrow> n \<le> length dst \<Longrightarrow> cleared dst n ! i = 0"
  by (simp add: cleared_def nth_append)

lemma generate_publish_eq:
  assumes "publish_wf m" "dst_len \<le> length dst"
  shows "generate_publish dst dst_len (pub_dup m) (pub_qos m) (pub_retain m) (pub_topic_id_type m)
      (ucast (pub_topic_id m)) (pub_msg_id m) (pub_payload m) (pub_payload_length m) =
    (if publish_valid m \<and> publish_total (pub_payload_length m) \<le> dst_len
     then Inr (patched (cleared dst dst_len) (publish_wire m), publish_total (pub_payload_length m))
     else Inl Fail)"
proof -
  let ?k = "pub_payload_length m"
  have t: "publish_total ?k = header_size (publish_total ?k) + 5 + ?k"
    by (rule publish_total_header)
  have u: "ucast (ucast (pub_topic_id m) :: 32 word) = pub_topic_id m"
    by (rule bit_eqI) (auto simp: bit_simps dest: bit_imp_le_length)
  show ?thesis
    using assms t header_size_le_publish_total [of ?k]
    by (auto simp: generate_publish_def generate_publish_header_def get_publish_msg_len_eq gen_simps
        publish_wire_def publish_wf_def publish_valid_def u cleared_nth Let_def)
qed

definition publish_view :: "MqttSnPublish \<Rightarrow> u8 \<times> int \<times> u8 \<times> u8 \<times> u16 \<times> u16 \<times> u8 list" where
  "publish_view m = (bool_bit (pub_dup m = 0), pub_qos m, bool_bit (pub_retain m \<noteq> 0),
     pub_topic_id_type m, pub_topic_id m, pub_msg_id m,
     take (pub_payload_length m) (pub_payload m))"

definition publish_fields :: "MqttSnPublish \<Rightarrow> u8 \<times> int \<times> u8 \<times> u8 \<times> u16 \<times> u16 \<times> u8 list" where
  "publish_fields m = (pub_dup m, pub_qos m, pub_retain m, pub_topic_id_type m, pub_topic_id m,
     pub_msg_id m, take (pub_payload_length m) (pub_payload m))"

definition read_publish :: "u8 list \<Rightarrow> nat \<Rightarrow> (u8 \<times> int \<times> u8 \<times> u8 \<times> u16 \<times> u16 \<times> u8 list) cres" where
  "read_publish data n = map_sum id (\<lambda>(m, _). publish_fields m) (parse_publish data n)"

lemma parse_publish_header_wire:
  assumes "publish_valid m"
  shows "parse_publish_header (publish_wire m @ rest) (publish_total (pub_payload_length m)) 0 =
    Inr (plain_header (publish_total (pub_payload_length m)) PUBLISH,
         header_size (publish_total (pub_payload_length m)))"
  using assms
  by (simp add: parse_publish_header_def publish_wire_def parse_header_ok_wire publish_valid_def
      publish_total_def MQTT_SN_MESSAGE_PUBLISH_MIN_LENGTH_def)

lemma parse_publish_wire:
  assumes "publish_wf m" "publish_valid m" "publish_readable m"
  shows "parse_publish (publish_wire m @ rest) (publish_total (pub_payload_length m)) =
    Inr (\<lparr>pub_dup = bool_bit (pub_dup m = 0), pub_qos = pub_qos m,
          pub_retain = bool_bit (pub_retain m \<noteq> 0), pub_topic_id_type = pub_topic_id_type m,
          pub_topic_id = pub_topic_id m, pub_msg_id = pub_msg_id m,
          pub_payload = take (pub_payload_length m) (pub_payload m) @ rest,
          pub_payload_length = pub_payload_length m\<rparr>, publish_total (pub_payload_length m))"
proof -
  let ?k = "pub_payload_length m"
  let ?h = "header_size (publish_total ?k)"
  have t: "publish_total ?k = ?h + (5 + ?k)" "publish_total ?k < 65536"
    using publish_total_header [of ?k] assms(2)
    by (auto simp: publish_total_def publish_valid_def)
  have t': "publish_total ?k - Suc (Suc (Suc (Suc (Suc ?h)))) = ?k"
    "Suc (Suc (Suc (Suc (Suc (publish_total ?k - 5))))) = publish_total ?k"
    using t(1) by arith+
  have q: "pub_qos m mod 4 = pub_qos m" "\<not> pub_qos m < 0"
    using assms(2,3) by (auto simp: publish_valid_def publish_readable_def wire_flags_def)
  define d where "d = publish_wire m @ rest"
  have w: "drop (?h + j) d = drop j ([flag_byte 0 (pub_dup m) (pub_qos m)
      (pub_retain m) 0 0 (pub_topic_id_type m), hi8 (pub_topic_id m), lo8 (pub_topic_id m),
      hi8 (pub_msg_id m), lo8 (pub_msg_id m)] @ take ?k (pub_payload m) @ rest)" for j
    unfolding publish_wire_def append_assoc d_def by (rule drop_header_wire_more)
  have d: "drop ?h d = flag_byte 0 (pub_dup m) (pub_qos m)
      (pub_retain m) 0 0 (pub_topic_id_type m) # drop (Suc ?h) d"
    "drop (Suc ?h) d = hi8 (pub_topic_id m) # lo8 (pub_topic_id m) # drop (Suc (Suc (Suc ?h))) d"
    "drop (Suc (Suc (Suc ?h))) d =
      hi8 (pub_msg_id m) # lo8 (pub_msg_id m) # take ?k (pub_payload m) @ rest"
    "drop (Suc (Suc (Suc (Suc (Suc ?h))))) d = take ?k (pub_payload m) @ rest"
    using w [of 0] w [of "Suc 0"] w [of "Suc (Suc (Suc 0))"]
      w [of "Suc (Suc (Suc (Suc (Suc 0))))"] by simp_all
  note h = parse_publish_header_wire [OF assms(2), of rest]
  show ?thesis
    unfolding parse_publish_def parse_publish_byte_payload_ptr_def h d_def [symmetric]
    using assms t t' q
    by (simp add: parse_publish_flags_def read_flags publish_valid_def publish_readable_def
        parse_publish_topic_id_def parse_publish_msg_id_def parse_publish_payload_ptr_def
        parse_mqtt_sn_uint8_until_end_byte_ptr_def bool_bit_def Let_def h [folded d_def] d)
qed

interpretation publish: wire_format publish_wire publish_wf publish_valid publish_readable
  "\<lambda>_. True" cleared
  "\<lambda>dst n m. map_sum id fst (generate_publish dst n (pub_dup m) (pub_qos m) (pub_retain m)
     (pub_topic_id_type m) (ucast (pub_topic_id m)) (pub_msg_id m) (pub_payload m)
     (pub_payload_length m))"
  publish_view read_publish
  by unfold_locales
    (simp_all add: generate_publish_eq length_publish_wire read_publish_def parse_publish_wire
      publish_view_def publish_fields_def publish_wf_def)

lemma safe_parse_publish:
  assumes "n \<le> length data" "data \<noteq> [1, 0, 3]"
  shows "safe (parse_publish data n)"
  using assms unfolding codec_defs by (intro safe_intros)

lemma safe_parse_publish_byte:
  assumes "n \<le> length data" "data \<noteq> [1, 0, 3]" "cap \<le> length buf"
  shows "safe (parse_publish_byte buf cap data n)"
  using assms unfolding codec_defs
  by (intro safe_intros)
    (auto simp: cbind_eq_Inr split: if_splits dest!: read_progress header_progress)

section \<open>PUBACK\<close>

record MqttSnPuback =
  pa_topicId :: u16
  pa_msgId :: u16
  pa_returnCode :: MQTT_SN_RETURN_CODE

definition MQTT_SN_MESSAGE_PUBACK_LENGTH :: nat where
  [codec_defs]: "MQTT_SN_MESSAGE_PUBACK_LENGTH = 2 + 2 + 2 + 1"

definition parse_puback_header :: "u8 list \<Rightarrow> nat \<Rightarrow> nat \<Rightarrow> (ParsedMqttSnHeader \<times> nat) cres" where
  [codec_defs]: "parse_puback_header data data_len parsed_bytes =
     cbind (parse_header_ok PUBACK data data_len parsed_bytes) (\<lambda>(h, parsed_bytes).
     if h_length h \<noteq> MQTT_SN_MESSAGE_PUBACK_LENGTH then Inl Fail else Inr (h, parsed_bytes))"

definition parse_puback_topic_id :: "u8 list \<Rightarrow> nat \<Rightarrow> nat \<Rightarrow> (u16 \<times> nat) cres" where
  [codec_defs]: "parse_puback_topic_id src_pos src_length parsed_bytes =
     parse_mqtt_sn_uint16_byte src_pos src_length parsed_bytes"

definition parse_puback_msg_id :: "u8 list \<Rightarrow> nat \<Rightarrow> nat \<Rightarrow> (u16 \<times> nat) cres" where
  [codec_defs]: "parse_puback_msg_id src_pos src_length parsed_bytes =
     parse_mqtt_sn_uint16_byte src_pos src_length parsed_bytes"

definition parse_puback_return_code_byte ::
  "u8 list \<Rightarrow> nat \<Rightarrow> nat \<Rightarrow> (MQTT_SN_RETURN_CODE \<times> nat) cres" where
  [codec_defs]: "parse_puback_return_code_byte src_pos src_len parsed_bytes =
     parse_mqtt_sn_return_code_byte src_pos src_len parsed_bytes"

definition parse_puback_bytes ::
  "u8 list \<Rightarrow> nat \<Rightarrow> (u16 \<times> u16 \<times> MQTT_SN_RETURN_CODE \<times> nat) cres" where
  [codec_defs]: "parse_puback_bytes data data_len =
     cbind (parse_puback_header data data_len 0) (\<lambda>(h, parsed_bytes).
     cbind (parse_puback_topic_id (drop parsed_bytes data) data_len parsed_bytes)
       (\<lambda>(topic_id, parsed_bytes).
     cbind (parse_puback_msg_id (drop parsed_bytes data) data_len parsed_bytes)
       (\<lambda>(msg_id, parsed_bytes).
     cbind (parse_puback_return_code_byte (drop parsed_bytes data) data_len parsed_bytes)
       (\<lambda>(return_code, parsed_bytes). Inr (topic_id, msg_id, return_code, parsed_bytes)))))"

definition parse_puback :: "u8 list \<Rightarrow> nat \<Rightarrow> (MqttSnPuback \<times> nat) cres" where
  [codec_defs]: "parse_puback data data_len =
     cbind (parse_puback_bytes data data_len) (\<lambda>(topic_id, msg_id, return_code, rc).
     Inr (\<lparr>pa_topicId = topic_id, pa_msgId = msg_id, pa_returnCode = return_code\<rparr>, rc))"

definition generate_puback_header :: "u8 list \<Rightarrow> nat \<Rightarrow> nat \<Rightarrow> nat \<Rightarrow> (int \<times> u8 list \<times> nat) cres" where
  [codec_defs]: "generate_puback_header dst pos dst_len used_bytes =
     (if dst_len < MQTT_SN_MESSAGE_PUBACK_LENGTH then Inl Fail
      else generate_mqtt_sn_header dst pos dst_len used_bytes MQTT_SN_MESSAGE_PUBACK_LENGTH PUBACK)"

definition generate_puback ::
  "u8 list \<Rightarrow> nat \<Rightarrow> u16 \<Rightarrow> u16 \<Rightarrow> MQTT_SN_RETURN_CODE \<Rightarrow> (u8 list \<times> nat) cres" where
  [codec_defs]: "generate_puback dst dst_len topic_id msg_id return_code =
     cbind (generate_puback_header dst 0 dst_len 0) (\<lambda>(_, dst, used_bytes).
     cbind (generate_topic_id dst used_bytes dst_len topic_id used_bytes)
       (\<lambda>(_, dst, used_bytes).
     cbind (generate_msg_id dst used_bytes dst_len msg_id used_bytes)
       (\<lambda>(_, dst, used_bytes).
     cbind (generate_mqtt_sn_return_code dst used_bytes dst_len return_code used_bytes)
       (\<lambda>(_, dst, used_bytes). Inr (dst, used_bytes)))))"

definition puback_wire :: "MqttSnPuback \<Rightarrow> u8 list" where
  "puback_wire m = header_wire 7 PUBACK
     @ [hi8 (pa_topicId m), lo8 (pa_topicId m), hi8 (pa_msgId m), lo8 (pa_msgId m),
        return_code_byte (pa_returnCode m)]"

lemma length_puback_wire [simp]: "length (puback_wire m) = 7"
  by (simp add: puback_wire_def)

lemma generate_puback_eq:
  assumes "dst_len \<le> length dst"
  shows "generate_puback dst dst_len (pa_topicId m) (pa_msgId m) (pa_returnCode m) =
    (if wire_return_code (pa_returnCode m) \<and> 7 \<le> dst_len
     then Inr (patched dst (puback_wire m), 7) else Inl Fail)"
  using assms by (simp add: codec_defs gen_simps puback_wire_def)

lemma parse_puback_wire:
  "wire_return_code (pa_returnCode m) \<Longrightarrow> parse_puback (puback_wire m @ rest) 7 = Inr (m, 7)"
  by (simp add: codec_defs puback_wire_def parse_header_ok_wire del: header_size_simps) simp

lemma parse_puback_accepts:
  assumes "parse_puback data n = Inr (m, rc)" "n \<le> length data"
  shows "n = 7 \<and> wire_return_code (pa_returnCode m) \<and> take n data = puback_wire m"
  using assms
  by (auto simp: codec_defs cbind_eq_Inr read_uint16_accepts puback_wire_def header_wire_def
      split: if_splits dest!: parse_header_ok_accepts read_return_code_accepts)

interpretation puback: strict_wire_format puback_wire "\<lambda>_. True"
  "\<lambda>m. wire_return_code (pa_returnCode m)" "\<lambda>_. True" "\<lambda>_. True" untouched
  "\<lambda>dst n m. map_sum id fst (generate_puback dst n (pa_topicId m) (pa_msgId m) (pa_returnCode m))"
  "\<lambda>m. m" "\<lambda>data n. map_sum id fst (parse_puback data n)"
  by unfold_locales (use parse_puback_accepts in
    \<open>force simp: generate_puback_eq parse_puback_wire map_sum_fst_eq_Inr\<close>)+

lemma safe_parse_puback:
  "n \<le> length data \<Longrightarrow> data \<noteq> [1, 0, 3] \<Longrightarrow> safe (parse_puback data n)"
  unfolding codec_defs by (intro safe_intros)


section \<open>REGACK\<close>

record MqttSnRegack =
  ra_topic_id :: u16
  ra_msg_id :: u16
  ra_return_code :: MQTT_SN_RETURN_CODE

definition MQTT_SN_MESSAGE_REGACK_LENGTH :: nat where
  [codec_defs]: "MQTT_SN_MESSAGE_REGACK_LENGTH = 2 + 2 + 2 + 1"

definition parse_regack_header :: "u8 list \<Rightarrow> nat \<Rightarrow> nat \<Rightarrow> (ParsedMqttSnHeader \<times> nat) cres" where
  [codec_defs]: "parse_regack_header data data_len parsed_bytes =
     cbind (parse_header_ok REGACK data data_len parsed_bytes) (\<lambda>(h, parsed_bytes).
     if h_length h \<noteq> MQTT_SN_MESSAGE_REGACK_LENGTH then Inl Fail else Inr (h, parsed_bytes))"

definition parse_regack_topic_id :: "u8 list \<Rightarrow> nat \<Rightarrow> nat \<Rightarrow> (u16 \<times> nat) cres" where
  [codec_defs]: "parse_regack_topic_id src_pos src_length parsed_bytes =
     parse_mqtt_sn_uint16_byte src_pos src_length parsed_bytes"

definition parse_regack_msg_id :: "u8 list \<Rightarrow> nat \<Rightarrow> nat \<Rightarrow> (u16 \<times> nat) cres" where
  [codec_defs]: "parse_regack_msg_id src_pos src_length parsed_bytes =
     parse_mqtt_sn_uint16_byte src_pos src_length parsed_bytes"

definition parse_regack_return_code_byte ::
  "u8 list \<Rightarrow> nat \<Rightarrow> nat \<Rightarrow> (MQTT_SN_RETURN_CODE \<times> nat) cres" where
  [codec_defs]: "parse_regack_return_code_byte src_pos src_len parsed_bytes =
     parse_mqtt_sn_return_code_byte src_pos src_len parsed_bytes"

definition parse_regack_bytes ::
  "u8 list \<Rightarrow> nat \<Rightarrow> (u16 \<times> u16 \<times> MQTT_SN_RETURN_CODE \<times> nat) cres" where
  [codec_defs]: "parse_regack_bytes data data_len =
     cbind (parse_regack_header data data_len 0) (\<lambda>(h, parsed_bytes).
     cbind (parse_regack_topic_id (drop parsed_bytes data) data_len parsed_bytes)
       (\<lambda>(topic_id, parsed_bytes).
     cbind (parse_regack_msg_id (drop parsed_bytes data) data_len parsed_bytes)
       (\<lambda>(msg_id, parsed_bytes).
     cbind (parse_regack_return_code_byte (drop parsed_bytes data) data_len parsed_bytes)
       (\<lambda>(return_code, parsed_bytes). Inr (topic_id, msg_id, return_code, parsed_bytes)))))"

definition parse_regack :: "u8 list \<Rightarrow> nat \<Rightarrow> (MqttSnRegack \<times> nat) cres" where
  [codec_defs]: "parse_regack data data_len =
     cbind (parse_regack_bytes data data_len) (\<lambda>(topic_id, msg_id, return_code, rc).
     Inr (\<lparr>ra_topic_id = topic_id, ra_msg_id = msg_id, ra_return_code = return_code\<rparr>, rc))"

definition generate_regack_header :: "u8 list \<Rightarrow> nat \<Rightarrow> nat \<Rightarrow> nat \<Rightarrow> (int \<times> u8 list \<times> nat) cres" where
  [codec_defs]: "generate_regack_header dst pos dst_len used_bytes =
     (if dst_len < MQTT_SN_MESSAGE_REGACK_LENGTH then Inl Fail
      else generate_mqtt_sn_header dst pos dst_len used_bytes MQTT_SN_MESSAGE_REGACK_LENGTH REGACK)"

definition generate_regack ::
  "u8 list \<Rightarrow> nat \<Rightarrow> u16 \<Rightarrow> u16 \<Rightarrow> MQTT_SN_RETURN_CODE \<Rightarrow> (u8 list \<times> nat) cres" where
  [codec_defs]: "generate_regack dst dst_len topic_id msg_id return_code =
     cbind (generate_regack_header dst 0 dst_len 0) (\<lambda>(_, dst, used_bytes).
     cbind (generate_topic_id dst used_bytes dst_len topic_id used_bytes)
       (\<lambda>(_, dst, used_bytes).
     cbind (generate_msg_id dst used_bytes dst_len msg_id used_bytes)
       (\<lambda>(_, dst, used_bytes).
     cbind (generate_mqtt_sn_return_code dst used_bytes dst_len return_code used_bytes)
       (\<lambda>(_, dst, used_bytes). Inr (dst, used_bytes)))))"

definition regack_wire :: "MqttSnRegack \<Rightarrow> u8 list" where
  "regack_wire m = header_wire 7 REGACK
     @ [hi8 (ra_topic_id m), lo8 (ra_topic_id m), hi8 (ra_msg_id m), lo8 (ra_msg_id m),
        return_code_byte (ra_return_code m)]"

lemma length_regack_wire [simp]: "length (regack_wire m) = 7"
  by (simp add: regack_wire_def)

lemma generate_regack_eq:
  assumes "dst_len \<le> length dst"
  shows "generate_regack dst dst_len (ra_topic_id m) (ra_msg_id m) (ra_return_code m) =
    (if wire_return_code (ra_return_code m) \<and> 7 \<le> dst_len
     then Inr (patched dst (regack_wire m), 7) else Inl Fail)"
  using assms by (simp add: codec_defs gen_simps regack_wire_def)

lemma parse_regack_wire:
  "wire_return_code (ra_return_code m) \<Longrightarrow> parse_regack (regack_wire m @ rest) 7 = Inr (m, 7)"
  by (simp add: codec_defs regack_wire_def parse_header_ok_wire del: header_size_simps) simp

lemma parse_regack_accepts:
  assumes "parse_regack data n = Inr (m, rc)" "n \<le> length data"
  shows "n = 7 \<and> wire_return_code (ra_return_code m) \<and> take n data = regack_wire m"
  using assms
  by (auto simp: codec_defs cbind_eq_Inr read_uint16_accepts regack_wire_def header_wire_def
      split: if_splits dest!: parse_header_ok_accepts read_return_code_accepts)

interpretation regack: strict_wire_format regack_wire "\<lambda>_. True"
  "\<lambda>m. wire_return_code (ra_return_code m)" "\<lambda>_. True" "\<lambda>_. True" untouched
  "\<lambda>dst n m. map_sum id fst (generate_regack dst n (ra_topic_id m) (ra_msg_id m) (ra_return_code m))"
  "\<lambda>m. m" "\<lambda>data n. map_sum id fst (parse_regack data n)"
  by unfold_locales (use parse_regack_accepts in
    \<open>force simp: generate_regack_eq parse_regack_wire map_sum_fst_eq_Inr\<close>)+

lemma safe_parse_regack:
  "n \<le> length data \<Longrightarrow> data \<noteq> [1, 0, 3] \<Longrightarrow> safe (parse_regack data n)"
  unfolding codec_defs by (intro safe_intros)


section \<open>PUBREC, PUBREL and PUBCOMP\<close>

definition MQTT_SN_MESSAGE_PUBREC_LENGTH :: nat where
  [codec_defs]: "MQTT_SN_MESSAGE_PUBREC_LENGTH = 2 + 2"

definition parse_pubrec_header :: "u8 list \<Rightarrow> nat \<Rightarrow> nat \<Rightarrow> (ParsedMqttSnHeader \<times> nat) cres" where
  [codec_defs]: "parse_pubrec_header data data_len parsed_bytes =
     cbind (parse_header_ok PUBREC data data_len parsed_bytes) (\<lambda>(h, parsed_bytes).
     if h_length h \<noteq> MQTT_SN_MESSAGE_PUBREC_LENGTH then Inl Fail else Inr (h, parsed_bytes))"

definition parse_pubrec_msg_id :: "u8 list \<Rightarrow> nat \<Rightarrow> nat \<Rightarrow> (u16 \<times> nat) cres" where
  [codec_defs]: "parse_pubrec_msg_id src_pos src_length parsed_bytes =
     parse_mqtt_sn_uint16_byte src_pos src_length parsed_bytes"

definition parse_pubrec_bytes :: "u8 list \<Rightarrow> nat \<Rightarrow> (u16 \<times> nat) cres" where
  [codec_defs]: "parse_pubrec_bytes data data_len =
     cbind (parse_pubrec_header data data_len 0) (\<lambda>(h, parsed_bytes).
     cbind (parse_pubrec_msg_id (drop parsed_bytes data) data_len parsed_bytes)
       (\<lambda>(msg_id, parsed_bytes). Inr (msg_id, parsed_bytes)))"

definition generate_pubrec_header :: "u8 list \<Rightarrow> nat \<Rightarrow> nat \<Rightarrow> nat \<Rightarrow> (int \<times> u8 list \<times> nat) cres" where
  [codec_defs]: "generate_pubrec_header dst pos dst_len used_bytes =
     (if dst_len < MQTT_SN_MESSAGE_PUBREC_LENGTH then Inl Fail
      else generate_mqtt_sn_header dst pos dst_len used_bytes MQTT_SN_MESSAGE_PUBREC_LENGTH PUBREC)"

definition generate_pubrec :: "u8 list \<Rightarrow> nat \<Rightarrow> u16 \<Rightarrow> (u8 list \<times> nat) cres" where
  [codec_defs]: "generate_pubrec dst dst_len msg_id =
     cbind (generate_pubrec_header dst 0 dst_len 0) (\<lambda>(_, dst, used_bytes).
     cbind (generate_msg_id dst used_bytes dst_len msg_id used_bytes)
       (\<lambda>(_, dst, used_bytes). Inr (dst, used_bytes)))"

definition MQTT_SN_MESSAGE_PUBREL_LENGTH :: nat where
  [codec_defs]: "MQTT_SN_MESSAGE_PUBREL_LENGTH = 2 + 2"

definition parse_pubrel_header :: "u8 list \<Rightarrow> nat \<Rightarrow> nat \<Rightarrow> (ParsedMqttSnHeader \<times> nat) cres" where
  [codec_defs]: "parse_pubrel_header data data_len parsed_bytes =
     cbind (parse_header_ok PUBREL data data_len parsed_bytes) (\<lambda>(h, parsed_bytes).
     if h_length h \<noteq> MQTT_SN_MESSAGE_PUBREL_LENGTH then Inl Fail else Inr (h, parsed_bytes))"

definition parse_pubrel_bytes :: "u8 list \<Rightarrow> nat \<Rightarrow> (u16 \<times> nat) cres" where
  [codec_defs]: "parse_pubrel_bytes data data_len =
     cbind (parse_pubrel_header data data_len 0) (\<lambda>(h, parsed_bytes).
     cbind (parse_mqtt_sn_uint16_byte (drop parsed_bytes data) data_len parsed_bytes)
       (\<lambda>(msg_id, parsed_bytes). Inr (msg_id, parsed_bytes)))"

definition generate_pubrel_header :: "u8 list \<Rightarrow> nat \<Rightarrow> nat \<Rightarrow> nat \<Rightarrow> (int \<times> u8 list \<times> nat) cres" where
  [codec_defs]: "generate_pubrel_header dst pos dst_len used_bytes =
     (if dst_len < MQTT_SN_MESSAGE_PUBREL_LENGTH then Inl Fail
      else generate_mqtt_sn_header dst pos dst_len used_bytes MQTT_SN_MESSAGE_PUBREL_LENGTH PUBREL)"

definition generate_pubrel :: "u8 list \<Rightarrow> nat \<Rightarrow> u16 \<Rightarrow> (u8 list \<times> nat) cres" where
  [codec_defs]: "generate_pubrel dst dst_len msg_id =
     cbind (generate_pubrel_header dst 0 dst_len 0) (\<lambda>(_, dst, used_bytes).
     cbind (generate_msg_id dst used_bytes dst_len msg_id used_bytes)
       (\<lambda>(_, dst, used_bytes). Inr (dst, used_bytes)))"

definition MQTT_SN_MESSAGE_PUBCOMP_LENGTH :: nat where
  [codec_defs]: "MQTT_SN_MESSAGE_PUBCOMP_LENGTH = 2 + 2"

definition parse_pubcomp_header :: "u8 list \<Rightarrow> nat \<Rightarrow> nat \<Rightarrow> (ParsedMqttSnHeader \<times> nat) cres" where
  [codec_defs]: "parse_pubcomp_header data data_len parsed_bytes =
     cbind (parse_header_ok PUBCOMP data data_len parsed_bytes) (\<lambda>(h, parsed_bytes).
     if h_length h \<noteq> MQTT_SN_MESSAGE_PUBCOMP_LENGTH then Inl Fail else Inr (h, parsed_bytes))"

definition parse_pubcomp_bytes :: "u8 list \<Rightarrow> nat \<Rightarrow> (u16 \<times> nat) cres" where
  [codec_defs]: "parse_pubcomp_bytes data data_len =
     cbind (parse_pubcomp_header data data_len 0) (\<lambda>(h, parsed_bytes).
     cbind (parse_mqtt_sn_uint16_byte (drop parsed_bytes data) data_len parsed_bytes)
       (\<lambda>(msg_id, parsed_bytes). Inr (msg_id, parsed_bytes)))"

definition generate_pubcomp_header :: "u8 list \<Rightarrow> nat \<Rightarrow> nat \<Rightarrow> nat \<Rightarrow> (int \<times> u8 list \<times> nat) cres" where
  [codec_defs]: "generate_pubcomp_header dst pos dst_len used_bytes =
     (if dst_len < MQTT_SN_MESSAGE_PUBCOMP_LENGTH then Inl Fail
      else generate_mqtt_sn_header dst pos dst_len used_bytes MQTT_SN_MESSAGE_PUBCOMP_LENGTH PUBCOMP)"

definition generate_pubcomp :: "u8 list \<Rightarrow> nat \<Rightarrow> u16 \<Rightarrow> (u8 list \<times> nat) cres" where
  [codec_defs]: "generate_pubcomp dst dst_len msg_id =
     cbind (generate_pubcomp_header dst 0 dst_len 0) (\<lambda>(_, dst, used_bytes).
     cbind (generate_msg_id dst used_bytes dst_len msg_id used_bytes)
       (\<lambda>(_, dst, used_bytes). Inr (dst, used_bytes)))"

text \<open>The three messages share their layout, a header and a message id.\<close>

definition msg_id_wire :: "MQTT_SN_MESSAGE_TYPE \<Rightarrow> u16 \<Rightarrow> u8 list" where
  "msg_id_wire t w = header_wire 4 t @ [hi8 w, lo8 w]"

lemma length_msg_id_wire [simp]: "length (msg_id_wire t w) = 4"
  by (simp add: msg_id_wire_def)

definition read_msg_id :: "MQTT_SN_MESSAGE_TYPE \<Rightarrow> u8 list \<Rightarrow> nat \<Rightarrow> u16 cres" where
  "read_msg_id t data n =
     cbind (parse_header_ok t data n 0) (\<lambda>(h, pb).
     if h_length h \<noteq> 4 then Inl Fail
     else cbind (parse_mqtt_sn_uint16_byte (drop pb data) n pb) (\<lambda>(w, _). Inr w))"

lemma read_msg_id_wire: "wire_type t \<Longrightarrow> read_msg_id t (msg_id_wire t w @ rest) 4 = Inr w"
  by (simp add: read_msg_id_def msg_id_wire_def parse_header_ok_wire del: header_size_simps) simp

lemma read_msg_id_accepts:
  assumes "read_msg_id t data n = Inr w" "n \<le> length data" "t \<noteq> ENCAPSULATED_MESSAGE"
    "t \<noteq> ANY_MESSAGE_TYPE"
  shows "n = 4 \<and> take n data = msg_id_wire t w"
  using assms
  by (auto simp: read_msg_id_def msg_id_wire_def cbind_eq_Inr read_uint16_accepts header_wire_def
      split: if_splits dest!: parse_header_ok_accepts)

lemma map_sum_cbind: "map_sum id g (cbind r f) = cbind r (\<lambda>x. map_sum id g (f x))"
  by (cases r) auto

lemma generate_pubrec_eq:
  assumes "dst_len \<le> length dst"
  shows "generate_pubrec dst dst_len w =
    (if 4 \<le> dst_len then Inr (patched dst (msg_id_wire PUBREC w), 4) else Inl Fail)"
  using assms by (simp add: codec_defs gen_simps msg_id_wire_def)

lemma parse_pubrec_eq: "map_sum id fst (parse_pubrec_bytes data n) = read_msg_id PUBREC data n"
  by (auto simp: codec_defs read_msg_id_def map_sum_cbind cbind_assoc split_def intro!: cbind_cong)

interpretation pubrec: strict_wire_format "msg_id_wire PUBREC" "\<lambda>_. True" "\<lambda>_. True" "\<lambda>_. True"
  "\<lambda>_. True" untouched "\<lambda>dst n w. map_sum id fst (generate_pubrec dst n w)"
  "\<lambda>w. w" "\<lambda>data n. map_sum id fst (parse_pubrec_bytes data n)"
  by unfold_locales (use read_msg_id_accepts in
    \<open>force simp: generate_pubrec_eq parse_pubrec_eq read_msg_id_wire\<close>)+

lemma generate_pubrel_eq:
  assumes "dst_len \<le> length dst"
  shows "generate_pubrel dst dst_len w =
    (if 4 \<le> dst_len then Inr (patched dst (msg_id_wire PUBREL w), 4) else Inl Fail)"
  using assms by (simp add: codec_defs gen_simps msg_id_wire_def)

lemma parse_pubrel_eq: "map_sum id fst (parse_pubrel_bytes data n) = read_msg_id PUBREL data n"
  by (auto simp: codec_defs read_msg_id_def map_sum_cbind cbind_assoc split_def intro!: cbind_cong)

interpretation pubrel: strict_wire_format "msg_id_wire PUBREL" "\<lambda>_. True" "\<lambda>_. True" "\<lambda>_. True"
  "\<lambda>_. True" untouched "\<lambda>dst n w. map_sum id fst (generate_pubrel dst n w)"
  "\<lambda>w. w" "\<lambda>data n. map_sum id fst (parse_pubrel_bytes data n)"
  by unfold_locales (use read_msg_id_accepts in
    \<open>force simp: generate_pubrel_eq parse_pubrel_eq read_msg_id_wire\<close>)+

lemma generate_pubcomp_eq:
  assumes "dst_len \<le> length dst"
  shows "generate_pubcomp dst dst_len w =
    (if 4 \<le> dst_len then Inr (patched dst (msg_id_wire PUBCOMP w), 4) else Inl Fail)"
  using assms by (simp add: codec_defs gen_simps msg_id_wire_def)

lemma parse_pubcomp_eq: "map_sum id fst (parse_pubcomp_bytes data n) = read_msg_id PUBCOMP data n"
  by (auto simp: codec_defs read_msg_id_def map_sum_cbind cbind_assoc split_def intro!: cbind_cong)

interpretation pubcomp: strict_wire_format "msg_id_wire PUBCOMP" "\<lambda>_. True" "\<lambda>_. True" "\<lambda>_. True"
  "\<lambda>_. True" untouched "\<lambda>dst n w. map_sum id fst (generate_pubcomp dst n w)"
  "\<lambda>w. w" "\<lambda>data n. map_sum id fst (parse_pubcomp_bytes data n)"
  by unfold_locales (use read_msg_id_accepts in
    \<open>force simp: generate_pubcomp_eq parse_pubcomp_eq read_msg_id_wire\<close>)+

lemma safe_parse_msg_ids:
  assumes "n \<le> length data" "data \<noteq> [1, 0, 3]"
  shows "safe (parse_pubrec_bytes data n) \<and> safe (parse_pubrel_bytes data n)
    \<and> safe (parse_pubcomp_bytes data n)"
  using assms unfolding codec_defs by (intro conjI safe_intros)


section \<open>REGISTER\<close>

definition MQTT_SN_MESSAGE_REGISTER_MIN_LENGTH :: nat where
  [codec_defs]: "MQTT_SN_MESSAGE_REGISTER_MIN_LENGTH = 2 + 2 + 2 + 1"

definition MQTT_SN_MESSAGE_REGISTER_WO_TOPICNAME_MAX_LENGTH :: nat where
  [codec_defs]: "MQTT_SN_MESSAGE_REGISTER_WO_TOPICNAME_MAX_LENGTH = 4 + 2 + 2"

definition MQTT_SN_MESSAGE_REGISTER_TOPICNAME_MAX_LENGTH :: nat where
  [codec_defs]: "MQTT_SN_MESSAGE_REGISTER_TOPICNAME_MAX_LENGTH =
     65535 - MQTT_SN_MESSAGE_REGISTER_WO_TOPICNAME_MAX_LENGTH"

definition parse_register_header :: "u8 list \<Rightarrow> nat \<Rightarrow> nat \<Rightarrow> (ParsedMqttSnHeader \<times> nat) cres" where
  [codec_defs]: "parse_register_header data data_len parsed_bytes =
     cbind (parse_header_ok REGISTER data data_len parsed_bytes) (\<lambda>(h, parsed_bytes).
     if h_length h < MQTT_SN_MESSAGE_REGISTER_MIN_LENGTH then Inl Fail else Inr (h, parsed_bytes))"

definition parse_register_topic_id :: "u8 list \<Rightarrow> nat \<Rightarrow> nat \<Rightarrow> (u16 \<times> nat) cres" where
  [codec_defs]: "parse_register_topic_id src_pos src_length parsed_bytes =
     parse_mqtt_sn_uint16_byte src_pos src_length parsed_bytes"

definition parse_register_msg_id :: "u8 list \<Rightarrow> nat \<Rightarrow> nat \<Rightarrow> (u16 \<times> nat) cres" where
  [codec_defs]: "parse_register_msg_id src_pos src_length parsed_bytes =
     parse_mqtt_sn_uint16_byte src_pos src_length parsed_bytes"

definition parse_register_topic_name ::
  "u8 list \<Rightarrow> nat \<Rightarrow> nat \<Rightarrow> u8 list \<Rightarrow> nat \<Rightarrow> (u8 list \<times> nat \<times> nat) cres" where
  [codec_defs]: "parse_register_topic_name src_pos src_len parsed_bytes topic_name
       topic_name_max_length =
     (let topic_name_max_length =
        (if topic_name_max_length > MQTT_SN_MESSAGE_REGISTER_TOPICNAME_MAX_LENGTH
         then MQTT_SN_MESSAGE_REGISTER_TOPICNAME_MAX_LENGTH else topic_name_max_length) in
      parse_mqtt_sn_char_until_end_byte src_pos src_len parsed_bytes topic_name
        topic_name_max_length)"

definition parse_register_byte ::
  "u8 list \<Rightarrow> nat \<Rightarrow> u8 list \<Rightarrow> nat \<Rightarrow> (u16 \<times> u16 \<times> u8 list \<times> nat) cres" where
  [codec_defs]: "parse_register_byte topic_name max_topic_name_length data data_len =
     cbind (parse_register_header data data_len 0) (\<lambda>(h, parsed_bytes).
     cbind (parse_register_topic_id (drop parsed_bytes data) data_len parsed_bytes)
       (\<lambda>(topic_id, parsed_bytes).
     cbind (parse_register_msg_id (drop parsed_bytes data) data_len parsed_bytes)
       (\<lambda>(msg_id, parsed_bytes).
     cbind (parse_register_topic_name (drop parsed_bytes data) data_len parsed_bytes topic_name
              max_topic_name_length)
       (\<lambda>(topic_name, topic_name_length, parsed_bytes).
     Inr (topic_id, msg_id, topic_name, topic_name_length)))))"

definition generate_register_header ::
  "u8 list \<Rightarrow> nat \<Rightarrow> nat \<Rightarrow> nat \<Rightarrow> nat \<Rightarrow> (int \<times> u8 list \<times> nat) cres" where
  "generate_register_header dst pos dst_len data_len used_bytes =
     (let total_length = (MQTT_SN_MESSAGE_REGISTER_MIN_LENGTH + data_len) mod 65536;
          total_length =
            (if total_length > 255
             then (MQTT_SN_MESSAGE_REGISTER_WO_TOPICNAME_MAX_LENGTH + data_len) mod 65536
             else total_length) in
      if dst_len < total_length then Inl Fail
      else generate_mqtt_sn_header dst pos dst_len used_bytes total_length REGISTER)"

definition generate_register ::
  "u8 list \<Rightarrow> nat \<Rightarrow> u16 \<Rightarrow> u16 \<Rightarrow> u8 list \<Rightarrow> nat \<Rightarrow> (u8 list \<times> nat) cres" where
  "generate_register dst dst_len topic_id msg_id topic_name topic_name_len =
     cbind (generate_register_header dst 0 dst_len topic_name_len 0) (\<lambda>(_, dst, used_bytes).
     cbind (generate_topic_id dst used_bytes dst_len topic_id used_bytes)
       (\<lambda>(_, dst, used_bytes).
     cbind (generate_msg_id dst used_bytes dst_len msg_id used_bytes)
       (\<lambda>(_, dst, used_bytes).
     cbind (generate_string dst used_bytes dst_len topic_name topic_name_len used_bytes)
       (\<lambda>(_, dst, used_bytes). Inr (dst, used_bytes)))))"

definition get_register_msg_len :: "nat \<Rightarrow> int" where
  "get_register_msg_len topic_name_len =
     (if topic_name_len > 65535 - MQTT_SN_MESSAGE_REGISTER_WO_TOPICNAME_MAX_LENGTH then -1
      else
        let total_length = (MQTT_SN_MESSAGE_REGISTER_MIN_LENGTH + topic_name_len) mod 65536 in
        if total_length > 255
        then int ((MQTT_SN_MESSAGE_REGISTER_WO_TOPICNAME_MAX_LENGTH + topic_name_len) mod 65536)
        else int total_length)"

text \<open>
  The arguments of \<open>generate_register\<close>. The minimum length of the source counts one byte of topic
  name, so the length field of the short form, for names of up to 248 bytes, is one more than the
  bytes of the message; the long form has the right length.
\<close>

record register_args =
  reg_topic_id :: u16
  reg_msg_id :: u16
  reg_topic_name :: "u8 list"
  reg_topic_name_len :: nat

definition register_body :: "register_args \<Rightarrow> u8 list" where
  "register_body m = [hi8 (reg_topic_id m), lo8 (reg_topic_id m), hi8 (reg_msg_id m),
     lo8 (reg_msg_id m)] @ take (reg_topic_name_len m) (reg_topic_name m)"

definition register_wire :: "register_args \<Rightarrow> u8 list" where
  "register_wire m =
     (if reg_topic_name_len m \<le> 248 then header_wire (7 + reg_topic_name_len m) REGISTER
      else header_wire (8 + reg_topic_name_len m) REGISTER) @ register_body m"

definition register_wf :: "register_args \<Rightarrow> bool" where
  "register_wf m \<longleftrightarrow> reg_topic_name_len m \<le> length (reg_topic_name m)
     \<and> reg_topic_name_len m \<le> 65527"

lemma length_register_wire:
  "register_wf m \<Longrightarrow> length (register_wire m) =
     (if reg_topic_name_len m \<le> 248 then 6 else 8) + reg_topic_name_len m"
  by (simp add: register_wire_def register_body_def register_wf_def)

lemma generate_register_eq:
  assumes "register_wf m" "dst_len \<le> length dst"
  shows "generate_register dst dst_len (reg_topic_id m) (reg_msg_id m) (reg_topic_name m)
      (reg_topic_name_len m) =
    (if (if reg_topic_name_len m \<le> 248 then 7 else 8) + reg_topic_name_len m \<le> dst_len
     then Inr (patched dst (register_wire m), length (register_wire m)) else Inl Fail)"
proof -
  have l: "reg_topic_name_len m \<le> length (reg_topic_name m)"
    using assms(1) by (simp add: register_wf_def)
  show ?thesis
  proof (cases "reg_topic_name_len m \<le> 248")
    case True
    then show ?thesis
      using assms l
      by (simp add: generate_register_def generate_register_header_def gen_simps register_wire_def
          register_body_def codec_defs)
  next
    case False
    then show ?thesis
      using assms l
      by (simp add: generate_register_def generate_register_header_def gen_simps register_wire_def
          register_body_def codec_defs register_wf_def)
  qed
qed

text \<open>A name of up to 248 bytes yields a message the reader rejects, whatever follows it.\<close>

lemma parse_register_short:
  assumes "register_wf m" "reg_topic_name_len m \<le> 248"
  shows "parse_register_byte buf cap (register_wire m @ rest) (length (register_wire m)) = Inl Fail"
proof -
  let ?n = "reg_topic_name_len m"
  have n: "length (register_wire m) = 6 + ?n" "of_nat (7 + ?n) \<noteq> (1 :: u8)"
    "unat (of_nat (7 + ?n) :: u8) = 7 + ?n"
    using assms length_register_wire [of m] of_nat_u8_not_one [of "7 + ?n"]
      unat_u8_of_nat [of "7 + ?n"] by simp_all
  then show ?thesis
    using assms
    by (simp add: parse_register_byte_def parse_register_header_def parse_header_ok_def header_defs
        register_wire_def header_wire_def Let_def)
qed

definition register_readable :: "register_args \<Rightarrow> bool" where
  "register_readable m \<longleftrightarrow> 249 \<le> reg_topic_name_len m"

definition register_view :: "register_args \<Rightarrow> u16 \<times> u16 \<times> u8 list \<times> nat" where
  "register_view m = (reg_topic_id m, reg_msg_id m,
     c_string (take (reg_topic_name_len m) (reg_topic_name m)), reg_topic_name_len m)"

definition read_register :: "u8 list \<Rightarrow> u8 list \<Rightarrow> nat \<Rightarrow> (u16 \<times> u16 \<times> u8 list \<times> nat) cres" where
  "read_register buf data n =
     map_sum id (\<lambda>(tid, mid, name, len). (tid, mid, c_string name, len))
       (parse_register_byte buf (length buf) data n)"

text \<open>A name in the long form is reached whatever the buffer is.\<close>

lemma parse_register_long:
  assumes "register_wf m" "register_readable m"
  shows "parse_register_byte buf cap (register_wire m @ rest) (8 + reg_topic_name_len m) =
    cbind (parse_register_topic_name (take (reg_topic_name_len m) (reg_topic_name m) @ rest)
             (8 + reg_topic_name_len m) 8 buf cap)
      (\<lambda>(topic_name, topic_name_length, _). Inr (reg_topic_id m, reg_msg_id m, topic_name, topic_name_length))"
proof -
  let ?n = "reg_topic_name_len m"
  let ?name = "take ?n (reg_topic_name m)"
  have n: "249 \<le> ?n" "?n \<le> 65527" "length ?name = ?n"
    using assms by (auto simp: register_wf_def register_readable_def)
  have w: "register_wire m @ rest = header_wire (8 + ?n) REGISTER @ hi8 (reg_topic_id m)
      # lo8 (reg_topic_id m) # hi8 (reg_msg_id m) # lo8 (reg_msg_id m) # ?name @ rest"
    using n by (simp add: register_wire_def register_body_def)
  define d where "d = register_wire m @ rest"
  have h: "parse_register_header d (8 + ?n) 0 = Inr (plain_header (8 + ?n) REGISTER, 4)"
    using n unfolding d_def w
    by (simp add: parse_register_header_def parse_header_ok_wire MQTT_SN_MESSAGE_REGISTER_MIN_LENGTH_def)
  have dr: "drop 4 d = hi8 (reg_topic_id m) # lo8 (reg_topic_id m) # drop 6 d"
    "drop 6 d = hi8 (reg_msg_id m) # lo8 (reg_msg_id m) # drop 8 d" "drop 8 d = ?name @ rest"
    using n unfolding d_def w by (simp_all add: header_wire_long)
  show ?thesis
    using n unfolding d_def [symmetric]
    by (simp add: parse_register_byte_def h dr parse_register_topic_id_def parse_register_msg_id_def)
qed

lemma parse_register_wire:
  assumes "register_wf m" "register_readable m" "reg_topic_name_len m < length buf"
  shows "parse_register_byte buf (length buf) (register_wire m @ rest) (8 + reg_topic_name_len m) =
    Inr (reg_topic_id m, reg_msg_id m,
         patched buf (c_string (take (reg_topic_name_len m) (reg_topic_name m)) @ [0]),
         reg_topic_name_len m)"
proof -
  let ?n = "reg_topic_name_len m"
  let ?name = "take ?n (reg_topic_name m)"
  have n: "249 \<le> ?n" "?n \<le> 65527" "length ?name = ?n" "?name \<noteq> []"
    using assms by (auto simp: register_wf_def register_readable_def)
  have chars: "parse_mqtt_sn_char_until_end_byte (?name @ rest) (8 + ?n) 8 buf c =
      Inr (patched buf (c_string ?name @ [0]), ?n, 8 + ?n)" if "?n \<le> c" for c
    using n that assms(3) length_c_string_le [of ?name] by (subst read_chars) auto
  show ?thesis
    using n assms(3) unfolding parse_register_long [OF assms(1,2)]
    by (simp add: parse_register_topic_name_def chars Let_def MQTT_SN_MESSAGE_REGISTER_TOPICNAME_MAX_LENGTH_def
        MQTT_SN_MESSAGE_REGISTER_WO_TOPICNAME_MAX_LENGTH_def)
qed

text \<open>A name that fills the buffer leaves no room for its terminator.\<close>

lemma parse_register_overruns:
  assumes "register_wf m" "reg_topic_name_len m = 255" "0 \<notin> set (take 255 (reg_topic_name m))" "length buf = 255"
  shows "parse_register_byte buf 255 (register_wire m @ rest) 263 = Inl Fault"
proof -
  let ?name = "take 255 (reg_topic_name m)"
  have n: "length ?name = 255" "register_readable m"
    using assms(1,2) by (auto simp: register_wf_def register_readable_def)
  have "takeWhile (\<lambda>c. c \<noteq> 0) ?name = ?name"
    using assms(3) by (subst takeWhile_eq_all_conv) metis
  then show ?thesis
    using parse_register_long [OF assms(1) n(2), of buf 255 rest] assms(2,4) n(1)
    by (simp add: parse_register_topic_name_def parse_mqtt_sn_char_until_end_byte_def u16_sub_def strncat_empty_def
        Let_def MQTT_SN_MESSAGE_REGISTER_TOPICNAME_MAX_LENGTH_def wr_bytes_def
        MQTT_SN_MESSAGE_REGISTER_WO_TOPICNAME_MAX_LENGTH_def)
qed

text \<open>The contract holds for the long form, with a buffer that takes every name.\<close>

interpretation register_msg: wire_format register_wire
  "\<lambda>m. register_wf m \<and> register_readable m" "\<lambda>_. True" "\<lambda>_. True" "\<lambda>_. True" untouched
  "\<lambda>dst n m. map_sum id fst (generate_register dst n (reg_topic_id m) (reg_msg_id m)
     (reg_topic_name m) (reg_topic_name_len m))"
  register_view "read_register name_buffer"
proof unfold_locales
  fix m rest
  assume m: "register_wf m \<and> register_readable m"
  then have "reg_topic_name_len m < length name_buffer"
    by (simp add: length_name_buffer register_wf_def)
  then show "read_register name_buffer (register_wire m @ rest) (length (register_wire m)) =
      Inr (register_view m)"
    using m parse_register_wire [of m name_buffer rest]
    by (simp add: read_register_def register_view_def length_register_wire register_readable_def)
qed (auto simp: generate_register_eq length_register_wire register_readable_def)

lemma safe_parse_register:
  assumes "n \<le> length data" "data \<noteq> [1, 0, 3]" "cap < length buf"
  shows "safe (parse_register_byte buf cap data n)"
  using assms unfolding codec_defs
  by (intro safe_intros)
    (auto simp: cbind_eq_Inr Let_def split: if_splits
      dest!: read_progress header_progress intro!: safe_intros)

end
