(* ===== verification/Msg_Will.thy ===== *)
theory Msg_Will
  imports Wire_Format
begin

text \<open>
  The will messages: \<open>src/parser/MqttSnWillTopicReq.c\<close>, \<open>MqttSnWillTopicMessage.c\<close>,
  \<open>MqttSnWillMsgReqMessage.c\<close>, \<open>MqttSnWillMsgMessage.c\<close>, \<open>MqttSnWillTopicUpdMessage.c\<close>,
  \<open>MqttSnWillMsgUpdMessage.c\<close>, \<open>MqttSnWillTopicRespMessage.c\<close> and \<open>MqttSnWillMsgRespMessage.c\<close>. All of
  them but WILLTOPIC and WILLMSG continue with the count 0 after the header, because of the precedence
  of the comparison in \<open>parsed_bytes = ... < 0\<close>; the two response readers take their source at
  \<open>data + data_len\<close>.
\<close>

section \<open>WILLTOPICREQ and WILLMSGREQ\<close>

definition MQTT_SN_MESSAGE_WILLTOPICREQ_LENGTH :: nat where
  [codec_defs]: "MQTT_SN_MESSAGE_WILLTOPICREQ_LENGTH = 2"

definition parse_will_topic_req_header :: "u8 list \<Rightarrow> nat \<Rightarrow> nat \<Rightarrow> (ParsedMqttSnHeader \<times> nat) cres" where
  [codec_defs]: "parse_will_topic_req_header data data_len parsed_bytes =
     cbind (parse_header_ok WILLTOPICREQ data data_len parsed_bytes) (\<lambda>(h, parsed_bytes).
     if h_length h \<noteq> MQTT_SN_MESSAGE_WILLTOPICREQ_LENGTH then Inl Fail else Inr (h, parsed_bytes))"

definition parse_will_topic_req_byte :: "u8 list \<Rightarrow> nat \<Rightarrow> nat cres" where
  [codec_defs]: "parse_will_topic_req_byte data data_len =
     cbind (parse_will_topic_req_header data data_len 0) (\<lambda>_. let parsed_bytes = 0 in Inr parsed_bytes)"

definition MQTT_SN_MESSAGE_WILLMSGREQ_LENGTH :: nat where
  [codec_defs]: "MQTT_SN_MESSAGE_WILLMSGREQ_LENGTH = 2"

definition parse_will_msg_req_header :: "u8 list \<Rightarrow> nat \<Rightarrow> nat \<Rightarrow> (ParsedMqttSnHeader \<times> nat) cres" where
  [codec_defs]: "parse_will_msg_req_header data data_len parsed_bytes =
     cbind (parse_header_ok WILLMSGREQ data data_len parsed_bytes) (\<lambda>(h, parsed_bytes).
     if h_length h \<noteq> MQTT_SN_MESSAGE_WILLMSGREQ_LENGTH then Inl Fail else Inr (h, parsed_bytes))"

definition parse_will_msg_req_byte :: "u8 list \<Rightarrow> nat \<Rightarrow> nat cres" where
  [codec_defs]: "parse_will_msg_req_byte data data_len =
     cbind (parse_will_msg_req_header data data_len 0) (\<lambda>_. let parsed_bytes = 0 in Inr parsed_bytes)"

lemma parse_will_req_wire:
  "parse_will_topic_req_byte (header_wire 2 WILLTOPICREQ @ rest) 2 = Inr 0"
  "parse_will_msg_req_byte (header_wire 2 WILLMSGREQ @ rest) 2 = Inr 0"
  using parse_header_ok_wire [of WILLTOPICREQ 2 WILLTOPICREQ rest 0]
    parse_header_ok_wire [of WILLMSGREQ 2 WILLMSGREQ rest 0]
  by (simp_all add: codec_defs Let_def)

lemma safe_parse_will_req:
  assumes "n \<le> length data" "data \<noteq> [1, 0, 3]"
  shows "safe (parse_will_topic_req_byte data n) \<and> safe (parse_will_msg_req_byte data n)"
  using assms unfolding codec_defs Let_def by (intro conjI safe_intros)

section \<open>WILLTOPIC\<close>

definition MQTT_SN_MESSAGE_WILLTOPIC_MIN_LENGTH :: nat where
  [codec_defs]: "MQTT_SN_MESSAGE_WILLTOPIC_MIN_LENGTH = 2 + 1 + 0"

definition MQTT_SN_MESSAGE_WILLTOPIC_WO_WILLTOPIC_MAX_LENGTH :: nat where
  [codec_defs]: "MQTT_SN_MESSAGE_WILLTOPIC_WO_WILLTOPIC_MAX_LENGTH = 4 + 1"

definition MQTT_SN_MESSAGE_WILLTOPIC_WILLTOPIC_MAX_LENGTH :: nat where
  [codec_defs]: "MQTT_SN_MESSAGE_WILLTOPIC_WILLTOPIC_MAX_LENGTH =
     65535 - MQTT_SN_MESSAGE_WILLTOPIC_WO_WILLTOPIC_MAX_LENGTH"

definition parse_will_topic_header :: "u8 list \<Rightarrow> nat \<Rightarrow> nat \<Rightarrow> (ParsedMqttSnHeader \<times> nat) cres" where
  [codec_defs]: "parse_will_topic_header data data_len parsed_bytes =
     cbind (parse_header_ok WILLTOPIC data data_len parsed_bytes) (\<lambda>(h, parsed_bytes).
     if h_length h < MQTT_SN_MESSAGE_WILLTOPIC_MIN_LENGTH then Inl Fail else Inr (h, parsed_bytes))"

definition parse_will_topic_flags :: "u8 list \<Rightarrow> nat \<Rightarrow> nat \<Rightarrow> (int \<times> u8 \<times> nat) cres" where
  [codec_defs]: "parse_will_topic_flags src_pos src_len parsed_bytes =
     cbind (parse_mqtt_sn_flags src_pos src_len parsed_bytes True False) (\<lambda>(f, parsed_bytes).
     Inr (f_qos f, f_retain f, parsed_bytes))"

definition parse_will_topic_will_topic ::
  "u8 list \<Rightarrow> nat \<Rightarrow> nat \<Rightarrow> u8 list \<Rightarrow> nat \<Rightarrow> (u8 list \<times> nat \<times> nat) cres" where
  [codec_defs]: "parse_will_topic_will_topic src_pos src_len parsed_bytes will_topic
       will_topic_max_length =
     (let will_topic_max_length =
        (if will_topic_max_length > MQTT_SN_MESSAGE_WILLTOPIC_WILLTOPIC_MAX_LENGTH
         then MQTT_SN_MESSAGE_WILLTOPIC_WILLTOPIC_MAX_LENGTH else will_topic_max_length) in
      parse_mqtt_sn_char_until_end_byte src_pos src_len parsed_bytes will_topic
        will_topic_max_length)"

definition parse_will_topic_byte ::
  "u8 list \<Rightarrow> nat \<Rightarrow> u8 list \<Rightarrow> nat \<Rightarrow> (int \<times> u8 \<times> u8 list \<times> nat \<times> nat) cres" where
  [codec_defs]: "parse_will_topic_byte will_topic will_topic_max_length data data_len =
     cbind (parse_will_topic_header data data_len 0) (\<lambda>(h, parsed_bytes).
     cbind (parse_will_topic_flags (drop parsed_bytes data) data_len parsed_bytes)
       (\<lambda>(qos, retain, parsed_bytes).
     cbind (parse_will_topic_will_topic (drop parsed_bytes data) data_len parsed_bytes will_topic
              will_topic_max_length)
       (\<lambda>(will_topic, will_topic_length, parsed_bytes).
     Inr (qos, retain, will_topic, will_topic_length, parsed_bytes))))"

definition get_will_topic_msg_len :: "nat \<Rightarrow> int" where
  "get_will_topic_msg_len data_len =
     (if data_len > 65535 - MQTT_SN_MESSAGE_WILLTOPIC_WO_WILLTOPIC_MAX_LENGTH then -1
      else
        let total_length = (MQTT_SN_MESSAGE_WILLTOPIC_MIN_LENGTH + data_len) mod 65536 in
        if total_length > 255
        then int ((MQTT_SN_MESSAGE_WILLTOPIC_WO_WILLTOPIC_MAX_LENGTH + data_len) mod 65536)
        else int total_length)"

definition generate_will_topic_header ::
  "u8 list \<Rightarrow> nat \<Rightarrow> nat \<Rightarrow> nat \<Rightarrow> nat \<Rightarrow> (int \<times> u8 list \<times> nat) cres" where
  "generate_will_topic_header dst pos dst_len data_len used_bytes =
     (let total_length = get_will_topic_msg_len data_len in
      if total_length < 0 \<or> int dst_len < total_length then Inl Fail
      else generate_mqtt_sn_header dst pos dst_len used_bytes (nat total_length) WILLTOPIC)"

definition generate_will_topic ::
  "u8 list \<Rightarrow> nat \<Rightarrow> int \<Rightarrow> u8 \<Rightarrow> u8 list \<Rightarrow> nat \<Rightarrow> (u8 list \<times> nat) cres" where
  "generate_will_topic dst dst_len will_qos will_retain will_topic will_topic_length =
     cbind (generate_will_topic_header dst 0 dst_len will_topic_length 0) (\<lambda>(_, dst, used_bytes).
     cbind (generate_flags dst used_bytes dst_len 0 will_qos will_retain 0 0 0 used_bytes)
       (\<lambda>(_, dst, used_bytes).
     cbind (generate_string dst used_bytes dst_len will_topic will_topic_length used_bytes)
       (\<lambda>(_, dst, used_bytes). Inr (dst, used_bytes))))"

record will_topic_args =
  wt_qos :: int
  wt_retain :: u8
  wt_topic :: "u8 list"
  wt_topic_length :: nat

definition will_topic_wire :: "will_topic_args \<Rightarrow> u8 list" where
  "will_topic_wire m = header_wire (var_total 3 (wt_topic_length m)) WILLTOPIC
     @ flag_byte 0 0 (wt_qos m) (wt_retain m) 0 0 0 # take (wt_topic_length m) (wt_topic m)"

definition will_topic_wf :: "will_topic_args \<Rightarrow> bool" where
  "will_topic_wf m \<longleftrightarrow> wt_topic_length m \<le> length (wt_topic m)"

definition will_topic_valid :: "will_topic_args \<Rightarrow> bool" where
  "will_topic_valid m \<longleftrightarrow> wire_flags (wt_qos m) 0 \<and> wt_topic_length m \<le> 65530"

definition will_topic_ready :: "u8 list \<Rightarrow> bool" where
  "will_topic_ready dst \<longleftrightarrow> (2 < length dst \<longrightarrow> dst ! 2 = 0) \<and> (4 < length dst \<longrightarrow> dst ! 4 = 0)"

definition will_topic_view :: "will_topic_args \<Rightarrow> int \<times> u8 \<times> u8 list \<times> nat" where
  "will_topic_view m = (wt_qos m, bool_bit (wt_retain m \<noteq> 0),
     c_string (take (wt_topic_length m) (wt_topic m)), wt_topic_length m)"

lemma get_will_topic_msg_len_eq:
  "get_will_topic_msg_len k = (if k \<le> 65530 then int (var_total 3 k) else -1)"
  by (auto simp: get_will_topic_msg_len_def var_total_def Let_def
      MQTT_SN_MESSAGE_WILLTOPIC_MIN_LENGTH_def MQTT_SN_MESSAGE_WILLTOPIC_WO_WILLTOPIC_MAX_LENGTH_def)

lemma length_will_topic_wire:
  "will_topic_wf m \<Longrightarrow> length (will_topic_wire m) = var_total 3 (wt_topic_length m)"
  using var_total_header [of 3 "wt_topic_length m"]
  by (simp add: will_topic_wire_def will_topic_wf_def)

lemma will_topic_ready_at: "will_topic_ready dst \<Longrightarrow> header_size n < length dst \<Longrightarrow> dst ! header_size n = 0"
  by (simp add: will_topic_ready_def header_size_def split: if_splits)

lemma generate_will_topic_eq:
  assumes "will_topic_wf m" "dst_len \<le> length dst" "will_topic_ready dst"
  shows "generate_will_topic dst dst_len (wt_qos m) (wt_retain m) (wt_topic m) (wt_topic_length m) =
    (if will_topic_valid m \<and> var_total 3 (wt_topic_length m) \<le> dst_len
     then Inr (patched dst (will_topic_wire m), var_total 3 (wt_topic_length m)) else Inl Fail)"
  using assms var_total_header [of 3 "wt_topic_length m"]
  by (auto simp: generate_will_topic_def generate_will_topic_header_def gen_simps
      get_will_topic_msg_len_eq will_topic_wire_def will_topic_wf_def will_topic_valid_def Let_def
      will_topic_ready_at)

lemma parse_will_topic_wire:
  assumes "will_topic_wf m" "will_topic_valid m" "wt_qos m \<noteq> -1" "wt_topic_length m < length buf"
  shows "parse_will_topic_byte buf (length buf) (will_topic_wire m @ rest)
      (var_total 3 (wt_topic_length m)) =
    Inr (wt_qos m, bool_bit (wt_retain m \<noteq> 0),
         (if wt_topic_length m = 0 then buf
          else patched buf (c_string (take (wt_topic_length m) (wt_topic m)) @ [0])),
         wt_topic_length m, var_total 3 (wt_topic_length m))"
proof -
  let ?k = "wt_topic_length m"
  let ?n = "var_total 3 ?k"
  let ?t = "take ?k (wt_topic m)"
  have n: "?n = Suc (header_size ?n) + ?k" "3 \<le> ?n" "?n < 65536" "?k \<le> 65530" "length ?t = ?k"
    using assms var_total_header [of 3 ?k]
    by (auto simp: will_topic_wf_def will_topic_valid_def var_total_def)
  have chars: "parse_mqtt_sn_char_until_end_byte (?t @ rest) ?n (Suc (header_size ?n)) buf c =
      Inr (if ?t = [] then buf else patched buf (c_string ?t @ [0]), ?k, ?n)" if "?k \<le> c" for c
    using n that assms(4) length_c_string_le [of ?t] by (subst read_chars) auto
  have fl: "wire_flags (wt_qos m) 0" "wt_qos m mod 4 = wt_qos m"
    using assms(2,3) by (auto simp: will_topic_valid_def wire_flags_def)
  have e: "?t = [] \<longleftrightarrow> ?k = 0"
    using n(5) by (metis length_0_conv)
  show ?thesis
    using n assms(3,4) fl e
    unfolding will_topic_wire_def append_assoc append_Cons parse_will_topic_byte_def
      parse_will_topic_header_def parse_will_topic_flags_def parse_will_topic_will_topic_def
    by (simp add: parse_header_ok_wire read_flags chars codec_defs Let_def del: drop_append take_eq_Nil)
qed


definition read_will_topic :: "u8 list \<Rightarrow> nat \<Rightarrow> (int \<times> u8 \<times> u8 list \<times> nat) cres" where
  "read_will_topic data n =
     map_sum id (\<lambda>(qos, retain, topic, len, _). (qos, retain, if len = 0 then [] else c_string topic, len))
       (parse_will_topic_byte name_buffer (length name_buffer) data n)"

interpretation will_topic: wire_format will_topic_wire will_topic_wf will_topic_valid
  "\<lambda>m. wt_qos m \<noteq> -1" will_topic_ready untouched
  "\<lambda>dst n m. map_sum id fst (generate_will_topic dst n (wt_qos m) (wt_retain m) (wt_topic m)
     (wt_topic_length m))"
  will_topic_view read_will_topic
proof unfold_locales
  fix m rest
  assume m: "will_topic_wf m" "will_topic_valid m" "wt_qos m \<noteq> -1"
  then have "wt_topic_length m < length name_buffer"
    by (simp add: length_name_buffer will_topic_valid_def)
  then show "read_will_topic (will_topic_wire m @ rest) (length (will_topic_wire m)) =
      Inr (will_topic_view m)"
    using parse_will_topic_wire [OF m, of name_buffer rest]
    by (simp add: read_will_topic_def will_topic_view_def length_will_topic_wire m(1))
qed (simp_all add: generate_will_topic_eq length_will_topic_wire)

lemma safe_parse_will_topic:
  assumes "n \<le> length data" "data \<noteq> [1, 0, 3]" "cap < length buf"
  shows "safe (parse_will_topic_byte buf cap data n)"
  using assms unfolding codec_defs
  by (intro safe_intros)
    (auto simp: cbind_eq_Inr Let_def split: if_splits
      dest!: read_progress header_progress intro!: safe_intros)

section \<open>WILLMSG\<close>

definition MQTT_SN_MESSAGE_WILLMSG_MIN_LENGTH :: nat where
  [codec_defs]: "MQTT_SN_MESSAGE_WILLMSG_MIN_LENGTH = 2 + 0"

definition MQTT_SN_MESSAGE_WO_WILLMSG_MAX_LENGTH :: nat where
  [codec_defs]: "MQTT_SN_MESSAGE_WO_WILLMSG_MAX_LENGTH = 4 + 0"

definition MQTT_SN_MESSAGE_WILLMSG_WILLMSG_MAX_LENGTH :: nat where
  [codec_defs]: "MQTT_SN_MESSAGE_WILLMSG_WILLMSG_MAX_LENGTH =
     65535 - MQTT_SN_MESSAGE_WO_WILLMSG_MAX_LENGTH"

definition parse_will_msg_header :: "u8 list \<Rightarrow> nat \<Rightarrow> nat \<Rightarrow> (ParsedMqttSnHeader \<times> nat) cres" where
  [codec_defs]: "parse_will_msg_header data data_len parsed_bytes =
     cbind (parse_header_ok WILLMSG data data_len parsed_bytes) (\<lambda>(h, parsed_bytes).
     if h_length h < MQTT_SN_MESSAGE_WILLMSG_MIN_LENGTH then Inl Fail else Inr (h, parsed_bytes))"

definition parse_will_msg_will_topic ::
  "u8 list \<Rightarrow> nat \<Rightarrow> nat \<Rightarrow> u8 list \<Rightarrow> nat \<Rightarrow> (u8 list \<times> nat \<times> nat) cres" where
  [codec_defs]: "parse_will_msg_will_topic src_pos src_len parsed_bytes will_topic
       will_topic_max_length =
     (let will_topic_max_length =
        (if will_topic_max_length > MQTT_SN_MESSAGE_WILLMSG_WILLMSG_MAX_LENGTH
         then MQTT_SN_MESSAGE_WILLMSG_WILLMSG_MAX_LENGTH else will_topic_max_length) in
      parse_mqtt_sn_char_until_end_byte src_pos src_len parsed_bytes will_topic
        will_topic_max_length)"

definition parse_will_msg_byte ::
  "u8 list \<Rightarrow> nat \<Rightarrow> u8 list \<Rightarrow> nat \<Rightarrow> (u8 list \<times> nat \<times> nat) cres" where
  [codec_defs]: "parse_will_msg_byte will_msg will_msg_max_length data data_len =
     cbind (parse_will_msg_header data data_len 0) (\<lambda>(h, parsed_bytes).
     parse_will_msg_will_topic (drop parsed_bytes data) data_len parsed_bytes will_msg
       will_msg_max_length)"

definition get_will_msg_msg_len :: "nat \<Rightarrow> int" where
  "get_will_msg_msg_len data_len =
     (if data_len > 65535 - MQTT_SN_MESSAGE_WO_WILLMSG_MAX_LENGTH then -1
      else
        let total_length = (MQTT_SN_MESSAGE_WILLMSG_MIN_LENGTH + data_len) mod 65536 in
        if total_length > 255
        then int ((MQTT_SN_MESSAGE_WO_WILLMSG_MAX_LENGTH + data_len) mod 65536)
        else int total_length)"

definition generate_will_msg_header ::
  "u8 list \<Rightarrow> nat \<Rightarrow> nat \<Rightarrow> nat \<Rightarrow> nat \<Rightarrow> (int \<times> u8 list \<times> nat) cres" where
  "generate_will_msg_header dst pos dst_len data_len used_bytes =
     (let total_length = get_will_msg_msg_len data_len in
      if total_length < 0 \<or> int dst_len < total_length then Inl Fail
      else generate_mqtt_sn_header dst pos dst_len used_bytes (nat total_length) WILLMSG)"

definition generate_will_msg :: "u8 list \<Rightarrow> nat \<Rightarrow> u8 list \<Rightarrow> nat \<Rightarrow> (u8 list \<times> nat) cres" where
  "generate_will_msg dst dst_len will_data will_data_len =
     cbind (generate_will_msg_header dst 0 dst_len will_data_len 0) (\<lambda>(_, dst, used_bytes).
     cbind (generate_data dst used_bytes dst_len will_data will_data_len used_bytes)
       (\<lambda>(_, dst, used_bytes). Inr (dst, used_bytes)))"

text \<open>A will message is an object and the number of its bytes to send.\<close>

definition will_msg_wire :: "u8 list \<times> nat \<Rightarrow> u8 list" where
  "will_msg_wire m = header_wire (var_total 2 (snd m)) WILLMSG @ take (snd m) (fst m)"

definition will_msg_wf :: "u8 list \<times> nat \<Rightarrow> bool" where
  "will_msg_wf m \<longleftrightarrow> snd m \<le> length (fst m)"

lemma get_will_msg_msg_len_eq:
  "get_will_msg_msg_len k = (if k \<le> 65531 then int (var_total 2 k) else -1)"
  by (auto simp: get_will_msg_msg_len_def var_total_def Let_def
      MQTT_SN_MESSAGE_WILLMSG_MIN_LENGTH_def MQTT_SN_MESSAGE_WO_WILLMSG_MAX_LENGTH_def)

lemma length_will_msg_wire: "will_msg_wf m \<Longrightarrow> length (will_msg_wire m) = var_total 2 (snd m)"
  using var_total_header [of 2 "snd m"] by (simp add: will_msg_wire_def will_msg_wf_def)

lemma generate_will_msg_eq:
  assumes "will_msg_wf m" "dst_len \<le> length dst"
  shows "generate_will_msg dst dst_len (fst m) (snd m) =
    (if snd m \<le> 65531 \<and> var_total 2 (snd m) \<le> dst_len
     then Inr (patched dst (will_msg_wire m), var_total 2 (snd m)) else Inl Fail)"
  using assms var_total_header [of 2 "snd m"]
  by (auto simp: generate_will_msg_def generate_will_msg_header_def gen_simps
      get_will_msg_msg_len_eq will_msg_wire_def will_msg_wf_def Let_def)

lemma parse_will_msg_wire:
  assumes "will_msg_wf m" "snd m \<le> 65531" "snd m < length buf"
  shows "parse_will_msg_byte buf (length buf) (will_msg_wire m @ rest) (var_total 2 (snd m)) =
    Inr (if snd m = 0 then buf else patched buf (c_string (take (snd m) (fst m)) @ [0]),
         snd m, var_total 2 (snd m))"
proof -
  let ?k = "snd m"
  let ?n = "var_total 2 ?k"
  let ?t = "take ?k (fst m)"
  have n: "?n = header_size ?n + ?k" "2 \<le> ?n" "?n < 65536" "length ?t = ?k"
    using assms var_total_header [of 2 ?k] by (auto simp: will_msg_wf_def var_total_def)
  have chars: "parse_mqtt_sn_char_until_end_byte (?t @ rest) ?n (header_size ?n) buf c =
      Inr (if ?t = [] then buf else patched buf (c_string ?t @ [0]), ?k, ?n)" if "?k \<le> c" for c
    using n that assms(3) length_c_string_le [of ?t] by (subst read_chars) auto
  have e: "?t = [] \<longleftrightarrow> ?k = 0"
    using n(4) by (metis length_0_conv)
  show ?thesis
    using n assms(2,3) e
    unfolding will_msg_wire_def append_assoc parse_will_msg_byte_def parse_will_msg_header_def
      parse_will_msg_will_topic_def
    by (simp add: parse_header_ok_wire chars codec_defs Let_def del: drop_append take_eq_Nil)
qed

definition read_will_msg :: "u8 list \<Rightarrow> nat \<Rightarrow> (u8 list \<times> nat) cres" where
  "read_will_msg data n =
     map_sum id (\<lambda>(msg, len, _). (if len = 0 then [] else c_string msg, len))
       (parse_will_msg_byte name_buffer (length name_buffer) data n)"

interpretation will_msg: wire_format will_msg_wire will_msg_wf "\<lambda>m. snd m \<le> 65531" "\<lambda>_. True"
  "\<lambda>_. True" untouched
  "\<lambda>dst n m. map_sum id fst (generate_will_msg dst n (fst m) (snd m))"
  "\<lambda>m. (c_string (take (snd m) (fst m)), snd m)" read_will_msg
proof unfold_locales
  fix m :: "u8 list \<times> nat" and rest
  assume m: "will_msg_wf m" "snd m \<le> 65531"
  then have "snd m < length name_buffer"
    by (simp add: length_name_buffer)
  then show "read_will_msg (will_msg_wire m @ rest) (length (will_msg_wire m)) =
      Inr (c_string (take (snd m) (fst m)), snd m)"
    using parse_will_msg_wire [OF m, of name_buffer rest]
    by (simp add: read_will_msg_def length_will_msg_wire m(1))
qed (simp_all add: generate_will_msg_eq length_will_msg_wire)

lemma safe_parse_will_msg:
  assumes "n \<le> length data" "data \<noteq> [1, 0, 3]" "cap < length buf"
  shows "safe (parse_will_msg_byte buf cap data n)"
proof -
  have "safe (parse_mqtt_sn_char_until_end_byte (drop pb data) n pb buf c)"
    if "c \<le> cap" "c \<le> 65531" "n < 65536" "pb \<le> n + 1" for pb c
  proof (cases "pb \<le> n")
    case True
    then show ?thesis
      using assms that by (intro safe_read_chars) auto
  next
    case False
    then have "int n - int pb = -1"
      using that by linarith
    then have "u16_sub n pb = 65535"
      by (simp add: u16_sub_def)
    then show ?thesis
      using that by (simp add: parse_mqtt_sn_char_until_end_byte_def Let_def)
  qed
  then show ?thesis
    using assms unfolding codec_defs
    by (intro safe_intros)
      (auto simp: cbind_eq_Inr Let_def split: if_splits dest!: header_progress)
qed

section \<open>WILLTOPICUPD\<close>

definition MQTT_SN_MESSAGE_WILLTOPICUPD_MIN_LENGTH :: nat where
  [codec_defs]: "MQTT_SN_MESSAGE_WILLTOPICUPD_MIN_LENGTH = 2 + 1 + 0"

definition MQTT_SN_MESSAGE_WILLTOPICUPD_WILLTOPIC_MAX_LENGTH :: nat where
  [codec_defs]: "MQTT_SN_MESSAGE_WILLTOPICUPD_WILLTOPIC_MAX_LENGTH = 65535 - (4 + 1)"

definition parse_will_topic_upd_header :: "u8 list \<Rightarrow> nat \<Rightarrow> nat \<Rightarrow> (ParsedMqttSnHeader \<times> nat) cres" where
  [codec_defs]: "parse_will_topic_upd_header data data_len parsed_bytes =
     cbind (parse_header_ok WILLTOPICUPD data data_len parsed_bytes) (\<lambda>(h, parsed_bytes).
     if h_length h < MQTT_SN_MESSAGE_WILLTOPICUPD_MIN_LENGTH then Inl Fail else Inr (h, parsed_bytes))"

definition parse_will_topic_upd_will_topic ::
  "u8 list \<Rightarrow> nat \<Rightarrow> nat \<Rightarrow> u8 list \<Rightarrow> nat \<Rightarrow> (u8 list \<times> nat \<times> nat) cres" where
  [codec_defs]: "parse_will_topic_upd_will_topic src_pos src_len parsed_bytes will_topic will_topic_max_length =
     (let will_topic_max_length =
        (if will_topic_max_length > MQTT_SN_MESSAGE_WILLTOPICUPD_WILLTOPIC_MAX_LENGTH
         then MQTT_SN_MESSAGE_WILLTOPICUPD_WILLTOPIC_MAX_LENGTH else will_topic_max_length) in
      parse_mqtt_sn_char_until_end_byte src_pos src_len parsed_bytes will_topic
        will_topic_max_length)"

definition parse_will_topic_upd_byte ::
  "u8 list \<Rightarrow> nat \<Rightarrow> u8 list \<Rightarrow> nat \<Rightarrow> (u8 list \<times> nat \<times> nat) cres" where
  [codec_defs]: "parse_will_topic_upd_byte will_topic will_topic_max_length data data_len =
     cbind (parse_will_topic_upd_header data data_len 0) (\<lambda>_.
     let parsed_bytes = 0 in
     parse_will_topic_upd_will_topic (drop parsed_bytes data) data_len parsed_bytes will_topic
       will_topic_max_length)"

section \<open>WILLMSGUPD\<close>

definition MQTT_SN_MESSAGE_WILLMSGUPD_MIN_LENGTH :: nat where
  [codec_defs]: "MQTT_SN_MESSAGE_WILLMSGUPD_MIN_LENGTH = 2"

definition MQTT_SN_MESSAGE_WILLMSGUPD_WILLMSG_MAX_LENGTH :: nat where
  [codec_defs]: "MQTT_SN_MESSAGE_WILLMSGUPD_WILLMSG_MAX_LENGTH = 65535 - (4)"

definition parse_will_msg_upd_header :: "u8 list \<Rightarrow> nat \<Rightarrow> nat \<Rightarrow> (ParsedMqttSnHeader \<times> nat) cres" where
  [codec_defs]: "parse_will_msg_upd_header data data_len parsed_bytes =
     cbind (parse_header_ok WILLMSGUPD data data_len parsed_bytes) (\<lambda>(h, parsed_bytes).
     if h_length h < MQTT_SN_MESSAGE_WILLMSGUPD_MIN_LENGTH then Inl Fail else Inr (h, parsed_bytes))"

definition parse_will_msg_upd_will_msg ::
  "u8 list \<Rightarrow> nat \<Rightarrow> nat \<Rightarrow> u8 list \<Rightarrow> nat \<Rightarrow> (u8 list \<times> nat \<times> nat) cres" where
  [codec_defs]: "parse_will_msg_upd_will_msg src_pos src_len parsed_bytes will_msg will_msg_max_length =
     (let will_msg_max_length =
        (if will_msg_max_length > MQTT_SN_MESSAGE_WILLMSGUPD_WILLMSG_MAX_LENGTH
         then MQTT_SN_MESSAGE_WILLMSGUPD_WILLMSG_MAX_LENGTH else will_msg_max_length) in
      parse_mqtt_sn_uint8_until_end_byte src_pos src_len parsed_bytes will_msg
        will_msg_max_length)"

definition parse_will_msg_upd_byte ::
  "u8 list \<Rightarrow> nat \<Rightarrow> u8 list \<Rightarrow> nat \<Rightarrow> (u8 list \<times> nat \<times> nat) cres" where
  [codec_defs]: "parse_will_msg_upd_byte will_msg will_msg_max_length data data_len =
     cbind (parse_will_msg_upd_header data data_len 0) (\<lambda>_.
     let parsed_bytes = 0 in
     cbind (parse_will_msg_upd_will_msg (drop parsed_bytes data) data_len parsed_bytes will_msg
              will_msg_max_length) (\<lambda>(will_msg, will_msg_length, parsed_bytes).
     Inr (will_msg, will_msg_length, 0)))"

text \<open>Both readers hand out the whole message, header included, as the new topic or message.\<close>

lemma parse_will_upd_eq:
  assumes "parse_will_msg_upd_byte buf cap data n = Inr (buf', len, rc)" "n \<le> length data" "cap \<le> length buf"
  shows "len = n \<and> take n buf' = take n data"
  using assms
  by (auto simp: codec_defs Let_def cbind_eq_Inr parse_mqtt_sn_uint8_until_end_byte_def rds_def
      patched_def split: if_splits dest!: parse_header_ok_accepts)

lemma safe_parse_will_topic_upd:
  assumes "n \<le> length data" "data \<noteq> [1, 0, 3]" "cap < length buf"
  shows "safe (parse_will_topic_upd_byte buf cap data n)"
proof -
  have "safe (parse_mqtt_sn_char_until_end_byte (drop 0 data) n 0 buf c)" if "c \<le> cap" "n < 65536" for c
    using assms that by (intro safe_read_chars) auto
  then show ?thesis
    using assms unfolding codec_defs Let_def
    by (intro safe_intros)
      (auto simp: cbind_eq_Inr split: if_splits dest!: header_progress)
qed

lemma safe_parse_will_msg_upd:
  assumes "n \<le> length data" "data \<noteq> [1, 0, 3]" "cap \<le> length buf"
  shows "safe (parse_will_msg_upd_byte buf cap data n)"
proof -
  have "safe (parse_mqtt_sn_uint8_until_end_byte (drop 0 data) n 0 buf c)" if "c \<le> cap" "n < 65536" for c
    using assms that by (intro safe_read_bytes) auto
  then show ?thesis
    using assms unfolding codec_defs Let_def
    by (intro safe_intros)
      (auto simp: cbind_eq_Inr split: if_splits dest!: header_progress)
qed

section \<open>WILLTOPICRESP and WILLMSGRESP\<close>

definition MQTT_SN_MESSAGE_WILLTOPICRESP_LENGTH :: nat where
  [codec_defs]: "MQTT_SN_MESSAGE_WILLTOPICRESP_LENGTH = 2 + 1"

definition parse_will_topic_resp_header :: "u8 list \<Rightarrow> nat \<Rightarrow> nat \<Rightarrow> (ParsedMqttSnHeader \<times> nat) cres" where
  [codec_defs]: "parse_will_topic_resp_header data data_len parsed_bytes =
     cbind (parse_header_ok WILLTOPICRESP data data_len parsed_bytes) (\<lambda>(h, parsed_bytes).
     if h_length h \<noteq> MQTT_SN_MESSAGE_WILLTOPICRESP_LENGTH then Inl Fail else Inr (h, parsed_bytes))"

definition parse_will_topic_resp_return_code ::
  "u8 list \<Rightarrow> nat \<Rightarrow> nat \<Rightarrow> (MQTT_SN_RETURN_CODE \<times> nat) cres" where
  [codec_defs]: "parse_will_topic_resp_return_code src_pos src_len parsed_byte =
     parse_mqtt_sn_return_code_byte src_pos src_len parsed_byte"

definition parse_will_topic_resp_byte :: "u8 list \<Rightarrow> nat \<Rightarrow> (MQTT_SN_RETURN_CODE \<times> nat) cres" where
  [codec_defs]: "parse_will_topic_resp_byte data data_len =
     cbind (parse_will_topic_resp_header data data_len 0) (\<lambda>_.
     let parsed_bytes = 0 in
     parse_will_topic_resp_return_code (drop data_len data) data_len parsed_bytes)"

definition MQTT_SN_MESSAGE_WILLMSGRESP_LENGTH :: nat where
  [codec_defs]: "MQTT_SN_MESSAGE_WILLMSGRESP_LENGTH = 2 + 1"

definition parse_will_msg_resp_header :: "u8 list \<Rightarrow> nat \<Rightarrow> nat \<Rightarrow> (ParsedMqttSnHeader \<times> nat) cres" where
  [codec_defs]: "parse_will_msg_resp_header data data_len parsed_bytes =
     cbind (parse_header_ok WILLMSGRESP data data_len parsed_bytes) (\<lambda>(h, parsed_bytes).
     if h_length h \<noteq> MQTT_SN_MESSAGE_WILLMSGRESP_LENGTH then Inl Fail else Inr (h, parsed_bytes))"

definition parse_will_msg_resp_return_code ::
  "u8 list \<Rightarrow> nat \<Rightarrow> nat \<Rightarrow> (MQTT_SN_RETURN_CODE \<times> nat) cres" where
  [codec_defs]: "parse_will_msg_resp_return_code src_pos src_len parsed_byte =
     parse_mqtt_sn_return_code_byte src_pos src_len parsed_byte"

definition parse_will_msg_resp_byte :: "u8 list \<Rightarrow> nat \<Rightarrow> (MQTT_SN_RETURN_CODE \<times> nat) cres" where
  [codec_defs]: "parse_will_msg_resp_byte data data_len =
     cbind (parse_will_msg_resp_header data data_len 0) (\<lambda>_.
     let parsed_bytes = 0 in
     parse_will_msg_resp_return_code (drop data_len data) data_len parsed_bytes)"

text \<open>
  The response readers look at the byte behind the message: on an object that ends with the message
  every response is an access outside it.
\<close>

lemma parse_will_resp_faults:
  assumes "length data = 3" "parse_header_ok WILLTOPICRESP data 3 0 = Inr (h, pb)"
  shows "parse_will_topic_resp_byte data 3 = Inl Fault"
  using assms header_progress [OF assms(2)]
  by (simp add: codec_defs Let_def parse_mqtt_sn_return_code_byte_def parse_mqtt_sn_uint8_byte_def)

lemma parse_will_topic_resp_reads_behind:
  assumes "parse_will_topic_resp_byte data n = Inr (r, rc)"
  shows "n = 3 \<and> 3 < length data \<and> data ! 3 = return_code_byte r"
proof -
  from assms obtain rest where "n = 3" "drop 3 data = return_code_byte r # rest"
    by (auto simp: codec_defs Let_def cbind_eq_Inr split: if_splits
        dest!: read_return_code_accepts header_progress)
  then show ?thesis
    by (metis nth_via_drop drop_all list.distinct(1) not_less)
qed

end
