(* ===== verification/Msg_Subscribe.thy ===== *)
theory Msg_Subscribe
  imports Msg_Publish
begin

text \<open>
  The subscription messages: \<open>src/parser/MqttSnSubscribeMessage.c\<close>, \<open>MqttSnUnsubscribeMessage.c\<close>,
  \<open>MqttSnSubackMessage.c\<close> and \<open>MqttSnUnsubackMessage.c\<close> with their headers. The SUBSCRIBE and UNSUBSCRIBE
  readers continue with the count 0 after the header (precedence of \<open>parsed_bytes = ... < 0\<close>), and their
  topic-name branch treats every non-zero return code as an error; both are modelled as they are.
\<close>

unbundle bit_operations_syntax

lemma and3_cases: "(c :: u8) AND 3 = 0 \<or> c AND 3 = 1 \<or> c AND 3 = 2 \<or> c AND 3 = 3"
proof -
  have "unat (c AND 3) \<le> 3"
    using word_and_le1 [of c 3] by (simp add: word_le_nat_alt)
  then have "unat (c AND 3) = 0 \<or> unat (c AND 3) = 1 \<or> unat (c AND 3) = 2 \<or> unat (c AND 3) = 3"
    by arith
  then show ?thesis
    by (simp add: word_unat_eq_iff)
qed

section \<open>SUBSCRIBE\<close>

definition MQTT_SN_MESSAGE_SUBSCRIBE_W_TOPICID_LENGTH :: nat where
  [codec_defs]: "MQTT_SN_MESSAGE_SUBSCRIBE_W_TOPICID_LENGTH = 2 + 1 + 2 + 2"

definition MQTT_SN_MESSAGE_SUBSCRIBE_W_TOPICNAME_MIN_LENGTH :: nat where
  [codec_defs]: "MQTT_SN_MESSAGE_SUBSCRIBE_W_TOPICNAME_MIN_LENGTH = 2 + 1 + 2 + 1"

definition MQTT_SN_MESSAGE_SUBSCRIBE_MIN_LENGTH :: nat where
  [codec_defs]: "MQTT_SN_MESSAGE_SUBSCRIBE_MIN_LENGTH = MQTT_SN_MESSAGE_SUBSCRIBE_W_TOPICNAME_MIN_LENGTH"

definition MQTT_SN_MESSAGE_SUBSCRIBE_WO_TOPICNAME_MIN_LENGTH :: nat where
  [codec_defs]: "MQTT_SN_MESSAGE_SUBSCRIBE_WO_TOPICNAME_MIN_LENGTH =
     MQTT_SN_MESSAGE_SUBSCRIBE_W_TOPICNAME_MIN_LENGTH - 1"

definition MQTT_SN_MESSAGE_SUBSCRIBE_WO_TOPICNAME_MAX_LENGTH :: nat where
  [codec_defs]: "MQTT_SN_MESSAGE_SUBSCRIBE_WO_TOPICNAME_MAX_LENGTH = 4 + 1 + 2"

definition parse_subscribe_header :: "u8 list \<Rightarrow> nat \<Rightarrow> nat \<Rightarrow> (ParsedMqttSnHeader \<times> nat) cres" where
  [codec_defs]: "parse_subscribe_header data data_len parsed_bytes =
     cbind (parse_header_ok SUBSCRIBE data data_len parsed_bytes) (\<lambda>(h, parsed_bytes).
     if h_length h < MQTT_SN_MESSAGE_SUBSCRIBE_MIN_LENGTH then Inl Fail else Inr (h, parsed_bytes))"

definition parse_subscribe_flags ::
  "u8 list \<Rightarrow> nat \<Rightarrow> nat \<Rightarrow> nat \<Rightarrow> (u8 \<times> int \<times> u8 \<times> nat) cres" where
  [codec_defs]: "parse_subscribe_flags src_pos src_length parsed_bytes len =
     cbind (parse_mqtt_sn_flags src_pos src_length parsed_bytes True True) (\<lambda>(f, parsed_bytes).
     if f_topic_id_type f = 0x00 \<and> len < MQTT_SN_MESSAGE_SUBSCRIBE_W_TOPICNAME_MIN_LENGTH
     then Inl Fail
     else if f_topic_id_type f = 0x01 \<and> len < MQTT_SN_MESSAGE_SUBSCRIBE_W_TOPICID_LENGTH
     then Inl Fail
     else if f_topic_id_type f = 0x02 \<and> len < MQTT_SN_MESSAGE_SUBSCRIBE_W_TOPICID_LENGTH
     then Inl Fail
     else Inr (f_dup f, f_qos f, f_topic_id_type f, parsed_bytes))"

definition parse_subscribe_msg_id :: "u8 list \<Rightarrow> nat \<Rightarrow> nat \<Rightarrow> (u16 \<times> nat) cres" where
  [codec_defs]: "parse_subscribe_msg_id src_pos src_length parsed_bytes =
     parse_mqtt_sn_uint16_byte src_pos src_length parsed_bytes"

definition parse_subscribe_predefined_topic :: "u8 list \<Rightarrow> nat \<Rightarrow> nat \<Rightarrow> (u16 \<times> nat) cres" where
  [codec_defs]: "parse_subscribe_predefined_topic src_pos src_len parsed_bytes =
     parse_mqtt_sn_uint16_byte src_pos src_len parsed_bytes"

definition parse_subscribe_short_topic_name :: "u8 list \<Rightarrow> nat \<Rightarrow> nat \<Rightarrow> (u16 \<times> nat) cres" where
  [codec_defs]: "parse_subscribe_short_topic_name src_pos src_len parsed_bytes =
     parse_mqtt_sn_uint16_byte src_pos src_len parsed_bytes"

definition parse_subscribe_topic_name ::
  "u8 list \<Rightarrow> nat \<Rightarrow> nat \<Rightarrow> u8 list \<Rightarrow> nat \<Rightarrow> (u8 list \<times> nat \<times> nat) cres" where
  [codec_defs]: "parse_subscribe_topic_name src_pos src_len parse_bytes topic_name topic_name_max_length =
     parse_mqtt_sn_char_until_end_byte src_pos src_len parse_bytes topic_name topic_name_max_length"

text \<open>
  The result holds the flags, the message id, the topic id when one is read, the topic name object
  with the length stored for it when one is read, and the count.
\<close>

definition parse_subscribe_byte ::
  "u8 list \<Rightarrow> nat \<Rightarrow> u8 list \<Rightarrow> nat
   \<Rightarrow> (u8 \<times> int \<times> u8 \<times> u16 \<times> u16 option \<times> (u8 list \<times> nat) option \<times> nat) cres" where
  [codec_defs]: "parse_subscribe_byte topic_name topic_name_max_length data data_len =
     cbind (parse_subscribe_header data data_len 0) (\<lambda>(h, _).
     let parsed_bytes = 0 in
     cbind (parse_subscribe_flags (drop parsed_bytes data) data_len parsed_bytes (h_length h))
       (\<lambda>(dup, qos, topic_id_type, parsed_bytes).
     cbind (parse_subscribe_msg_id (drop parsed_bytes data) data_len parsed_bytes)
       (\<lambda>(msg_id, parsed_bytes).
     if topic_id_type = 0x01
     then
       cbind (parse_subscribe_predefined_topic (drop parsed_bytes data) data_len parsed_bytes)
         (\<lambda>(topic_id, parsed_bytes).
       Inr (dup, qos, topic_id_type, msg_id, Some topic_id, None, parsed_bytes))
     else if topic_id_type = 0x02
     then
       cbind (parse_subscribe_short_topic_name (drop parsed_bytes data) data_len parsed_bytes)
         (\<lambda>(topic_id, parsed_bytes).
       Inr (dup, qos, topic_id_type, msg_id, Some topic_id, None, parsed_bytes))
     else if topic_id_type = 0x00
     then
       cbind (parse_subscribe_topic_name (drop parsed_bytes data) data_len parsed_bytes topic_name
                topic_name_max_length)
         (\<lambda>(topic_name, topic_name_length, parsed_bytes).
       if parsed_bytes \<noteq> 0 then Inl Fail
       else Inr (dup, qos, topic_id_type, msg_id, None, Some (topic_name, topic_name_length),
                 parsed_bytes))
     else Inr (dup, qos, topic_id_type, msg_id, None, None, parsed_bytes))))"

definition get_subscribe_msg_len :: "nat \<Rightarrow> int" where
  "get_subscribe_msg_len topic_name_length =
     (if topic_name_length > 65535 - MQTT_SN_MESSAGE_SUBSCRIBE_WO_TOPICNAME_MAX_LENGTH then -1
      else
        let total_length =
          (MQTT_SN_MESSAGE_SUBSCRIBE_WO_TOPICNAME_MIN_LENGTH + topic_name_length) mod 65536 in
        if total_length > 255
        then int ((MQTT_SN_MESSAGE_SUBSCRIBE_WO_TOPICNAME_MAX_LENGTH + topic_name_length) mod 65536)
        else int total_length)"

definition generate_subscribe_topic_name_header ::
  "u8 list \<Rightarrow> nat \<Rightarrow> nat \<Rightarrow> nat \<Rightarrow> nat \<Rightarrow> (int \<times> u8 list \<times> nat) cres" where
  "generate_subscribe_topic_name_header dst pos dst_len topic_name_length used_bytes =
     (let total_length = get_subscribe_msg_len topic_name_length in
      if total_length < 0 \<or> int dst_len < total_length then Inl Fail
      else generate_mqtt_sn_header dst pos dst_len used_bytes (nat total_length) SUBSCRIBE)"

definition generate_subscribe_topic_name ::
  "u8 list \<Rightarrow> nat \<Rightarrow> u8 \<Rightarrow> int \<Rightarrow> u16 \<Rightarrow> u8 list \<Rightarrow> nat \<Rightarrow> (u8 list \<times> nat) cres" where
  "generate_subscribe_topic_name dst dst_len dup qos msg_id topic_name topic_name_length =
     cbind (generate_subscribe_topic_name_header dst 0 dst_len topic_name_length 0)
       (\<lambda>(_, dst, used_bytes).
     cbind (generate_flags dst used_bytes dst_len dup qos 0 0 0 0 used_bytes)
       (\<lambda>(_, dst, used_bytes).
     cbind (generate_msg_id dst used_bytes dst_len msg_id used_bytes)
       (\<lambda>(_, dst, used_bytes).
     cbind (generate_string dst used_bytes dst_len topic_name topic_name_length used_bytes)
       (\<lambda>(_, dst, used_bytes). Inr (dst, used_bytes)))))"

definition generate_subscribe_topic_id_header ::
  "u8 list \<Rightarrow> nat \<Rightarrow> nat \<Rightarrow> nat \<Rightarrow> (int \<times> u8 list \<times> nat) cres" where
  "generate_subscribe_topic_id_header dst pos dst_len used_bytes =
     (if dst_len < MQTT_SN_MESSAGE_SUBSCRIBE_W_TOPICID_LENGTH then Inl Fail
      else generate_mqtt_sn_header dst pos dst_len used_bytes
             MQTT_SN_MESSAGE_SUBSCRIBE_W_TOPICID_LENGTH SUBSCRIBE)"

definition generate_subscribe_topic_id ::
  "u8 list \<Rightarrow> nat \<Rightarrow> u8 \<Rightarrow> int \<Rightarrow> u8 \<Rightarrow> u16 \<Rightarrow> u16 \<Rightarrow> (u8 list \<times> nat) cres" where
  "generate_subscribe_topic_id dst dst_len dup qos topic_id_type msg_id topic_id =
     cbind (generate_subscribe_topic_id_header dst 0 dst_len 0) (\<lambda>(_, dst, used_bytes).
     cbind (generate_flags dst used_bytes dst_len dup qos 0 0 0 topic_id_type used_bytes)
       (\<lambda>(_, dst, used_bytes).
     cbind (generate_msg_id dst used_bytes dst_len msg_id used_bytes)
       (\<lambda>(_, dst, used_bytes).
     cbind (generate_topic_id dst used_bytes dst_len topic_id used_bytes)
       (\<lambda>(_, dst, used_bytes). Inr (dst, used_bytes)))))"

text \<open>The topic name may be \<open>NULL\<close>.\<close>

definition generate_subscribe ::
  "u8 list \<Rightarrow> nat \<Rightarrow> u8 \<Rightarrow> int \<Rightarrow> u8 \<Rightarrow> u16 \<Rightarrow> u16 \<Rightarrow> u8 list option \<Rightarrow> nat
   \<Rightarrow> (u8 list \<times> nat) cres" where
  "generate_subscribe dst dst_len dup qos topic_id_type msg_id topic_id topic_name topic_name_length =
     cbind (wr_bytes dst 0 (replicate dst_len 0)) (\<lambda>dst.
     if topic_id_type = 0x00 \<and> topic_name \<noteq> None \<and> topic_name_length > 0
     then generate_subscribe_topic_name dst dst_len dup qos msg_id (the topic_name) topic_name_length
     else if topic_id_type = 0x01 \<or> topic_id_type = 0x02
     then generate_subscribe_topic_id dst dst_len dup qos topic_id_type msg_id topic_id
     else Inl Fail)"

lemma get_subscribe_msg_len_eq:
  "get_subscribe_msg_len k = (if k \<le> 65528 then int (var_total 5 k) else -1)"
  by (auto simp: get_subscribe_msg_len_def var_total_def Let_def codec_defs)

definition subscribe_name_wire :: "u8 \<Rightarrow> int \<Rightarrow> u16 \<Rightarrow> u8 list \<Rightarrow> u8 list" where
  "subscribe_name_wire dup qos msg_id name =
     header_wire (var_total 5 (length name)) SUBSCRIBE
     @ [flag_byte 0 dup qos 0 0 0 0, hi8 msg_id, lo8 msg_id] @ name"

definition subscribe_id_wire :: "u8 \<Rightarrow> int \<Rightarrow> u8 \<Rightarrow> u16 \<Rightarrow> u16 \<Rightarrow> u8 list" where
  "subscribe_id_wire dup qos tid msg_id topic_id =
     header_wire 7 SUBSCRIBE
     @ [flag_byte 0 dup qos 0 0 0 tid, hi8 msg_id, lo8 msg_id, hi8 topic_id, lo8 topic_id]"

lemma generate_subscribe_name_eq:
  assumes "0 < k" "k \<le> length name" "dst_len \<le> length dst"
  shows "generate_subscribe dst dst_len dup qos 0 msg_id topic_id (Some name) k =
    (if wire_flags qos 0 \<and> k \<le> 65528 \<and> var_total 5 k \<le> dst_len
     then Inr (patched (cleared dst dst_len) (subscribe_name_wire dup qos msg_id (take k name)),
               var_total 5 k)
     else Inl Fail)"
  using assms var_total_header [of 5 k] header_size_def [of "var_total 5 k"]
  by (auto simp: generate_subscribe_def generate_subscribe_topic_name_def
      generate_subscribe_topic_name_header_def gen_simps get_subscribe_msg_len_eq
      subscribe_name_wire_def Let_def cleared_nth min_absorb2)

lemma generate_subscribe_id_eq:
  assumes "tid = 1 \<or> tid = 2" "dst_len \<le> length dst"
  shows "generate_subscribe dst dst_len dup qos tid msg_id topic_id name k =
    (if wire_flags qos tid \<and> 7 \<le> dst_len
     then Inr (patched (cleared dst dst_len) (subscribe_id_wire dup qos tid msg_id topic_id), 7)
     else Inl Fail)"
  using assms
  by (auto simp: generate_subscribe_def generate_subscribe_topic_id_def
      generate_subscribe_topic_id_header_def gen_simps codec_defs subscribe_id_wire_def cleared_nth)

text \<open>
  What the reader accepts: it takes the length byte for the flags, the next two bytes for the message
  id and the two after them for the topic id, and it never returns a topic name.
\<close>

lemma parse_subscribe_accepts:
  assumes "parse_subscribe_byte buf cap data n = Inr (dup, qos, tid, mid, topic, name, rc)"
  shows "tid = data ! 0 AND 3 \<and> (tid = 1 \<or> tid = 2) \<and> mid = be16 (data ! 1) (data ! 2)
    \<and> topic = Some (be16 (data ! 3) (data ! 4)) \<and> name = None"
proof -
  have no_name: False if "parse_mqtt_sn_char_until_end_byte p n (Suc j) buf cap = Inr (b, k, 0)" for p b k j
    using that by (auto simp: parse_mqtt_sn_char_until_end_byte_def Let_def cbind_eq_Inr split: if_splits)
  show ?thesis
    using assms no_name and3_cases [of "data ! 0"]
    by (cases data rule: remdups_adj.cases)
      (auto simp: codec_defs Let_def cbind_eq_Inr read_uint16_accepts read_flags_byte
        split: if_splits)
qed

lemma parse_subscribe_rejects_id:
  "parse_subscribe_byte buf cap (subscribe_id_wire dup qos tid msg_id topic_id @ rest) 7 = Inl Fail"
  using parse_header_ok_wire [of SUBSCRIBE 7 SUBSCRIBE "flag_byte 0 dup qos 0 0 0 tid # hi8 msg_id
    # lo8 msg_id # hi8 topic_id # lo8 topic_id # rest" 0]
  by (simp add: codec_defs subscribe_id_wire_def header_wire_short Let_def read_flags_byte)

section \<open>UNSUBSCRIBE\<close>

definition MQTT_SN_MESSAGE_UNSUBSCRIBE_W_TOPICID_LENGTH :: nat where
  [codec_defs]: "MQTT_SN_MESSAGE_UNSUBSCRIBE_W_TOPICID_LENGTH = 2 + 1 + 2 + 2"

definition MQTT_SN_MESSAGE_UNSUBSCRIBE_W_TOPICNAME_MIN_LENGTH :: nat where
  [codec_defs]: "MQTT_SN_MESSAGE_UNSUBSCRIBE_W_TOPICNAME_MIN_LENGTH = 2 + 1 + 2 + 1"

definition MQTT_SN_MESSAGE_UNSUBSCRIBE_MIN_LENGTH :: nat where
  [codec_defs]: "MQTT_SN_MESSAGE_UNSUBSCRIBE_MIN_LENGTH = MQTT_SN_MESSAGE_UNSUBSCRIBE_W_TOPICNAME_MIN_LENGTH"

definition MQTT_SN_MESSAGE_UNSUBSCRIBE_WO_TOPICNAME_MIN_LENGTH :: nat where
  [codec_defs]: "MQTT_SN_MESSAGE_UNSUBSCRIBE_WO_TOPICNAME_MIN_LENGTH =
     MQTT_SN_MESSAGE_UNSUBSCRIBE_W_TOPICNAME_MIN_LENGTH - 1"

definition MQTT_SN_MESSAGE_UNSUBSCRIBE_WO_TOPICNAME_MAX_LENGTH :: nat where
  [codec_defs]: "MQTT_SN_MESSAGE_UNSUBSCRIBE_WO_TOPICNAME_MAX_LENGTH = 4 + 1 + 2"

definition parse_unsubscribe_header :: "u8 list \<Rightarrow> nat \<Rightarrow> nat \<Rightarrow> (ParsedMqttSnHeader \<times> nat) cres" where
  [codec_defs]: "parse_unsubscribe_header data data_len parsed_bytes =
     cbind (parse_header_ok UNSUBSCRIBE data data_len parsed_bytes) (\<lambda>(h, parsed_bytes).
     if h_length h < MQTT_SN_MESSAGE_UNSUBSCRIBE_MIN_LENGTH then Inl Fail else Inr (h, parsed_bytes))"

definition parse_unsubscribe_flags ::
  "u8 list \<Rightarrow> nat \<Rightarrow> nat \<Rightarrow> nat \<Rightarrow> (u8 \<times> int \<times> u8 \<times> nat) cres" where
  [codec_defs]: "parse_unsubscribe_flags src_pos src_length parsed_bytes len =
     cbind (parse_mqtt_sn_flags src_pos src_length parsed_bytes True True) (\<lambda>(f, parsed_bytes).
     if f_topic_id_type f = 0x00 \<and> len < MQTT_SN_MESSAGE_UNSUBSCRIBE_W_TOPICNAME_MIN_LENGTH
     then Inl Fail
     else if f_topic_id_type f = 0x01 \<and> len < MQTT_SN_MESSAGE_UNSUBSCRIBE_W_TOPICID_LENGTH
     then Inl Fail
     else if f_topic_id_type f = 0x02 \<and> len < MQTT_SN_MESSAGE_UNSUBSCRIBE_W_TOPICID_LENGTH
     then Inl Fail
     else Inr (f_dup f, f_qos f, f_topic_id_type f, parsed_bytes))"

definition parse_unsubscribe_msg_id :: "u8 list \<Rightarrow> nat \<Rightarrow> nat \<Rightarrow> (u16 \<times> nat) cres" where
  [codec_defs]: "parse_unsubscribe_msg_id src_pos src_length parsed_bytes =
     parse_mqtt_sn_uint16_byte src_pos src_length parsed_bytes"

definition parse_unsubscribe_predefined_topic :: "u8 list \<Rightarrow> nat \<Rightarrow> nat \<Rightarrow> (u16 \<times> nat) cres" where
  [codec_defs]: "parse_unsubscribe_predefined_topic src_pos src_len parsed_bytes =
     parse_mqtt_sn_uint16_byte src_pos src_len parsed_bytes"

definition parse_unsubscribe_short_topic_name :: "u8 list \<Rightarrow> nat \<Rightarrow> nat \<Rightarrow> (u16 \<times> nat) cres" where
  [codec_defs]: "parse_unsubscribe_short_topic_name src_pos src_len parsed_bytes =
     parse_mqtt_sn_uint16_byte src_pos src_len parsed_bytes"

definition parse_unsubscribe_topic_name ::
  "u8 list \<Rightarrow> nat \<Rightarrow> nat \<Rightarrow> u8 list \<Rightarrow> nat \<Rightarrow> (u8 list \<times> nat \<times> nat) cres" where
  [codec_defs]: "parse_unsubscribe_topic_name src_pos src_len parse_bytes topic_name topic_name_max_length =
     parse_mqtt_sn_char_until_end_byte src_pos src_len parse_bytes topic_name topic_name_max_length"

text \<open>
  The result holds the flags, the message id, the topic id when one is read, the topic name object
  with the length stored for it when one is read, and the count.
\<close>

definition parse_unsubscribe_byte ::
  "u8 list \<Rightarrow> nat \<Rightarrow> u8 list \<Rightarrow> nat
   \<Rightarrow> (u8 \<times> int \<times> u8 \<times> u16 \<times> u16 option \<times> (u8 list \<times> nat) option \<times> nat) cres" where
  [codec_defs]: "parse_unsubscribe_byte topic_name topic_name_max_length data data_len =
     cbind (parse_unsubscribe_header data data_len 0) (\<lambda>(h, _).
     let parsed_bytes = 0 in
     cbind (parse_unsubscribe_flags (drop parsed_bytes data) data_len parsed_bytes (h_length h))
       (\<lambda>(dup, qos, topic_id_type, parsed_bytes).
     cbind (parse_unsubscribe_msg_id (drop parsed_bytes data) data_len parsed_bytes)
       (\<lambda>(msg_id, parsed_bytes).
     if topic_id_type = 0x01
     then
       cbind (parse_unsubscribe_predefined_topic (drop parsed_bytes data) data_len parsed_bytes)
         (\<lambda>(topic_id, parsed_bytes).
       Inr (dup, qos, topic_id_type, msg_id, Some topic_id, None, parsed_bytes))
     else if topic_id_type = 0x02
     then
       cbind (parse_unsubscribe_short_topic_name (drop parsed_bytes data) data_len parsed_bytes)
         (\<lambda>(topic_id, parsed_bytes).
       Inr (dup, qos, topic_id_type, msg_id, Some topic_id, None, parsed_bytes))
     else if topic_id_type = 0x00
     then
       cbind (parse_unsubscribe_topic_name (drop parsed_bytes data) data_len parsed_bytes topic_name
                topic_name_max_length)
         (\<lambda>(topic_name, topic_name_length, parsed_bytes).
       if parsed_bytes \<noteq> 0 then Inl Fail
       else Inr (dup, qos, topic_id_type, msg_id, None, Some (topic_name, topic_name_length),
                 parsed_bytes))
     else Inr (dup, qos, topic_id_type, msg_id, None, None, parsed_bytes))))"

definition get_unsubscribe_msg_len :: "nat \<Rightarrow> int" where
  "get_unsubscribe_msg_len topic_name_length =
     (if topic_name_length > 65535 - MQTT_SN_MESSAGE_UNSUBSCRIBE_WO_TOPICNAME_MAX_LENGTH then -1
      else
        let total_length =
          (MQTT_SN_MESSAGE_UNSUBSCRIBE_WO_TOPICNAME_MIN_LENGTH + topic_name_length) mod 65536 in
        if total_length > 255
        then int ((MQTT_SN_MESSAGE_UNSUBSCRIBE_WO_TOPICNAME_MAX_LENGTH + topic_name_length) mod 65536)
        else int total_length)"

definition generate_unsubscribe_topic_name_header ::
  "u8 list \<Rightarrow> nat \<Rightarrow> nat \<Rightarrow> nat \<Rightarrow> nat \<Rightarrow> (int \<times> u8 list \<times> nat) cres" where
  "generate_unsubscribe_topic_name_header dst pos dst_len topic_name_length used_bytes =
     (let total_length = get_unsubscribe_msg_len topic_name_length in
      if total_length < 0 \<or> int dst_len < total_length then Inl Fail
      else generate_mqtt_sn_header dst pos dst_len used_bytes (nat total_length) UNSUBSCRIBE)"

definition generate_unsubscribe_topic_name ::
  "u8 list \<Rightarrow> nat \<Rightarrow> u8 \<Rightarrow> u16 \<Rightarrow> u8 list \<Rightarrow> nat \<Rightarrow> (u8 list \<times> nat) cres" where
  "generate_unsubscribe_topic_name dst dst_len dup msg_id topic_name topic_name_length =
     cbind (generate_unsubscribe_topic_name_header dst 0 dst_len topic_name_length 0)
       (\<lambda>(_, dst, used_bytes).
     cbind (generate_flags dst used_bytes dst_len dup 0 0 0 0 0 used_bytes)
       (\<lambda>(_, dst, used_bytes).
     cbind (generate_msg_id dst used_bytes dst_len msg_id used_bytes)
       (\<lambda>(_, dst, used_bytes).
     cbind (generate_string dst used_bytes dst_len topic_name topic_name_length used_bytes)
       (\<lambda>(_, dst, used_bytes). Inr (dst, used_bytes)))))"

definition generate_unsubscribe_topic_id_header ::
  "u8 list \<Rightarrow> nat \<Rightarrow> nat \<Rightarrow> nat \<Rightarrow> (int \<times> u8 list \<times> nat) cres" where
  "generate_unsubscribe_topic_id_header dst pos dst_len used_bytes =
     (if dst_len < MQTT_SN_MESSAGE_UNSUBSCRIBE_W_TOPICID_LENGTH then Inl Fail
      else generate_mqtt_sn_header dst pos dst_len used_bytes
             MQTT_SN_MESSAGE_UNSUBSCRIBE_W_TOPICID_LENGTH UNSUBSCRIBE)"

definition generate_unsubscribe_topic_id ::
  "u8 list \<Rightarrow> nat \<Rightarrow> u8 \<Rightarrow> u8 \<Rightarrow> u16 \<Rightarrow> u16 \<Rightarrow> (u8 list \<times> nat) cres" where
  "generate_unsubscribe_topic_id dst dst_len dup topic_id_type msg_id topic_id =
     cbind (generate_unsubscribe_topic_id_header dst 0 dst_len 0) (\<lambda>(_, dst, used_bytes).
     cbind (generate_flags dst used_bytes dst_len dup 0 0 0 0 topic_id_type used_bytes)
       (\<lambda>(_, dst, used_bytes).
     cbind (generate_msg_id dst used_bytes dst_len msg_id used_bytes)
       (\<lambda>(_, dst, used_bytes).
     cbind (generate_topic_id dst used_bytes dst_len topic_id used_bytes)
       (\<lambda>(_, dst, used_bytes). Inr (dst, used_bytes)))))"

text \<open>The topic name may be \<open>NULL\<close>.\<close>

definition generate_unsubscribe ::
  "u8 list \<Rightarrow> nat \<Rightarrow> u8 \<Rightarrow> u8 \<Rightarrow> u16 \<Rightarrow> u16 \<Rightarrow> u8 list option \<Rightarrow> nat
   \<Rightarrow> (u8 list \<times> nat) cres" where
  "generate_unsubscribe dst dst_len dup topic_id_type msg_id topic_id topic_name topic_name_length =
     cbind (wr_bytes dst 0 (replicate dst_len 0)) (\<lambda>dst.
     if topic_id_type = 0x00 \<and> topic_name \<noteq> None \<and> topic_name_length > 0
     then generate_unsubscribe_topic_name dst dst_len dup msg_id (the topic_name) topic_name_length
     else if topic_id_type = 0x01 \<or> topic_id_type = 0x02
     then generate_unsubscribe_topic_id dst dst_len dup topic_id_type msg_id topic_id
     else Inl Fail)"

lemma get_unsubscribe_msg_len_eq:
  "get_unsubscribe_msg_len k = (if k \<le> 65528 then int (var_total 5 k) else -1)"
  by (auto simp: get_unsubscribe_msg_len_def var_total_def Let_def codec_defs)

definition unsubscribe_name_wire :: "u8 \<Rightarrow> u16 \<Rightarrow> u8 list \<Rightarrow> u8 list" where
  "unsubscribe_name_wire dup msg_id name =
     header_wire (var_total 5 (length name)) UNSUBSCRIBE
     @ [flag_byte 0 dup 0 0 0 0 0, hi8 msg_id, lo8 msg_id] @ name"

definition unsubscribe_id_wire :: "u8 \<Rightarrow> u8 \<Rightarrow> u16 \<Rightarrow> u16 \<Rightarrow> u8 list" where
  "unsubscribe_id_wire dup tid msg_id topic_id =
     header_wire 7 UNSUBSCRIBE
     @ [flag_byte 0 dup 0 0 0 0 tid, hi8 msg_id, lo8 msg_id, hi8 topic_id, lo8 topic_id]"

lemma generate_unsubscribe_name_eq:
  assumes "0 < k" "k \<le> length name" "dst_len \<le> length dst"
  shows "generate_unsubscribe dst dst_len dup 0 msg_id topic_id (Some name) k =
    (if wire_flags 0 0 \<and> k \<le> 65528 \<and> var_total 5 k \<le> dst_len
     then Inr (patched (cleared dst dst_len) (unsubscribe_name_wire dup msg_id (take k name)),
               var_total 5 k)
     else Inl Fail)"
  using assms var_total_header [of 5 k] header_size_def [of "var_total 5 k"]
  by (auto simp: generate_unsubscribe_def generate_unsubscribe_topic_name_def
      generate_unsubscribe_topic_name_header_def gen_simps get_unsubscribe_msg_len_eq
      unsubscribe_name_wire_def Let_def cleared_nth min_absorb2)

lemma generate_unsubscribe_id_eq:
  assumes "tid = 1 \<or> tid = 2" "dst_len \<le> length dst"
  shows "generate_unsubscribe dst dst_len dup tid msg_id topic_id name k =
    (if wire_flags 0 tid \<and> 7 \<le> dst_len
     then Inr (patched (cleared dst dst_len) (unsubscribe_id_wire dup tid msg_id topic_id), 7)
     else Inl Fail)"
  using assms
  by (auto simp: generate_unsubscribe_def generate_unsubscribe_topic_id_def
      generate_unsubscribe_topic_id_header_def gen_simps codec_defs unsubscribe_id_wire_def cleared_nth)

text \<open>
  What the reader accepts: it takes the length byte for the flags, the next two bytes for the message
  id and the two after them for the topic id, and it never returns a topic name.
\<close>

lemma parse_unsubscribe_accepts:
  assumes "parse_unsubscribe_byte buf cap data n = Inr (dup, qos, tid, mid, topic, name, rc)"
  shows "tid = data ! 0 AND 3 \<and> (tid = 1 \<or> tid = 2) \<and> mid = be16 (data ! 1) (data ! 2)
    \<and> topic = Some (be16 (data ! 3) (data ! 4)) \<and> name = None"
proof -
  have no_name: False if "parse_mqtt_sn_char_until_end_byte p n (Suc j) buf cap = Inr (b, k, 0)" for p b k j
    using that by (auto simp: parse_mqtt_sn_char_until_end_byte_def Let_def cbind_eq_Inr split: if_splits)
  show ?thesis
    using assms no_name and3_cases [of "data ! 0"]
    by (cases data rule: remdups_adj.cases)
      (auto simp: codec_defs Let_def cbind_eq_Inr read_uint16_accepts read_flags_byte
        split: if_splits)
qed

lemma parse_unsubscribe_rejects_id:
  "parse_unsubscribe_byte buf cap (unsubscribe_id_wire dup tid msg_id topic_id @ rest) 7 = Inl Fail"
  using parse_header_ok_wire [of UNSUBSCRIBE 7 UNSUBSCRIBE "flag_byte 0 dup 0 0 0 0 tid # hi8 msg_id
    # lo8 msg_id # hi8 topic_id # lo8 topic_id # rest" 0]
  by (simp add: codec_defs unsubscribe_id_wire_def header_wire_short Let_def read_flags_byte)

section \<open>SUBACK and UNSUBACK\<close>

definition MQTT_SN_MESSAGE_SUBACK_LENGTH :: nat where
  [codec_defs]: "MQTT_SN_MESSAGE_SUBACK_LENGTH = 2 + 1 + 2 + 2 + 1"

record MqttSnSuback =
  sa_granted_qos :: int
  sa_topic_id :: u16
  sa_msg_id :: u16
  sa_return_code :: MQTT_SN_RETURN_CODE

definition parse_suback_header :: "u8 list \<Rightarrow> nat \<Rightarrow> nat \<Rightarrow> (ParsedMqttSnHeader \<times> nat) cres" where
  [codec_defs]: "parse_suback_header data data_len parsed_bytes =
     cbind (parse_header_ok SUBACK data data_len parsed_bytes) (\<lambda>(h, parsed_bytes).
     if h_length h \<noteq> MQTT_SN_MESSAGE_SUBACK_LENGTH then Inl Fail else Inr (h, parsed_bytes))"

definition parse_suback_qos :: "u8 list \<Rightarrow> nat \<Rightarrow> nat \<Rightarrow> (int \<times> nat) cres" where
  [codec_defs]: "parse_suback_qos src_pos src_length parsed_bytes =
     cbind (parse_mqtt_sn_flags src_pos src_length parsed_bytes True False) (\<lambda>(f, parsed_bytes).
     Inr (f_qos f, parsed_bytes))"

definition parse_suback_topic_id :: "u8 list \<Rightarrow> nat \<Rightarrow> nat \<Rightarrow> (u16 \<times> nat) cres" where
  [codec_defs]: "parse_suback_topic_id src_pos src_length parsed_bytes =
     parse_mqtt_sn_uint16_byte src_pos src_length parsed_bytes"

definition parse_suback_msg_id :: "u8 list \<Rightarrow> nat \<Rightarrow> nat \<Rightarrow> (u16 \<times> nat) cres" where
  [codec_defs]: "parse_suback_msg_id src_pos src_length parsed_bytes =
     parse_mqtt_sn_uint16_byte src_pos src_length parsed_bytes"

definition parse_suback_return_code_byte ::
  "u8 list \<Rightarrow> nat \<Rightarrow> nat \<Rightarrow> (MQTT_SN_RETURN_CODE \<times> nat) cres" where
  [codec_defs]: "parse_suback_return_code_byte src_pos src_len parsed_bytes =
     parse_mqtt_sn_return_code_byte src_pos src_len parsed_bytes"

definition parse_suback_bytes ::
  "u8 list \<Rightarrow> nat \<Rightarrow> (int \<times> u16 \<times> u16 \<times> MQTT_SN_RETURN_CODE \<times> nat) cres" where
  [codec_defs]: "parse_suback_bytes data data_len =
     cbind (parse_suback_header data data_len 0) (\<lambda>(h, parsed_bytes).
     cbind (parse_suback_qos (drop parsed_bytes data) data_len parsed_bytes)
       (\<lambda>(granted_qos, parsed_bytes).
     cbind (parse_suback_topic_id (drop parsed_bytes data) data_len parsed_bytes)
       (\<lambda>(topic_id, parsed_bytes).
     cbind (parse_suback_msg_id (drop parsed_bytes data) data_len parsed_bytes)
       (\<lambda>(msg_id, parsed_bytes).
     cbind (parse_suback_return_code_byte (drop parsed_bytes data) data_len parsed_bytes)
       (\<lambda>(return_code, parsed_bytes).
     Inr (granted_qos, topic_id, msg_id, return_code, parsed_bytes))))))"

definition parse_suback :: "u8 list \<Rightarrow> nat \<Rightarrow> (MqttSnSuback \<times> nat) cres" where
  [codec_defs]: "parse_suback data data_len =
     cbind (parse_suback_bytes data data_len) (\<lambda>(granted_qos, topic_id, msg_id, return_code, rc).
     Inr (\<lparr>sa_granted_qos = granted_qos, sa_topic_id = topic_id, sa_msg_id = msg_id,
           sa_return_code = return_code\<rparr>, rc))"

text \<open>The code has no writer for SUBACK; a gateway's message with cleared flags but the granted QoS:\<close>

definition suback_wire :: "MqttSnSuback \<Rightarrow> u8 list" where
  "suback_wire m = header_wire 8 SUBACK
     @ [flag_byte 0 1 (sa_granted_qos m) 0 0 0 0, hi8 (sa_topic_id m), lo8 (sa_topic_id m),
        hi8 (sa_msg_id m), lo8 (sa_msg_id m), return_code_byte (sa_return_code m)]"

lemma parse_suback_wire:
  assumes "sa_granted_qos m \<in> {0, 1, 2}" "wire_return_code (sa_return_code m)"
  shows "parse_suback (suback_wire m @ rest) 8 = Inr (m, 8)"
  using assms
  by (simp add: codec_defs suback_wire_def parse_header_ok_wire read_flags wire_flags_def
      del: header_size_simps)
    (auto simp: header_size_def read_flags wire_flags_def)

lemma safe_parse_suback:
  "n \<le> length data \<Longrightarrow> data \<noteq> [1, 0, 3] \<Longrightarrow> safe (parse_suback data n)"
  unfolding codec_defs by (intro safe_intros)

definition MQTT_SN_MESSAGE_UNSUBACK_LENGTH :: nat where
  [codec_defs]: "MQTT_SN_MESSAGE_UNSUBACK_LENGTH = 2 + 2"

definition parse_unsuback_header :: "u8 list \<Rightarrow> nat \<Rightarrow> nat \<Rightarrow> (ParsedMqttSnHeader \<times> nat) cres" where
  [codec_defs]: "parse_unsuback_header data data_len parsed_bytes =
     cbind (parse_header_ok UNSUBACK data data_len parsed_bytes) (\<lambda>(h, parsed_bytes).
     if h_length h \<noteq> MQTT_SN_MESSAGE_UNSUBACK_LENGTH then Inl Fail else Inr (h, parsed_bytes))"

definition parse_unsuback_msg_id :: "u8 list \<Rightarrow> nat \<Rightarrow> nat \<Rightarrow> (u16 \<times> nat) cres" where
  [codec_defs]: "parse_unsuback_msg_id src_pos src_length parsed_bytes =
     parse_mqtt_sn_uint16_byte src_pos src_length parsed_bytes"

definition parse_unsuback_byte :: "u8 list \<Rightarrow> nat \<Rightarrow> (u16 \<times> nat) cres" where
  [codec_defs]: "parse_unsuback_byte data data_len =
     cbind (parse_unsuback_header data data_len 0) (\<lambda>(h, parsed_bytes).
     cbind (parse_unsuback_msg_id (drop parsed_bytes data) data_len parsed_bytes)
       (\<lambda>(msg_id, parsed_bytes). Inr (msg_id, parsed_bytes)))"

lemma parse_unsuback_eq: "map_sum id fst (parse_unsuback_byte data n) = read_msg_id UNSUBACK data n"
  by (auto simp: codec_defs read_msg_id_def map_sum_cbind cbind_assoc split_def intro!: cbind_cong)

lemma parse_unsuback_iff:
  assumes "n \<le> length data"
  shows "map_sum id fst (parse_unsuback_byte data n) = Inr w \<longleftrightarrow>
    n = 4 \<and> take n data = msg_id_wire UNSUBACK w"
proof
  assume "map_sum id fst (parse_unsuback_byte data n) = Inr w"
  then show "n = 4 \<and> take n data = msg_id_wire UNSUBACK w"
    using read_msg_id_accepts assms by (simp add: parse_unsuback_eq)
next
  assume n: "n = 4 \<and> take n data = msg_id_wire UNSUBACK w"
  then have "data = msg_id_wire UNSUBACK w @ drop 4 data"
    by (metis append_take_drop_id)
  then show "map_sum id fst (parse_unsuback_byte data n) = Inr w"
    using n read_msg_id_wire [of UNSUBACK w "drop 4 data"] by (simp add: parse_unsuback_eq)
qed

lemma safe_parse_unsuback:
  "n \<le> length data \<Longrightarrow> data \<noteq> [1, 0, 3] \<Longrightarrow> safe (parse_unsuback_byte data n)"
  unfolding codec_defs by (intro safe_intros)

end
