(* ===== verification/Client_State.thy ===== *)
theory Client_State
  imports Call_Monad Forwarder_State Msg_Connection Msg_Publish Msg_Will Msg_Subscribe
begin

text \<open>
  The MQTT-SN client of \<open>src/client\<close>: its state (\<open>MqttSnClient.h\<close> and the headers it includes), its
  set-up and settings and its access lists (\<open>MqttSnClientMethod.c\<close>, lines
  50-130 and the second half).

  Operations are calls on the client and the world behind the drivers (\<open>Call_Monad\<close>). The configuration is
  the default one of \<open>MqttSnClientConfig.h\<close>, in which every optional part is compiled in; logging has no
  effect on the client and is left out.
\<close>

section \<open>Enumerations\<close>

datatype MQTT_SN_CLIENT_STATUS =
    MQTT_SN_CLIENT_CONNECTION_STATUS_ERROR
  | MQTT_SN_CLIENT_CONNECTION_STATUS_UNINITALIZED
  | MQTT_SN_CLIENT_CONNECTION_STATUS_INITALIZED
  | MQTT_SN_CLIENT_CONNECTION_STATUS_GATEWAY_LOST
  | MQTT_SN_CLIENT_CONNECTION_STATUS_DISCONNECTED
  | MQTT_SN_CLIENT_CONNECTION_STATUS_CONNECTED
  | MQTT_SN_CLIENT_CONNECTION_STATUS_ASLEEP
  | MQTT_SN_CLIENT_CONNECTION_STATUS_AWAKE

fun client_status_code :: "MQTT_SN_CLIENT_STATUS \<Rightarrow> int" where
  "client_status_code MQTT_SN_CLIENT_CONNECTION_STATUS_ERROR = -2"
| "client_status_code MQTT_SN_CLIENT_CONNECTION_STATUS_UNINITALIZED = -1"
| "client_status_code MQTT_SN_CLIENT_CONNECTION_STATUS_INITALIZED = 0"
| "client_status_code MQTT_SN_CLIENT_CONNECTION_STATUS_GATEWAY_LOST = 1"
| "client_status_code MQTT_SN_CLIENT_CONNECTION_STATUS_DISCONNECTED = 2"
| "client_status_code MQTT_SN_CLIENT_CONNECTION_STATUS_CONNECTED = 3"
| "client_status_code MQTT_SN_CLIENT_CONNECTION_STATUS_ASLEEP = 4"
| "client_status_code MQTT_SN_CLIENT_CONNECTION_STATUS_AWAKE = 5"

datatype MQTT_SN_CLIENT_RETURN_CODE =
    MQTT_SN_CLIENT_RETURN_ERROR
  | MQTT_SN_CLIENT_RETURN_SUCCESS
  | MQTT_SN_CLIENT_RETURN_CONGESTION
  | MQTT_SN_CLIENT_RETURN_NOT_SUPPORTED
  | MQTT_SN_CLIENT_RETURN_TIMEOUT
  | MQTT_SN_CLIENT_RETURN_NETWORK_ERROR
  | MQTT_SN_CLIENT_RETURN_NOT_CONNECTED
  | MQTT_SN_CLIENT_RETURN_CONNECTION_LOST

text \<open>The only negative code of a loop pass is \<open>MQTT_SN_CLIENT_LOOP_RETURN_ERROR\<close>.\<close>

datatype MQTT_SN_CLIENT_LOOP_RETURN_CODE =
    MQTT_SN_CLIENT_LOOP_RETURN_ERROR
  | MQTT_SN_CLIENT_LOOP_RETURN_SUCCESS
  | MQTT_SN_CLIENT_LOOP_RETURN_TIMEOUT
  | MQTT_SN_CLIENT_LOOP_RETURN_PARSEERROR
  | MQTT_SN_CLIENT_LOOP_RETURN_UNHANDLEDMSG
  | MQTT_SN_CLIENT_LOOP_RETURN_NOTAWAITEDMSG
  | MQTT_SN_CLIENT_LOOP_RETURN_QOS2RECEIVETIMOUT

fun loop_code :: "MQTT_SN_CLIENT_LOOP_RETURN_CODE \<Rightarrow> int" where
  "loop_code MQTT_SN_CLIENT_LOOP_RETURN_ERROR = -1"
| "loop_code MQTT_SN_CLIENT_LOOP_RETURN_SUCCESS = 0"
| "loop_code MQTT_SN_CLIENT_LOOP_RETURN_TIMEOUT = 1"
| "loop_code MQTT_SN_CLIENT_LOOP_RETURN_PARSEERROR = 2"
| "loop_code MQTT_SN_CLIENT_LOOP_RETURN_UNHANDLEDMSG = 3"
| "loop_code MQTT_SN_CLIENT_LOOP_RETURN_NOTAWAITEDMSG = 4"
| "loop_code MQTT_SN_CLIENT_LOOP_RETURN_QOS2RECEIVETIMOUT = 5"

lemma loop_code_negative: "loop_code rc < 0 \<longleftrightarrow> rc = MQTT_SN_CLIENT_LOOP_RETURN_ERROR"
  by (cases rc) auto

datatype MQTT_SN_CLIENT_FIND_GW_PATTERN =
    MQTT_SN_CLIENT_FIND_GW_PATTERN_ADVERTISE
  | MQTT_SN_CLIENT_FIND_GW_PATTERN_SEARCHGW
  | MQTT_SN_CLIENT_FIND_GW_PATTERN_DIRECT

datatype MQTT_SN_CLIENT_AWAIT_MESSAGE_STATUS =
    MQTT_SN_CLIENT_AWAIT_MESSAGE_STATUS_ERROR
  | MQTT_SN_CLIENT_AWAIT_MESSAGE_STATUS_SUCCESS
  | MQTT_SN_CLIENT_AWAIT_MESSAGE_STATUS_AWAIT
  | MQTT_SN_CLIENT_AWAIT_MESSAGE_STATUS_TIMEOUT

section \<open>The state\<close>

record MqttSnClientReceivedAdvertise =
  ra_received_advertise :: MqttSnAdvertise
  ra_from :: "u8 list"
  ra_adv_signal_strength :: u8

record MqttSnClientReceivedGwInfo =
  rg_received_gw_info :: MqttSnGwInfo
  rg_from :: "u8 list"
  rg_signal_strength :: u8

text \<open>
  A callback is a number that names the function, a destination the object it points to: only the context
  refers to that object while the call that owns it waits, and the owner takes it back from there.
\<close>

record MqttSnClientAwaitContext =
  ac_return_code :: MQTT_SN_RETURN_CODE
  ac_topic_id :: u16
  ac_granted_qos :: int
  ac_adv_cb :: "nat option"
  ac_gwinfo_cb :: "nat option"
  ac_dst_gwinfo :: "MqttSnClientReceivedGwInfo option"
  ac_dst_advertise :: "MqttSnClientReceivedAdvertise option"
  ac_context :: nat

record MqttSnClientAwaitMessage =
  am_msg_type :: MQTT_SN_MESSAGE_TYPE
  am_msg_id :: u16
  am_status :: MQTT_SN_CLIENT_AWAIT_MESSAGE_STATUS
  am_await_context :: MqttSnClientAwaitContext

record MqttSnClientRegistration =
  cr_topic_name :: "u8 list"
  cr_topic_id :: u16

text \<open>\<open>will_msg\<close> is a pointer in the source, not an array: \<open>None\<close> as long as nothing sets it.\<close>

record MqttSnClientBuffer =
  cb_client_id :: "u8 list"
  cb_client_id_length :: u8
  cb_will_topic :: "u8 list"
  cb_will_topic_length :: nat
  cb_will_msg :: "u8 list option"
  cb_will_msg_len :: nat

text \<open>The three fields each of the four access lists has in the source.\<close>

record 'a access_list =
  al_max_len :: nat
  al_items :: "'a list"
  al_len :: nat

text \<open>
  The pointers \<open>client_id\<close>, \<open>will_topic\<close> and \<open>will_msg\<close> are either null or point to the client's own buffer:
  the flags say which.
\<close>

record 'w MqttSnClient =
  c_retry_timeout_ms :: int
  c_retry_count :: u16
  c_congestion_delay_s :: u64
  c_default_signal_strength :: u8
  c_low_timeout_threshold_s :: u16
  c_low_threshold_tolerance_percentage :: nat
  c_high_threshold_tolerance_percentage :: nat
  c_status :: MQTT_SN_CLIENT_STATUS
  c_msg_counter :: u16
  c_clean_session :: u8
  c_connect_duration :: u16
  c_sleep_duration :: u16
  c_mqtt_sn_gateway_address :: "u8 list"
  c_mqtt_sn_broadcast_address :: "u8 list"
  c_client_id :: bool
  c_will_topic :: bool
  c_will_topic_length :: nat
  c_will_msg :: bool
  c_will_msg_len :: nat
  c_will_qos :: int
  c_will_retain :: u8
  c_registrations :: "MqttSnClientRegistration list"
  c_registrations_len :: nat
  c_gatewayNetwork :: "'w MqttSnGatewayNetworkInterface"
  c_gatewayNetworkSendTimeout :: int
  c_gatewayNetworkReceiveTimeout :: int
  c_await_msg :: "MqttSnClientAwaitMessage list"
  c_last_ping_req_received :: u64
  c_last_ping_resp_received_s :: u64
  c_ping_req_await_msg :: MqttSnClientAwaitMessage
  c_connect_timeout_offset :: int
  c_ping_req_send_time_s :: u64
  c_awake_any_msg_received :: bool
  c_awake_ping_request_send_time_s :: u64
  c_publish_cb :: "nat option"
  c_searchgw_reply :: u8
  c_searchgw_reply_await_msg :: MqttSnClientAwaitMessage
  c_searchgw_reply_await_last_s :: u64
  c_gwinfo_delay_ms :: u16
  c_discovered_gw_list :: MqttSnDiscoveredGatewayList
  c_client_buffer :: MqttSnClientBuffer
  c_find_gw_pattern :: MQTT_SN_CLIENT_FIND_GW_PATTERN
  c_find_gateway_wait_timeout_ms :: int
  c_auto_reconnect_enabled :: u8
  c_auto_reconnect_tried :: u8
  c_auto_reconnect_congestion :: u8
  c_auto_reconnect_congestion_wait_s :: u64
  c_gw_id_whitelist :: "u8 access_list"
  c_gw_addr_whitelist :: "u8 list access_list"
  c_gw_id_blacklist :: "u8 access_list"
  c_gw_addr_blacklist :: "u8 list access_list"

type_synonym ('w, 'a) client_call = "'w MqttSnClient \<times> 'w \<Rightarrow> stopped + 'a \<times> 'w MqttSnClient \<times> 'w"

text \<open>What the client takes from outside: the clock, the functions behind the callback pointers, and what its
  uninitialised arrays hold.\<close>

record 'w client_env =
  ce_platform :: "'w platform"
  ce_publish_cb :: "nat \<Rightarrow> 'w MqttSnClient \<Rightarrow> MqttSnPublish \<Rightarrow> 'w \<Rightarrow> int \<times> 'w"
  ce_adv_cb :: "nat \<Rightarrow> MqttSnClientReceivedAdvertise \<Rightarrow> nat \<Rightarrow> 'w \<Rightarrow> int \<times> 'w"
  ce_gwinfo_cb :: "nat \<Rightarrow> MqttSnClientReceivedGwInfo \<Rightarrow> nat \<Rightarrow> 'w \<Rightarrow> int \<times> 'w"
  ce_garbage :: "nat \<Rightarrow> u8"

text \<open>A local array without an initialiser holds bytes nobody knows.\<close>

definition uninitialised :: "'w client_env \<Rightarrow> nat \<Rightarrow> u8 list" where
  "uninitialised env n = map (ce_garbage env) [0..<n]"

lemma length_uninitialised [simp]: "length (uninitialised env n) = n"
  by (simp add: uninitialised_def)

text \<open>\<open>get_timestamp_s\<close>: its return code and the value it stores.\<close>

definition cl_time :: "'w client_env \<Rightarrow> ('w, int \<times> u64) client_call" where
  "cl_time env = cl_world (get_timestamp_s (ce_platform env))"

section \<open>The default configuration\<close>

definition MQTT_SN_CLIENT_DEFAULT_RETRY_TIMEOUT_MS :: int where
  "MQTT_SN_CLIENT_DEFAULT_RETRY_TIMEOUT_MS = 5000"

definition MQTT_SN_CLIENT_DEFAULT_RETRY_COUNT :: u16 where
  "MQTT_SN_CLIENT_DEFAULT_RETRY_COUNT = 1"

definition MQTT_SN_CLIENT_GWINFO_DELAY_MS :: u16 where
  "MQTT_SN_CLIENT_GWINFO_DELAY_MS = 5000"

definition MQTT_SN_CLIENT_MAX_REGISTRATIONS :: nat where
  "MQTT_SN_CLIENT_MAX_REGISTRATIONS = 10"

definition MQTT_SN_CLIENT_MAX_MESSAGES_IN_FLIGHT :: nat where
  "MQTT_SN_CLIENT_MAX_MESSAGES_IN_FLIGHT = 5"

definition MQTT_SN_CLIENT_PING_REQ_ADVANCE_TIME_S :: u16 where
  "MQTT_SN_CLIENT_PING_REQ_ADVANCE_TIME_S = 10"

definition MQTT_SN_CLIENT_MAX_REGISTRATION_TOPIC_NAME_LENGTH :: nat where
  "MQTT_SN_CLIENT_MAX_REGISTRATION_TOPIC_NAME_LENGTH = 255"

definition MQTT_SN_CLIENT_MAX_WILL_TOPIC_LENGTH :: nat where
  "MQTT_SN_CLIENT_MAX_WILL_TOPIC_LENGTH = 255"

definition MQTT_SN_CLIENT_MAX_WILL_MSG_LENGTH :: nat where
  "MQTT_SN_CLIENT_MAX_WILL_MSG_LENGTH = 255"

definition MQTT_SN_MAX_CLIENT_ID_LENGTH :: nat where
  "MQTT_SN_MAX_CLIENT_ID_LENGTH = 24"

section \<open>Access lists\<close>

definition al_add :: "'a \<Rightarrow> 'a access_list \<Rightarrow> (MQTT_SN_CLIENT_RETURN_CODE \<times> 'a access_list) cres" where
  "al_add x l =
     (if al_len l + 1 \<ge> al_max_len l then Inr (MQTT_SN_CLIENT_RETURN_ERROR, l)
      else
        cbind (search_loop (al_items l) (al_len l) x 0) (\<lambda>found.
        if found then Inr (MQTT_SN_CLIENT_RETURN_SUCCESS, l)
        else
          cbind (wr_arr (al_items l) (al_len l) x) (\<lambda>items.
          Inr (MQTT_SN_CLIENT_RETURN_SUCCESS,
               l\<lparr>al_items := items, al_len := (al_len l + 1) mod 65536\<rparr>))))"

text \<open>The last entry takes the place of the removed one.\<close>

function al_remove_loop ::
  "MQTT_SN_CLIENT_RETURN_CODE \<Rightarrow> 'a \<Rightarrow> 'a \<Rightarrow> 'a access_list \<Rightarrow> nat
   \<Rightarrow> (MQTT_SN_CLIENT_RETURN_CODE \<times> 'a access_list) cres" where
  "al_remove_loop not_found z x l i =
     (if i < al_len l
      then
        cbind (rd_arr (al_items l) i) (\<lambda>y.
        if y = x
        then
          cbind (rd_arr (al_items l) (al_len l - 1)) (\<lambda>last.
          cbind (wr_arr (al_items l) i last) (\<lambda>items.
          cbind (wr_arr items (al_len l - 1) z) (\<lambda>items.
          Inr (MQTT_SN_CLIENT_RETURN_SUCCESS, l\<lparr>al_items := items, al_len := al_len l - 1\<rparr>))))
        else al_remove_loop not_found z x l (i + 1))
      else Inr (not_found, l))"
  by pat_completeness auto
termination
  by (relation "measure (\<lambda>(_, _, _, l, i). al_len l - i)") auto

declare al_remove_loop.simps [simp del]

definition al_remove ::
  "MQTT_SN_CLIENT_RETURN_CODE \<Rightarrow> 'a \<Rightarrow> 'a \<Rightarrow> 'a access_list
   \<Rightarrow> (MQTT_SN_CLIENT_RETURN_CODE \<times> 'a access_list) cres" where
  "al_remove not_found z x l =
     (if al_len l = 0 then Inr (MQTT_SN_CLIENT_RETURN_SUCCESS, l) else al_remove_loop not_found z x l 0)"

definition al_clear :: "'a \<Rightarrow> 'a access_list \<Rightarrow> 'a access_list cres" where
  "al_clear z l =
     cbind (zero_loop z (al_items l) ACCESS_LIST_LENGTH 0) (\<lambda>items.
     Inr (l\<lparr>al_max_len := ACCESS_LIST_LENGTH, al_items := items, al_len := 0\<rparr>))"

definition al_contains :: "'a access_list \<Rightarrow> 'a \<Rightarrow> bool cres" where
  "al_contains l x = search_loop (al_items l) (al_len l) x 0"

definition MqttSnClientAddWhitelistGwId ::
  "u8 \<Rightarrow> ('w, MQTT_SN_CLIENT_RETURN_CODE) client_call" where
  "MqttSnClientAddWhitelistGwId gw_id =
     cl_bind (cl_get c_gw_id_whitelist) (\<lambda>l.
     cl_bind (cl_mem (al_add gw_id l)) (\<lambda>(rc, l).
     cl_bind (cl_put (\<lambda>c. c\<lparr>c_gw_id_whitelist := l\<rparr>)) (\<lambda>_.
     cl_return rc)))"

definition MqttSnClientRemoveWhitelistGwId ::
  "u8 \<Rightarrow> ('w, MQTT_SN_CLIENT_RETURN_CODE) client_call" where
  "MqttSnClientRemoveWhitelistGwId gw_id =
     cl_bind (cl_get c_gw_id_whitelist) (\<lambda>l.
     cl_bind (cl_mem (al_remove MQTT_SN_CLIENT_RETURN_SUCCESS 0 gw_id l)) (\<lambda>(rc, l).
     cl_bind (cl_put (\<lambda>c. c\<lparr>c_gw_id_whitelist := l\<rparr>)) (\<lambda>_.
     cl_return rc)))"

definition MqttSnClientClearWhitelistGwId :: "('w, unit) client_call" where
  "MqttSnClientClearWhitelistGwId =
     cl_bind (cl_get c_gw_id_whitelist) (\<lambda>l.
     cl_bind (cl_mem (al_clear 0 l)) (\<lambda>l.
     cl_put (\<lambda>c. c\<lparr>c_gw_id_whitelist := l\<rparr>)))"

definition MqttSnClientWhitelistContainsGwId :: "u8 \<Rightarrow> ('w, bool) client_call" where
  "MqttSnClientWhitelistContainsGwId gw_id =
     cl_bind (cl_get c_gw_id_whitelist) (\<lambda>l.
     cl_mem (al_contains l gw_id))"

definition MqttSnClientAddWhitelistNetworkAddress ::
  "u8 list \<Rightarrow> ('w, MQTT_SN_CLIENT_RETURN_CODE) client_call" where
  "MqttSnClientAddWhitelistNetworkAddress address =
     cl_bind (cl_get c_gw_addr_whitelist) (\<lambda>l.
     cl_bind (cl_mem (al_add address l)) (\<lambda>(rc, l).
     cl_bind (cl_put (\<lambda>c. c\<lparr>c_gw_addr_whitelist := l\<rparr>)) (\<lambda>_.
     cl_return rc)))"

definition MqttSnClientRemoveWhitelistNetworkAddress ::
  "u8 list \<Rightarrow> ('w, MQTT_SN_CLIENT_RETURN_CODE) client_call" where
  "MqttSnClientRemoveWhitelistNetworkAddress address =
     cl_bind (cl_get c_gw_addr_whitelist) (\<lambda>l.
     cl_bind (cl_mem (al_remove MQTT_SN_CLIENT_RETURN_SUCCESS zero_address address l)) (\<lambda>(rc, l).
     cl_bind (cl_put (\<lambda>c. c\<lparr>c_gw_addr_whitelist := l\<rparr>)) (\<lambda>_.
     cl_return rc)))"

definition MqttSnClientClearWhitelistNetworkAddress :: "('w, unit) client_call" where
  "MqttSnClientClearWhitelistNetworkAddress =
     cl_bind (cl_get c_gw_addr_whitelist) (\<lambda>l.
     cl_bind (cl_mem (al_clear zero_address l)) (\<lambda>l.
     cl_put (\<lambda>c. c\<lparr>c_gw_addr_whitelist := l\<rparr>)))"

definition MqttSnClientWhitelistContainsNetworkAddress :: "u8 list \<Rightarrow> ('w, bool) client_call" where
  "MqttSnClientWhitelistContainsNetworkAddress address =
     cl_bind (cl_get c_gw_addr_whitelist) (\<lambda>l.
     cl_mem (al_contains l address))"

definition MqttSnClientAddBlacklistGwId ::
  "u8 \<Rightarrow> ('w, MQTT_SN_CLIENT_RETURN_CODE) client_call" where
  "MqttSnClientAddBlacklistGwId gw_id =
     cl_bind (cl_get c_gw_id_blacklist) (\<lambda>l.
     cl_bind (cl_mem (al_add gw_id l)) (\<lambda>(rc, l).
     cl_bind (cl_put (\<lambda>c. c\<lparr>c_gw_id_blacklist := l\<rparr>)) (\<lambda>_.
     cl_return rc)))"

definition MqttSnClientRemoveBlacklistGwId ::
  "u8 \<Rightarrow> ('w, MQTT_SN_CLIENT_RETURN_CODE) client_call" where
  "MqttSnClientRemoveBlacklistGwId gw_id =
     cl_bind (cl_get c_gw_id_blacklist) (\<lambda>l.
     cl_bind (cl_mem (al_remove MQTT_SN_CLIENT_RETURN_SUCCESS 0 gw_id l)) (\<lambda>(rc, l).
     cl_bind (cl_put (\<lambda>c. c\<lparr>c_gw_id_blacklist := l\<rparr>)) (\<lambda>_.
     cl_return rc)))"

definition MqttSnClientClearBlacklistGwId :: "('w, unit) client_call" where
  "MqttSnClientClearBlacklistGwId =
     cl_bind (cl_get c_gw_id_blacklist) (\<lambda>l.
     cl_bind (cl_mem (al_clear 0 l)) (\<lambda>l.
     cl_put (\<lambda>c. c\<lparr>c_gw_id_blacklist := l\<rparr>)))"

definition MqttSnClientBlacklistContainsGwId :: "u8 \<Rightarrow> ('w, bool) client_call" where
  "MqttSnClientBlacklistContainsGwId gw_id =
     cl_bind (cl_get c_gw_id_blacklist) (\<lambda>l.
     cl_mem (al_contains l gw_id))"

definition MqttSnClientAddBlacklistNetworkAddress ::
  "u8 list \<Rightarrow> ('w, MQTT_SN_CLIENT_RETURN_CODE) client_call" where
  "MqttSnClientAddBlacklistNetworkAddress address =
     cl_bind (cl_get c_gw_addr_blacklist) (\<lambda>l.
     cl_bind (cl_mem (al_add address l)) (\<lambda>(rc, l).
     cl_bind (cl_put (\<lambda>c. c\<lparr>c_gw_addr_blacklist := l\<rparr>)) (\<lambda>_.
     cl_return rc)))"

definition MqttSnClientRemoveBlacklistNetworkAddress ::
  "u8 list \<Rightarrow> ('w, MQTT_SN_CLIENT_RETURN_CODE) client_call" where
  "MqttSnClientRemoveBlacklistNetworkAddress address =
     cl_bind (cl_get c_gw_addr_blacklist) (\<lambda>l.
     cl_bind (cl_mem (al_remove MQTT_SN_CLIENT_RETURN_CONNECTION_LOST zero_address address l)) (\<lambda>(rc, l).
     cl_bind (cl_put (\<lambda>c. c\<lparr>c_gw_addr_blacklist := l\<rparr>)) (\<lambda>_.
     cl_return rc)))"

definition MqttSnClientClearBlacklistNetworkAddress :: "('w, unit) client_call" where
  "MqttSnClientClearBlacklistNetworkAddress =
     cl_bind (cl_get c_gw_addr_blacklist) (\<lambda>l.
     cl_bind (cl_mem (al_clear zero_address l)) (\<lambda>l.
     cl_put (\<lambda>c. c\<lparr>c_gw_addr_blacklist := l\<rparr>)))"

definition MqttSnClientBlacklistContainsNetworkAddress :: "u8 list \<Rightarrow> ('w, bool) client_call" where
  "MqttSnClientBlacklistContainsNetworkAddress address =
     cl_bind (cl_get c_gw_addr_blacklist) (\<lambda>l.
     cl_mem (al_contains l address))"

section \<open>Settings\<close>

definition MqttSnClientSetTimeoutOffset :: "int \<Rightarrow> ('w, unit) client_call" where
  "MqttSnClientSetTimeoutOffset timeout_offset_s = cl_put (\<lambda>c. c\<lparr>c_connect_timeout_offset := timeout_offset_s\<rparr>)"

definition MqttSnClientSetRetryCount :: "u16 \<Rightarrow> ('w, unit) client_call" where
  "MqttSnClientSetRetryCount retry_count = cl_put (\<lambda>c. c\<lparr>c_retry_count := retry_count\<rparr>)"

definition MqttSnClientSetCongestionDelay :: "u64 \<Rightarrow> ('w, unit) client_call" where
  "MqttSnClientSetCongestionDelay congestion_delay_s = cl_put (\<lambda>c. c\<lparr>c_congestion_delay_s := congestion_delay_s\<rparr>)"

definition MqttSnClientSetDefaultSignalStrength :: "u8 \<Rightarrow> ('w, unit) client_call" where
  "MqttSnClientSetDefaultSignalStrength default_signal_strength = cl_put (\<lambda>c. c\<lparr>c_default_signal_strength := default_signal_strength\<rparr>)"

definition MqttSnClientEnableSearchGwReply :: "('w, unit) client_call" where
  "MqttSnClientEnableSearchGwReply = cl_put (\<lambda>c. c\<lparr>c_searchgw_reply := 1\<rparr>)"

definition MqttSnClientDisableSearchGwReply :: "('w, unit) client_call" where
  "MqttSnClientDisableSearchGwReply = cl_put (\<lambda>c. c\<lparr>c_searchgw_reply := 0\<rparr>)"

definition MqttSnClientSearchGwGwInfoReplyDelay :: "u16 \<Rightarrow> ('w, unit) client_call" where
  "MqttSnClientSearchGwGwInfoReplyDelay gw_info_delay_ms = cl_put (\<lambda>c. c\<lparr>c_gwinfo_delay_ms := gw_info_delay_ms\<rparr>)"

definition MqttSnClientEnableAutoReconnect :: "('w, unit) client_call" where
  "MqttSnClientEnableAutoReconnect = cl_put (\<lambda>c. c\<lparr>c_auto_reconnect_enabled := 1\<rparr>)"

definition MqttSnClientDisableAutoReconnect :: "('w, unit) client_call" where
  "MqttSnClientDisableAutoReconnect = cl_put (\<lambda>c. c\<lparr>c_auto_reconnect_enabled := 0\<rparr>)"

definition MqttSnClientSetMqttSnGatewayAddress ::
  "u8 list \<Rightarrow> ('w, MQTT_SN_CLIENT_RETURN_CODE) client_call" where
  "MqttSnClientSetMqttSnGatewayAddress mqtt_sn_gateway_address =
     cl_bind (cl_put (\<lambda>c. c\<lparr>c_mqtt_sn_gateway_address := mqtt_sn_gateway_address\<rparr>)) (\<lambda>_.
     cl_return MQTT_SN_CLIENT_RETURN_SUCCESS)"

definition MqttSnClientSetMqttSnBroadcastAddress ::
  "u8 list \<Rightarrow> ('w, MQTT_SN_CLIENT_RETURN_CODE) client_call" where
  "MqttSnClientSetMqttSnBroadcastAddress mqtt_sn_broadcast_address =
     cl_bind (cl_put (\<lambda>c. c\<lparr>c_mqtt_sn_broadcast_address := mqtt_sn_broadcast_address\<rparr>)) (\<lambda>_.
     cl_return MQTT_SN_CLIENT_RETURN_SUCCESS)"

definition MqttSnClientSetPublishCallback ::
  "nat option \<Rightarrow> ('w, MQTT_SN_CLIENT_RETURN_CODE) client_call" where
  "MqttSnClientSetPublishCallback publish_cb =
     cl_bind (cl_put (\<lambda>c. c\<lparr>c_publish_cb := publish_cb\<rparr>)) (\<lambda>_.
     cl_return MQTT_SN_CLIENT_RETURN_SUCCESS)"

definition MqttSnClientSetRetryTimeout :: "int \<Rightarrow> ('w, MQTT_SN_CLIENT_RETURN_CODE) client_call" where
  "MqttSnClientSetRetryTimeout retry_timeout_ms =
     (if retry_timeout_ms < -1 then cl_return MQTT_SN_CLIENT_RETURN_ERROR
      else
        cl_bind (cl_put (\<lambda>c. c\<lparr>c_retry_timeout_ms := retry_timeout_ms\<rparr>)) (\<lambda>_.
        cl_return MQTT_SN_CLIENT_RETURN_SUCCESS))"

definition MqttSnClientIsSearchGwReplyEnabled :: "('w, u8) client_call" where
  "MqttSnClientIsSearchGwReplyEnabled = cl_get c_searchgw_reply"

definition MqttSnClientIsAutoReconnectEnabled :: "('w, u8) client_call" where
  "MqttSnClientIsAutoReconnectEnabled = cl_get c_auto_reconnect_enabled"

section \<open>Set-up\<close>

definition GatewayNetworkConnect_call :: "('w, int) client_call" where
  "GatewayNetworkConnect_call s =
     (let (rc, n, w) = GatewayNetworkConnect (c_gatewayNetwork (fst s)) (snd s)
      in Inr (rc, (fst s)\<lparr>c_gatewayNetwork := n\<rparr>, w))"

definition GatewayNetworkDisconnect_call :: "('w, int) client_call" where
  "GatewayNetworkDisconnect_call s =
     (let (rc, n, w) = GatewayNetworkDisconnect (c_gatewayNetwork (fst s)) (snd s)
      in Inr (rc, (fst s)\<lparr>c_gatewayNetwork := n\<rparr>, w))"

text \<open>The loop over the table of awaited messages in the initialisation.\<close>

function init_await_loop :: "nat \<Rightarrow> MqttSnClientAwaitMessage list \<Rightarrow> MqttSnClientAwaitMessage list cres" where
  "init_await_loop i msgs =
     (if i < MQTT_SN_CLIENT_MAX_MESSAGES_IN_FLIGHT
      then
        cbind (rd_arr msgs i) (\<lambda>m.
        cbind (wr_arr msgs i (m\<lparr>am_msg_type := ANY_MESSAGE_TYPE, am_msg_id := 0\<rparr>)) (\<lambda>msgs.
        init_await_loop (i + 1) msgs))
      else Inr msgs)"
  by pat_completeness auto
termination
  by (relation "measure (\<lambda>(i, _). MQTT_SN_CLIENT_MAX_MESSAGES_IN_FLIGHT - i)") auto

declare init_await_loop.simps [simp del]

definition client_defaults :: "'w MqttSnClient \<Rightarrow> 'w MqttSnClient" where
  "client_defaults c =
     c\<lparr>c_retry_timeout_ms := MQTT_SN_CLIENT_DEFAULT_RETRY_TIMEOUT_MS,
       c_retry_count := MQTT_SN_CLIENT_DEFAULT_RETRY_COUNT,
       c_default_signal_strength := 1,
       c_low_timeout_threshold_s := 60,
       c_low_threshold_tolerance_percentage := 50,
       c_high_threshold_tolerance_percentage := 10,
       c_status := MQTT_SN_CLIENT_CONNECTION_STATUS_UNINITALIZED,
       c_msg_counter := 0,
       c_connect_timeout_offset := 0,
       c_ping_req_await_msg :=
         (c_ping_req_await_msg c)\<lparr>am_msg_type := ANY_MESSAGE_TYPE, am_msg_id := 0\<rparr>\<rparr>"

definition MqttSnClientInit :: "('w, MQTT_SN_CLIENT_STATUS) client_call" where
  "MqttSnClientInit =
     cl_bind (cl_put client_defaults) (\<lambda>_.
     cl_bind (cl_get c_await_msg) (\<lambda>msgs.
     cl_bind (cl_mem (init_await_loop 0 msgs)) (\<lambda>msgs.
     cl_bind (cl_put (\<lambda>c. c\<lparr>c_await_msg := msgs\<rparr>)) (\<lambda>_.
     cl_bind GatewayNetworkConnect_call (\<lambda>rc.
     if rc \<noteq> 0
     then
       cl_bind (cl_put (\<lambda>c. c\<lparr>c_status := MQTT_SN_CLIENT_CONNECTION_STATUS_UNINITALIZED\<rparr>)) (\<lambda>_.
       cl_get c_status)
     else
       cl_bind (cl_put (\<lambda>c. c\<lparr>c_searchgw_reply := 1,
                             c_gwinfo_delay_ms := MQTT_SN_CLIENT_GWINFO_DELAY_MS,
                             c_discovered_gw_list := MqttSnDiscoveredGatewayListInit,
                             c_find_gw_pattern := MQTT_SN_CLIENT_FIND_GW_PATTERN_SEARCHGW,
                             c_auto_reconnect_enabled := 1\<rparr>)) (\<lambda>_.
       cl_bind MqttSnClientClearWhitelistGwId (\<lambda>_.
       cl_bind MqttSnClientClearWhitelistNetworkAddress (\<lambda>_.
       cl_bind MqttSnClientClearBlacklistGwId (\<lambda>_.
       cl_bind MqttSnClientClearBlacklistNetworkAddress (\<lambda>_.
       cl_bind (cl_put (\<lambda>c. c\<lparr>c_status := MQTT_SN_CLIENT_CONNECTION_STATUS_INITALIZED\<rparr>)) (\<lambda>_.
       cl_get c_status)))))))))))"

definition MqttSnClientDeinit :: "('w, MQTT_SN_CLIENT_STATUS) client_call" where
  "MqttSnClientDeinit =
     cl_bind (cl_get c_status) (\<lambda>status.
     if client_status_code status < client_status_code MQTT_SN_CLIENT_CONNECTION_STATUS_INITALIZED
     then cl_return status
     else
       cl_bind GatewayNetworkDisconnect_call (\<lambda>rc.
       if rc < 0 then cl_get c_status
       else
         cl_bind (cl_put (\<lambda>c. c\<lparr>c_status := MQTT_SN_CLIENT_CONNECTION_STATUS_UNINITALIZED\<rparr>)) (\<lambda>_.
         cl_get c_status)))"

end
