(* ===== verification/Client_Await.thy ===== *)
theory Client_Await
  imports Client_State
begin

text \<open>
  The messages a client waits for: the table of \<open>src/client/MqttSnClientAwaitMessage.c\<close>, the waiting loops,
  and the calls of \<open>MqttSnClientMethod.c\<close> that send a message and wait for its answer. A waiting call runs
  passes of the client's loop, which the definitions take as the argument \<open>loop\<close>; the number of passes one
  wait may make is bounded by the fuel \<open>k\<close>, and running out of it is \<open>Out_Of_Fuel\<close>.
\<close>

section \<open>The table\<close>

text \<open>The context after \<open>memset\<close> to zero; the return code with value 0 is \<open>RETURN_CODE_ACCEPTED\<close>.\<close>

definition zero_await_context :: MqttSnClientAwaitContext where
  "zero_await_context =
     \<lparr>ac_return_code = RETURN_CODE_ACCEPTED, ac_topic_id = 0, ac_granted_qos = 0, ac_adv_cb = None,
      ac_gwinfo_cb = None, ac_dst_gwinfo = None, ac_dst_advertise = None, ac_context = 0\<rparr>"

definition await_fd_valid :: "int \<Rightarrow> bool" where
  "await_fd_valid await_fd \<longleftrightarrow>
     \<not> (await_fd < 0 \<or> await_fd > int MQTT_SN_CLIENT_MAX_MESSAGES_IN_FLIGHT - 1)"

text \<open>Read and change the entry of a valid descriptor.\<close>

definition get_await_msg :: "int \<Rightarrow> ('w, MqttSnClientAwaitMessage) client_call" where
  "get_await_msg await_fd =
     cl_bind (cl_get c_await_msg) (\<lambda>msgs.
     cl_mem (rd_arr msgs (nat await_fd)))"

definition put_await_msg ::
  "int \<Rightarrow> (MqttSnClientAwaitMessage \<Rightarrow> MqttSnClientAwaitMessage) \<Rightarrow> ('w, unit) client_call" where
  "put_await_msg await_fd f =
     cl_bind (get_await_msg await_fd) (\<lambda>m.
     cl_bind (cl_get c_await_msg) (\<lambda>msgs.
     cl_bind (cl_mem (wr_arr msgs (nat await_fd) (f m))) (\<lambda>msgs.
     cl_put (\<lambda>c. c\<lparr>c_await_msg := msgs\<rparr>))))"

definition get_await_status :: "int \<Rightarrow> ('w, MQTT_SN_CLIENT_AWAIT_MESSAGE_STATUS) client_call" where
  "get_await_status await_fd =
     (if \<not> await_fd_valid await_fd then cl_return MQTT_SN_CLIENT_AWAIT_MESSAGE_STATUS_ERROR
      else cl_bind (get_await_msg await_fd) (\<lambda>m. cl_return (am_status m)))"

text \<open>The null pointer is \<open>None\<close>.\<close>

definition get_await_context :: "int \<Rightarrow> ('w, MqttSnClientAwaitContext option) client_call" where
  "get_await_context await_fd =
     (if \<not> await_fd_valid await_fd then cl_return None
      else cl_bind (get_await_msg await_fd) (\<lambda>m. cl_return (Some (am_await_context m))))"

function is_await_loop ::
  "MqttSnClientAwaitMessage list \<Rightarrow> MQTT_SN_MESSAGE_TYPE \<Rightarrow> u16 \<Rightarrow> nat \<Rightarrow> int cres" where
  "is_await_loop msgs msg_type msg_id i =
     (if i < MQTT_SN_CLIENT_MAX_MESSAGES_IN_FLIGHT
      then
        cbind (rd_arr msgs i) (\<lambda>m.
        if am_msg_type m = ANY_MESSAGE_TYPE then is_await_loop msgs msg_type msg_id (i + 1)
        else if am_status m = MQTT_SN_CLIENT_AWAIT_MESSAGE_STATUS_AWAIT \<and> am_msg_type m = msg_type
                \<and> am_msg_id m = msg_id
        then Inr (int i)
        else is_await_loop msgs msg_type msg_id (i + 1))
      else Inr (-1))"
  by pat_completeness auto
termination
  by (relation "measure (\<lambda>(_, _, _, i). MQTT_SN_CLIENT_MAX_MESSAGES_IN_FLIGHT - i)") auto

declare is_await_loop.simps [simp del]

definition is_await_msg :: "MQTT_SN_MESSAGE_TYPE \<Rightarrow> u16 \<Rightarrow> ('w, int) client_call" where
  "is_await_msg msg_type msg_id =
     cl_bind (cl_get c_await_msg) (\<lambda>msgs. cl_mem (is_await_loop msgs msg_type msg_id 0))"

definition set_await_msg_status ::
  "int \<Rightarrow> MQTT_SN_CLIENT_AWAIT_MESSAGE_STATUS \<Rightarrow> ('w, int) client_call" where
  "set_await_msg_status await_fd status =
     (if \<not> await_fd_valid await_fd then cl_return (-1)
      else
        cl_bind (put_await_msg await_fd (\<lambda>m. m\<lparr>am_status := status\<rparr>)) (\<lambda>_.
        cl_return 0))"

definition set_await_msg_return_code :: "int \<Rightarrow> MQTT_SN_RETURN_CODE \<Rightarrow> ('w, int) client_call" where
  "set_await_msg_return_code await_fd return_code =
     (if \<not> await_fd_valid await_fd then cl_return (-1)
      else
        cl_bind (put_await_msg await_fd (\<lambda>m. m\<lparr>am_await_context :=
          (am_await_context m)\<lparr>ac_return_code := return_code\<rparr>\<rparr>)) (\<lambda>_.
        cl_return 0))"

definition set_await_msg_granted_qos :: "int \<Rightarrow> int \<Rightarrow> ('w, int) client_call" where
  "set_await_msg_granted_qos await_fd granted_qos =
     (if \<not> await_fd_valid await_fd then cl_return (-1)
      else
        cl_bind (put_await_msg await_fd (\<lambda>m. m\<lparr>am_await_context :=
          (am_await_context m)\<lparr>ac_granted_qos := granted_qos\<rparr>\<rparr>)) (\<lambda>_.
        cl_return 0))"

definition set_await_msg_topic_id :: "int \<Rightarrow> u16 \<Rightarrow> ('w, int) client_call" where
  "set_await_msg_topic_id await_fd topic_id =
     (if \<not> await_fd_valid await_fd then cl_return (-1)
      else
        cl_bind (put_await_msg await_fd (\<lambda>m. m\<lparr>am_await_context :=
          (am_await_context m)\<lparr>ac_topic_id := topic_id\<rparr>\<rparr>)) (\<lambda>_.
        cl_return 0))"

definition freed_await_msg :: MqttSnClientAwaitMessage where
  "freed_await_msg =
     \<lparr>am_msg_type = ANY_MESSAGE_TYPE, am_msg_id = 0,
      am_status = MQTT_SN_CLIENT_AWAIT_MESSAGE_STATUS_SUCCESS, am_await_context = zero_await_context\<rparr>"

definition free_await_fd :: "int \<Rightarrow> ('w, int) client_call" where
  "free_await_fd await_fd =
     (if \<not> await_fd_valid await_fd then cl_return (-1)
      else
        cl_bind (put_await_msg await_fd (\<lambda>_. freed_await_msg)) (\<lambda>_.
        cl_return 0))"

function acquire_slot_loop ::
  "MQTT_SN_MESSAGE_TYPE \<Rightarrow> u16 \<Rightarrow> nat \<Rightarrow> MqttSnClientAwaitMessage list
   \<Rightarrow> (int \<times> MqttSnClientAwaitMessage list) cres" where
  "acquire_slot_loop msg_type msg_id i msgs =
     (if i < MQTT_SN_CLIENT_MAX_MESSAGES_IN_FLIGHT
      then
        cbind (rd_arr msgs i) (\<lambda>m.
        if am_msg_type m = ANY_MESSAGE_TYPE
        then
          cbind (wr_arr msgs i (m\<lparr>am_msg_type := msg_type, am_msg_id := msg_id,
                                  am_status := MQTT_SN_CLIENT_AWAIT_MESSAGE_STATUS_AWAIT\<rparr>)) (\<lambda>msgs.
          Inr (int i, msgs))
        else acquire_slot_loop msg_type msg_id (i + 1) msgs)
      else Inr (-1, msgs))"
  by pat_completeness auto
termination
  by (relation "measure (\<lambda>(_, _, i, _). MQTT_SN_CLIENT_MAX_MESSAGES_IN_FLIGHT - i)") auto

declare acquire_slot_loop.simps [simp del]

definition acquire_await_fd :: "MQTT_SN_MESSAGE_TYPE \<Rightarrow> u16 \<Rightarrow> ('w, int) client_call" where
  "acquire_await_fd msg_type msg_id =
     cl_bind (cl_get c_await_msg) (\<lambda>msgs.
     cl_bind (cl_mem (acquire_slot_loop msg_type msg_id 0 msgs)) (\<lambda>(fd, msgs).
     cl_bind (cl_put (\<lambda>c. c\<lparr>c_await_msg := msgs\<rparr>)) (\<lambda>_.
     cl_return fd)))"

section \<open>Waiting\<close>

type_synonym 'w client_loop = "('w, MQTT_SN_CLIENT_LOOP_RETURN_CODE) client_call"

text \<open>The loop of \<open>get_await_status_timeout_ms_easy\<close>; what follows it turns a wait that goes on into a timeout.\<close>

primrec await_easy_loop ::
  "'w client_env \<Rightarrow> 'w client_loop \<Rightarrow> nat \<Rightarrow> int \<Rightarrow> u64 \<Rightarrow> u64
   \<Rightarrow> ('w, MQTT_SN_CLIENT_AWAIT_MESSAGE_STATUS) client_call" where
  "await_easy_loop env loop 0 await_fd timeout_ms start_ts_s = cl_stop Out_Of_Fuel"
| "await_easy_loop env loop (Suc k) await_fd timeout_ms start_ts_s =
     cl_bind (get_await_status await_fd) (\<lambda>await_rc.
     if await_rc \<noteq> MQTT_SN_CLIENT_AWAIT_MESSAGE_STATUS_AWAIT then cl_return await_rc
     else
       cl_bind (cl_time env) (\<lambda>(rc, current_time_s).
       if rc < 0 then cl_return MQTT_SN_CLIENT_AWAIT_MESSAGE_STATUS_ERROR
       else
         cl_bind loop (\<lambda>rc.
         if loop_code rc < 0 then cl_return MQTT_SN_CLIENT_AWAIT_MESSAGE_STATUS_ERROR
         else if timeout_ms > 0
         then
           cl_bind (cl_get id) (\<lambda>c.
           let start_ts_s = (if c_status c = MQTT_SN_CLIENT_CONNECTION_STATUS_AWAKE
                             then c_awake_ping_request_send_time_s c else start_ts_s);
               elapsed_time_s = current_time_s - start_ts_s
           in if elapsed_time_s > timeout_ms div 1000
              then cl_return MQTT_SN_CLIENT_AWAIT_MESSAGE_STATUS_TIMEOUT
              else await_easy_loop env loop k await_fd timeout_ms start_ts_s)
         else cl_return MQTT_SN_CLIENT_AWAIT_MESSAGE_STATUS_TIMEOUT)))"

definition get_await_status_timeout_ms_easy ::
  "'w client_env \<Rightarrow> 'w client_loop \<Rightarrow> nat \<Rightarrow> int \<Rightarrow> u64
   \<Rightarrow> ('w, MQTT_SN_CLIENT_AWAIT_MESSAGE_STATUS) client_call" where
  "get_await_status_timeout_ms_easy env loop k await_fd timeout_ms =
     cl_bind (cl_time env) (\<lambda>(rc, start_ts_s).
     if rc < 0 then cl_return MQTT_SN_CLIENT_AWAIT_MESSAGE_STATUS_ERROR
     else await_easy_loop env loop k await_fd timeout_ms start_ts_s)"

primrec get_await_status_timeout_ms ::
  "'w client_env \<Rightarrow> 'w client_loop \<Rightarrow> nat \<Rightarrow> int \<Rightarrow> u64 \<Rightarrow> u64
   \<Rightarrow> ('w, MQTT_SN_CLIENT_AWAIT_MESSAGE_STATUS) client_call" where
  "get_await_status_timeout_ms env loop 0 await_fd start_ts_ms timeout_ms = cl_stop Out_Of_Fuel"
| "get_await_status_timeout_ms env loop (Suc k) await_fd start_ts_ms timeout_ms =
     cl_bind (get_await_status await_fd) (\<lambda>await_rc.
     if await_rc \<noteq> MQTT_SN_CLIENT_AWAIT_MESSAGE_STATUS_AWAIT then cl_return await_rc
     else
       cl_bind (cl_time env) (\<lambda>(rc, current_time).
       if rc < 0 then cl_return MQTT_SN_CLIENT_AWAIT_MESSAGE_STATUS_ERROR
       else
         cl_bind loop (\<lambda>rc.
         if loop_code rc < 0 then cl_return MQTT_SN_CLIENT_AWAIT_MESSAGE_STATUS_ERROR
         else if timeout_ms > 0
         then
           if current_time - start_ts_ms > timeout_ms div 1000
           then cl_return MQTT_SN_CLIENT_AWAIT_MESSAGE_STATUS_TIMEOUT
           else get_await_status_timeout_ms env loop k await_fd start_ts_ms timeout_ms
         else cl_return MQTT_SN_CLIENT_AWAIT_MESSAGE_STATUS_TIMEOUT)))"

text \<open>Taking a slot of the table, running the loop until one is free; \<open>None\<close> when the loop fails.\<close>

primrec acquire_loop ::
  "'w client_loop \<Rightarrow> nat \<Rightarrow> MQTT_SN_MESSAGE_TYPE \<Rightarrow> u16 \<Rightarrow> ('w, int option) client_call" where
  "acquire_loop loop 0 msg_type msg_id = cl_stop Out_Of_Fuel"
| "acquire_loop loop (Suc k) msg_type msg_id =
     cl_bind (acquire_await_fd msg_type msg_id) (\<lambda>await_fd.
     if await_fd < 0
     then
       cl_bind loop (\<lambda>rc.
       if loop_code rc < 0 then cl_return None else acquire_loop loop k msg_type msg_id)
     else cl_return (Some await_fd))"

text \<open>The calls that make only one pass when no slot is free, and go on without one.\<close>

definition acquire_once ::
  "'w client_loop \<Rightarrow> MQTT_SN_MESSAGE_TYPE \<Rightarrow> u16 \<Rightarrow> ('w, int option) client_call" where
  "acquire_once loop msg_type msg_id =
     cl_bind (acquire_await_fd msg_type msg_id) (\<lambda>await_fd.
     if await_fd < 0
     then
       cl_bind loop (\<lambda>rc.
       if loop_code rc < 0 then cl_return None else cl_return (Some await_fd))
     else cl_return (Some await_fd))"

fun await_status_to_client_return_code ::
  "MQTT_SN_CLIENT_AWAIT_MESSAGE_STATUS \<Rightarrow> MQTT_SN_CLIENT_RETURN_CODE" where
  "await_status_to_client_return_code MQTT_SN_CLIENT_AWAIT_MESSAGE_STATUS_SUCCESS =
     MQTT_SN_CLIENT_RETURN_SUCCESS"
| "await_status_to_client_return_code MQTT_SN_CLIENT_AWAIT_MESSAGE_STATUS_AWAIT =
     MQTT_SN_CLIENT_RETURN_TIMEOUT"
| "await_status_to_client_return_code MQTT_SN_CLIENT_AWAIT_MESSAGE_STATUS_ERROR =
     MQTT_SN_CLIENT_RETURN_NETWORK_ERROR"
| "await_status_to_client_return_code MQTT_SN_CLIENT_AWAIT_MESSAGE_STATUS_TIMEOUT =
     MQTT_SN_CLIENT_RETURN_TIMEOUT"

section \<open>Sending\<close>

text \<open>The source hands a null pointer over as the sender; the model hands over no bytes.\<close>

definition send_to_address :: "u8 list \<Rightarrow> u8 list \<Rightarrow> nat \<Rightarrow> ('w, int) client_call" where
  "send_to_address to msg_data gen_rc s =
     (let c = fst s;
          (rc, n, w) = GatewayNetworkSendTo (c_gatewayNetwork c) [] to msg_data (gen_rc mod 65536)
                         (c_default_signal_strength c) (c_gatewayNetworkSendTimeout c) (snd s)
      in Inr (rc, c\<lparr>c_gatewayNetwork := n\<rparr>, w))"

definition send_to_gateway_without_retry :: "u8 list \<Rightarrow> nat \<Rightarrow> ('w, int) client_call" where
  "send_to_gateway_without_retry msg_data gen_rc =
     cl_bind (cl_get c_mqtt_sn_gateway_address) (\<lambda>to. send_to_address to msg_data gen_rc)"

definition send_to_broadcast :: "u8 list \<Rightarrow> nat \<Rightarrow> ('w, int) client_call" where
  "send_to_broadcast msg_data gen_rc =
     cl_bind (cl_get c_mqtt_sn_broadcast_address) (\<lambda>to. send_to_address to msg_data gen_rc)"

text \<open>The check that follows every send.\<close>

definition send_failed :: "int \<Rightarrow> nat \<Rightarrow> bool" where
  "send_failed send_rc gen_rc \<longleftrightarrow> send_rc < 0 \<or> send_rc \<noteq> int gen_rc"

definition lose_gateway :: "'w MqttSnClient \<Rightarrow> 'w MqttSnClient" where
  "lose_gateway c =
     (if client_status_code (c_status c) \<ge> client_status_code MQTT_SN_CLIENT_CONNECTION_STATUS_CONNECTED
      then c\<lparr>c_status := MQTT_SN_CLIENT_CONNECTION_STATUS_GATEWAY_LOST\<rparr> else c)"

function send_retry_loop ::
  "'w client_env \<Rightarrow> 'w client_loop \<Rightarrow> nat \<Rightarrow> int \<Rightarrow> u8 list \<Rightarrow> nat \<Rightarrow> nat
   \<Rightarrow> ('w, MQTT_SN_CLIENT_RETURN_CODE) client_call" where
  "send_retry_loop env loop k await_fd msg_data msg_len retry =
     cl_bind (cl_get c_retry_count) (\<lambda>retry_count.
     if retry < unat retry_count
     then
       cl_bind (if retry = 1 then cl_call (add_dup_flag_to_mqtt_sn_message msg_data msg_len)
                else cl_return (Some msg_data)) (\<lambda>r.
       case r of
         None \<Rightarrow>
           cl_bind (cl_put lose_gateway) (\<lambda>_.
           cl_return MQTT_SN_CLIENT_RETURN_ERROR)
       | Some msg_data \<Rightarrow>
           cl_bind (send_to_gateway_without_retry msg_data msg_len) (\<lambda>send_rc.
           if send_failed send_rc msg_len
           then
             cl_bind (cl_put lose_gateway) (\<lambda>_.
             cl_return MQTT_SN_CLIENT_RETURN_ERROR)
           else if await_fd \<ge> 0
           then
             cl_bind (cl_get c_retry_timeout_ms) (\<lambda>retry_timeout_ms.
             cl_bind (get_await_status_timeout_ms_easy env loop k await_fd (of_int retry_timeout_ms))
               (\<lambda>await_rc.
             let rc = await_status_to_client_return_code await_rc in
             if rc = MQTT_SN_CLIENT_RETURN_TIMEOUT
             then send_retry_loop env loop k await_fd msg_data msg_len (retry + 1)
             else cl_return rc))
           else cl_return MQTT_SN_CLIENT_RETURN_SUCCESS))
     else
       cl_bind (cl_put lose_gateway) (\<lambda>_.
       cl_return MQTT_SN_CLIENT_RETURN_TIMEOUT))"
  by pat_completeness auto
termination
  by (relation "measure (\<lambda>(_, _, _, _, _, _, retry). 65536 - retry)")
    (auto dest: less_trans [OF _ u16_lt])

declare send_retry_loop.simps [simp del]

definition send_to_gateway_with_retry ::
  "'w client_env \<Rightarrow> 'w client_loop \<Rightarrow> nat \<Rightarrow> int \<Rightarrow> u8 list \<Rightarrow> nat
   \<Rightarrow> ('w, MQTT_SN_CLIENT_RETURN_CODE) client_call" where
  "send_to_gateway_with_retry env loop k await_fd msg_data msg_len =
     send_retry_loop env loop k await_fd msg_data msg_len 0"

text \<open>
  The shape most requests share: take a slot, send with retries, free the slot. \<open>None\<close>: the loop failed
  while the call waited for a slot.
\<close>

definition request ::
  "'w client_env \<Rightarrow> 'w client_loop \<Rightarrow> nat \<Rightarrow> MQTT_SN_MESSAGE_TYPE \<Rightarrow> u16 \<Rightarrow> u8 list \<Rightarrow> nat
   \<Rightarrow> ('w, MQTT_SN_CLIENT_RETURN_CODE) client_call" where
  "request env loop k msg_type msg_id msg_data gen_rc =
     cl_bind (acquire_loop loop k msg_type msg_id) (\<lambda>r.
     case r of None \<Rightarrow> cl_return MQTT_SN_CLIENT_RETURN_ERROR
     | Some await_fd \<Rightarrow>
         cl_bind (send_to_gateway_with_retry env loop k await_fd msg_data gen_rc) (\<lambda>rc.
         cl_bind (free_await_fd await_fd) (\<lambda>_.
         cl_return rc)))"

end
