(* ===== verification/Client_Handlers.thy ===== *)
theory Client_Handlers
  imports Client_Await
begin

text \<open>
  What the client does with a message: the handlers of \<open>src/client/MqttSnClientMethod.c\<close> that answer at
  once, and the upkeep of an active connection. The handler of PUBLISH, which waits for a PUBREL, is in
  the theory of the requests. Three patterns recur and have a name: the return when a message does not
  parse, the return when a call has failed, and the hand-over of an acknowledgement to whoever awaits it.
\<close>

definition cl_parse ::
  "'a cres \<Rightarrow> ('a \<Rightarrow> 'w client_loop) \<Rightarrow> 'w client_loop" where
  "cl_parse r next =
     cl_bind (cl_call r) (\<lambda>x.
     case x of None \<Rightarrow> cl_return MQTT_SN_CLIENT_LOOP_RETURN_PARSEERROR | Some y \<Rightarrow> next y)"

definition cl_check :: "('w, int) client_call \<Rightarrow> 'w client_loop \<Rightarrow> 'w client_loop" where
  "cl_check m next =
     cl_bind m (\<lambda>rc. if rc < 0 then cl_return MQTT_SN_CLIENT_LOOP_RETURN_ERROR else next)"

definition await_success ::
  "MQTT_SN_MESSAGE_TYPE \<Rightarrow> u16 \<Rightarrow> (int \<Rightarrow> 'w client_loop) \<Rightarrow> 'w client_loop" where
  "await_success msg_type msg_id next =
     cl_bind (is_await_msg msg_type msg_id) (\<lambda>await_fd.
     if await_fd < 0 then cl_return MQTT_SN_CLIENT_LOOP_RETURN_NOTAWAITEDMSG
     else
       cl_check (set_await_msg_status await_fd MQTT_SN_CLIENT_AWAIT_MESSAGE_STATUS_SUCCESS)
         (next await_fd))"

text \<open>A client call that stores the time; the field is written even when the clock fails.\<close>

definition cl_stamp ::
  "'w client_env \<Rightarrow> (u64 \<Rightarrow> 'w MqttSnClient \<Rightarrow> 'w MqttSnClient) \<Rightarrow> ('w, int) client_call" where
  "cl_stamp env store =
     cl_bind (cl_time env) (\<lambda>(rc, t).
     cl_bind (cl_put (store t)) (\<lambda>_.
     cl_return rc))"

section \<open>Acknowledgements\<close>

definition parse_and_handle_pubrel :: "MqttSnMessageData \<Rightarrow> 'w client_loop" where
  "parse_and_handle_pubrel msg =
     cl_parse (parse_pubrel_bytes (md_data msg) (md_data_length msg)) (\<lambda>(msg_id, _).
     await_success PUBREL msg_id (\<lambda>_. cl_return MQTT_SN_CLIENT_LOOP_RETURN_SUCCESS))"

definition parse_and_handle_unsuback :: "MqttSnMessageData \<Rightarrow> 'w client_loop" where
  "parse_and_handle_unsuback msg =
     cl_parse (parse_unsuback_byte (md_data msg) (md_data_length msg)) (\<lambda>(msg_id, _).
     await_success UNSUBACK msg_id (\<lambda>_. cl_return MQTT_SN_CLIENT_LOOP_RETURN_SUCCESS))"

definition parse_and_handle_suback :: "MqttSnMessageData \<Rightarrow> 'w client_loop" where
  "parse_and_handle_suback msg =
     cl_parse (parse_suback (md_data msg) (md_data_length msg)) (\<lambda>(suback, _).
     await_success SUBACK (sa_msg_id suback) (\<lambda>await_fd.
     cl_check (set_await_msg_return_code await_fd (sa_return_code suback))
     (cl_check (set_await_msg_granted_qos await_fd (sa_granted_qos suback))
     (cl_check (set_await_msg_topic_id await_fd (sa_topic_id suback))
     (cl_return MQTT_SN_CLIENT_LOOP_RETURN_SUCCESS)))))"

definition parse_and_handle_pubcomp :: "MqttSnMessageData \<Rightarrow> 'w client_loop" where
  "parse_and_handle_pubcomp msg =
     cl_parse (parse_pubcomp_bytes (md_data msg) (md_data_length msg)) (\<lambda>(msg_id, _).
     await_success PUBCOMP msg_id (\<lambda>_. cl_return MQTT_SN_CLIENT_LOOP_RETURN_SUCCESS))"

definition parse_and_handle_pubrec :: "MqttSnMessageData \<Rightarrow> 'w client_loop" where
  "parse_and_handle_pubrec msg =
     cl_parse (parse_pubrec_bytes (md_data msg) (md_data_length msg)) (\<lambda>(msg_id, _).
     await_success PUBREC msg_id (\<lambda>_. cl_return MQTT_SN_CLIENT_LOOP_RETURN_SUCCESS))"

definition parse_and_handle_puback :: "MqttSnMessageData \<Rightarrow> 'w client_loop" where
  "parse_and_handle_puback msg =
     cl_parse (parse_puback (md_data msg) (md_data_length msg)) (\<lambda>(puback, _).
     await_success PUBACK (pa_msgId puback) (\<lambda>await_fd.
     cl_check (set_await_msg_return_code await_fd (pa_returnCode puback))
     (cl_return MQTT_SN_CLIENT_LOOP_RETURN_SUCCESS)))"

definition parse_and_handle_regack :: "MqttSnMessageData \<Rightarrow> 'w client_loop" where
  "parse_and_handle_regack msg =
     cl_parse (parse_regack (md_data msg) (md_data_length msg)) (\<lambda>(regack, _).
     await_success REGACK (ra_msg_id regack) (\<lambda>await_fd.
     cl_check (set_await_msg_return_code await_fd (ra_return_code regack))
     (cl_check (set_await_msg_topic_id await_fd (ra_topic_id regack))
     (cl_return MQTT_SN_CLIENT_LOOP_RETURN_SUCCESS))))"

definition parse_and_handle_will_message_request :: "MqttSnMessageData \<Rightarrow> 'w client_loop" where
  "parse_and_handle_will_message_request msg =
     cl_parse (parse_will_msg_req_byte (md_data msg) (md_data_length msg)) (\<lambda>_.
     await_success WILLMSGREQ 0 (\<lambda>_. cl_return MQTT_SN_CLIENT_LOOP_RETURN_SUCCESS))"

definition parse_and_handle_will_topic_request :: "MqttSnMessageData \<Rightarrow> 'w client_loop" where
  "parse_and_handle_will_topic_request msg =
     cl_parse (parse_will_topic_req_byte (md_data msg) (md_data_length msg)) (\<lambda>_.
     await_success WILLTOPICREQ 0 (\<lambda>_. cl_return MQTT_SN_CLIENT_LOOP_RETURN_SUCCESS))"

section \<open>The connection\<close>

definition client_parse_and_handle_ping_resp ::
  "'w client_env \<Rightarrow> MqttSnMessageData \<Rightarrow> 'w client_loop" where
  "client_parse_and_handle_ping_resp env msg =
     cl_parse (parse_ping_resp_byte (md_data msg) (md_data_length msg)) (\<lambda>_.
     cl_check (cl_stamp env (\<lambda>t c. c\<lparr>c_last_ping_resp_received_s := t\<rparr>))
     (cl_bind (cl_get c_ping_req_await_msg) (\<lambda>m.
      if am_msg_type m = PINGRESP
      then
        cl_bind (cl_put (\<lambda>c. c\<lparr>c_ping_req_await_msg :=
          (c_ping_req_await_msg c)\<lparr>am_msg_type := ANY_MESSAGE_TYPE\<rparr>\<rparr>)) (\<lambda>_.
        cl_return MQTT_SN_CLIENT_LOOP_RETURN_SUCCESS)
      else await_success PINGRESP 0 (\<lambda>_. cl_return MQTT_SN_CLIENT_LOOP_RETURN_SUCCESS))))"

definition parse_and_handle_connack :: "'w client_env \<Rightarrow> MqttSnMessageData \<Rightarrow> 'w client_loop" where
  "parse_and_handle_connack env msg =
     cl_parse (parse_connack (md_data msg) (md_data_length msg)) (\<lambda>(return_code, _).
     await_success CONNACK 0 (\<lambda>await_fd.
     cl_check (set_await_msg_return_code await_fd return_code)
     (cl_bind (cl_time env) (\<lambda>(rc, current_time_s).
      if rc < 0 then cl_return MQTT_SN_CLIENT_LOOP_RETURN_ERROR
      else
        cl_bind (cl_put (\<lambda>c. c\<lparr>c_last_ping_req_received := current_time_s,
                              c_last_ping_resp_received_s := current_time_s\<rparr>)) (\<lambda>_.
        cl_return MQTT_SN_CLIENT_LOOP_RETURN_SUCCESS)))))"

definition client_parse_and_handle_ping_req ::
  "'w client_env \<Rightarrow> MqttSnMessageData \<Rightarrow> 'w client_loop" where
  "client_parse_and_handle_ping_req env msg =
     cl_parse (parse_ping_req_byte (md_data msg) (md_data_length msg)) (\<lambda>_.
     cl_check (cl_stamp env (\<lambda>t c. c\<lparr>c_last_ping_req_received := t\<rparr>))
     (cl_bind (cl_call (generate_ping_resp (replicate MQTT_SN_MESSAGE_PINGREQ_WO_CLIENTID_LENGTH 0)
                          MQTT_SN_MESSAGE_PINGREQ_WO_CLIENTID_LENGTH)) (\<lambda>r.
      case r of None \<Rightarrow> cl_return MQTT_SN_CLIENT_LOOP_RETURN_ERROR
      | Some (msg_data, gen_rc) \<Rightarrow>
          cl_bind (send_to_gateway_without_retry msg_data gen_rc) (\<lambda>send_rc.
          if send_failed send_rc gen_rc then cl_return MQTT_SN_CLIENT_LOOP_RETURN_ERROR
          else cl_return MQTT_SN_CLIENT_LOOP_RETURN_SUCCESS))))"

text \<open>A DISCONNECT that nobody awaits ends the connection.\<close>

definition parse_and_handle_disconnect :: "MqttSnMessageData \<Rightarrow> 'w client_loop" where
  "parse_and_handle_disconnect msg =
     cl_parse (parse_disconnect_bytes (md_data msg) (md_data_length msg)) (\<lambda>_.
     cl_bind (is_await_msg DISCONNECT 0) (\<lambda>await_fd.
     if await_fd < 0
     then
       cl_bind (cl_put (\<lambda>c. c\<lparr>c_status := MQTT_SN_CLIENT_CONNECTION_STATUS_DISCONNECTED\<rparr>)) (\<lambda>_.
       cl_return MQTT_SN_CLIENT_LOOP_RETURN_SUCCESS)
     else
       cl_bind (set_await_msg_status await_fd MQTT_SN_CLIENT_AWAIT_MESSAGE_STATUS_SUCCESS) (\<lambda>rc.
       if rc < 0 then cl_return MQTT_SN_CLIENT_LOOP_RETURN_PARSEERROR
       else cl_return MQTT_SN_CLIENT_LOOP_RETURN_SUCCESS)))"

definition get_last_timeout_reset :: "'w MqttSnClient \<Rightarrow> u64" where
  "get_last_timeout_reset c =
     (if c_last_ping_req_received c > c_last_ping_resp_received_s c
      then c_last_ping_req_received c else c_last_ping_resp_received_s c)"

text \<open>
  The test of the active and of the sleeping connection: it is too early for a ping. The offset is
  converted to 64 bits before it is added.
\<close>

definition too_early :: "'w MqttSnClient \<Rightarrow> u16 \<Rightarrow> u64 \<Rightarrow> bool" where
  "too_early c duration elapsed_time \<longleftrightarrow>
     (if duration \<le> MQTT_SN_CLIENT_PING_REQ_ADVANCE_TIME_S
      then elapsed_time < ucast duration
      else elapsed_time < ucast duration + of_int (c_connect_timeout_offset c))"

definition ping_timed_out :: "'w MqttSnClient \<Rightarrow> u16 \<Rightarrow> u64 \<Rightarrow> bool" where
  "ping_timed_out c duration elapsed_time \<longleftrightarrow>
     elapsed_time > get_tolerance_timeout duration (c_low_timeout_threshold_s c)
       (c_low_threshold_tolerance_percentage c) (c_high_threshold_tolerance_percentage c)"

definition handle_client_connection :: "'w client_env \<Rightarrow> 'w client_loop" where
  "handle_client_connection env =
     cl_bind (cl_get c_status) (\<lambda>status.
     if status \<noteq> MQTT_SN_CLIENT_CONNECTION_STATUS_CONNECTED
     then cl_return MQTT_SN_CLIENT_LOOP_RETURN_ERROR
     else
       cl_bind (cl_time env) (\<lambda>(rc, current_time).
       if rc < 0 then cl_return MQTT_SN_CLIENT_LOOP_RETURN_ERROR
       else
         cl_bind (cl_get id) (\<lambda>c.
         let elapsed_time = current_time - get_last_timeout_reset c in
         if am_msg_type (c_ping_req_await_msg c) = PINGRESP
         then
           if ping_timed_out c (c_connect_duration c) elapsed_time
           then
             cl_bind (cl_put (\<lambda>c. c\<lparr>c_status := MQTT_SN_CLIENT_CONNECTION_STATUS_GATEWAY_LOST\<rparr>)) (\<lambda>_.
             cl_return MQTT_SN_CLIENT_LOOP_RETURN_SUCCESS)
           else cl_return MQTT_SN_CLIENT_LOOP_RETURN_SUCCESS
         else if too_early c (c_connect_duration c) elapsed_time
         then cl_return MQTT_SN_CLIENT_LOOP_RETURN_SUCCESS
         else
           cl_bind (cl_call (generate_ping_req (replicate MQTT_SN_MESSAGE_PINGREQ_WO_CLIENTID_LENGTH 0)
                              MQTT_SN_MESSAGE_PINGREQ_WO_CLIENTID_LENGTH)) (\<lambda>r.
           case r of None \<Rightarrow> cl_return MQTT_SN_CLIENT_LOOP_RETURN_ERROR
           | Some (msg_data, gen_rc) \<Rightarrow>
               cl_bind (send_to_gateway_without_retry msg_data gen_rc) (\<lambda>send_rc.
               if send_failed send_rc gen_rc then cl_return MQTT_SN_CLIENT_LOOP_RETURN_ERROR
               else
                 cl_bind (cl_put (\<lambda>c. c\<lparr>c_ping_req_await_msg :=
                   (c_ping_req_await_msg c)\<lparr>am_msg_type := PINGRESP\<rparr>\<rparr>)) (\<lambda>_.
                 cl_return MQTT_SN_CLIENT_LOOP_RETURN_SUCCESS))))))"

section \<open>Gateways\<close>

text \<open>
  The two checks of a gateway id. They ask whether the lists of addresses are in use, and then look into
  the lists of ids.
\<close>

definition gw_id_dropped :: "u8 \<Rightarrow> ('w, bool) client_call" where
  "gw_id_dropped gw_id =
     cl_bind (cl_get id) (\<lambda>c.
     cl_bind (if al_len (c_gw_addr_whitelist c) \<noteq> 0
              then cl_bind (MqttSnClientWhitelistContainsGwId gw_id) (\<lambda>b. cl_return (\<not> b))
              else cl_return False) (\<lambda>dropped.
     if dropped then cl_return True
     else if al_len (c_gw_addr_blacklist c) \<noteq> 0 then MqttSnClientBlacklistContainsGwId gw_id
     else cl_return False))"

text \<open>The update of the list of gateways; it has no negative return code.\<close>

definition update_gateways ::
  "u8 list option \<Rightarrow> u8 \<Rightarrow> MqttSnAdvertise option \<Rightarrow> MqttSnGwInfo option \<Rightarrow> u64
   \<Rightarrow> ('w, unit) client_call" where
  "update_gateways from signal_strength advertise gw_info current_time_s =
     cl_bind (cl_get c_discovered_gw_list) (\<lambda>l.
     cl_bind (cl_mem (MqttSnDiscoveredGatewayListUpdate l from signal_strength advertise gw_info
                        current_time_s)) (\<lambda>l.
     cl_put (\<lambda>c. c\<lparr>c_discovered_gw_list := l\<rparr>)))"

text \<open>
  What the handlers do for a waiting call: fill its destination, run its callback, mark it answered. The
  result is the return code the handler goes on with.
\<close>

definition deliver_advertise ::
  "'w client_env \<Rightarrow> MqttSnClientReceivedAdvertise \<Rightarrow> int \<Rightarrow> 'w client_loop" where
  "deliver_advertise env received_advertise await_fd =
     cl_bind (get_await_context await_fd) (\<lambda>await_context.
     cl_bind (case await_context of
         None \<Rightarrow> cl_return MQTT_SN_CLIENT_LOOP_RETURN_SUCCESS
       | Some ctx \<Rightarrow>
           cl_bind (if ac_dst_advertise ctx \<noteq> None
                    then put_await_msg await_fd (\<lambda>m. m\<lparr>am_await_context :=
                           (am_await_context m)\<lparr>ac_dst_advertise := Some received_advertise\<rparr>\<rparr>)
                    else cl_return ()) (\<lambda>_.
           case ac_adv_cb ctx of
             None \<Rightarrow> cl_return MQTT_SN_CLIENT_LOOP_RETURN_SUCCESS
           | Some cb \<Rightarrow>
               cl_bind (cl_world (ce_adv_cb env cb received_advertise (ac_context ctx))) (\<lambda>rc.
               cl_return (if rc < 0 then MQTT_SN_CLIENT_LOOP_RETURN_ERROR
                          else MQTT_SN_CLIENT_LOOP_RETURN_SUCCESS)))) (\<lambda>rc.
     cl_bind (set_await_msg_status await_fd MQTT_SN_CLIENT_AWAIT_MESSAGE_STATUS_SUCCESS) (\<lambda>set_rc.
     cl_return (if set_rc < 0 then MQTT_SN_CLIENT_LOOP_RETURN_ERROR else rc))))"

definition deliver_gwinfo ::
  "'w client_env \<Rightarrow> MqttSnClientReceivedGwInfo \<Rightarrow> int \<Rightarrow> 'w client_loop" where
  "deliver_gwinfo env received_gw_info await_fd =
     cl_bind (get_await_context await_fd) (\<lambda>await_context.
     cl_bind (case await_context of
         None \<Rightarrow> cl_return MQTT_SN_CLIENT_LOOP_RETURN_SUCCESS
       | Some ctx \<Rightarrow>
           cl_bind (if ac_dst_gwinfo ctx \<noteq> None
                    then put_await_msg await_fd (\<lambda>m. m\<lparr>am_await_context :=
                           (am_await_context m)\<lparr>ac_dst_gwinfo := Some received_gw_info\<rparr>\<rparr>)
                    else cl_return ()) (\<lambda>_.
           case ac_gwinfo_cb ctx of
             None \<Rightarrow> cl_return MQTT_SN_CLIENT_LOOP_RETURN_SUCCESS
           | Some cb \<Rightarrow>
               cl_bind (cl_world (ce_gwinfo_cb env cb received_gw_info (ac_context ctx))) (\<lambda>rc.
               cl_return (if rc < 0 then MQTT_SN_CLIENT_LOOP_RETURN_ERROR
                          else MQTT_SN_CLIENT_LOOP_RETURN_SUCCESS)))) (\<lambda>rc.
     cl_bind (set_await_msg_status await_fd MQTT_SN_CLIENT_AWAIT_MESSAGE_STATUS_SUCCESS) (\<lambda>set_rc.
     cl_return (if set_rc < 0 then MQTT_SN_CLIENT_LOOP_RETURN_ERROR else rc))))"

definition parse_and_handle_advertise :: "'w client_env \<Rightarrow> MqttSnMessageData \<Rightarrow> 'w client_loop" where
  "parse_and_handle_advertise env msg =
     cl_parse (parse_advertise (md_data msg) (md_data_length msg)) (\<lambda>(mqtt_sn_advertise, _).
     cl_bind (gw_id_dropped (adv_gwId mqtt_sn_advertise)) (\<lambda>dropped.
     if dropped then cl_return MQTT_SN_CLIENT_LOOP_RETURN_SUCCESS
     else
       cl_bind (is_await_msg ADVERTISE 0) (\<lambda>await_fd.
       cl_bind (if await_fd \<ge> 0
                then deliver_advertise env \<lparr>ra_received_advertise = mqtt_sn_advertise,
                       ra_from = md_from msg, ra_adv_signal_strength = md_signal_strength msg\<rparr> await_fd
                else cl_return MQTT_SN_CLIENT_LOOP_RETURN_SUCCESS) (\<lambda>rc.
       cl_bind (cl_time env) (\<lambda>(time_rc, current_time_s).
       if time_rc < 0 then cl_return MQTT_SN_CLIENT_LOOP_RETURN_ERROR
       else
         cl_bind (update_gateways (Some (md_from msg)) (md_signal_strength msg)
                    (Some mqtt_sn_advertise) None current_time_s) (\<lambda>_.
         cl_return rc))))))"

definition parse_and_handle_searchgw :: "'w client_env \<Rightarrow> MqttSnMessageData \<Rightarrow> 'w client_loop" where
  "parse_and_handle_searchgw env msg =
     cl_parse (parse_searchgw (md_data msg) (md_data_length msg)) (\<lambda>_.
     cl_bind MqttSnClientIsSearchGwReplyEnabled (\<lambda>enabled.
     if enabled \<noteq> 0
     then
       cl_bind (cl_put (\<lambda>c.
         if am_msg_type (c_searchgw_reply_await_msg c) = ANY_MESSAGE_TYPE
         then c\<lparr>c_searchgw_reply_await_msg := (c_searchgw_reply_await_msg c)\<lparr>am_msg_type := GWINFO\<rparr>\<rparr>
         else c)) (\<lambda>_.
       cl_check (cl_stamp env (\<lambda>t c. c\<lparr>c_searchgw_reply_await_last_s := t\<rparr>))
       (cl_return MQTT_SN_CLIENT_LOOP_RETURN_SUCCESS))
     else cl_return MQTT_SN_CLIENT_LOOP_RETURN_SUCCESS))"

definition zero_gwinfo :: MqttSnGwInfo where
  "zero_gwinfo = \<lparr>gwi_gwId = 0, gwi_gwAdd = zero_address, gwi_gwAddLen = 0\<rparr>"

definition parse_and_handle_gwinfo :: "'w client_env \<Rightarrow> MqttSnMessageData \<Rightarrow> 'w client_loop" where
  "parse_and_handle_gwinfo env msg =
     cl_parse (parse_gwinfo zero_gwinfo (md_data msg) (md_data_length msg)) (\<lambda>(mqtt_sn_gwinfo, _).
     cl_bind (gw_id_dropped (gwi_gwId mqtt_sn_gwinfo)) (\<lambda>dropped.
     if dropped then cl_return MQTT_SN_CLIENT_LOOP_RETURN_SUCCESS
     else
       cl_bind (is_await_msg GWINFO 0) (\<lambda>await_fd.
       cl_bind (if await_fd \<ge> 0
                then deliver_gwinfo env \<lparr>rg_received_gw_info = mqtt_sn_gwinfo,
                       rg_from = md_from msg, rg_signal_strength = md_signal_strength msg\<rparr> await_fd
                else cl_return MQTT_SN_CLIENT_LOOP_RETURN_SUCCESS) (\<lambda>rc.
       cl_bind (cl_time env) (\<lambda>(time_rc, current_time_s).
       if time_rc < 0 then cl_return MQTT_SN_CLIENT_LOOP_RETURN_ERROR
       else
         cl_bind (update_gateways (Some (md_from msg)) (md_signal_strength msg)
                    None (Some mqtt_sn_gwinfo) current_time_s) (\<lambda>_.
         cl_bind MqttSnClientIsSearchGwReplyEnabled (\<lambda>enabled.
         cl_bind (cl_put (\<lambda>c.
           if enabled \<noteq> 0 \<and> am_msg_type (c_searchgw_reply_await_msg c) = GWINFO
           then c\<lparr>c_searchgw_reply_await_msg :=
                    (c_searchgw_reply_await_msg c)\<lparr>am_msg_type := ANY_MESSAGE_TYPE\<rparr>\<rparr>
           else c)) (\<lambda>_.
         cl_return rc))))))))"

section \<open>Registrations of the gateway\<close>

text \<open>
  The reader works on the next free slot of the table. When it fails after it has read the topic id, that
  id stays in the slot.
\<close>

definition register_topic_id_read :: "u8 list \<Rightarrow> nat \<Rightarrow> u16 option" where
  "register_topic_id_read data data_len =
     (case cbind (parse_register_header data data_len 0) (\<lambda>(h, parsed_bytes).
           parse_register_topic_id (drop parsed_bytes data) data_len parsed_bytes)
      of Inr (topic_id, _) \<Rightarrow> Some topic_id | Inl _ \<Rightarrow> None)"

definition put_registration ::
  "nat \<Rightarrow> (MqttSnClientRegistration \<Rightarrow> MqttSnClientRegistration) \<Rightarrow> ('w, unit) client_call" where
  "put_registration i f =
     cl_bind (cl_get c_registrations) (\<lambda>rs.
     cl_bind (cl_mem (rd_arr rs i)) (\<lambda>r.
     cl_bind (cl_mem (wr_arr rs i (f r))) (\<lambda>rs.
     cl_put (\<lambda>c. c\<lparr>c_registrations := rs\<rparr>))))"

definition count_registration :: "('w, unit) client_call" where
  "count_registration = cl_put (\<lambda>c. c\<lparr>c_registrations_len := (c_registrations_len c + 1) mod 65536\<rparr>)"

definition parse_and_handle_register :: "MqttSnMessageData \<Rightarrow> 'w client_loop" where
  "parse_and_handle_register msg =
     cl_bind (cl_get id) (\<lambda>c.
     let len = c_registrations_len c in
     if len \<ge> MQTT_SN_CLIENT_MAX_REGISTRATIONS then cl_return MQTT_SN_CLIENT_LOOP_RETURN_SUCCESS
     else
       cl_bind (cl_mem (rd_arr (c_registrations c) len)) (\<lambda>slot.
       cl_bind (cl_call (parse_register_byte (cr_topic_name slot)
                  MQTT_SN_CLIENT_MAX_REGISTRATION_TOPIC_NAME_LENGTH (md_data msg) (md_data_length msg)))
         (\<lambda>r.
       case r of
         None \<Rightarrow>
           cl_bind (case register_topic_id_read (md_data msg) (md_data_length msg) of
               Some topic_id \<Rightarrow> put_registration len (\<lambda>slot. slot\<lparr>cr_topic_id := topic_id\<rparr>)
             | None \<Rightarrow> cl_return ()) (\<lambda>_.
           cl_return MQTT_SN_CLIENT_LOOP_RETURN_PARSEERROR)
       | Some (topic_id, msg_id, topic_name, _) \<Rightarrow>
           cl_bind (put_registration len (\<lambda>slot. slot\<lparr>cr_topic_name := topic_name, cr_topic_id := topic_id\<rparr>))
             (\<lambda>_.
           cl_bind (cl_call (generate_regack (replicate MQTT_SN_MESSAGE_REGACK_LENGTH 0)
                      MQTT_SN_MESSAGE_REGACK_LENGTH topic_id msg_id RETURN_CODE_ACCEPTED)) (\<lambda>g.
           case g of None \<Rightarrow> cl_return MQTT_SN_CLIENT_LOOP_RETURN_ERROR
           | Some (msg_data, gen_rc) \<Rightarrow>
               cl_bind (send_to_gateway_without_retry msg_data gen_rc) (\<lambda>send_rc.
               if send_failed send_rc gen_rc then cl_return MQTT_SN_CLIENT_LOOP_RETURN_ERROR
               else
                 cl_bind count_registration (\<lambda>_.
                 cl_return MQTT_SN_CLIENT_LOOP_RETURN_SUCCESS)))))))"

end
