(* ===== verification/Client_Requests.thy ===== *)
theory Client_Requests
  imports Client_Handlers
begin

text \<open>
  The requests of the client (\<open>src/client/MqttSnClientMethod.c\<close>): publishing, registering, subscribing,
  unsubscribing, ping, sleep and wake-up, the search for a gateway, connecting and disconnecting, and the
  handler of PUBLISH. Each takes the loop and the fuel of its waits as arguments.

  The pattern \<open>gen_rc < 0\<close> after a writer is \<open>cl_generate\<close>; the pattern around the wait for a slot is
  \<open>cl_acquire\<close>.
\<close>

type_synonym 'w client_request = "('w, MQTT_SN_CLIENT_RETURN_CODE) client_call"

definition cl_generate ::
  "(u8 list \<times> nat) cres \<Rightarrow> (u8 list \<Rightarrow> nat \<Rightarrow> 'w client_request) \<Rightarrow> 'w client_request" where
  "cl_generate r next =
     cl_bind (cl_call r) (\<lambda>x.
     case x of None \<Rightarrow> cl_return MQTT_SN_CLIENT_RETURN_ERROR
     | Some (msg_data, gen_rc) \<Rightarrow> next msg_data gen_rc)"

definition cl_acquire ::
  "('w, int option) client_call \<Rightarrow> (int \<Rightarrow> 'w client_request) \<Rightarrow> 'w client_request" where
  "cl_acquire m next =
     cl_bind m (\<lambda>r. case r of None \<Rightarrow> cl_return MQTT_SN_CLIENT_RETURN_ERROR | Some await_fd \<Rightarrow> next await_fd)"

text \<open>\<open>client->msg_counter++\<close>\<close>

definition next_msg_id :: "('w, u16) client_call" where
  "next_msg_id =
     cl_bind (cl_get c_msg_counter) (\<lambda>msg_id.
     cl_bind (cl_put (\<lambda>c. c\<lparr>c_msg_counter := c_msg_counter c + 1\<rparr>)) (\<lambda>_.
     cl_return msg_id))"

definition at_most :: "MQTT_SN_CLIENT_STATUS \<Rightarrow> MQTT_SN_CLIENT_STATUS \<Rightarrow> bool" where
  "at_most status bound \<longleftrightarrow> client_status_code status \<le> client_status_code bound"

section \<open>Strings\<close>

text \<open>\<open>memchr\<close> looks at \<open>max_len\<close> bytes unless it finds the end before; \<open>strlen\<close> must find it.\<close>

definition MqttSnClientSafeStrlen :: "u8 list \<Rightarrow> nat \<Rightarrow> int cres" where
  "MqttSnClientSafeStrlen str max_len =
     (if 0 \<in> set (take max_len str) then Inr (int (length (c_string str)))
      else if max_len \<le> length str then Inr (-1)
      else Inl Fault)"

text \<open>\<open>strncpy\<close> copies up to the end of the source and fills up with zeros.\<close>

definition c_strncpy :: "u8 list \<Rightarrow> u8 list \<Rightarrow> nat \<Rightarrow> u8 list cres" where
  "c_strncpy dst src n =
     (if n \<le> length (c_string src) then wr_bytes dst 0 (take n src)
      else if 0 \<in> set src
      then wr_bytes dst 0 (c_string src @ replicate (n - length (c_string src)) 0)
      else Inl Fault)"

section \<open>The search for a gateway\<close>

text \<open>
  The destination of the caller is handed to the context and taken back before the slot is freed; the
  result of the two calls carries it.
\<close>

definition take_dst_advertise ::
  "int \<Rightarrow> MqttSnClientReceivedAdvertise \<Rightarrow> ('w, MqttSnClientReceivedAdvertise) client_call" where
  "take_dst_advertise await_fd dst_advertise =
     cl_bind (get_await_context await_fd) (\<lambda>ctx.
     cl_return (case ctx of None \<Rightarrow> dst_advertise
                | Some a \<Rightarrow> (case ac_dst_advertise a of None \<Rightarrow> dst_advertise | Some d \<Rightarrow> d)))"

definition take_dst_gwinfo ::
  "int \<Rightarrow> MqttSnClientReceivedGwInfo \<Rightarrow> ('w, MqttSnClientReceivedGwInfo) client_call" where
  "take_dst_gwinfo await_fd dst_gwinfo =
     cl_bind (get_await_context await_fd) (\<lambda>ctx.
     cl_return (case ctx of None \<Rightarrow> dst_gwinfo
                | Some a \<Rightarrow> (case ac_dst_gwinfo a of None \<Rightarrow> dst_gwinfo | Some d \<Rightarrow> d)))"

text \<open>The product is taken in 32 bits; where it would overflow the model stops.\<close>

definition int32_mul :: "int \<Rightarrow> int \<Rightarrow> ('w, int) client_call" where
  "int32_mul a b =
     (if - (2 ^ 31) \<le> a * b \<and> a * b < 2 ^ 31 then cl_return (a * b) else cl_stop Assertion)"

definition MqttSnClientAwaitAdvertise ::
  "'w client_env \<Rightarrow> 'w client_loop \<Rightarrow> nat \<Rightarrow> int \<Rightarrow> MqttSnClientReceivedAdvertise
   \<Rightarrow> ('w, MQTT_SN_CLIENT_RETURN_CODE \<times> MqttSnClientReceivedAdvertise) client_call" where
  "MqttSnClientAwaitAdvertise env loop k timeout_s dst_advertise =
     cl_bind (acquire_loop loop k ADVERTISE 0) (\<lambda>r.
     case r of None \<Rightarrow> cl_return (MQTT_SN_CLIENT_RETURN_ERROR, dst_advertise)
     | Some await_fd \<Rightarrow>
         cl_bind (get_await_context await_fd) (\<lambda>await_context.
         if await_context = None then cl_return (MQTT_SN_CLIENT_RETURN_ERROR, dst_advertise)
         else
           cl_bind (put_await_msg await_fd (\<lambda>m. m\<lparr>am_await_context :=
             (am_await_context m)\<lparr>ac_dst_advertise := Some dst_advertise\<rparr>\<rparr>)) (\<lambda>_.
           cl_bind (int32_mul timeout_s 1000) (\<lambda>timeout_ms.
           cl_bind (get_await_status_timeout_ms_easy env loop k await_fd (of_int timeout_ms)) (\<lambda>await_rc.
           cl_bind (take_dst_advertise await_fd dst_advertise) (\<lambda>dst_advertise.
           cl_bind (free_await_fd await_fd) (\<lambda>_.
           cl_return (await_status_to_client_return_code await_rc, dst_advertise))))))))"

definition MqttSnClientSearchGw ::
  "'w client_env \<Rightarrow> 'w client_loop \<Rightarrow> nat \<Rightarrow> int \<Rightarrow> u8 \<Rightarrow> MqttSnClientReceivedGwInfo
   \<Rightarrow> ('w, MQTT_SN_CLIENT_RETURN_CODE \<times> MqttSnClientReceivedGwInfo) client_call" where
  "MqttSnClientSearchGw env loop k random_timeout_ms radius dst_gwinfo =
     cl_bind (acquire_loop loop k GWINFO 0) (\<lambda>r.
     case r of None \<Rightarrow> cl_return (MQTT_SN_CLIENT_RETURN_ERROR, dst_gwinfo)
     | Some await_fd \<Rightarrow>
         cl_bind (get_await_context await_fd) (\<lambda>await_context.
         if await_context = None then cl_return (MQTT_SN_CLIENT_RETURN_ERROR, dst_gwinfo)
         else
           let finish = (\<lambda>rc.
             cl_bind (take_dst_gwinfo await_fd dst_gwinfo) (\<lambda>dst_gwinfo.
             cl_bind (free_await_fd await_fd) (\<lambda>_.
             cl_return (rc, dst_gwinfo))))
           in
           cl_bind (put_await_msg await_fd (\<lambda>m. m\<lparr>am_await_context :=
             (am_await_context m)\<lparr>ac_dst_gwinfo := Some dst_gwinfo\<rparr>\<rparr>)) (\<lambda>_.
           cl_bind (get_await_status_timeout_ms_easy env loop k await_fd (of_int random_timeout_ms))
             (\<lambda>await_rc.
           if await_rc = MQTT_SN_CLIENT_AWAIT_MESSAGE_STATUS_SUCCESS
           then finish MQTT_SN_CLIENT_RETURN_SUCCESS
           else if await_rc = MQTT_SN_CLIENT_AWAIT_MESSAGE_STATUS_ERROR
           then finish MQTT_SN_CLIENT_RETURN_ERROR
           else
             cl_bind (cl_call (generate_searchgw_message (replicate MQTT_SN_MESSAGE_SEARCHGW_LENGTH 0)
                                MQTT_SN_MESSAGE_SEARCHGW_LENGTH radius)) (\<lambda>g.
             case g of None \<Rightarrow> finish MQTT_SN_CLIENT_RETURN_ERROR
             | Some (msg_data, gen_rc) \<Rightarrow>
                 cl_bind (send_to_broadcast msg_data gen_rc) (\<lambda>send_rc.
                 if send_failed send_rc gen_rc then finish MQTT_SN_CLIENT_RETURN_ERROR
                 else
                   cl_bind (cl_get c_retry_timeout_ms) (\<lambda>retry_timeout_ms.
                   cl_bind (get_await_status_timeout_ms_easy env loop k await_fd
                              (of_int retry_timeout_ms)) (\<lambda>await_rc.
                   finish (await_status_to_client_return_code await_rc)))))))))"

section \<open>Publishing\<close>

definition MqttSnClientPublishQosMessageHandler ::
  "'w client_env \<Rightarrow> 'w client_loop \<Rightarrow> nat \<Rightarrow> int \<Rightarrow> u16 \<Rightarrow> u8 list \<Rightarrow> nat \<Rightarrow> 'w client_request" where
  "MqttSnClientPublishQosMessageHandler env loop k qos msg_id publish_msg publish_msg_length =
     (if qos = 0 \<or> qos = -1
      then send_to_gateway_with_retry env loop k (-1) publish_msg publish_msg_length
      else if qos = 1
      then
        cl_acquire (acquire_loop loop k PUBACK msg_id) (\<lambda>await_fd.
        cl_bind (get_await_context await_fd) (\<lambda>await_context.
        if await_context = None then cl_return MQTT_SN_CLIENT_RETURN_ERROR
        else
          cl_bind (send_to_gateway_with_retry env loop k await_fd publish_msg publish_msg_length) (\<lambda>rc.
          cl_bind (free_await_fd await_fd) (\<lambda>_.
          cl_return rc))))
      else if qos = 2
      then
        cl_bind (request env loop k PUBREC msg_id publish_msg publish_msg_length) (\<lambda>rc.
        if rc \<noteq> MQTT_SN_CLIENT_RETURN_SUCCESS then cl_return rc
        else
          cl_acquire (acquire_loop loop k PUBCOMP msg_id) (\<lambda>await_fd.
          cl_generate (generate_pubrel (uninitialised env MQTT_SN_MESSAGE_PUBREL_LENGTH)
                         MQTT_SN_MESSAGE_PUBREL_LENGTH msg_id) (\<lambda>pubrec_msg gen_rc.
          cl_bind (send_to_gateway_with_retry env loop k await_fd pubrec_msg gen_rc) (\<lambda>rc.
          cl_bind (free_await_fd await_fd) (\<lambda>_.
          cl_return rc)))))
      else cl_return MQTT_SN_CLIENT_RETURN_ERROR)"

text \<open>The message and its hand-over, which the three calls share; the array has the length of the message.\<close>

definition publish_message ::
  "'w client_env \<Rightarrow> 'w client_loop \<Rightarrow> nat \<Rightarrow> nat \<Rightarrow> int \<Rightarrow> u8 \<Rightarrow> u8 \<Rightarrow> u16 \<Rightarrow> u16 \<Rightarrow> u8 list \<Rightarrow> nat
   \<Rightarrow> 'w client_request" where
  "publish_message env loop k publish_msg_length qos retain topic_id_type topic_id msg_id data data_len =
     cl_generate (generate_publish (uninitialised env publish_msg_length) publish_msg_length 0 qos retain
                    topic_id_type (ucast topic_id) msg_id data data_len) (\<lambda>publish_msg gen_rc.
     MqttSnClientPublishQosMessageHandler env loop k qos msg_id publish_msg publish_msg_length)"

definition MqttSnClientPublishPredefinedM1 ::
  "'w client_env \<Rightarrow> 'w client_loop \<Rightarrow> nat \<Rightarrow> u16 \<Rightarrow> u8 \<Rightarrow> u8 list \<Rightarrow> nat \<Rightarrow> 'w client_request" where
  "MqttSnClientPublishPredefinedM1 env loop k predefined_topic_id retain data data_len =
     (let publish_msg_length = get_publish_msg_len data_len in
      if publish_msg_length < 0 then cl_return MQTT_SN_CLIENT_RETURN_ERROR
      else
        cl_bind (cl_get c_status) (\<lambda>status.
        cl_bind (if status = MQTT_SN_CLIENT_CONNECTION_STATUS_CONNECTED then next_msg_id
                 else cl_return 0) (\<lambda>msg_id.
        publish_message env loop k (nat publish_msg_length) (-1) retain 1 predefined_topic_id msg_id
          data data_len)))"

definition MqttSnClientPublishPredefined ::
  "'w client_env \<Rightarrow> 'w client_loop \<Rightarrow> nat \<Rightarrow> u16 \<Rightarrow> u8 \<Rightarrow> int \<Rightarrow> u8 list \<Rightarrow> nat \<Rightarrow> 'w client_request" where
  "MqttSnClientPublishPredefined env loop k predefined_topic_id retain qos data data_len =
     cl_bind (cl_get c_status) (\<lambda>status.
     if at_most status MQTT_SN_CLIENT_CONNECTION_STATUS_INITALIZED
     then cl_return MQTT_SN_CLIENT_RETURN_ERROR
     else if qos \<ge> 0 \<and> at_most status MQTT_SN_CLIENT_CONNECTION_STATUS_DISCONNECTED
     then cl_return MQTT_SN_CLIENT_RETURN_ERROR
     else
       cl_bind (if qos \<ge> 0 \<and> \<not> at_most status MQTT_SN_CLIENT_CONNECTION_STATUS_DISCONNECTED
                then next_msg_id else cl_return 0) (\<lambda>msg_id.
       let publish_msg_length = get_publish_msg_len data_len in
       if publish_msg_length < 0 then cl_return MQTT_SN_CLIENT_RETURN_ERROR
       else publish_message env loop k (nat publish_msg_length) qos retain 1 predefined_topic_id msg_id
              data data_len))"

definition MqttSnClientPublishTopicId ::
  "'w client_env \<Rightarrow> 'w client_loop \<Rightarrow> nat \<Rightarrow> u16 \<Rightarrow> u8 \<Rightarrow> int \<Rightarrow> u8 list \<Rightarrow> nat \<Rightarrow> 'w client_request" where
  "MqttSnClientPublishTopicId env loop k topic_id retain qos data data_len =
     cl_bind (cl_get c_status) (\<lambda>status.
     if status \<noteq> MQTT_SN_CLIENT_CONNECTION_STATUS_CONNECTED
     then cl_return MQTT_SN_CLIENT_RETURN_ERROR
     else
       let publish_msg_length = get_publish_msg_len data_len in
       if publish_msg_length < 0 then cl_return MQTT_SN_CLIENT_RETURN_ERROR
       else
         cl_bind next_msg_id (\<lambda>msg_id.
         publish_message env loop k (nat publish_msg_length) qos retain 0 topic_id msg_id data data_len))"

definition MqttSnClientPublishByRegistrationIndex ::
  "'w client_env \<Rightarrow> 'w client_loop \<Rightarrow> nat \<Rightarrow> nat \<Rightarrow> u8 \<Rightarrow> int \<Rightarrow> u8 list \<Rightarrow> nat \<Rightarrow> 'w client_request" where
  "MqttSnClientPublishByRegistrationIndex env loop k registration_index retain qos data data_len =
     cl_bind (cl_get id) (\<lambda>c.
     if c_status c \<noteq> MQTT_SN_CLIENT_CONNECTION_STATUS_CONNECTED
     then cl_return MQTT_SN_CLIENT_RETURN_ERROR
     else if c_registrations_len c \<le> registration_index then cl_return MQTT_SN_CLIENT_RETURN_ERROR
     else
       cl_bind (cl_mem (rd_arr (c_registrations c) registration_index)) (\<lambda>r.
       MqttSnClientPublishTopicId env loop k (cr_topic_id r) retain qos data data_len))"

section \<open>Registering\<close>

function registered_loop ::
  "MqttSnClientRegistration list \<Rightarrow> nat \<Rightarrow> u8 list \<Rightarrow> nat \<Rightarrow> u16 option cres" where
  "registered_loop registrations len topic_name i =
     (if i < len
      then
        cbind (rd_arr registrations i) (\<lambda>r.
        cbind (c_streq (cr_topic_name r) topic_name) (\<lambda>same.
        if same then Inr (Some (cr_topic_id r))
        else registered_loop registrations len topic_name (i + 1)))
      else Inr None)"
  by pat_completeness auto
termination
  by (relation "measure (\<lambda>(_, n, _, i). n - i)") auto

declare registered_loop.simps [simp del]

text \<open>The result is the topic id of a successful call, and \<open>None\<close> for an error.\<close>

definition MqttSnClientGetRegisteredTopicId :: "u8 list \<Rightarrow> ('w, u16 option) client_call" where
  "MqttSnClientGetRegisteredTopicId topic_name =
     cl_bind (cl_mem (MqttSnClientSafeStrlen topic_name
                        (MQTT_SN_CLIENT_MAX_REGISTRATION_TOPIC_NAME_LENGTH - 1))) (\<lambda>topic_name_length.
     if topic_name_length < 0 then cl_return None
     else
       cl_bind (cl_get id) (\<lambda>c.
       cl_mem (registered_loop (c_registrations c) (c_registrations_len c) topic_name 0)))"

text \<open>The context of a slot whose descriptor has been checked.\<close>

definition the_await_context :: "int \<Rightarrow> ('w, MqttSnClientAwaitContext) client_call" where
  "the_await_context await_fd = cl_bind (get_await_msg await_fd) (\<lambda>m. cl_return (am_await_context m))"

text \<open>What REGACK and SUBACK bring: an accepted topic is entered by \<open>accept\<close>.\<close>

definition answered_topic ::
  "int \<Rightarrow> MQTT_SN_CLIENT_RETURN_CODE \<Rightarrow> (u16 \<Rightarrow> ('w, unit) client_call) \<Rightarrow> 'w client_request" where
  "answered_topic await_fd rc accept =
     (if rc \<noteq> MQTT_SN_CLIENT_RETURN_SUCCESS then cl_return rc
      else
        cl_bind (the_await_context await_fd) (\<lambda>ctx.
        if ac_return_code ctx = RETURN_CODE_ACCEPTED
        then
          cl_bind (accept (ac_topic_id ctx)) (\<lambda>_.
          cl_bind count_registration (\<lambda>_.
          cl_return MQTT_SN_CLIENT_RETURN_SUCCESS))
        else if ac_return_code ctx = RETURN_CODE_REJECTED_CONGESTION
        then cl_return MQTT_SN_CLIENT_RETURN_CONGESTION
        else if ac_return_code ctx = RETURN_CODE_REJCETED_NOT_SUPPORTED
        then cl_return MQTT_SN_CLIENT_RETURN_NOT_SUPPORTED
        else cl_return MQTT_SN_CLIENT_RETURN_ERROR))"

text \<open>Copies a topic name into the slot after the last registration.\<close>

definition put_topic_name :: "u8 list \<Rightarrow> nat \<Rightarrow> ('w, unit) client_call" where
  "put_topic_name topic_name topic_name_length =
     cl_bind (cl_get id) (\<lambda>c.
     cl_bind (cl_mem (rd_arr (c_registrations c) (c_registrations_len c))) (\<lambda>r.
     cl_bind (cl_mem (c_strncpy (cr_topic_name r) topic_name topic_name_length)) (\<lambda>name.
     put_registration (c_registrations_len c) (\<lambda>r. r\<lparr>cr_topic_name := name\<rparr>))))"

definition put_topic_id :: "u16 \<Rightarrow> ('w, unit) client_call" where
  "put_topic_id topic_id =
     cl_bind (cl_get c_registrations_len) (\<lambda>len.
     put_registration len (\<lambda>r. r\<lparr>cr_topic_id := topic_id\<rparr>))"

definition MqttSnClientRegister ::
  "'w client_env \<Rightarrow> 'w client_loop \<Rightarrow> nat \<Rightarrow> u8 list \<Rightarrow> nat \<Rightarrow> 'w client_request" where
  "MqttSnClientRegister env loop k topic_name topic_name_length =
     cl_bind (cl_get c_status) (\<lambda>status.
     if at_most status MQTT_SN_CLIENT_CONNECTION_STATUS_DISCONNECTED
     then cl_return MQTT_SN_CLIENT_RETURN_ERROR
     else
       cl_bind (MqttSnClientGetRegisteredTopicId topic_name) (\<lambda>registered.
       if registered \<noteq> None then cl_return MQTT_SN_CLIENT_RETURN_SUCCESS
       else
         cl_bind (cl_get c_registrations_len) (\<lambda>len.
         if len \<ge> MQTT_SN_CLIENT_MAX_REGISTRATIONS then cl_return MQTT_SN_CLIENT_RETURN_ERROR
         else if topic_name_length > MQTT_SN_CLIENT_MAX_REGISTRATION_TOPIC_NAME_LENGTH
         then cl_return MQTT_SN_CLIENT_RETURN_ERROR
         else
           cl_bind next_msg_id (\<lambda>msg_id.
           cl_acquire (acquire_loop loop k REGACK msg_id) (\<lambda>await_fd.
           cl_bind (get_await_context await_fd) (\<lambda>await_context.
           let msg_data_length = get_register_msg_len topic_name_length in
           if await_context = None \<or> msg_data_length < 0 then cl_return MQTT_SN_CLIENT_RETURN_ERROR
           else
             cl_generate (generate_register (uninitialised env (nat msg_data_length))
                            (nat msg_data_length) 0 msg_id topic_name topic_name_length)
               (\<lambda>msg_data gen_rc.
             cl_bind (send_to_gateway_with_retry env loop k await_fd msg_data gen_rc) (\<lambda>rc.
             cl_bind (answered_topic await_fd rc (\<lambda>topic_id.
                        cl_bind (put_topic_name topic_name topic_name_length) (\<lambda>_.
                        put_topic_id topic_id))) (\<lambda>rc.
             cl_bind (free_await_fd await_fd) (\<lambda>_.
             cl_return rc))))))))))"

definition MqttSnClientPublishTopicName ::
  "'w client_env \<Rightarrow> 'w client_loop \<Rightarrow> nat \<Rightarrow> u8 list \<Rightarrow> nat \<Rightarrow> u8 \<Rightarrow> int \<Rightarrow> u8 list \<Rightarrow> nat
   \<Rightarrow> 'w client_request" where
  "MqttSnClientPublishTopicName env loop k topic_name topic_name_length retain qos data data_len =
     cl_bind (cl_get c_status) (\<lambda>status.
     if status \<noteq> MQTT_SN_CLIENT_CONNECTION_STATUS_CONNECTED
     then cl_return MQTT_SN_CLIENT_RETURN_ERROR
     else
       cl_bind (MqttSnClientRegister env loop k topic_name topic_name_length) (\<lambda>register_rc.
       if register_rc \<noteq> MQTT_SN_CLIENT_RETURN_SUCCESS then cl_return register_rc
       else
         cl_bind (MqttSnClientGetRegisteredTopicId topic_name) (\<lambda>registered.
         case registered of None \<Rightarrow> cl_return MQTT_SN_CLIENT_RETURN_ERROR
         | Some topic_id \<Rightarrow> MqttSnClientPublishTopicId env loop k topic_id retain qos data data_len)))"

section \<open>Subscribing\<close>

definition MqttSnClientSubscribeMessageHandler ::
  "'w client_env \<Rightarrow> 'w client_loop \<Rightarrow> nat \<Rightarrow> u16 \<Rightarrow> u8 list \<Rightarrow> nat \<Rightarrow> 'w client_request" where
  "MqttSnClientSubscribeMessageHandler env loop k msg_id subscribe_msg subscribe_msg_length =
     cl_acquire (acquire_loop loop k SUBACK msg_id) (\<lambda>await_fd.
     cl_bind (get_await_context await_fd) (\<lambda>await_context.
     if await_context = None then cl_return MQTT_SN_CLIENT_RETURN_ERROR
     else
       cl_bind (send_to_gateway_with_retry env loop k await_fd subscribe_msg subscribe_msg_length) (\<lambda>rc.
       cl_bind (answered_topic await_fd rc put_topic_id) (\<lambda>rc.
       cl_bind (free_await_fd await_fd) (\<lambda>_.
       cl_return rc)))))"

definition MqttSnClientSubscribePredefined ::
  "'w client_env \<Rightarrow> 'w client_loop \<Rightarrow> nat \<Rightarrow> int \<Rightarrow> u16 \<Rightarrow> 'w client_request" where
  "MqttSnClientSubscribePredefined env loop k qos topic_id =
     cl_bind (cl_get c_status) (\<lambda>status.
     if at_most status MQTT_SN_CLIENT_CONNECTION_STATUS_DISCONNECTED
     then cl_return MQTT_SN_CLIENT_RETURN_ERROR
     else
       cl_bind next_msg_id (\<lambda>msg_id.
       cl_generate (generate_subscribe (uninitialised env MQTT_SN_MESSAGE_SUBSCRIBE_W_TOPICID_LENGTH)
                      MQTT_SN_MESSAGE_SUBSCRIBE_W_TOPICID_LENGTH 0 qos 1 msg_id topic_id None 0)
         (\<lambda>subscribe_msg gen_rc.
       MqttSnClientSubscribeMessageHandler env loop k msg_id subscribe_msg gen_rc)))"

definition MqttSnClientSubscribeShort ::
  "'w client_env \<Rightarrow> 'w client_loop \<Rightarrow> nat \<Rightarrow> int \<Rightarrow> u16 \<Rightarrow> 'w client_request" where
  "MqttSnClientSubscribeShort env loop k qos topic_id =
     cl_bind (cl_get c_status) (\<lambda>status.
     if at_most status MQTT_SN_CLIENT_CONNECTION_STATUS_DISCONNECTED
     then cl_return MQTT_SN_CLIENT_RETURN_ERROR
     else
       cl_bind next_msg_id (\<lambda>msg_id.
       cl_generate (generate_subscribe (uninitialised env MQTT_SN_MESSAGE_SUBSCRIBE_W_TOPICID_LENGTH)
                      MQTT_SN_MESSAGE_SUBSCRIBE_W_TOPICID_LENGTH 0 qos 2 msg_id topic_id None 0)
         (\<lambda>subscribe_msg gen_rc.
       MqttSnClientSubscribeMessageHandler env loop k msg_id subscribe_msg gen_rc)))"

definition MqttSnClientSubscribeTopicName ::
  "'w client_env \<Rightarrow> 'w client_loop \<Rightarrow> nat \<Rightarrow> int \<Rightarrow> u8 list \<Rightarrow> nat \<Rightarrow> 'w client_request" where
  "MqttSnClientSubscribeTopicName env loop k qos topic_name topic_name_length =
     cl_bind (cl_get id) (\<lambda>c.
     if at_most (c_status c) MQTT_SN_CLIENT_CONNECTION_STATUS_DISCONNECTED
     then cl_return MQTT_SN_CLIENT_RETURN_ERROR
     else if c_registrations_len c \<ge> MQTT_SN_CLIENT_MAX_REGISTRATIONS
     then cl_return MQTT_SN_CLIENT_RETURN_ERROR
     else if topic_name_length > MQTT_SN_CLIENT_MAX_REGISTRATION_TOPIC_NAME_LENGTH
     then cl_return MQTT_SN_CLIENT_RETURN_ERROR
     else
       cl_bind (put_topic_name topic_name topic_name_length) (\<lambda>_.
       let subscribe_msg_length = get_subscribe_msg_len topic_name_length in
       if subscribe_msg_length < 0 then cl_return MQTT_SN_CLIENT_RETURN_ERROR
       else
         cl_bind next_msg_id (\<lambda>msg_id.
         cl_generate (generate_subscribe (uninitialised env (nat subscribe_msg_length))
                        (nat subscribe_msg_length) 0 qos 0 msg_id 0 (Some topic_name) topic_name_length)
           (\<lambda>subscribe_msg gen_rc.
         MqttSnClientSubscribeMessageHandler env loop k msg_id subscribe_msg gen_rc))))"

definition MqttSnClientUnsubscribeMessageHandler ::
  "'w client_env \<Rightarrow> 'w client_loop \<Rightarrow> nat \<Rightarrow> u16 \<Rightarrow> u8 list \<Rightarrow> nat \<Rightarrow> 'w client_request" where
  "MqttSnClientUnsubscribeMessageHandler env loop k msg_id unsubscribe_msg unsubscribe_msg_length =
     request env loop k UNSUBACK msg_id unsubscribe_msg unsubscribe_msg_length"

definition MqttSnClientUnsubscribePredefined ::
  "'w client_env \<Rightarrow> 'w client_loop \<Rightarrow> nat \<Rightarrow> u16 \<Rightarrow> 'w client_request" where
  "MqttSnClientUnsubscribePredefined env loop k topic_id =
     cl_bind (cl_get c_status) (\<lambda>status.
     if status \<noteq> MQTT_SN_CLIENT_CONNECTION_STATUS_CONNECTED
     then cl_return MQTT_SN_CLIENT_RETURN_ERROR
     else
       cl_bind next_msg_id (\<lambda>msg_id.
       cl_generate (generate_unsubscribe (uninitialised env MQTT_SN_MESSAGE_UNSUBSCRIBE_W_TOPICID_LENGTH)
                      MQTT_SN_MESSAGE_UNSUBSCRIBE_W_TOPICID_LENGTH 0 1 msg_id topic_id None 0)
         (\<lambda>unsubscribe_msg gen_rc.
       MqttSnClientUnsubscribeMessageHandler env loop k msg_id unsubscribe_msg gen_rc)))"

definition MqttSnClientUnsubscribeShort ::
  "'w client_env \<Rightarrow> 'w client_loop \<Rightarrow> nat \<Rightarrow> u16 \<Rightarrow> 'w client_request" where
  "MqttSnClientUnsubscribeShort env loop k topic_id =
     cl_bind (cl_get c_status) (\<lambda>status.
     if status \<noteq> MQTT_SN_CLIENT_CONNECTION_STATUS_CONNECTED
     then cl_return MQTT_SN_CLIENT_RETURN_ERROR
     else
       cl_bind next_msg_id (\<lambda>msg_id.
       cl_generate (generate_unsubscribe (uninitialised env MQTT_SN_MESSAGE_UNSUBSCRIBE_W_TOPICID_LENGTH)
                      MQTT_SN_MESSAGE_UNSUBSCRIBE_W_TOPICID_LENGTH 0 2 msg_id topic_id None 0)
         (\<lambda>unsubscribe_msg gen_rc.
       MqttSnClientUnsubscribeMessageHandler env loop k msg_id unsubscribe_msg gen_rc)))"

definition MqttSnClientUnsubscribeTopicName ::
  "'w client_env \<Rightarrow> 'w client_loop \<Rightarrow> nat \<Rightarrow> u8 list \<Rightarrow> nat \<Rightarrow> 'w client_request" where
  "MqttSnClientUnsubscribeTopicName env loop k topic_name topic_name_length =
     cl_bind (cl_get c_status) (\<lambda>status.
     if status \<noteq> MQTT_SN_CLIENT_CONNECTION_STATUS_CONNECTED
     then cl_return MQTT_SN_CLIENT_RETURN_ERROR
     else
       let unsubscribe_msg_length = get_unsubscribe_msg_len topic_name_length in
       if unsubscribe_msg_length < 0 then cl_return MQTT_SN_CLIENT_RETURN_ERROR
       else
         cl_bind next_msg_id (\<lambda>msg_id.
         cl_generate (generate_unsubscribe (uninitialised env (nat unsubscribe_msg_length))
                        (nat unsubscribe_msg_length) 0 0 msg_id 0 (Some topic_name) topic_name_length)
           (\<lambda>unsubscribe_msg gen_rc.
         MqttSnClientUnsubscribeMessageHandler env loop k msg_id unsubscribe_msg gen_rc)))"

section \<open>Ping, sleep and wake-up\<close>

definition MqttSnClientPing :: "'w client_env \<Rightarrow> 'w client_loop \<Rightarrow> nat \<Rightarrow> 'w client_request" where
  "MqttSnClientPing env loop k =
     cl_acquire (acquire_once loop PINGRESP 0) (\<lambda>await_fd.
     cl_generate (generate_ping_req (replicate MQTT_SN_MESSAGE_PINGREQ_WO_CLIENTID_LENGTH 0)
                    MQTT_SN_MESSAGE_PINGREQ_WO_CLIENTID_LENGTH) (\<lambda>msg_data gen_rc.
     cl_bind (send_to_gateway_with_retry env loop k await_fd msg_data gen_rc) (\<lambda>rc.
     cl_bind (free_await_fd await_fd) (\<lambda>_.
     cl_return rc))))"

definition MqttSnClientSleep ::
  "'w client_env \<Rightarrow> 'w client_loop \<Rightarrow> nat \<Rightarrow> u16 \<Rightarrow> 'w client_request" where
  "MqttSnClientSleep env loop k sleep_duration =
     cl_bind (cl_get c_status) (\<lambda>status.
     if at_most status MQTT_SN_CLIENT_CONNECTION_STATUS_DISCONNECTED
     then cl_return MQTT_SN_CLIENT_RETURN_ERROR
     else
       cl_generate (generate_disconnect_duration
                      (uninitialised env MQTT_SN_MESSAGE_DISCONNECT_W_DURATION_LENGTH)
                      MQTT_SN_MESSAGE_DISCONNECT_W_DURATION_LENGTH sleep_duration)
         (\<lambda>disconnect_msg gen_rc.
       cl_acquire (acquire_once loop DISCONNECT 0) (\<lambda>await_fd.
       cl_bind (send_to_gateway_without_retry disconnect_msg gen_rc) (\<lambda>send_rc.
       if send_failed send_rc gen_rc then cl_return MQTT_SN_CLIENT_RETURN_NETWORK_ERROR
       else
         cl_bind (cl_get c_retry_timeout_ms) (\<lambda>retry_timeout_ms.
         cl_bind (get_await_status_timeout_ms_easy env loop k await_fd (of_int retry_timeout_ms))
           (\<lambda>await_rc.
         cl_bind (free_await_fd await_fd) (\<lambda>_.
         let rc = await_status_to_client_return_code await_rc in
         if rc = MQTT_SN_CLIENT_RETURN_SUCCESS
         then
           cl_bind (cl_put (\<lambda>c. c\<lparr>c_sleep_duration := sleep_duration,
                                 c_status := MQTT_SN_CLIENT_CONNECTION_STATUS_ASLEEP\<rparr>)) (\<lambda>_.
           cl_return rc)
         else cl_return rc)))))))"

text \<open>The string \<open>client_id\<close> points to; behind the null pointer there are no bytes to read.\<close>

definition own_client_id :: "'w MqttSnClient \<Rightarrow> u8 list" where
  "own_client_id c = (if c_client_id c then cb_client_id (c_client_buffer c) else [])"

definition MqttSnClientWakeup :: "'w client_env \<Rightarrow> 'w client_loop \<Rightarrow> nat \<Rightarrow> 'w client_request" where
  "MqttSnClientWakeup env loop k =
     cl_bind (cl_get c_status) (\<lambda>status.
     if status = MQTT_SN_CLIENT_CONNECTION_STATUS_AWAKE then cl_return MQTT_SN_CLIENT_RETURN_SUCCESS
     else if status \<noteq> MQTT_SN_CLIENT_CONNECTION_STATUS_ASLEEP
     then cl_return MQTT_SN_CLIENT_RETURN_ERROR
     else
       cl_bind (cl_get own_client_id) (\<lambda>client_id.
       cl_bind (cl_mem (c_strlen client_id)) (\<lambda>n.
       cl_generate (generate_ping_req_w_client_id
                      (replicate MQTT_SN_MESSAGE_PINGREQ_W_CLIENTID_MAX_LENGTH 0)
                      MQTT_SN_MESSAGE_PINGREQ_W_CLIENTID_MAX_LENGTH client_id n) (\<lambda>msg_data gen_rc.
       cl_acquire (acquire_once loop PINGRESP 0) (\<lambda>await_fd.
       cl_bind (cl_stamp env (\<lambda>t c. c\<lparr>c_awake_ping_request_send_time_s := t\<rparr>)) (\<lambda>rc.
       if rc < 0 then cl_return MQTT_SN_CLIENT_RETURN_ERROR
       else
         cl_bind (cl_time env) (\<lambda>(rc, wakeup_time_s).
         if rc < 0 then cl_return MQTT_SN_CLIENT_RETURN_ERROR
         else
           cl_bind (cl_put (\<lambda>c. c\<lparr>c_awake_any_msg_received := False,
             c_status := (if c_status c = MQTT_SN_CLIENT_CONNECTION_STATUS_ASLEEP
                          then MQTT_SN_CLIENT_CONNECTION_STATUS_AWAKE else c_status c)\<rparr>)) (\<lambda>_.
           cl_bind (send_to_gateway_with_retry env loop k await_fd msg_data gen_rc) (\<lambda>rc.
           cl_bind (free_await_fd await_fd) (\<lambda>_.
           cl_bind (cl_get c_awake_any_msg_received) (\<lambda>any_msg.
           cl_bind (if rc = MQTT_SN_CLIENT_RETURN_TIMEOUT \<and> any_msg
                    then
                      cl_bind (cl_put (\<lambda>c. c\<lparr>c_last_ping_resp_received_s := wakeup_time_s,
                        c_status := (if c_status c = MQTT_SN_CLIENT_CONNECTION_STATUS_GATEWAY_LOST
                                     then MQTT_SN_CLIENT_CONNECTION_STATUS_AWAKE else c_status c)\<rparr>))
                        (\<lambda>_. cl_return MQTT_SN_CLIENT_RETURN_SUCCESS)
                    else cl_return rc) (\<lambda>rc.
           cl_bind (cl_put (\<lambda>c. c\<lparr>
             c_status := (if c_status c = MQTT_SN_CLIENT_CONNECTION_STATUS_AWAKE
                          then MQTT_SN_CLIENT_CONNECTION_STATUS_ASLEEP else c_status c)\<rparr>)) (\<lambda>_.
           cl_return rc)))))))))))))"

definition MqttSnClientDisconnect :: "'w client_env \<Rightarrow> 'w client_loop \<Rightarrow> nat \<Rightarrow> 'w client_request" where
  "MqttSnClientDisconnect env loop k =
     cl_bind (cl_get c_status) (\<lambda>status.
     if at_most status MQTT_SN_CLIENT_CONNECTION_STATUS_DISCONNECTED
     then cl_return MQTT_SN_CLIENT_RETURN_ERROR
     else
       cl_generate (generate_disconnect_message
                      (replicate MQTT_SN_MESSAGE_DISCONNECT_WO_DURATION_LENGTH 0)
                      MQTT_SN_MESSAGE_DISCONNECT_WO_DURATION_LENGTH) (\<lambda>msg_data gen_rc.
       request env loop k DISCONNECT 0 msg_data gen_rc))"

section \<open>Connecting\<close>

text \<open>
  Strings a caller hands over are the bytes from the pointer to the end of their object. A call with the
  client's own \<open>client_id\<close> copies the buffer onto itself, which leaves it as it is.
\<close>

definition MqttSnClientDirectConnectClientCredentialInit ::
  "u8 list \<Rightarrow> u8 \<Rightarrow> u8 list \<Rightarrow> u16 \<Rightarrow> 'w client_request" where
  "MqttSnClientDirectConnectClientCredentialInit mqtt_sn_gateway_address clean_session client_id
       connect_duration =
     cl_bind (cl_get c_status) (\<lambda>status.
     if client_status_code status < client_status_code MQTT_SN_CLIENT_CONNECTION_STATUS_INITALIZED
     then cl_return MQTT_SN_CLIENT_RETURN_ERROR
     else
       cl_bind (cl_put (\<lambda>c. c\<lparr>c_mqtt_sn_gateway_address := mqtt_sn_gateway_address\<rparr>)) (\<lambda>_.
       cl_bind (cl_mem (MqttSnClientSafeStrlen client_id MQTT_SN_MAX_CLIENT_ID_LENGTH)) (\<lambda>client_id_len.
       if client_id_len < 0 then cl_return MQTT_SN_CLIENT_RETURN_ERROR
       else if client_id_len = 0 then cl_return MQTT_SN_CLIENT_RETURN_ERROR
       else
         cl_bind (cl_get c_client_buffer) (\<lambda>b.
         cl_bind (cl_mem (c_strncpy (cb_client_id b) client_id (nat client_id_len))) (\<lambda>copy.
         cl_bind (cl_put (\<lambda>c. c\<lparr>
           c_client_buffer := (c_client_buffer c)\<lparr>cb_client_id := copy\<rparr>,
           c_client_id := True,
           c_registrations_len := (if clean_session \<noteq> 0 then 0 else c_registrations_len c),
           c_ping_req_await_msg :=
             (c_ping_req_await_msg c)\<lparr>am_msg_type := ANY_MESSAGE_TYPE, am_msg_id := 0\<rparr>,
           c_connect_duration := connect_duration,
           c_clean_session := clean_session,
           c_status := MQTT_SN_CLIENT_CONNECTION_STATUS_DISCONNECTED\<rparr>)) (\<lambda>_.
         cl_return MQTT_SN_CLIENT_RETURN_SUCCESS))))))"

text \<open>\<open>memcpy\<close> through the pointer \<open>will_msg\<close> of the buffer; without an object there is nothing to write to.\<close>

definition copy_will_msg :: "u8 list option \<Rightarrow> u8 list \<Rightarrow> nat \<Rightarrow> u8 list option cres" where
  "copy_will_msg dst will_msg n =
     cbind (rds will_msg n) (\<lambda>bs.
     case dst of None \<Rightarrow> if n = 0 then Inr None else Inl Fault
     | Some d \<Rightarrow> cbind (wr_bytes d 0 bs) (\<lambda>d. Inr (Some d)))"

text \<open>The call ends with an error code on its successful path.\<close>

definition MqttSnClientDirectConnectWillCredentialInit ::
  "u8 list \<Rightarrow> int \<Rightarrow> u8 \<Rightarrow> u8 list \<Rightarrow> nat \<Rightarrow> 'w client_request" where
  "MqttSnClientDirectConnectWillCredentialInit will_topic will_qos will_retain will_msg will_msg_length =
     cl_bind (cl_mem (MqttSnClientSafeStrlen will_topic MQTT_SN_CLIENT_MAX_WILL_TOPIC_LENGTH))
       (\<lambda>will_topic_length.
     if will_topic_length < 0 then cl_return MQTT_SN_CLIENT_RETURN_ERROR
     else if will_topic_length \<le> 0 \<or> get_will_topic_msg_len (nat will_topic_length) < 0
     then cl_return MQTT_SN_CLIENT_RETURN_ERROR
     else if get_will_msg_msg_len will_msg_length < 0 then cl_return MQTT_SN_CLIENT_RETURN_ERROR
     else if will_msg_length \<ge> MQTT_SN_CLIENT_MAX_WILL_MSG_LENGTH
     then cl_return MQTT_SN_CLIENT_RETURN_ERROR
     else
       let n = nat will_topic_length in
       cl_bind (cl_get c_client_buffer) (\<lambda>b.
       cl_bind (cl_mem (c_strncpy (cb_will_topic b) will_topic n)) (\<lambda>topic.
       cl_bind (cl_put (\<lambda>c. c\<lparr>c_client_buffer := (c_client_buffer c)\<lparr>cb_will_topic := topic\<rparr>,
                             c_will_topic := True, c_will_topic_length := n\<rparr>)) (\<lambda>_.
       cl_bind (cl_mem (copy_will_msg (cb_will_msg b) will_msg will_msg_length)) (\<lambda>msg.
       cl_bind (cl_put (\<lambda>c. c\<lparr>
         c_client_buffer := (c_client_buffer c)\<lparr>cb_will_msg := msg, cb_will_msg_len := n,
                                                cb_will_topic_length := n\<rparr>,
         c_will_msg := (msg \<noteq> None),
         c_will_msg_len := will_msg_length,
         c_will_qos := will_qos,
         c_will_retain := will_retain\<rparr>)) (\<lambda>_.
       cl_return MQTT_SN_CLIENT_RETURN_NETWORK_ERROR))))))"

definition connected :: "('w, unit) client_call" where
  "connected = cl_put (\<lambda>c. c\<lparr>c_auto_reconnect_tried := 0, c_auto_reconnect_congestion := 0,
                             c_status := MQTT_SN_CLIENT_CONNECTION_STATUS_CONNECTED\<rparr>)"

definition MqttSnClientDirectConnectWithoutWill ::
  "'w client_env \<Rightarrow> 'w client_loop \<Rightarrow> nat \<Rightarrow> u8 list \<Rightarrow> u8 \<Rightarrow> u8 list \<Rightarrow> u16 \<Rightarrow> 'w client_request" where
  "MqttSnClientDirectConnectWithoutWill env loop k mqtt_sn_gateway_address clean_session client_id
       connect_duration =
     cl_bind (MqttSnClientDirectConnectClientCredentialInit mqtt_sn_gateway_address clean_session
                client_id connect_duration) (\<lambda>rc.
     if rc \<noteq> MQTT_SN_CLIENT_RETURN_SUCCESS then cl_return MQTT_SN_CLIENT_RETURN_ERROR
     else
       cl_bind (cl_get own_client_id) (\<lambda>client_id.
       cl_bind (cl_mem (c_strlen client_id)) (\<lambda>n.
       cl_bind (cl_get c_connect_duration) (\<lambda>duration.
       cl_generate (generate_connect (replicate MQTT_SN_MESSAGE_CONNECT_MAX_LENGTH 0)
                      MQTT_SN_MESSAGE_CONNECT_MAX_LENGTH 0 clean_session 1 duration client_id (n + 1))
         (\<lambda>msg_data gen_rc.
       cl_acquire (acquire_loop loop k CONNACK 0) (\<lambda>await_fd.
       cl_bind (get_await_context await_fd) (\<lambda>await_context.
       if await_context = None then cl_return MQTT_SN_CLIENT_RETURN_ERROR
       else
         cl_bind (send_to_gateway_with_retry env loop k await_fd msg_data gen_rc) (\<lambda>rc.
         cl_bind (the_await_context await_fd) (\<lambda>ctx.
         cl_bind (cl_get c_status) (\<lambda>status.
         cl_bind (if rc = MQTT_SN_CLIENT_RETURN_SUCCESS \<and> ac_return_code ctx = RETURN_CODE_ACCEPTED
                     \<and> \<not> at_most status MQTT_SN_CLIENT_CONNECTION_STATUS_GATEWAY_LOST
                  then connected else cl_return ()) (\<lambda>_.
         cl_bind (free_await_fd await_fd) (\<lambda>_.
         cl_return rc))))))))))))"

text \<open>The three steps of a connect with a will: CONNECT, WILLTOPIC, WILLMSG.\<close>

definition MqttSnClientDirectConnectWithWill ::
  "'w client_env \<Rightarrow> 'w client_loop \<Rightarrow> nat \<Rightarrow> u8 list \<Rightarrow> u8 \<Rightarrow> u8 list \<Rightarrow> u16 \<Rightarrow> u8 list option \<Rightarrow> int
   \<Rightarrow> u8 \<Rightarrow> u8 list option \<Rightarrow> nat \<Rightarrow> 'w client_request" where
  "MqttSnClientDirectConnectWithWill env loop k mqtt_sn_gateway_address clean_session client_id
       connect_duration will_topic will_qos will_retain will_msg will_msg_length =
     (case (will_topic, will_msg) of
        (Some will_topic, Some will_msg) \<Rightarrow>
          cl_bind (MqttSnClientDirectConnectClientCredentialInit mqtt_sn_gateway_address clean_session
                     client_id connect_duration) (\<lambda>rc.
          if rc \<noteq> MQTT_SN_CLIENT_RETURN_SUCCESS then cl_return MQTT_SN_CLIENT_RETURN_ERROR
          else
            cl_bind (MqttSnClientDirectConnectWillCredentialInit will_topic will_qos will_retain
                       will_msg will_msg_length) (\<lambda>rc.
            if rc \<noteq> MQTT_SN_CLIENT_RETURN_SUCCESS then cl_return MQTT_SN_CLIENT_RETURN_ERROR
            else
              cl_bind (cl_get own_client_id) (\<lambda>client_id.
              cl_bind (cl_mem (c_strlen client_id)) (\<lambda>n.
              cl_bind (cl_get c_connect_duration) (\<lambda>duration.
              cl_generate (generate_connect (replicate MQTT_SN_MESSAGE_CONNECT_MAX_LENGTH 0)
                             MQTT_SN_MESSAGE_CONNECT_MAX_LENGTH 1 clean_session 1 duration client_id n)
                (\<lambda>msg_data gen_rc.
              cl_bind (request env loop k WILLTOPICREQ 0 msg_data gen_rc) (\<lambda>rc.
              if rc \<noteq> MQTT_SN_CLIENT_RETURN_SUCCESS then cl_return rc
              else
                cl_bind (cl_mem (c_strlen will_topic)) (\<lambda>n.
                let len = get_will_topic_msg_len ((n + 1) mod 65536) in
                if len < 0 then cl_return MQTT_SN_CLIENT_RETURN_ERROR
                else
                  cl_generate (generate_will_topic (uninitialised env (nat len)) (nat len) will_qos
                                 will_retain will_topic (n mod 65536)) (\<lambda>msg_data gen_rc.
                  cl_bind (request env loop k WILLMSGREQ 0 msg_data gen_rc) (\<lambda>rc.
                  if rc \<noteq> MQTT_SN_CLIENT_RETURN_SUCCESS then cl_return rc
                  else
                    let len = get_will_msg_msg_len will_msg_length in
                    if len < 0 then cl_return MQTT_SN_CLIENT_RETURN_ERROR
                    else
                      cl_generate (generate_will_msg (uninitialised env (nat len)) (nat len) will_msg
                                     will_msg_length) (\<lambda>msg_data gen_rc.
                      cl_bind (request env loop k CONNACK 0 msg_data gen_rc) (\<lambda>rc.
                      if rc \<noteq> MQTT_SN_CLIENT_RETURN_SUCCESS then cl_return rc
                      else
                        cl_bind connected (\<lambda>_.
                        cl_return MQTT_SN_CLIENT_RETURN_SUCCESS)))))))))))))
      | _ \<Rightarrow> cl_return MQTT_SN_CLIENT_RETURN_ERROR)"

definition MqttSnClientDirectConnect ::
  "'w client_env \<Rightarrow> 'w client_loop \<Rightarrow> nat \<Rightarrow> u8 list \<Rightarrow> u8 \<Rightarrow> u8 list \<Rightarrow> u16 \<Rightarrow> u8 list option \<Rightarrow> int
   \<Rightarrow> u8 \<Rightarrow> u8 list option \<Rightarrow> nat \<Rightarrow> 'w client_request" where
  "MqttSnClientDirectConnect env loop k mqtt_sn_gateway_address clean_session client_id
       connect_duration will_topic will_qos will_retain will_msg will_msg_length =
     cl_bind (MqttSnClientDirectConnectClientCredentialInit mqtt_sn_gateway_address clean_session
                client_id connect_duration) (\<lambda>rc.
     if rc \<noteq> MQTT_SN_CLIENT_RETURN_SUCCESS then cl_return MQTT_SN_CLIENT_RETURN_ERROR
     else if will_topic \<noteq> None \<and> will_msg \<noteq> None
     then MqttSnClientDirectConnectWithWill env loop k mqtt_sn_gateway_address clean_session client_id
            connect_duration will_topic will_qos will_retain will_msg will_msg_length
     else MqttSnClientDirectConnectWithoutWill env loop k mqtt_sn_gateway_address clean_session
            client_id connect_duration)"

definition MqttSnClientReconnect :: "'w client_env \<Rightarrow> 'w client_loop \<Rightarrow> nat \<Rightarrow> 'w client_request" where
  "MqttSnClientReconnect env loop k =
     cl_bind (cl_get id) (\<lambda>c.
     MqttSnClientDirectConnectWithoutWill env loop k (c_mqtt_sn_gateway_address c) 0 (own_client_id c)
       (c_connect_duration c))"

text \<open>
  The choice among the discovered gateways: the least signal strength, and among equals the latest
  message. The result is an index into the list.
\<close>

function choose_gateway_loop ::
  "MqttSnDiscoveredGateway list \<Rightarrow> nat \<Rightarrow> nat \<Rightarrow> nat \<Rightarrow> nat cres" where
  "choose_gateway_loop gateways current_len i chosen =
     (if i < current_len
      then
        cbind (rd_arr gateways i) (\<lambda>g.
        cbind (rd_arr gateways chosen) (\<lambda>d.
        choose_gateway_loop gateways current_len (i + 1)
          (if dg_signal_strength g = dg_signal_strength d \<and> dg_last_message_s g > dg_last_message_s d
           then i
           else if dg_signal_strength g < dg_signal_strength d then i
           else chosen)))
      else Inr chosen)"
  by pat_completeness auto
termination
  by (relation "measure (\<lambda>(_, n, i, _). n - i)") auto

declare choose_gateway_loop.simps [simp del]

text \<open>The address of a GWINFO: filled up with zeros in front, or that of the sender.\<close>

definition possible_gateway_address :: "MqttSnClientReceivedGwInfo \<Rightarrow> u8 list cres" where
  "possible_gateway_address received_gw_info =
     (let gw_info = rg_received_gw_info received_gw_info in
      if gwi_gwAddLen gw_info > 0 \<and> gwi_gwAddLen gw_info \<le> device_address_size
      then
        cbind (rds (gwi_gwAdd gw_info) (gwi_gwAddLen gw_info)) (\<lambda>bs.
        Inr (replicate (device_address_size - gwi_gwAddLen gw_info) 0 @ bs))
      else Inr (rg_from received_gw_info))"

definition zero_received_gw_info :: MqttSnClientReceivedGwInfo where
  "zero_received_gw_info =
     \<lparr>rg_received_gw_info = zero_gwinfo, rg_from = zero_address, rg_signal_strength = 0\<rparr>"

definition zero_received_advertise :: MqttSnClientReceivedAdvertise where
  "zero_received_advertise =
     \<lparr>ra_received_advertise = \<lparr>adv_gwId = 0, adv_duration = 0\<rparr>, ra_from = zero_address,
      ra_adv_signal_strength = 0\<rparr>"

text \<open>The division of two \<open>int32_t\<close> values truncates towards zero.\<close>

definition c_div :: "int \<Rightarrow> int \<Rightarrow> int" where
  "c_div a b = sgn a * sgn b * (\<bar>a\<bar> div \<bar>b\<bar>)"

text \<open>
  The last part of \<open>MqttSnClientAutoConnect\<close>, when no gateway is in the list: search for one or wait for
  its advertisement. \<open>connect\<close> is the call of \<open>MqttSnClientDirectConnect\<close> with the remaining arguments.
\<close>

definition connect_to_found_gateway ::
  "'w client_env \<Rightarrow> 'w client_loop \<Rightarrow> nat \<Rightarrow> int \<Rightarrow> (u8 list \<Rightarrow> 'w client_request) \<Rightarrow> 'w client_request" where
  "connect_to_found_gateway env loop k find_gateway_wait_timeout_ms connect =
     cl_bind (cl_get id) (\<lambda>c.
     case c_find_gw_pattern c of
       MQTT_SN_CLIENT_FIND_GW_PATTERN_SEARCHGW \<Rightarrow>
         cl_bind (MqttSnClientSearchGw env loop k find_gateway_wait_timeout_ms
                    (c_default_signal_strength c) zero_received_gw_info) (\<lambda>(gw_info_rc, received_gw_info).
         if gw_info_rc \<noteq> MQTT_SN_CLIENT_RETURN_SUCCESS then cl_return gw_info_rc
         else
           cl_bind (cl_mem (possible_gateway_address received_gw_info)) (\<lambda>address.
           cl_bind (cl_put (\<lambda>c. c\<lparr>c_default_signal_strength := rg_signal_strength received_gw_info\<rparr>)) (\<lambda>_.
           connect address)))
     | MQTT_SN_CLIENT_FIND_GW_PATTERN_ADVERTISE \<Rightarrow>
         cl_bind (MqttSnClientAwaitAdvertise env loop k (c_div find_gateway_wait_timeout_ms 1000)
                    zero_received_advertise) (\<lambda>(advertise_rc, received_advertise).
         if advertise_rc \<noteq> MQTT_SN_CLIENT_RETURN_SUCCESS then cl_return advertise_rc
         else
           cl_bind (cl_put (\<lambda>c. c\<lparr>c_default_signal_strength :=
             ra_adv_signal_strength received_advertise\<rparr>)) (\<lambda>_.
           connect (ra_from received_advertise)))
     | MQTT_SN_CLIENT_FIND_GW_PATTERN_DIRECT \<Rightarrow> cl_return MQTT_SN_CLIENT_RETURN_ERROR)"

text \<open>The address a caller hands over is only compared with the null pointer.\<close>

definition MqttSnClientAutoConnect ::
  "'w client_env \<Rightarrow> 'w client_loop \<Rightarrow> nat \<Rightarrow> MQTT_SN_CLIENT_FIND_GW_PATTERN \<Rightarrow> int \<Rightarrow> u8 list option
   \<Rightarrow> u8 \<Rightarrow> u8 list \<Rightarrow> u16 \<Rightarrow> u8 list option \<Rightarrow> int \<Rightarrow> u8 \<Rightarrow> u8 list option \<Rightarrow> nat \<Rightarrow> 'w client_request" where
  "MqttSnClientAutoConnect env loop k find_gateway_pattern find_gateway_wait_timeout_ms
       mqtt_sn_gateway_address clean_session client_id connect_duration will_topic will_qos will_retain
       will_msg will_msg_length =
     (let connect = (\<lambda>address. MqttSnClientDirectConnect env loop k address clean_session client_id
                      connect_duration will_topic will_qos will_retain will_msg will_msg_length) in
      cl_bind (cl_get c_status) (\<lambda>status.
      if client_status_code status < client_status_code MQTT_SN_CLIENT_CONNECTION_STATUS_INITALIZED
      then cl_return MQTT_SN_CLIENT_RETURN_ERROR
      else
        cl_bind (cl_put (\<lambda>c. c\<lparr>c_status := MQTT_SN_CLIENT_CONNECTION_STATUS_DISCONNECTED,
          c_find_gw_pattern := find_gateway_pattern,
          c_find_gateway_wait_timeout_ms := find_gateway_wait_timeout_ms\<rparr>)) (\<lambda>_.
        if find_gateway_pattern = MQTT_SN_CLIENT_FIND_GW_PATTERN_DIRECT
        then
          if mqtt_sn_gateway_address = None then cl_return MQTT_SN_CLIENT_RETURN_ERROR
          else cl_bind (cl_get c_mqtt_sn_gateway_address) connect
        else
          cl_bind (cl_time env) (\<lambda>(rc, current_time_s).
          if rc < 0 then cl_return MQTT_SN_CLIENT_RETURN_ERROR
          else
            cl_bind (update_gateways None 0 None None current_time_s) (\<lambda>_.
            cl_bind (cl_get c_discovered_gw_list) (\<lambda>l.
            if dl_current_len l > 0
            then
              cl_bind (cl_mem (choose_gateway_loop (dl_gateways l) (dl_current_len l) 0 0)) (\<lambda>i.
              cl_bind (cl_mem (rd_arr (dl_gateways l) i)) (\<lambda>g.
              cl_bind (cl_put (\<lambda>c. c\<lparr>c_default_signal_strength := dg_signal_strength g\<rparr>)) (\<lambda>_.
              connect (dg_network_address g))))
            else connect_to_found_gateway env loop k find_gateway_wait_timeout_ms connect))))))"

section \<open>The handler of PUBLISH\<close>

definition call_publish_cb :: "'w client_env \<Rightarrow> nat \<Rightarrow> MqttSnPublish \<Rightarrow> ('w, int) client_call" where
  "call_publish_cb env cb publish =
     cl_bind (cl_get id) (\<lambda>c. cl_world (ce_publish_cb env cb c publish))"

text \<open>The callback after QoS 1 and 2; \<open>None\<close> stands for the error return.\<close>

definition publish_delivered ::
  "'w client_env \<Rightarrow> MqttSnPublish \<Rightarrow> 'w client_loop \<Rightarrow> 'w client_loop" where
  "publish_delivered env publish next =
     cl_bind (cl_get c_publish_cb) (\<lambda>publish_cb.
     case publish_cb of
       None \<Rightarrow> next
     | Some cb \<Rightarrow>
         cl_bind (call_publish_cb env cb publish) (\<lambda>rc.
         if rc < 0 then cl_return MQTT_SN_CLIENT_LOOP_RETURN_ERROR else next))"

definition handle_publish_qos0 :: "'w client_env \<Rightarrow> MqttSnPublish \<Rightarrow> 'w client_loop" where
  "handle_publish_qos0 env publish =
     cl_bind (cl_get c_publish_cb) (\<lambda>publish_cb.
     case publish_cb of
       None \<Rightarrow> cl_return MQTT_SN_CLIENT_LOOP_RETURN_SUCCESS
     | Some cb \<Rightarrow>
         cl_bind (call_publish_cb env cb publish) (\<lambda>rc.
         cl_return (if rc \<noteq> 0 then MQTT_SN_CLIENT_LOOP_RETURN_ERROR
                    else MQTT_SN_CLIENT_LOOP_RETURN_SUCCESS)))"

definition handle_publish_qos1 ::
  "'w client_env \<Rightarrow> 'w client_loop \<Rightarrow> nat \<Rightarrow> int \<Rightarrow> MqttSnPublish \<Rightarrow> 'w client_loop" where
  "handle_publish_qos1 env loop k await_fd publish =
     cl_bind (cl_call (generate_puback (uninitialised env MQTT_SN_MESSAGE_PUBACK_LENGTH)
                MQTT_SN_MESSAGE_PUBACK_LENGTH (pub_topic_id publish) (pub_msg_id publish)
                RETURN_CODE_ACCEPTED)) (\<lambda>g.
     case g of None \<Rightarrow> cl_return MQTT_SN_CLIENT_LOOP_RETURN_ERROR
     | Some (msg_data, gen_rc) \<Rightarrow>
         cl_bind (send_to_gateway_with_retry env loop k (-1) msg_data gen_rc) (\<lambda>rc.
         cl_bind (free_await_fd await_fd) (\<lambda>_.
         if rc = MQTT_SN_CLIENT_RETURN_ERROR then cl_return MQTT_SN_CLIENT_LOOP_RETURN_ERROR
         else
           publish_delivered env publish
             (cl_return (if rc = MQTT_SN_CLIENT_RETURN_TIMEOUT then MQTT_SN_CLIENT_LOOP_RETURN_TIMEOUT
                         else MQTT_SN_CLIENT_LOOP_RETURN_SUCCESS)))))"

text \<open>An awake client does not wait for the PUBREL, and no PUBCOMP follows.\<close>

definition handle_publish_qos2 ::
  "'w client_env \<Rightarrow> 'w client_loop \<Rightarrow> nat \<Rightarrow> MqttSnPublish \<Rightarrow> 'w client_loop" where
  "handle_publish_qos2 env loop k publish =
     cl_bind (cl_call (generate_pubrec (replicate MQTT_SN_MESSAGE_PUBREC_LENGTH 0)
                MQTT_SN_MESSAGE_PUBREC_LENGTH (pub_msg_id publish))) (\<lambda>g.
     case g of None \<Rightarrow> cl_return MQTT_SN_CLIENT_LOOP_RETURN_ERROR
     | Some (msg_data, gen_rc) \<Rightarrow>
         cl_bind (acquire_loop loop k PUBREL (pub_msg_id publish)) (\<lambda>r.
         case r of None \<Rightarrow> cl_return MQTT_SN_CLIENT_LOOP_RETURN_ERROR
         | Some pubrel_await_fd \<Rightarrow>
             cl_bind (send_to_gateway_without_retry msg_data gen_rc) (\<lambda>send_rc.
             if send_failed send_rc gen_rc
             then
               cl_bind (cl_put lose_gateway) (\<lambda>_.
               cl_return MQTT_SN_CLIENT_LOOP_RETURN_ERROR)
             else
               cl_bind (cl_get id) (\<lambda>c.
               if c_status c = MQTT_SN_CLIENT_CONNECTION_STATUS_AWAKE
               then
                 cl_bind (free_await_fd pubrel_await_fd) (\<lambda>_.
                 publish_delivered env publish (cl_return MQTT_SN_CLIENT_LOOP_RETURN_SUCCESS))
               else
                 cl_bind (get_await_status_timeout_ms_easy env loop k pubrel_await_fd
                            (of_int (c_retry_timeout_ms c))) (\<lambda>await_rc.
                 cl_bind (free_await_fd pubrel_await_fd) (\<lambda>_.
                 if await_status_to_client_return_code await_rc \<noteq> MQTT_SN_CLIENT_RETURN_SUCCESS
                 then cl_return MQTT_SN_CLIENT_LOOP_RETURN_QOS2RECEIVETIMOUT
                 else
                   cl_bind (cl_call (generate_pubcomp (replicate MQTT_SN_MESSAGE_PUBCOMP_LENGTH 0)
                              MQTT_SN_MESSAGE_PUBCOMP_LENGTH (pub_msg_id publish))) (\<lambda>g.
                   case g of None \<Rightarrow> cl_return MQTT_SN_CLIENT_LOOP_RETURN_ERROR
                   | Some (msg_data, gen_rc) \<Rightarrow>
                       cl_bind (send_to_gateway_without_retry msg_data gen_rc) (\<lambda>send_rc.
                       if send_failed send_rc gen_rc then cl_return MQTT_SN_CLIENT_LOOP_RETURN_ERROR
                       else publish_delivered env publish
                              (cl_return MQTT_SN_CLIENT_LOOP_RETURN_SUCCESS)))))))))"

text \<open>The payload of the message is a local array that starts as zeros.\<close>

definition parse_and_handle_publish ::
  "'w client_env \<Rightarrow> 'w client_loop \<Rightarrow> nat \<Rightarrow> MqttSnMessageData \<Rightarrow> 'w client_loop" where
  "parse_and_handle_publish env loop k msg =
     cl_parse (parse_publish_byte message_buffer MQTT_SN_MAXIMUM_MESSAGE_DATA_LENGTH (md_data msg)
                 (md_data_length msg)) (\<lambda>(publish, _).
     cl_bind (is_await_msg PUBLISH (pub_msg_id publish)) (\<lambda>await_fd.
     cl_bind (if await_fd \<ge> 0
              then set_await_msg_status await_fd MQTT_SN_CLIENT_AWAIT_MESSAGE_STATUS_SUCCESS
              else cl_return 0) (\<lambda>rc.
     if rc < 0 then cl_return MQTT_SN_CLIENT_LOOP_RETURN_ERROR
     else if pub_qos publish = 0 then handle_publish_qos0 env publish
     else if pub_qos publish = 1 then handle_publish_qos1 env loop k await_fd publish
     else if pub_qos publish = 2 then handle_publish_qos2 env loop k publish
     else cl_return MQTT_SN_CLIENT_LOOP_RETURN_SUCCESS)))"

end
