(* ===== verification/Client_Loop.thy ===== *)
theory Client_Loop
  imports Client_Requests
begin

text \<open>
  One pass of the client, \<open>MqttSnClientLoop\<close> of \<open>src/client/MqttSnClientMethod.c\<close>: the upkeep of the
  connection, the automatic reconnect, the delayed answer to a SEARCHGW, the receive, and the dispatch by
  the state of the client and the type of the message.

  A pass may run further passes: reconnecting, waking up and a PUBLISH of QoS 2 wait for answers. The
  function takes fuel that bounds both the depth of such passes and the number of passes one wait makes;
  without fuel the result is \<open>Out_Of_Fuel\<close>.
\<close>

section \<open>Upkeep\<close>

definition handle_client_asleep_connection ::
  "'w client_env \<Rightarrow> 'w client_loop \<Rightarrow> nat \<Rightarrow> 'w client_loop" where
  "handle_client_asleep_connection env loop k =
     cl_bind (cl_get c_status) (\<lambda>status.
     if status \<noteq> MQTT_SN_CLIENT_CONNECTION_STATUS_ASLEEP
     then cl_return MQTT_SN_CLIENT_LOOP_RETURN_SUCCESS
     else
       cl_bind (cl_time env) (\<lambda>(rc, current_time).
       if rc < 0 then cl_return MQTT_SN_CLIENT_LOOP_RETURN_ERROR
       else
         cl_bind (cl_get id) (\<lambda>c.
         if too_early c (c_sleep_duration c) (current_time - get_last_timeout_reset c)
         then cl_return MQTT_SN_CLIENT_LOOP_RETURN_SUCCESS
         else
           cl_bind (MqttSnClientWakeup env loop k) (\<lambda>rc.
           if rc = MQTT_SN_CLIENT_RETURN_ERROR then cl_return MQTT_SN_CLIENT_LOOP_RETURN_ERROR
           else if rc = MQTT_SN_CLIENT_RETURN_TIMEOUT then cl_return MQTT_SN_CLIENT_LOOP_RETURN_TIMEOUT
           else cl_return MQTT_SN_CLIENT_LOOP_RETURN_SUCCESS))))"

text \<open>A message received while awake counts as the answer to a ping that has not been answered in time.\<close>

definition awake_workaround :: "u64 \<Rightarrow> 'w MqttSnClient \<Rightarrow> 'w MqttSnClient" where
  "awake_workaround current_time c =
     (if current_time - c_ping_req_send_time_s c > of_int (c_retry_timeout_ms c) div 1000
         \<and> c_awake_any_msg_received c
      then c\<lparr>c_last_ping_resp_received_s := c_ping_req_send_time_s c,
             c_ping_req_await_msg :=
               (if am_msg_type (c_ping_req_await_msg c) = PINGRESP
                then (c_ping_req_await_msg c)\<lparr>am_msg_type := ANY_MESSAGE_TYPE\<rparr>
                else c_ping_req_await_msg c)\<rparr>
      else c)"

definition handle_client_awake_connection :: "'w client_env \<Rightarrow> 'w client_loop" where
  "handle_client_awake_connection env =
     cl_bind (cl_get c_status) (\<lambda>status.
     if status \<noteq> MQTT_SN_CLIENT_CONNECTION_STATUS_AWAKE
     then cl_return MQTT_SN_CLIENT_LOOP_RETURN_SUCCESS
     else
       cl_bind (cl_time env) (\<lambda>(rc, current_time).
       if rc < 0 then cl_return MQTT_SN_CLIENT_LOOP_RETURN_ERROR
       else
         cl_bind (cl_get (\<lambda>c. current_time - get_last_timeout_reset c)) (\<lambda>elapsed_time.
         cl_bind (cl_put (awake_workaround current_time)) (\<lambda>_.
         cl_bind (cl_get id) (\<lambda>c.
         if am_msg_type (c_ping_req_await_msg c) = PINGRESP
         then
           if ping_timed_out c (c_sleep_duration c) elapsed_time
           then
             cl_bind (cl_put (\<lambda>c. c\<lparr>c_status := MQTT_SN_CLIENT_CONNECTION_STATUS_GATEWAY_LOST\<rparr>)) (\<lambda>_.
             cl_return MQTT_SN_CLIENT_LOOP_RETURN_SUCCESS)
           else cl_return MQTT_SN_CLIENT_LOOP_RETURN_SUCCESS
         else
           cl_bind (is_await_msg PINGRESP 0) (\<lambda>await_fd.
           if await_fd < 0
           then
             cl_bind (cl_put (\<lambda>c. c\<lparr>c_status := MQTT_SN_CLIENT_CONNECTION_STATUS_ASLEEP\<rparr>)) (\<lambda>_.
             cl_return MQTT_SN_CLIENT_LOOP_RETURN_SUCCESS)
           else cl_return MQTT_SN_CLIENT_LOOP_RETURN_SUCCESS))))))"

text \<open>The parts of a pass before the receive: \<open>None\<close> means that the pass goes on.\<close>

type_synonym 'w loop_part = "('w, MQTT_SN_CLIENT_LOOP_RETURN_CODE option) client_call"

definition disconnected_is_lost :: "('w, unit) client_call" where
  "disconnected_is_lost = cl_put (\<lambda>c.
     if c_status c = MQTT_SN_CLIENT_CONNECTION_STATUS_DISCONNECTED
     then c\<lparr>c_status := MQTT_SN_CLIENT_CONNECTION_STATUS_GATEWAY_LOST\<rparr> else c)"

text \<open>The two ways an attempt ends in a wait because of congestion.\<close>

definition wait_for_congestion :: "'w client_env \<Rightarrow> 'w loop_part" where
  "wait_for_congestion env =
     cl_bind (cl_stamp env (\<lambda>t c. c\<lparr>c_auto_reconnect_congestion_wait_s := t\<rparr>)) (\<lambda>rc.
     cl_return (Some (if rc < 0 then MQTT_SN_CLIENT_LOOP_RETURN_ERROR
                      else MQTT_SN_CLIENT_LOOP_RETURN_SUCCESS)))"

definition congestion_goes_on :: "'w client_env \<Rightarrow> 'w loop_part" where
  "congestion_goes_on env =
     cl_bind (cl_get id) (\<lambda>c.
     if c_auto_reconnect_enabled c \<noteq> 0 \<and> c_auto_reconnect_congestion c \<noteq> 0
     then
       cl_bind (cl_time env) (\<lambda>(rc, current_time_s).
       if rc < 0 then cl_return (Some MQTT_SN_CLIENT_LOOP_RETURN_ERROR)
       else if current_time_s - c_auto_reconnect_congestion_wait_s c < c_congestion_delay_s c
       then cl_return (Some MQTT_SN_CLIENT_LOOP_RETURN_SUCCESS)
       else
         cl_bind (cl_put (\<lambda>c. c\<lparr>c_auto_reconnect_congestion := 0\<rparr>)) (\<lambda>_.
         cl_return None))
     else cl_return None)"

definition try_reconnect :: "'w client_env \<Rightarrow> 'w client_loop \<Rightarrow> nat \<Rightarrow> 'w loop_part" where
  "try_reconnect env loop k =
     cl_bind (cl_get c_auto_reconnect_tried) (\<lambda>tried.
     if tried \<noteq> 0 then cl_return None
     else
       cl_bind (cl_put (\<lambda>c. c\<lparr>c_auto_reconnect_tried := 1\<rparr>)) (\<lambda>_.
       cl_bind (MqttSnClientReconnect env loop k) (\<lambda>rc.
       cl_bind disconnected_is_lost (\<lambda>_.
       if rc = MQTT_SN_CLIENT_RETURN_ERROR then cl_return (Some MQTT_SN_CLIENT_LOOP_RETURN_ERROR)
       else if rc = MQTT_SN_CLIENT_RETURN_CONGESTION then wait_for_congestion env
       else cl_return None))))"

text \<open>The strings of the client's buffer as the arguments of the reconnect.\<close>

definition own_will_topic :: "'w MqttSnClient \<Rightarrow> u8 list option" where
  "own_will_topic c = (if c_will_topic c then Some (cb_will_topic (c_client_buffer c)) else None)"

definition own_will_msg :: "'w MqttSnClient \<Rightarrow> u8 list option" where
  "own_will_msg c = (if c_will_msg c then cb_will_msg (c_client_buffer c) else None)"

definition try_auto_connect :: "'w client_env \<Rightarrow> 'w client_loop \<Rightarrow> nat \<Rightarrow> 'w loop_part" where
  "try_auto_connect env loop k =
     cl_bind (cl_get id) (\<lambda>c.
     if c_auto_reconnect_tried c = 0 then cl_return None
     else
       cl_bind (MqttSnClientAutoConnect env loop k (c_find_gw_pattern c)
                  (c_find_gateway_wait_timeout_ms c) (Some (c_mqtt_sn_gateway_address c))
                  (c_clean_session c) (own_client_id c) (c_connect_duration c) (own_will_topic c)
                  (c_will_qos c) (c_will_retain c) (own_will_msg c) (c_will_msg_len c)) (\<lambda>rc.
       cl_bind disconnected_is_lost (\<lambda>_.
       case rc of
         MQTT_SN_CLIENT_RETURN_SUCCESS \<Rightarrow> cl_return (Some MQTT_SN_CLIENT_LOOP_RETURN_SUCCESS)
       | MQTT_SN_CLIENT_RETURN_ERROR \<Rightarrow> cl_return (Some MQTT_SN_CLIENT_LOOP_RETURN_ERROR)
       | MQTT_SN_CLIENT_RETURN_TIMEOUT \<Rightarrow> cl_return (Some MQTT_SN_CLIENT_LOOP_RETURN_TIMEOUT)
       | MQTT_SN_CLIENT_RETURN_CONGESTION \<Rightarrow> wait_for_congestion env
       | _ \<Rightarrow> cl_return None)))"

definition loop_next :: "'w loop_part \<Rightarrow> 'w loop_part \<Rightarrow> 'w loop_part" where
  "loop_next m next = cl_bind m (\<lambda>r. case r of Some rc \<Rightarrow> cl_return (Some rc) | None \<Rightarrow> next)"

definition auto_reconnect :: "'w client_env \<Rightarrow> 'w client_loop \<Rightarrow> nat \<Rightarrow> 'w loop_part" where
  "auto_reconnect env loop k =
     cl_bind MqttSnClientIsAutoReconnectEnabled (\<lambda>enabled.
     if enabled = 0 then cl_return None
     else loop_next (congestion_goes_on env)
            (loop_next (try_reconnect env loop k) (try_auto_connect env loop k)))"

definition maintain_connection :: "'w client_env \<Rightarrow> 'w client_loop \<Rightarrow> nat \<Rightarrow> 'w loop_part" where
  "maintain_connection env loop k =
     cl_bind (cl_get c_status) (\<lambda>status.
     if status = MQTT_SN_CLIENT_CONNECTION_STATUS_CONNECTED
     then
       cl_bind (handle_client_connection env) (\<lambda>rc.
       cl_return (if rc \<noteq> MQTT_SN_CLIENT_LOOP_RETURN_SUCCESS
                  then Some MQTT_SN_CLIENT_LOOP_RETURN_ERROR else None))
     else if status = MQTT_SN_CLIENT_CONNECTION_STATUS_ASLEEP
     then
       cl_bind (handle_client_asleep_connection env loop k) (\<lambda>rc.
       cl_return (if rc \<noteq> MQTT_SN_CLIENT_LOOP_RETURN_SUCCESS then Some rc else None))
     else if status = MQTT_SN_CLIENT_CONNECTION_STATUS_AWAKE
     then
       cl_bind (handle_client_awake_connection env) (\<lambda>rc.
       cl_return (if rc \<noteq> MQTT_SN_CLIENT_LOOP_RETURN_SUCCESS
                  then Some MQTT_SN_CLIENT_LOOP_RETURN_ERROR else None))
     else if status = MQTT_SN_CLIENT_CONNECTION_STATUS_GATEWAY_LOST
     then auto_reconnect env loop k
     else cl_return None)"

text \<open>The answer to a SEARCHGW of another client, with the first gateway of the list.\<close>

definition reply_searchgw :: "'w client_env \<Rightarrow> 'w loop_part" where
  "reply_searchgw env =
     cl_bind MqttSnClientIsSearchGwReplyEnabled (\<lambda>enabled.
     cl_bind (cl_get id) (\<lambda>c.
     if enabled = 0 \<or> am_msg_type (c_searchgw_reply_await_msg c) \<noteq> GWINFO then cl_return None
     else
       cl_bind (cl_time env) (\<lambda>(rc, current_time_s).
       if rc < 0 then cl_return (Some MQTT_SN_CLIENT_LOOP_RETURN_ERROR)
       else if current_time_s - c_searchgw_reply_await_last_s c
               > ucast (c_gwinfo_delay_ms c) div 1000
       then
         cl_bind (update_gateways None 0 None None current_time_s) (\<lambda>_.
         cl_bind (cl_get c_discovered_gw_list) (\<lambda>l.
         if dl_current_len l > 0
         then
           cl_bind (cl_mem (rd_arr (dl_gateways l) 0)) (\<lambda>g.
           cl_bind (cl_call (generate_gwinfo_message
                      (replicate MQTT_SN_MESSAGE_GWINFO_W_GWADD_MAX_LENGTH 0)
                      MQTT_SN_MESSAGE_GWINFO_W_GWADD_MAX_LENGTH (dg_gw_id g)
                      (Some (dg_network_address g)) device_address_size)) (\<lambda>r.
           case r of None \<Rightarrow> cl_return (Some MQTT_SN_CLIENT_LOOP_RETURN_ERROR)
           | Some (msg_data, gen_rc) \<Rightarrow>
               cl_bind (send_to_broadcast msg_data gen_rc) (\<lambda>send_rc.
               cl_return (if send_failed send_rc gen_rc then Some MQTT_SN_CLIENT_LOOP_RETURN_ERROR
                          else None))))
         else cl_return None))
       else cl_return None)))"

section \<open>The receive\<close>

definition receive_message :: "('w, int \<times> MqttSnMessageData) client_call" where
  "receive_message s =
     (let c = fst s;
          (rc, n, (from, to, data, signal_strength), w) =
            GatewayNetworkReceiveFom (c_gatewayNetwork c) empty_rx MQTT_SN_MAXIMUM_MESSAGE_DATA_LENGTH
              (c_gatewayNetworkReceiveTimeout c) (snd s)
      in Inr ((rc, zero_message\<lparr>md_from := from, md_to := to, md_data := data,
                     md_signal_strength := signal_strength, md_data_length := nat (rc mod 65536)\<rparr>),
              c\<lparr>c_gatewayNetwork := n\<rparr>, w))"

definition sender_dropped :: "u8 list \<Rightarrow> ('w, bool) client_call" where
  "sender_dropped from =
     cl_bind (cl_get id) (\<lambda>c.
     cl_bind (if al_len (c_gw_addr_whitelist c) \<noteq> 0
              then cl_bind (MqttSnClientWhitelistContainsNetworkAddress from) (\<lambda>b. cl_return (\<not> b))
              else cl_return False) (\<lambda>dropped.
     if dropped then cl_return True
     else if al_len (c_gw_addr_blacklist c) \<noteq> 0 then MqttSnClientBlacklistContainsNetworkAddress from
     else cl_return False))"

section \<open>The dispatch\<close>

definition dispatch_disconnected ::
  "'w client_env \<Rightarrow> MQTT_SN_MESSAGE_TYPE \<Rightarrow> MqttSnMessageData \<Rightarrow> 'w client_loop" where
  "dispatch_disconnected env msg_type msg =
     (if msg_type = ADVERTISE then parse_and_handle_advertise env msg
      else if msg_type = GWINFO then parse_and_handle_gwinfo env msg
      else if msg_type = WILLTOPICREQ then parse_and_handle_will_topic_request msg
      else if msg_type = WILLMSGREQ then parse_and_handle_will_message_request msg
      else if msg_type = CONNACK then parse_and_handle_connack env msg
      else cl_return MQTT_SN_CLIENT_LOOP_RETURN_UNHANDLEDMSG)"

text \<open>The messages a connected, a sleeping and an awake client handle alike.\<close>

definition dispatch_session ::
  "'w client_env \<Rightarrow> 'w client_loop \<Rightarrow> nat \<Rightarrow> MQTT_SN_MESSAGE_TYPE \<Rightarrow> MqttSnMessageData
   \<Rightarrow> 'w client_loop" where
  "dispatch_session env loop k msg_type msg =
     (if msg_type = ADVERTISE then parse_and_handle_advertise env msg
      else if msg_type = GWINFO then parse_and_handle_gwinfo env msg
      else if msg_type = PINGRESP then client_parse_and_handle_ping_resp env msg
      else if msg_type = PINGREQ then client_parse_and_handle_ping_req env msg
      else if msg_type = DISCONNECT then parse_and_handle_disconnect msg
      else if msg_type = REGACK then parse_and_handle_regack msg
      else if msg_type = PUBACK then parse_and_handle_puback msg
      else if msg_type = PUBREC then parse_and_handle_pubrec msg
      else if msg_type = PUBCOMP then parse_and_handle_pubcomp msg
      else if msg_type = PUBREL then parse_and_handle_pubrel msg
      else if msg_type = SUBACK then parse_and_handle_suback msg
      else if msg_type = UNSUBACK then parse_and_handle_unsuback msg
      else if msg_type = PUBLISH then parse_and_handle_publish env loop k msg
      else cl_return MQTT_SN_CLIENT_LOOP_RETURN_UNHANDLEDMSG)"

definition dispatch_connected ::
  "'w client_env \<Rightarrow> 'w client_loop \<Rightarrow> nat \<Rightarrow> MQTT_SN_MESSAGE_TYPE \<Rightarrow> MqttSnMessageData
   \<Rightarrow> 'w client_loop" where
  "dispatch_connected env loop k msg_type msg =
     (if msg_type = CONNACK then parse_and_handle_connack env msg
      else if msg_type = REGISTER then parse_and_handle_register msg
      else dispatch_session env loop k msg_type msg)"

definition dispatch_asleep ::
  "'w client_env \<Rightarrow> 'w client_loop \<Rightarrow> nat \<Rightarrow> MQTT_SN_MESSAGE_TYPE \<Rightarrow> MqttSnMessageData
   \<Rightarrow> 'w client_loop" where
  "dispatch_asleep env loop k msg_type msg =
     cl_bind (dispatch_session env loop k msg_type msg) (\<lambda>handle_rc.
     if handle_rc = MQTT_SN_CLIENT_LOOP_RETURN_SUCCESS
     then
       cl_bind (cl_put (\<lambda>c. c\<lparr>c_awake_any_msg_received := True\<rparr>)) (\<lambda>_.
       cl_check (cl_stamp env (\<lambda>t c. c\<lparr>c_awake_ping_request_send_time_s := t\<rparr>))
       (cl_return handle_rc))
     else cl_return handle_rc)"

definition dispatch_broadcast ::
  "'w client_env \<Rightarrow> MQTT_SN_MESSAGE_TYPE \<Rightarrow> MqttSnMessageData \<Rightarrow> 'w client_loop" where
  "dispatch_broadcast env msg_type msg =
     (if msg_type = ADVERTISE then parse_and_handle_advertise env msg
      else if msg_type = SEARCHGW then parse_and_handle_searchgw env msg
      else if msg_type = GWINFO then parse_and_handle_gwinfo env msg
      else cl_return MQTT_SN_CLIENT_LOOP_RETURN_UNHANDLEDMSG)"

definition dispatch_message ::
  "'w client_env \<Rightarrow> 'w client_loop \<Rightarrow> nat \<Rightarrow> MQTT_SN_MESSAGE_TYPE \<Rightarrow> MqttSnMessageData
   \<Rightarrow> 'w client_loop" where
  "dispatch_message env loop k msg_type msg =
     cl_bind (cl_get id) (\<lambda>c.
     let from_gateway = (md_from msg = c_mqtt_sn_gateway_address c) in
     if c_status c = MQTT_SN_CLIENT_CONNECTION_STATUS_DISCONNECTED \<and> from_gateway
     then dispatch_disconnected env msg_type msg
     else if c_status c = MQTT_SN_CLIENT_CONNECTION_STATUS_CONNECTED \<and> from_gateway
     then dispatch_connected env loop k msg_type msg
     else if (c_status c = MQTT_SN_CLIENT_CONNECTION_STATUS_ASLEEP
              \<or> c_status c = MQTT_SN_CLIENT_CONNECTION_STATUS_AWAKE) \<and> from_gateway
     then dispatch_asleep env loop k msg_type msg
     else if client_status_code (c_status c)
               \<ge> client_status_code MQTT_SN_CLIENT_CONNECTION_STATUS_INITALIZED
             \<and> md_to msg = c_mqtt_sn_broadcast_address c
     then dispatch_broadcast env msg_type msg
     else cl_return MQTT_SN_CLIENT_LOOP_RETURN_UNHANDLEDMSG)"

definition receive_and_dispatch :: "'w client_env \<Rightarrow> 'w client_loop \<Rightarrow> nat \<Rightarrow> 'w client_loop" where
  "receive_and_dispatch env loop k =
     cl_bind receive_message (\<lambda>(msg_len, msg).
     if msg_len < 0 then cl_return MQTT_SN_CLIENT_LOOP_RETURN_ERROR
     else if msg_len = 0 then cl_return MQTT_SN_CLIENT_LOOP_RETURN_SUCCESS
     else
       cl_bind (sender_dropped (md_from msg)) (\<lambda>dropped.
       if dropped then cl_return MQTT_SN_CLIENT_LOOP_RETURN_SUCCESS
       else
         cl_bind (cl_mem (parse_header empty_header ANY_MESSAGE_TYPE (md_data msg) (md_data_length msg) 0))
           (\<lambda>(rc, header, _).
         if rc < 0 then cl_return MQTT_SN_CLIENT_LOOP_RETURN_PARSEERROR
         else dispatch_message env loop k (h_msg_type header) msg)))"

section \<open>The pass\<close>

definition client_pass :: "'w client_env \<Rightarrow> 'w client_loop \<Rightarrow> nat \<Rightarrow> 'w client_loop" where
  "client_pass env loop k =
     cl_bind (loop_next (maintain_connection env loop k) (reply_searchgw env)) (\<lambda>r.
     case r of Some rc \<Rightarrow> cl_return rc | None \<Rightarrow> receive_and_dispatch env loop k)"

primrec MqttSnClientLoop :: "'w client_env \<Rightarrow> nat \<Rightarrow> 'w client_loop" where
  "MqttSnClientLoop env 0 = cl_stop Out_Of_Fuel"
| "MqttSnClientLoop env (Suc n) = client_pass env (MqttSnClientLoop env n) n"

end
