(* ===== verification/Forwarder.thy ===== *)
theory Forwarder
  imports Forwarder_State
begin

text \<open>
  The operations of the forwarder, \<open>src/forwarder/MqttSnForwarder.c\<close>: connecting and disconnecting,
  adding and removing the encapsulation, following the discovered gateways, and the loop. The two
  loops that flush the buffers may run forever, so they are partial functions: \<open>None\<close> is a loop that
  does not end. Logging calls whose result the source ignores are left out.
\<close>

section \<open>Connections\<close>

definition disconnect_client :: "'w MqttSnForwarder \<Rightarrow> 'w \<Rightarrow> 'w MqttSnForwarder \<times> 'w" where
  "disconnect_client f w =
     (let (_, n, w) = ClientNetworkDisconnect (f_clientNetwork f) w in (f\<lparr>f_clientNetwork := n\<rparr>, w))"

definition disconnect_gateway :: "'w MqttSnForwarder \<Rightarrow> 'w \<Rightarrow> 'w MqttSnForwarder \<times> 'w" where
  "disconnect_gateway f w =
     (let (_, n, w) = GatewayNetworkDisconnect (f_gatewayNetwork f) w in (f\<lparr>f_gatewayNetwork := n\<rparr>, w))"

definition MqttSnForwarderDeinit :: "'w MqttSnForwarder \<Rightarrow> 'w \<Rightarrow> 'w MqttSnForwarder \<times> 'w" where
  "MqttSnForwarderDeinit f w = (let (f, w) = disconnect_gateway f w in disconnect_client f w)"

definition MqttSnForwarderSetPinConnection :: "'w MqttSnForwarder \<Rightarrow> bool \<Rightarrow> 'w MqttSnForwarder" where
  "MqttSnForwarderSetPinConnection f pin_connection = f\<lparr>f_pin_connection := pin_connection\<rparr>"

definition MqttSnForwarderSetConnected :: "'w MqttSnForwarder \<Rightarrow> u8 list \<Rightarrow> 'w MqttSnForwarder" where
  "MqttSnForwarderSetConnected f mqtt_sn_gateway_address =
     f\<lparr>f_mqtt_sn_gateway_address := mqtt_sn_gateway_address, f_disconnected := False\<rparr>"

definition MqttSnForwarderSetDisconnected :: "'w MqttSnForwarder \<Rightarrow> 'w MqttSnForwarder" where
  "MqttSnForwarderSetDisconnected f =
     (if \<not> f_pin_connection f then f\<lparr>f_disconnected := True\<rparr> else f)"

definition MqttSnForwarderInit ::
  "'w platform \<Rightarrow> 'w MqttSnForwarder \<Rightarrow> u8 list option \<Rightarrow> 'w \<Rightarrow> int \<times> 'w MqttSnForwarder \<times> 'w" where
  "MqttSnForwarderInit pf f mqtt_sn_gateway_address w =
     (let f = f\<lparr>f_discovered_gw_list := MqttSnDiscoveredGatewayListInit,
                f_clientNetworkReceiveBuffer := MqttSnFixedSizeRingBufferInit,
                f_clientNetworkSendBuffer := MqttSnFixedSizeRingBufferInit,
                f_gatewayNetworkReceiveBuffer := MqttSnFixedSizeRingBufferInit,
                f_gatewayNetworkSendBuffer := MqttSnFixedSizeRingBufferInit\<rparr>;
          (rc, n, w) = ClientNetworkConnect (f_clientNetwork f) w;
          f = f\<lparr>f_clientNetwork := n\<rparr>
      in if rc \<noteq> 0 then let (f, w) = MqttSnForwarderDeinit f w in (-1, f, w)
         else
           let (rc, n, w) = GatewayNetworkConnect (f_gatewayNetwork f) w;
               f = f\<lparr>f_gatewayNetwork := n\<rparr>
           in if rc \<noteq> 0 then let (f, w) = MqttSnForwarderDeinit f w in (-1, f, w)
              else
                let (rc, w) = pf_log_status pf w
                in if rc \<noteq> 0 then let (f, w) = MqttSnForwarderDeinit f w in (-1, f, w)
                   else
                     (0, case mqtt_sn_gateway_address of
                           Some address \<Rightarrow> MqttSnForwarderSetConnected f address
                         | None \<Rightarrow> MqttSnForwarderSetDisconnected f, w))"

section \<open>Discovered gateways\<close>

text \<open>A call whose failure (-1) the caller handles.\<close>

definition attempt :: "'a cres \<Rightarrow> 'a option cres" where
  "attempt r = (case r of Inr x \<Rightarrow> Inr (Some x) | Inl Fail \<Rightarrow> Inr None | Inl e \<Rightarrow> Inl e)"

text \<open>
  The checks of a gateway id and the update of the list. An id on the white list is skipped.
\<close>

definition gw_id_refused :: "'w MqttSnForwarder \<Rightarrow> u8 \<Rightarrow> bool cres" where
  "gw_id_refused f gw_id =
     cbind (if f_gn_gw_id_whitelist_len f \<noteq> 0
            then cbind (MqttSnForwarderContainsGatewayNetworkWhitelistGwId f gw_id) (\<lambda>c. Inr (c \<noteq> 0))
            else Inr False) (\<lambda>refused.
     if refused then Inr True
     else cbind (MqttSnForwarderContainsGatewayNetworkBlacklistGwId f gw_id) (\<lambda>c. Inr (c \<noteq> 0)))"

definition update_gateway ::
  "'w platform \<Rightarrow> 'w MqttSnForwarder \<Rightarrow> MqttSnMessageData \<Rightarrow> u8 \<Rightarrow> MqttSnAdvertise option
   \<Rightarrow> MqttSnGwInfo option \<Rightarrow> 'w \<Rightarrow> (int \<times> 'w MqttSnForwarder \<times> 'w) cres" where
  "update_gateway pf f msg gw_id advertise gw_info w =
     cbind (gw_id_refused f gw_id) (\<lambda>refused.
     if refused then Inr (0, f, w)
     else
       let ((rc, current_time_s), w) = get_timestamp_s pf w
       in if rc < 0 then Inr (-1, f, w)
          else
            cbind (MqttSnDiscoveredGatewayListUpdate (f_discovered_gw_list f) (Some (md_from msg))
                     (md_signal_strength msg) advertise gw_info current_time_s) (\<lambda>l.
            Inr (0, f\<lparr>f_discovered_gw_list := l\<rparr>, w)))"

text \<open>
  The message type the source looks at is the one \<open>parse_header\<close> has left in the zeroed header, also
  when the tolerant reader fails; what the reader does further inside the message leaves it alone.
\<close>

definition MqttSnForwardingUpdateDiscoveredGw ::
  "'w platform \<Rightarrow> 'w MqttSnForwarder \<Rightarrow> MqttSnMessageData \<Rightarrow> 'w \<Rightarrow> (int \<times> 'w MqttSnForwarder \<times> 'w) cres"
  where
  "MqttSnForwardingUpdateDiscoveredGw pf f msg w =
     cbind (attempt (parse_message_tolerant empty_header ANY_MESSAGE_TYPE (md_data msg) (md_data_length msg)))
       (\<lambda>_.
     cbind (parse_header empty_header ANY_MESSAGE_TYPE (md_data msg) (md_data_length msg) 0)
       (\<lambda>(_, header, _).
     if h_msg_type header = ADVERTISE
     then
       cbind (attempt (parse_advertise (md_data msg) (md_data_length msg))) (\<lambda>r.
       case r of
         None \<Rightarrow> Inr (0, f, w)
       | Some (a, rc) \<Rightarrow>
           if rc > 0 then update_gateway pf f msg (adv_gwId a) (Some a) None w else Inr (0, f, w))
     else if h_msg_type header = GWINFO
     then
       cbind (attempt (parse_gwinfo \<lparr>gwi_gwId = 0, gwi_gwAdd = zero_address, gwi_gwAddLen = 0\<rparr>
                         (md_data msg) (md_data_length msg))) (\<lambda>r.
       case r of
         None \<Rightarrow> Inr (0, f, w)
       | Some (g, rc) \<Rightarrow>
           if rc > 0 then update_gateway pf f msg (gwi_gwId g) None (Some g) w else Inr (0, f, w))
     else Inr (0, f, w)))"

text \<open>The choice of a gateway: the index of the best one so far, over the list.\<close>

function best_gateway_loop ::
  "MqttSnDiscoveredGateway list \<Rightarrow> nat \<Rightarrow> nat \<Rightarrow> nat \<Rightarrow> nat cres" where
  "best_gateway_loop gateways current_len i best =
     (if i < current_len
      then
        cbind (rd_arr gateways i) (\<lambda>g.
        cbind (rd_arr gateways best) (\<lambda>b.
        best_gateway_loop gateways current_len (i + 1)
          (if dg_signal_strength g = dg_signal_strength b \<and> dg_last_message_s g > dg_last_message_s b
           then i
           else if dg_signal_strength g < dg_signal_strength b then i
           else best)))
      else Inr best)"
  by pat_completeness auto
termination
  by (relation "measure (\<lambda>(_, n, i, _). n - i)") auto

declare best_gateway_loop.simps [simp del]

text \<open>The white and black lists of gateway addresses.\<close>

definition gateway_addr_refused :: "'w MqttSnForwarder \<Rightarrow> u8 list \<Rightarrow> bool cres" where
  "gateway_addr_refused f addr =
     cbind (if f_gn_addr_whitelist_len f \<noteq> 0
            then cbind (MqttSnForwarderContainsGatewayNetworkWhitelistAddr f addr) (\<lambda>c. Inr (c = 0))
            else Inr False) (\<lambda>refused.
     if refused then Inr True
     else cbind (MqttSnForwarderContainsGatewayNetworkBlacklistAddr f addr) (\<lambda>c. Inr (c \<noteq> 0)))"

definition client_addr_refused :: "'w MqttSnForwarder \<Rightarrow> u8 list \<Rightarrow> bool cres" where
  "client_addr_refused f addr =
     cbind (if f_cn_addr_whitelist_len f \<noteq> 0
            then cbind (MqttSnForwarderContainsClientNetworkWhitelistAddr f addr) (\<lambda>c. Inr (c = 0))
            else Inr False) (\<lambda>refused.
     if refused then Inr True
     else cbind (MqttSnForwarderContainsClientNetworkBlacklistAddr f addr) (\<lambda>c. Inr (c \<noteq> 0)))"

text \<open>A call of \<open>GatewayNetworkReceive\<close> on the fields of the forwarder, and what follows a failure.\<close>

definition gateway_receive ::
  "'w platform \<Rightarrow> 'w MqttSnForwarder \<Rightarrow> 'w \<Rightarrow> ('w MqttSnForwarder \<times> 'w) cres" where
  "gateway_receive pf f w =
     cbind (GatewayNetworkReceive (get_timestamp_ms pf) (f_gatewayNetwork f)
              (f_gatewayNetworkReceiveBuffer f) (f_gatewayNetworkReceiveTimeout f) w) (\<lambda>(rc, n, q, w).
     let f = f\<lparr>f_gatewayNetwork := n, f_gatewayNetworkReceiveBuffer := q\<rparr>
     in Inr (if rc < 0 then disconnect_gateway f w else (f, w)))"

text \<open>
  A disconnected forwarder that knows no gateway: what it does with the message at the front of the
  queue of client messages.
\<close>

definition await_gateway ::
  "'w platform \<Rightarrow> 'w MqttSnForwarder \<Rightarrow> 'w \<Rightarrow> (int \<times> 'w MqttSnForwarder \<times> 'w) cres" where
  "await_gateway pf f w =
     cbind (pop (f_clientNetworkReceiveBuffer f) zero_message) (\<lambda>(rc, q, gatewayMessageData).
     let f = f\<lparr>f_clientNetworkReceiveBuffer := q\<rparr> in
     if rc \<noteq> 0 then Inr (0, f, w)
     else
       cbind (gateway_addr_refused f (md_from gatewayMessageData)) (\<lambda>refused.
       if refused then Inr (0, f, w)
       else
         cbind (MqttSnForwardingUpdateDiscoveredGw pf f gatewayMessageData w) (\<lambda>(rc, f, w).
         if rc < 0 then Inr (-1, f, w)
         else if dl_current_len (f_discovered_gw_list f) > 0
         then
           cbind (rd_arr (dl_gateways (f_discovered_gw_list f)) 0) (\<lambda>g.
           Inr (0, MqttSnForwarderSetConnected f (dg_network_address g), w))
         else Inr (0, f, w))))"

definition MqttSnForwarderHandleGatewayPseudoConnect ::
  "'w platform \<Rightarrow> 'w MqttSnForwarder \<Rightarrow> 'w \<Rightarrow> (int \<times> 'w MqttSnForwarder \<times> 'w) cres" where
  "MqttSnForwarderHandleGatewayPseudoConnect pf f w =
     (if \<not> f_disconnected f then Inr (0, f, w)
      else if dl_current_len (f_discovered_gw_list f) > 0
      then
        cbind (best_gateway_loop (dl_gateways (f_discovered_gw_list f))
                 (dl_current_len (f_discovered_gw_list f)) 0 0) (\<lambda>best.
        cbind (rd_arr (dl_gateways (f_discovered_gw_list f)) best) (\<lambda>g.
        Inr (0, MqttSnForwarderSetConnected f (dg_network_address g), w)))
      else cbind (gateway_receive pf f w) (\<lambda>(f, w). await_gateway pf f w))"

section \<open>Adding and removing the encapsulation\<close>

definition add_mqtt_sn_forwarder_encapsulation_frame ::
  "MqttSnMessageData \<Rightarrow> MqttSnMessageData \<Rightarrow> u8 list \<Rightarrow> u8 list option \<Rightarrow> (int \<times> MqttSnMessageData) cres"
  where
  "add_mqtt_sn_forwarder_encapsulation_frame clientMessageData gatewayMessageData
       mqtt_sn_gateway_network_address client_network_broadcast_address =
     (let broadcast = (if client_network_broadcast_address = Some (md_to gatewayMessageData) then 1 else 0)
      in cbind (attempt (generate_forwarder_encapsulation_byte (md_data gatewayMessageData)
                  MQTT_SN_MAXIMUM_MESSAGE_DATA_LENGTH broadcast (md_from clientMessageData)
                  (md_data clientMessageData) (md_data_length clientMessageData))) (\<lambda>r.
         case r of
           None \<Rightarrow> Inr (-1, gatewayMessageData)
         | Some (data, rc) \<Rightarrow>
             Inr (0, gatewayMessageData\<lparr>md_data := data, md_data_length := rc mod 65536,
                       md_to := mqtt_sn_gateway_network_address,
                       md_from := md_from clientMessageData\<rparr>)))"

definition remove_mqtt_sn_forwarder_encapsulation_frame ::
  "MqttSnMessageData \<Rightarrow> MqttSnMessageData \<Rightarrow> u8 list option \<Rightarrow> (int \<times> MqttSnMessageData) cres" where
  "remove_mqtt_sn_forwarder_encapsulation_frame gatewayMessageData clientMessageData
       client_network_broadcast_address =
     cbind (attempt (parse_forwarder_encapsulation_byte (md_to clientMessageData)
              (md_data clientMessageData) MQTT_SN_MAXIMUM_MESSAGE_DATA_LENGTH
              (md_data gatewayMessageData) (md_data_length gatewayMessageData))) (\<lambda>r.
     case r of
       None \<Rightarrow> Inr (-1, clientMessageData)
     | Some (radius, to, data, data_length, _) \<Rightarrow>
         let m = clientMessageData\<lparr>md_to := to, md_data := data, md_data_length := data_length,
                   md_from := md_from gatewayMessageData\<rparr>
         in Inr (0, case client_network_broadcast_address of
                      Some broadcast \<Rightarrow> if radius = 1 then m\<lparr>md_to := broadcast\<rparr> else m
                    | None \<Rightarrow> m))"

definition AddForwardingHeaderToClientMessages ::
  "'w MqttSnForwarder \<Rightarrow> (int \<times> 'w MqttSnForwarder) cres" where
  "AddForwardingHeaderToClientMessages f =
     (if isFull (f_gatewayNetworkSendBuffer f) then Inr (0, f)
      else
        cbind (pop (f_clientNetworkReceiveBuffer f) zero_message) (\<lambda>(rc, q, clientMessageData).
        let f = f\<lparr>f_clientNetworkReceiveBuffer := q\<rparr> in
        if rc \<noteq> 0 then Inr (0, f)
        else
          cbind (client_addr_refused f (md_from clientMessageData)) (\<lambda>refused.
          if refused then Inr (0, f)
          else
            cbind (add_mqtt_sn_forwarder_encapsulation_frame clientMessageData zero_message
                     (f_mqtt_sn_gateway_address f) (cn_broadcast_address (f_clientNetwork f)))
              (\<lambda>(rc, gatewayMessageData).
            if rc \<noteq> 0 then Inr (0, f)
            else
              cbind (put (f_gatewayNetworkSendBuffer f) gatewayMessageData) (\<lambda>(rc, q).
              let f = f\<lparr>f_gatewayNetworkSendBuffer := q\<rparr> in
              if rc \<noteq> 0
              then
                cbind (put (f_clientNetworkReceiveBuffer f) clientMessageData) (\<lambda>(_, q).
                Inr (0, f\<lparr>f_clientNetworkReceiveBuffer := q\<rparr>))
              else Inr (0, f))))))"

definition RemoveForwardingHeaderFromGatewayMessages ::
  "'w platform \<Rightarrow> 'w MqttSnForwarder \<Rightarrow> 'w \<Rightarrow> (int \<times> 'w MqttSnForwarder \<times> 'w) cres" where
  "RemoveForwardingHeaderFromGatewayMessages pf f w =
     (if isFull (f_clientNetworkSendBuffer f) then Inr (0, f, w)
      else
        cbind (pop (f_gatewayNetworkReceiveBuffer f) zero_message) (\<lambda>(rc, q, gatewayMessageData).
        let f = f\<lparr>f_gatewayNetworkReceiveBuffer := q\<rparr> in
        if rc \<noteq> 0 then Inr (0, f, w)
        else
          cbind (gateway_addr_refused f (md_from gatewayMessageData)) (\<lambda>refused.
          if refused then Inr (0, f, w)
          else
            cbind (MqttSnForwardingUpdateDiscoveredGw pf f gatewayMessageData w) (\<lambda>(rc, f, w).
            if rc < 0 then Inr (-1, f, w)
            else
              cbind (remove_mqtt_sn_forwarder_encapsulation_frame gatewayMessageData zero_message
                       (cn_broadcast_address (f_clientNetwork f))) (\<lambda>(rc, clientMessageData).
              if rc \<noteq> 0 then Inr (0, f, w)
              else
                let (rc, w) = pf_log_gateway_message pf clientMessageData w in
                if rc \<noteq> 0 then Inr (-1, f, w)
                else
                  cbind (put (f_clientNetworkSendBuffer f) clientMessageData) (\<lambda>(rc, q).
                  let f = f\<lparr>f_clientNetworkSendBuffer := q\<rparr> in
                  if rc \<noteq> 0
                  then
                    cbind (put (f_gatewayNetworkReceiveBuffer f) gatewayMessageData) (\<lambda>(_, q).
                    Inr (0, f\<lparr>f_gatewayNetworkReceiveBuffer := q\<rparr>, w))
                  else Inr (0, f, w)))))))"

section \<open>The steps of a round\<close>

definition client_receive ::
  "'w platform \<Rightarrow> 'w MqttSnForwarder \<Rightarrow> 'w \<Rightarrow> ('w MqttSnForwarder \<times> 'w) cres" where
  "client_receive pf f w =
     cbind (ClientNetworkReceive (get_timestamp_ms pf) (f_clientNetwork f)
              (f_clientNetworkReceiveBuffer f) (f_clientNetworkReceiveTimeout f) w) (\<lambda>(rc, n, q, w).
     let f = f\<lparr>f_clientNetwork := n, f_clientNetworkReceiveBuffer := q\<rparr>
     in Inr (if rc < 0 then disconnect_client f w else (f, w)))"

definition add_headers :: "'w MqttSnForwarder \<Rightarrow> 'w \<Rightarrow> ('w MqttSnForwarder \<times> 'w) cres" where
  "add_headers f w =
     cbind (AddForwardingHeaderToClientMessages f) (\<lambda>(rc, f).
     Inr (if rc \<noteq> 0 then let (f, w) = disconnect_client f w in disconnect_gateway f w else (f, w)))"

definition send_to_gateway ::
  "'w MqttSnForwarder \<Rightarrow> 'w \<Rightarrow> (int \<times> 'w MqttSnForwarder \<times> 'w) cres" where
  "send_to_gateway f w =
     cbind (GatewayNetworkSend (f_gatewayNetwork f) (f_gatewayNetworkSendBuffer f)
              (f_gatewayNetworkSendTimeout f) w) (\<lambda>(rc, n, q, w).
     Inr (rc, f\<lparr>f_gatewayNetwork := n, f_gatewayNetworkSendBuffer := q\<rparr>, w))"

definition gateway_send :: "'w MqttSnForwarder \<Rightarrow> 'w \<Rightarrow> ('w MqttSnForwarder \<times> 'w) cres" where
  "gateway_send f w =
     cbind (send_to_gateway f w) (\<lambda>(rc, f, w). Inr (if rc < 0 then disconnect_gateway f w else (f, w)))"

definition remove_headers ::
  "'w platform \<Rightarrow> 'w MqttSnForwarder \<Rightarrow> 'w \<Rightarrow> ('w MqttSnForwarder \<times> 'w) cres" where
  "remove_headers pf f w =
     cbind (RemoveForwardingHeaderFromGatewayMessages pf f w) (\<lambda>(rc, f, w).
     Inr (if rc \<noteq> 0 then let (f, w) = disconnect_client f w in disconnect_gateway f w else (f, w)))"

definition send_to_clients ::
  "'w MqttSnForwarder \<Rightarrow> 'w \<Rightarrow> (int \<times> 'w MqttSnForwarder \<times> 'w) cres" where
  "send_to_clients f w =
     cbind (ClientNetworkSend (f_clientNetwork f) (f_clientNetworkSendBuffer f)
              (f_clientNetworkSendTimeout f) w) (\<lambda>(rc, n, q, w).
     Inr (rc, f\<lparr>f_clientNetwork := n, f_clientNetworkSendBuffer := q\<rparr>, w))"

definition client_send :: "'w MqttSnForwarder \<Rightarrow> 'w \<Rightarrow> ('w MqttSnForwarder \<times> 'w) cres" where
  "client_send f w =
     cbind (send_to_clients f w) (\<lambda>(rc, f, w). Inr (if rc < 0 then disconnect_client f w else (f, w)))"

text \<open>The six steps of the loop, in the order of the source: three in either direction.\<close>

definition clients_to_gateway ::
  "'w platform \<Rightarrow> 'w MqttSnForwarder \<Rightarrow> 'w \<Rightarrow> ('w MqttSnForwarder \<times> 'w) cres" where
  "clients_to_gateway pf f w =
     cbind (client_receive pf f w) (\<lambda>(f, w).
     cbind (add_headers f w) (\<lambda>(f, w).
     gateway_send f w))"

definition gateway_to_clients ::
  "'w platform \<Rightarrow> 'w MqttSnForwarder \<Rightarrow> 'w \<Rightarrow> ('w MqttSnForwarder \<times> 'w) cres" where
  "gateway_to_clients pf f w =
     cbind (gateway_receive pf f w) (\<lambda>(f, w).
     cbind (remove_headers pf f w) (\<lambda>(f, w).
     client_send f w))"

definition forward_round ::
  "'w platform \<Rightarrow> 'w MqttSnForwarder \<Rightarrow> 'w \<Rightarrow> ('w MqttSnForwarder \<times> 'w) cres" where
  "forward_round pf f w = cbind (clients_to_gateway pf f w) (\<lambda>(f, w). gateway_to_clients pf f w)"

section \<open>Flushing the buffers\<close>

text \<open>One pass through the body of a flushing loop; the flag is set where the source breaks.\<close>

definition flush_clients_body ::
  "'w platform \<Rightarrow> 'w MqttSnForwarder \<Rightarrow> 'w \<Rightarrow> (bool \<times> 'w MqttSnForwarder \<times> 'w) cres" where
  "flush_clients_body pf f w =
     cbind (RemoveForwardingHeaderFromGatewayMessages pf f w) (\<lambda>(rc, f, w).
     if rc < 0 then Inr (True, f, w)
     else cbind (send_to_clients f w) (\<lambda>(rc, f, w). Inr (rc < 0, f, w)))"

definition flush_gateway_body ::
  "'w MqttSnForwarder \<Rightarrow> 'w \<Rightarrow> (bool \<times> 'w MqttSnForwarder \<times> 'w) cres" where
  "flush_gateway_body f w =
     cbind (AddForwardingHeaderToClientMessages f) (\<lambda>(rc, f).
     if rc \<noteq> 0 then Inr (True, f, w)
     else cbind (send_to_gateway f w) (\<lambda>(rc, f, w). Inr (rc < 0, f, w)))"

partial_function (option) sendBufferedMessagesToClients ::
  "'w platform \<Rightarrow> 'w MqttSnForwarder \<Rightarrow> 'w \<Rightarrow> ('w MqttSnForwarder \<times> 'w) cres option" where
  "sendBufferedMessagesToClients pf f w =
     (if isEmpty (f_gatewayNetworkReceiveBuffer f) \<and> isEmpty (f_clientNetworkSendBuffer f)
      then Some (Inr (f, w))
      else
        case flush_clients_body pf f w of
          Inl e \<Rightarrow> Some (Inl e)
        | Inr (brk, f', w') \<Rightarrow>
            if brk then Some (Inr (f', w')) else sendBufferedMessagesToClients pf f' w')"

partial_function (option) sendBufferedMessagesToGateway ::
  "'w MqttSnForwarder \<Rightarrow> 'w \<Rightarrow> ('w MqttSnForwarder \<times> 'w) cres option" where
  "sendBufferedMessagesToGateway f w =
     (if isEmpty (f_clientNetworkReceiveBuffer f) \<and> isEmpty (f_gatewayNetworkSendBuffer f)
      then Some (Inr (f, w))
      else
        case flush_gateway_body f w of
          Inl e \<Rightarrow> Some (Inl e)
        | Inr (brk, f', w') \<Rightarrow>
            if brk then Some (Inr (f', w')) else sendBufferedMessagesToGateway f' w')"

section \<open>The loop\<close>

text \<open>What follows a call that may not return.\<close>

definition returning :: "'a cres option \<Rightarrow> ('a \<Rightarrow> 'b cres option) \<Rightarrow> 'b cres option" where
  "returning r k = (case r of None \<Rightarrow> None | Some (Inl e) \<Rightarrow> Some (Inl e) | Some (Inr x) \<Rightarrow> k x)"

definition close_down :: "('w MqttSnForwarder \<times> 'w) \<Rightarrow> (int \<times> 'w MqttSnForwarder \<times> 'w) cres option" where
  "close_down fw = (let (f, w) = fw; (f, w) = MqttSnForwarderDeinit f w in Some (Inr (-1, f, w)))"

text \<open>The checks of the network status at the end of the loop.\<close>

definition check_networks ::
  "'w platform \<Rightarrow> 'w MqttSnForwarder \<Rightarrow> 'w \<Rightarrow> (int \<times> 'w MqttSnForwarder \<times> 'w) cres option" where
  "check_networks pf f w =
     (if cn_status_code (cn_status (f_clientNetwork f)) \<le> 0
      then
        if gn_status_code (gn_status (f_gatewayNetwork f)) \<le> 0 then close_down (f, w)
        else returning (sendBufferedMessagesToGateway f w) close_down
      else if gn_status_code (gn_status (f_gatewayNetwork f)) \<le> 0
      then
        if cn_status_code (cn_status (f_clientNetwork f)) \<le> 0 then close_down (f, w)
        else returning (sendBufferedMessagesToClients pf f w) close_down
      else Some (Inr (0, f, w)))"

text \<open>The check of the gateway at the start of the loop, when connected.\<close>

definition check_gateway ::
  "'w MqttSnForwarder \<Rightarrow> u64 \<Rightarrow> 'w MqttSnForwarder cres" where
  "check_gateway f current_time_s =
     cbind (MqttSnDiscoveredGatewayListUpdate (f_discovered_gw_list f) None 0 None None current_time_s) (\<lambda>l.
     let f = f\<lparr>f_discovered_gw_list := l\<rparr> in
     cbind (MqttSnDiscoveredGatewayListExists l (Some (f_mqtt_sn_gateway_address f)) (-1)) (\<lambda>found.
     Inr (if \<not> found then MqttSnForwarderSetDisconnected f else f)))"

definition MqttSnForwarderLoop ::
  "'w platform \<Rightarrow> 'w MqttSnForwarder \<Rightarrow> 'w \<Rightarrow> (int \<times> 'w MqttSnForwarder \<times> 'w) cres option" where
  "MqttSnForwarderLoop pf f w =
     (let round = (\<lambda>f w. returning (Some (forward_round pf f w)) (\<lambda>(f, w). check_networks pf f w))
      in if f_disconnected f
         then
           if \<not> f_pin_connection f then Some (MqttSnForwarderHandleGatewayPseudoConnect pf f w)
           else round f w
         else
           let ((rc, current_time_s), w) = get_timestamp_s pf w
           in if rc < 0 then Some (Inr (-1, f, w))
              else
                returning (Some (check_gateway f current_time_s)) (\<lambda>f.
                if f_disconnected f
                then
                  returning (sendBufferedMessagesToClients pf f w) (\<lambda>(f, w).
                  Some (MqttSnForwarderHandleGatewayPseudoConnect pf f w))
                else round f w))"

end
