(* ===== verification/Forwarder_Safety.thy ===== *)
theory Forwarder_Safety
  imports Forwarder
begin

text \<open>
  The forwarder stays inside its memory. The invariant \<open>forwarder_inv\<close> says that the queues, the access
  lists and the list of gateways are well-formed and that every message in a receive queue is followed
  by zeros only. Given drivers that fill no more than the array they are handed, every operation keeps
  it and none faults. The predicate \<open>ok P r\<close> reads: the call returns, and its result satisfies \<open>P\<close>.
\<close>

section \<open>Calls that return\<close>

definition ok :: "('a \<Rightarrow> bool) \<Rightarrow> 'a cres \<Rightarrow> bool" where
  "ok P r \<longleftrightarrow> (\<exists>x. r = Inr x \<and> P x)"

lemma ok_Inr [simp]: "ok P (Inr x) \<longleftrightarrow> P x"
  by (simp add: ok_def)

lemma ok_Inl [simp]: "\<not> ok P (Inl e)"
  by (simp add: ok_def)

lemma ok_cbind [simp]: "ok P (cbind r k) \<longleftrightarrow> ok (\<lambda>x. ok P (k x)) r"
  by (cases r) auto

lemma ok_mono: "ok Q r \<Longrightarrow> (\<And>x. Q x \<Longrightarrow> P x) \<Longrightarrow> ok P r"
  by (auto simp: ok_def)

lemma ok_if [simp]: "ok P (if b then r else s) \<longleftrightarrow> (if b then ok P r else ok P s)"
  by simp

definition no_abort :: "'a cres \<Rightarrow> bool" where
  "no_abort r \<longleftrightarrow> r \<noteq> Inl Abort"

lemma ok_attempt:
  "safe r \<Longrightarrow> no_abort r \<Longrightarrow> ok (\<lambda>x. \<forall>y. x = Some y \<longleftrightarrow> r = Inr y) (attempt r)"
  by (cases r) (auto simp: attempt_def safe_def no_abort_def split: cerr.splits)

lemma no_abort_Inl [simp]: "no_abort (Inl e) \<longleftrightarrow> e \<noteq> Abort"
  by (simp add: no_abort_def)

lemma no_abort_simps [simp]:
  "no_abort (Inr x)" "no_abort (Inl Fail)" "no_abort (Inl Fault)"
  by (simp_all add: no_abort_def)

lemma no_abort_cbind: "no_abort r \<Longrightarrow> (\<And>x. no_abort (k x)) \<Longrightarrow> no_abort (cbind r k)"
  by (cases r) auto

lemma no_abort_memory:
  "no_abort (rd p i)" "no_abort (rds p n)" "no_abort (wr_bytes dst pos bs)"
  by (simp_all add: rd_def rds_def wr_bytes_def)

lemma no_abort_if: "no_abort r \<Longrightarrow> no_abort s \<Longrightarrow> no_abort (if b then r else s)"
  by simp

lemma no_abort_prod: "(\<And>a b. no_abort (f a b)) \<Longrightarrow> no_abort (case x of (a, b) \<Rightarrow> f a b)"
  by (cases x) simp

lemmas no_abort_intros = no_abort_simps no_abort_cbind no_abort_memory no_abort_if no_abort_prod

lemma no_abort_parse_header: "no_abort (parse_header h mt data n pb)"
  unfolding parse_header_def is_three_bytes_header_def is_valid_three_bytes_header_def
    get_message_length_def get_mqtt_sn_message_type_def Let_def
  by (intro no_abort_intros)

lemma no_abort_tolerant: "no_abort (parse_message_tolerant h mt data n)"
proof (induction h mt data n rule: parse_message_tolerant.induct)
  case (1 h mt data n)
  show ?case
    using 1 no_abort_parse_header [of h mt data n 0]
    by (subst parse_message_tolerant.simps, cases "parse_header h mt data n 0")
      (auto simp: Let_def intro!: no_abort_cbind)
qed

lemmas no_abort_defs = parse_header_ok_def parse_mqtt_sn_uint8_byte_def parse_mqtt_sn_uint16_byte_def
  parse_mqtt_sn_device_address_def parse_mqtt_sn_uint8_array_byte_def
  parse_mqtt_sn_device_address_until_end_def

lemma no_abort_parsers:
  "no_abort (parse_advertise data n)" "no_abort (parse_gwinfo g data n)"
  "no_abort (parse_forwarder_encapsulation_byte node buf cap data n)"
  unfolding codec_defs no_abort_defs Let_def
  by (intro no_abort_intros no_abort_parse_header)+

section \<open>Messages as a driver leaves them\<close>

definition zero_from :: "nat \<Rightarrow> u8 list \<Rightarrow> bool" where
  "zero_from n data \<longleftrightarrow> (\<forall>i < length data. n \<le> i \<longrightarrow> data ! i = 0)"

lemma zero_from_drop: "zero_from n data \<Longrightarrow> zero_from (n - k) (drop k data)"
  by (auto simp: zero_from_def)

text \<open>
  The bytes behind the message are zero, or the object is zero altogether: after a failed receive the
  length is not that of a message.
\<close>

definition message_ok :: "MqttSnMessageData \<Rightarrow> bool" where
  "message_ok m \<longleftrightarrow> message_shape m \<and>
     (md_data_length m \<le> MQTT_SN_MAXIMUM_MESSAGE_DATA_LENGTH \<and> zero_from (md_data_length m) (md_data m)
      \<or> zero_from 0 (md_data m))"

lemma message_ok_shape: "message_ok m \<Longrightarrow> message_shape m"
  by (simp add: message_ok_def)

lemma parse_header_any_length:
  assumes "parse_header h ANY_MESSAGE_TYPE data n pb = Inr (rc, h', pb')" "\<not> rc < 0"
  shows "pb' \<le> n \<or> (n = 3 \<and> 3 < length data \<and> h_msg_type h' = cast_message_type (data ! 3))"
  using assms
  by (auto simp: parse_header_def is_three_bytes_header_def is_valid_three_bytes_header_def
      get_message_length_def get_mqtt_sn_message_type_def MQTT_SN_HEADER_LENGTH_def cbind_eq_Inr Let_def
      rd_def split: if_splits)

lemma cast_message_type_0: "cast_message_type 0 = ADVERTISE"
  by (simp add: cast_message_type_def all_message_types_def)

text \<open>The tolerant reader on such a message: the nested messages stay inside the object.\<close>

lemma safe_tolerant:
  assumes "n \<le> length data" "even (length data)" "zero_from n data" "n < 65536"
  shows "safe (parse_message_tolerant h ANY_MESSAGE_TYPE data n)"
  using assms
proof (induction "length data" arbitrary: h data n rule: less_induct)
  case less
  let ?r = "parse_header h ANY_MESSAGE_TYPE data n 0"
  have "data \<noteq> [1, 0, 3]"
    using less.prems(2) by auto
  then have "safe ?r"
    using less.prems(1) by (simp add: safe_def parse_header_fault_iff)
  moreover have "safe (parse_message_tolerant empty_header ANY_MESSAGE_TYPE
      (drop (MQTT_SN_HEADER_LENGTH (h_indicator h')) data) (u16_sub n (MQTT_SN_HEADER_LENGTH (h_indicator h'))))"
    if r: "?r = Inr (rc, h', pb')" "\<not> rc < 0" "h_msg_type h' = ENCAPSULATED_MESSAGE" for rc h' pb'
  proof -
    have p: "data \<noteq> []" "pb' = MQTT_SN_HEADER_LENGTH (h_indicator h')" "2 \<le> pb'"
      using parse_header_progress [OF r(1,2)] by auto
    have "data ! 3 = 0" if "n = 3" "3 < length data"
      using less.prems(3) that by (simp add: zero_from_def)
    then have le: "pb' \<le> n"
      using parse_header_any_length [OF r(1,2)] r(3) by (auto simp: cast_message_type_0)
    have "even pb'"
      using p(2) by (simp add: MQTT_SN_HEADER_LENGTH_def)
    then show ?thesis
      using less.hyps [of "drop pb' data" "n - pb'" empty_header] less.prems p le zero_from_drop [of n data pb']
      by auto
  qed
  ultimately show ?case
    by (subst parse_message_tolerant.simps, cases "parse_header h ANY_MESSAGE_TYPE data n 0")
      (auto simp: Let_def safe_def cbind_eq_Inl split: if_splits)
qed

lemma parse_header_zero:
  assumes "data = 0 # 0 # rest"
  shows "\<exists>h' pb'. parse_header h mt data n pb = Inr (-1, h', pb')"
  using assms
  by (auto simp: parse_header_def is_three_bytes_header_def get_message_length_def
      get_mqtt_sn_message_type_def Let_def cast_message_type_0 MQTT_SN_MESSAGE_TYPE_RESERVED_def)
lemma message_data_cases:
  assumes "message_ok m"
  obtains (used) "md_data_length m \<le> length (md_data m)" "even (length (md_data m))"
      "zero_from (md_data_length m) (md_data m)" "md_data m \<noteq> [1, 0, 3]" "md_data_length m < 65536"
    | (zero) rest where "md_data m = 0 # 0 # rest"
proof -
  let ?d = "md_data m"
  have len: "length ?d = MQTT_SN_MAXIMUM_MESSAGE_DATA_LENGTH" "md_data_length m < 65536"
    using assms by (simp_all add: message_ok_def message_shape_def)
  have even: "even (length ?d)" and ne: "?d \<noteq> [1, 0, 3]"
    using len(1) by (auto simp: MQTT_SN_MAXIMUM_MESSAGE_DATA_LENGTH_def)
  show ?thesis
  proof (cases "zero_from 0 ?d")
    case True
    have long: "2 \<le> length ?d"
      using len by (simp add: MQTT_SN_MAXIMUM_MESSAGE_DATA_LENGTH_def)
    then obtain a b rest where d: "?d = a # b # rest"
      by (cases ?d; cases "tl ?d") auto
    then have "a = 0" "b = 0"
      using True by (auto simp: zero_from_def dest: spec [of _ 0] spec [of _ 1])
    then show ?thesis
      using d zero by blast
  next
    case False
    then show ?thesis
      using assms len even ne by (intro used) (simp_all add: message_ok_def)
  qed
qed

lemma zero_message_fails:
  assumes "data = 0 # 0 # rest"
  shows "parse_message_tolerant empty_header mt data n = Inl Fail" "parse_advertise data n = Inl Fail"
    "parse_gwinfo g data n = Inl Fail" "parse_forwarder_encapsulation_byte node buf cap data n = Inl Fail"
proof -
  have h: "parse_header_ok mt data n pb = Inl Fail" for mt pb
    using parse_header_zero [OF assms, of empty_header mt n pb] by (auto simp: parse_header_ok_def)
  show "parse_advertise data n = Inl Fail" "parse_gwinfo g data n = Inl Fail"
    "parse_forwarder_encapsulation_byte node buf cap data n = Inl Fail"
    by (simp_all add: codec_defs h)
  show "parse_message_tolerant empty_header mt data n = Inl Fail"
    using parse_header_zero [OF assms, of empty_header mt n 0] by (subst parse_message_tolerant.simps) auto
qed

lemma message_parsers_safe:
  assumes "message_ok m" "length (gwi_gwAdd g) = device_address_size"
  shows "safe (parse_message_tolerant empty_header ANY_MESSAGE_TYPE (md_data m) (md_data_length m))"
    "safe (parse_header empty_header ANY_MESSAGE_TYPE (md_data m) (md_data_length m) 0)"
    "safe (parse_advertise (md_data m) (md_data_length m))"
    "safe (parse_gwinfo g (md_data m) (md_data_length m))"
proof -
  consider "md_data_length m \<le> length (md_data m)" "even (length (md_data m))"
      "zero_from (md_data_length m) (md_data m)" "md_data m \<noteq> [1, 0, 3]" "md_data_length m < 65536"
    | rest where "md_data m = 0 # 0 # rest"
    by (rule message_data_cases [OF assms(1)])
  then have "safe (parse_message_tolerant empty_header ANY_MESSAGE_TYPE (md_data m) (md_data_length m))
    \<and> safe (parse_header empty_header ANY_MESSAGE_TYPE (md_data m) (md_data_length m) 0)
    \<and> safe (parse_advertise (md_data m) (md_data_length m))
    \<and> safe (parse_gwinfo g (md_data m) (md_data_length m))"
  proof cases
    case 1
    then show ?thesis
      using assms(2) by (simp add: safe_tolerant safe_parse_advertise safe_parse_gwinfo)
        (simp add: safe_def parse_header_fault_iff)
  next
    case (2 rest)
    then show ?thesis
      using zero_message_fails [OF 2] parse_header_zero [OF 2, of empty_header ANY_MESSAGE_TYPE "md_data_length m" 0]
      by auto
  qed
  then show "safe (parse_message_tolerant empty_header ANY_MESSAGE_TYPE (md_data m) (md_data_length m))"
    "safe (parse_header empty_header ANY_MESSAGE_TYPE (md_data m) (md_data_length m) 0)"
    "safe (parse_advertise (md_data m) (md_data_length m))"
    "safe (parse_gwinfo g (md_data m) (md_data_length m))"
    by auto
qed

lemma ok_total: "safe r \<Longrightarrow> no_abort r \<Longrightarrow> r \<noteq> Inl Fail \<Longrightarrow> ok (\<lambda>x. r = Inr x) r"
  by (cases r) (auto simp: ok_def safe_def no_abort_def intro: cerr.exhaust)

lemma not_Fail_intros:
  "rd p i \<noteq> Inl Fail" "Inr x \<noteq> Inl Fail"
  "r \<noteq> Inl Fail \<Longrightarrow> (\<And>x. k x \<noteq> Inl Fail) \<Longrightarrow> cbind r k \<noteq> Inl Fail"
  "r \<noteq> Inl Fail \<Longrightarrow> s \<noteq> Inl Fail \<Longrightarrow> (if b then r else s) \<noteq> Inl Fail"
  by (auto simp: rd_def cbind_eq_Inl)
lemma parse_header_not_Fail: "parse_header h mt data n pb \<noteq> Inl Fail"
  unfolding parse_header_def is_three_bytes_header_def is_valid_three_bytes_header_def
      get_message_length_def get_mqtt_sn_message_type_def Let_def
  by (intro not_Fail_intros)

text \<open>Removing a frame from such a message, into a zeroed message.\<close>

lemma parse_frame_shape:
  assumes "parse_forwarder_encapsulation_byte node buf cap data n = Inr (radius, node', buf', len, pb)"
  shows "length node' = length node \<and> length buf' = length buf \<and> len \<le> cap \<and> radius \<le> 1"
  using assms
  by (auto simp: codec_defs parse_mqtt_sn_device_address_def parse_mqtt_sn_uint8_array_byte_def
      wr_bytes_def rds_def cbind_eq_Inr not_less split: if_splits)

lemma safe_parse_frame:
  assumes "message_ok m" "length node = device_address_size" "length buf = MQTT_SN_MAXIMUM_MESSAGE_DATA_LENGTH"
  shows "safe (parse_forwarder_encapsulation_byte node buf MQTT_SN_MAXIMUM_MESSAGE_DATA_LENGTH
    (md_data m) (md_data_length m))"
proof -
  consider "md_data_length m \<le> length (md_data m)" "md_data m \<noteq> [1, 0, 3]"
    | rest where "md_data m = 0 # 0 # rest"
    by (rule message_data_cases [OF assms(1)])
  then show ?thesis
  proof cases
    case 1
    have "safe (parse_forwarder_encapsulation \<lparr>em_radius = 0, em_wireless_node_id = node,
        em_mqtt_sn_message = buf, em_mqtt_sn_message_len = 0\<rparr> (md_data m) (md_data_length m))"
      using 1 assms(2,3) by (intro safe_parse_forwarder_encapsulation) simp_all
    then show ?thesis
      by (auto simp: parse_forwarder_encapsulation_def safe_def cbind_eq_Inl)
  qed (simp add: zero_message_fails)
qed

text \<open>Writing a frame into a zeroed message: a message of any length either fits or fails.\<close>

lemma generate_frame_ok:
  assumes "length node = device_address_size" "length msg = MQTT_SN_MAXIMUM_MESSAGE_DATA_LENGTH"
    "length dst = MQTT_SN_MAXIMUM_MESSAGE_DATA_LENGTH"
  shows "generate_forwarder_encapsulation_byte dst MQTT_SN_MAXIMUM_MESSAGE_DATA_LENGTH radius node msg k
    = (if radius \<le> 1 \<and> 9 + k \<le> MQTT_SN_MAXIMUM_MESSAGE_DATA_LENGTH
       then Inr (patched dst (frame_head radius node @ take k msg), 9 + k) else Inl Fail)"
proof (cases "k \<le> length msg")
  case True
  let ?m = "\<lparr>em_radius = radius, em_wireless_node_id = node, em_mqtt_sn_message = msg,
    em_mqtt_sn_message_len = k\<rparr>"
  have "frame_wf ?m"
    using True assms by (simp add: frame_wf_def)
  then show ?thesis
    using generate_forwarder_encapsulation_eq [of ?m MQTT_SN_MAXIMUM_MESSAGE_DATA_LENGTH dst] assms(3)
    by (auto simp: frame_valid_def frame_wire_def MQTT_SN_MAXIMUM_MESSAGE_DATA_LENGTH_def)
next
  case False
  then have k: "1024 < k"
    using assms(2) by (simp add: MQTT_SN_MAXIMUM_MESSAGE_DATA_LENGTH_def)
  then show ?thesis
    using assms gen_forwarder_encapsulation_header [of 1024 dst 0 "[]" 0 k]
    by (auto simp: generate_forwarder_encapsulation_byte_def gen_simps frame_head_def
        generate_mqtt_sn_uint8_array_def device_address_size_def MQTT_SN_MAXIMUM_MESSAGE_DATA_LENGTH_def)
qed

section \<open>The invariant\<close>

definition address_ok :: "u8 list \<Rightarrow> bool" where
  "address_ok a \<longleftrightarrow> length a = device_address_size"

definition buffer_ok :: "(MqttSnMessageData \<Rightarrow> bool) \<Rightarrow> MqttSnFixedSizeRingBuffer \<Rightarrow> bool" where
  "buffer_ok P q \<longleftrightarrow> ring_inv q \<and> (\<forall>m \<in> set (contents q). P m)"

text \<open>
  What a driver's receive routine promises: it writes addresses of the right size, no more than the
  data array holds, nothing behind the message, and nothing at all when it fails.
\<close>

definition receive_contract :: "'w net_receive \<Rightarrow> nat \<Rightarrow> bool" where
  "receive_contract receive max_length \<longleftrightarrow>
     (\<forall>t w. case receive empty_rx max_length t w of (r, (from, to, data, signal), w') \<Rightarrow>
        address_ok from \<and> address_ok to \<and> length data = MQTT_SN_MAXIMUM_MESSAGE_DATA_LENGTH
        \<and> (if 0 \<le> r then r \<le> int MQTT_SN_MAXIMUM_MESSAGE_DATA_LENGTH \<and> zero_from (nat r) data
           else zero_from 0 data))"

text \<open>The clock, when it can be read, is at least a second past the epoch.\<close>

definition clock_contract :: "'w platform \<Rightarrow> bool" where
  "clock_contract pf \<longleftrightarrow> (\<forall>w. 0 \<le> fst (fst (pf_clock_ms pf w)) \<longrightarrow> 1000 \<le> snd (fst (pf_clock_ms pf w)))"

definition gateways_inv :: "MqttSnDiscoveredGatewayList \<Rightarrow> bool" where
  "gateways_inv l \<longleftrightarrow> gw_list_inv l \<and> timed (entries l)
     \<and> (\<forall>g \<in> set (entries l). address_ok (dg_network_address g))"

definition lists_inv :: "'w MqttSnForwarder \<Rightarrow> bool" where
  "lists_inv f \<longleftrightarrow>
     list_inv (f_gn_gw_id_whitelist f) (f_gn_gw_id_whitelist_len f)
     \<and> list_inv (f_gn_addr_whitelist f) (f_gn_addr_whitelist_len f)
     \<and> list_inv (f_gn_gw_id_blacklist f) (f_gn_gw_id_blacklist_len f)
     \<and> list_inv (f_gn_addr_blacklist f) (f_gn_addr_blacklist_len f)
     \<and> list_inv (f_cn_addr_whitelist f) (f_cn_addr_whitelist_len f)
     \<and> list_inv (f_cn_addr_blacklist f) (f_cn_addr_blacklist_len f)"

definition drivers_ok :: "'w MqttSnForwarder \<Rightarrow> bool" where
  "drivers_ok f \<longleftrightarrow>
     (\<forall>r. gn_receive (f_gatewayNetwork f) = Some r
        \<longrightarrow> receive_contract r (gn_max_data_length (f_gatewayNetwork f)))
     \<and> (\<forall>r. cn_receive (f_clientNetwork f) = Some r
        \<longrightarrow> receive_contract r (cn_max_data_length (f_clientNetwork f)))
     \<and> (\<forall>a. cn_broadcast_address (f_clientNetwork f) = Some a \<longrightarrow> address_ok a)"

definition forwarder_inv :: "'w MqttSnForwarder \<Rightarrow> bool" where
  "forwarder_inv f \<longleftrightarrow>
     buffer_ok message_ok (f_clientNetworkReceiveBuffer f)
     \<and> buffer_ok message_shape (f_clientNetworkSendBuffer f)
     \<and> buffer_ok message_ok (f_gatewayNetworkReceiveBuffer f)
     \<and> buffer_ok message_shape (f_gatewayNetworkSendBuffer f)
     \<and> gateways_inv (f_discovered_gw_list f) \<and> lists_inv f \<and> drivers_ok f
     \<and> address_ok (f_mqtt_sn_gateway_address f)"

text \<open>Neither network interface is deinitialised.\<close>

definition initialised :: "'w MqttSnForwarder \<Rightarrow> bool" where
  "initialised f \<longleftrightarrow>
     cn_status (f_clientNetwork f) \<noteq> MQTT_SN_CLIENT_NETWORK_INTERFACE_STATUS_DEINITIALIZED
     \<and> gn_status (f_gatewayNetwork f) \<noteq> MQTT_SN_GATEWAY_NETWORK_INTERFACE_STATUS_DEINITIALIZED"

text \<open>
  The drivers stay in place, and a network that has been lost stays lost: only \<open>MqttSnForwarderInit\<close>
  connects.
\<close>

definition networks_kept :: "'w MqttSnForwarder \<Rightarrow> 'w MqttSnForwarder \<Rightarrow> bool" where
  "networks_kept f f' \<longleftrightarrow>
     cn_send (f_clientNetwork f') = cn_send (f_clientNetwork f)
     \<and> gn_send (f_gatewayNetwork f') = gn_send (f_gatewayNetwork f)
     \<and> (cn_status (f_clientNetwork f) = MQTT_SN_CLIENT_NETWORK_INTERFACE_STATUS_DISCONNECTED
        \<longrightarrow> cn_status (f_clientNetwork f') = MQTT_SN_CLIENT_NETWORK_INTERFACE_STATUS_DISCONNECTED)
     \<and> (gn_status (f_gatewayNetwork f) = MQTT_SN_GATEWAY_NETWORK_INTERFACE_STATUS_DISCONNECTED
        \<longrightarrow> gn_status (f_gatewayNetwork f') = MQTT_SN_GATEWAY_NETWORK_INTERFACE_STATUS_DISCONNECTED)"

definition keeps :: "'w MqttSnForwarder \<Rightarrow> 'w MqttSnForwarder \<Rightarrow> bool" where
  "keeps f f' \<longleftrightarrow> forwarder_inv f' \<and> (initialised f \<longrightarrow> initialised f') \<and> networks_kept f f'"

lemma keeps_refl: "forwarder_inv f \<Longrightarrow> keeps f f"
  by (simp add: keeps_def networks_kept_def)

lemma keeps_trans: "keeps f g \<Longrightarrow> keeps g h \<Longrightarrow> keeps f h"
  by (simp add: keeps_def networks_kept_def)

lemmas status_defs = initialised_def networks_kept_def
lemmas forwarder_inv_defs = forwarder_inv_def lists_inv_def drivers_ok_def

section \<open>Queues, clocks and drivers in these terms\<close>

lemma ok_pop:
  assumes "buffer_ok P q"
  shows "ok (\<lambda>(rc, q', m). buffer_ok P q' \<and>
      (rc = 0 \<and> P m \<and> length (contents q) = Suc (length (contents q'))
       \<or> rc = -1 \<and> q' = q \<and> contents q = [])) (pop q d)"
  using ring.deq_some [of q d] ring.deq_none [of q d] assms
  by (cases "contents q = []") (auto simp: buffer_ok_def simp del: length_contents)

lemma ok_put:
  assumes "buffer_ok P q" "P m"
  shows "ok (\<lambda>(rc, q'). buffer_ok P q' \<and>
      (rc = 0 \<and> length (contents q') = Suc (length (contents q)) \<or> rc = -1 \<and> q' = q)) (put q m)"
  using put_appends [of q m] put_full [of q m] assms by (cases "isFull q") (auto simp: buffer_ok_def simp del: length_contents)

lemma timestamp_positive:
  "clock_contract pf \<Longrightarrow> get_timestamp_s pf w = ((rc, t), w') \<Longrightarrow> \<not> rc < 0 \<Longrightarrow> 0 < t"
proof -
  assume c: "clock_contract pf" and t: "get_timestamp_s pf w = ((rc, t), w')" "\<not> rc < 0"
  obtain r ms v where clk: "pf_clock_ms pf w = ((r, ms), v)"
    by (metis prod.exhaust)
  then have "0 \<le> r" "t = ms div 1000"
    using t by (auto simp: get_timestamp_s_def split: if_splits)
  then have "1000 \<le> unat ms"
    using c clk by (auto simp: clock_contract_def word_le_nat_alt dest: spec [of _ w])
  then have "0 < unat ms div 1000"
    by (simp add: div_greater_zero_iff)
  then show "0 < t"
    using \<open>t = ms div 1000\<close> by (simp add: word_less_nat_alt unat_div)
qed

lemma ok_update_list:
  assumes "gateways_inv l" "0 < t" "from = None \<longrightarrow> advertise = None \<and> gw_info = None"
    "\<forall>a. from = Some a \<longrightarrow> address_ok a"
  shows "ok gateways_inv (MqttSnDiscoveredGatewayListUpdate l from sig advertise gw_info t)"
proof -
  define es where "es = entries l"
  have es: "l = gw_list_of es" "timed es" "length es \<le> MQTT_SN_FIND_GATEWAY_CLIENT_DISCOVERED_GATEWAY_LIST_LENGTH"
    "\<forall>g \<in> set es. address_ok (dg_network_address g)"
    using assms(1) by (auto simp: gateways_inv_def gw_list_inv_def es_def)
  have "address_ok (dg_network_address g)" if "g \<in> set (discover (the from) sig advertise gw_info t es)" for g
  proof (cases "from")
    case None
    then have "g \<in> set (filter live (map (expire t) es))"
      using that assms(3)
      by (auto simp: discover_def Let_def discover_match_def new_entry_def split: if_splits)
    then show ?thesis
      using es(4) by (auto simp: expire_def)
  next
    case (Some a)
    then show ?thesis
      using discover_entry [OF that] assms(4) es(4) by (auto simp: expire_def)
  qed
  then show ?thesis
    unfolding es(1) update_refines_discover [OF assms(3) es(2,3)]
    using es assms(2) by (simp add: gateways_inv_def length_discover timed_discover)
qed

lemma receive_iface:
  "GatewayNetworkReceive clk n q t w = Inr (rc, n', q', w') \<Longrightarrow>
     n' = n \<or> n' = n\<lparr>gn_status := MQTT_SN_GATEWAY_NETWORK_INTERFACE_STATUS_DISCONNECTED\<rparr>"
  "ClientNetworkReceive clk m q t w = Inr (rc, m', q', w') \<Longrightarrow>
     m' = m \<or> m' = m\<lparr>cn_status := MQTT_SN_CLIENT_NETWORK_INTERFACE_STATUS_DISCONNECTED\<rparr>"
  by (auto simp: GatewayNetworkReceive_def ClientNetworkReceive_def Let_def cbind_eq_Inr
      split: option.splits prod.splits if_splits)

lemma send_iface:
  "GatewayNetworkSend n q t w = Inr (rc, n', q', w') \<Longrightarrow>
     n' = n \<or> n' = n\<lparr>gn_status := MQTT_SN_GATEWAY_NETWORK_INTERFACE_STATUS_DISCONNECTED\<rparr>"
  "ClientNetworkSend m q t w = Inr (rc, m', q', w') \<Longrightarrow>
     m' = m \<or> m' = m\<lparr>cn_status := MQTT_SN_CLIENT_NETWORK_INTERFACE_STATUS_DISCONNECTED\<rparr>"
  by (auto simp: GatewayNetworkSend_def ClientNetworkSend_def Let_def cbind_eq_Inr
      split: option.splits prod.splits if_splits)

lemma received_message_ok:
  assumes "receive_contract receive max_length" "receive empty_rx max_length t w = (r, rx, w')"
  shows "message_ok (received_message rx r ts tms)"
proof -
  obtain f t' d g where rx: "rx = (f, t', d, g)" by (cases rx) auto
  have c: "address_ok f" "address_ok t'" "length d = MQTT_SN_MAXIMUM_MESSAGE_DATA_LENGTH"
    "if 0 \<le> r then r \<le> int MQTT_SN_MAXIMUM_MESSAGE_DATA_LENGTH \<and> zero_from (nat r) d else zero_from 0 d"
    using assms unfolding receive_contract_def rx by (auto dest!: spec [of _ t] spec [of _ w])
  have "nat (r mod 65536) < 65536"
    using pos_mod_bound [of 65536 r] by simp
  moreover have "nat (r mod 65536) = nat r" if "0 \<le> r" "r \<le> 1024"
    using that by simp
  ultimately show ?thesis
    using c by (auto simp: message_ok_def message_shape_def received_message_def rx address_ok_def
        MQTT_SN_MAXIMUM_MESSAGE_DATA_LENGTH_def split: if_splits)
qed


section \<open>Every operation keeps the invariant\<close>

lemma keeps_disconnect:
  assumes "forwarder_inv f"
  shows "keeps f (fst (disconnect_client f w))" "keeps f (fst (disconnect_gateway f w))"
  using assms
  by (auto simp: keeps_def forwarder_inv_defs status_defs disconnect_client_def disconnect_gateway_def
      ClientNetworkDisconnect_def GatewayNetworkDisconnect_def Let_def split: option.splits prod.splits)

lemma keeps_disconnect_both:
  assumes "forwarder_inv f" "keeps g f"
  shows "keeps g (fst (disconnect_client f w))" "keeps g (fst (disconnect_gateway f w))"
    "keeps g (fst (let (f, w) = disconnect_client f w in disconnect_gateway f w))"
proof -
  show c: "keeps g (fst (disconnect_client f w))" "keeps g (fst (disconnect_gateway f w))"
    by (rule keeps_trans [OF assms(2) keeps_disconnect(1) [OF assms(1)]],
        rule keeps_trans [OF assms(2) keeps_disconnect(2) [OF assms(1)]])
  have "forwarder_inv (fst (disconnect_client f w))"
    using c(1) by (simp add: keeps_def)
  from keeps_trans [OF c(1) keeps_disconnect(2) [OF this]]
  show "keeps g (fst (let (f, w) = disconnect_client f w in disconnect_gateway f w))"
    by (simp add: case_prod_unfold Let_def)
qed

lemma ok_client_receive:
  assumes "forwarder_inv f"
  shows "ok (\<lambda>(f', w'). keeps f f') (client_receive pf f w)"
proof -
  let ?q = "f_clientNetworkReceiveBuffer f" and ?n = "f_clientNetwork f"
  have q: "ring_inv ?q"
    using assms by (simp add: forwarder_inv_def buffer_ok_def)
  obtain rc n' q' w' where r: "ClientNetworkReceive (get_timestamp_ms pf) ?n ?q
      (f_clientNetworkReceiveTimeout f) w = Inr (rc, n', q', w')" "ring_inv q'"
    and c: "contents q' = contents ?q \<or> (\<exists>r rx w1 ts tms. client_can_receive ?n
      \<and> client_arrival ?n (f_clientNetworkReceiveTimeout f) w = (r, rx, w1) \<and> r mod 65536 \<noteq> 0
      \<and> contents q' = contents ?q @ [received_message rx r ts tms])"
    using client_net.receive_total [OF q, of "get_timestamp_ms pf" ?n "f_clientNetworkReceiveTimeout f" w]
    by blast
  have "buffer_ok message_ok q'"
    using c r(2) assms received_message_ok
    by (auto simp: forwarder_inv_defs buffer_ok_def client_can_receive_def client_arrival_def)
  then have "keeps f (f\<lparr>f_clientNetwork := n', f_clientNetworkReceiveBuffer := q'\<rparr>)"
    using receive_iface(2) [OF r(1)] assms by (auto simp: keeps_def forwarder_inv_defs status_defs)
  then show ?thesis
    unfolding client_receive_def r(1)
    using keeps_disconnect_both(1) [of "f\<lparr>f_clientNetwork := n', f_clientNetworkReceiveBuffer := q'\<rparr>" f w']
    by (auto simp: keeps_def Let_def split: prod.splits)
qed

lemma ok_gateway_receive:
  assumes "forwarder_inv f"
  shows "ok (\<lambda>(f', w'). keeps f f') (gateway_receive pf f w)"
proof -
  let ?q = "f_gatewayNetworkReceiveBuffer f" and ?n = "f_gatewayNetwork f"
  have q: "ring_inv ?q"
    using assms by (simp add: forwarder_inv_def buffer_ok_def)
  obtain rc n' q' w' where r: "GatewayNetworkReceive (get_timestamp_ms pf) ?n ?q
      (f_gatewayNetworkReceiveTimeout f) w = Inr (rc, n', q', w')" "ring_inv q'"
    and c: "contents q' = contents ?q \<or> (\<exists>r rx w1 ts tms. gateway_can_receive ?n
      \<and> gateway_arrival ?n (f_gatewayNetworkReceiveTimeout f) w = (r, rx, w1) \<and> r mod 65536 \<noteq> 0
      \<and> contents q' = contents ?q @ [received_message rx r ts tms])"
    using gateway_net.receive_total [OF q, of "get_timestamp_ms pf" ?n "f_gatewayNetworkReceiveTimeout f" w]
    by blast
  have "buffer_ok message_ok q'"
    using c r(2) assms received_message_ok
    by (auto simp: forwarder_inv_defs buffer_ok_def gateway_can_receive_def gateway_arrival_def)
  then have "keeps f (f\<lparr>f_gatewayNetwork := n', f_gatewayNetworkReceiveBuffer := q'\<rparr>)"
    using receive_iface(1) [OF r(1)] assms by (auto simp: keeps_def forwarder_inv_defs status_defs)
  then show ?thesis
    unfolding gateway_receive_def r(1)
    using keeps_disconnect_both(2) [of "f\<lparr>f_gatewayNetwork := n', f_gatewayNetworkReceiveBuffer := q'\<rparr>" f w']
    by (auto simp: keeps_def Let_def split: prod.splits)
qed

text \<open>The sends also say what happens to the queue.\<close>

lemma buffer_ok_subset: "buffer_ok P q \<Longrightarrow> ring_inv q' \<Longrightarrow> mset (contents q') \<subseteq># mset (contents q) \<Longrightarrow> buffer_ok P q'"
  by (auto simp: buffer_ok_def dest!: set_mset_mono)

lemma ok_send_to_gateway:
  assumes "forwarder_inv f"
  shows "ok (\<lambda>(rc, f', w'). keeps f f') (send_to_gateway f w)"
proof -
  have q: "buffer_ok message_shape (f_gatewayNetworkSendBuffer f)"
    using assms by (simp add: forwarder_inv_def)
  obtain rc n' q' w' where r: "GatewayNetworkSend (f_gatewayNetwork f) (f_gatewayNetworkSendBuffer f)
      (f_gatewayNetworkSendTimeout f) w = Inr (rc, n', q', w')" "ring_inv q'"
    "mset (contents q') \<subseteq># mset (contents (f_gatewayNetworkSendBuffer f))"
    using gateway_net.send_total [OF conjunct1 [OF q [unfolded buffer_ok_def]], of "f_gatewayNetwork f"
        "f_gatewayNetworkSendTimeout f" w] by blast
  then show ?thesis
    unfolding send_to_gateway_def r(1)
    using send_iface(1) [OF r(1)] assms buffer_ok_subset [OF q r(2,3)]
    by (auto simp: keeps_def forwarder_inv_defs status_defs)
qed

lemma ok_send_to_clients:
  assumes "forwarder_inv f"
  shows "ok (\<lambda>(rc, f', w'). keeps f f') (send_to_clients f w)"
proof -
  have q: "buffer_ok message_shape (f_clientNetworkSendBuffer f)"
    using assms by (simp add: forwarder_inv_def)
  obtain rc n' q' w' where r: "ClientNetworkSend (f_clientNetwork f) (f_clientNetworkSendBuffer f)
      (f_clientNetworkSendTimeout f) w = Inr (rc, n', q', w')" "ring_inv q'"
    "mset (contents q') \<subseteq># mset (contents (f_clientNetworkSendBuffer f))"
    using client_net.send_total [OF conjunct1 [OF q [unfolded buffer_ok_def]], of "f_clientNetwork f"
        "f_clientNetworkSendTimeout f" w] by blast
  then show ?thesis
    unfolding send_to_clients_def r(1)
    using send_iface(2) [OF r(1)] assms buffer_ok_subset [OF q r(2,3)]
    by (auto simp: keeps_def forwarder_inv_defs status_defs)
qed

lemma ok_sends:
  assumes "forwarder_inv f"
  shows "ok (\<lambda>(f', w'). keeps f f') (gateway_send f w)" "ok (\<lambda>(f', w'). keeps f f') (client_send f w)"
proof -
  have k: "keeps f (fst (disconnect_gateway f' w'))" "keeps f (fst (disconnect_client f' w'))"
    if "keeps f f'" for f' w'
    using keeps_disconnect_both(1,2) [of f' f w'] that by (simp_all add: keeps_def)
  show "ok (\<lambda>(f', w'). keeps f f') (gateway_send f w)"
    unfolding gateway_send_def ok_cbind
    by (rule ok_mono [OF ok_send_to_gateway [OF assms]]) (use k in \<open>auto simp: case_prod_unfold\<close>)
  show "ok (\<lambda>(f', w'). keeps f f') (client_send f w)"
    unfolding client_send_def ok_cbind
    by (rule ok_mono [OF ok_send_to_clients [OF assms]]) (use k in \<open>auto simp: case_prod_unfold\<close>)
qed

section \<open>Access lists, discovery and headers\<close>

text \<open>What the checks of the access lists compute.\<close>

definition members_of :: "'a list \<Rightarrow> nat \<Rightarrow> 'a set" where
  "members_of items len = set (take len items)"

lemma gateway_addr_refused_eq:
  "lists_inv f \<Longrightarrow> gateway_addr_refused f a =
     Inr (f_gn_addr_whitelist_len f \<noteq> 0 \<and> a \<notin> members_of (f_gn_addr_whitelist f) (f_gn_addr_whitelist_len f)
       \<or> a \<in> members_of (f_gn_addr_blacklist f) (f_gn_addr_blacklist_len f))"
  by (auto simp: gateway_addr_refused_def MqttSnForwarderContainsGatewayNetworkWhitelistAddr_def
      MqttSnForwarderContainsGatewayNetworkBlacklistAddr_def lists_inv_def members_of_def)

lemma client_addr_refused_eq:
  "lists_inv f \<Longrightarrow> client_addr_refused f a =
     Inr (f_cn_addr_whitelist_len f \<noteq> 0 \<and> a \<notin> members_of (f_cn_addr_whitelist f) (f_cn_addr_whitelist_len f)
       \<or> a \<in> members_of (f_cn_addr_blacklist f) (f_cn_addr_blacklist_len f))"
  by (auto simp: client_addr_refused_def MqttSnForwarderContainsClientNetworkWhitelistAddr_def
      MqttSnForwarderContainsClientNetworkBlacklistAddr_def lists_inv_def members_of_def)

text \<open>The ids on the white list are the ones refused, and the black list refuses none.\<close>

lemma gw_id_refused_eq:
  "lists_inv f \<Longrightarrow> gw_id_refused f i =
     Inr (i \<in> members_of (f_gn_gw_id_whitelist f) (f_gn_gw_id_whitelist_len f))"
  by (auto simp: gw_id_refused_def MqttSnForwarderContainsGatewayNetworkWhitelistGwId_def
      MqttSnForwarderContainsGatewayNetworkBlacklistGwId_def lists_inv_def members_of_def)

lemma ok_update_gateway:
  assumes "forwarder_inv f" "clock_contract pf" "message_ok msg"
  shows "ok (\<lambda>(rc, f', w'). \<exists>l. f' = f\<lparr>f_discovered_gw_list := l\<rparr> \<and> gateways_inv l)
    (update_gateway pf f msg i advertise gw_info w)"
proof -
  have l: "lists_inv f" "gateways_inv (f_discovered_gw_list f)"
    using assms(1) by (simp_all add: forwarder_inv_def)
  obtain rc t w' where t: "get_timestamp_s pf w = ((rc, t), w')"
    by (metis prod.exhaust)
  have "ok (\<lambda>l. \<exists>l'. f\<lparr>f_discovered_gw_list := l\<rparr> = f\<lparr>f_discovered_gw_list := l'\<rparr> \<and> gateways_inv l')
      (MqttSnDiscoveredGatewayListUpdate (f_discovered_gw_list f) (Some (md_from msg))
         (md_signal_strength msg) advertise gw_info t)" if "\<not> rc < 0"
    by (rule ok_mono [OF ok_update_list [OF l(2) timestamp_positive [OF assms(2) t that]]])
      (use assms(3) in \<open>auto simp: message_ok_def message_shape_def address_ok_def\<close>)
  then show ?thesis
    using l by (auto simp: update_gateway_def gw_id_refused_eq t intro: exI [of _ "f_discovered_gw_list f"])
qed

lemma ok_update_discovered:
  assumes "forwarder_inv f" "clock_contract pf" "message_ok msg"
  shows "ok (\<lambda>(rc, f', w'). \<exists>l. f' = f\<lparr>f_discovered_gw_list := l\<rparr> \<and> gateways_inv l)
    (MqttSnForwardingUpdateDiscoveredGw pf f msg w)"
proof -
  let ?P = "\<lambda>(rc, f', w'). \<exists>l. f' = f\<lparr>f_discovered_gw_list := l\<rparr> \<and> gateways_inv l"
  let ?g = "\<lparr>gwi_gwId = 0, gwi_gwAdd = zero_address, gwi_gwAddLen = 0\<rparr>"
  have s: "safe (parse_message_tolerant empty_header ANY_MESSAGE_TYPE (md_data msg) (md_data_length msg))"
    "safe (parse_header empty_header ANY_MESSAGE_TYPE (md_data msg) (md_data_length msg) 0)"
    "safe (parse_advertise (md_data msg) (md_data_length msg))"
    "safe (parse_gwinfo ?g (md_data msg) (md_data_length msg))"
    using message_parsers_safe [OF assms(3), of ?g] by (simp_all add: zero_address_def)
  obtain h where h: "parse_header empty_header ANY_MESSAGE_TYPE (md_data msg) (md_data_length msg) 0 = Inr h"
    using ok_total [OF s(2) no_abort_parse_header parse_header_not_Fail] by (auto simp: ok_def)
  have stay: "?P (0, f, w)"
    using assms(1) by (auto simp: forwarder_inv_def intro: exI [of _ "f_discovered_gw_list f"])
  have tol: "ok (\<lambda>_. True) (attempt (parse_message_tolerant empty_header ANY_MESSAGE_TYPE (md_data msg) (md_data_length msg)))"
    by (rule ok_mono [OF ok_attempt [OF s(1) no_abort_tolerant]]) simp
  have adv: "ok (\<lambda>r. ok ?P (case r of None \<Rightarrow> Inr (0, f, w)
      | Some (a, rc) \<Rightarrow> if rc > 0 then update_gateway pf f msg (adv_gwId a) (Some a) None w else Inr (0, f, w)))
      (attempt (parse_advertise (md_data msg) (md_data_length msg)))"
    by (rule ok_mono [OF ok_attempt [OF s(3) no_abort_parsers(1)]])
      (use stay ok_update_gateway [OF assms] in \<open>auto split: option.splits\<close>)
  have gwi: "ok (\<lambda>r. ok ?P (case r of None \<Rightarrow> Inr (0, f, w)
      | Some (g, rc) \<Rightarrow> if rc > 0 then update_gateway pf f msg (gwi_gwId g) None (Some g) w else Inr (0, f, w)))
      (attempt (parse_gwinfo ?g (md_data msg) (md_data_length msg)))"
    by (rule ok_mono [OF ok_attempt [OF s(4) no_abort_parsers(2)]])
      (use stay ok_update_gateway [OF assms] in \<open>auto split: option.splits\<close>)
  obtain rc hd pb where hd: "h = (rc, hd, pb)" by (cases h)
  show ?thesis
    unfolding MqttSnForwardingUpdateDiscoveredGw_def h ok_cbind
    by (rule ok_mono [OF tol]) (use stay adv gwi in \<open>auto simp: hd\<close>)
qed

lemma add_frame_ok:
  assumes "message_ok m" "address_ok gw"
  shows "ok (\<lambda>(rc, g). message_shape g) (add_mqtt_sn_forwarder_encapsulation_frame m zero_message gw bc)"
proof -
  have s: "length (md_from m) = device_address_size" "length (md_data m) = MQTT_SN_MAXIMUM_MESSAGE_DATA_LENGTH"
    using assms(1) by (simp_all add: message_ok_def message_shape_def)
  have z: "length (md_data zero_message) = MQTT_SN_MAXIMUM_MESSAGE_DATA_LENGTH"
    using message_shape_zero by (simp add: message_shape_def del: message_shape_zero)
  have b: "length (patched (md_data zero_message) (frame_head radius (md_from m) @ take k (md_data m)))
      = MQTT_SN_MAXIMUM_MESSAGE_DATA_LENGTH" if "9 + k \<le> MQTT_SN_MAXIMUM_MESSAGE_DATA_LENGTH" for k radius
    using s z that by (subst length_patched) (auto simp: frame_head_def device_address_size_def)
  show ?thesis
    using generate_frame_ok [OF s z] s b assms(2) message_shape_zero
    by (auto simp: add_mqtt_sn_forwarder_encapsulation_frame_def attempt_def Let_def message_shape_def
        address_ok_def simp del: message_shape_zero)
qed

lemma remove_frame_ok:
  assumes "message_ok m" "\<forall>a. bc = Some a \<longrightarrow> address_ok a"
  shows "ok (\<lambda>(rc, c). message_shape c) (remove_mqtt_sn_forwarder_encapsulation_frame m zero_message bc)"
proof -
  have z: "length (md_to zero_message) = device_address_size"
    "length (md_data zero_message) = MQTT_SN_MAXIMUM_MESSAGE_DATA_LENGTH"
    "length (md_from zero_message) = device_address_size" "md_data_length zero_message < 65536"
    using message_shape_zero by (simp_all add: message_shape_def del: message_shape_zero)
  show ?thesis
    unfolding remove_mqtt_sn_forwarder_encapsulation_frame_def ok_cbind
    by (rule ok_mono [OF ok_attempt [OF safe_parse_frame [OF assms(1) z(1,2)] no_abort_parsers(3)]])
      (use assms z in \<open>auto simp: Let_def message_shape_def message_ok_def address_ok_def
         MQTT_SN_MAXIMUM_MESSAGE_DATA_LENGTH_def split: option.splits dest!: parse_frame_shape\<close>)
qed

section \<open>Moving messages between the queues\<close>

text \<open>The messages on their way to the clients, and to the gateway.\<close>

definition to_clients :: "'w MqttSnForwarder \<Rightarrow> nat" where
  "to_clients f = rb_item_count (f_gatewayNetworkReceiveBuffer f) + rb_item_count (f_clientNetworkSendBuffer f)"

definition to_gateway :: "'w MqttSnForwarder \<Rightarrow> nat" where
  "to_gateway f = rb_item_count (f_clientNetworkReceiveBuffer f) + rb_item_count (f_gatewayNetworkSendBuffer f)"

text \<open>
  Adding the header to one message loses nothing it does not drop: after it there is a message ready to
  be sent, or one message less on the way.
\<close>

definition added :: "'w MqttSnForwarder \<Rightarrow> 'w MqttSnForwarder \<Rightarrow> bool" where
  "added f f' \<longleftrightarrow> keeps f f' \<and> f_clientNetwork f' = f_clientNetwork f \<and> f_gatewayNetwork f' = f_gatewayNetwork f
     \<and> to_gateway f' \<le> to_gateway f
     \<and> (0 < to_gateway f \<and> isEmpty (f_gatewayNetworkSendBuffer f') \<longrightarrow> to_gateway f' < to_gateway f)"

definition removed :: "'w MqttSnForwarder \<Rightarrow> 'w MqttSnForwarder \<Rightarrow> bool" where
  "removed f f' \<longleftrightarrow> keeps f f' \<and> f_clientNetwork f' = f_clientNetwork f \<and> f_gatewayNetwork f' = f_gatewayNetwork f
     \<and> to_clients f' \<le> to_clients f
     \<and> (0 < to_clients f \<and> isEmpty (f_clientNetworkSendBuffer f') \<longrightarrow> to_clients f' < to_clients f)"

lemma full_not_empty: "ring_inv q \<Longrightarrow> isFull q \<Longrightarrow> \<not> isEmpty q"
  by (auto simp: isFull_def isEmpty_def ring_inv_def)

lemma ok_add_header:
  assumes inv: "forwarder_inv f"
  shows "ok (\<lambda>(rc, f'). rc = 0 \<and> added f f') (AddForwardingHeaderToClientMessages f)"
proof (cases "isFull (f_gatewayNetworkSendBuffer f)")
  case True
  then have "added f f"
    using inv full_not_empty [OF _ True] by (auto simp: added_def keeps_refl forwarder_inv_def buffer_ok_def)
  then show ?thesis
    using True by (simp add: AddForwardingHeaderToClientMessages_def)
next
  case False
  let ?r = "f_clientNetworkReceiveBuffer f" and ?s = "f_gatewayNetworkSendBuffer f"
  have bufs: "buffer_ok message_ok ?r" "buffer_ok message_shape ?s" "lists_inv f" "address_ok (f_mqtt_sn_gateway_address f)"
    using inv by (simp_all add: forwarder_inv_def)
  obtain rc q m where p: "pop ?r zero_message = Inr (rc, q, m)" "buffer_ok message_ok q"
    "rc = 0 \<and> message_ok m \<and> length (contents ?r) = Suc (length (contents q)) \<or> rc = -1 \<and> q = ?r \<and> contents ?r = []"
    using ok_pop [OF bufs(1), of zero_message] by (auto simp: ok_def)
  let ?f = "f\<lparr>f_clientNetworkReceiveBuffer := q\<rparr>"
  have l: "lists_inv ?f"
    using bufs(3) by (simp add: lists_inv_def)
  show ?thesis
  proof (cases "rc = 0")
    case rc: False
    then have "added f ?f"
      using p inv by (auto simp: added_def keeps_def to_gateway_def isEmpty_contents forwarder_inv_defs
          status_defs simp flip: length_contents)
    then show ?thesis
      using False rc p(1) by (simp add: AddForwardingHeaderToClientMessages_def)
  next
    case True
    then have m: "message_ok m" "rb_item_count ?r = Suc (rb_item_count q)"
      using p(3) by auto
    have drop: "added f ?f"
      using p(2) m inv by (auto simp: added_def keeps_def to_gateway_def forwarder_inv_defs status_defs)
    have move: "added f (?f\<lparr>f_gatewayNetworkSendBuffer := q'\<rparr>)"
      if "buffer_ok message_shape q'" "length (contents q') = Suc (length (contents ?s))" for q'
      using p(2) m inv that
      by (auto simp: added_def keeps_def to_gateway_def forwarder_inv_defs status_defs isEmpty_def)
    obtain arc g where a: "add_mqtt_sn_forwarder_encapsulation_frame m zero_message
        (f_mqtt_sn_gateway_address f) (cn_broadcast_address (f_clientNetwork f)) = Inr (arc, g)" "message_shape g"
      using add_frame_ok [OF m(1) bufs(4), of "cn_broadcast_address (f_clientNetwork f)"] by (auto simp: ok_def)
    obtain q' where q': "put ?s g = Inr (0, q')" "buffer_ok message_shape q'"
      "length (contents q') = Suc (length (contents ?s))"
      using ok_put [OF bufs(2), of g] a(2) put_appends [of ?s g] False bufs(2)
      by (auto simp: ok_def buffer_ok_def)
    show ?thesis
      using False p(1) True client_addr_refused_eq [OF l] a(1) q' drop move
      by (simp add: AddForwardingHeaderToClientMessages_def Let_def)
  qed
qed

lemma removed_list:
  "removed f g \<Longrightarrow> gateways_inv l \<Longrightarrow> removed f (g\<lparr>f_discovered_gw_list := l\<rparr>)"
  by (auto simp: removed_def keeps_def to_clients_def forwarder_inv_defs status_defs)

lemma ok_remove_header:
  assumes inv: "forwarder_inv f" and clk: "clock_contract pf"
  shows "ok (\<lambda>(rc, f', w'). removed f f') (RemoveForwardingHeaderFromGatewayMessages pf f w)"
proof (cases "isFull (f_clientNetworkSendBuffer f)")
  case True
  then have "removed f f"
    using inv full_not_empty [OF _ True] by (auto simp: removed_def keeps_refl forwarder_inv_def buffer_ok_def)
  then show ?thesis
    using True by (simp add: RemoveForwardingHeaderFromGatewayMessages_def)
next
  case False
  let ?r = "f_gatewayNetworkReceiveBuffer f" and ?s = "f_clientNetworkSendBuffer f"
  have bufs: "buffer_ok message_ok ?r" "buffer_ok message_shape ?s" "lists_inv f"
    "\<forall>a. cn_broadcast_address (f_clientNetwork f) = Some a \<longrightarrow> address_ok a"
    using inv by (simp_all add: forwarder_inv_def drivers_ok_def)
  obtain rc q m where p: "pop ?r zero_message = Inr (rc, q, m)" "buffer_ok message_ok q"
    "rc = 0 \<and> message_ok m \<and> length (contents ?r) = Suc (length (contents q)) \<or> rc = -1 \<and> q = ?r \<and> contents ?r = []"
    using ok_pop [OF bufs(1), of zero_message] by (auto simp: ok_def)
  let ?f = "f\<lparr>f_gatewayNetworkReceiveBuffer := q\<rparr>"
  have l: "lists_inv ?f"
    using bufs(3) by (simp add: lists_inv_def)
  show ?thesis
  proof (cases "rc = 0")
    case rc: False
    then have "removed f ?f"
      using p inv by (auto simp: removed_def keeps_def to_clients_def isEmpty_contents forwarder_inv_defs
          status_defs simp flip: length_contents)
    then show ?thesis
      using False rc p(1) by (simp add: RemoveForwardingHeaderFromGatewayMessages_def)
  next
    case True
    then have m: "message_ok m" "rb_item_count ?r = Suc (rb_item_count q)"
      using p(3) by auto
    have drop: "removed f ?f" "forwarder_inv ?f"
      using p(2) m inv by (auto simp: removed_def keeps_def to_clients_def forwarder_inv_defs status_defs)
    have move: "removed f (?f\<lparr>f_clientNetworkSendBuffer := q'\<rparr>)"
      if "buffer_ok message_shape q'" "length (contents q') = Suc (length (contents ?s))" for q'
      using p(2) m inv that
      by (auto simp: removed_def keeps_def to_clients_def forwarder_inv_defs status_defs isEmpty_def)
    obtain urc gs uw where u: "MqttSnForwardingUpdateDiscoveredGw pf ?f m w
        = Inr (urc, ?f\<lparr>f_discovered_gw_list := gs\<rparr>, uw)" "gateways_inv gs"
      using ok_update_discovered [OF drop(2) clk m(1), of w] by (auto simp: ok_def)
    obtain rrc c where a: "remove_mqtt_sn_forwarder_encapsulation_frame m zero_message
        (cn_broadcast_address (f_clientNetwork f)) = Inr (rrc, c)" "message_shape c"
      using remove_frame_ok [OF m(1) bufs(4)] by (auto simp: ok_def)
    obtain q' where q': "put ?s c = Inr (0, q')" "buffer_ok message_shape q'"
      "length (contents q') = Suc (length (contents ?s))"
      using ok_put [OF bufs(2), of c] a(2) put_appends [of ?s c] False bufs(2)
      by (auto simp: ok_def buffer_ok_def)
    have moved: "removed f (f\<lparr>f_gatewayNetworkReceiveBuffer := q, f_discovered_gw_list := gs,
        f_clientNetworkSendBuffer := q'\<rparr>)"
      using removed_list [OF move [OF q'(2,3)] u(2)] by (cases f) simp
    show ?thesis
      using False p(1) True gateway_addr_refused_eq [OF l] a(1) q'(1) drop(1) moved u
        removed_list [OF drop(1) u(2)]
      by (simp add: RemoveForwardingHeaderFromGatewayMessages_def Let_def split: prod.splits)
  qed
qed

end
