(* ===== verification/Client_Logic.thy ===== *)
theory Client_Logic
  imports Client_Loop Forwarder_Safety
begin

text \<open>
  What the calls on the client keep, with the triples of \<open>Call_Monad\<close>.

  The invariant \<open>client_inv\<close> is indexed by what holds for a stretch of time: whether the gateway may send
  a REGISTER, how many registrations there are at most, and whether the client has its identifier.
\<close>

lemma keeps_mem: "ok (\<lambda>_. True) r \<Longrightarrow> maintains P (cl_mem r)"
  by (auto simp: ok_def keeps_return)

section \<open>The invariant\<close>

definition access_inv :: "'a access_list \<Rightarrow> bool" where
  "access_inv l \<longleftrightarrow> length (al_items l) = ACCESS_LIST_LENGTH \<and> al_max_len l \<le> ACCESS_LIST_LENGTH
     \<and> al_len l \<le> ACCESS_LIST_LENGTH"

text \<open>A gateway info in which an answer arrives has room for an address.\<close>

definition gwinfo_room :: "MqttSnClientReceivedGwInfo \<Rightarrow> bool" where
  "gwinfo_room r \<longleftrightarrow> length (gwi_gwAdd (rg_received_gw_info r)) = device_address_size"

definition await_ok :: "MqttSnClientAwaitMessage \<Rightarrow> bool" where
  "await_ok m \<longleftrightarrow> (\<forall>r. ac_dst_gwinfo (am_await_context m) = Some r \<longrightarrow> gwinfo_room r)"

text \<open>
  The last two bytes of the identifier's array are zero: it is terminated, and the terminator is not the
  last byte, which the writer of CONNECT looks behind.
\<close>

definition client_id_ok :: "u8 list \<Rightarrow> bool" where
  "client_id_ok p \<longleftrightarrow> length p = MQTT_SN_MAX_CLIENT_ID_LENGTH \<and> p ! 22 = 0 \<and> p ! 23 = 0"

definition client_buffer_inv :: "MqttSnClientBuffer \<Rightarrow> bool" where
  "client_buffer_inv b \<longleftrightarrow> client_id_ok (cb_client_id b)
     \<and> length (cb_will_topic b) = MQTT_SN_CLIENT_MAX_WILL_TOPIC_LENGTH \<and> cb_will_msg b = None"

text \<open>The states in which a pass uses the client's identifier, or can reach one that does.\<close>

definition needs_client_id :: "MQTT_SN_CLIENT_STATUS \<Rightarrow> bool" where
  "needs_client_id status \<longleftrightarrow> status = MQTT_SN_CLIENT_CONNECTION_STATUS_GATEWAY_LOST
     \<or> client_status_code status \<ge> client_status_code MQTT_SN_CLIENT_CONNECTION_STATUS_CONNECTED"

definition message_kind :: "u8 list \<Rightarrow> nat \<Rightarrow> MQTT_SN_MESSAGE_TYPE option" where
  "message_kind data n =
     (case parse_header empty_header ANY_MESSAGE_TYPE data n 0 of
        Inl _ \<Rightarrow> None | Inr (rc, h, _) \<Rightarrow> if rc < 0 then None else Some (h_msg_type h))"

definition REGISTER_LIMIT :: nat where
  "REGISTER_LIMIT = 262"

text \<open>
  What the driver of the client's network promises: addresses of their size, and no more than the array
  holds.
\<close>

definition received_ok :: "u8 list \<Rightarrow> u8 list \<Rightarrow> int \<Rightarrow> bool" where
  "received_ok from data r \<longleftrightarrow> address_ok from \<and> length data = MQTT_SN_MAXIMUM_MESSAGE_DATA_LENGTH
     \<and> r \<le> int MQTT_SN_MAXIMUM_MESSAGE_DATA_LENGTH"

definition client_receive_contract :: "'w net_receive \<Rightarrow> bool" where
  "client_receive_contract receive \<longleftrightarrow>
     (\<forall>t w. case receive empty_rx MQTT_SN_MAXIMUM_MESSAGE_DATA_LENGTH t w of
        (r, (from, to, data, signal), w') \<Rightarrow> received_ok from data r)"

text \<open>
  What the gateway sends is no promise of the driver: the network delivers a REGISTER of more than \<open>n\<close>
  bytes, in some state of the world.
\<close>

definition delivers_register :: "nat \<Rightarrow> 'w net_receive \<Rightarrow> bool" where
  "delivers_register n receive \<longleftrightarrow>
     (\<exists>t w. case receive empty_rx MQTT_SN_MAXIMUM_MESSAGE_DATA_LENGTH t w of
        (r, (from, to, data, signal), w') \<Rightarrow>
          int n < r \<and> message_kind data (nat r) = Some REGISTER)"

text \<open>
  A network of the client with the gateway behind it: it sends no REGISTER, or, with \<open>reg\<close>, none of the
  longest.
\<close>

definition client_network_ok :: "bool \<Rightarrow> 'w MqttSnGatewayNetworkInterface \<Rightarrow> bool" where
  "client_network_ok reg n \<longleftrightarrow>
     (\<forall>r. gn_receive n = Some r \<longrightarrow> client_receive_contract r
        \<and> \<not> delivers_register (if reg then REGISTER_LIMIT else 0) r)"

definition registrations_inv :: "nat \<Rightarrow> MqttSnClientRegistration list \<Rightarrow> nat \<Rightarrow> bool" where
  "registrations_inv most rs len \<longleftrightarrow> length rs = MQTT_SN_CLIENT_MAX_REGISTRATIONS
     \<and> (\<forall>r \<in> set rs. length (cr_topic_name r) = MQTT_SN_CLIENT_MAX_REGISTRATION_TOPIC_NAME_LENGTH)
     \<and> len \<le> most \<and> most \<le> MQTT_SN_CLIENT_MAX_REGISTRATIONS"

definition access_lists_inv :: "'w MqttSnClient \<Rightarrow> bool" where
  "access_lists_inv c \<longleftrightarrow> access_inv (c_gw_id_whitelist c) \<and> access_inv (c_gw_addr_whitelist c)
     \<and> access_inv (c_gw_id_blacklist c) \<and> access_inv (c_gw_addr_blacklist c)"

definition await_table_inv :: "MqttSnClientAwaitMessage list \<Rightarrow> bool" where
  "await_table_inv msgs \<longleftrightarrow> length msgs = MQTT_SN_CLIENT_MAX_MESSAGES_IN_FLIGHT
     \<and> (\<forall>m \<in> set msgs. await_ok m)"

definition client_inv :: "bool \<Rightarrow> nat \<Rightarrow> bool \<Rightarrow> 'w MqttSnClient \<Rightarrow> bool" where
  "client_inv reg most named c \<longleftrightarrow>
     await_table_inv (c_await_msg c) \<and> access_lists_inv c \<and> gateways_inv (c_discovered_gw_list c)
     \<and> registrations_inv most (c_registrations c) (c_registrations_len c)
     \<and> client_buffer_inv (c_client_buffer c) \<and> \<not> c_will_msg c
     \<and> client_network_ok reg (c_gatewayNetwork c)
     \<and> (needs_client_id (c_status c) \<or> named \<longrightarrow> c_client_id c)"

definition state_inv :: "bool \<Rightarrow> nat \<Rightarrow> bool \<Rightarrow> 'w MqttSnClient \<times> 'w \<Rightarrow> bool" where
  "state_inv reg most named s \<longleftrightarrow> client_inv reg most named (fst s)"

lemmas client_inv_parts = client_inv_def access_lists_inv_def

lemma needs_client_id_simps [simp]:
  "needs_client_id MQTT_SN_CLIENT_CONNECTION_STATUS_GATEWAY_LOST"
  "needs_client_id MQTT_SN_CLIENT_CONNECTION_STATUS_CONNECTED"
  "needs_client_id MQTT_SN_CLIENT_CONNECTION_STATUS_ASLEEP"
  "needs_client_id MQTT_SN_CLIENT_CONNECTION_STATUS_AWAKE"
  "\<not> needs_client_id MQTT_SN_CLIENT_CONNECTION_STATUS_DISCONNECTED"
  "\<not> needs_client_id MQTT_SN_CLIENT_CONNECTION_STATUS_INITALIZED"
  "\<not> needs_client_id MQTT_SN_CLIENT_CONNECTION_STATUS_UNINITALIZED"
  by (simp_all add: needs_client_id_def)

lemma keeps_put_inv:
  "(\<And>c. client_inv reg most named c \<Longrightarrow> client_inv reg most named (f c))
   \<Longrightarrow> maintains (state_inv reg most named) (cl_put f)"
  by (rule keeps_put) (simp add: state_inv_def)

lemma keeps_world_inv [maintains]: "maintains (state_inv reg most named) (cl_world f)"
  by (rule keeps_world) (simp add: state_inv_def)

lemma gives_get_inv [dest!]:
  "gives (state_inv reg most named) (cl_get f) x \<Longrightarrow> \<exists>c. client_inv reg most named c \<and> x = f c"
  by (drule gives_get) (auto simp: state_inv_def)

lemma keeps_time [maintains]: "maintains (state_inv reg most named) (cl_time env)"
  unfolding cl_time_def by (rule keeps_world_inv)

text \<open>A timestamp that can be read is positive.\<close>

lemma gives_time:
  assumes "clock_contract (ce_platform env)" "gives P (cl_time env) (rc, t)" "\<not> rc < 0"
  shows "0 < t"
proof -
  obtain w w' where "get_timestamp_s (ce_platform env) w = ((rc, t), w')"
    using assms(2) by (auto simp: gives_def cl_time_def cl_world_def case_prod_unfold Let_def prod_eq_iff)
  then show ?thesis
    using timestamp_positive [OF assms(1)] assms(3) by blast
qed

end
