(* ===== verification/Client_Safety.thy ===== *)
theory Client_Safety
  imports Client_Logic
begin

text \<open>
  The client stays inside its memory: every operation below a pass keeps the invariant and makes no
  access outside an object. The facts follow the order of the theories of the model.
\<close>

section \<open>The table of awaited messages\<close>

lemma ok_rd_arr: "i < length a \<Longrightarrow> R (a ! i) \<Longrightarrow> ok R (rd_arr a i)"
  by simp

lemma await_fd_valid_iff: "await_fd_valid fd \<longleftrightarrow> 0 \<le> fd \<and> fd < int MQTT_SN_CLIENT_MAX_MESSAGES_IN_FLIGHT"
  by (auto simp: await_fd_valid_def)

lemma client_inv_await: "client_inv reg most named c \<Longrightarrow> await_table_inv (c_await_msg c)"
  by (simp add: client_inv_def)

lemma keeps_get_await_msg [maintains]:
  "await_fd_valid fd \<Longrightarrow> maintains (state_inv reg most named) (get_await_msg fd)"
  unfolding get_await_msg_def
  by (intro maintains keeps_mem) (auto simp: client_inv_parts await_table_inv_def await_fd_valid_iff)

lemma gives_get_await_msg:
  "gives (state_inv reg most named) (get_await_msg fd) m \<Longrightarrow> await_ok m"
  unfolding get_await_msg_def
  by (drule gives_bind, rule maintains)
    (auto simp: client_inv_parts await_table_inv_def rd_arr_def split: if_splits)

lemma keeps_put_await_msg:
  assumes "await_fd_valid fd" "\<And>m. await_ok m \<Longrightarrow> await_ok (f m)"
  shows "maintains (state_inv reg most named) (put_await_msg fd f :: ('w, unit) client_call)"
proof -
  have "await_table_inv (msgs[nat fd := f m])" if "await_table_inv msgs" "await_ok m" for msgs m
    using that assms by (auto simp: await_table_inv_def dest!: set_update_subset_insert [THEN subsetD])
  then have "client_inv reg most named (c\<lparr>c_await_msg := msgs[nat fd := f m]\<rparr>)"
    if "client_inv reg most named c" "await_table_inv msgs" "await_ok m" for c :: "'w MqttSnClient" and msgs m
    using that by (simp add: client_inv_parts)
  moreover have "nat fd < length msgs" if "await_table_inv msgs" for msgs
    using that assms(1) by (auto simp: await_table_inv_def await_fd_valid_iff)
  ultimately show ?thesis
    unfolding put_await_msg_def using assms(1)
    by (intro maintains keeps_mem keeps_put_inv)
      (auto simp: wr_arr_def dest!: gives_get_await_msg dest: client_inv_await split: if_splits)
qed

lemma keeps_get_await_context [maintains]: "maintains (state_inv reg most named) (get_await_context fd)"
  unfolding get_await_context_def by (intro maintains) auto

lemma gives_get_await_context:
  assumes "gives (state_inv reg most named) (get_await_context fd) (Some ctx)"
  shows "await_fd_valid fd \<and> (\<forall>r. ac_dst_gwinfo ctx = Some r \<longrightarrow> gwinfo_room r)"
proof -
  have v: "await_fd_valid fd"
    using assms by (auto simp: get_await_context_def split: if_splits)
  show ?thesis
    using assms v unfolding get_await_context_def
    by (auto simp: await_ok_def dest!: gives_bind gives_get_await_msg intro: maintains)
qed

lemma keeps_get_await_status [maintains]: "maintains (state_inv reg most named) (get_await_status fd)"
  unfolding get_await_status_def by (intro maintains) auto

lemma keeps_set_await [maintains]:
  "maintains (state_inv reg most named) (set_await_msg_status fd status)"
  "maintains (state_inv reg most named) (set_await_msg_return_code fd rc)"
  "maintains (state_inv reg most named) (set_await_msg_granted_qos fd qos)"
  "maintains (state_inv reg most named) (set_await_msg_topic_id fd topic_id)"
  "maintains (state_inv reg most named) (free_await_fd fd)"
  unfolding set_await_msg_status_def set_await_msg_return_code_def set_await_msg_granted_qos_def
    set_await_msg_topic_id_def free_await_fd_def
  by (intro maintains keeps_put_await_msg; simp add: await_ok_def freed_await_msg_def zero_await_context_def)+

lemma ok_is_await_loop:
  "length msgs = MQTT_SN_CLIENT_MAX_MESSAGES_IN_FLIGHT \<Longrightarrow>
   ok (\<lambda>fd. fd < 0 \<or> await_fd_valid fd) (is_await_loop msgs msg_type msg_id i)"
  by (induction msgs msg_type msg_id i rule: is_await_loop.induct)
    (subst is_await_loop.simps, auto simp: await_fd_valid_iff)

lemma ok_True: "ok P r \<Longrightarrow> ok (\<lambda>_. True) r"
  by (auto simp: ok_def)

lemma okD: "ok P r \<Longrightarrow> r = Inr x \<Longrightarrow> P x"
  by simp

lemma keeps_is_await_msg [maintains]: "maintains (state_inv reg most named) (is_await_msg msg_type msg_id)"
  unfolding is_await_msg_def
  by (intro maintains keeps_mem ok_True [OF ok_is_await_loop])
    (auto simp: client_inv_parts await_table_inv_def)

lemma gives_is_await_msg [dest!]:
  "gives (state_inv reg most named) (is_await_msg msg_type msg_id) fd \<Longrightarrow> fd < 0 \<or> await_fd_valid fd"
  unfolding is_await_msg_def
  by (drule gives_bind, rule maintains)
    (auto simp: client_inv_parts await_table_inv_def dest!: okD [OF ok_is_await_loop])

lemma ok_acquire_slot_loop:
  "await_table_inv msgs \<Longrightarrow>
   ok (\<lambda>(fd, msgs'). (fd < 0 \<or> await_fd_valid fd) \<and> await_table_inv msgs')
     (acquire_slot_loop msg_type msg_id i msgs)"
proof (induction msg_type msg_id i msgs rule: acquire_slot_loop.induct)
  case (1 msg_type msg_id i msgs)
  have "await_table_inv (msgs[i := (msgs ! i)\<lparr>am_msg_type := msg_type, am_msg_id := msg_id,
      am_status := MQTT_SN_CLIENT_AWAIT_MESSAGE_STATUS_AWAIT\<rparr>])"
    if i: "i < MQTT_SN_CLIENT_MAX_MESSAGES_IN_FLIGHT"
  proof -
    have "await_ok (msgs ! i)"
      using 1(2) i by (simp add: await_table_inv_def)
    then show ?thesis
      using 1(2) by (auto simp: await_table_inv_def await_ok_def dest!: set_update_subset_insert [THEN subsetD])
  qed
  then show ?case
    using 1 by (subst acquire_slot_loop.simps) (auto simp: await_fd_valid_iff await_table_inv_def)
qed

lemma keeps_acquire_await_fd [maintains]:
  "maintains (state_inv reg most named) (acquire_await_fd msg_type msg_id)"
  unfolding acquire_await_fd_def
  by (intro maintains keeps_mem keeps_put_inv ok_True [OF ok_acquire_slot_loop])
    (auto simp: client_inv_parts dest!: okD [OF ok_acquire_slot_loop, rotated])

lemma gives_acquire_await_fd [dest!]:
  "gives (state_inv reg most named) (acquire_await_fd msg_type msg_id) fd \<Longrightarrow> fd < 0 \<or> await_fd_valid fd"
  unfolding gives_def acquire_await_fd_def
  by (auto simp: cl_bind_def cl_get_def cl_put_def cl_return_def state_inv_def client_inv_def cl_mem_def
      split: sum.split_asm cerr.split_asm dest!: okD [OF ok_acquire_slot_loop, rotated])

section \<open>Waiting and sending\<close>

lemma keeps_await_easy_loop:
  "maintains (state_inv reg most named) loop \<Longrightarrow>
   maintains (state_inv reg most named) (await_easy_loop env loop k fd timeout_ms start)"
  by (induction k arbitrary: start) (auto simp: Let_def intro!: maintains)

lemma keeps_await_easy [maintains]:
  "maintains (state_inv reg most named) loop \<Longrightarrow>
   maintains (state_inv reg most named) (get_await_status_timeout_ms_easy env loop k fd timeout_ms)"
  unfolding get_await_status_timeout_ms_easy_def by (intro maintains keeps_await_easy_loop)

lemma keeps_await_timeout:
  "maintains (state_inv reg most named) loop \<Longrightarrow>
   maintains (state_inv reg most named) (get_await_status_timeout_ms env loop k fd start timeout_ms)"
  by (induction k) (auto simp: Let_def intro!: maintains)

lemma keeps_acquire_loop [maintains]:
  "maintains (state_inv reg most named) loop \<Longrightarrow>
   maintains (state_inv reg most named) (acquire_loop loop k msg_type msg_id)"
  by (induction k) (auto intro!: maintains)

lemma gives_acquire_loop:
  fixes loop :: "'w client_loop"
  assumes "maintains (state_inv reg most named) loop"
  shows "gives (state_inv reg most named) (acquire_loop loop k msg_type msg_id) (Some fd) \<Longrightarrow>
    await_fd_valid fd"
proof (induction k)
  case (Suc k)
  from gives_bind [OF Suc.prems [unfolded acquire_loop.simps] keeps_acquire_await_fd] obtain a where
    a: "gives (state_inv reg most named) (acquire_await_fd msg_type msg_id :: ('w, int) client_call) a"
    and cont: "gives (state_inv reg most named) (if a < 0 then cl_bind loop (\<lambda>rc. if loop_code rc < 0
      then cl_return None else acquire_loop loop k msg_type msg_id) else cl_return (Some a)) (Some fd)"
    by (elim exE conjE) (rule that)
  show ?case
  proof (cases "a < 0")
    case True
    then show ?thesis
      using gives_bind [OF cont [unfolded if_P [OF True]] assms] Suc.IH by (auto split: if_splits)
  next
    case False
    then show ?thesis
      using cont a by auto
  qed
qed simp

lemma keeps_acquire_once [maintains]:
  "maintains (state_inv reg most named) loop \<Longrightarrow>
   maintains (state_inv reg most named) (acquire_once loop msg_type msg_id)"
  unfolding acquire_once_def by (intro maintains)

lemma keeps_send_to_address [maintains]: "maintains (state_inv reg most named) (send_to_address to data n)"
  by (auto simp: maintains_def hoare_def send_to_address_def state_inv_def client_inv_parts Let_def
      client_network_ok_def GatewayNetworkSendTo_def split: prod.splits option.splits if_splits)

lemma keeps_sends [maintains]:
  "maintains (state_inv reg most named) (send_to_gateway_without_retry data n)"
  "maintains (state_inv reg most named) (send_to_broadcast data n)"
  unfolding send_to_gateway_without_retry_def send_to_broadcast_def by (intro maintains)+

lemma keeps_lose_gateway [maintains]: "maintains (state_inv reg most named) (cl_put lose_gateway)"
  by (rule keeps_put_inv) (auto simp: lose_gateway_def client_inv_parts needs_client_id_def)

text \<open>The message may be sent again with the DUP flag.\<close>

definition sendable :: "u8 list \<Rightarrow> nat \<Rightarrow> bool" where
  "sendable data n \<longleftrightarrow> safe (add_dup_flag_to_mqtt_sn_message data n)"

lemma keeps_send_retry_loop:
  assumes "maintains (state_inv reg most named) loop"
  shows "retry \<le> 1 \<longrightarrow> sendable data n \<Longrightarrow>
    maintains (state_inv reg most named) (send_retry_loop env loop k fd data n retry)"
proof (induction "65536 - retry" arbitrary: retry data rule: less_induct)
  case less
  have "maintains (state_inv reg most named) (send_retry_loop env loop k fd data' n (retry + 1))"
    if "retry < unat c" "retry = 0 \<longrightarrow> data' = data" for c :: u16 and data'
    using less.hyps [of "retry + 1" data'] less.prems that u16_lt [of c] by auto
  then show ?case
    using less.prems assms
    by (subst send_retry_loop.simps) (auto simp: Let_def sendable_def intro!: maintains keeps_call)
qed

lemma keeps_send_with_retry [maintains]:
  "maintains (state_inv reg most named) loop \<Longrightarrow> sendable data n \<Longrightarrow>
   maintains (state_inv reg most named) (send_to_gateway_with_retry env loop k fd data n)"
  unfolding send_to_gateway_with_retry_def by (rule keeps_send_retry_loop) simp_all

lemma keeps_request [maintains]:
  "maintains (state_inv reg most named) loop \<Longrightarrow> sendable data n \<Longrightarrow>
   maintains (state_inv reg most named) (request env loop k msg_type msg_id data n)"
  unfolding request_def by (intro maintains)

section \<open>Handlers\<close>

definition readable :: "MqttSnMessageData \<Rightarrow> bool" where
  "readable msg \<longleftrightarrow> address_ok (md_from msg) \<and> length (md_data msg) = MQTT_SN_MAXIMUM_MESSAGE_DATA_LENGTH
     \<and> md_data_length msg \<le> MQTT_SN_MAXIMUM_MESSAGE_DATA_LENGTH"

lemma readable_bounds:
  "readable msg \<Longrightarrow> md_data_length msg \<le> length (md_data msg)"
  "readable msg \<Longrightarrow> md_data msg \<noteq> [1, 0, 3]"
  by (auto simp: readable_def MQTT_SN_MAXIMUM_MESSAGE_DATA_LENGTH_def)

lemma safe_client_parsers:
  assumes "readable msg"
  shows "safe (parse_pubrel_bytes (md_data msg) (md_data_length msg))"
    "safe (parse_pubrec_bytes (md_data msg) (md_data_length msg))"
    "safe (parse_pubcomp_bytes (md_data msg) (md_data_length msg))"
    "safe (parse_unsuback_byte (md_data msg) (md_data_length msg))"
    "safe (parse_suback (md_data msg) (md_data_length msg))"
    "safe (parse_puback (md_data msg) (md_data_length msg))"
    "safe (parse_regack (md_data msg) (md_data_length msg))"
    "safe (parse_connack (md_data msg) (md_data_length msg))"
    "safe (parse_disconnect_bytes (md_data msg) (md_data_length msg))"
    "safe (parse_advertise (md_data msg) (md_data_length msg))"
    "safe (parse_searchgw (md_data msg) (md_data_length msg))"
    "safe (parse_gwinfo zero_gwinfo (md_data msg) (md_data_length msg))"
    "safe (parse_will_topic_req_byte (md_data msg) (md_data_length msg))"
    "safe (parse_will_msg_req_byte (md_data msg) (md_data_length msg))"
    "safe (parse_publish_byte message_buffer MQTT_SN_MAXIMUM_MESSAGE_DATA_LENGTH (md_data msg)
       (md_data_length msg))"
  using readable_bounds [OF assms] safe_parse_msg_ids safe_parse_will_req
  by (simp_all add: safe_parse_unsuback safe_parse_suback safe_parse_puback safe_parse_regack
      safe_parse_connack safe_parse_disconnect safe_parse_advertise safe_parse_searchgw
      safe_parse_gwinfo safe_parse_publish_byte zero_gwinfo_def zero_address_def length_message_buffer)

lemma safe_ping_parsers:
  assumes "readable msg"
  shows "safe (parse_ping_resp_byte (md_data msg) (md_data_length msg))"
    "safe (parse_ping_req_byte (md_data msg) (md_data_length msg))"
    "safe (parse_header empty_header ANY_MESSAGE_TYPE (md_data msg) (md_data_length msg) 0)"
  unfolding codec_defs Let_def by (intro safe_intros readable_bounds assms)+

lemma keeps_parse [maintains]:
  "safe r \<Longrightarrow> (\<And>y. r = Inr y \<Longrightarrow> maintains P (next y)) \<Longrightarrow> maintains P (cl_parse r next)"
  unfolding cl_parse_def by (intro maintains keeps_call) auto

lemma keeps_check [maintains]: "maintains P m \<Longrightarrow> maintains P next \<Longrightarrow> maintains P (cl_check m next)"
  unfolding cl_check_def by (intro maintains)

lemma keeps_await_success [maintains]:
  "(\<And>fd. await_fd_valid fd \<Longrightarrow> maintains (state_inv reg most named) (next fd))
   \<Longrightarrow> maintains (state_inv reg most named) (await_success msg_type msg_id next)"
  unfolding await_success_def by (intro maintains) auto

lemma keeps_stamp:
  "(\<And>t c. client_inv reg most named c \<Longrightarrow> client_inv reg most named (store t c))
   \<Longrightarrow> maintains (state_inv reg most named) (cl_stamp env store)"
  unfolding cl_stamp_def by (intro maintains keeps_put_inv)

lemma keeps_acknowledgements:
  assumes "readable msg"
  shows "maintains (state_inv reg most named) (parse_and_handle_pubrel msg)"
    "maintains (state_inv reg most named) (parse_and_handle_unsuback msg)"
    "maintains (state_inv reg most named) (parse_and_handle_suback msg)"
    "maintains (state_inv reg most named) (parse_and_handle_pubcomp msg)"
    "maintains (state_inv reg most named) (parse_and_handle_pubrec msg)"
    "maintains (state_inv reg most named) (parse_and_handle_puback msg)"
    "maintains (state_inv reg most named) (parse_and_handle_regack msg)"
    "maintains (state_inv reg most named) (parse_and_handle_will_message_request msg)"
    "maintains (state_inv reg most named) (parse_and_handle_will_topic_request msg)"
  unfolding parse_and_handle_pubrel_def parse_and_handle_unsuback_def parse_and_handle_suback_def
    parse_and_handle_pubcomp_def parse_and_handle_pubrec_def parse_and_handle_puback_def
    parse_and_handle_regack_def parse_and_handle_will_message_request_def
    parse_and_handle_will_topic_request_def
  by (intro maintains safe_client_parsers assms)+

lemma client_inv_simps [simp]:
  assumes "client_inv reg most named c"
  shows "client_inv reg most named (c\<lparr>c_last_ping_resp_received_s := t\<rparr>)"
    "client_inv reg most named (c\<lparr>c_last_ping_req_received := t\<rparr>)"
    "client_inv reg most named (c\<lparr>c_ping_req_await_msg := m\<rparr>)"
    "client_inv reg most named (c\<lparr>c_searchgw_reply_await_msg := m\<rparr>)"
    "client_inv reg most named (c\<lparr>c_searchgw_reply_await_last_s := t\<rparr>)"
    "client_inv reg most named (c\<lparr>c_awake_ping_request_send_time_s := t\<rparr>)"
    "client_inv reg most named (c\<lparr>c_awake_any_msg_received := b\<rparr>)"
    "client_inv reg most named (c\<lparr>c_auto_reconnect_congestion_wait_s := t\<rparr>)"
    "client_inv reg most named (c\<lparr>c_auto_reconnect_congestion := i\<rparr>)"
    "client_inv reg most named (c\<lparr>c_auto_reconnect_tried := i\<rparr>)"
    "client_inv reg most named (c\<lparr>c_default_signal_strength := i\<rparr>)"
    "client_inv reg most named (c\<lparr>c_msg_counter := w\<rparr>)"
    "client_inv reg most named (c\<lparr>c_mqtt_sn_gateway_address := a\<rparr>)"
    "client_inv reg most named (c\<lparr>c_sleep_duration := w\<rparr>)"
    "\<not> needs_client_id st \<Longrightarrow> client_inv reg most named (c\<lparr>c_status := st\<rparr>)"
    "c_client_id c \<Longrightarrow> client_inv reg most named (c\<lparr>c_status := st\<rparr>)"
  using assms by (auto simp: client_inv_parts)

lemma client_inv_id: "client_inv reg most named c \<Longrightarrow> needs_client_id (c_status c) \<Longrightarrow> c_client_id c"
  by (simp add: client_inv_def)

text \<open>While the client has its identifier, any state of the connection is allowed.\<close>

lemma keeps_get_named:
  assumes "\<And>c. client_inv reg most named c \<Longrightarrow> maintains (state_inv reg most (named \<or> c_client_id c)) (g (f c))"
  shows "maintains (state_inv reg most named) (cl_bind (cl_get f) g)"
proof -
  have s: "state_inv reg most named s" if "state_inv reg most (named \<or> b) s" for s :: "'a MqttSnClient \<times> 'a" and b
    using that by (auto simp: state_inv_def client_inv_def)
  show ?thesis
    unfolding maintains_def
  proof (rule hoare_get)
    fix s :: "'a MqttSnClient \<times> 'a"
    assume i: "state_inv reg most named s"
    then have "state_inv reg most (named \<or> c_client_id (fst s)) s"
      by (simp add: state_inv_def client_inv_def)
    moreover have "maintains (state_inv reg most (named \<or> c_client_id (fst s))) (g (f (fst s)))"
      using assms i by (simp add: state_inv_def)
    ultimately show "hoare (\<lambda>s'. s' = s) (g (f (fst s))) (\<lambda>_. state_inv reg most named)"
      unfolding maintains_def by (rule hoare_from [OF hoare_mono, rotated -1]) (auto dest: s)
  qed
qed

lemma client_inv_named [simp]:
  "client_inv reg most True c \<Longrightarrow> client_inv reg most True (c\<lparr>c_status := st\<rparr>)"
  by (auto simp: client_inv_parts)

section \<open>The connection\<close>

lemma generate_pings:
  "generate_ping_req (replicate MQTT_SN_MESSAGE_PINGREQ_WO_CLIENTID_LENGTH 0)
     MQTT_SN_MESSAGE_PINGREQ_WO_CLIENTID_LENGTH = Inr (bare_wire PINGREQ (), 2)"
  "generate_ping_resp (replicate MQTT_SN_MESSAGE_PINGREQ_WO_CLIENTID_LENGTH 0)
     MQTT_SN_MESSAGE_PINGREQ_WO_CLIENTID_LENGTH = Inr (bare_wire PINGRESP (), 2)"
  by (simp_all add: codec_defs gen_simps bare_wire_def patched_def)

lemma keeps_connection_handlers:
  assumes "readable msg"
  shows "maintains (state_inv reg most named) (client_parse_and_handle_ping_resp env msg)"
    "maintains (state_inv reg most named) (parse_and_handle_connack env msg)"
    "maintains (state_inv reg most named) (client_parse_and_handle_ping_req env msg)"
    "maintains (state_inv reg most named) (parse_and_handle_disconnect msg)"
  unfolding client_parse_and_handle_ping_resp_def parse_and_handle_connack_def
    client_parse_and_handle_ping_req_def parse_and_handle_disconnect_def generate_pings
  by (intro maintains safe_client_parsers safe_ping_parsers assms keeps_stamp keeps_put_inv keeps_call; simp)+

lemma keeps_handle_client_connection: "maintains (state_inv reg most named) (handle_client_connection env)"
  unfolding handle_client_connection_def generate_pings Let_def
  by (rule keeps_get_named, intro maintains keeps_call keeps_put_inv)
    (auto dest: client_inv_id)

section \<open>Gateways\<close>

lemma search_access: "access_inv l \<Longrightarrow> \<exists>b. search_loop (al_items l) (al_len l) x 0 = Inr b"
  by (simp add: access_inv_def search_loop_eq)

lemma client_inv_access:
  assumes "client_inv reg most named c"
  shows "access_inv (c_gw_id_whitelist c)" "access_inv (c_gw_addr_whitelist c)"
    "access_inv (c_gw_id_blacklist c)" "access_inv (c_gw_addr_blacklist c)"
  using assms by (simp_all add: client_inv_parts)

lemma ok_contains: "access_inv l \<Longrightarrow> ok (\<lambda>_. True) (al_contains l x)"
  using search_access [of l x] by (auto simp: al_contains_def)

lemma keeps_contains [maintains]:
  "maintains (state_inv reg most named) (MqttSnClientWhitelistContainsGwId i)"
  "maintains (state_inv reg most named) (MqttSnClientBlacklistContainsGwId i)"
  "maintains (state_inv reg most named) (MqttSnClientWhitelistContainsNetworkAddress a)"
  "maintains (state_inv reg most named) (MqttSnClientBlacklistContainsNetworkAddress a)"
  unfolding MqttSnClientWhitelistContainsGwId_def MqttSnClientBlacklistContainsGwId_def
    MqttSnClientWhitelistContainsNetworkAddress_def MqttSnClientBlacklistContainsNetworkAddress_def
  by (intro maintains keeps_mem ok_contains; auto dest: client_inv_access)+

lemma keeps_gw_id_dropped [maintains]: "maintains (state_inv reg most named) (gw_id_dropped i)"
  unfolding gw_id_dropped_def by (intro maintains)

lemma keeps_sender_dropped [maintains]: "maintains (state_inv reg most named) (sender_dropped a)"
  unfolding sender_dropped_def by (intro maintains)

lemma client_inv_gateways: "client_inv reg most named c \<Longrightarrow> gateways_inv (c_discovered_gw_list c)"
  by (simp add: client_inv_def)

lemma client_inv_gateways_update:
  "client_inv reg most named c \<Longrightarrow> gateways_inv l \<Longrightarrow> client_inv reg most named (c\<lparr>c_discovered_gw_list := l\<rparr>)"
  by (simp add: client_inv_parts)

lemma keeps_update_gateways:
  assumes "0 < t" "from = None \<longrightarrow> advertise = None \<and> gw_info = None" "\<forall>a. from = Some a \<longrightarrow> address_ok a"
  shows "maintains (state_inv reg most named) (update_gateways from sig advertise gw_info t)"
proof -
  have u: "ok gateways_inv (MqttSnDiscoveredGatewayListUpdate l from sig advertise gw_info t)"
    if "gateways_inv l" for l
    using that assms by (intro ok_update_list)
  then show ?thesis
    unfolding update_gateways_def
    by (intro maintains keeps_mem keeps_put_inv)
      (auto intro: ok_True u client_inv_gateways client_inv_gateways_update okD [OF u])
qed

lemma keeps_deliver_advertise [maintains]:
  "maintains (state_inv reg most named) (deliver_advertise env adv fd)"
  unfolding deliver_advertise_def
  by (intro maintains keeps_put_await_msg) (auto simp: await_ok_def dest: gives_get_await_context)

lemma keeps_deliver_gwinfo [maintains]:
  "gwinfo_room g \<Longrightarrow> maintains (state_inv reg most named) (deliver_gwinfo env g fd)"
  unfolding deliver_gwinfo_def
  by (intro maintains keeps_put_await_msg) (auto simp: await_ok_def dest: gives_get_await_context)

lemma parse_gwinfo_room:
  "parse_gwinfo zero_gwinfo data n = Inr (g, k) \<Longrightarrow> length (gwi_gwAdd g) = device_address_size"
  by (auto simp: codec_defs cbind_eq_Inr parse_mqtt_sn_device_address_def parse_mqtt_sn_uint8_array_byte_def
      zero_gwinfo_def zero_address_def length_patched
      rds_def dest!: length_wr_bytes split: if_splits)

lemma keeps_discovery_handlers:
  assumes "readable msg" "clock_contract (ce_platform env)"
  shows "maintains (state_inv reg most named) (parse_and_handle_advertise env msg)"
    "maintains (state_inv reg most named) (parse_and_handle_searchgw env msg)"
    "maintains (state_inv reg most named) (parse_and_handle_gwinfo env msg)"
  unfolding parse_and_handle_advertise_def parse_and_handle_searchgw_def parse_and_handle_gwinfo_def
    MqttSnClientIsSearchGwReplyEnabled_def
  using assms
  by (intro maintains safe_client_parsers keeps_stamp keeps_put_inv keeps_update_gateways;
      auto simp: readable_def gwinfo_room_def dest: gives_time [OF assms(2)] parse_gwinfo_room)+

section \<open>Registrations of the gateway\<close>

lemma safe_parse_topic_name:
  assumes "readable msg" "md_data_length msg \<le> REGISTER_LIMIT"
    "length name = MQTT_SN_CLIENT_MAX_REGISTRATION_TOPIC_NAME_LENGTH"
  shows "safe (parse_register_byte name MQTT_SN_CLIENT_MAX_REGISTRATION_TOPIC_NAME_LENGTH (md_data msg)
    (md_data_length msg))"
proof -
  have "md_data_length msg - (pb + 4) < length name"
    if "parse_header_ok REGISTER (md_data msg) (md_data_length msg) 0 = Inr (h, pb)" for h pb
    using parse_header_ok_accepts [OF that] assms(2,3)
    by (auto simp: REGISTER_LIMIT_def MQTT_SN_CLIENT_MAX_REGISTRATION_TOPIC_NAME_LENGTH_def)
  then show ?thesis
    using readable_bounds [OF assms(1)] unfolding codec_defs Let_def
    by (intro safe_intros)
      (auto simp: cbind_eq_Inr add.assoc split: if_splits dest!: read_progress dest: header_progress
        intro!: safe_read_chars)
qed

lemma client_inv_most:
  "client_inv reg most named c \<Longrightarrow> c_registrations_len c < most \<Longrightarrow> client_inv reg (most - 1) named c"
  by (auto simp: client_inv_def registrations_inv_def)

lemma state_inv_most: "state_inv reg (most - 1) named s \<Longrightarrow> most \<le> MQTT_SN_CLIENT_MAX_REGISTRATIONS
  \<Longrightarrow> state_inv reg most named s"
  by (auto simp: state_inv_def client_inv_def registrations_inv_def)

lemma hoare_count_registration:
  assumes "0 < most" "most \<le> MQTT_SN_CLIENT_MAX_REGISTRATIONS"
  shows "hoare (state_inv reg (most - 1) named) (cl_bind count_registration (\<lambda>_. cl_return x))
    (\<lambda>_. state_inv reg most named)"
  unfolding count_registration_def
  by (rule hoare_bind [OF hoare_put hoare_return])
    (use assms in \<open>auto simp: state_inv_def client_inv_parts registrations_inv_def
      MQTT_SN_CLIENT_MAX_REGISTRATIONS_def\<close>)

lemma client_inv_registration:
  assumes "client_inv reg most named c" "r \<in> set (c_registrations c)"
  shows "length (cr_topic_name r) = MQTT_SN_CLIENT_MAX_REGISTRATION_TOPIC_NAME_LENGTH"
  using assms by (simp add: client_inv_def registrations_inv_def)

lemma keeps_put_registration:
  fixes named :: bool
  assumes "i < MQTT_SN_CLIENT_MAX_REGISTRATIONS"
    "\<And>r. length (cr_topic_name r) = MQTT_SN_CLIENT_MAX_REGISTRATION_TOPIC_NAME_LENGTH \<Longrightarrow>
      length (cr_topic_name (f r)) = MQTT_SN_CLIENT_MAX_REGISTRATION_TOPIC_NAME_LENGTH"
  shows "maintains (state_inv reg most named) (put_registration i f :: ('w, unit) client_call)"
proof -
  have "client_inv reg most named (c\<lparr>c_registrations := (c_registrations d)[i := f (c_registrations d ! i)]\<rparr>)"
    if "client_inv reg most named c" "client_inv reg most named d" for c d :: "'w MqttSnClient"
    using that assms
    by (auto simp: client_inv_parts registrations_inv_def dest!: set_update_subset_insert [THEN subsetD])
  moreover have "i < length (c_registrations c)" if "client_inv reg most named c" for c :: "'w MqttSnClient"
    using that assms(1) by (simp add: client_inv_def registrations_inv_def)
  ultimately show ?thesis
    unfolding put_registration_def
    by (intro maintains keeps_mem keeps_put_inv) (auto simp: rd_arr_def wr_arr_def split: if_splits)
qed

lemma safe_generate_acks:
  "n \<le> length dst \<Longrightarrow> safe (generate_regack dst n topic_id msg_id rc)"
  "n \<le> length dst \<Longrightarrow> safe (generate_puback dst n topic_id msg_id rc)"
  "n \<le> length dst \<Longrightarrow> safe (generate_pubrec dst n msg_id)"
  "n \<le> length dst \<Longrightarrow> safe (generate_pubcomp dst n msg_id)"
  "n \<le> length dst \<Longrightarrow> safe (generate_pubrel dst n msg_id)"
  using generate_regack_eq [of n dst "\<lparr>ra_topic_id = topic_id, ra_msg_id = msg_id, ra_return_code = rc\<rparr>"]
    generate_puback_eq [of n dst "\<lparr>pa_topicId = topic_id, pa_msgId = msg_id, pa_returnCode = rc\<rparr>"]
  by (simp_all add: generate_pubrec_eq generate_pubcomp_eq generate_pubrel_eq)

lemma parse_register_shape:
  "parse_register_byte buf cap data n = Inr (topic_id, msg_id, name, k) \<Longrightarrow> length name = length buf"
  by (auto simp: codec_defs cbind_eq_Inr Let_def parse_mqtt_sn_char_until_end_byte_def strncat_empty_def
      dest!: length_wr_bytes split: if_splits)

lemma free_registration:
  assumes "state_inv reg most named (c, w)" "c_registrations_len c < MQTT_SN_CLIENT_MAX_REGISTRATIONS"
  shows "ok (\<lambda>slot. length (cr_topic_name slot) = MQTT_SN_CLIENT_MAX_REGISTRATION_TOPIC_NAME_LENGTH)
    (rd_arr (c_registrations c) (c_registrations_len c))"
  using assms by (auto simp: state_inv_def client_inv_def registrations_inv_def)

lemma keeps_handle_register:
  assumes "readable msg" "reg" "reg \<longrightarrow> most = MQTT_SN_CLIENT_MAX_REGISTRATIONS"
    "md_data_length msg \<le> REGISTER_LIMIT"
  shows "maintains (state_inv reg most named) (parse_and_handle_register msg)"
proof -
  have most: "most = MQTT_SN_CLIENT_MAX_REGISTRATIONS" "0 < most"
    using assms(2,3) by (simp_all add: MQTT_SN_CLIENT_MAX_REGISTRATIONS_def)
  have room: "state_inv reg (most - 1) named s"
    if "state_inv reg most named s" "c_registrations_len (fst s) < most" for s :: "'a MqttSnClient \<times> 'a"
    using that client_inv_most by (auto simp: state_inv_def)
  show ?thesis
    unfolding maintains_def parse_and_handle_register_def Let_def
    by (rule hoare_get, simp only: id_apply, rule hoare_if, (rule hoare_return, simp),
        rule hoare_from [where P = "state_inv reg (most - 1) named"],
        intro hoare_count_registration hoare_intros maintains keeps_mem keeps_call keeps_put_registration
          safe_parse_topic_name safe_generate_acks)
      (use assms most room in \<open>auto simp: not_le intro: state_inv_most intro!: ok_True [OF free_registration]
         dest: okD [OF free_registration] dest!: parse_register_shape\<close>)
qed

end
