(* ===== verification/Client_Request_Safety.thy ===== *)
theory Client_Request_Safety
  imports Client_Safety
begin

text \<open>
  The requests of the client and its pass stay inside its memory. A request keeps the invariant when the
  loop it runs while it waits keeps it; what the caller has to provide, terminated strings and objects of
  the length it announces, is an assumption of each fact. From this follows that a pass of any fuel keeps
  the invariant.
\<close>

section \<open>Messages that can be sent again\<close>

lemma sendable_long: "5 \<le> length data \<Longrightarrow> n \<le> length data \<Longrightarrow> sendable data n"
  unfolding sendable_def add_dup_flag_to_mqtt_sn_message_def
  by (intro safe_intros)
    (auto simp: parse_header_ok_def header_defs cbind_eq_Inr Let_def split: if_splits)

lemma sendable_short:
  assumes "data = a # b # rest" "a \<noteq> 1" "cast_message_type b \<noteq> PUBLISH" "cast_message_type b \<noteq> SUBSCRIBE"
    "n \<le> length data"
  shows "sendable data n"
  using assms unfolding sendable_def add_dup_flag_to_mqtt_sn_message_def
  by (intro safe_intros)
    (auto simp: parse_header_ok_def header_defs cbind_eq_Inr Let_def split: if_splits)

text \<open>A writer that stays inside its array and leaves its length; the longer ones leave a message to send.\<close>

definition generates :: "nat \<Rightarrow> (u8 list \<times> nat) cres \<Rightarrow> bool" where
  "generates len r \<longleftrightarrow> safe r \<and> (\<forall>data n. r = Inr (data, n) \<longrightarrow> length data = len \<and> n \<le> len)"

lemma generatesD: "generates len r \<Longrightarrow> r = Inr (data, n) \<Longrightarrow> length data = len \<and> n \<le> len"
  by (simp add: generates_def)

lemma generates_safe: "generates len r \<Longrightarrow> safe r"
  by (simp add: generates_def)

lemma generates_publish:
  fixes topic_id :: u16
  assumes "data_len \<le> length data"
  shows "generates len (generate_publish (uninitialised env len) len dup qos retain tid (ucast topic_id)
    msg_id data data_len)"
proof -
  let ?m = "\<lparr>pub_dup = dup, pub_qos = qos, pub_retain = retain, pub_topic_id_type = tid,
    pub_topic_id = topic_id, pub_msg_id = msg_id, pub_payload = data, pub_payload_length = data_len\<rparr>"
  have "publish_wf ?m"
    using assms by (simp add: publish_wf_def)
  then show ?thesis
    using generate_publish_eq [of ?m len "uninitialised env len"] length_publish_wire [of ?m]
    by (simp add: generates_def length_patched)
qed

lemma generates_acks:
  "7 \<le> length dst \<Longrightarrow> generates (length dst) (generate_puback dst (length dst) topic_id msg_id rc)"
  "4 \<le> length dst \<Longrightarrow> generates (length dst) (generate_pubrel dst (length dst) msg_id)"
  using generate_puback_eq [of "length dst" dst
      "\<lparr>pa_topicId = topic_id, pa_msgId = msg_id, pa_returnCode = rc\<rparr>"]
  by (auto simp: generates_def length_patched generate_pubrel_eq)

lemma generates_register:
  assumes "topic_name_len \<le> length topic_name" "topic_name_len \<le> 65527"
  shows "generates len (generate_register (uninitialised env len) len topic_id msg_id topic_name
    topic_name_len)"
proof -
  let ?m = "\<lparr>reg_topic_id = topic_id, reg_msg_id = msg_id, reg_topic_name = topic_name,
    reg_topic_name_len = topic_name_len\<rparr>"
  have "register_wf ?m"
    using assms by (simp add: register_wf_def)
  then show ?thesis
    using generate_register_eq [of ?m len "uninitialised env len"] length_register_wire [of ?m]
    by (auto simp: generates_def length_patched)
qed

lemma generates_subscribe_id:
  "tid = 1 \<or> tid = 2 \<Longrightarrow>
   generates len (generate_subscribe (uninitialised env len) len dup qos tid msg_id topic_id None 0)"
  "tid = 1 \<or> tid = 2 \<Longrightarrow>
   generates len (generate_unsubscribe (uninitialised env len) len dup tid msg_id topic_id None 0)"
  by (auto simp: generates_def generate_subscribe_id_eq generate_unsubscribe_id_eq length_patched
      subscribe_id_wire_def unsubscribe_id_wire_def)

lemma generates_subscribe_name:
  assumes "0 < k" "k \<le> length name"
  shows "generates len (generate_subscribe (uninitialised env len) len dup qos 0 msg_id topic_id (Some name) k)"
    "generates len (generate_unsubscribe (uninitialised env len) len dup 0 msg_id topic_id (Some name) k)"
  using assms
  by (auto simp: generates_def generate_subscribe_name_eq generate_unsubscribe_name_eq
      subscribe_name_wire_def unsubscribe_name_wire_def patched_def var_total_def)

lemma generates_connect:
  assumes "n < length client_id" "n < 65536"
  shows "generates MQTT_SN_MESSAGE_CONNECT_MAX_LENGTH
    (generate_connect (replicate MQTT_SN_MESSAGE_CONNECT_MAX_LENGTH 0) MQTT_SN_MESSAGE_CONNECT_MAX_LENGTH
      will clean protocol duration client_id n)"
proof -
  let ?m = "\<lparr>con_will = will, con_clean_session = clean, con_protocol_id = protocol,
    con_duration = duration, con_client_id = client_id, con_client_id_length = n\<rparr>"
  have "connect_wf ?m"
    using assms by (simp add: connect_wf_def)
  then show ?thesis
    using generate_connect_eq [of ?m MQTT_SN_MESSAGE_CONNECT_MAX_LENGTH
        "replicate MQTT_SN_MESSAGE_CONNECT_MAX_LENGTH 0"] length_connect_wire [of ?m]
    by (simp add: generates_def length_patched cleared_at_def codec_defs)
qed

lemma generates_ping_req_id:
  assumes "n < length client_id"
  shows "generates MQTT_SN_MESSAGE_PINGREQ_W_CLIENTID_MAX_LENGTH
    (generate_ping_req_w_client_id (replicate MQTT_SN_MESSAGE_PINGREQ_W_CLIENTID_MAX_LENGTH 0)
      MQTT_SN_MESSAGE_PINGREQ_W_CLIENTID_MAX_LENGTH client_id n)"
  using assms generate_ping_req_w_client_id_eq [OF assms, of MQTT_SN_MESSAGE_PINGREQ_W_CLIENTID_MAX_LENGTH
      "replicate MQTT_SN_MESSAGE_PINGREQ_W_CLIENTID_MAX_LENGTH 0"]
  by (auto simp: generates_def codec_defs pingreq_id_wire_def patched_def)

section \<open>Shared steps\<close>

lemma keeps_generate [maintains]:
  "safe r \<Longrightarrow> (\<And>d n. r = Inr (d, n) \<Longrightarrow> maintains P (next d n)) \<Longrightarrow> maintains P (cl_generate r next)"
  unfolding cl_generate_def by (intro maintains keeps_call) auto

lemma keeps_cl_acquire [maintains]:
  "maintains P m \<Longrightarrow> (\<And>fd. gives P m (Some fd) \<Longrightarrow> maintains P (next fd)) \<Longrightarrow> maintains P (cl_acquire m next)"
  unfolding cl_acquire_def by (intro maintains) auto

lemma keeps_next_msg_id [maintains]: "maintains (state_inv reg most named) next_msg_id"
  unfolding next_msg_id_def by (intro maintains keeps_put_inv) simp

lemma keeps_the_await_context [maintains]:
  "await_fd_valid fd \<Longrightarrow> maintains (state_inv reg most named) (the_await_context fd)"
  unfolding the_await_context_def by (intro maintains)

lemma keeps_int32_mul [maintains]: "maintains P (int32_mul a b)"
  unfolding int32_mul_def by (intro maintains) simp

lemma keeps_take_dst [maintains]:
  "maintains (state_inv reg most named) (take_dst_advertise fd d)"
  "maintains (state_inv reg most named) (take_dst_gwinfo fd g)"
  unfolding take_dst_advertise_def take_dst_gwinfo_def by (intro maintains)+

lemma gives_take_dst_gwinfo:
  "gives (state_inv reg most named) (take_dst_gwinfo fd g) x \<Longrightarrow> gwinfo_room g \<Longrightarrow> gwinfo_room x"
  unfolding take_dst_gwinfo_def
  by (drule gives_bind, rule maintains)
    (auto dest!: gives_get_await_context split: option.splits)

section \<open>Publishing\<close>

lemma keeps_qos_handler [maintains]:
  assumes "maintains (state_inv reg most named) loop" "sendable data n"
  shows "maintains (state_inv reg most named) (MqttSnClientPublishQosMessageHandler env loop k qos msg_id data n)"
proof -
  have s: "sendable d m"
    if "generate_pubrel (uninitialised env MQTT_SN_MESSAGE_PUBREL_LENGTH) MQTT_SN_MESSAGE_PUBREL_LENGTH w
      = Inr (d, m)" for d m w
    using that by (auto simp: generate_pubrel_eq MQTT_SN_MESSAGE_PUBREL_LENGTH_def msg_id_wire_def
        header_wire_def cast_type_byte patched_def intro!: sendable_short)
  show ?thesis
    unfolding MqttSnClientPublishQosMessageHandler_def
    by (intro maintains assms safe_generate_acks s) (auto simp: MQTT_SN_MESSAGE_PUBREL_LENGTH_def)
qed

lemma keeps_publish_message:
  assumes "maintains (state_inv reg most named) loop" "data_len \<le> length data" "5 \<le> len"
  shows "maintains (state_inv reg most named)
    (publish_message env loop k len qos retain tid topic_id msg_id data data_len)"
  unfolding publish_message_def
  by (intro maintains assms generates_safe [OF generates_publish] sendable_long)
    (use assms in \<open>auto dest!: generatesD [OF generates_publish, rotated]\<close>)

lemma publish_length: "\<not> get_publish_msg_len k < 0 \<Longrightarrow> 5 \<le> nat (get_publish_msg_len k)"
  by (auto simp: get_publish_msg_len_eq publish_total_def split: if_splits)

lemma keeps_publish:
  assumes "maintains (state_inv reg most named) loop" "data_len \<le> length data"
  shows "maintains (state_inv reg most named) (MqttSnClientPublishPredefinedM1 env loop k topic retain data data_len)"
    "maintains (state_inv reg most named) (MqttSnClientPublishPredefined env loop k topic retain qos data data_len)"
    "maintains (state_inv reg most named) (MqttSnClientPublishTopicId env loop k topic retain qos data data_len)"
  unfolding MqttSnClientPublishPredefinedM1_def MqttSnClientPublishPredefined_def
    MqttSnClientPublishTopicId_def Let_def
  by (intro maintains keeps_publish_message publish_length assms; assumption)+

lemma keeps_publish_by_index:
  assumes "maintains (state_inv reg most named) loop" "data_len \<le> length data"
  shows "maintains (state_inv reg most named)
    (MqttSnClientPublishByRegistrationIndex env loop k i retain qos data data_len)"
proof -
  have "i < length (c_registrations c)" if "client_inv reg most named c" "i < c_registrations_len c"
    for c :: "'a MqttSnClient"
    using that by (auto simp: client_inv_def registrations_inv_def)
  then show ?thesis
    unfolding MqttSnClientPublishByRegistrationIndex_def
    by (intro maintains keeps_mem keeps_publish assms) auto
qed

section \<open>The search for a gateway\<close>

lemma hoare_maintains: "hoare P m (\<lambda>x s. P s \<and> R x) \<Longrightarrow> maintains P m"
  unfolding maintains_def by (erule hoare_mono) auto

lemma hoare_gives: "hoare P m (\<lambda>x s. P s \<and> R x) \<Longrightarrow> gives P m x \<Longrightarrow> R x"
  unfolding gives_def by (auto dest: hoare_result)

lemma keeps_await_advertise [maintains]:
  assumes "maintains (state_inv reg most named) loop"
  shows "maintains (state_inv reg most named) (MqttSnClientAwaitAdvertise env loop k timeout_s dst)"
  unfolding MqttSnClientAwaitAdvertise_def
  by (intro maintains keeps_put_await_msg assms)
    (auto simp: await_ok_def dest!: gives_acquire_loop [OF assms])

lemma hoare_search_gw:
  assumes "maintains (state_inv reg most named) loop" "gwinfo_room dst"
  shows "hoare (state_inv reg most named) (MqttSnClientSearchGw env loop k timeout_ms radius dst)
    (\<lambda>x s. state_inv reg most named s \<and> gwinfo_room (snd x))"
proof -
  have s: "safe (generate_searchgw_message (replicate MQTT_SN_MESSAGE_SEARCHGW_LENGTH 0)
      MQTT_SN_MESSAGE_SEARCHGW_LENGTH radius)"
    using generate_searchgw_eq [of MQTT_SN_MESSAGE_SEARCHGW_LENGTH
        "replicate MQTT_SN_MESSAGE_SEARCHGW_LENGTH 0" "\<lparr>sgw_radius = radius\<rparr>"] by simp
  show ?thesis
    unfolding MqttSnClientSearchGw_def Let_def
    by (intro hoare_intros maintains keeps_put_await_msg keeps_call assms s)
      (use assms(2) in \<open>auto simp: await_ok_def dest!: gives_acquire_loop [OF assms(1)]
        dest: gives_take_dst_gwinfo\<close>)
qed

lemmas keeps_search_gw [maintains] = hoare_maintains [OF hoare_search_gw]
lemmas gives_search_gw = hoare_gives [OF hoare_search_gw]

lemma ok_possible_gateway_address: "gwinfo_room g \<Longrightarrow> ok (\<lambda>_. True) (possible_gateway_address g)"
  by (auto simp: possible_gateway_address_def gwinfo_room_def rds_def Let_def)

lemma keeps_connect_to_found_gateway:
  assumes "maintains (state_inv reg most named) loop"
    "\<And>address. maintains (state_inv reg most named) (connect address)"
  shows "maintains (state_inv reg most named) (connect_to_found_gateway env loop k timeout_ms connect)"
proof -
  have room: "gwinfo_room zero_received_gw_info"
    by (simp add: gwinfo_room_def zero_received_gw_info_def zero_gwinfo_def zero_address_def)
  have "maintains (state_inv reg most named) (case p of MQTT_SN_CLIENT_FIND_GW_PATTERN_SEARCHGW \<Rightarrow> a
      | MQTT_SN_CLIENT_FIND_GW_PATTERN_ADVERTISE \<Rightarrow> b | MQTT_SN_CLIENT_FIND_GW_PATTERN_DIRECT \<Rightarrow> d)"
    if "maintains (state_inv reg most named) a" "maintains (state_inv reg most named) b"
      "maintains (state_inv reg most named) d" for p and a b d :: "'a client_request"
    using that by (cases p) auto
  note cases = this
  show ?thesis
    unfolding connect_to_found_gateway_def
    by (intro maintains cases keeps_put_inv keeps_mem assms ok_possible_gateway_address room)
      (auto dest: gives_search_gw [OF assms(1) room])
qed

lemma ok_choose_gateway:
  "current_len \<le> length gateways \<Longrightarrow> chosen < current_len \<Longrightarrow>
   ok (\<lambda>j. j < current_len) (choose_gateway_loop gateways current_len i chosen)"
proof (induction gateways current_len i chosen rule: choose_gateway_loop.induct)
  case (1 gateways current_len i chosen)
  show ?case
    using 1 by (subst choose_gateway_loop.simps) auto
qed

section \<open>Connecting\<close>

text \<open>
  A string that can be handed over as the client's identifier: terminated, or as long as the test looks.
  An identifier of 23 characters passes the test and is too long for the buffer.
\<close>

definition client_id_arg :: "u8 list \<Rightarrow> bool" where
  "client_id_arg p \<longleftrightarrow> (0 \<in> set p \<or> MQTT_SN_MAX_CLIENT_ID_LENGTH \<le> length p) \<and> length (c_string p) \<noteq> 23"

lemma c_string_zero: "i < length p \<Longrightarrow> p ! i = 0 \<Longrightarrow> length (c_string p) \<le> i"
  unfolding c_string_def by (induction p arbitrary: i) (auto simp: nth_Cons split: nat.splits)

lemma take_zero: "0 \<in> set (take n p) \<Longrightarrow> length (c_string p) < n"
proof -
  assume "0 \<in> set (take n p)"
  then obtain i where "i < length p" "i < n" "p ! i = 0"
    by (auto simp: in_set_conv_nth)
  then show ?thesis
    using c_string_zero [of i p] by simp
qed

lemma client_id_ok_string:
  assumes "client_id_ok p"
  shows "0 \<in> set p" "length (c_string p) \<le> 22" "length p = 24"
  using assms c_string_zero [of 22 p] nth_mem [of 22 p]
  by (auto simp: client_id_ok_def MQTT_SN_MAX_CLIENT_ID_LENGTH_def)

lemma client_id_ok_arg: "client_id_ok p \<Longrightarrow> client_id_arg p"
  using client_id_ok_string [of p] by (simp add: client_id_arg_def)

lemma ok_safe_strlen:
  assumes "0 \<in> set p \<or> n \<le> length p"
  shows "ok (\<lambda>len. len < 0 \<or> len < int n \<and> nat len = length (c_string p)) (MqttSnClientSafeStrlen p n)"
proof (cases "n \<le> length p")
  case True
  then show ?thesis
    by (auto simp: MqttSnClientSafeStrlen_def dest: take_zero)
next
  case False
  then have "0 \<in> set (take n p)"
    using assms by simp
  then show ?thesis
    using take_zero [of n p] by (simp add: MqttSnClientSafeStrlen_def)
qed

lemma ok_strncpy_id:
  assumes "client_id_ok dst" "length (c_string src) \<le> 22"
  shows "ok client_id_ok (c_strncpy dst src (length (c_string src)))"
proof -
  have "length (take (length (c_string src)) src) = length (c_string src)"
    by (simp add: length_c_string_le min_absorb2)
  then show ?thesis
    using assms unfolding c_strncpy_def
    by (auto simp: client_id_ok_def MQTT_SN_MAX_CLIENT_ID_LENGTH_def patched_def nth_append)
qed

lemma client_inv_id_ok: "client_inv reg most named c \<Longrightarrow> client_id_ok (cb_client_id (c_client_buffer c))"
  by (simp add: client_inv_def client_buffer_inv_def)

lemma hoare_credential_init:
  assumes "client_id_arg client_id"
  shows "hoare (state_inv reg most named)
    (MqttSnClientDirectConnectClientCredentialInit address clean client_id duration)
    (\<lambda>rc s. state_inv reg most (named \<or> rc = MQTT_SN_CLIENT_RETURN_SUCCESS) s)"
proof -
  have str: "ok (\<lambda>len. len < 0 \<or> len < 24 \<and> nat len = length (c_string client_id))
      (MqttSnClientSafeStrlen client_id MQTT_SN_MAX_CLIENT_ID_LENGTH)"
    using assms ok_safe_strlen [of client_id MQTT_SN_MAX_CLIENT_ID_LENGTH]
    by (simp add: client_id_arg_def MQTT_SN_MAX_CLIENT_ID_LENGTH_def)
  have cpy: "ok client_id_ok (c_strncpy (cb_client_id (c_client_buffer c)) client_id (nat len))"
    if "MqttSnClientSafeStrlen client_id MQTT_SN_MAX_CLIENT_ID_LENGTH = Inr len" "\<not> len < 0"
      "client_inv reg most named c" for c :: "'a MqttSnClient" and len
    using okD [OF str that(1)] that(2) assms ok_strncpy_id [OF client_inv_id_ok [OF that(3)], of client_id]
    by (auto simp: client_id_arg_def)
  have new: "state_inv reg most True (c\<lparr>c_client_buffer := (c_client_buffer c)\<lparr>cb_client_id := copy\<rparr>,
        c_client_id := True, c_registrations_len := 0, c_ping_req_await_msg := m,
        c_connect_duration := duration, c_clean_session := cs,
        c_status := MQTT_SN_CLIENT_CONNECTION_STATUS_DISCONNECTED\<rparr>, w)"
      "state_inv reg most True (c\<lparr>c_client_buffer := (c_client_buffer c)\<lparr>cb_client_id := copy\<rparr>,
        c_client_id := True, c_ping_req_await_msg := m,
        c_connect_duration := duration, c_clean_session := cs,
        c_status := MQTT_SN_CLIENT_CONNECTION_STATUS_DISCONNECTED\<rparr>, w)"
    if "state_inv reg most named (c, w)" "client_id_ok copy" for c :: "'a MqttSnClient" and w copy m cs
    using that by (auto simp: state_inv_def client_inv_parts client_buffer_inv_def registrations_inv_def)
  show ?thesis
    unfolding MqttSnClientDirectConnectClientCredentialInit_def
    by (intro hoare_intros maintains keeps_put_inv keeps_mem)
      (auto intro: ok_True [OF str] ok_True [OF cpy] new okD [OF cpy])
qed

lemma ok_own_client_id:
  assumes "client_inv reg most True c" "p = own_client_id c"
  shows "ok (\<lambda>n. n \<le> 22) (c_strlen p)" "length p = 24"
  using assms client_id_ok_string [OF client_inv_id_ok [OF assms(1)]]
  by (auto simp: own_client_id_def c_strlen_def client_inv_def)

lemma keeps_connected [maintains]: "maintains (state_inv reg most True) connected"
  unfolding connected_def by (rule keeps_put_inv) (simp add: client_inv_parts)

text \<open>The hypothesis on the loop: it keeps the invariant of either index.\<close>

definition good_loop :: "bool \<Rightarrow> nat \<Rightarrow> 'w client_loop \<Rightarrow> bool" where
  "good_loop reg most loop \<longleftrightarrow> (\<forall>named. maintains (state_inv reg most named) loop)"

lemma good_loopD: "good_loop reg most loop \<Longrightarrow> maintains (state_inv reg most named) loop"
  by (simp add: good_loop_def)

lemma state_inv_weaken: "state_inv reg most True s \<Longrightarrow> state_inv reg most named s"
  by (auto simp: state_inv_def client_inv_def)

lemma connect_length: "5 \<le> MQTT_SN_MESSAGE_CONNECT_MAX_LENGTH"
  by (simp add: codec_defs)

lemma hoare_named:
  assumes "maintains (state_inv reg most True) m"
  shows "hoare (state_inv reg most True) m (\<lambda>_. state_inv reg most named)"
  using assms unfolding maintains_def by (rule hoare_mono) (auto intro: state_inv_weaken)

lemma keeps_connect_without_will:
  assumes "good_loop reg most loop" "client_id_arg client_id"
  shows "maintains (state_inv reg most named)
    (MqttSnClientDirectConnectWithoutWill env loop k address clean client_id duration)"
proof -
  have gen: "generates MQTT_SN_MESSAGE_CONNECT_MAX_LENGTH
      (generate_connect (replicate MQTT_SN_MESSAGE_CONNECT_MAX_LENGTH 0) MQTT_SN_MESSAGE_CONNECT_MAX_LENGTH
        0 clean 1 d (own_client_id c) (Suc n))"
    if "client_inv reg most True c" "c_strlen (own_client_id c) = Inr n" for c :: "'a MqttSnClient" and n d
    using ok_own_client_id [OF that(1) refl] that(2) by (intro generates_connect) auto
  have send: "sendable d n"
    if "generates MQTT_SN_MESSAGE_CONNECT_MAX_LENGTH r" "r = Inr (d, n)" for r d n
    using generatesD [OF that] connect_length by (intro sendable_long) auto
  show ?thesis
    unfolding maintains_def MqttSnClientDirectConnectWithoutWill_def
    by (rule hoare_bind [OF hoare_credential_init [OF assms(2)]], rule hoare_if, (rule hoare_return, simp),
        simp, rule hoare_named, intro maintains keeps_mem good_loopD [OF assms(1)])
      (auto dest!: gives_acquire_loop [OF good_loopD [OF assms(1)]]
        intro: send gen generates_safe [OF gen] ok_True [OF ok_own_client_id(1)])
qed

lemma keeps_credential_init [maintains]:
  assumes "client_id_arg client_id"
  shows "maintains (state_inv reg most named)
    (MqttSnClientDirectConnectClientCredentialInit address clean client_id duration)"
  unfolding maintains_def
  by (rule hoare_mono [OF hoare_credential_init [OF assms]])
    (auto simp: state_inv_def client_inv_def)

lemma keeps_direct_connect:
  assumes "good_loop reg most loop" "client_id_arg client_id" "will_topic = None \<or> will_msg = None"
  shows "maintains (state_inv reg most named) (MqttSnClientDirectConnect env loop k address clean client_id
    duration will_topic qos retain will_msg will_len)"
proof -
  have "\<not> (will_topic \<noteq> None \<and> will_msg \<noteq> None)"
    using assms(3) by blast
  then show ?thesis
    unfolding MqttSnClientDirectConnect_def if_not_P [OF \<open>\<not> (will_topic \<noteq> None \<and> will_msg \<noteq> None)\<close>]
    by (intro maintains keeps_connect_without_will assms(1,2))
qed

lemma own_client_id_arg: "client_inv reg most True c \<Longrightarrow> client_id_arg (own_client_id c)"
  using client_inv_id_ok [of reg most True c] client_id_ok_arg by (simp add: own_client_id_def client_inv_def)

lemma keeps_reconnect:
  assumes "good_loop reg most loop"
  shows "maintains (state_inv reg most True) (MqttSnClientReconnect env loop k)"
  unfolding MqttSnClientReconnect_def
  by (intro maintains keeps_connect_without_will assms) (auto dest: own_client_id_arg)

lemma gateways_length:
  assumes "gateways_inv l"
  shows "dl_current_len l \<le> length (dl_gateways l)"
proof -
  have l: "l = gw_list_of (entries l)"
    using assms by (simp add: gateways_inv_def gw_list_inv_def)
  show ?thesis
    by (subst l, subst (2) l) (simp add: gw_list_of_def)
qed

lemma keeps_auto_connect:
  assumes "good_loop reg most loop" "client_id_arg client_id" "will_topic = None \<or> will_msg = None"
    "clock_contract (ce_platform env)"
  shows "maintains (state_inv reg most named) (MqttSnClientAutoConnect env loop k pattern timeout_ms address
    clean client_id duration will_topic qos retain will_msg will_len)"
proof -
  have choose: "ok (\<lambda>j. j < length (dl_gateways l)) (choose_gateway_loop (dl_gateways l) (dl_current_len l) 0 0)"
    if "gateways_inv l" "0 < dl_current_len l" for l
    using ok_mono [OF ok_choose_gateway [OF gateways_length [OF that(1)] that(2), of 0]]
      gateways_length [OF that(1)] by fastforce
  have pick: "ok (\<lambda>_. True) (rd_arr (dl_gateways l) j)"
    if "choose_gateway_loop (dl_gateways l) (dl_current_len l) 0 0 = Inr j" "gateways_inv l"
      "0 < dl_current_len l" for l j
    using okD [OF choose that(1)] that(2,3) by simp
  have searching: "client_inv reg most named (c\<lparr>c_status := MQTT_SN_CLIENT_CONNECTION_STATUS_DISCONNECTED,
      c_find_gw_pattern := pattern, c_find_gateway_wait_timeout_ms := timeout_ms\<rparr>)"
    if "client_inv reg most named c" for c :: "'a MqttSnClient"
    using that by (auto simp: client_inv_parts)
  show ?thesis
    unfolding MqttSnClientAutoConnect_def Let_def
    by (intro maintains keeps_put_inv keeps_mem keeps_update_gateways keeps_connect_to_found_gateway
        keeps_direct_connect good_loopD [OF assms(1)] assms)
      (auto dest: gives_time [OF assms(4)] client_inv_gateways
        intro: ok_True [OF choose] pick searching)
qed

section \<open>Ping, sleep, wake-up and disconnect\<close>

lemma sendable_ping_req: "sendable (bare_wire PINGREQ ()) 2"
  by (rule sendable_short)
    (auto simp: bare_wire_def header_wire_def cast_type_byte)

lemma keeps_ping [maintains]:
  "maintains (state_inv reg most named) loop \<Longrightarrow> maintains (state_inv reg most named) (MqttSnClientPing env loop k)"
  unfolding MqttSnClientPing_def generate_pings
  by (intro maintains safe_Inr) (auto intro: sendable_ping_req)

lemma safe_generate_disconnect:
  "n \<le> length dst \<Longrightarrow> safe (generate_disconnect_message dst n)"
  "n \<le> length dst \<Longrightarrow> safe (generate_disconnect_duration dst n duration)"
  "generate_disconnect_message (replicate MQTT_SN_MESSAGE_DISCONNECT_WO_DURATION_LENGTH 0)
     MQTT_SN_MESSAGE_DISCONNECT_WO_DURATION_LENGTH = Inr (d, k) \<Longrightarrow> sendable d k"
  using write_disconnect_eq [of n dst None] write_disconnect_eq [of n dst "Some duration"]
  by (auto simp: write_disconnect_def)
    (auto simp: codec_defs gen_simps patched_def header_wire_def cast_type_byte intro!: sendable_short)

lemma keeps_disconnect_request [maintains]:
  "maintains (state_inv reg most named) loop \<Longrightarrow>
   maintains (state_inv reg most named) (MqttSnClientDisconnect env loop k)"
  unfolding MqttSnClientDisconnect_def
  by (intro maintains safe_generate_disconnect) auto

lemma client_inv_asleep:
  "client_inv reg most True c \<Longrightarrow>
   client_inv reg most True (c\<lparr>c_sleep_duration := d, c_status := st\<rparr>)"
  "client_inv reg most True c \<Longrightarrow>
   client_inv reg most True (c\<lparr>c_awake_any_msg_received := b, c_status := st\<rparr>)"
  "client_inv reg most True c \<Longrightarrow>
   client_inv reg most True (c\<lparr>c_last_ping_resp_received_s := t, c_status := st\<rparr>)"
  by (auto simp: client_inv_parts)

lemma at_most_named:
  assumes "client_inv reg most named c" "\<not> at_most (c_status c) MQTT_SN_CLIENT_CONNECTION_STATUS_DISCONNECTED"
  shows "c_client_id c"
  using assms by (cases "c_status c") (auto simp: at_most_def client_inv_def)

lemma at_most_state:
  "\<not> at_most (c_status c) MQTT_SN_CLIENT_CONNECTION_STATUS_DISCONNECTED \<Longrightarrow> client_inv reg most named c \<Longrightarrow>
   state_inv reg most (named \<or> c_client_id c) = state_inv reg most True"
  by (simp add: at_most_named)

lemma keeps_sleep:
  assumes "good_loop reg most loop"
  shows "maintains (state_inv reg most named) (MqttSnClientSleep env loop k duration)"
  unfolding MqttSnClientSleep_def Let_def
  by (rule keeps_get_named, rule keeps_if, rule keeps_return, subst at_most_state, assumption+,
      intro maintains keeps_put_inv safe_generate_disconnect client_inv_asleep good_loopD [OF assms]) auto

lemma keeps_wakeup:
  assumes "good_loop reg most loop"
  shows "maintains (state_inv reg most named) (MqttSnClientWakeup env loop k)"
proof -
  have id: "\<not> st \<noteq> MQTT_SN_CLIENT_CONNECTION_STATUS_ASLEEP \<Longrightarrow> client_inv reg most named c \<Longrightarrow>
      st = c_status c \<Longrightarrow> state_inv reg most (named \<or> c_client_id c) = state_inv reg most True"
    for c :: "'a MqttSnClient" and st
    by (auto dest: client_inv_id)
  have gen: "generates MQTT_SN_MESSAGE_PINGREQ_W_CLIENTID_MAX_LENGTH
      (generate_ping_req_w_client_id (replicate MQTT_SN_MESSAGE_PINGREQ_W_CLIENTID_MAX_LENGTH 0)
        MQTT_SN_MESSAGE_PINGREQ_W_CLIENTID_MAX_LENGTH (own_client_id c) n)"
    if "client_inv reg most True c" "c_strlen (own_client_id c) = Inr n" for c :: "'a MqttSnClient" and n
    using ok_own_client_id [OF that(1) refl] that(2) by (intro generates_ping_req_id) auto
  have send: "sendable d n"
    if "generates MQTT_SN_MESSAGE_PINGREQ_W_CLIENTID_MAX_LENGTH r" "r = Inr (d, n)" for r d n
    using generatesD [OF that] by (intro sendable_long) (auto simp: codec_defs)
  show ?thesis
    unfolding MqttSnClientWakeup_def
    apply (rule keeps_get_named)
    apply (rule keeps_if, rule keeps_return, rule keeps_if, rule keeps_return)
    apply (simp only: id)
    apply (intro maintains keeps_mem keeps_stamp keeps_put_inv good_loopD [OF assms] client_inv_asleep)
    apply (auto intro: send gen generates_safe [OF gen] ok_True [OF ok_own_client_id(1)])
    done
qed

section \<open>The handler of PUBLISH\<close>

lemma keeps_call_publish_cb [maintains]: "maintains (state_inv reg most named) (call_publish_cb env cb p)"
  unfolding call_publish_cb_def by (intro maintains)

lemma keeps_publish_delivered [maintains]:
  "maintains (state_inv reg most named) next \<Longrightarrow>
   maintains (state_inv reg most named) (publish_delivered env p next)"
  unfolding publish_delivered_def by (intro maintains)

lemma keeps_publish_handlers:
  assumes "maintains (state_inv reg most named) loop"
  shows "maintains (state_inv reg most named) (handle_publish_qos0 env p)"
    "maintains (state_inv reg most named) (handle_publish_qos1 env loop k fd p)"
    "maintains (state_inv reg most named) (handle_publish_qos2 env loop k p)"
proof -
  have gen: "generates 7 (generate_puback (uninitialised env MQTT_SN_MESSAGE_PUBACK_LENGTH)
      MQTT_SN_MESSAGE_PUBACK_LENGTH topic_id msg_id rc)" for topic_id msg_id rc
    using generates_acks(1) [of "uninitialised env 7"] by (simp add: codec_defs)
  have send: "sendable d n" if "generates 7 r" "r = Inr (d, n)" for r d n
    using generatesD [OF that] by (intro sendable_long) auto
  show "maintains (state_inv reg most named) (handle_publish_qos0 env p)"
    unfolding handle_publish_qos0_def by (intro maintains)
  show "maintains (state_inv reg most named) (handle_publish_qos1 env loop k fd p)"
    unfolding handle_publish_qos1_def
    by (intro maintains keeps_call assms generates_safe [OF gen]) (auto intro: send gen)
  show "maintains (state_inv reg most named) (handle_publish_qos2 env loop k p)"
    unfolding handle_publish_qos2_def
    by (intro maintains keeps_call assms safe_generate_acks) simp_all
qed

lemma keeps_handle_publish:
  assumes "maintains (state_inv reg most named) loop" "readable msg"
  shows "maintains (state_inv reg most named) (parse_and_handle_publish env loop k msg)"
  unfolding parse_and_handle_publish_def
  by (intro maintains keeps_publish_handlers [OF assms(1)] safe_client_parsers assms(2))

section \<open>The pass\<close>

lemma keeps_asleep_connection:
  assumes "good_loop reg most loop"
  shows "maintains (state_inv reg most named) (handle_client_asleep_connection env loop k)"
  unfolding handle_client_asleep_connection_def
  by (intro maintains keeps_wakeup assms)

lemma client_inv_awake_workaround:
  "client_inv reg most named c \<Longrightarrow> client_inv reg most named (awake_workaround t c)"
  by (auto simp: awake_workaround_def client_inv_parts)

lemma keeps_awake_connection:
  "maintains (state_inv reg most named) (handle_client_awake_connection env)"
proof -
  have named: "state_inv reg most (named \<or> c_client_id c) = state_inv reg most True"
    if "\<not> c_status c \<noteq> MQTT_SN_CLIENT_CONNECTION_STATUS_AWAKE" "client_inv reg most named c" for c :: "'a MqttSnClient"
    using that by (auto dest: client_inv_id)
  show ?thesis
    unfolding handle_client_awake_connection_def
    by (rule keeps_get_named, rule keeps_if, rule keeps_return, subst named, assumption+,
        intro maintains keeps_put_inv client_inv_awake_workaround) auto
qed

lemma keeps_disconnected_is_lost: "maintains (state_inv reg most True) disconnected_is_lost"
  unfolding disconnected_is_lost_def by (rule keeps_put_inv) simp

lemma keeps_congestion [maintains]:
  "maintains (state_inv reg most named) (wait_for_congestion env)"
  "maintains (state_inv reg most named) (congestion_goes_on env)"
  unfolding wait_for_congestion_def congestion_goes_on_def
  by (intro maintains keeps_stamp keeps_put_inv; simp)+

lemma keeps_try_reconnect:
  assumes "good_loop reg most loop"
  shows "maintains (state_inv reg most True) (try_reconnect env loop k)"
  unfolding try_reconnect_def
  by (intro maintains keeps_put_inv keeps_reconnect keeps_disconnected_is_lost assms) simp

lemma keeps_try_auto_connect:
  assumes "good_loop reg most loop" "clock_contract (ce_platform env)"
  shows "maintains (state_inv reg most True) (try_auto_connect env loop k)"
proof -
  have "own_will_msg c = None" if "client_inv reg most True c" for c :: "'a MqttSnClient"
    using that by (simp add: own_will_msg_def client_inv_def)
  moreover have "maintains (state_inv reg most True) (case rc of
         MQTT_SN_CLIENT_RETURN_SUCCESS \<Rightarrow> cl_return (Some MQTT_SN_CLIENT_LOOP_RETURN_SUCCESS)
       | MQTT_SN_CLIENT_RETURN_ERROR \<Rightarrow> cl_return (Some MQTT_SN_CLIENT_LOOP_RETURN_ERROR)
       | MQTT_SN_CLIENT_RETURN_TIMEOUT \<Rightarrow> cl_return (Some MQTT_SN_CLIENT_LOOP_RETURN_TIMEOUT)
       | MQTT_SN_CLIENT_RETURN_CONGESTION \<Rightarrow> wait_for_congestion env
       | _ \<Rightarrow> cl_return None)" for rc
    by (cases rc) (auto intro: maintains)
  ultimately show ?thesis
    unfolding try_auto_connect_def
    by (intro maintains keeps_auto_connect keeps_disconnected_is_lost assms)
      (auto dest: own_client_id_arg)
qed

lemma keeps_loop_next [maintains]:
  "maintains P m \<Longrightarrow> maintains P next \<Longrightarrow> maintains P (loop_next m next)"
  unfolding loop_next_def by (intro maintains)

lemma keeps_auto_reconnect:
  assumes "good_loop reg most loop" "clock_contract (ce_platform env)"
  shows "maintains (state_inv reg most True) (auto_reconnect env loop k)"
  unfolding auto_reconnect_def MqttSnClientIsAutoReconnectEnabled_def
  by (intro maintains keeps_try_reconnect keeps_try_auto_connect assms)

lemma keeps_maintain_connection:
  assumes "good_loop reg most loop" "clock_contract (ce_platform env)"
  shows "maintains (state_inv reg most named) (maintain_connection env loop k)"
proof -
  have named: "state_inv reg most (named \<or> c_client_id c) = state_inv reg most True"
    if "c_status c = MQTT_SN_CLIENT_CONNECTION_STATUS_GATEWAY_LOST" "client_inv reg most named c" for c :: "'a MqttSnClient"
    using that by (auto dest: client_inv_id)
  show ?thesis
    unfolding maintain_connection_def
    by (rule keeps_get_named, intro keeps_if, (intro maintains keeps_handle_client_connection
        keeps_asleep_connection keeps_awake_connection assms)+)
      (auto simp: named intro: keeps_auto_reconnect assms maintains)
qed

lemma ok_first_gateway:
  assumes "gateways_inv l" "0 < dl_current_len l"
  shows "ok (\<lambda>g. address_ok (dg_network_address g)) (rd_arr (dl_gateways l) 0)"
proof -
  have len: "0 < length (dl_gateways l)"
    using assms(2) gateways_length [OF assms(1)] by (rule less_le_trans)
  then have "dl_gateways l ! 0 \<in> set (entries l)"
    using assms(2) by (cases "dl_current_len l"; cases "dl_gateways l") (auto simp: entries_def)
  then show ?thesis
    using assms(1) len by (simp add: gateways_inv_def)
qed

lemma safe_generate_gwinfo:
  assumes "address_ok a"
  shows "safe (generate_gwinfo_message (replicate MQTT_SN_MESSAGE_GWINFO_W_GWADD_MAX_LENGTH 0)
    MQTT_SN_MESSAGE_GWINFO_W_GWADD_MAX_LENGTH gw_id (Some a) device_address_size)"
  using assms generate_gwinfo_eq [of MQTT_SN_MESSAGE_GWINFO_W_GWADD_MAX_LENGTH
      "replicate MQTT_SN_MESSAGE_GWINFO_W_GWADD_MAX_LENGTH 0"
      "\<lparr>gwi_gwId = gw_id, gwi_gwAdd = a, gwi_gwAddLen = device_address_size\<rparr>"]
  by (simp add: gwinfo_wf_def address_ok_def)

lemma keeps_reply_searchgw:
  assumes "clock_contract (ce_platform env)"
  shows "maintains (state_inv reg most named) (reply_searchgw env)"
  unfolding reply_searchgw_def MqttSnClientIsSearchGwReplyEnabled_def
  by (intro maintains keeps_mem keeps_call keeps_update_gateways safe_generate_gwinfo)
    (auto dest: gives_time [OF assms] okD [OF ok_first_gateway] client_inv_gateways
      intro: ok_True [OF ok_first_gateway])

text \<open>What arrives, as far as the rest of a pass relies on it.\<close>

definition arrived :: "bool \<Rightarrow> MqttSnMessageData \<Rightarrow> bool" where
  "arrived reg msg \<longleftrightarrow> readable msg \<and> (message_kind (md_data msg) (md_data_length msg) = Some REGISTER
     \<longrightarrow> reg \<and> md_data_length msg \<le> REGISTER_LIMIT)"

lemma hoare_receive:
  "hoare (state_inv reg most named) receive_message
     (\<lambda>x s. state_inv reg most named s \<and> (0 < fst x \<longrightarrow> arrived reg (snd x)))"
  unfolding hoare_def
proof (intro allI impI)
  fix s :: "'a MqttSnClient \<times> 'a"
  assume i: "state_inv reg most named s"
  then have net: "client_network_ok reg (c_gatewayNetwork (fst s))"
    by (simp add: state_inv_def client_inv_def)
  obtain rc n src dst data signal w where r: "GatewayNetworkReceiveFom (c_gatewayNetwork (fst s)) empty_rx
      MQTT_SN_MAXIMUM_MESSAGE_DATA_LENGTH (c_gatewayNetworkReceiveTimeout (fst s)) (snd s)
      = (rc, n, (src, dst, data, signal), w)"
    by (metis prod.exhaust)
  have "gn_receive n = gn_receive (c_gatewayNetwork (fst s))"
    using r by (auto simp: GatewayNetworkReceiveFom_def Let_def split: if_splits option.splits prod.splits)
  then have n: "state_inv reg most named ((fst s)\<lparr>c_gatewayNetwork := n\<rparr>, w)"
    using i by (auto simp: state_inv_def client_inv_parts client_network_ok_def)
  have "received_ok src data rc
      \<and> (message_kind data (nat rc) = Some REGISTER \<longrightarrow> rc \<le> int (if reg then REGISTER_LIMIT else 0))" if pos: "0 < rc"
  proof -
    obtain receive t v where "gn_receive (c_gatewayNetwork (fst s)) = Some receive"
      "receive empty_rx MQTT_SN_MAXIMUM_MESSAGE_DATA_LENGTH t v = (rc, (src, dst, data, signal), w)"
      using r pos by (auto simp: GatewayNetworkReceiveFom_def Let_def split: if_splits option.splits prod.splits)
    then show ?thesis
      using net
      by (auto simp: client_network_ok_def client_receive_contract_def delivers_register_def
          dest!: spec [of _ t] spec [of _ v])
  qed
  then have "arrived reg (zero_message\<lparr>md_from := src, md_to := dst, md_data := data,
      md_signal_strength := signal, md_data_length := nat (rc mod 65536)\<rparr>)" if "0 < rc"
    using that by (auto simp: arrived_def received_ok_def readable_def MQTT_SN_MAXIMUM_MESSAGE_DATA_LENGTH_def split: if_splits)
  then show "case receive_message s of Inl e \<Rightarrow> e \<noteq> Memory_Fault
      | Inr (x, s') \<Rightarrow> state_inv reg most named s' \<and> (0 < fst x \<longrightarrow> arrived reg (snd x))"
    using n by (simp add: receive_message_def r)
qed

lemmas keeps_receive [maintains] = hoare_maintains [OF hoare_receive]
lemmas gives_receive = hoare_gives [OF hoare_receive]

lemma keeps_dispatch_session:
  assumes "maintains (state_inv reg most named) loop" "readable msg" "clock_contract (ce_platform env)"
  shows "maintains (state_inv reg most named) (dispatch_session env loop k msg_type msg)"
  unfolding dispatch_session_def
  by (intro keeps_if keeps_discovery_handlers keeps_connection_handlers keeps_acknowledgements
      keeps_handle_publish keeps_return assms)

lemma keeps_dispatch:
  assumes "maintains (state_inv reg most named) loop" "arrived reg msg" "clock_contract (ce_platform env)"
    "message_kind (md_data msg) (md_data_length msg) = Some msg_type"
    "reg \<longrightarrow> most = MQTT_SN_CLIENT_MAX_REGISTRATIONS"
  shows "maintains (state_inv reg most named) (dispatch_message env loop k msg_type msg)"
proof -
  have r: "readable msg" and register: "msg_type = REGISTER \<Longrightarrow> reg \<and> md_data_length msg \<le> REGISTER_LIMIT"
    using assms(2,4) by (simp_all add: arrived_def)
  show ?thesis
    unfolding dispatch_message_def dispatch_disconnected_def dispatch_connected_def dispatch_asleep_def
      dispatch_broadcast_def Let_def
    by (intro maintains keeps_stamp keeps_put_inv keeps_dispatch_session keeps_discovery_handlers
        keeps_connection_handlers keeps_acknowledgements keeps_handle_register r assms)
      (use register in auto)
qed

lemma keeps_receive_and_dispatch:
  assumes "maintains (state_inv reg most named) loop" "clock_contract (ce_platform env)"
    "reg \<longrightarrow> most = MQTT_SN_CLIENT_MAX_REGISTRATIONS"
  shows "maintains (state_inv reg most named) (receive_and_dispatch env loop k)"
proof -
  have header: "ok (\<lambda>(rc, h, _). \<not> rc < 0 \<longrightarrow> message_kind (md_data msg) (md_data_length msg) = Some (h_msg_type h))
      (parse_header empty_header ANY_MESSAGE_TYPE (md_data msg) (md_data_length msg) 0)"
    if "arrived reg msg" for msg
  proof -
    have "safe (parse_header empty_header ANY_MESSAGE_TYPE (md_data msg) (md_data_length msg) 0)"
      using that by (intro safe_ping_parsers) (simp add: arrived_def)
    from ok_total [OF this no_abort_parse_header parse_header_not_Fail] show ?thesis
      by (rule ok_mono) (auto simp: message_kind_def)
  qed
  have got: "arrived reg msg" if "gives (state_inv reg most named) receive_message (rc, msg)" "\<not> rc < 0" "rc \<noteq> 0"
    for rc msg
    using gives_receive [OF that(1)] that(2,3) by simp
  show ?thesis
    unfolding receive_and_dispatch_def
    by (intro maintains keeps_mem keeps_dispatch assms)
      (auto intro: ok_True [OF header] dest: got okD [OF header])
qed

lemma keeps_client_pass:
  assumes "good_loop reg most loop" "clock_contract (ce_platform env)"
    "reg \<longrightarrow> most = MQTT_SN_CLIENT_MAX_REGISTRATIONS"
  shows "maintains (state_inv reg most named) (client_pass env loop k)"
  unfolding client_pass_def
  by (intro maintains keeps_maintain_connection keeps_reply_searchgw keeps_receive_and_dispatch
      good_loopD [OF assms(1)] assms)

lemma good_client_loop:
  assumes "clock_contract (ce_platform env)" "reg \<longrightarrow> most = MQTT_SN_CLIENT_MAX_REGISTRATIONS"
  shows "good_loop reg most (MqttSnClientLoop env n)"
proof (induction n)
  case 0
  show ?case
    by (auto simp: good_loop_def intro: maintains)
next
  case (Suc n)
  then show ?case
    using keeps_client_pass [OF Suc assms] by (simp add: good_loop_def)
qed

section \<open>Registering and subscribing\<close>

text \<open>
  A registration is added after a wait. The tests against the size of the array come before the wait, or
  are missing, so the facts of this section assume that the gateway registers nothing by itself and that
  there is a free slot.
\<close>

definition name_arg :: "u8 list \<Rightarrow> nat \<Rightarrow> bool" where
  "name_arg name k \<longleftrightarrow> 0 < k \<and> k \<le> length name"

lemma ok_streq: "j < length a \<Longrightarrow> j < length b \<Longrightarrow> b ! j = 0 \<Longrightarrow> ok (\<lambda>_. True) (c_streq a b)"
  by (induction a b arbitrary: j rule: c_streq.induct) (auto simp: nth_Cons split: nat.splits)

lemma ok_registered_loop:
  assumes "registrations_inv most rs len" "len \<le> length rs" "0 \<in> set (take 254 name)"
  shows "ok (\<lambda>_. True) (registered_loop rs len name i)"
proof -
  obtain j where j: "j < 254" "j < length name" "name ! j = 0"
    using assms(3) by (auto simp: in_set_conv_nth)
  have "ok (\<lambda>_. True) (c_streq (cr_topic_name (rs ! i)) name)" if "i < len" for i
    using assms(1,2) j that
    by (intro ok_streq [of j]) (auto simp: registrations_inv_def MQTT_SN_CLIENT_MAX_REGISTRATION_TOPIC_NAME_LENGTH_def)
  then show ?thesis
    using assms(2)
    by (induction rs len name i rule: registered_loop.induct) (subst registered_loop.simps, fastforce simp: ok_def)
qed

lemma keeps_get_registered:
  assumes "0 \<in> set name \<or> 254 \<le> length name"
  shows "maintains (state_inv reg most named) (MqttSnClientGetRegisteredTopicId name)"
proof -
  have str: "ok (\<lambda>len. len < 0 \<or> 0 \<in> set (take 254 name))
      (MqttSnClientSafeStrlen name (MQTT_SN_CLIENT_MAX_REGISTRATION_TOPIC_NAME_LENGTH - Suc 0))"
    using assms by (auto simp: MqttSnClientSafeStrlen_def MQTT_SN_CLIENT_MAX_REGISTRATION_TOPIC_NAME_LENGTH_def)
  have reg: "ok (\<lambda>_. True) (registered_loop (c_registrations c) (c_registrations_len c) name 0)"
    if "client_inv reg most named c" "0 \<in> set (take 254 name)" for c :: "'a MqttSnClient"
    using that by (intro ok_registered_loop) (auto simp: client_inv_def registrations_inv_def)
  show ?thesis
    unfolding MqttSnClientGetRegisteredTopicId_def
    by (intro maintains keeps_mem) (auto intro: ok_True [OF str] reg dest: okD [OF str])
qed

lemma ok_copy_name:
  assumes "k \<le> length name" "k \<le> length dst"
  shows "ok (\<lambda>d. length d = length dst) (c_strncpy dst name k)"
proof (cases "k \<le> length (c_string name)")
  case False
  have "c_string name = name" if "0 \<notin> set name"
    using that by (auto simp: c_string_def takeWhile_eq_all_conv)
  then have "0 \<in> set name"
    using False assms(1) by fastforce
  then show ?thesis
    using False assms by (auto simp: c_strncpy_def length_patched)
qed (use assms in \<open>auto simp: c_strncpy_def length_patched\<close>)

lemma keeps_put_topic_name:
  assumes "most < MQTT_SN_CLIENT_MAX_REGISTRATIONS" "k \<le> length name"
    "k \<le> MQTT_SN_CLIENT_MAX_REGISTRATION_TOPIC_NAME_LENGTH"
  shows "maintains (state_inv reg most named) (put_topic_name name k)"
proof -
  have slot: "ok (\<lambda>r. length (cr_topic_name r) = MQTT_SN_CLIENT_MAX_REGISTRATION_TOPIC_NAME_LENGTH)
      (rd_arr (c_registrations c) (c_registrations_len c))" "c_registrations_len c < MQTT_SN_CLIENT_MAX_REGISTRATIONS"
    if "client_inv reg most named c" for c :: "'a MqttSnClient"
    using that assms(1) by (auto simp: client_inv_def registrations_inv_def)
  have name: "ok (\<lambda>d. length d = MQTT_SN_CLIENT_MAX_REGISTRATION_TOPIC_NAME_LENGTH) (c_strncpy (cr_topic_name r) name k)"
    if "length (cr_topic_name r) = MQTT_SN_CLIENT_MAX_REGISTRATION_TOPIC_NAME_LENGTH" for r
    using ok_copy_name [of k name "cr_topic_name r"] that assms(2,3) by simp
  show ?thesis
    unfolding put_topic_name_def
    by (intro maintains keeps_mem keeps_put_registration)
      (auto intro: slot ok_True [OF slot(1)] ok_True [OF name] dest: okD [OF slot(1)] okD [OF name])
qed

lemma keeps_put_topic_id:
  assumes "most < MQTT_SN_CLIENT_MAX_REGISTRATIONS"
  shows "maintains (state_inv reg most named) (put_topic_id topic_id)"
proof -
  have "c_registrations_len c < MQTT_SN_CLIENT_MAX_REGISTRATIONS"
    if "client_inv reg most named c" for c :: "'a MqttSnClient"
    using that assms by (simp add: client_inv_def registrations_inv_def)
  then show ?thesis
    unfolding put_topic_id_def by (intro maintains keeps_put_registration) auto
qed

lemma hoare_answered_topic:
  assumes "most < MQTT_SN_CLIENT_MAX_REGISTRATIONS" "await_fd_valid fd"
    "\<And>t. maintains (state_inv reg most named) (accept t)"
  shows "hoare (state_inv reg most named) (answered_topic fd rc accept) (\<lambda>_. state_inv reg (Suc most) named)"
proof -
  have weak: "state_inv reg (Suc most) named s" if "state_inv reg most named s" for s :: "'a MqttSnClient \<times> 'a"
    using state_inv_most [of reg "Suc most"] that assms(1) by simp
  have count: "hoare (state_inv reg most named) (cl_bind count_registration (\<lambda>_. cl_return x))
      (\<lambda>_. state_inv reg (Suc most) named)" for x
    using hoare_count_registration [of "Suc most" reg named x] assms(1) by simp
  show ?thesis
    unfolding answered_topic_def by (intro count hoare_intros maintains assms weak)
qed

lemma hoare_generate:
  "safe r \<Longrightarrow> (\<And>d n. r = Inr (d, n) \<Longrightarrow> hoare P (next d n) Q) \<Longrightarrow> (\<And>x s. P s \<Longrightarrow> Q x s)
   \<Longrightarrow> hoare P (cl_generate r next) Q"
  unfolding cl_generate_def by (intro hoare_intros keeps_call) auto

lemma hoare_cl_acquire:
  "maintains P m \<Longrightarrow> (\<And>fd. gives P m (Some fd) \<Longrightarrow> hoare P (next fd) Q) \<Longrightarrow> (\<And>x s. P s \<Longrightarrow> Q x s)
   \<Longrightarrow> hoare P (cl_acquire m next) Q"
  unfolding cl_acquire_def by (intro hoare_intros) auto

lemma hoare_answered_bind:
  assumes "most < MQTT_SN_CLIENT_MAX_REGISTRATIONS" "await_fd_valid fd"
    "\<And>t. maintains (state_inv reg most named) (accept t)"
    "\<And>x. maintains (state_inv reg (Suc most) named) (f x)"
  shows "hoare (state_inv reg most named) (cl_bind (answered_topic fd rc accept) f)
    (\<lambda>_. state_inv reg (Suc most) named)"
  using hoare_answered_topic [OF assms(1,2,3)] assms(4) unfolding maintains_def by (rule hoare_bind)

lemma register_length: "\<not> get_register_msg_len k < 0 \<Longrightarrow> 5 \<le> nat (get_register_msg_len k) \<and> k \<le> 65527"
  by (auto simp: get_register_msg_len_def Let_def codec_defs split: if_splits)

lemma hoare_register:
  assumes "maintains (state_inv reg most named) loop" "most < MQTT_SN_CLIENT_MAX_REGISTRATIONS"
    "name_arg name k" "0 \<in> set name \<or> 254 \<le> length name"
  shows "hoare (state_inv reg most named) (MqttSnClientRegister env loop fuel name k)
    (\<lambda>_. state_inv reg (Suc most) named)"
proof -
  have weak: "state_inv reg (Suc most) named s" if "state_inv reg most named s" for s :: "'a MqttSnClient \<times> 'a"
    using state_inv_most [of reg "Suc most"] that assms(2) by simp
  have k: "k \<le> length name"
    using assms(3) by (simp add: name_arg_def)
  have gen: "generates (nat (get_register_msg_len k)) (generate_register
      (uninitialised env (nat (get_register_msg_len k))) (nat (get_register_msg_len k)) t msg_id name k)"
    if "\<not> get_register_msg_len k < 0" for t msg_id
    using generates_register [of k name "nat (get_register_msg_len k)"] k register_length [OF that] by simp
  have send: "sendable d n" if "\<not> get_register_msg_len k < 0" "generates (nat (get_register_msg_len k)) r"
      "r = Inr (d, n)" for r d n
    using generatesD [OF that(2,3)] register_length [OF that(1)] by (intro sendable_long) auto
  show ?thesis
    unfolding MqttSnClientRegister_def Let_def
    by (intro hoare_answered_bind hoare_generate hoare_cl_acquire hoare_intros maintains keeps_get_registered
        keeps_put_topic_name keeps_put_topic_id assms weak)
      (use k in \<open>auto intro: send gen generates_safe [OF gen] weak dest: gives_get_await_context
        gives_acquire_loop [OF assms(1)]\<close>)
qed

lemma hoare_subscribe_handler:
  assumes "maintains (state_inv reg most named) loop" "most < MQTT_SN_CLIENT_MAX_REGISTRATIONS" "sendable d n"
  shows "hoare (state_inv reg most named) (MqttSnClientSubscribeMessageHandler env loop fuel msg_id d n)
    (\<lambda>_. state_inv reg (Suc most) named)"
proof -
  have weak: "state_inv reg (Suc most) named s" if "state_inv reg most named s" for s :: "'a MqttSnClient \<times> 'a"
    using state_inv_most [of reg "Suc most"] that assms(2) by simp
  show ?thesis
    unfolding MqttSnClientSubscribeMessageHandler_def
    by (intro hoare_answered_bind hoare_cl_acquire hoare_intros maintains keeps_put_topic_id assms weak)
      (auto intro: weak dest: gives_acquire_loop [OF assms(1)])
qed

lemma hoare_publish_topic_name:
  assumes "\<And>m. maintains (state_inv reg m named) loop" "most < MQTT_SN_CLIENT_MAX_REGISTRATIONS"
    "name_arg name k" "0 \<in> set name \<or> 254 \<le> length name" "data_len \<le> length data"
  shows "hoare (state_inv reg most named)
    (MqttSnClientPublishTopicName env loop fuel name k retain qos data data_len) (\<lambda>_. state_inv reg (Suc most) named)"
proof -
  have weak: "state_inv reg (Suc most) named s" if "state_inv reg most named s" for s :: "'a MqttSnClient \<times> 'a"
    using state_inv_most [of reg "Suc most"] that assms(2) by simp
  have rest: "maintains (state_inv reg (Suc most) named) (if rc \<noteq> MQTT_SN_CLIENT_RETURN_SUCCESS then cl_return rc
       else
         cl_bind (MqttSnClientGetRegisteredTopicId name) (\<lambda>registered.
         case registered of None \<Rightarrow> cl_return MQTT_SN_CLIENT_RETURN_ERROR
         | Some topic_id \<Rightarrow> MqttSnClientPublishTopicId env loop fuel topic_id retain qos data data_len))" for rc
    by (intro maintains keeps_get_registered keeps_publish assms)
  show ?thesis
    unfolding MqttSnClientPublishTopicName_def
    by (intro hoare_intros maintains hoare_bind [OF hoare_register [OF assms(1-4)]] rest [unfolded maintains_def] weak)
qed

lemma sendable_generated: "5 \<le> len \<Longrightarrow> generates len r \<Longrightarrow> r = Inr (d, n) \<Longrightarrow> sendable d n"
  by (drule (1) generatesD) (auto intro: sendable_long)

lemma subscribe_lengths:
  "5 \<le> MQTT_SN_MESSAGE_SUBSCRIBE_W_TOPICID_LENGTH" "5 \<le> MQTT_SN_MESSAGE_UNSUBSCRIBE_W_TOPICID_LENGTH"
  "\<not> get_subscribe_msg_len k < 0 \<Longrightarrow> 5 \<le> nat (get_subscribe_msg_len k)"
  "\<not> get_unsubscribe_msg_len k < 0 \<Longrightarrow> 5 \<le> nat (get_unsubscribe_msg_len k)"
  by (auto simp: codec_defs get_subscribe_msg_len_eq get_unsubscribe_msg_len_eq var_total_def split: if_splits)

lemma hoare_subscribe:
  assumes "maintains (state_inv reg most named) loop" "most < MQTT_SN_CLIENT_MAX_REGISTRATIONS"
  shows "hoare (state_inv reg most named) (MqttSnClientSubscribePredefined env loop fuel qos topic_id)
      (\<lambda>_. state_inv reg (Suc most) named)"
    "hoare (state_inv reg most named) (MqttSnClientSubscribeShort env loop fuel qos topic_id)
      (\<lambda>_. state_inv reg (Suc most) named)"
    "name_arg name k \<Longrightarrow> hoare (state_inv reg most named)
      (MqttSnClientSubscribeTopicName env loop fuel qos name k) (\<lambda>_. state_inv reg (Suc most) named)"
proof -
  have weak: "state_inv reg (Suc most) named s" if "state_inv reg most named s" for s :: "'a MqttSnClient \<times> 'a"
    using state_inv_most [of reg "Suc most"] that assms(2) by simp
  have gen: "generates MQTT_SN_MESSAGE_SUBSCRIBE_W_TOPICID_LENGTH (generate_subscribe
      (uninitialised env MQTT_SN_MESSAGE_SUBSCRIBE_W_TOPICID_LENGTH) MQTT_SN_MESSAGE_SUBSCRIBE_W_TOPICID_LENGTH
      0 qos tid msg_id topic_id None 0)" if "tid = 1 \<or> tid = 2" for tid msg_id
    using that by (rule generates_subscribe_id)
  show "hoare (state_inv reg most named) (MqttSnClientSubscribePredefined env loop fuel qos topic_id)
      (\<lambda>_. state_inv reg (Suc most) named)"
    unfolding MqttSnClientSubscribePredefined_def
    by (intro hoare_subscribe_handler hoare_generate hoare_intros maintains assms weak generates_safe [OF gen]
        sendable_generated [OF subscribe_lengths(1) gen]) auto
  show "hoare (state_inv reg most named) (MqttSnClientSubscribeShort env loop fuel qos topic_id)
      (\<lambda>_. state_inv reg (Suc most) named)"
    unfolding MqttSnClientSubscribeShort_def
    by (intro hoare_subscribe_handler hoare_generate hoare_intros maintains assms weak generates_safe [OF gen]
        sendable_generated [OF subscribe_lengths(1) gen]) auto
  show "hoare (state_inv reg most named) (MqttSnClientSubscribeTopicName env loop fuel qos name k)
      (\<lambda>_. state_inv reg (Suc most) named)" if "name_arg name k"
  proof -
    have k: "0 < k" "k \<le> length name"
      using that by (simp_all add: name_arg_def)
    show ?thesis
      unfolding MqttSnClientSubscribeTopicName_def Let_def
      by (intro hoare_subscribe_handler hoare_generate hoare_intros maintains keeps_put_topic_name assms weak
          generates_safe [OF generates_subscribe_name(1)]
          sendable_generated [OF subscribe_lengths(3) generates_subscribe_name(1)])
        (use k in \<open>auto simp: not_less\<close>)
  qed
qed

lemma keeps_unsubscribe:
  assumes "maintains (state_inv reg most named) loop"
  shows "maintains (state_inv reg most named) (MqttSnClientUnsubscribePredefined env loop fuel topic_id)"
    "maintains (state_inv reg most named) (MqttSnClientUnsubscribeShort env loop fuel topic_id)"
    "name_arg name k \<Longrightarrow>
     maintains (state_inv reg most named) (MqttSnClientUnsubscribeTopicName env loop fuel name k)"
proof -
  have gen: "generates MQTT_SN_MESSAGE_UNSUBSCRIBE_W_TOPICID_LENGTH (generate_unsubscribe
      (uninitialised env MQTT_SN_MESSAGE_UNSUBSCRIBE_W_TOPICID_LENGTH) MQTT_SN_MESSAGE_UNSUBSCRIBE_W_TOPICID_LENGTH
      0 tid msg_id topic_id None 0)" if "tid = 1 \<or> tid = 2" for tid msg_id
    using that by (rule generates_subscribe_id)
  show "maintains (state_inv reg most named) (MqttSnClientUnsubscribePredefined env loop fuel topic_id)"
    "maintains (state_inv reg most named) (MqttSnClientUnsubscribeShort env loop fuel topic_id)"
    unfolding MqttSnClientUnsubscribePredefined_def MqttSnClientUnsubscribeShort_def
      MqttSnClientUnsubscribeMessageHandler_def
    by (intro maintains assms generates_safe [OF gen] sendable_generated [OF subscribe_lengths(2) gen]; simp)+
  show "maintains (state_inv reg most named) (MqttSnClientUnsubscribeTopicName env loop fuel name k)"
    if "name_arg name k"
  proof -
    have k: "0 < k" "k \<le> length name"
      using that by (simp_all add: name_arg_def)
    show ?thesis
      unfolding MqttSnClientUnsubscribeTopicName_def MqttSnClientUnsubscribeMessageHandler_def Let_def
      by (intro maintains assms generates_safe [OF generates_subscribe_name(2)]
          sendable_generated [OF subscribe_lengths(4) generates_subscribe_name(2)])
        (use k in auto)
  qed
qed

end
