(* ===== verification/Client_Api.thy ===== *)
theory Client_Api
  imports Client_Request_Safety
begin

text \<open>
  The interface of the client as a whole: its operations as values, the arguments a caller may hand over,
  and the states reachable from a successful initialisation. No call of a reachable client makes an access
  outside its memory. Registering and subscribing need a free slot and a gateway that registers nothing by
  itself; where these are missing the code writes past its array.
\<close>

section \<open>Access lists\<close>

lemma ok_al_add:
  assumes "access_inv l"
  shows "ok (\<lambda>(rc, l'). access_inv l') (al_add x l)"
proof (cases "al_len l + 1 \<ge> al_max_len l")
  case False
  then have "al_len l < length (al_items l)" "al_len l + 1 \<le> ACCESS_LIST_LENGTH"
    using assms by (auto simp: access_inv_def)
  moreover have "(al_len l + 1) mod 65536 \<le> al_len l + 1"
    by (rule mod_less_eq_dividend)
  ultimately show ?thesis
    using assms search_access [OF assms, of x] False by (auto simp: al_add_def access_inv_def)
qed (use assms in \<open>simp add: al_add_def\<close>)

lemma ok_al_remove_loop:
  "access_inv l \<Longrightarrow> ok (\<lambda>(rc, l'). access_inv l') (al_remove_loop not_found z x l i)"
proof (induction not_found z x l i rule: al_remove_loop.induct)
  case (1 not_found z x l i)
  have "al_len l \<le> length (al_items l)"
    using 1(2) by (simp add: access_inv_def)
  moreover have "access_inv (l\<lparr>al_items := (al_items l)[i := a, j := z], al_len := al_len l - Suc 0\<rparr>)" for a j
    using 1(2) by (auto simp: access_inv_def)
  ultimately show ?case
    using 1 by (subst al_remove_loop.simps) auto
qed

lemma ok_al_remove: "access_inv l \<Longrightarrow> ok (\<lambda>(rc, l'). access_inv l') (al_remove not_found z x l)"
  using ok_al_remove_loop [of l not_found z x 0] by (simp add: al_remove_def)

lemma ok_al_clear:
  assumes "length (al_items l) = ACCESS_LIST_LENGTH"
  shows "ok access_inv (al_clear z l)"
  using zero_loop_length [of ACCESS_LIST_LENGTH "al_items l" z 0] assms
  by (auto simp: al_clear_def access_inv_def)

lemma client_inv_access_update:
  assumes "client_inv reg most named c"
  shows "access_inv l \<Longrightarrow> client_inv reg most named (c\<lparr>c_gw_id_whitelist := l\<rparr>)"
    "access_inv k \<Longrightarrow> client_inv reg most named (c\<lparr>c_gw_addr_whitelist := k\<rparr>)"
    "access_inv l \<Longrightarrow> client_inv reg most named (c\<lparr>c_gw_id_blacklist := l\<rparr>)"
    "access_inv k \<Longrightarrow> client_inv reg most named (c\<lparr>c_gw_addr_blacklist := k\<rparr>)"
  using assms by (auto simp: client_inv_parts)

lemma keeps_access_op:
  assumes "\<And>c. client_inv reg most named c \<Longrightarrow> ok (\<lambda>(rc, l'). access_inv l') (op (sel c))"
    "\<And>c l. client_inv reg most named c \<Longrightarrow> access_inv l \<Longrightarrow> client_inv reg most named (upd l c)"
  shows "maintains (state_inv reg most named) (cl_bind (cl_get sel) (\<lambda>l.
     cl_bind (cl_mem (op l)) (\<lambda>(rc, l). cl_bind (cl_put (upd l)) (\<lambda>_. cl_return rc))))"
  by (intro maintains keeps_mem keeps_put_inv)
    (auto intro: ok_True [OF assms(1)] assms(2) dest!: okD [OF assms(1), rotated])

lemma keeps_access_clear:
  assumes "\<And>c. client_inv reg most named c \<Longrightarrow> ok access_inv (op (sel c))"
    "\<And>c l. client_inv reg most named c \<Longrightarrow> access_inv l \<Longrightarrow> client_inv reg most named (upd l c)"
  shows "maintains (state_inv reg most named) (cl_bind (cl_get sel) (\<lambda>l.
     cl_bind (cl_mem (op l)) (\<lambda>l. cl_put (upd l))))"
  by (intro maintains keeps_mem keeps_put_inv)
    (auto intro: ok_True [OF assms(1)] assms(2) dest!: okD [OF assms(1), rotated])

lemma access_room: "access_inv l \<Longrightarrow> length (al_items l) = ACCESS_LIST_LENGTH"
  by (simp add: access_inv_def)

lemmas access_list_rules = ok_al_add ok_al_remove ok_al_clear access_room client_inv_access
  client_inv_access_update

lemma keeps_access_lists:
  "maintains (state_inv reg most named) (MqttSnClientAddWhitelistGwId i)"
  "maintains (state_inv reg most named) (MqttSnClientRemoveWhitelistGwId i)"
  "maintains (state_inv reg most named) (MqttSnClientAddWhitelistNetworkAddress a)"
  "maintains (state_inv reg most named) (MqttSnClientRemoveWhitelistNetworkAddress a)"
  "maintains (state_inv reg most named) (MqttSnClientAddBlacklistGwId i)"
  "maintains (state_inv reg most named) (MqttSnClientRemoveBlacklistGwId i)"
  "maintains (state_inv reg most named) (MqttSnClientAddBlacklistNetworkAddress a)"
  "maintains (state_inv reg most named) (MqttSnClientRemoveBlacklistNetworkAddress a)"
  unfolding MqttSnClientAddWhitelistGwId_def MqttSnClientRemoveWhitelistGwId_def
    MqttSnClientAddWhitelistNetworkAddress_def MqttSnClientRemoveWhitelistNetworkAddress_def
    MqttSnClientAddBlacklistGwId_def MqttSnClientRemoveBlacklistGwId_def
    MqttSnClientAddBlacklistNetworkAddress_def MqttSnClientRemoveBlacklistNetworkAddress_def
  by (rule keeps_access_op; auto intro: access_list_rules)+

lemma keeps_access_clears:
  "maintains (state_inv reg most named) MqttSnClientClearWhitelistGwId"
  "maintains (state_inv reg most named) MqttSnClientClearWhitelistNetworkAddress"
  "maintains (state_inv reg most named) MqttSnClientClearBlacklistGwId"
  "maintains (state_inv reg most named) MqttSnClientClearBlacklistNetworkAddress"
  unfolding MqttSnClientClearWhitelistGwId_def MqttSnClientClearWhitelistNetworkAddress_def
    MqttSnClientClearBlacklistGwId_def MqttSnClientClearBlacklistNetworkAddress_def
  by (rule keeps_access_clear; auto intro: access_list_rules)+

section \<open>Settings and set-up\<close>

lemma keeps_settings:
  "maintains (state_inv reg most named) (MqttSnClientSetTimeoutOffset t)"
  "maintains (state_inv reg most named) (MqttSnClientSetRetryCount n)"
  "maintains (state_inv reg most named) (MqttSnClientSetCongestionDelay d)"
  "maintains (state_inv reg most named) (MqttSnClientSetDefaultSignalStrength sig)"
  "maintains (state_inv reg most named) MqttSnClientEnableSearchGwReply"
  "maintains (state_inv reg most named) MqttSnClientDisableSearchGwReply"
  "maintains (state_inv reg most named) (MqttSnClientSearchGwGwInfoReplyDelay w)"
  "maintains (state_inv reg most named) MqttSnClientEnableAutoReconnect"
  "maintains (state_inv reg most named) MqttSnClientDisableAutoReconnect"
  "maintains (state_inv reg most named) (MqttSnClientSetMqttSnGatewayAddress a)"
  "maintains (state_inv reg most named) (MqttSnClientSetMqttSnBroadcastAddress a)"
  "maintains (state_inv reg most named) (MqttSnClientSetPublishCallback cb)"
  "maintains (state_inv reg most named) (MqttSnClientSetRetryTimeout r)"
  unfolding MqttSnClientSetTimeoutOffset_def MqttSnClientSetRetryCount_def MqttSnClientSetCongestionDelay_def
    MqttSnClientSetDefaultSignalStrength_def MqttSnClientEnableSearchGwReply_def
    MqttSnClientDisableSearchGwReply_def MqttSnClientSearchGwGwInfoReplyDelay_def
    MqttSnClientEnableAutoReconnect_def MqttSnClientDisableAutoReconnect_def
    MqttSnClientSetMqttSnGatewayAddress_def MqttSnClientSetMqttSnBroadcastAddress_def
    MqttSnClientSetPublishCallback_def MqttSnClientSetRetryTimeout_def
  by (intro maintains keeps_put_inv; simp add: client_inv_parts)+

lemma keeps_deinit: "maintains (state_inv reg most named) MqttSnClientDeinit"
proof -
  have d: "maintains (state_inv reg most named) GatewayNetworkDisconnect_call"
    by (auto simp: maintains_def hoare_def GatewayNetworkDisconnect_call_def GatewayNetworkDisconnect_def
        state_inv_def client_inv_parts client_network_ok_def Let_def split: option.splits prod.splits if_splits)
  show ?thesis
    unfolding MqttSnClientDeinit_def by (intro maintains d keeps_put_inv) simp
qed

text \<open>
  The object a caller hands to \<open>MqttSnClientInit\<close>: cleared, its network initialised. The flags say which
  access lists have been cleared since; their other fields are set only there.
\<close>

definition fresh_client :: "bool \<Rightarrow> bool \<Rightarrow> bool \<Rightarrow> bool \<Rightarrow> bool \<Rightarrow> bool \<Rightarrow> 'w MqttSnClient \<times> 'w \<Rightarrow> bool" where
  "fresh_client reg g w1 w2 b1 b2 s \<longleftrightarrow> (g \<longrightarrow> gateways_inv (c_discovered_gw_list (fst s))) \<and>
     await_table_inv (c_await_msg (fst s)) \<and> registrations_inv 0 (c_registrations (fst s)) (c_registrations_len (fst s))
     \<and> client_buffer_inv (c_client_buffer (fst s)) \<and> \<not> c_will_msg (fst s)
     \<and> client_network_ok reg (c_gatewayNetwork (fst s))
     \<and> length (al_items (c_gw_id_whitelist (fst s))) = ACCESS_LIST_LENGTH \<and> (w1 \<longrightarrow> access_inv (c_gw_id_whitelist (fst s)))
     \<and> length (al_items (c_gw_addr_whitelist (fst s))) = ACCESS_LIST_LENGTH \<and> (w2 \<longrightarrow> access_inv (c_gw_addr_whitelist (fst s)))
     \<and> length (al_items (c_gw_id_blacklist (fst s))) = ACCESS_LIST_LENGTH \<and> (b1 \<longrightarrow> access_inv (c_gw_id_blacklist (fst s)))
     \<and> length (al_items (c_gw_addr_blacklist (fst s))) = ACCESS_LIST_LENGTH \<and> (b2 \<longrightarrow> access_inv (c_gw_addr_blacklist (fst s)))"

lemma ok_init_await_loop: "await_table_inv msgs \<Longrightarrow> ok await_table_inv (init_await_loop i msgs)"
proof (induction i msgs rule: init_await_loop.induct)
  case (1 i msgs)
  have "await_table_inv (msgs[i := (msgs ! i)\<lparr>am_msg_type := ANY_MESSAGE_TYPE, am_msg_id := 0\<rparr>])"
    if "i < MQTT_SN_CLIENT_MAX_MESSAGES_IN_FLIGHT"
  proof -
    have "await_ok (msgs ! i)"
      using 1(2) that by (simp add: await_table_inv_def)
    then show ?thesis
      using 1(2) by (auto simp: await_table_inv_def await_ok_def dest!: set_update_subset_insert [THEN subsetD])
  qed
  moreover have "length msgs = MQTT_SN_CLIENT_MAX_MESSAGES_IN_FLIGHT"
    using 1(2) by (simp add: await_table_inv_def)
  ultimately show ?case
    using 1 by (subst init_await_loop.simps) simp
qed

lemma hoare_clear:
  assumes "\<And>c w. P (c, w) \<Longrightarrow> length (al_items (sel c)) = ACCESS_LIST_LENGTH"
    "\<And>c w l. P (c, w) \<Longrightarrow> access_inv l \<Longrightarrow> Q (upd l c, w)"
  shows "hoare P (cl_bind (cl_get sel) (\<lambda>l. cl_bind (cl_mem (al_clear z l)) (\<lambda>l. cl_put (upd l)))) (\<lambda>_. Q)"
proof (rule hoare_get)
  fix s
  assume P: "P s"
  obtain l where "al_clear z (sel (fst s)) = Inr l" "access_inv l"
    using ok_al_clear [of "sel (fst s)" z] assms(1) [of "fst s" "snd s"] P by (auto simp: ok_def)
  then show "hoare (\<lambda>s'. s' = s) (cl_bind (cl_mem (al_clear z (sel (fst s)))) (\<lambda>l. cl_put (upd l))) (\<lambda>_. Q)"
    using assms(2) [of "fst s" "snd s" l] P by (auto intro!: hoare_put)
qed

lemma hoare_fresh_clears:
  "hoare (fresh_client reg g w1 w2 b1 b2) MqttSnClientClearWhitelistGwId (\<lambda>_. fresh_client reg g True w2 b1 b2)"
  "hoare (fresh_client reg g w1 w2 b1 b2) MqttSnClientClearWhitelistNetworkAddress (\<lambda>_. fresh_client reg g w1 True b1 b2)"
  "hoare (fresh_client reg g w1 w2 b1 b2) MqttSnClientClearBlacklistGwId (\<lambda>_. fresh_client reg g w1 w2 True b2)"
  "hoare (fresh_client reg g w1 w2 b1 b2) MqttSnClientClearBlacklistNetworkAddress (\<lambda>_. fresh_client reg g w1 w2 b1 True)"
  unfolding MqttSnClientClearWhitelistGwId_def MqttSnClientClearWhitelistNetworkAddress_def
    MqttSnClientClearBlacklistGwId_def MqttSnClientClearBlacklistNetworkAddress_def
  by (rule hoare_clear; simp add: fresh_client_def access_inv_def)+

lemma client_inv_fresh:
  "fresh_client reg True True True True True (c, w) \<Longrightarrow>
   client_inv reg 0 False (c\<lparr>c_status := MQTT_SN_CLIENT_CONNECTION_STATUS_INITALIZED\<rparr>)"
  by (simp add: fresh_client_def client_inv_parts)

lemma client_gateways_init: "gateways_inv MqttSnDiscoveredGatewayListInit"
  by (simp add: gateways_inv_def gw_list_init gw_list_inv_def timed_def)

lemma hoare_network_connect:
  "hoare (fresh_client reg g w1 w2 b1 b2) GatewayNetworkConnect_call (\<lambda>_. fresh_client reg g w1 w2 b1 b2)"
  by (auto simp: hoare_def GatewayNetworkConnect_call_def GatewayNetworkConnect_def fresh_client_def
      client_network_ok_def Let_def split: option.splits prod.splits if_splits)

lemma hoare_set_status:
  "(\<And>c w. P (c, w) \<Longrightarrow> Q st (c\<lparr>c_status := st\<rparr>, w)) \<Longrightarrow>
   hoare P (cl_bind (cl_put (\<lambda>c. c\<lparr>c_status := st\<rparr>)) (\<lambda>_. cl_get c_status)) Q"
  by (simp add: hoare_def cl_bind_def cl_put_def cl_get_def)

lemma hoare_init:
  "hoare (fresh_client reg False False False False False) MqttSnClientInit
     (\<lambda>st s. st = MQTT_SN_CLIENT_CONNECTION_STATUS_INITALIZED \<longrightarrow> state_inv reg 0 False s)"
proof -
  let ?F = "fresh_client reg False False False False False"
  have table: "hoare ?F (cl_bind (cl_get c_await_msg) (\<lambda>msgs. cl_bind (cl_mem (init_await_loop 0 msgs)) f)) Q"
    if "\<And>msgs. await_table_inv msgs \<Longrightarrow> hoare ?F (f msgs) Q"
    for f :: "MqttSnClientAwaitMessage list \<Rightarrow> ('a, MQTT_SN_CLIENT_STATUS) client_call" and Q
  proof (rule hoare_get)
    fix s :: "'a MqttSnClient \<times> 'a"
    assume F: "?F s"
    then obtain msgs where "init_await_loop 0 (c_await_msg (fst s)) = Inr msgs" "await_table_inv msgs"
      using ok_init_await_loop [of "c_await_msg (fst s)" 0] by (auto simp: fresh_client_def ok_def)
    then show "hoare (\<lambda>s'. s' = s) (cl_bind (cl_mem (init_await_loop 0 (c_await_msg (fst s)))) f) Q"
      using hoare_from [OF that F] by simp
  qed
  show ?thesis
    unfolding MqttSnClientInit_def
    apply (rule hoare_bind [OF hoare_put [where Q = "\<lambda>_. ?F"]])
     apply (simp add: fresh_client_def client_defaults_def)
    apply (rule table)
    apply (rule hoare_bind [OF hoare_put [where Q = "\<lambda>_. ?F"]])
     apply (simp add: fresh_client_def)
    apply (rule hoare_bind [OF hoare_network_connect], rule hoare_if)
     apply (rule hoare_set_status, simp)
    apply (rule hoare_bind [OF hoare_put [where Q = "\<lambda>_. fresh_client reg True False False False False"]])
     apply (simp add: fresh_client_def client_gateways_init)
    apply (rule hoare_bind [OF hoare_fresh_clears(1)], rule hoare_bind [OF hoare_fresh_clears(2)],
        rule hoare_bind [OF hoare_fresh_clears(3)], rule hoare_bind [OF hoare_fresh_clears(4)])
    apply (rule hoare_set_status)
    apply (simp add: state_inv_def client_inv_fresh)
    done
qed

section \<open>The operations of the client\<close>

datatype client_op =
    Do_Loop
  | Do_PublishPredefinedM1 u16 u8 "u8 list" nat
  | Do_PublishPredefined u16 u8 int "u8 list" nat
  | Do_PublishTopicId u16 u8 int "u8 list" nat
  | Do_PublishByRegistrationIndex nat u8 int "u8 list" nat
  | Do_PublishTopicName "u8 list" nat u8 int "u8 list" nat
  | Do_Register "u8 list" nat
  | Do_SubscribePredefined int u16
  | Do_SubscribeShort int u16
  | Do_SubscribeTopicName int "u8 list" nat
  | Do_UnsubscribePredefined u16
  | Do_UnsubscribeShort u16
  | Do_UnsubscribeTopicName "u8 list" nat
  | Do_AwaitAdvertise int
  | Do_SearchGw int u8
  | Do_Ping
  | Do_Sleep u16
  | Do_Wakeup
  | Do_Disconnect
  | Do_Reconnect
  | Do_DirectConnect "u8 list" u8 "u8 list" u16 "u8 list option" int u8 "u8 list option" nat
  | Do_AutoConnect MQTT_SN_CLIENT_FIND_GW_PATTERN int "u8 list option" u8 "u8 list" u16 "u8 list option" int u8
      "u8 list option" nat
  | Do_AddWhitelistGwId u8
  | Do_AddBlacklistGwId u8
  | Do_AddWhitelistNetworkAddress "u8 list"
  | Do_AddBlacklistNetworkAddress "u8 list"
  | Do_RemoveWhitelistGwId u8
  | Do_RemoveBlacklistGwId u8
  | Do_RemoveWhitelistNetworkAddress "u8 list"
  | Do_RemoveBlacklistNetworkAddress "u8 list"
  | Do_SetRetryCount u16
  | Do_SetRetryTimeout int
  | Do_SetTimeoutOffset int
  | Do_SetGatewayAddress "u8 list"
  | Do_SetBroadcastAddress "u8 list"
  | Do_SetPublishCallback "nat option"
  | Do_EnableAutoReconnect
  | Do_DisableAutoReconnect
  | Do_Deinit

definition discard :: "('s \<Rightarrow> stopped + 'a \<times> 's) \<Rightarrow> 's \<Rightarrow> stopped + unit \<times> 's" where
  "discard m = cl_bind m (\<lambda>_. cl_return ())"

fun run_op :: "'w client_env \<Rightarrow> nat \<Rightarrow> client_op \<Rightarrow> ('w, unit) client_call" where
  "run_op env n Do_Loop = discard (MqttSnClientLoop env n)"
| "run_op env n (Do_PublishPredefinedM1 t r d k) =
     discard (MqttSnClientPublishPredefinedM1 env (MqttSnClientLoop env n) n t r d k)"
| "run_op env n (Do_PublishPredefined t r q d k) =
     discard (MqttSnClientPublishPredefined env (MqttSnClientLoop env n) n t r q d k)"
| "run_op env n (Do_PublishTopicId t r q d k) =
     discard (MqttSnClientPublishTopicId env (MqttSnClientLoop env n) n t r q d k)"
| "run_op env n (Do_PublishByRegistrationIndex i r q d k) =
     discard (MqttSnClientPublishByRegistrationIndex env (MqttSnClientLoop env n) n i r q d k)"
| "run_op env n (Do_PublishTopicName s m r q d k) =
     discard (MqttSnClientPublishTopicName env (MqttSnClientLoop env n) n s m r q d k)"
| "run_op env n (Do_Register s k) = discard (MqttSnClientRegister env (MqttSnClientLoop env n) n s k)"
| "run_op env n (Do_SubscribePredefined q t) =
     discard (MqttSnClientSubscribePredefined env (MqttSnClientLoop env n) n q t)"
| "run_op env n (Do_SubscribeShort q t) =
     discard (MqttSnClientSubscribeShort env (MqttSnClientLoop env n) n q t)"
| "run_op env n (Do_SubscribeTopicName q s k) =
     discard (MqttSnClientSubscribeTopicName env (MqttSnClientLoop env n) n q s k)"
| "run_op env n (Do_UnsubscribePredefined t) =
     discard (MqttSnClientUnsubscribePredefined env (MqttSnClientLoop env n) n t)"
| "run_op env n (Do_UnsubscribeShort t) =
     discard (MqttSnClientUnsubscribeShort env (MqttSnClientLoop env n) n t)"
| "run_op env n (Do_UnsubscribeTopicName s k) =
     discard (MqttSnClientUnsubscribeTopicName env (MqttSnClientLoop env n) n s k)"
| "run_op env n (Do_AwaitAdvertise t) =
     discard (MqttSnClientAwaitAdvertise env (MqttSnClientLoop env n) n t zero_received_advertise)"
| "run_op env n (Do_SearchGw t r) =
     discard (MqttSnClientSearchGw env (MqttSnClientLoop env n) n t r zero_received_gw_info)"
| "run_op env n Do_Ping = discard (MqttSnClientPing env (MqttSnClientLoop env n) n)"
| "run_op env n (Do_Sleep d) = discard (MqttSnClientSleep env (MqttSnClientLoop env n) n d)"
| "run_op env n Do_Wakeup = discard (MqttSnClientWakeup env (MqttSnClientLoop env n) n)"
| "run_op env n Do_Disconnect = discard (MqttSnClientDisconnect env (MqttSnClientLoop env n) n)"
| "run_op env n Do_Reconnect = discard (MqttSnClientReconnect env (MqttSnClientLoop env n) n)"
| "run_op env n (Do_DirectConnect a c i d wt q r wm l) =
     discard (MqttSnClientDirectConnect env (MqttSnClientLoop env n) n a c i d wt q r wm l)"
| "run_op env n (Do_AutoConnect p t a c i d wt q r wm l) =
     discard (MqttSnClientAutoConnect env (MqttSnClientLoop env n) n p t a c i d wt q r wm l)"
| "run_op env n (Do_AddWhitelistGwId i) = discard (MqttSnClientAddWhitelistGwId i)"
| "run_op env n (Do_AddBlacklistGwId i) = discard (MqttSnClientAddBlacklistGwId i)"
| "run_op env n (Do_AddWhitelistNetworkAddress a) = discard (MqttSnClientAddWhitelistNetworkAddress a)"
| "run_op env n (Do_AddBlacklistNetworkAddress a) = discard (MqttSnClientAddBlacklistNetworkAddress a)"
| "run_op env n (Do_RemoveWhitelistGwId i) = discard (MqttSnClientRemoveWhitelistGwId i)"
| "run_op env n (Do_RemoveBlacklistGwId i) = discard (MqttSnClientRemoveBlacklistGwId i)"
| "run_op env n (Do_RemoveWhitelistNetworkAddress a) = discard (MqttSnClientRemoveWhitelistNetworkAddress a)"
| "run_op env n (Do_RemoveBlacklistNetworkAddress a) = discard (MqttSnClientRemoveBlacklistNetworkAddress a)"
| "run_op env n (Do_SetRetryCount k) = MqttSnClientSetRetryCount k"
| "run_op env n (Do_SetRetryTimeout t) = discard (MqttSnClientSetRetryTimeout t)"
| "run_op env n (Do_SetTimeoutOffset t) = MqttSnClientSetTimeoutOffset t"
| "run_op env n (Do_SetGatewayAddress a) = discard (MqttSnClientSetMqttSnGatewayAddress a)"
| "run_op env n (Do_SetBroadcastAddress a) = discard (MqttSnClientSetMqttSnBroadcastAddress a)"
| "run_op env n (Do_SetPublishCallback cb) = discard (MqttSnClientSetPublishCallback cb)"
| "run_op env n Do_EnableAutoReconnect = MqttSnClientEnableAutoReconnect"
| "run_op env n Do_DisableAutoReconnect = MqttSnClientDisableAutoReconnect"
| "run_op env n Do_Deinit = discard MqttSnClientDeinit"

text \<open>
  What a caller has to keep to: payloads and names as long as announced, identifiers that fit, no will,
  and no reconnect before an identifier is known.
\<close>

fun admissible :: "client_op \<Rightarrow> bool" where
  "admissible (Do_PublishPredefinedM1 t r d k) \<longleftrightarrow> k \<le> length d"
| "admissible (Do_PublishPredefined t r q d k) \<longleftrightarrow> k \<le> length d"
| "admissible (Do_PublishTopicId t r q d k) \<longleftrightarrow> k \<le> length d"
| "admissible (Do_PublishByRegistrationIndex i r q d k) \<longleftrightarrow> k \<le> length d"
| "admissible (Do_PublishTopicName s m r q d k) \<longleftrightarrow> name_arg s m \<and> (0 \<in> set s \<or> 254 \<le> length s) \<and> k \<le> length d"
| "admissible (Do_Register s k) \<longleftrightarrow> name_arg s k \<and> (0 \<in> set s \<or> 254 \<le> length s)"
| "admissible (Do_SubscribeTopicName q s k) \<longleftrightarrow> name_arg s k"
| "admissible (Do_UnsubscribeTopicName s k) \<longleftrightarrow> name_arg s k"
| "admissible Do_Reconnect \<longleftrightarrow> False"
| "admissible (Do_DirectConnect a c i d wt q r wm l) \<longleftrightarrow> client_id_arg i \<and> (wt = None \<or> wm = None)"
| "admissible (Do_AutoConnect p t a c i d wt q r wm l) \<longleftrightarrow> client_id_arg i \<and> (wt = None \<or> wm = None)"
| "admissible op \<longleftrightarrow> True"

text \<open>The operations that add a registration.\<close>

fun registers :: "client_op \<Rightarrow> bool" where
  "registers (Do_PublishTopicName s m r q d k) \<longleftrightarrow> True"
| "registers (Do_Register s k) \<longleftrightarrow> True"
| "registers (Do_SubscribePredefined q t) \<longleftrightarrow> True"
| "registers (Do_SubscribeShort q t) \<longleftrightarrow> True"
| "registers (Do_SubscribeTopicName q s k) \<longleftrightarrow> True"
| "registers op \<longleftrightarrow> False"

lemma keeps_discard: "maintains P m \<Longrightarrow> maintains P (discard m)"
  unfolding discard_def by (intro maintains)

lemma hoare_discard: "hoare P m (\<lambda>_. Q) \<Longrightarrow> hoare P (discard m) (\<lambda>_. Q)"
  unfolding discard_def by (erule hoare_bind) (rule hoare_return)

lemma keeps_run_op:
  assumes "clock_contract (ce_platform env)" "reg \<longrightarrow> most = MQTT_SN_CLIENT_MAX_REGISTRATIONS"
    "admissible op" "\<not> registers op"
  shows "maintains (state_inv reg most named) (run_op env n op)"
proof -
  note loop = good_client_loop [OF assms(1,2), of n]
  have room: "gwinfo_room zero_received_gw_info"
    by (simp add: gwinfo_room_def zero_received_gw_info_def zero_gwinfo_def zero_address_def)
  show ?thesis
    using assms(3,4)
    by (cases op) (auto intro!: keeps_discard keeps_publish keeps_publish_by_index keeps_unsubscribe maintains
        keeps_sleep keeps_wakeup keeps_direct_connect keeps_auto_connect keeps_access_lists keeps_settings
        keeps_deinit loop good_loopD [OF loop] room assms(1))
qed

lemma hoare_run_op:
  assumes "clock_contract (ce_platform env)" "admissible op" "registers op"
    "most < MQTT_SN_CLIENT_MAX_REGISTRATIONS"
  shows "hoare (state_inv False most named) (run_op env n op) (\<lambda>_. state_inv False (Suc most) named)"
proof -
  have loop: "good_loop False m (MqttSnClientLoop env n)" for m
    using assms(1) by (rule good_client_loop) simp
  show ?thesis
    using assms(2,3)
    by (cases op) (auto intro!: hoare_discard hoare_register hoare_subscribe hoare_publish_topic_name
        good_loopD [OF loop] assms(4))
qed

section \<open>Reachable states\<close>

text \<open>The object a caller hands to \<open>MqttSnClientInit\<close>, whose network receives with \<open>receive\<close>, if at all.\<close>

definition cleared_client :: "'w net_receive \<Rightarrow> 'w MqttSnClient \<times> 'w \<Rightarrow> bool" where
  "cleared_client receive s \<longleftrightarrow> client_receive_contract receive
     \<and> gn_receive (c_gatewayNetwork (fst s)) \<in> {None, Some receive}
     \<and> await_table_inv (c_await_msg (fst s)) \<and> registrations_inv 0 (c_registrations (fst s)) (c_registrations_len (fst s))
     \<and> client_buffer_inv (c_client_buffer (fst s)) \<and> \<not> c_will_msg (fst s)
     \<and> length (al_items (c_gw_id_whitelist (fst s))) = ACCESS_LIST_LENGTH
     \<and> length (al_items (c_gw_addr_whitelist (fst s))) = ACCESS_LIST_LENGTH
     \<and> length (al_items (c_gw_id_blacklist (fst s))) = ACCESS_LIST_LENGTH
     \<and> length (al_items (c_gw_addr_blacklist (fst s))) = ACCESS_LIST_LENGTH"

text \<open>
  The states between two calls. \<open>k\<close> counts the registrations the caller has asked for. Between the calls
  the world does what it likes.
\<close>

inductive client_reachable :: "'w client_env \<Rightarrow> 'w net_receive \<Rightarrow> nat \<Rightarrow> 'w MqttSnClient \<times> 'w \<Rightarrow> bool"
  for env :: "'w client_env" and receive :: "'w net_receive" where
  initialised: "cleared_client receive s
    \<Longrightarrow> MqttSnClientInit s = Inr (MQTT_SN_CLIENT_CONNECTION_STATUS_INITALIZED, s')
    \<Longrightarrow> client_reachable env receive 0 s'"
| operation: "client_reachable env receive k s \<Longrightarrow> admissible op \<Longrightarrow> \<not> registers op
    \<Longrightarrow> run_op env n op s = Inr ((), s') \<Longrightarrow> client_reachable env receive k s'"
| registration: "client_reachable env receive k s \<Longrightarrow> admissible op \<Longrightarrow> registers op
    \<Longrightarrow> k < MQTT_SN_CLIENT_MAX_REGISTRATIONS
    \<Longrightarrow> run_op env n op s = Inr ((), s') \<Longrightarrow> client_reachable env receive (Suc k) s'"
| reconnect: "client_reachable env receive k s \<Longrightarrow> c_client_id (fst s)
    \<Longrightarrow> run_op env n Do_Reconnect s = Inr ((), s') \<Longrightarrow> client_reachable env receive k s'"
| world: "client_reachable env receive k (c, w) \<Longrightarrow> client_reachable env receive k (c, w')"

inductive_cases client_reachableE: "client_reachable env receive k s"

lemma cleared_client_fresh:
  assumes "cleared_client receive s" "\<not> delivers_register (if reg then REGISTER_LIMIT else 0) receive"
  shows "fresh_client reg False False False False False s"
  using assms by (auto simp: cleared_client_def fresh_client_def client_network_ok_def)

lemma state_inv_more:
  "state_inv reg most named s \<Longrightarrow> most \<le> m \<Longrightarrow> m \<le> MQTT_SN_CLIENT_MAX_REGISTRATIONS \<Longrightarrow> state_inv reg m named s"
  by (auto simp: state_inv_def client_inv_def registrations_inv_def)

lemma state_inv_named:
  "state_inv reg most named s \<Longrightarrow> c_client_id (fst s) \<Longrightarrow> state_inv reg most True s"
  by (simp add: state_inv_def client_inv_def)

definition room_for :: "bool \<Rightarrow> nat \<Rightarrow> nat" where
  "room_for reg k = (if reg then MQTT_SN_CLIENT_MAX_REGISTRATIONS else k)"

lemma keeps_run_reconnect:
  assumes "clock_contract (ce_platform env)" "reg \<longrightarrow> most = MQTT_SN_CLIENT_MAX_REGISTRATIONS"
  shows "maintains (state_inv reg most True) (run_op env n Do_Reconnect)"
  by (simp add: keeps_discard keeps_reconnect good_client_loop assms)

text \<open>
  The invariant of a reachable state. A gateway that registers topics by itself (\<open>reg\<close>) leaves the caller
  no room for registrations of its own.
\<close>

lemma reachable_inv:
  assumes "clock_contract (ce_platform env)" "client_reachable env receive k s" "reg \<longrightarrow> k = 0"
    "\<not> delivers_register (if reg then REGISTER_LIMIT else 0) receive"
  shows "state_inv reg (room_for reg k) False s"
  using assms(2,3)
proof induction
  case (initialised s s')
  have "state_inv reg 0 False s'"
    using hoare_result [OF hoare_init cleared_client_fresh [OF initialised(1) assms(4)] initialised(2)] by simp
  then show ?case
    by (rule state_inv_more) (simp_all add: room_for_def)
next
  case (operation k s op n s')
  have "reg \<longrightarrow> room_for reg k = MQTT_SN_CLIENT_MAX_REGISTRATIONS"
    by (simp add: room_for_def)
  from keeps_state [OF keeps_run_op [OF assms(1) this operation(2,3)] operation(5) [OF operation(6)] operation(4)] show ?case .
next
  case (registration k s op n s')
  then have "\<not> reg" "state_inv False k False s"
    by (simp_all add: room_for_def)
  from hoare_result [OF hoare_run_op [OF assms(1) registration(2,3,4)] this(2) registration(5)] this(1)
  show ?case
    by (simp add: room_for_def)
next
  case (reconnect k s n s')
  have "state_inv reg (room_for reg k) True s'"
    using keeps_state [OF keeps_run_reconnect [OF assms(1)] state_inv_named [OF reconnect(4) [OF reconnect(5)] reconnect(2)]
        reconnect(3)]
    by (simp add: room_for_def)
  then show ?case
    by (rule state_inv_weaken)
next
  case (world k c w w')
  then show ?case
    by (simp add: state_inv_def)
qed

text \<open>The caller has asked for no registration, and does not with \<open>op\<close>.\<close>

definition registers_nothing :: "nat \<Rightarrow> client_op \<Rightarrow> bool" where
  "registers_nothing k op \<longleftrightarrow> k = 0 \<and> \<not> registers op"

lemma reachable_operation_safe:
  assumes "clock_contract (ce_platform env)" "client_reachable env receive k s" "admissible op"
    "registers op \<longrightarrow> \<not> reg \<and> k < MQTT_SN_CLIENT_MAX_REGISTRATIONS" "reg \<longrightarrow> k = 0"
    "\<not> delivers_register (if reg then REGISTER_LIMIT else 0) receive"
  shows "run_op env n op s \<noteq> Inl Memory_Fault"
proof (cases "registers op")
  case True
  then have "state_inv False k False s" "k < MQTT_SN_CLIENT_MAX_REGISTRATIONS"
    using reachable_inv [OF assms(1,2,5,6)] assms(4) by (simp_all add: room_for_def)
  then show ?thesis
    using hoare_safe [OF hoare_run_op [OF assms(1,3) True]] by blast
next
  case False
  then show ?thesis
    using keeps_safe [OF keeps_run_op [OF assms(1) _ assms(3) False] reachable_inv [OF assms(1,2,5,6)]]
    by (simp add: room_for_def)
qed

end
