(* ===== verification/Client_Fuel.thy ===== *)
theory Client_Fuel
  imports Client_Api
begin

text \<open>
  The fuel only bounds the model: a call that does not run out of it has the result it has with any more
  fuel. The relation \<open>less_fuel m m'\<close> says that \<open>m\<close> either runs out or agrees with \<open>m'\<close>; it is carried
  through every definition that takes fuel, and by induction through the pass.
\<close>

named_theorems fuel \<open>calls that agree unless the fuel runs out\<close>

definition less_fuel :: "('s \<Rightarrow> stopped + 'a \<times> 's) \<Rightarrow> ('s \<Rightarrow> stopped + 'a \<times> 's) \<Rightarrow> bool" where
  "less_fuel m m' \<longleftrightarrow> (\<forall>s. m s = Inl Out_Of_Fuel \<or> m s = m' s)"

lemma less_fuel_refl [fuel]: "less_fuel m m"
  by (simp add: less_fuel_def)

lemma less_fuel_out [fuel]: "less_fuel (cl_stop Out_Of_Fuel) m"
  by (simp add: less_fuel_def cl_stop_def)

lemma less_fuel_bind [fuel]:
  assumes "less_fuel m m'" "\<And>x. less_fuel (f x) (f' x)"
  shows "less_fuel (cl_bind m f) (cl_bind m' f')"
  unfolding less_fuel_def
proof
  fix s
  show "cl_bind m f s = Inl Out_Of_Fuel \<or> cl_bind m f s = cl_bind m' f' s"
  proof (cases "m s")
    case (Inl e)
    then show ?thesis
      using assms(1) by (auto simp: less_fuel_def cl_bind_def dest: spec [of _ s])
  next
    case (Inr p)
    then have "m' s = Inr p"
      using assms(1) by (auto simp: less_fuel_def dest: spec [of _ s])
    then show ?thesis
      using assms(2) Inr by (cases p) (simp add: less_fuel_def cl_bind_def)
  qed
qed

lemma less_fuel_if [fuel]:
  "(b \<Longrightarrow> less_fuel m n) \<Longrightarrow> (\<not> b \<Longrightarrow> less_fuel m' n') \<Longrightarrow> less_fuel (if b then m else m') (if b then n else n')"
  by simp

lemma less_fuel_option [fuel]:
  "less_fuel m n \<Longrightarrow> (\<And>y. less_fuel (f y) (g y))
   \<Longrightarrow> less_fuel (case x of None \<Rightarrow> m | Some y \<Rightarrow> f y) (case x of None \<Rightarrow> n | Some y \<Rightarrow> g y)"
  by (cases x) simp_all

lemma less_fuel_prod [fuel]:
  "(\<And>a b. less_fuel (f a b) (g a b))
   \<Longrightarrow> less_fuel (case x of (a, b) \<Rightarrow> f a b) (case x of (a, b) \<Rightarrow> g a b)"
  by (cases x) simp

lemma less_fuel_result: "less_fuel m m' \<Longrightarrow> m s \<noteq> Inl Out_Of_Fuel \<Longrightarrow> m' s = m s"
  by (auto simp: less_fuel_def dest: spec [of _ s])

section \<open>Waiting\<close>

lemma fuel_await_easy_loop:
  "less_fuel loop loop' \<Longrightarrow> k \<le> k' \<Longrightarrow>
   less_fuel (await_easy_loop env loop k fd timeout_ms start) (await_easy_loop env loop' k' fd timeout_ms start)"
proof (induction k arbitrary: k' start)
  case (Suc k)
  then obtain j where "k' = Suc j" "k \<le> j"
    by (cases k') auto
  then show ?case
    using Suc by (auto simp: Let_def intro!: fuel)
qed (simp add: fuel)

lemma fuel_await_easy [fuel]:
  "less_fuel loop loop' \<Longrightarrow> k \<le> k' \<Longrightarrow>
   less_fuel (get_await_status_timeout_ms_easy env loop k fd timeout_ms)
     (get_await_status_timeout_ms_easy env loop' k' fd timeout_ms)"
  unfolding get_await_status_timeout_ms_easy_def by (intro fuel fuel_await_easy_loop)

lemma fuel_acquire_loop [fuel]:
  "less_fuel loop loop' \<Longrightarrow> k \<le> k' \<Longrightarrow>
   less_fuel (acquire_loop loop k msg_type msg_id) (acquire_loop loop' k' msg_type msg_id)"
proof (induction k arbitrary: k')
  case (Suc k)
  then obtain j where "k' = Suc j" "k \<le> j"
    by (cases k') auto
  then show ?case
    using Suc by (auto intro!: fuel)
qed (simp add: fuel)

lemma fuel_acquire_once [fuel]:
  "less_fuel loop loop' \<Longrightarrow> less_fuel (acquire_once loop msg_type msg_id) (acquire_once loop' msg_type msg_id)"
  unfolding acquire_once_def by (intro fuel)

lemma fuel_send_retry_loop:
  "less_fuel loop loop' \<Longrightarrow> k \<le> k' \<Longrightarrow>
   less_fuel (send_retry_loop env loop k fd data n retry) (send_retry_loop env loop' k' fd data n retry)"
proof (induction "65536 - retry" arbitrary: retry data rule: less_induct)
  case less
  have "less_fuel (send_retry_loop env loop k fd data' n (retry + 1)) (send_retry_loop env loop' k' fd data' n (retry + 1))"
    if "retry < unat c" for c :: u16 and data'
    using less.hyps [of "retry + 1" data'] less.prems that u16_lt [of c] by auto
  then show ?case
    using less.prems
    by (subst (1 2) send_retry_loop.simps) (auto simp: Let_def intro!: fuel)
qed

lemma fuel_send_with_retry [fuel]:
  "less_fuel loop loop' \<Longrightarrow> k \<le> k' \<Longrightarrow>
   less_fuel (send_to_gateway_with_retry env loop k fd data n) (send_to_gateway_with_retry env loop' k' fd data n)"
  unfolding send_to_gateway_with_retry_def by (rule fuel_send_retry_loop)

lemma fuel_request [fuel]:
  "less_fuel loop loop' \<Longrightarrow> k \<le> k' \<Longrightarrow>
   less_fuel (request env loop k msg_type msg_id data n) (request env loop' k' msg_type msg_id data n)"
  unfolding request_def by (intro fuel)

section \<open>Requests\<close>

lemma fuel_combinators [fuel]:
  "(\<And>y. less_fuel (f y) (g y)) \<Longrightarrow> less_fuel (cl_parse r f) (cl_parse r g)"
  "less_fuel m m' \<Longrightarrow> less_fuel a b \<Longrightarrow> less_fuel (cl_check m a) (cl_check m' b)"
  "(\<And>d n. less_fuel (h d n) (i d n)) \<Longrightarrow> less_fuel (cl_generate q h) (cl_generate q i)"
  "less_fuel j l \<Longrightarrow> (\<And>fd. less_fuel (u fd) (v fd)) \<Longrightarrow> less_fuel (cl_acquire j u) (cl_acquire l v)"
  unfolding cl_parse_def cl_check_def cl_generate_def cl_acquire_def by (intro fuel; assumption)+

lemma fuel_waiting [fuel]:
  assumes "less_fuel loop loop'" "k \<le> k'"
  shows
    "less_fuel (MqttSnClientAwaitAdvertise env loop k timeout_s dst)
       (MqttSnClientAwaitAdvertise env loop' k' timeout_s dst)"
    "less_fuel (MqttSnClientSearchGw env loop k timeout_ms radius info)
       (MqttSnClientSearchGw env loop' k' timeout_ms radius info)"
    "less_fuel (MqttSnClientPublishQosMessageHandler env loop k qos msg_id data n)
       (MqttSnClientPublishQosMessageHandler env loop' k' qos msg_id data n)"
    "less_fuel (MqttSnClientRegister env loop k name n)
       (MqttSnClientRegister env loop' k' name n)"
    "less_fuel (MqttSnClientSubscribeMessageHandler env loop k msg_id data n)
       (MqttSnClientSubscribeMessageHandler env loop' k' msg_id data n)"
    "less_fuel (MqttSnClientUnsubscribeMessageHandler env loop k msg_id data n)
       (MqttSnClientUnsubscribeMessageHandler env loop' k' msg_id data n)"
    "less_fuel (MqttSnClientPing env loop k)
       (MqttSnClientPing env loop' k')"
    "less_fuel (MqttSnClientSleep env loop k duration)
       (MqttSnClientSleep env loop' k' duration)"
    "less_fuel (MqttSnClientWakeup env loop k)
       (MqttSnClientWakeup env loop' k')"
    "less_fuel (MqttSnClientDisconnect env loop k)
       (MqttSnClientDisconnect env loop' k')"
    "less_fuel (MqttSnClientDirectConnectWithoutWill env loop k address clean name duration)
       (MqttSnClientDirectConnectWithoutWill env loop' k' address clean name duration)"
    "less_fuel (MqttSnClientDirectConnectWithWill env loop k address clean name duration will_topic qos retain will_msg n)
       (MqttSnClientDirectConnectWithWill env loop' k' address clean name duration will_topic qos retain will_msg n)"
  unfolding MqttSnClientAwaitAdvertise_def MqttSnClientSearchGw_def MqttSnClientPublishQosMessageHandler_def MqttSnClientRegister_def MqttSnClientSubscribeMessageHandler_def MqttSnClientUnsubscribeMessageHandler_def MqttSnClientPing_def MqttSnClientSleep_def MqttSnClientWakeup_def MqttSnClientDisconnect_def MqttSnClientDirectConnectWithoutWill_def MqttSnClientDirectConnectWithWill_def Let_def
  by (intro fuel assms)+

lemma fuel_requests [fuel]:
  assumes "less_fuel loop loop'" "k \<le> k'"
  shows
    "less_fuel (publish_message env loop k len qos retain tid topic_id msg_id data n)
       (publish_message env loop' k' len qos retain tid topic_id msg_id data n)"
    "less_fuel (MqttSnClientSubscribePredefined env loop k qos topic)
       (MqttSnClientSubscribePredefined env loop' k' qos topic)"
    "less_fuel (MqttSnClientSubscribeShort env loop k qos topic)
       (MqttSnClientSubscribeShort env loop' k' qos topic)"
    "less_fuel (MqttSnClientSubscribeTopicName env loop k qos name n)
       (MqttSnClientSubscribeTopicName env loop' k' qos name n)"
    "less_fuel (MqttSnClientUnsubscribePredefined env loop k topic)
       (MqttSnClientUnsubscribePredefined env loop' k' topic)"
    "less_fuel (MqttSnClientUnsubscribeShort env loop k topic)
       (MqttSnClientUnsubscribeShort env loop' k' topic)"
    "less_fuel (MqttSnClientUnsubscribeTopicName env loop k name n)
       (MqttSnClientUnsubscribeTopicName env loop' k' name n)"
    "less_fuel (MqttSnClientDirectConnect env loop k address clean name duration will_topic qos retain will_msg n)
       (MqttSnClientDirectConnect env loop' k' address clean name duration will_topic qos retain will_msg n)"
    "less_fuel (MqttSnClientReconnect env loop k)
       (MqttSnClientReconnect env loop' k')"
  unfolding publish_message_def MqttSnClientSubscribePredefined_def MqttSnClientSubscribeShort_def MqttSnClientSubscribeTopicName_def MqttSnClientUnsubscribePredefined_def MqttSnClientUnsubscribeShort_def MqttSnClientUnsubscribeTopicName_def MqttSnClientDirectConnect_def MqttSnClientReconnect_def Let_def
  by (intro fuel assms)+

lemma fuel_publish [fuel]:
  assumes "less_fuel loop loop'" "k \<le> k'"
  shows
    "less_fuel (MqttSnClientPublishPredefinedM1 env loop k topic retain data n)
       (MqttSnClientPublishPredefinedM1 env loop' k' topic retain data n)"
    "less_fuel (MqttSnClientPublishPredefined env loop k topic retain qos data n)
       (MqttSnClientPublishPredefined env loop' k' topic retain qos data n)"
    "less_fuel (MqttSnClientPublishTopicId env loop k topic retain qos data n)
       (MqttSnClientPublishTopicId env loop' k' topic retain qos data n)"
  unfolding MqttSnClientPublishPredefinedM1_def MqttSnClientPublishPredefined_def MqttSnClientPublishTopicId_def Let_def
  by (intro fuel assms)+

lemma fuel_publish_by [fuel]:
  assumes "less_fuel loop loop'" "k \<le> k'"
  shows
    "less_fuel (MqttSnClientPublishByRegistrationIndex env loop k i retain qos data n)
       (MqttSnClientPublishByRegistrationIndex env loop' k' i retain qos data n)"
    "less_fuel (MqttSnClientPublishTopicName env loop k name m retain qos data n)
       (MqttSnClientPublishTopicName env loop' k' name m retain qos data n)"
  unfolding MqttSnClientPublishByRegistrationIndex_def MqttSnClientPublishTopicName_def Let_def
  by (intro fuel assms)+

section \<open>The pass\<close>

lemma less_fuel_enums [fuel]:
  "less_fuel m1 n1 \<Longrightarrow> less_fuel m2 n2 \<Longrightarrow> less_fuel m3 n3 \<Longrightarrow>
   less_fuel (case p of MQTT_SN_CLIENT_FIND_GW_PATTERN_SEARCHGW \<Rightarrow> m1
      | MQTT_SN_CLIENT_FIND_GW_PATTERN_ADVERTISE \<Rightarrow> m2 | MQTT_SN_CLIENT_FIND_GW_PATTERN_DIRECT \<Rightarrow> m3)
     (case p of MQTT_SN_CLIENT_FIND_GW_PATTERN_SEARCHGW \<Rightarrow> n1
      | MQTT_SN_CLIENT_FIND_GW_PATTERN_ADVERTISE \<Rightarrow> n2 | MQTT_SN_CLIENT_FIND_GW_PATTERN_DIRECT \<Rightarrow> n3)"
  by (cases p) simp_all

lemma fuel_connect_to_found [fuel]:
  "less_fuel loop loop' \<Longrightarrow> k \<le> k' \<Longrightarrow> (\<And>a. less_fuel (f a) (g a)) \<Longrightarrow>
   less_fuel (connect_to_found_gateway env loop k timeout_ms f)
     (connect_to_found_gateway env loop' k' timeout_ms g)"
  unfolding connect_to_found_gateway_def by (intro fuel)

lemma fuel_auto_connect [fuel]:
  "less_fuel loop loop' \<Longrightarrow> k \<le> k' \<Longrightarrow>
   less_fuel (MqttSnClientAutoConnect env loop k p t a clean name duration topic qos retain msg n)
     (MqttSnClientAutoConnect env loop' k' p t a clean name duration topic qos retain msg n)"
  unfolding MqttSnClientAutoConnect_def Let_def by (intro fuel)

lemma fuel_publish_delivered [fuel]: "less_fuel m n \<Longrightarrow> less_fuel (publish_delivered env p m) (publish_delivered env p n)"
  unfolding publish_delivered_def by (intro fuel)

lemma fuel_handle_publish [fuel]:
  assumes "less_fuel loop loop'" "k \<le> k'"
  shows "less_fuel (parse_and_handle_publish env loop k msg) (parse_and_handle_publish env loop' k' msg)"
  unfolding parse_and_handle_publish_def handle_publish_qos1_def handle_publish_qos2_def
  by (intro fuel assms)

lemma fuel_dispatch [fuel]:
  "less_fuel loop loop' \<Longrightarrow> k \<le> k' \<Longrightarrow>
   less_fuel (dispatch_message env loop k msg_type msg) (dispatch_message env loop' k' msg_type msg)"
  unfolding dispatch_message_def dispatch_connected_def dispatch_asleep_def dispatch_session_def Let_def
  by (intro fuel)

lemma fuel_loop_next [fuel]:
  "less_fuel m m' \<Longrightarrow> less_fuel n n' \<Longrightarrow> less_fuel (loop_next m n) (loop_next m' n')"
  unfolding loop_next_def by (intro fuel)

lemma fuel_maintain_connection [fuel]:
  "less_fuel loop loop' \<Longrightarrow> k \<le> k' \<Longrightarrow>
   less_fuel (maintain_connection env loop k) (maintain_connection env loop' k')"
  unfolding maintain_connection_def auto_reconnect_def try_reconnect_def try_auto_connect_def
    handle_client_asleep_connection_def
  by (intro fuel)

lemma fuel_client_pass [fuel]:
  "less_fuel loop loop' \<Longrightarrow> k \<le> k' \<Longrightarrow> less_fuel (client_pass env loop k) (client_pass env loop' k')"
  unfolding client_pass_def receive_and_dispatch_def by (intro fuel)

lemma fuel_client_loop [fuel]: "n \<le> n' \<Longrightarrow> less_fuel (MqttSnClientLoop env n) (MqttSnClientLoop env n')"
proof (induction n arbitrary: n')
  case (Suc n)
  then obtain m where "n' = Suc m" "n \<le> m"
    by (cases n') auto
  then show ?case
    using Suc.IH [of m] by (auto intro: fuel)
qed (simp add: fuel)

lemma fuel_discard [fuel]: "less_fuel m m' \<Longrightarrow> less_fuel (discard m) (discard m')"
  unfolding discard_def by (intro fuel)

lemma fuel_run_op: "n \<le> n' \<Longrightarrow> less_fuel (run_op env n op) (run_op env n' op)"
  by (cases op) (auto intro!: fuel)

end
