(* ===== verification/Client_Liveness.thy ===== *)
theory Client_Liveness
  imports Client_Behaviour
begin

text \<open>
  How long the client waits. A gateway that never answers is one whose driver delivers nothing and lets a
  second pass in each receive; a request to it ends with a timeout after a time that the settings
  determine. A gateway that answers a CONNECT ends the wait, whatever it answers.
\<close>

section \<open>The gateway behind the driver\<close>

text \<open>
  What the client sees of a gateway, as the driver shows it: the driver takes every message, each receive
  lets a second pass and ends with a result that \<open>answer\<close> describes, and the clock can be read up to a
  horizon.
\<close>

definition gateway_answers ::
  "(int \<Rightarrow> rx \<Rightarrow> bool) \<Rightarrow> 'w client_env \<Rightarrow> 'w MqttSnGatewayNetworkInterface \<Rightarrow> ('w \<Rightarrow> nat) \<Rightarrow> nat \<Rightarrow> bool" where
  "gateway_answers answer env n seconds horizon \<longleftrightarrow>
     gn_status n = MQTT_SN_GATEWAY_NETWORK_INTERFACE_STATUS_CONNECTED \<and> 1000 * horizon < 2 ^ 64
     \<and> (\<forall>w. seconds w < horizon \<longrightarrow> pf_clock_ms (ce_platform env) w = ((0, of_nat (1000 * seconds w)), w))
     \<and> (\<exists>receive send. gn_receive n = Some receive \<and> gn_send n = Some send
        \<and> (\<forall>timeout w. \<exists>r rx w'. receive empty_rx MQTT_SN_MAXIMUM_MESSAGE_DATA_LENGTH timeout w = (r, rx, w')
             \<and> 0 \<le> r \<and> answer r rx \<and> seconds w' = Suc (seconds w))
        \<and> (\<forall>sender to data len signal timeout w. \<exists>w'. send sender to data len signal timeout w = (int len, w')
             \<and> seconds w' = seconds w))"

abbreviation silent_gateway where
  "silent_gateway \<equiv> gateway_answers (\<lambda>r rx. r = 0)"

text \<open>One that answers everything with the same message.\<close>

abbreviation message_gateway where
  "message_gateway address bytes \<equiv> gateway_answers (\<lambda>r (sender, to, data, signal).
     r = int (length bytes) \<and> sender = address \<and> (\<exists>rest. data = bytes @ rest))"

lemma div_of_nat_u64: "a < 2 ^ 64 \<Longrightarrow> b < 2 ^ 64 \<Longrightarrow> (of_nat a :: u64) div of_nat b = of_nat (a div b)"
  by (simp add: word_arith_nat_div unat_of_nat take_bit_nat_eq_self)

lemma gateway_time:
  assumes "gateway_answers answer env n seconds horizon" "seconds w < horizon"
  shows "cl_time env (c, w) = Inr ((0, of_nat (seconds w)), c, w)"
proof -
  have "1000 * seconds w < 2 ^ 64"
    using assms by (auto simp: gateway_answers_def)
  then have "(of_nat (1000 * seconds w) :: u64) div of_nat 1000 = of_nat (seconds w)"
    by (subst div_of_nat_u64) simp_all
  then show ?thesis
    using assms by (simp add: gateway_answers_def cl_time_def cl_world_def get_timestamp_s_def)
qed

lemma gateway_receives:
  assumes "gateway_answers answer env (c_gatewayNetwork c) seconds horizon"
  shows "\<exists>r sender to data signal w'. receive_message (c, w) = Inr ((r, zero_message\<lparr>md_from := sender, md_to := to,
      md_data := data, md_signal_strength := signal, md_data_length := nat (r mod 65536)\<rparr>), c, w')
    \<and> 0 \<le> r \<and> answer r (sender, to, data, signal) \<and> seconds w' = Suc (seconds w)"
proof -
  obtain receive where r: "gn_receive (c_gatewayNetwork c) = Some receive"
    "\<And>timeout w. \<exists>r rx w'. receive empty_rx MQTT_SN_MAXIMUM_MESSAGE_DATA_LENGTH timeout w = (r, rx, w')
       \<and> 0 \<le> r \<and> answer r rx \<and> seconds w' = Suc (seconds w)"
    "gn_status (c_gatewayNetwork c) = MQTT_SN_GATEWAY_NETWORK_INTERFACE_STATUS_CONNECTED"
    using assms by (auto simp: gateway_answers_def)
  obtain a rx w' where a: "receive empty_rx MQTT_SN_MAXIMUM_MESSAGE_DATA_LENGTH (c_gatewayNetworkReceiveTimeout c) w
      = (a, rx, w')" "0 \<le> a" "answer a rx" "seconds w' = Suc (seconds w)"
    using r(2) by blast
  obtain sender to data signal where rx: "rx = (sender, to, data, signal)"
    by (cases rx)
  have "receive_message (c, w) = Inr ((a, zero_message\<lparr>md_from := sender, md_to := to, md_data := data,
      md_signal_strength := signal, md_data_length := nat (a mod 65536)\<rparr>), c, w')"
    using r(1,3) a(1,2) rx by (simp add: receive_message_def GatewayNetworkReceiveFom_def)
  then show ?thesis
    using a(2-4) unfolding rx by blast
qed

lemma gateway_takes:
  assumes "gateway_answers answer env (c_gatewayNetwork c) seconds horizon" "n < 65536"
  shows "\<exists>w'. send_to_address to data n (c, w) = Inr (int n, c, w') \<and> seconds w' = seconds w"
proof -
  obtain send where s: "gn_send (c_gatewayNetwork c) = Some send"
    "\<And>sender to data len signal timeout w. \<exists>w'. send sender to data len signal timeout w = (int len, w') \<and> seconds w' = seconds w"
    "gn_status (c_gatewayNetwork c) = MQTT_SN_GATEWAY_NETWORK_INTERFACE_STATUS_CONNECTED"
    using assms(1) by (auto simp: gateway_answers_def)
  obtain w' where "send [] to data n (c_default_signal_strength c) (c_gatewayNetworkSendTimeout c) w = (int n, w')"
    "seconds w' = seconds w"
    using s(2) by blast
  then show ?thesis
    using s(1,3) assms(2) by (simp add: send_to_address_def GatewayNetworkSendTo_def)
qed

text \<open>A client that is not connected has nothing to keep up.\<close>

definition idle :: "'w MqttSnClient \<Rightarrow> bool" where
  "idle c \<longleftrightarrow> c_status c = MQTT_SN_CLIENT_CONNECTION_STATUS_DISCONNECTED
     \<and> am_msg_type (c_searchgw_reply_await_msg c) \<noteq> GWINFO"

lemma idle_upkeep:
  assumes "idle c"
  shows "loop_next (maintain_connection env loop k) (reply_searchgw env) (c, w) = Inr (None, c, w)"
  using assms
  by (simp add: idle_def loop_next_def maintain_connection_def reply_searchgw_def cl_bind_assoc
      MqttSnClientIsSearchGwReplyEnabled_def)

lemma quiet_pass:
  assumes "silent_gateway env (c_gatewayNetwork c) seconds horizon" "idle c"
  shows "\<exists>w'. MqttSnClientLoop env (Suc n) (c, w) = Inr (MQTT_SN_CLIENT_LOOP_RETURN_SUCCESS, c, w')
    \<and> seconds w' = Suc (seconds w)"
proof -
  obtain msg w' where r: "receive_message (c, w) = Inr ((0, msg), c, w')" "seconds w' = Suc (seconds w)"
    using gateway_receives [OF assms(1)] by blast
  have "receive_and_dispatch env loop k (c, w) = Inr (MQTT_SN_CLIENT_LOOP_RETURN_SUCCESS, c, w')" for loop k
    by (simp add: receive_and_dispatch_def run_bind [where m = receive_message, OF r(1)])
  then show ?thesis
    using r(2) by (simp add: client_pass_def run_bind [where m = "loop_next m m'" for m m', OF idle_upkeep [OF assms(2)]])
qed

lemma run_await_status:
  assumes "i < length (c_await_msg c)" "length (c_await_msg c) = MQTT_SN_CLIENT_MAX_MESSAGES_IN_FLIGHT"
  shows "get_await_status (int i) (c, w) = Inr (am_status (c_await_msg c ! i), c, w)"
    "get_await_context (int i) (c, w) = Inr (Some (am_await_context (c_await_msg c ! i)), c, w)"
proof -
  have "await_fd_valid (int i)"
    using assms by (simp add: await_fd_valid_iff)
  then show "get_await_status (int i) (c, w) = Inr (am_status (c_await_msg c ! i), c, w)"
    "get_await_context (int i) (c, w) = Inr (Some (am_await_context (c_await_msg c ! i)), c, w)"
    using assms(1) by (simp_all add: get_await_status_def get_await_context_def get_await_msg_def cl_bind_assoc)
qed

section \<open>A wait that ends with a timeout\<close>

text \<open>The passes a wait of \<open>timeout_ms\<close> makes when nothing arrives: the seconds of the timeout, and two.\<close>

definition wait_passes :: "int \<Rightarrow> nat" where
  "wait_passes timeout_ms = nat timeout_ms div 1000 + 2"

lemma wait_limit:
  assumes "0 < timeout_ms" "timeout_ms < 2 ^ 31" "e < 2 ^ 64"
  shows "(of_int timeout_ms :: u64) > 0"
    "(of_nat e :: u64) > of_int timeout_ms div 1000 \<longleftrightarrow> nat timeout_ms div 1000 < e"
proof -
  have t: "(of_int timeout_ms :: u64) = of_nat (nat timeout_ms)"
    using assms(1) by simp
  have n: "nat timeout_ms < 2 ^ 31" "0 < nat timeout_ms"
    using assms by auto
  have "unat (of_nat m :: u64) = m" if "m < 2 ^ 31" for m :: nat
    using that by (simp add: unat_of_nat take_bit_nat_eq_self)
  note u = this [OF n(1)]
  show "(of_int timeout_ms :: u64) > 0"
    unfolding t using n u by (simp add: word_gt_0 flip: unat_eq_zero)
  have d: "(of_int timeout_ms :: u64) div 1000 = of_nat (nat timeout_ms div 1000)"
    unfolding t using div_of_nat_u64 [of "nat timeout_ms" 1000] n by simp
  show "(of_nat e :: u64) > of_int timeout_ms div 1000 \<longleftrightarrow> nat timeout_ms div 1000 < e"
    unfolding d using assms(3) n
    by (simp add: word_less_nat_alt unat_of_nat take_bit_nat_eq_self)
qed

lemma wait_times_out:
  assumes gw: "silent_gateway env (c_gatewayNetwork c) seconds horizon" "idle c"
    and slot: "i < length (c_await_msg c)" "length (c_await_msg c) = MQTT_SN_CLIENT_MAX_MESSAGES_IN_FLIGHT"
      "am_status (c_await_msg c ! i) = MQTT_SN_CLIENT_AWAIT_MESSAGE_STATUS_AWAIT"
    and timeout: "0 < timeout_ms" "timeout_ms < 2 ^ 31"
  shows "seconds w = start + j \<Longrightarrow> j < wait_passes timeout_ms \<Longrightarrow> start + wait_passes timeout_ms \<le> horizon
    \<Longrightarrow> wait_passes timeout_ms \<le> j + k
    \<Longrightarrow> \<exists>w'. await_easy_loop env (MqttSnClientLoop env (Suc n)) k (int i) (of_int timeout_ms) (of_nat start) (c, w)
          = Inr (MQTT_SN_CLIENT_AWAIT_MESSAGE_STATUS_TIMEOUT, c, w')
        \<and> seconds w' = start + wait_passes timeout_ms"
proof (induction k arbitrary: j w)
  case 0
  then show ?case by simp
next
  case (Suc k)
  let ?T = "of_int timeout_ms :: u64"
  note [simp] = run_bind [where m = "get_await_status fd" for fd, OF run_await_status(1) [OF slot(1,2)]]
  obtain w' where p: "MqttSnClientLoop env (Suc n) (c, w) = Inr (MQTT_SN_CLIENT_LOOP_RETURN_SUCCESS, c, w')"
    "seconds w' = Suc (seconds w)"
    using quiet_pass [OF gw] by blast
  have h: "seconds w < horizon"
    using Suc.prems by simp
  have e: "(of_nat (seconds w) :: u64) - of_nat start = of_nat j"
    using Suc.prems(1) by simp
  have j: "j < 2 ^ 64"
    using Suc.prems(2) timeout by (simp add: wait_passes_def)
  have awake: "c_status c \<noteq> MQTT_SN_CLIENT_CONNECTION_STATUS_AWAKE"
    using gw(2) by (simp add: idle_def)
  have step: "await_easy_loop env (MqttSnClientLoop env (Suc n)) (Suc k) (int i) ?T (of_nat start) (c, w) =
      (if nat timeout_ms div 1000 < j then Inr (MQTT_SN_CLIENT_AWAIT_MESSAGE_STATUS_TIMEOUT, c, w')
       else await_easy_loop env (MqttSnClientLoop env (Suc n)) k (int i) ?T (of_nat start) (c, w'))"
    using slot(3) awake e wait_limit [OF timeout j]
    by (simp add: run_bind [where m = "cl_time env", OF gateway_time [OF gw(1) h]]
        run_bind [where m = "MqttSnClientLoop env (Suc n)", OF p(1)] Let_def del: MqttSnClientLoop.simps)
  show ?case
  proof (cases "nat timeout_ms div 1000 < j")
    case True
    then have "j = Suc (nat timeout_ms div 1000)"
      using Suc.prems(2) by (simp add: wait_passes_def)
    then show ?thesis
      using True step p(2) Suc.prems(1) by (simp add: wait_passes_def)
  next
    case False
    then show ?thesis
      using Suc.IH [of w' "Suc j"] Suc.prems p(2) unfolding step by (simp add: wait_passes_def)
  qed
qed

text \<open>A message that is sent again is sent as it is, unless it carries a duplicate flag.\<close>

definition resent_alike :: "u8 list \<Rightarrow> nat \<Rightarrow> bool" where
  "resent_alike data n \<longleftrightarrow> add_dup_flag_to_mqtt_sn_message data n = Inr data"

lemma retries_time_out:
  assumes gw: "silent_gateway env (c_gatewayNetwork c) seconds horizon" "idle c"
    and slot: "i < length (c_await_msg c)" "length (c_await_msg c) = MQTT_SN_CLIENT_MAX_MESSAGES_IN_FLIGHT"
      "am_status (c_await_msg c ! i) = MQTT_SN_CLIENT_AWAIT_MESSAGE_STATUS_AWAIT"
    and timeout: "0 < c_retry_timeout_ms c" "c_retry_timeout_ms c < 2 ^ 31"
    and msg: "resent_alike data len" "len < 65536"
    and fuel: "wait_passes (c_retry_timeout_ms c) \<le> k"
  shows "retry \<le> unat (c_retry_count c) \<Longrightarrow>
    seconds w + (unat (c_retry_count c) - retry) * wait_passes (c_retry_timeout_ms c) \<le> horizon \<Longrightarrow>
    \<exists>w'. send_retry_loop env (MqttSnClientLoop env (Suc n)) k (int i) data len retry (c, w)
        = Inr (MQTT_SN_CLIENT_RETURN_TIMEOUT, c, w')
      \<and> seconds w' = seconds w + (unat (c_retry_count c) - retry) * wait_passes (c_retry_timeout_ms c)"
proof (induction "unat (c_retry_count c) - retry" arbitrary: retry w)
  case 0
  then show ?case
    using gw(2) by (subst send_retry_loop.simps) (simp add: lose_gateway_def idle_def)
next
  case (Suc d)
  let ?P = "wait_passes (c_retry_timeout_ms c)"
  have r: "retry < unat (c_retry_count c)" and d: "unat (c_retry_count c) - Suc retry = d"
    using Suc.hyps(2) by simp_all
  have room: "seconds w + ?P + d * ?P \<le> horizon"
    using Suc.prems(2) Suc.hyps(2) by (metis add.assoc mult_Suc)
  obtain w1 where s: "send_to_address (c_mqtt_sn_gateway_address c) data len (c, w) = Inr (int len, c, w1)"
    "seconds w1 = seconds w"
    using gateway_takes [OF gw(1) msg(2)] by blast
  have h: "seconds w1 < horizon"
    using room s(2) by (simp add: wait_passes_def)
  obtain w2 where a: "await_easy_loop env (MqttSnClientLoop env (Suc n)) k (int i) (of_int (c_retry_timeout_ms c))
        (of_nat (seconds w1)) (c, w1) = Inr (MQTT_SN_CLIENT_AWAIT_MESSAGE_STATUS_TIMEOUT, c, w2)"
      "seconds w2 = seconds w1 + ?P"
    using wait_times_out [OF gw slot timeout, where start = "seconds w1" and j = 0 and k = k and w = w1 and n = n] room s(2) fuel
    by (auto simp: wait_passes_def)
  obtain w3 where n: "send_retry_loop env (MqttSnClientLoop env (Suc n)) k (int i) data len (Suc retry) (c, w2)
        = Inr (MQTT_SN_CLIENT_RETURN_TIMEOUT, c, w3)" "seconds w3 = seconds w2 + d * ?P"
    using Suc.hyps(1) [of "Suc retry" w2] d r room a(2) s(2) by auto
  have dup: "add_dup_flag_to_mqtt_sn_message data len = Inr data"
    using msg(1) by (simp add: resent_alike_def)
  have "send_retry_loop env (MqttSnClientLoop env (Suc n)) k (int i) data len retry (c, w)
      = Inr (MQTT_SN_CLIENT_RETURN_TIMEOUT, c, w3)"
    using r n(1)
    by (subst send_retry_loop.simps)
      (auto simp: dup send_to_gateway_without_retry_def cl_bind_assoc get_await_status_timeout_ms_easy_def
        run_bind [where m = "send_to_address to d l" for to d l, OF s(1)] send_failed_def
        run_bind [where m = "cl_time env", OF gateway_time [OF gw(1) h]]
        run_bind [where m = "await_easy_loop env loop k fd t s" for loop fd t s, OF a(1)] Let_def
        simp del: MqttSnClientLoop.simps)
  then show ?case
    using n(2) a(2) s(2) Suc.hyps(2) by (metis add.assoc mult_Suc)
qed

section \<open>A connect up to its exchange\<close>

definition free_slot :: "MqttSnClientAwaitMessage list \<Rightarrow> nat option" where
  "free_slot msgs = find (\<lambda>i. am_msg_type (msgs ! i) = ANY_MESSAGE_TYPE) [0..<length msgs]"

definition taken_slot :: "MQTT_SN_MESSAGE_TYPE \<Rightarrow> u16 \<Rightarrow> MqttSnClientAwaitMessage \<Rightarrow> MqttSnClientAwaitMessage" where
  "taken_slot msg_type msg_id m = m\<lparr>am_msg_type := msg_type, am_msg_id := msg_id,
     am_status := MQTT_SN_CLIENT_AWAIT_MESSAGE_STATUS_AWAIT\<rparr>"

lemma free_slot_Some: "free_slot msgs = Some i \<Longrightarrow> i < length msgs \<and> am_msg_type (msgs ! i) = ANY_MESSAGE_TYPE"
  by (auto simp: free_slot_def find_Some_iff)

lemma acquire_slot_loop_eq:
  "length msgs = MQTT_SN_CLIENT_MAX_MESSAGES_IN_FLIGHT \<Longrightarrow> i \<le> length msgs \<Longrightarrow>
   acquire_slot_loop msg_type msg_id i msgs =
     Inr (case find (\<lambda>i. am_msg_type (msgs ! i) = ANY_MESSAGE_TYPE) [i..<length msgs] of None \<Rightarrow> (-1, msgs)
          | Some j \<Rightarrow> (int j, msgs[j := taken_slot msg_type msg_id (msgs ! j)]))"
proof (induction msg_type msg_id i msgs rule: acquire_slot_loop.induct)
  case (1 msg_type msg_id i msgs)
  show ?case
  proof (cases "i < length msgs")
    case True
    then have "[i..<length msgs] = i # [Suc i..<length msgs]"
      by (rule upt_conv_Cons)
    then show ?thesis
      using 1 True by (subst acquire_slot_loop.simps) (auto simp: taken_slot_def)
  next
    case False
    then show ?thesis
      using 1 by (subst acquire_slot_loop.simps) auto
  qed
qed

lemma run_acquire_loop:
  assumes "length (c_await_msg c) = MQTT_SN_CLIENT_MAX_MESSAGES_IN_FLIGHT" "free_slot (c_await_msg c) = Some i" "0 < k"
  shows "acquire_loop loop k msg_type msg_id (c, w) = Inr (Some (int i),
    c\<lparr>c_await_msg := (c_await_msg c)[i := taken_slot msg_type msg_id (c_await_msg c ! i)]\<rparr>, w)"
proof -
  have "acquire_await_fd msg_type msg_id (c, w) = Inr (int i,
      c\<lparr>c_await_msg := (c_await_msg c)[i := taken_slot msg_type msg_id (c_await_msg c ! i)]\<rparr>, w)"
    using acquire_slot_loop_eq [OF assms(1), of 0 msg_type msg_id] assms(2)
    by (simp add: acquire_await_fd_def free_slot_def)
  then show ?thesis
    using assms(3) by (cases k) (simp_all add: run_bind [where m = "acquire_await_fd t i" for t i])
qed

text \<open>An identifier that a CONNECT can carry, and what the first step of a connect leaves alone.\<close>

definition fit_client_id :: "u8 list \<Rightarrow> bool" where
  "fit_client_id p \<longleftrightarrow> 0 \<in> set (take MQTT_SN_MAX_CLIENT_ID_LENGTH p) \<and> 0 < length (c_string p) \<and> length (c_string p) \<le> 22"

definition session_of :: "'w MqttSnClient \<Rightarrow> 'w MqttSnClient \<Rightarrow> bool" where
  "session_of c c' \<longleftrightarrow> c_await_msg c' = c_await_msg c \<and> c_gatewayNetwork c' = c_gatewayNetwork c
     \<and> c_gatewayNetworkReceiveTimeout c' = c_gatewayNetworkReceiveTimeout c
     \<and> c_gatewayNetworkSendTimeout c' = c_gatewayNetworkSendTimeout c
     \<and> c_default_signal_strength c' = c_default_signal_strength c
     \<and> c_retry_timeout_ms c' = c_retry_timeout_ms c \<and> c_retry_count c' = c_retry_count c
     \<and> c_searchgw_reply_await_msg c' = c_searchgw_reply_await_msg c
     \<and> c_gw_addr_whitelist c' = c_gw_addr_whitelist c \<and> c_gw_addr_blacklist c' = c_gw_addr_blacklist c
     \<and> c_status c' = MQTT_SN_CLIENT_CONNECTION_STATUS_DISCONNECTED"

lemma run_credential_init:
  assumes "client_inv reg most named c" "fit_client_id client_id"
    "client_status_code MQTT_SN_CLIENT_CONNECTION_STATUS_INITALIZED \<le> client_status_code (c_status c)"
  shows "\<exists>c'. MqttSnClientDirectConnectClientCredentialInit address clean client_id duration (c, w)
      = Inr (MQTT_SN_CLIENT_RETURN_SUCCESS, c', w) \<and> session_of c c' \<and> client_inv reg most True c'
      \<and> c_mqtt_sn_gateway_address c' = address"
proof -
  let ?m = "MqttSnClientDirectConnectClientCredentialInit address clean client_id duration"
  have id: "length (c_string client_id) \<le> 22" "0 < length (c_string client_id)"
    "0 \<in> set (take MQTT_SN_MAX_CLIENT_ID_LENGTH client_id)"
    using assms(2) by (simp_all add: fit_client_id_def)
  obtain copy where copy: "c_strncpy (cb_client_id (c_client_buffer c)) client_id (length (c_string client_id)) = Inr copy"
    using ok_strncpy_id [OF client_inv_id_ok [OF assms(1)] id(1)] by (auto simp: ok_def)
  have len: "MqttSnClientSafeStrlen client_id MQTT_SN_MAX_CLIENT_ID_LENGTH = Inr (int (length (c_string client_id)))"
    using id(3) by (simp add: MqttSnClientSafeStrlen_def)
  obtain c' where c': "?m (c, w) = Inr (MQTT_SN_CLIENT_RETURN_SUCCESS, c', w)" "session_of c c'"
    "c_mqtt_sn_gateway_address c' = address"
    using assms(3) id(2) copy len
    by (auto simp: MqttSnClientDirectConnectClientCredentialInit_def session_of_def)
  have "client_id_arg client_id"
    using id by (auto simp: client_id_arg_def dest: in_set_takeD)
  from hoare_result [OF hoare_credential_init [OF this] _ c'(1)] assms(1)
  have "client_inv reg most True c'"
    by (simp add: state_inv_def)
  with c' show ?thesis by blast
qed

text \<open>The message of a connect: it is written whole, and its header is that of a CONNECT.\<close>

lemma connect_message:
  assumes "n \<le> 22" "length client_id = 24"
  shows "\<exists>data. generate_connect (replicate MQTT_SN_MESSAGE_CONNECT_MAX_LENGTH 0) MQTT_SN_MESSAGE_CONNECT_MAX_LENGTH
      0 clean 1 duration client_id (n + 1) = Inr (data, n + 7) \<and> resent_alike data (n + 7)"
proof -
  let ?m = "\<lparr>con_will = 0, con_clean_session = clean, con_protocol_id = 1, con_duration = duration,
    con_client_id = client_id, con_client_id_length = n + 1\<rparr>"
  let ?d = "replicate MQTT_SN_MESSAGE_CONNECT_MAX_LENGTH (0 :: u8)"
  have m: "connect_wf ?m" "connect_valid ?m" "n + 7 \<le> MQTT_SN_MESSAGE_CONNECT_MAX_LENGTH"
    using assms by (simp_all add: connect_wf_def connect_valid_def codec_defs)
  have g: "generate_connect ?d MQTT_SN_MESSAGE_CONNECT_MAX_LENGTH 0 clean 1 duration client_id (n + 1)
      = Inr (patched ?d (connect_wire ?m), n + 7)"
    using generate_connect_eq [OF m(1), of MQTT_SN_MESSAGE_CONNECT_MAX_LENGTH ?d] m(2,3)
    by (simp add: cleared_at_def)
  obtain rest where "patched ?d (connect_wire ?m) = header_wire (n + 7) CONNECT @ rest"
    by (auto simp: patched_def connect_wire_def add.commute)
  moreover have "parse_header_ok ANY_MESSAGE_TYPE (header_wire (n + 7) CONNECT @ rest) (n + 7) 0
      = Inr (plain_header (n + 7) CONNECT, header_size (n + 7))" for rest
    using assms(1) parse_header_ok_wire [of CONNECT "n + 7" ANY_MESSAGE_TYPE rest 0] by simp
  ultimately have "resent_alike (patched ?d (connect_wire ?m)) (n + 7)"
    by (simp add: resent_alike_def add_dup_flag_to_mqtt_sn_message_def)
  with g show ?thesis by blast
qed

text \<open>What follows the exchange.\<close>

definition finish_connect :: "int \<Rightarrow> MQTT_SN_CLIENT_RETURN_CODE \<Rightarrow> 'w client_request" where
  "finish_connect await_fd rc =
     cl_bind (the_await_context await_fd) (\<lambda>ctx.
     cl_bind (cl_get c_status) (\<lambda>status.
     cl_bind (if rc = MQTT_SN_CLIENT_RETURN_SUCCESS \<and> ac_return_code ctx = RETURN_CODE_ACCEPTED
                 \<and> \<not> at_most status MQTT_SN_CLIENT_CONNECTION_STATUS_GATEWAY_LOST
              then connected else cl_return ()) (\<lambda>_.
     cl_bind (free_await_fd await_fd) (\<lambda>_.
     cl_return rc))))"

lemma connect_reaches_exchange:
  assumes "client_inv reg most named c" "fit_client_id client_id"
    "client_status_code MQTT_SN_CLIENT_CONNECTION_STATUS_INITALIZED \<le> client_status_code (c_status c)"
    "free_slot (c_await_msg c) = Some i" "0 < k" "will_topic = None \<or> will_msg = None"
  shows "\<exists>c1 data n. session_of c c1 \<and> c_mqtt_sn_gateway_address c1 = address \<and> client_inv reg most True c1
    \<and> n \<le> 22 \<and> resent_alike data (n + 7)
    \<and> MqttSnClientDirectConnect env loop k address clean client_id duration will_topic qos retain will_msg will_len (c, w)
      = cl_bind (send_to_gateway_with_retry env loop k (int i) data (n + 7)) (finish_connect (int i))
          (c1\<lparr>c_await_msg := (c_await_msg c)[i := taken_slot CONNACK 0 (c_await_msg c ! i)]\<rparr>, w)"
proof -
  let ?init = "MqttSnClientDirectConnectClientCredentialInit address clean client_id duration"
  obtain c0 where c0: "?init (c, w) = Inr (MQTT_SN_CLIENT_RETURN_SUCCESS, c0, w)" "session_of c c0"
    "client_inv reg most True c0"
    using run_credential_init [OF assms(1,2,3)] by blast
  then have "client_status_code MQTT_SN_CLIENT_CONNECTION_STATUS_INITALIZED \<le> client_status_code (c_status c0)"
    by (simp add: session_of_def)
  then obtain c1 where c1: "?init (c0, w) = Inr (MQTT_SN_CLIENT_RETURN_SUCCESS, c1, w)" "session_of c0 c1"
    "client_inv reg most True c1" "c_mqtt_sn_gateway_address c1 = address"
    using run_credential_init [OF c0(3) assms(2)] by blast
  have s: "session_of c c1"
    using c0(2) c1(2) by (simp add: session_of_def)
  obtain n where n: "c_strlen (own_client_id c1) = Inr n" "n \<le> 22"
    using ok_own_client_id(1) [OF c1(3) refl] by (auto simp: ok_def)
  obtain data where d: "generate_connect (replicate MQTT_SN_MESSAGE_CONNECT_MAX_LENGTH 0) MQTT_SN_MESSAGE_CONNECT_MAX_LENGTH
      0 clean 1 (c_connect_duration c1) (own_client_id c1) (n + 1) = Inr (data, n + 7)" "resent_alike data (n + 7)"
    using connect_message [OF n(2) ok_own_client_id(2) [OF c1(3) refl]] by blast
  have msgs: "c_await_msg c1 = c_await_msg c" "length (c_await_msg c1) = MQTT_SN_CLIENT_MAX_MESSAGES_IN_FLIGHT"
    using s assms(1) by (simp_all add: session_of_def client_inv_def await_table_inv_def)
  have i: "free_slot (c_await_msg c1) = Some i" "i < length (c_await_msg c1)"
    using assms(4) msgs(1) free_slot_Some [OF assms(4)] by simp_all
  have acq: "acquire_loop loop k CONNACK 0 (c1, w) = Inr (Some (int i),
      c1\<lparr>c_await_msg := (c_await_msg c)[i := taken_slot CONNACK 0 (c_await_msg c ! i)]\<rparr>, w)"
    using run_acquire_loop [OF msgs(2) i(1) assms(5)] msgs(1) by simp
  have ctx: "get_await_context (int i) (c1\<lparr>c_await_msg := (c_await_msg c)[i := m]\<rparr>, w)
      = Inr (Some (am_await_context m), c1\<lparr>c_await_msg := (c_await_msg c)[i := m]\<rparr>, w)" for m
    using run_await_status(2) [of i "c1\<lparr>c_await_msg := (c_await_msg c)[i := m]\<rparr>" w] i(2) msgs by simp
  have will: "\<not> (will_topic \<noteq> None \<and> will_msg \<noteq> None)"
    using assms(6) by blast
  have "MqttSnClientDirectConnect env loop k address clean client_id duration will_topic qos retain will_msg will_len (c, w)
      = cl_bind (send_to_gateway_with_retry env loop k (int i) data (n + 7)) (finish_connect (int i))
          (c1\<lparr>c_await_msg := (c_await_msg c)[i := taken_slot CONNACK 0 (c_await_msg c ! i)]\<rparr>, w)"
    unfolding MqttSnClientDirectConnect_def MqttSnClientDirectConnectWithoutWill_def if_not_P [OF will]
    by (simp add: run_bind [where m = ?init, OF c0(1)] run_bind [where m = ?init, OF c1(1)] n(1) d(1) [simplified]
        cl_generate_def cl_acquire_def run_bind [where m = "acquire_loop loop k CONNACK 0", OF acq]
        run_bind [where m = "get_await_context (int i)", OF ctx] finish_connect_def [abs_def])
  with s c1(3,4) n(2) d(2) show ?thesis by blast
qed

lemma run_the_await_context:
  "i < length (c_await_msg c) \<Longrightarrow> the_await_context (int i) (c, w) = Inr (am_await_context (c_await_msg c ! i), c, w)"
  by (simp add: the_await_context_def get_await_msg_def cl_bind_assoc)

text \<open>A connect is accepted when it has been answered with the code for it, and the gateway is not lost.\<close>

lemma run_finish_connect:
  assumes "i < length (c_await_msg c)" "length (c_await_msg c) = MQTT_SN_CLIENT_MAX_MESSAGES_IN_FLIGHT"
    "\<not> (rc = MQTT_SN_CLIENT_RETURN_SUCCESS \<and> at_most (c_status c) MQTT_SN_CLIENT_CONNECTION_STATUS_GATEWAY_LOST)"
  shows "\<exists>c'. finish_connect (int i) rc (c, w) = Inr (rc, c', w)
    \<and> c_await_msg c' = (c_await_msg c)[i := freed_await_msg]
    \<and> c_status c' = (if rc = MQTT_SN_CLIENT_RETURN_SUCCESS
        \<and> ac_return_code (am_await_context (c_await_msg c ! i)) = RETURN_CODE_ACCEPTED
        then MQTT_SN_CLIENT_CONNECTION_STATUS_CONNECTED else c_status c)"
  using assms
  by (auto simp: finish_connect_def connected_def run_bind [where m = "the_await_context fd" for fd, OF run_the_await_context]
      run_bind [where m = "free_await_fd fd" for fd, OF run_set_await(5)])

lemma silent_connect_times_out:
  assumes gw: "silent_gateway env (c_gatewayNetwork c) seconds horizon"
    and c: "client_inv reg most named c" "am_msg_type (c_searchgw_reply_await_msg c) \<noteq> GWINFO"
      "client_status_code MQTT_SN_CLIENT_CONNECTION_STATUS_INITALIZED \<le> client_status_code (c_status c)"
      "free_slot (c_await_msg c) = Some i" "0 < c_retry_timeout_ms c" "c_retry_timeout_ms c < 2 ^ 31"
    and arg: "fit_client_id client_id" "will_topic = None \<or> will_msg = None"
    and fuel: "wait_passes (c_retry_timeout_ms c) \<le> k" "0 < n"
    and room: "seconds w + unat (c_retry_count c) * wait_passes (c_retry_timeout_ms c) \<le> horizon"
  shows "\<exists>c' w'. MqttSnClientDirectConnect env (MqttSnClientLoop env n) k address clean client_id duration
        will_topic qos retain will_msg will_len (c, w) = Inr (MQTT_SN_CLIENT_RETURN_TIMEOUT, c', w')
    \<and> c_status c' = MQTT_SN_CLIENT_CONNECTION_STATUS_DISCONNECTED
    \<and> c_await_msg c' = (c_await_msg c)[i := freed_await_msg]
    \<and> seconds w' = seconds w + unat (c_retry_count c) * wait_passes (c_retry_timeout_ms c)"
proof -
  obtain n' where n': "n = Suc n'"
    using fuel(2) by (cases n) auto
  have k: "0 < k"
    using fuel(1) by (simp add: wait_passes_def)
  obtain c1 data l where c1: "session_of c c1" "client_inv reg most True c1" "l \<le> 22" "resent_alike data (l + 7)"
    "MqttSnClientDirectConnect env (MqttSnClientLoop env n) k address clean client_id duration will_topic qos retain will_msg will_len (c, w)
      = cl_bind (send_to_gateway_with_retry env (MqttSnClientLoop env n) k (int i) data (l + 7)) (finish_connect (int i))
          (c1\<lparr>c_await_msg := (c_await_msg c)[i := taken_slot CONNACK 0 (c_await_msg c ! i)]\<rparr>, w)"
    using connect_reaches_exchange [OF c(1) arg(1) c(3,4) k arg(2)] by blast
  define c2 where "c2 = c1\<lparr>c_await_msg := (c_await_msg c)[i := taken_slot CONNACK 0 (c_await_msg c ! i)]\<rparr>"
  have i: "i < length (c_await_msg c)" "length (c_await_msg c) = MQTT_SN_CLIENT_MAX_MESSAGES_IN_FLIGHT"
    using free_slot_Some [OF c(4)] c(1) by (simp_all add: client_inv_def await_table_inv_def)
  have c2: "silent_gateway env (c_gatewayNetwork c2) seconds horizon" "idle c2" "i < length (c_await_msg c2)"
    "length (c_await_msg c2) = MQTT_SN_CLIENT_MAX_MESSAGES_IN_FLIGHT"
    "am_status (c_await_msg c2 ! i) = MQTT_SN_CLIENT_AWAIT_MESSAGE_STATUS_AWAIT"
    "c_retry_timeout_ms c2 = c_retry_timeout_ms c" "c_retry_count c2 = c_retry_count c"
    "c_status c2 = MQTT_SN_CLIENT_CONNECTION_STATUS_DISCONNECTED"
    using c1(1) gw c(2) i by (simp_all add: c2_def session_of_def idle_def taken_slot_def)
  obtain w' where r: "send_to_gateway_with_retry env (MqttSnClientLoop env n) k (int i) data (l + 7) (c2, w)
      = Inr (MQTT_SN_CLIENT_RETURN_TIMEOUT, c2, w')"
    "seconds w' = seconds w + unat (c_retry_count c) * wait_passes (c_retry_timeout_ms c)"
    using retries_time_out [OF c2(1-5) _ _ c1(4), where k = k and retry = 0 and w = w and n = n'] c2(6,7) c(5,6) fuel(1)
      c1(3) room n' unfolding send_to_gateway_with_retry_def by auto
  obtain c' where f: "finish_connect (int i) MQTT_SN_CLIENT_RETURN_TIMEOUT (c2, w') = Inr (MQTT_SN_CLIENT_RETURN_TIMEOUT, c', w')"
    "c_await_msg c' = (c_await_msg c2)[i := freed_await_msg]" "c_status c' = c_status c2"
    using run_finish_connect [OF c2(3,4), of MQTT_SN_CLIENT_RETURN_TIMEOUT w'] by auto
  then show ?thesis
    using c1(5) r c2(8)
    by (simp add: run_bind [where m = "send_to_gateway_with_retry e l k fd d n" for e l k fd d n] c2_def [symmetric])
      (simp add: c2_def)
qed

section \<open>A connect that is answered\<close>

text \<open>What the two access lists of addresses leave alone, and a pass that gets as far as the dispatch.\<close>

definition accepts_senders :: "'w MqttSnClient \<Rightarrow> bool" where
  "accepts_senders c \<longleftrightarrow> al_len (c_gw_addr_whitelist c) = 0 \<and> al_len (c_gw_addr_blacklist c) = 0"

lemma message_pass:
  assumes gw: "message_gateway address bytes env (c_gatewayNetwork c) seconds horizon"
    and bytes: "bytes = header_wire (length bytes) t @ tail" "wire_type t" "2 \<le> length bytes" "length bytes < 65536"
    and c: "accepts_senders c"
      "loop_next (maintain_connection env (MqttSnClientLoop env n) n) (reply_searchgw env) (c, w) = Inr (None, c, w)"
  shows "\<exists>msg rest w'. MqttSnClientLoop env (Suc n) (c, w) = dispatch_message env (MqttSnClientLoop env n) n t msg (c, w')
    \<and> md_from msg = address \<and> md_data msg = bytes @ rest \<and> md_data_length msg = length bytes
    \<and> seconds w' = Suc (seconds w)"
proof -
  obtain to data signal w' rest where r: "receive_message (c, w) = Inr ((int (length bytes), zero_message\<lparr>md_from := address, md_to := to,
      md_data := data, md_signal_strength := signal, md_data_length := length bytes\<rparr>), c, w')"
    "data = bytes @ rest" "seconds w' = Suc (seconds w)"
    using gateway_receives [OF gw, of w] bytes(4) by (auto simp: nat_mod_distrib)
  define msg where "msg = zero_message\<lparr>md_from := address, md_to := to,
      md_data := data, md_signal_strength := signal, md_data_length := length bytes\<rparr>"
  have m: "md_data msg = bytes @ rest" "md_data_length msg = length bytes" "md_from msg = address"
    using r(2) by (simp_all add: msg_def)
  have "parse_header_ok ANY_MESSAGE_TYPE (bytes @ rest) (length bytes) 0
      = Inr (plain_header (length bytes) t, header_size (length bytes))"
    using parse_header_ok_wire [OF bytes(2-4), of ANY_MESSAGE_TYPE "tail @ rest" 0]
    by (subst bytes(1)) simp
  then obtain rc pb where h: "parse_header empty_header ANY_MESSAGE_TYPE (bytes @ rest) (length bytes) 0
      = Inr (rc, plain_header (length bytes) t, pb)" "\<not> rc < 0"
    by (auto simp: parse_header_ok_def cbind_eq_Inr split: if_splits)
  have drop: "sender_dropped a (c, w') = Inr (False, c, w')" for a
    using c(1) by (simp add: sender_dropped_def accepts_senders_def)
  have n: "bytes \<noteq> []"
    using bytes(3) by auto
  have "receive_and_dispatch env loop k (c, w) = dispatch_message env loop k t msg (c, w')" for loop k
    using h(2) n by (simp add: receive_and_dispatch_def run_bind [where m = receive_message, OF r(1)] msg_def [symmetric]
        run_bind [where m = "sender_dropped a" for a, OF drop] m h(1))
  then show ?thesis
    using m r(3) by (auto simp: client_pass_def run_bind [where m = "loop_next m m'" for m m', OF c(2)])
qed

text \<open>An exchange whose answer arrives in the first pass of the first wait.\<close>

lemma answered_exchange:
  assumes gw: "gateway_answers answer env (c_gatewayNetwork c) seconds horizon"
    and slot: "i < length (c_await_msg c)" "length (c_await_msg c) = MQTT_SN_CLIENT_MAX_MESSAGES_IN_FLIGHT"
      "am_status (c_await_msg c ! i) = MQTT_SN_CLIENT_AWAIT_MESSAGE_STATUS_AWAIT"
    and c: "0 < c_retry_timeout_ms c" "c_retry_timeout_ms c < 2 ^ 31" "0 < c_retry_count c"
    and msg: "len < 65536" and fuel: "2 \<le> k" and now: "seconds w < horizon"
    and pass: "\<And>w1. seconds w1 = seconds w \<Longrightarrow> \<exists>c' w'. MqttSnClientLoop env (Suc n) (c, w1)
        = Inr (MQTT_SN_CLIENT_LOOP_RETURN_SUCCESS, c', w') \<and> Q c'"
      "\<And>c'. Q c' \<Longrightarrow> length (c_await_msg c') = MQTT_SN_CLIENT_MAX_MESSAGES_IN_FLIGHT
        \<and> am_status (c_await_msg c' ! i) = MQTT_SN_CLIENT_AWAIT_MESSAGE_STATUS_SUCCESS
        \<and> c_status c' \<noteq> MQTT_SN_CLIENT_CONNECTION_STATUS_AWAKE"
  shows "\<exists>c' w'. send_to_gateway_with_retry env (MqttSnClientLoop env (Suc n)) k (int i) data len (c, w)
      = Inr (MQTT_SN_CLIENT_RETURN_SUCCESS, c', w') \<and> Q c'"
proof -
  obtain w1 where s: "send_to_address (c_mqtt_sn_gateway_address c) data len (c, w) = Inr (int len, c, w1)"
    "seconds w1 = seconds w"
    using gateway_takes [OF gw msg] by blast
  have h: "seconds w1 < horizon"
    using now s(2) by simp
  obtain c' w' where p: "MqttSnClientLoop env (Suc n) (c, w1) = Inr (MQTT_SN_CLIENT_LOOP_RETURN_SUCCESS, c', w')" "Q c'"
    using pass(1) [OF s(2)] by blast
  obtain k' where k: "k = Suc (Suc k')"
    using fuel by (metis Suc_le_D add_2_eq_Suc le_Suc_ex)
  let ?T = "of_int (c_retry_timeout_ms c) :: u64"
  have i': "i < length (c_await_msg c')" "length (c_await_msg c') = MQTT_SN_CLIENT_MAX_MESSAGES_IN_FLIGHT"
    "am_status (c_await_msg c' ! i) = MQTT_SN_CLIENT_AWAIT_MESSAGE_STATUS_SUCCESS"
    "c_status c' \<noteq> MQTT_SN_CLIENT_CONNECTION_STATUS_AWAKE"
    using pass(2) [OF p(2)] slot(1,2) by simp_all
  have count: "0 < unat (c_retry_count c)"
    using c(3) by (simp add: word_less_nat_alt)
  have e: "await_easy_loop env (MqttSnClientLoop env (Suc n)) k (int i) ?T (of_nat (seconds w1)) (c, w1)
      = Inr (MQTT_SN_CLIENT_AWAIT_MESSAGE_STATUS_SUCCESS, c', w')"
    using wait_limit [OF c(1,2), of 0] slot(3) i'(3,4)
    by (simp add: k run_bind [where m = "get_await_status fd" for fd, OF run_await_status(1) [OF slot(1,2)]]
        run_bind [where m = "get_await_status fd" for fd, OF run_await_status(1) [OF i'(1,2)]]
        run_bind [where m = "cl_time env", OF gateway_time [OF gw h]]
        run_bind [where m = "MqttSnClientLoop env (Suc n)", OF p(1)] Let_def del: MqttSnClientLoop.simps)
  have "send_to_gateway_with_retry env (MqttSnClientLoop env (Suc n)) k (int i) data len (c, w)
      = Inr (MQTT_SN_CLIENT_RETURN_SUCCESS, c', w')"
    using count unfolding send_to_gateway_with_retry_def
    by (subst send_retry_loop.simps)
      (simp add: send_to_gateway_without_retry_def cl_bind_assoc get_await_status_timeout_ms_easy_def
        run_bind [where m = "send_to_address to d l" for to d l, OF s(1)] send_failed_def
        run_bind [where m = "cl_time env", OF gateway_time [OF gw h]]
        run_bind [where m = "await_easy_loop env loop k fd t s" for loop fd t s, OF e] Let_def
        del: MqttSnClientLoop.simps)
  with p(2) show ?thesis by blast
qed

text \<open>The answer to a CONNECT.\<close>

lemma connack_handled:
  assumes "wire_return_code code" "md_data msg = connack_wire code @ rest" "md_data_length msg = 3"
    "length (c_await_msg c) = MQTT_SN_CLIENT_MAX_MESSAGES_IN_FLIGHT" "awaiting (c_await_msg c) CONNACK 0 = Some i"
    "\<And>c. cl_time env (c, w) = Inr ((0, now), c, w)"
  shows "parse_and_handle_connack env msg (c, w) = Inr (MQTT_SN_CLIENT_LOOP_RETURN_SUCCESS,
    c\<lparr>c_await_msg := (c_await_msg c)[i := answer_slot (\<lambda>ctx. ctx\<lparr>ac_return_code := code\<rparr>) (c_await_msg c ! i)],
      c_last_ping_req_received := now, c_last_ping_resp_received_s := now\<rparr>, w)"
proof -
  have i: "i < length (c_await_msg c)"
    using awaiting_Some(1) [OF assms(5)] .
  have p: "parse_connack (md_data msg) (md_data_length msg) = Inr (code, 0)"
    using parse_connack_wire [OF assms(1)] assms(2,3) by simp
  have a: "is_await_msg CONNACK 0 (c, w) = Inr (int i, c, w)"
    using run_is_await_msg [OF assms(4), of CONNACK 0 w] assms(5) by simp
  show ?thesis
    using i assms(4)
    by (simp add: parse_and_handle_connack_def run_parse p await_success_def run_bind [where m = "is_await_msg t id" for t id, OF a]
        run_check run_set_await run_bind [where m = "cl_time env", OF assms(6)] answer_slot_def)
qed

lemma connack_pass:
  assumes gw: "message_gateway address (connack_wire code) env (c_gatewayNetwork c) seconds horizon" "wire_return_code code"
    and c: "idle c" "c_mqtt_sn_gateway_address c = address" "accepts_senders c"
      "length (c_await_msg c) = MQTT_SN_CLIENT_MAX_MESSAGES_IN_FLIGHT" "awaiting (c_await_msg c) CONNACK 0 = Some i"
    and now: "Suc (seconds w) < horizon"
  shows "\<exists>c' w'. MqttSnClientLoop env (Suc n) (c, w) = Inr (MQTT_SN_CLIENT_LOOP_RETURN_SUCCESS, c', w')
    \<and> c_await_msg c' = (c_await_msg c)[i := answer_slot (\<lambda>ctx. ctx\<lparr>ac_return_code := code\<rparr>) (c_await_msg c ! i)]
    \<and> c_status c' = c_status c"
proof -
  have b: "length (connack_wire code) = 3"
    by (simp add: connack_wire_def)
  have b': "connack_wire code = header_wire (length (connack_wire code)) CONNACK @ [return_code_byte code]"
    unfolding b by (simp add: connack_wire_def)
  obtain msg rest w' where m: "MqttSnClientLoop env (Suc n) (c, w) = dispatch_message env (MqttSnClientLoop env n) n CONNACK msg (c, w')"
    "md_from msg = address" "md_data msg = connack_wire code @ rest" "md_data_length msg = 3" "seconds w' = Suc (seconds w)"
    using message_pass [OF gw(1) b' _ _ _ c(3) idle_upkeep [OF c(1)], of n w] unfolding b
    by (simp del: MqttSnClientLoop.simps) blast
  have t: "cl_time env (c0, w') = Inr ((0, of_nat (seconds w')), c0, w')" for c0
    using gateway_time [OF gw(1)] now m(5) by simp
  show ?thesis
    using connack_handled [OF gw(2) m(3,4) c(4,5) t] c(1,2) m(1,2)
    by (simp add: dispatch_message_def dispatch_disconnected_def idle_def Let_def)
qed

lemma awaiting_taken:
  assumes "awaiting msgs msg_type msg_id = None" "i < length msgs" "msg_type \<noteq> ANY_MESSAGE_TYPE"
  shows "awaiting (msgs[i := taken_slot msg_type msg_id m]) msg_type msg_id = Some i"
  using assms
  by (auto simp: awaiting_def find_Some_iff find_None_iff awaits_def taken_slot_def nth_list_update
      intro!: exI [of _ i])

lemma answered_connect_succeeds:
  assumes gw: "message_gateway address (connack_wire code) env (c_gatewayNetwork c) seconds horizon" "wire_return_code code"
    and c: "client_inv reg most named c" "am_msg_type (c_searchgw_reply_await_msg c) \<noteq> GWINFO"
      "client_status_code MQTT_SN_CLIENT_CONNECTION_STATUS_INITALIZED \<le> client_status_code (c_status c)"
      "free_slot (c_await_msg c) = Some i" "awaiting (c_await_msg c) CONNACK 0 = None"
      "0 < c_retry_timeout_ms c" "c_retry_timeout_ms c < 2 ^ 31" "0 < c_retry_count c"
      "accepts_senders c"
    and arg: "fit_client_id client_id" "will_topic = None \<or> will_msg = None"
    and fuel: "2 \<le> k" "0 < n" and now: "Suc (seconds w) < horizon"
  shows "\<exists>c' w'. MqttSnClientDirectConnect env (MqttSnClientLoop env n) k address clean client_id duration
        will_topic qos retain will_msg will_len (c, w) = Inr (MQTT_SN_CLIENT_RETURN_SUCCESS, c', w')
    \<and> c_status c' = (if code = RETURN_CODE_ACCEPTED then MQTT_SN_CLIENT_CONNECTION_STATUS_CONNECTED
        else MQTT_SN_CLIENT_CONNECTION_STATUS_DISCONNECTED)
    \<and> c_await_msg c' = (c_await_msg c)[i := freed_await_msg]"
proof -
  obtain n' where n': "n = Suc n'"
    using fuel(2) by (cases n) auto
  have k: "0 < k"
    using fuel(1) by simp
  obtain c1 data l where c1: "session_of c c1" "c_mqtt_sn_gateway_address c1 = address" "l \<le> 22"
    "MqttSnClientDirectConnect env (MqttSnClientLoop env n) k address clean client_id duration will_topic qos retain will_msg will_len (c, w)
      = cl_bind (send_to_gateway_with_retry env (MqttSnClientLoop env n) k (int i) data (l + 7)) (finish_connect (int i))
          (c1\<lparr>c_await_msg := (c_await_msg c)[i := taken_slot CONNACK 0 (c_await_msg c ! i)]\<rparr>, w)"
    using connect_reaches_exchange [OF c(1) arg(1) c(3,4) k arg(2)] by blast
  define c2 where "c2 = c1\<lparr>c_await_msg := (c_await_msg c)[i := taken_slot CONNACK 0 (c_await_msg c ! i)]\<rparr>"
  have i: "i < length (c_await_msg c)" "length (c_await_msg c) = MQTT_SN_CLIENT_MAX_MESSAGES_IN_FLIGHT"
    using free_slot_Some [OF c(4)] c(1) by (simp_all add: client_inv_def await_table_inv_def)
  have c2: "message_gateway address (connack_wire code) env (c_gatewayNetwork c2) seconds horizon" "idle c2"
    "c_mqtt_sn_gateway_address c2 = address" "accepts_senders c2"
    "length (c_await_msg c2) = MQTT_SN_CLIENT_MAX_MESSAGES_IN_FLIGHT" "awaiting (c_await_msg c2) CONNACK 0 = Some i"
    "0 < c_retry_timeout_ms c2" "c_retry_timeout_ms c2 < 2 ^ 31" "0 < c_retry_count c2"
    using c1(1,2) gw(1) c(2,6-9) i awaiting_taken [OF c(5) i(1)]
    by (simp_all add: c2_def session_of_def idle_def accepts_senders_def)
  let ?Q = "\<lambda>c'. c_await_msg c' = (c_await_msg c2)[i := answer_slot (\<lambda>ctx. ctx\<lparr>ac_return_code := code\<rparr>) (c_await_msg c2 ! i)]
    \<and> c_status c' = c_status c2"
  have wait: "i < length (c_await_msg c2)" "am_status (c_await_msg c2 ! i) = MQTT_SN_CLIENT_AWAIT_MESSAGE_STATUS_AWAIT"
    "seconds w < horizon"
    using awaiting_Some(1,2) [OF c2(6)] now by (simp_all add: awaits_def)
  obtain c3 w' where r: "send_to_gateway_with_retry env (MqttSnClientLoop env n) k (int i) data (l + 7) (c2, w)
      = Inr (MQTT_SN_CLIENT_RETURN_SUCCESS, c3, w')"
    "c_await_msg c3 = (c_await_msg c2)[i := answer_slot (\<lambda>ctx. ctx\<lparr>ac_return_code := code\<rparr>) (c_await_msg c2 ! i)]"
    "c_status c3 = MQTT_SN_CLIENT_CONNECTION_STATUS_DISCONNECTED"
  proof -
    have "\<exists>c' w'. MqttSnClientLoop env (Suc n') (c2, w1) = Inr (MQTT_SN_CLIENT_LOOP_RETURN_SUCCESS, c', w') \<and> ?Q c'"
      if "seconds w1 = seconds w" for w1
      using connack_pass [OF c2(1) gw(2) c2(2-6), of w1 n'] now that by auto
    from answered_exchange [OF c2(1) wait(1) c2(5) wait(2) c2(7-9) _ fuel(1) wait(3), of "l + 7" n' ?Q data, OF _ this]
    show ?thesis
      using that c2(2,5) wait(1) c1(3) n' by (auto simp: idle_def answer_slot_def)
  qed
  have i3: "i < length (c_await_msg c3)" "length (c_await_msg c3) = MQTT_SN_CLIENT_MAX_MESSAGES_IN_FLIGHT"
    "ac_return_code (am_await_context (c_await_msg c3 ! i)) = code"
    using r(2) i(1) c2(5) wait(1) by (simp_all add: answer_slot_def)
  obtain c' where f: "finish_connect (int i) MQTT_SN_CLIENT_RETURN_SUCCESS (c3, w') = Inr (MQTT_SN_CLIENT_RETURN_SUCCESS, c', w')"
    "c_await_msg c' = (c_await_msg c3)[i := freed_await_msg]"
    "c_status c' = (if code = RETURN_CODE_ACCEPTED then MQTT_SN_CLIENT_CONNECTION_STATUS_CONNECTED
        else MQTT_SN_CLIENT_CONNECTION_STATUS_DISCONNECTED)"
    using run_finish_connect [OF i3(1,2), of MQTT_SN_CLIENT_RETURN_SUCCESS w'] i3(3) r(3) by (auto simp: at_most_def)
  have "c_await_msg c' = (c_await_msg c)[i := freed_await_msg]"
    using f(2) r(2) by (simp add: c2_def)
  then show ?thesis
    using c1(4) r(1) f(1,3) by (auto simp: run_bind [where m = "send_to_gateway_with_retry e l k fd d n" for e l k fd d n] c2_def)
qed

end
