(* ===== verification/Client_Registrations.thy ===== *)
theory Client_Registrations
  imports Client_Liveness
begin

text \<open>
  What the table of registrations takes: a subscription by topic id that the gateway accepts enters the
  topic behind the last one, without a look at the room that is left.
\<close>

section \<open>A connected client with nothing to do\<close>

definition ping_not_due :: "u64 \<Rightarrow> 'w MqttSnClient \<Rightarrow> bool" where
  "ping_not_due now c \<longleftrightarrow>
     (if am_msg_type (c_ping_req_await_msg c) = PINGRESP
      then \<not> ping_timed_out c (c_connect_duration c) (now - get_last_timeout_reset c)
      else too_early c (c_connect_duration c) (now - get_last_timeout_reset c))"

definition settled :: "'w MqttSnClient \<Rightarrow> bool" where
  "settled c \<longleftrightarrow> c_status c = MQTT_SN_CLIENT_CONNECTION_STATUS_CONNECTED
     \<and> am_msg_type (c_searchgw_reply_await_msg c) \<noteq> GWINFO"

lemma settled_upkeep:
  assumes "settled c" "gateway_answers answer env (c_gatewayNetwork c) seconds horizon" "seconds w < horizon"
    "ping_not_due (of_nat (seconds w)) c"
  shows "loop_next (maintain_connection env loop k) (reply_searchgw env) (c, w) = Inr (None, c, w)"
proof -
  have "handle_client_connection env (c, w) = Inr (MQTT_SN_CLIENT_LOOP_RETURN_SUCCESS, c, w)"
    using assms(1,4) by (auto simp: handle_client_connection_def settled_def ping_not_due_def Let_def
        run_bind [where m = "cl_time env", OF gateway_time [OF assms(2,3)]])
  then show ?thesis
    using assms(1)
    by (simp add: settled_def loop_next_def maintain_connection_def cl_bind_assoc reply_searchgw_def
        MqttSnClientIsSearchGwReplyEnabled_def run_bind [where m = "handle_client_connection env"])
qed

section \<open>The answer to a SUBSCRIBE\<close>

definition suback_answer :: "MqttSnSuback \<Rightarrow> MqttSnClientAwaitContext \<Rightarrow> MqttSnClientAwaitContext" where
  "suback_answer m = (\<lambda>ctx. ctx\<lparr>ac_return_code := sa_return_code m, ac_granted_qos := sa_granted_qos m,
     ac_topic_id := sa_topic_id m\<rparr>)"

lemma suback_pass:
  assumes gw: "message_gateway (c_mqtt_sn_gateway_address c) (suback_wire m) env (c_gatewayNetwork c) seconds horizon"
      "sa_granted_qos m \<in> {0, 1, 2}" "wire_return_code (sa_return_code m)"
    and c: "settled c" "accepts_senders c" "length (c_await_msg c) = MQTT_SN_CLIENT_MAX_MESSAGES_IN_FLIGHT"
      "awaiting (c_await_msg c) SUBACK (sa_msg_id m) = Some i" "ping_not_due (of_nat (seconds w)) c"
    and now: "seconds w < horizon"
  shows "\<exists>w'. MqttSnClientLoop env (Suc n) (c, w) = Inr (MQTT_SN_CLIENT_LOOP_RETURN_SUCCESS,
      c\<lparr>c_await_msg := (c_await_msg c)[i := answer_slot (suback_answer m) (c_await_msg c ! i)]\<rparr>, w')"
proof -
  have b: "length (suback_wire m) = 8"
    by (simp add: suback_wire_def)
  have b': "suback_wire m = header_wire (length (suback_wire m)) SUBACK
      @ [flag_byte 0 1 (sa_granted_qos m) 0 0 0 0, hi8 (sa_topic_id m), lo8 (sa_topic_id m),
         hi8 (sa_msg_id m), lo8 (sa_msg_id m), return_code_byte (sa_return_code m)]"
    unfolding b by (simp add: suback_wire_def)
  obtain msg rest w' where d: "MqttSnClientLoop env (Suc n) (c, w) = dispatch_message env (MqttSnClientLoop env n) n SUBACK msg (c, w')"
    "md_from msg = c_mqtt_sn_gateway_address c" "md_data msg = suback_wire m @ rest" "md_data_length msg = 8"
    using message_pass [OF gw(1) b' _ _ _ c(2) settled_upkeep [OF c(1) gw(1) now c(5)], of n] unfolding b
    by (simp del: MqttSnClientLoop.simps) blast
  have a: "acknowledgement SUBACK (md_data msg) (md_data_length msg) = Inr (sa_msg_id m, suback_answer m)"
    using parse_suback_wire [OF gw(2,3), of rest] d(3,4) by (simp add: suback_answer_def)
  have "dispatch_message env (MqttSnClientLoop env n) n SUBACK msg (c, w')
      = dispatch_session env (MqttSnClientLoop env n) n SUBACK msg (c, w')"
    using c(1) d(2) by (simp add: dispatch_message_def dispatch_connected_def settled_def Let_def)
  also have "\<dots> = Inr (MQTT_SN_CLIENT_LOOP_RETURN_SUCCESS,
      c\<lparr>c_await_msg := (c_await_msg c)[i := answer_slot (suback_answer m) (c_await_msg c ! i)]\<rparr>, w')"
    using c(3,4) a by (subst dispatch_acknowledgement) (simp_all add: acknowledgement_types_def handled_def answer_table_def)
  finally show ?thesis
    unfolding d(1) by blast
qed

section \<open>Entering a topic\<close>

definition topic_entered :: "u16 \<Rightarrow> 'w MqttSnClient \<Rightarrow> 'w MqttSnClient" where
  "topic_entered topic_id c = c\<lparr>c_registrations := (c_registrations c)[c_registrations_len c :=
      (c_registrations c ! c_registrations_len c)\<lparr>cr_topic_id := topic_id\<rparr>],
     c_registrations_len := c_registrations_len c + 1\<rparr>"

lemma run_answered_topic:
  assumes "i < length (c_await_msg c)" "ac_return_code (am_await_context (c_await_msg c ! i)) = RETURN_CODE_ACCEPTED"
    "length (c_registrations c) = MQTT_SN_CLIENT_MAX_REGISTRATIONS"
  shows "answered_topic (int i) MQTT_SN_CLIENT_RETURN_SUCCESS put_topic_id (c, w) =
    (if c_registrations_len c < MQTT_SN_CLIENT_MAX_REGISTRATIONS
     then Inr (MQTT_SN_CLIENT_RETURN_SUCCESS,
       topic_entered (ac_topic_id (am_await_context (c_await_msg c ! i))) c, w)
     else Inl Memory_Fault)"
  using assms(2,3)
  by (auto simp: answered_topic_def run_bind [where m = "the_await_context fd" for fd, OF run_the_await_context [OF assms(1)]]
      put_topic_id_def put_registration_def count_registration_def cl_bind_assoc topic_entered_def rd_arr_def
      MQTT_SN_CLIENT_MAX_REGISTRATIONS_def)

text \<open>A subscription by topic id, answered at once.\<close>

lemma accepted_subscription:
  assumes gw: "message_gateway (c_mqtt_sn_gateway_address c) (suback_wire m) env (c_gatewayNetwork c) seconds horizon"
      "sa_granted_qos m \<in> {0, 1, 2}" "sa_return_code m = RETURN_CODE_ACCEPTED" "sa_msg_id m = c_msg_counter c"
    and c: "client_inv reg most named c" "settled c" "accepts_senders c" "ping_not_due (of_nat (seconds w)) c"
      "free_slot (c_await_msg c) = Some i" "awaiting (c_await_msg c) SUBACK (c_msg_counter c) = None"
      "0 < c_retry_timeout_ms c" "c_retry_timeout_ms c < 2 ^ 31" "0 < c_retry_count c"
    and arg: "qos \<in> {0, 1, 2}"
    and fuel: "2 \<le> k" "0 < n" and now: "seconds w < horizon"
  shows "\<exists>c' w'. MqttSnClientSubscribePredefined env (MqttSnClientLoop env n) k qos topic_id (c, w) =
      (if c_registrations_len c < MQTT_SN_CLIENT_MAX_REGISTRATIONS
       then Inr (MQTT_SN_CLIENT_RETURN_SUCCESS, c', w') else Inl Memory_Fault)
    \<and> c_registrations c' = (c_registrations c)[c_registrations_len c :=
        (c_registrations c ! c_registrations_len c)\<lparr>cr_topic_id := sa_topic_id m\<rparr>]
    \<and> c_registrations_len c' = c_registrations_len c + 1
    \<and> c_await_msg c' = (c_await_msg c)[i := freed_await_msg]"
proof -
  obtain n' where n': "n = Suc n'"
    using fuel(2) by (cases n) auto
  have k: "0 < k"
    using fuel(1) by simp
  let ?slot = "taken_slot SUBACK (c_msg_counter c) (c_await_msg c ! i)"
  define c1 where "c1 = c\<lparr>c_msg_counter := c_msg_counter c + 1\<rparr>"
  define c2 where "c2 = c1\<lparr>c_await_msg := (c_await_msg c)[i := ?slot]\<rparr>"
  define c3 where "c3 = c2\<lparr>c_await_msg := (c_await_msg c)[i := answer_slot (suback_answer m) ?slot]\<rparr>"
  have i: "i < length (c_await_msg c)" "length (c_await_msg c) = MQTT_SN_CLIENT_MAX_MESSAGES_IN_FLIGHT"
    "length (c_registrations c) = MQTT_SN_CLIENT_MAX_REGISTRATIONS"
    using free_slot_Some [OF c(5)] c(1) by (simp_all add: client_inv_def await_table_inv_def registrations_inv_def)
  have slot: "c_await_msg c2 ! i = ?slot" "am_status ?slot = MQTT_SN_CLIENT_AWAIT_MESSAGE_STATUS_AWAIT"
    using i(1) by (simp_all add: c2_def taken_slot_def)
  have c2: "message_gateway (c_mqtt_sn_gateway_address c2) (suback_wire m) env (c_gatewayNetwork c2) seconds horizon"
    "settled c2" "accepts_senders c2" "length (c_await_msg c2) = MQTT_SN_CLIENT_MAX_MESSAGES_IN_FLIGHT"
    "awaiting (c_await_msg c2) SUBACK (sa_msg_id m) = Some i" "ping_not_due t c2 = ping_not_due t c"
    "i < length (c_await_msg c2)" "am_status (c_await_msg c2 ! i) = MQTT_SN_CLIENT_AWAIT_MESSAGE_STATUS_AWAIT"
    "0 < c_retry_timeout_ms c2" "c_retry_timeout_ms c2 < 2 ^ 31" "0 < c_retry_count c2" for t
    using gw(1,4) c(2,3,7-9) i awaiting_taken [OF c(6) i(1)] slot
    by (simp_all add: c2_def c1_def settled_def accepts_senders_def ping_not_due_def too_early_def ping_timed_out_def
        get_last_timeout_reset_def)
  have pass: "\<exists>c' w'. MqttSnClientLoop env (Suc n') (c2, w1) = Inr (MQTT_SN_CLIENT_LOOP_RETURN_SUCCESS, c', w') \<and> c' = c3"
    if "seconds w1 = seconds w" for w1
  proof -
    have "ping_not_due (of_nat (seconds w1)) c2" "seconds w1 < horizon" "wire_return_code (sa_return_code m)"
      using c2(6) c(4) that now gw(3) by (simp_all add: wire_return_code_def MQTT_SN_RETURN_CODE_VALID_def)
    from suback_pass [OF c2(1) gw(2) this(3) c2(2-5) this(1,2), of n'] show ?thesis
      using slot(1) by (auto simp: c3_def c2_def)
  qed
  have after: "length (c_await_msg c') = MQTT_SN_CLIENT_MAX_MESSAGES_IN_FLIGHT
      \<and> am_status (c_await_msg c' ! i) = MQTT_SN_CLIENT_AWAIT_MESSAGE_STATUS_SUCCESS
      \<and> c_status c' \<noteq> MQTT_SN_CLIENT_CONNECTION_STATUS_AWAKE" if "c' = c3" for c'
    using that i c(2) by (simp add: c3_def c2_def c1_def answer_slot_def settled_def)
  obtain data where g: "generate_subscribe (uninitialised env MQTT_SN_MESSAGE_SUBSCRIBE_W_TOPICID_LENGTH)
      MQTT_SN_MESSAGE_SUBSCRIBE_W_TOPICID_LENGTH 0 qos 1 (c_msg_counter c) topic_id None 0 = Inr (data, 7)"
    using generate_subscribe_id_eq [of 1 MQTT_SN_MESSAGE_SUBSCRIBE_W_TOPICID_LENGTH
        "uninitialised env MQTT_SN_MESSAGE_SUBSCRIBE_W_TOPICID_LENGTH" 0 qos "c_msg_counter c" topic_id None 0] arg
    by (simp add: wire_flags_def MQTT_SN_MESSAGE_SUBSCRIBE_W_TOPICID_LENGTH_def)
  obtain w' where s: "send_to_gateway_with_retry env (MqttSnClientLoop env n) k (int i) data 7 (c2, w)
      = Inr (MQTT_SN_CLIENT_RETURN_SUCCESS, c3, w')"
    using answered_exchange [OF c2(1,7,4,8-11) _ fuel(1) now pass after, of 7 data] n' by auto
  have acq: "acquire_loop loop k SUBACK (c_msg_counter c) (c1, w) = Inr (Some (int i), c2, w)" for loop
    using run_acquire_loop [of c1 i k loop SUBACK "c_msg_counter c" w] i(2) c(5) k by (simp add: c2_def c1_def)
  have ctx: "get_await_context (int i) (c2, w) = Inr (Some (am_await_context ?slot), c2, w)"
    using run_await_status(2) [OF c2(7,4)] slot(1) by simp
  have i3: "i < length (c_await_msg c3)" "am_await_context (c_await_msg c3 ! i) = suback_answer m (am_await_context ?slot)"
    "length (c_registrations c3) = MQTT_SN_CLIENT_MAX_REGISTRATIONS" "c_registrations_len c3 = c_registrations_len c"
    "c_registrations c3 = c_registrations c"
    using i by (simp_all add: c3_def c2_def c1_def answer_slot_def)
  have ans: "answered_topic (int i) MQTT_SN_CLIENT_RETURN_SUCCESS put_topic_id (c3, w') =
      (if c_registrations_len c < MQTT_SN_CLIENT_MAX_REGISTRATIONS
       then Inr (MQTT_SN_CLIENT_RETURN_SUCCESS, topic_entered (sa_topic_id m) c3, w') else Inl Memory_Fault)"
    using run_answered_topic [OF i3(1) _ i3(3), of w'] i3(2,4) gw(3) by (simp add: suback_answer_def)
  have free: "free_await_fd (int i) (topic_entered (sa_topic_id m) c3, w')
      = Inr (0, (topic_entered (sa_topic_id m) c3)\<lparr>c_await_msg := (c_await_msg c)[i := freed_await_msg]\<rparr>, w')"
    using run_set_await(5) [of i "topic_entered (sa_topic_id m) c3" w'] i i3(1)
    by (simp add: topic_entered_def c3_def)
  have status: "\<not> at_most (c_status c) MQTT_SN_CLIENT_CONNECTION_STATUS_DISCONNECTED"
    using c(2) by (simp add: at_most_def settled_def)
  have "MqttSnClientSubscribePredefined env (MqttSnClientLoop env n) k qos topic_id (c, w) =
      (if c_registrations_len c < MQTT_SN_CLIENT_MAX_REGISTRATIONS
       then Inr (MQTT_SN_CLIENT_RETURN_SUCCESS,
         (topic_entered (sa_topic_id m) c3)\<lparr>c_await_msg := (c_await_msg c)[i := freed_await_msg]\<rparr>, w')
       else Inl Memory_Fault)"
    using status
    by (simp add: MqttSnClientSubscribePredefined_def next_msg_id_def cl_bind_assoc cl_generate_def g c1_def [symmetric]
        MqttSnClientSubscribeMessageHandler_def cl_acquire_def run_bind [where m = "acquire_loop loop k SUBACK (c_msg_counter c)" for loop, OF acq]
        run_bind [where m = "get_await_context (int i)", OF ctx]
        run_bind [where m = "send_to_gateway_with_retry e l k fd d n" for e l k fd d n, OF s] cl_bind_def [of "answered_topic fd rc f" for fd rc f] ans
        run_bind [where m = "free_await_fd fd" for fd, OF free])
  then show ?thesis
    using i3(4,5) by (intro exI [of _ "(topic_entered (sa_topic_id m) c3)\<lparr>c_await_msg := (c_await_msg c)[i := freed_await_msg]\<rparr>"])
      (auto simp: topic_entered_def)
qed

section \<open>A REGISTER with the longest name\<close>

lemma longest_register_faults:
  assumes "register_wf m" "reg_topic_name_len m = 255" "0 \<notin> set (take 255 (reg_topic_name m))"
    and "md_data msg = register_wire m @ rest" "md_data_length msg = 263"
    and "length (c_registrations c) = MQTT_SN_CLIENT_MAX_REGISTRATIONS"
      "c_registrations_len c < MQTT_SN_CLIENT_MAX_REGISTRATIONS"
      "\<forall>r \<in> set (c_registrations c). length (cr_topic_name r) = MQTT_SN_CLIENT_MAX_REGISTRATION_TOPIC_NAME_LENGTH"
  shows "parse_and_handle_register msg (c, w) = Inl Memory_Fault"
proof -
  have r: "c_registrations_len c < length (c_registrations c)"
    using assms(6,7) by simp
  then have "length (cr_topic_name (c_registrations c ! c_registrations_len c)) = 255"
    using assms(8) by (auto simp: MQTT_SN_CLIENT_MAX_REGISTRATION_TOPIC_NAME_LENGTH_def)
  from parse_register_overruns [OF assms(1-3) this, of rest] show ?thesis
    using assms(4,5,7) r
    by (simp add: parse_and_handle_register_def Let_def MQTT_SN_CLIENT_MAX_REGISTRATION_TOPIC_NAME_LENGTH_def)
qed

section \<open>A connect with a will\<close>

lemma bind_Inr:
  "cl_bind m f s = Inr (y, s2) \<Longrightarrow> \<exists>x s1. m s = Inr (x, s1) \<and> f x s1 = Inr (y, s2)"
  by (auto simp: cl_bind_def split: sum.splits)

lemma mem_Inr: "cl_mem r s = Inr (x, s') \<Longrightarrow> s' = s"
  by (auto simp: cl_mem_def split: sum.splits cerr.splits)

text \<open>The buffer of the client has no object behind \<open>will_msg\<close>, so a will message that is not empty has no place.\<close>

lemma copy_will_msg_nowhere: "copy_will_msg None msg len = (if len = 0 then Inr None else Inl Fault)"
  by (simp add: copy_will_msg_def rds_def)

lemma run_will_init:
  assumes "client_inv reg most named c" "0 \<in> set (take MQTT_SN_CLIENT_MAX_WILL_TOPIC_LENGTH topic)"
  shows "\<exists>rc c'. MqttSnClientDirectConnectWillCredentialInit topic qos retain msg len (c, w)
      = (if c_string topic \<noteq> [] \<and> 0 < len \<and> len < MQTT_SN_CLIENT_MAX_WILL_MSG_LENGTH
         then Inl Memory_Fault else Inr (rc, c', w)) \<and> rc \<noteq> MQTT_SN_CLIENT_RETURN_SUCCESS"
proof -
  let ?n = "length (c_string topic)"
  have n: "?n < MQTT_SN_CLIENT_MAX_WILL_TOPIC_LENGTH" "?n \<le> length topic"
    using take_zero [OF assms(2)] length_c_string_le [of topic] by simp_all
  have b: "length (cb_will_topic (c_client_buffer c)) = MQTT_SN_CLIENT_MAX_WILL_TOPIC_LENGTH"
    "cb_will_msg (c_client_buffer c) = None"
    using assms(1) by (simp_all add: client_inv_def client_buffer_inv_def)
  have copy: "\<exists>t. c_strncpy (cb_will_topic (c_client_buffer c)) topic ?n = Inr t"
    using n b(1) by (simp add: c_strncpy_def wr_bytes_def)
  show ?thesis
    using copy n(1) assms(2)
    by (auto simp: MqttSnClientDirectConnectWillCredentialInit_def MqttSnClientSafeStrlen_def b(2) copy_will_msg_nowhere
        get_will_topic_msg_len_eq get_will_msg_msg_len_eq MQTT_SN_CLIENT_MAX_WILL_TOPIC_LENGTH_def
        MQTT_SN_CLIENT_MAX_WILL_MSG_LENGTH_def Let_def)
qed

lemma run_connect_with_will:
  assumes "client_inv reg most named c" "fit_client_id client_id"
    and "client_status_code MQTT_SN_CLIENT_CONNECTION_STATUS_INITALIZED \<le> client_status_code (c_status c)"
    and "0 \<in> set (take MQTT_SN_CLIENT_MAX_WILL_TOPIC_LENGTH topic)"
  shows "\<exists>c'. MqttSnClientDirectConnect env loop k address clean client_id duration (Some topic) qos retain (Some msg) len (c, w)
      = (if c_string topic \<noteq> [] \<and> 0 < len \<and> len < MQTT_SN_CLIENT_MAX_WILL_MSG_LENGTH
         then Inl Memory_Fault else Inr (MQTT_SN_CLIENT_RETURN_ERROR, c', w))"
proof -
  let ?init = "MqttSnClientDirectConnectClientCredentialInit address clean client_id duration"
  let ?will = "MqttSnClientDirectConnectWillCredentialInit topic qos retain msg len"
  obtain c0 where c0: "?init (c, w) = Inr (MQTT_SN_CLIENT_RETURN_SUCCESS, c0, w)" "session_of c c0"
    "client_inv reg most True c0"
    using run_credential_init [OF assms(1-3)] by blast
  then have "client_status_code MQTT_SN_CLIENT_CONNECTION_STATUS_INITALIZED \<le> client_status_code (c_status c0)"
    by (simp add: session_of_def)
  then obtain c1 where c1: "?init (c0, w) = Inr (MQTT_SN_CLIENT_RETURN_SUCCESS, c1, w)" "client_inv reg most True c1"
    using run_credential_init [OF c0(3) assms(2)] by blast
  obtain rc c' where will: "?will (c1, w)
      = (if c_string topic \<noteq> [] \<and> 0 < len \<and> len < MQTT_SN_CLIENT_MAX_WILL_MSG_LENGTH
         then Inl Memory_Fault else Inr (rc, c', w))" "rc \<noteq> MQTT_SN_CLIENT_RETURN_SUCCESS"
    using run_will_init [OF c1(2) assms(4)] by blast
  note calls = MqttSnClientDirectConnect_def MqttSnClientDirectConnectWithWill_def
    run_bind [where m = ?init, OF c0(1)] run_bind [where m = ?init, OF c1(1)]
  show ?thesis
  proof (cases "c_string topic \<noteq> [] \<and> 0 < len \<and> len < MQTT_SN_CLIENT_MAX_WILL_MSG_LENGTH")
    case True
    then have "?will (c1, w) = Inl Memory_Fault"
      using will(1) by simp
    with True show ?thesis
      by (simp add: calls run_bind_stop [where m = ?will])
  next
    case False
    then have "?will (c1, w) = Inr (rc, c', w)"
      using will(1) by auto
    then have "cl_bind ?will f (c1, w) = f rc (c', w)" for f :: "_ \<Rightarrow> 'a client_request"
      by (rule run_bind)
    with False will(2) show ?thesis
      by (auto simp: calls)
  qed
qed

end
