(* ===== verification/Forwarder_Loop.thy ===== *)
theory Forwarder_Loop
  imports Forwarder_Safety
begin

text \<open>
  The loop of the forwarder as a whole: a pass keeps the invariant, the two flushing loops keep it when
  they return, they return when the driver takes a message whole or fails, and they never return when
  it accepts nothing. A forwarder whose networks have been connected never closes itself down.
\<close>

section \<open>Choosing a gateway\<close>

lemma best_gateway_ok:
  "n \<le> length gs \<Longrightarrow> best < n \<Longrightarrow> ok (\<lambda>b. b < n) (best_gateway_loop gs n i best)"
proof (induction gs n i best rule: best_gateway_loop.induct)
  case (1 gs n i best)
  then show ?case
    by (subst best_gateway_loop.simps) (auto simp: rd_arr_def)
qed

text \<open>
  The chosen gateway: none has a smaller signal strength, and of those with the same none has been heard
  of later.
\<close>

definition preferred :: "MqttSnDiscoveredGateway \<Rightarrow> MqttSnDiscoveredGateway \<Rightarrow> bool" where
  "preferred b g \<longleftrightarrow> dg_signal_strength b < dg_signal_strength g
     \<or> dg_signal_strength b = dg_signal_strength g \<and> dg_last_message_s g \<le> dg_last_message_s b"

lemma preferred_trans: "preferred a b \<Longrightarrow> preferred b c \<Longrightarrow> preferred a c"
  by (auto simp: preferred_def)

lemma best_gateway_preferred:
  "n \<le> length gs \<Longrightarrow> best < n \<Longrightarrow> i \<le> n \<Longrightarrow> \<forall>j < i. preferred (gs ! best) (gs ! j) \<Longrightarrow>
   ok (\<lambda>b. b < n \<and> (\<forall>j < n. preferred (gs ! b) (gs ! j))) (best_gateway_loop gs n i best)"
proof (induction gs n i best rule: best_gateway_loop.induct)
  case (1 gs n i best)
  show ?case
  proof (cases "i < n")
    case True
    define b where "b = (if dg_signal_strength (gs ! i) = dg_signal_strength (gs ! best)
          \<and> dg_last_message_s (gs ! i) > dg_last_message_s (gs ! best) then i
        else if dg_signal_strength (gs ! i) < dg_signal_strength (gs ! best) then i else best)"
    have b: "b < n" "preferred (gs ! b) (gs ! best)" "preferred (gs ! b) (gs ! i)"
      using True 1(3) by (auto simp: b_def preferred_def)
    then have "\<forall>j < i + 1. preferred (gs ! b) (gs ! j)"
      using 1(5) preferred_trans [OF b(2)] by (auto simp: less_Suc_eq)
    then show ?thesis
      using 1(1) [of "gs ! i" "gs ! best"] True 1(2-4) b(1)
      by (subst best_gateway_loop.simps) (simp add: rd_arr_def b_def)
  next
    case False
    then show ?thesis
      using 1(3-5) by (subst best_gateway_loop.simps) auto
  qed
qed

lemma gateway_entry_ok:
  assumes "gateways_inv l" "i < dl_current_len l"
  shows "dl_current_len l \<le> length (dl_gateways l)" "address_ok (dg_network_address (dl_gateways l ! i))"
proof -
  have l: "length (entries l) = dl_current_len l"
    using assms(1) gw_list_cur [of "entries l"] by (simp add: gateways_inv_def gw_list_inv_def del: gw_list_cur)
  then show le: "dl_current_len l \<le> length (dl_gateways l)"
    by (simp add: entries_def)
  have "dl_gateways l ! i \<in> set (entries l)"
    using assms(2) l nth_mem [of i "entries l"] by (simp add: entries_def)
  then show "address_ok (dg_network_address (dl_gateways l ! i))"
    using assms(1) by (simp add: gateways_inv_def)
qed


lemma keeps_set_connected:
  "keeps f g \<Longrightarrow> address_ok a \<Longrightarrow> keeps f (MqttSnForwarderSetConnected g a)"
  by (auto simp: keeps_def MqttSnForwarderSetConnected_def forwarder_inv_defs status_defs)

lemma keeps_set_disconnected: "keeps f g \<Longrightarrow> keeps f (MqttSnForwarderSetDisconnected g)"
  by (auto simp: keeps_def MqttSnForwarderSetDisconnected_def forwarder_inv_defs status_defs)

lemma keeps_gateways: "keeps f g \<Longrightarrow> gateways_inv l \<Longrightarrow> keeps f (g\<lparr>f_discovered_gw_list := l\<rparr>)"
  by (auto simp: keeps_def forwarder_inv_defs status_defs)

lemma keeps_client_queue:
  "keeps f g \<Longrightarrow> buffer_ok message_ok q \<Longrightarrow> keeps f (g\<lparr>f_clientNetworkReceiveBuffer := q\<rparr>)"
  by (auto simp: keeps_def forwarder_inv_defs status_defs)

lemma keeps_inv: "keeps f g \<Longrightarrow> forwarder_inv g"
  by (simp add: keeps_def)

lemma keeps_gateway_entry:
  assumes "keeps f g" "i < dl_current_len (f_discovered_gw_list g)"
  shows "i < length (dl_gateways (f_discovered_gw_list g))"
    "keeps f (MqttSnForwarderSetConnected g (dg_network_address (dl_gateways (f_discovered_gw_list g) ! i)))"
proof -
  have l: "gateways_inv (f_discovered_gw_list g)"
    using keeps_inv [OF assms(1)] by (simp add: forwarder_inv_def)
  show "i < length (dl_gateways (f_discovered_gw_list g))"
    using gateway_entry_ok(1) [OF l assms(2)] assms(2) by simp
  show "keeps f (MqttSnForwarderSetConnected g (dg_network_address (dl_gateways (f_discovered_gw_list g) ! i)))"
    using keeps_set_connected [OF assms(1) gateway_entry_ok(2) [OF l assms(2)]] .
qed

section \<open>Every pass keeps the invariant\<close>

lemma ok_await_gateway:
  fixes pf :: "'w platform"
  assumes "keeps f g" and clk: "clock_contract pf"
  shows "ok (\<lambda>(rc, f', w'). keeps f f' \<and> rc \<in> {0, -1}) (await_gateway pf g w)"
proof -
  let ?P = "\<lambda>(rc, f', w'). keeps f f' \<and> rc \<in> {0, -1}"
  have "buffer_ok message_ok (f_clientNetworkReceiveBuffer g)"
    using keeps_inv [OF assms(1)] by (simp add: forwarder_inv_def)
  from ok_pop [OF this, of zero_message]
  obtain rc q m where p: "pop (f_clientNetworkReceiveBuffer g) zero_message = Inr (rc, q, m)"
    "buffer_ok message_ok q" "rc = 0 \<Longrightarrow> message_ok m"
    by (auto simp: ok_def)
  define h where "h = g\<lparr>f_clientNetworkReceiveBuffer := q\<rparr>"
  have k: "keeps f h" and l: "lists_inv h"
    using keeps_client_queue [OF assms(1) p(2)] keeps_inv by (auto simp: h_def forwarder_inv_def)
  define settle where "settle = (\<lambda>(rc, g :: 'w MqttSnForwarder, w :: 'w). if rc < (0 :: int) then Inr (-1, g, w)
    else if dl_current_len (f_discovered_gw_list g) > 0
    then cbind (rd_arr (dl_gateways (f_discovered_gw_list g)) 0) (\<lambda>e.
      Inr (0 :: int, MqttSnForwarderSetConnected g (dg_network_address e), w))
    else Inr (0, g, w))"
  have "ok ?P (settle (rc, h\<lparr>f_discovered_gw_list := gs\<rparr>, w))" if "gateways_inv gs" for rc gs w
    using keeps_gateway_entry [OF keeps_gateways [OF k that]] keeps_gateways [OF k that]
    by (auto simp: settle_def rd_arr_def)
  then have "ok (\<lambda>x. ok ?P (settle x)) (MqttSnForwardingUpdateDiscoveredGw pf h m w)" if "rc = 0"
    by (intro ok_mono [OF ok_update_discovered [OF keeps_inv [OF k] clk p(3) [OF that]]]) auto
  then show ?thesis
    using k unfolding await_gateway_def p(1) cbind.simps split Let_def h_def [symmetric] settle_def [symmetric]
      gateway_addr_refused_eq [OF l] ok_if ok_cbind
    by auto
qed

lemma ok_pseudo_connect:
  assumes inv: "forwarder_inv f" and clk: "clock_contract pf"
  shows "ok (\<lambda>(rc, f', w'). keeps f f' \<and> rc \<in> {0, -1}) (MqttSnForwarderHandleGatewayPseudoConnect pf f w)"
proof -
  let ?P = "\<lambda>(rc, f', w'). keeps f f' \<and> rc \<in> {0, -1}" and ?l = "f_discovered_gw_list f"
  have "ok ?P (cbind (best_gateway_loop (dl_gateways ?l) (dl_current_len ?l) 0 0) (\<lambda>best.
      cbind (rd_arr (dl_gateways ?l) best) (\<lambda>g. Inr (0, MqttSnForwarderSetConnected f (dg_network_address g), w))))"
    if n: "0 < dl_current_len ?l"
  proof -
    have "dl_current_len ?l \<le> length (dl_gateways ?l)"
      using gateway_entry_ok(1) [OF _ n] inv by (simp add: forwarder_inv_def)
    from best_gateway_ok [OF this n, of 0] show ?thesis
      unfolding ok_cbind
      by (rule ok_mono) (use keeps_gateway_entry [OF keeps_refl [OF inv]] in \<open>auto simp: rd_arr_def\<close>)
  qed
  moreover have "ok (\<lambda>x. ok ?P (case x of (g, w) \<Rightarrow> await_gateway pf g w)) (gateway_receive pf f w)"
    by (rule ok_mono [OF ok_gateway_receive [OF inv]]) (use ok_await_gateway [OF _ clk] in auto)
  ultimately show ?thesis
    using keeps_refl [OF inv] unfolding MqttSnForwarderHandleGatewayPseudoConnect_def ok_if ok_cbind by auto
qed


text \<open>After a failure both networks are disconnected.\<close>

lemma ok_then_disconnect:
  assumes "ok (\<lambda>(rc, f', w'). keeps f f') r"
  shows "ok (\<lambda>(f', w'). keeps f f') (cbind r (\<lambda>(rc, f, w).
    Inr (if rc \<noteq> (0 :: int) then let (f, w) = disconnect_client f w in disconnect_gateway f w else (f, w))))"
  unfolding ok_cbind
  by (rule ok_mono [OF assms]) (use keeps_disconnect_both(3) [OF keeps_inv] in \<open>auto simp: case_prod_unfold\<close>)

lemma ok_add_headers: "forwarder_inv f \<Longrightarrow> ok (\<lambda>(f', w'). keeps f f') (add_headers f w)"
  unfolding add_headers_def ok_cbind
  by (rule ok_mono [OF ok_add_header]) (auto simp: added_def)

lemma ok_remove_headers:
  assumes "forwarder_inv f" "clock_contract pf"
  shows "ok (\<lambda>(f', w'). keeps f f') (remove_headers pf f w)"
  unfolding remove_headers_def
  by (rule ok_then_disconnect [OF ok_mono [OF ok_remove_header [OF assms]]]) (auto simp: removed_def)

text \<open>The six steps of a round, each after those before it.\<close>

lemma ok_then:
  assumes "ok (\<lambda>(f', w'). keeps f f') r" "\<And>g w. forwarder_inv g \<Longrightarrow> ok (\<lambda>(f', w'). keeps g f') (k g w)"
  shows "ok (\<lambda>(f', w'). keeps f f') (cbind r (\<lambda>(g, w). k g w))"
  unfolding ok_cbind
proof (rule ok_mono [OF assms(1)], clarsimp)
  fix g w
  assume g: "keeps f g"
  show "ok (\<lambda>(f', w'). keeps f f') (k g w)"
    by (rule ok_mono [OF assms(2) [OF keeps_inv [OF g]]]) (use keeps_trans [OF g] in auto)
qed

lemma ok_round:
  assumes "forwarder_inv f" "clock_contract pf"
  shows "ok (\<lambda>(f', w'). keeps f f') (forward_round pf f w)"
  unfolding forward_round_def clients_to_gateway_def gateway_to_clients_def
  using assms(1)
  by (intro ok_then ok_client_receive ok_add_headers ok_gateway_receive ok_sends
      ok_remove_headers [OF _ assms(2)])

section \<open>Flushing\<close>

text \<open>
  A driver that takes a message whole or fails: the send fails, or the queue gets shorter.
\<close>

definition all_or_nothing :: "(MqttSnMessageData \<Rightarrow> int \<Rightarrow> 'w \<Rightarrow> int \<times> 'w) \<Rightarrow> bool" where
  "all_or_nothing reply \<longleftrightarrow> (\<forall>m t w. fst (reply m t w) < 0 \<or> fst (reply m t w) = int (md_data_length m))"

text \<open>
  A driver that takes no message whole and reports no failure: of a message that is not empty it takes a
  part or, as one that always returns 0, nothing.
\<close>

definition accepts_nothing :: "(MqttSnMessageData \<Rightarrow> int \<Rightarrow> 'w \<Rightarrow> int \<times> 'w) \<Rightarrow> bool" where
  "accepts_nothing reply \<longleftrightarrow>
     (\<forall>m t w. 0 \<le> fst (reply m t w)
        \<and> (0 < md_data_length m \<longrightarrow> fst (reply m t w) \<noteq> int (md_data_length m)))"

text \<open>A message that is not empty waits to be sent.\<close>

definition something_waits :: "MqttSnFixedSizeRingBuffer \<Rightarrow> bool" where
  "something_waits q \<longleftrightarrow> (\<exists>m \<in> set (contents q). 0 < md_data_length m)"

lemma something_waits_not_empty: "something_waits q \<Longrightarrow> \<not> isEmpty q"
  by (auto simp: something_waits_def isEmpty_contents)

context network_interface
begin

lemma send_whole:
  assumes "all_or_nothing (reply n)" "ring_inv q"
  shows "\<exists>rc n' q' w'. send n q t w = Inr (rc, n', q', w') \<and>
    (if rc < 0 then \<not> can_send n' else n' = n \<and> length (contents q') = length (contents q) - 1)"
proof (cases "contents q")
  case Nil
  then show ?thesis
    using send_down [of n q t w] send_idle [of n q t w] by (cases "can_send n") auto
next
  case (Cons m ms)
  obtain r w' where r: "reply n m t w = (r, w')" by fastforce
  then have "r < 0 \<or> r = int (md_data_length m)"
    using assms(1) unfolding all_or_nothing_def by (metis fst_conv)
  then show ?thesis
    using send_down [of n q t w] send_step [OF _ assms(2) Cons r] Cons
    by (cases "can_send n"; cases "r < 0")
      (fastforce split: if_splits simp del: length_contents intro: exI [of _ "- 1 :: int"])+
qed

lemma send_nothing:
  assumes "accepts_nothing (reply n)" "can_send n" "ring_inv q" "something_waits q"
  shows "\<exists>rc q' w'. send n q t w = Inr (rc, n, q', w') \<and> 0 \<le> rc \<and> ring_inv q' \<and> something_waits q'"
proof (cases "contents q")
  case Nil
  then show ?thesis
    using assms(4) by (simp add: something_waits_def)
next
  case (Cons m ms)
  obtain r w' where r: "reply n m t w = (r, w')" by fastforce
  then have "0 \<le> r" "0 < md_data_length m \<Longrightarrow> r \<noteq> int (md_data_length m)"
    using assms(1) unfolding accepts_nothing_def by (metis fst_conv)+
  then show ?thesis
    using send_step [OF assms(2,3) Cons r] Cons assms(4) by (fastforce simp: something_waits_def)
qed

end

text \<open>The same for the two queues of the forwarder.\<close>

lemma send_to_gateway_step:
  assumes inv: "forwarder_inv f" and d: "all_or_nothing (gateway_reply (f_gatewayNetwork f))"
  shows "ok (\<lambda>(rc, f', w'). keeps f f' \<and>
      (if rc < 0 then \<not> gateway_can_send (f_gatewayNetwork f')
       else f_gatewayNetwork f' = f_gatewayNetwork f
         \<and> to_gateway f' = to_gateway f - (if isEmpty (f_gatewayNetworkSendBuffer f) then 0 else 1)))
    (send_to_gateway f w)"
proof -
  have q: "ring_inv (f_gatewayNetworkSendBuffer f)"
    using inv by (simp add: forwarder_inv_def buffer_ok_def)
  show ?thesis
    using gateway_net.send_whole [OF d q, of "f_gatewayNetworkSendTimeout f" w] ok_send_to_gateway [OF inv, of w]
    by (auto simp: send_to_gateway_def to_gateway_def isEmpty_def split: if_splits)
qed

lemma send_to_clients_step:
  assumes inv: "forwarder_inv f" and d: "all_or_nothing (client_reply (f_clientNetwork f))"
  shows "ok (\<lambda>(rc, f', w'). keeps f f' \<and>
      (if rc < 0 then \<not> client_can_send (f_clientNetwork f')
       else f_clientNetwork f' = f_clientNetwork f
         \<and> to_clients f' = to_clients f - (if isEmpty (f_clientNetworkSendBuffer f) then 0 else 1)))
    (send_to_clients f w)"
proof -
  have q: "ring_inv (f_clientNetworkSendBuffer f)"
    using inv by (simp add: forwarder_inv_def buffer_ok_def)
  show ?thesis
    using client_net.send_whole [OF d q, of "f_clientNetworkSendTimeout f" w] ok_send_to_clients [OF inv, of w]
    by (auto simp: send_to_clients_def to_clients_def isEmpty_def split: if_splits)
qed


text \<open>One pass of a flushing loop: it breaks, or fewer messages are on their way.\<close>

lemma flush_gateway_body_step:
  assumes inv: "forwarder_inv f" and d: "all_or_nothing (gateway_reply (f_gatewayNetwork f))" and n: "0 < to_gateway f"
  shows "ok (\<lambda>(brk, f', w'). keeps f f' \<and>
      (if brk then \<not> gateway_can_send (f_gatewayNetwork f')
       else f_gatewayNetwork f' = f_gatewayNetwork f \<and> to_gateway f' < to_gateway f))
    (flush_gateway_body f w)" (is "ok ?P _")
proof -
  have body: "ok (\<lambda>(rc, f', w'). ?P (rc < (0 :: int), f', w')) (send_to_gateway g w)" if g: "added f g" for g
  proof -
    have "forwarder_inv g" "all_or_nothing (gateway_reply (f_gatewayNetwork g))"
      using d g keeps_inv by (auto simp: added_def)
    from send_to_gateway_step [OF this, of w] show ?thesis
      by (rule ok_mono)
        (use g n keeps_trans [of f g] in \<open>auto simp: added_def isEmpty_def to_gateway_def split: if_splits\<close>)
  qed
  show ?thesis
    unfolding flush_gateway_body_def ok_cbind
    by (rule ok_mono [OF ok_add_header [OF inv]]) (auto intro!: ok_mono [OF body])
qed

lemma removed_keeps: "removed f g \<Longrightarrow> keeps f g"
  by (simp add: removed_def)

lemma flush_clients_body_step:
  assumes inv: "forwarder_inv f" and clk: "clock_contract pf"
    and d: "all_or_nothing (client_reply (f_clientNetwork f))" and n: "0 < to_clients f"
  shows "ok (\<lambda>(brk, f', w'). keeps f f' \<and>
      (\<not> brk \<longrightarrow> f_clientNetwork f' = f_clientNetwork f \<and> to_clients f' < to_clients f))
    (flush_clients_body pf f w)" (is "ok ?P _")
proof -
  have body: "ok (\<lambda>(rc, f', w'). ?P (rc < (0 :: int), f', w')) (send_to_clients g v)" if g: "removed f g" for g v
  proof -
    have "forwarder_inv g" "all_or_nothing (client_reply (f_clientNetwork g))"
      using d g keeps_inv by (auto simp: removed_def)
    from send_to_clients_step [OF this, of v] show ?thesis
      by (rule ok_mono)
        (use g n keeps_trans [of f g] in \<open>auto simp: removed_def isEmpty_def to_clients_def split: if_splits\<close>)
  qed
  show ?thesis
    unfolding flush_clients_body_def ok_cbind
    by (rule ok_mono [OF ok_remove_header [OF inv clk]]) (auto intro!: ok_mono [OF body] dest: removed_keeps)
qed


lemma to_gateway_empty:
  "isEmpty (f_clientNetworkReceiveBuffer f) \<and> isEmpty (f_gatewayNetworkSendBuffer f) \<longleftrightarrow> to_gateway f = 0"
  by (simp add: isEmpty_def to_gateway_def)

lemma to_clients_empty:
  "isEmpty (f_gatewayNetworkReceiveBuffer f) \<and> isEmpty (f_clientNetworkSendBuffer f) \<longleftrightarrow> to_clients f = 0"
  by (simp add: isEmpty_def to_clients_def)

text \<open>With such a driver the flush returns, with all messages sent or the driver down.\<close>

lemma flush_gateway_returns:
  assumes "forwarder_inv f" "all_or_nothing (gateway_reply (f_gatewayNetwork f))"
  shows "\<exists>f' w'. sendBufferedMessagesToGateway f w = Some (Inr (f', w')) \<and> keeps f f'
    \<and> (to_gateway f' = 0 \<or> \<not> gateway_can_send (f_gatewayNetwork f'))"
  using assms
proof (induction "to_gateway f" arbitrary: f w rule: less_induct)
  case less
  show ?case
  proof (cases "to_gateway f = 0")
    case True
    then show ?thesis
      using less.prems keeps_refl
      by (subst sendBufferedMessagesToGateway.simps) (simp add: to_gateway_empty)
  next
    case False
    then obtain brk g v where b: "flush_gateway_body f w = Inr (brk, g, v)" "keeps f g"
      "if brk then \<not> gateway_can_send (f_gatewayNetwork g)
       else f_gatewayNetwork g = f_gatewayNetwork f \<and> to_gateway g < to_gateway f"
      using flush_gateway_body_step [OF less.prems, of w] by (auto simp: ok_def)
    show ?thesis
    proof (cases brk)
      case True
      then show ?thesis
        using False b by (subst sendBufferedMessagesToGateway.simps) (simp add: to_gateway_empty)
    next
      case brk: False
      then obtain f' w' where "sendBufferedMessagesToGateway g v = Some (Inr (f', w'))" "keeps g f'"
        "to_gateway f' = 0 \<or> \<not> gateway_can_send (f_gatewayNetwork f')"
        using less.hyps [of g v] b less.prems keeps_inv by auto
      then show ?thesis
        using False brk b keeps_trans by (subst sendBufferedMessagesToGateway.simps) (auto simp: to_gateway_empty)
    qed
  qed
qed

lemma flush_clients_returns:
  assumes "forwarder_inv f" "clock_contract pf" "all_or_nothing (client_reply (f_clientNetwork f))"
  shows "\<exists>f' w'. sendBufferedMessagesToClients pf f w = Some (Inr (f', w')) \<and> keeps f f'"
  using assms
proof (induction "to_clients f" arbitrary: f w rule: less_induct)
  case less
  show ?case
  proof (cases "to_clients f = 0")
    case True
    then show ?thesis
      using less.prems keeps_refl
      by (subst sendBufferedMessagesToClients.simps) (simp add: to_clients_empty)
  next
    case False
    then obtain brk g v where b: "flush_clients_body pf f w = Inr (brk, g, v)" "keeps f g"
      "\<not> brk \<longrightarrow> f_clientNetwork g = f_clientNetwork f \<and> to_clients g < to_clients f"
      using flush_clients_body_step [OF less.prems, of w] by (auto simp: ok_def)
    show ?thesis
    proof (cases brk)
      case True
      then show ?thesis
        using False b by (subst sendBufferedMessagesToClients.simps) (simp add: to_clients_empty)
    next
      case brk: False
      then obtain f' w' where "sendBufferedMessagesToClients pf g v = Some (Inr (f', w'))" "keeps g f'"
        using less.hyps [of g v] b less.prems keeps_inv by auto
      then show ?thesis
        using False brk b keeps_trans by (subst sendBufferedMessagesToClients.simps) (auto simp: to_clients_empty)
    qed
  qed
qed

text \<open>Without that promise of the driver: whatever the flush returns keeps the invariant.\<close>

lemma ok_sends_after:
  assumes "keeps f g"
  shows "ok (\<lambda>(rc, f', w'). keeps f f') (send_to_gateway g w)" "ok (\<lambda>(rc, f', w'). keeps f f') (send_to_clients g w)"
  using ok_mono [OF ok_send_to_gateway [OF keeps_inv [OF assms]]] ok_mono [OF ok_send_to_clients [OF keeps_inv [OF assms]]]
    keeps_trans [OF assms] by auto

lemma ok_flush_gateway_body:
  "forwarder_inv f \<Longrightarrow> ok (\<lambda>(brk, f', w'). keeps f f') (flush_gateway_body f w)"
  unfolding flush_gateway_body_def ok_cbind
  by (rule ok_mono [OF ok_add_header]) (auto simp: added_def intro!: ok_mono [OF ok_sends_after(1)])

lemma ok_flush_clients_body:
  "forwarder_inv f \<Longrightarrow> clock_contract pf \<Longrightarrow> ok (\<lambda>(brk, f', w'). keeps f f') (flush_clients_body pf f w)"
  unfolding flush_clients_body_def ok_cbind
  by (rule ok_mono [OF ok_remove_header]) (auto dest!: removed_keeps intro!: ok_mono [OF ok_sends_after(2)])

lemma flush_gateway_keeps:
  assumes "sendBufferedMessagesToGateway f w = Some r"
  shows "forwarder_inv f \<longrightarrow> ok (\<lambda>(f', w'). keeps f f') r"
proof (rule sendBufferedMessagesToGateway.raw_induct [OF _ assms], rule impI)
  fix rec f w r
  assume rec: "\<And>f w r. rec f w = Some r \<Longrightarrow> forwarder_inv f \<longrightarrow> ok (\<lambda>(f', w'). keeps f f') r"
    and step: "(if isEmpty (f_clientNetworkReceiveBuffer f) \<and> isEmpty (f_gatewayNetworkSendBuffer f)
      then Some (Inr (f, w))
      else case flush_gateway_body f w of
          Inl e \<Rightarrow> Some (Inl e)
        | Inr (brk, f', w') \<Rightarrow> if brk then Some (Inr (f', w')) else rec f' w') = Some r"
    and inv: "forwarder_inv f"
  obtain brk g v where b: "flush_gateway_body f w = Inr (brk, g, v)" "keeps f g"
    using ok_flush_gateway_body [OF inv, of w] by (auto simp: ok_def)
  have "ok (\<lambda>(f', w'). keeps f f') r" if "rec g v = Some r"
    by (rule ok_mono [OF rec [OF that, rule_format, OF keeps_inv [OF b(2)]]]) (use keeps_trans [OF b(2)] in auto)
  then show "ok (\<lambda>(f', w'). keeps f f') r"
    using step inv b keeps_refl by (auto split: if_splits)
qed

lemma flush_clients_keeps:
  assumes "sendBufferedMessagesToClients pf f w = Some r"
  shows "forwarder_inv f \<and> clock_contract pf \<longrightarrow> ok (\<lambda>(f', w'). keeps f f') r"
proof (rule sendBufferedMessagesToClients.raw_induct [OF _ assms], rule impI, elim conjE)
  fix rec pf f w r
  assume rec: "\<And>pf f w r. rec pf f w = Some r
      \<Longrightarrow> forwarder_inv f \<and> clock_contract pf \<longrightarrow> ok (\<lambda>(f', w'). keeps f f') r"
    and step: "(if isEmpty (f_gatewayNetworkReceiveBuffer f) \<and> isEmpty (f_clientNetworkSendBuffer f)
      then Some (Inr (f, w))
      else case flush_clients_body pf f w of
          Inl e \<Rightarrow> Some (Inl e)
        | Inr (brk, f', w') \<Rightarrow> if brk then Some (Inr (f', w')) else rec pf f' w') = Some r"
    and inv: "forwarder_inv f" and clk: "clock_contract pf"
  obtain brk g v where b: "flush_clients_body pf f w = Inr (brk, g, v)" "keeps f g"
    using ok_flush_clients_body [OF inv clk, of w] by (auto simp: ok_def)
  have "ok (\<lambda>(f', w'). keeps f f') r" if "rec pf g v = Some r"
    by (rule ok_mono [OF rec [OF that, rule_format, OF conjI [OF keeps_inv [OF b(2)] clk]]])
      (use keeps_trans [OF b(2)] in auto)
  then show "ok (\<lambda>(f', w'). keeps f f') r"
    using step inv b keeps_refl by (auto split: if_splits)
qed


section \<open>The loop\<close>

lemma close_down_keeps:
  assumes "keeps f g"
  shows "\<exists>f' w'. close_down (g, w) = Some (Inr (-1, f', w')) \<and> keeps f f'"
proof -
  have "keeps f (fst (MqttSnForwarderDeinit g w))"
    using keeps_trans [OF keeps_trans [OF assms keeps_disconnect(2) [OF keeps_inv [OF assms]]] keeps_disconnect(1)]
      keeps_disconnect(2) [OF keeps_inv [OF assms]]
    by (auto simp: MqttSnForwarderDeinit_def case_prod_unfold Let_def dest: keeps_inv)
  then show ?thesis
    by (cases "MqttSnForwarderDeinit g w") (simp add: close_down_def)
qed

lemma returning_Some:
  "returning r k = Some y \<longleftrightarrow> (\<exists>e. r = Some (Inl e) \<and> y = Inl e) \<or> (\<exists>x. r = Some (Inr x) \<and> k x = Some y)"
  by (auto simp: returning_def split: option.splits sum.splits)

lemma returning_Inr [simp]: "returning (Some (Inr x)) k = k x"
  by (simp add: returning_def)

lemma close_down_after:
  assumes "ok (\<lambda>(f', w'). keeps f f') r" "returning (Some r) close_down = Some s"
  shows "ok (\<lambda>(rc, f', w'). keeps f f' \<and> rc \<in> {0, -1}) s"
proof -
  obtain g v where "r = Inr (g, v)" "keeps f g"
    using assms(1) by (auto simp: ok_def)
  then show ?thesis
    using close_down_keeps [of f g v] assms(2) by auto
qed

lemma check_networks_keeps:
  assumes "check_networks pf g w = Some r" "keeps f g" "clock_contract pf"
  shows "ok (\<lambda>(rc, f', w'). keeps f f' \<and> rc \<in> {0, -1}) r"
proof -
  have gw: "ok (\<lambda>(f', w'). keeps f f') s" if "sendBufferedMessagesToGateway g w = Some s" for s
    using flush_gateway_keeps [OF that] keeps_inv [OF assms(2)] keeps_trans [OF assms(2)]
    by (auto elim!: ok_mono)
  have cl: "ok (\<lambda>(f', w'). keeps f f') s" if "sendBufferedMessagesToClients pf g w = Some s" for s
    using flush_clients_keeps [OF that] keeps_inv [OF assms(2)] keeps_trans [OF assms(2)] assms(3)
    by (auto elim!: ok_mono)
  show ?thesis
    using assms(1,2) close_down_keeps [OF assms(2), of w] close_down_after [OF gw, of _ r] close_down_after [OF cl, of _ r]
    by (cases "sendBufferedMessagesToGateway g w"; cases "sendBufferedMessagesToClients pf g w")
      (auto simp: check_networks_def returning_def split: if_splits)
qed

text \<open>With networks that have been initialised the checks find nothing.\<close>

lemma status_positive:
  "initialised f \<Longrightarrow> 0 < cn_status_code (cn_status (f_clientNetwork f))"
  "initialised f \<Longrightarrow> 0 < gn_status_code (gn_status (f_gatewayNetwork f))"
  by (cases "cn_status (f_clientNetwork f)"; simp add: initialised_def)
    (cases "gn_status (f_gatewayNetwork f)"; simp add: initialised_def)

lemma check_networks_initialised: "initialised f \<Longrightarrow> check_networks pf f w = Some (Inr (0, f, w))"
  using status_positive [of f] by (simp add: check_networks_def)

lemma set_disconnected_networks [simp]:
  "f_clientNetwork (MqttSnForwarderSetDisconnected f) = f_clientNetwork f"
  by (simp add: MqttSnForwarderSetDisconnected_def)

lemma ok_check_gateway:
  assumes "forwarder_inv f" "0 < t"
  shows "ok (\<lambda>f'. keeps f f' \<and> f_clientNetwork f' = f_clientNetwork f) (check_gateway f t)"
proof -
  have "gateways_inv (f_discovered_gw_list f)"
    using assms(1) by (simp add: forwarder_inv_def)
  from ok_update_list [OF this assms(2), of None None None 0]
  obtain l where l: "MqttSnDiscoveredGatewayListUpdate (f_discovered_gw_list f) None 0 None None t = Inr l" "gateways_inv l"
    by (auto simp: ok_def)
  obtain b where "MqttSnDiscoveredGatewayListExists l (Some (f_mqtt_sn_gateway_address f)) (-1) = Inr b"
    using l(2) exists_any_eq [of "entries l"] by (auto simp: gateways_inv_def gw_list_inv_def)
  then show ?thesis
    using keeps_gateways [OF keeps_refl [OF assms(1)] l(2)]
      keeps_set_disconnected [OF keeps_gateways [OF keeps_refl [OF assms(1)] l(2)]]
    by (auto simp: check_gateway_def Let_def l)
qed


lemma round_keeps:
  assumes "returning (Some (forward_round pf g w)) (\<lambda>(f, w). check_networks pf f w) = Some r"
    "keeps f g" "clock_contract pf"
  shows "ok (\<lambda>(rc, f', w'). keeps f f' \<and> rc \<in> {0, -1}) r"
proof -
  obtain h v where "forward_round pf g w = Inr (h, v)" "keeps f h"
    using ok_round [OF keeps_inv [OF assms(2)] assms(3), of w] keeps_trans [OF assms(2)] by (auto simp: ok_def)
  then show ?thesis
    using assms(1) check_networks_keeps [of pf h v r f] assms(3) by simp
qed

lemma pseudo_connect_keeps:
  "keeps f g \<Longrightarrow> clock_contract pf
   \<Longrightarrow> ok (\<lambda>(rc, f', w'). keeps f f' \<and> rc \<in> {0, -1}) (MqttSnForwarderHandleGatewayPseudoConnect pf g w)"
  by (rule ok_mono [OF ok_pseudo_connect [OF keeps_inv]]) (auto intro: keeps_trans)

lemma loop_keeps:
  assumes inv: "forwarder_inv f" and clk: "clock_contract pf" and r: "MqttSnForwarderLoop pf f w = Some r"
  shows "ok (\<lambda>(rc, f', w'). keeps f f' \<and> rc \<in> {0, -1}) r"
proof (cases "f_disconnected f")
  case True
  then show ?thesis
    using r pseudo_connect_keeps [OF keeps_refl [OF inv] clk] round_keeps [OF _ keeps_refl [OF inv] clk]
    by (auto simp: MqttSnForwarderLoop_def split: if_splits)
next
  case False
  obtain rc t w1 where t: "get_timestamp_s pf w = ((rc, t), w1)"
    by (metis prod.exhaust)
  show ?thesis
  proof (cases "rc < 0")
    case True
    then show ?thesis
      using False r t keeps_refl [OF inv] by (auto simp: MqttSnForwarderLoop_def Let_def)
  next
    case rc: False
    obtain g where g: "check_gateway f t = Inr g" "keeps f g"
      using ok_check_gateway [OF inv timestamp_positive [OF clk t rc]] by (auto simp: ok_def)
    show ?thesis
    proof (cases "f_disconnected g")
      case True
      then obtain s where s: "sendBufferedMessagesToClients pf g w1 = Some s"
        "returning (Some s) (\<lambda>(f, w). Some (MqttSnForwarderHandleGatewayPseudoConnect pf f w)) = Some r"
        using False r t rc g(1) by (auto simp: MqttSnForwarderLoop_def Let_def returning_def split: option.splits)
      then obtain h v where "s = Inr (h, v)" "keeps f h"
        using flush_clients_keeps [OF s(1)] keeps_inv [OF g(2)] keeps_trans [OF g(2)] clk by (auto simp: ok_def)
      then show ?thesis
        using s(2) pseudo_connect_keeps [OF _ clk] by auto
    next
      case conn: False
      then show ?thesis
        using False r t rc g(1) round_keeps [OF _ g(2) clk] by (auto simp: MqttSnForwarderLoop_def Let_def)
    qed
  qed
qed

text \<open>It returns, when the driver of the clients takes a message whole or fails.\<close>

lemma loop_returns:
  assumes inv: "forwarder_inv f" and clk: "clock_contract pf" and up: "initialised f"
    and d: "all_or_nothing (client_reply (f_clientNetwork f))"
  shows "\<exists>r. MqttSnForwarderLoop pf f w = Some r"
proof -
  have round: "\<exists>r. returning (Some (forward_round pf g v)) (\<lambda>(f, w). check_networks pf f w) = Some r"
    if "keeps f g" for g v
    using ok_round [OF keeps_inv [OF that] clk, of v] keeps_trans [OF that] up
    by (auto simp: ok_def check_networks_initialised keeps_def)
  obtain rc t w1 where t: "get_timestamp_s pf w = ((rc, t), w1)"
    by (metis prod.exhaust)
  have "\<exists>r. returning (Some (check_gateway f t)) (\<lambda>f.
      if f_disconnected f then returning (sendBufferedMessagesToClients pf f w1) (\<lambda>(f, w).
        Some (MqttSnForwarderHandleGatewayPseudoConnect pf f w))
      else returning (Some (forward_round pf f w1)) (\<lambda>(f, w). check_networks pf f w)) = Some r"
    if rc: "\<not> rc < 0"
  proof -
    obtain g where g: "check_gateway f t = Inr g" "keeps f g" "f_clientNetwork g = f_clientNetwork f"
      using ok_check_gateway [OF inv timestamp_positive [OF clk t rc]] by (auto simp: ok_def)
    then show ?thesis
      using flush_clients_returns [OF keeps_inv [OF g(2)] clk, of w1] d round [OF g(2), of w1] by auto
  qed
  then show ?thesis
    using round [OF keeps_refl [OF inv], of w] t by (auto simp: MqttSnForwarderLoop_def Let_def)
qed

end
