(* ===== verification/Forwarder_Behaviour.thy ===== *)
theory Forwarder_Behaviour
  imports Forwarder_Run
begin

text \<open>
  What the forwarder does with the messages: which it drops, what it makes of the others and in which
  order they leave; and two ways to make no progress, waiting on the wrong queue and flushing to a
  driver that accepts nothing.
\<close>

section \<open>Waiting for a gateway\<close>

text \<open>
  Disconnected, not pinned, no gateway known, and no message of a client left: the messages of the
  gateway network are received into one queue, and the search for a gateway looks into the other.
\<close>

definition stuck :: "'w MqttSnForwarder \<Rightarrow> bool" where
  "stuck f \<longleftrightarrow> f_disconnected f \<and> \<not> f_pin_connection f \<and> dl_current_len (f_discovered_gw_list f) = 0
     \<and> isEmpty (f_clientNetworkReceiveBuffer f)"

lemma gateway_receive_frame:
  "gateway_receive pf f w = Inr (f', w')
   \<Longrightarrow> \<exists>n q. f' = f\<lparr>f_gatewayNetwork := n, f_gatewayNetworkReceiveBuffer := q\<rparr>"
  by (cases f) (auto simp: gateway_receive_def disconnect_gateway_def Let_def cbind_eq_Inr split: prod.splits if_splits)

lemma stuck_step:
  assumes inv: "forwarder_inv f" and s: "stuck f"
  shows "\<exists>f' w'. MqttSnForwarderLoop pf f w = Some (Inr (0, f', w')) \<and> forwarder_inv f' \<and> stuck f'"
proof -
  obtain g v where g: "gateway_receive pf f w = Inr (g, v)" "keeps f g"
    using ok_gateway_receive [OF inv, of pf w] by (auto simp: ok_def)
  obtain n q where n: "g = f\<lparr>f_gatewayNetwork := n, f_gatewayNetworkReceiveBuffer := q\<rparr>"
    using gateway_receive_frame [OF g(1)] by blast
  have p: "pop (f_clientNetworkReceiveBuffer g) zero_message
      = Inr (-1, f_clientNetworkReceiveBuffer g, zero_message)"
    using s by (simp add: n stuck_def pop_empty)
  have "await_gateway pf g v = Inr (0, g, v)"
    unfolding await_gateway_def p by simp
  moreover have "stuck g"
    using s by (simp add: n stuck_def)
  ultimately show ?thesis
    using s g by (auto simp: MqttSnForwarderLoop_def MqttSnForwarderHandleGatewayPseudoConnect_def stuck_def dest: keeps_inv)
qed

lemma stuck_passes:
  "forwarder_inv f \<Longrightarrow> stuck f
   \<Longrightarrow> \<exists>f' w'. forwarder_passes k pf f w = Some (Inr (0, f', w')) \<and> forwarder_inv f' \<and> stuck f'"
proof (induction k arbitrary: f w)
  case 0
  then show ?case by auto
next
  case (Suc k)
  obtain g v where "MqttSnForwarderLoop pf f w = Some (Inr (0, g, v))" "forwarder_inv g" "stuck g"
    using stuck_step [OF Suc.prems] by blast
  then show ?case
    using Suc.IH [of g v] by auto
qed

section \<open>Flushing to a driver that accepts nothing\<close>

text \<open>
  Both loops spin: the message is handed to the driver and put back. The queue of received messages,
  which a loop empties first, is taken to be empty: one that is not empty can stop it, with an error.
\<close>

definition blocked_clients :: "'w MqttSnForwarder \<Rightarrow> bool" where
  "blocked_clients f \<longleftrightarrow> isEmpty (f_gatewayNetworkReceiveBuffer f) \<and> something_waits (f_clientNetworkSendBuffer f)
     \<and> ring_inv (f_clientNetworkSendBuffer f)
     \<and> client_can_send (f_clientNetwork f) \<and> accepts_nothing (client_reply (f_clientNetwork f))"

definition blocked_gateway :: "'w MqttSnForwarder \<Rightarrow> bool" where
  "blocked_gateway f \<longleftrightarrow> isEmpty (f_clientNetworkReceiveBuffer f) \<and> something_waits (f_gatewayNetworkSendBuffer f)
     \<and> ring_inv (f_gatewayNetworkSendBuffer f)
     \<and> gateway_can_send (f_gatewayNetwork f) \<and> accepts_nothing (gateway_reply (f_gatewayNetwork f))"

lemma blocked_clients_step:
  assumes "blocked_clients f"
  shows "\<exists>f' w'. flush_clients_body pf f w = Inr (False, f', w') \<and> blocked_clients f'"
proof -
  have p: "RemoveForwardingHeaderFromGatewayMessages pf f w = Inr (0, f, w)"
    using assms by (cases f) (auto simp: RemoveForwardingHeaderFromGatewayMessages_def blocked_clients_def pop_empty)
  obtain rc q w' where "ClientNetworkSend (f_clientNetwork f) (f_clientNetworkSendBuffer f)
      (f_clientNetworkSendTimeout f) w = Inr (rc, f_clientNetwork f, q, w')"
    "0 \<le> rc" "ring_inv q" "something_waits q"
    using client_net.send_nothing [of "f_clientNetwork f" "f_clientNetworkSendBuffer f"
        "f_clientNetworkSendTimeout f" w] assms unfolding blocked_clients_def by blast
  then show ?thesis
    using assms unfolding flush_clients_body_def p
    by (auto simp: send_to_clients_def blocked_clients_def)
qed

lemma blocked_gateway_step:
  assumes "blocked_gateway f"
  shows "\<exists>f' w'. flush_gateway_body f w = Inr (False, f', w') \<and> blocked_gateway f'"
proof -
  have p: "AddForwardingHeaderToClientMessages f = Inr (0, f)"
    using assms by (cases f) (auto simp: AddForwardingHeaderToClientMessages_def blocked_gateway_def pop_empty)
  obtain rc q w' where "GatewayNetworkSend (f_gatewayNetwork f) (f_gatewayNetworkSendBuffer f)
      (f_gatewayNetworkSendTimeout f) w = Inr (rc, f_gatewayNetwork f, q, w')"
    "0 \<le> rc" "ring_inv q" "something_waits q"
    using gateway_net.send_nothing [of "f_gatewayNetwork f" "f_gatewayNetworkSendBuffer f"
        "f_gatewayNetworkSendTimeout f" w] assms unfolding blocked_gateway_def by blast
  then show ?thesis
    using assms unfolding flush_gateway_body_def p
    by (auto simp: send_to_gateway_def blocked_gateway_def)
qed

lemma flush_clients_spins:
  assumes "blocked_clients f"
  shows "sendBufferedMessagesToClients pf f w = None"
proof -
  have "blocked_clients f \<longrightarrow> False" if "sendBufferedMessagesToClients pf f w = Some r" for f w r
  proof (rule sendBufferedMessagesToClients.raw_induct [OF _ that], rule impI)
    fix rec pf f w r
    assume rec: "\<And>pf f w r. rec pf f w = Some r \<Longrightarrow> blocked_clients f \<longrightarrow> False"
      and step: "(if isEmpty (f_gatewayNetworkReceiveBuffer f) \<and> isEmpty (f_clientNetworkSendBuffer f)
        then Some (Inr (f, w))
        else case flush_clients_body pf f w of
            Inl e \<Rightarrow> Some (Inl e)
          | Inr (brk, f', w') \<Rightarrow> if brk then Some (Inr (f', w')) else rec pf f' w') = Some r"
      and b: "blocked_clients f"
    obtain g v where "flush_clients_body pf f w = Inr (False, g, v)" "blocked_clients g"
      using blocked_clients_step [OF b] by blast
    then show False
      using step b rec [of pf g v r] by (simp add: blocked_clients_def something_waits_not_empty)
  qed
  then show ?thesis
    using assms by (cases "sendBufferedMessagesToClients pf f w") auto
qed

lemma flush_gateway_spins:
  fixes f :: "'w MqttSnForwarder"
  assumes "blocked_gateway f"
  shows "sendBufferedMessagesToGateway f w = None"
proof -
  have "blocked_gateway f \<longrightarrow> False" if "sendBufferedMessagesToGateway f w = Some r" for f :: "'w MqttSnForwarder" and w r
  proof (rule sendBufferedMessagesToGateway.raw_induct [OF _ that], rule impI)
    fix rec and f :: "'w MqttSnForwarder" and w r
    assume rec: "\<And>f w r. rec f w = Some r \<Longrightarrow> blocked_gateway f \<longrightarrow> False"
      and step: "(if isEmpty (f_clientNetworkReceiveBuffer f) \<and> isEmpty (f_gatewayNetworkSendBuffer f)
        then Some (Inr (f, w))
        else case flush_gateway_body f w of
            Inl e \<Rightarrow> Some (Inl e)
          | Inr (brk, f', w') \<Rightarrow> if brk then Some (Inr (f', w')) else rec f' w') = Some r"
      and b: "blocked_gateway f"
    obtain g v where "flush_gateway_body f w = Inr (False, g, v)" "blocked_gateway g"
      using blocked_gateway_step [OF b] by blast
    then show False
      using step b rec [of g v r] by (simp add: blocked_gateway_def something_waits_not_empty)
  qed
  then show ?thesis
    using assms by (cases "sendBufferedMessagesToGateway f w") auto
qed


section \<open>Messages of the clients\<close>

text \<open>
  The frame made of a message. The radius does not depend on the message: the source compares the
  broadcast address with a message it has just cleared.
\<close>

definition frame_radius :: "u8 list option \<Rightarrow> u8" where
  "frame_radius broadcast = (if broadcast = Some zero_address then 1 else 0)"

definition gateway_frame :: "u8 list \<Rightarrow> u8 list option \<Rightarrow> MqttSnMessageData \<Rightarrow> MqttSnMessageData" where
  "gateway_frame gateway broadcast m =
     zero_message\<lparr>md_data := patched (md_data zero_message)
                    (frame_head (frame_radius broadcast) (md_from m) @ take (md_data_length m) (md_data m)),
                  md_data_length := 9 + md_data_length m, md_to := gateway, md_from := md_from m\<rparr>"

definition frame_fits :: "MqttSnMessageData \<Rightarrow> bool" where
  "frame_fits m \<longleftrightarrow> 9 + md_data_length m \<le> MQTT_SN_MAXIMUM_MESSAGE_DATA_LENGTH"

lemma zero_message_fields:
  "md_to zero_message = zero_address" "length (md_data zero_message) = MQTT_SN_MAXIMUM_MESSAGE_DATA_LENGTH"
  by (simp_all add: zero_message_def zero_address_def length_message_buffer)

lemma frame_radius_le: "frame_radius broadcast \<le> 1"
  by (simp add: frame_radius_def)

lemma add_frame_eq:
  assumes "message_shape m"
  shows "add_mqtt_sn_forwarder_encapsulation_frame m zero_message gateway broadcast =
    Inr (if frame_fits m then (0, gateway_frame gateway broadcast m) else (-1, zero_message))"
proof -
  have s: "length (md_from m) = device_address_size" "length (md_data m) = MQTT_SN_MAXIMUM_MESSAGE_DATA_LENGTH"
    using assms by (simp_all add: message_shape_def)
  have "(if broadcast = Some (md_to zero_message) then 1 else 0) = frame_radius broadcast"
    by (simp add: frame_radius_def zero_message_fields)
  moreover have "(9 + md_data_length m) mod 65536 = 9 + md_data_length m" if "frame_fits m"
    using that by (simp add: frame_fits_def MQTT_SN_MAXIMUM_MESSAGE_DATA_LENGTH_def)
  ultimately show ?thesis
    using generate_frame_ok [OF s zero_message_fields(2), of "frame_radius broadcast" "md_data_length m"] frame_radius_le
    by (auto simp: add_mqtt_sn_forwarder_encapsulation_frame_def attempt_def frame_fits_def gateway_frame_def)
qed

text \<open>What becomes of a message of a client: nothing, or its frame.\<close>

definition client_refused :: "'w MqttSnForwarder \<Rightarrow> u8 list \<Rightarrow> bool" where
  "client_refused f a \<longleftrightarrow>
     f_cn_addr_whitelist_len f \<noteq> 0 \<and> a \<notin> members_of (f_cn_addr_whitelist f) (f_cn_addr_whitelist_len f)
     \<or> a \<in> members_of (f_cn_addr_blacklist f) (f_cn_addr_blacklist_len f)"

definition outgoing :: "'w MqttSnForwarder \<Rightarrow> MqttSnMessageData \<Rightarrow> MqttSnMessageData list" where
  "outgoing f m =
     (if client_refused f (md_from m) \<or> \<not> frame_fits m then []
      else [gateway_frame (f_mqtt_sn_gateway_address f) (cn_broadcast_address (f_clientNetwork f)) m])"

lemma add_header_forwards:
  assumes inv: "forwarder_inv f" and m: "contents (f_clientNetworkReceiveBuffer f) = m # ms"
    and room: "\<not> isFull (f_gatewayNetworkSendBuffer f)"
  shows "\<exists>q s. AddForwardingHeaderToClientMessages f
      = Inr (0, f\<lparr>f_clientNetworkReceiveBuffer := q, f_gatewayNetworkSendBuffer := s\<rparr>)
    \<and> contents q = ms \<and> contents s = contents (f_gatewayNetworkSendBuffer f) @ outgoing f m
    \<and> rb_maxlen s = rb_maxlen (f_gatewayNetworkSendBuffer f)
    \<and> forwarder_inv (f\<lparr>f_clientNetworkReceiveBuffer := q, f_gatewayNetworkSendBuffer := s\<rparr>)"
proof -
  let ?r = "f_clientNetworkReceiveBuffer f" and ?s = "f_gatewayNetworkSendBuffer f"
  have r: "ring_inv ?r" "ring_inv ?s" and shape: "message_shape m" and l: "lists_inv f"
    using inv m by (auto simp: forwarder_inv_def buffer_ok_def message_ok_def)
  obtain q where q: "pop ?r zero_message = Inr (0, q, m)" "contents q = ms"
    using ring.deq_some [OF r(1), of zero_message] m by auto
  let ?f = "f\<lparr>f_clientNetworkReceiveBuffer := q\<rparr>"
  let ?g = "gateway_frame (f_mqtt_sn_gateway_address f) (cn_broadcast_address (f_clientNetwork f)) m"
  have l': "lists_inv ?f"
    using l by (simp add: lists_inv_def)
  obtain s where s: "put ?s ?g = Inr (0, s)" "contents s = contents ?s @ [?g]" "rb_maxlen s = rb_maxlen ?s"
    using put_appends [OF r(2) room] by blast
  have keep: "f\<lparr>f_clientNetworkReceiveBuffer := q, f_gatewayNetworkSendBuffer := ?s\<rparr> = ?f"
    by (cases f) simp
  define s' where "s' = (if client_refused f (md_from m) \<or> \<not> frame_fits m then ?s else s)"
  have step: "AddForwardingHeaderToClientMessages f
      = Inr (0, f\<lparr>f_clientNetworkReceiveBuffer := q, f_gatewayNetworkSendBuffer := s'\<rparr>)"
    unfolding AddForwardingHeaderToClientMessages_def q(1) s'_def
    using room keep
    by (simp add: client_addr_refused_eq [OF l'] add_frame_eq [OF shape] s(1) Let_def client_refused_def)
  moreover have "contents s' = contents ?s @ outgoing f m" "rb_maxlen s' = rb_maxlen ?s"
    using s by (simp_all add: s'_def outgoing_def)
  moreover have "forwarder_inv (f\<lparr>f_clientNetworkReceiveBuffer := q, f_gatewayNetworkSendBuffer := s'\<rparr>)"
    using ok_add_header [OF inv] by (simp add: step added_def keeps_def)
  ultimately show ?thesis
    using q(2) by blast
qed

text \<open>Over several calls: the frames leave in the order the messages came in.\<close>

fun add_headers_times :: "nat \<Rightarrow> 'w MqttSnForwarder \<Rightarrow> 'w MqttSnForwarder cres" where
  "add_headers_times 0 f = Inr f"
| "add_headers_times (Suc k) f =
     cbind (AddForwardingHeaderToClientMessages f) (\<lambda>(_, f). add_headers_times k f)"

lemma outgoing_cong [simp]:
  "outgoing (f\<lparr>f_clientNetworkReceiveBuffer := q, f_gatewayNetworkSendBuffer := s\<rparr>) m = outgoing f m"
  by (simp add: outgoing_def client_refused_def)

lemma length_outgoing: "length (outgoing f m) \<le> 1"
  by (simp add: outgoing_def)

lemma add_headers_in_order:
  assumes "forwarder_inv f" "k \<le> length (contents (f_clientNetworkReceiveBuffer f))"
    "length (contents (f_gatewayNetworkSendBuffer f)) + k \<le> rb_maxlen (f_gatewayNetworkSendBuffer f)"
  shows "\<exists>f'. add_headers_times k f = Inr f' \<and> forwarder_inv f'
    \<and> contents (f_clientNetworkReceiveBuffer f') = drop k (contents (f_clientNetworkReceiveBuffer f))
    \<and> contents (f_gatewayNetworkSendBuffer f') = contents (f_gatewayNetworkSendBuffer f)
        @ concat (map (outgoing f) (take k (contents (f_clientNetworkReceiveBuffer f))))"
  using assms
proof (induction k arbitrary: f)
  case 0
  then show ?case by simp
next
  case (Suc k)
  obtain m ms where m: "contents (f_clientNetworkReceiveBuffer f) = m # ms"
    using Suc.prems(2) by (cases "contents (f_clientNetworkReceiveBuffer f)") auto
  have room: "\<not> isFull (f_gatewayNetworkSendBuffer f)"
    using Suc.prems(1,3) by (auto simp: forwarder_inv_def buffer_ok_def isFull_def)
  obtain q s where s: "AddForwardingHeaderToClientMessages f
      = Inr (0, f\<lparr>f_clientNetworkReceiveBuffer := q, f_gatewayNetworkSendBuffer := s\<rparr>)"
    "contents q = ms" "contents s = contents (f_gatewayNetworkSendBuffer f) @ outgoing f m"
    "rb_maxlen s = rb_maxlen (f_gatewayNetworkSendBuffer f)"
    "forwarder_inv (f\<lparr>f_clientNetworkReceiveBuffer := q, f_gatewayNetworkSendBuffer := s\<rparr>)"
    using add_header_forwards [OF Suc.prems(1) m room] by blast
  let ?g = "f\<lparr>f_clientNetworkReceiveBuffer := q, f_gatewayNetworkSendBuffer := s\<rparr>"
  have "k \<le> length (contents (f_clientNetworkReceiveBuffer ?g))"
    "length (contents (f_gatewayNetworkSendBuffer ?g)) + k \<le> rb_maxlen (f_gatewayNetworkSendBuffer ?g)"
    using Suc.prems m s(2-4) length_outgoing [of f m] by (simp_all del: length_contents)
  from Suc.IH [OF s(5) this] show ?case
    using s(1-3) m by (simp del: length_contents)
qed


section \<open>Messages of the gateway\<close>

text \<open>
  A frame of the gateway, whatever follows it in the data array: the message inside goes to the node
  named in the frame, or to every client when the frame says so and the network can broadcast.
\<close>

definition client_message :: "u8 list option \<Rightarrow> u8 \<Rightarrow> u8 list \<Rightarrow> u8 list \<Rightarrow> u8 list \<Rightarrow> MqttSnMessageData" where
  "client_message broadcast radius node sender msg =
     zero_message\<lparr>md_to := (case broadcast of Some b \<Rightarrow> if radius = 1 then b else node | None \<Rightarrow> node),
                  md_data := patched (md_data zero_message) msg, md_data_length := length msg,
                  md_from := sender\<rparr>"

lemma remove_frame_eq:
  assumes "radius \<le> 1" "length node = device_address_size" "length msg \<le> MQTT_SN_MAXIMUM_MESSAGE_DATA_LENGTH"
    and "md_data m = frame_head radius node @ msg @ rest" "md_data_length m = 9 + length msg"
  shows "remove_mqtt_sn_forwarder_encapsulation_frame m zero_message broadcast
    = Inr (0, client_message broadcast radius node (md_from m) msg)"
proof -
  let ?e = "\<lparr>em_radius = radius, em_wireless_node_id = node, em_mqtt_sn_message = msg,
    em_mqtt_sn_message_len = length msg\<rparr>"
  let ?b = "\<lparr>em_radius = 0, em_wireless_node_id = md_to zero_message, em_mqtt_sn_message = md_data zero_message,
    em_mqtt_sn_message_len = 0\<rparr>"
  have e: "frame_wf ?e" "frame_valid ?e" "frame_readable ?e" "frame_wire ?e @ rest = md_data m"
    using assms by (simp_all add: frame_wf_def frame_valid_def frame_readable_def frame_wire_def
        MQTT_SN_MAXIMUM_MESSAGE_DATA_LENGTH_def)
  have b: "length (em_wireless_node_id ?b) = device_address_size"
    "length (em_mqtt_sn_message ?b) = MQTT_SN_MAXIMUM_MESSAGE_DATA_LENGTH"
    by (simp_all add: zero_message_fields zero_address_def)
  have "parse_forwarder_encapsulation_byte (md_to zero_message) (md_data zero_message)
      MQTT_SN_MAXIMUM_MESSAGE_DATA_LENGTH (md_data m) (md_data_length m)
    = Inr (radius, node, patched (md_data zero_message) msg, length msg, 9 + length msg)"
    using parse_forwarder_encapsulation_frame [OF e(1-3) b, of rest] assms(5) e(4)
    by (auto simp: parse_forwarder_encapsulation_def cbind_eq_Inr split: prod.splits)
  then show ?thesis
    by (auto simp: remove_mqtt_sn_forwarder_encapsulation_frame_def attempt_def client_message_def Let_def
        zero_message_def split: option.split)
qed

text \<open>What the forwarder sends to a gateway it reads back when the gateway returns it.\<close>

lemma remove_added_frame:
  assumes m: "message_shape m" "frame_fits m"
  shows "remove_mqtt_sn_forwarder_encapsulation_frame (gateway_frame gateway broadcast m) zero_message broadcast'
    = Inr (0, client_message broadcast' (frame_radius broadcast) (md_from m) (md_from m)
        (take (md_data_length m) (md_data m)))"
proof -
  let ?msg = "take (md_data_length m) (md_data m)"
  have s: "length (md_from m) = device_address_size" "length ?msg = md_data_length m"
    "length ?msg \<le> MQTT_SN_MAXIMUM_MESSAGE_DATA_LENGTH"
    using m by (simp_all add: message_shape_def frame_fits_def)
  show ?thesis
    using remove_frame_eq [OF frame_radius_le s(1,3), of "gateway_frame gateway broadcast m" broadcast
        "drop (9 + md_data_length m) (md_data zero_message)"] s
    by (simp add: gateway_frame_def patched_def frame_head_def device_address_size_def)
qed


text \<open>Such a frame is itself a message as a driver leaves it.\<close>

lemma zero_from_patched: "length bs = k \<Longrightarrow> zero_from k (patched (replicate n 0) bs)"
  by (auto simp: zero_from_def patched_def nth_append)

lemma message_ok_gateway_frame:
  assumes m: "message_shape m" "frame_fits m" and gw: "address_ok gateway"
  shows "message_ok (gateway_frame gateway broadcast m)"
proof -
  let ?bs = "frame_head (frame_radius broadcast) (md_from m) @ take (md_data_length m) (md_data m)"
  have len: "length ?bs = 9 + md_data_length m"
    using m by (simp add: message_shape_def frame_fits_def frame_head_def device_address_size_def)
  have "length (patched (md_data zero_message) ?bs) = MQTT_SN_MAXIMUM_MESSAGE_DATA_LENGTH"
    using m(2) by (subst length_patched) (simp_all only: len zero_message_fields frame_fits_def)
  moreover have "zero_from (9 + md_data_length m) (patched (md_data zero_message) ?bs)"
    using zero_from_patched [OF len] by (simp add: zero_message_def message_buffer_def)
  moreover have "md_data_length m < 65527"
    using m(2) by (simp add: frame_fits_def MQTT_SN_MAXIMUM_MESSAGE_DATA_LENGTH_def)
  ultimately show ?thesis
    using m gw by (simp add: message_ok_def gateway_frame_def message_shape_def address_ok_def frame_fits_def)
qed

definition gateway_refused :: "'w MqttSnForwarder \<Rightarrow> u8 list \<Rightarrow> bool" where
  "gateway_refused f a \<longleftrightarrow>
     f_gn_addr_whitelist_len f \<noteq> 0 \<and> a \<notin> members_of (f_gn_addr_whitelist f) (f_gn_addr_whitelist_len f)
     \<or> a \<in> members_of (f_gn_addr_blacklist f) (f_gn_addr_blacklist_len f)"

definition incoming :: "'w MqttSnForwarder \<Rightarrow> MqttSnMessageData \<Rightarrow> MqttSnMessageData list" where
  "incoming f m =
     (if gateway_refused f (md_from m) then []
      else case remove_mqtt_sn_forwarder_encapsulation_frame m zero_message
                  (cn_broadcast_address (f_clientNetwork f)) of
             Inr (rc, c) \<Rightarrow> if rc = 0 then [c] else []
           | Inl e \<Rightarrow> [])"

definition working_log :: "'w platform \<Rightarrow> bool" where
  "working_log pf \<longleftrightarrow> (\<forall>m w. fst (pf_log_gateway_message pf m w) = 0)"

lemma remove_header_forwards:
  assumes inv: "forwarder_inv f" and pf: "working_clock pf" "working_log pf"
    and m: "contents (f_gatewayNetworkReceiveBuffer f) = m # ms" and room: "\<not> isFull (f_clientNetworkSendBuffer f)"
  shows "\<exists>q l s w'. RemoveForwardingHeaderFromGatewayMessages pf f w
      = Inr (0, f\<lparr>f_gatewayNetworkReceiveBuffer := q, f_discovered_gw_list := l, f_clientNetworkSendBuffer := s\<rparr>, w')
    \<and> contents q = ms \<and> contents s = contents (f_clientNetworkSendBuffer f) @ incoming f m
    \<and> rb_maxlen s = rb_maxlen (f_clientNetworkSendBuffer f)"
proof -
  let ?r = "f_gatewayNetworkReceiveBuffer f" and ?s = "f_clientNetworkSendBuffer f"
  have r: "buffer_ok message_ok ?r" "ring_inv ?s" and mok: "message_ok m" and l: "lists_inv f"
    using inv m by (auto simp: forwarder_inv_def buffer_ok_def)
  have bc: "\<forall>a. cn_broadcast_address (f_clientNetwork f) = Some a \<longrightarrow> address_ok a"
    using inv by (simp add: forwarder_inv_def drivers_ok_def)
  obtain q where q: "pop ?r zero_message = Inr (0, q, m)" "contents q = ms"
    using ring.deq_some [of ?r zero_message] r(1) m by (auto simp: buffer_ok_def)
  have qok: "buffer_ok message_ok q"
    using ok_pop [OF r(1), of zero_message] q(1) by simp
  let ?f = "f\<lparr>f_gatewayNetworkReceiveBuffer := q\<rparr>"
  have inv': "forwarder_inv ?f" and l': "lists_inv ?f"
    using inv qok l by (simp_all add: forwarder_inv_defs)
  obtain gs uw where u: "MqttSnForwardingUpdateDiscoveredGw pf ?f m w = Inr (0, ?f\<lparr>f_discovered_gw_list := gs\<rparr>, uw)"
    using ok_update_discovered [OF inv' working_clock_contract [OF pf(1)] mok, of w] update_discovered_rc [OF pf(1)]
    by (fastforce simp: ok_def)
  obtain rrc c where a: "remove_mqtt_sn_forwarder_encapsulation_frame m zero_message
      (cn_broadcast_address (f_clientNetwork f)) = Inr (rrc, c)"
    using remove_frame_ok [OF mok bc] by (auto simp: ok_def)
  obtain lw where lg: "pf_log_gateway_message pf c uw = (0, lw)"
    using pf(2) by (metis prod.collapse working_log_def)
  obtain s where s: "put ?s c = Inr (0, s)" "contents s = contents ?s @ [c]" "rb_maxlen s = rb_maxlen ?s"
    using put_appends [OF r(2) room] by blast
  have same: "f\<lparr>f_gatewayNetworkReceiveBuffer := q, f_discovered_gw_list := f_discovered_gw_list f,
      f_clientNetworkSendBuffer := ?s\<rparr> = ?f"
    "f\<lparr>f_gatewayNetworkReceiveBuffer := q, f_discovered_gw_list := gs, f_clientNetworkSendBuffer := ?s\<rparr>
      = ?f\<lparr>f_discovered_gw_list := gs\<rparr>"
    by (cases f, simp)+
  define out where "out = (\<lambda>l s w'. RemoveForwardingHeaderFromGatewayMessages pf f w
      = Inr (0, f\<lparr>f_gatewayNetworkReceiveBuffer := q, f_discovered_gw_list := l, f_clientNetworkSendBuffer := s\<rparr>, w'))"
  note step = RemoveForwardingHeaderFromGatewayMessages_def q(1) Let_def gateway_addr_refused_eq [OF l'] u a lg s(1)
  have "out (f_discovered_gw_list f) ?s w \<and> incoming f m = []" if "gateway_refused f (md_from m)"
    using that room same by (auto simp: step out_def incoming_def gateway_refused_def)
  moreover have "out gs ?s uw \<and> incoming f m = []" if "\<not> gateway_refused f (md_from m)" "rrc \<noteq> 0"
    using that room same by (auto simp: step out_def incoming_def gateway_refused_def)
  moreover have "out gs s lw \<and> incoming f m = [c]" if "\<not> gateway_refused f (md_from m)" "rrc = 0"
    using that room same by (auto simp: step out_def incoming_def gateway_refused_def)
  ultimately have "\<exists>l s w'. out l s w' \<and> contents s = contents ?s @ incoming f m \<and> rb_maxlen s = rb_maxlen ?s"
    using s(2,3) by (metis append_Nil2)
  then show ?thesis
    unfolding out_def using q(2) by blast
qed

section \<open>Through the forwarder\<close>

text \<open>
  A message of a client that comes in while nothing else is on its way reaches the driver of the
  gateway network within the same pass, as its frame.
\<close>

lemma clients_to_gateway_delivers:
  assumes inv: "forwarder_inv f" and idle: "isEmpty (f_clientNetworkReceiveBuffer f)" "isEmpty (f_gatewayNetworkSendBuffer f)"
    and up: "client_can_receive (f_clientNetwork f)" "gateway_can_send (f_gatewayNetwork f)"
    and arrive: "client_arrival (f_clientNetwork f) (f_clientNetworkReceiveTimeout f) w = (r, rx, w1)" "0 < r" "r \<le> 1015"
    and clk: "get_timestamp_ms pf w1 = ((0, s, ms), w2)"
    and m: "m = received_message rx r s ms" "\<not> client_refused f (md_from m)"
    and frame: "g = gateway_frame (f_mqtt_sn_gateway_address f) (cn_broadcast_address (f_clientNetwork f)) m"
    and reply: "gateway_reply (f_gatewayNetwork f) g (f_gatewayNetworkSendTimeout f) w2 = (int (md_data_length g), w3)"
  shows "\<exists>f'. clients_to_gateway pf f w = Inr (f', w3) \<and> keeps f f' \<and> to_gateway f' = 0"
proof -
  let ?q = "f_clientNetworkReceiveBuffer f" and ?n = "f_clientNetwork f" and ?s = "f_gatewayNetworkSendBuffer f"
  have rings: "ring_inv ?q" "ring_inv ?s" "contents ?q = []" "contents ?s = []"
    using inv idle by (simp_all add: forwarder_inv_def buffer_ok_def isEmpty_contents)
  have room: "\<not> isFull ?q" "\<not> isFull ?s"
    using full_not_empty [of ?q] full_not_empty [of ?s] rings(1,2) idle by auto
  have len: "md_data_length m = nat r" "r mod 65536 \<noteq> 0"
    using arrive(2,3) by (simp_all add: m(1) received_message_def split: prod.split)
  obtain rc q' where c: "ClientNetworkReceive (get_timestamp_ms pf) ?n ?q (f_clientNetworkReceiveTimeout f) w
      = Inr (rc, ?n, q', w2)" "contents q' = [m]" "0 \<le> rc"
    using client_receive_step [where clk = "get_timestamp_ms pf", OF up(1) rings(1) room(1) arrive(1) clk] arrive(2) len(2) rings(3) m(1) by auto
  let ?f1 = "f\<lparr>f_clientNetworkReceiveBuffer := q'\<rparr>"
  have r1: "client_receive pf f w = Inr (?f1, w2)"
    using c by (cases f) (simp add: client_receive_def)
  have k1: "keeps f ?f1"
    using ok_client_receive [OF inv, of pf w] by (simp add: r1)
  have fits: "frame_fits m"
    using arrive(3) len(1) by (simp add: frame_fits_def MQTT_SN_MAXIMUM_MESSAGE_DATA_LENGTH_def)
  have out: "outgoing ?f1 m = [g]"
    using m(2) fits by (simp add: outgoing_def frame client_refused_def)
  obtain q2 s2 where a: "AddForwardingHeaderToClientMessages ?f1
      = Inr (0, f\<lparr>f_clientNetworkReceiveBuffer := q2, f_gatewayNetworkSendBuffer := s2\<rparr>)"
    "contents q2 = []" "contents s2 = [g]"
    "forwarder_inv (f\<lparr>f_clientNetworkReceiveBuffer := q2, f_gatewayNetworkSendBuffer := s2\<rparr>)"
    using add_header_forwards [OF keeps_inv [OF k1], of m "[]"] c(2) room(2) out rings(4) by auto
  let ?f2 = "f\<lparr>f_clientNetworkReceiveBuffer := q2, f_gatewayNetworkSendBuffer := s2\<rparr>"
  have k2: "keeps f ?f2"
    using keeps_trans [OF k1] ok_add_header [OF keeps_inv [OF k1]] by (simp add: a(1) added_def)
  have "ring_inv s2"
    using a(4) by (simp add: forwarder_inv_def buffer_ok_def)
  from gateway_send_step [OF up(2) this a(3) reply]
  obtain rc3 s3 where g: "GatewayNetworkSend (f_gatewayNetwork f) s2 (f_gatewayNetworkSendTimeout f) w2
      = Inr (rc3, f_gatewayNetwork f, s3, w3)" "contents s3 = []" "0 \<le> rc3"
    by auto
  let ?f3 = "f\<lparr>f_clientNetworkReceiveBuffer := q2, f_gatewayNetworkSendBuffer := s3\<rparr>"
  have r3: "gateway_send ?f2 w2 = Inr (?f3, w3)"
    using g by (cases f) (simp add: gateway_send_def send_to_gateway_def)
  have "keeps f ?f3"
    using keeps_trans [OF k2] ok_sends(1) [OF keeps_inv [OF k2], of w2] by (simp add: r3)
  then show ?thesis
    using r1 a(1) r3 a(2) g(2) by (simp add: clients_to_gateway_def add_headers_def to_gateway_def flip: length_contents)
qed

end
