(* ===== verification/Sample_Forwarder.thy ===== *)
theory Sample_Forwarder
  imports Forwarder_Behaviour
begin

text \<open>
  A concrete forwarder, on which the properties of the development are instantiated: its world holds
  the datagrams the clients have sent and those the gateway has been given, its clock stands at five
  seconds, and its drivers move datagrams between the two.
\<close>

type_synonym datagrams = "u8 list list \<times> u8 list list"

definition client_address :: "u8 list" where
  "client_address = [1, 2, 3, 4, 5, 6]"

definition gateway_address :: "u8 list" where
  "gateway_address = [9, 9, 9, 9, 9, 9]"

definition datagram_receive :: "datagrams net_receive" where
  "datagram_receive rx max_length timeout w =
     (case (rx, w) of ((from, to, data, signal), (inbox, outbox)) \<Rightarrow>
        (case inbox of
           [] \<Rightarrow> (0, rx, w)
         | d # inbox' \<Rightarrow>
             let d = take MQTT_SN_MAXIMUM_MESSAGE_DATA_LENGTH d
             in (int (length d), (client_address, gateway_address, patched data d, 0), inbox', outbox)))"

definition silent_receive :: "datagrams net_receive" where
  "silent_receive rx max_length timeout w = (0, rx, w)"

definition datagram_send :: "datagrams net_send" where
  "datagram_send from to data len signal timeout w =
     (case w of (inbox, outbox) \<Rightarrow> (int len, inbox, outbox @ [take len data]))"

text \<open>A driver whose socket takes nothing at the moment.\<close>

definition busy_send :: "datagrams net_send" where
  "busy_send from to data len signal timeout w = (0, w)"

definition sample_platform :: "datagrams platform" where
  "sample_platform =
     \<lparr>pf_clock_ms = (\<lambda>w. ((0, 5000), w)), pf_log_gateway_message = (\<lambda>m w. (0, w)),
      pf_log_status = (\<lambda>w. (0, w))\<rparr>"

definition sample_client_network :: "datagrams MqttSnClientNetworkInterface" where
  "sample_client_network =
     \<lparr>cn_status = MQTT_SN_CLIENT_NETWORK_INTERFACE_STATUS_CONNECTED,
      cn_max_data_length = MQTT_SN_MAXIMUM_MESSAGE_DATA_LENGTH, cn_network_address = None,
      cn_mqtt_sn_gateway_address = None, cn_broadcast_address = None, cn_initialize = True,
      cn_deinitialize = None, cn_connect = Some (\<lambda>w. (0, w)), cn_disconnect = Some (\<lambda>w. (0, w)),
      cn_send = Some datagram_send, cn_receive = Some datagram_receive\<rparr>"

definition sample_gateway_network :: "datagrams MqttSnGatewayNetworkInterface" where
  "sample_gateway_network =
     \<lparr>gn_status = MQTT_SN_GATEWAY_NETWORK_INTERFACE_STATUS_CONNECTED,
      gn_max_data_length = MQTT_SN_MAXIMUM_MESSAGE_DATA_LENGTH, gn_network_address = None,
      gn_broadcast_address = None, gn_initialize = True, gn_deinitialize = None,
      gn_connect = Some (\<lambda>w. (0, w)), gn_disconnect = Some (\<lambda>w. (0, w)),
      gn_send = Some datagram_send, gn_receive = Some silent_receive\<rparr>"

definition sample_forwarder :: "datagrams MqttSnForwarder" where
  "sample_forwarder =
     \<lparr>f_discovered_gw_list = MqttSnDiscoveredGatewayListInit, f_disconnected = True,
      f_mqtt_sn_gateway_address = gateway_address, f_pin_connection = False,
      f_clientNetwork = sample_client_network, f_gatewayNetwork = sample_gateway_network,
      f_clientNetworkReceiveBuffer = MqttSnFixedSizeRingBufferInit,
      f_clientNetworkSendBuffer = MqttSnFixedSizeRingBufferInit,
      f_gatewayNetworkReceiveBuffer = MqttSnFixedSizeRingBufferInit,
      f_gatewayNetworkSendBuffer = MqttSnFixedSizeRingBufferInit,
      f_clientNetworkSendTimeout = 0, f_clientNetworkReceiveTimeout = 0,
      f_gatewayNetworkSendTimeout = 0, f_gatewayNetworkReceiveTimeout = 0,
      f_gn_gw_id_whitelist = replicate 5 0, f_gn_gw_id_whitelist_len = 0,
      f_gn_addr_whitelist = replicate 5 zero_address, f_gn_addr_whitelist_len = 0,
      f_gn_gw_id_blacklist = replicate 5 0, f_gn_gw_id_blacklist_len = 0,
      f_gn_addr_blacklist = replicate 5 zero_address, f_gn_addr_blacklist_len = 0,
      f_cn_addr_whitelist = replicate 5 zero_address, f_cn_addr_whitelist_len = 0,
      f_cn_addr_blacklist = replicate 5 zero_address, f_cn_addr_blacklist_len = 0\<rparr>"

lemma receive_contracts: "receive_contract datagram_receive k" "receive_contract silent_receive k"
proof -
  have z: "length (md_data zero_message) = MQTT_SN_MAXIMUM_MESSAGE_DATA_LENGTH" "md_data zero_message = message_buffer"
    "address_ok (md_from zero_message)" "address_ok (md_to zero_message)"
    by (simp_all add: zero_message_def length_message_buffer address_ok_def)
  have buf: "zero_from n (md_data zero_message)" for n
    by (simp add: zero_from_def z(2) message_buffer_def)
  have p: "length (patched (md_data zero_message) (take MQTT_SN_MAXIMUM_MESSAGE_DATA_LENGTH d)) = MQTT_SN_MAXIMUM_MESSAGE_DATA_LENGTH"
    "zero_from (length (take MQTT_SN_MAXIMUM_MESSAGE_DATA_LENGTH d))
       (patched (md_data zero_message) (take MQTT_SN_MAXIMUM_MESSAGE_DATA_LENGTH d))" for d
    using z(1) buf [of 0] by (auto simp: patched_def zero_from_def nth_append)
  have le: "length (take MQTT_SN_MAXIMUM_MESSAGE_DATA_LENGTH d) \<le> MQTT_SN_MAXIMUM_MESSAGE_DATA_LENGTH" for d :: "u8 list"
    by simp
  show "receive_contract silent_receive k"
    using z buf by (simp add: receive_contract_def silent_receive_def empty_rx_def)
  show "receive_contract datagram_receive k"
    using z buf p le by (auto simp: receive_contract_def datagram_receive_def empty_rx_def address_ok_def
        client_address_def gateway_address_def device_address_size_def Let_def simp del: length_take
        split: list.split)
qed

lemma sample_platform_works: "working_clock sample_platform" "working_log sample_platform"
  by (simp_all add: working_clock_def working_log_def sample_platform_def)

lemma sample_drivers:
  "all_or_nothing (client_reply sample_client_network)" "all_or_nothing (gateway_reply sample_gateway_network)"
  "client_can_receive sample_client_network" "gateway_can_send sample_gateway_network" "client_can_send sample_client_network"
  "gateway_net.accepts_all sample_gateway_network"
  by (auto simp: all_or_nothing_def client_reply_def gateway_reply_def sample_client_network_def
      sample_gateway_network_def datagram_send_def client_can_receive_def gateway_can_send_def client_can_send_def
      gateway_net.accepts_all_def)

lemma sample_inv: "forwarder_inv sample_forwarder"
  by (simp add: forwarder_inv_defs sample_forwarder_def buffer_ok_init gateways_inv_init sample_client_network_def
      sample_gateway_network_def receive_contracts address_ok_def gateway_address_def device_address_size_def
      list_inv_def ACCESS_LIST_LENGTH_def)

lemma sample_initialised: "initialised sample_forwarder"
  by (simp add: initialised_def sample_forwarder_def sample_client_network_def sample_gateway_network_def)


lemma busy_accepts_nothing:
  "accepts_nothing (client_reply (sample_client_network\<lparr>cn_send := Some busy_send\<rparr>))"
  "accepts_nothing (gateway_reply (sample_gateway_network\<lparr>gn_send := Some busy_send\<rparr>))"
  by (auto simp: accepts_nothing_def client_reply_def gateway_reply_def busy_send_def)

text \<open>The same forwarder, pinned to its gateway; and after it has lost both networks.\<close>

definition connected_forwarder :: "datagrams MqttSnForwarder" where
  "connected_forwarder = sample_forwarder\<lparr>f_pin_connection := True\<rparr>"

lemma connected_inv: "forwarder_inv connected_forwarder"
  using sample_inv by (simp add: connected_forwarder_def forwarder_inv_defs)

lemma connected_initialised: "initialised connected_forwarder"
  using sample_initialised by (simp add: connected_forwarder_def initialised_def)

lemma connected_drivers:
  "all_or_nothing (client_reply (f_clientNetwork connected_forwarder))"
  "all_or_nothing (gateway_reply (f_gatewayNetwork connected_forwarder))"
  using sample_drivers by (simp_all add: connected_forwarder_def sample_forwarder_def)

definition lost_forwarder :: "datagrams MqttSnForwarder" where
  "lost_forwarder = connected_forwarder
     \<lparr>f_clientNetwork := sample_client_network\<lparr>cn_status := MQTT_SN_CLIENT_NETWORK_INTERFACE_STATUS_DISCONNECTED\<rparr>,
      f_gatewayNetwork := sample_gateway_network\<lparr>gn_status := MQTT_SN_GATEWAY_NETWORK_INTERFACE_STATUS_DISCONNECTED\<rparr>\<rparr>"

lemma lost_inv: "forwarder_inv lost_forwarder"
  using connected_inv
  by (simp add: lost_forwarder_def connected_forwarder_def sample_forwarder_def forwarder_inv_defs
      sample_client_network_def sample_gateway_network_def)

lemma lost_forwarder_facts:
  "cn_status (f_clientNetwork lost_forwarder) = MQTT_SN_CLIENT_NETWORK_INTERFACE_STATUS_DISCONNECTED"
  "gn_status (f_gatewayNetwork lost_forwarder) = MQTT_SN_GATEWAY_NETWORK_INTERFACE_STATUS_DISCONNECTED"
  "all_or_nothing (client_reply (f_clientNetwork lost_forwarder))"
  using sample_drivers(1) by (simp_all add: lost_forwarder_def all_or_nothing_def client_reply_def)


lemma message_ok_zero: "message_ok zero_message"
proof -
  have "zero_from 0 (md_data zero_message)"
    by (simp add: zero_from_def zero_message_def message_buffer_def)
  then show ?thesis
    by (simp add: message_ok_def)
qed

lemma sample_queue: "P m \<Longrightarrow> \<exists>q. buffer_ok P q \<and> contents q = [m]"
  using put_first [of m] by (auto simp: buffer_ok_def)

lemma init_room: "0 < rb_maxlen MqttSnFixedSizeRingBufferInit"
  by (simp add: MqttSnFixedSizeRingBufferInit_def CMQTTSNFORWARDER_MQTTSNFIXEDSIZERINGBUFFER_MAXLEN_def)

end
