(* ===== verification/Sample_Client.thy ===== *)
theory Sample_Client
  imports Client_Registrations Sample_Forwarder
begin

text \<open>
  A concrete client, on which the properties of the client are instantiated: its world is a clock that
  counts the receives, and the gateway answers each of them with the same bytes, or, when there are none,
  not at all.
\<close>

definition counting_env :: "nat client_env" where
  "counting_env =
     \<lparr>ce_platform = \<lparr>pf_clock_ms = (\<lambda>w. ((if w < 1000000 then 0 else -1, of_nat (1000 * Suc w)), w)),
        pf_log_gateway_message = (\<lambda>m w. (0, w)), pf_log_status = (\<lambda>w. (0, w))\<rparr>,
      ce_publish_cb = (\<lambda>cb c m w. (0, w)), ce_adv_cb = (\<lambda>cb a ctx w. (0, w)),
      ce_gwinfo_cb = (\<lambda>cb a ctx w. (0, w)), ce_garbage = (\<lambda>i. 0xA5)\<rparr>"

definition replying_receive :: "u8 list \<Rightarrow> nat net_receive" where
  "replying_receive bytes rx max_length timeout w =
     (int (length bytes), (gateway_address, zero_address, patched (md_data zero_message) bytes, 0), Suc w)"

definition replying_network :: "u8 list \<Rightarrow> nat MqttSnGatewayNetworkInterface" where
  "replying_network bytes =
     \<lparr>gn_status = MQTT_SN_GATEWAY_NETWORK_INTERFACE_STATUS_CONNECTED,
      gn_max_data_length = MQTT_SN_MAXIMUM_MESSAGE_DATA_LENGTH, gn_network_address = None,
      gn_broadcast_address = None, gn_initialize = True, gn_deinitialize = None,
      gn_connect = Some (\<lambda>w. (0, w)), gn_disconnect = Some (\<lambda>w. (0, w)),
      gn_send = Some (\<lambda>sender to data len signal timeout w. (int len, w)),
      gn_receive = Some (replying_receive bytes)\<rparr>"

definition sample_list :: "'a \<Rightarrow> 'a access_list" where
  "sample_list z = \<lparr>al_max_len = ACCESS_LIST_LENGTH, al_items = replicate ACCESS_LIST_LENGTH z, al_len = 0\<rparr>"

definition sample_client ::
  "u8 list \<Rightarrow> MQTT_SN_CLIENT_STATUS \<Rightarrow> nat \<Rightarrow> nat MqttSnClient" where
  "sample_client bytes status registered =
     \<lparr>c_retry_timeout_ms = MQTT_SN_CLIENT_DEFAULT_RETRY_TIMEOUT_MS, c_retry_count = 3, c_congestion_delay_s = 0,
      c_default_signal_strength = 1, c_low_timeout_threshold_s = 60, c_low_threshold_tolerance_percentage = 50,
      c_high_threshold_tolerance_percentage = 10, c_status = status, c_msg_counter = 7, c_clean_session = 1,
      c_connect_duration = 600, c_sleep_duration = 0, c_mqtt_sn_gateway_address = gateway_address,
      c_mqtt_sn_broadcast_address = zero_address, c_client_id = True, c_will_topic = False, c_will_topic_length = 0,
      c_will_msg = False, c_will_msg_len = 0, c_will_qos = 0, c_will_retain = 0,
      c_registrations = replicate MQTT_SN_CLIENT_MAX_REGISTRATIONS
        \<lparr>cr_topic_name = replicate MQTT_SN_CLIENT_MAX_REGISTRATION_TOPIC_NAME_LENGTH 0, cr_topic_id = 0\<rparr>,
      c_registrations_len = registered, c_gatewayNetwork = replying_network bytes,
      c_gatewayNetworkSendTimeout = 0, c_gatewayNetworkReceiveTimeout = 1000,
      c_await_msg = replicate MQTT_SN_CLIENT_MAX_MESSAGES_IN_FLIGHT freed_await_msg,
      c_last_ping_req_received = 0, c_last_ping_resp_received_s = 0, c_ping_req_await_msg = freed_await_msg,
      c_connect_timeout_offset = 0, c_ping_req_send_time_s = 0, c_awake_any_msg_received = False,
      c_awake_ping_request_send_time_s = 0, c_publish_cb = None, c_searchgw_reply = 1,
      c_searchgw_reply_await_msg = freed_await_msg, c_searchgw_reply_await_last_s = 0, c_gwinfo_delay_ms = 5000,
      c_discovered_gw_list = MqttSnDiscoveredGatewayListInit,
      c_client_buffer = \<lparr>cb_client_id = [65, 66, 67] @ replicate 21 0, cb_client_id_length = 3,
        cb_will_topic = replicate MQTT_SN_CLIENT_MAX_WILL_TOPIC_LENGTH 0, cb_will_topic_length = 0,
        cb_will_msg = None, cb_will_msg_len = 0\<rparr>,
      c_find_gw_pattern = MQTT_SN_CLIENT_FIND_GW_PATTERN_SEARCHGW, c_find_gateway_wait_timeout_ms = 0,
      c_auto_reconnect_enabled = 1, c_auto_reconnect_tried = 0, c_auto_reconnect_congestion = 0,
      c_auto_reconnect_congestion_wait_s = 0, c_gw_id_whitelist = sample_list 0,
      c_gw_addr_whitelist = sample_list zero_address, c_gw_id_blacklist = sample_list 0,
      c_gw_addr_blacklist = sample_list zero_address\<rparr>"

lemma counting_clock: "clock_contract (ce_platform counting_env)"
proof -
  have big: "(1000 :: u64) \<le> of_nat n" if "1000 \<le> n" "n < 2 ^ 64" for n
    using that by (simp add: word_le_nat_alt unat_of_nat take_bit_nat_eq_self)
  have "(1000 :: u64) \<le> of_nat (1000 * Suc w)" if "w < 1000000" for w
    by (rule big) (use that in auto)
  then show ?thesis
    unfolding clock_contract_def counting_env_def by (auto simp del: of_nat_Suc of_nat_mult mult_Suc_right)
qed

lemma replying_gateway:
  "message_gateway gateway_address bytes counting_env (c_gatewayNetwork (sample_client bytes st k)) Suc 1000000"
  "silent_gateway counting_env (c_gatewayNetwork (sample_client [] st k)) Suc 1000000"
  by (auto simp: gateway_answers_def sample_client_def replying_network_def replying_receive_def counting_env_def
      patched_def simp del: of_nat_Suc of_nat_mult mult_Suc_right)

lemma replying_driver:
  assumes "length bytes \<le> n" "n \<le> MQTT_SN_MAXIMUM_MESSAGE_DATA_LENGTH"
  shows "client_receive_contract (replying_receive bytes)" "\<not> delivers_register n (replying_receive bytes)"
  using assms
  by (simp_all add: client_receive_contract_def delivers_register_def replying_receive_def received_ok_def address_ok_def
      gateway_address_def device_address_size_def zero_message_def length_message_buffer length_patched)

lemma sample_client_inv:
  assumes "length bytes \<le> 262" "k \<le> MQTT_SN_CLIENT_MAX_REGISTRATIONS"
  shows "client_inv True MQTT_SN_CLIENT_MAX_REGISTRATIONS True (sample_client bytes st k)"
proof -
  have "client_network_ok True (replying_network bytes)"
    using replying_driver [of bytes REGISTER_LIMIT] assms(1)
    by (simp add: client_network_ok_def replying_network_def REGISTER_LIMIT_def MQTT_SN_MAXIMUM_MESSAGE_DATA_LENGTH_def)
  then show ?thesis
    using assms(2) gateways_inv_init
    by (simp add: client_inv_def sample_client_def await_table_inv_def await_ok_def freed_await_msg_def
        zero_await_context_def access_lists_inv_def access_inv_def sample_list_def registrations_inv_def
        client_buffer_inv_def client_id_ok_def MQTT_SN_MAX_CLIENT_ID_LENGTH_def nth_append)
qed

text \<open>What the properties ask of its fields.\<close>

lemma sample_client_table:
  "c_await_msg (sample_client bytes st k) = replicate MQTT_SN_CLIENT_MAX_MESSAGES_IN_FLIGHT freed_await_msg"
  "free_slot (replicate MQTT_SN_CLIENT_MAX_MESSAGES_IN_FLIGHT freed_await_msg) = Some 0"
  "awaiting (replicate MQTT_SN_CLIENT_MAX_MESSAGES_IN_FLIGHT freed_await_msg) t i = None"
  by (simp_all add: sample_client_def free_slot_def awaiting_None awaits_def freed_await_msg_def upt_conv_Cons
      MQTT_SN_CLIENT_MAX_MESSAGES_IN_FLIGHT_def)

lemma sample_client_fields [simp]:
  "c_status (sample_client bytes st k) = st" "c_registrations_len (sample_client bytes st k) = k"
  "c_msg_counter (sample_client bytes st k) = 7" "c_retry_count (sample_client bytes st k) = 3"
  "c_retry_timeout_ms (sample_client bytes st k) = 5000" "accepts_senders (sample_client bytes st k)"
  "c_mqtt_sn_gateway_address (sample_client bytes st k) = gateway_address"
  "am_msg_type (c_searchgw_reply_await_msg (sample_client bytes st k)) = ANY_MESSAGE_TYPE"
  by (simp_all add: sample_client_def accepts_senders_def sample_list_def freed_await_msg_def
      MQTT_SN_CLIENT_DEFAULT_RETRY_TIMEOUT_MS_def)

lemma sample_ping_not_due: "ping_not_due 1 (sample_client bytes st k)"
  by (simp add: ping_not_due_def sample_client_def freed_await_msg_def too_early_def get_last_timeout_reset_def
      MQTT_SN_CLIENT_PING_REQ_ADVANCE_TIME_S_def)

definition sample_id :: "u8 list" where
  "sample_id = [65, 66, 67, 0]"

lemma sample_id_fits: "fit_client_id sample_id"
  by (simp add: fit_client_id_def sample_id_def c_string_def MQTT_SN_MAX_CLIENT_ID_LENGTH_def)

text \<open>Its initialisation.\<close>

lemma sample_client_cleared: "cleared_client (replying_receive []) (sample_client [] st 0, w)"
  using sample_client_inv [of "[]" 0 st] replying_driver(1) [of "[]" 0]
  by (simp add: cleared_client_def client_inv_def access_lists_inv_def access_inv_def registrations_inv_def)
    (simp add: sample_client_def replying_network_def)

lemma sample_client_initialised:
  "\<exists>s'. MqttSnClientInit (sample_client [] st 0, w) = Inr (MQTT_SN_CLIENT_CONNECTION_STATUS_INITALIZED, s')"
proof -
  have "await_table_inv (c_await_msg (sample_client [] st 0))"
    using sample_client_inv [of "[]" 0 st] by (simp add: client_inv_def)
  then obtain msgs where msgs: "init_await_loop 0 (c_await_msg (sample_client [] st 0)) = Inr msgs"
    using ok_init_await_loop [of _ 0] by (auto simp: ok_def)
  obtain ids addresses where l: "al_clear 0 (sample_list (0 :: u8)) = Inr ids"
    "al_clear zero_address (sample_list zero_address) = Inr addresses"
    using ok_al_clear [of "sample_list (0 :: u8)" 0] ok_al_clear [of "sample_list zero_address" zero_address]
    by (auto simp: ok_def sample_list_def)
  show ?thesis
    using msgs
    by (simp add: MqttSnClientInit_def client_defaults_def GatewayNetworkConnect_call_def GatewayNetworkConnect_def
        cl_bind_def cl_put_def cl_get_def cl_mem_def cl_return_def sample_client_def replying_network_def
        MqttSnClientClearWhitelistGwId_def MqttSnClientClearWhitelistNetworkAddress_def
        MqttSnClientClearBlacklistGwId_def MqttSnClientClearBlacklistNetworkAddress_def l)
qed

end
