(* ===== verification/Tcp_Framing.thy ===== *)
theory Tcp_Framing
  imports Wire_Format
begin

text \<open>
  The framing of messages on a TCP connection, \<open>MqttSnTcpNetworkMessageParser.c\<close> under
  \<open>src/network/linux/shared/ip/tcphelper/\<close>: a buffer collects the bytes of the stream, and messages are
  cut off its front by the length field of their header. The socket is a parameter: \<open>read\<close> takes the
  number of bytes asked for and returns its result and the bytes it has stored.
\<close>

section \<open>The stream\<close>

text \<open>What the callers keep between two receives, with the array a message is handed out in.\<close>

record tcp_stream =
  ts_buffer :: "u8 list"
  ts_buffer_length :: nat
  ts_data :: "u8 list"
  ts_to_drop_bytes :: nat

type_synonym 'w tcp_read = "nat \<Rightarrow> 'w \<Rightarrow> int \<times> u8 list \<times> 'w"

definition get_tcp_message_length :: "u8 list \<Rightarrow> nat cres" where
  "get_tcp_message_length data = get_message_length data"

definition isCompleteThreeBytesTcpHeader :: "u8 list \<Rightarrow> nat \<Rightarrow> bool cres" where
  "isCompleteThreeBytesTcpHeader data data_length =
     cbind (rd data 0) (\<lambda>indicator. Inr (indicator = 1 \<and> data_length > 2))"

definition isCompleteTwoBytesTcpHeader :: "nat \<Rightarrow> bool" where
  "isCompleteTwoBytesTcpHeader data_length = (data_length > 1)"

definition isThreeBytesTcpHeader :: "u8 list \<Rightarrow> bool cres" where
  "isThreeBytesTcpHeader data = cbind (rd data 0) (\<lambda>indicator. Inr (indicator = 1))"

text \<open>A \<open>memmove\<close> of the bytes behind the message to the start of the buffer.\<close>

definition remove_front :: "nat \<Rightarrow> tcp_stream \<Rightarrow> tcp_stream cres" where
  "remove_front msg_length s =
     (let new_buffer_length = ts_buffer_length s - msg_length in
      cbind (rds (drop msg_length (ts_buffer s)) new_buffer_length) (\<lambda>rest.
      cbind (wr_bytes (ts_buffer s) 0 rest) (\<lambda>buffer.
      Inr (s\<lparr>ts_buffer := buffer, ts_buffer_length := new_buffer_length\<rparr>))))"

text \<open>
  The loop of the source returns in its first round. The result comes with the value of \<open>data_length\<close>,
  which every caller starts at 0.
\<close>

definition get_next_message_from_buffer ::
  "tcp_stream \<Rightarrow> nat \<Rightarrow> nat \<Rightarrow> nat \<Rightarrow> (int \<times> nat \<times> tcp_stream) cres" where
  "get_next_message_from_buffer s max_buffer_length data_length max_data_length =
     (if ts_buffer_length s = 0 then Inr (0, data_length, s)
      else
        cbind (isThreeBytesTcpHeader (ts_buffer s)) (\<lambda>three.
        cbind (if three then isCompleteThreeBytesTcpHeader (ts_buffer s) (ts_buffer_length s)
               else Inr (isCompleteTwoBytesTcpHeader (ts_buffer_length s))) (\<lambda>complete.
        if \<not> complete then Inr (0, data_length, s)
        else
          cbind (get_tcp_message_length (ts_buffer s)) (\<lambda>msg_length.
          if msg_length > max_buffer_length
          then
            cbind (wr_bytes (ts_buffer s) 0 (replicate data_length 0)) (\<lambda>buffer.
            Inr (0, data_length, s\<lparr>ts_buffer := buffer, ts_buffer_length := 0,
              ts_to_drop_bytes := nat ((int msg_length - int data_length) mod 2 ^ 32)\<rparr>))
          else if ts_buffer_length s < msg_length then Inr (0, data_length, s)
          else if max_data_length < msg_length
          then cbind (remove_front msg_length s) (\<lambda>s. Inr (0, data_length, s))
          else
            cbind (rds (ts_buffer s) msg_length) (\<lambda>msg.
            cbind (wr_bytes (ts_data s) 0 msg) (\<lambda>data.
            cbind (remove_front msg_length s) (\<lambda>s.
            Inr (int msg_length, msg_length, s\<lparr>ts_data := data\<rparr>))))))))"

text \<open>Bytes of a message that does not fit are read and thrown away; \<open>Some rc\<close> ends the receive.\<close>

definition drop_from_socket :: "'w tcp_read \<Rightarrow> tcp_stream \<Rightarrow> 'w \<Rightarrow> int option \<times> tcp_stream \<times> 'w" where
  "drop_from_socket read s w =
     (if ts_to_drop_bytes s > 0
      then
        let (read_bytes, _, w) = read (ts_to_drop_bytes s) w in
        if read_bytes < 0 then (Some (-1), s, w)
        else
          let s = s\<lparr>ts_to_drop_bytes := nat ((int (ts_to_drop_bytes s) - read_bytes) mod 2 ^ 32)\<rparr> in
          (if ts_to_drop_bytes s > 0 then Some 0 else None, s, w)
      else (None, s, w))"

text \<open>
  The read behind the messages already there: it stores to the start of the buffer, also when the buffer
  is not empty. A message found before the read is in \<open>data\<close>, but the result is 0.
\<close>

definition read_segment ::
  "'w tcp_read \<Rightarrow> ('w \<Rightarrow> u8 list) \<Rightarrow> nat \<Rightarrow> nat \<Rightarrow> int \<Rightarrow> tcp_stream \<Rightarrow> 'w
   \<Rightarrow> (int \<times> u8 list option \<times> tcp_stream \<times> 'w) cres" where
  "read_segment read peer max_buffer_length max_data_length msg_rc s w =
     (let readable_bytes = nat ((int max_buffer_length - int (ts_buffer_length s)) mod 65536);
          (read_bytes, bytes, w) = read readable_bytes w in
      if read_bytes < 0 then Inr (-1, None, s, w)
      else if read_bytes = 0 then Inr (-2, None, s, w)
      else
        cbind (wr_bytes (ts_buffer s) 0 bytes) (\<lambda>buffer.
        let s = s\<lparr>ts_buffer := buffer, ts_buffer_length := nat read_bytes mod 65536\<rparr> in
        if msg_rc > 0 then Inr (0, Some (peer w), s, w)
        else if ts_buffer_length s > 0
        then cbind (get_next_message_from_buffer s max_buffer_length 0 max_data_length) (\<lambda>(msg_rc, _, s).
             Inr (msg_rc, Some (peer w), s, w))
        else Inr (msg_rc, Some (peer w), s, w)))"

definition save_received_tcp_packet_into_receive_buffer ::
  "'w tcp_read \<Rightarrow> ('w \<Rightarrow> u8 list) \<Rightarrow> nat \<Rightarrow> nat \<Rightarrow> tcp_stream \<Rightarrow> 'w
   \<Rightarrow> (int \<times> u8 list option \<times> tcp_stream \<times> 'w) cres" where
  "save_received_tcp_packet_into_receive_buffer read peer max_buffer_length max_data_length s w =
     (case drop_from_socket read s w of
        (Some rc, s, w) \<Rightarrow> Inr (rc, None, s, w)
      | (None, s, w) \<Rightarrow>
          cbind (if ts_buffer_length s > 0
                 then get_next_message_from_buffer s max_buffer_length 0 max_data_length
                 else Inr (0, 0, s)) (\<lambda>(msg_rc, _, s).
          if msg_rc < 0 then Inr (msg_rc, None, s, w)
          else
            case drop_from_socket read s w of
              (Some rc, s, w) \<Rightarrow> Inr (rc, None, s, w)
            | (None, s, w) \<Rightarrow> read_segment read peer max_buffer_length max_data_length msg_rc s w))"

section \<open>Bounds\<close>

definition stream_ok :: "nat \<Rightarrow> tcp_stream \<Rightarrow> bool" where
  "stream_ok room s \<longleftrightarrow> length (ts_buffer s) = room \<and> ts_buffer_length s \<le> room \<and> room < 65536"

text \<open>A read stores at most what it is asked for, and says how much.\<close>

definition read_contract :: "'w tcp_read \<Rightarrow> bool" where
  "read_contract read \<longleftrightarrow> (\<forall>n w rc bytes w'. read n w = (rc, bytes, w') \<longrightarrow> 0 \<le> rc \<longrightarrow> length bytes = nat rc \<and> nat rc \<le> n)"

definition buffered :: "tcp_stream \<Rightarrow> u8 list" where
  "buffered s = take (ts_buffer_length s) (ts_buffer s)"

lemma length_buffered: "stream_ok room s \<Longrightarrow> length (buffered s) = ts_buffer_length s"
  by (simp add: buffered_def stream_ok_def)

lemma remove_front_eq:
  assumes "stream_ok room s" "n \<le> ts_buffer_length s"
  shows "\<exists>s'. remove_front n s = Inr s' \<and> stream_ok room s' \<and> buffered s' = drop n (buffered s)
    \<and> ts_data s' = ts_data s \<and> ts_to_drop_bytes s' = ts_to_drop_bytes s"
  using assms
  by (auto simp: remove_front_def stream_ok_def buffered_def rds_def length_patched patched_def drop_take Let_def)

lemma get_next_message_ok:
  assumes "stream_ok room s" "max_data \<le> length (ts_data s)" "d \<le> room"
  shows "\<exists>rc n s'. get_next_message_from_buffer s room d max_data = Inr (rc, n, s') \<and> 0 \<le> rc \<and> stream_ok room s'
    \<and> length (ts_data s') = length (ts_data s)"
proof -
  have drop_msg: "\<exists>s'. remove_front n s = Inr s' \<and> stream_ok room s' \<and> ts_data s' = ts_data s"
    if "n \<le> ts_buffer_length s" for n
    using remove_front_eq [OF assms(1) that] by blast
  have bounds: "length (ts_buffer s) = room" "ts_buffer_length s \<le> room" "room < 65536"
    using assms(1) by (simp_all add: stream_ok_def)
  have rd: "rd (ts_buffer s) i = Inr (ts_buffer s ! i)" if "i < ts_buffer_length s" for i
    using that bounds by (simp add: rd_def)
  have len: "\<exists>n. get_message_length (ts_buffer s) = Inr n"
    if "0 < ts_buffer_length s" "ts_buffer s ! 0 = 1 \<longrightarrow> 2 < ts_buffer_length s"
    using that by (cases "ts_buffer s ! 0 = 1") (simp_all add: get_message_length_def rd)
  have wr: "wr_bytes (ts_buffer s) 0 (replicate d 0) = Inr (patched (ts_buffer s) (replicate d 0))"
    "length (patched (ts_buffer s) (replicate d 0)) = room"
    using bounds assms(3) by (simp_all add: length_patched)
  show ?thesis
  proof (cases "0 < ts_buffer_length s \<and> (if ts_buffer s ! 0 = 1 then 2 < ts_buffer_length s else 1 < ts_buffer_length s)")
    case False
    then show ?thesis
      using assms(1) by (cases "ts_buffer_length s = 0"; cases "ts_buffer s ! 0 = 1")
        (simp_all add: get_next_message_from_buffer_def isThreeBytesTcpHeader_def isCompleteThreeBytesTcpHeader_def
          isCompleteTwoBytesTcpHeader_def rd)
  next
    case True
    then obtain n where n: "get_message_length (ts_buffer s) = Inr n"
      using len by (auto split: if_splits)
    obtain s' where s': "n \<le> ts_buffer_length s \<Longrightarrow> remove_front n s = Inr s' \<and> stream_ok room s' \<and> ts_data s' = ts_data s"
      using drop_msg by blast
    show ?thesis
      using True n s' assms bounds wr
      by (auto simp: get_next_message_from_buffer_def isThreeBytesTcpHeader_def isCompleteThreeBytesTcpHeader_def
          isCompleteTwoBytesTcpHeader_def get_tcp_message_length_def rd rds_def stream_ok_def length_patched)
  qed
qed

lemma drop_from_socket_ok:
  assumes "drop_from_socket read s w = (r, s', w')" "stream_ok room s"
  shows "stream_ok room s'" "ts_data s' = ts_data s"
  using assms by (auto simp: drop_from_socket_def stream_ok_def Let_def split: if_splits prod.splits)

lemma read_segment_ok:
  assumes "stream_ok room s" "max_data \<le> length (ts_data s)" "read_contract read"
  shows "\<exists>rc from s' w'. read_segment read peer room max_data msg_rc s w = Inr (rc, from, s', w') \<and> stream_ok room s'
    \<and> length (ts_data s') = length (ts_data s)"
proof -
  let ?n = "nat ((int room - int (ts_buffer_length s)) mod 65536)"
  have space: "?n \<le> room" "length (ts_buffer s) = room" "room < 65536"
    using assms(1) by (simp_all add: stream_ok_def)
  obtain rc bytes w' where r: "read ?n w = (rc, bytes, w')"
    by (metis prod_cases3)
  then have b: "0 \<le> rc \<Longrightarrow> length bytes = nat rc \<and> nat rc \<le> room"
    using assms(3) space unfolding read_contract_def by (meson le_trans)
  let ?s = "s\<lparr>ts_buffer := patched (ts_buffer s) bytes, ts_buffer_length := nat rc mod 65536\<rparr>"
  have stored: "stream_ok room ?s" if "0 \<le> rc"
    using b [OF that] assms(1) by (auto simp: stream_ok_def length_patched)
  show ?thesis
  proof (cases "0 < rc")
    case True
    then obtain rc' n s' where nx: "get_next_message_from_buffer ?s room 0 max_data = Inr (rc', n, s')"
      "stream_ok room s'" "length (ts_data s') = length (ts_data s)"
      using get_next_message_ok [OF stored, of max_data 0] assms(2) by auto
    have "wr_bytes (ts_buffer s) 0 bytes = Inr (patched (ts_buffer s) bytes)" "nat rc mod 65536 > 0"
      using True b space by simp_all
    then show ?thesis
      using True nx stored by (cases "0 < msg_rc") (simp_all add: read_segment_def r Let_def)
  next
    case False
    then show ?thesis
      using assms(1) by (auto simp: read_segment_def r Let_def)
  qed
qed

lemma tcp_receive_ok:
  assumes "stream_ok room s" "max_data \<le> length (ts_data s)" "read_contract read"
  shows "\<exists>rc from s' w'. save_received_tcp_packet_into_receive_buffer read peer room max_data s w = Inr (rc, from, s', w')
    \<and> stream_ok room s' \<and> length (ts_data s') = length (ts_data s)"
proof -
  obtain r1 s1 w1 where d1: "drop_from_socket read s w = (r1, s1, w1)"
    by (metis prod_cases3)
  note s1 = drop_from_socket_ok [OF d1 assms(1)]
  obtain rc n s2 where m: "(if ts_buffer_length s1 > 0 then get_next_message_from_buffer s1 room 0 max_data
      else Inr (0, 0, s1)) = Inr (rc, n, s2)" "0 \<le> rc" "stream_ok room s2" "length (ts_data s2) = length (ts_data s)"
    using get_next_message_ok [OF s1(1), of max_data 0] s1 assms(2) by (cases "ts_buffer_length s1 > 0") auto
  obtain r2 s3 w2 where d2: "drop_from_socket read s2 w1 = (r2, s3, w2)"
    by (metis prod_cases3)
  note s3 = drop_from_socket_ok [OF d2 m(3)]
  obtain rc' sender s4 w4 where seg: "read_segment read peer room max_data rc s3 w2 = Inr (rc', sender, s4, w4)"
    "stream_ok room s4" "length (ts_data s4) = length (ts_data s)"
    using read_segment_ok [OF s3(1) _ assms(3), of max_data] assms(2) m(4) s3(2) by (metis order_trans order_refl)
  show ?thesis
    using s1 s3 m seg
    by (cases r1; cases r2) (auto simp: save_received_tcp_packet_into_receive_buffer_def d1 d2)
qed

section \<open>Messages of a segment\<close>

text \<open>A message as long as its header says.\<close>

definition framed :: "u8 list \<Rightarrow> bool" where
  "framed m \<longleftrightarrow> get_message_length m = Inr (length m) \<and> (if m ! 0 = 1 then 3 \<le> length m else 2 \<le> length m)"

lemma framed_not_empty: "framed m \<Longrightarrow> 2 \<le> length m"
  by (auto simp: framed_def split: if_splits)

lemma framed_front:
  assumes "framed m"
  shows "isThreeBytesTcpHeader (m @ bs) = Inr (m ! 0 = 1)" "get_message_length (m @ bs) = Inr (length m)"
    "isCompleteThreeBytesTcpHeader (m @ bs) n = Inr (m ! 0 = 1 \<and> 2 < n)"
proof -
  have rd: "rd (m @ bs) i = rd m i" if "i < length m" for i
    using that by (simp add: rd_def nth_append)
  have m: "2 \<le> length m" "m ! 0 = 1 \<Longrightarrow> 3 \<le> length m" "get_message_length m = Inr (length m)"
    using assms by (auto simp: framed_def split: if_splits)
  then have first: "rd m 0 = Inr (m ! 0)" "rd (m @ bs) 0 = Inr (m ! 0)"
    by (cases m; simp)+
  with m show "isThreeBytesTcpHeader (m @ bs) = Inr (m ! 0 = 1)"
    "isCompleteThreeBytesTcpHeader (m @ bs) n = Inr (m ! 0 = 1 \<and> 2 < n)"
    by (simp_all add: isThreeBytesTcpHeader_def isCompleteThreeBytesTcpHeader_def)
  show "get_message_length (m @ bs) = Inr (length m)"
    using m rd first by (cases "m ! 0 = 1") (simp_all add: get_message_length_def)
qed

lemma next_message:
  assumes "stream_ok room s" "framed m" "buffered s = m @ rest" "length m \<le> max_data" "max_data \<le> length (ts_data s)"
  shows "\<exists>s'. get_next_message_from_buffer s room 0 max_data = Inr (int (length m), length m, s') \<and> stream_ok room s'
    \<and> buffered s' = rest \<and> take (length m) (ts_data s') = m \<and> ts_to_drop_bytes s' = ts_to_drop_bytes s
    \<and> length (ts_data s') = length (ts_data s)"
proof -
  have n: "ts_buffer_length s = length m + length rest"
    using length_buffered [OF assms(1)] assms(3) by simp
  have b: "ts_buffer s = m @ rest @ drop (ts_buffer_length s) (ts_buffer s)"
    using assms(3) append_take_drop_id [of "ts_buffer_length s" "ts_buffer s"] by (simp add: buffered_def)
  note head = framed_front [OF assms(2), of "rest @ drop (ts_buffer_length s) (ts_buffer s)", folded b]
  have size: "2 \<le> length m" "length m \<le> room" "m ! 0 = 1 \<Longrightarrow> 2 < ts_buffer_length s"
    using assms(1,2) n by (auto simp: framed_def stream_ok_def split: if_splits)
  obtain s' where s': "remove_front (length m) s = Inr s'" "stream_ok room s'" "buffered s' = drop (length m) (buffered s)"
    "ts_to_drop_bytes s' = ts_to_drop_bytes s"
    using remove_front_eq [OF assms(1), of "length m"] n by auto
  have msg: "rds (ts_buffer s) (length m) = Inr m"
    using b rds_append by metis
  have "get_next_message_from_buffer s room 0 max_data =
      Inr (int (length m), length m, s'\<lparr>ts_data := patched (ts_data s) m\<rparr>)"
    using head size n assms(4,5) msg s'(1)
    by (auto simp: get_next_message_from_buffer_def isCompleteTwoBytesTcpHeader_def get_tcp_message_length_def)
  then show ?thesis
    using s' assms(3,4,5) by (auto simp: stream_ok_def buffered_def length_patched patched_def)
qed

lemma segment_received:
  assumes "stream_ok room s" "ts_to_drop_bytes s = 0" "ts_buffer_length s = 0" "max_data \<le> length (ts_data s)"
    and "framed m" "length m \<le> max_data" "length (m @ rest) \<le> room"
    and "read room w = (int (length (m @ rest)), m @ rest, w')"
  shows "\<exists>s'. save_received_tcp_packet_into_receive_buffer read peer room max_data s w
      = Inr (int (length m), Some (peer w'), s', w') \<and> stream_ok room s' \<and> buffered s' = rest
      \<and> take (length m) (ts_data s') = m \<and> ts_to_drop_bytes s' = 0 \<and> length (ts_data s') = length (ts_data s)"
proof -
  let ?s = "s\<lparr>ts_buffer := patched (ts_buffer s) (m @ rest), ts_buffer_length := length (m @ rest)\<rparr>"
  have room: "length (ts_buffer s) = room" "room < 65536" "2 \<le> length m"
    using assms(1) framed_not_empty [OF assms(5)] by (simp_all add: stream_ok_def)
  have ok: "stream_ok room ?s" "buffered ?s = m @ rest"
    using assms(7) room by (simp_all add: stream_ok_def buffered_def length_patched take_patched del: length_append)
  obtain s' where nx: "get_next_message_from_buffer ?s room 0 max_data = Inr (int (length m), length m, s')"
    "stream_ok room s'" "buffered s' = rest" "take (length m) (ts_data s') = m" "ts_to_drop_bytes s' = 0"
    "length (ts_data s') = length (ts_data s)"
    using next_message [OF ok(1) assms(5) ok(2) assms(6)] assms(2,4) by auto
  have size: "int (length (m @ rest)) > 0" "nat (int (length (m @ rest))) mod 65536 = length (m @ rest)"
    "wr_bytes (ts_buffer s) 0 (m @ rest) = Inr (patched (ts_buffer s) (m @ rest))"
    using room assms(7) by simp_all
  have all: "nat (int room mod 65536) = room"
    using room by simp
  show ?thesis
    using nx size room assms(2,3,8)
    by (simp add: save_received_tcp_packet_into_receive_buffer_def drop_from_socket_def read_segment_def all Let_def
        del: length_append)
qed

lemma segment_overwrites:
  assumes "stream_ok room s" "ts_to_drop_bytes s = 0" "max_data \<le> length (ts_data s)"
    and "framed m" "length m \<le> max_data" "buffered s = m @ rest"
    and "read (room - length rest) w = (int (length bs), bs, w')" "bs \<noteq> []" "length bs \<le> room - length rest"
  shows "\<exists>s'. save_received_tcp_packet_into_receive_buffer read peer room max_data s w = Inr (0, Some (peer w'), s', w')
      \<and> stream_ok room s' \<and> buffered s' = bs"
proof -
  obtain s1 where nx: "get_next_message_from_buffer s room 0 max_data = Inr (int (length m), length m, s1)"
    "stream_ok room s1" "buffered s1 = rest" "ts_to_drop_bytes s1 = 0"
    using next_message [OF assms(1,4,6,5,3)] assms(2) by auto
  have n: "ts_buffer_length s1 = length rest" "0 < ts_buffer_length s" "0 < int (length m)"
    using length_buffered [OF nx(2)] length_buffered [OF assms(1)] nx(3) assms(6) framed_not_empty [OF assms(4)] by auto
  have room: "length (ts_buffer s1) = room" "room < 65536" "length rest \<le> room"
    using nx(2) n(1) by (simp_all add: stream_ok_def)
  have all: "nat ((int room - int (length rest)) mod 65536) = room - length rest"
    using room by (simp add: nat_diff_distrib)
  have size: "\<not> int (length bs) < 0" "int (length bs) \<noteq> 0" "nat (int (length bs)) mod 65536 = length bs"
    "wr_bytes (ts_buffer s1) 0 bs = Inr (patched (ts_buffer s1) bs)"
    using room assms(8,9) by simp_all
  have "save_received_tcp_packet_into_receive_buffer read peer room max_data s w
      = Inr (0, Some (peer w'), s1\<lparr>ts_buffer := patched (ts_buffer s1) bs, ts_buffer_length := length bs\<rparr>, w')"
    using nx(1,4) n assms(2,7) size
    by (simp add: save_received_tcp_packet_into_receive_buffer_def drop_from_socket_def read_segment_def all Let_def)
  then show ?thesis
    using room assms(9) by (auto simp: stream_ok_def buffered_def length_patched take_patched)
qed

section \<open>A stream of segments\<close>

text \<open>Each read takes the segment that has come in next.\<close>

definition segment_read :: "u8 list list tcp_read" where
  "segment_read n w = (case w of [] \<Rightarrow> (0, [], []) | bs # w \<Rightarrow> (int (length (take n bs)), take n bs, w))"

definition empty_stream :: tcp_stream where
  "empty_stream = \<lparr>ts_buffer = replicate 8 0, ts_buffer_length = 0, ts_data = replicate 8 0, ts_to_drop_bytes = 0\<rparr>"

end
