(* ===== verification/Gateway_Store.thy ===== *)
theory Gateway_Store
  imports Call_Monad Msg_Connection Ring_Buffer
begin

text \<open>
  The files of the gateway's database: \<open>src/gateway/database/db_entry_mqtt_sn_client.h\<close> and \<open>.c\<close>,
  \<open>db_entry_mqtt_sn_gateway_discovered.h\<close>, the state of \<open>db_handler.h\<close>, and \<open>ftfs_db.c\<close>, which reads and
  writes entries. The database lies on FatFs, a library: its functions are a parameter, the record
  \<open>fatfs\<close>. The files hold entries of one type each, so a read or write of an entry hands over the entry
  instead of its bytes; \<open>fatfs_contract\<close> says what a working volume does.
\<close>

unbundle bit_operations_syntax

section \<open>Entries\<close>

datatype DB_ENTRY_MQTT_SN_CLIENT_RESULT =
    DB_ENTRY_MQTT_SN_CLIENT_RESULT_SUCCESS
  | DB_ENTRY_MQTT_SN_CLIENT_RESULT_CLIENT_ID_TOO_SHORT
  | DB_ENTRY_MQTT_SN_CLIENT_RESULT_CLIENT_ID_TOO_LONG
  | DB_ENTRY_MQTT_SN_CLIENT_RESULT_CLIENT_NOT_FOUND
  | DB_ENTRY_MQTT_SN_CLIENT_RESULT_ERROR

datatype DB_ENTRY_MQTT_SN_CLIENT_STATUS =
    DB_ENTRY_MQTT_SN_CLIENT_STATUS_EMPTY
  | DB_ENTRY_MQTT_SN_CLIENT_STATUS_ACTIVE
  | DB_ENTRY_MQTT_SN_CLIENT_STATUS_ASLEEP
  | DB_ENTRY_MQTT_SN_CLIENT_STATUS_AWAKE
  | DB_ENTRY_MQTT_SN_CLIENT_STATUS_DISCONNECTED
  | DB_ENTRY_MQTT_SN_CLIENT_STATUS_LOST

datatype DB_ENTRY_MQTT_SN_CLIENT_AWAIT_MESSAGE_STATUS =
    DB_ENTRY_MQTT_SN_CLIENT_AWAIT_MESSAGE_STATUS_SUCCESS
  | DB_ENTRY_MQTT_SN_CLIENT_AWAIT_MESSAGE_STATUS_AWAIT
  | DB_ENTRY_MQTT_SN_CLIENT_AWAIT_MESSAGE_STATUS_ERROR

record DB_ENTRY_MQTT_SN_CLIENT_AWAIT_MESSAGE =
  dm_type :: MQTT_SN_MESSAGE_TYPE
  dm_msg_id :: u16
  dm_status :: DB_ENTRY_MQTT_SN_CLIENT_AWAIT_MESSAGE_STATUS

record DB_ENTRY_MQTT_SN_CLIENT =
  dc_client_id :: "u8 list"
  dc_client_address :: "u8 list"
  dc_connect_duration :: u16
  dc_last_ping_req_received :: u64
  dc_last_ping_resp_received :: u64
  dc_file_number :: "u8 list"
  dc_position :: int
  dc_client_status :: DB_ENTRY_MQTT_SN_CLIENT_STATUS
  dc_ping_req_await_message_type :: MQTT_SN_MESSAGE_TYPE
  dc_await_messages :: "DB_ENTRY_MQTT_SN_CLIENT_AWAIT_MESSAGE list"
  dc_forwarder_addresses :: "u8 list list"
  dc_forwarder_address_len :: nat

definition DB_ENTRY_MQTT_SN_CLIENT_MAX_MESSAGES_IN_FLIGHT :: nat where
  "DB_ENTRY_MQTT_SN_CLIENT_MAX_MESSAGES_IN_FLIGHT = 5"

definition DB_ENTRY_MQTT_SN_CLIENT_MAX_FORWARDER_COUNT :: nat where
  "DB_ENTRY_MQTT_SN_CLIENT_MAX_FORWARDER_COUNT = 5"

definition MQTT_SN_CLIENTID_NULL_TERMINATOR :: nat where
  "MQTT_SN_CLIENTID_NULL_TERMINATOR = 1"

text \<open>What \<open>memset\<close> leaves: the message type with the code 0 is ADVERTISE.\<close>

definition empty_entry :: DB_ENTRY_MQTT_SN_CLIENT where
  "empty_entry =
     \<lparr>dc_client_id = replicate 24 0, dc_client_address = replicate device_address_size 0, dc_connect_duration = 0,
      dc_last_ping_req_received = 0, dc_last_ping_resp_received = 0, dc_file_number = replicate 9 0,
      dc_position = 0, dc_client_status = DB_ENTRY_MQTT_SN_CLIENT_STATUS_EMPTY,
      dc_ping_req_await_message_type = ADVERTISE,
      dc_await_messages = replicate DB_ENTRY_MQTT_SN_CLIENT_MAX_MESSAGES_IN_FLIGHT
        \<lparr>dm_type = ADVERTISE, dm_msg_id = 0, dm_status = DB_ENTRY_MQTT_SN_CLIENT_AWAIT_MESSAGE_STATUS_SUCCESS\<rparr>,
      dc_forwarder_addresses = replicate DB_ENTRY_MQTT_SN_CLIENT_MAX_FORWARDER_COUNT (replicate device_address_size 0),
      dc_forwarder_address_len = 0\<rparr>"

text \<open>\<open>sprintf\<close> with \<open>%08d\<close> of a number that is not negative.\<close>

function decimal :: "nat \<Rightarrow> u8 list" where
  "decimal n = (if n < 10 then [of_nat (48 + n)] else decimal (n div 10) @ [of_nat (48 + n mod 10)])"
  by pat_completeness auto
termination
  by (relation "measure id") auto

declare decimal.simps [simp del]

definition file_number_text :: "nat \<Rightarrow> u8 list" where
  "file_number_text n = (let ds = decimal n in replicate (8 - length ds) 48 @ ds @ [0])"

definition init_db_entry_mqtt_sn_client_await_message :: DB_ENTRY_MQTT_SN_CLIENT_AWAIT_MESSAGE where
  "init_db_entry_mqtt_sn_client_await_message =
     \<lparr>dm_type = ANY_MESSAGE_TYPE, dm_msg_id = 0, dm_status = DB_ENTRY_MQTT_SN_CLIENT_AWAIT_MESSAGE_STATUS_SUCCESS\<rparr>"

text \<open>Copying the entries \<open>i\<close> up to \<open>len\<close> of one array of addresses to another.\<close>

function copy_addresses :: "nat \<Rightarrow> nat \<Rightarrow> u8 list list \<Rightarrow> u8 list list \<Rightarrow> u8 list list cres" where
  "copy_addresses i len src dst =
     (if i < len
      then cbind (rd_arr src i) (\<lambda>a. cbind (wr_arr dst i a) (\<lambda>dst. copy_addresses (i + 1) len src dst))
      else Inr dst)"
  by pat_completeness auto
termination
  by (relation "measure (\<lambda>(i, len, _, _). len - i)") auto

declare copy_addresses.simps [simp del]

definition set_db_entry_mqtt_sn_client_forwarder_addresses ::
  "DB_ENTRY_MQTT_SN_CLIENT \<Rightarrow> u8 list list \<Rightarrow> nat \<Rightarrow> DB_ENTRY_MQTT_SN_CLIENT cres" where
  "set_db_entry_mqtt_sn_client_forwarder_addresses client forwarder_addresses forwarder_address_len =
     (if \<not> forwarder_address_len \<le> DB_ENTRY_MQTT_SN_CLIENT_MAX_FORWARDER_COUNT then Inl Abort
      else
        cbind (copy_addresses 0 forwarder_address_len forwarder_addresses (dc_forwarder_addresses client)) (\<lambda>as.
        Inr (client\<lparr>dc_forwarder_address_len := forwarder_address_len, dc_forwarder_addresses := as\<rparr>)))"

text \<open>
  The loop variable is initialised with itself, so the copying starts at what happens to be in it: the
  argument \<open>i\<close>.
\<close>

definition get_db_entry_mqtt_sn_client_forwarder_addresses ::
  "u16 \<Rightarrow> DB_ENTRY_MQTT_SN_CLIENT \<Rightarrow> u8 list list \<Rightarrow> nat \<Rightarrow> (u8 list list \<times> nat) cres" where
  "get_db_entry_mqtt_sn_client_forwarder_addresses i client forwarder_addresses forwarder_address_max_len =
     (if \<not> forwarder_address_max_len \<le> DB_ENTRY_MQTT_SN_CLIENT_MAX_FORWARDER_COUNT then Inl Abort
      else
        cbind (copy_addresses (unat i) (dc_forwarder_address_len client) (dc_forwarder_addresses client)
                 forwarder_addresses) (\<lambda>as.
        Inr (as, dc_forwarder_address_len client)))"

definition init_db_entry_mqtt_sn_client ::
  "u8 list \<Rightarrow> u8 list \<Rightarrow> u8 list list \<Rightarrow> nat \<Rightarrow> u16 \<Rightarrow> u64 \<Rightarrow> int \<Rightarrow> DB_ENTRY_MQTT_SN_CLIENT cres" where
  "init_db_entry_mqtt_sn_client client_id client_address forwarder_addresses forwarder_address_len connect_duration
       connect_time position =
     cbind (c_strlen client_id) (\<lambda>n.
     if \<not> n + MQTT_SN_CLIENTID_NULL_TERMINATOR \<ge> MQTT_SN_CLIENTID_MIN_LENGTH then Inl Abort
     else if \<not> n + MQTT_SN_CLIENTID_NULL_TERMINATOR \<le> MQTT_SN_CLIENTID_MAX_LENGTH then Inl Abort
     else if \<not> position \<ge> 0 then Inl Abort
     else
       cbind (wr_bytes (dc_client_id empty_entry) 0 (c_string client_id @ [0])) (\<lambda>id_bytes.
       cbind (wr_bytes (dc_file_number empty_entry) 0 (file_number_text (nat position))) (\<lambda>file_number.
       set_db_entry_mqtt_sn_client_forwarder_addresses
         (empty_entry\<lparr>dc_client_id := id_bytes, dc_client_address := client_address,
            dc_connect_duration := connect_duration, dc_last_ping_req_received := connect_time,
            dc_last_ping_resp_received := connect_time, dc_file_number := file_number, dc_position := position,
            dc_ping_req_await_message_type := ANY_MESSAGE_TYPE,
            dc_client_status := DB_ENTRY_MQTT_SN_CLIENT_STATUS_ACTIVE,
            dc_await_messages := replicate DB_ENTRY_MQTT_SN_CLIENT_MAX_MESSAGES_IN_FLIGHT
              init_db_entry_mqtt_sn_client_await_message\<rparr>)
         forwarder_addresses forwarder_address_len)))"

definition reset_db_entry_mqtt_sn_client ::
  "DB_ENTRY_MQTT_SN_CLIENT \<Rightarrow> u8 list \<Rightarrow> u8 list \<Rightarrow> u8 list list \<Rightarrow> nat \<Rightarrow> u16 \<Rightarrow> u64 \<Rightarrow> DB_ENTRY_MQTT_SN_CLIENT cres" where
  "reset_db_entry_mqtt_sn_client client client_id client_address forwarder_addresses forwarder_address_len
       connect_duration connect_time =
     cbind (c_strlen client_id) (\<lambda>n.
     if \<not> n + MQTT_SN_CLIENTID_NULL_TERMINATOR \<ge> MQTT_SN_CLIENTID_MIN_LENGTH then Inl Abort
     else if \<not> n + MQTT_SN_CLIENTID_NULL_TERMINATOR \<le> MQTT_SN_CLIENTID_MAX_LENGTH then Inl Abort
     else
       cbind (wr_bytes (dc_client_id client) 0 (c_string client_id @ [0])) (\<lambda>id_bytes.
       set_db_entry_mqtt_sn_client_forwarder_addresses
         (client\<lparr>dc_client_id := id_bytes, dc_client_address := client_address,
            dc_connect_duration := connect_duration, dc_last_ping_req_received := connect_time,
            dc_last_ping_resp_received := connect_time, dc_ping_req_await_message_type := ANY_MESSAGE_TYPE,
            dc_client_status := DB_ENTRY_MQTT_SN_CLIENT_STATUS_ACTIVE\<rparr>)
         forwarder_addresses forwarder_address_len))"

text \<open>Discovered gateways, \<open>db_entry_mqtt_sn_gateway_discovered.h\<close>.\<close>

datatype DB_ENTRY_MQTT_SN_GATEWAY_DISCOVERED_RESULT =
    DB_ENTRY_MQTT_SN_GATEWAY_DISCOVERED_RESULT_SUCCESS
  | DB_ENTRY_MQTT_SN_GATEWAY_DISCOVERED_RESULT_IN_PROGRESS
  | DB_ENTRY_MQTT_SN_GATEWAY_DISCOVERED_RESULT_ERROR

datatype DB_ENTRY_MQTT_SN_GATEWAY_DISCOVERED_STATUS =
    DB_ENTRY_MQTT_SN_GATEWAY_DISCOVERED_NEVER
  | DB_ENTRY_MQTT_SN_GATEWAY_DISCOVERED_INACTIVE
  | DB_ENTRY_MQTT_SN_GATEWAY_DISCOVERED_ACTIVE

record DB_ENTRY_MQTT_SN_GATEWAY_DISCOVERED_LIST_ENTRY =
  gl_gw_id :: u8
  gl_status :: DB_ENTRY_MQTT_SN_GATEWAY_DISCOVERED_STATUS

record DB_ENTRY_MQTT_SN_GATEWAY_DISCOVERED =
  gd_gw_id :: u8
  gd_duration :: u16
  gd_duration_timeout :: u16
  gd_last_message_time :: u64
  gd_signal_strength :: u8
  gd_network_address :: "u8 list"
  gd_status :: DB_ENTRY_MQTT_SN_GATEWAY_DISCOVERED_STATUS
  gd_forwarder_addresses :: "u8 list list"
  gd_forwarder_address_len :: nat

definition empty_gateway_entry :: DB_ENTRY_MQTT_SN_GATEWAY_DISCOVERED where
  "empty_gateway_entry =
     \<lparr>gd_gw_id = 0, gd_duration = 0, gd_duration_timeout = 0, gd_last_message_time = 0, gd_signal_strength = 0,
      gd_network_address = replicate device_address_size 0, gd_status = DB_ENTRY_MQTT_SN_GATEWAY_DISCOVERED_NEVER,
      gd_forwarder_addresses = replicate 5 (replicate device_address_size 0), gd_forwarder_address_len = 0\<rparr>"

section \<open>The state of the database\<close>

datatype DB_HANDLER_RESULT =
    DB_HANDLER_RESULT_SUCCESS
  | DB_HANDLER_RESULT_NO_TRANSACTION_STARTED
  | DB_HANDLER_RESULT_ERROR

text \<open>The file objects of the struct are in the world of the file system, where their addresses name them.\<close>

record db_handler =
  d_database_error :: bool
  d_transaction_result :: DB_HANDLER_RESULT
  d_client_transaction_started :: bool
  d_client_transaction_result :: DB_ENTRY_MQTT_SN_CLIENT_RESULT
  d_entry_client :: DB_ENTRY_MQTT_SN_CLIENT
  d_gateway_discovered_result :: DB_ENTRY_MQTT_SN_GATEWAY_DISCOVERED_RESULT
  d_gateway_discovered_transaction_result :: DB_HANDLER_RESULT
  d_client_count :: u64
  d_discovered_gw_list :: "DB_ENTRY_MQTT_SN_GATEWAY_DISCOVERED_LIST_ENTRY list"

definition empty_db_handler :: db_handler where
  "empty_db_handler =
     \<lparr>d_database_error = False, d_transaction_result = DB_HANDLER_RESULT_SUCCESS,
      d_client_transaction_started = False, d_client_transaction_result = DB_ENTRY_MQTT_SN_CLIENT_RESULT_SUCCESS,
      d_entry_client = empty_entry, d_gateway_discovered_result = DB_ENTRY_MQTT_SN_GATEWAY_DISCOVERED_RESULT_SUCCESS,
      d_gateway_discovered_transaction_result = DB_HANDLER_RESULT_SUCCESS, d_client_count = 0,
      d_discovered_gw_list =
        replicate 255 \<lparr>gl_gw_id = 0, gl_status = DB_ENTRY_MQTT_SN_GATEWAY_DISCOVERED_NEVER\<rparr>\<rparr>"

definition MQTT_SN_GATEWAY_DB_CLIENT_REGISTRY_FILE_NAME :: string where
  "MQTT_SN_GATEWAY_DB_CLIENT_REGISTRY_FILE_NAME = ''CLIENTS''"

definition MQTT_SN_GATEWAY_DB_DISCOVERED_GATEWAYS_FILE_NAME :: string where
  "MQTT_SN_GATEWAY_DB_DISCOVERED_GATEWAYS_FILE_NAME = ''DGW''"

definition MQTT_SN_GATEWAY_DB_MQTT_SUBSCRIPTION_FILE_NAME :: string where
  "MQTT_SN_GATEWAY_DB_MQTT_SUBSCRIPTION_FILE_NAME = ''MQTT.SUB''"

definition MQTT_SN_GATEWAY_DB_DEFAULT_PREDEFINED_TOPIC_FILE_NAME :: string where
  "MQTT_SN_GATEWAY_DB_DEFAULT_PREDEFINED_TOPIC_FILE_NAME = ''TOPICS.PRE''"

definition MQTT_SN_GATEWAY_DB_DEFAULT_MQTT_CONFIGURATION_FILE_NAME :: string where
  "MQTT_SN_GATEWAY_DB_DEFAULT_MQTT_CONFIGURATION_FILE_NAME = ''MQTT.CON''"

definition MQTT_SN_GATEWAY_DB_DEFAULT_MQTT_SN_CONFIGURATION_FILE_NAME :: string where
  "MQTT_SN_GATEWAY_DB_DEFAULT_MQTT_SN_CONFIGURATION_FILE_NAME = ''MQTTSN.CON''"

definition MQTT_SN_GATEWAY_DB_REGISTRATION_FILE_ENDING :: "u8 list" where
  "MQTT_SN_GATEWAY_DB_REGISTRATION_FILE_ENDING = [0x2E, 0x52, 0x45, 0x47]"

definition MQTT_SN_GATEWAY_DB_SUBSCRIBE_FILE_ENDING :: "u8 list" where
  "MQTT_SN_GATEWAY_DB_SUBSCRIBE_FILE_ENDING = [0x2E, 0x53, 0x55, 0x42]"

definition MQTT_SN_GATEWAY_DB_WILL_FILE_ENDING :: "u8 list" where
  "MQTT_SN_GATEWAY_DB_WILL_FILE_ENDING = [0x2E, 0x57, 0x49, 0x4C]"

definition MQTT_SN_GATEWAY_DB_PUBLISH_FILE_ENDING :: "u8 list" where
  "MQTT_SN_GATEWAY_DB_PUBLISH_FILE_ENDING = [0x2E, 0x50, 0x55, 0x42]"

section \<open>FatFs\<close>

text \<open>
  Results of FatFs are numbers of an enumeration without negative values, modes are bits. A file object is
  named by its place: the two in the struct and the local ones of the functions.
\<close>

type_synonym FRESULT = nat

definition FR_OK :: FRESULT where "FR_OK = 0"
definition FR_NO_FILE :: FRESULT where "FR_NO_FILE = 4"
definition FR_DENIED :: FRESULT where "FR_DENIED = 7"
definition FR_INVALID_OBJECT :: FRESULT where "FR_INVALID_OBJECT = 9"
definition FR_NO_FILESYSTEM :: FRESULT where "FR_NO_FILESYSTEM = 13"

definition FA_READ :: u8 where "FA_READ = 1"
definition FA_WRITE :: u8 where "FA_WRITE = 2"
definition FA_CREATE_ALWAYS :: u8 where "FA_CREATE_ALWAYS = 8"

datatype FIL = client_registry_file | gateway_registry_file | local_file

text \<open>
  Reads return the count of bytes and the buffer they were given, filled or not; writes return the count
  of bytes. The two sizes are \<open>sizeof\<close> of the entries. The host functions are those of the operating system,
  with which \<open>db_handler_initialize\<close> makes an image for the file system.
\<close>

record 'w fatfs =
  ff_sizeof_client :: nat
  ff_sizeof_gateway :: nat
  ff_open :: "FIL \<Rightarrow> string \<Rightarrow> u8 \<Rightarrow> 'w \<Rightarrow> FRESULT \<times> 'w"
  ff_close :: "FIL \<Rightarrow> 'w \<Rightarrow> FRESULT \<times> 'w"
  ff_lseek :: "FIL \<Rightarrow> nat \<Rightarrow> 'w \<Rightarrow> FRESULT \<times> 'w"
  ff_eof :: "FIL \<Rightarrow> 'w \<Rightarrow> bool \<times> 'w"
  ff_sync :: "FIL \<Rightarrow> 'w \<Rightarrow> FRESULT \<times> 'w"
  ff_read_client :: "FIL \<Rightarrow> DB_ENTRY_MQTT_SN_CLIENT \<Rightarrow> 'w \<Rightarrow> (FRESULT \<times> nat \<times> DB_ENTRY_MQTT_SN_CLIENT) \<times> 'w"
  ff_write_client :: "FIL \<Rightarrow> DB_ENTRY_MQTT_SN_CLIENT \<Rightarrow> 'w \<Rightarrow> (FRESULT \<times> nat) \<times> 'w"
  ff_read_gateway ::
    "FIL \<Rightarrow> DB_ENTRY_MQTT_SN_GATEWAY_DISCOVERED \<Rightarrow> 'w
     \<Rightarrow> (FRESULT \<times> nat \<times> DB_ENTRY_MQTT_SN_GATEWAY_DISCOVERED) \<times> 'w"
  ff_write_gateway :: "FIL \<Rightarrow> DB_ENTRY_MQTT_SN_GATEWAY_DISCOVERED \<Rightarrow> 'w \<Rightarrow> (FRESULT \<times> nat) \<times> 'w"
  ff_stat :: "string \<Rightarrow> 'w \<Rightarrow> FRESULT \<times> 'w"
  ff_unlink :: "string \<Rightarrow> 'w \<Rightarrow> FRESULT \<times> 'w"
  ff_mount :: "'w \<Rightarrow> FRESULT \<times> 'w"
  ff_unmount :: "'w \<Rightarrow> FRESULT \<times> 'w"
  ff_mkfs :: "'w \<Rightarrow> FRESULT \<times> 'w"
  host_open :: "'w \<Rightarrow> int \<times> 'w"
  host_write :: "int \<Rightarrow> nat \<Rightarrow> 'w \<Rightarrow> unit \<times> 'w"
  host_close :: "int \<Rightarrow> 'w \<Rightarrow> unit \<times> 'w"

section \<open>Reading and writing entries\<close>

text \<open>\<open>ftfs_db.c\<close>. Results of FatFs are not negative, so the test of \<open>f_open\<close> for a negative one always passes.\<close>

definition f_read_at ::
  "'w fatfs \<Rightarrow> string \<Rightarrow> nat \<Rightarrow> DB_ENTRY_MQTT_SN_GATEWAY_DISCOVERED \<Rightarrow> nat \<Rightarrow> 'c \<times> 'w
   \<Rightarrow> stopped + (int \<times> DB_ENTRY_MQTT_SN_GATEWAY_DISCOVERED) \<times> 'c \<times> 'w" where
  "f_read_at ff path pos buf btr =
     cl_bind (cl_world (ff_open ff local_file path FA_READ)) (\<lambda>rc.
     if int rc < 0 then cl_return (-1, buf)
     else
       cl_bind (cl_world (ff_lseek ff local_file (pos * btr mod 2 ^ 32))) (\<lambda>rc.
       if rc \<noteq> FR_OK then cl_return (-1, buf)
       else
         cl_bind (cl_world (ff_read_gateway ff local_file buf)) (\<lambda>(_, read_bytes, buf).
         if read_bytes \<noteq> btr then cl_return (-1, buf)
         else
           cl_bind (cl_world (ff_close ff local_file)) (\<lambda>rc.
           cl_return (if rc \<noteq> FR_OK then -1 else 0, buf)))))"

definition f_write_at ::
  "'w fatfs \<Rightarrow> string \<Rightarrow> nat \<Rightarrow> DB_ENTRY_MQTT_SN_GATEWAY_DISCOVERED \<Rightarrow> nat \<Rightarrow> 'c \<times> 'w
   \<Rightarrow> stopped + int \<times> 'c \<times> 'w" where
  "f_write_at ff path pos buf btr =
     cl_bind (cl_world (ff_open ff local_file path FA_READ)) (\<lambda>rc.
     if int rc < 0 then cl_return (-1)
     else
       cl_bind (cl_world (ff_lseek ff local_file (pos * btr mod 2 ^ 32))) (\<lambda>rc.
       if rc \<noteq> FR_OK then cl_return (-1)
       else
         cl_bind (cl_world (ff_write_gateway ff local_file buf)) (\<lambda>(_, written_bytes).
         if written_bytes \<noteq> btr then cl_return (-1)
         else
           cl_bind (cl_world (ff_close ff local_file)) (\<lambda>rc. cl_return (if rc \<noteq> FR_OK then -1 else 0)))))"

definition read_db_entry_client ::
  "'w fatfs \<Rightarrow> FIL \<Rightarrow> nat \<Rightarrow> DB_ENTRY_MQTT_SN_CLIENT \<Rightarrow> 'c \<times> 'w
   \<Rightarrow> stopped + (int \<times> DB_ENTRY_MQTT_SN_CLIENT) \<times> 'c \<times> 'w" where
  "read_db_entry_client ff f position client_entry =
     cl_bind (cl_world (ff_open ff f MQTT_SN_GATEWAY_DB_CLIENT_REGISTRY_FILE_NAME FA_READ)) (\<lambda>rc.
     if rc \<noteq> FR_OK then cl_return (-1, client_entry)
     else
       cl_bind (cl_world (ff_lseek ff f (position * ff_sizeof_client ff mod 2 ^ 32))) (\<lambda>rc.
       if rc \<noteq> FR_OK then cl_return (-1, client_entry)
       else
         cl_bind (cl_world (ff_read_client ff f client_entry)) (\<lambda>(rc, read_bytes, client_entry).
         cl_return (if rc \<noteq> FR_OK \<or> read_bytes \<noteq> ff_sizeof_client ff then -1 else 0, client_entry))))"

definition f_go_to_start :: "'w fatfs \<Rightarrow> FIL \<Rightarrow> string \<Rightarrow> u8 \<Rightarrow> 'c \<times> 'w \<Rightarrow> stopped + int \<times> 'c \<times> 'w" where
  "f_go_to_start ff f path mode =
     cl_bind (cl_world (ff_close ff f)) (\<lambda>rc.
     if rc \<noteq> FR_OK then cl_return (-1)
     else
       cl_bind (cl_world (ff_open ff f path mode)) (\<lambda>rc. cl_return (if rc \<noteq> FR_OK then -1 else 0)))"

definition write_db_entry_client ::
  "'w fatfs \<Rightarrow> FIL \<Rightarrow> DB_ENTRY_MQTT_SN_CLIENT \<Rightarrow> 'c \<times> 'w \<Rightarrow> stopped + int \<times> 'c \<times> 'w" where
  "write_db_entry_client ff f client_entry =
     (if \<not> dc_position client_entry \<ge> 0 then cl_stop Assertion
      else
        cl_bind (f_go_to_start ff f MQTT_SN_GATEWAY_DB_CLIENT_REGISTRY_FILE_NAME (FA_READ OR FA_WRITE)) (\<lambda>rc.
        if rc < 0 then cl_return (-1)
        else
          cl_bind (cl_world (ff_lseek ff f (nat (dc_position client_entry) * ff_sizeof_client ff mod 2 ^ 32))) (\<lambda>rc.
          if rc \<noteq> FR_OK then cl_return (-1)
          else
            cl_bind (cl_world (ff_write_client ff f client_entry)) (\<lambda>(rc, written_bytes).
            cl_return (if rc \<noteq> FR_OK \<or> written_bytes \<noteq> ff_sizeof_client ff then -1 else 0)))))"

text \<open>The entry is cleared first, so it is position 0 that is written.\<close>

definition delete_db_entry_client ::
  "'w fatfs \<Rightarrow> FIL \<Rightarrow> 'c \<times> 'w \<Rightarrow> stopped + (int \<times> DB_ENTRY_MQTT_SN_CLIENT) \<times> 'c \<times> 'w" where
  "delete_db_entry_client ff f =
     cl_bind (write_db_entry_client ff f empty_entry) (\<lambda>rc. cl_return (rc, empty_entry))"

definition f_delete :: "'w fatfs \<Rightarrow> u8 list \<Rightarrow> 'c \<times> 'w \<Rightarrow> stopped + int \<times> 'c \<times> 'w" where
  "f_delete ff path =
     cl_bind (cl_world (ff_unlink ff (map (\<lambda>b. char_of (unat b)) (c_string path)))) (\<lambda>rc.
     cl_return (if rc \<noteq> FR_OK then -1 else 0))"

text \<open>The search for a free place, with the number of entries it may look at.\<close>

fun empty_space_loop ::
  "nat \<Rightarrow> 'w fatfs \<Rightarrow> FIL \<Rightarrow> DB_ENTRY_MQTT_SN_CLIENT \<Rightarrow> int \<Rightarrow> 'c \<times> 'w
   \<Rightarrow> stopped + (int \<times> DB_ENTRY_MQTT_SN_CLIENT) \<times> 'c \<times> 'w" where
  "empty_space_loop 0 ff fil entry_client line_number = cl_stop Out_Of_Fuel"
| "empty_space_loop (Suc n) ff fil entry_client line_number =
     cl_bind (cl_world (ff_eof ff fil)) (\<lambda>at_end.
     if at_end then cl_return (line_number, entry_client)
     else
       cl_bind (cl_world (ff_read_client ff fil empty_entry)) (\<lambda>(rc, readChars, entry_client).
       if rc \<noteq> FR_OK \<or> readChars \<noteq> ff_sizeof_client ff then cl_return (-1, entry_client)
       else
         cl_bind (cl_mem (c_strlen (dc_client_id entry_client))) (\<lambda>len.
         if len = 0 then cl_return (line_number, entry_client)
         else if readChars > 0 then empty_space_loop n ff fil entry_client (line_number + 1)
         else cl_return (line_number + 1, entry_client))))"

definition find_empty_entry_space_in_registry ::
  "nat \<Rightarrow> 'w fatfs \<Rightarrow> DB_ENTRY_MQTT_SN_CLIENT \<Rightarrow> FIL \<Rightarrow> string \<Rightarrow> 'c \<times> 'w
   \<Rightarrow> stopped + (int \<times> DB_ENTRY_MQTT_SN_CLIENT) \<times> 'c \<times> 'w" where
  "find_empty_entry_space_in_registry fuel ff entry_client fil file_name =
     cl_bind (f_go_to_start ff fil file_name FA_READ) (\<lambda>rc.
     if rc < 0 then cl_return (-1, entry_client) else empty_space_loop fuel ff fil entry_client 0)"

text \<open>The name of a client's file; the assertion demands that it does not fit its buffer.\<close>

definition client_file_name :: "u8 list \<Rightarrow> u8 list \<Rightarrow> nat \<Rightarrow> u8 list cres" where
  "client_file_name ending file_number dst_len =
     cbind (c_strlen file_number) (\<lambda>n.
     if \<not> n + (length ending + 1) > dst_len then Inl Abort
     else
       cbind (wr_bytes (replicate dst_len 0) 0 (c_string file_number)) (\<lambda>dst. wr_bytes dst n ending))"

definition get_registration_file_name :: "u8 list \<Rightarrow> nat \<Rightarrow> u8 list cres" where
  "get_registration_file_name = client_file_name MQTT_SN_GATEWAY_DB_REGISTRATION_FILE_ENDING"

definition get_subscribe_file_name :: "u8 list \<Rightarrow> nat \<Rightarrow> u8 list cres" where
  "get_subscribe_file_name = client_file_name MQTT_SN_GATEWAY_DB_SUBSCRIBE_FILE_ENDING"

definition get_will_file_name :: "u8 list \<Rightarrow> nat \<Rightarrow> u8 list cres" where
  "get_will_file_name = client_file_name MQTT_SN_GATEWAY_DB_WILL_FILE_ENDING"

definition get_publish_file_name :: "u8 list \<Rightarrow> nat \<Rightarrow> u8 list cres" where
  "get_publish_file_name = client_file_name MQTT_SN_GATEWAY_DB_PUBLISH_FILE_ENDING"

end
