(* ===== verification/Gateway_Db.thy ===== *)
theory Gateway_Db
  imports Gateway_Store Forwarder_State
begin

text \<open>
  The database of the gateway: \<open>src/gateway/database/db_handler.c\<close>, \<open>db_handler_client.c\<close>, the transactions
  on the registry of clients, and \<open>db_handler_gateway_discovered.c\<close>. A transaction reads the entry of a
  client, lets the caller change it, and writes it back when it ends. The results are kept in the
  database and are not reset when a transaction starts by address.
\<close>

unbundle bit_operations_syntax

section \<open>Environment\<close>

text \<open>
  What the gateway takes from outside: the platform, the file system, and what is in two variables that
  are not initialised. The fuel bounds the entries a search of the registry looks at.
\<close>

record 'w gateway_env =
  ge_platform :: "'w platform"
  ge_fs :: "'w fatfs"
  ge_unset_index :: u16
  ge_unset_gateway :: DB_ENTRY_MQTT_SN_GATEWAY_DISCOVERED
  ge_fuel :: nat

type_synonym ('w, 'a) db_call = "db_handler \<times> 'w \<Rightarrow> stopped + 'a \<times> db_handler \<times> 'w"

definition db_assert :: "bool \<Rightarrow> 's \<Rightarrow> stopped + unit \<times> 's" where
  "db_assert b = (if b then cl_return () else cl_stop Assertion)"

definition db_fail :: "('w, DB_ENTRY_MQTT_SN_CLIENT_RESULT) db_call" where
  "db_fail =
     cl_bind (cl_put (\<lambda>h. h\<lparr>d_transaction_result := DB_HANDLER_RESULT_ERROR,
       d_client_transaction_result := DB_ENTRY_MQTT_SN_CLIENT_RESULT_ERROR\<rparr>)) (\<lambda>_.
     cl_get d_client_transaction_result)"

text \<open>The macro \<open>DB_HANDLER_SET_CLIENT_TRANSACTION_ERROR\<close>: the database is not used again.\<close>

definition DB_HANDLER_SET_CLIENT_TRANSACTION_ERROR :: "('w, DB_ENTRY_MQTT_SN_CLIENT_RESULT) db_call" where
  "DB_HANDLER_SET_CLIENT_TRANSACTION_ERROR =
     cl_bind (cl_put (\<lambda>h. h\<lparr>d_database_error := True\<rparr>)) (\<lambda>_. db_fail)"

definition db_set_result ::
  "DB_ENTRY_MQTT_SN_CLIENT_RESULT \<Rightarrow> ('w, DB_ENTRY_MQTT_SN_CLIENT_RESULT) db_call" where
  "db_set_result r = cl_bind (cl_put (\<lambda>h. h\<lparr>d_client_transaction_result := r\<rparr>)) (\<lambda>_. cl_return r)"

text \<open>The macro \<open>DB_HANDLER_CK__CLIENT_DB_ERROR\<close> with the assertion in front of it, as every operation starts.\<close>

definition db_checked ::
  "('w, DB_ENTRY_MQTT_SN_CLIENT_RESULT) db_call \<Rightarrow> ('w, DB_ENTRY_MQTT_SN_CLIENT_RESULT) db_call" where
  "db_checked m =
     cl_bind (cl_get d_client_transaction_started) (\<lambda>started.
     cl_bind (db_assert started) (\<lambda>_.
     cl_bind (cl_get d_database_error) (\<lambda>error. if error then db_fail else m)))"

section \<open>Transactions\<close>

definition db_is_client_transaction_started :: "('w, bool) db_call" where
  "db_is_client_transaction_started = cl_get d_client_transaction_started"

definition db_get_client_transaction_result :: "('w, DB_ENTRY_MQTT_SN_CLIENT_RESULT) db_call" where
  "db_get_client_transaction_result = cl_get d_client_transaction_result"

definition get_db_handler_result :: "('w, DB_HANDLER_RESULT) db_call" where
  "get_db_handler_result = cl_get d_transaction_result"

text \<open>Whether the entry read is the one looked for; the text comparison is made for whole entries only.\<close>

definition entry_matches ::
  "nat \<Rightarrow> nat \<Rightarrow> DB_ENTRY_MQTT_SN_CLIENT \<Rightarrow> u8 list option \<Rightarrow> u8 list option \<Rightarrow> bool cres" where
  "entry_matches readChars buffer_size e address client_id =
     (if readChars \<noteq> buffer_size then Inr False
      else
        cbind (c_strlen (dc_client_id e)) (\<lambda>n.
        if \<not> n < MQTT_SN_CLIENTID_MAX_LENGTH then Inr False
        else
          case address of
            Some a \<Rightarrow> Inr (dc_client_address e = a)
          | None \<Rightarrow> (case client_id of None \<Rightarrow> Inl Fault | Some c \<Rightarrow> c_streq (dc_client_id e) c)))"

fun find_client_loop ::
  "nat \<Rightarrow> 'w fatfs \<Rightarrow> u8 list option \<Rightarrow> u8 list option \<Rightarrow> ('w, DB_ENTRY_MQTT_SN_CLIENT_RESULT) db_call" where
  "find_client_loop 0 ff address client_id = cl_stop Out_Of_Fuel"
| "find_client_loop (Suc n) ff address client_id =
     cl_bind (cl_put (\<lambda>h. h\<lparr>d_entry_client := empty_entry\<rparr>)) (\<lambda>_.
     cl_bind (cl_world (ff_read_client ff client_registry_file empty_entry)) (\<lambda>(rc, readChars, e).
     cl_bind (cl_put (\<lambda>h. h\<lparr>d_entry_client := e\<rparr>)) (\<lambda>_.
     if rc \<noteq> FR_OK then db_fail
     else
       cl_bind (cl_mem (entry_matches readChars (ff_sizeof_client ff mod 65536) e address client_id)) (\<lambda>client_found.
       if client_found then cl_get d_client_transaction_result
       else if readChars > 0 then find_client_loop n ff address client_id
       else db_set_result DB_ENTRY_MQTT_SN_CLIENT_RESULT_CLIENT_NOT_FOUND))))"

definition db_start_client_transaction ::
  "'w gateway_env \<Rightarrow> u8 list option \<Rightarrow> u8 list option \<Rightarrow> ('w, DB_ENTRY_MQTT_SN_CLIENT_RESULT) db_call" where
  "db_start_client_transaction env address client_id =
     cl_bind (db_assert (address \<noteq> None \<or> client_id \<noteq> None)) (\<lambda>_.
     cl_bind (cl_get d_client_transaction_started) (\<lambda>started.
     cl_bind (db_assert (\<not> started)) (\<lambda>_.
     cl_bind (cl_put (\<lambda>h. h\<lparr>d_transaction_result := DB_HANDLER_RESULT_SUCCESS\<rparr>)) (\<lambda>_.
     cl_bind (cl_get d_database_error) (\<lambda>error.
     if error then db_fail
     else
       cl_bind (cl_put (\<lambda>h. h\<lparr>d_client_transaction_started := True\<rparr>)) (\<lambda>_.
       cl_bind (cl_world (ff_open (ge_fs env) client_registry_file MQTT_SN_GATEWAY_DB_CLIENT_REGISTRY_FILE_NAME FA_READ))
         (\<lambda>rc.
       if rc \<noteq> FR_OK then db_fail
       else find_client_loop (ge_fuel env) (ge_fs env) address client_id)))))))"

definition db_end_client_transaction :: "'w gateway_env \<Rightarrow> ('w, DB_ENTRY_MQTT_SN_CLIENT_RESULT) db_call" where
  "db_end_client_transaction env =
     cl_bind (cl_get d_client_transaction_started) (\<lambda>started.
     cl_bind (db_assert started) (\<lambda>_.
     cl_bind (cl_get d_entry_client) (\<lambda>e.
     cl_bind (write_db_entry_client (ge_fs env) client_registry_file e) (\<lambda>rc.
     if rc < 0
     then cl_bind (cl_put (\<lambda>h. h\<lparr>d_client_transaction_started := False\<rparr>)) (\<lambda>_.
          DB_HANDLER_SET_CLIENT_TRANSACTION_ERROR)
     else
       cl_bind (cl_world (ff_close (ge_fs env) client_registry_file)) (\<lambda>rc.
       cl_bind (cl_put (\<lambda>h. h\<lparr>d_client_transaction_started := False\<rparr>)) (\<lambda>_.
       if rc \<noteq> FR_OK then DB_HANDLER_SET_CLIENT_TRANSACTION_ERROR
       else cl_get d_client_transaction_result))))))"

definition db_get_client_count :: "('w, DB_ENTRY_MQTT_SN_CLIENT_RESULT \<times> u64) db_call" where
  "db_get_client_count =
     cl_bind (cl_get d_database_error) (\<lambda>error.
     if error then cl_bind db_fail (\<lambda>r. cl_return (r, 0))
     else
       cl_bind (cl_get d_client_count) (\<lambda>n. cl_return (DB_ENTRY_MQTT_SN_CLIENT_RESULT_SUCCESS, n)))"

definition db_start_client_transaction_by_client_count ::
  "'w gateway_env \<Rightarrow> u64 \<Rightarrow> ('w, DB_ENTRY_MQTT_SN_CLIENT_RESULT) db_call" where
  "db_start_client_transaction_by_client_count env client_count =
     cl_bind (cl_get d_client_count) (\<lambda>n.
     cl_bind (db_assert (n > client_count)) (\<lambda>_.
     cl_bind (cl_get d_client_transaction_started) (\<lambda>started.
     cl_bind (db_assert (\<not> started)) (\<lambda>_.
     cl_bind (cl_put (\<lambda>h. h\<lparr>d_transaction_result := DB_HANDLER_RESULT_SUCCESS\<rparr>)) (\<lambda>_.
     cl_bind (cl_get d_database_error) (\<lambda>error.
     if error then db_fail
     else
       cl_bind (cl_put (\<lambda>h. h\<lparr>d_client_transaction_result := DB_ENTRY_MQTT_SN_CLIENT_RESULT_SUCCESS,
                               d_client_transaction_started := True\<rparr>)) (\<lambda>_.
       cl_bind (cl_get d_entry_client) (\<lambda>e.
       cl_bind (read_db_entry_client (ge_fs env) client_registry_file (unat client_count) e) (\<lambda>(rc, e).
       cl_bind (cl_put (\<lambda>h. h\<lparr>d_entry_client := e\<rparr>)) (\<lambda>_.
       if rc < 0 then DB_HANDLER_SET_CLIENT_TRANSACTION_ERROR else cl_get d_client_transaction_result))))))))))"

section \<open>The client of a transaction\<close>

text \<open>The length checks of the two operations differ: this one counts the terminator.\<close>

definition add_client ::
  "'w gateway_env \<Rightarrow> u8 list \<Rightarrow> u8 list \<Rightarrow> u8 list list \<Rightarrow> nat \<Rightarrow> u16 \<Rightarrow> u64
   \<Rightarrow> ('w, DB_ENTRY_MQTT_SN_CLIENT_RESULT) db_call" where
  "add_client env client_id client_address forwarder_addresses forwarder_address_len connect_duration connect_time =
     db_checked
       (cl_bind (cl_get d_client_transaction_result) (\<lambda>r.
        if r \<noteq> DB_ENTRY_MQTT_SN_CLIENT_RESULT_CLIENT_NOT_FOUND \<and> r \<noteq> DB_ENTRY_MQTT_SN_CLIENT_RESULT_SUCCESS
        then cl_return r
        else
          cl_bind (cl_mem (c_strlen client_id)) (\<lambda>n.
          if n + MQTT_SN_CLIENTID_NULL_TERMINATOR < MQTT_SN_CLIENTID_MIN_LENGTH
          then db_set_result DB_ENTRY_MQTT_SN_CLIENT_RESULT_CLIENT_ID_TOO_SHORT
          else if n + MQTT_SN_CLIENTID_NULL_TERMINATOR > MQTT_SN_CLIENTID_MAX_LENGTH
          then db_set_result DB_ENTRY_MQTT_SN_CLIENT_RESULT_CLIENT_ID_TOO_LONG
          else
            cl_bind (cl_get d_entry_client) (\<lambda>e.
            cl_bind (find_empty_entry_space_in_registry (ge_fuel env) (ge_fs env) e client_registry_file
                       MQTT_SN_GATEWAY_DB_CLIENT_REGISTRY_FILE_NAME) (\<lambda>(empty_space, e).
            cl_bind (cl_put (\<lambda>h. h\<lparr>d_entry_client := e\<rparr>)) (\<lambda>_.
            if empty_space < 0 then DB_HANDLER_SET_CLIENT_TRANSACTION_ERROR
            else
              cl_bind (cl_mem (init_db_entry_mqtt_sn_client client_id client_address forwarder_addresses
                         forwarder_address_len connect_duration connect_time empty_space)) (\<lambda>e.
              cl_bind (cl_put (\<lambda>h. h\<lparr>d_entry_client := e,
                d_client_count := (if d_client_count h < of_int empty_space + 1 then of_int empty_space + 1
                                   else d_client_count h),
                d_client_transaction_result :=
                  (if d_client_transaction_result h = DB_ENTRY_MQTT_SN_CLIENT_RESULT_CLIENT_NOT_FOUND
                   then DB_ENTRY_MQTT_SN_CLIENT_RESULT_SUCCESS else d_client_transaction_result h)\<rparr>)) (\<lambda>_.
              cl_get d_client_transaction_result))))))))"

definition db_reset_client ::
  "u8 list \<Rightarrow> u8 list \<Rightarrow> u8 list list \<Rightarrow> nat \<Rightarrow> u16 \<Rightarrow> u64 \<Rightarrow> ('w, DB_ENTRY_MQTT_SN_CLIENT_RESULT) db_call" where
  "db_reset_client client_id client_address forwarder_addresses forwarder_address_len connect_duration connect_time =
     db_checked
       (cl_bind (cl_get d_client_transaction_result) (\<lambda>r.
        if r \<noteq> DB_ENTRY_MQTT_SN_CLIENT_RESULT_SUCCESS then cl_return r
        else
          cl_bind (cl_mem (c_strlen client_id)) (\<lambda>n.
          if n < MQTT_SN_CLIENTID_MIN_LENGTH then db_set_result DB_ENTRY_MQTT_SN_CLIENT_RESULT_CLIENT_ID_TOO_SHORT
          else if n \<ge> MQTT_SN_CLIENTID_MAX_LENGTH
          then db_set_result DB_ENTRY_MQTT_SN_CLIENT_RESULT_CLIENT_ID_TOO_LONG
          else
            cl_bind (cl_get d_entry_client) (\<lambda>e.
            cl_bind (cl_mem (reset_db_entry_mqtt_sn_client e client_id client_address forwarder_addresses
                       forwarder_address_len connect_duration connect_time)) (\<lambda>e.
            cl_bind (cl_put (\<lambda>h. h\<lparr>d_entry_client := e\<rparr>)) (\<lambda>_.
            cl_get d_client_transaction_result))))))"

text \<open>The files of the client's registrations, subscriptions, will and publishes are unlinked first.\<close>

definition delete_file_of ::
  "'w gateway_env \<Rightarrow> (u8 list \<Rightarrow> nat \<Rightarrow> u8 list cres) \<Rightarrow> ('w, int) db_call" where
  "delete_file_of env file_name =
     cl_bind (cl_get d_entry_client) (\<lambda>e.
     cl_bind (cl_mem (file_name (dc_file_number e)
                (length (dc_file_number empty_entry) + (length MQTT_SN_GATEWAY_DB_REGISTRATION_FILE_ENDING + 1))))
       (\<lambda>filename_with_extension.
     f_delete (ge_fs env) filename_with_extension))"

definition delete_client :: "'w gateway_env \<Rightarrow> ('w, DB_ENTRY_MQTT_SN_CLIENT_RESULT) db_call" where
  "delete_client env =
     db_checked
       (cl_bind (cl_get d_client_transaction_result) (\<lambda>r.
        if r \<noteq> DB_ENTRY_MQTT_SN_CLIENT_RESULT_SUCCESS then cl_return r
        else
          cl_bind (delete_file_of env get_registration_file_name) (\<lambda>_.
          cl_bind (delete_file_of env get_subscribe_file_name) (\<lambda>_.
          cl_bind (delete_file_of env get_will_file_name) (\<lambda>_.
          cl_bind (delete_file_of env get_publish_file_name) (\<lambda>_.
          cl_bind (delete_db_entry_client (ge_fs env) client_registry_file) (\<lambda>(rc, e).
          cl_bind (cl_put (\<lambda>h. h\<lparr>d_entry_client := e\<rparr>)) (\<lambda>_.
          if rc < 0 then DB_HANDLER_SET_CLIENT_TRANSACTION_ERROR
          else cl_get d_client_transaction_result))))))))"

definition client_exist :: "('w, DB_ENTRY_MQTT_SN_CLIENT_RESULT) db_call" where
  "client_exist = db_checked (cl_get d_client_transaction_result)"

text \<open>
  Reading a field of the entry: the result, and the value unless the database has failed, when nothing is
  stored. Writing a field.
\<close>

definition db_get :: "(DB_ENTRY_MQTT_SN_CLIENT \<Rightarrow> 'a) \<Rightarrow> ('w, DB_ENTRY_MQTT_SN_CLIENT_RESULT \<times> 'a option) db_call" where
  "db_get f =
     cl_bind (cl_get d_client_transaction_started) (\<lambda>started.
     cl_bind (db_assert started) (\<lambda>_.
     cl_bind (cl_get d_database_error) (\<lambda>error.
     if error then cl_bind db_fail (\<lambda>r. cl_return (r, None))
     else cl_get (\<lambda>h. (d_client_transaction_result h, Some (f (d_entry_client h)))))))"

definition db_set ::
  "(DB_ENTRY_MQTT_SN_CLIENT \<Rightarrow> DB_ENTRY_MQTT_SN_CLIENT) \<Rightarrow> ('w, DB_ENTRY_MQTT_SN_CLIENT_RESULT) db_call" where
  "db_set f =
     db_checked
       (cl_bind (cl_put (\<lambda>h. h\<lparr>d_entry_client := f (d_entry_client h)\<rparr>)) (\<lambda>_. cl_get d_client_transaction_result))"

definition db_get_client_last_ping_req_received :: "('w, DB_ENTRY_MQTT_SN_CLIENT_RESULT \<times> u64 option) db_call" where
  "db_get_client_last_ping_req_received = db_get dc_last_ping_req_received"

definition db_set_client_last_ping_req_received :: "u64 \<Rightarrow> ('w, DB_ENTRY_MQTT_SN_CLIENT_RESULT) db_call" where
  "db_set_client_last_ping_req_received t = db_set (dc_last_ping_req_received_update (\<lambda>_. t))"

definition db_get_client_last_ping_resp_received :: "('w, DB_ENTRY_MQTT_SN_CLIENT_RESULT \<times> u64 option) db_call" where
  "db_get_client_last_ping_resp_received = db_get dc_last_ping_resp_received"

definition db_set_client_last_ping_resp_received :: "u64 \<Rightarrow> ('w, DB_ENTRY_MQTT_SN_CLIENT_RESULT) db_call" where
  "db_set_client_last_ping_resp_received t = db_set (dc_last_ping_resp_received_update (\<lambda>_. t))"

definition db_get_client_address ::
  "'w gateway_env \<Rightarrow> u8 list list \<Rightarrow> nat
   \<Rightarrow> ('w, DB_ENTRY_MQTT_SN_CLIENT_RESULT \<times> (u8 list \<times> u8 list list \<times> nat) option) db_call" where
  "db_get_client_address env forwarder_addresses forwarder_addresses_max_len =
     cl_bind (db_get id) (\<lambda>(r, e).
     case e of
       None \<Rightarrow> cl_return (r, None)
     | Some e \<Rightarrow>
         cl_bind (cl_mem (get_db_entry_mqtt_sn_client_forwarder_addresses (ge_unset_index env) e forwarder_addresses
                    forwarder_addresses_max_len)) (\<lambda>(forwarder_addresses, len).
         cl_return (r, Some (dc_client_address e, forwarder_addresses, len))))"

definition db_get_client_id :: "('w, DB_ENTRY_MQTT_SN_CLIENT_RESULT \<times> u8 list option) db_call" where
  "db_get_client_id =
     cl_bind (db_get dc_client_id) (\<lambda>(r, client_id).
     case client_id of
       None \<Rightarrow> cl_return (r, None)
     | Some client_id \<Rightarrow>
         cl_bind (cl_mem (c_strlen client_id)) (\<lambda>n. cl_return (r, Some (take n client_id))))"

definition db_set_client_connect_duration :: "u16 \<Rightarrow> ('w, DB_ENTRY_MQTT_SN_CLIENT_RESULT) db_call" where
  "db_set_client_connect_duration d = db_set (dc_connect_duration_update (\<lambda>_. d))"

definition db_get_client_connect_duration :: "('w, DB_ENTRY_MQTT_SN_CLIENT_RESULT \<times> u16 option) db_call" where
  "db_get_client_connect_duration = db_get dc_connect_duration"

definition db_get_client_status ::
  "('w, DB_ENTRY_MQTT_SN_CLIENT_RESULT \<times> DB_ENTRY_MQTT_SN_CLIENT_STATUS option) db_call" where
  "db_get_client_status = db_get dc_client_status"

definition db_set_client_status ::
  "DB_ENTRY_MQTT_SN_CLIENT_STATUS \<Rightarrow> ('w, DB_ENTRY_MQTT_SN_CLIENT_RESULT) db_call" where
  "db_set_client_status s = db_set (dc_client_status_update (\<lambda>_. s))"

definition db_get_ping_req_await_msg_type ::
  "('w, DB_ENTRY_MQTT_SN_CLIENT_RESULT \<times> MQTT_SN_MESSAGE_TYPE option) db_call" where
  "db_get_ping_req_await_msg_type = db_get dc_ping_req_await_message_type"

definition db_set_ping_req_await_msg_type ::
  "MQTT_SN_MESSAGE_TYPE \<Rightarrow> ('w, DB_ENTRY_MQTT_SN_CLIENT_RESULT) db_call" where
  "db_set_ping_req_await_msg_type t = db_set (dc_ping_req_await_message_type_update (\<lambda>_. t))"

section \<open>Discovered gateways\<close>

definition UINT8_MAX :: nat where
  "UINT8_MAX = 255"

fun write_empty_gateways ::
  "nat \<Rightarrow> nat \<Rightarrow> 'w gateway_env \<Rightarrow> ('w, int) db_call" where
  "write_empty_gateways 0 pos env = cl_return 0"
| "write_empty_gateways (Suc left) pos env =
     cl_bind (f_write_at (ge_fs env) MQTT_SN_GATEWAY_DB_DISCOVERED_GATEWAYS_FILE_NAME pos
                (empty_gateway_entry\<lparr>gd_gw_id := of_nat pos\<rparr>) (ff_sizeof_gateway (ge_fs env))) (\<lambda>rc.
     if rc < 0 then cl_return (-1) else write_empty_gateways left (pos + 1) env)"

definition gateway_db_error :: "('w, DB_ENTRY_MQTT_SN_GATEWAY_DISCOVERED_RESULT) db_call" where
  "gateway_db_error =
     cl_bind (cl_put (\<lambda>h. h\<lparr>d_gateway_discovered_result := DB_ENTRY_MQTT_SN_GATEWAY_DISCOVERED_RESULT_ERROR,
       d_gateway_discovered_transaction_result := DB_HANDLER_RESULT_ERROR\<rparr>)) (\<lambda>_.
     cl_return DB_ENTRY_MQTT_SN_GATEWAY_DISCOVERED_RESULT_ERROR)"

definition gateway_db_success :: "('w, DB_ENTRY_MQTT_SN_GATEWAY_DISCOVERED_RESULT) db_call" where
  "gateway_db_success =
     cl_bind (cl_put (\<lambda>h. h\<lparr>d_gateway_discovered_result := DB_ENTRY_MQTT_SN_GATEWAY_DISCOVERED_RESULT_SUCCESS,
       d_gateway_discovered_transaction_result := DB_HANDLER_RESULT_SUCCESS\<rparr>)) (\<lambda>_.
     cl_return DB_ENTRY_MQTT_SN_GATEWAY_DISCOVERED_RESULT_SUCCESS)"

definition mqtt_sn_discovered_gateway_init ::
  "'w gateway_env \<Rightarrow> ('w, DB_ENTRY_MQTT_SN_GATEWAY_DISCOVERED_RESULT) db_call" where
  "mqtt_sn_discovered_gateway_init env =
     cl_bind (cl_get d_gateway_discovered_result) (\<lambda>r.
     if r = DB_ENTRY_MQTT_SN_GATEWAY_DISCOVERED_RESULT_IN_PROGRESS then cl_return r
     else
       cl_bind (cl_get d_database_error) (\<lambda>error.
       if error then gateway_db_error
       else
         cl_bind (cl_put (\<lambda>h. h\<lparr>d_discovered_gw_list :=
           map (\<lambda>pos. \<lparr>gl_gw_id = of_nat pos, gl_status = DB_ENTRY_MQTT_SN_GATEWAY_DISCOVERED_NEVER\<rparr>)
             [0..<UINT8_MAX]\<rparr>)) (\<lambda>_.
         cl_bind (write_empty_gateways UINT8_MAX 0 env) (\<lambda>rc.
         if rc < 0 then cl_return DB_ENTRY_MQTT_SN_GATEWAY_DISCOVERED_RESULT_ERROR else gateway_db_success))))"

text \<open>The forwarders of an entry; the two operations share the check and the copying.\<close>

definition set_gateway_forwarders ::
  "DB_ENTRY_MQTT_SN_GATEWAY_DISCOVERED \<Rightarrow> u8 list list \<Rightarrow> nat \<Rightarrow> DB_ENTRY_MQTT_SN_GATEWAY_DISCOVERED cres" where
  "set_gateway_forwarders e forwarder_addresses forwarder_address_len =
     (if \<not> forwarder_address_len \<le> DB_ENTRY_MQTT_SN_CLIENT_MAX_FORWARDER_COUNT then Inl Abort
      else
        cbind (copy_addresses 0 forwarder_address_len forwarder_addresses (gd_forwarder_addresses e)) (\<lambda>as.
        Inr (e\<lparr>gd_forwarder_address_len := forwarder_address_len, gd_forwarder_addresses := as\<rparr>)))"

definition gateway_update ::
  "'w gateway_env \<Rightarrow> u8
   \<Rightarrow> (DB_ENTRY_MQTT_SN_GATEWAY_DISCOVERED \<Rightarrow> DB_ENTRY_MQTT_SN_GATEWAY_DISCOVERED cres)
   \<Rightarrow> (DB_ENTRY_MQTT_SN_GATEWAY_DISCOVERED \<Rightarrow> ('w, unit) db_call)
   \<Rightarrow> ('w, DB_ENTRY_MQTT_SN_GATEWAY_DISCOVERED_RESULT) db_call" where
  "gateway_update env gw_id change note_status =
     cl_bind (cl_get d_gateway_discovered_result) (\<lambda>r.
     if r = DB_ENTRY_MQTT_SN_GATEWAY_DISCOVERED_RESULT_IN_PROGRESS then cl_return r
     else
       cl_bind (cl_get d_database_error) (\<lambda>error.
       if error then gateway_db_error
       else
         cl_bind (f_read_at (ge_fs env) MQTT_SN_GATEWAY_DB_DISCOVERED_GATEWAYS_FILE_NAME (unat gw_id)
                    (ge_unset_gateway env) (ff_sizeof_gateway (ge_fs env))) (\<lambda>(rc, e).
         if rc < 0 then gateway_db_error
         else
           cl_bind (cl_mem (change e)) (\<lambda>e.
           cl_bind (note_status e) (\<lambda>_.
           cl_bind (f_write_at (ge_fs env) MQTT_SN_GATEWAY_DB_DISCOVERED_GATEWAYS_FILE_NAME (unat gw_id) e
                      (ff_sizeof_gateway (ge_fs env))) (\<lambda>rc.
           if rc < 0 then gateway_db_error else gateway_db_success))))))"

definition mqtt_sn_discovered_gateway_update_address ::
  "'w gateway_env \<Rightarrow> u8 \<Rightarrow> u8 list \<Rightarrow> u64 \<Rightarrow> u8 \<Rightarrow> u8 list list \<Rightarrow> nat
   \<Rightarrow> ('w, DB_ENTRY_MQTT_SN_GATEWAY_DISCOVERED_RESULT) db_call" where
  "mqtt_sn_discovered_gateway_update_address env gw_id address received_time signal_strength forwarder_addresses
       forwarder_address_len =
     gateway_update env gw_id
       (\<lambda>e. set_gateway_forwarders
          (e\<lparr>gd_gw_id := gw_id, gd_last_message_time := received_time, gd_signal_strength := signal_strength,
             gd_network_address := address\<rparr>)
          forwarder_addresses forwarder_address_len)
       (\<lambda>_. cl_return ())"

text \<open>The list of gateways has 255 elements, one less than there are identifiers.\<close>

definition mqtt_sn_discovered_gateway_update ::
  "'w gateway_env \<Rightarrow> u8 \<Rightarrow> u16 \<Rightarrow> u8 list \<Rightarrow> u8 \<Rightarrow> u64 \<Rightarrow> u8 list list \<Rightarrow> nat
   \<Rightarrow> ('w, DB_ENTRY_MQTT_SN_GATEWAY_DISCOVERED_RESULT) db_call" where
  "mqtt_sn_discovered_gateway_update env gw_id duration address signal_strength received_time forwarder_addresses
       forwarder_address_len =
     gateway_update env gw_id
       (\<lambda>e. set_gateway_forwarders
          (e\<lparr>gd_gw_id := gw_id, gd_duration := duration, gd_duration_timeout := duration,
             gd_last_message_time := received_time, gd_signal_strength := signal_strength,
             gd_network_address := address, gd_status := DB_ENTRY_MQTT_SN_GATEWAY_DISCOVERED_ACTIVE\<rparr>)
          forwarder_addresses forwarder_address_len)
       (\<lambda>e. cl_bind (cl_get d_discovered_gw_list) (\<lambda>l.
            cl_bind (cl_mem (cbind (rd_arr l (unat gw_id)) (\<lambda>g. wr_arr l (unat gw_id) (g\<lparr>gl_status := gd_status e\<rparr>))))
              (\<lambda>l. cl_put (\<lambda>h. h\<lparr>d_discovered_gw_list := l\<rparr>))))"

definition get_gateway_discovered_result :: "('w, DB_ENTRY_MQTT_SN_GATEWAY_DISCOVERED_RESULT) db_call" where
  "get_gateway_discovered_result = cl_get d_gateway_discovered_result"

definition get_gateway_discovered_transaction_result :: "('w, DB_HANDLER_RESULT) db_call" where
  "get_gateway_discovered_transaction_result = cl_get d_gateway_discovered_transaction_result"

definition get_gateway_status :: "u8 \<Rightarrow> ('w, DB_ENTRY_MQTT_SN_GATEWAY_DISCOVERED_STATUS) db_call" where
  "get_gateway_status gw_id =
     cl_bind (cl_get d_discovered_gw_list) (\<lambda>l.
     cl_bind (cl_mem (rd_arr l (unat gw_id))) (\<lambda>g. cl_return (gl_status g)))"

section \<open>Initialisation\<close>

definition remove_file_if_exists :: "'w gateway_env \<Rightarrow> string \<Rightarrow> ('w, int) db_call" where
  "remove_file_if_exists env path =
     (let ff = ge_fs env in
      cl_bind (cl_world (ff_stat ff path)) (\<lambda>filres.
      if filres = FR_OK
      then
        cl_bind (cl_world (ff_unlink ff path)) (\<lambda>rc.
        if rc \<noteq> FR_OK then cl_return (-1)
        else
          cl_bind (cl_world (ff_open ff local_file path (FA_CREATE_ALWAYS OR FA_READ OR FA_WRITE))) (\<lambda>rc.
          if rc \<noteq> FR_OK then cl_return (-1)
          else
            cl_bind (cl_world (ff_sync ff local_file)) (\<lambda>rc.
            if rc \<noteq> FR_OK then cl_bind (cl_world (ff_close ff local_file)) (\<lambda>_. cl_return (-1))
            else
              cl_bind (cl_world (ff_close ff local_file)) (\<lambda>rc. cl_return (if rc \<noteq> FR_OK then -1 else 0)))))
      else cl_return (if filres \<noteq> FR_NO_FILE then -1 else 0)))"

fun remove_files :: "'w gateway_env \<Rightarrow> string list \<Rightarrow> ('w, int) db_call" where
  "remove_files env [] = cl_return 0"
| "remove_files env (path # paths) =
     cl_bind (remove_file_if_exists env path) (\<lambda>rc. if rc < 0 then cl_return (-1) else remove_files env paths)"

definition SECCOUNT :: nat where
  "SECCOUNT = 128"

fun write_sectors :: "nat \<Rightarrow> 'w gateway_env \<Rightarrow> int \<Rightarrow> ('w, unit) db_call" where
  "write_sectors 0 env fno = cl_return ()"
| "write_sectors (Suc i) env fno =
     cl_bind (cl_world (host_write (ge_fs env) fno 512)) (\<lambda>_. write_sectors i env fno)"

definition create_empty_file :: "'w gateway_env \<Rightarrow> FIL \<Rightarrow> string \<Rightarrow> ('w, int) db_call" where
  "create_empty_file env f path =
     cl_bind (cl_world (ff_open (ge_fs env) f path (FA_CREATE_ALWAYS OR FA_READ OR FA_WRITE))) (\<lambda>rc.
     if rc \<noteq> FR_OK then cl_return (-1)
     else cl_bind (cl_world (ff_close (ge_fs env) f)) (\<lambda>rc. cl_return (if rc \<noteq> FR_OK then -1 else 0)))"

text \<open>Without a file system on the medium, an image is made, formatted and mounted.\<close>

definition mount_database :: "'w gateway_env \<Rightarrow> ('w, int) db_call" where
  "mount_database env =
     (let ff = ge_fs env in
      cl_bind (cl_world (ff_mount ff)) (\<lambda>mount_result.
      if mount_result = FR_OK then cl_return 0
      else if mount_result \<noteq> FR_NO_FILESYSTEM then cl_return (-1)
      else
        cl_bind (cl_world (host_open ff)) (\<lambda>fno.
        cl_bind (write_sectors SECCOUNT env fno) (\<lambda>_.
        cl_bind (cl_world (host_close ff fno)) (\<lambda>_.
        cl_bind (cl_world (ff_mkfs ff)) (\<lambda>mkfs_res.
        if mkfs_res \<noteq> FR_OK then cl_return (-1)
        else
          cl_bind (cl_world (ff_mount ff)) (\<lambda>mount_result.
          cl_return (if mount_result \<noteq> FR_OK then -1 else 0))))))))"

text \<open>The last result is that of the enumeration, which has no negative value.\<close>

fun gateway_result_code :: "DB_ENTRY_MQTT_SN_GATEWAY_DISCOVERED_RESULT \<Rightarrow> int" where
  "gateway_result_code DB_ENTRY_MQTT_SN_GATEWAY_DISCOVERED_RESULT_SUCCESS = 0"
| "gateway_result_code DB_ENTRY_MQTT_SN_GATEWAY_DISCOVERED_RESULT_IN_PROGRESS = 1"
| "gateway_result_code DB_ENTRY_MQTT_SN_GATEWAY_DISCOVERED_RESULT_ERROR = 2"

definition db_handler_initialize :: "'w gateway_env \<Rightarrow> ('w, int) db_call" where
  "db_handler_initialize env =
     cl_bind (cl_put (\<lambda>_. empty_db_handler)) (\<lambda>_.
     cl_bind (mount_database env) (\<lambda>rc.
     if rc < 0 then cl_return (-1)
     else
       cl_bind (remove_files env
         [MQTT_SN_GATEWAY_DB_CLIENT_REGISTRY_FILE_NAME, MQTT_SN_GATEWAY_DB_MQTT_SUBSCRIPTION_FILE_NAME,
          MQTT_SN_GATEWAY_DB_DEFAULT_PREDEFINED_TOPIC_FILE_NAME,
          MQTT_SN_GATEWAY_DB_DEFAULT_MQTT_CONFIGURATION_FILE_NAME,
          MQTT_SN_GATEWAY_DB_DEFAULT_MQTT_SN_CONFIGURATION_FILE_NAME]) (\<lambda>rc.
       if rc < 0 then cl_return (-1)
       else
         cl_bind (create_empty_file env client_registry_file MQTT_SN_GATEWAY_DB_CLIENT_REGISTRY_FILE_NAME) (\<lambda>rc.
         if rc < 0 then cl_return (-1)
         else
           cl_bind (create_empty_file env gateway_registry_file MQTT_SN_GATEWAY_DB_DISCOVERED_GATEWAYS_FILE_NAME) (\<lambda>rc.
           if rc < 0 then cl_return (-1)
           else
             cl_bind (mqtt_sn_discovered_gateway_init env) (\<lambda>r.
             cl_return (if r \<noteq> DB_ENTRY_MQTT_SN_GATEWAY_DISCOVERED_RESULT_SUCCESS
                        then gateway_result_code DB_ENTRY_MQTT_SN_GATEWAY_DISCOVERED_RESULT_ERROR else 0)))))))"

definition db_handler_deinitialize :: "'w gateway_env \<Rightarrow> ('w, int) db_call" where
  "db_handler_deinitialize env = cl_bind (cl_world (ff_unmount (ge_fs env))) (\<lambda>_. cl_return 0)"

end
