(* ===== verification/Gateway.thy ===== *)
theory Gateway
  imports Gateway_Db Net_Interface Encapsulation Msg_Discovery
begin

text \<open>
  The MQTT-SN gateway: \<open>src/gateway/MqttSnGateway.h\<close> and \<open>.c\<close>, its handlers of connections
  (\<open>MqttSnGatewayClientConnectionHandler.c\<close>) and of discovery (\<open>MqttSnGatewayDiscoveryHandler.c\<close>) and the
  frames around its answers (\<open>MqttSnGatewayForwarder.c\<close>). The structs of the handlers point to the parts of
  the gateway they use; here a handler is a call on the gateway, and the record of the connection handler
  keeps its own fields. The logging compiled in is the one of the Linux build: its calls read the entry
  of the client again, which the handlers look at.
\<close>

section \<open>The state\<close>

datatype MQTT_SN_GATEWAY_STATUS =
    MQTT_SN_GATEWAY_STATUS_STAND_BY
  | MQTT_SN_GATEWAY_STATUS_MQTT_DISCONNECTED
  | MQTT_SN_GATEWAY_STATUS_MQTT_SN_DISCONNECTED
  | MQTT_SN_GATEWAY_STATUS_ACTIVE

record gateway_client_connection_config =
  gc_client_connection_timeout_check_enabled :: u8
  gc_client_connection_timeout_check_period :: "32 word"
  gc_client_connection_timeout_offset :: int

record gateway_advertise_config =
  ga_advertisement_standby_monitoring :: u8
  ga_advertisement_duration :: u16
  ga_advertisement_radius :: u8
  ga_gateway_id :: u8
  ga_missing_advertise_count :: u8
  ga_gateway_ping_monitoring :: u8

record MqttSnGatewayClientConnectionHandler =
  gh_client_connection_timeout_check_enabled :: u8
  gh_last_client_connection_timeout_check :: u64
  gh_client_connection_timeout_check_period :: u64
  gh_client_connection_timeout_offset :: int

record 'w MqttSnGateway =
  g_gateway_status :: MQTT_SN_GATEWAY_STATUS
  g_db_handler :: db_handler
  g_mqttClientNetworkReceiveBuffer :: MqttSnFixedSizeRingBuffer
  g_mqttClientNetworkSendBuffer :: MqttSnFixedSizeRingBuffer
  g_clientNetwork :: "'w MqttSnClientNetworkInterface"
  g_clientNetworkReceiveBuffer :: MqttSnFixedSizeRingBuffer
  g_clientNetworkSendBuffer :: MqttSnFixedSizeRingBuffer
  g_clientNetworkSendTimeout :: int
  g_clientNetworkReceiveTimeout :: int
  g_client_con_handler :: MqttSnGatewayClientConnectionHandler
  g_advertisement_config :: gateway_advertise_config

definition MQTT_SN_GATEWAY_MAX_FORWARDER_COUNT :: nat where
  "MQTT_SN_GATEWAY_MAX_FORWARDER_COUNT = 5"

record MqttSnGatewayForwarder =
  gf_wireless_node_id :: "u8 list"
  gf_forwarder_addresses :: "u8 list list"
  gf_forwarder_radiuses :: "u8 list"
  gf_forwarder_len :: nat
  gf_forwarder_max_len :: nat

definition MqttSnGatewayForwarderInit :: MqttSnGatewayForwarder where
  "MqttSnGatewayForwarderInit =
     \<lparr>gf_wireless_node_id = replicate device_address_size 0,
      gf_forwarder_addresses = replicate MQTT_SN_GATEWAY_MAX_FORWARDER_COUNT (replicate device_address_size 0),
      gf_forwarder_radiuses = replicate MQTT_SN_GATEWAY_MAX_FORWARDER_COUNT 0, gf_forwarder_len = 0,
      gf_forwarder_max_len = MQTT_SN_GATEWAY_MAX_FORWARDER_COUNT\<rparr>"

type_synonym ('w, 'a) gateway_call = "'w MqttSnGateway \<times> 'w \<Rightarrow> stopped + 'a \<times> 'w MqttSnGateway \<times> 'w"

text \<open>Operations of the database and of the client network, on the gateway that holds them.\<close>

definition on_db :: "('w, 'a) db_call \<Rightarrow> ('w, 'a) gateway_call" where
  "on_db m s =
     (case m (g_db_handler (fst s), snd s) of
        Inl e \<Rightarrow> Inl e
      | Inr (x, h, w) \<Rightarrow> Inr (x, (fst s)\<lparr>g_db_handler := h\<rparr>, w))"

definition on_network ::
  "('w MqttSnClientNetworkInterface \<Rightarrow> 'w \<Rightarrow> int \<times> 'w MqttSnClientNetworkInterface \<times> 'w) \<Rightarrow> ('w, int) gateway_call" where
  "on_network f s =
     (let (rc, n, w) = f (g_clientNetwork (fst s)) (snd s) in Inr (rc, (fst s)\<lparr>g_clientNetwork := n\<rparr>, w))"

definition put_send_buffer :: "MqttSnMessageData \<Rightarrow> ('w, int) gateway_call" where
  "put_send_buffer msg =
     cl_bind (cl_get g_clientNetworkSendBuffer) (\<lambda>q.
     cl_bind (cl_mem (put q msg)) (\<lambda>(rc, q).
     cl_bind (cl_put (\<lambda>g. g\<lparr>g_clientNetworkSendBuffer := q\<rparr>)) (\<lambda>_. cl_return rc)))"

text \<open>The macro \<open>DB_HANDLER_CK_CLIENT_RC\<close> around a change and around a read of the entry.\<close>

definition ck_set ::
  "('w, DB_ENTRY_MQTT_SN_CLIENT_RESULT) db_call \<Rightarrow> ('w, int) gateway_call \<Rightarrow> ('w, int) gateway_call" where
  "ck_set m k =
     cl_bind (on_db m) (\<lambda>r. if r \<noteq> DB_ENTRY_MQTT_SN_CLIENT_RESULT_SUCCESS then cl_return (-1) else k)"

definition ck_get ::
  "('w, DB_ENTRY_MQTT_SN_CLIENT_RESULT \<times> 'a option) db_call \<Rightarrow> ('a \<Rightarrow> ('w, int) gateway_call) \<Rightarrow> ('w, int) gateway_call" where
  "ck_get m k =
     cl_bind (on_db m) (\<lambda>(r, x).
     if r \<noteq> DB_ENTRY_MQTT_SN_CLIENT_RESULT_SUCCESS then cl_return (-1)
     else (case x of None \<Rightarrow> cl_stop Memory_Fault | Some x \<Rightarrow> k x))"

text \<open>What the debug messages about a client print is read from its entry.\<close>

definition log_client_details :: "('w, int) gateway_call \<Rightarrow> ('w, int) gateway_call" where
  "log_client_details k =
     ck_get db_get_client_connect_duration (\<lambda>_.
     ck_get db_get_client_last_ping_req_received (\<lambda>_.
     ck_get db_get_client_last_ping_resp_received (\<lambda>_.
     ck_get db_get_client_id (\<lambda>_. k))))"

section \<open>Frames of the forwarders\<close>

text \<open>
  The messages come from few generators and fit the array with their frames, so the frames are always
  made; the contents of the array after a failure are not tracked.
\<close>

definition gateway_add_forwarder_encapsulation_frames ::
  "MqttSnMessageData \<Rightarrow> nat \<Rightarrow> MqttSnGatewayForwarder \<Rightarrow> (MqttSnMessageData \<times> nat) cres" where
  "gateway_add_forwarder_encapsulation_frames msg gen_bytes forwarders =
     (let msg = msg\<lparr>md_to := gf_wireless_node_id forwarders\<rparr> in
      if gf_forwarder_len forwarders = 0 then Inr (msg, gen_bytes mod 65536)
      else
        cbind (rds (md_data msg) gen_bytes) (\<lambda>gen_msg_buf.
        case generate_multiple_forwarder_encapsulation_headers_byte (md_data msg) (length (md_data msg))
               (gf_forwarder_radiuses forwarders) (gf_forwarder_addresses forwarders) (gf_forwarder_len forwarders)
               (gf_wireless_node_id forwarders) gen_msg_buf gen_bytes of
          Inl Fail \<Rightarrow> Inr (msg, 65535)
        | Inl e \<Rightarrow> Inl e
        | Inr (data, fw_gen_rc) \<Rightarrow>
            cbind (rd_arr (gf_forwarder_addresses forwarders) 0) (\<lambda>first.
            Inr (msg\<lparr>md_data := data, md_to := first\<rparr>, fw_gen_rc mod 65536))))"

text \<open>The end the answering handlers share: frames, length, queue.\<close>

definition send_generated :: "MqttSnMessageData \<Rightarrow> nat \<Rightarrow> MqttSnGatewayForwarder \<Rightarrow> ('w, int) gateway_call" where
  "send_generated msg gen_bytes forwarders =
     cl_bind (cl_mem (gateway_add_forwarder_encapsulation_frames msg gen_bytes forwarders)) (\<lambda>(msg, len).
     put_send_buffer (msg\<lparr>md_data_length := len\<rparr>))"

text \<open>An answer reuses the message it answers.\<close>

definition answer_message ::
  "'w gateway_env \<Rightarrow> MqttSnMessageData \<Rightarrow> (u8 list \<Rightarrow> nat \<Rightarrow> (u8 list \<times> nat) cres) \<Rightarrow> MqttSnGatewayForwarder
   \<Rightarrow> ('w, int) gateway_call" where
  "answer_message env msg generate forwarders =
     cl_bind (cl_world (\<lambda>w. case reuse_mqtt_sn_message_data (get_timestamp_ms (ge_platform env)) msg w of
                              (rc, msg, w) \<Rightarrow> ((rc, msg), w))) (\<lambda>(rc, msg).
     if rc < 0 then cl_return (-1)
     else
       cl_bind (cl_call (generate (md_data msg) (length (md_data msg)))) (\<lambda>g.
       case g of
         None \<Rightarrow> cl_return (-1)
       | Some (data, gen_bytes) \<Rightarrow>
           cl_bind (send_generated (msg\<lparr>md_data := data\<rparr>) gen_bytes forwarders) (\<lambda>rc.
           cl_return (if rc < 0 then -1 else 0))))"

section \<open>Connections\<close>

definition handler_time :: "'w gateway_env \<Rightarrow> ('w, int \<times> u64) gateway_call" where
  "handler_time env = cl_world (get_timestamp_s (ge_platform env))"

definition init_client_connection_handler ::
  "'w gateway_env \<Rightarrow> gateway_client_connection_config \<Rightarrow> ('w, int) gateway_call" where
  "init_client_connection_handler env cfg =
     cl_bind (handler_time env) (\<lambda>(rc, t).
     cl_bind (cl_put (\<lambda>g. g\<lparr>g_client_con_handler :=
       \<lparr>gh_client_connection_timeout_check_enabled = gc_client_connection_timeout_check_enabled cfg,
        gh_last_client_connection_timeout_check = t,
        gh_client_connection_timeout_check_period = ucast (gc_client_connection_timeout_check_period cfg),
        gh_client_connection_timeout_offset = gc_client_connection_timeout_offset cfg\<rparr>\<rparr>)) (\<lambda>_.
     cl_return (if rc < 0 then -1 else 0)))"

definition get_active_last_timeout_reset :: "u64 \<Rightarrow> u64 \<Rightarrow> u64" where
  "get_active_last_timeout_reset ping_resp_received ping_req_received =
     (if ping_resp_received > ping_req_received then ping_resp_received else ping_req_received)"

text \<open>The sum is computed with 32-bit signed numbers and then converted.\<close>

definition get_connection_timeout_offset_duration :: "u16 \<Rightarrow> int \<Rightarrow> u64" where
  "get_connection_timeout_offset_duration duration offset =
     (if offset < 0 \<and> uint duration \<le> offset then ucast duration else of_int (uint duration + offset))"

text \<open>The product of a 16-bit number with 0.5 or 0.1 as \<open>double\<close>, cut to an integer, is the quotient.\<close>

definition get_client_tolerance_timeout :: "u16 \<Rightarrow> u64" where
  "get_client_tolerance_timeout duration =
     (let tolerance_part = (if duration \<le> 60 then ucast duration div 2 else ucast duration div 10)
      in tolerance_part + ucast duration)"

definition send_client_connection_ping_req ::
  "'w gateway_env \<Rightarrow> MqttSnGatewayForwarder \<Rightarrow> ('w, int) gateway_call" where
  "send_client_connection_ping_req env forwarders =
     cl_bind (cl_get g_clientNetworkSendBuffer) (\<lambda>q.
     if isFull q then cl_return 0
     else
       cl_bind (handler_time env) (\<lambda>(rc, t).
       if rc \<noteq> 0 then cl_return (-1)
       else
         let msg = zero_message\<lparr>md_create_time_s := t, md_to := gf_wireless_node_id forwarders\<rparr> in
         cl_bind (cl_call (generate_ping_req (md_data msg) (length (md_data msg)))) (\<lambda>g.
         case g of
           None \<Rightarrow> cl_return (-1)
         | Some (data, gen_rc) \<Rightarrow>
             cl_bind (send_generated (msg\<lparr>md_data := data\<rparr>) gen_rc forwarders) (\<lambda>rc.
             if rc < 0 then cl_return (-1)
             else ck_set (db_set_ping_req_await_msg_type PINGRESP) (log_client_details (cl_return 0))))))"

definition check_active_client_connection_timeout :: "'w gateway_env \<Rightarrow> u64 \<Rightarrow> ('w, int) gateway_call" where
  "check_active_client_connection_timeout env current_time =
     cl_bind (on_db db_is_client_transaction_started) (\<lambda>started.
     cl_bind (db_assert started) (\<lambda>_.
     let forwarders = MqttSnGatewayForwarderInit in
     ck_get db_get_client_connect_duration (\<lambda>connect_duration.
     ck_get db_get_client_last_ping_req_received (\<lambda>ping_req_received.
     ck_get db_get_client_last_ping_resp_received (\<lambda>ping_resp_received.
     ck_get db_get_ping_req_await_msg_type (\<lambda>ping_req_await_message_type.
     ck_get (db_get_client_address env (gf_forwarder_addresses forwarders) (gf_forwarder_max_len forwarders))
       (\<lambda>(address, forwarder_addresses, forwarder_len).
     let forwarders = forwarders\<lparr>gf_wireless_node_id := address, gf_forwarder_addresses := forwarder_addresses,
                                 gf_forwarder_len := forwarder_len\<rparr>;
         elapsed_time = current_time - get_active_last_timeout_reset ping_resp_received ping_req_received in
     cl_bind (cl_get (\<lambda>g. gh_client_connection_timeout_offset (g_client_con_handler g))) (\<lambda>offset.
     if elapsed_time \<ge> get_connection_timeout_offset_duration connect_duration offset
        \<and> ping_req_await_message_type = ANY_MESSAGE_TYPE
     then
       cl_bind (send_client_connection_ping_req env forwarders) (\<lambda>rc. cl_return (if rc < 0 then -1 else 0))
     else if elapsed_time > get_client_tolerance_timeout connect_duration
     then
       ck_set (db_set_client_status DB_ENTRY_MQTT_SN_CLIENT_STATUS_LOST) (ck_get db_get_client_id (\<lambda>_. cl_return 0))
     else cl_return 0))))))))"

text \<open>The loop over the clients, with the number of rounds left.\<close>

fun check_clients_loop :: "nat \<Rightarrow> 'w gateway_env \<Rightarrow> u64 \<Rightarrow> u64 \<Rightarrow> ('w, int) gateway_call" where
  "check_clients_loop 0 env client_number current_time = cl_return 0"
| "check_clients_loop (Suc left) env client_number current_time =
     cl_bind (on_db (db_start_client_transaction_by_client_count env client_number)) (\<lambda>r.
     if r \<noteq> DB_ENTRY_MQTT_SN_CLIENT_RESULT_SUCCESS then cl_return (-1)
     else
       ck_get db_get_client_status (\<lambda>client_status.
       cl_bind (if client_status = DB_ENTRY_MQTT_SN_CLIENT_STATUS_ACTIVE
                then check_active_client_connection_timeout env current_time else cl_return 0) (\<lambda>check_rc.
       cl_bind (on_db db_is_client_transaction_started) (\<lambda>started.
       cl_bind (db_assert started) (\<lambda>_.
       cl_bind (on_db (db_end_client_transaction env)) (\<lambda>r.
       if r \<noteq> DB_ENTRY_MQTT_SN_CLIENT_RESULT_SUCCESS then cl_return (-1)
       else if check_rc < 0 then cl_return (-1)
       else check_clients_loop left env (client_number + 1) current_time))))))"

definition client_connection_handler_check_timeouts :: "'w gateway_env \<Rightarrow> ('w, int) gateway_call" where
  "client_connection_handler_check_timeouts env =
     cl_bind (handler_time env) (\<lambda>(rc, current_time).
     if rc < 0 then cl_return (-1)
     else
       cl_bind (cl_get g_client_con_handler) (\<lambda>handler.
       if current_time - gh_last_client_connection_timeout_check handler < gh_client_connection_timeout_check_period handler
       then cl_return 0
       else
         cl_bind (on_db db_get_client_count) (\<lambda>(r, client_count).
         if r \<noteq> DB_ENTRY_MQTT_SN_CLIENT_RESULT_SUCCESS then cl_return (-1)
         else
           cl_bind (check_clients_loop (unat client_count) env 0 current_time) (\<lambda>rc.
           if rc < 0 then cl_return (-1)
           else
             cl_bind (cl_put (\<lambda>g. g\<lparr>g_client_con_handler :=
               (g_client_con_handler g)\<lparr>gh_last_client_connection_timeout_check := current_time\<rparr>\<rparr>)) (\<lambda>_.
             cl_return 0)))))"

text \<open>The bytes of a message behind the headers already parsed, and their count as a \<open>uint16_t\<close>.\<close>

definition msg_rest :: "MqttSnMessageData \<Rightarrow> nat \<Rightarrow> u8 list" where
  "msg_rest msg parsed_bytes = drop parsed_bytes (md_data msg)"

definition msg_rest_length :: "MqttSnMessageData \<Rightarrow> nat \<Rightarrow> nat" where
  "msg_rest_length msg parsed_bytes = u16_sub (md_data_length msg) parsed_bytes"

text \<open>The two ping handlers look the client up by the sender of the message, not by the wireless node.\<close>

definition start_ping_transaction ::
  "'w gateway_env \<Rightarrow> MqttSnMessageData \<Rightarrow> ('w, int) gateway_call \<Rightarrow> ('w, int) gateway_call" where
  "start_ping_transaction env msg k =
     cl_bind (on_db (db_start_client_transaction env (Some (md_from msg)) None)) (\<lambda>start_rc.
     if start_rc = DB_ENTRY_MQTT_SN_CLIENT_RESULT_CLIENT_NOT_FOUND then k else log_client_details k)"

definition end_ping_transaction :: "'w gateway_env \<Rightarrow> ('w, int) gateway_call \<Rightarrow> ('w, int) gateway_call" where
  "end_ping_transaction env k =
     cl_bind (on_db (db_end_client_transaction env)) (\<lambda>r.
     cl_bind (on_db get_db_handler_result) (\<lambda>hr.
     if r \<noteq> DB_ENTRY_MQTT_SN_CLIENT_RESULT_SUCCESS \<and> hr = DB_HANDLER_RESULT_ERROR then cl_return (-1) else k))"

definition client_connection_handler_parse_and_handle_ping_resp ::
  "'w gateway_env \<Rightarrow> MqttSnMessageData \<Rightarrow> nat \<Rightarrow> MqttSnGatewayForwarder \<Rightarrow> ('w, int) gateway_call" where
  "client_connection_handler_parse_and_handle_ping_resp env msg parsed_bytes forwarders =
     cl_bind (cl_get g_clientNetworkSendBuffer) (\<lambda>q.
     cl_bind (db_assert (\<not> isFull q)) (\<lambda>_.
     cl_bind (cl_call (parse_ping_resp_byte (msg_rest msg parsed_bytes) (msg_rest_length msg parsed_bytes))) (\<lambda>p.
     if p = None then cl_return 0
     else
       start_ping_transaction env msg
         (cl_bind (on_db (db_set_client_last_ping_resp_received (md_create_time_s msg))) (\<lambda>_.
          cl_bind (on_db (db_set_ping_req_await_msg_type ANY_MESSAGE_TYPE)) (\<lambda>_.
          end_ping_transaction env (cl_return 0)))))))"

definition client_connection_handler_parse_and_handle_ping_req ::
  "'w gateway_env \<Rightarrow> MqttSnMessageData \<Rightarrow> nat \<Rightarrow> MqttSnGatewayForwarder \<Rightarrow> ('w, int) gateway_call" where
  "client_connection_handler_parse_and_handle_ping_req env msg parsed_bytes forwarders =
     cl_bind (cl_get g_clientNetworkSendBuffer) (\<lambda>q.
     cl_bind (db_assert (\<not> isFull q)) (\<lambda>_.
     cl_bind (cl_call (parse_ping_req_byte (msg_rest msg parsed_bytes) (msg_rest_length msg parsed_bytes))) (\<lambda>p.
     if p = None then cl_return 0
     else
       start_ping_transaction env msg
         (cl_bind (on_db (db_set_client_last_ping_req_received (md_create_time_s msg))) (\<lambda>_.
          end_ping_transaction env (answer_message env msg generate_ping_resp forwarders))))))"

definition client_connection_handler_remove_client_subscriptions :: int where
  "client_connection_handler_remove_client_subscriptions = 0"

text \<open>Nothing is sent to a client that connects with a will.\<close>

definition client_connection_handler_parse_and_handle_connect ::
  "'w gateway_env \<Rightarrow> MqttSnMessageData \<Rightarrow> nat \<Rightarrow> MqttSnGatewayForwarder \<Rightarrow> ('w, int) gateway_call" where
  "client_connection_handler_parse_and_handle_connect env msg parsed_bytes forwarders =
     cl_bind (cl_get g_clientNetworkSendBuffer) (\<lambda>q.
     if isFull q then cl_return 0
     else
       cl_bind (cl_call (parse_connect empty_connect (msg_rest msg parsed_bytes) (msg_rest_length msg parsed_bytes))) (\<lambda>p.
       case p of
         None \<Rightarrow> cl_return 0
       | Some (connect, _) \<Rightarrow>
           let add = add_client env (con_client_id connect) (gf_wireless_node_id forwarders)
                 (gf_forwarder_addresses forwarders) (gf_forwarder_len forwarders) (con_duration connect)
                 (md_create_time_s msg) in
           cl_bind (on_db (db_start_client_transaction env (Some (gf_wireless_node_id forwarders)) None)) (\<lambda>_.
           cl_bind (on_db client_exist) (\<lambda>exist.
           cl_bind
             (if exist = DB_ENTRY_MQTT_SN_CLIENT_RESULT_SUCCESS
              then if con_clean_session connect = 0
                then on_db (db_reset_client (con_client_id connect) (gf_wireless_node_id forwarders)
                       (gf_forwarder_addresses forwarders) (gf_forwarder_len forwarders) (con_duration connect)
                       (md_create_time_s msg))
                else cl_bind (on_db (delete_client env)) (\<lambda>_. on_db add)
              else on_db add) (\<lambda>_.
           cl_bind (on_db (db_end_client_transaction env)) (\<lambda>r.
           if r \<noteq> DB_ENTRY_MQTT_SN_CLIENT_RESULT_SUCCESS then cl_return (-1)
           else if con_will connect \<noteq> 0 then cl_return 0
           else
             answer_message env msg (\<lambda>dst dst_len. generate_connack dst dst_len RETURN_CODE_ACCEPTED) forwarders))))))"

definition client_session :: "DB_ENTRY_MQTT_SN_CLIENT_STATUS \<Rightarrow> bool" where
  "client_session s \<longleftrightarrow> s = DB_ENTRY_MQTT_SN_CLIENT_STATUS_ACTIVE \<or> s = DB_ENTRY_MQTT_SN_CLIENT_STATUS_ASLEEP
     \<or> s = DB_ENTRY_MQTT_SN_CLIENT_STATUS_AWAKE"

text \<open>
  The part the two DISCONNECT handlers share: the entry is changed when the client has a session. The
  status would be read uninitialised if the database had failed, but then no transaction is open.
\<close>

definition disconnect_transaction ::
  "'w gateway_env \<Rightarrow> u8 list \<Rightarrow> ('w, DB_ENTRY_MQTT_SN_CLIENT_RESULT) db_call
   \<Rightarrow> (DB_ENTRY_MQTT_SN_CLIENT_STATUS \<Rightarrow> ('w, int) gateway_call) \<Rightarrow> ('w, int) gateway_call" where
  "disconnect_transaction env address change k =
     cl_bind (on_db (db_start_client_transaction env (Some address) None)) (\<lambda>_.
     cl_bind (on_db db_get_client_status) (\<lambda>(_, client_status).
     case client_status of
       None \<Rightarrow> cl_stop Memory_Fault
     | Some client_status \<Rightarrow>
         cl_bind (if client_session client_status then cl_bind (on_db change) (\<lambda>_. cl_return ()) else cl_return ()) (\<lambda>_.
         cl_bind (on_db client_exist) (\<lambda>exist.
         cl_bind (if exist = DB_ENTRY_MQTT_SN_CLIENT_RESULT_SUCCESS \<and> client_session client_status
                  then cl_bind (on_db db_get_client_id) (\<lambda>_.
                       cl_bind (on_db db_get_client_connect_duration) (\<lambda>_. cl_return ()))
                  else cl_return ()) (\<lambda>_.
         cl_bind (on_db (db_end_client_transaction env)) (\<lambda>r.
         if r = DB_ENTRY_MQTT_SN_CLIENT_RESULT_ERROR then cl_return (-1) else k client_status))))))"

definition client_connection_handler_parse_and_handle_disconnect_duration ::
  "'w gateway_env \<Rightarrow> MqttSnMessageData \<Rightarrow> nat \<Rightarrow> MqttSnGatewayForwarder \<Rightarrow> ('w, int) gateway_call" where
  "client_connection_handler_parse_and_handle_disconnect_duration env msg parsed_bytes forwarders =
     cl_bind (cl_call (parse_disconnect_duration (msg_rest msg parsed_bytes) (msg_rest_length msg parsed_bytes))) (\<lambda>p.
     case p of
       None \<Rightarrow> cl_return 0
     | Some (sleep_duration, _) \<Rightarrow>
         disconnect_transaction env (gf_wireless_node_id forwarders)
           (cl_bind (db_set_client_connect_duration sleep_duration) (\<lambda>_.
            db_set_client_status DB_ENTRY_MQTT_SN_CLIENT_STATUS_ASLEEP))
           (\<lambda>_. cl_return 0))"

definition MQTT_SN_MESSAGE_HEADER_SHORT_LENGTH :: int where
  "MQTT_SN_MESSAGE_HEADER_SHORT_LENGTH = 2"

definition client_connection_handler_parse_and_handle_disconnect ::
  "'w gateway_env \<Rightarrow> MqttSnMessageData \<Rightarrow> nat \<Rightarrow> MqttSnGatewayForwarder \<Rightarrow> ('w, int) gateway_call" where
  "client_connection_handler_parse_and_handle_disconnect env msg parsed_bytes forwarders =
     cl_bind (cl_get g_clientNetworkSendBuffer) (\<lambda>q.
     if isFull q then cl_return 0
     else if int (md_data_length msg) - int parsed_bytes > MQTT_SN_MESSAGE_HEADER_SHORT_LENGTH
     then client_connection_handler_parse_and_handle_disconnect_duration env msg parsed_bytes forwarders
     else
       cl_bind (cl_call (parse_disconnect_bytes (msg_rest msg parsed_bytes) (msg_rest_length msg parsed_bytes))) (\<lambda>p.
       if p = None then cl_return 0
       else
         disconnect_transaction env (gf_wireless_node_id forwarders)
           (db_set_client_status DB_ENTRY_MQTT_SN_CLIENT_STATUS_DISCONNECTED)
           (\<lambda>client_status.
              if \<not> client_session client_status then cl_return 0
              else answer_message env msg generate_disconnect_message forwarders)))"

section \<open>Discovery\<close>

definition discovery_handler_parse_and_handle_advertise ::
  "'w gateway_env \<Rightarrow> MqttSnMessageData \<Rightarrow> nat \<Rightarrow> MqttSnGatewayForwarder \<Rightarrow> ('w, int) gateway_call" where
  "discovery_handler_parse_and_handle_advertise env msg parsed_bytes forwarders =
     cl_bind (cl_call (parse_advertise (msg_rest msg parsed_bytes) (msg_rest_length msg parsed_bytes))) (\<lambda>p.
     case p of
       None \<Rightarrow> cl_return 0
     | Some (adv, _) \<Rightarrow>
         cl_bind (on_db (mqtt_sn_discovered_gateway_update env (adv_gwId adv) (adv_duration adv)
                    (gf_wireless_node_id forwarders) (md_signal_strength msg) (md_create_time_s msg)
                    (gf_forwarder_addresses forwarders) (gf_forwarder_len forwarders))) (\<lambda>r.
         cl_return (if r \<noteq> DB_ENTRY_MQTT_SN_GATEWAY_DISCOVERED_RESULT_SUCCESS then -1 else 0)))"

text \<open>The answer to a SEARCHGW has no frames.\<close>

definition discovery_handler_parse_and_handle_search_gw ::
  "MqttSnMessageData \<Rightarrow> nat \<Rightarrow> MqttSnGatewayForwarder \<Rightarrow> ('w, int) gateway_call" where
  "discovery_handler_parse_and_handle_search_gw msg parsed_bytes forwarders =
     cl_bind (cl_get g_clientNetworkSendBuffer) (\<lambda>q.
     if isFull q then cl_return 0
     else
       cl_bind (cl_call (parse_searchgw (msg_rest msg parsed_bytes) (msg_rest_length msg parsed_bytes))) (\<lambda>p.
       if p = None then cl_return 0
       else
         cl_bind (cl_get (\<lambda>g. (cn_network_address (g_clientNetwork g), cn_broadcast_address (g_clientNetwork g))))
           (\<lambda>addresses.
         case addresses of
           (Some from_address, Some to_address) \<Rightarrow>
             cl_bind (cl_get (\<lambda>g. ga_gateway_id (g_advertisement_config g))) (\<lambda>gateway_id.
             let toSend = zero_message\<lparr>md_from := from_address, md_to := to_address,
                            md_signal_strength := md_signal_strength msg\<rparr> in
             cl_bind (cl_call (generate_gwinfo_gateway_message (md_data toSend) (length (md_data toSend)) gateway_id)) (\<lambda>g.
             case g of
               None \<Rightarrow> cl_return (-1)
             | Some (data, gen_rc) \<Rightarrow>
                 cl_bind (put_send_buffer (toSend\<lparr>md_data := data, md_data_length := gen_rc mod 65536\<rparr>)) (\<lambda>rc.
                 cl_return (if rc < 0 then -1 else 0))))
         | _ \<Rightarrow> cl_stop Memory_Fault)))"

definition discovery_handler_parse_and_handle_gwinfo ::
  "'w gateway_env \<Rightarrow> MqttSnMessageData \<Rightarrow> nat \<Rightarrow> MqttSnGatewayForwarder \<Rightarrow> ('w, int) gateway_call" where
  "discovery_handler_parse_and_handle_gwinfo env msg parsed_bytes forwarders =
     cl_bind (cl_call (parse_gwinfo \<lparr>gwi_gwId = 0, gwi_gwAdd = replicate device_address_size 0, gwi_gwAddLen = 0\<rparr>
                (msg_rest msg parsed_bytes) (msg_rest_length msg parsed_bytes))) (\<lambda>p.
     case p of
       None \<Rightarrow> cl_return 0
     | Some (info, _) \<Rightarrow>
         cl_bind (on_db (mqtt_sn_discovered_gateway_update_address env (gwi_gwId info)
                    (gf_wireless_node_id forwarders) (md_create_time_s msg) (md_signal_strength msg)
                    (gf_forwarder_addresses forwarders) (gf_forwarder_len forwarders))) (\<lambda>r.
         cl_return (if r \<noteq> DB_ENTRY_MQTT_SN_GATEWAY_DISCOVERED_RESULT_SUCCESS then -1 else 0)))"

text \<open>A gateway on standby takes over when the one it watches is not active; nothing calls this.\<close>

definition discovery_handler_check_standy_by_monitoring :: "MQTT_SN_GATEWAY_STATUS \<Rightarrow> ('w, int \<times> MQTT_SN_GATEWAY_STATUS) gateway_call" where
  "discovery_handler_check_standy_by_monitoring gateway_status =
     (if gateway_status = MQTT_SN_GATEWAY_STATUS_STAND_BY
      then
        cl_bind (cl_get (\<lambda>g. ga_gateway_id (g_advertisement_config g))) (\<lambda>gateway_id.
        cl_bind (on_db (get_gateway_status gateway_id)) (\<lambda>s.
        cl_return (0, if s \<noteq> DB_ENTRY_MQTT_SN_GATEWAY_DISCOVERED_ACTIVE then MQTT_SN_GATEWAY_STATUS_ACTIVE
                      else gateway_status)))
      else cl_return (0, gateway_status))"

section \<open>Dispatch\<close>

text \<open>A result of 1 leaves the message unhandled.\<close>

definition parse_and_handle_stand_by_messages ::
  "(MqttSnMessageData \<Rightarrow> nat \<Rightarrow> MqttSnGatewayForwarder \<Rightarrow> ('w, int) gateway_call) \<Rightarrow> 'w gateway_env
   \<Rightarrow> ParsedMqttSnHeader \<Rightarrow> MqttSnMessageData \<Rightarrow> nat \<Rightarrow> MqttSnGatewayForwarder \<Rightarrow> ('w, int) gateway_call" where
  "parse_and_handle_stand_by_messages encapsulated env header msg parsed_bytes forwarders =
     (case h_msg_type header of
        ADVERTISE \<Rightarrow> discovery_handler_parse_and_handle_advertise env msg parsed_bytes forwarders
      | SEARCHGW \<Rightarrow> discovery_handler_parse_and_handle_search_gw msg parsed_bytes forwarders
      | GWINFO \<Rightarrow> discovery_handler_parse_and_handle_gwinfo env msg parsed_bytes forwarders
      | ENCAPSULATED_MESSAGE \<Rightarrow> encapsulated msg parsed_bytes forwarders
      | _ \<Rightarrow> cl_return 1)"

definition parse_and_handle_active_messages ::
  "(MqttSnMessageData \<Rightarrow> nat \<Rightarrow> MqttSnGatewayForwarder \<Rightarrow> ('w, int) gateway_call) \<Rightarrow> 'w gateway_env
   \<Rightarrow> ParsedMqttSnHeader \<Rightarrow> MqttSnMessageData \<Rightarrow> nat \<Rightarrow> MqttSnGatewayForwarder \<Rightarrow> ('w, int) gateway_call" where
  "parse_and_handle_active_messages encapsulated env header msg parsed_bytes forwarders =
     (case h_msg_type header of
        ADVERTISE \<Rightarrow> discovery_handler_parse_and_handle_advertise env msg parsed_bytes forwarders
      | SEARCHGW \<Rightarrow> discovery_handler_parse_and_handle_search_gw msg parsed_bytes forwarders
      | GWINFO \<Rightarrow> discovery_handler_parse_and_handle_gwinfo env msg parsed_bytes forwarders
      | CONNECT \<Rightarrow> client_connection_handler_parse_and_handle_connect env msg parsed_bytes forwarders
      | WILLTOPIC \<Rightarrow> cl_return 0
      | WILLMSG \<Rightarrow> cl_return 0
      | REGISTER \<Rightarrow> cl_return 0
      | PUBLISH \<Rightarrow> cl_return 0
      | PUBACK \<Rightarrow> cl_return 0
      | PUBCOMP \<Rightarrow> cl_return 0
      | PUBREC \<Rightarrow> cl_return 0
      | PUBREL \<Rightarrow> cl_return 0
      | SUBSCRIBE \<Rightarrow> cl_return 0
      | UNSUBSCRIBE \<Rightarrow> cl_return 0
      | PINGREQ \<Rightarrow> client_connection_handler_parse_and_handle_ping_req env msg parsed_bytes forwarders
      | PINGRESP \<Rightarrow> client_connection_handler_parse_and_handle_ping_resp env msg parsed_bytes forwarders
      | DISCONNECT \<Rightarrow> client_connection_handler_parse_and_handle_disconnect env msg parsed_bytes forwarders
      | WILLTOPICUPD \<Rightarrow> cl_return 0
      | WILLMSGUPD \<Rightarrow> cl_return 0
      | ENCAPSULATED_MESSAGE \<Rightarrow> encapsulated msg parsed_bytes forwarders
      | _ \<Rightarrow> cl_return 1)"

text \<open>
  What is behind the headers of the forwarders is handed on, unless it is a frame again. The two functions
  call each other; as only a message that is no frame is handed on, the fuel 2 is enough for any message.
\<close>

definition parse_and_handle_encapsulated_messages ::
  "(MqttSnMessageData \<Rightarrow> nat \<Rightarrow> MqttSnGatewayForwarder \<Rightarrow> ('w, int) gateway_call)
   \<Rightarrow> MqttSnMessageData \<Rightarrow> nat \<Rightarrow> MqttSnGatewayForwarder \<Rightarrow> ('w, int) gateway_call" where
  "parse_and_handle_encapsulated_messages handle msg parsed_bytes forwarders =
     (if gf_forwarder_max_len forwarders = 0 then cl_return 0
      else
        cl_bind (cl_call (parse_multiple_forwarder_encapsulation_headers_byte (gf_forwarder_radiuses forwarders)
                   (gf_forwarder_addresses forwarders) (gf_forwarder_max_len forwarders) (md_from msg) (md_data msg)
                   (md_data_length msg))) (\<lambda>p.
        case p of
          None \<Rightarrow> cl_return 0
        | Some (radiuses, addresses, len, wireless_node_id, parse_rc) \<Rightarrow>
            let forwarders = forwarders\<lparr>gf_forwarder_radiuses := radiuses, gf_forwarder_addresses := addresses,
                                        gf_forwarder_len := len, gf_wireless_node_id := wireless_node_id\<rparr>;
                parsed_bytes = parsed_bytes + parse_rc in
            cl_bind (cl_mem (parse_header empty_header ANY_MESSAGE_TYPE (msg_rest msg parsed_bytes)
                       (msg_rest_length msg parsed_bytes) 0)) (\<lambda>(h_rc, h, _).
            if h_rc < 0 then cl_return 0
            else if h_msg_type h = ENCAPSULATED_MESSAGE then cl_return 0
            else handle msg parsed_bytes forwarders)))"

fun parse_and_handle_message ::
  "nat \<Rightarrow> 'w gateway_env \<Rightarrow> MqttSnMessageData \<Rightarrow> nat \<Rightarrow> MqttSnGatewayForwarder \<Rightarrow> ('w, int) gateway_call" where
  "parse_and_handle_message 0 env msg parsed_bytes forwarders = cl_stop Out_Of_Fuel"
| "parse_and_handle_message (Suc n) env msg parsed_bytes forwarders =
     (let forwarders = (if gf_forwarder_len forwarders = 0 then forwarders\<lparr>gf_wireless_node_id := md_from msg\<rparr>
                        else forwarders);
          encapsulated = parse_and_handle_encapsulated_messages (parse_and_handle_message n env) in
      cl_bind (cl_mem (parse_header empty_header ANY_MESSAGE_TYPE (msg_rest msg parsed_bytes)
                 (msg_rest_length msg parsed_bytes) 0)) (\<lambda>(rc, header, _).
      if rc < 0 then cl_return 0
      else
        cl_bind (cl_get g_gateway_status) (\<lambda>gateway_status.
        case gateway_status of
          MQTT_SN_GATEWAY_STATUS_STAND_BY \<Rightarrow>
            cl_bind (parse_and_handle_stand_by_messages encapsulated env header msg parsed_bytes forwarders)
              (\<lambda>handle_rc. cl_return (if handle_rc \<le> 0 then handle_rc else 0))
        | MQTT_SN_GATEWAY_STATUS_ACTIVE \<Rightarrow>
            cl_bind (parse_and_handle_active_messages encapsulated env header msg parsed_bytes forwarders)
              (\<lambda>handle_rc. cl_return (if handle_rc \<le> 0 then handle_rc else 0))
        | MQTT_SN_GATEWAY_STATUS_MQTT_DISCONNECTED \<Rightarrow> cl_return (-1)
        | MQTT_SN_GATEWAY_STATUS_MQTT_SN_DISCONNECTED \<Rightarrow> cl_return 0)))"

section \<open>The gateway\<close>

text \<open>The message's time is set in milliseconds, in the field the other functions keep seconds in.\<close>

definition MqttSnGatewayHandleClientMessageData ::
  "'w gateway_env \<Rightarrow> MqttSnMessageData \<Rightarrow> ('w, int) gateway_call" where
  "MqttSnGatewayHandleClientMessageData env clientMessageData =
     cl_bind (cl_get g_mqttClientNetworkSendBuffer) (\<lambda>q.
     if isFull q then cl_return 0
     else
       cl_bind (cl_get g_clientNetworkReceiveBuffer) (\<lambda>q.
       cl_bind (cl_mem (pop q clientMessageData)) (\<lambda>(rc, q, msg).
       cl_bind (cl_put (\<lambda>g. g\<lparr>g_clientNetworkReceiveBuffer := q\<rparr>)) (\<lambda>_.
       if rc \<noteq> 0 then cl_return 0
       else
         cl_bind (cl_world (pf_clock_ms (ge_platform env))) (\<lambda>(rc, ms).
         if rc < 0 then cl_return (-1)
         else
           parse_and_handle_message 2 env (msg\<lparr>md_create_time_s := ms\<rparr>) 0 MqttSnGatewayForwarderInit)))))"

definition disconnect_client_network :: "('w, unit) gateway_call" where
  "disconnect_client_network = cl_bind (on_network ClientNetworkDisconnect) (\<lambda>_. cl_return ())"

definition receive_from_clients :: "'w gateway_env \<Rightarrow> ('w, int) gateway_call" where
  "receive_from_clients env s =
     cl_bind (cl_mem (ClientNetworkReceive (get_timestamp_ms (ge_platform env)) (g_clientNetwork (fst s))
                (g_clientNetworkReceiveBuffer (fst s)) (g_clientNetworkReceiveTimeout (fst s)) (snd s)))
       (\<lambda>(rc, n, q, w). cl_bind (cl_world (\<lambda>_. ((), w))) (\<lambda>_.
        cl_bind (cl_put (\<lambda>g. g\<lparr>g_clientNetwork := n, g_clientNetworkReceiveBuffer := q\<rparr>)) (\<lambda>_. cl_return rc))) s"

definition send_client_messages :: "('w, int) gateway_call" where
  "send_client_messages s =
     cl_bind (cl_mem (ClientNetworkSend (g_clientNetwork (fst s)) (g_clientNetworkSendBuffer (fst s))
                (g_clientNetworkSendTimeout (fst s)) (snd s)))
       (\<lambda>(rc, n, q, w). cl_bind (cl_world (\<lambda>_. ((), w))) (\<lambda>_.
        cl_bind (cl_put (\<lambda>g. g\<lparr>g_clientNetwork := n, g_clientNetworkSendBuffer := q\<rparr>)) (\<lambda>_. cl_return rc))) s"

text \<open>The result of the message's handler is not looked at.\<close>

definition MqttSnGatewayLoop :: "'w gateway_env \<Rightarrow> ('w, int) gateway_call" where
  "MqttSnGatewayLoop env =
     cl_bind (receive_from_clients env) (\<lambda>rc.
     cl_bind (if rc < 0 then disconnect_client_network else cl_return ()) (\<lambda>_.
     cl_bind (MqttSnGatewayHandleClientMessageData env zero_message) (\<lambda>_.
     cl_bind send_client_messages (\<lambda>rc.
     cl_bind (if rc < 0 then disconnect_client_network else cl_return ()) (\<lambda>_.
     cl_bind (cl_get (\<lambda>g. gh_client_connection_timeout_check_enabled (g_client_con_handler g))) (\<lambda>enabled.
     cl_bind (if enabled \<noteq> 0 then client_connection_handler_check_timeouts env else cl_return 0) (\<lambda>rc.
     cl_return (if rc < 0 then -1 else 0))))))))"

text \<open>\<open>MqttClient.c\<close>: the connection to the broker is not implemented.\<close>

definition MqttClientInitialize :: int where "MqttClientInitialize = 0"
definition MqttClientDeinitialize :: int where "MqttClientDeinitialize = 0"
definition MqttClientNetworkConnect :: int where "MqttClientNetworkConnect = 0"
definition MqttClientNetworkDisconnect :: int where "MqttClientNetworkDisconnect = 0"

definition MqttSnGatewayDeinitialize :: "'w gateway_env \<Rightarrow> ('w, int) gateway_call" where
  "MqttSnGatewayDeinitialize env =
     cl_bind (on_network ClientNetworkDeinitialize) (\<lambda>_.
     cl_bind (on_db (db_handler_deinitialize env)) (\<lambda>_. cl_return 0))"

definition MqttSnGatewayConnect :: "'w gateway_env \<Rightarrow> ('w, int) gateway_call" where
  "MqttSnGatewayConnect env =
     (if MqttClientNetworkConnect < 0 then cl_bind (MqttSnGatewayDeinitialize env) (\<lambda>_. cl_return (-1))
      else
        cl_bind (on_network ClientNetworkConnect) (\<lambda>rc.
        if rc < 0 then cl_bind (MqttSnGatewayDeinitialize env) (\<lambda>_. cl_return (-1)) else cl_return 0))"

definition MqttSnGatewayDisconnect :: "('w, int) gateway_call" where
  "MqttSnGatewayDisconnect = cl_bind disconnect_client_network (\<lambda>_. cl_return 0)"

definition init_discovery_handler :: int where
  "init_discovery_handler = 0"

definition MqttSnGatewayInitialize ::
  "'w gateway_env \<Rightarrow> gateway_advertise_config \<Rightarrow> gateway_client_connection_config \<Rightarrow> ('w, int) gateway_call" where
  "MqttSnGatewayInitialize env gacfg gccccfg =
     (let fail = cl_bind (MqttSnGatewayDeinitialize env) (\<lambda>_. cl_return (-1)) in
      cl_bind (cl_put (\<lambda>g. g\<lparr>g_gateway_status := (if ga_advertisement_standby_monitoring gacfg \<noteq> 0
        then MQTT_SN_GATEWAY_STATUS_STAND_BY else MQTT_SN_GATEWAY_STATUS_ACTIVE)\<rparr>)) (\<lambda>_.
      cl_bind (on_db (db_handler_initialize env)) (\<lambda>rc.
      if rc < 0 then fail
      else
        cl_bind (cl_put (\<lambda>g. g\<lparr>g_mqttClientNetworkReceiveBuffer := MqttSnFixedSizeRingBufferInit,
          g_mqttClientNetworkSendBuffer := MqttSnFixedSizeRingBufferInit,
          g_clientNetworkReceiveBuffer := MqttSnFixedSizeRingBufferInit,
          g_clientNetworkSendBuffer := MqttSnFixedSizeRingBufferInit\<rparr>)) (\<lambda>_.
        cl_bind (cl_world (pf_log_status (ge_platform env))) (\<lambda>rc.
        if rc < 0 then fail
        else
          cl_bind (init_client_connection_handler env gccccfg) (\<lambda>rc.
          if rc < 0 then fail
          else
            cl_bind (cl_put (\<lambda>g. g\<lparr>g_advertisement_config := gacfg\<rparr>)) (\<lambda>_.
            if init_discovery_handler < 0 then fail else cl_return 0)))))))"

text \<open>
  The thread routine of \<open>gateway_starter.c\<close>: passes of the loop until one fails or, \<open>k\<close> passes after the first, the
  signal ends the program.
\<close>

fun gateway_passes :: "nat \<Rightarrow> 'w gateway_env \<Rightarrow> ('w, int) gateway_call" where
  "gateway_passes 0 env = cl_return 0"
| "gateway_passes (Suc k) env =
     cl_bind (MqttSnGatewayLoop env) (\<lambda>rc. if rc < 0 then cl_return rc else gateway_passes k env)"

definition gateway_inc_c :: "nat \<Rightarrow> 'w gateway_env \<Rightarrow> ('w, int) gateway_call" where
  "gateway_inc_c k env =
     cl_bind (MqttSnGatewayConnect env) (\<lambda>rc.
     cl_bind (if rc < 0 then cl_return 0 else gateway_passes (Suc k) env) (\<lambda>_.
     cl_bind MqttSnGatewayDisconnect (\<lambda>_.
     cl_bind (MqttSnGatewayDeinitialize env) (\<lambda>_. cl_return 0))))"

end
