(* ===== verification/Gateway_Files.thy ===== *)
theory Gateway_Files
  imports Gateway_Store
begin

unbundle bit_operations_syntax

text \<open>
  What the gateway relies on of FatFs, and what the functions of \<open>ftfs_db.c\<close> do on a volume that keeps to it. A
  function \<open>view\<close> tells what is in the world of the file system: the entries of the two files and what the
  file objects are open on.
\<close>

section \<open>The contract\<close>

record file_view =
  fv_clients :: "DB_ENTRY_MQTT_SN_CLIENT list"
  fv_gateways :: "DB_ENTRY_MQTT_SN_GATEWAY_DISCOVERED list"
  fv_open :: "FIL \<Rightarrow> (string \<times> u8 \<times> nat) option"

definition file_entries :: "file_view \<Rightarrow> string \<Rightarrow> nat" where
  "file_entries v path =
     (if path = MQTT_SN_GATEWAY_DB_CLIENT_REGISTRY_FILE_NAME then length (fv_clients v) else length (fv_gateways v))"

definition entry_size :: "'w fatfs \<Rightarrow> string \<Rightarrow> nat" where
  "entry_size ff path =
     (if path = MQTT_SN_GATEWAY_DB_CLIENT_REGISTRY_FILE_NAME then ff_sizeof_client ff else ff_sizeof_gateway ff)"

definition db_files :: "string set" where
  "db_files = {MQTT_SN_GATEWAY_DB_CLIENT_REGISTRY_FILE_NAME, MQTT_SN_GATEWAY_DB_DISCOVERED_GATEWAYS_FILE_NAME}"

definition at_place :: "FIL \<Rightarrow> string \<times> u8 \<times> nat \<Rightarrow> file_view \<Rightarrow> file_view" where
  "at_place f x v = v\<lparr>fv_open := (fv_open v)(f \<mapsto> x)\<rparr>"

text \<open>Sizes: a file of at most \<open>room\<close> clients on a file system whose files have less than \<open>2 ^ 32\<close> bytes.\<close>

definition sizes_contract :: "'w fatfs \<Rightarrow> ('w \<Rightarrow> file_view) \<Rightarrow> nat \<Rightarrow> bool" where
  "sizes_contract ff view room \<longleftrightarrow>
     43 \<le> ff_sizeof_client ff \<and> ff_sizeof_client ff < 65536 \<and> 0 < ff_sizeof_gateway ff \<and> ff_sizeof_gateway ff < 65536
     \<and> room * ff_sizeof_client ff < 2 ^ 32 \<and> (\<forall>w. length (fv_clients (view w)) \<le> room)"

text \<open>An existing file is opened; an object that is not open is not closed.\<close>

definition open_contract :: "'w fatfs \<Rightarrow> ('w \<Rightarrow> file_view) \<Rightarrow> bool" where
  "open_contract ff view \<longleftrightarrow>
     (\<forall>f path mode w. path \<in> db_files \<longrightarrow> mode \<in> {FA_READ, FA_READ OR FA_WRITE} \<longrightarrow>
        (\<exists>w'. ff_open ff f path mode w = (FR_OK, w') \<and> view w' = at_place f (path, mode, 0) (view w)))
   \<and> (\<forall>f w. \<exists>rc w'. ff_close ff f w = (rc, w') \<and> (rc = FR_OK \<longleftrightarrow> fv_open (view w) f \<noteq> None)
        \<and> view w' = (view w)\<lparr>fv_open := (fv_open (view w))(f := None)\<rparr>)"

text \<open>A seek behind the end of a file opened for reading stops at the end.\<close>

definition seek_contract :: "'w fatfs \<Rightarrow> ('w \<Rightarrow> file_view) \<Rightarrow> bool" where
  "seek_contract ff view \<longleftrightarrow>
     (\<forall>f w path mode p k. fv_open (view w) f = Some (path, mode, p) \<longrightarrow> (k \<le> file_entries (view w) path \<or> mode = FA_READ) \<longrightarrow>
        (\<exists>w'. ff_lseek ff f (k * entry_size ff path) w = (FR_OK, w')
           \<and> view w' = at_place f (path, mode, min k (file_entries (view w) path)) (view w)))
   \<and> (\<forall>f w path mode p. fv_open (view w) f = Some (path, mode, p) \<longrightarrow>
        (\<exists>w'. ff_eof ff f w = (file_entries (view w) path \<le> p, w') \<and> view w' = view w))"

text \<open>A place in the registry, written: an entry that is there is replaced, the next one is appended.\<close>

definition store_entry :: "DB_ENTRY_MQTT_SN_CLIENT list \<Rightarrow> nat \<Rightarrow> DB_ENTRY_MQTT_SN_CLIENT \<Rightarrow> DB_ENTRY_MQTT_SN_CLIENT list" where
  "store_entry cs p e = take p cs @ [e] @ drop (Suc p) cs"

text \<open>
  A read at the end returns no bytes; a write to a file opened for reading is denied; a write to a full
  volume writes nothing.
\<close>

definition client_file_contract :: "'w fatfs \<Rightarrow> ('w \<Rightarrow> file_view) \<Rightarrow> nat \<Rightarrow> bool" where
  "client_file_contract ff view room \<longleftrightarrow>
     (\<forall>f w mode p e. fv_open (view w) f = Some (MQTT_SN_GATEWAY_DB_CLIENT_REGISTRY_FILE_NAME, mode, p) \<longrightarrow>
        (\<exists>w'. if p < length (fv_clients (view w))
              then ff_read_client ff f e w = ((FR_OK, ff_sizeof_client ff, fv_clients (view w) ! p), w')
                \<and> view w' = at_place f (MQTT_SN_GATEWAY_DB_CLIENT_REGISTRY_FILE_NAME, mode, Suc p) (view w)
              else ff_read_client ff f e w = ((FR_OK, 0, e), w') \<and> view w' = view w))
   \<and> (\<forall>f w p e. fv_open (view w) f = Some (MQTT_SN_GATEWAY_DB_CLIENT_REGISTRY_FILE_NAME, FA_READ OR FA_WRITE, p) \<longrightarrow>
        p \<le> length (fv_clients (view w)) \<longrightarrow>
        (\<exists>w'. if p < length (fv_clients (view w)) \<or> length (fv_clients (view w)) < room
              then ff_write_client ff f e w = ((FR_OK, ff_sizeof_client ff), w')
                \<and> view w' = at_place f (MQTT_SN_GATEWAY_DB_CLIENT_REGISTRY_FILE_NAME, FA_READ OR FA_WRITE, Suc p)
                    ((view w)\<lparr>fv_clients := store_entry (fv_clients (view w)) p e\<rparr>)
              else ff_write_client ff f e w = ((FR_OK, 0), w') \<and> view w' = view w))"

definition gateway_file_contract :: "'w fatfs \<Rightarrow> ('w \<Rightarrow> file_view) \<Rightarrow> bool" where
  "gateway_file_contract ff view \<longleftrightarrow>
     (\<forall>f w mode p e. fv_open (view w) f = Some (MQTT_SN_GATEWAY_DB_DISCOVERED_GATEWAYS_FILE_NAME, mode, p) \<longrightarrow>
        length (fv_gateways (view w)) \<le> p \<longrightarrow>
        (\<exists>w'. ff_read_gateway ff f e w = ((FR_OK, 0, e), w') \<and> view w' = view w))
   \<and> (\<forall>f w p e. fv_open (view w) f = Some (MQTT_SN_GATEWAY_DB_DISCOVERED_GATEWAYS_FILE_NAME, FA_READ, p) \<longrightarrow>
        (\<exists>w'. ff_write_gateway ff f e w = ((FR_DENIED, 0), w') \<and> view w' = view w))"

definition fatfs_contract :: "'w fatfs \<Rightarrow> ('w \<Rightarrow> file_view) \<Rightarrow> nat \<Rightarrow> bool" where
  "fatfs_contract ff view room \<longleftrightarrow>
     sizes_contract ff view room \<and> open_contract ff view \<and> seek_contract ff view \<and> client_file_contract ff view room
     \<and> gateway_file_contract ff view"

section \<open>Single operations\<close>

lemma at_place_simps [simp]:
  "fv_clients (at_place f x v) = fv_clients v" "fv_gateways (at_place f x v) = fv_gateways v"
  "fv_open (at_place f x v) = (fv_open v)(f \<mapsto> x)"
  by (simp_all add: at_place_def)

lemma at_place_twice [simp]: "at_place f x (at_place f y v) = at_place f x v"
  by (simp add: at_place_def)

lemma at_place_clients [simp]: "at_place f x (v\<lparr>fv_clients := cs\<rparr>) = (at_place f x v)\<lparr>fv_clients := cs\<rparr>"
  by (simp add: at_place_def)

lemma file_name_differ [simp]:
  "MQTT_SN_GATEWAY_DB_DISCOVERED_GATEWAYS_FILE_NAME \<noteq> MQTT_SN_GATEWAY_DB_CLIENT_REGISTRY_FILE_NAME"
  "MQTT_SN_GATEWAY_DB_CLIENT_REGISTRY_FILE_NAME \<in> db_files" "MQTT_SN_GATEWAY_DB_DISCOVERED_GATEWAYS_FILE_NAME \<in> db_files"
  by (simp_all add: MQTT_SN_GATEWAY_DB_DISCOVERED_GATEWAYS_FILE_NAME_def MQTT_SN_GATEWAY_DB_CLIENT_REGISTRY_FILE_NAME_def
      db_files_def)

lemma file_entries_simps [simp]:
  "file_entries v MQTT_SN_GATEWAY_DB_CLIENT_REGISTRY_FILE_NAME = length (fv_clients v)"
  "file_entries v MQTT_SN_GATEWAY_DB_DISCOVERED_GATEWAYS_FILE_NAME = length (fv_gateways v)"
  "entry_size ff MQTT_SN_GATEWAY_DB_CLIENT_REGISTRY_FILE_NAME = ff_sizeof_client ff"
  "entry_size ff MQTT_SN_GATEWAY_DB_DISCOVERED_GATEWAYS_FILE_NAME = ff_sizeof_gateway ff"
  by (simp_all add: file_entries_def entry_size_def)

lemma file_entries_place [simp]: "file_entries (at_place f x v) path = file_entries v path"
  by (simp add: file_entries_def)

lemma run_world: "cl_bind (cl_world f) g s = (case f (snd s) of (x, w) \<Rightarrow> g x (fst s, w))"
  by (simp add: cl_bind_def cl_world_def split: prod.splits)

lemma client_offset:
  assumes "fatfs_contract ff view room" "k \<le> room"
  shows "k * ff_sizeof_client ff mod 2 ^ 32 = k * ff_sizeof_client ff"
proof -
  have "k * ff_sizeof_client ff \<le> room * ff_sizeof_client ff"
    using assms(2) by simp
  also have "\<dots> < 2 ^ 32"
    using assms(1) unfolding fatfs_contract_def sizes_contract_def by blast
  finally show ?thesis
    by (rule mod_less)
qed

lemma gateway_offset:
  assumes "fatfs_contract ff view room" "k < 65536"
  shows "k * ff_sizeof_gateway ff mod 2 ^ 32 = k * ff_sizeof_gateway ff"
proof -
  have "k * ff_sizeof_gateway ff < 65536 * 65536"
    using assms by (intro mult_strict_mono) (auto simp: fatfs_contract_def sizes_contract_def)
  then show ?thesis
    by simp
qed

lemma open_file:
  assumes "fatfs_contract ff view room" "path \<in> db_files" "mode = FA_READ \<or> mode = FA_READ OR FA_WRITE"
  obtains w' where "ff_open ff f path mode w = (FR_OK, w')" "view w' = at_place f (path, mode, 0) (view w)"
  using assms that unfolding fatfs_contract_def open_contract_def by blast

lemma close_file:
  assumes "fatfs_contract ff view room"
  obtains rc w' where "ff_close ff f w = (rc, w')" "rc = FR_OK \<longleftrightarrow> fv_open (view w) f \<noteq> None"
    "view w' = (view w)\<lparr>fv_open := (fv_open (view w))(f := None)\<rparr>"
  using assms that unfolding fatfs_contract_def open_contract_def by blast

lemma seek_file:
  assumes "fatfs_contract ff view room" "fv_open (view w) f = Some (path, mode, p)"
    "k \<le> file_entries (view w) path \<or> mode = FA_READ"
  obtains w' where "ff_lseek ff f (k * entry_size ff path) w = (FR_OK, w')"
    "view w' = at_place f (path, mode, min k (file_entries (view w) path)) (view w)"
  using assms that unfolding fatfs_contract_def seek_contract_def by blast

lemma end_of_file:
  assumes "fatfs_contract ff view room" "fv_open (view w) f = Some (path, mode, p)"
  obtains w' where "ff_eof ff f w = (file_entries (view w) path \<le> p, w')" "view w' = view w"
  using assms that unfolding fatfs_contract_def seek_contract_def by blast

lemma read_client:
  assumes "fatfs_contract ff view room"
    "fv_open (view w) f = Some (MQTT_SN_GATEWAY_DB_CLIENT_REGISTRY_FILE_NAME, mode, p)" "p < length (fv_clients (view w))"
  obtains w' where "ff_read_client ff f e w = ((FR_OK, ff_sizeof_client ff, fv_clients (view w) ! p), w')"
    "view w' = at_place f (MQTT_SN_GATEWAY_DB_CLIENT_REGISTRY_FILE_NAME, mode, Suc p) (view w)"
proof -
  have "\<exists>w'. if p < length (fv_clients (view w))
      then ff_read_client ff f e w = ((FR_OK, ff_sizeof_client ff, fv_clients (view w) ! p), w')
        \<and> view w' = at_place f (MQTT_SN_GATEWAY_DB_CLIENT_REGISTRY_FILE_NAME, mode, Suc p) (view w)
      else ff_read_client ff f e w = ((FR_OK, 0, e), w') \<and> view w' = view w"
    using assms(1,2) unfolding fatfs_contract_def client_file_contract_def by blast
  then show ?thesis
    using assms(3) that by auto
qed

lemma read_client_end:
  assumes "fatfs_contract ff view room"
    "fv_open (view w) f = Some (MQTT_SN_GATEWAY_DB_CLIENT_REGISTRY_FILE_NAME, mode, p)" "length (fv_clients (view w)) \<le> p"
  obtains w' where "ff_read_client ff f e w = ((FR_OK, 0, e), w')" "view w' = view w"
proof -
  have "\<exists>w'. if p < length (fv_clients (view w))
      then ff_read_client ff f e w = ((FR_OK, ff_sizeof_client ff, fv_clients (view w) ! p), w')
        \<and> view w' = at_place f (MQTT_SN_GATEWAY_DB_CLIENT_REGISTRY_FILE_NAME, mode, Suc p) (view w)
      else ff_read_client ff f e w = ((FR_OK, 0, e), w') \<and> view w' = view w"
    using assms(1,2) unfolding fatfs_contract_def client_file_contract_def by blast
  then show ?thesis
    using assms(3) that by auto
qed

lemma write_client:
  assumes "fatfs_contract ff view room"
    "fv_open (view w) f = Some (MQTT_SN_GATEWAY_DB_CLIENT_REGISTRY_FILE_NAME, FA_READ OR FA_WRITE, p)"
    "p \<le> length (fv_clients (view w))"
  shows "\<exists>w'. if p < length (fv_clients (view w)) \<or> length (fv_clients (view w)) < room
      then ff_write_client ff f e w = ((FR_OK, ff_sizeof_client ff), w')
        \<and> view w' = at_place f (MQTT_SN_GATEWAY_DB_CLIENT_REGISTRY_FILE_NAME, FA_READ OR FA_WRITE, Suc p)
            ((view w)\<lparr>fv_clients := store_entry (fv_clients (view w)) p e\<rparr>)
      else ff_write_client ff f e w = ((FR_OK, 0), w') \<and> view w' = view w"
  using assms unfolding fatfs_contract_def client_file_contract_def by blast

lemma read_gateway_end:
  assumes "fatfs_contract ff view room"
    "fv_open (view w) f = Some (MQTT_SN_GATEWAY_DB_DISCOVERED_GATEWAYS_FILE_NAME, mode, p)" "length (fv_gateways (view w)) \<le> p"
  obtains w' where "ff_read_gateway ff f e w = ((FR_OK, 0, e), w')" "view w' = view w"
  using assms that unfolding fatfs_contract_def gateway_file_contract_def by blast

lemma write_gateway_denied:
  assumes "fatfs_contract ff view room"
    "fv_open (view w) f = Some (MQTT_SN_GATEWAY_DB_DISCOVERED_GATEWAYS_FILE_NAME, FA_READ, p)"
  obtains w' where "ff_write_gateway ff f e w = ((FR_DENIED, 0), w')" "view w' = view w"
  using assms that unfolding fatfs_contract_def gateway_file_contract_def by blast

section \<open>The functions of \<open>ftfs_db.c\<close>\<close>

lemma store_entry_update: "p < length cs \<Longrightarrow> store_entry cs p e = cs[p := e]"
  by (simp add: store_entry_def upd_conv_take_nth_drop)

lemma store_entry_append: "store_entry cs (length cs) e = cs @ [e]"
  by (simp add: store_entry_def)

lemma run_go_to_start:
  assumes "fatfs_contract ff view room" "path \<in> db_files" "mode = FA_READ \<or> mode = FA_READ OR FA_WRITE"
    "fv_open (view w) f \<noteq> None"
  shows "\<exists>w'. f_go_to_start ff f path mode (c, w) = Inr (0, c, w') \<and> view w' = at_place f (path, mode, 0) (view w)"
proof -
  obtain w1 where w1: "ff_close ff f w = (FR_OK, w1)"
    "view w1 = (view w)\<lparr>fv_open := (fv_open (view w))(f := None)\<rparr>"
    using close_file [OF assms(1), of f w] assms(4) by metis
  obtain w2 where w2: "ff_open ff f path mode w1 = (FR_OK, w2)" "view w2 = at_place f (path, mode, 0) (view w1)"
    using open_file [OF assms(1-3)] by blast
  have "view w2 = at_place f (path, mode, 0) (view w)"
    unfolding w2(2) w1(2) by (simp add: at_place_def)
  then show ?thesis
    using w1(1) w2(1) by (simp add: f_go_to_start_def run_world run_rules)
qed

lemma go_to_start_closed:
  assumes "fatfs_contract ff view room" "fv_open (view w) f = None"
  shows "\<exists>w'. f_go_to_start ff f path mode (c, w) = Inr (-1, c, w') \<and> view w' = view w"
proof -
  obtain rc w1 where w1: "ff_close ff f w = (rc, w1)" "rc \<noteq> FR_OK"
    "view w1 = (view w)\<lparr>fv_open := (fv_open (view w))(f := None)\<rparr>"
    using close_file [OF assms(1), of f w] assms(2) by metis
  have "(fv_open (view w))(f := None) = fv_open (view w)"
    using assms(2) by auto
  then show ?thesis
    using w1 by (simp add: f_go_to_start_def run_world run_rules)
qed

lemma run_write_entry:
  assumes "fatfs_contract ff view room" "fv_open (view w) f \<noteq> None" "dc_position e = int p"
    "p \<le> length (fv_clients (view w))"
  shows "\<exists>w'. write_db_entry_client ff f e (c, w)
        = Inr (if p < length (fv_clients (view w)) \<or> length (fv_clients (view w)) < room then 0 else -1, c, w')
      \<and> fv_open (view w') f \<noteq> None \<and> fv_gateways (view w') = fv_gateways (view w)
      \<and> (\<forall>f'. f' \<noteq> f \<longrightarrow> fv_open (view w') f' = fv_open (view w) f')
      \<and> fv_clients (view w') = (if p < length (fv_clients (view w)) \<or> length (fv_clients (view w)) < room
          then store_entry (fv_clients (view w)) p e else fv_clients (view w))"
proof -
  let ?R = "MQTT_SN_GATEWAY_DB_CLIENT_REGISTRY_FILE_NAME" and ?m = "FA_READ OR FA_WRITE"
  obtain w1 where w1: "f_go_to_start ff f ?R ?m (c, w) = Inr (0, c, w1)" "view w1 = at_place f (?R, ?m, 0) (view w)"
    using run_go_to_start [OF assms(1) _ _ assms(2), of ?R ?m c] file_name_differ by blast
  obtain w2 where w2: "ff_lseek ff f (p * ff_sizeof_client ff) w1 = (FR_OK, w2)" "view w2 = at_place f (?R, ?m, p) (view w)"
    using seek_file [OF assms(1), of w1 f ?R ?m 0 p] assms(4) w1(2) by (auto simp: min_def)
  have off: "nat (dc_position e) * ff_sizeof_client ff mod 2 ^ 32 = p * ff_sizeof_client ff"
    using client_offset [OF assms(1), of p] assms(1,3,4)
    by (auto simp: fatfs_contract_def sizes_contract_def intro: le_trans)
  have cs: "fv_clients (view w2) = fv_clients (view w)"
    by (simp add: w2(2))
  obtain w3 where w3: "if p < length (fv_clients (view w)) \<or> length (fv_clients (view w)) < room
      then ff_write_client ff f e w2 = ((FR_OK, ff_sizeof_client ff), w3)
        \<and> view w3 = at_place f (?R, ?m, Suc p) ((view w2)\<lparr>fv_clients := store_entry (fv_clients (view w)) p e\<rparr>)
      else ff_write_client ff f e w2 = ((FR_OK, 0), w3) \<and> view w3 = view w2"
    using write_client [OF assms(1), of w2 f p e, unfolded cs] assms(4) w2(2) by auto
  have "ff_sizeof_client ff \<noteq> 0"
    using assms(1) by (auto simp: fatfs_contract_def sizes_contract_def)
  then show ?thesis
    using w1 w2 w3 off assms(3)
    by (cases "p < length (fv_clients (view w)) \<or> length (fv_clients (view w)) < room")
      (auto simp: write_db_entry_client_def run_bind [where m = "f_go_to_start ff f ?R ?m", OF w1(1)] run_world run_rules)
qed

lemma run_read_entry:
  assumes "fatfs_contract ff view room" "p < length (fv_clients (view w))"
  shows "\<exists>w'. read_db_entry_client ff f p e (c, w) = Inr ((0, fv_clients (view w) ! p), c, w')
      \<and> view w' = at_place f (MQTT_SN_GATEWAY_DB_CLIENT_REGISTRY_FILE_NAME, FA_READ, Suc p) (view w)"
proof -
  let ?R = "MQTT_SN_GATEWAY_DB_CLIENT_REGISTRY_FILE_NAME"
  obtain w1 where w1: "ff_open ff f ?R FA_READ w = (FR_OK, w1)" "view w1 = at_place f (?R, FA_READ, 0) (view w)"
    using open_file [OF assms(1), of ?R FA_READ] by auto
  obtain w2 where w2: "ff_lseek ff f (p * ff_sizeof_client ff) w1 = (FR_OK, w2)"
    "view w2 = at_place f (?R, FA_READ, p) (view w)"
    using seek_file [OF assms(1), of w1 f ?R FA_READ 0 p] assms(2) w1(2) by (auto simp: min_def)
  have off: "p * ff_sizeof_client ff mod 2 ^ 32 = p * ff_sizeof_client ff"
    using client_offset [OF assms(1), of p] assms by (auto simp: fatfs_contract_def sizes_contract_def intro: less_imp_le less_le_trans)
  obtain w3 where w3: "ff_read_client ff f e w2 = ((FR_OK, ff_sizeof_client ff, fv_clients (view w) ! p), w3)"
    "view w3 = at_place f (?R, FA_READ, Suc p) (view w)"
    using read_client [OF assms(1), of w2 f FA_READ p e] w2(2) assms(2) by auto
  show ?thesis
    using w1(1) w2(1) w3 off by (simp add: read_db_entry_client_def run_world run_rules)
qed

text \<open>The discovered gateways: as long as their file is empty, an entry is neither read nor written.\<close>

lemma open_and_seek:
  assumes "fatfs_contract ff view room" "fv_gateways (view w) = []" "k < 65536"
  obtains w1 w2 where
    "ff_open ff local_file MQTT_SN_GATEWAY_DB_DISCOVERED_GATEWAYS_FILE_NAME FA_READ w = (FR_OK, w1)"
    "ff_lseek ff local_file (k * ff_sizeof_gateway ff mod 2 ^ 32) w1 = (FR_OK, w2)"
    "view w2 = at_place local_file (MQTT_SN_GATEWAY_DB_DISCOVERED_GATEWAYS_FILE_NAME, FA_READ, 0) (view w)"
proof -
  let ?D = "MQTT_SN_GATEWAY_DB_DISCOVERED_GATEWAYS_FILE_NAME"
  obtain w1 where w1: "ff_open ff local_file ?D FA_READ w = (FR_OK, w1)" "view w1 = at_place local_file (?D, FA_READ, 0) (view w)"
    using open_file [OF assms(1), of ?D FA_READ] by auto
  obtain w2 where "ff_lseek ff local_file (k * ff_sizeof_gateway ff) w1 = (FR_OK, w2)"
    "view w2 = at_place local_file (?D, FA_READ, 0) (view w)"
    using seek_file [OF assms(1), of w1 local_file ?D FA_READ 0 k] assms(2) w1(2) by auto
  with w1 that show ?thesis
    by (simp only: gateway_offset [OF assms(1,3)])
qed

lemma run_read_at:
  assumes "fatfs_contract ff view room" "fv_gateways (view w) = []" "k < 65536"
  shows "\<exists>x w'. f_read_at ff MQTT_SN_GATEWAY_DB_DISCOVERED_GATEWAYS_FILE_NAME k e (ff_sizeof_gateway ff) (c, w)
        = Inr ((-1, e), c, w') \<and> view w' = at_place local_file x (view w)"
proof -
  let ?D = "MQTT_SN_GATEWAY_DB_DISCOVERED_GATEWAYS_FILE_NAME"
  obtain w1 w2 where w: "ff_open ff local_file ?D FA_READ w = (FR_OK, w1)"
    "ff_lseek ff local_file (k * ff_sizeof_gateway ff mod 2 ^ 32) w1 = (FR_OK, w2)"
    "view w2 = at_place local_file (?D, FA_READ, 0) (view w)"
    using open_and_seek [OF assms] by blast
  obtain w3 where w3: "ff_read_gateway ff local_file e w2 = ((FR_OK, 0, e), w3)" "view w3 = view w2"
    using read_gateway_end [OF assms(1), of w2 local_file FA_READ 0 e] assms(2) w(3) by auto
  have "0 \<noteq> ff_sizeof_gateway ff"
    using assms(1) by (simp add: fatfs_contract_def sizes_contract_def)
  then show ?thesis
    using w w3 by (auto simp: f_read_at_def run_world run_rules simp del: power_numeral)
qed

lemma run_write_at:
  assumes "fatfs_contract ff view room" "fv_gateways (view w) = []" "k < 65536"
  shows "\<exists>x w'. f_write_at ff MQTT_SN_GATEWAY_DB_DISCOVERED_GATEWAYS_FILE_NAME k e (ff_sizeof_gateway ff) (c, w)
        = Inr (-1, c, w') \<and> view w' = at_place local_file x (view w)"
proof -
  let ?D = "MQTT_SN_GATEWAY_DB_DISCOVERED_GATEWAYS_FILE_NAME"
  obtain w1 w2 where w: "ff_open ff local_file ?D FA_READ w = (FR_OK, w1)"
    "ff_lseek ff local_file (k * ff_sizeof_gateway ff mod 2 ^ 32) w1 = (FR_OK, w2)"
    "view w2 = at_place local_file (?D, FA_READ, 0) (view w)"
    using open_and_seek [OF assms] by blast
  obtain w3 where w3: "ff_write_gateway ff local_file e w2 = ((FR_DENIED, 0), w3)" "view w3 = view w2"
    using write_gateway_denied [OF assms(1), of w2 local_file 0 e] w(3) by auto
  have "0 \<noteq> ff_sizeof_gateway ff"
    using assms(1) by (simp add: fatfs_contract_def sizes_contract_def)
  then show ?thesis
    using w w3 by (auto simp: f_write_at_def run_world run_rules simp del: power_numeral)
qed

section \<open>Searching the registry\<close>

text \<open>The files stay, and an object is left open.\<close>

definition reopened :: "FIL \<Rightarrow> file_view \<Rightarrow> file_view \<Rightarrow> bool" where
  "reopened f v v' \<longleftrightarrow> fv_clients v' = fv_clients v \<and> fv_gateways v' = fv_gateways v \<and> fv_open v' f \<noteq> None"

definition named_entry :: "DB_ENTRY_MQTT_SN_CLIENT \<Rightarrow> bool" where
  "named_entry e \<longleftrightarrow> length (dc_client_id e) = 24 \<and> 0 \<in> set (dc_client_id e)"

lemma named_entry_strlen: "named_entry e \<Longrightarrow> c_strlen (dc_client_id e) = Inr (length (c_string (dc_client_id e)))"
  by (simp add: named_entry_def c_strlen_def)

text \<open>The place a new client is put: the first entry without a client identifier, or the end.\<close>

definition free_place :: "DB_ENTRY_MQTT_SN_CLIENT list \<Rightarrow> nat" where
  "free_place cs = length (takeWhile (\<lambda>e. c_string (dc_client_id e) \<noteq> []) cs)"

lemma free_place_le: "free_place cs \<le> length cs"
  by (simp add: free_place_def length_takeWhile_le)

lemma free_place_simps [simp]:
  "free_place [] = 0" "free_place (e # cs) = (if c_string (dc_client_id e) = [] then 0 else Suc (free_place cs))"
  by (simp_all add: free_place_def)

lemma run_empty_space:
  assumes "fatfs_contract ff view room" "\<forall>e \<in> set (fv_clients (view w)). named_entry e"
    "fv_open (view w) f = Some (MQTT_SN_GATEWAY_DB_CLIENT_REGISTRY_FILE_NAME, FA_READ, p)"
    "p \<le> length (fv_clients (view w))" "length (fv_clients (view w)) - p < n"
  shows "\<exists>e' w'. empty_space_loop n ff f e line (c, w) = Inr ((line + int (free_place (drop p (fv_clients (view w)))), e'), c, w')
      \<and> reopened f (view w) (view w')"
  using assms
proof (induction n arbitrary: p e line w)
  case (Suc n)
  let ?cs = "fv_clients (view w)" and ?R = "MQTT_SN_GATEWAY_DB_CLIENT_REGISTRY_FILE_NAME"
  obtain w1 where w1: "ff_eof ff f w = (length ?cs \<le> p, w1)" "view w1 = view w"
    using end_of_file [OF Suc.prems(1,3)] by auto
  show ?case
  proof (cases "length ?cs \<le> p")
    case True
    then show ?thesis
      using w1 Suc.prems(3) by (auto simp: run_world run_rules reopened_def)
  next
    case False
    then have e: "drop p ?cs = ?cs ! p # drop (Suc p) ?cs" "?cs ! p \<in> set ?cs"
      by (auto simp: Cons_nth_drop_Suc)
    obtain w2 where w2: "ff_read_client ff f empty_entry w1 = ((FR_OK, ff_sizeof_client ff, ?cs ! p), w2)"
      "view w2 = at_place f (?R, FA_READ, Suc p) (view w)"
      using read_client [OF Suc.prems(1), of w1 f FA_READ p empty_entry] Suc.prems(3) False w1(2) by auto
    have size: "0 < ff_sizeof_client ff"
      using Suc.prems(1) by (simp add: fatfs_contract_def sizes_contract_def)
    note len = named_entry_strlen [OF bspec [OF Suc.prems(2) e(2)]]
    have "\<exists>e' w'. empty_space_loop n ff f (?cs ! p) (line + 1) (c, w2)
        = Inr ((line + 1 + int (free_place (drop (Suc p) ?cs)), e'), c, w') \<and> reopened f (view w) (view w')"
      using Suc.IH [of w2 "Suc p" "?cs ! p" "line + 1"] Suc.prems False w2(2) by (auto simp: reopened_def)
    then show ?thesis
      using w1(1) w2 False e(1) size by (auto simp: run_world run_rules len reopened_def)
  qed
qed simp

lemma run_find_empty_entry:
  assumes "fatfs_contract ff view room" "\<forall>e \<in> set (fv_clients (view w)). named_entry e" "fv_open (view w) f \<noteq> None"
    "room < n"
  shows "\<exists>e' w'. find_empty_entry_space_in_registry n ff e f MQTT_SN_GATEWAY_DB_CLIENT_REGISTRY_FILE_NAME (c, w)
        = Inr ((int (free_place (fv_clients (view w))), e'), c, w') \<and> reopened f (view w) (view w')"
proof -
  let ?R = "MQTT_SN_GATEWAY_DB_CLIENT_REGISTRY_FILE_NAME"
  obtain w1 where w1: "f_go_to_start ff f ?R FA_READ (c, w) = Inr (0, c, w1)" "view w1 = at_place f (?R, FA_READ, 0) (view w)"
    using run_go_to_start [OF assms(1) _ _ assms(3), of ?R FA_READ c] file_name_differ by blast
  have "length (fv_clients (view w)) \<le> room"
    using assms(1) by (simp add: fatfs_contract_def sizes_contract_def)
  then obtain e' w' where "empty_space_loop n ff f e 0 (c, w1) = Inr ((0 + int (free_place (fv_clients (view w))), e'), c, w')"
    "reopened f (view w) (view w')"
    using run_empty_space [OF assms(1), of w1 f 0 n e 0 c] w1(2) assms(2,4) by (auto simp: reopened_def)
  then show ?thesis
    using w1(1)
    by (auto simp: find_empty_entry_space_in_registry_def run_rules
        run_bind [where m = "f_go_to_start ff f ?R FA_READ", OF w1(1)])
qed

end
