(* ===== verification/Gateway_Transactions.thy ===== *)
theory Gateway_Transactions
  imports Gateway_Db Gateway_Files
begin

text \<open>
  Transactions on the registry of clients, on a volume that keeps the contract: what a transaction finds, what
  its end writes, and the invariant of the database. Every entry of the registry knows its place.
\<close>

section \<open>The invariant of the database\<close>

definition entry_ok :: "DB_ENTRY_MQTT_SN_CLIENT \<Rightarrow> bool" where
  "entry_ok e \<longleftrightarrow> named_entry e \<and> length (dc_client_address e) = device_address_size
     \<and> length (dc_forwarder_addresses e) = DB_ENTRY_MQTT_SN_CLIENT_MAX_FORWARDER_COUNT
     \<and> (\<forall>a \<in> set (dc_forwarder_addresses e). length a = device_address_size)
     \<and> dc_forwarder_address_len e \<le> DB_ENTRY_MQTT_SN_CLIENT_MAX_FORWARDER_COUNT \<and> 0 \<le> dc_position e
     \<and> length (dc_file_number e) = 9 \<and> 0 \<in> set (dc_file_number e)"

definition registry_ok :: "DB_ENTRY_MQTT_SN_CLIENT list \<Rightarrow> bool" where
  "registry_ok cs \<longleftrightarrow> (\<forall>i < length cs. entry_ok (cs ! i) \<and> dc_position (cs ! i) = int i)"

text \<open>
  In a transaction the registry is open and the database has not failed; the entry of the transaction is
  well-formed and belongs to a place of the registry or to the next one.
\<close>

definition db_ok :: "('w \<Rightarrow> file_view) \<Rightarrow> db_handler \<times> 'w \<Rightarrow> bool" where
  "db_ok view s \<longleftrightarrow>
     (let h = fst s; v = view (snd s) in
      registry_ok (fv_clients v) \<and> fv_gateways v = [] \<and> entry_ok (d_entry_client h)
      \<and> dc_position (d_entry_client h) \<le> int (length (fv_clients v))
      \<and> (\<not> d_database_error h \<longrightarrow> unat (d_client_count h)
             \<le> max (length (fv_clients v)) (if d_client_transaction_started h then Suc (nat (dc_position (d_entry_client h))) else 0))
      \<and> length (d_discovered_gw_list h) = UINT8_MAX
      \<and> (d_client_transaction_started h \<longrightarrow> \<not> d_database_error h \<and> fv_open v client_registry_file \<noteq> None))"

lemma empty_entry_ok [simp]: "entry_ok empty_entry" "dc_position empty_entry = 0"
  by (simp_all add: entry_ok_def named_entry_def empty_entry_def)

lemma registry_ok_named: "registry_ok cs \<Longrightarrow> \<forall>e \<in> set cs. named_entry e"
  by (auto simp: registry_ok_def entry_ok_def in_set_conv_nth)

lemma registry_ok_store:
  assumes "registry_ok cs" "entry_ok e" "dc_position e = int p" "p \<le> length cs"
  shows "registry_ok (store_entry cs p e)"
proof (cases "p < length cs")
  case True
  then show ?thesis
    using assms by (auto simp: store_entry_update registry_ok_def nth_list_update)
next
  case False
  then show ?thesis
    using assms store_entry_append [of cs e] by (auto simp: registry_ok_def nth_append less_Suc_eq)
qed

lemma length_store_entry: "p \<le> length cs \<Longrightarrow> length (store_entry cs p e) = max (length cs) (Suc p)"
  by (auto simp: store_entry_def)

section \<open>The start of a transaction\<close>

text \<open>The entry a client is found by: the first with its address.\<close>

definition find_by_address :: "u8 list \<Rightarrow> DB_ENTRY_MQTT_SN_CLIENT list \<Rightarrow> DB_ENTRY_MQTT_SN_CLIENT option" where
  "find_by_address a = List.find (\<lambda>e. dc_client_address e = a)"

definition search_result ::
  "u8 list \<Rightarrow> DB_ENTRY_MQTT_SN_CLIENT list \<Rightarrow> db_handler \<Rightarrow> DB_ENTRY_MQTT_SN_CLIENT_RESULT \<times> db_handler" where
  "search_result a cs h =
     (case find_by_address a cs of
        Some e \<Rightarrow> (d_client_transaction_result h, h\<lparr>d_entry_client := e\<rparr>)
      | None \<Rightarrow> (DB_ENTRY_MQTT_SN_CLIENT_RESULT_CLIENT_NOT_FOUND,
                 h\<lparr>d_entry_client := empty_entry,
                   d_client_transaction_result := DB_ENTRY_MQTT_SN_CLIENT_RESULT_CLIENT_NOT_FOUND\<rparr>))"

lemma entry_matches_address:
  assumes "named_entry e"
  shows "entry_matches n n e (Some a) c = Inr (dc_client_address e = a)"
proof -
  have "length (c_string (dc_client_id e)) < 24"
    using assms length_c_string_less [of "dc_client_id e"] by (simp add: named_entry_def)
  then show ?thesis
    using named_entry_strlen [OF assms] by (simp add: entry_matches_def MQTT_SN_CLIENTID_MAX_LENGTH_def)
qed

lemma run_find_client:
  assumes "fatfs_contract ff view room" "\<forall>e \<in> set (fv_clients (view w)). named_entry e"
    "fv_open (view w) client_registry_file = Some (MQTT_SN_GATEWAY_DB_CLIENT_REGISTRY_FILE_NAME, FA_READ, p)"
    "p \<le> length (fv_clients (view w))" "length (fv_clients (view w)) - p < n"
  shows "\<exists>r h' w'. find_client_loop n ff (Some a) None (h, w) = Inr (r, h', w')
      \<and> (r, h') = search_result a (drop p (fv_clients (view w))) h \<and> reopened client_registry_file (view w) (view w')"
  using assms
proof (induction n arbitrary: p h w)
  case (Suc n)
  let ?cs = "fv_clients (view w)" and ?R = "MQTT_SN_GATEWAY_DB_CLIENT_REGISTRY_FILE_NAME"
  have size: "ff_sizeof_client ff mod 65536 = ff_sizeof_client ff" "0 < ff_sizeof_client ff"
    using Suc.prems(1) by (simp_all add: fatfs_contract_def sizes_contract_def)
  show ?case
  proof (cases "length ?cs \<le> p")
    case True
    then obtain w1 where w1: "ff_read_client ff client_registry_file empty_entry w = ((FR_OK, 0, empty_entry), w1)" "view w1 = view w"
      using read_client_end [OF Suc.prems(1,3)] by blast
    then show ?thesis
      using True size Suc.prems(3)
      by (simp add: run_world run_rules entry_matches_def search_result_def find_by_address_def db_set_result_def reopened_def)
  next
    case False
    then have e: "drop p ?cs = ?cs ! p # drop (Suc p) ?cs" "?cs ! p \<in> set ?cs"
      by (auto simp: Cons_nth_drop_Suc)
    obtain w1 where w1: "ff_read_client ff client_registry_file empty_entry w = ((FR_OK, ff_sizeof_client ff, ?cs ! p), w1)"
      "view w1 = at_place client_registry_file (?R, FA_READ, Suc p) (view w)"
      using read_client [OF Suc.prems(1,3), of empty_entry] False by auto
    note found = entry_matches_address [OF bspec [OF Suc.prems(2) e(2)], of "ff_sizeof_client ff" a None]
    have "\<exists>r h' w'. find_client_loop n ff (Some a) None (h\<lparr>d_entry_client := ?cs ! p\<rparr>, w1) = Inr (r, h', w')
        \<and> (r, h') = search_result a (drop (Suc p) ?cs) (h\<lparr>d_entry_client := ?cs ! p\<rparr>)
        \<and> reopened client_registry_file (view w) (view w')"
      using Suc.IH [of w1 "Suc p" "h\<lparr>d_entry_client := ?cs ! p\<rparr>"] Suc.prems False w1(2) by (auto simp: reopened_def)
    then show ?thesis
      using w1 size e(1) found
      by (auto simp: run_world run_rules search_result_def find_by_address_def reopened_def split: option.splits)
  qed
qed simp

lemma db_ok_parts:
  assumes "db_ok view (h, w)"
  shows "registry_ok (fv_clients (view w))" "fv_gateways (view w) = []" "entry_ok (d_entry_client h)"
    "dc_position (d_entry_client h) \<le> int (length (fv_clients (view w)))" "length (d_discovered_gw_list h) = UINT8_MAX"
    "\<not> d_database_error h \<Longrightarrow> unat (d_client_count h) \<le> max (length (fv_clients (view w)))
      (if d_client_transaction_started h then Suc (nat (dc_position (d_entry_client h))) else 0)"
    "d_client_transaction_started h \<Longrightarrow> \<not> d_database_error h"
    "d_client_transaction_started h \<Longrightarrow> fv_open (view w) client_registry_file \<noteq> None"
  using assms by (auto simp: db_ok_def Let_def)

lemma search_result_ok:
  assumes "db_ok view (h, w)" "reopened client_registry_file (view w) (view w')" "d_client_transaction_started h'"
    "\<not> d_database_error h'" "d_client_count h' = d_client_count h" "d_discovered_gw_list h' = d_discovered_gw_list h"
    "\<not> d_client_transaction_started h" "\<not> d_database_error h" "(r, h'') = search_result a (fv_clients (view w)) h'"
  shows "db_ok view (h'', w')"
proof -
  note ok = db_ok_parts [OF assms(1)]
  have count: "unat (d_client_count h) \<le> length (fv_clients (view w))"
    using ok(6) assms(7,8) by simp
  show ?thesis
  proof (cases "find_by_address a (fv_clients (view w))")
    case None
    then show ?thesis
      using assms ok(1,2,5) count by (auto simp: search_result_def db_ok_def reopened_def Let_def)
  next
    case (Some e)
    then obtain i where "i < length (fv_clients (view w))" "e = fv_clients (view w) ! i"
      unfolding find_by_address_def find_Some_iff by blast
    then have "entry_ok e" "dc_position e \<le> int (length (fv_clients (view w)))"
      using ok(1) by (auto simp: registry_ok_def)
    then show ?thesis
      using assms ok(1,2,5) count Some by (auto simp: search_result_def db_ok_def reopened_def Let_def)
  qed
qed

text \<open>The state in which a transaction by address finds or misses its client.\<close>

definition opened :: "db_handler \<Rightarrow> db_handler" where
  "opened h = h\<lparr>d_transaction_result := DB_HANDLER_RESULT_SUCCESS, d_client_transaction_started := True\<rparr>"

lemma run_start:
  assumes "fatfs_contract (ge_fs env) view room" "room < ge_fuel env" "db_ok view (h, w)"
    "\<not> d_client_transaction_started h" "\<not> d_database_error h"
  shows "\<exists>r h' w'. db_start_client_transaction env (Some a) None (h, w) = Inr (r, h', w')
      \<and> (r, h') = search_result a (fv_clients (view w)) (opened h) \<and> reopened client_registry_file (view w) (view w')
      \<and> db_ok view (h', w')"
proof -
  let ?R = "MQTT_SN_GATEWAY_DB_CLIENT_REGISTRY_FILE_NAME"
  obtain w1 where w1: "ff_open (ge_fs env) client_registry_file ?R FA_READ w = (FR_OK, w1)"
    "view w1 = at_place client_registry_file (?R, FA_READ, 0) (view w)"
    using open_file [OF assms(1), of ?R FA_READ] by auto
  have "length (fv_clients (view w)) \<le> room"
    using assms(1) by (simp add: fatfs_contract_def sizes_contract_def)
  then obtain r h' w' where f: "find_client_loop (ge_fuel env) (ge_fs env) (Some a) None (opened h, w1) = Inr (r, h', w')"
    "(r, h') = search_result a (fv_clients (view w)) (opened h)" "reopened client_registry_file (view w1) (view w')"
    using run_find_client [OF assms(1), of w1 0 "ge_fuel env" a "opened h"] assms(2) w1(2)
      registry_ok_named [OF db_ok_parts(1) [OF assms(3)]] by auto
  have same: "reopened client_registry_file (view w) (view w')"
    using f(3) w1(2) by (simp add: reopened_def)
  have "db_start_client_transaction env (Some a) None (h, w) = Inr (r, h', w')"
    using f(1) w1(1) assms(4,5)
    by (simp add: db_start_client_transaction_def db_assert_def run_world run_rules opened_def)
  moreover have "db_ok view (h', w')"
    using search_result_ok [OF assms(3) same _ _ _ _ assms(4,5) f(2)] assms(5) by (simp add: opened_def)
  ultimately show ?thesis
    using f(2) same by blast
qed

lemma start_open: "d_client_transaction_started h \<Longrightarrow> db_start_client_transaction env (Some a) c (h, w) = Inl Assertion"
  by (simp add: db_start_client_transaction_def db_assert_def run_rules)

definition db_failed :: "db_handler \<Rightarrow> db_handler" where
  "db_failed h = h\<lparr>d_transaction_result := DB_HANDLER_RESULT_ERROR, d_client_transaction_result := DB_ENTRY_MQTT_SN_CLIENT_RESULT_ERROR\<rparr>"

lemma run_fail: "db_fail (h, w) = Inr (DB_ENTRY_MQTT_SN_CLIENT_RESULT_ERROR, db_failed h, w)"
  by (simp add: db_fail_def db_failed_def run_rules)

lemma db_ok_failed [simp]: "db_ok view (db_failed h, w) = db_ok view (h, w)"
  by (simp add: db_ok_def db_failed_def)

lemma start_failed:
  assumes "\<not> d_client_transaction_started h" "d_database_error h"
  shows "db_start_client_transaction env (Some a) c (h, w) = Inr (DB_ENTRY_MQTT_SN_CLIENT_RESULT_ERROR, db_failed h, w)"
  using assms by (simp add: db_start_client_transaction_def db_assert_def run_rules run_fail) (simp add: db_failed_def)

text \<open>By count, as the check of the timeouts goes through the clients.\<close>

lemma run_start_by_count:
  assumes "fatfs_contract (ge_fs env) view room" "db_ok view (h, w)" "\<not> d_client_transaction_started h"
    "\<not> d_database_error h" "n < d_client_count h"
  shows "\<exists>w'. db_start_client_transaction_by_client_count env n (h, w)
      = Inr (DB_ENTRY_MQTT_SN_CLIENT_RESULT_SUCCESS, (opened h)\<lparr>d_entry_client := fv_clients (view w) ! unat n,
          d_client_transaction_result := DB_ENTRY_MQTT_SN_CLIENT_RESULT_SUCCESS\<rparr>, w')
      \<and> reopened client_registry_file (view w) (view w') \<and> unat n < length (fv_clients (view w))
      \<and> db_ok view ((opened h)\<lparr>d_entry_client := fv_clients (view w) ! unat n,
          d_client_transaction_result := DB_ENTRY_MQTT_SN_CLIENT_RESULT_SUCCESS\<rparr>, w')"
proof -
  note ok = db_ok_parts [OF assms(2)]
  have count: "unat (d_client_count h) \<le> length (fv_clients (view w))"
    using ok(6) assms(3,4) by simp
  then have n: "unat n < length (fv_clients (view w))"
    using assms(5) by (simp add: word_less_nat_alt)
  then have e: "entry_ok (fv_clients (view w) ! unat n)" "dc_position (fv_clients (view w) ! unat n) = int (unat n)"
    using ok(1) by (simp_all add: registry_ok_def)
  have u: "uint n \<le> int (length (fv_clients (view w)))"
    using n by (metis less_imp_le of_nat_le_iff uint_nat)
  let ?h = "h\<lparr>d_transaction_result := DB_HANDLER_RESULT_SUCCESS,
    d_client_transaction_result := DB_ENTRY_MQTT_SN_CLIENT_RESULT_SUCCESS, d_client_transaction_started := True\<rparr>"
  obtain w' where w': "read_db_entry_client (ge_fs env) client_registry_file (unat n) (d_entry_client h) (?h, w)
      = Inr ((0, fv_clients (view w) ! unat n), ?h, w')"
    "view w' = at_place client_registry_file (MQTT_SN_GATEWAY_DB_CLIENT_REGISTRY_FILE_NAME, FA_READ, Suc (unat n)) (view w)"
    using run_read_entry [OF assms(1) n, of client_registry_file "d_entry_client h" ?h] by blast
  have "db_start_client_transaction_by_client_count env n (h, w)
      = Inr (DB_ENTRY_MQTT_SN_CLIENT_RESULT_SUCCESS, ?h\<lparr>d_entry_client := fv_clients (view w) ! unat n\<rparr>, w')"
    using assms(3-5) w'(1)
    by (simp add: db_start_client_transaction_by_client_count_def db_assert_def run_rules
        run_bind [where m = "read_db_entry_client (ge_fs env) client_registry_file (unat n) (d_entry_client h)", OF w'(1)])
  then show ?thesis
    using w'(2) n e u ok(1,2,5) count assms(4) by (auto simp: reopened_def db_ok_def opened_def Let_def)
qed

section \<open>The end of a transaction\<close>

definition registry_after :: "nat \<Rightarrow> DB_ENTRY_MQTT_SN_CLIENT \<Rightarrow> DB_ENTRY_MQTT_SN_CLIENT list \<Rightarrow> DB_ENTRY_MQTT_SN_CLIENT list" where
  "registry_after room e cs =
     (if nat (dc_position e) < length cs \<or> length cs < room then store_entry cs (nat (dc_position e)) e else cs)"

lemma run_end:
  assumes "fatfs_contract (ge_fs env) view room" "db_ok view (h, w)" "d_client_transaction_started h"
  shows "\<exists>r h' w'. db_end_client_transaction env (h, w) = Inr (r, h', w') \<and> db_ok view (h', w')
      \<and> \<not> d_client_transaction_started h' \<and> fv_clients (view w') = registry_after room (d_entry_client h) (fv_clients (view w))
      \<and> (if nat (dc_position (d_entry_client h)) < length (fv_clients (view w)) \<or> length (fv_clients (view w)) < room
         then r = d_client_transaction_result h \<and> h' = h\<lparr>d_client_transaction_started := False\<rparr>
         else r = DB_ENTRY_MQTT_SN_CLIENT_RESULT_ERROR
           \<and> h' = db_failed (h\<lparr>d_client_transaction_started := False, d_database_error := True\<rparr>))"
proof -
  note ok = db_ok_parts [OF assms(2)]
  let ?e = "d_entry_client h" and ?cs = "fv_clients (view w)"
  define p where "p = nat (dc_position ?e)"
  have p: "dc_position ?e = int p" "p \<le> length ?cs"
    using ok(3,4) by (auto simp: p_def entry_ok_def)
  let ?fits = "p < length ?cs \<or> length ?cs < room"
  obtain w1 where w1: "write_db_entry_client (ge_fs env) client_registry_file ?e (h, w) = Inr (if ?fits then 0 else -1, h, w1)"
    "fv_open (view w1) client_registry_file \<noteq> None" "fv_gateways (view w1) = fv_gateways (view w)"
    "fv_clients (view w1) = (if ?fits then store_entry ?cs p ?e else ?cs)"
    using run_write_entry [OF assms(1) ok(8) [OF assms(3)] p, of h] by blast
  have err: "\<not> d_database_error h"
    using ok(7) assms(3) by blast
  note step = run_bind [where m = "write_db_entry_client (ge_fs env) client_registry_file ?e", OF w1(1)]
  have e: "registry_ok (store_entry ?cs p ?e)" "length (store_entry ?cs p ?e) = max (length ?cs) (Suc p)"
    using registry_ok_store [OF ok(1,3) p] length_store_entry [OF p(2)] by simp_all
  show ?thesis
  proof (cases ?fits)
    case True
    obtain rc w2 where w2: "ff_close (ge_fs env) client_registry_file w1 = (rc, w2)" "rc = FR_OK"
      "view w2 = (view w1)\<lparr>fv_open := (fv_open (view w1))(client_registry_file := None)\<rparr>"
      using close_file [OF assms(1), of client_registry_file w1] w1(2) by metis
    have "db_end_client_transaction env (h, w)
        = Inr (d_client_transaction_result h, h\<lparr>d_client_transaction_started := False\<rparr>, w2)"
      using True w2 assms(3) by (simp add: db_end_client_transaction_def db_assert_def run_rules step run_world)
    moreover have "db_ok view (h\<lparr>d_client_transaction_started := False\<rparr>, w2)"
      using True w1(3,4) w2(3) ok(2,3,5,6) assms(3) err e p by (auto simp: db_ok_def Let_def p_def [symmetric])
    ultimately show ?thesis
      using True w1(4) w2(3) by (auto simp: registry_after_def p_def [symmetric])
  next
    case False
    have "db_end_client_transaction env (h, w) = Inr (DB_ENTRY_MQTT_SN_CLIENT_RESULT_ERROR,
        db_failed (h\<lparr>d_client_transaction_started := False, d_database_error := True\<rparr>), w1)"
      using False assms(3)
      by (simp add: db_end_client_transaction_def DB_HANDLER_SET_CLIENT_TRANSACTION_ERROR_def db_assert_def run_rules step
          run_fail)
    moreover have "db_ok view (h\<lparr>d_client_transaction_started := False, d_database_error := True\<rparr>, w1)"
      using False w1(3,4) ok(1-5) by (auto simp: db_ok_def Let_def)
    ultimately show ?thesis
      using False w1(4) by (auto simp: registry_after_def p_def [symmetric]) (simp add: db_failed_def)
  qed
qed

lemma end_closed: "\<not> d_client_transaction_started h \<Longrightarrow> db_end_client_transaction env (h, w) = Inl Assertion"
  by (simp add: db_end_client_transaction_def db_assert_def run_rules)

section \<open>Entries\<close>

lemma copy_addresses_eq:
  assumes "len \<le> length src" "len \<le> length dst"
  shows "copy_addresses i len src dst
    = Inr (if i \<le> len then take i dst @ take (len - i) (drop i src) @ drop len dst else dst)"
  using assms
proof (induction i len src dst rule: copy_addresses.induct)
  case (1 i len src dst)
  show ?case
  proof (cases "i < len")
    case True
    then have "take (Suc i) (dst[i := src ! i]) = take i dst @ [src ! i]"
      "drop len (dst[i := src ! i]) = drop len dst" "drop i src = src ! i # drop (Suc i) src"
      using 1(2,3) by (simp_all add: take_Suc_conv_app_nth Cons_nth_drop_Suc)
    moreover have "take (len - i) (src ! i # drop (Suc i) src) = src ! i # take (len - Suc i) (drop (Suc i) src)"
      using True by (simp add: take_Cons' )
    ultimately show ?thesis
      using 1 True by (subst copy_addresses.simps) (auto simp: take_Cons' split: if_splits)
  next
    case False
    then show ?thesis
      by (subst copy_addresses.simps) (auto simp: le_less)
  qed
qed

definition addresses_ok :: "u8 list list \<Rightarrow> bool" where
  "addresses_ok as \<longleftrightarrow> length as = DB_ENTRY_MQTT_SN_CLIENT_MAX_FORWARDER_COUNT \<and> (\<forall>a \<in> set as. length a = device_address_size)"

lemma copy_addresses_ok:
  assumes "addresses_ok src" "addresses_ok dst" "len \<le> DB_ENTRY_MQTT_SN_CLIENT_MAX_FORWARDER_COUNT"
  shows "\<exists>as. copy_addresses i len src dst = Inr as \<and> addresses_ok as"
proof -
  have "copy_addresses i len src dst
      = Inr (if i \<le> len then take i dst @ take (len - i) (drop i src) @ drop len dst else dst)"
    using assms by (intro copy_addresses_eq) (simp_all add: addresses_ok_def)
  moreover have "addresses_ok (take i dst @ take (len - i) (drop i src) @ drop len dst)" if "i \<le> len"
    using assms that by (auto simp: addresses_ok_def dest!: in_set_takeD in_set_dropD)
  ultimately show ?thesis
    using assms(2) by auto
qed

lemma decimal_length: "0 < k \<Longrightarrow> n < 10 ^ k \<Longrightarrow> length (decimal n) \<le> k"
proof (induction k arbitrary: n)
  case (Suc k)
  show ?case
  proof (cases "n < 10")
    case False
    then have "n div 10 < 10 ^ k" "0 < k"
      using Suc.prems by (auto intro: Suc_leI) (cases k; simp)
    then show ?thesis
      using Suc.IH [of "n div 10"] False by (subst decimal.simps) simp
  qed (subst decimal.simps; simp)
qed simp

lemma file_number_length:
  assumes "n < 10 ^ 8"
  shows "length (file_number_text n) = 9" "0 \<in> set (file_number_text n)"
  using decimal_length [of 8 n] assms by (simp_all add: file_number_text_def Let_def)

lemma room_small: "fatfs_contract ff view room \<Longrightarrow> room < 10 ^ 8"
proof -
  assume c: "fatfs_contract ff view room"
  have "room * 43 \<le> room * ff_sizeof_client ff"
    using c by (intro mult_le_mono2) (simp add: fatfs_contract_def sizes_contract_def)
  also have "\<dots> < 2 ^ 32"
    using c unfolding fatfs_contract_def sizes_contract_def by blast
  finally show ?thesis
    by simp
qed

definition fit_name :: "u8 list \<Rightarrow> bool" where
  "fit_name p \<longleftrightarrow> 0 \<in> set p \<and> 1 \<le> length (c_string p) \<and> length (c_string p) \<le> 23"

lemma named_patched:
  assumes "length dst = 24" "length (c_string p) \<le> 23"
  shows "length (patched dst (c_string p @ [0])) = 24" "0 \<in> set (patched dst (c_string p @ [0]))"
    "wr_bytes dst 0 (c_string p @ [0]) = Inr (patched dst (c_string p @ [0]))"
  using assms by (simp_all add: length_patched) (simp add: patched_def)

text \<open>A new entry, and a known one taken over.\<close>

definition new_client :: "u8 list \<Rightarrow> u8 list \<Rightarrow> u8 list list \<Rightarrow> nat \<Rightarrow> u16 \<Rightarrow> u64 \<Rightarrow> nat \<Rightarrow> DB_ENTRY_MQTT_SN_CLIENT" where
  "new_client client_id address fwds len duration t p =
     empty_entry\<lparr>dc_client_id := patched (replicate 24 0) (c_string client_id @ [0]), dc_client_address := address,
       dc_connect_duration := duration, dc_last_ping_req_received := t, dc_last_ping_resp_received := t,
       dc_file_number := file_number_text p, dc_position := int p, dc_ping_req_await_message_type := ANY_MESSAGE_TYPE,
       dc_client_status := DB_ENTRY_MQTT_SN_CLIENT_STATUS_ACTIVE,
       dc_await_messages := replicate DB_ENTRY_MQTT_SN_CLIENT_MAX_MESSAGES_IN_FLIGHT init_db_entry_mqtt_sn_client_await_message,
       dc_forwarder_address_len := len,
       dc_forwarder_addresses := take len fwds @ drop len (dc_forwarder_addresses empty_entry)\<rparr>"

definition renewed_entry :: "DB_ENTRY_MQTT_SN_CLIENT \<Rightarrow> u8 list \<Rightarrow> u8 list \<Rightarrow> u8 list list \<Rightarrow> nat \<Rightarrow> u16 \<Rightarrow> u64 \<Rightarrow> DB_ENTRY_MQTT_SN_CLIENT" where
  "renewed_entry e client_id address fwds len duration t =
     e\<lparr>dc_client_id := patched (dc_client_id e) (c_string client_id @ [0]), dc_client_address := address,
       dc_connect_duration := duration, dc_last_ping_req_received := t, dc_last_ping_resp_received := t,
       dc_ping_req_await_message_type := ANY_MESSAGE_TYPE, dc_client_status := DB_ENTRY_MQTT_SN_CLIENT_STATUS_ACTIVE,
       dc_forwarder_address_len := len, dc_forwarder_addresses := take len fwds @ drop len (dc_forwarder_addresses e)\<rparr>"

lemma copied_ok:
  "addresses_ok fwds \<Longrightarrow> addresses_ok as \<Longrightarrow> addresses_ok (take len fwds @ drop len as)"
  by (auto simp: addresses_ok_def min_def dest!: in_set_takeD in_set_dropD)

lemma entry_addresses: "entry_ok e \<Longrightarrow> addresses_ok (dc_forwarder_addresses e)"
  by (simp add: entry_ok_def addresses_ok_def)

lemma set_forwarders_eq:
  assumes "addresses_ok fwds" "addresses_ok (dc_forwarder_addresses e)" "len \<le> DB_ENTRY_MQTT_SN_CLIENT_MAX_FORWARDER_COUNT"
  shows "set_db_entry_mqtt_sn_client_forwarder_addresses e fwds len
    = Inr (e\<lparr>dc_forwarder_address_len := len, dc_forwarder_addresses := take len fwds @ drop len (dc_forwarder_addresses e)\<rparr>)"
  using assms by (simp add: set_db_entry_mqtt_sn_client_forwarder_addresses_def copy_addresses_eq addresses_ok_def)

lemma init_entry_eq:
  assumes "fit_name client_id" "addresses_ok fwds" "len \<le> DB_ENTRY_MQTT_SN_CLIENT_MAX_FORWARDER_COUNT" "p < 10 ^ 8"
  shows "init_db_entry_mqtt_sn_client client_id address fwds len duration t (int p)
    = Inr (new_client client_id address fwds len duration t p)"
proof -
  have id: "wr_bytes (dc_client_id empty_entry) 0 (c_string client_id @ [0]) = Inr (patched (replicate 24 0) (c_string client_id @ [0]))"
    using named_patched(3) [of "replicate 24 0" client_id] assms(1) by (simp add: fit_name_def empty_entry_def)
  have num: "wr_bytes (dc_file_number empty_entry) 0 (file_number_text p) = Inr (file_number_text p)"
    using file_number_length(1) [OF assms(4)] by (simp add: empty_entry_def patched_def)
  show ?thesis
    using assms(1) set_forwarders_eq [OF assms(2) _ assms(3)] entry_addresses [OF empty_entry_ok(1)]
    by (simp add: init_db_entry_mqtt_sn_client_def c_strlen_def fit_name_def MQTT_SN_CLIENTID_MIN_LENGTH_def
        MQTT_SN_CLIENTID_MAX_LENGTH_def MQTT_SN_CLIENTID_NULL_TERMINATOR_def id num new_client_def)
qed

lemma new_client_ok:
  assumes "fit_name client_id" "addresses_ok fwds" "len \<le> DB_ENTRY_MQTT_SN_CLIENT_MAX_FORWARDER_COUNT" "p < 10 ^ 8"
    "length address = device_address_size"
  shows "entry_ok (new_client client_id address fwds len duration t p)"
  using named_patched [of "replicate 24 0" client_id] file_number_length [OF assms(4)] assms
    copied_ok [OF assms(2) entry_addresses [OF empty_entry_ok(1)], of len]
  by (simp add: entry_ok_def new_client_def named_entry_def fit_name_def addresses_ok_def)

lemma reset_entry_eq:
  assumes "entry_ok e" "fit_name client_id" "addresses_ok fwds" "len \<le> DB_ENTRY_MQTT_SN_CLIENT_MAX_FORWARDER_COUNT"
  shows "reset_db_entry_mqtt_sn_client e client_id address fwds len duration t
    = Inr (renewed_entry e client_id address fwds len duration t)"
  using assms(2) named_patched(3) [of "dc_client_id e" client_id] set_forwarders_eq [OF assms(3) _ assms(4)]
    entry_addresses [OF assms(1)] assms(1)
  by (simp add: reset_db_entry_mqtt_sn_client_def c_strlen_def fit_name_def MQTT_SN_CLIENTID_MIN_LENGTH_def
      MQTT_SN_CLIENTID_MAX_LENGTH_def MQTT_SN_CLIENTID_NULL_TERMINATOR_def renewed_entry_def entry_ok_def named_entry_def)

lemma renewed_entry_ok:
  assumes "entry_ok e" "fit_name client_id" "addresses_ok fwds" "len \<le> DB_ENTRY_MQTT_SN_CLIENT_MAX_FORWARDER_COUNT"
    "length address = device_address_size"
  shows "entry_ok (renewed_entry e client_id address fwds len duration t)"
  using named_patched [of "dc_client_id e" client_id] assms copied_ok [OF assms(3) entry_addresses [OF assms(1)], of len]
  by (simp add: entry_ok_def renewed_entry_def named_entry_def fit_name_def addresses_ok_def)

section \<open>Operations on the entry\<close>

lemma run_checked: "d_client_transaction_started h \<Longrightarrow> \<not> d_database_error h \<Longrightarrow> db_checked m (h, w) = m (h, w)"
  by (simp add: db_checked_def db_assert_def run_rules)

lemma run_db_get:
  "d_client_transaction_started h \<Longrightarrow> \<not> d_database_error h \<Longrightarrow>
     db_get f (h, w) = Inr ((d_client_transaction_result h, Some (f (d_entry_client h))), h, w)"
  by (simp add: db_get_def db_assert_def run_rules)

lemma run_db_set:
  "d_client_transaction_started h \<Longrightarrow> \<not> d_database_error h \<Longrightarrow>
     db_set f (h, w) = Inr (d_client_transaction_result h, h\<lparr>d_entry_client := f (d_entry_client h)\<rparr>, w)"
  by (simp add: db_set_def run_checked run_rules)

lemma run_exist:
  "d_client_transaction_started h \<Longrightarrow> \<not> d_database_error h \<Longrightarrow> client_exist (h, w) = Inr (d_client_transaction_result h, h, w)"
  by (simp add: client_exist_def run_checked run_rules)

lemma db_ok_entry:
  assumes "db_ok view (h, w)" "entry_ok e" "dc_position e = dc_position (d_entry_client h)"
  shows "db_ok view (h\<lparr>d_entry_client := e\<rparr>, w)"
  using assms by (auto simp: db_ok_def Let_def)

text \<open>The count of clients after one was put into a place.\<close>

definition counted :: "nat \<Rightarrow> u64 \<Rightarrow> u64" where
  "counted p n = (if n < of_nat (Suc p) then of_nat (Suc p) else n)"

definition client_added :: "DB_ENTRY_MQTT_SN_CLIENT \<Rightarrow> db_handler \<Rightarrow> db_handler" where
  "client_added e h = h\<lparr>d_entry_client := e, d_client_count := counted (nat (dc_position e)) (d_client_count h),
     d_client_transaction_result := DB_ENTRY_MQTT_SN_CLIENT_RESULT_SUCCESS\<rparr>"

lemma counted_le:
  assumes "Suc p < 2 ^ 64" "unat n \<le> max m k"
  shows "unat (counted p n) \<le> max (max m k) (Suc p)"
proof -
  have "unat (of_nat (Suc p) :: u64) = Suc p"
    using assms(1) by (simp only: unat_of_nat) simp
  then show ?thesis
    using assms(2) unfolding counted_def by (auto simp: max_def split: if_splits)
qed

lemma run_add_client:
  assumes "fatfs_contract (ge_fs env) view room" "room < ge_fuel env" "db_ok view (h, w)" "d_client_transaction_started h"
    and "d_client_transaction_result h \<in> {DB_ENTRY_MQTT_SN_CLIENT_RESULT_CLIENT_NOT_FOUND, DB_ENTRY_MQTT_SN_CLIENT_RESULT_SUCCESS}"
    and "fit_name client_id" "addresses_ok fwds" "len \<le> DB_ENTRY_MQTT_SN_CLIENT_MAX_FORWARDER_COUNT"
      "length address = device_address_size"
    and "unat (d_client_count h) \<le> length (fv_clients (view w))"
  shows "\<exists>w'. add_client env client_id address fwds len duration t (h, w)
      = Inr (DB_ENTRY_MQTT_SN_CLIENT_RESULT_SUCCESS,
          client_added (new_client client_id address fwds len duration t (free_place (fv_clients (view w)))) h, w')
      \<and> reopened client_registry_file (view w) (view w')
      \<and> db_ok view (client_added (new_client client_id address fwds len duration t (free_place (fv_clients (view w)))) h, w')"
proof -
  note ok = db_ok_parts [OF assms(3)]
  let ?cs = "fv_clients (view w)" and ?R = "MQTT_SN_GATEWAY_DB_CLIENT_REGISTRY_FILE_NAME"
  define p where "p = free_place ?cs"
  have room: "length ?cs \<le> room" "room < 10 ^ 8"
    using assms(1) room_small [OF assms(1)] by (simp_all add: fatfs_contract_def sizes_contract_def)
  then have p: "p \<le> length ?cs" "p < 10 ^ 8"
    using free_place_le [of ?cs] by (simp_all add: p_def)
  obtain e' w' where f: "find_empty_entry_space_in_registry (ge_fuel env) (ge_fs env) (d_entry_client h) client_registry_file ?R
      (h, w) = Inr ((int p, e'), h, w')" "reopened client_registry_file (view w) (view w')"
    using run_find_empty_entry [OF assms(1) registry_ok_named [OF ok(1)] ok(8) [OF assms(4)] assms(2),
        where e = "d_entry_client h" and c = h] unfolding p_def by blast
  note step = run_bind [where m = "find_empty_entry_space_in_registry (ge_fuel env) (ge_fs env) (d_entry_client h)
    client_registry_file ?R", OF f(1)]
  have n: "c_strlen client_id = Inr (length (c_string client_id))" "1 \<le> length (c_string client_id)"
    "length (c_string client_id) \<le> 23"
    using assms(6) by (simp_all add: fit_name_def c_strlen_def)
  let ?e = "new_client client_id address fwds len duration t p"
  have e: "entry_ok ?e" "dc_position ?e = int p"
    using new_client_ok [OF assms(6-8) p(2) assms(9)] by (simp_all add: new_client_def)
  have err: "\<not> d_database_error h"
    using ok(7) assms(4) by blast
  have "add_client env client_id address fwds len duration t (h, w)
      = Inr (DB_ENTRY_MQTT_SN_CLIENT_RESULT_SUCCESS, client_added ?e h, w')"
    using assms(4,5) err n e(2)
    by (auto simp: add_client_def run_checked run_rules step init_entry_eq [OF assms(6-8) p(2)] client_added_def counted_def
        MQTT_SN_CLIENTID_MIN_LENGTH_def MQTT_SN_CLIENTID_MAX_LENGTH_def MQTT_SN_CLIENTID_NULL_TERMINATOR_def add.commute)
  moreover have "db_ok view (client_added ?e h, w')"
    using f(2) ok(1,2,5) assms(4) err e p counted_le [of p "d_client_count h" "length ?cs" 0] assms(10)
    by (auto simp: db_ok_def Let_def client_added_def reopened_def)
  ultimately show ?thesis
    using f(2) by (auto simp: p_def)
qed

lemma run_reset_client:
  assumes "db_ok view (h, w)" "d_client_transaction_started h"
    "d_client_transaction_result h = DB_ENTRY_MQTT_SN_CLIENT_RESULT_SUCCESS"
    "fit_name client_id" "2 \<le> length (c_string client_id)" "addresses_ok fwds"
    "len \<le> DB_ENTRY_MQTT_SN_CLIENT_MAX_FORWARDER_COUNT" "length address = device_address_size"
  shows "db_reset_client client_id address fwds len duration t (h, w) = Inr (DB_ENTRY_MQTT_SN_CLIENT_RESULT_SUCCESS,
      h\<lparr>d_entry_client := renewed_entry (d_entry_client h) client_id address fwds len duration t\<rparr>, w)"
    "db_ok view (h\<lparr>d_entry_client := renewed_entry (d_entry_client h) client_id address fwds len duration t\<rparr>, w)"
proof -
  note ok = db_ok_parts [OF assms(1)]
  show "db_reset_client client_id address fwds len duration t (h, w) = Inr (DB_ENTRY_MQTT_SN_CLIENT_RESULT_SUCCESS,
      h\<lparr>d_entry_client := renewed_entry (d_entry_client h) client_id address fwds len duration t\<rparr>, w)"
    using assms(2-5) ok(7) [OF assms(2)] reset_entry_eq [OF ok(3) assms(4,6,7)]
    by (simp add: db_reset_client_def run_checked run_rules c_strlen_def fit_name_def
        MQTT_SN_CLIENTID_MIN_LENGTH_def MQTT_SN_CLIENTID_MAX_LENGTH_def)
  show "db_ok view (h\<lparr>d_entry_client := renewed_entry (d_entry_client h) client_id address fwds len duration t\<rparr>, w)"
    using db_ok_entry [OF assms(1) renewed_entry_ok [OF ok(3) assms(4,6,7,8)]] by (simp add: renewed_entry_def)
qed

text \<open>The name of a client's file fits its buffer, so the assertion that it does not ends the program.\<close>

lemma delete_client_aborts:
  assumes "entry_ok (d_entry_client h)" "d_client_transaction_started h" "\<not> d_database_error h"
    "d_client_transaction_result h = DB_ENTRY_MQTT_SN_CLIENT_RESULT_SUCCESS"
  shows "delete_client env (h, w) = Inl Assertion"
proof -
  let ?n = "dc_file_number (d_entry_client h)"
  have n: "c_strlen ?n = Inr (length (c_string ?n))" "length (c_string ?n) < 9"
    using assms(1) length_c_string_less [of ?n] by (auto simp: entry_ok_def c_strlen_def)
  then have "get_registration_file_name ?n 14 = Inl Abort"
    by (simp add: get_registration_file_name_def client_file_name_def MQTT_SN_GATEWAY_DB_REGISTRATION_FILE_ENDING_def)
  then have "delete_file_of env get_registration_file_name (h, w) = Inl Assertion"
    by (simp add: delete_file_of_def run_rules empty_entry_def MQTT_SN_GATEWAY_DB_REGISTRATION_FILE_ENDING_def cl_bind_def
        cl_get_def cl_mem_def)
  then show ?thesis
    using assms(2-4) run_bind_stop [where m = "delete_file_of env get_registration_file_name"]
    by (simp add: delete_client_def run_checked run_rules)
qed

end
