(* ===== verification/Gateway_Messages.thy ===== *)
theory Gateway_Messages
  imports Gateway Gateway_Transactions Forwarder_Safety
begin

text \<open>
  What the readers and writers do on the messages the gateway hands them: a message as a driver leaves it,
  from the offset where the headers of the forwarders end.
\<close>

section \<open>CONNECT\<close>

text \<open>
  A CONNECT whose client identifier fills its 24 bytes leaves no room for the terminator: the reader
  would write it behind the array. The message is the last 30 bytes of what arrived; frames of forwarders
  may come before it.
\<close>

definition long_connect :: "u8 list \<Rightarrow> nat \<Rightarrow> bool" where
  "long_connect data n \<longleftrightarrow> 30 \<le> n \<and> data ! (n - 30) = 30 \<and> data ! (n - 29) = type_byte CONNECT
     \<and> 0 \<notin> set (take 24 (drop (n - 24) data))"

lemma long_connect_drop:
  assumes "k \<le> n" "n \<le> length data" "\<not> long_connect data n"
  shows "\<not> long_connect (drop k data) (n - k)"
proof
  assume l: "long_connect (drop k data) (n - k)"
  then have "k + (n - k - 30) = n - 30" "k + (n - k - 29) = n - 29" "n - k - 24 + k = n - 24" "k + (n - k - 24) = n - 24"
    by (auto simp: long_connect_def)
  then show False
    using l assms by (simp add: long_connect_def add.commute)
qed

lemma safe_read_id:
  assumes "n \<le> length data" "n < 65536" "pb \<le> n" "length buf = 24"
    "n - pb < 24 \<or> 0 \<in> set (take (n - pb) (drop pb data))"
  shows "safe (parse_mqtt_sn_char_until_end_byte (drop pb data) n pb buf 24)"
proof (cases "n - pb < 24")
  case True
  then show ?thesis
    using assms by (intro safe_read_chars) auto
next
  case False
  let ?id = "take (n - pb) (drop pb data)"
  show ?thesis
  proof (cases "n - pb = 24")
    case True
    have "length (c_string ?id) < length ?id"
      using assms(5) False by (intro length_c_string_less) simp
    then have "length (c_string ?id) < 24"
      using assms(1,3) True by simp
    moreover have "drop pb data = ?id @ drop n data"
      using assms(3) append_take_drop_id [of "n - pb" "drop pb data"] by simp
    moreover have "length ?id = 24"
      using assms(1) True by simp
    ultimately obtain x where "parse_mqtt_sn_char_until_end_byte (drop pb data) n pb buf 24 = Inr x"
      using read_chars [of n pb ?id 24 buf "drop n data"] assms(2-4) True by (metis le_add_diff_inverse order_refl)
    then show ?thesis
      by (simp add: safe_def)
  next
    case neq: False
    then show ?thesis
      using False assms(2,3) by (simp add: safe_def parse_mqtt_sn_char_until_end_byte_def Let_def)
  qed
qed

lemma safe_parse_short_connect:
  assumes "n \<le> length data" "data \<noteq> [1, 0, 3]" "length (con_client_id m) = 24" "\<not> long_connect data n"
  shows "safe (parse_connect m data n)"
proof (cases "n = 30")
  case True
  have id: "30 - pb < 24 \<or> 0 \<in> set (take (30 - pb) (drop pb data))"
    if h: "parse_header_ok CONNECT data 30 0 = Inr (h, pb')" and pb: "pb = Suc (Suc (Suc (Suc pb')))" for h pb' pb
  proof -
    have "pb' = 2 \<and> data ! 0 = 30 \<and> data ! 1 = type_byte CONNECT \<or> pb' = 4"
      using parse_header_ok_accepts [OF h] by auto
    then show ?thesis
      using assms(4) True pb by (auto simp: long_connect_def)
  qed
  show ?thesis
    using assms(1-3) True unfolding codec_defs
    by (intro safe_intros)
      (auto simp: parse_mqtt_sn_client_id_byte_def cbind_eq_Inr split: if_splits
        dest!: read_progress intro!: safe_read_id dest: header_progress id)
qed (use assms in \<open>simp add: safe_parse_connect\<close>)

lemma parse_connect_client_id_ok:
  assumes "parse_connect empty_connect data n = Inr (c, rc)"
  shows "length (con_client_id c) = 24 \<and> 0 \<in> set (con_client_id c)"
proof -
  have chars: "length id' = 24 \<and> 0 \<in> set id'"
    if "parse_mqtt_sn_char_until_end_byte src n pb (replicate 24 0) cap = Inr (id', len, pb')" for src pb cap id' len pb'
    using that
    by (auto simp: parse_mqtt_sn_char_until_end_byte_def strncat_empty_def Let_def cbind_eq_Inr wr_bytes_def
        split: if_splits)
  show ?thesis
    using assms
    by (auto simp: codec_defs empty_connect_def parse_mqtt_sn_client_id_byte_def Let_def cbind_eq_Inr dest!: chars
        split: if_splits prod.splits)
qed

section \<open>Messages from an offset\<close>

definition message_at :: "MqttSnMessageData \<Rightarrow> nat \<Rightarrow> bool" where
  "message_at m k \<longleftrightarrow> message_shape m \<and> md_data_length m \<le> MQTT_SN_MAXIMUM_MESSAGE_DATA_LENGTH
     \<and> k \<le> md_data_length m \<and> k \<le> 55 \<and> \<not> long_connect (md_data m) (md_data_length m)"

lemma message_at_rest:
  assumes "message_at m k"
  shows "msg_rest_length m k \<le> length (msg_rest m k)" "msg_rest m k \<noteq> [1, 0, 3]"
    "\<not> long_connect (msg_rest m k) (msg_rest_length m k)"
proof -
  have len: "length (md_data m) = 1024" "md_data_length m \<le> 1024" "k \<le> md_data_length m" "k \<le> 55"
    using assms by (simp_all add: message_at_def message_shape_def MQTT_SN_MAXIMUM_MESSAGE_DATA_LENGTH_def)
  then have n: "msg_rest_length m k = md_data_length m - k"
    by (simp add: msg_rest_length_def)
  then show "msg_rest_length m k \<le> length (msg_rest m k)"
    using len by (simp add: msg_rest_def)
  have "length (msg_rest m k) \<noteq> 3"
    using len by (simp add: msg_rest_def)
  then show "msg_rest m k \<noteq> [1, 0, 3]"
    by auto
  show "\<not> long_connect (msg_rest m k) (msg_rest_length m k)"
    using long_connect_drop [of k "md_data_length m" "md_data m"] assms len n
    by (simp add: msg_rest_def message_at_def)
qed

lemma safe_gateway_ping_parsers:
  assumes "n \<le> length data" "data \<noteq> [1, 0, 3]"
  shows "safe (parse_ping_req_byte data n)" "safe (parse_ping_resp_byte data n)"
  using assms unfolding codec_defs by (intro safe_intros; simp)+

lemma message_at_parsers:
  assumes "message_at m k"
  shows "safe (parse_header empty_header ANY_MESSAGE_TYPE (msg_rest m k) (msg_rest_length m k) 0)"
    "safe (parse_connect empty_connect (msg_rest m k) (msg_rest_length m k))"
    "safe (parse_disconnect_duration (msg_rest m k) (msg_rest_length m k))"
    "safe (parse_disconnect_bytes (msg_rest m k) (msg_rest_length m k))"
    "safe (parse_ping_req_byte (msg_rest m k) (msg_rest_length m k))"
    "safe (parse_ping_resp_byte (msg_rest m k) (msg_rest_length m k))"
    "safe (parse_advertise (msg_rest m k) (msg_rest_length m k))"
    "safe (parse_searchgw (msg_rest m k) (msg_rest_length m k))"
    "length (gwi_gwAdd g) = device_address_size \<Longrightarrow> safe (parse_gwinfo g (msg_rest m k) (msg_rest_length m k))"
  using message_at_rest [OF assms]
  by (simp_all add: safe_parse_header safe_parse_short_connect empty_connect_def safe_parse_disconnect safe_gateway_ping_parsers
      safe_parse_advertise safe_parse_searchgw safe_parse_gwinfo)

section \<open>Headers of the forwarders\<close>

lemma forwarder_header_fields:
  assumes "parse_forwarder_encapsulation_message_header eh data n = Inr (eh', rc)"
    "length (eh_wireless_node_id eh) = device_address_size"
  shows "eh_radius eh' \<le> 1" "length (eh_wireless_node_id eh') = device_address_size" "rc \<le> 11"
proof -
  have pb: "pb' \<le> 4" if "parse_header h mt d k pb = Inr (r, h', pb')" "\<not> r < 0" for h mt d k pb r h' pb'
    using parse_header_progress [OF that] by (auto simp: MQTT_SN_HEADER_LENGTH_def)
  have add: "length add' = 6 \<and> pb' = pb + 6" if "parse_mqtt_sn_device_address d k pb add = Inr (add', l, pb')" "length add = 6"
    for d k pb add add' l pb'
    using that by (auto simp: parse_mqtt_sn_device_address_def parse_mqtt_sn_uint8_array_byte_def cbind_eq_Inr
        device_address_size_def rds_def wr_bytes_def split: if_splits)
  show "eh_radius eh' \<le> 1" "length (eh_wireless_node_id eh') = device_address_size" "rc \<le> 11"
    using assms
    by (auto simp: codec_defs cbind_eq_Inr parse_header_ok_def device_address_size_def not_less
        dest!: pb add read_progress split: if_splits)
qed

definition chain_read :: "nat \<Rightarrow> u8 list \<times> u8 list list \<times> nat \<times> nat \<Rightarrow> bool" where
  "chain_read n x \<longleftrightarrow>
     (case x of (radiuses, addresses, l, pb) \<Rightarrow>
        length radiuses = 5 \<and> (\<forall>r \<in> set radiuses. r \<le> 1) \<and> addresses_ok addresses \<and> l \<le> 5 \<and> pb \<le> n \<and> pb \<le> 11 * l)"

lemma addresses_ok_update:
  "addresses_ok as \<Longrightarrow> length a = device_address_size \<Longrightarrow> addresses_ok (as[i := a])"
  by (auto simp: addresses_ok_def dest!: set_update_subset_insert [THEN subsetD])

lemma chain_read_more:
  assumes "chain_read n (radiuses, addresses, l, pb)" "l < 5" "r \<le> 1" "length a = device_address_size"
    "pb + rc \<le> n" "rc \<le> 11"
  shows "chain_read n (radiuses[l := r], addresses[l := a], l + 1, pb + rc)"
  using assms addresses_ok_update [of addresses a l]
  by (auto simp: chain_read_def dest!: set_update_subset_insert [THEN subsetD])

lemma parse_headers_loop_ok:
  assumes "length data = 1024" "n \<le> 1024" "chain_read n (radiuses, addresses, l, pb)" "l + left = 6" "0 < left"
  shows "safe (parse_headers_loop left data n radiuses addresses l pb)
    \<and> (\<forall>x. parse_headers_loop left data n radiuses addresses l pb = Inr x \<longrightarrow> chain_read n x)"
  using assms
proof (induction left arbitrary: radiuses addresses l pb)
  case (Suc left)
  let ?eh = "\<lparr>eh_radius = 0, eh_wireless_node_id = replicate device_address_size 0\<rparr>"
  let ?p = "parse_forwarder_encapsulation_message_header ?eh (drop pb data) (u16_sub n pb)"
  have pb: "pb \<le> n" "pb \<le> 55" "u16_sub n pb = n - pb"
    using Suc.prems by (auto simp: chain_read_def)
  have "length (drop pb data) \<noteq> length [1, 0, 3 :: u8]"
    using Suc.prems(1) pb(2) by simp
  then have "drop pb data \<noteq> [1, 0, 3]"
    by metis
  then have safe: "safe ?p"
    using Suc.prems(1,2) pb by (intro safe_parse_forwarder_header) auto
  show ?case
  proof (cases ?p)
    case (Inl e)
    then show ?thesis
      using safe Suc.prems(3) by (cases e) (auto simp: safe_def)
  next
    case (Inr x)
    obtain h rc where x: "x = (h, rc)" by fastforce
    have h: "eh_radius h \<le> 1" "length (eh_wireless_node_id h) = device_address_size" "rc \<le> 11" "rc \<le> n - pb"
      using forwarder_header_fields [of ?eh "drop pb data" "u16_sub n pb" h rc]
        parse_forwarder_header_Inr [of ?eh "drop pb data" "u16_sub n pb" h rc] Inr x pb(3) by auto
    show ?thesis
    proof (cases "left = 0")
      case False
      have step: "chain_read n (radiuses[l := eh_radius h], addresses[l := eh_wireless_node_id h], l + 1, pb + rc)"
        using Suc.prems False h pb(1) by (intro chain_read_more) auto
      have "l < length radiuses" "l < length addresses" "(l + 1) mod 65536 = l + 1"
        using Suc.prems False by (auto simp: chain_read_def addresses_ok_def DB_ENTRY_MQTT_SN_CLIENT_MAX_FORWARDER_COUNT_def)
      then show ?thesis
        using Suc.IH [OF Suc.prems(1,2) step] Suc.prems(4) False Inr x by (simp add: wr_arr_def)
    qed (use Inr x in \<open>simp add: safe_def\<close>)
  qed
qed simp

definition forwarders_ok :: "MqttSnGatewayForwarder \<Rightarrow> bool" where
  "forwarders_ok f \<longleftrightarrow> length (gf_wireless_node_id f) = device_address_size \<and> addresses_ok (gf_forwarder_addresses f)
     \<and> length (gf_forwarder_radiuses f) = 5 \<and> (\<forall>r \<in> set (gf_forwarder_radiuses f). r \<le> 1)
     \<and> gf_forwarder_len f \<le> 5 \<and> gf_forwarder_max_len f = 5"

lemma forwarders_ok_init: "forwarders_ok MqttSnGatewayForwarderInit"
  by (simp add: forwarders_ok_def MqttSnGatewayForwarderInit_def addresses_ok_def MQTT_SN_GATEWAY_MAX_FORWARDER_COUNT_def
      DB_ENTRY_MQTT_SN_CLIENT_MAX_FORWARDER_COUNT_def)

lemma set_mirror: "len \<le> length a \<Longrightarrow> set (mirror 0 len a) = set a"
  unfolding mirror_rev set_append set_rev by (metis append_take_drop_id set_append)

lemma parse_frames_ok:
  assumes "message_at m 0" "forwarders_ok f" "length a = device_address_size"
  shows "safe (parse_multiple_forwarder_encapsulation_headers_byte (gf_forwarder_radiuses f) (gf_forwarder_addresses f)
      (gf_forwarder_max_len f) a (md_data m) (md_data_length m))"
    and "parse_multiple_forwarder_encapsulation_headers_byte (gf_forwarder_radiuses f) (gf_forwarder_addresses f)
      (gf_forwarder_max_len f) a (md_data m) (md_data_length m) = Inr (radiuses, addresses, len, node, rc) \<Longrightarrow>
      forwarders_ok (f\<lparr>gf_forwarder_radiuses := radiuses, gf_forwarder_addresses := addresses, gf_forwarder_len := len,
        gf_wireless_node_id := node\<rparr>) \<and> message_at m rc"
proof -
  let ?n = "md_data_length m"
  let ?loop = "parse_headers_loop 6 (md_data m) ?n (gf_forwarder_radiuses f) (gf_forwarder_addresses f) 0 0"
  let ?p = "parse_multiple_forwarder_encapsulation_headers_byte (gf_forwarder_radiuses f) (gf_forwarder_addresses f)
      (gf_forwarder_max_len f) a (md_data m) ?n"
  have len: "length (md_data m) = 1024" "?n \<le> 1024"
    using assms(1) by (simp_all add: message_at_def message_shape_def MQTT_SN_MAXIMUM_MESSAGE_DATA_LENGTH_def)
  have "chain_read ?n (gf_forwarder_radiuses f, gf_forwarder_addresses f, 0, 0)"
    using assms(2) by (simp add: chain_read_def forwarders_ok_def)
  note loop = parse_headers_loop_ok [OF len this, of 6]
  have "safe ?p \<and> (?p = Inr (radiuses, addresses, len, node, rc) \<longrightarrow>
      forwarders_ok (f\<lparr>gf_forwarder_radiuses := radiuses, gf_forwarder_addresses := addresses, gf_forwarder_len := len,
        gf_wireless_node_id := node\<rparr>) \<and> message_at m rc)"
  proof (cases ?loop)
    case (Inl e)
    then show ?thesis
      using loop assms(2)
      by (simp add: parse_multiple_forwarder_encapsulation_headers_byte_def forwarders_ok_def safe_def)
  next
    case (Inr x)
    obtain rs as l pb where x: "x = (rs, as, l, pb)" by (cases x) auto
    have c: "length rs = 5" "\<forall>r \<in> set rs. r \<le> 1" "addresses_ok as" "l \<le> 5" "pb \<le> ?n" "pb \<le> 55"
      using loop Inr x by (auto simp: chain_read_def)
    then have as: "length as = 5" "\<forall>a \<in> set as. length a = device_address_size"
      by (simp_all add: addresses_ok_def DB_ENTRY_MQTT_SN_CLIENT_MAX_FORWARDER_COUNT_def)
    have m: "set (mirror 0 l rs) = set rs" "set (mirror 0 l as) = set as"
      using c(1,4) as(1) by (simp_all add: set_mirror)
    then have ok: "addresses_ok ((mirror 0 l as)[0 := a])"
      using as assms(3) by (intro addresses_ok_update) (simp_all add: addresses_ok_def DB_ENTRY_MQTT_SN_CLIENT_MAX_FORWARDER_COUNT_def)
    have ne: "mirror 0 l as \<noteq> []"
      using as(1) mirror_length [of 0 l as] by (metis length_0_conv zero_neq_numeral)
    then have "mirror 0 l as ! 0 \<in> set (mirror 0 l as)"
      using as(1) by (intro nth_mem) (simp only: mirror_length)
    then have node: "length (mirror 0 l as ! 0) = device_address_size"
      using m(2) as(2) by simp
    have "?p = (if l = 0 then Inl Fail
        else Inr (mirror 0 l rs, (mirror 0 l as)[0 := a], l, mirror 0 l as ! 0, pb))"
      using Inr x c(1,4) as(1) assms(2) ne
      by (simp add: parse_multiple_forwarder_encapsulation_headers_byte_def forwarders_ok_def reverse_loop_mirror wr_arr_def
          del: parse_headers_loop.simps)
    then show ?thesis
      using c m(1) ok node assms(1,2) by (auto simp: safe_def forwarders_ok_def message_at_def)
  qed
  then show "safe ?p" "?p = Inr (radiuses, addresses, len, node, rc) \<Longrightarrow>
      forwarders_ok (f\<lparr>gf_forwarder_radiuses := radiuses, gf_forwarder_addresses := addresses, gf_forwarder_len := len,
        gf_wireless_node_id := node\<rparr>) \<and> message_at m rc"
    by auto
qed

section \<open>Answers\<close>

text \<open>An answer has at most three bytes, which its frames leave room for.\<close>

lemma add_frames_ok:
  assumes "length (md_data m) = 1024" "k \<le> 3" "forwarders_ok f"
  shows "\<exists>m' len. gateway_add_forwarder_encapsulation_frames m k f = Inr (m', len)
    \<and> len = 9 * gf_forwarder_len f + k \<and> length (md_data m') = 1024"
proof (cases "gf_forwarder_len f = 0")
  case True
  then show ?thesis
    using assms(1,2) by (simp add: gateway_add_forwarder_encapsulation_frames_def)
next
  case False
  let ?n = "gf_forwarder_len f"
  have f: "?n \<le> length (gf_forwarder_radiuses f)" "?n \<le> length (gf_forwarder_addresses f)"
    "length (gf_wireless_node_id f) = 6" "?n \<le> 5"
    "\<forall>j < ?n. gf_forwarder_radiuses f ! j \<le> 1 \<and> length (gf_forwarder_addresses f ! j) = 6"
    using assms(3) by (auto simp: forwarders_ok_def addresses_ok_def DB_ENTRY_MQTT_SN_CLIENT_MAX_FORWARDER_COUNT_def
        device_address_size_def)
  have "generate_multiple_forwarder_encapsulation_headers_byte (md_data m) (length (md_data m)) (gf_forwarder_radiuses f)
      (gf_forwarder_addresses f) ?n (gf_wireless_node_id f) (take k (md_data m)) k
    = Inr (patched (md_data m) (chain_wire (rev (take ?n (zip (gf_forwarder_radiuses f)
          ((gf_forwarder_addresses f)[0 := gf_wireless_node_id f])))) @ take k (take k (md_data m))), 9 * ?n + k)"
    using False f assms(1,2) by (intro generate_multiple_prefix) auto
  moreover have "length ((gf_forwarder_addresses f)[0 := gf_wireless_node_id f] ! j) = 6" if "j < ?n" for j
    using f that by (cases "gf_forwarder_addresses f"; cases j) auto
  then have "chain_wf (rev (take ?n (zip (gf_forwarder_radiuses f) ((gf_forwarder_addresses f)[0 := gf_wireless_node_id f]))))"
    using f by (auto simp: chain_wf_def in_set_conv_nth)
  note length_chain_wire [OF this]
  moreover have "rd_arr (gf_forwarder_addresses f) 0 = Inr (gf_forwarder_addresses f ! 0)"
    using False f(2) by (cases "gf_forwarder_addresses f") auto
  ultimately show ?thesis
    using False f assms(1,2)
    by (auto simp: gateway_add_forwarder_encapsulation_frames_def rds_def length_patched)
qed

lemma answer_writers:
  assumes "length dst = 1024"
  shows "generate_ping_resp dst 1024 = Inr (patched dst (bare_wire PINGRESP ()), 2)"
    "generate_ping_req dst 1024 = Inr (patched dst (bare_wire PINGREQ ()), 2)"
    "generate_connack dst 1024 RETURN_CODE_ACCEPTED = Inr (patched dst (connack_wire RETURN_CODE_ACCEPTED), 3)"
    "generate_disconnect_message dst 1024 = Inr (patched dst (disconnect_wire None), 2)"
    "generate_gwinfo_gateway_message dst 1024 gw_id = Inr (patched dst (header_wire 3 GWINFO @ [gw_id]), 3)"
proof -
  show "generate_connack dst 1024 RETURN_CODE_ACCEPTED = Inr (patched dst (connack_wire RETURN_CODE_ACCEPTED), 3)"
    using assms by (simp add: generate_connack_eq wire_return_code_def MQTT_SN_RETURN_CODE_VALID_def)
  show "generate_disconnect_message dst 1024 = Inr (patched dst (disconnect_wire None), 2)"
    using write_disconnect_eq [of 1024 dst None] assms by (simp add: write_disconnect_def length_disconnect_wire)
qed (use assms in \<open>simp_all add: bare_wire_def codec_defs gen_simps\<close>)

definition writes_answer :: "(u8 list \<Rightarrow> nat \<Rightarrow> (u8 list \<times> nat) cres) \<Rightarrow> bool" where
  "writes_answer generate \<longleftrightarrow>
     (\<forall>dst. length dst = 1024 \<longrightarrow> (\<exists>data k. generate dst 1024 = Inr (data, k) \<and> length data = 1024 \<and> k \<le> 3))"

lemma answers_written:
  "writes_answer generate_ping_resp" "writes_answer generate_disconnect_message" "writes_answer generate_ping_req"
  "writes_answer (\<lambda>dst n. generate_connack dst n RETURN_CODE_ACCEPTED)"
  by (auto simp: writes_answer_def answer_writers length_patched length_disconnect_wire)

end
