(* ===== verification/Gateway_Safety.thy ===== *)
theory Gateway_Safety
  imports Gateway_Messages
begin

text \<open>
  The gateway stays inside its memory: every call below a pass of the loop keeps the invariant and makes no
  access outside an object. A failed assertion ends the program and is not excluded; \<open>Sample_Gateway\<close> has runs
  that end with one.
\<close>

section \<open>Operations of the database\<close>

text \<open>After a search by address the count of clients is again at most that of the file's entries.\<close>

definition fresh_db :: "('w \<Rightarrow> file_view) \<Rightarrow> db_handler \<times> 'w \<Rightarrow> bool" where
  "fresh_db view s \<longleftrightarrow> db_ok view s
     \<and> (d_client_transaction_started (fst s) \<longrightarrow> unat (d_client_count (fst s)) \<le> length (fv_clients (view (snd s))))"

lemma fresh_db_ok: "fresh_db view s \<Longrightarrow> db_ok view s"
  by (simp add: fresh_db_def)

lemma db_ok_not_failed: "db_ok view (h, w) \<Longrightarrow> d_client_transaction_started h \<Longrightarrow> \<not> d_database_error h"
  by (simp add: db_ok_parts(7))

lemma db_ok_results [simp]:
  "db_ok view (h\<lparr>d_client_transaction_result := r\<rparr>, w) = db_ok view (h, w)"
  "db_ok view (h\<lparr>d_transaction_result := r'\<rparr>, w) = db_ok view (h, w)"
  by (auto simp: db_ok_def Let_def)

text \<open>The environment: a volume that works, fuel for its entries, and a clock that leaves the files alone.\<close>

definition clock_quiet :: "('w \<Rightarrow> file_view) \<Rightarrow> 'w gateway_env \<Rightarrow> bool" where
  "clock_quiet view env \<longleftrightarrow> (\<forall>w. view (snd (pf_clock_ms (ge_platform env) w)) = view w)"

definition gateway_env_ok :: "'w gateway_env \<Rightarrow> ('w \<Rightarrow> file_view) \<Rightarrow> nat \<Rightarrow> bool" where
  "gateway_env_ok env view room \<longleftrightarrow> fatfs_contract (ge_fs env) view room \<and> room < ge_fuel env
     \<and> clock_quiet view env"

lemma hoareI:
  "(\<And>h w. P (h, w) \<Longrightarrow> case m (h, w) of Inl e \<Rightarrow> e \<noteq> Memory_Fault | Inr (x, s) \<Rightarrow> Q x s) \<Longrightarrow> hoare P m Q"
  by (simp add: hoare_def)

lemma hoare_db_start:
  assumes "gateway_env_ok env view room"
  shows "hoare (db_ok view) (db_start_client_transaction env (Some a) None) (\<lambda>_. fresh_db view)"
proof (rule hoareI)
  fix h w
  assume ok: "db_ok view (h, w)"
  have env: "fatfs_contract (ge_fs env) view room" "room < ge_fuel env"
    using assms by (simp_all add: gateway_env_ok_def)
  show "case db_start_client_transaction env (Some a) None (h, w) of
      Inl e \<Rightarrow> e \<noteq> Memory_Fault | Inr (x, s) \<Rightarrow> fresh_db view s"
  proof (cases "d_client_transaction_started h")
    case True
    then show ?thesis
      by (simp add: start_open)
  next
    case closed: False
    show ?thesis
    proof (cases "d_database_error h")
      case True
      then show ?thesis
        using closed ok by (simp add: start_failed fresh_db_def) (simp add: db_failed_def)
    next
      case False
      then obtain r h' w' where s: "db_start_client_transaction env (Some a) None (h, w) = Inr (r, h', w')"
        "(r, h') = search_result a (fv_clients (view w)) (opened h)" "reopened client_registry_file (view w) (view w')"
        "db_ok view (h', w')"
        using run_start [OF env ok closed] by blast
      have "unat (d_client_count h) \<le> length (fv_clients (view w))"
        using db_ok_parts(6) [OF ok False] closed by simp
      then show ?thesis
        using s by (auto simp: fresh_db_def search_result_def opened_def reopened_def split: option.splits)
    qed
  qed
qed

lemma hoare_db_end:
  assumes "gateway_env_ok env view room"
  shows "hoare (db_ok view) (db_end_client_transaction env) (\<lambda>_. db_ok view)"
proof (rule hoareI)
  fix h w
  assume ok: "db_ok view (h, w)"
  have env: "fatfs_contract (ge_fs env) view room"
    using assms by (simp add: gateway_env_ok_def)
  show "case db_end_client_transaction env (h, w) of Inl e \<Rightarrow> e \<noteq> Memory_Fault | Inr (x, s) \<Rightarrow> db_ok view s"
    using run_end [OF env ok] end_closed [of h env w] by (cases "d_client_transaction_started h") auto
qed

lemma keeps_start_by_count:
  assumes "gateway_env_ok env view room"
  shows "maintains (db_ok view) (db_start_client_transaction_by_client_count env n)"
  unfolding maintains_def
proof (rule hoareI)
  fix h w
  assume ok: "db_ok view (h, w)"
  have env: "fatfs_contract (ge_fs env) view room"
    using assms by (simp add: gateway_env_ok_def)
  let ?m = "db_start_client_transaction_by_client_count env n"
  consider "\<not> n < d_client_count h" | "n < d_client_count h" "d_client_transaction_started h"
    | "n < d_client_count h" "\<not> d_client_transaction_started h" "d_database_error h"
    | "n < d_client_count h" "\<not> d_client_transaction_started h" "\<not> d_database_error h"
    by blast
  then show "case ?m (h, w) of Inl e \<Rightarrow> e \<noteq> Memory_Fault | Inr (x, s) \<Rightarrow> db_ok view s"
  proof cases
    case 3
    then have "?m (h, w) = Inr (DB_ENTRY_MQTT_SN_CLIENT_RESULT_ERROR,
        db_failed (h\<lparr>d_transaction_result := DB_HANDLER_RESULT_SUCCESS\<rparr>), w)"
      by (simp add: db_start_client_transaction_by_client_count_def db_assert_def run_rules run_fail)
    then show ?thesis
      using ok by simp
  next
    case 4
    then show ?thesis
      using run_start_by_count [OF env ok 4(2,3,1)] by auto
  qed (simp_all add: db_start_client_transaction_by_client_count_def db_assert_def run_rules)
qed

lemma hoare_add_client:
  assumes "gateway_env_ok env view room" "0 \<in> set client_id" "addresses_ok fwds"
    "len \<le> DB_ENTRY_MQTT_SN_CLIENT_MAX_FORWARDER_COUNT" "length address = device_address_size"
  shows "hoare (fresh_db view) (add_client env client_id address fwds len duration t) (\<lambda>_. db_ok view)"
proof (rule hoareI)
  fix h w
  assume fresh: "fresh_db view (h, w)"
  then have ok: "db_ok view (h, w)"
    by (rule fresh_db_ok)
  have env: "fatfs_contract (ge_fs env) view room" "room < ge_fuel env"
    using assms(1) by (simp_all add: gateway_env_ok_def)
  let ?m = "add_client env client_id address fwds len duration t" and ?r = "d_client_transaction_result h"
  let ?n = "length (c_string client_id)"
  have n: "c_strlen client_id = Inr ?n"
    using assms(2) by (simp add: c_strlen_def)
  show "case ?m (h, w) of Inl e \<Rightarrow> e \<noteq> Memory_Fault | Inr (x, s) \<Rightarrow> db_ok view s"
  proof (cases "d_client_transaction_started h")
    case False
    then show ?thesis
      by (simp add: add_client_def db_checked_def db_assert_def run_rules)
  next
    case started: True
    note run = add_client_def run_checked [OF started db_ok_not_failed [OF ok started]] run_rules n db_set_result_def
      MQTT_SN_CLIENTID_MIN_LENGTH_def MQTT_SN_CLIENTID_MAX_LENGTH_def MQTT_SN_CLIENTID_NULL_TERMINATOR_def
    consider "?r \<noteq> DB_ENTRY_MQTT_SN_CLIENT_RESULT_CLIENT_NOT_FOUND" "?r \<noteq> DB_ENTRY_MQTT_SN_CLIENT_RESULT_SUCCESS"
      | "?r \<in> {DB_ENTRY_MQTT_SN_CLIENT_RESULT_CLIENT_NOT_FOUND, DB_ENTRY_MQTT_SN_CLIENT_RESULT_SUCCESS}" "\<not> (1 \<le> ?n \<and> ?n \<le> 23)"
      | "?r \<in> {DB_ENTRY_MQTT_SN_CLIENT_RESULT_CLIENT_NOT_FOUND, DB_ENTRY_MQTT_SN_CLIENT_RESULT_SUCCESS}" "1 \<le> ?n" "?n \<le> 23"
      by blast
    then show ?thesis
    proof cases
      case 1
      then show ?thesis
        using ok by (simp add: run)
    next
      case 2
      then show ?thesis
        using ok by (auto simp: run Suc_le_eq)
    next
      case 3
      then have "fit_name client_id"
        using assms(2) by (simp add: fit_name_def)
      then show ?thesis
        using run_add_client [OF env ok started 3(1) _ assms(3-5), of client_id duration t] fresh started
        by (auto simp: fresh_db_def)
    qed
  qed
qed

lemma hoare_reset_client:
  assumes "0 \<in> set client_id" "addresses_ok fwds" "len \<le> DB_ENTRY_MQTT_SN_CLIENT_MAX_FORWARDER_COUNT"
    "length address = device_address_size"
  shows "hoare (db_ok view) (db_reset_client client_id address fwds len duration t) (\<lambda>_. db_ok view)"
proof (rule hoareI)
  fix h w
  assume ok: "db_ok view (h, w)"
  let ?m = "db_reset_client client_id address fwds len duration t" and ?r = "d_client_transaction_result h"
  let ?n = "length (c_string client_id)"
  have n: "c_strlen client_id = Inr ?n"
    using assms(1) by (simp add: c_strlen_def)
  show "case ?m (h, w) of Inl e \<Rightarrow> e \<noteq> Memory_Fault | Inr (x, s) \<Rightarrow> db_ok view s"
  proof (cases "d_client_transaction_started h")
    case False
    then show ?thesis
      by (simp add: db_reset_client_def db_checked_def db_assert_def run_rules)
  next
    case started: True
    note run = db_reset_client_def run_checked [OF started db_ok_not_failed [OF ok started]] run_rules n db_set_result_def
      MQTT_SN_CLIENTID_MIN_LENGTH_def MQTT_SN_CLIENTID_MAX_LENGTH_def MQTT_SN_CLIENTID_NULL_TERMINATOR_def
    show ?thesis
    proof (cases "?r = DB_ENTRY_MQTT_SN_CLIENT_RESULT_SUCCESS \<and> 2 \<le> ?n \<and> ?n \<le> 23")
      case True
      then have fit: "fit_name client_id" "2 \<le> ?n"
        using assms(1) by (simp_all add: fit_name_def)
      show ?thesis
        using run_reset_client [OF ok started _ fit assms(2-4)] True by simp
    next
      case False
      then show ?thesis
        using ok by (auto simp: run)
    qed
  qed
qed

lemma keeps_delete_client: "maintains (fresh_db view) (delete_client env)"
  unfolding maintains_def
proof (rule hoareI)
  fix h w
  assume fresh: "fresh_db view (h, w)"
  note ok = fresh_db_ok [OF fresh]
  show "case delete_client env (h, w) of Inl e \<Rightarrow> e \<noteq> Memory_Fault | Inr (x, s) \<Rightarrow> fresh_db view s"
  proof (cases "d_client_transaction_started h")
    case False
    then show ?thesis
      by (simp add: delete_client_def db_checked_def db_assert_def run_rules)
  next
    case started: True
    note err = db_ok_not_failed [OF ok started]
    show ?thesis
    proof (cases "d_client_transaction_result h = DB_ENTRY_MQTT_SN_CLIENT_RESULT_SUCCESS")
      case True
      then show ?thesis
        using delete_client_aborts [OF db_ok_parts(3) [OF ok] started err True, of env w] by simp
    next
      case False
      then show ?thesis
        using fresh by (simp add: delete_client_def run_checked [OF started err] run_rules)
    qed
  qed
qed


lemma keeps_client_exist: "maintains (fresh_db view) client_exist"
  unfolding maintains_def
proof (rule hoareI)
  fix h w
  assume fresh: "fresh_db view (h, w)"
  show "case client_exist (h, w) of Inl e \<Rightarrow> e \<noteq> Memory_Fault | Inr (x, s) \<Rightarrow> fresh_db view s"
  proof (cases "d_client_transaction_started h")
    case False
    then show ?thesis
      by (simp add: client_exist_def db_checked_def db_assert_def run_rules)
  next
    case True
    then show ?thesis
      using fresh db_ok_not_failed [OF fresh_db_ok [OF fresh] True] by (simp add: run_exist)
  qed
qed


text \<open>In a transaction of a database that has not failed a read of the entry gives a value.\<close>

lemma hoare_db_get:
  "hoare (db_ok view) (db_get f) (\<lambda>(r, x) s. db_ok view s \<and> (\<exists>e. entry_ok e \<and> x = Some (f e)))"
proof (rule hoareI)
  fix h w
  assume ok: "db_ok view (h, w)"
  show "case db_get f (h, w) of Inl e \<Rightarrow> e \<noteq> Memory_Fault
    | Inr (x, s) \<Rightarrow> (case x of (r, x) \<Rightarrow> \<lambda>s. db_ok view s \<and> (\<exists>e. entry_ok e \<and> x = Some (f e))) s"
  proof (cases "d_client_transaction_started h")
    case False
    then show ?thesis
      by (simp add: db_get_def db_assert_def run_rules)
  next
    case True
    then show ?thesis
      using ok db_ok_parts(3) [OF ok] db_ok_not_failed [OF ok True] by (auto simp: run_db_get)
  qed
qed

lemma keeps_db_set:
  assumes "\<And>e. entry_ok e \<Longrightarrow> entry_ok (f e) \<and> dc_position (f e) = dc_position e"
  shows "maintains (db_ok view) (db_set f)"
  unfolding maintains_def
proof (rule hoareI)
  fix h w
  assume ok: "db_ok view (h, w)"
  show "case db_set f (h, w) of Inl e \<Rightarrow> e \<noteq> Memory_Fault | Inr (x, s) \<Rightarrow> db_ok view s"
  proof (cases "d_client_transaction_started h")
    case False
    then show ?thesis
      by (simp add: db_set_def db_checked_def db_assert_def run_rules)
  next
    case True
    then show ?thesis
      using db_ok_entry [OF ok, of "f (d_entry_client h)"] assms [OF db_ok_parts(3) [OF ok]] db_ok_not_failed [OF ok True]
      by (simp add: run_db_set)
  qed
qed

lemma keeps_db_sets [maintains]:
  "maintains (db_ok view) (db_set_client_last_ping_req_received t)"
  "maintains (db_ok view) (db_set_client_last_ping_resp_received t)"
  "maintains (db_ok view) (db_set_client_connect_duration d)"
  "maintains (db_ok view) (db_set_client_status status)"
  "maintains (db_ok view) (db_set_ping_req_await_msg_type mt)"
  unfolding db_set_client_last_ping_req_received_def db_set_client_last_ping_resp_received_def
    db_set_client_connect_duration_def db_set_client_status_def db_set_ping_req_await_msg_type_def
  by (rule keeps_db_set; simp add: entry_ok_def named_entry_def)+

text \<open>What is read of an entry, with a property of it.\<close>

definition db_reads :: "('w \<Rightarrow> file_view) \<Rightarrow> ('w, DB_ENTRY_MQTT_SN_CLIENT_RESULT \<times> 'a option) db_call \<Rightarrow> ('a \<Rightarrow> bool) \<Rightarrow> bool" where
  "db_reads view m R \<longleftrightarrow> hoare (db_ok view) m (\<lambda>(r, x) s. db_ok view s \<and> (\<exists>y. x = Some y \<and> R y))"

lemma db_reads_get: "(\<And>e. entry_ok e \<Longrightarrow> R (f e)) \<Longrightarrow> db_reads view (db_get f) R"
  unfolding db_reads_def by (rule hoare_mono [OF hoare_db_get]) auto

lemma db_reads_fields:
  "db_reads view db_get_client_connect_duration (\<lambda>_. True)" "db_reads view db_get_client_last_ping_req_received (\<lambda>_. True)"
  "db_reads view db_get_client_last_ping_resp_received (\<lambda>_. True)" "db_reads view db_get_client_status (\<lambda>_. True)"
  "db_reads view db_get_ping_req_await_msg_type (\<lambda>_. True)"
  unfolding db_get_client_connect_duration_def db_get_client_last_ping_req_received_def
    db_get_client_last_ping_resp_received_def db_get_client_status_def db_get_ping_req_await_msg_type_def
  by (simp_all add: db_reads_get)

lemma db_reads_bind:
  assumes "db_reads view m R"
    "\<And>r y. R y \<Longrightarrow> hoare (db_ok view) (k (r, Some y)) (\<lambda>(r, x) s. db_ok view s \<and> (\<exists>z. x = Some z \<and> S z))"
  shows "db_reads view (cl_bind m k) S"
  unfolding db_reads_def
proof (rule hoare_bind)
  show "hoare (db_ok view) m (\<lambda>(r, x) s. db_ok view s \<and> (\<exists>y. x = Some y \<and> R y))"
    using assms(1) by (simp add: db_reads_def)
  show "hoare ((\<lambda>(r, x) s. db_ok view s \<and> (\<exists>y. x = Some y \<and> R y)) p) (k p)
      (\<lambda>(r, x) s. db_ok view s \<and> (\<exists>z. x = Some z \<and> S z))" for p
    using assms(2) by (cases p) (auto simp: hoare_def)
qed

lemma db_reads_id: "db_reads view db_get_client_id (\<lambda>_. True)"
  unfolding db_get_client_id_def
proof (rule db_reads_bind [OF db_reads_get, where R = "\<lambda>p. c_strlen p = Inr (length (c_string p))"])
  show "entry_ok e \<Longrightarrow> c_strlen (dc_client_id e) = Inr (length (c_string (dc_client_id e)))" for e
    by (simp add: entry_ok_def named_entry_strlen)
qed (auto intro!: hoare_return)

lemma db_reads_address:
  assumes "addresses_ok fwds" "n \<le> DB_ENTRY_MQTT_SN_CLIENT_MAX_FORWARDER_COUNT"
  shows "db_reads view (db_get_client_address env fwds n)
    (\<lambda>(a, as, len). length a = device_address_size \<and> addresses_ok as \<and> len \<le> DB_ENTRY_MQTT_SN_CLIENT_MAX_FORWARDER_COUNT)"
  unfolding db_get_client_address_def
proof (rule db_reads_bind [OF db_reads_get, where R = entry_ok])
  show "entry_ok e \<Longrightarrow> entry_ok (id e)" for e
    by simp
  fix r e
  assume e: "entry_ok e"
  then obtain as where "copy_addresses (unat (ge_unset_index env)) (dc_forwarder_address_len e) (dc_forwarder_addresses e) fwds
      = Inr as" "addresses_ok as"
    using copy_addresses_ok [OF entry_addresses [OF e] assms(1), where i = "unat (ge_unset_index env)"
        and len = "dc_forwarder_address_len e"] by (auto simp: entry_ok_def)
  then have "get_db_entry_mqtt_sn_client_forwarder_addresses (ge_unset_index env) e fwds n
      = Inr (as, dc_forwarder_address_len e)" "addresses_ok as"
    using assms(2) by (simp_all add: get_db_entry_mqtt_sn_client_forwarder_addresses_def)
  then show "hoare (db_ok view)
      (case (r, Some e) of (r, None) \<Rightarrow> cl_return (r, None)
       | (r, Some e) \<Rightarrow>
           cl_bind (cl_mem (get_db_entry_mqtt_sn_client_forwarder_addresses (ge_unset_index env) e fwds n))
             (\<lambda>(forwarder_addresses, len). cl_return (r, Some (dc_client_address e, forwarder_addresses, len))))
      (\<lambda>(r, x) s. db_ok view s \<and> (\<exists>z. x = Some z \<and> (case z of (a, as, len) \<Rightarrow> length a = device_address_size
         \<and> addresses_ok as \<and> len \<le> DB_ENTRY_MQTT_SN_CLIENT_MAX_FORWARDER_COUNT)))"
    using e by (auto intro!: hoare_return simp: entry_ok_def)
qed


section \<open>The invariant of the gateway\<close>

text \<open>What a driver of the clients' network promises: it leaves the files of the database alone.\<close>

definition quiet_driver :: "('w \<Rightarrow> file_view) \<Rightarrow> 'w MqttSnClientNetworkInterface \<Rightarrow> bool" where
  "quiet_driver view n \<longleftrightarrow>
     (\<forall>f w. cn_deinitialize n = Some f \<or> cn_connect n = Some f \<or> cn_disconnect n = Some f \<longrightarrow> view (snd (f w)) = view w)
   \<and> (\<forall>f from to data len signal t w. cn_send n = Some f \<longrightarrow> view (snd (f from to data len signal t w)) = view w)
   \<and> (\<forall>f rx k t w. cn_receive n = Some f \<longrightarrow> view (snd (snd (f rx k t w))) = view w)"

definition client_driver_ok :: "('w \<Rightarrow> file_view) \<Rightarrow> 'w MqttSnClientNetworkInterface \<Rightarrow> bool" where
  "client_driver_ok view n \<longleftrightarrow> quiet_driver view n
     \<and> (\<forall>r. cn_receive n = Some r \<longrightarrow> receive_contract r (cn_max_data_length n))
     \<and> cn_network_address n \<noteq> None \<and> cn_broadcast_address n \<noteq> None"

text \<open>
  What the clients send is no promise of the driver. The one message the gateway cannot read without a
  write behind an array: the next receive delivers it.
\<close>

definition long_connect_arrives :: "'w MqttSnGateway \<times> 'w \<Rightarrow> bool" where
  "long_connect_arrives s \<longleftrightarrow> client_can_receive (g_clientNetwork (fst s))
     \<and> (case client_arrival (g_clientNetwork (fst s)) (g_clientNetworkReceiveTimeout (fst s)) (snd s) of
          (r, (from, to, data, signal), w') \<Rightarrow> 0 \<le> r \<and> long_connect data (nat r))"

definition gateway_message_ok :: "MqttSnMessageData \<Rightarrow> bool" where
  "gateway_message_ok m \<longleftrightarrow> message_ok m
     \<and> (md_data_length m \<le> MQTT_SN_MAXIMUM_MESSAGE_DATA_LENGTH \<longrightarrow> \<not> long_connect (md_data m) (md_data_length m))"

definition gateway_parts_ok :: "('w \<Rightarrow> file_view) \<Rightarrow> 'w MqttSnGateway \<Rightarrow> bool" where
  "gateway_parts_ok view g \<longleftrightarrow> buffer_ok gateway_message_ok (g_clientNetworkReceiveBuffer g)
     \<and> ring_inv (g_clientNetworkSendBuffer g) \<and> client_driver_ok view (g_clientNetwork g)"

definition gateway_with :: "('w \<Rightarrow> file_view) \<Rightarrow> (db_handler \<times> 'w \<Rightarrow> bool) \<Rightarrow> 'w MqttSnGateway \<times> 'w \<Rightarrow> bool" where
  "gateway_with view D s \<longleftrightarrow> D (g_db_handler (fst s), snd s) \<and> gateway_parts_ok view (fst s)"

definition gateway_inv :: "('w \<Rightarrow> file_view) \<Rightarrow> 'w MqttSnGateway \<times> 'w \<Rightarrow> bool" where
  "gateway_inv view = gateway_with view (db_ok view)"

section \<open>From the database to the gateway\<close>

lemma hoare_on_db:
  assumes "hoare D m E"
  shows "hoare (gateway_with view D) (on_db m) (\<lambda>x. gateway_with view (E x))"
  using assms unfolding hoare_def
  by (fastforce simp: on_db_def gateway_with_def gateway_parts_ok_def split: sum.splits prod.splits)

lemma keeps_on_db: "maintains D m \<Longrightarrow> maintains (gateway_with view D) (on_db m)"
  unfolding maintains_def by (rule hoare_on_db)

lemma keeps_db_inv [maintains]: "maintains (db_ok view) m \<Longrightarrow> maintains (gateway_inv view) (on_db m)"
  unfolding gateway_inv_def by (rule keeps_on_db)

lemma keeps_db_get_inv [maintains]: "maintains (gateway_inv view) (on_db (cl_get f))"
  by (intro maintains)

lemma hoare_ck_get:
  assumes "db_reads view m R" "\<And>y. R y \<Longrightarrow> maintains (gateway_inv view) (k y)"
  shows "maintains (gateway_inv view) (ck_get m k)"
  unfolding maintains_def ck_get_def gateway_inv_def
proof (rule hoare_bind)
  show "hoare (gateway_with view (db_ok view)) (on_db m)
      (\<lambda>p. gateway_with view ((\<lambda>(r, x) s. db_ok view s \<and> (\<exists>y. x = Some y \<and> R y)) p))"
    by (rule hoare_on_db) (use assms(1) in \<open>simp add: db_reads_def\<close>)
  show "hoare (gateway_with view ((\<lambda>(r, x) s. db_ok view s \<and> (\<exists>y. x = Some y \<and> R y)) p))
      (case p of (r, x) \<Rightarrow> if r \<noteq> DB_ENTRY_MQTT_SN_CLIENT_RESULT_SUCCESS then cl_return (- 1)
        else (case x of None \<Rightarrow> cl_stop Memory_Fault | Some x \<Rightarrow> k x)) (\<lambda>_. gateway_with view (db_ok view))" for p
  proof (cases p)
    case (Pair r x)
    show ?thesis
    proof (cases "\<exists>y. x = Some y \<and> R y")
      case True
      then obtain y where y: "x = Some y" "R y"
        by blast
      then show ?thesis
        using assms(2) [OF y(2)] unfolding Pair
        by (auto simp: maintains_def gateway_inv_def gateway_with_def intro: hoare_return)
    qed (auto simp: Pair hoare_def gateway_with_def)
  qed
qed

lemma keeps_ck_set [maintains]:
  "maintains (db_ok view) m \<Longrightarrow> maintains (gateway_inv view) k \<Longrightarrow> maintains (gateway_inv view) (ck_set m k)"
  unfolding ck_set_def by (intro maintains)

lemmas ck_get_field [maintains] = db_reads_fields [THEN hoare_ck_get] db_reads_id [THEN hoare_ck_get]

lemma keeps_log_client [maintains]: "maintains (gateway_inv view) k \<Longrightarrow> maintains (gateway_inv view) (log_client_details k)"
  unfolding log_client_details_def by (intro maintains)

lemma db_ok_view: "view w' = view w \<Longrightarrow> db_ok view (h, w') = db_ok view (h, w)"
  by (simp add: db_ok_def)

lemma keeps_quiet_world:
  assumes "\<And>w. view (snd (f w)) = view w"
  shows "maintains (gateway_inv view) (cl_world f)"
  unfolding maintains_def
proof (rule hoareI)
  fix g w
  assume inv: "gateway_inv view (g, w)"
  have "db_ok view (g_db_handler g, snd (f w)) = db_ok view (g_db_handler g, w)"
    by (rule db_ok_view) (rule assms)
  then show "case cl_world f (g, w) of Inl e \<Rightarrow> e \<noteq> Memory_Fault | Inr (x, s) \<Rightarrow> gateway_inv view s"
    using inv by (simp add: cl_world_def gateway_inv_def gateway_with_def case_prod_unfold Let_def)
qed


lemma keeps_mem_total: "\<exists>x. r = Inr x \<Longrightarrow> maintains P (cl_mem r)"
  by (auto intro: keeps_return)

lemma keeps_safe_mem: "safe r \<Longrightarrow> r \<noteq> Inl Fail \<Longrightarrow> maintains P (cl_mem r)"
  by (cases r; cases "projl r") (auto simp: safe_def cl_mem_def maintains_def hoare_def cl_return_def)

lemma gives_get_gateway [dest!]: "gives (gateway_inv view) (cl_get f) x \<Longrightarrow> \<exists>g. gateway_parts_ok view g \<and> x = f g"
  by (drule gives_get) (auto simp: gateway_inv_def gateway_with_def)

lemma gives_world: "gives P (cl_world f) x \<Longrightarrow> \<exists>w. x = fst (f w)"
  by (auto simp: gives_def cl_world_def Let_def prod_eq_iff case_prod_unfold)

lemma keeps_put_gateway:
  "(\<And>g. gateway_parts_ok view g \<Longrightarrow> gateway_parts_ok view (f g) \<and> g_db_handler (f g) = g_db_handler g)
   \<Longrightarrow> maintains (gateway_inv view) (cl_put f)"
  by (rule keeps_put) (simp add: gateway_inv_def gateway_with_def)

end
