(* ===== verification/Gateway_Handlers.thy ===== *)
theory Gateway_Handlers
  imports Gateway_Safety
begin

text \<open>The handlers of the gateway keep its invariant: what they send, the checks of the timeouts, and one triple per message.\<close>

section \<open>Answers\<close>

lemma keeps_put_send_buffer [maintains]: "maintains (gateway_inv view) (put_send_buffer msg)"
  unfolding put_send_buffer_def
proof (rule keeps_bind [OF keeps_get])
  fix q
  assume "gives (gateway_inv view) (cl_get g_clientNetworkSendBuffer) q"
  then have "ring_inv q"
    by (auto simp: gateway_parts_ok_def)
  then obtain rc q' where q: "put q msg = Inr (rc, q')" "ring_inv q'"
    using ring.enq_total [of q msg] by blast
  show "maintains (gateway_inv view) (cl_bind (cl_mem (put q msg))
      (\<lambda>(rc, q). cl_bind (cl_put (\<lambda>g. g\<lparr>g_clientNetworkSendBuffer := q\<rparr>)) (\<lambda>_. cl_return rc)))"
    unfolding q(1) using q(2) by (auto simp: gateway_parts_ok_def intro!: maintains keeps_put_gateway)
qed

lemma keeps_send_generated [maintains]:
  assumes "length (md_data m) = 1024" "k \<le> 3" "forwarders_ok f"
  shows "maintains (gateway_inv view) (send_generated m k f)"
proof -
  obtain m' len where "gateway_add_forwarder_encapsulation_frames m k f = Inr (m', len)"
    using add_frames_ok [OF assms] by blast
  then show ?thesis
    unfolding send_generated_def by (auto intro!: maintains)
qed

lemma keeps_handler_time [maintains]:
  assumes "clock_quiet view env"
  shows "maintains (gateway_inv view) (handler_time env)"
proof -
  have "view (snd (get_timestamp_s (ge_platform env) w)) = view w" for w
    using assms by (auto simp: get_timestamp_s_def clock_quiet_def split: prod.split dest: spec [of _ w])
  then show ?thesis
    unfolding handler_time_def by (rule keeps_quiet_world)
qed

lemma reuse_quiet:
  assumes "clock_quiet view env"
  shows "view (snd (snd (reuse_mqtt_sn_message_data (get_timestamp_ms (ge_platform env)) m w))) = view w"
  using assms
  by (auto simp: reuse_mqtt_sn_message_data_def add_mqtt_sn_message_timestamp_def get_timestamp_ms_def clock_quiet_def Let_def
      split: prod.split dest: spec [of _ w])

lemma reuse_data:
  assumes "reuse_mqtt_sn_message_data clk m w = (rc, m', w')" "\<not> rc < 0"
  shows "md_data m' = message_buffer" "md_from m' = md_to m" "md_to m' = md_from m"
  using assms
  by (auto simp: reuse_mqtt_sn_message_data_def add_mqtt_sn_message_timestamp_def Let_def split: prod.splits if_splits)

lemma keeps_written:
  assumes "writes_answer generate" "length (md_data m) = 1024" "forwarders_ok f" "\<And>rc. maintains (gateway_inv view) (k rc)"
  shows "maintains (gateway_inv view) (cl_bind (cl_call (generate (md_data m) (length (md_data m)))) (\<lambda>g.
      case g of None \<Rightarrow> cl_return rc | Some (data, n) \<Rightarrow> cl_bind (send_generated (m\<lparr>md_data := data\<rparr>) n f) k))"
proof -
  from assms(1,2)
  obtain data n where "generate (md_data m) (length (md_data m)) = Inr (data, n)" "length data = 1024" "n \<le> 3"
    unfolding writes_answer_def by metis
  then show ?thesis
    using assms(3,4) by (auto intro!: maintains)
qed

lemma keeps_answer_message [maintains]:
  assumes "clock_quiet view env" "writes_answer generate" "forwarders_ok f"
  shows "maintains (gateway_inv view) (answer_message env m generate f)"
proof -
  let ?reuse = "\<lambda>w. case reuse_mqtt_sn_message_data (get_timestamp_ms (ge_platform env)) m w of (rc, msg, w) \<Rightarrow> ((rc, msg), w)"
  have quiet: "view (snd (?reuse w)) = view w" for w
    using reuse_quiet [OF assms(1), of m w] by (auto split: prod.split)
  have buffer: "length (md_data m') = 1024" if "gives (gateway_inv view) (cl_world ?reuse) (rc, m')" "\<not> rc < 0" for rc m'
  proof -
    from gives_world [OF that(1)] obtain w where w: "(rc, m') = fst (?reuse w)"
      by blast
    obtain r m1 w1 where "reuse_mqtt_sn_message_data (get_timestamp_ms (ge_platform env)) m w = (r, m1, w1)"
      by (cases "reuse_mqtt_sn_message_data (get_timestamp_ms (ge_platform env)) m w") auto
    then show ?thesis
      using w reuse_data(1) [of "get_timestamp_ms (ge_platform env)" m w rc m' w1] that(2)
      by (simp add: length_message_buffer MQTT_SN_MAXIMUM_MESSAGE_DATA_LENGTH_def)
  qed
  show ?thesis
    unfolding answer_message_def
    by (intro keeps_bind keeps_prod keeps_if keeps_return keeps_quiet_world quiet keeps_written assms(2,3)) (auto intro: buffer)
qed

section \<open>The checks of the timeouts\<close>

lemma env_ok_clock: "gateway_env_ok env view room \<Longrightarrow> clock_quiet view env"
  by (simp add: gateway_env_ok_def)

lemma keeps_db_assert [maintains]: "maintains P (db_assert b)"
  by (simp add: db_assert_def maintains)

lemma keeps_ping_req_to_client:
  assumes "gateway_env_ok env view room" "forwarders_ok f"
  shows "maintains (gateway_inv view) (send_client_connection_ping_req env f)"
proof -
  have len: "length (md_data (zero_message\<lparr>md_create_time_s := t, md_to := a\<rparr>)) = 1024" for t a
    by (simp add: zero_message_def length_message_buffer MQTT_SN_MAXIMUM_MESSAGE_DATA_LENGTH_def)
  show ?thesis
    unfolding send_client_connection_ping_req_def Let_def
    by (intro keeps_bind [OF keeps_get] keeps_bind [OF keeps_handler_time] env_ok_clock [OF assms(1)] keeps_if keeps_return
        keeps_prod keeps_written [OF answers_written(3) len assms(2)] maintains)
qed

lemma keeps_check_active:
  assumes "gateway_env_ok env view room"
  shows "maintains (gateway_inv view) (check_active_client_connection_timeout env t)"
proof -
  let ?f = MqttSnGatewayForwarderInit
  have fwds: "addresses_ok (gf_forwarder_addresses ?f)" "gf_forwarder_max_len ?f \<le> DB_ENTRY_MQTT_SN_CLIENT_MAX_FORWARDER_COUNT"
    using forwarders_ok_init by (simp_all add: forwarders_ok_def DB_ENTRY_MQTT_SN_CLIENT_MAX_FORWARDER_COUNT_def)
  have f: "forwarders_ok (?f\<lparr>gf_wireless_node_id := a, gf_forwarder_addresses := as, gf_forwarder_len := n\<rparr>)"
    if "case (a, as, n) of (a, as, n) \<Rightarrow> length a = device_address_size \<and> addresses_ok as
      \<and> n \<le> DB_ENTRY_MQTT_SN_CLIENT_MAX_FORWARDER_COUNT" for a as n
    using that forwarders_ok_init by (simp add: forwarders_ok_def DB_ENTRY_MQTT_SN_CLIENT_MAX_FORWARDER_COUNT_def)
  show ?thesis
    unfolding check_active_client_connection_timeout_def Let_def db_is_client_transaction_started_def
    by (rule keeps_bind [OF keeps_db_get_inv]
      | (rule keeps_bind [OF keeps_db_assert] keeps_bind [OF keeps_get] db_reads_fields [THEN hoare_ck_get]
          hoare_ck_get [OF db_reads_address [OF fwds]] keeps_prod keeps_if keeps_return
          keeps_bind [OF keeps_ping_req_to_client [OF assms f]] maintains)
      | simp only:)+
qed

lemma keeps_db_end: "gateway_env_ok env view room \<Longrightarrow> maintains (db_ok view) (db_end_client_transaction env)"
  unfolding maintains_def by (rule hoare_db_end)

lemma keeps_check_clients:
  assumes "gateway_env_ok env view room"
  shows "maintains (gateway_inv view) (check_clients_loop n env k t)"
proof (induction n arbitrary: k)
  case (Suc n)
  show ?case
    using Suc.IH keeps_db_end [OF assms] keeps_start_by_count [OF assms] keeps_check_active [OF assms]
    by (auto simp: db_is_client_transaction_started_def intro!: maintains)
qed (simp add: keeps_return)

lemma keeps_db_get_client_count [maintains]: "maintains (db_ok view) db_get_client_count"
proof -
  have "maintains (db_ok view) db_fail"
    by (simp add: maintains_def hoare_def run_fail)
  then show ?thesis
    unfolding db_get_client_count_def by (intro maintains)
qed

lemma keeps_check_timeouts:
  assumes "gateway_env_ok env view room"
  shows "maintains (gateway_inv view) (client_connection_handler_check_timeouts env)"
  unfolding client_connection_handler_check_timeouts_def
  by (intro maintains keeps_check_clients [OF assms] env_ok_clock [OF assms] keeps_put_gateway)
    (simp_all add: gateway_parts_ok_def)

section \<open>Connections\<close>

lemma hoare_fresh_start:
  assumes "gateway_env_ok env view room"
  shows "hoare (gateway_inv view) (on_db (db_start_client_transaction env (Some a) None)) (\<lambda>_. gateway_with view (fresh_db view))"
  unfolding gateway_inv_def by (rule hoare_on_db [OF hoare_db_start [OF assms]])

lemma keeps_db_start: "gateway_env_ok env view room \<Longrightarrow> maintains (db_ok view) (db_start_client_transaction env (Some a) None)"
  unfolding maintains_def by (rule hoare_mono [OF hoare_db_start]) (auto intro: fresh_db_ok)

lemma keeps_get_result [maintains]: "maintains (gateway_inv view) (on_db get_db_handler_result)"
  unfolding get_db_handler_result_def by (rule keeps_db_get_inv)

lemma keeps_end_ping:
  assumes "gateway_env_ok env view room" "maintains (gateway_inv view) k"
  shows "maintains (gateway_inv view) (end_ping_transaction env k)"
  unfolding end_ping_transaction_def using assms keeps_db_end by (auto intro!: maintains)

lemma keeps_start_ping:
  assumes "gateway_env_ok env view room" "maintains (gateway_inv view) k"
  shows "maintains (gateway_inv view) (start_ping_transaction env m k)"
  unfolding start_ping_transaction_def using assms keeps_db_start by (auto intro!: maintains)

lemma keeps_ping_resp:
  assumes "gateway_env_ok env view room" "message_at m k"
  shows "maintains (gateway_inv view) (client_connection_handler_parse_and_handle_ping_resp env m k f)"
  unfolding client_connection_handler_parse_and_handle_ping_resp_def
  by (intro keeps_bind [OF keeps_get] keeps_bind [OF keeps_db_assert] keeps_bind [OF keeps_call] message_at_parsers(6) [OF assms(2)]
      keeps_if keeps_return keeps_start_ping [OF assms(1)] keeps_bind [OF keeps_db_inv] keeps_db_sets keeps_end_ping [OF assms(1)])

lemma keeps_ping_req:
  assumes "gateway_env_ok env view room" "message_at m k" "forwarders_ok f"
  shows "maintains (gateway_inv view) (client_connection_handler_parse_and_handle_ping_req env m k f)"
  unfolding client_connection_handler_parse_and_handle_ping_req_def
  by (intro keeps_bind [OF keeps_get] keeps_bind [OF keeps_db_assert] keeps_bind [OF keeps_call] message_at_parsers(5) [OF assms(2)]
      keeps_if keeps_return keeps_start_ping [OF assms(1)] keeps_bind [OF keeps_db_inv] keeps_db_sets keeps_end_ping [OF assms(1)]
      keeps_answer_message env_ok_clock [OF assms(1)] answers_written(1) assms(3))

lemma keeps_connect:
  assumes "gateway_env_ok env view room" "message_at m k" "forwarders_ok f"
  shows "maintains (gateway_inv view) (client_connection_handler_parse_and_handle_connect env m k f)"
proof -
  have f: "addresses_ok (gf_forwarder_addresses f)" "gf_forwarder_len f \<le> DB_ENTRY_MQTT_SN_CLIENT_MAX_FORWARDER_COUNT"
    "length (gf_wireless_node_id f) = device_address_size"
    using assms(3) by (simp_all add: forwarders_ok_def DB_ENTRY_MQTT_SN_CLIENT_MAX_FORWARDER_COUNT_def)
  have connected: "maintains (gateway_inv view) (cl_bind (on_db (db_end_client_transaction env)) (\<lambda>r.
      if r \<noteq> DB_ENTRY_MQTT_SN_CLIENT_RESULT_SUCCESS then cl_return (-1)
      else if con_will c \<noteq> 0 then cl_return 0
      else answer_message env m (\<lambda>dst dst_len. generate_connack dst dst_len RETURN_CODE_ACCEPTED) f))" for c
    by (intro maintains keeps_db_end [OF assms(1)] env_ok_clock [OF assms(1)] answers_written(4) assms(3))
  have stored: "hoare (gateway_with view (fresh_db view))
      (if exist = DB_ENTRY_MQTT_SN_CLIENT_RESULT_SUCCESS
       then if con_clean_session c = 0
         then on_db (db_reset_client (con_client_id c) (gf_wireless_node_id f) (gf_forwarder_addresses f)
                (gf_forwarder_len f) (con_duration c) (md_create_time_s m))
         else cl_bind (on_db (delete_client env)) (\<lambda>_. on_db (add_client env (con_client_id c) (gf_wireless_node_id f)
                (gf_forwarder_addresses f) (gf_forwarder_len f) (con_duration c) (md_create_time_s m)))
       else on_db (add_client env (con_client_id c) (gf_wireless_node_id f) (gf_forwarder_addresses f)
                (gf_forwarder_len f) (con_duration c) (md_create_time_s m))) (\<lambda>_. gateway_inv view)"
    if id: "0 \<in> set (con_client_id c)" for exist c
  proof -
    have add: "hoare (gateway_with view (fresh_db view)) (on_db (add_client env (con_client_id c) (gf_wireless_node_id f)
        (gf_forwarder_addresses f) (gf_forwarder_len f) (con_duration c) (md_create_time_s m))) (\<lambda>_. gateway_inv view)"
      unfolding gateway_inv_def by (intro hoare_on_db hoare_add_client [OF assms(1) id f])
    have reset: "hoare (gateway_with view (fresh_db view)) (on_db (db_reset_client (con_client_id c) (gf_wireless_node_id f)
        (gf_forwarder_addresses f) (gf_forwarder_len f) (con_duration c) (md_create_time_s m))) (\<lambda>_. gateway_inv view)"
      unfolding gateway_inv_def
      by (intro hoare_on_db hoare_mono [OF hoare_reset_client [OF id f]]) (auto intro: fresh_db_ok)
    show ?thesis
      by (intro hoare_if reset add hoare_keeps_bind [OF keeps_on_db [OF keeps_delete_client]])
  qed
  have transaction: "maintains (gateway_inv view)
      (cl_bind (on_db (db_start_client_transaction env (Some a) None)) (\<lambda>_. cl_bind (on_db client_exist) g))"
    if "\<And>exist. hoare (gateway_with view (fresh_db view)) (g exist) (\<lambda>_. gateway_inv view)"
    for a and g :: "DB_ENTRY_MQTT_SN_CLIENT_RESULT \<Rightarrow> ('a, int) gateway_call"
    unfolding maintains_def
    by (intro hoare_bind [OF hoare_fresh_start [OF assms(1)]] hoare_keeps_bind [OF keeps_on_db [OF keeps_client_exist]] that)
  show ?thesis
    unfolding client_connection_handler_parse_and_handle_connect_def Let_def
  proof (intro keeps_bind [OF keeps_get] keeps_if keeps_return keeps_bind [OF keeps_call] message_at_parsers(2) [OF assms(2)]
      keeps_option keeps_prod transaction)
    fix p y c rc exist
    assume "gives (gateway_inv view) (cl_call (parse_connect empty_connect (msg_rest m k) (msg_rest_length m k))) p"
      "p = Some y" "y = (c, rc)"
    then have id: "0 \<in> set (con_client_id c)"
      by (auto dest: parse_connect_client_id_ok)
    show "hoare (gateway_with view (fresh_db view)) (cl_bind (if exist = DB_ENTRY_MQTT_SN_CLIENT_RESULT_SUCCESS
       then if con_clean_session c = 0
         then on_db (db_reset_client (con_client_id c) (gf_wireless_node_id f) (gf_forwarder_addresses f)
                (gf_forwarder_len f) (con_duration c) (md_create_time_s m))
         else cl_bind (on_db (delete_client env)) (\<lambda>_. on_db (add_client env (con_client_id c) (gf_wireless_node_id f)
                (gf_forwarder_addresses f) (gf_forwarder_len f) (con_duration c) (md_create_time_s m)))
       else on_db (add_client env (con_client_id c) (gf_wireless_node_id f) (gf_forwarder_addresses f)
                (gf_forwarder_len f) (con_duration c) (md_create_time_s m)))
      (\<lambda>_. cl_bind (on_db (db_end_client_transaction env)) (\<lambda>r.
      if r \<noteq> DB_ENTRY_MQTT_SN_CLIENT_RESULT_SUCCESS then cl_return (-1)
      else if con_will c \<noteq> 0 then cl_return 0
      else answer_message env m (\<lambda>dst dst_len. generate_connack dst dst_len RETURN_CODE_ACCEPTED) f)))
      (\<lambda>_. gateway_inv view)"
      by (rule hoare_bind [OF stored [OF id]]) (use connected [of c] in \<open>simp add: maintains_def\<close>)
  qed
qed

lemma db_reads_keeps: "db_reads view m R \<Longrightarrow> maintains (db_ok view) m"
  unfolding db_reads_def maintains_def by (erule hoare_mono) auto

lemma keeps_db_read:
  assumes "db_reads view m R" "\<And>y. R y \<Longrightarrow> maintains (gateway_inv view) (k y)"
  shows "maintains (gateway_inv view) (cl_bind (on_db m) (\<lambda>(_, x). case x of None \<Rightarrow> cl_stop Memory_Fault | Some y \<Rightarrow> k y))"
  unfolding maintains_def gateway_inv_def
proof (rule hoare_bind)
  show "hoare (gateway_with view (db_ok view)) (on_db m)
      (\<lambda>p. gateway_with view ((\<lambda>(r, x) s. db_ok view s \<and> (\<exists>y. x = Some y \<and> R y)) p))"
    by (rule hoare_on_db) (use assms(1) in \<open>simp add: db_reads_def\<close>)
  show "hoare (gateway_with view ((\<lambda>(r, x) s. db_ok view s \<and> (\<exists>y. x = Some y \<and> R y)) p))
      (case p of (_, x) \<Rightarrow> case x of None \<Rightarrow> cl_stop Memory_Fault | Some y \<Rightarrow> k y) (\<lambda>_. gateway_with view (db_ok view))" for p
  proof (cases p)
    case (Pair r x)
    show ?thesis
      using assms(2) unfolding Pair
      by (cases x) (auto simp: hoare_def maintains_def gateway_inv_def gateway_with_def)
  qed
qed

lemma keeps_disconnect_transaction:
  assumes "gateway_env_ok env view room" "maintains (db_ok view) change" "\<And>s. maintains (gateway_inv view) (k s)"
  shows "maintains (gateway_inv view) (disconnect_transaction env a change k)"
proof -
  have exist: "maintains (db_ok view) client_exist"
    using hoare_db_get [of view id]
    by (auto simp: maintains_def hoare_def client_exist_def db_get_def db_checked_def db_assert_def run_rules run_fail cl_bind_def
        cl_get_def db_fail_def split: if_splits)
  show ?thesis
    unfolding disconnect_transaction_def
    by (intro keeps_bind [OF keeps_db_inv [OF keeps_db_start [OF assms(1)]]] keeps_db_read [OF db_reads_fields(4)] keeps_if
        keeps_bind [OF keeps_db_inv] exist assms(2,3) keeps_return keeps_bind db_reads_keeps [OF db_reads_id]
        db_reads_keeps [OF db_reads_fields(1)] keeps_db_end [OF assms(1)] keeps_stop)
qed

lemma keeps_disconnect_duration:
  assumes "gateway_env_ok env view room" "message_at m k"
  shows "maintains (gateway_inv view) (client_connection_handler_parse_and_handle_disconnect_duration env m k f)"
  unfolding client_connection_handler_parse_and_handle_disconnect_duration_def
  by (intro keeps_bind [OF keeps_call] message_at_parsers(3) [OF assms(2)] keeps_option keeps_prod keeps_return
      keeps_disconnect_transaction [OF assms(1)] keeps_bind keeps_db_sets)

lemma keeps_disconnect_message:
  assumes "gateway_env_ok env view room" "message_at m k" "forwarders_ok f"
  shows "maintains (gateway_inv view) (client_connection_handler_parse_and_handle_disconnect env m k f)"
  unfolding client_connection_handler_parse_and_handle_disconnect_def
  by (intro keeps_bind [OF keeps_get] keeps_if keeps_return keeps_disconnect_duration [OF assms(1,2)] keeps_bind [OF keeps_call]
      message_at_parsers(4) [OF assms(2)] keeps_disconnect_transaction [OF assms(1)] keeps_db_sets
      keeps_answer_message env_ok_clock [OF assms(1)] answers_written(2) assms(3))

section \<open>Discovery\<close>

text \<open>The file of gateways stays empty, so no record of one is read or changed.\<close>

lemma keeps_gateway_update [maintains]:
  assumes "gateway_env_ok env view room"
  shows "maintains (db_ok view) (gateway_update env gw_id change note_status)"
proof -
  have error: "maintains (db_ok view) gateway_db_error"
    unfolding gateway_db_error_def by (intro maintains keeps_put) (auto simp: db_ok_def Let_def)
  have env: "fatfs_contract (ge_fs env) view room"
    using assms by (simp add: gateway_env_ok_def)
  have "unat gw_id < 2 ^ LENGTH(8)"
    by (rule unsigned_less)
  then have id: "unat gw_id < 65536"
    by simp
  have read: "hoare (db_ok view) (f_read_at (ge_fs env) MQTT_SN_GATEWAY_DB_DISCOVERED_GATEWAYS_FILE_NAME (unat gw_id)
      (ge_unset_gateway env) (ff_sizeof_gateway (ge_fs env))) (\<lambda>(rc, e) s. rc < 0 \<and> db_ok view s)"
  proof (rule hoareI)
    fix h w
    assume ok: "db_ok view (h, w)"
    obtain x w' where "f_read_at (ge_fs env) MQTT_SN_GATEWAY_DB_DISCOVERED_GATEWAYS_FILE_NAME (unat gw_id)
        (ge_unset_gateway env) (ff_sizeof_gateway (ge_fs env)) (h, w) = Inr ((-1, ge_unset_gateway env), h, w')"
      "view w' = at_place local_file x (view w)"
      using run_read_at [OF env db_ok_parts(2) [OF ok] id, where e = "ge_unset_gateway env" and c = h] by blast
    then show "case f_read_at (ge_fs env) MQTT_SN_GATEWAY_DB_DISCOVERED_GATEWAYS_FILE_NAME (unat gw_id)
        (ge_unset_gateway env) (ff_sizeof_gateway (ge_fs env)) (h, w) of
        Inl e \<Rightarrow> e \<noteq> Memory_Fault
      | Inr (x, s) \<Rightarrow> (case x of (rc, e) \<Rightarrow> \<lambda>s. rc < 0 \<and> db_ok view s) s"
      using ok by (auto simp: db_ok_def Let_def)
  qed
  have none: "maintains (db_ok view) (cl_bind (f_read_at (ge_fs env) MQTT_SN_GATEWAY_DB_DISCOVERED_GATEWAYS_FILE_NAME (unat gw_id)
      (ge_unset_gateway env) (ff_sizeof_gateway (ge_fs env))) (\<lambda>(rc, e). if rc < 0 then gateway_db_error else g e))" for g
    unfolding maintains_def
    by (rule hoare_bind [OF read]) (use error in \<open>auto simp: maintains_def hoare_def\<close>)
  show ?thesis
    unfolding gateway_update_def by (intro keeps_bind [OF keeps_get] keeps_if keeps_return error none)
qed

lemma keeps_advertise:
  assumes "gateway_env_ok env view room" "message_at m k"
  shows "maintains (gateway_inv view) (discovery_handler_parse_and_handle_advertise env m k f)"
  unfolding discovery_handler_parse_and_handle_advertise_def mqtt_sn_discovered_gateway_update_def
  by (intro keeps_bind [OF keeps_call] message_at_parsers(7) [OF assms(2)] keeps_option keeps_prod keeps_return
      keeps_bind [OF keeps_db_inv] keeps_gateway_update [OF assms(1)])

lemma keeps_gwinfo:
  assumes "gateway_env_ok env view room" "message_at m k"
  shows "maintains (gateway_inv view) (discovery_handler_parse_and_handle_gwinfo env m k f)"
  unfolding discovery_handler_parse_and_handle_gwinfo_def mqtt_sn_discovered_gateway_update_address_def
  by (intro keeps_bind [OF keeps_call] message_at_parsers(9) [OF assms(2)] keeps_option keeps_prod keeps_return
      keeps_bind [OF keeps_db_inv] keeps_gateway_update [OF assms(1)]) simp

lemma keeps_search_gw:
  assumes "message_at m k"
  shows "maintains (gateway_inv view) (discovery_handler_parse_and_handle_search_gw m k f)"
proof -
  let ?addresses = "\<lambda>g. (cn_network_address (g_clientNetwork g), cn_broadcast_address (g_clientNetwork g))"
  have info: "generate_gwinfo_gateway_message d (length d) i = Inr (patched d (header_wire 3 GWINFO @ [i]), 3)"
    if "length d = 1024" for d i
    using answer_writers(5) [OF that] that by simp
  have known: "\<exists>a b. p = (Some a, Some b)" if "gives (gateway_inv view) (cl_get ?addresses) p" for p
    using gives_get_gateway [OF that] by (auto simp: gateway_parts_ok_def client_driver_ok_def)
  have buffer: "length (md_data (zero_message\<lparr>md_from := a, md_to := b, md_signal_strength := s\<rparr>)) = 1024" for a b s
    by (simp add: zero_message_def length_message_buffer MQTT_SN_MAXIMUM_MESSAGE_DATA_LENGTH_def)
  show ?thesis
    unfolding discovery_handler_parse_and_handle_search_gw_def Let_def info [OF buffer] cl_call_simps cl_bind_return
  proof (intro keeps_bind [OF keeps_get] keeps_if keeps_return keeps_bind [OF keeps_call] message_at_parsers(8) [OF assms])
    fix p
    assume p: "gives (gateway_inv view) (cl_get ?addresses) p"
    from known [OF p] obtain a b where p: "p = (Some a, Some b)"
      by blast
    show "maintains (gateway_inv view) (case p of
        (Some from_address, Some to_address) \<Rightarrow>
          cl_bind (cl_get (\<lambda>g. ga_gateway_id (g_advertisement_config g))) (\<lambda>gateway_id.
            case Some (patched (md_data (zero_message\<lparr>md_from := from_address, md_to := to_address,
                md_signal_strength := md_signal_strength m\<rparr>)) (header_wire 3 GWINFO @ [gateway_id]), 3) of
              None \<Rightarrow> cl_return (-1)
            | Some (data, gen_rc) \<Rightarrow>
                cl_bind (put_send_buffer (zero_message\<lparr>md_from := from_address, md_to := to_address,
                  md_signal_strength := md_signal_strength m, md_data := data, md_data_length := gen_rc mod 65536\<rparr>)) (\<lambda>rc.
                cl_return (if rc < 0 then -1 else 0 :: int)))
      | _ \<Rightarrow> cl_stop Memory_Fault)"
      unfolding p by (auto intro!: maintains)
  qed
qed

end
