(* ===== verification/Gateway_Loop.thy ===== *)
theory Gateway_Loop
  imports Gateway_Handlers
begin

text \<open>The gateway's pass: dispatch of a message, the two directions of the network, and the passes of the thread.\<close>

section \<open>Dispatch\<close>

lemma message_at_time [simp]: "message_at (m\<lparr>md_create_time_s := t\<rparr>) k = message_at m k"
  by (simp add: message_at_def message_shape_def)

lemma msg_rest_time [simp]:
  "msg_rest (m\<lparr>md_create_time_s := t\<rparr>) k = msg_rest m k" "msg_rest_length (m\<lparr>md_create_time_s := t\<rparr>) k = msg_rest_length m k"
  by (simp_all add: msg_rest_def msg_rest_length_def)

lemma message_at_from: "message_at m k \<Longrightarrow> length (md_from m) = device_address_size"
  by (simp add: message_at_def message_shape_def)

text \<open>A message that is no frame does not reach the handler of frames.\<close>

lemma keeps_active_messages:
  assumes "gateway_env_ok env view room" "message_at m k" "forwarders_ok f"
    "h_msg_type h = ENCAPSULATED_MESSAGE \<Longrightarrow> maintains (gateway_inv view) (encapsulated m k f)"
  shows "maintains (gateway_inv view) (parse_and_handle_active_messages encapsulated env h m k f)"
    "maintains (gateway_inv view) (parse_and_handle_stand_by_messages encapsulated env h m k f)"
proof -
  note keeps = keeps_advertise [OF assms(1,2)] keeps_search_gw [OF assms(2)] keeps_gwinfo [OF assms(1,2)]
    keeps_connect [OF assms(1-3)] keeps_ping_req [OF assms(1-3)] keeps_ping_resp [OF assms(1,2)]
    keeps_disconnect_message [OF assms(1-3)] keeps_return
  show "maintains (gateway_inv view) (parse_and_handle_active_messages encapsulated env h m k f)"
    unfolding parse_and_handle_active_messages_def
    by (cases "h_msg_type h") (simp_all only: MQTT_SN_MESSAGE_TYPE.case keeps assms(4))
  show "maintains (gateway_inv view) (parse_and_handle_stand_by_messages encapsulated env h m k f)"
    unfolding parse_and_handle_stand_by_messages_def
    by (cases "h_msg_type h") (simp_all only: MQTT_SN_MESSAGE_TYPE.case keeps assms(4))
qed

lemma keeps_handle:
  assumes "gateway_env_ok env view room" "message_at m k" "forwarders_ok f"
    and enc: "\<And>rc h pb f'. parse_header empty_header ANY_MESSAGE_TYPE (msg_rest m k) (msg_rest_length m k) 0 = Inr (rc, h, pb)
      \<Longrightarrow> \<not> rc < 0 \<Longrightarrow> h_msg_type h = ENCAPSULATED_MESSAGE \<Longrightarrow> forwarders_ok f'
      \<Longrightarrow> maintains (gateway_inv view) (parse_and_handle_encapsulated_messages (parse_and_handle_message n env) m k f')"
  shows "maintains (gateway_inv view) (parse_and_handle_message (Suc n) env m k f)"
proof -
  let ?f = "if gf_forwarder_len f = 0 then f\<lparr>gf_wireless_node_id := md_from m\<rparr> else f"
  let ?enc = "parse_and_handle_encapsulated_messages (parse_and_handle_message n env)"
  have f: "forwarders_ok ?f"
    using assms(3) message_at_from [OF assms(2)] by (simp add: forwarders_ok_def)
  have parsed: "safe (parse_header empty_header ANY_MESSAGE_TYPE (msg_rest m k) (msg_rest_length m k) 0)"
    by (rule message_at_parsers(1) [OF assms(2)])
  have status: "maintains (gateway_inv view) (case s of
          MQTT_SN_GATEWAY_STATUS_STAND_BY \<Rightarrow> cl_bind (parse_and_handle_stand_by_messages ?enc env h m k ?f) g
        | MQTT_SN_GATEWAY_STATUS_ACTIVE \<Rightarrow> cl_bind (parse_and_handle_active_messages ?enc env h m k ?f) g
        | MQTT_SN_GATEWAY_STATUS_MQTT_DISCONNECTED \<Rightarrow> cl_return (-1)
        | MQTT_SN_GATEWAY_STATUS_MQTT_SN_DISCONNECTED \<Rightarrow> cl_return 0)"
    if h: "parse_header empty_header ANY_MESSAGE_TYPE (msg_rest m k) (msg_rest_length m k) 0 = Inr (rc, h, pb)" "\<not> rc < 0"
      and g: "\<And>rc. maintains (gateway_inv view) (g rc)" for rc h pb s and g :: "int \<Rightarrow> ('a, int) gateway_call"
    using keeps_active_messages [OF assms(1,2) f, where encapsulated = ?enc and h = h, OF enc [OF h _ f]] g
    by (cases s) (auto intro!: keeps_return keeps_bind)
  show ?thesis
    unfolding parse_and_handle_message.simps Let_def
    by (intro keeps_bind [OF keeps_safe_mem [OF parsed parse_header_not_Fail]] keeps_prod keeps_if keeps_return
        keeps_bind [OF keeps_get] status) auto
qed

text \<open>What is behind a frame is no frame, so the second call of the handler is the last.\<close>

lemma keeps_behind_frame:
  assumes "gateway_env_ok env view room" "message_at m k" "forwarders_ok f"
    "parse_header empty_header ANY_MESSAGE_TYPE (msg_rest m k) (msg_rest_length m k) 0 = Inr (rc, h, pb)"
    "h_msg_type h \<noteq> ENCAPSULATED_MESSAGE"
  shows "maintains (gateway_inv view) (parse_and_handle_message (Suc n) env m k f)"
  by (rule keeps_handle [OF assms(1-3)]) (use assms(4,5) in auto)

lemma keeps_frame:
  assumes "gateway_env_ok env view room" "message_at m 0" "forwarders_ok f"
  shows "maintains (gateway_inv view) (parse_and_handle_encapsulated_messages (parse_and_handle_message (Suc n) env) m 0 f)"
proof -
  note frames = parse_frames_ok [OF assms(2,3) message_at_from [OF assms(2)]]
  have header: "maintains (gateway_inv view) (cl_bind (cl_mem (parse_header empty_header ANY_MESSAGE_TYPE (msg_rest m k)
        (msg_rest_length m k) 0)) (\<lambda>(h_rc, h, _).
      if h_rc < 0 then cl_return 0
      else if h_msg_type h = ENCAPSULATED_MESSAGE then cl_return 0
      else parse_and_handle_message (Suc n) env m k f'))" if "message_at m k" "forwarders_ok f'" for k f'
    by (intro keeps_bind [OF keeps_safe_mem [OF message_at_parsers(1) [OF that(1)] parse_header_not_Fail]] keeps_prod keeps_if
        keeps_return keeps_behind_frame [OF assms(1) that]) auto
  show ?thesis
    unfolding parse_and_handle_encapsulated_messages_def Let_def add_0
    by (intro keeps_if keeps_return keeps_bind [OF keeps_call [OF frames(1)]] keeps_option keeps_prod header)
      (auto dest: frames(2))
qed

lemma gateway_message_at:
  assumes "gateway_message_ok m" "md_data_length m \<le> MQTT_SN_MAXIMUM_MESSAGE_DATA_LENGTH"
  shows "message_at m 0"
  using assms by (simp add: gateway_message_ok_def message_ok_def message_at_def)

lemma keeps_message:
  assumes "gateway_env_ok env view room" "gateway_message_ok m"
  shows "maintains (gateway_inv view) (parse_and_handle_message 2 env (m\<lparr>md_create_time_s := t\<rparr>) 0 MqttSnGatewayForwarderInit)"
proof (cases "md_data_length m \<le> MQTT_SN_MAXIMUM_MESSAGE_DATA_LENGTH")
  case True
  then have "message_at (m\<lparr>md_create_time_s := t\<rparr>) 0"
    using gateway_message_at [OF assms(2)] by simp
  then show ?thesis
    unfolding numeral_2_eq_2 by (intro keeps_handle [OF assms(1) _ forwarders_ok_init] keeps_frame [OF assms(1)])
next
  case False
  then have z: "zero_from 0 (md_data m)" "length (md_data m) = 1024"
    using assms(2) by (auto simp: gateway_message_ok_def message_ok_def message_shape_def MQTT_SN_MAXIMUM_MESSAGE_DATA_LENGTH_def)
  then have "md_data m ! 0 = 0" "md_data m ! 1 = 0"
    by (simp_all add: zero_from_def)
  then obtain rest where "md_data m = 0 # 0 # rest"
    using z(2) by (cases "md_data m" rule: remdups_adj.cases) auto
  then obtain h pb where "parse_header empty_header ANY_MESSAGE_TYPE (msg_rest m 0) (msg_rest_length m 0) 0 = Inr (-1, h, pb)"
    using parse_header_zero [of "msg_rest m 0" rest empty_header ANY_MESSAGE_TYPE "msg_rest_length m 0" 0]
    by (auto simp: msg_rest_def)
  then show ?thesis
    unfolding numeral_2_eq_2 by (simp add: keeps_return del: parse_and_handle_encapsulated_messages_def)
qed

section \<open>The network\<close>

text \<open>The network interface changes its status only, the world keeps its files.\<close>

lemma parts_ok_network:
  "gateway_parts_ok view g \<Longrightarrow> n = g_clientNetwork g \<or> n = (g_clientNetwork g)\<lparr>cn_status := s\<rparr> \<Longrightarrow>
     gateway_parts_ok view (g\<lparr>g_clientNetwork := n\<rparr>)"
  by (auto simp: gateway_parts_ok_def client_driver_ok_def quiet_driver_def)

lemma keeps_on_network:
  assumes "\<And>n w. quiet_driver view n \<Longrightarrow> case f n w of (rc, n', w') \<Rightarrow> (n' = n \<or> (\<exists>s. n' = n\<lparr>cn_status := s\<rparr>)) \<and> view w' = view w"
  shows "maintains (gateway_inv view) (on_network f)"
  unfolding maintains_def
proof (rule hoareI)
  fix g w
  assume inv: "gateway_inv view (g, w)"
  then have parts: "gateway_parts_ok view g" and db: "db_ok view (g_db_handler g, w)"
    by (simp_all add: gateway_inv_def gateway_with_def)
  obtain rc n' w' where f: "f (g_clientNetwork g) w = (rc, n', w')"
    by (cases "f (g_clientNetwork g) w") auto
  moreover have "quiet_driver view (g_clientNetwork g)"
    using parts by (simp add: gateway_parts_ok_def client_driver_ok_def)
  ultimately obtain s where n: "n' = g_clientNetwork g \<or> n' = (g_clientNetwork g)\<lparr>cn_status := s\<rparr>" "view w' = view w"
    using assms [of "g_clientNetwork g" w] by auto
  then show "case on_network f (g, w) of Inl e \<Rightarrow> e \<noteq> Memory_Fault | Inr (x, s) \<Rightarrow> gateway_inv view s"
    using parts_ok_network [OF parts n(1)] db f db_ok_view [where view = view and w = w and w' = w', OF n(2), of "g_db_handler g"]
    by (simp add: on_network_def gateway_inv_def gateway_with_def)
qed

lemma quiet_driver_calls:
  assumes "quiet_driver view n"
  shows "cn_connect n = Some f \<Longrightarrow> view (snd (f w)) = view w" "cn_disconnect n = Some f \<Longrightarrow> view (snd (f w)) = view w"
    "cn_deinitialize n = Some f \<Longrightarrow> view (snd (f w)) = view w"
    "cn_send n = Some send \<Longrightarrow> view (snd (send a b d l s t w)) = view w"
    "cn_receive n = Some receive \<Longrightarrow> view (snd (snd (receive rx k t w))) = view w"
proof -
  note q = assms [unfolded quiet_driver_def]
  note call = q [THEN conjunct1, rule_format]
  show "cn_connect n = Some f \<Longrightarrow> view (snd (f w)) = view w" "cn_disconnect n = Some f \<Longrightarrow> view (snd (f w)) = view w"
    "cn_deinitialize n = Some f \<Longrightarrow> view (snd (f w)) = view w"
    by (rule call, simp)+
  show "cn_send n = Some send \<Longrightarrow> view (snd (send a b d l s t w)) = view w"
    by (rule q [THEN conjunct2, THEN conjunct1, rule_format])
  show "cn_receive n = Some receive \<Longrightarrow> view (snd (snd (receive rx k t w))) = view w"
    by (rule q [THEN conjunct2, THEN conjunct2, rule_format])
qed

lemma network_calls_quiet:
  assumes "quiet_driver view n" "f \<in> {ClientNetworkConnect, ClientNetworkDisconnect, ClientNetworkDeinitialize}"
  shows "case f n w of (rc, n', w') \<Rightarrow> (n' = n \<or> (\<exists>s. n' = n\<lparr>cn_status := s\<rparr>)) \<and> view w' = view w"
proof -
  have "case ClientNetworkConnect n w of (rc, n', w') \<Rightarrow> (n' = n \<or> (\<exists>s. n' = n\<lparr>cn_status := s\<rparr>)) \<and> view w' = view w"
    using quiet_driver_calls(1) [OF assms(1)]
    by (cases "cn_connect n") (auto simp: ClientNetworkConnect_def Let_def case_prod_unfold)
  moreover have "case ClientNetworkDisconnect n w of (rc, n', w') \<Rightarrow> (n' = n \<or> (\<exists>s. n' = n\<lparr>cn_status := s\<rparr>)) \<and> view w' = view w"
    using quiet_driver_calls(2) [OF assms(1)]
    by (cases "cn_disconnect n") (auto simp: ClientNetworkDisconnect_def Let_def case_prod_unfold)
  moreover have "case ClientNetworkDeinitialize n w of (rc, n', w') \<Rightarrow> (n' = n \<or> (\<exists>s. n' = n\<lparr>cn_status := s\<rparr>)) \<and> view w' = view w"
    using quiet_driver_calls(3) [OF assms(1)]
    by (cases "cn_deinitialize n") (auto simp: ClientNetworkDeinitialize_def Let_def case_prod_unfold)
  ultimately show ?thesis
    using assms(2) by (elim insertE emptyE) simp_all
qed

lemma keeps_network [maintains]:
  "maintains (gateway_inv view) (on_network ClientNetworkConnect)"
  "maintains (gateway_inv view) (on_network ClientNetworkDisconnect)"
  "maintains (gateway_inv view) (on_network ClientNetworkDeinitialize)"
  by (rule keeps_on_network, erule network_calls_quiet, simp)+

lemma keeps_disconnect_network [maintains]: "maintains (gateway_inv view) disconnect_client_network"
  unfolding disconnect_client_network_def by (intro maintains)

text \<open>A receive appends at most one message, which the driver's contract describes.\<close>

lemma receive_quiet:
  assumes "quiet_driver view n" "clock_quiet view env"
    "ClientNetworkReceive (get_timestamp_ms (ge_platform env)) n q t w = Inr (rc, n', q', w')"
  shows "view w' = view w"
proof -
  have clock: "view (snd (get_timestamp_ms (ge_platform env) w)) = view w" for w
    using assms(2) by (auto simp: get_timestamp_ms_def clock_quiet_def Let_def split: prod.split dest: spec [of _ w])
  have clk: "view w2 = view w1" if "get_timestamp_ms (ge_platform env) w1 = (x, w2)" for x w1 w2
    using clock [of w1] that by simp
  have rcv: "view w1 = view w" if "quiet_driver view n" "cn_receive n = Some receive" "receive rx k t w = (r, y, w1)"
    for n receive rx k r y w1
    using quiet_driver_calls(5) [OF that(1,2), of rx k t w] that(3) by simp
  show ?thesis
    using assms(1,3)
    by (auto simp: ClientNetworkReceive_def Let_def cbind_eq_Inr add_mqtt_sn_message_timestamp_def
        dest!: clk split: option.splits prod.splits if_splits) (auto dest: rcv)
qed

lemma send_quiet:
  assumes "quiet_driver view n" "ClientNetworkSend n q t w = Inr (rc, n', q', w')"
  shows "view w' = view w"
proof -
  have snt: "view w1 = view w" if "quiet_driver view n" "cn_send n = Some send" "send a b d l s t w = (r, w1)"
    for n send a b d l s r w1
    using quiet_driver_calls(4) [OF that(1,2), of a b d l s t w] that(3) by simp
  show ?thesis
    using assms
    by (auto simp: ClientNetworkSend_def Let_def cbind_eq_Inr split: option.splits prod.splits if_splits) (auto dest: snt)
qed

lemma received_gateway_message_ok:
  assumes "client_driver_ok view n" "client_can_receive n" "client_arrival n t w = (r, rx, w')"
    and short: "case rx of (from, to, data, signal) \<Rightarrow> 0 \<le> r \<longrightarrow> \<not> long_connect data (nat r)"
  shows "gateway_message_ok (received_message rx r ts tms)"
proof -
  obtain receive where r: "cn_receive n = Some receive" "receive empty_rx (cn_max_data_length n) t w = (r, rx, w')"
    using assms(2,3) by (auto simp: client_can_receive_def client_arrival_def)
  then have c: "receive_contract receive (cn_max_data_length n)"
    using assms(1) by (simp add: client_driver_ok_def)
  obtain a b d g where rx: "rx = (a, b, d, g)" by (cases rx) auto
  have d: "length d = MQTT_SN_MAXIMUM_MESSAGE_DATA_LENGTH"
    "if 0 \<le> r then r \<le> int MQTT_SN_MAXIMUM_MESSAGE_DATA_LENGTH else zero_from 0 d"
    "0 \<le> r \<Longrightarrow> \<not> long_connect d (nat r)"
    using c r(2) short unfolding receive_contract_def rx
    by (auto dest!: spec [of _ t] spec [of _ w] split: if_splits)
  have "\<not> long_connect d (nat (r mod 65536))" if "nat (r mod 65536) \<le> MQTT_SN_MAXIMUM_MESSAGE_DATA_LENGTH"
  proof (cases "0 \<le> r")
    case True
    then have "r mod 65536 = r"
      using d(2) by (simp add: MQTT_SN_MAXIMUM_MESSAGE_DATA_LENGTH_def)
    then show ?thesis
      using d(3) [OF True] by simp
  next
    case False
    then show ?thesis
      using d(1,2) that by (auto simp: long_connect_def zero_from_def MQTT_SN_MAXIMUM_MESSAGE_DATA_LENGTH_def)
  qed
  then show ?thesis
    using received_message_ok [OF c r(2), of ts tms] unfolding rx
    by (simp add: gateway_message_ok_def received_message_def)
qed

lemma gateway_invI:
  "gateway_inv view (g, w) \<Longrightarrow> view w' = view w \<Longrightarrow> gateway_parts_ok view g' \<Longrightarrow> g_db_handler g' = g_db_handler g \<Longrightarrow>
     gateway_inv view (g', w')"
  by (simp add: gateway_inv_def gateway_with_def db_ok_def)

lemma hoare_receive_from_clients:
  assumes "clock_quiet view env"
  shows "hoare (\<lambda>s. gateway_inv view s \<and> \<not> long_connect_arrives s) (receive_from_clients env) (\<lambda>_. gateway_inv view)"
proof (rule hoareI)
  fix g w
  assume "gateway_inv view (g, w) \<and> \<not> long_connect_arrives (g, w)"
  then have inv: "gateway_inv view (g, w)" and short: "\<not> long_connect_arrives (g, w)"
    by simp_all
  then have parts: "gateway_parts_ok view g"
    by (simp add: gateway_inv_def gateway_with_def)
  let ?n = "g_clientNetwork g" and ?q = "g_clientNetworkReceiveBuffer g" and ?clk = "get_timestamp_ms (ge_platform env)"
  have q: "ring_inv ?q" and driver: "client_driver_ok view ?n"
    using parts by (simp_all add: gateway_parts_ok_def buffer_ok_def)
  obtain rc n' q' w' where r: "ClientNetworkReceive ?clk ?n ?q (g_clientNetworkReceiveTimeout g) w = Inr (rc, n', q', w')" "ring_inv q'"
    and c: "contents q' = contents ?q \<or> (\<exists>r rx w1 ts tms. client_can_receive ?n
      \<and> client_arrival ?n (g_clientNetworkReceiveTimeout g) w = (r, rx, w1) \<and> r mod 65536 \<noteq> 0
      \<and> contents q' = contents ?q @ [received_message rx r ts tms])"
    using client_net.receive_total [OF q, of ?clk ?n "g_clientNetworkReceiveTimeout g" w] by blast
  have "buffer_ok gateway_message_ok q'"
    using c r(2) parts short received_gateway_message_ok [OF driver]
    by (fastforce simp: gateway_parts_ok_def buffer_ok_def long_connect_arrives_def)
  moreover have "n' = ?n \<or> n' = ?n\<lparr>cn_status := MQTT_SN_CLIENT_NETWORK_INTERFACE_STATUS_DISCONNECTED\<rparr>"
    by (rule receive_iface(2) [OF r(1)])
  ultimately have "gateway_parts_ok view (g\<lparr>g_clientNetwork := n', g_clientNetworkReceiveBuffer := q'\<rparr>)"
    using parts_ok_network [OF parts] by (fastforce simp: gateway_parts_ok_def)
  moreover have "view w' = view w"
    using receive_quiet [OF _ assms r(1)] driver by (simp add: client_driver_ok_def)
  ultimately show "case receive_from_clients env (g, w) of Inl e \<Rightarrow> e \<noteq> Memory_Fault | Inr (x, s) \<Rightarrow> gateway_inv view s"
    using gateway_invI [OF inv] r(1) by (simp add: receive_from_clients_def run_world run_rules)
qed

lemma keeps_send_messages [maintains]: "maintains (gateway_inv view) send_client_messages"
  unfolding maintains_def
proof (rule hoareI)
  fix g w
  assume inv: "gateway_inv view (g, w)"
  then have parts: "gateway_parts_ok view g"
    by (simp add: gateway_inv_def gateway_with_def)
  let ?n = "g_clientNetwork g" and ?q = "g_clientNetworkSendBuffer g"
  have q: "ring_inv ?q" and driver: "client_driver_ok view ?n"
    using parts by (simp_all add: gateway_parts_ok_def)
  obtain rc n' q' w' where r: "ClientNetworkSend ?n ?q (g_clientNetworkSendTimeout g) w = Inr (rc, n', q', w')" "ring_inv q'"
    using client_net.send_total [OF q, of ?n "g_clientNetworkSendTimeout g" w] by blast
  have "gateway_parts_ok view (g\<lparr>g_clientNetwork := n', g_clientNetworkSendBuffer := q'\<rparr>)"
    using parts_ok_network [OF parts send_iface(2) [OF r(1)]] r(2) by (simp add: gateway_parts_ok_def)
  moreover have "view w' = view w"
    using send_quiet [OF _ r(1)] driver by (simp add: client_driver_ok_def)
  ultimately show "case send_client_messages (g, w) of Inl e \<Rightarrow> e \<noteq> Memory_Fault | Inr (x, s) \<Rightarrow> gateway_inv view s"
    using gateway_invI [OF inv] r(1) by (simp add: send_client_messages_def run_world run_rules)
qed

section \<open>A pass\<close>

lemma keeps_client_message:
  assumes "gateway_env_ok env view room"
  shows "maintains (gateway_inv view) (MqttSnGatewayHandleClientMessageData env m)"
proof -
  have clock: "maintains (gateway_inv view) (cl_world (pf_clock_ms (ge_platform env)))"
    by (rule keeps_quiet_world) (use env_ok_clock [OF assms] in \<open>simp add: clock_quiet_def\<close>)
  have popped: "maintains (gateway_inv view) (cl_bind (cl_mem (pop q m)) (\<lambda>(rc, q, msg).
      cl_bind (cl_put (\<lambda>g. g\<lparr>g_clientNetworkReceiveBuffer := q\<rparr>)) (\<lambda>_.
      if rc \<noteq> 0 then cl_return 0 else k msg)))"
    if "gives (gateway_inv view) (cl_get g_clientNetworkReceiveBuffer) q"
      "\<And>msg. gateway_message_ok msg \<Longrightarrow> maintains (gateway_inv view) (k msg)"
    for q and k :: "MqttSnMessageData \<Rightarrow> ('a, int) gateway_call"
  proof -
    have "buffer_ok gateway_message_ok q"
      using gives_get_gateway [OF that(1)] by (auto simp: gateway_parts_ok_def)
    then obtain rc q' msg where p: "pop q m = Inr (rc, q', msg)" "buffer_ok gateway_message_ok q'"
      "rc = 0 \<longrightarrow> gateway_message_ok msg"
      using ok_pop [of gateway_message_ok q m] by (auto simp: ok_def split: sum.splits)
    then show ?thesis
      using that(2) by (auto simp: gateway_parts_ok_def intro!: maintains keeps_put_gateway)
  qed
  show ?thesis
    unfolding MqttSnGatewayHandleClientMessageData_def
    by (intro keeps_bind [OF keeps_get] keeps_if keeps_return popped keeps_bind [OF clock] keeps_prod
        keeps_message [OF assms])
qed

lemma hoare_pass:
  assumes "gateway_env_ok env view room"
  shows "hoare (\<lambda>s. gateway_inv view s \<and> \<not> long_connect_arrives s) (MqttSnGatewayLoop env) (\<lambda>_. gateway_inv view)"
proof -
  have rest: "maintains (gateway_inv view) (cl_bind (if rc < 0 then disconnect_client_network else cl_return ()) (\<lambda>_.
      cl_bind (MqttSnGatewayHandleClientMessageData env zero_message) (\<lambda>_.
      cl_bind send_client_messages (\<lambda>rc.
      cl_bind (if rc < 0 then disconnect_client_network else cl_return ()) (\<lambda>_.
      cl_bind (cl_get (\<lambda>g. gh_client_connection_timeout_check_enabled (g_client_con_handler g))) (\<lambda>enabled.
      cl_bind (if enabled \<noteq> 0 then client_connection_handler_check_timeouts env else cl_return 0) (\<lambda>rc.
      cl_return (if rc < 0 then -1 else 0 :: int))))))))" for rc :: int
    by (intro maintains keeps_client_message [OF assms] keeps_check_timeouts [OF assms])
  show ?thesis
    unfolding MqttSnGatewayLoop_def
    by (rule hoare_bind [OF hoare_receive_from_clients [OF env_ok_clock [OF assms]] rest [unfolded maintains_def]])
qed

text \<open>
  A run of passes: it ends in the invariant, or a pass of it began in the invariant with the arrival of a
  CONNECT that is too long.
\<close>

definition long_connect_met :: "nat \<Rightarrow> 'w gateway_env \<Rightarrow> ('w \<Rightarrow> file_view) \<Rightarrow> 'w MqttSnGateway \<times> 'w \<Rightarrow> bool" where
  "long_connect_met k env view s \<longleftrightarrow>
     (\<exists>j < k. \<exists>s'. gateway_passes j env s = Inr (0, s') \<and> gateway_inv view s' \<and> long_connect_arrives s')"

lemma not_met_Suc:
  assumes "\<not> long_connect_met (Suc k) env view s"
  shows "gateway_inv view s \<Longrightarrow> \<not> long_connect_arrives s"
    and "MqttSnGatewayLoop env s = Inr (rc, s') \<Longrightarrow> \<not> rc < 0 \<Longrightarrow> \<not> long_connect_met k env view s'"
proof -
  have "gateway_passes 0 env s = Inr (0, s)"
    by (simp add: cl_return_def)
  then show "gateway_inv view s \<Longrightarrow> \<not> long_connect_arrives s"
    using assms unfolding long_connect_met_def by blast
  assume "MqttSnGatewayLoop env s = Inr (rc, s')" "\<not> rc < 0"
  then have "gateway_passes (Suc j) env s = gateway_passes j env s'" for j
    by (simp add: cl_bind_def)
  then show "\<not> long_connect_met k env view s'"
    using assms unfolding long_connect_met_def by (metis Suc_less_eq)
qed

lemma hoare_passes:
  assumes "gateway_env_ok env view room"
  shows "hoare (\<lambda>s. gateway_inv view s \<and> \<not> long_connect_met k env view s) (gateway_passes k env) (\<lambda>_. gateway_inv view)"
proof (induction k)
  case 0
  show ?case
    by (auto intro: hoare_return)
next
  case (Suc k)
  show ?case
    unfolding hoare_def
  proof (intro allI impI)
    fix s
    assume s: "gateway_inv view s \<and> \<not> long_connect_met (Suc k) env view s"
    have "gateway_inv view s \<and> \<not> long_connect_arrives s"
      using s not_met_Suc(1) by blast
    note pass = hoare_pass [OF assms, unfolded hoare_def, rule_format, OF this]
    show "case gateway_passes (Suc k) env s of Inl e \<Rightarrow> e \<noteq> Memory_Fault | Inr (x, s') \<Rightarrow> gateway_inv view s'"
    proof (cases "MqttSnGatewayLoop env s")
      case (Inl e)
      then show ?thesis
        using pass by (simp add: cl_bind_def)
    next
      case (Inr r)
      then obtain rc s' where r: "MqttSnGatewayLoop env s = Inr (rc, s')"
        by (cases r) auto
      then have inv: "gateway_inv view s'"
        using pass by simp
      then show ?thesis
        using r Suc.IH [unfolded hoare_def, rule_format, of s'] not_met_Suc(2) [OF _ r] s
        by (auto simp: cl_bind_def cl_return_def)
    qed
  qed
qed

end
