(* ===== verification/Gateway_Fuel.thy ===== *)
theory Gateway_Fuel
  imports Gateway_Loop
begin

text \<open>
  The fuel of the gateway is enough: on a volume that keeps the contract no call runs out of it, whatever the
  state. The registry has at most \<open>room\<close> entries, and each round of a search reads one of them.
\<close>

section \<open>Calls that have fuel\<close>

named_theorems has_fuel \<open>calls that do not run out of fuel\<close>

definition fuelled :: "('s \<Rightarrow> stopped + 'a \<times> 's) \<Rightarrow> bool" where
  "fuelled m \<longleftrightarrow> (\<forall>s. m s \<noteq> Inl Out_Of_Fuel)"

lemma fuelled_bind_result: "fuelled m \<Longrightarrow> (\<And>x s s'. m s = Inr (x, s') \<Longrightarrow> fuelled (f x)) \<Longrightarrow> fuelled (cl_bind m f)"
  by (fastforce simp: fuelled_def cl_bind_def split: sum.split)

lemma fuelled_bind [has_fuel]: "fuelled m \<Longrightarrow> (\<And>x. fuelled (f x)) \<Longrightarrow> fuelled (cl_bind m f)"
  by (rule fuelled_bind_result)

lemma fuelled_branches [has_fuel]:
  "(b \<Longrightarrow> fuelled m) \<Longrightarrow> (\<not> b \<Longrightarrow> fuelled m') \<Longrightarrow> fuelled (if b then m else m')"
  "(\<And>a b. fuelled (g a b)) \<Longrightarrow> fuelled (case p of (a, b) \<Rightarrow> g a b)"
  "fuelled m \<Longrightarrow> (\<And>y. fuelled (f y)) \<Longrightarrow> fuelled (case x of None \<Rightarrow> m | Some y \<Rightarrow> f y)"
  by (auto split: prod.split option.split)

lemma fuelled_steps [has_fuel]:
  "fuelled (cl_return x)" "fuelled (cl_get f)" "fuelled (cl_put f')" "fuelled (cl_world h)" "fuelled (cl_mem r)"
  "fuelled (cl_call r')" "fuelled (db_assert b)" "fuelled (cl_stop Memory_Fault)"
  by (auto simp: fuelled_def cl_return_def cl_get_def cl_put_def cl_world_def cl_mem_def cl_call_def db_assert_def cl_stop_def
      split: sum.split cerr.split prod.split)

lemma fuelled_on_db [has_fuel]: "fuelled m \<Longrightarrow> fuelled (on_db m)"
  by (auto simp: fuelled_def on_db_def split: sum.split)

lemma fuelled_on_network [has_fuel]: "fuelled (on_network f)"
  by (auto simp: fuelled_def on_network_def split: prod.split)

section \<open>The database\<close>

lemma find_client_fuel:
  assumes "fatfs_contract ff view room"
    "fv_open (view w) client_registry_file = Some (MQTT_SN_GATEWAY_DB_CLIENT_REGISTRY_FILE_NAME, FA_READ, p)"
    "length (fv_clients (view w)) - p < n"
  shows "find_client_loop n ff a c (h, w) \<noteq> Inl Out_Of_Fuel"
  using assms
proof (induction n arbitrary: p h w)
  case (Suc n)
  let ?cs = "fv_clients (view w)" and ?R = "MQTT_SN_GATEWAY_DB_CLIENT_REGISTRY_FILE_NAME"
  show ?case
  proof (cases "length ?cs \<le> p")
    case True
    then obtain w1 where "ff_read_client ff client_registry_file empty_entry w = ((FR_OK, 0, empty_entry), w1)"
      using read_client_end [OF Suc.prems(1,2)] by blast
    then show ?thesis
      by (simp add: run_world run_rules)
        (auto simp: cl_bind_def cl_mem_def cl_put_def cl_get_def db_set_result_def cl_return_def split: sum.split cerr.split)
  next
    case False
    obtain w1 where w1: "ff_read_client ff client_registry_file empty_entry w = ((FR_OK, ff_sizeof_client ff, ?cs ! p), w1)"
      "view w1 = at_place client_registry_file (?R, FA_READ, Suc p) (view w)"
      using read_client [OF Suc.prems(1,2), of empty_entry] False by auto
    then have "find_client_loop n ff a c (h', w1) \<noteq> Inl Out_Of_Fuel" for h'
      using Suc.IH [of w1 "Suc p" h'] Suc.prems(1,3) False by auto
    then show ?thesis
      using w1(1) by (simp add: run_world run_rules)
        (auto simp: cl_bind_def cl_mem_def cl_put_def cl_get_def db_set_result_def cl_return_def split: sum.split cerr.split)
  qed
qed simp

lemma empty_space_fuel:
  assumes "fatfs_contract ff view room"
    "fv_open (view w) f = Some (MQTT_SN_GATEWAY_DB_CLIENT_REGISTRY_FILE_NAME, FA_READ, p)"
    "length (fv_clients (view w)) - p < n"
  shows "empty_space_loop n ff f e line (c, w) \<noteq> Inl Out_Of_Fuel"
  using assms
proof (induction n arbitrary: p e line w)
  case (Suc n)
  let ?cs = "fv_clients (view w)" and ?R = "MQTT_SN_GATEWAY_DB_CLIENT_REGISTRY_FILE_NAME"
  obtain w1 where w1: "ff_eof ff f w = (length ?cs \<le> p, w1)" "view w1 = view w"
    using end_of_file [OF Suc.prems(1,2)] by auto
  show ?case
  proof (cases "length ?cs \<le> p")
    case True
    then show ?thesis
      using w1 by (simp add: run_world run_rules)
  next
    case False
    obtain w2 where w2: "ff_read_client ff f empty_entry w1 = ((FR_OK, ff_sizeof_client ff, ?cs ! p), w2)"
      "view w2 = at_place f (?R, FA_READ, Suc p) (view w)"
      using read_client [OF Suc.prems(1), of w1 f FA_READ p empty_entry] Suc.prems(2) False w1(2) by auto
    then have "empty_space_loop n ff f e' line' (c, w2) \<noteq> Inl Out_Of_Fuel" for e' line'
      using Suc.IH [of w2 "Suc p" e' line'] Suc.prems(1,3) False by auto
    then show ?thesis
      using w1(1) w2(1) False by (simp add: run_world run_rules)
        (auto simp: cl_bind_def cl_mem_def cl_return_def split: sum.split cerr.split)
  qed
qed simp

lemma fuelled_results [has_fuel]:
  "fuelled db_fail" "fuelled DB_HANDLER_SET_CLIENT_TRANSACTION_ERROR" "fuelled (db_set_result r)"
  "fuelled gateway_db_error" "fuelled gateway_db_success"
  unfolding db_fail_def DB_HANDLER_SET_CLIENT_TRANSACTION_ERROR_def db_set_result_def gateway_db_error_def gateway_db_success_def
  by (intro has_fuel)+

lemma fuelled_checked [has_fuel]: "fuelled m \<Longrightarrow> fuelled (db_checked m)"
  unfolding db_checked_def by (intro has_fuel)

lemma fuelled_start:
  assumes "gateway_env_ok env view room"
  shows "fuelled (db_start_client_transaction env a c)"
proof -
  have env: "fatfs_contract (ge_fs env) view room" "room < ge_fuel env"
    using assms by (simp_all add: gateway_env_ok_def)
  have found: "find_client_loop (ge_fuel env) (ge_fs env) a c (h, w') \<noteq> Inl Out_Of_Fuel"
    if "ff_open (ge_fs env) client_registry_file MQTT_SN_GATEWAY_DB_CLIENT_REGISTRY_FILE_NAME FA_READ w = (rc, w')" for h w rc w'
  proof -
    have "view w' = at_place client_registry_file (MQTT_SN_GATEWAY_DB_CLIENT_REGISTRY_FILE_NAME, FA_READ, 0) (view w)"
      using open_file [OF env(1), of MQTT_SN_GATEWAY_DB_CLIENT_REGISTRY_FILE_NAME FA_READ client_registry_file w] that by auto
    moreover have "length (fv_clients (view w')) \<le> room"
      using env(1) by (simp add: fatfs_contract_def sizes_contract_def)
    ultimately show ?thesis
      using env(2) by (intro find_client_fuel [OF env(1), where p = 0]) auto
  qed
  then have opened: "fuelled (cl_bind (cl_world (ff_open (ge_fs env) client_registry_file MQTT_SN_GATEWAY_DB_CLIENT_REGISTRY_FILE_NAME
      FA_READ)) (\<lambda>rc. if rc \<noteq> FR_OK then db_fail else find_client_loop (ge_fuel env) (ge_fs env) a c))"
    using fuelled_results(1) by (auto simp: fuelled_def run_world split: prod.split)
  show ?thesis
    unfolding db_start_client_transaction_def by (intro has_fuel opened)
qed

lemma fuelled_find_empty:
  fixes env :: "'w gateway_env"
  assumes "gateway_env_ok env view room"
  shows "fuelled (find_empty_entry_space_in_registry (ge_fuel env) (ge_fs env) e f MQTT_SN_GATEWAY_DB_CLIENT_REGISTRY_FILE_NAME
    :: 'c \<times> 'w \<Rightarrow> _)"
  unfolding fuelled_def
proof
  fix s :: "'c \<times> 'w"
  obtain c w where s: "s = (c, w)" by (cases s)
  let ?R = MQTT_SN_GATEWAY_DB_CLIENT_REGISTRY_FILE_NAME
  let ?go = "f_go_to_start (ge_fs env) f ?R FA_READ"
  have env: "fatfs_contract (ge_fs env) view room" "room < ge_fuel env"
    using assms by (simp_all add: gateway_env_ok_def)
  show "find_empty_entry_space_in_registry (ge_fuel env) (ge_fs env) e f ?R s \<noteq> Inl Out_Of_Fuel"
  proof (cases "fv_open (view w) f = None")
    case True
    obtain w1 where w1: "?go (c, w) = Inr (-1, c, w1)"
      using go_to_start_closed [OF env(1) True, where path = ?R and mode = FA_READ and c = c] by blast
    show ?thesis
      by (simp add: s find_empty_entry_space_in_registry_def run_bind [where m = ?go, OF w1] run_rules)
  next
    case False
    obtain w1 where w1: "?go (c, w) = Inr (0, c, w1)" "view w1 = at_place f (?R, FA_READ, 0) (view w)"
      using run_go_to_start [OF env(1) _ _ False, of ?R FA_READ c] file_name_differ by blast
    have "length (fv_clients (view w1)) \<le> room"
      using env(1) by (simp add: fatfs_contract_def sizes_contract_def)
    then have "empty_space_loop (ge_fuel env) (ge_fs env) f e 0 (c, w1) \<noteq> Inl Out_Of_Fuel"
      using w1(2) env(2) by (intro empty_space_fuel [OF env(1), where p = 0]) auto
    then show ?thesis
      by (simp add: s find_empty_entry_space_in_registry_def run_bind [where m = ?go, OF w1(1)])
  qed
qed

lemma fuelled_files [has_fuel]:
  "fuelled (f_go_to_start ff f path mode)" "fuelled (write_db_entry_client ff f e)" "fuelled (delete_db_entry_client ff f)"
  "fuelled (read_db_entry_client ff f p e)" "fuelled (f_delete ff u)" "fuelled (f_read_at ff path p b n)" "fuelled (f_write_at ff path p b n)"
  "fuelled (cl_stop Assertion)"
proof -
  show go: "fuelled (f_go_to_start ff f path mode)" for path mode
    unfolding f_go_to_start_def by (intro has_fuel)
  show stop: "fuelled (cl_stop Assertion)"
    by (simp add: fuelled_def cl_stop_def)
  show "fuelled (write_db_entry_client ff f e)" for e
    unfolding write_db_entry_client_def by (intro has_fuel go stop)
  then show "fuelled (delete_db_entry_client ff f)"
    unfolding delete_db_entry_client_def by (intro has_fuel)
qed (unfold read_db_entry_client_def f_delete_def f_read_at_def f_write_at_def; intro has_fuel)+

lemma fuelled_reads [has_fuel]:
  "fuelled (db_get f)" "fuelled db_get_client_connect_duration" "fuelled db_get_client_last_ping_req_received"
  "fuelled db_get_client_last_ping_resp_received" "fuelled db_get_client_status" "fuelled db_get_ping_req_await_msg_type"
  "fuelled db_get_client_id" "fuelled (db_get_client_address env as n)" "fuelled db_get_client_count" "fuelled client_exist"
  "fuelled db_is_client_transaction_started" "fuelled get_db_handler_result"
proof -
  show get: "fuelled (db_get f)" for f :: "DB_ENTRY_MQTT_SN_CLIENT \<Rightarrow> 'x"
    unfolding db_get_def by (intro has_fuel)
  show "fuelled db_get_client_connect_duration" "fuelled db_get_client_last_ping_req_received"
    "fuelled db_get_client_last_ping_resp_received" "fuelled db_get_client_status" "fuelled db_get_ping_req_await_msg_type"
    unfolding db_get_client_connect_duration_def db_get_client_last_ping_req_received_def
      db_get_client_last_ping_resp_received_def db_get_client_status_def db_get_ping_req_await_msg_type_def
    by (rule get)+
qed (unfold db_get_client_id_def db_get_client_address_def db_get_client_count_def client_exist_def
    db_is_client_transaction_started_def get_db_handler_result_def db_get_def; intro has_fuel)+

lemma fuelled_writes [has_fuel]:
  "fuelled (db_set f)" "fuelled (db_set_client_last_ping_req_received t)" "fuelled (db_set_client_last_ping_resp_received t)"
  "fuelled (db_set_client_connect_duration d)" "fuelled (db_set_client_status s)" "fuelled (db_set_ping_req_await_msg_type mt)"
  "fuelled (db_reset_client i a as n d t)" "fuelled (delete_client env)"
  "fuelled (db_end_client_transaction env)" "fuelled (db_start_client_transaction_by_client_count env k)"
  unfolding db_set_def db_set_client_last_ping_req_received_def db_set_client_last_ping_resp_received_def
    db_set_client_connect_duration_def db_set_client_status_def db_set_ping_req_await_msg_type_def db_reset_client_def
    delete_client_def delete_file_of_def db_end_client_transaction_def db_start_client_transaction_by_client_count_def
  by (intro has_fuel)+

lemma fuelled_add_client: "gateway_env_ok env view room \<Longrightarrow> fuelled (add_client env i a as n d t)"
  unfolding add_client_def by (intro has_fuel; rule fuelled_find_empty)

section \<open>Handlers and passes\<close>

lemma fuelled_status [has_fuel]:
  "fuelled a \<Longrightarrow> fuelled b \<Longrightarrow> fuelled c \<Longrightarrow> fuelled d \<Longrightarrow>
   fuelled (case s of MQTT_SN_GATEWAY_STATUS_STAND_BY \<Rightarrow> a | MQTT_SN_GATEWAY_STATUS_MQTT_DISCONNECTED \<Rightarrow> b
     | MQTT_SN_GATEWAY_STATUS_MQTT_SN_DISCONNECTED \<Rightarrow> c | MQTT_SN_GATEWAY_STATUS_ACTIVE \<Rightarrow> d)"
  by (cases s) simp_all

lemma fuelled_combinators [has_fuel]:
  "fuelled m \<Longrightarrow> fuelled k \<Longrightarrow> fuelled (ck_set m k)"
  "fuelled r \<Longrightarrow> (\<And>y. fuelled (f y)) \<Longrightarrow> fuelled (ck_get r f)"
  "fuelled (put_send_buffer msg)" "fuelled (send_generated msg n fwds)" "fuelled (answer_message env msg g fwds)"
  "fuelled (handler_time env)"
  unfolding ck_set_def ck_get_def put_send_buffer_def send_generated_def answer_message_def handler_time_def
  by (intro has_fuel; assumption?)+

lemma fuelled_log [has_fuel]: "fuelled k \<Longrightarrow> fuelled (log_client_details k)"
  unfolding log_client_details_def by (intro has_fuel)

lemma fuelled_ping_req_to_client [has_fuel]: "fuelled (send_client_connection_ping_req env fwds)"
  unfolding send_client_connection_ping_req_def Let_def by (intro has_fuel)

lemma fuelled_check_active [has_fuel]: "fuelled (check_active_client_connection_timeout env t)"
  unfolding check_active_client_connection_timeout_def Let_def by (intro has_fuel)

lemma fuelled_check_clients [has_fuel]: "fuelled (check_clients_loop n env k t)"
  by (induction n arbitrary: k) (auto intro!: has_fuel)

lemma fuelled_check_timeouts [has_fuel]: "fuelled (client_connection_handler_check_timeouts env)"
  unfolding client_connection_handler_check_timeouts_def by (intro has_fuel)

lemma fuelled_update [has_fuel]: "(\<And>e. fuelled (note_status e)) \<Longrightarrow> fuelled (gateway_update env i change note_status)"
  unfolding gateway_update_def by (intro has_fuel; assumption?)

lemma fuelled_handlers:
  assumes "gateway_env_ok env view room"
  shows "fuelled (client_connection_handler_parse_and_handle_ping_resp env m k f)"
    "fuelled (client_connection_handler_parse_and_handle_ping_req env m k f)"
    "fuelled (client_connection_handler_parse_and_handle_connect env m k f)"
    "fuelled (client_connection_handler_parse_and_handle_disconnect env m k f)"
    "fuelled (discovery_handler_parse_and_handle_advertise env m k f)"
    "fuelled (discovery_handler_parse_and_handle_search_gw m k f)"
    "fuelled (discovery_handler_parse_and_handle_gwinfo env m k f)"
  unfolding client_connection_handler_parse_and_handle_ping_resp_def client_connection_handler_parse_and_handle_ping_req_def
    start_ping_transaction_def end_ping_transaction_def client_connection_handler_parse_and_handle_connect_def
    client_connection_handler_parse_and_handle_disconnect_def client_connection_handler_parse_and_handle_disconnect_duration_def
    disconnect_transaction_def discovery_handler_parse_and_handle_advertise_def discovery_handler_parse_and_handle_search_gw_def
    discovery_handler_parse_and_handle_gwinfo_def mqtt_sn_discovered_gateway_update_def
    mqtt_sn_discovered_gateway_update_address_def Let_def
  by (intro has_fuel fuelled_start [OF assms] fuelled_add_client [OF assms])+

lemma fuelled_messages:
  assumes "gateway_env_ok env view room" "h_msg_type h = ENCAPSULATED_MESSAGE \<Longrightarrow> fuelled (encapsulated m k f)"
  shows "fuelled (parse_and_handle_active_messages encapsulated env h m k f)"
    "fuelled (parse_and_handle_stand_by_messages encapsulated env h m k f)"
proof -
  note handlers = fuelled_handlers [OF assms(1)] fuelled_steps(1)
  show "fuelled (parse_and_handle_active_messages encapsulated env h m k f)"
    unfolding parse_and_handle_active_messages_def
    by (cases "h_msg_type h") (simp_all only: MQTT_SN_MESSAGE_TYPE.case handlers assms(2))
  show "fuelled (parse_and_handle_stand_by_messages encapsulated env h m k f)"
    unfolding parse_and_handle_stand_by_messages_def
    by (cases "h_msg_type h") (simp_all only: MQTT_SN_MESSAGE_TYPE.case handlers assms(2))
qed

text \<open>The handler of messages calls itself at most once, as what is behind a frame is no frame.\<close>

lemma fuelled_parsed:
  "(\<And>x. r = Inr x \<Longrightarrow> fuelled (f x)) \<Longrightarrow> fuelled (cl_bind (cl_mem r) f)"
  by (rule fuelled_bind_result [OF fuelled_steps(5)]) (auto simp: cl_mem_def split: sum.splits cerr.splits)

lemma fuelled_handle:
  assumes "gateway_env_ok env view room"
    and enc: "\<And>rc h pb f'. parse_header empty_header ANY_MESSAGE_TYPE (msg_rest m k) (msg_rest_length m k) 0 = Inr (rc, h, pb)
      \<Longrightarrow> \<not> rc < 0 \<Longrightarrow> h_msg_type h = ENCAPSULATED_MESSAGE
      \<Longrightarrow> fuelled (parse_and_handle_encapsulated_messages (parse_and_handle_message n env) m k f')"
  shows "fuelled (parse_and_handle_message (Suc n) env m k f)"
  unfolding parse_and_handle_message.simps Let_def
proof (rule fuelled_parsed)
  fix x
  assume p: "parse_header empty_header ANY_MESSAGE_TYPE (msg_rest m k) (msg_rest_length m k) 0 = Inr x"
  obtain rc h pb where x: "x = (rc, h, pb)" by (cases x) auto
  let ?f = "if gf_forwarder_len f = 0 then f\<lparr>gf_wireless_node_id := md_from m\<rparr> else f"
  let ?enc = "parse_and_handle_encapsulated_messages (parse_and_handle_message n env)"
  show "fuelled (case x of (rc, header, _) \<Rightarrow>
      if rc < 0 then cl_return 0
      else
        cl_bind (cl_get g_gateway_status) (\<lambda>gateway_status.
        case gateway_status of
          MQTT_SN_GATEWAY_STATUS_STAND_BY \<Rightarrow>
            cl_bind (parse_and_handle_stand_by_messages ?enc env header m k ?f)
              (\<lambda>handle_rc. cl_return (if handle_rc \<le> 0 then handle_rc else 0))
        | MQTT_SN_GATEWAY_STATUS_ACTIVE \<Rightarrow>
            cl_bind (parse_and_handle_active_messages ?enc env header m k ?f)
              (\<lambda>handle_rc. cl_return (if handle_rc \<le> 0 then handle_rc else 0))
        | MQTT_SN_GATEWAY_STATUS_MQTT_DISCONNECTED \<Rightarrow> cl_return (-1)
        | MQTT_SN_GATEWAY_STATUS_MQTT_SN_DISCONNECTED \<Rightarrow> cl_return 0))"
  proof (cases "rc < 0")
    case True
    then show ?thesis
      by (simp add: x has_fuel)
  next
    case False
    note h = fuelled_messages [where encapsulated = ?enc and m = m and k = k and f = ?f and h = h,
        OF assms(1) enc [OF p [unfolded x] False]]
    show ?thesis
      unfolding x prod.case by (intro has_fuel h)
  qed
qed

lemma fuelled_frame:
  assumes "gateway_env_ok env view room"
  shows "fuelled (parse_and_handle_encapsulated_messages (parse_and_handle_message (Suc n) env) m k f)"
proof -
  have header: "fuelled (cl_bind (cl_mem (parse_header empty_header ANY_MESSAGE_TYPE (msg_rest m k) (msg_rest_length m k) 0))
      (\<lambda>(h_rc, h, _).
      if h_rc < 0 then cl_return 0
      else if h_msg_type h = ENCAPSULATED_MESSAGE then cl_return 0
      else parse_and_handle_message (Suc n) env m k f'))" for k f'
    by (rule fuelled_parsed) (auto intro!: has_fuel fuelled_handle [OF assms])
  show ?thesis
    unfolding parse_and_handle_encapsulated_messages_def Let_def by (intro has_fuel header)
qed

lemma fuelled_message: "gateway_env_ok env view room \<Longrightarrow> fuelled (parse_and_handle_message 2 env m k f)"
  unfolding numeral_2_eq_2 by (rule fuelled_handle) (simp_all add: fuelled_frame del: parse_and_handle_message.simps)

lemma fuelled_exchange:
  "fuelled (cl_bind (cl_mem r) (\<lambda>(rc, n, q, w). cl_bind (cl_world (\<lambda>_. ((), w))) (\<lambda>_. cl_bind (cl_put (g n q)) (\<lambda>_. cl_return rc))))"
  by (intro has_fuel)

lemma fuelled_network_calls [has_fuel]: "fuelled (receive_from_clients env)" "fuelled send_client_messages" "fuelled disconnect_client_network"
proof -
  show "fuelled (receive_from_clients env)" "fuelled send_client_messages"
    unfolding fuelled_def receive_from_clients_def send_client_messages_def
    by (intro allI fuelled_exchange [unfolded fuelled_def, rule_format])+
  show "fuelled disconnect_client_network"
    unfolding disconnect_client_network_def by (intro has_fuel)
qed

lemma fuelled_passes:
  assumes "gateway_env_ok env view room"
  shows "fuelled (gateway_passes k env)"
proof (induction k)
  case (Suc k)
  have "fuelled (MqttSnGatewayHandleClientMessageData env m)" for m
    unfolding MqttSnGatewayHandleClientMessageData_def by (intro has_fuel fuelled_message [OF assms])
  then have "fuelled (MqttSnGatewayLoop env)"
    unfolding MqttSnGatewayLoop_def by (intro has_fuel)
  then show ?case
    using Suc.IH by (auto intro!: has_fuel)
qed (simp add: has_fuel)

section \<open>The program\<close>

lemma fuelled_program:
  assumes "gateway_env_ok env view room"
  shows "fuelled (gateway_inc_c k env)"
  unfolding gateway_inc_c_def MqttSnGatewayConnect_def MqttSnGatewayDisconnect_def MqttSnGatewayDeinitialize_def
    db_handler_deinitialize_def
  by (intro has_fuel fuelled_passes [OF assms])

text \<open>The unmounting at the end is no access to memory of the gateway; after it the files are not known.\<close>

lemma network_call_safe: "hoare P (on_network f) (\<lambda>_ _. True)"
  by (auto simp: hoare_def on_network_def split: prod.split)

lemma deinitialize_safe: "hoare P (MqttSnGatewayDeinitialize env) (\<lambda>_ _. True)"
proof -
  have "hoare (\<lambda>_. True) (on_db (db_handler_deinitialize env)) (\<lambda>_ _. True)"
    by (auto simp: hoare_def on_db_def db_handler_deinitialize_def run_world run_rules split: prod.split)
  then show ?thesis
    unfolding MqttSnGatewayDeinitialize_def
    by (intro hoare_bind [OF network_call_safe] hoare_bind [where R = "\<lambda>_ _. True"] hoare_return) auto
qed

lemma hoare_connect: "hoare (gateway_inv view) (MqttSnGatewayConnect env) (\<lambda>rc s. rc < 0 \<or> gateway_inv view s)"
proof -
  have "hoare (gateway_inv view) (cl_bind (MqttSnGatewayDeinitialize env) (\<lambda>_. cl_return (-1 :: int))) (\<lambda>rc s. rc < 0 \<or> gateway_inv view s)"
    by (rule hoare_bind [OF deinitialize_safe], rule hoare_return) simp
  then show ?thesis
    unfolding MqttSnGatewayConnect_def
    by (intro hoare_if hoare_keeps_bind [OF keeps_network(1)] hoare_return) simp_all
qed

text \<open>The same for the program: after a connect that succeeded, the passes begin.\<close>

definition long_connect_met_by_program ::
  "nat \<Rightarrow> 'w gateway_env \<Rightarrow> ('w \<Rightarrow> file_view) \<Rightarrow> 'w MqttSnGateway \<times> 'w \<Rightarrow> bool" where
  "long_connect_met_by_program k env view s \<longleftrightarrow>
     (\<exists>rc s'. MqttSnGatewayConnect env s = Inr (rc, s') \<and> 0 \<le> rc \<and> long_connect_met (Suc k) env view s')"

lemma hoare_program:
  assumes "gateway_env_ok env view room"
  shows "hoare (\<lambda>s. gateway_inv view s \<and> \<not> long_connect_met_by_program k env view s) (gateway_inc_c k env) (\<lambda>_ _. True)"
proof -
  have disconnect: "hoare P MqttSnGatewayDisconnect (\<lambda>_ _. True)" for P :: "'a MqttSnGateway \<times> 'a \<Rightarrow> bool"
    unfolding MqttSnGatewayDisconnect_def disconnect_client_network_def cl_bind_assoc
    by (intro hoare_bind [OF network_call_safe]) (simp add: hoare_return)
  have passes: "hoare (\<lambda>s. rc < 0 \<or> gateway_inv view s \<and> \<not> long_connect_met (Suc k) env view s)
      (if rc < 0 then cl_return 0 else gateway_passes (Suc k) env) (\<lambda>_ _. True)" for rc
    using hoare_passes [OF assms, of "Suc k"]
    by (auto simp: hoare_def cl_return_def simp del: gateway_passes.simps split: sum.splits)
  have connect: "hoare (\<lambda>s. gateway_inv view s \<and> \<not> long_connect_met_by_program k env view s) (MqttSnGatewayConnect env)
      (\<lambda>rc s. rc < 0 \<or> gateway_inv view s \<and> \<not> long_connect_met (Suc k) env view s)"
    unfolding hoare_def
  proof (intro allI impI)
    fix s
    assume s: "gateway_inv view s \<and> \<not> long_connect_met_by_program k env view s"
    have "\<not> long_connect_met (Suc k) env view s'" if "MqttSnGatewayConnect env s = Inr (rc, s')" "\<not> rc < 0" for rc s'
      using s that not_le unfolding long_connect_met_by_program_def by blast
    then show "case MqttSnGatewayConnect env s of Inl e \<Rightarrow> e \<noteq> Memory_Fault
        | Inr (rc, s') \<Rightarrow> rc < 0 \<or> gateway_inv view s' \<and> \<not> long_connect_met (Suc k) env view s'"
      using hoare_connect [of view env, unfolded hoare_def, rule_format, of s] s
      by (cases "MqttSnGatewayConnect env s") auto
  qed
  show ?thesis
    unfolding gateway_inc_c_def
    by (intro hoare_bind [OF connect] hoare_bind [OF passes] hoare_bind [OF disconnect] hoare_bind [OF deinitialize_safe]
        hoare_return) simp
qed

text \<open>What is left: the program returns, or an assertion fails.\<close>

lemma ends_well:
  assumes "hoare P m Q" "fuelled m" "P s"
  shows "m s = Inl Assertion \<or> (\<exists>x s'. m s = Inr (x, s') \<and> Q x s')"
proof (cases "m s")
  case (Inl e)
  have "m s \<noteq> Inl Memory_Fault" "m s \<noteq> Inl Out_Of_Fuel"
    using assms(2) hoare_safe [OF assms(1,3)] by (auto simp: fuelled_def)
  then show ?thesis
    using Inl by (cases e) auto
next
  case (Inr p)
  then show ?thesis
    using hoare_result [OF assms(1,3)] by (cases p) auto
qed

end
