(* ===== verification/Gateway_Behaviour.thy ===== *)
theory Gateway_Behaviour
  imports Gateway_Fuel
begin

text \<open>
  Whole handlers of the gateway from a given state: what is in the registry and in the queue of answers
  afterwards. The lemmas execute a handler with the results of the database's operations.
\<close>

section \<open>Steps of a handler\<close>

lemma run_db:
  "cl_bind (on_db m) f (g, w) = (case m (g_db_handler g, w) of Inl e \<Rightarrow> Inl e | Inr (x, h, w') \<Rightarrow> f x (g\<lparr>g_db_handler := h\<rparr>, w'))"
  by (simp add: on_db_def cl_bind_def split: sum.split prod.split)

text \<open>A clock that can be read.\<close>

definition clock_works :: "'w gateway_env \<Rightarrow> bool" where
  "clock_works env \<longleftrightarrow> (\<forall>w. 0 \<le> fst (fst (pf_clock_ms (ge_platform env) w)))"

text \<open>What the queue of answers is after an answer: one message more, for the node the request came from.\<close>

definition answered :: "'w MqttSnGateway \<Rightarrow> u8 list \<Rightarrow> u8 list \<Rightarrow> 'w MqttSnGateway \<Rightarrow> bool" where
  "answered g to bytes g' \<longleftrightarrow>
     (\<exists>a. contents (g_clientNetworkSendBuffer g') = contents (g_clientNetworkSendBuffer g) @ [a]
        \<and> md_to a = to \<and> take (md_data_length a) (md_data a) = bytes)"

lemma run_put_send_buffer:
  assumes "ring_inv (g_clientNetworkSendBuffer g)" "\<not> isFull (g_clientNetworkSendBuffer g)"
  shows "\<exists>q. put_send_buffer m (g, w) = Inr (0, g\<lparr>g_clientNetworkSendBuffer := q\<rparr>, w)
    \<and> contents q = contents (g_clientNetworkSendBuffer g) @ [m]"
proof -
  obtain q where "put (g_clientNetworkSendBuffer g) m = Inr (0, q)" "contents q = contents (g_clientNetworkSendBuffer g) @ [m]"
    using put_appends [OF assms] by blast
  then show ?thesis
    by (auto simp: put_send_buffer_def run_rules)
qed

lemma run_reuse:
  assumes "clock_works env"
  shows "\<exists>m' w'. reuse_mqtt_sn_message_data (get_timestamp_ms (ge_platform env)) m w = (0, m', w')
    \<and> md_data m' = message_buffer"
proof -
  obtain rc ms w1 where c: "pf_clock_ms (ge_platform env) w = ((rc, ms), w1)"
    by (metis prod.exhaust)
  then have "\<not> rc < 0"
    using assms by (auto simp: clock_works_def not_less dest: spec [of _ w])
  then show ?thesis
    using c by (simp add: reuse_mqtt_sn_message_data_def add_mqtt_sn_message_timestamp_def get_timestamp_ms_def)
qed

lemma run_answer:
  assumes "clock_works env" "clock_quiet view env" "gf_forwarder_len f = 0"
    and "ring_inv (g_clientNetworkSendBuffer g)" "\<not> isFull (g_clientNetworkSendBuffer g)"
    and "generate message_buffer 1024 = Inr (patched message_buffer bytes, length bytes)" "length bytes \<le> 3"
  shows "\<exists>q w'. answer_message env m generate f (g, w) = Inr (0, g\<lparr>g_clientNetworkSendBuffer := q\<rparr>, w')
    \<and> answered g (gf_wireless_node_id f) bytes (g\<lparr>g_clientNetworkSendBuffer := q\<rparr>) \<and> view w' = view w"
proof -
  obtain m' w' where r: "reuse_mqtt_sn_message_data (get_timestamp_ms (ge_platform env)) m w = (0, m', w')"
    "md_data m' = message_buffer"
    using run_reuse [OF assms(1)] by blast
  let ?a = "m'\<lparr>md_data := patched message_buffer bytes, md_to := gf_wireless_node_id f, md_data_length := length bytes\<rparr>"
  obtain q where q: "put_send_buffer ?a (g, w') = Inr (0, g\<lparr>g_clientNetworkSendBuffer := q\<rparr>, w')"
    "contents q = contents (g_clientNetworkSendBuffer g) @ [?a]"
    using run_put_send_buffer [OF assms(4,5)] by blast
  have len: "length message_buffer = 1024"
    by (simp add: length_message_buffer MQTT_SN_MAXIMUM_MESSAGE_DATA_LENGTH_def)
  have mod: "length bytes mod 65536 = length bytes"
    using assms(7) by simp
  have "answer_message env m generate f (g, w) = Inr (0, g\<lparr>g_clientNetworkSendBuffer := q\<rparr>, w')"
    using r assms(3,6) len mod
    by (simp add: answer_message_def run_world send_generated_def gateway_add_forwarder_encapsulation_frames_def
        run_rules run_bind [where m = "put_send_buffer ?a", OF q(1)])
  moreover have "take (length bytes) (patched message_buffer bytes) = bytes"
    by (simp add: patched_def)
  moreover have "view w' = view w"
    using reuse_quiet [OF assms(2), of m w] r(1) by simp
  ultimately show ?thesis
    using q(2) by (auto simp: answered_def)
qed

section \<open>CONNECT\<close>

text \<open>A gateway between two messages: its invariant, no transaction open, room for an answer.\<close>

definition gateway_ready :: "('w \<Rightarrow> file_view) \<Rightarrow> 'w MqttSnGateway \<Rightarrow> 'w \<Rightarrow> bool" where
  "gateway_ready view g w \<longleftrightarrow> gateway_inv view (g, w) \<and> \<not> d_client_transaction_started (g_db_handler g)
     \<and> \<not> d_database_error (g_db_handler g) \<and> \<not> isFull (g_clientNetworkSendBuffer g)"

lemma gateway_ready_parts:
  assumes "gateway_ready view g w"
  shows "db_ok view (g_db_handler g, w)" "\<not> d_client_transaction_started (g_db_handler g)"
    "\<not> d_database_error (g_db_handler g)" "\<not> isFull (g_clientNetworkSendBuffer g)" "ring_inv (g_clientNetworkSendBuffer g)"
    "unat (d_client_count (g_db_handler g)) \<le> length (fv_clients (view w))"
proof -
  show *: "db_ok view (g_db_handler g, w)" "\<not> d_client_transaction_started (g_db_handler g)"
    "\<not> d_database_error (g_db_handler g)" "\<not> isFull (g_clientNetworkSendBuffer g)" "ring_inv (g_clientNetworkSendBuffer g)"
    using assms by (simp_all add: gateway_ready_def gateway_inv_def gateway_with_def gateway_parts_ok_def)
  show "unat (d_client_count (g_db_handler g)) \<le> length (fv_clients (view w))"
    using db_ok_parts(6) [OF *(1,3)] *(2) by simp
qed

definition direct_sender :: "MqttSnGatewayForwarder \<Rightarrow> bool" where
  "direct_sender f \<longleftrightarrow> forwarders_ok f \<and> gf_forwarder_len f = 0"

lemma run_connect:
  assumes env: "gateway_env_ok env view room" "clock_works env" and ready: "gateway_ready view g w" and f: "direct_sender f"
    and connect: "parse_connect empty_connect (msg_rest m k) (msg_rest_length m k) = Inr (c, rc)" "fit_name (con_client_id c)" "con_will c = 0"
    and new: "find_by_address (gf_wireless_node_id f) (fv_clients (view w)) = None
      \<or> d_client_transaction_result (g_db_handler g) = DB_ENTRY_MQTT_SN_CLIENT_RESULT_CLIENT_NOT_FOUND"
    and place: "free_place (fv_clients (view w)) < room"
  shows "\<exists>g' w'. client_connection_handler_parse_and_handle_connect env m k f (g, w) = Inr (0, g', w')
    \<and> fv_clients (view w') = store_entry (fv_clients (view w)) (free_place (fv_clients (view w)))
        (new_client (con_client_id c) (gf_wireless_node_id f) (gf_forwarder_addresses f) 0 (con_duration c) (md_create_time_s m)
          (free_place (fv_clients (view w))))
    \<and> answered g (gf_wireless_node_id f) (connack_wire RETURN_CODE_ACCEPTED) g'"
proof -
  note ready = gateway_ready_parts [OF ready]
  let ?h = "g_db_handler g" and ?cs = "fv_clients (view w)" and ?a = "gf_wireless_node_id f"
  let ?e = "new_client (con_client_id c) ?a (gf_forwarder_addresses f) 0 (con_duration c) (md_create_time_s m) (free_place ?cs)"
  have ff: "fatfs_contract (ge_fs env) view room" "room < ge_fuel env"
    using env(1) by (simp_all add: gateway_env_ok_def)
  have fwd: "addresses_ok (gf_forwarder_addresses f)" "gf_forwarder_len f = 0" "length ?a = device_address_size"
    using f by (simp_all add: direct_sender_def forwarders_ok_def)
  obtain r h1 w1 where start: "db_start_client_transaction env (Some ?a) None (?h, w) = Inr (r, h1, w1)"
    "(r, h1) = search_result ?a ?cs (opened ?h)" "reopened client_registry_file (view w) (view w1)" "db_ok view (h1, w1)"
    using run_start [OF ff ready(1,2,3)] by blast
  have h1: "d_client_transaction_started h1" "\<not> d_database_error h1"
    "d_client_transaction_result h1 = DB_ENTRY_MQTT_SN_CLIENT_RESULT_CLIENT_NOT_FOUND" "d_client_count h1 = d_client_count ?h"
    using start(2) new ready(3) by (auto simp: search_result_def opened_def split: option.splits)
  have cs: "fv_clients (view w1) = ?cs"
    using start(3) by (simp add: reopened_def)
  obtain w2 where add: "add_client env (con_client_id c) ?a (gf_forwarder_addresses f) 0 (con_duration c) (md_create_time_s m) (h1, w1)
      = Inr (DB_ENTRY_MQTT_SN_CLIENT_RESULT_SUCCESS, client_added ?e h1, w2)"
    "reopened client_registry_file (view w1) (view w2)" "db_ok view (client_added ?e h1, w2)"
    using run_add_client [OF ff start(4) h1(1) _ connect(2) fwd(1) _ fwd(3), of 0 "con_duration c" "md_create_time_s m"] h1(3,4)
      ready(6) cs by auto
  have cs2: "fv_clients (view w2) = ?cs"
    using add(2) cs by (simp add: reopened_def)
  have pos: "dc_position ?e = int (free_place ?cs)"
    by (simp add: new_client_def)
  have fits: "nat (dc_position ?e) < length ?cs \<or> length ?cs < room"
    using place free_place_le [of ?cs] by (auto simp: pos)
  obtain r3 h3 w3 where fin: "db_end_client_transaction env (client_added ?e h1, w2) = Inr (r3, h3, w3)"
    "fv_clients (view w3) = store_entry ?cs (free_place ?cs) ?e" "r3 = DB_ENTRY_MQTT_SN_CLIENT_RESULT_SUCCESS"
    using run_end [OF ff(1) add(3)] h1(1) fits cs2 pos by (auto simp: client_added_def registry_after_def)
  let ?g = "g\<lparr>g_db_handler := h3\<rparr>"
  have len: "length message_buffer = 1024"
    by (simp add: length_message_buffer MQTT_SN_MAXIMUM_MESSAGE_DATA_LENGTH_def)
  obtain q w4 where ans: "answer_message env m (\<lambda>dst dst_len. generate_connack dst dst_len RETURN_CODE_ACCEPTED) f (?g, w3)
      = Inr (0, ?g\<lparr>g_clientNetworkSendBuffer := q\<rparr>, w4)"
    "answered ?g ?a (connack_wire RETURN_CODE_ACCEPTED) (?g\<lparr>g_clientNetworkSendBuffer := q\<rparr>)" "view w4 = view w3"
    using run_answer [OF env(2) env_ok_clock [OF env(1)] fwd(2), of ?g "\<lambda>dst dst_len. generate_connack dst dst_len RETURN_CODE_ACCEPTED"
        "connack_wire RETURN_CODE_ACCEPTED" m w3] ready(4,5) answer_writers(3) [OF len]
    by (auto simp: connack_wire_def)
  have "client_connection_handler_parse_and_handle_connect env m k f (g, w) = Inr (0, ?g\<lparr>g_clientNetworkSendBuffer := q\<rparr>, w4)"
    using connect(1,3) ready(4) fwd(2) start(1) h1 add(1) fin(1,3) ans(1)
    by (simp add: client_connection_handler_parse_and_handle_connect_def run_rules run_db run_exist cl_bind_assoc Let_def)
  then show ?thesis
    using ans(2,3) fin(2) by (auto simp: answered_def)
qed

text \<open>A known client that asks for a clean session: the registry is asked to delete it, which ends the program.\<close>

lemma clean_connect_aborts:
  assumes env: "gateway_env_ok env view room" and ready: "gateway_ready view g w"
    and connect: "parse_connect empty_connect (msg_rest m k) (msg_rest_length m k) = Inr (c, rc)" "con_clean_session c \<noteq> 0"
    and known: "find_by_address (gf_wireless_node_id f) (fv_clients (view w)) \<noteq> None"
      "d_client_transaction_result (g_db_handler g) = DB_ENTRY_MQTT_SN_CLIENT_RESULT_SUCCESS"
  shows "client_connection_handler_parse_and_handle_connect env m k f (g, w) = Inl Assertion"
proof -
  note ready = gateway_ready_parts [OF ready]
  let ?h = "g_db_handler g" and ?a = "gf_wireless_node_id f"
  have ff: "fatfs_contract (ge_fs env) view room" "room < ge_fuel env"
    using env by (simp_all add: gateway_env_ok_def)
  obtain r h1 w1 where start: "db_start_client_transaction env (Some ?a) None (?h, w) = Inr (r, h1, w1)"
    "(r, h1) = search_result ?a (fv_clients (view w)) (opened ?h)" "db_ok view (h1, w1)"
    using run_start [OF ff ready(1,2,3)] by blast
  have h1: "d_client_transaction_started h1" "\<not> d_database_error h1"
    "d_client_transaction_result h1 = DB_ENTRY_MQTT_SN_CLIENT_RESULT_SUCCESS"
    using start(2) known ready(3) by (auto simp: search_result_def opened_def)
  then show ?thesis
    using connect ready(4) start(1) delete_client_aborts [OF db_ok_parts(3) [OF start(3)] h1, of env w1]
    by (simp add: client_connection_handler_parse_and_handle_connect_def run_rules run_db run_exist Let_def cl_bind_assoc)
qed

section \<open>PINGREQ\<close>

text \<open>A sender that is not registered: the empty entry of the failed search is written to the first place.\<close>

lemma run_stranger_ping:
  assumes env: "gateway_env_ok env view room" "clock_works env" and ready: "gateway_ready view g w" and f: "direct_sender f"
    and ping: "parse_ping_req_byte (msg_rest m k) (msg_rest_length m k) = Inr p"
    and stranger: "find_by_address (md_from m) (fv_clients (view w)) = None" "fv_clients (view w) \<noteq> []"
  shows "\<exists>g' w'. client_connection_handler_parse_and_handle_ping_req env m k f (g, w) = Inr (0, g', w')
    \<and> fv_clients (view w') = (fv_clients (view w))[0 := empty_entry\<lparr>dc_last_ping_req_received := md_create_time_s m\<rparr>]
    \<and> answered g (gf_wireless_node_id f) (bare_wire PINGRESP ()) g'"
proof -
  note ready = gateway_ready_parts [OF ready]
  let ?h = "g_db_handler g" and ?cs = "fv_clients (view w)" and ?a = "md_from m"
  let ?e = "empty_entry\<lparr>dc_last_ping_req_received := md_create_time_s m\<rparr>"
  have ff: "fatfs_contract (ge_fs env) view room" "room < ge_fuel env"
    using env(1) by (simp_all add: gateway_env_ok_def)
  obtain r h1 w1 where start: "db_start_client_transaction env (Some ?a) None (?h, w) = Inr (r, h1, w1)"
    "(r, h1) = search_result ?a ?cs (opened ?h)" "reopened client_registry_file (view w) (view w1)" "db_ok view (h1, w1)"
    using run_start [OF ff ready(1,2,3)] by blast
  have h1: "d_client_transaction_started h1" "\<not> d_database_error h1" "r = DB_ENTRY_MQTT_SN_CLIENT_RESULT_CLIENT_NOT_FOUND"
    "d_client_transaction_result h1 = DB_ENTRY_MQTT_SN_CLIENT_RESULT_CLIENT_NOT_FOUND"
    "d_transaction_result h1 = DB_HANDLER_RESULT_SUCCESS" "d_entry_client h1 = empty_entry"
    using start(2) stranger(1) ready(3) by (auto simp: search_result_def opened_def)
  have cs: "fv_clients (view w1) = ?cs"
    using start(3) by (simp add: reopened_def)
  let ?h2 = "h1\<lparr>d_entry_client := ?e\<rparr>"
  have set: "db_set_client_last_ping_req_received (md_create_time_s m) (h1, w1)
      = Inr (DB_ENTRY_MQTT_SN_CLIENT_RESULT_CLIENT_NOT_FOUND, ?h2, w1)"
    using h1 by (simp add: db_set_client_last_ping_req_received_def run_db_set)
  have ok2: "db_ok view (?h2, w1)"
    by (rule db_ok_entry [OF start(4)]) (simp_all add: h1(6) entry_ok_def named_entry_def empty_entry_def)
  obtain r3 h3 w3 where fin: "db_end_client_transaction env (?h2, w1) = Inr (r3, h3, w3)"
    "fv_clients (view w3) = ?cs[0 := ?e]" "d_transaction_result h3 = DB_HANDLER_RESULT_SUCCESS"
    using run_end [OF ff(1) ok2] h1 cs stranger(2)
    by (auto simp: registry_after_def store_entry_update)
  let ?g = "g\<lparr>g_db_handler := h3\<rparr>"
  have len: "length message_buffer = 1024"
    by (simp add: length_message_buffer MQTT_SN_MAXIMUM_MESSAGE_DATA_LENGTH_def)
  obtain q w4 where ans: "answer_message env m generate_ping_resp f (?g, w3)
      = Inr (0, ?g\<lparr>g_clientNetworkSendBuffer := q\<rparr>, w4)"
    "answered ?g (gf_wireless_node_id f) (bare_wire PINGRESP ()) (?g\<lparr>g_clientNetworkSendBuffer := q\<rparr>)" "view w4 = view w3"
    using run_answer [OF env(2) env_ok_clock [OF env(1)], of f ?g generate_ping_resp "bare_wire PINGRESP ()" m w3] ready(4,5)
      answer_writers(1) [OF len] f by (auto simp: bare_wire_def direct_sender_def)
  have "client_connection_handler_parse_and_handle_ping_req env m k f (g, w) = Inr (0, ?g\<lparr>g_clientNetworkSendBuffer := q\<rparr>, w4)"
    using ping ready(4) start(1) h1(3) set fin(1,3) ans(1)
    by (simp add: client_connection_handler_parse_and_handle_ping_req_def start_ping_transaction_def end_ping_transaction_def
        db_assert_def get_db_handler_result_def run_rules run_db Let_def)
  then show ?thesis
    using ans(2,3) fin(2) by (auto simp: answered_def)
qed

section \<open>The check of the timeouts\<close>

text \<open>A transaction on the entry of a client, as the loop over the clients opens it.\<close>

definition in_transaction :: "('w \<Rightarrow> file_view) \<Rightarrow> 'w MqttSnGateway \<Rightarrow> 'w \<Rightarrow> bool" where
  "in_transaction view g w \<longleftrightarrow> gateway_inv view (g, w) \<and> d_client_transaction_started (g_db_handler g)
     \<and> d_client_transaction_result (g_db_handler g) = DB_ENTRY_MQTT_SN_CLIENT_RESULT_SUCCESS"

definition current_client :: "'w MqttSnGateway \<Rightarrow> DB_ENTRY_MQTT_SN_CLIENT" where
  "current_client g = d_entry_client (g_db_handler g)"

lemma in_transaction_parts:
  assumes "in_transaction view g w"
  shows "d_client_transaction_started (g_db_handler g)" "\<not> d_database_error (g_db_handler g)"
    "d_client_transaction_result (g_db_handler g) = DB_ENTRY_MQTT_SN_CLIENT_RESULT_SUCCESS"
    "entry_ok (d_entry_client (g_db_handler g))" "ring_inv (g_clientNetworkSendBuffer g)"
  using assms db_ok_parts(3,7) [of view "g_db_handler g" w]
  by (simp_all add: in_transaction_def gateway_inv_def gateway_with_def gateway_parts_ok_def)

lemma run_ck_get:
  assumes "d_client_transaction_started (g_db_handler g)" "\<not> d_database_error (g_db_handler g)"
    "d_client_transaction_result (g_db_handler g) = DB_ENTRY_MQTT_SN_CLIENT_RESULT_SUCCESS"
  shows "ck_get (db_get f) k (g, w) = k (f (d_entry_client (g_db_handler g))) (g, w)"
    "ck_set (db_set u) k' (g, w) = k' (g\<lparr>g_db_handler := (g_db_handler g)\<lparr>d_entry_client := u (d_entry_client (g_db_handler g))\<rparr>\<rparr>, w)"
    "entry_ok (d_entry_client (g_db_handler g)) \<Longrightarrow>
       ck_get db_get_client_id k'' (g, w) = k'' (take (length (c_string (dc_client_id (d_entry_client (g_db_handler g)))))
         (dc_client_id (d_entry_client (g_db_handler g)))) (g, w)"
  using assms named_entry_strlen [of "d_entry_client (g_db_handler g)"]
  by (simp_all add: ck_get_def ck_set_def run_db run_db_get run_db_set db_get_client_id_def run_bind [where m = "db_get dc_client_id"]
      run_rules entry_ok_def)

lemma run_log_details:
  assumes "in_transaction view g w"
  shows "log_client_details k (g, w) = k (g, w)"
  by (simp add: log_client_details_def db_get_client_connect_duration_def db_get_client_last_ping_req_received_def
      db_get_client_last_ping_resp_received_def run_ck_get [OF in_transaction_parts(1-3) [OF assms]] in_transaction_parts(4) [OF assms])

text \<open>The outcome for an active client, from the time its last sign of life is away.\<close>

definition silent_for :: "u64 \<Rightarrow> DB_ENTRY_MQTT_SN_CLIENT \<Rightarrow> u64" where
  "silent_for now e = now - get_active_last_timeout_reset (dc_last_ping_resp_received e) (dc_last_ping_req_received e)"

definition with_client :: "'w MqttSnGateway \<Rightarrow> DB_ENTRY_MQTT_SN_CLIENT \<Rightarrow> 'w MqttSnGateway" where
  "with_client g e = g\<lparr>g_db_handler := (g_db_handler g)\<lparr>d_entry_client := e\<rparr>\<rparr>"

definition ping_due :: "'w MqttSnGateway \<Rightarrow> u64 \<Rightarrow> bool" where
  "ping_due g now \<longleftrightarrow> dc_ping_req_await_message_type (current_client g) = ANY_MESSAGE_TYPE
     \<and> get_connection_timeout_offset_duration (dc_connect_duration (current_client g))
         (gh_client_connection_timeout_offset (g_client_con_handler g)) \<le> silent_for now (current_client g)"

lemma run_check_active:
  assumes tr: "in_transaction view g w"
  obtains f where "gf_wireless_node_id f = dc_client_address (current_client g)"
    "gf_forwarder_len f = dc_forwarder_address_len (current_client g)" "forwarders_ok f"
    "check_active_client_connection_timeout env now (g, w) =
      (if ping_due g now
       then cl_bind (send_client_connection_ping_req env f) (\<lambda>rc. cl_return (if rc < 0 then -1 else 0)) (g, w)
       else if silent_for now (current_client g) > get_client_tolerance_timeout (dc_connect_duration (current_client g))
       then Inr (0, with_client g ((current_client g)\<lparr>dc_client_status := DB_ENTRY_MQTT_SN_CLIENT_STATUS_LOST\<rparr>), w)
       else Inr (0, g, w))"
proof -
  note p = in_transaction_parts [OF tr]
  let ?e = "d_entry_client (g_db_handler g)" and ?i = MqttSnGatewayForwarderInit
  obtain as where as: "copy_addresses (unat (ge_unset_index env)) (dc_forwarder_address_len ?e) (dc_forwarder_addresses ?e)
      (gf_forwarder_addresses ?i) = Inr as" "addresses_ok as"
    using copy_addresses_ok [OF entry_addresses [OF p(4)], of "gf_forwarder_addresses ?i" "dc_forwarder_address_len ?e"
        "unat (ge_unset_index env)"] forwarders_ok_init p(4) by (auto simp: forwarders_ok_def entry_ok_def)
  have "gf_forwarder_max_len ?i \<le> DB_ENTRY_MQTT_SN_CLIENT_MAX_FORWARDER_COUNT"
    using forwarders_ok_init by (simp add: forwarders_ok_def DB_ENTRY_MQTT_SN_CLIENT_MAX_FORWARDER_COUNT_def)
  then have address: "db_get_client_address env (gf_forwarder_addresses ?i) (gf_forwarder_max_len ?i) (g_db_handler g, w)
      = Inr ((DB_ENTRY_MQTT_SN_CLIENT_RESULT_SUCCESS, Some (dc_client_address ?e, as, dc_forwarder_address_len ?e)), g_db_handler g, w)"
    using as(1) p(1-3)
    by (simp add: db_get_client_address_def run_bind [where m = "db_get id"] run_db_get run_rules
        get_db_entry_mqtt_sn_client_forwarder_addresses_def)
  let ?f = "?i\<lparr>gf_wireless_node_id := dc_client_address ?e, gf_forwarder_addresses := as, gf_forwarder_len := dc_forwarder_address_len ?e\<rparr>"
  have read: "ck_get (db_get_client_address env (gf_forwarder_addresses ?i) (gf_forwarder_max_len ?i)) k (g, w)
      = k (dc_client_address ?e, as, dc_forwarder_address_len ?e) (g, w)" for k
    by (simp add: ck_get_def run_db address)
  have started: "cl_bind (on_db db_is_client_transaction_started) k (g, w) = k True (g, w)" for k
    using p(1) by (simp add: run_db db_is_client_transaction_started_def run_rules)
  let ?lost = "g\<lparr>g_db_handler := (g_db_handler g)\<lparr>d_entry_client := ?e\<lparr>dc_client_status := DB_ENTRY_MQTT_SN_CLIENT_STATUS_LOST\<rparr>\<rparr>\<rparr>"
  have lost: "ck_get db_get_client_id (\<lambda>_. cl_return 0) (?lost, w) = Inr (0, ?lost, w)"
    using run_ck_get(3) [of ?lost] p by (simp add: entry_ok_def named_entry_def run_rules)
  have "forwarders_ok ?f"
    using as(2) p(4) forwarders_ok_init
    by (simp add: forwarders_ok_def entry_ok_def DB_ENTRY_MQTT_SN_CLIENT_MAX_FORWARDER_COUNT_def)
  moreover have "check_active_client_connection_timeout env now (g, w) =
      (if ping_due g now
       then cl_bind (send_client_connection_ping_req env ?f) (\<lambda>rc. cl_return (if rc < 0 then -1 else 0)) (g, w)
       else if silent_for now (current_client g) > get_client_tolerance_timeout (dc_connect_duration (current_client g))
       then Inr (0, with_client g ((current_client g)\<lparr>dc_client_status := DB_ENTRY_MQTT_SN_CLIENT_STATUS_LOST\<rparr>), w)
       else Inr (0, g, w))"
    unfolding check_active_client_connection_timeout_def started db_assert_def if_True cl_bind_return Let_def
      db_get_client_connect_duration_def db_get_client_last_ping_req_received_def db_get_client_last_ping_resp_received_def
      db_get_ping_req_await_msg_type_def run_ck_get [OF p(1-3)] read prod.case
    by (auto simp: run_rules ping_due_def silent_for_def current_client_def with_client_def db_set_client_status_def
        run_ck_get(1,2) [OF p(1-3)] lost)
  ultimately show ?thesis
    using that [of ?f] by (simp add: current_client_def)
qed

lemma run_ping_req_to_client:
  assumes tr: "in_transaction view g w" and clock: "clock_works env" and f: "gf_forwarder_len f = 0"
    and room: "\<not> isFull (g_clientNetworkSendBuffer g)"
  shows "\<exists>q w'. send_client_connection_ping_req env f (g, w)
      = Inr (0, with_client (g\<lparr>g_clientNetworkSendBuffer := q\<rparr>) ((current_client g)\<lparr>dc_ping_req_await_message_type := PINGRESP\<rparr>), w')
    \<and> answered g (gf_wireless_node_id f) (bare_wire PINGREQ ()) (g\<lparr>g_clientNetworkSendBuffer := q\<rparr>)"
proof -
  note p = in_transaction_parts [OF tr]
  obtain t w1 where time: "get_timestamp_s (ge_platform env) w = ((0, t), w1)"
  proof -
    obtain rc ms w1 where "pf_clock_ms (ge_platform env) w = ((rc, ms), w1)" "\<not> rc < 0"
      using clock by (metis clock_works_def fst_conv not_less prod.exhaust)
    then show thesis
      using that by (simp add: get_timestamp_s_def)
  qed
  let ?m = "zero_message\<lparr>md_create_time_s := t, md_to := gf_wireless_node_id f\<rparr>"
  let ?a = "?m\<lparr>md_data := patched message_buffer (bare_wire PINGREQ ()), md_to := gf_wireless_node_id f, md_data_length := 2\<rparr>"
  obtain q where q: "put_send_buffer ?a (g, w1) = Inr (0, g\<lparr>g_clientNetworkSendBuffer := q\<rparr>, w1)"
    "contents q = contents (g_clientNetworkSendBuffer g) @ [?a]"
    using run_put_send_buffer [OF p(5) room] by blast
  have len: "length message_buffer = 1024"
    by (simp add: length_message_buffer MQTT_SN_MAXIMUM_MESSAGE_DATA_LENGTH_def)
  let ?g = "g\<lparr>g_clientNetworkSendBuffer := q\<rparr>"
  let ?g' = "with_client ?g ((current_client g)\<lparr>dc_ping_req_await_message_type := PINGRESP\<rparr>)"
  have set: "ck_set (db_set_ping_req_await_msg_type PINGRESP) k (?g, w1) = k (?g', w1)" for k
    using run_ck_get(2) [of ?g] p(1-3) by (simp add: db_set_ping_req_await_msg_type_def with_client_def current_client_def)
  have parts: "d_client_transaction_started (g_db_handler ?g')" "\<not> d_database_error (g_db_handler ?g')"
    "d_client_transaction_result (g_db_handler ?g') = DB_ENTRY_MQTT_SN_CLIENT_RESULT_SUCCESS" "entry_ok (d_entry_client (g_db_handler ?g'))"
    using p(1-4) by (simp_all add: with_client_def current_client_def entry_ok_def named_entry_def)
  have log: "log_client_details (cl_return 0) (?g', w1) = Inr (0, ?g', w1)"
    by (simp add: log_client_details_def db_get_client_connect_duration_def db_get_client_last_ping_req_received_def
        db_get_client_last_ping_resp_received_def run_ck_get [OF parts(1-3)] parts(4) run_rules)
  have "send_client_connection_ping_req env f (g, w) = Inr (0, ?g', w1)"
    using room time f len answer_writers(2) [OF len] set log
    by (simp add: send_client_connection_ping_req_def handler_time_def run_world run_rules Let_def zero_message_def
        send_generated_def gateway_add_forwarder_encapsulation_frames_def
        run_bind [where m = "put_send_buffer ?a", OF q(1), simplified zero_message_def, simplified])
  moreover have "answered g (gf_wireless_node_id f) (bare_wire PINGREQ ()) ?g"
    using q(2) by (simp add: answered_def patched_def bare_wire_def)
  ultimately show ?thesis
    by blast
qed

text \<open>A time in milliseconds taken for one in seconds lies ahead: the difference wraps.\<close>

lemma silent_for_wraps:
  assumes "now < get_active_last_timeout_reset (dc_last_ping_resp_received e) (dc_last_ping_req_received e)"
    "uint (get_active_last_timeout_reset (dc_last_ping_resp_received e) (dc_last_ping_req_received e)) < 2 ^ 63"
  shows "2 ^ 63 \<le> silent_for now e"
proof -
  let ?t = "get_active_last_timeout_reset (dc_last_ping_resp_received e) (dc_last_ping_req_received e)"
  define a b where "a = uint now" "b = uint ?t"
  then have t: "a < b" "0 \<le> a" "b < 2 ^ 63"
    using assms by (simp_all add: word_less_def)
  have "uint (now - ?t) = (a - b) mod 2 ^ 64"
    by (simp add: uint_word_ariths a_b_def)
  also have "\<dots> = (a - b + 2 ^ 64) mod 2 ^ 64"
    by simp
  also have "\<dots> = a - b + 2 ^ 64"
    using t by (intro mod_pos_pos_trivial) simp_all
  finally have "2 ^ 63 \<le> uint (now - ?t)"
    using t by simp
  then show ?thesis
    by (simp add: silent_for_def word_le_def)
qed

lemma allowed_silence:
  "0 \<le> uint d + offset \<Longrightarrow> offset < 2 ^ 31 \<Longrightarrow> get_connection_timeout_offset_duration d offset < 2 ^ 63"
  "get_client_tolerance_timeout d < 2 ^ 63"
proof -
  have d: "uint d < 65536" "0 \<le> uint d"
    using uint_lt2p [of d] by simp_all
  show "get_connection_timeout_offset_duration d offset < 2 ^ 63" if "0 \<le> uint d + offset" "offset < 2 ^ 31"
  proof -
    have "uint (of_int x :: u64) = x" if "0 \<le> x" "x < 2 ^ 63" for x
      using that by (simp add: uint_word_of_int)
    note this [of "uint d + offset"]
    then show ?thesis
      using that d by (simp add: get_connection_timeout_offset_duration_def word_less_def del: of_int_add)
  qed
  have "unat d < 2 ^ LENGTH(16)"
    by (rule unsigned_less)
  then have u: "unat d < 65536"
    by simp
  let ?p = "if d \<le> 60 then ucast d div 2 else ucast d div 10 :: u64"
  have c: "unat (ucast d :: u64) = unat d"
    using u by (simp add: unsigned_ucast_eq take_bit_nat_eq_self)
  then have p: "unat ?p \<le> unat d"
    by (simp add: unat_div_distrib)
  then have "unat (?p + ucast d) = unat ?p + unat d"
    using u c unat_add_lem [of ?p "ucast d :: u64"] by simp
  then have "unat (get_client_tolerance_timeout d) < 2 ^ 63"
    using p u by (simp add: get_client_tolerance_timeout_def Let_def)
  then show "get_client_tolerance_timeout d < 2 ^ 63"
    by (simp add: word_less_nat_alt)
qed

text \<open>The check of a client that counts as silent for that long.\<close>

lemma run_check_overdue:
  fixes g :: "'w MqttSnGateway"
  defines "e \<equiv> current_client g"
  assumes "in_transaction view g w" "2 ^ 63 \<le> silent_for now e"
    and "0 \<le> uint (dc_connect_duration e) + gh_client_connection_timeout_offset (g_client_con_handler g)"
      "gh_client_connection_timeout_offset (g_client_con_handler g) < 2 ^ 31"
  shows "clock_works env \<Longrightarrow> dc_ping_req_await_message_type e = ANY_MESSAGE_TYPE \<Longrightarrow> dc_forwarder_address_len e = 0 \<Longrightarrow>
      \<not> isFull (g_clientNetworkSendBuffer g) \<Longrightarrow>
      \<exists>g' w'. check_active_client_connection_timeout env now (g, w) = Inr (0, g', w')
        \<and> current_client g' = e\<lparr>dc_ping_req_await_message_type := PINGRESP\<rparr>
        \<and> answered g (dc_client_address e) (bare_wire PINGREQ ()) g'" (is "_ \<Longrightarrow> _ \<Longrightarrow> _ \<Longrightarrow> _ \<Longrightarrow> ?pinged")
    and "dc_ping_req_await_message_type e \<noteq> ANY_MESSAGE_TYPE \<Longrightarrow>
      check_active_client_connection_timeout env now (g, w)
        = Inr (0, with_client g (e\<lparr>dc_client_status := DB_ENTRY_MQTT_SN_CLIENT_STATUS_LOST\<rparr>), w)"
proof -
  note allowed = allowed_silence(1) [OF assms(4,5)] allowed_silence(2) [of "dc_connect_duration e"]
  obtain f where f: "gf_wireless_node_id f = dc_client_address e" "gf_forwarder_len f = dc_forwarder_address_len e"
    and run: "check_active_client_connection_timeout env now (g, w) =
      (if ping_due g now
       then cl_bind (send_client_connection_ping_req env f) (\<lambda>rc. cl_return (if rc < 0 then -1 else 0)) (g, w)
       else if silent_for now e > get_client_tolerance_timeout (dc_connect_duration e)
       then Inr (0, with_client g (e\<lparr>dc_client_status := DB_ENTRY_MQTT_SN_CLIENT_STATUS_LOST\<rparr>), w)
       else Inr (0, g, w))"
    using run_check_active [OF assms(2), where env = env and now = now] unfolding e_def by metis
  have due: "ping_due g now \<longleftrightarrow> dc_ping_req_await_message_type e = ANY_MESSAGE_TYPE"
    using order_trans [OF less_imp_le [OF allowed(1)] assms(3)] by (simp add: ping_due_def e_def)
  show "dc_ping_req_await_message_type e \<noteq> ANY_MESSAGE_TYPE \<Longrightarrow>
      check_active_client_connection_timeout env now (g, w)
        = Inr (0, with_client g (e\<lparr>dc_client_status := DB_ENTRY_MQTT_SN_CLIENT_STATUS_LOST\<rparr>), w)"
    using run due less_le_trans [OF allowed(2) assms(3)] by simp
  assume ping: "clock_works env" "dc_ping_req_await_message_type e = ANY_MESSAGE_TYPE" "dc_forwarder_address_len e = 0"
    "\<not> isFull (g_clientNetworkSendBuffer g)"
  then have "gf_forwarder_len f = 0"
    using f(2) by simp
  then obtain q w' where "send_client_connection_ping_req env f (g, w)
      = Inr (0, with_client (g\<lparr>g_clientNetworkSendBuffer := q\<rparr>) (e\<lparr>dc_ping_req_await_message_type := PINGRESP\<rparr>), w')"
    "answered g (gf_wireless_node_id f) (bare_wire PINGREQ ()) (g\<lparr>g_clientNetworkSendBuffer := q\<rparr>)"
    using run_ping_req_to_client [OF assms(2) ping(1) _ ping(4)] unfolding e_def by blast
  then show ?pinged
    using run due ping(2) f(1)
    by (auto simp: run_bind [where m = "send_client_connection_ping_req env f"] run_rules current_client_def with_client_def
        answered_def)
qed

section \<open>Frames of the forwarder\<close>

text \<open>The header of a frame counts its own bytes, the gateway expects it to count the whole message.\<close>

lemma frame_header_rejected:
  assumes "data = 9 # type_byte ENCAPSULATED_MESSAGE # rest" "n \<noteq> 9" "2 \<le> n"
  shows "\<exists>h pb. parse_header empty_header ANY_MESSAGE_TYPE data n 0 = Inr (-1, h, pb)"
  using assms by (auto simp: header_defs Let_def uint_type_byte cast_type_byte MQTT_SN_MESSAGE_TYPE_RESERVED_def)

lemma gateway_ignores_frame:
  assumes "md_data m = patched message_buffer (frame_wire x)" "md_data_length m = 9 + em_mqtt_sn_message_len x"
    "0 < em_mqtt_sn_message_len x" "md_data_length m < 65536" "frame_wf x"
  shows "parse_and_handle_message (Suc n) env m 0 f s = Inr (0, s)"
proof -
  have rest: "\<exists>rest. msg_rest m 0 = 9 # type_byte ENCAPSULATED_MESSAGE # rest"
    using assms(1) by (simp add: msg_rest_def frame_wire_def frame_head_def patched_def)
  have "msg_rest_length m 0 = 9 + em_mqtt_sn_message_len x"
    using assms(2,4) by (simp add: msg_rest_length_def u16_sub_def)
  then obtain h pb where "parse_header empty_header ANY_MESSAGE_TYPE (msg_rest m 0) (msg_rest_length m 0) 0 = Inr (-1, h, pb)"
    using rest frame_header_rejected [of "msg_rest m 0" _ "msg_rest_length m 0"] assms(3) by auto
  then show ?thesis
    by (simp add: run_rules)
qed

section \<open>Discovered gateways\<close>

lemma run_gateway_update:
  assumes "fatfs_contract (ge_fs env) view room" "fv_gateways (view w) = []"
    "d_gateway_discovered_result h \<noteq> DB_ENTRY_MQTT_SN_GATEWAY_DISCOVERED_RESULT_IN_PROGRESS"
  shows "\<exists>h' w'. gateway_update env gw_id change note_status (h, w) = Inr (DB_ENTRY_MQTT_SN_GATEWAY_DISCOVERED_RESULT_ERROR, h', w')
    \<and> fv_gateways (view w') = [] \<and> d_discovered_gw_list h' = d_discovered_gw_list h"
proof (cases "d_database_error h")
  case True
  then show ?thesis
    using assms(2,3) by (simp add: gateway_update_def gateway_db_error_def run_rules)
next
  case False
  have "unat gw_id < 2 ^ LENGTH(8)"
    by (rule unsigned_less)
  then have id: "unat gw_id < 65536"
    by simp
  obtain x w' where r: "f_read_at (ge_fs env) MQTT_SN_GATEWAY_DB_DISCOVERED_GATEWAYS_FILE_NAME (unat gw_id)
      (ge_unset_gateway env) (ff_sizeof_gateway (ge_fs env)) (h, w) = Inr ((-1, ge_unset_gateway env), h, w')"
    "view w' = at_place local_file x (view w)"
    using run_read_at [OF assms(1,2) id, where e = "ge_unset_gateway env" and c = h] by blast
  show ?thesis
    using False assms(2,3) r(2)
    by (simp add: gateway_update_def gateway_db_error_def run_rules
        run_bind [where m = "f_read_at _ _ _ _ _", OF r(1)])
qed

lemma run_gateway_init:
  assumes "fatfs_contract (ge_fs env) view room" "fv_gateways (view w) = []"
    "d_gateway_discovered_result h \<noteq> DB_ENTRY_MQTT_SN_GATEWAY_DISCOVERED_RESULT_IN_PROGRESS"
  shows "\<exists>h' w'. mqtt_sn_discovered_gateway_init env (h, w) = Inr (DB_ENTRY_MQTT_SN_GATEWAY_DISCOVERED_RESULT_ERROR, h', w')
    \<and> fv_gateways (view w') = []"
proof (cases "d_database_error h")
  case True
  then show ?thesis
    using assms(2,3) by (simp add: mqtt_sn_discovered_gateway_init_def gateway_db_error_def run_rules)
next
  case False
  define h1 where "h1 = h\<lparr>d_discovered_gw_list :=
      map (\<lambda>pos. \<lparr>gl_gw_id = of_nat pos, gl_status = DB_ENTRY_MQTT_SN_GATEWAY_DISCOVERED_NEVER\<rparr>) [0..<UINT8_MAX]\<rparr>"
  obtain x w' where wr: "f_write_at (ge_fs env) MQTT_SN_GATEWAY_DB_DISCOVERED_GATEWAYS_FILE_NAME 0
      (empty_gateway_entry\<lparr>gd_gw_id := 0\<rparr>) (ff_sizeof_gateway (ge_fs env)) (h1, w) = Inr (-1, h1, w')"
    "view w' = at_place local_file x (view w)"
    using run_write_at [OF assms(1,2), where k = 0 and e = "empty_gateway_entry\<lparr>gd_gw_id := 0\<rparr>" and c = h1] by auto
  have step: "write_empty_gateways (Suc n) 0 env (h1, w) = Inr (-1, h1, w')" for n
    by (simp add: run_bind [where m = "f_write_at _ _ _ _ _", OF wr(1)] run_rules)
  have max: "UINT8_MAX = Suc 254"
    by (simp add: UINT8_MAX_def)
  have "write_empty_gateways UINT8_MAX 0 env (h1, w) = Inr (-1, h1, w')"
    unfolding max by (rule step)
  then show ?thesis
    using False assms(2,3) wr(2)
    by (simp add: mqtt_sn_discovered_gateway_init_def run_rules h1_def [symmetric] run_bind [where m = "write_empty_gateways _ _ _"])
qed

section \<open>The longest client identifier\<close>

lemma long_connect_faults:
  assumes "connect_wf c" "con_client_id_length c = 24" "0 \<notin> set (take 24 (con_client_id c))"
    and "md_data m = connect_wire c @ rest" "md_data_length m = 30" "\<not> isFull (g_clientNetworkSendBuffer g)"
  shows "client_connection_handler_parse_and_handle_connect env m 0 f (g, w) = Inl Memory_Fault"
proof -
  have "parse_connect empty_connect (msg_rest m 0) (msg_rest_length m 0) = Inl Fault"
    using parse_connect_overruns [OF assms(1-3)] assms(4,5) by (simp add: msg_rest_def msg_rest_length_def u16_sub_def)
  then show ?thesis
    using assms(6) by (simp add: client_connection_handler_parse_and_handle_connect_def run_rules)
qed

end
