(* ===== verification/Sample_Gateway.thy ===== *)
theory Sample_Gateway
  imports Gateway_Behaviour Sample_Forwarder
begin

text \<open>
  A concrete gateway, on which its properties are instantiated: a volume with room for eight clients that
  keeps the contract of the file system, a clock that stands at five seconds, and a network of clients whose
  datagrams wait in a list.
\<close>

section \<open>The volume\<close>

type_synonym gateway_world = "file_view \<times> u8 list list"

definition sample_room :: nat where
  "sample_room = 8"

definition files :: "gateway_world \<Rightarrow> file_view" where
  "files w = (fst w)\<lparr>fv_clients := take sample_room (fv_clients (fst w))\<rparr>"

definition sample_size :: "string \<Rightarrow> nat" where
  "sample_size path = (if path = MQTT_SN_GATEWAY_DB_CLIENT_REGISTRY_FILE_NAME then 100 else 50)"

definition place_of :: "FIL \<Rightarrow> gateway_world \<Rightarrow> nat" where
  "place_of f w = (case fv_open (files w) f of None \<Rightarrow> 0 | Some (_, _, p) \<Rightarrow> p)"

definition move_to :: "FIL \<Rightarrow> nat \<Rightarrow> file_view \<Rightarrow> file_view" where
  "move_to f p v = (case fv_open v f of None \<Rightarrow> v | Some (path, mode, _) \<Rightarrow> at_place f (path, mode, p) v)"

definition list_read_client :: "FIL \<Rightarrow> DB_ENTRY_MQTT_SN_CLIENT \<Rightarrow> gateway_world
    \<Rightarrow> (FRESULT \<times> nat \<times> DB_ENTRY_MQTT_SN_CLIENT) \<times> gateway_world" where
  "list_read_client f e w =
     (let v = files w; p = place_of f w in
      if p < length (fv_clients v) then ((FR_OK, 100, fv_clients v ! p), move_to f (Suc p) v, snd w) else ((FR_OK, 0, e), w))"

definition list_write_client :: "FIL \<Rightarrow> DB_ENTRY_MQTT_SN_CLIENT \<Rightarrow> gateway_world \<Rightarrow> (FRESULT \<times> nat) \<times> gateway_world" where
  "list_write_client f e w =
     (let v = files w; p = place_of f w in
      if p < length (fv_clients v) \<or> length (fv_clients v) < sample_room
      then ((FR_OK, 100), move_to f (Suc p) (v\<lparr>fv_clients := store_entry (fv_clients v) p e\<rparr>), snd w)
      else ((FR_OK, 0), w))"

definition list_read_gateway :: "FIL \<Rightarrow> DB_ENTRY_MQTT_SN_GATEWAY_DISCOVERED \<Rightarrow> gateway_world
    \<Rightarrow> (FRESULT \<times> nat \<times> DB_ENTRY_MQTT_SN_GATEWAY_DISCOVERED) \<times> gateway_world" where
  "list_read_gateway f e w =
     (let v = files w; p = place_of f w in
      if p < length (fv_gateways v) then ((FR_OK, 50, fv_gateways v ! p), move_to f (Suc p) v, snd w) else ((FR_OK, 0, e), w))"

definition list_fs :: "gateway_world fatfs" where
  "list_fs =
     \<lparr>ff_sizeof_client = 100, ff_sizeof_gateway = 50,
      ff_open = (\<lambda>f path mode w. (FR_OK, at_place f (path, mode, 0) (files w), snd w)),
      ff_close = (\<lambda>f w. (if fv_open (files w) f = None then FR_INVALID_OBJECT else FR_OK,
        (files w)\<lparr>fv_open := (fv_open (files w))(f := None)\<rparr>, snd w)),
      ff_lseek = (\<lambda>f ofs w. case fv_open (files w) f of
          None \<Rightarrow> (FR_INVALID_OBJECT, w)
        | Some (path, mode, _) \<Rightarrow>
            (FR_OK, at_place f (path, mode, min (ofs div sample_size path) (file_entries (files w) path)) (files w), snd w)),
      ff_eof = (\<lambda>f w. (case fv_open (files w) f of None \<Rightarrow> True | Some (path, _, p) \<Rightarrow> file_entries (files w) path \<le> p, w)),
      ff_sync = (\<lambda>f w. (FR_OK, w)), ff_read_client = list_read_client, ff_write_client = list_write_client,
      ff_read_gateway = list_read_gateway, ff_write_gateway = (\<lambda>f e w. ((FR_DENIED, 0), w)),
      ff_stat = (\<lambda>path w. (FR_OK, w)), ff_unlink = (\<lambda>path w. (FR_OK, w)), ff_mount = (\<lambda>w. (FR_OK, w)),
      ff_unmount = (\<lambda>w. (FR_OK, w)), ff_mkfs = (\<lambda>w. (FR_OK, w)), host_open = (\<lambda>w. (0, w)),
      host_write = (\<lambda>fno n w. ((), w)), host_close = (\<lambda>fno w. ((), w))\<rparr>"

lemma files_view: "length (fv_clients v) \<le> sample_room \<Longrightarrow> files (v, x) = v"
  by (simp add: files_def)

lemma files_length: "length (fv_clients (files w)) \<le> sample_room"
  by (simp add: files_def)

lemma move_to_parts [simp]: "fv_clients (move_to f p v) = fv_clients v"
  by (simp add: move_to_def split: option.split)

lemma list_fs_contract: "fatfs_contract list_fs files sample_room"
proof -
  have sizes: "sizes_contract list_fs files sample_room"
    using files_length by (simp add: sizes_contract_def list_fs_def sample_room_def)
  have opens: "open_contract list_fs files"
    using files_length by (simp add: open_contract_def list_fs_def files_view FR_INVALID_OBJECT_def FR_OK_def)
  have size: "entry_size list_fs path = sample_size path" "0 < sample_size path" for path
    by (simp_all add: entry_size_def list_fs_def sample_size_def)
  have seeks: "seek_contract list_fs files"
    unfolding seek_contract_def size(1)
    using files_length size(2) by (auto simp: list_fs_def files_view)
  have reads: "\<exists>w'. if p < length (fv_clients (files w))
      then ff_read_client list_fs f e w = ((FR_OK, ff_sizeof_client list_fs, fv_clients (files w) ! p), w')
        \<and> files w' = at_place f (MQTT_SN_GATEWAY_DB_CLIENT_REGISTRY_FILE_NAME, mode, Suc p) (files w)
      else ff_read_client list_fs f e w = ((FR_OK, 0, e), w') \<and> files w' = files w"
    if "fv_open (files w) f = Some (MQTT_SN_GATEWAY_DB_CLIENT_REGISTRY_FILE_NAME, mode, p)" for f w mode p e
    using that files_length [of w]
    by (cases "p < length (fv_clients (files w))")
      (auto simp: list_fs_def list_read_client_def place_of_def move_to_def files_view Let_def)
  have writes: "\<exists>w'. if p < length (fv_clients (files w)) \<or> length (fv_clients (files w)) < sample_room
      then ff_write_client list_fs f e w = ((FR_OK, ff_sizeof_client list_fs), w')
        \<and> files w' = at_place f (MQTT_SN_GATEWAY_DB_CLIENT_REGISTRY_FILE_NAME, FA_READ OR FA_WRITE, Suc p)
            ((files w)\<lparr>fv_clients := store_entry (fv_clients (files w)) p e\<rparr>)
      else ff_write_client list_fs f e w = ((FR_OK, 0), w') \<and> files w' = files w"
    if "fv_open (files w) f = Some (MQTT_SN_GATEWAY_DB_CLIENT_REGISTRY_FILE_NAME, FA_READ OR FA_WRITE, p)"
      "p \<le> length (fv_clients (files w))" for f w p e
    using that files_length [of w] length_store_entry [OF that(2), of e]
    by (cases "p < length (fv_clients (files w)) \<or> length (fv_clients (files w)) < sample_room")
      (auto simp: list_fs_def list_write_client_def place_of_def move_to_def files_view Let_def)
  have clients: "client_file_contract list_fs files sample_room"
    unfolding client_file_contract_def using reads writes by blast
  have gateways: "gateway_file_contract list_fs files"
    by (auto simp: gateway_file_contract_def list_fs_def list_read_gateway_def place_of_def Let_def)
  show ?thesis
    using sizes opens seeks clients gateways by (simp add: fatfs_contract_def)
qed

section \<open>The gateway\<close>

definition sample_gateway_env :: "gateway_world gateway_env" where
  "sample_gateway_env =
     \<lparr>ge_platform = \<lparr>pf_clock_ms = (\<lambda>w. ((0, 5000), w)), pf_log_gateway_message = (\<lambda>m w. (0, w)), pf_log_status = (\<lambda>w. (0, w))\<rparr>,
      ge_fs = list_fs, ge_unset_index = 0, ge_unset_gateway = empty_gateway_entry, ge_fuel = 9\<rparr>"

text \<open>Datagrams of at most twenty bytes, so none is a long CONNECT.\<close>

definition short_receive :: "gateway_world net_receive" where
  "short_receive rx max_length timeout w =
     (case (rx, w) of ((from, to, data, signal), (v, inbox)) \<Rightarrow>
        (case inbox of
           [] \<Rightarrow> (0, rx, w)
         | d # inbox' \<Rightarrow>
             let d = take 20 d in (int (length d), (client_address, gateway_address, patched data d, 0), v, inbox')))"

definition sample_clients_network :: "gateway_world MqttSnClientNetworkInterface" where
  "sample_clients_network =
     \<lparr>cn_status = MQTT_SN_CLIENT_NETWORK_INTERFACE_STATUS_CONNECTED, cn_max_data_length = MQTT_SN_MAXIMUM_MESSAGE_DATA_LENGTH,
      cn_network_address = Some gateway_address, cn_mqtt_sn_gateway_address = None, cn_broadcast_address = Some gateway_address,
      cn_initialize = True, cn_deinitialize = Some (\<lambda>w. (0, w)), cn_connect = Some (\<lambda>w. (0, w)), cn_disconnect = Some (\<lambda>w. (0, w)),
      cn_send = Some (\<lambda>from to data len signal t w. (int len, w)), cn_receive = Some short_receive\<rparr>"

definition sample_mqtt_sn_gateway :: "DB_ENTRY_MQTT_SN_CLIENT_RESULT \<Rightarrow> u64 \<Rightarrow> gateway_world MqttSnGateway" where
  "sample_mqtt_sn_gateway r n =
     \<lparr>g_gateway_status = MQTT_SN_GATEWAY_STATUS_ACTIVE,
      g_db_handler = empty_db_handler\<lparr>d_client_transaction_result := r, d_client_count := n\<rparr>,
      g_mqttClientNetworkReceiveBuffer = MqttSnFixedSizeRingBufferInit,
      g_mqttClientNetworkSendBuffer = MqttSnFixedSizeRingBufferInit, g_clientNetwork = sample_clients_network,
      g_clientNetworkReceiveBuffer = MqttSnFixedSizeRingBufferInit, g_clientNetworkSendBuffer = MqttSnFixedSizeRingBufferInit,
      g_clientNetworkSendTimeout = 0, g_clientNetworkReceiveTimeout = 0,
      g_client_con_handler = \<lparr>gh_client_connection_timeout_check_enabled = 1, gh_last_client_connection_timeout_check = 0,
        gh_client_connection_timeout_check_period = 1, gh_client_connection_timeout_offset = 0\<rparr>,
      g_advertisement_config = \<lparr>ga_advertisement_standby_monitoring = 0, ga_advertisement_duration = 60,
        ga_advertisement_radius = 1, ga_gateway_id = 1, ga_missing_advertise_count = 1, ga_gateway_ping_monitoring = 0\<rparr>\<rparr>"

definition registry_world :: "DB_ENTRY_MQTT_SN_CLIENT list \<Rightarrow> gateway_world" where
  "registry_world cs = (\<lparr>fv_clients = cs, fv_gateways = [], fv_open = \<lambda>_. None\<rparr>, [])"

definition sample_client_entry :: DB_ENTRY_MQTT_SN_CLIENT where
  "sample_client_entry = new_client [0x41, 0x42, 0] client_address (gf_forwarder_addresses MqttSnGatewayForwarderInit) 0 60 7000 0"

definition sample_sender :: "u8 list \<Rightarrow> MqttSnGatewayForwarder" where
  "sample_sender a = MqttSnGatewayForwarderInit\<lparr>gf_wireless_node_id := a\<rparr>"

lemma sample_env_ok: "gateway_env_ok sample_gateway_env files sample_room" "clock_works sample_gateway_env"
  using list_fs_contract
  by (simp_all add: gateway_env_ok_def sample_gateway_env_def clock_quiet_def clock_works_def sample_room_def)

lemma sample_entry: "entry_ok sample_client_entry" "dc_position sample_client_entry = 0"
  "dc_client_address sample_client_entry = client_address"
proof -
  have "fit_name [0x41, 0x42, 0]"
    by (simp add: fit_name_def c_string_def)
  then show "entry_ok sample_client_entry"
    using forwarders_ok_init unfolding sample_client_entry_def
    by (intro new_client_ok) (simp_all add: forwarders_ok_def client_address_def device_address_size_def)
qed (simp_all add: sample_client_entry_def new_client_def)

lemma sample_registry: "registry_ok []" "registry_ok [sample_client_entry]"
  using sample_entry by (simp_all add: registry_ok_def)

lemma files_registry:
  "length cs \<le> sample_room \<Longrightarrow> files (registry_world cs) = \<lparr>fv_clients = cs, fv_gateways = [], fv_open = \<lambda>_. None\<rparr>"
  by (simp add: registry_world_def files_def)

lemma sample_network_ok: "client_driver_ok files sample_clients_network"
proof -
  have z: "length (md_data zero_message) = 1024" "md_data zero_message = message_buffer" "address_ok (md_from zero_message)"
    "address_ok (md_to zero_message)"
    by (simp_all add: zero_message_def length_message_buffer address_ok_def MQTT_SN_MAXIMUM_MESSAGE_DATA_LENGTH_def)
  have zero: "zero_from n (md_data zero_message)" for n
    by (simp add: zero_from_def z(2) message_buffer_def)
  have p: "length (patched (md_data zero_message) (take 20 d)) = 1024" "zero_from (length (take 20 d)) (patched (md_data zero_message) (take 20 d))"
    "length (take 20 d) \<le> 20" for d
    using z(1) zero [of 0] by (auto simp: patched_def zero_from_def nth_append)
  have receive: "receive_contract short_receive k" for k
    using z zero p
    by (auto simp: receive_contract_def short_receive_def empty_rx_def address_ok_def
        client_address_def gateway_address_def device_address_size_def MQTT_SN_MAXIMUM_MESSAGE_DATA_LENGTH_def
        Let_def simp del: length_take split: list.split) (simp_all add: le_less_trans)
  have "quiet_driver files sample_clients_network"
    by (auto simp: quiet_driver_def sample_clients_network_def short_receive_def files_def Let_def split: list.split prod.split)
  then show ?thesis
    using receive by (simp add: client_driver_ok_def sample_clients_network_def)
qed

lemma sample_gateway_inv:
  assumes "registry_ok cs" "length cs \<le> sample_room" "unat n \<le> length cs"
  shows "gateway_inv files (sample_mqtt_sn_gateway r n, registry_world cs)"
proof -
  have "length (d_discovered_gw_list empty_db_handler) = UINT8_MAX"
    unfolding empty_db_handler_def db_handler.select_convs length_replicate UINT8_MAX_def ..
  then have "db_ok files (empty_db_handler\<lparr>d_client_transaction_result := r, d_client_count := n\<rparr>, registry_world cs)"
    using assms files_registry [OF assms(2)] by (simp add: db_ok_def Let_def) (simp add: empty_db_handler_def)
  then show ?thesis
    using sample_network_ok
    by (simp add: gateway_inv_def gateway_with_def gateway_parts_ok_def sample_mqtt_sn_gateway_def buffer_ok_init)
qed

lemma sample_gateway_db [simp]:
  "g_db_handler (sample_mqtt_sn_gateway r n) = empty_db_handler\<lparr>d_client_transaction_result := r, d_client_count := n\<rparr>"
  "g_clientNetworkSendBuffer (sample_mqtt_sn_gateway r n) = MqttSnFixedSizeRingBufferInit"
  by (simp_all add: sample_mqtt_sn_gateway_def)

lemma sample_ready:
  assumes "registry_ok cs" "length cs \<le> sample_room" "unat n \<le> length cs"
  shows "gateway_ready files (sample_mqtt_sn_gateway r n) (registry_world cs)"
proof -
  have "\<not> d_client_transaction_started empty_db_handler" "\<not> d_database_error empty_db_handler"
    by (simp_all add: empty_db_handler_def)
  then show ?thesis
    using sample_gateway_inv [OF assms] init_not_full by (simp add: gateway_ready_def)
qed

lemma sample_sender_ok: "length a = device_address_size \<Longrightarrow> direct_sender (sample_sender a)"
  using forwarders_ok_init by (simp add: direct_sender_def sample_sender_def forwarders_ok_def)
    (simp add: MqttSnGatewayForwarderInit_def)

text \<open>A message of some bytes from an address.\<close>

definition message_from :: "u8 list \<Rightarrow> u8 list \<Rightarrow> MqttSnMessageData" where
  "message_from a bytes =
     zero_message\<lparr>md_from := a, md_data := patched message_buffer bytes, md_data_length := length bytes, md_create_time_s := 5000\<rparr>"

lemma message_from_rest:
  "length bytes < 65536 \<Longrightarrow> msg_rest (message_from a bytes) 0 = bytes @ drop (length bytes) message_buffer"
  "length bytes < 65536 \<Longrightarrow> msg_rest_length (message_from a bytes) 0 = length bytes"
  by (simp_all add: message_from_def msg_rest_def msg_rest_length_def patched_def u16_sub_def)

text \<open>A CONNECT of the client AB for a minute.\<close>

definition sample_connect :: "u8 \<Rightarrow> MqttSnMessageData" where
  "sample_connect clean_session = message_from client_address (connect_wire
     \<lparr>con_will = 0, con_clean_session = clean_session, con_protocol_id = 1, con_duration = 60,
      con_client_id = [0x41, 0x42, 0], con_client_id_length = 2\<rparr>)"

lemma sample_connect_read:
  obtains c where "parse_connect empty_connect (msg_rest (sample_connect clean) 0) (msg_rest_length (sample_connect clean) 0) = Inr (c, 8)"
    "fit_name (con_client_id c)" "con_will c = 0" "con_duration c = 60" "con_clean_session c \<noteq> 0 \<longleftrightarrow> clean \<noteq> 0"
proof -
  let ?x = "\<lparr>con_will = 0, con_clean_session = clean, con_protocol_id = 1, con_duration = 60,
      con_client_id = [0x41, 0x42, 0 :: u8], con_client_id_length = 2\<rparr>"
  have x: "connect_wf ?x" "connect_valid ?x" "connect_readable ?x"
    by (simp_all add: connect_wf_def connect_valid_def connect_readable_def)
  note len = length_connect_wire [OF x(1,2)]
  have rest: "msg_rest (sample_connect clean) 0 = connect_wire ?x @ drop (length (connect_wire ?x)) message_buffer"
    "msg_rest_length (sample_connect clean) 0 = 8"
    using message_from_rest [of "connect_wire ?x" client_address] len unfolding sample_connect_def by simp_all
  have "fit_name (patched (replicate 24 0) [0x41, 0x42, 0])"
    by (simp add: fit_name_def patched_def c_string_def)
  moreover note parse_connect_wire [OF x, of "drop (length (connect_wire ?x)) message_buffer"]
  ultimately show ?thesis
    using that rest by (simp add: c_string_def bool_bit_def)
qed

lemma sample_named: "free_place [sample_client_entry] = 1"
proof -
  have "c_string (dc_client_id sample_client_entry) = [0x41, 0x42]"
    by (simp add: sample_client_entry_def new_client_def c_string_def patched_def)
  then show ?thesis
    by (simp add: free_place_def)
qed

lemma sample_ping:
  "\<exists>p. parse_ping_req_byte (msg_rest (message_from a [2, 0x16]) 0) (msg_rest_length (message_from a [2, 0x16]) 0) = Inr p"
  by (simp add: message_from_rest codec_defs parse_header_ok_def header_defs Let_def cast_message_type_def all_message_types_def
      MQTT_SN_MESSAGE_TYPE_RESERVED_def)

lemma sample_advertise:
  "\<exists>adv rc. parse_advertise (msg_rest (message_from a [5, 0, 1, 0, 60]) 0) (msg_rest_length (message_from a [5, 0, 1, 0, 60]) 0) = Inr (adv, rc)"
  by (simp add: message_from_rest codec_defs parse_header_ok_def header_defs Let_def cast_message_type_def all_message_types_def
      MQTT_SN_MESSAGE_TYPE_RESERVED_def)

text \<open>A transaction on the entry of a client whose last message came seven seconds after the epoch, in milliseconds.\<close>

definition waiting_gateway :: "gateway_world MqttSnGateway" where
  "waiting_gateway = (sample_mqtt_sn_gateway DB_ENTRY_MQTT_SN_CLIENT_RESULT_SUCCESS 1)\<lparr>g_db_handler :=
     empty_db_handler\<lparr>d_client_transaction_started := True, d_client_count := 1, d_entry_client := sample_client_entry\<rparr>,
     g_client_con_handler := \<lparr>gh_client_connection_timeout_check_enabled = 1, gh_last_client_connection_timeout_check = 0,
       gh_client_connection_timeout_check_period = 20, gh_client_connection_timeout_offset = -20\<rparr>\<rparr>"

definition waiting_world :: gateway_world where
  "waiting_world = (\<lparr>fv_clients = [sample_client_entry], fv_gateways = [],
     fv_open = [client_registry_file \<mapsto> (MQTT_SN_GATEWAY_DB_CLIENT_REGISTRY_FILE_NAME, FA_READ, 1)]\<rparr>, [])"

lemma waiting: "in_transaction files waiting_gateway waiting_world"
proof -
  have "files waiting_world = fst waiting_world"
    by (simp add: files_def waiting_world_def sample_room_def)
  moreover have "length (d_discovered_gw_list empty_db_handler) = UINT8_MAX"
    unfolding empty_db_handler_def db_handler.select_convs length_replicate UINT8_MAX_def ..
  ultimately have "db_ok files (empty_db_handler\<lparr>d_client_transaction_started := True, d_client_count := 1,
      d_entry_client := sample_client_entry\<rparr>, waiting_world)"
    using sample_entry sample_registry(2) by (simp add: db_ok_def Let_def waiting_world_def) (simp add: empty_db_handler_def)
  then show ?thesis
    using sample_network_ok
    by (simp add: in_transaction_def gateway_inv_def gateway_with_def gateway_parts_ok_def waiting_gateway_def
        sample_mqtt_sn_gateway_def buffer_ok_init) (simp add: empty_db_handler_def)
qed

lemma sample_entry_fields:
  "dc_last_ping_resp_received sample_client_entry = 7000" "dc_last_ping_req_received sample_client_entry = 7000"
  "dc_ping_req_await_message_type sample_client_entry = ANY_MESSAGE_TYPE" "dc_forwarder_address_len sample_client_entry = 0"
  "dc_connect_duration sample_client_entry = 60"
  by (simp_all add: sample_client_entry_def new_client_def)

lemma waiting_gateway_parts:
  "current_client waiting_gateway = sample_client_entry" "g_clientNetworkSendBuffer waiting_gateway = MqttSnFixedSizeRingBufferInit"
  "gh_client_connection_timeout_offset (g_client_con_handler waiting_gateway) = -20"
  by (simp_all add: waiting_gateway_def current_client_def sample_mqtt_sn_gateway_def)

end
