(* ===== verification/Reader_Bounds.thy ===== *)
theory Reader_Bounds
  imports Msg_Discovery Msg_Connection Msg_Publish Msg_Will Msg_Subscribe Encapsulation
begin

text \<open>
  When a reader looks outside the message it is given: the one header that is cut off, which all readers
  share, and the responses to the updates of a will, whose return code is looked for behind the message.
\<close>

section \<open>The header that is cut off\<close>

definition cut_off :: "u8 list \<Rightarrow> nat \<Rightarrow> bool" where
  "cut_off data n \<longleftrightarrow> n = 3 \<and> data = [1, 0, 3]"

lemma header_ok_cut_off:
  assumes "n \<le> 3"
  shows "parse_header_ok mt [1, 0, 3] n pb = Inl (if n = 3 then Fault else Fail)"
proof (cases "n = 3")
  case True
  then have "parse_header empty_header mt [1, 0, 3] n pb = Inl Fault"
    using parse_header_fault_iff [of n "[1, 0, 3]" empty_header mt pb] by simp
  then show ?thesis
    using True by (simp add: parse_header_ok_def)
next
  case False
  then show ?thesis
    using assms by (auto simp: parse_header_ok_def header_defs cbind_eq_Inl cbind_eq_Inr Let_def)
qed

text \<open>A reader that begins with the header and is safe elsewhere faults on the header that is cut off only.\<close>

lemma faults_iff_cut_off:
  assumes "n \<le> length data" "data \<noteq> [1, 0, 3] \<Longrightarrow> safe (r data n)"
    "\<And>k. k \<le> 3 \<Longrightarrow> r [1, 0, 3] k = Inl (if k = 3 then Fault else Fail)"
  shows "r data n = Inl Fault \<longleftrightarrow> cut_off data n"
  using assms by (cases "data = [1, 0, 3]") (auto simp: cut_off_def safe_def)

lemma readers_cut_off:
  "n \<le> 3 \<Longrightarrow> parse_advertise [1, 0, 3] n = Inl (if n = 3 then Fault else Fail)"
  "n \<le> 3 \<Longrightarrow> parse_searchgw [1, 0, 3] n = Inl (if n = 3 then Fault else Fail)"
  "n \<le> 3 \<Longrightarrow> parse_gwinfo g [1, 0, 3] n = Inl (if n = 3 then Fault else Fail)"
  "n \<le> 3 \<Longrightarrow> parse_connack [1, 0, 3] n = Inl (if n = 3 then Fault else Fail)"
  "n \<le> 3 \<Longrightarrow> parse_ping_resp_byte [1, 0, 3] n = Inl (if n = 3 then Fault else Fail)"
  "n \<le> 3 \<Longrightarrow> parse_ping_req_byte [1, 0, 3] n = Inl (if n = 3 then Fault else Fail)"
  "n \<le> 3 \<Longrightarrow> parse_disconnect_bytes [1, 0, 3] n = Inl (if n = 3 then Fault else Fail)"
  "n \<le> 3 \<Longrightarrow> parse_disconnect_duration [1, 0, 3] n = Inl (if n = 3 then Fault else Fail)"
  "n \<le> 3 \<Longrightarrow> parse_will_topic_req_byte [1, 0, 3] n = Inl (if n = 3 then Fault else Fail)"
  "n \<le> 3 \<Longrightarrow> parse_will_msg_req_byte [1, 0, 3] n = Inl (if n = 3 then Fault else Fail)"
  "n \<le> 3 \<Longrightarrow> parse_puback [1, 0, 3] n = Inl (if n = 3 then Fault else Fail)"
  "n \<le> 3 \<Longrightarrow> parse_regack [1, 0, 3] n = Inl (if n = 3 then Fault else Fail)"
  "n \<le> 3 \<Longrightarrow> parse_pubrec_bytes [1, 0, 3] n = Inl (if n = 3 then Fault else Fail)"
  "n \<le> 3 \<Longrightarrow> parse_pubrel_bytes [1, 0, 3] n = Inl (if n = 3 then Fault else Fail)"
  "n \<le> 3 \<Longrightarrow> parse_pubcomp_bytes [1, 0, 3] n = Inl (if n = 3 then Fault else Fail)"
  "n \<le> 3 \<Longrightarrow> parse_suback [1, 0, 3] n = Inl (if n = 3 then Fault else Fail)"
  "n \<le> 3 \<Longrightarrow> parse_unsuback_byte [1, 0, 3] n = Inl (if n = 3 then Fault else Fail)"
  "n \<le> 3 \<Longrightarrow> parse_publish [1, 0, 3] n = Inl (if n = 3 then Fault else Fail)"
  "n \<le> 3 \<Longrightarrow> parse_forwarder_encapsulation e [1, 0, 3] n = Inl (if n = 3 then Fault else Fail)"
  by (simp_all add: codec_defs header_ok_cut_off)

lemma safe_parse_ping_req: "n \<le> length data \<Longrightarrow> data \<noteq> [1, 0, 3] \<Longrightarrow> safe (parse_ping_req_byte data n)"
  unfolding codec_defs Let_def by (intro safe_intros)

lemma safe_parse_ping_resp: "n \<le> length data \<Longrightarrow> data \<noteq> [1, 0, 3] \<Longrightarrow> safe (parse_ping_resp_byte data n)"
  unfolding codec_defs by (intro safe_intros)

lemmas safe_readers = safe_parse_advertise safe_parse_searchgw safe_parse_gwinfo safe_parse_connack safe_parse_ping_req
  safe_parse_ping_resp safe_parse_disconnect safe_parse_will_req safe_parse_puback safe_parse_regack safe_parse_msg_ids
  safe_parse_suback safe_parse_unsuback safe_parse_publish safe_parse_forwarder_encapsulation

lemma reader_faults:
  assumes "n \<le> length data"
  shows "parse_advertise data n = Inl Fault \<longleftrightarrow> cut_off data n"
    "parse_searchgw data n = Inl Fault \<longleftrightarrow> cut_off data n"
    "length (gwi_gwAdd g) = device_address_size \<Longrightarrow> parse_gwinfo g data n = Inl Fault \<longleftrightarrow> cut_off data n"
    "parse_connack data n = Inl Fault \<longleftrightarrow> cut_off data n"
    "parse_ping_resp_byte data n = Inl Fault \<longleftrightarrow> cut_off data n"
    "parse_ping_req_byte data n = Inl Fault \<longleftrightarrow> cut_off data n"
    "parse_disconnect_bytes data n = Inl Fault \<longleftrightarrow> cut_off data n"
    "parse_disconnect_duration data n = Inl Fault \<longleftrightarrow> cut_off data n"
    "parse_will_topic_req_byte data n = Inl Fault \<longleftrightarrow> cut_off data n"
    "parse_will_msg_req_byte data n = Inl Fault \<longleftrightarrow> cut_off data n"
    "parse_puback data n = Inl Fault \<longleftrightarrow> cut_off data n"
    "parse_regack data n = Inl Fault \<longleftrightarrow> cut_off data n"
    "parse_pubrec_bytes data n = Inl Fault \<longleftrightarrow> cut_off data n"
    "parse_pubrel_bytes data n = Inl Fault \<longleftrightarrow> cut_off data n"
    "parse_pubcomp_bytes data n = Inl Fault \<longleftrightarrow> cut_off data n"
    "parse_suback data n = Inl Fault \<longleftrightarrow> cut_off data n"
    "parse_unsuback_byte data n = Inl Fault \<longleftrightarrow> cut_off data n"
    "parse_publish data n = Inl Fault \<longleftrightarrow> cut_off data n"
    "length (em_wireless_node_id e) = device_address_size \<Longrightarrow>
      length (em_mqtt_sn_message e) = MQTT_SN_MAXIMUM_MESSAGE_DATA_LENGTH \<Longrightarrow>
      parse_forwarder_encapsulation e data n = Inl Fault \<longleftrightarrow> cut_off data n"
  by (rule faults_iff_cut_off [OF assms], use assms in \<open>simp add: safe_readers\<close>, erule readers_cut_off)+

section \<open>Responses to the updates of a will\<close>

text \<open>The message as it has to be: its length, its type and a return code; and nothing behind it.\<close>

definition bare_response :: "MQTT_SN_MESSAGE_TYPE \<Rightarrow> u8 list \<Rightarrow> nat \<Rightarrow> bool" where
  "bare_response t data n \<longleftrightarrow> n = 3 \<and> length data = 3 \<and> data ! 0 = 3 \<and> data ! 1 = type_byte t"

lemma header_ok_faults: "n \<le> length data \<Longrightarrow> parse_header_ok mt data n pb = Inl Fault \<longleftrightarrow> cut_off data n"
  using parse_header_fault_iff [of n data empty_header mt pb]
  by (auto simp: parse_header_ok_def cbind_eq_Inl cut_off_def split: if_splits)

lemma read_return_code_faults: "parse_mqtt_sn_return_code_byte data n 0 = Inl Fault \<longleftrightarrow> 1 \<le> n \<and> data = []"
  by (cases data) (auto simp: parse_mqtt_sn_return_code_byte_def parse_mqtt_sn_uint8_byte_def cbind_eq_Inl Let_def)

lemma response_faults:
  assumes "n \<le> length data" "wire_type t" "t \<noteq> ENCAPSULATED_MESSAGE" "t \<noteq> ANY_MESSAGE_TYPE"
  shows "cbind (cbind (parse_header_ok t data n 0) (\<lambda>(h, pb). if h_length h \<noteq> 3 then Inl Fail else Inr (h, pb)))
      (\<lambda>_. parse_mqtt_sn_return_code_byte (drop n data) n 0) = Inl Fault
    \<longleftrightarrow> cut_off data n \<or> bare_response t data n" (is "?lhs \<longleftrightarrow> ?rhs")
proof -
  have bare: "parse_header_ok t data n 0 = Inr (plain_header 3 t, 2)" if b: "bare_response t data n"
  proof -
    obtain x where "data = header_wire 3 t @ [x]" "n = 3"
      using b by (auto simp: bare_response_def header_wire_def length_Suc_conv numeral_3_eq_3)
    then show ?thesis
      using parse_header_ok_wire [OF assms(2), of 3 t "[x]" 0] by (simp add: header_size_def)
  qed
  have len: "bare_response t data n" if "parse_header_ok t data n 0 = Inr (h, pb)" "h_length h = 3" "drop n data = []" for h pb
    using parse_header_ok_accepts [OF that(1) assms(3,4)] that(2,3) assms(1)
    by (auto simp: bare_response_def)
  show ?thesis
  proof
    assume ?lhs
    then show ?rhs
      using len by (auto simp: cbind_eq_Inl cbind_eq_Inr read_return_code_faults header_ok_faults assms(1) split: if_splits)
  next
    assume ?rhs
    then show ?lhs
    proof
      assume "cut_off data n"
      then have "parse_header_ok t data n 0 = Inl Fault"
        using header_ok_faults [OF assms(1)] by blast
      then show ?lhs
        by simp
    next
      assume b: "bare_response t data n"
      then have "drop n data = []" "1 \<le> n"
        by (simp_all add: bare_response_def)
      then show ?lhs
        using read_return_code_faults [of "drop n data" n] bare [OF b] by (simp add: plain_header_def)
    qed
  qed
qed

lemma will_response_faults:
  assumes "n \<le> length data"
  shows "parse_will_topic_resp_byte data n = Inl Fault \<longleftrightarrow> cut_off data n \<or> bare_response WILLTOPICRESP data n"
    "parse_will_msg_resp_byte data n = Inl Fault \<longleftrightarrow> cut_off data n \<or> bare_response WILLMSGRESP data n"
  using response_faults [OF assms, of WILLTOPICRESP] response_faults [OF assms, of WILLMSGRESP]
  by (simp_all add: codec_defs wire_type_def MQTT_SN_MESSAGE_TYPE_RESERVED_def)

end
