(* ===== verification/Spec2Isabelle.thy ===== *)
theory Spec2Isabelle
  imports Sample_Client Tcp_Framing Sample_Gateway Reader_Bounds
begin

text \<open>
  CMqttSnForwarder: a forwarder for MQTT-SN, the publish/subscribe protocol of sensor networks. It takes
  the messages of clients on one network, wraps each into an encapsulation frame that names the client,
  sends the frames to a gateway on another network, and takes the frames of the gateway apart again. The
  same code base has an MQTT-SN client and a gateway. The development models their C code under \<open>src/\<close>: the
  parser of MQTT-SN messages, the message queue, the two network interfaces, the framing of messages on a
  TCP stream, the list of discovered gateways, the forwarder, the client library, which shares the parser,
  the gateway network interface and the list of gateways with the forwarder, and the gateway, which keeps
  its clients in files.

  Conventions. A C function that may fail returns \<open>'a cres\<close>, a sum: \<open>Inl Fail\<close> is the result -1 of the
  source, \<open>Inl Fault\<close> an access outside an object, which the C code leaves undefined, and \<open>Inl Abort\<close>
  a recursion on a message that makes no progress; \<open>cbind\<close> is the sequence with the early return.
  Functions whose -1 the caller looks at return the integer. Bytes and 16-bit fields are words, lengths
  are natural numbers with the wrap-around of their C type written out, arrays are lists read with
  \<open>rd\<close> and \<open>rd_arr\<close> and written with \<open>wr_bytes\<close> and \<open>wr_arr\<close>, which fault out of range. An address
  is a list of six bytes. The modelled configuration is that of the Linux build: addresses of six bytes,
  messages of 1024 bytes, gateway discovery and access lists compiled in.

  The parts, and where they are.
  \<^item> \<open>Prelude\<close>: the result type, memory access, C strings, bytes of words.
  \<^item> \<open>Parser_Core\<close> and \<open>Wire_Format\<close>: \<open>src/parser/MqttSnMessageParser.c\<close>, the readers and writers of
    header and fields. The locale \<open>wire_format\<close> states what a pair of a writer and a reader promises,
    \<open>strict_wire_format\<close> what a reader promises that accepts nothing else; the message theories
    interpret them on their own functions.
  \<^item> \<open>Msg_Discovery\<close>, \<open>Msg_Connection\<close>, \<open>Msg_Publish\<close>, \<open>Msg_Will\<close>, \<open>Msg_Subscribe\<close>: the messages, one
    file under \<open>src/parser/\<close> each. \<open>Encapsulation\<close>: \<open>src/parser/MqttSnForwarderEncapsulationMessage.c\<close>,
    single frames and chains of them, and the tolerant reader.
  \<^item> \<open>Reader_Bounds\<close>: for which bytes the readers of fixed-layout messages look outside the message.
  \<^item> \<open>Ring_Buffer\<close>: \<open>src/ringbuffer/\<close> and \<open>src/platform/MqttSnMessageData.c\<close>; the locale
    \<open>message_queue\<close> is the bounded queue the ring buffer implements.
  \<^item> \<open>Net_Interface\<close>: \<open>src/network/MqttSnGatewayNetworkInterface.c\<close> and its client twin. The driver
    behind the function pointers is a parameter, functions on a world of type \<open>'w\<close>. The locale
    \<open>network_interface\<close> is the contract both interfaces keep.
  \<^item> \<open>Discovered_Gw\<close>: \<open>src/common/discoveredgw/\<close> and \<open>src/common/timeout/\<close>, with the abstract list
    \<open>discover\<close>.
  \<^item> \<open>Forwarder_State\<close> and \<open>Forwarder\<close>: \<open>src/forwarder/MqttSnForwarder.h\<close> and \<open>.c\<close>. The record has the
    fields of the struct; the loops that flush the queues are partial functions, \<open>None\<close> where they do
    not return. The locale \<open>access_list\<close> is interpreted on the six lists.
  \<^item> \<open>Forwarder_Safety\<close>, \<open>Forwarder_Loop\<close>, \<open>Forwarder_Run\<close>, \<open>Forwarder_Behaviour\<close>: the invariant and what
    keeps it; passes of the loop, termination and non-termination; the thread routine of
    \<open>src/forwarder/starter/linux/forwarder_starter.c\<close> and the initialisation; what becomes of the
    messages. \<open>Sample_Forwarder\<close>: a concrete forwarder on which the properties are instantiated.
  \<^item> \<open>Client_State\<close>: \<open>src/client/MqttSnClient.h\<close> and the headers beside it, the access lists, settings,
    initialisation. A call of the client is a function on the client and the world; it returns, or stops
    with \<open>Memory_Fault\<close>, \<open>Assertion\<close> or \<open>Out_Of_Fuel\<close> (\<open>cl_bind\<close>, \<open>cl_mem\<close>, \<open>cl_call\<close>).
  \<^item> \<open>Client_Await\<close>: \<open>src/client/MqttSnClientAwaitMessage.c\<close>, the table of awaited messages, the waits, and
    the sending with retries. \<open>Client_Handlers\<close>, \<open>Client_Requests\<close>, \<open>Client_Loop\<close>:
    \<open>src/client/MqttSnClientMethod.c\<close>, the handlers of messages, the requests of the user, and
    \<open>MqttSnClientLoop\<close>, which receives a message and hands it to its handler.
  \<^item> \<open>Client_Logic\<close>, \<open>Client_Safety\<close>, \<open>Client_Request_Safety\<close>, \<open>Client_Api\<close>: the invariant of the client, a
    rule for each call, and the states that sequences of calls reach. \<open>Client_Fuel\<close>: results do not
    depend on the fuel. \<open>Client_Behaviour\<close>, \<open>Client_Liveness\<close>, \<open>Client_Registrations\<close>: what
    acknowledgements do to the table, exchanges with a silent and with an answering gateway,
    subscriptions and wills. \<open>Sample_Client\<close>: a concrete client and gateway.
  \<^item> \<open>Call_Monad\<close>: the calls of the client and of the gateway, the triples \<open>hoare\<close> and \<open>maintains\<close>, and
    the rules that run a call from a given state.
  \<^item> \<open>Tcp_Framing\<close>: \<open>src/network/linux/shared/ip/tcphelper/MqttSnTcpNetworkMessageParser.c\<close>, the reader
    of messages from a byte stream; the socket is a parameter.
  \<^item> \<open>Gateway_Store\<close> and \<open>Gateway_Db\<close>: \<open>src/gateway/database/\<close>, the entries of the registry of clients, the
    functions of \<open>ftfs_db.c\<close> that read and write them, and the transactions of \<open>db_handler_client.c\<close>, the
    discovered gateways and the initialisation. FatFs, the file system below, is the parameter \<open>fatfs\<close>.
  \<^item> \<open>Gateway\<close>: \<open>src/gateway/MqttSnGateway.c\<close>, \<open>MqttSnGatewayClientConnectionHandler.c\<close>,
    \<open>MqttSnGatewayDiscoveryHandler.c\<close>, \<open>MqttSnGatewayForwarder.c\<close>, \<open>MqttClient.c\<close> and the thread routine of
    \<open>starter/linux/gateway_starter.c\<close>.
  \<^item> \<open>Gateway_Files\<close>, \<open>Gateway_Transactions\<close>: what FatFs promises (\<open>fatfs_contract\<close>), what the functions of
    \<open>ftfs_db.c\<close> do on such a volume, and what a transaction finds and writes.
  \<^item> \<open>Gateway_Messages\<close>: the readers the gateway uses stay in bounds, and what they return is in range.
  \<^item> \<open>Gateway_Safety\<close>, \<open>Gateway_Handlers\<close>, \<open>Gateway_Loop\<close>: the contracts on the drivers and the clock
    (\<open>gateway_env_ok\<close>), the invariant of gateway and files (\<open>gateway_inv\<close>), and that every handler, the
    dispatch, a pass of the loop and the thread routine keep it. \<open>Gateway_Fuel\<close>: none of them runs out of fuel (\<open>fuelled\<close>).
  \<^item> \<open>Gateway_Behaviour\<close>: what the handlers do: connecting, pings, timeouts, frames of a forwarder, discovered
    gateways. \<open>Sample_Gateway\<close>: a volume kept in lists that satisfies the contract of FatFs, and a gateway on it.

  Groups of lemmas. For each message: the bytes the writer produces (\<open>..._eq\<close>), what the reader makes of
  them (\<open>..._wire\<close>), what it accepts (\<open>..._accepts\<close>) and that it stays in bounds (\<open>safe_...\<close>). For each
  operation of the forwarder: \<open>ok_...\<close>, it returns, without a fault, and keeps the invariant (\<open>keeps\<close>).
  For the queues and lists: refinement of the abstract queue and list. For each call of the client:
  \<open>hoare_...\<close> or \<open>maintains_...\<close>, it makes no fault and keeps the invariant, and \<open>run_...\<close>, what it
  returns in a given state; for the gateway also \<open>fuelled_...\<close>, its fuel is enough. The invariant \<open>client_inv\<close> has three parameters: whether registrations of the
  gateway are accepted, how many registrations there are at most, and whether the client has an id.

  Contracts on what is not under \<open>src/\<close>. A receive routine of a driver writes at most the array it is
  handed, addresses of six bytes, nothing behind the message and nothing when it fails
  (\<open>receive_contract\<close>). The clock, when it can be read, is past its first second (\<open>clock_contract\<close>,
  \<open>working_clock\<close>). Some properties assume more of a driver's send: it takes a message whole or fails
  (\<open>all_or_nothing\<close>), or, for the loop that does not end, it takes none whole and reports no failure
  (\<open>accepts_nothing\<close>). \<open>Sample_Forwarder\<close> shows that the contracts can hold.
  A client's driver keeps the same contract on what it writes (\<open>client_receive_contract\<close>). What the gateway sends is no
  part of it: that no REGISTER, or none of the longest, is delivered (\<open>delivers_register\<close>) is named in the statement
  that needs it, and in the parameter of \<open>client_inv\<close>; the exchanges assume a gateway that is silent or delivers a given
  message, and a clock that advances by a second with each receive (\<open>gateway_answers\<close>), as
  \<open>Sample_Client\<close> does.
  FatFs, on a mounted volume with the two files of the database: files open, seek and read as documented,
  entries are read back as written, a write through an object opened for reading is denied, and a
  full volume writes nothing (\<open>fatfs_contract\<close>).
  The client driver of the gateway keeps \<open>receive_contract\<close>; the arrival of a CONNECT whose client id has 24 characters,
  which the reader ends behind its array, is the exception named in the statement (\<open>long_connect_met\<close>). \<open>Sample_Gateway\<close>
  has a volume, a driver and a clock that keep all contracts.

  Bounds and fuel. \<open>forwarder_passes\<close> takes the count of passes up to the signal that ends the program;
  the properties hold for every count. Loops over arrays terminate by the distance to their bound. The
  tolerant reader recurses into shorter messages only; \<open>Abort\<close> stands for the one header that would
  not make it shorter, and is shown not to occur. The client's waits run the loop, whose handlers and
  reconnects wait again: the fuel of \<open>MqttSnClientLoop\<close> bounds the depth of this nesting, and the fuel of
  a call the passes of one wait; a run that would need more stops with \<open>Out_Of_Fuel\<close>. A result is the same
  for any larger fuel, and a wait for a silent gateway needs \<open>wait_passes\<close> of its timeout and no nesting.
  The searches of the gateway's registry are bounded by \<open>ge_fuel\<close>; more than the volume has room for is
  enough, and a run of the gateway is shown never to need more. The two functions that dispatch a message of the gateway call each other at most twice.

  Not modelled: the sockets, serial lines and radios under \<open>src/network/linux\<close> and \<open>src/network/arduino\<close>
  (system calls), logging (text output; the two results the forwarder looks at are parameters), the
  configuration from the command line, the set-up of drivers and threads by the starters,
  the programs around the client under \<open>src/client\<close>, and third-party code. A message a failed writer has partly overwritten is not tracked where the caller
  discards it.
\<close>

section \<open>Memory safety\<close>

text \<open>
  C1. Memory safety of the forwarder: started in a state that satisfies \<open>forwarder_inv\<close>, with drivers
  that write no more than the array they are handed and a clock past its first second, any number of
  passes of the loop that returns does so without an access outside an array, with the result 0 or -1,
  and in a state that satisfies the invariant again, whatever the messages on either network are.
\<close>

theorem forwarder_memory_safe:
  assumes "forwarder_inv f" "clock_contract pf" "forwarder_passes k pf f w = Some r"
  shows "\<exists>rc f' w'. r = Inr (rc, f', w') \<and> (rc = 0 \<or> rc = -1) \<and> forwarder_inv f'"
  using passes_keep [OF assms(3,1,2)] by (auto simp: ok_def dest: keeps_inv)

theorem forwarder_memory_safe_witness:
  "\<exists>rc f' w'. forwarder_passes 3 sample_platform connected_forwarder ([[2, 0x16]], []) = Some (Inr (rc, f', w'))
    \<and> (rc = 0 \<or> rc = -1) \<and> forwarder_inv f'"
proof -
  obtain r where r: "forwarder_passes 3 sample_platform connected_forwarder ([[2, 0x16]], []) = Some r"
    using passes_run_on [OF connected_inv sample_platform_works(1) connected_initialised connected_drivers(1)] by blast
  then show ?thesis
    using forwarder_memory_safe [OF connected_inv working_clock_contract [OF sample_platform_works(1)] r] by auto
qed



text \<open>
  C3. Memory safety of the gateway: from a state that satisfies its invariant, over a FatFs volume that keeps
  its contract and with a driver that writes no more than the arrays it is handed, any number of passes of
  the loop makes no access outside an object and runs out of no fuel: they return, in a state that satisfies
  the invariant again, or stop in an assertion of the source. The only exception: an earlier pass has
  brought the gateway into a state that satisfies the invariant and in which the next receive delivers a
  CONNECT, alone or in frames of forwarders, whose client id has 24 characters (\<open>long_connect_met\<close>). The same
  holds of the thread routine, which ends with the release of the gateway.
\<close>

theorem gateway_memory_safe:
  assumes "gateway_env_ok env view room" "gateway_inv view s"
  shows "(long_connect_met k env view s \<or> gateway_passes k env s = Inl Assertion
      \<or> (\<exists>rc s'. gateway_passes k env s = Inr (rc, s') \<and> gateway_inv view s'))
    \<and> (long_connect_met_by_program k env view s \<or> gateway_inc_c k env s = Inl Assertion
      \<or> (\<exists>rc s'. gateway_inc_c k env s = Inr (rc, s')))"
  using ends_well [OF hoare_passes [OF assms(1)] fuelled_passes [OF assms(1)], of s k]
    ends_well [OF hoare_program [OF assms(1)] fuelled_program [OF assms(1)], of s k] assms(2) by blast

theorem gateway_memory_safe_witness:
  "\<not> long_connect_arrives (sample_mqtt_sn_gateway DB_ENTRY_MQTT_SN_CLIENT_RESULT_SUCCESS 1, registry_world [sample_client_entry])
    \<and> gateway_passes 1 sample_gateway_env
        (sample_mqtt_sn_gateway DB_ENTRY_MQTT_SN_CLIENT_RESULT_SUCCESS 1, registry_world [sample_client_entry]) \<noteq> Inl Memory_Fault"
proof -
  let ?s = "(sample_mqtt_sn_gateway DB_ENTRY_MQTT_SN_CLIENT_RESULT_SUCCESS 1, registry_world [sample_client_entry])"
  have "gateway_inv files ?s"
    by (rule sample_gateway_inv [OF sample_registry(2)]) (simp_all add: sample_room_def)
  moreover have "\<not> long_connect_arrives ?s"
    by (simp add: long_connect_arrives_def sample_mqtt_sn_gateway_def sample_clients_network_def client_arrival_def
        client_can_receive_def short_receive_def registry_world_def empty_rx_def Let_def long_connect_def)
  moreover have "\<not> long_connect_met 1 sample_gateway_env files ?s"
    using calculation(2) by (auto simp: long_connect_met_def cl_return_def)
  ultimately show ?thesis
    using gateway_memory_safe [OF sample_env_ok(1), of ?s 1] by auto
qed

text \<open>
  C4. Termination of a pass: once both networks have been initialised, and if the driver of the client
  network takes every message whole or reports a failure, \<open>MqttSnForwarderLoop\<close> returns, with a result
  and not a fault, also when the gateway is lost and the buffered messages are flushed first.
\<close>

theorem forwarder_loop_terminates:
  assumes "forwarder_inv f" "clock_contract pf" "initialised f"
    and "all_or_nothing (client_reply (f_clientNetwork f))"
  shows "\<exists>rc f' w'. MqttSnForwarderLoop pf f w = Some (Inr (rc, f', w')) \<and> forwarder_inv f' \<and> initialised f'"
proof -
  obtain r where r: "MqttSnForwarderLoop pf f w = Some r"
    using loop_returns [OF assms] by blast
  from loop_keeps [OF assms(1,2) r] show ?thesis
    using r assms(3) by (auto simp: ok_def keeps_def)
qed

theorem forwarder_loop_terminates_witness:
  "\<exists>rc f' w'. MqttSnForwarderLoop sample_platform connected_forwarder ([[2, 0x16]], []) = Some (Inr (rc, f', w'))
    \<and> forwarder_inv f' \<and> initialised f'"
  by (rule forwarder_loop_terminates [OF connected_inv working_clock_contract [OF sample_platform_works(1)]
        connected_initialised connected_drivers(1)])

text \<open>
  C5. The flushing loops may run forever: if a message that is not empty waits to be sent, the queue of received
  messages is empty, and the driver of the network takes no such message whole and reports no failure, as
  one that returns 0 because the buffer of its socket is full, the loop hands the message over and puts it
  back again and again, and the call does not return.
\<close>

theorem flush_never_returns:
  assumes "blocked_clients f" "blocked_gateway g"
  shows "sendBufferedMessagesToClients pf f w = None \<and> sendBufferedMessagesToGateway g v = None"
  using flush_clients_spins [OF assms(1)] flush_gateway_spins [OF assms(2)] by simp

theorem flush_never_returns_witness:
  "\<exists>q. put MqttSnFixedSizeRingBufferInit (zero_message\<lparr>md_data_length := 2\<rparr>) = Inr (0, q)
    \<and> sendBufferedMessagesToClients sample_platform
        (sample_forwarder\<lparr>f_clientNetwork := sample_client_network\<lparr>cn_send := Some busy_send\<rparr>,
           f_clientNetworkSendBuffer := q\<rparr>) ([], []) = None
    \<and> sendBufferedMessagesToGateway
        (sample_forwarder\<lparr>f_gatewayNetwork := sample_gateway_network\<lparr>gn_send := Some busy_send\<rparr>,
           f_gatewayNetworkSendBuffer := q\<rparr>) ([], []) = None"
proof -
  let ?m = "zero_message\<lparr>md_data_length := 2\<rparr>"
  obtain q where q: "put MqttSnFixedSizeRingBufferInit ?m = Inr (0, q)" "ring_inv q" "contents q = [?m]"
    using put_first [of ?m] by blast
  have b: "blocked_clients (sample_forwarder\<lparr>f_clientNetwork := sample_client_network\<lparr>cn_send := Some busy_send\<rparr>,
        f_clientNetworkSendBuffer := q\<rparr>)"
    "blocked_gateway (sample_forwarder\<lparr>f_gatewayNetwork := sample_gateway_network\<lparr>gn_send := Some busy_send\<rparr>,
        f_gatewayNetworkSendBuffer := q\<rparr>)"
    using q(2,3) busy_accepts_nothing
    by (simp_all add: blocked_clients_def blocked_gateway_def sample_forwarder_def isEmpty_contents something_waits_def
        client_can_send_def gateway_can_send_def sample_client_network_def sample_gateway_network_def)
  show ?thesis
    using q(1) flush_never_returns [OF b] by blast
qed

text \<open>
  C6. Lost networks never end the loop: the checks at its end look for a status of at most 0, which only
  a network that was never initialised has. With both networks disconnected, a working clock and a
  client driver that takes messages whole or fails, any number of passes returns 0 each time, and both
  networks stay disconnected.
\<close>

theorem lost_networks_never_end:
  assumes "forwarder_inv f" "working_clock pf" "all_or_nothing (client_reply (f_clientNetwork f))"
    and "cn_status (f_clientNetwork f) = MQTT_SN_CLIENT_NETWORK_INTERFACE_STATUS_DISCONNECTED"
    and "gn_status (f_gatewayNetwork f) = MQTT_SN_GATEWAY_NETWORK_INTERFACE_STATUS_DISCONNECTED"
  shows "\<exists>f' w'. forwarder_passes k pf f w = Some (Inr (0, f', w'))
    \<and> cn_status (f_clientNetwork f') = MQTT_SN_CLIENT_NETWORK_INTERFACE_STATUS_DISCONNECTED
    \<and> gn_status (f_gatewayNetwork f') = MQTT_SN_GATEWAY_NETWORK_INTERFACE_STATUS_DISCONNECTED"
proof -
  have "initialised f"
    using assms(4,5) by (simp add: initialised_def)
  from passes_run_on [OF assms(1,2) this assms(3), of k w] show ?thesis
    using assms(4,5) by (auto simp: keeps_def networks_kept_def)
qed

theorem lost_networks_never_end_witness:
  "\<exists>f' w'. forwarder_passes 1000 sample_platform lost_forwarder ([], []) = Some (Inr (0, f', w'))
    \<and> cn_status (f_clientNetwork f') = MQTT_SN_CLIENT_NETWORK_INTERFACE_STATUS_DISCONNECTED
    \<and> gn_status (f_gatewayNetwork f') = MQTT_SN_GATEWAY_NETWORK_INTERFACE_STATUS_DISCONNECTED"
  by (rule lost_networks_never_end [OF lost_inv sample_platform_works(1)]) (simp_all add: lost_forwarder_facts)

text \<open>
  C7. The search for a gateway waits on the wrong queue: what the gateway network delivers goes into
  one queue, and the message looked at is taken from the queue of the clients. A forwarder that is
  disconnected and not pinned, knows no gateway and has no message of a client left stays so over any
  number of passes, whatever advertisements arrive.
\<close>

theorem waits_on_wrong_queue:
  assumes "forwarder_inv f" "f_disconnected f" "\<not> f_pin_connection f"
    and "dl_current_len (f_discovered_gw_list f) = 0" "isEmpty (f_clientNetworkReceiveBuffer f)"
  shows "\<exists>f' w'. forwarder_passes k pf f w = Some (Inr (0, f', w')) \<and> f_disconnected f'
    \<and> dl_current_len (f_discovered_gw_list f') = 0"
  using stuck_passes [OF assms(1), of k pf w] assms(2-5) by (auto simp: stuck_def)

theorem waits_on_wrong_queue_witness:
  "\<exists>f' w'. forwarder_passes 1000 sample_platform sample_forwarder ([], []) = Some (Inr (0, f', w'))
    \<and> f_disconnected f' \<and> dl_current_len (f_discovered_gw_list f') = 0"
  by (rule waits_on_wrong_queue [OF sample_inv])
    (simp_all add: sample_forwarder_def MqttSnDiscoveredGatewayListInit_def isEmpty_contents)

text \<open>
  C8. From client to gateway in one pass: a message of at most 1015 bytes that the client driver
  delivers, from an address the access lists let through, is handed to the gateway driver in the same
  pass as \<open>gateway_frame\<close>: addressed to the gateway, from the client, nine bytes of header naming the
  client, and the message itself; and nothing of it stays in the queues.
\<close>

theorem client_message_delivered:
  assumes "forwarder_inv f" "isEmpty (f_clientNetworkReceiveBuffer f)" "isEmpty (f_gatewayNetworkSendBuffer f)"
    and "client_can_receive (f_clientNetwork f)" "gateway_can_send (f_gatewayNetwork f)"
    and "client_arrival (f_clientNetwork f) (f_clientNetworkReceiveTimeout f) w = (r, rx, w1)" "0 < r" "r \<le> 1015"
    and "get_timestamp_ms pf w1 = ((0, s, ms), w2)"
    and "m = received_message rx r s ms" "\<not> client_refused f (md_from m)"
    and "g = gateway_frame (f_mqtt_sn_gateway_address f) (cn_broadcast_address (f_clientNetwork f)) m"
    and "gateway_reply (f_gatewayNetwork f) g (f_gatewayNetworkSendTimeout f) w2 = (int (md_data_length g), w3)"
  shows "\<exists>f'. clients_to_gateway pf f w = Inr (f', w3) \<and> forwarder_inv f'
    \<and> isEmpty (f_clientNetworkReceiveBuffer f') \<and> isEmpty (f_gatewayNetworkSendBuffer f')"
  using clients_to_gateway_delivers [OF assms] to_gateway_empty keeps_inv by blast

theorem client_message_delivered_witness:
  "\<exists>f'. clients_to_gateway sample_platform connected_forwarder ([[2, 0x16]], [])
      = Inr (f', [], [[9, 0xFE, 0, 1, 2, 3, 4, 5, 6, 2, 0x16]]) \<and> forwarder_inv f'
    \<and> isEmpty (f_clientNetworkReceiveBuffer f') \<and> isEmpty (f_gatewayNetworkSendBuffer f')"
proof -
  let ?f = "connected_forwarder"
  let ?d = "patched (md_data zero_message) [2, 0x16]"
  let ?m = "received_message (client_address, gateway_address, ?d, 0) 2 5 0"
  let ?g = "gateway_frame (f_mqtt_sn_gateway_address ?f) (cn_broadcast_address (f_clientNetwork ?f)) ?m"
  have a: "client_arrival (f_clientNetwork ?f) (f_clientNetworkReceiveTimeout ?f) ([[2, 0x16]], [])
      = (2, (client_address, gateway_address, ?d, 0), ([], []))"
    by (simp add: client_arrival_def connected_forwarder_def sample_forwarder_def sample_client_network_def
        datagram_receive_def empty_rx_def MQTT_SN_MAXIMUM_MESSAGE_DATA_LENGTH_def)
  have c: "get_timestamp_ms sample_platform ([], []) = ((0, 5, 0), ([], []))"
    by (simp add: get_timestamp_ms_def sample_platform_def)
  have r: "\<not> client_refused ?f (md_from ?m)"
    by (simp add: client_refused_def members_of_def connected_forwarder_def sample_forwarder_def)
  have g: "gateway_reply (f_gatewayNetwork ?f) ?g (f_gatewayNetworkSendTimeout ?f) ([], [])
      = (int (md_data_length ?g), ([], [[9, 0xFE, 0, 1, 2, 3, 4, 5, 6, 2, 0x16]]))"
    by (simp add: gateway_reply_def connected_forwarder_def sample_forwarder_def sample_gateway_network_def
        sample_client_network_def datagram_send_def gateway_frame_def received_message_def client_address_def
        patched_def frame_head_def frame_radius_def type_byte_def eval_nat_numeral)
  show ?thesis
    by (rule client_message_delivered [OF connected_inv _ _ _ _ a _ _ c refl r refl g])
      (simp_all add: connected_forwarder_def sample_forwarder_def sample_drivers isEmpty_contents)
qed

text \<open>
  C9. Frames in order, none lost: while there is room in the queue to the gateway, \<open>k\<close> calls of
  \<open>AddForwardingHeaderToClientMessages\<close> take the \<open>k\<close> oldest messages of the clients and append, in the
  same order, the frame of each that the access lists let through and that fits; the others are
  dropped, and nothing else in the queues changes.
\<close>

theorem headers_added_in_order:
  assumes "forwarder_inv f" "k \<le> length (contents (f_clientNetworkReceiveBuffer f))"
    and "length (contents (f_gatewayNetworkSendBuffer f)) + k \<le> rb_maxlen (f_gatewayNetworkSendBuffer f)"
  shows "\<exists>f'. add_headers_times k f = Inr f' \<and> forwarder_inv f'
    \<and> contents (f_clientNetworkReceiveBuffer f') = drop k (contents (f_clientNetworkReceiveBuffer f))
    \<and> contents (f_gatewayNetworkSendBuffer f') = contents (f_gatewayNetworkSendBuffer f)
        @ concat (map (outgoing f) (take k (contents (f_clientNetworkReceiveBuffer f))))"
  using assms by (rule add_headers_in_order)

theorem headers_added_in_order_witness:
  "\<exists>(f :: datagrams MqttSnForwarder) f'.
    contents (f_clientNetworkReceiveBuffer f) = [zero_message] \<and> add_headers_times 1 f = Inr f'
    \<and> contents (f_clientNetworkReceiveBuffer f') = []
    \<and> contents (f_gatewayNetworkSendBuffer f') = [gateway_frame gateway_address None zero_message]"
proof -
  obtain q where q: "buffer_ok message_ok q" "contents q = [zero_message]"
    using sample_queue [of message_ok, OF message_ok_zero] by blast
  define f where "f = connected_forwarder\<lparr>f_clientNetworkReceiveBuffer := q\<rparr>"
  have f: "forwarder_inv f" "contents (f_clientNetworkReceiveBuffer f) = [zero_message]"
    "contents (f_gatewayNetworkSendBuffer f) = []" "1 \<le> rb_maxlen (f_gatewayNetworkSendBuffer f)"
    using q connected_inv
    by (simp_all add: f_def forwarder_inv_defs connected_forwarder_def sample_forwarder_def Suc_le_eq init_room)
  have "outgoing f zero_message = [gateway_frame gateway_address None zero_message]"
    by (simp add: outgoing_def client_refused_def members_of_def frame_fits_def f_def connected_forwarder_def
        sample_forwarder_def sample_client_network_def zero_message_def MQTT_SN_MAXIMUM_MESSAGE_DATA_LENGTH_def)
  then have "\<exists>f'. add_headers_times 1 f = Inr f' \<and> contents (f_clientNetworkReceiveBuffer f') = []
      \<and> contents (f_gatewayNetworkSendBuffer f') = [gateway_frame gateway_address None zero_message]"
    using headers_added_in_order [OF f(1), of 1] f by (simp del: length_contents) blast
  then show ?thesis
    using f(2) by blast
qed

text \<open>
  C10. From the gateway to the clients: with room in the queue to the clients, a working clock and a
  working log, \<open>RemoveForwardingHeaderFromGatewayMessages\<close> takes the oldest message of the gateway and
  appends to the queue to the clients the message inside its frame, or nothing when the sender is not
  let through or there is no frame to read; apart from the list of gateways nothing else changes.
\<close>

theorem header_removed:
  assumes "forwarder_inv f" "working_clock pf" "working_log pf"
    and "contents (f_gatewayNetworkReceiveBuffer f) = m # ms" "\<not> isFull (f_clientNetworkSendBuffer f)"
  shows "\<exists>q l s w'. RemoveForwardingHeaderFromGatewayMessages pf f w
      = Inr (0, f\<lparr>f_gatewayNetworkReceiveBuffer := q, f_discovered_gw_list := l, f_clientNetworkSendBuffer := s\<rparr>, w')
    \<and> contents q = ms \<and> contents s = contents (f_clientNetworkSendBuffer f) @ incoming f m"
  using remove_header_forwards [OF assms, of w] by blast

theorem header_removed_witness:
  "\<exists>f q l s w'. contents (f_gatewayNetworkReceiveBuffer f) = [gateway_frame gateway_address None zero_message]
    \<and> RemoveForwardingHeaderFromGatewayMessages sample_platform f ([], [])
      = Inr (0, f\<lparr>f_gatewayNetworkReceiveBuffer := q, f_discovered_gw_list := l, f_clientNetworkSendBuffer := s\<rparr>, w')
    \<and> contents q = [] \<and> contents s = [client_message None 0 zero_address zero_address []]"
proof -
  have z: "message_shape zero_message" "frame_fits zero_message" "address_ok gateway_address"
    by (rule message_shape_zero) (simp_all add: frame_fits_def zero_message_def MQTT_SN_MAXIMUM_MESSAGE_DATA_LENGTH_def address_ok_def
        gateway_address_def device_address_size_def)
  let ?m = "gateway_frame gateway_address None zero_message"
  obtain q where q: "buffer_ok message_ok q" "contents q = [?m]"
    using sample_queue [of message_ok, OF message_ok_gateway_frame [OF z]] by blast
  define f where "f = connected_forwarder\<lparr>f_gatewayNetworkReceiveBuffer := q\<rparr>"
  have f: "forwarder_inv f" "contents (f_gatewayNetworkReceiveBuffer f) = [?m]"
    "contents (f_clientNetworkSendBuffer f) = []" "\<not> isFull (f_clientNetworkSendBuffer f)"
    using q connected_inv by (simp_all add: f_def forwarder_inv_defs connected_forwarder_def sample_forwarder_def)
  have "incoming f ?m = [client_message None 0 zero_address zero_address []]"
    using remove_added_frame [OF z(1,2), of gateway_address None None]
    by (simp add: incoming_def gateway_refused_def members_of_def f_def connected_forwarder_def sample_forwarder_def
        sample_client_network_def frame_radius_def zero_message_def zero_address_def)
  then show ?thesis
    using header_removed [OF f(1) sample_platform_works f(2,4), of "([], [])"] f(2,3) by (metis append_Nil)
qed

text \<open>
  C11. Round trip of a message: what the forwarder makes of a client's message it takes apart again into
  the same bytes, addressed to that client, when a gateway returns it and no address of the client
  network is the broadcast address. For a message that does not fit with nine more bytes no frame is made.
\<close>

theorem frame_returned:
  assumes "message_shape m" "add_mqtt_sn_forwarder_encapsulation_frame m zero_message gateway None = Inr (rc, g)"
  shows "(rc = 0 \<longleftrightarrow> 9 + md_data_length m \<le> 1024)
    \<and> (rc = 0 \<longrightarrow> remove_mqtt_sn_forwarder_encapsulation_frame g zero_message None
      = Inr (0, client_message None 0 (md_from m) (md_from m) (take (md_data_length m) (md_data m))))"
  using assms(2) remove_added_frame [OF assms(1), of gateway None None]
  by (auto simp: add_frame_eq [OF assms(1)] frame_fits_def frame_radius_def MQTT_SN_MAXIMUM_MESSAGE_DATA_LENGTH_def
      split: if_splits)

theorem frame_returned_witness:
  "\<exists>g. add_mqtt_sn_forwarder_encapsulation_frame zero_message zero_message gateway_address None = Inr (0, g)
    \<and> remove_mqtt_sn_forwarder_encapsulation_frame g zero_message None
      = Inr (0, client_message None 0 zero_address zero_address [])"
proof -
  obtain rc g where g: "add_mqtt_sn_forwarder_encapsulation_frame zero_message zero_message gateway_address None = Inr (rc, g)"
    by (cases "frame_fits zero_message") (auto simp: add_frame_eq)
  have z: "md_from zero_message = zero_address" "md_data_length zero_message = 0"
    by (simp_all add: zero_message_def zero_address_def)
  show ?thesis
    using frame_returned [OF message_shape_zero g] g z by simp
qed

text \<open>
  C12. Initialisation: with drivers that keep their contract and well-formed access lists,
  \<open>MqttSnForwarderInit\<close> returns 0 or -1, and in either case leaves a state that satisfies the invariant;
  when it returns 0 both networks are connected, and a gateway address that was given is the one the
  forwarder is connected to.
\<close>

theorem init_establishes:
  assumes "drivers_ok f" "lists_inv f" "address_ok (f_mqtt_sn_gateway_address f)"
    and "\<forall>addr. a = Some addr \<longrightarrow> address_ok addr"
    and "MqttSnForwarderInit pf f a w = (rc, f', w')"
  shows "forwarder_inv f' \<and> (rc = 0 \<or> rc = -1)
    \<and> (rc = 0 \<longrightarrow> cn_status (f_clientNetwork f') = MQTT_SN_CLIENT_NETWORK_INTERFACE_STATUS_CONNECTED
        \<and> gn_status (f_gatewayNetwork f') = MQTT_SN_GATEWAY_NETWORK_INTERFACE_STATUS_CONNECTED
        \<and> (\<forall>addr. a = Some addr \<longrightarrow> f_mqtt_sn_gateway_address f' = addr \<and> \<not> f_disconnected f'))"
  using assms by (rule init_inv)

theorem init_establishes_witness:
  "\<exists>f' w'. MqttSnForwarderInit sample_platform sample_forwarder (Some gateway_address) ([], []) = (0, f', w')
    \<and> forwarder_inv f' \<and> \<not> f_disconnected f'"
proof -
  obtain rc f' w' where r: "MqttSnForwarderInit sample_platform sample_forwarder (Some gateway_address) ([], []) = (rc, f', w')"
    by (metis prod.exhaust)
  have "rc = 0"
    using r by (simp add: MqttSnForwarderInit_def ClientNetworkConnect_def GatewayNetworkConnect_def
        sample_forwarder_def sample_client_network_def sample_gateway_network_def sample_platform_def Let_def)
  moreover have "drivers_ok sample_forwarder" "lists_inv sample_forwarder" "address_ok (f_mqtt_sn_gateway_address sample_forwarder)"
    "\<forall>addr. Some gateway_address = Some addr \<longrightarrow> address_ok addr"
    using sample_inv by (simp_all add: forwarder_inv_def sample_forwarder_def)
  ultimately show ?thesis
    using init_establishes [OF _ _ _ _ r] r by auto
qed

text \<open>
  C13. The types are kept: after any number of passes none of the four queues holds more messages than it has
  slots; every message in them has addresses of six bytes, a data array of 1024 bytes and a length below 65536;
  each of the six access lists has at most four of its five entries in use, the list of gateways at
  most 255; and the address of the gateway has six bytes.
\<close>

theorem forwarder_fields_in_range:
  assumes "forwarder_inv f" "clock_contract pf" "forwarder_passes k pf f w = Some (Inr (rc, f', w'))"
  shows "(\<forall>q \<in> {f_clientNetworkReceiveBuffer f', f_clientNetworkSendBuffer f', f_gatewayNetworkReceiveBuffer f',
        f_gatewayNetworkSendBuffer f'}. rb_item_count q \<le> rb_maxlen q
      \<and> (\<forall>m \<in> set (contents q). length (md_from m) = 6 \<and> length (md_to m) = 6 \<and> length (md_data m) = 1024
           \<and> md_data_length m < 65536))
    \<and> (\<forall>n \<in> {f_gn_gw_id_whitelist_len f', f_gn_gw_id_blacklist_len f', f_gn_addr_whitelist_len f',
        f_gn_addr_blacklist_len f', f_cn_addr_whitelist_len f', f_cn_addr_blacklist_len f'}. n \<le> 4)
    \<and> dl_current_len (f_discovered_gw_list f') \<le> 255 \<and> length (f_mqtt_sn_gateway_address f') = 6"
proof -
  have inv: "forwarder_inv f'"
    using passes_keep [OF assms(3,1,2)] by (auto dest: keeps_inv)
  have shape: "buffer_ok message_shape q" if "buffer_ok message_ok q" for q
    using that message_ok_shape by (auto simp: buffer_ok_def)
  have q: "rb_item_count q \<le> rb_maxlen q \<and> (\<forall>m \<in> set (contents q). length (md_from m) = 6 \<and> length (md_to m) = 6
      \<and> length (md_data m) = 1024 \<and> md_data_length m < 65536)" if "buffer_ok message_shape q" for q
    using that ring.bounded [of q]
    by (auto simp: buffer_ok_def message_shape_def device_address_size_def MQTT_SN_MAXIMUM_MESSAGE_DATA_LENGTH_def)
  have l: "lists_inv f'" "gw_list_inv (f_discovered_gw_list f')" "address_ok (f_mqtt_sn_gateway_address f')"
    using inv by (simp_all add: forwarder_inv_def gateways_inv_def)
  have "length (entries (f_discovered_gw_list f')) = dl_current_len (f_discovered_gw_list f')"
    using l(2) gw_list_cur [of "entries (f_discovered_gw_list f')"] by (simp add: gw_list_inv_def del: gw_list_cur)
  then have "dl_current_len (f_discovered_gw_list f') \<le> 255"
    using l(2) by (simp add: gw_list_inv_def MQTT_SN_FIND_GATEWAY_CLIENT_DISCOVERED_GATEWAY_LIST_LENGTH_def)
  moreover have "n \<le> 4" if "n \<in> {f_gn_gw_id_whitelist_len f', f_gn_gw_id_blacklist_len f', f_gn_addr_whitelist_len f',
      f_gn_addr_blacklist_len f', f_cn_addr_whitelist_len f', f_cn_addr_blacklist_len f'}" for n
    using that l(1) by (auto simp: lists_inv_def list_inv_def ACCESS_LIST_LENGTH_def)
  ultimately show ?thesis
    using inv l(3) q [OF shape, of "f_clientNetworkReceiveBuffer f'"] q [of "f_clientNetworkSendBuffer f'"]
      q [OF shape, of "f_gatewayNetworkReceiveBuffer f'"] q [of "f_gatewayNetworkSendBuffer f'"]
    by (simp add: forwarder_inv_def address_ok_def device_address_size_def)
qed

theorem forwarder_fields_in_range_witness:
  "\<exists>rc f' w'. forwarder_passes 3 sample_platform connected_forwarder ([[2, 0x16]], []) = Some (Inr (rc, f', w'))
    \<and> f_cn_addr_whitelist_len f' \<le> 4 \<and> dl_current_len (f_discovered_gw_list f') \<le> 255"
proof -
  obtain f' w' where r: "forwarder_passes 3 sample_platform connected_forwarder ([[2, 0x16]], []) = Some (Inr (0, f', w'))"
    using passes_run_on [OF connected_inv sample_platform_works(1) connected_initialised connected_drivers(1)] by blast
  then show ?thesis
    using forwarder_fields_in_range [OF connected_inv working_clock_contract [OF sample_platform_works(1)] r] by simp
qed

section \<open>The client\<close>

text \<open>
  C14. A silent gateway: if the driver takes every message and delivers nothing, each receive lasting a
  second, \<open>MqttSnClientDirectConnect\<close> of a client with a free slot and a positive retry timeout below 2^31
  milliseconds returns \<open>TIMEOUT\<close>, with enough fuel for one wait. It takes, for each try, the whole
  seconds of the retry timeout and two more, leaves the client disconnected, and frees the slot.
\<close>

theorem silent_gateway_times_out:
  assumes "silent_gateway env (c_gatewayNetwork c) seconds horizon" "client_inv reg most named c"
    and "am_msg_type (c_searchgw_reply_await_msg c) \<noteq> GWINFO"
    and "client_status_code MQTT_SN_CLIENT_CONNECTION_STATUS_INITALIZED \<le> client_status_code (c_status c)"
    and "free_slot (c_await_msg c) = Some i" "0 < c_retry_timeout_ms c" "c_retry_timeout_ms c < 2 ^ 31"
    and "fit_client_id client_id" "wait_passes (c_retry_timeout_ms c) \<le> k" "0 < n"
    and "seconds w + unat (c_retry_count c) * wait_passes (c_retry_timeout_ms c) \<le> horizon"
  shows "\<exists>c' w'. MqttSnClientDirectConnect env (MqttSnClientLoop env n) k address clean client_id duration
        None qos retain None len (c, w) = Inr (MQTT_SN_CLIENT_RETURN_TIMEOUT, c', w')
    \<and> c_status c' = MQTT_SN_CLIENT_CONNECTION_STATUS_DISCONNECTED
    \<and> c_await_msg c' = (c_await_msg c)[i := freed_await_msg]
    \<and> seconds w' = seconds w + unat (c_retry_count c) * wait_passes (c_retry_timeout_ms c)"
  using silent_connect_times_out [OF assms(1-8) _ assms(9-11)] by blast

theorem silent_gateway_times_out_witness:
  "\<exists>c' w'. MqttSnClientDirectConnect counting_env (MqttSnClientLoop counting_env 1) 7 gateway_address 1 sample_id 60
        None 0 0 None 0 (sample_client [] MQTT_SN_CLIENT_CONNECTION_STATUS_INITALIZED 0, 0)
      = Inr (MQTT_SN_CLIENT_RETURN_TIMEOUT, c', w')
    \<and> c_status c' = MQTT_SN_CLIENT_CONNECTION_STATUS_DISCONNECTED \<and> w' = 21"
proof -
  let ?c = "sample_client [] MQTT_SN_CLIENT_CONNECTION_STATUS_INITALIZED 0"
  have "client_inv True MQTT_SN_CLIENT_MAX_REGISTRATIONS True ?c"
    by (rule sample_client_inv) simp_all
  from silent_gateway_times_out [OF replying_gateway(2) this, where i = 0 and client_id = sample_id and k = 7 and n = 1
      and w = 0 and address = gateway_address and clean = 1 and duration = 60 and qos = 0 and retain = 0 and len = 0,
      OF _ _ _ _ _ sample_id_fits]
  obtain c' w' where "MqttSnClientDirectConnect counting_env (MqttSnClientLoop counting_env 1) 7 gateway_address 1 sample_id 60
        None 0 0 None 0 (?c, 0) = Inr (MQTT_SN_CLIENT_RETURN_TIMEOUT, c', w')"
    "c_status c' = MQTT_SN_CLIENT_CONNECTION_STATUS_DISCONNECTED" "Suc w' = Suc 0 + 3 * 7"
    by (auto simp: sample_client_table wait_passes_def simp del: MqttSnClientLoop.simps)
  then show ?thesis
    by simp
qed

text \<open>
  C15. The eleventh subscription: when a connected client subscribes by topic id and the gateway accepts
  it in the SUBACK, the call succeeds and enters the topic behind the last registration as long as there
  are fewer than ten; with ten of them \<open>MqttSnClientSubscribePredefined\<close> does not look at the room left
  and accesses the array of registrations behind its end.
\<close>

theorem accepted_subscription_entered:
  assumes "message_gateway (c_mqtt_sn_gateway_address c) (suback_wire m) env (c_gatewayNetwork c) seconds horizon"
    and "sa_granted_qos m \<in> {0, 1, 2}" "sa_return_code m = RETURN_CODE_ACCEPTED" "sa_msg_id m = c_msg_counter c"
    and "client_inv reg most named c" "settled c" "accepts_senders c" "ping_not_due (of_nat (seconds w)) c"
    and "free_slot (c_await_msg c) = Some i" "awaiting (c_await_msg c) SUBACK (c_msg_counter c) = None"
    and "0 < c_retry_timeout_ms c" "c_retry_timeout_ms c < 2 ^ 31" "0 < c_retry_count c" "qos \<in> {0, 1, 2}"
    and "2 \<le> k" "0 < n" "seconds w < horizon"
  shows "\<exists>c' w'. MqttSnClientSubscribePredefined env (MqttSnClientLoop env n) k qos topic_id (c, w) =
      (if c_registrations_len c < MQTT_SN_CLIENT_MAX_REGISTRATIONS
       then Inr (MQTT_SN_CLIENT_RETURN_SUCCESS, c', w') else Inl Memory_Fault)
    \<and> c_registrations c' = (c_registrations c)[c_registrations_len c :=
        (c_registrations c ! c_registrations_len c)\<lparr>cr_topic_id := sa_topic_id m\<rparr>]
    \<and> c_registrations_len c' = c_registrations_len c + 1
    \<and> c_await_msg c' = (c_await_msg c)[i := freed_await_msg]"
  by (rule accepted_subscription [OF assms])

theorem accepted_subscription_entered_witness:
  "\<exists>c' w' m. MqttSnClientSubscribePredefined counting_env (MqttSnClientLoop counting_env 1) 2 1 42
      (sample_client (suback_wire m) MQTT_SN_CLIENT_CONNECTION_STATUS_CONNECTED 3, 0)
      = Inr (MQTT_SN_CLIENT_RETURN_SUCCESS, c', w') \<and> c_registrations_len c' = 4
    \<and> MqttSnClientSubscribePredefined counting_env (MqttSnClientLoop counting_env 1) 2 1 42
      (sample_client (suback_wire m) MQTT_SN_CLIENT_CONNECTION_STATUS_CONNECTED 10, 0) = Inl Memory_Fault"
proof -
  define m where "m = \<lparr>sa_granted_qos = 1, sa_topic_id = 42, sa_msg_id = 7, sa_return_code = RETURN_CODE_ACCEPTED\<rparr>"
  let ?c = "sample_client (suback_wire m) MQTT_SN_CLIENT_CONNECTION_STATUS_CONNECTED"
  have b: "length (suback_wire m) \<le> 262"
    by (simp add: suback_wire_def)
  have "\<exists>c' w'. MqttSnClientSubscribePredefined counting_env (MqttSnClientLoop counting_env 1) 2 1 42 (?c k, 0) =
      (if k < MQTT_SN_CLIENT_MAX_REGISTRATIONS
       then Inr (MQTT_SN_CLIENT_RETURN_SUCCESS, c', w') else Inl Memory_Fault) \<and> c_registrations_len c' = k + 1"
    if "k \<le> MQTT_SN_CLIENT_MAX_REGISTRATIONS" for k
  proof -
    have g: "message_gateway (c_mqtt_sn_gateway_address (?c k)) (suback_wire m) counting_env (c_gatewayNetwork (?c k)) Suc 1000000"
      using replying_gateway(1) by simp
    have "settled (?c k)" "free_slot (c_await_msg (?c k)) = Some 0"
      "awaiting (c_await_msg (?c k)) SUBACK (c_msg_counter (?c k)) = None"
      by (simp_all add: settled_def sample_client_table)
    from accepted_subscription_entered [OF g _ _ _ sample_client_inv [OF b that] this(1) _ _ this(2,3), of 0 1 2 1 42]
    show ?thesis
      using sample_ping_not_due by (auto simp: m_def simp del: MqttSnClientLoop.simps)
  qed
  from this [of 3] this [of 10] show ?thesis
    by (auto simp: MQTT_SN_CLIENT_MAX_REGISTRATIONS_def simp del: MqttSnClientLoop.simps)
qed

text \<open>
  C16. The answer to a CONNECT: if the gateway answers with a CONNACK, \<open>MqttSnClientDirectConnect\<close> returns
  \<open>SUCCESS\<close> and frees its slot. The client is connected if the return code is \<open>ACCEPTED\<close>; otherwise it
  stays disconnected, although the call reports success.
\<close>

theorem answered_connect:
  assumes "message_gateway address (connack_wire code) env (c_gatewayNetwork c) seconds horizon" "wire_return_code code"
    and "client_inv reg most named c" "am_msg_type (c_searchgw_reply_await_msg c) \<noteq> GWINFO"
    and "client_status_code MQTT_SN_CLIENT_CONNECTION_STATUS_INITALIZED \<le> client_status_code (c_status c)"
    and "free_slot (c_await_msg c) = Some i" "awaiting (c_await_msg c) CONNACK 0 = None"
    and "0 < c_retry_timeout_ms c" "c_retry_timeout_ms c < 2 ^ 31" "0 < c_retry_count c" "accepts_senders c"
    and "fit_client_id client_id" "2 \<le> k" "0 < n" "Suc (seconds w) < horizon"
  shows "\<exists>c' w'. MqttSnClientDirectConnect env (MqttSnClientLoop env n) k address clean client_id duration
        None qos retain None len (c, w) = Inr (MQTT_SN_CLIENT_RETURN_SUCCESS, c', w')
    \<and> c_status c' = (if code = RETURN_CODE_ACCEPTED then MQTT_SN_CLIENT_CONNECTION_STATUS_CONNECTED
        else MQTT_SN_CLIENT_CONNECTION_STATUS_DISCONNECTED)
    \<and> c_await_msg c' = (c_await_msg c)[i := freed_await_msg]"
  using answered_connect_succeeds [OF assms(1-12) _ assms(13-15)] by blast

theorem answered_connect_witness:
  "\<exists>c' w'. MqttSnClientDirectConnect counting_env (MqttSnClientLoop counting_env 1) 2 gateway_address 1 sample_id 60
        None 0 0 None 0 (sample_client (connack_wire RETURN_CODE_REJECTED_CONGESTION)
          MQTT_SN_CLIENT_CONNECTION_STATUS_INITALIZED 0, 0)
      = Inr (MQTT_SN_CLIENT_RETURN_SUCCESS, c', w')
    \<and> c_status c' = MQTT_SN_CLIENT_CONNECTION_STATUS_DISCONNECTED"
proof -
  let ?code = RETURN_CODE_REJECTED_CONGESTION
  let ?c = "sample_client (connack_wire ?code) MQTT_SN_CLIENT_CONNECTION_STATUS_INITALIZED 0"
  have i: "client_inv True MQTT_SN_CLIENT_MAX_REGISTRATIONS True ?c"
    by (rule sample_client_inv) (simp_all add: connack_wire_def)
  have r: "wire_return_code ?code"
    by (simp add: wire_return_code_def MQTT_SN_RETURN_CODE_VALID_def)
  from answered_connect [OF replying_gateway(1) r i, where i = 0 and client_id = sample_id and k = 2 and n = 1
      and w = 0 and clean = 1 and duration = 60 and qos = 0 and retain = 0 and len = 0, OF _ _ _ _ _ _ _ _ sample_id_fits]
  show ?thesis
    by (simp add: sample_client_table del: MqttSnClientLoop.simps) blast
qed

text \<open>
  C17. Acknowledgements: the seven handlers of acknowledgements implement one operation on the table of
  awaited messages. A message that parses completes the first slot that awaits its type and message id,
  stores what the answer carries in the slot's context and leaves the client otherwise as it is; if no
  slot awaits it, nothing changes and the result says so; a message that does not parse is reported.
\<close>

theorem acknowledgement_delivered:
  assumes "msg_type \<in> set acknowledgement_types"
    and "length (c_await_msg c) = MQTT_SN_CLIENT_MAX_MESSAGES_IN_FLIGHT"
  shows "dispatch_session env loop k msg_type msg (c, w) =
    handled (acknowledgement msg_type (md_data msg) (md_data_length msg)) (\<lambda>(msg_id, upd).
      let (rc, msgs) = answer_table msg_type msg_id upd (c_await_msg c) in (rc, c\<lparr>c_await_msg := msgs\<rparr>)) (c, w)"
  by (rule dispatch_acknowledgement [OF assms])

theorem acknowledgement_delivered_witness:
  "\<exists>c' msg. dispatch_session counting_env (MqttSnClientLoop counting_env 1) 1 SUBACK msg
      ((sample_client [] MQTT_SN_CLIENT_CONNECTION_STATUS_CONNECTED 0)\<lparr>c_await_msg :=
        replicate 5 (freed_await_msg\<lparr>am_msg_type := SUBACK, am_msg_id := 7,
          am_status := MQTT_SN_CLIENT_AWAIT_MESSAGE_STATUS_AWAIT\<rparr>)\<rparr>, 0)
      = Inr (MQTT_SN_CLIENT_LOOP_RETURN_SUCCESS, c', 0)
    \<and> map am_status (c_await_msg c') = MQTT_SN_CLIENT_AWAIT_MESSAGE_STATUS_SUCCESS
        # replicate 4 MQTT_SN_CLIENT_AWAIT_MESSAGE_STATUS_AWAIT
    \<and> ac_topic_id (am_await_context (c_await_msg c' ! 0)) = 42"
proof -
  define m where "m = \<lparr>sa_granted_qos = 1, sa_topic_id = 42, sa_msg_id = 7, sa_return_code = RETURN_CODE_ACCEPTED\<rparr>"
  define msg where "msg = zero_message\<lparr>md_data := suback_wire m, md_data_length := 8\<rparr>"
  let ?slot = "freed_await_msg\<lparr>am_msg_type := SUBACK, am_msg_id := 7, am_status := MQTT_SN_CLIENT_AWAIT_MESSAGE_STATUS_AWAIT\<rparr>"
  let ?c = "(sample_client [] MQTT_SN_CLIENT_CONNECTION_STATUS_CONNECTED 0)\<lparr>c_await_msg := replicate 5 ?slot\<rparr>"
  have p: "parse_suback (suback_wire m) 8 = Inr (m, 8)"
    using parse_suback_wire [of m "[]"] by (simp add: m_def wire_return_code_def MQTT_SN_RETURN_CODE_VALID_def)
  have a: "awaiting (replicate 5 ?slot) SUBACK 7 = Some 0"
    by (simp add: awaiting_def awaits_def upt_conv_Cons)
  have t: "SUBACK \<in> set acknowledgement_types" "length (c_await_msg ?c) = MQTT_SN_CLIENT_MAX_MESSAGES_IN_FLIGHT"
    by (simp_all add: acknowledgement_types_def MQTT_SN_CLIENT_MAX_MESSAGES_IN_FLIGHT_def)
  have ack: "acknowledgement SUBACK (suback_wire m) 8 = Inr (7, suback_answer m)"
    by (simp add: p suback_answer_def) (simp add: m_def)
  have "dispatch_session counting_env (MqttSnClientLoop counting_env 1) 1 SUBACK msg (?c, 0)
      = Inr (MQTT_SN_CLIENT_LOOP_RETURN_SUCCESS,
        ?c\<lparr>c_await_msg := (replicate 5 ?slot)[0 := answer_slot (suback_answer m) ?slot]\<rparr>, 0)"
    by (subst acknowledgement_delivered [OF t]) (simp add: ack a msg_def handled_def answer_table_def
        del: MqttSnClientLoop.simps acknowledgement.simps)
  moreover have "map am_status ((replicate 5 ?slot)[0 := answer_slot (suback_answer m) ?slot])
      = MQTT_SN_CLIENT_AWAIT_MESSAGE_STATUS_SUCCESS # replicate 4 MQTT_SN_CLIENT_AWAIT_MESSAGE_STATUS_AWAIT"
    by (simp add: answer_slot_def eval_nat_numeral)
  moreover have "ac_topic_id (am_await_context ((replicate 5 ?slot)[0 := answer_slot (suback_answer m) ?slot] ! 0)) = 42"
    by (simp add: answer_slot_def suback_answer_def m_def)
  ultimately show ?thesis
    by (intro exI [of _ "?c\<lparr>c_await_msg := (replicate 5 ?slot)[0 := answer_slot (suback_answer m) ?slot]\<rparr>"]
        exI [of _ msg] conjI) simp_all
qed

text \<open>
  C18. A will cannot be used: \<open>MqttSnClientDirectConnect\<close> of an initialised client with a topic below 255
  characters and a will message copies the message through a pointer of its buffer that nothing ever sets,
  a fault if there is anything to copy. With an empty message, or one that is too long, it returns \<open>ERROR\<close>
  and has sent nothing: the step that stores the will ends with an error code also when it has stored it.
\<close>

theorem connect_with_will_rejected:
  assumes "client_inv reg most named c" "fit_client_id client_id"
    and "client_status_code MQTT_SN_CLIENT_CONNECTION_STATUS_INITALIZED \<le> client_status_code (c_status c)"
    and "0 \<in> set (take MQTT_SN_CLIENT_MAX_WILL_TOPIC_LENGTH topic)"
  shows "\<exists>c'. MqttSnClientDirectConnect env loop k address clean client_id duration (Some topic) qos retain (Some msg) len (c, w)
      = (if c_string topic \<noteq> [] \<and> 0 < len \<and> len < MQTT_SN_CLIENT_MAX_WILL_MSG_LENGTH
         then Inl Memory_Fault else Inr (MQTT_SN_CLIENT_RETURN_ERROR, c', w))"
  by (rule run_connect_with_will [OF assms])

theorem connect_with_will_rejected_witness:
  "(\<exists>c'. MqttSnClientDirectConnect counting_env (MqttSnClientLoop counting_env 9) 9 gateway_address 1 sample_id 60
      (Some [84, 0]) 1 0 (Some []) 0 (sample_client [] MQTT_SN_CLIENT_CONNECTION_STATUS_INITALIZED 0, 0)
    = Inr (MQTT_SN_CLIENT_RETURN_ERROR, c', 0))
   \<and> MqttSnClientDirectConnect counting_env (MqttSnClientLoop counting_env 9) 9 gateway_address 1 sample_id 60
      (Some [84, 0]) 1 0 (Some [1]) 1 (sample_client [] MQTT_SN_CLIENT_CONNECTION_STATUS_INITALIZED 0, 0)
    = Inl Memory_Fault"
proof -
  let ?c = "sample_client [] MQTT_SN_CLIENT_CONNECTION_STATUS_INITALIZED 0"
  have c: "client_inv True MQTT_SN_CLIENT_MAX_REGISTRATIONS True ?c"
    by (rule sample_client_inv) simp_all
  have topic: "0 \<in> set (take MQTT_SN_CLIENT_MAX_WILL_TOPIC_LENGTH [84, 0 :: u8])" "c_string [84, 0 :: u8] = [84]"
    by (simp_all add: c_string_def MQTT_SN_CLIENT_MAX_WILL_TOPIC_LENGTH_def)
  have "\<exists>c'. MqttSnClientDirectConnect counting_env (MqttSnClientLoop counting_env 9) 9 gateway_address 1 sample_id 60
      (Some [84, 0]) 1 0 (Some msg) len (?c, 0)
    = (if 0 < len \<and> len < 255 then Inl Memory_Fault else Inr (MQTT_SN_CLIENT_RETURN_ERROR, c', 0))" for msg len
    using connect_with_will_rejected [OF c sample_id_fits _ topic(1), of counting_env "MqttSnClientLoop counting_env 9" 9
        gateway_address 1 60 1 0 msg len 0]
    by (simp add: topic(2) MQTT_SN_CLIENT_MAX_WILL_MSG_LENGTH_def del: MqttSnClientLoop.simps)
  from this [of "[]" 0] this [of "[1]" 1] show ?thesis
    by (simp del: MqttSnClientLoop.simps)
qed

text \<open>
  Fuel: the fuel that bounds the passes of the waits and their nesting is an artefact of the model
  only. An operation of the client that does not run out of it has the same result, state and world with
  any larger amount.
\<close>

theorem client_fuel_irrelevant:
  assumes "run_op env n op s \<noteq> Inl Out_Of_Fuel" "n \<le> n'"
  shows "run_op env n' op s = run_op env n op s"
  using less_fuel_result [OF fuel_run_op [OF assms(2)] assms(1)] by simp

theorem client_fuel_irrelevant_witness:
  "run_op counting_env 1000 Do_Loop (sample_client [] MQTT_SN_CLIENT_CONNECTION_STATUS_DISCONNECTED 0, 0)
    = Inr ((), sample_client [] MQTT_SN_CLIENT_CONNECTION_STATUS_DISCONNECTED 0, 1)"
proof -
  let ?c = "sample_client [] MQTT_SN_CLIENT_CONNECTION_STATUS_DISCONNECTED 0"
  have "\<exists>w'. MqttSnClientLoop counting_env (Suc 0) (?c, 0) = Inr (MQTT_SN_CLIENT_LOOP_RETURN_SUCCESS, ?c, w') \<and> Suc w' = Suc (Suc 0)"
    by (rule quiet_pass [OF replying_gateway(2)]) (simp add: idle_def)
  then have "run_op counting_env 1 Do_Loop (?c, 0) = Inr ((), ?c, 1)"
    by (auto simp: discard_def cl_bind_def cl_return_def)
  then show ?thesis
    using client_fuel_irrelevant [of counting_env 1 Do_Loop "(?c, 0)" 1000] by simp
qed

text \<open>
  C19. The messages that the safety of the client and of the gateway except do fault. A client in its invariant with a place for a
  registration that handles a REGISTER with a name of 255 characters, and a gateway with a place for an
  answer that handles a CONNECT with an identifier of 24 characters, make an access outside an object:
  the reader of the text lets it fill its array and writes the terminator behind it.
\<close>

theorem longest_texts_fault:
  assumes "register_wf r" "reg_topic_name_len r = 255" "0 \<notin> set (take 255 (reg_topic_name r))"
    and "md_data msg = register_wire r @ rest" "md_data_length msg = 263"
    and "client_inv reg most named c" "c_registrations_len c < MQTT_SN_CLIENT_MAX_REGISTRATIONS"
    and "connect_wf p" "con_client_id_length p = 24" "0 \<notin> set (take 24 (con_client_id p))"
    and "md_data m = connect_wire p @ rest'" "md_data_length m = 30" "\<not> isFull (g_clientNetworkSendBuffer g)"
  shows "parse_and_handle_register msg (c, w) = Inl Memory_Fault
    \<and> client_connection_handler_parse_and_handle_connect env m 0 f (g, v) = Inl Memory_Fault"
  using longest_register_faults [OF assms(1-5), of c w] long_connect_faults [OF assms(8-13), of env f v] assms(6,7)
  by (simp add: client_inv_def registrations_inv_def)

theorem longest_texts_fault_witness:
  "\<exists>msg m. parse_and_handle_register msg (sample_client [] MQTT_SN_CLIENT_CONNECTION_STATUS_CONNECTED 0, 0) = Inl Memory_Fault
    \<and> client_connection_handler_parse_and_handle_connect sample_gateway_env m 0 (sample_sender client_address)
        (sample_mqtt_sn_gateway DB_ENTRY_MQTT_SN_CLIENT_RESULT_SUCCESS 0, registry_world []) = Inl Memory_Fault"
proof -
  let ?r = "\<lparr>reg_topic_id = 1, reg_msg_id = 2, reg_topic_name = replicate 256 65, reg_topic_name_len = 255\<rparr>"
  let ?p = "\<lparr>con_will = 0, con_clean_session = 0, con_protocol_id = 1, con_duration = 60, con_client_id = replicate 25 65,
    con_client_id_length = 24\<rparr>"
  let ?msg = "zero_message\<lparr>md_data := register_wire ?r @ replicate 761 0, md_data_length := 263\<rparr>"
    and ?m = "zero_message\<lparr>md_data := connect_wire ?p @ replicate 994 0, md_data_length := 30\<rparr>"
  have "register_wf ?r" "connect_wf ?p"
    by (simp_all add: register_wf_def connect_wf_def)
  moreover have "(0 :: u8) \<notin> set (take 255 (replicate 256 65))" "(0 :: u8) \<notin> set (take 24 (replicate 25 65))"
    by (auto dest!: in_set_takeD)
  moreover have "client_inv True MQTT_SN_CLIENT_MAX_REGISTRATIONS True (sample_client [] MQTT_SN_CLIENT_CONNECTION_STATUS_CONNECTED 0)"
    by (rule sample_client_inv) simp_all
  ultimately show ?thesis
    using longest_texts_fault [of ?r ?msg "replicate 761 0" True MQTT_SN_CLIENT_MAX_REGISTRATIONS True
        "sample_client [] MQTT_SN_CLIENT_CONNECTION_STATUS_CONNECTED 0" ?p ?m "replicate 994 0"
        "sample_mqtt_sn_gateway DB_ENTRY_MQTT_SN_CLIENT_RESULT_SUCCESS 0" 0 sample_gateway_env "sample_sender client_address"
        "registry_world []"]
    by (intro exI [of _ ?msg] exI [of _ ?m]) (simp add: MQTT_SN_CLIENT_MAX_REGISTRATIONS_def)
qed

section \<open>The forwarder\<close>

section \<open>The gateway\<close>

text \<open>
  C20. A client connects: a CONNECT without a will, from a client the gateway hears directly and does not
  know, stores an entry with its id, address, duration and time at the first free place of the file of
  clients, changes no other entry, and queues one message for the client, a CONNACK that accepts it.
\<close>

theorem gateway_connect_registers_client:
  assumes "gateway_env_ok env view room" "clock_works env" "gateway_ready view g w" "direct_sender f"
    and "parse_connect empty_connect (msg_rest m k) (msg_rest_length m k) = Inr (c, rc)"
    and "fit_name (con_client_id c)" "con_will c = 0"
    and "find_by_address (gf_wireless_node_id f) (fv_clients (view w)) = None" "free_place (fv_clients (view w)) < room"
  shows "\<exists>g' w'. client_connection_handler_parse_and_handle_connect env m k f (g, w) = Inr (0, g', w')
    \<and> fv_clients (view w') = store_entry (fv_clients (view w)) (free_place (fv_clients (view w)))
        (new_client (con_client_id c) (gf_wireless_node_id f) (gf_forwarder_addresses f) 0 (con_duration c)
          (md_create_time_s m) (free_place (fv_clients (view w))))
    \<and> answered g (gf_wireless_node_id f) (connack_wire RETURN_CODE_ACCEPTED) g'"
  using run_connect [OF assms(1-7) disjI1 [OF assms(8)] assms(9)] .

theorem gateway_connect_registers_client_witness:
  "\<exists>g' w' c. client_connection_handler_parse_and_handle_connect sample_gateway_env (sample_connect 0) 0 (sample_sender client_address)
      (sample_mqtt_sn_gateway DB_ENTRY_MQTT_SN_CLIENT_RESULT_SUCCESS 0, registry_world []) = Inr (0, g', w')
    \<and> fv_clients (files w') = [new_client c client_address (gf_forwarder_addresses MqttSnGatewayForwarderInit) 0 60 5000 0]
    \<and> answered (sample_mqtt_sn_gateway DB_ENTRY_MQTT_SN_CLIENT_RESULT_SUCCESS 0) client_address (connack_wire RETURN_CODE_ACCEPTED) g'"
proof -
  obtain c where c: "parse_connect empty_connect (msg_rest (sample_connect 0) 0) (msg_rest_length (sample_connect 0) 0) = Inr (c, 8)"
    "fit_name (con_client_id c)" "con_will c = 0" "con_duration c = 60"
    using sample_connect_read [of 0] by blast
  have "gateway_ready files (sample_mqtt_sn_gateway DB_ENTRY_MQTT_SN_CLIENT_RESULT_SUCCESS 0) (registry_world [])"
    by (rule sample_ready) (simp_all add: sample_registry)
  moreover have "direct_sender (sample_sender client_address)"
    by (rule sample_sender_ok) (simp add: client_address_def device_address_size_def)
  moreover have "md_create_time_s (sample_connect 0) = 5000"
    by (simp add: sample_connect_def message_from_def)
  ultimately show ?thesis
    using gateway_connect_registers_client [OF sample_env_ok _ _ c(1-3)] c(4)
    by (fastforce simp: files_registry find_by_address_def sample_room_def store_entry_def sample_sender_def)
qed

text \<open>
  C21. The result of the last transaction is not reset when a transaction begins: when it was that no client was
  found, the CONNECT of a client that has an entry appends a second entry with the same address.
\<close>

theorem stale_result_duplicates_client:
  assumes "gateway_env_ok env view room" "clock_works env" "gateway_ready view g w" "direct_sender f"
    and "parse_connect empty_connect (msg_rest m k) (msg_rest_length m k) = Inr (c, rc)"
    and "fit_name (con_client_id c)" "con_will c = 0"
    and "find_by_address (gf_wireless_node_id f) (fv_clients (view w)) = Some e"
    and "d_client_transaction_result (g_db_handler g) = DB_ENTRY_MQTT_SN_CLIENT_RESULT_CLIENT_NOT_FOUND"
    and "free_place (fv_clients (view w)) = length (fv_clients (view w))" "length (fv_clients (view w)) < room"
  shows "\<exists>g' w' e'. client_connection_handler_parse_and_handle_connect env m k f (g, w) = Inr (0, g', w')
    \<and> fv_clients (view w') = fv_clients (view w) @ [e'] \<and> dc_client_address e' = dc_client_address e"
proof -
  have "dc_client_address e = gf_wireless_node_id f"
    using assms(8) by (auto simp: find_by_address_def find_Some_iff)
  then show ?thesis
    using run_connect [OF assms(1-7) disjI2 [OF assms(9)]] assms(10,11) store_entry_append
    by (fastforce simp: new_client_def)
qed

theorem stale_result_duplicates_client_witness:
  "\<exists>g' w' e'. client_connection_handler_parse_and_handle_connect sample_gateway_env (sample_connect 0) 0 (sample_sender client_address)
      (sample_mqtt_sn_gateway DB_ENTRY_MQTT_SN_CLIENT_RESULT_CLIENT_NOT_FOUND 1, registry_world [sample_client_entry]) = Inr (0, g', w')
    \<and> fv_clients (files w') = [sample_client_entry, e'] \<and> dc_client_address e' = client_address"
proof -
  obtain c where c: "parse_connect empty_connect (msg_rest (sample_connect 0) 0) (msg_rest_length (sample_connect 0) 0) = Inr (c, 8)"
    "fit_name (con_client_id c)" "con_will c = 0"
    using sample_connect_read [of 0] by blast
  have "gateway_ready files (sample_mqtt_sn_gateway DB_ENTRY_MQTT_SN_CLIENT_RESULT_CLIENT_NOT_FOUND 1) (registry_world [sample_client_entry])"
    by (rule sample_ready) (simp_all add: sample_registry sample_room_def)
  moreover have "direct_sender (sample_sender client_address)"
    by (rule sample_sender_ok) (simp add: client_address_def device_address_size_def)
  moreover have "fv_clients (files (registry_world [sample_client_entry])) = [sample_client_entry]"
    by (simp add: files_registry sample_room_def)
  ultimately show ?thesis
    using stale_result_duplicates_client [OF sample_env_ok _ _ c, where e = sample_client_entry and f = "sample_sender client_address"
        and g = "sample_mqtt_sn_gateway DB_ENTRY_MQTT_SN_CLIENT_RESULT_CLIENT_NOT_FOUND 1" and w = "registry_world [sample_client_entry]"]
      sample_entry(3) sample_named
    by (simp add: find_by_address_def sample_room_def) (simp add: sample_sender_def)
qed

text \<open>
  C22. A stranger's PINGREQ erases the first client: sent from an address the registry does not have, it is answered
  with a PINGRESP, and the entry at the first place of the file becomes an empty one with the time of the ping.
\<close>

theorem stranger_ping_erases_first_client:
  assumes "gateway_env_ok env view room" "clock_works env" "gateway_ready view g w" "direct_sender f"
    and "parse_ping_req_byte (msg_rest m k) (msg_rest_length m k) = Inr p"
    and "find_by_address (md_from m) (fv_clients (view w)) = None" "fv_clients (view w) \<noteq> []"
  shows "\<exists>g' w'. client_connection_handler_parse_and_handle_ping_req env m k f (g, w) = Inr (0, g', w')
    \<and> fv_clients (view w') = (fv_clients (view w))[0 := empty_entry\<lparr>dc_last_ping_req_received := md_create_time_s m\<rparr>]
    \<and> answered g (gf_wireless_node_id f) (bare_wire PINGRESP ()) g'"
  using run_stranger_ping [OF assms] .

theorem stranger_ping_erases_first_client_witness:
  "\<exists>g' w'. client_connection_handler_parse_and_handle_ping_req sample_gateway_env (message_from gateway_address [2, 0x16]) 0
      (sample_sender gateway_address) (sample_mqtt_sn_gateway DB_ENTRY_MQTT_SN_CLIENT_RESULT_SUCCESS 1, registry_world [sample_client_entry])
      = Inr (0, g', w')
    \<and> fv_clients (files w') = [empty_entry\<lparr>dc_last_ping_req_received := 5000\<rparr>]"
proof -
  let ?m = "message_from gateway_address [2, 0x16]"
  obtain p where p: "parse_ping_req_byte (msg_rest ?m 0) (msg_rest_length ?m 0) = Inr p"
    using sample_ping by blast
  have "gateway_ready files (sample_mqtt_sn_gateway DB_ENTRY_MQTT_SN_CLIENT_RESULT_SUCCESS 1) (registry_world [sample_client_entry])"
    by (rule sample_ready) (simp_all add: sample_registry sample_room_def)
  moreover have "direct_sender (sample_sender gateway_address)"
    by (rule sample_sender_ok) (simp add: gateway_address_def device_address_size_def)
  moreover have "md_from ?m = gateway_address" "md_create_time_s ?m = 5000" "client_address \<noteq> gateway_address"
    by (simp_all add: message_from_def client_address_def gateway_address_def)
  ultimately show ?thesis
    using stranger_ping_erases_first_client [OF sample_env_ok _ _ p] sample_entry(3)
    by (fastforce simp: files_registry find_by_address_def sample_room_def)
qed

text \<open>
  C23. A clean session of a known client stops the gateway, when the transaction before has ended with SUCCESS: the
  client's old entry is deleted first, and the deletion asserts of the name of each file it removes that
  it does not fit into the array made for it. The result of the transaction before is a condition
  because it is not reset: after CLIENT_NOT_FOUND the client counts as unknown, and is entered a second time
  instead (\<open>run_connect\<close>).
\<close>

theorem clean_reconnect_aborts:
  assumes "gateway_env_ok env view room" "gateway_ready view g w"
    and "parse_connect empty_connect (msg_rest m k) (msg_rest_length m k) = Inr (c, rc)" "con_clean_session c \<noteq> 0"
    and "find_by_address (gf_wireless_node_id f) (fv_clients (view w)) \<noteq> None"
    and "d_client_transaction_result (g_db_handler g) = DB_ENTRY_MQTT_SN_CLIENT_RESULT_SUCCESS"
  shows "client_connection_handler_parse_and_handle_connect env m k f (g, w) = Inl Assertion"
  using clean_connect_aborts [OF assms] .

theorem clean_reconnect_aborts_witness:
  "client_connection_handler_parse_and_handle_connect sample_gateway_env (sample_connect 1) 0 (sample_sender client_address)
      (sample_mqtt_sn_gateway DB_ENTRY_MQTT_SN_CLIENT_RESULT_SUCCESS 1, registry_world [sample_client_entry]) = Inl Assertion"
proof -
  obtain c where c: "parse_connect empty_connect (msg_rest (sample_connect 1) 0) (msg_rest_length (sample_connect 1) 0) = Inr (c, 8)"
    "con_clean_session c \<noteq> 0"
    using sample_connect_read [of 1] by auto
  have "gateway_ready files (sample_mqtt_sn_gateway DB_ENTRY_MQTT_SN_CLIENT_RESULT_SUCCESS 1) (registry_world [sample_client_entry])"
    by (rule sample_ready) (simp_all add: sample_registry sample_room_def)
  then show ?thesis
    using clean_reconnect_aborts [OF sample_env_ok(1) _ c] sample_entry(3)
    by (simp add: files_registry find_by_address_def sample_room_def sample_sender_def empty_db_handler_def)
qed

text \<open>
  C24. The unsigned difference of times wraps around: the check of a client subtracts the stamp of its last ping from
  the time it is given. When the stamp is the later one, as when the stamp counts milliseconds and the time
  seconds, the silence is at least 2 ^ 63, whatever the duration and the offset, as long as their sum is not
  negative (with the default offset of -20, for durations from 20 seconds). A client heard without
  forwarders that has no PINGREQ to answer is sent one if the queue has room, and one that has is taken
  for lost.
\<close>

theorem timeouts_mix_units:
  assumes "in_transaction view g w" "clock_works env"
    and "0 \<le> uint (dc_connect_duration (current_client g)) + gh_client_connection_timeout_offset (g_client_con_handler g)"
      "gh_client_connection_timeout_offset (g_client_con_handler g) < 2 ^ 31"
    and "stamp = get_active_last_timeout_reset (dc_last_ping_resp_received (current_client g))
        (dc_last_ping_req_received (current_client g))"
    and "now < stamp" "uint stamp < 2 ^ 63"
  shows "2 ^ 63 \<le> now - stamp
    \<and> (dc_ping_req_await_message_type (current_client g) = ANY_MESSAGE_TYPE \<longrightarrow>
      dc_forwarder_address_len (current_client g) = 0 \<longrightarrow> \<not> isFull (g_clientNetworkSendBuffer g) \<longrightarrow>
      (\<exists>g' w'. check_active_client_connection_timeout env now (g, w) = Inr (0, g', w')
        \<and> current_client g' = (current_client g)\<lparr>dc_ping_req_await_message_type := PINGRESP\<rparr>
        \<and> answered g (dc_client_address (current_client g)) (bare_wire PINGREQ ()) g'))
    \<and> (dc_ping_req_await_message_type (current_client g) \<noteq> ANY_MESSAGE_TYPE \<longrightarrow>
      check_active_client_connection_timeout env now (g, w)
        = Inr (0, with_client g ((current_client g)\<lparr>dc_client_status := DB_ENTRY_MQTT_SN_CLIENT_STATUS_LOST\<rparr>), w))"
proof -
  have "2 ^ 63 \<le> silent_for now (current_client g)"
    using silent_for_wraps [of now "current_client g"] assms(5-7) by simp
  note check = this run_check_overdue [OF assms(1) this assms(3,4)] assms(2,5)
  then show ?thesis
    by (simp add: silent_for_def)
qed

theorem timeouts_mix_units_witness:
  "\<exists>g' w'. check_active_client_connection_timeout sample_gateway_env 5 (waiting_gateway, waiting_world) = Inr (0, g', w')
    \<and> current_client g' = sample_client_entry\<lparr>dc_ping_req_await_message_type := PINGRESP\<rparr>"
proof -
  have reset: "7000 = get_active_last_timeout_reset (dc_last_ping_resp_received (current_client waiting_gateway))
      (dc_last_ping_req_received (current_client waiting_gateway))"
    by (simp add: waiting_gateway_parts sample_entry_fields get_active_last_timeout_reset_def)
  note check = timeouts_mix_units [OF waiting sample_env_ok(2) _ _ reset, of 5]
  show ?thesis
    using check by (auto simp: waiting_gateway_parts sample_entry_fields init_not_full)
qed

text \<open>
  C25. The gateway ignores the frames of the forwarder of this repository: a message that holds an encapsulation frame as
  \<open>generate_forwarder_encapsulation_byte\<close> writes it changes neither the gateway nor the world, and is handled with success.
\<close>

theorem gateway_drops_frames:
  assumes "frame_wf x" "0 < em_mqtt_sn_message_len x" "9 + em_mqtt_sn_message_len x < 65536"
    and "md_data m = patched message_buffer (frame_wire x)" "md_data_length m = 9 + em_mqtt_sn_message_len x"
  shows "parse_and_handle_message 2 env m 0 f s = Inr (0, s)"
  using gateway_ignores_frame [OF assms(4,5,2) _ assms(1), of 1] assms(3,5) by (simp add: numeral_2_eq_2 del: parse_and_handle_message.simps)

theorem gateway_drops_frames_witness:
  "parse_and_handle_message 2 sample_gateway_env (message_from gateway_address (frame_wire
      \<lparr>em_radius = 1, em_wireless_node_id = client_address, em_mqtt_sn_message = [2, 0x16], em_mqtt_sn_message_len = 2\<rparr>))
      0 MqttSnGatewayForwarderInit (sample_mqtt_sn_gateway DB_ENTRY_MQTT_SN_CLIENT_RESULT_SUCCESS 0, registry_world [])
    = Inr (0, sample_mqtt_sn_gateway DB_ENTRY_MQTT_SN_CLIENT_RESULT_SUCCESS 0, registry_world [])"
proof (rule gateway_drops_frames)
  let ?x = "\<lparr>em_radius = 1, em_wireless_node_id = client_address, em_mqtt_sn_message = [2, 0x16 :: u8], em_mqtt_sn_message_len = 2\<rparr>"
  show x: "frame_wf ?x"
    by (simp add: frame_wf_def client_address_def device_address_size_def)
  show "md_data_length (message_from gateway_address (frame_wire ?x)) = 9 + em_mqtt_sn_message_len ?x"
    using length_frame_wire [OF x] by (simp add: message_from_def)
qed (simp_all add: message_from_def)

text \<open>
  C26. Other gateways are never recorded: while the file of discovered gateways is empty, the handler of an ADVERTISE returns -1
  and leaves the file empty and the list in memory as it was, because it reads the entry of the gateway before it writes it.
  The file stays empty from the start: what fills it writes through an object opened for reading (\<open>run_gateway_init\<close>).
\<close>

theorem gateways_never_recorded:
  assumes "gateway_env_ok env view room" "fv_gateways (view w) = []"
    and "d_gateway_discovered_result (g_db_handler g) \<noteq> DB_ENTRY_MQTT_SN_GATEWAY_DISCOVERED_RESULT_IN_PROGRESS"
    and "parse_advertise (msg_rest m k) (msg_rest_length m k) = Inr (adv, rc)"
  shows "\<exists>g' w'. discovery_handler_parse_and_handle_advertise env m k f (g, w) = Inr (-1, g', w')
    \<and> fv_gateways (view w') = [] \<and> d_discovered_gw_list (g_db_handler g') = d_discovered_gw_list (g_db_handler g)"
proof -
  have env: "fatfs_contract (ge_fs env) view room"
    using assms(1) by (simp add: gateway_env_ok_def)
  obtain h' w' where "mqtt_sn_discovered_gateway_update env (adv_gwId adv) (adv_duration adv) (gf_wireless_node_id f)
      (md_signal_strength m) (md_create_time_s m) (gf_forwarder_addresses f) (gf_forwarder_len f) (g_db_handler g, w)
      = Inr (DB_ENTRY_MQTT_SN_GATEWAY_DISCOVERED_RESULT_ERROR, h', w')"
    "fv_gateways (view w') = []" "d_discovered_gw_list h' = d_discovered_gw_list (g_db_handler g)"
    unfolding mqtt_sn_discovered_gateway_update_def using run_gateway_update [OF env assms(2,3)] by blast
  then show ?thesis
    using assms(4) by (auto simp: discovery_handler_parse_and_handle_advertise_def run_db run_rules)
qed

theorem gateways_never_recorded_witness:
  "\<exists>g' w'. discovery_handler_parse_and_handle_advertise sample_gateway_env (message_from gateway_address [5, 0, 1, 0, 60]) 0
      (sample_sender gateway_address) (sample_mqtt_sn_gateway DB_ENTRY_MQTT_SN_CLIENT_RESULT_SUCCESS 0, registry_world []) = Inr (-1, g', w')
    \<and> fv_gateways (files w') = []"
proof -
  obtain adv rc where a: "parse_advertise (msg_rest (message_from gateway_address [5, 0, 1, 0, 60]) 0)
      (msg_rest_length (message_from gateway_address [5, 0, 1, 0, 60]) 0) = Inr (adv, rc)"
    using sample_advertise by blast
  have "fv_gateways (files (registry_world [])) = []"
    by (simp add: files_registry)
  moreover have "d_gateway_discovered_result (g_db_handler (sample_mqtt_sn_gateway DB_ENTRY_MQTT_SN_CLIENT_RESULT_SUCCESS 0))
      \<noteq> DB_ENTRY_MQTT_SN_GATEWAY_DISCOVERED_RESULT_IN_PROGRESS"
    by (simp add: empty_db_handler_def)
  ultimately show ?thesis
    using gateways_never_recorded [OF sample_env_ok(1) _ _ a, where f = "sample_sender gateway_address"] by blast
qed

section \<open>Access lists and discovered gateways\<close>

text \<open>
  C27. The lists of gateway ids work the wrong way round: the advertisement or the information of a
  gateway is ignored exactly when its id is on the white list; the ids of the black list refuse none.
\<close>

theorem gateway_ids_refused:
  assumes "lists_inv f"
  shows "gw_id_refused f i = Inr (i \<in> set (take (f_gn_gw_id_whitelist_len f) (f_gn_gw_id_whitelist f)))"
  using gw_id_refused_eq [OF assms] by (simp add: members_of_def)

theorem gateway_ids_refused_witness:
  "gw_id_refused (sample_forwarder\<lparr>f_gn_gw_id_whitelist := [7, 0, 0, 0, 0], f_gn_gw_id_whitelist_len := 1,
      f_gn_gw_id_blacklist := [8, 0, 0, 0, 0], f_gn_gw_id_blacklist_len := 1\<rparr>) 7 = Inr True
   \<and> gw_id_refused (sample_forwarder\<lparr>f_gn_gw_id_whitelist := [7, 0, 0, 0, 0], f_gn_gw_id_whitelist_len := 1,
      f_gn_gw_id_blacklist := [8, 0, 0, 0, 0], f_gn_gw_id_blacklist_len := 1\<rparr>) 8 = Inr False"
proof -
  have "lists_inv (sample_forwarder\<lparr>f_gn_gw_id_whitelist := [7, 0, 0, 0, 0], f_gn_gw_id_whitelist_len := 1,
      f_gn_gw_id_blacklist := [8, 0, 0, 0, 0], f_gn_gw_id_blacklist_len := 1\<rparr>)"
    using sample_inv by (simp add: forwarder_inv_def lists_inv_def list_inv_def ACCESS_LIST_LENGTH_def)
  from gateway_ids_refused [OF this, of 7] gateway_ids_refused [OF this, of 8] show ?thesis
    by simp
qed

text \<open>
  An access list is a set of at most four members: adding to the white list of client addresses
  makes the address a member, keeps the others and adds no more, until four of the five places are
  taken; from then on an addition changes nothing and still reports success.
\<close>

theorem whitelist_add:
  assumes "lists_inv f"
  shows "\<exists>f'. MqttSnForwarderAddClientNetworkWhitelistAddr f a = Inr (0, f') \<and> lists_inv f'
    \<and> (f_cn_addr_whitelist_len f < 4 \<longrightarrow> (\<forall>b. MqttSnForwarderContainsClientNetworkWhitelistAddr f' b
         = (if b = a then Inr 1 else MqttSnForwarderContainsClientNetworkWhitelistAddr f b)))
    \<and> (f_cn_addr_whitelist_len f = 4 \<longrightarrow> f' = f)"
proof -
  have l: "list_inv (f_cn_addr_whitelist f) (f_cn_addr_whitelist_len f)"
    using assms by (simp add: lists_inv_def)
  then have len: "f_cn_addr_whitelist_len f \<le> 4" "length (f_cn_addr_whitelist f) = 5"
    by (simp_all add: list_inv_def ACCESS_LIST_LENGTH_def)
  show ?thesis
  proof (cases "f_cn_addr_whitelist_len f < 4")
    case True
    then obtain items len' where e: "add_entry 0 (f_cn_addr_whitelist f) (f_cn_addr_whitelist_len f) a = Inr (0, items, len')"
      "list_inv items len'" "take len' items = (let xs = take (f_cn_addr_whitelist_len f) (f_cn_addr_whitelist f)
         in if a \<in> set xs then xs else xs @ [a])"
      using add_entry_room [OF l, of 0 a] by (auto simp: ACCESS_LIST_LENGTH_def)
    let ?f = "f\<lparr>f_cn_addr_whitelist := items, f_cn_addr_whitelist_len := len'\<rparr>"
    have "MqttSnForwarderContainsClientNetworkWhitelistAddr ?f b
        = (if b = a then Inr 1 else MqttSnForwarderContainsClientNetworkWhitelistAddr f b)" for b
      using e(2,3) l by (simp add: MqttSnForwarderContainsClientNetworkWhitelistAddr_def Let_def split: if_splits)
    then show ?thesis
      using True e(1,2) assms by (simp add: MqttSnForwarderAddClientNetworkWhitelistAddr_def lists_inv_def)
  next
    case False
    then show ?thesis
      using len assms cn_addr_whitelist.add_full [of f a] l by (simp add: ACCESS_LIST_LENGTH_def)
  qed
qed

theorem whitelist_add_witness:
  "\<exists>f'. MqttSnForwarderAddClientNetworkWhitelistAddr sample_forwarder client_address = Inr (0, f')
    \<and> MqttSnForwarderContainsClientNetworkWhitelistAddr f' client_address = Inr 1"
proof -
  have "lists_inv sample_forwarder" "f_cn_addr_whitelist_len sample_forwarder < 4"
    using sample_inv by (simp_all add: forwarder_inv_def sample_forwarder_def)
  with whitelist_add [of sample_forwarder client_address] show ?thesis
    by auto
qed

text \<open>
  C28. The choice of a gateway: a disconnected forwarder that knows gateways connects to an entry of the
  list such that no entry has a smaller signal strength, and none with the same signal strength has
  been heard of later. The comment at the loop says the opposite of the second part, that of two equally
  strong gateways the one with the smaller \<open>last_message_s\<close> is taken; this is what the code does.
\<close>

theorem best_gateway_chosen:
  assumes "forwarder_inv f" "f_disconnected f" "0 < dl_current_len (f_discovered_gw_list f)"
  shows "\<exists>g \<in> set (entries (f_discovered_gw_list f)).
    MqttSnForwarderHandleGatewayPseudoConnect pf f w
      = Inr (0, f\<lparr>f_mqtt_sn_gateway_address := dg_network_address g, f_disconnected := False\<rparr>, w)
    \<and> (\<forall>h \<in> set (entries (f_discovered_gw_list f)). dg_signal_strength g < dg_signal_strength h
        \<or> dg_signal_strength g = dg_signal_strength h \<and> dg_last_message_s h \<le> dg_last_message_s g)"
proof -
  let ?l = "f_discovered_gw_list f"
  have le: "dl_current_len ?l \<le> length (dl_gateways ?l)"
    using gateway_entry_ok(1) [OF _ assms(3)] assms(1) by (simp add: forwarder_inv_def)
  obtain b where b: "best_gateway_loop (dl_gateways ?l) (dl_current_len ?l) 0 0 = Inr b" "b < dl_current_len ?l"
    "\<forall>j < dl_current_len ?l. preferred (dl_gateways ?l ! b) (dl_gateways ?l ! j)"
    using best_gateway_preferred [OF le assms(3), of 0] by (auto simp: ok_def)
  have e: "set (entries ?l) = (!) (dl_gateways ?l) ` {0..<dl_current_len ?l}"
    using nth_image [OF le] by (simp add: entries_def)
  have "MqttSnForwarderHandleGatewayPseudoConnect pf f w
      = Inr (0, f\<lparr>f_mqtt_sn_gateway_address := dg_network_address (dl_gateways ?l ! b), f_disconnected := False\<rparr>, w)"
    using assms(2,3) b(1,2) le
    by (simp add: MqttSnForwarderHandleGatewayPseudoConnect_def MqttSnForwarderSetConnected_def rd_arr_def)
  then show ?thesis
    using b(2,3) unfolding e preferred_def by (intro bexI [of _ "dl_gateways ?l ! b"]) auto
qed

theorem best_gateway_chosen_witness:
  "\<exists>f'. MqttSnForwarderHandleGatewayPseudoConnect sample_platform (sample_forwarder\<lparr>f_discovered_gw_list :=
      gw_list_of [\<lparr>dg_gw_id = 1, dg_duration = 0, dg_network_address = gateway_address, dg_signal_strength = 3,
        dg_state = MqttSnDiscoveredGatewayStateActive, dg_last_message_s = 2\<rparr>]\<rparr>) ([], []) = Inr (0, f', ([], []))
    \<and> f_mqtt_sn_gateway_address f' = gateway_address \<and> \<not> f_disconnected f'"
proof -
  let ?g = "\<lparr>dg_gw_id = 1, dg_duration = 0, dg_network_address = gateway_address, dg_signal_strength = 3,
    dg_state = MqttSnDiscoveredGatewayStateActive, dg_last_message_s = 2\<rparr>"
  let ?f = "sample_forwarder\<lparr>f_discovered_gw_list := gw_list_of [?g]\<rparr>"
  have "gateways_inv (gw_list_of [?g])"
    by (simp add: gateways_inv_def timed_def address_ok_def gateway_address_def device_address_size_def
        MQTT_SN_FIND_GATEWAY_CLIENT_DISCOVERED_GATEWAY_LIST_LENGTH_def)
  then have "forwarder_inv ?f" "f_disconnected ?f" "0 < dl_current_len (f_discovered_gw_list ?f)"
    using sample_inv by (simp_all add: forwarder_inv_defs sample_forwarder_def)
  from best_gateway_chosen [OF this, of sample_platform "([], [])"] show ?thesis
    by auto
qed

text \<open>
  C29. The list of gateways refines an abstract one: on the array that holds the entries \<open>es\<close>,
  \<open>MqttSnDiscoveredGatewayListUpdate\<close> computes the array of \<open>discover\<close>: entries whose time has run out
  are dropped, the first with the same id is refreshed, and otherwise a new one is added if there is
  room. The loops over slots, states and lengths access nothing outside the array.
\<close>

theorem discovery_refined:
  assumes "from = None \<longrightarrow> advertise = None \<and> gw_info = None" "timed es"
    and "length es \<le> MQTT_SN_FIND_GATEWAY_CLIENT_DISCOVERED_GATEWAY_LIST_LENGTH"
  shows "MqttSnDiscoveredGatewayListUpdate (gw_list_of es) from sig advertise gw_info t
    = Inr (gw_list_of (discover (the from) sig advertise gw_info t es))"
  using assms by (rule update_refines_discover)

theorem discovery_refined_witness:
  "MqttSnDiscoveredGatewayListUpdate (gw_list_of []) (Some [1, 2, 3, 4, 5, 6]) 9
      (Some \<lparr>adv_gwId = 7, adv_duration = 60\<rparr>) None 100
   = Inr (gw_list_of [\<lparr>dg_gw_id = 7, dg_duration = 60, dg_network_address = [1, 2, 3, 4, 5, 6],
       dg_signal_strength = 9, dg_state = MqttSnDiscoveredGatewayStateActive, dg_last_message_s = 100\<rparr>])"
  using discovery_refined [of "Some [1, 2, 3, 4, 5, 6]" "Some \<lparr>adv_gwId = 7, adv_duration = 60\<rparr>" None "[]" 9 100]
  by (simp add: timed_def discover_def new_entry_def MQTT_SN_FIND_GATEWAY_CLIENT_DISCOVERED_GATEWAY_LIST_LENGTH_def)



text \<open>
  The gateway with id 0: looking a gateway up by the id 0 reports that it is not listed whatever
  the list holds, also right after its advertisement was entered.
\<close>

theorem gateway_zero_not_found:
  shows "MqttSnDiscoveredGatewayListExists (gw_list_of es) address 0 = Inr False"
  by (rule exists_zero_eq)

theorem gateway_zero_not_found_witness:
  "MqttSnDiscoveredGatewayListExists (gw_list_of [\<lparr>dg_gw_id = 0, dg_duration = 60,
      dg_network_address = gateway_address, dg_signal_strength = 1,
      dg_state = MqttSnDiscoveredGatewayStateActive, dg_last_message_s = 5\<rparr>]) (Some gateway_address) 0 = Inr False"
  by (rule gateway_zero_not_found)

section \<open>Encapsulation\<close>

text \<open>
  C31. Encapsulation round trip: whenever the writer accepts a message, the frame takes nine bytes
  more than the message, fits into the destination, and the reader of a frame returns the same radius,
  the same wireless node id and the same message, for every message that fits into a message object.
\<close>

theorem encapsulation_roundtrip:
  assumes "length node = device_address_size" "k \<le> length msg" "k \<le> MQTT_SN_MAXIMUM_MESSAGE_DATA_LENGTH"
    and "dst_len \<le> length dst"
    and "generate_forwarder_encapsulation_byte dst dst_len radius node msg k = Inr (dst', n)"
  shows "n = 9 + k \<and> n \<le> dst_len \<and> drop n dst' = drop n dst
    \<and> read_frame dst' n = Inr (radius, node, take k msg)"
proof -
  define m where "m = \<lparr>em_radius = radius, em_wireless_node_id = node, em_mqtt_sn_message = msg,
    em_mqtt_sn_message_len = k\<rparr>"
  have m: "frame_wf m" "frame_readable m" "frame_view m = (radius, node, take k msg)"
    using assms by (simp_all add: m_def frame_wf_def frame_readable_def frame_view_def)
  have g: "frame_valid m" "n = 9 + k" "9 + k \<le> dst_len" "dst' = frame_wire m @ drop (length (frame_wire m)) dst"
    using assms(5) generate_forwarder_encapsulation_eq [OF m(1) assms(4)]
    by (auto simp: m_def patched_def split: if_splits)
  then show ?thesis
    using read_frame_wire [OF m(1) g(1) m(2)] m(3) length_frame_wire [OF m(1)]
    by (simp add: m_def)
qed

theorem encapsulation_roundtrip_witness:
  "\<exists>dst' n. generate_forwarder_encapsulation_byte (replicate 12 0) 12 0 [1, 2, 3, 4, 5, 6] [2, 0x16] 2
      = Inr (dst', n) \<and> n = 11 \<and> read_frame dst' n = Inr (0, [1, 2, 3, 4, 5, 6], [2, 0x16])"
proof -
  have e: "generate_forwarder_encapsulation_byte (replicate 12 0) 12 0 [1, 2, 3, 4, 5, 6] [2, 0x16] 2
      = Inr ([9, 0xFE, 0, 1, 2, 3, 4, 5, 6, 2, 0x16, 0], 11)"
    by code_simp
  show ?thesis
    using encapsulation_roundtrip [OF _ _ _ _ e] e
    by (simp add: device_address_size_def MQTT_SN_MAXIMUM_MESSAGE_DATA_LENGTH_def)
qed

text \<open>
  C32. Round trip of a chain of encapsulation headers: reading what the writer has put around a
  message that is not itself encapsulated returns the radiuses and the addresses in the order they
  were given (the first address replaced by that of the forwarder the message came from), the count
  of headers, the wireless node id and the offset of the message.
\<close>

theorem encapsulation_chain_roundtrip:
  assumes "0 < n" "n < 8000" "length radiuses = n" "length addresses = n" "length node = 6"
    and "\<forall>j < n. radiuses ! j \<le> 1 \<and> length (addresses ! j) = 6"
    and "k \<le> length msg" "9 * n + k \<le> dst_len" "dst_len \<le> length dst" "9 * n + k \<le> 65533"
    and "length rs = n" "length as = n"
    and "\<And>eh rest. parse_forwarder_encapsulation_message_header eh (take k msg @ rest) k = Inl Fail"
  shows "\<exists>dst'. generate_multiple_forwarder_encapsulation_headers_byte dst dst_len radiuses addresses n
        node msg k = Inr (dst', 9 * n + k)
    \<and> parse_multiple_forwarder_encapsulation_headers_byte rs as n first dst' (9 * n + k)
      = Inr (radiuses, addresses[0 := first], n, node, 9 * n)"
proof -
  let ?zs = "zip radiuses (addresses[0 := node])"
  have zs: "length ?zs = n" "map fst ?zs = radiuses" "map snd ?zs = addresses[0 := node]"
    using assms(3,4) by simp_all
  have "length (addresses[0 := node] ! i) = 6" if "i < n" for i
    using assms(4-6) that by (cases "i = 0") auto
  then have wf: "chain_wf (rev ?zs)"
    using assms(3,4,6) by (auto simp: chain_wf_def set_zip)
  have last: "snd (last (rev ?zs)) = node"
    using assms(1,3,4) by (cases radiuses; cases addresses) (auto simp: last_rev)
  have ne: "rev ?zs \<noteq> []"
    using zs(1) assms(1) by (metis list.size(3) length_rev less_nat_zero_code)
  define rest where "rest = drop (length (chain_wire (rev ?zs) @ take k msg)) dst"
  have split: "patched dst (chain_wire (rev ?zs) @ take k msg) = chain_wire (rev ?zs) @ take k msg @ rest"
    by (simp add: patched_def rest_def)
  have parse: "parse_multiple_forwarder_encapsulation_headers_byte rs as n first
      (chain_wire (rev ?zs) @ take k msg @ rest) (9 * n + k)
    = Inr (rev (map fst (rev ?zs)) @ drop n rs, (rev (map snd (rev ?zs)) @ drop n as)[0 := first], n,
        snd (last (rev ?zs)), 9 * n)"
    using parse_multiple_chain [OF wf ne, of n rs as "chain_wire (rev ?zs) @ take k msg @ rest"
        "take k msg @ rest" "9 * n + k" k first] assms zs(1)
    by simp
  then show ?thesis
    using generate_multiple_eq [OF assms(1,3,4,5,6,7,8,9,10)] assms(1,4,11,12) zs last
    by (simp add: split rev_map)
qed

lemma empty_chain_message: "parse_forwarder_encapsulation_message_header eh (take 0 msg @ rest) 0 = Inl Fail"
  by (simp add: codec_defs parse_header_ok_def parse_header_def)

theorem encapsulation_chain_roundtrip_witness:
  "\<exists>dst'. generate_multiple_forwarder_encapsulation_headers_byte (replicate 20 0) 20 [0, 1]
        [[9, 9, 9, 9, 9, 9], [7, 7, 7, 7, 7, 7]] 2 [1, 2, 3, 4, 5, 6] [] 0 = Inr (dst', 18)
    \<and> parse_multiple_forwarder_encapsulation_headers_byte [5, 5] [[], []] 2 [8, 8, 8, 8, 8, 8] dst' 18
      = Inr ([0, 1], [[8, 8, 8, 8, 8, 8], [7, 7, 7, 7, 7, 7]], 2, [1, 2, 3, 4, 5, 6], 18)"
  using encapsulation_chain_roundtrip [of 2 "[0, 1]" "[[9, 9, 9, 9, 9, 9], [7, 7, 7, 7, 7, 7]]"
      "[1, 2, 3, 4, 5, 6]" 0 "[]" 20 "replicate 20 0" "[5, 5]" "[[], []]" "[8, 8, 8, 8, 8, 8]",
      OF _ _ _ _ _ _ _ _ _ _ _ _ empty_chain_message]
  by (simp add: less_2_cases_iff)

section \<open>Messages\<close>

text \<open>
  Bounds of the header reader: given a length within the object, \<open>parse_header\<close> stays inside the
  object for every content but one. The message 1, 0, 3 with a length of three passes the length
  checks, and the message type is then read behind its end.
\<close>

theorem parse_header_overread:
  assumes "n \<le> length data"
  shows "parse_header h mt data n pb = Inl Fault \<longleftrightarrow> n = 3 \<and> data = [1, 0, 3]"
  using assms by (rule parse_header_fault_iff)

theorem parse_header_overread_witness:
  "parse_header empty_header ANY_MESSAGE_TYPE [1, 0, 3] 3 0 = Inl Fault
   \<and> parse_header empty_header ANY_MESSAGE_TYPE [1, 0, 4, 4] 4 0 \<noteq> Inl Fault"
  using parse_header_overread [of 3 "[1, 0, 3]" empty_header ANY_MESSAGE_TYPE 0]
    parse_header_overread [of 4 "[1, 0, 4, 4]" empty_header ANY_MESSAGE_TYPE 0]
  by simp

text \<open>
  C33. When a reader leaves its message: given any bytes and a length within them, the readers of the
  fixed-layout messages, of PUBLISH and of frames, with outputs of the sizes of the C structs, access memory
  outside the object exactly if it is the three bytes 1, 0, 3, whose header is cut off (\<open>cut_off\<close>). The
  two readers of the responses to the updates of a will do so, in addition, exactly for the responses of three bytes
  that end with the object, for they look for the return code behind the message (\<open>bare_response\<close>).
\<close>

theorem readers_in_bounds:
  assumes "n \<le> length data" "length (gwi_gwAdd g) = device_address_size"
    and "length (em_wireless_node_id e) = device_address_size"
    and "length (em_mqtt_sn_message e) = MQTT_SN_MAXIMUM_MESSAGE_DATA_LENGTH"
  shows "(parse_advertise data n = Inl Fault \<longleftrightarrow> cut_off data n)
    \<and> (parse_searchgw data n = Inl Fault \<longleftrightarrow> cut_off data n)
    \<and> (parse_gwinfo g data n = Inl Fault \<longleftrightarrow> cut_off data n)
    \<and> (parse_connack data n = Inl Fault \<longleftrightarrow> cut_off data n)
    \<and> (parse_ping_req_byte data n = Inl Fault \<longleftrightarrow> cut_off data n)
    \<and> (parse_ping_resp_byte data n = Inl Fault \<longleftrightarrow> cut_off data n)
    \<and> (parse_disconnect_bytes data n = Inl Fault \<longleftrightarrow> cut_off data n)
    \<and> (parse_disconnect_duration data n = Inl Fault \<longleftrightarrow> cut_off data n)
    \<and> (parse_will_topic_req_byte data n = Inl Fault \<longleftrightarrow> cut_off data n)
    \<and> (parse_will_msg_req_byte data n = Inl Fault \<longleftrightarrow> cut_off data n)
    \<and> (parse_puback data n = Inl Fault \<longleftrightarrow> cut_off data n)
    \<and> (parse_regack data n = Inl Fault \<longleftrightarrow> cut_off data n)
    \<and> (parse_pubrec_bytes data n = Inl Fault \<longleftrightarrow> cut_off data n)
    \<and> (parse_pubrel_bytes data n = Inl Fault \<longleftrightarrow> cut_off data n)
    \<and> (parse_pubcomp_bytes data n = Inl Fault \<longleftrightarrow> cut_off data n)
    \<and> (parse_suback data n = Inl Fault \<longleftrightarrow> cut_off data n)
    \<and> (parse_unsuback_byte data n = Inl Fault \<longleftrightarrow> cut_off data n)
    \<and> (parse_publish data n = Inl Fault \<longleftrightarrow> cut_off data n)
    \<and> (parse_forwarder_encapsulation e data n = Inl Fault \<longleftrightarrow> cut_off data n)
    \<and> (parse_will_topic_resp_byte data n = Inl Fault \<longleftrightarrow> cut_off data n \<or> bare_response WILLTOPICRESP data n)
    \<and> (parse_will_msg_resp_byte data n = Inl Fault \<longleftrightarrow> cut_off data n \<or> bare_response WILLMSGRESP data n)"
  using reader_faults [OF assms(1)] will_response_faults [OF assms(1)] assms(2-4) by simp

theorem readers_in_bounds_witness:
  "parse_puback [7, 0x0D, 0] 3 \<noteq> Inl Fault \<and> parse_puback [1, 0, 3] 3 = Inl Fault
    \<and> parse_will_topic_resp_byte [3, 0x1B, 0] 3 = Inl Fault"
  using readers_in_bounds [of 3 "[7, 0x0D, 0]"
      "\<lparr>gwi_gwId = 0, gwi_gwAdd = replicate device_address_size 0, gwi_gwAddLen = 0\<rparr>"
      "\<lparr>em_radius = 0, em_wireless_node_id = replicate device_address_size 0,
        em_mqtt_sn_message = message_buffer, em_mqtt_sn_message_len = 0\<rparr>"]
    readers_in_bounds [of 3 "[1, 0, 3]"
      "\<lparr>gwi_gwId = 0, gwi_gwAdd = replicate device_address_size 0, gwi_gwAddLen = 0\<rparr>"
      "\<lparr>em_radius = 0, em_wireless_node_id = replicate device_address_size 0,
        em_mqtt_sn_message = message_buffer, em_mqtt_sn_message_len = 0\<rparr>"]
    readers_in_bounds [of 3 "[3, 0x1B, 0]"
      "\<lparr>gwi_gwId = 0, gwi_gwAdd = replicate device_address_size 0, gwi_gwAddLen = 0\<rparr>"
      "\<lparr>em_radius = 0, em_wireless_node_id = replicate device_address_size 0,
        em_mqtt_sn_message = message_buffer, em_mqtt_sn_message_len = 0\<rparr>"]
  by (simp add: length_message_buffer cut_off_def bare_response_def type_byte_def)

text \<open>
  C34. An exact reader: \<open>parse_puback\<close> accepts the first \<open>n\<close> bytes of an object as the acknowledgement
  \<open>m\<close> if and only if they are the seven bytes \<open>generate_puback\<close> writes for \<open>m\<close>; no other length, type,
  return code or layout is accepted.
\<close>

theorem puback_exact:
  assumes "n \<le> length data" "n < 65536"
  shows "(\<exists>rc. parse_puback data n = Inr (m, rc)) \<longleftrightarrow>
    n = 7 \<and> generate_puback (replicate 7 0) 7 (pa_topicId m) (pa_msgId m) (pa_returnCode m) = Inr (take 7 data, 7)"
proof -
  have g: "generate_puback (replicate 7 0) 7 (pa_topicId m) (pa_msgId m) (pa_returnCode m)
      = (if wire_return_code (pa_returnCode m) then Inr (puback_wire m, 7) else Inl Fail)"
    by (simp add: generate_puback_eq patched_def)
  have "(\<exists>rc. parse_puback data n = Inr (m, rc)) \<longleftrightarrow> wire_return_code (pa_returnCode m) \<and> take n data = puback_wire m"
    using puback.parse_iff [OF assms, of m] by (simp add: map_sum_fst_eq_Inr)
  moreover have "take n data = puback_wire m \<longleftrightarrow> n = 7 \<and> take 7 data = puback_wire m"
    using length_puback_wire [of m] assms(1) by (metis length_take min.absorb2)
  ultimately show ?thesis
    unfolding g by auto
qed

theorem puback_exact_witness:
  "(\<exists>rc. parse_puback [7, 0x0D, 0, 1, 0, 2, 0, 99] 7 = Inr (\<lparr>pa_topicId = 1, pa_msgId = 2, pa_returnCode = RETURN_CODE_ACCEPTED\<rparr>, rc))
   \<and> \<not> (\<exists>rc. parse_puback [7, 0x0D, 0, 1, 0, 2, 9] 7 = Inr (\<lparr>pa_topicId = 1, pa_msgId = 2, pa_returnCode = RETURN_CODE_ACCEPTED\<rparr>, rc))"
proof -
  have "generate_puback (replicate 7 0) 7 1 2 RETURN_CODE_ACCEPTED = Inr ([7, 0x0D, 0, 1, 0, 2, 0], 7)"
    by code_simp
  then show ?thesis
    using puback_exact [of 7 "[7, 0x0D, 0, 1, 0, 2, 0, 99]" "\<lparr>pa_topicId = 1, pa_msgId = 2, pa_returnCode = RETURN_CODE_ACCEPTED\<rparr>"]
      puback_exact [of 7 "[7, 0x0D, 0, 1, 0, 2, 9]" "\<lparr>pa_topicId = 1, pa_msgId = 2, pa_returnCode = RETURN_CODE_ACCEPTED\<rparr>"]
    by simp
qed

text \<open>
  C35. CONNECT round trip: what \<open>generate_connect\<close> writes into memory whose flag byte is clear,
  \<open>parse_connect\<close> reads back: the will and clean session flags as truth values, the protocol id, the
  duration, and the client id up to its first zero byte, for ids of 2 to 23 bytes.
\<close>

theorem connect_roundtrip:
  fixes m :: ParsedMqttSnConnect
  assumes "2 \<le> con_client_id_length m" "con_client_id_length m < 24"
    and "con_client_id_length m < length (con_client_id m)" "dst_len \<le> length dst" "2 < length dst \<longrightarrow> dst ! 2 = 0"
    and "generate_connect dst dst_len (con_will m) (con_clean_session m) (con_protocol_id m)
      (con_duration m) (con_client_id m) (con_client_id_length m) = Inr (dst', n)"
  shows "n = 6 + con_client_id_length m \<and> (\<exists>c. parse_connect empty_connect dst' n = Inr (c, n)
    \<and> (con_will c \<noteq> 0 \<longleftrightarrow> con_will m \<noteq> 0) \<and> (con_clean_session c \<noteq> 0 \<longleftrightarrow> con_clean_session m \<noteq> 0)
    \<and> con_protocol_id c = con_protocol_id m \<and> con_duration c = con_duration m
    \<and> con_client_id_length c = con_client_id_length m
    \<and> c_string (con_client_id c) = c_string (take (con_client_id_length m) (con_client_id m)))"
proof -
  have m: "connect_wf m" "connect_valid m" "connect_readable m" "cleared_at 2 dst"
    using assms(1-3,5) by (simp_all add: connect_wf_def connect_valid_def connect_readable_def cleared_at_def)
  have n: "n = 6 + con_client_id_length m" "dst' = connect_wire m @ drop (length (connect_wire m)) dst"
    using generate_connect_eq [OF m(1) assms(4) m(4)] assms(6) by (auto simp: patched_def split: if_splits)
  show ?thesis
    using parse_connect_wire [OF m(1-3)] n by (simp add: bool_bit_def)
qed

theorem connect_roundtrip_witness:
  "\<exists>dst' c. generate_connect (replicate 20 0) 20 0 1 1 60 [65, 66, 67, 0] 3 = Inr (dst', 9)
    \<and> parse_connect empty_connect dst' 9 = Inr (c, 9) \<and> con_duration c = 60 \<and> c_string (con_client_id c) = [65, 66, 67]"
proof -
  define m where "m = \<lparr>con_will = 0, con_clean_session = 1, con_protocol_id = 1, con_duration = 60,
    con_client_id = [65, 66, 67, 0 :: u8], con_client_id_length = 3\<rparr>"
  have "connect_wf m" "connect_valid m" "cleared_at 2 (replicate 20 0)"
    by (simp_all add: m_def connect_wf_def connect_valid_def cleared_at_def)
  then obtain dst' where e: "generate_connect (replicate 20 0) 20 0 1 1 60 [65, 66, 67, 0] 3 = Inr (dst', 9)"
    using generate_connect_eq [of m 20 "replicate 20 0"] by (auto simp: m_def)
  then show ?thesis
    using connect_roundtrip [of m 20 "replicate 20 0" dst' 9] by (auto simp: m_def c_string_def)
qed



text \<open>
  REGISTER round trip, for long names only: \<open>generate_register\<close> puts a length into the header that
  is one short for topic names of up to 248 bytes, and \<open>parse_register_byte\<close> rejects every such
  message; a longer name is read back, up to its first zero byte, with its topic and message id.
\<close>

theorem register_roundtrip:
  assumes "register_wf m" "dst_len \<le> length dst" "reg_topic_name_len m < length buf"
    and "generate_register dst dst_len (reg_topic_id m) (reg_msg_id m) (reg_topic_name m) (reg_topic_name_len m)
      = Inr (dst', n)"
  shows "parse_register_byte buf (length buf) dst' n =
    (if reg_topic_name_len m \<le> 248 then Inl Fail
     else Inr (reg_topic_id m, reg_msg_id m,
       patched buf (c_string (take (reg_topic_name_len m) (reg_topic_name m)) @ [0]), reg_topic_name_len m))"
proof -
  have g: "n = length (register_wire m)" "dst' = register_wire m @ drop (length (register_wire m)) dst"
    using generate_register_eq [OF assms(1,2)] assms(4) by (auto simp: patched_def split: if_splits)
  show ?thesis
    using parse_register_short [OF assms(1)] parse_register_wire [OF assms(1) _ assms(3)]
    by (simp add: g length_register_wire [OF assms(1)] register_readable_def)
qed

theorem register_roundtrip_witness:
  "\<exists>dst' n. generate_register (replicate 12 0) 12 5 7 [65, 66] 2 = Inr (dst', n)
    \<and> parse_register_byte (replicate 3 0) 3 dst' n = Inl Fail"
proof -
  have w: "register_wf \<lparr>reg_topic_id = 5, reg_msg_id = 7, reg_topic_name = [65, 66], reg_topic_name_len = 2\<rparr>"
    by (simp add: register_wf_def)
  obtain dst' n where g: "generate_register (replicate 12 0) 12 5 7 [65, 66] 2 = Inr (dst', n)"
    using generate_register_eq [OF w, of 12 "replicate 12 0"] by auto
  show ?thesis
    using register_roundtrip [OF w, of 12 "replicate 12 0" "replicate 3 0"] g by auto
qed

text \<open>
  Subscribing by topic id does not work: a SUBSCRIBE for a predefined or short topic id that
  \<open>generate_subscribe\<close> writes is rejected by \<open>parse_subscribe_byte\<close>, whatever its fields are and
  whatever follows it in memory.
\<close>

theorem subscribe_by_id_rejected:
  assumes "tid = 1 \<or> tid = 2" "dst_len \<le> length dst"
    and "generate_subscribe dst dst_len dup qos tid msg_id topic_id name k = Inr (dst', n)"
  shows "n = 7 \<and> parse_subscribe_byte buf cap dst' n = Inl Fail"
  using generate_subscribe_id_eq [OF assms(1,2)] assms(3) parse_subscribe_rejects_id
  by (auto simp: patched_def split: if_splits)

theorem subscribe_by_id_rejected_witness:
  "\<exists>dst' n. generate_subscribe (replicate 10 0) 10 0 1 1 5 7 None 0 = Inr (dst', n)
    \<and> parse_subscribe_byte [] 0 dst' n = Inl Fail"
proof -
  obtain dst' n where g: "generate_subscribe (replicate 10 0) 10 0 1 1 5 7 None 0 = Inr (dst', n)"
    using generate_subscribe_id_eq [of 1 10 "replicate 10 0" 0 1 5 7 None 0] by (auto simp: wire_flags_def)
  show ?thesis
    using subscribe_by_id_rejected [OF _ _ g] g by auto
qed

text \<open>
  The return code of WILLTOPICRESP is read behind the message: whenever \<open>parse_will_topic_resp_byte\<close>
  accepts, the message has its three bytes, and the code it returns is that of the byte after them; in
  an object of exactly three bytes there is none.
\<close>

theorem will_response_reads_behind:
  assumes "parse_will_topic_resp_byte data n = Inr (r, rc)"
  shows "n = 3 \<and> 3 < length data \<and> data ! 3 = return_code_byte r"
  using assms by (rule parse_will_topic_resp_reads_behind)

theorem will_response_reads_behind_witness:
  "\<exists>rc. parse_will_topic_resp_byte [3, 0x1B, 0, 2] 3 = Inr (RETURN_CODE_REJECTED_INVALID_TOPIC_ID, rc)
    \<and> [3, 0x1B, 0, 2] ! 3 = return_code_byte RETURN_CODE_REJECTED_INVALID_TOPIC_ID"
proof -
  have p: "parse_will_topic_resp_byte [3, 0x1B, 0, 2] 3 = Inr (RETURN_CODE_REJECTED_INVALID_TOPIC_ID, 1)"
    by code_simp
  show ?thesis
    using will_response_reads_behind [OF p] p by auto
qed

text \<open>
  The sleep duration of DISCONNECT is lost: of a message that \<open>generate_disconnect_duration\<close> writes,
  \<open>parse_disconnect_duration\<close> returns the length and the type byte, 0x0418, whatever the duration was.
\<close>

theorem disconnect_duration_lost:
  assumes "dst_len \<le> length dst" "generate_disconnect_duration dst dst_len d = Inr (dst', n)"
    and "parse_disconnect_duration dst' n = Inr (w, rc)"
  shows "w = 0x0418"
proof -
  have "dst' = patched dst (disconnect_wire (Some d))"
    using write_disconnect_eq [OF assms(1), of "Some d"] assms(2) by (auto simp: write_disconnect_def split: if_splits)
  then have "dst' ! 0 = 4" "dst' ! 1 = 0x18"
    by (simp_all add: disconnect_wire_def header_wire_def patched_def type_byte_def)
  then show ?thesis
    using parse_disconnect_duration_eq [OF assms(3)] by (simp add: be16_def)
qed

theorem disconnect_duration_lost_witness:
  "\<exists>dst' n rc. generate_disconnect_duration (replicate 4 0) 4 60 = Inr (dst', n)
    \<and> parse_disconnect_duration dst' n = Inr (0x0418, rc)"
proof -
  have g: "generate_disconnect_duration (replicate 4 0) 4 60 = Inr ([4, 0x18, 0, 60], 4)"
    by code_simp
  have p: "parse_disconnect_duration [4, 0x18, 0, 60] 4 = Inr (0x0418, 2)"
    by code_simp
  show ?thesis
    using disconnect_duration_lost [OF _ g p] g p by auto
qed

text \<open>
  The old writer of encapsulation messages always fails: given arrays of the lengths it is told,
  \<open>generate_encapsulation_message\<close> returns -1 for every address, message and destination.
\<close>

theorem old_encapsulation_fails:
  assumes "dst_len \<le> length dst" "data_len \<le> length data" "device_address_size \<le> length address"
  shows "generate_encapsulation_message dst dst_len broadcast address data data_len = Inl Fail"
  using assms by (rule generate_encapsulation_message_never)

theorem old_encapsulation_fails_witness:
  "generate_encapsulation_message (replicate 100 0) 100 0 [1, 2, 3, 4, 5, 6] [2, 0x16] 2 = Inl Fail"
  using old_encapsulation_fails [of 100 "replicate 100 0" 2 "[2, 0x16]" "[1, 2, 3, 4, 5, 6]" 0]
  by (simp add: device_address_size_def)

section \<open>The message queue\<close>

text \<open>
  C37. The ring buffer refines a bounded queue: under the invariant of its counters, \<open>put\<close> appends to
  the contents or reports a full queue without a change, \<open>pop\<close> removes the oldest message or reports an
  empty queue without a change, neither accesses an item outside the array, and both keep the
  invariant.
\<close>

theorem ring_refines_queue:
  assumes "ring_inv q"
  shows "(\<exists>q'. put q m = (if length (contents q) = rb_maxlen q then Inr (-1, q) else Inr (0, q'))
      \<and> (length (contents q) < rb_maxlen q \<longrightarrow> ring_inv q' \<and> contents q' = contents q @ [m]))
    \<and> (\<exists>q' x. pop q m = (if contents q = [] then Inr (-1, q, m) else Inr (0, q', x))
      \<and> (contents q \<noteq> [] \<longrightarrow> ring_inv q' \<and> contents q = x # contents q'))"
    (is "?put \<and> ?pop")
proof -
  have "?put"
    using ring.enq_room [OF assms, of m] ring.enq_full [OF assms, of m] ring.bounded [OF assms]
    by (cases "length (contents q) = rb_maxlen q") auto
  moreover have "?pop"
    using ring.deq_some [OF assms, of m] ring.deq_none [OF assms, of m]
    by (cases "contents q = []") auto
  ultimately show ?thesis ..
qed

theorem ring_refines_queue_witness:
  "\<exists>q'. put MqttSnFixedSizeRingBufferInit zero_message = Inr (0, q') \<and> contents q' = [zero_message]"
  using ring_refines_queue [OF ring_inv_init, of zero_message]
  by (auto split: if_splits)

section \<open>The network interfaces\<close>

text \<open>
  C38. In-order delivery: if the driver of the gateway network takes every message whole, \<open>k\<close> calls of
  \<open>GatewayNetworkSend\<close> hand the \<open>k\<close> oldest messages of the queue to the driver, in the order of the
  queue, and leave the rest in it.
\<close>

theorem gateway_sends_in_order:
  assumes "gateway_can_send n" "gateway_net.accepts_all n" "ring_inv q" "k \<le> length (contents q)"
  shows "\<exists>q'. gateway_net.sends k n q t w
      = Inr (n, q', fold (\<lambda>m w. snd (gateway_reply n m t w)) (take k (contents q)) w)
    \<and> ring_inv q' \<and> contents q' = drop k (contents q)"
  using assms by (rule gateway_net.sends_in_order)

definition recording_gateway :: "u8 list list MqttSnGatewayNetworkInterface" where
  "recording_gateway =
     \<lparr>gn_status = MQTT_SN_GATEWAY_NETWORK_INTERFACE_STATUS_CONNECTED, gn_max_data_length = 1024,
      gn_network_address = None, gn_broadcast_address = None, gn_initialize = True,
      gn_deinitialize = None, gn_connect = None, gn_disconnect = None,
      gn_send = Some (\<lambda>from to data len signal t w. (int len, w @ [take len data])),
      gn_receive = None\<rparr>"

theorem gateway_sends_in_order_witness:
  "\<exists>q q'. put MqttSnFixedSizeRingBufferInit zero_message = Inr (0, q)
    \<and> gateway_net.sends 1 recording_gateway q 0 [] = Inr (recording_gateway, q', [[]])
    \<and> contents q' = []"
proof -
  obtain q where q: "put MqttSnFixedSizeRingBufferInit zero_message = Inr (0, q)" "ring_inv q"
    "contents q = [zero_message]"
    using put_first [of zero_message] by blast
  have "gateway_can_send recording_gateway" "gateway_net.accepts_all recording_gateway"
    by (simp_all add: gateway_can_send_def recording_gateway_def gateway_net.accepts_all_def
        gateway_reply_def)
  from gateway_sends_in_order [OF this q(2), of 1 0 "[]"] q show ?thesis
    by (auto simp: gateway_reply_def recording_gateway_def zero_message_def)
qed

text \<open>
  C39. Sends neither fault nor invent: whatever the drivers of the two networks answer (a whole message, a part,
  nothing, a failure), \<open>k\<close> calls of \<open>ClientNetworkSend\<close> and \<open>k\<close> calls of \<open>GatewayNetworkSend\<close> return, the queue
  stays well-formed, and it holds no message, and no copy of one, that was not in it before.
\<close>

theorem sends_invent_nothing:
  assumes "ring_inv q"
  shows "(\<exists>n' q' w'. client_net.sends k n q t w = Inr (n', q', w') \<and> ring_inv q'
      \<and> mset (contents q') \<subseteq># mset (contents q))
    \<and> (\<exists>g' q' w'. gateway_net.sends k g q t v = Inr (g', q', w') \<and> ring_inv q'
      \<and> mset (contents q') \<subseteq># mset (contents q))"
  by (intro conjI client_net.sends_conserve gateway_net.sends_conserve assms)

theorem sends_invent_nothing_witness:
  "\<exists>q n' q' w' g' p' v'. put MqttSnFixedSizeRingBufferInit zero_message = Inr (0, q)
    \<and> client_net.sends 5 sample_client_network q 0 ([], []) = Inr (n', q', w')
    \<and> mset (contents q') \<subseteq># {#zero_message#}
    \<and> gateway_net.sends 5 sample_gateway_network q 0 ([], []) = Inr (g', p', v')
    \<and> mset (contents p') \<subseteq># {#zero_message#}"
proof -
  obtain q where q: "put MqttSnFixedSizeRingBufferInit zero_message = Inr (0, q)" "ring_inv q"
    "contents q = [zero_message]"
    using put_first [of zero_message] by blast
  from sends_invent_nothing [OF q(2), of 5 sample_client_network 0 "([], [])" sample_gateway_network "([], [])"] q(1,3) show ?thesis
    by auto
qed



text \<open>
  A failed receive leaves a message behind: when the driver reports -1, \<open>GatewayNetworkReceive\<close>
  disconnects the network and returns -1, but first it puts a message into the queue whose length is
  the -1 of the driver, 65535, in sixteen bits: more than the 1024 bytes of its data.
\<close>

theorem failed_receive_enqueues:
  assumes "gateway_can_receive n" "ring_inv q" "\<not> isFull q"
    and "gateway_arrival n t w = (-1, rx, w1)" "clk w1 = ((0, s, ms), w2)"
  shows "\<exists>n' q' m. GatewayNetworkReceive clk n q t w = Inr (-1, n', q', w2) \<and> contents q' = contents q @ [m]
    \<and> md_data_length m = 65535 \<and> MQTT_SN_MAXIMUM_MESSAGE_DATA_LENGTH < md_data_length m \<and> \<not> gateway_can_receive n'"
proof -
  have "md_data_length (received_message rx (-1) s ms) = 65535"
    by (simp add: received_message_def split: prod.split)
  then show ?thesis
    using gateway_receive_step [where clk = clk, OF assms]
    by (auto simp: MQTT_SN_MAXIMUM_MESSAGE_DATA_LENGTH_def)
qed

theorem failed_receive_enqueues_witness:
  "\<exists>n' q' m. GatewayNetworkReceive (\<lambda>w. ((0, 5, 0), w))
      (recording_gateway\<lparr>gn_receive := Some (\<lambda>rx k t w. (-1, rx, w))\<rparr>) MqttSnFixedSizeRingBufferInit 0 []
      = Inr (-1, n', q', []) \<and> contents q' = [m] \<and> md_data_length m = 65535"
  using failed_receive_enqueues [of "recording_gateway\<lparr>gn_receive := Some (\<lambda>rx k t w. (-1, rx, w))\<rparr>"
      MqttSnFixedSizeRingBufferInit 0 "[]" empty_rx "[]" "\<lambda>w. ((0, 5, 0), w)" 5 0 "[]"]
  by (auto simp: gateway_can_receive_def gateway_arrival_def recording_gateway_def)

end
